(* ===== verification/Prelude.thy ===== *)
theory Prelude
  imports Main "HOL-Library.Word"
begin

text \<open>
  What the components of the development share: the narrowing conversions of C, memory read
  and written through a pointer, the AUTOSAR result types of \<^verbatim>\<open>Std_Types.h\<close> and
  \<^verbatim>\<open>ComStack_Types.h\<close>, and two interfaces: a transition system with an invariant
  (every component with state is one) and a bounded first-in-first-out queue.

  Unsigned C variables are natural numbers. An expression is evaluated over the integers, as C
  promotes its operands, and narrowed by \<open>u8\<close>, \<open>u16\<close>, \<open>u32\<close> or \<open>ubits\<close> where the code
  stores or casts it, so that every wrap-around of the code is a wrap-around of the model.
\<close>

unbundle bit_operations_syntax

named_theorems c_arith \<open>narrowing conversions on arguments in range\<close>

subsection \<open>Narrowing conversions\<close>

definition ubits :: "nat \<Rightarrow> int \<Rightarrow> nat" where
  "ubits w x = nat (x mod 2 ^ w)"

definition u8 :: "int \<Rightarrow> nat" where
  "u8 x = nat (x mod 256)"

definition u16 :: "int \<Rightarrow> nat" where
  "u16 x = nat (x mod 65536)"

definition u32 :: "int \<Rightarrow> nat" where
  "u32 x = nat (x mod 4294967296)"

lemma u8_less [simp]: "u8 x < 256"
  by (simp add: u8_def nat_less_iff)

lemma u16_less [simp]: "u16 x < 65536"
  by (simp add: u16_def nat_less_iff)

lemma u32_less [simp]: "u32 x < 4294967296"
  by (simp add: u32_def nat_less_iff)

lemma ubits_less [simp]: "ubits w x < 2 ^ w"
  by (simp add: ubits_def nat_less_iff)

lemma u8_range [c_arith]: "0 \<le> x \<Longrightarrow> x < 256 \<Longrightarrow> u8 x = nat x"
  by (simp add: u8_def)

lemma u8_of_nat [c_arith]: "n < 256 \<Longrightarrow> u8 (int n) = n"
  by (simp add: u8_def)

lemma u8_add [c_arith]: "a + b < 256 \<Longrightarrow> u8 (int a + int b) = a + b"
  by (simp add: u8_def nat_add_distrib)

lemma u8_diff [c_arith]: "b \<le> a \<Longrightarrow> a < 256 \<Longrightarrow> u8 (int a - int b) = a - b"
  by (simp add: u8_def nat_diff_distrib)

lemma u8_diff2 [c_arith]: "b + c \<le> a \<Longrightarrow> a < 256 \<Longrightarrow> u8 (int a - int b - int c) = a - b - c"
  by (simp add: u8_def nat_diff_distrib)

lemma u8_mod: "u8 (int n) = n mod 256"
  by (simp add: u8_def nat_mod_distrib)

lemma u16_of_nat [c_arith]: "n < 65536 \<Longrightarrow> u16 (int n) = n"
  by (simp add: u16_def)

lemma u32_of_nat [c_arith]: "n < 4294967296 \<Longrightarrow> u32 (int n) = n"
  by (simp add: u32_def)

lemma u32_diff [c_arith]: "b \<le> a \<Longrightarrow> a < 4294967296 \<Longrightarrow> u32 (int a - int b) = a - b"
  by (simp add: u32_def nat_diff_distrib)

lemma ubits_of_nat [c_arith]: "n < 2 ^ w \<Longrightarrow> ubits w (int n) = n"
proof -
  assume "n < 2 ^ w"
  then have "int n < 2 ^ w"
    by (metis of_nat_less_iff of_nat_numeral of_nat_power)
  then show ?thesis by (simp add: ubits_def)
qed

lemma ubits_diff [c_arith]: "b \<le> a \<Longrightarrow> a < 2 ^ w \<Longrightarrow> ubits w (int a - int b) = a - b"
  using ubits_of_nat [of "a - b" w] by (simp add: of_nat_diff)

lemma ubits_diff2 [c_arith]:
  "b + c \<le> a \<Longrightarrow> a < 2 ^ w \<Longrightarrow> ubits w (int a - int b - int c) = a - b - c"
  using ubits_of_nat [of "a - (b + c)" w] by (simp add: of_nat_diff algebra_simps)

lemma nibble_and: "q AND 15 = q mod (16 :: nat)"
  using take_bit_eq_mask [of 4 q] by (simp add: mask_eq_exp_minus_1 take_bit_eq_mod)

subsection \<open>Memory behind a pointer\<close>

text \<open>
  A non-null pointer is the memory it points to, as a function of the offset: reading past the
  length the caller announced yields whatever that memory holds, never an error.
\<close>

type_synonym mem = "nat \<Rightarrow> nat"

definition rd :: "mem \<Rightarrow> nat \<Rightarrow> nat \<Rightarrow> nat list" where
  "rd m off n = map (\<lambda>i. m (off + i)) [0..<n]"

fun write_bytes :: "nat \<Rightarrow> nat list \<Rightarrow> mem \<Rightarrow> mem" where
  "write_bytes p [] m = m"
| "write_bytes p (x # xs) m = write_bytes (Suc p) xs (m(p := x))"

definition mem_of :: "nat list \<Rightarrow> mem" where
  "mem_of xs i = (if i < length xs then xs ! i else 0)"

lemma length_rd [simp]: "length (rd m off n) = n"
  by (simp add: rd_def)

lemma nth_rd [simp]: "i < n \<Longrightarrow> rd m off n ! i = m (off + i)"
  by (simp add: rd_def)

lemma write_bytes_apply:
  "write_bytes p xs m i = (if p \<le> i \<and> i < p + length xs then xs ! (i - p) else m i)"
proof (induction xs arbitrary: p m)
  case Nil
  then show ?case by simp
next
  case (Cons x xs)
  then show ?case by (auto simp: nth_Cons' not_less_eq_eq le_antisym Suc_le_eq)
qed

lemma rd_eqI: "length xs = n \<Longrightarrow> (\<And>i. i < n \<Longrightarrow> m (off + i) = xs ! i) \<Longrightarrow> rd m off n = xs"
  by (rule nth_equalityI) simp_all

lemma rd_mem_of: "off + n \<le> length xs \<Longrightarrow> rd (mem_of xs) off n = take n (drop off xs)"
  by (rule rd_eqI) (simp_all add: mem_of_def)

lemma rd_add: "rd m off (k + n) = rd m off k @ rd m (off + k) n"
  by (rule rd_eqI) (simp_all add: nth_append ac_simps)

subsection \<open>AUTOSAR result types\<close>

datatype Std_ReturnType = E_OK | E_NOT_OK

datatype BufReq_ReturnType = BUFREQ_OK | BUFREQ_E_NOT_OK | BUFREQ_E_BUSY | BUFREQ_E_OVFL

record PduInfoType =
  SduDataPtr :: "mem option"
  SduLength :: nat

subsection \<open>Rounding up\<close>

text \<open>The number of frames of \<open>p\<close> bytes that \<open>n\<close> bytes need.\<close>

definition ceil_div :: "nat \<Rightarrow> nat \<Rightarrow> nat" where
  "ceil_div n p = (n + p - 1) div p"

lemma ceil_div_step: "0 < p \<Longrightarrow> p < n \<Longrightarrow> ceil_div n p = Suc (ceil_div (n - p) p)"
proof -
  assume a: "0 < p" "p < n"
  then have "n + p - 1 = (n - 1) + p" and "n - p + p - 1 = n - 1" by simp_all
  with a show ?thesis unfolding ceil_div_def by (metis Suc_eq_plus1 div_add_self2 less_not_refl2)
qed

lemma ceil_div_small: "0 < n \<Longrightarrow> n \<le> p \<Longrightarrow> ceil_div n p = 1"
  unfolding ceil_div_def by (rule div_nat_eqI) simp_all

lemma ceil_div_0 [simp]: "0 < p \<Longrightarrow> ceil_div 0 p = 0"
  by (simp add: ceil_div_def)

lemma ceil_div_code:
  assumes "0 < p"
  shows "(if n mod p = 0 then n div p else n div p + 1) = ceil_div n p"
proof -
  define q r where "q = n div p" and "r = n mod p"
  have n: "n = p * q + r" and r: "r < p" using assms by (simp_all add: q_def r_def)
  have "ceil_div n p = (if r = 0 then q else q + 1)"
    unfolding ceil_div_def n using r by (intro div_nat_eqI) (auto simp: algebra_simps)
  then show ?thesis by (simp add: q_def r_def)
qed

lemma ceil_div_mult_ge: "0 < p \<Longrightarrow> n \<le> ceil_div n p * p"
proof -
  assume p: "0 < p"
  have "n + p - 1 < (n + p - 1) div p * p + p"
    using p by (metis add.commute dividend_less_div_times mult.commute)
  then show ?thesis using p unfolding ceil_div_def by linarith
qed

lemma ceil_div_pos: "0 < p \<Longrightarrow> 0 < n \<Longrightarrow> 0 < ceil_div n p"
  using ceil_div_mult_ge [of p n] by (cases "ceil_div n p") auto

subsection \<open>Interface: a transition system and its invariant\<close>

text \<open>
  A component is a step function over its operations; an invariant that every step keeps holds
  after every sequence of operations.
\<close>

locale step_system =
  fixes step :: "'s \<Rightarrow> 'op \<Rightarrow> 's"
    and inv :: "'s \<Rightarrow> bool"
  assumes step_inv: "inv s \<Longrightarrow> inv (step s a)"
begin

definition run :: "'s \<Rightarrow> 'op list \<Rightarrow> 's" where
  "run s as = foldl step s as"

lemma run_Nil: "run s [] = s"
  by (simp add: run_def)

lemma run_Cons: "run s (a # as) = run (step s a) as"
  by (simp add: run_def)

lemma run_append: "run s (as @ bs) = run (run s as) bs"
  by (simp add: run_def)

lemma run_inv: "inv s \<Longrightarrow> inv (run s as)"
  by (induction as arbitrary: s) (simp_all add: run_Nil run_Cons step_inv)

lemma foldl_inv: "inv s \<Longrightarrow> inv (foldl step s as)"
  using run_inv by (simp add: run_def)

end

subsection \<open>Interface: a bounded queue\<close>

text \<open>
  What a client of a bounded first-in-first-out queue may rely on: a put below the capacity
  appends, a get returns the oldest element, and both keep the representation invariant.
\<close>

locale bounded_fifo =
  fixes put :: "'a \<Rightarrow> 'q \<Rightarrow> Std_ReturnType \<times> 'q"
    and get :: "'q \<Rightarrow> 'a option \<times> 'q"
    and contents :: "'q \<Rightarrow> 'a list"
    and cap :: nat
    and invar :: "'q \<Rightarrow> bool"
  assumes put_ok: "invar q \<Longrightarrow> length (contents q) < cap \<Longrightarrow>
      fst (put x q) = E_OK \<and> contents (snd (put x q)) = contents q @ [x] \<and> invar (snd (put x q))"
    and get_empty: "invar q \<Longrightarrow> contents q = [] \<Longrightarrow> get q = (None, q)"
    and get_some: "invar q \<Longrightarrow> contents q = x # xs \<Longrightarrow>
      fst (get q) = Some x \<and> contents (snd (get q)) = xs \<and> invar (snd (get q))"
begin

fun puts :: "'a list \<Rightarrow> 'q \<Rightarrow> 'q" where
  "puts [] q = q"
| "puts (x # xs) q = puts xs (snd (put x q))"

fun gets :: "nat \<Rightarrow> 'q \<Rightarrow> 'a option list \<times> 'q" where
  "gets 0 q = ([], q)"
| "gets (Suc n) q = (let (r, q') = get q; (rs, q'') = gets n q' in (r # rs, q''))"

lemma puts_contents:
  "invar q \<Longrightarrow> length (contents q) + length xs \<le> cap \<Longrightarrow>
     invar (puts xs q) \<and> contents (puts xs q) = contents q @ xs"
proof (induction xs arbitrary: q)
  case Nil
  then show ?case by simp
next
  case (Cons x xs)
  then have "length (contents q) < cap" by simp
  from put_ok [OF Cons.prems(1) this, of x] Cons.IH [of "snd (put x q)"] Cons.prems(2)
  show ?case by simp
qed

lemma gets_contents:
  "invar q \<Longrightarrow> contents q = xs @ ys \<Longrightarrow>
     fst (gets (length xs) q) = map Some xs \<and> contents (snd (gets (length xs) q)) = ys"
proof (induction xs arbitrary: q)
  case Nil
  then show ?case by simp
next
  case (Cons x xs)
  from get_some [OF Cons.prems(1), of x "xs @ ys"] Cons.prems(2)
  have g: "fst (get q) = Some x" "contents (snd (get q)) = xs @ ys" "invar (snd (get q))" by simp_all
  from Cons.IH [OF g(3,2)] g(1) show ?case by (simp add: case_prod_beta)
qed

lemma puts_fold: "puts xs q = fold (\<lambda>x q. snd (put x q)) xs q"
  by (induction xs arbitrary: q) simp_all

lemma gets_nth: "i < n \<Longrightarrow> fst (gets n q) ! i = fst (get (((\<lambda>q. snd (get q)) ^^ i) q))"
proof (induction n arbitrary: q i)
  case (Suc n)
  then show ?case by (cases i) (simp_all add: case_prod_beta funpow_Suc_right del: funpow.simps(2))
qed simp

text \<open>First in, first out: the \<open>i\<close>-th get after a sequence of puts returns the \<open>i\<close>-th element put.\<close>

lemma fifo_order:
  assumes "invar q" "contents q = []" "length xs \<le> cap" "i < length xs"
  shows "fst (get (((\<lambda>q. snd (get q)) ^^ i) (fold (\<lambda>x q. snd (put x q)) xs q))) = Some (xs ! i)"
  using assms puts_contents [of q xs] gets_contents [of "puts xs q" xs "[]"] gets_nth [of i "length xs" "puts xs q"]
  by (simp add: puts_fold)

end

end
