(* ===== verification/CanTp_Model.thy ===== *)
theory CanTp_Model
  imports Prelude
begin

text \<open>
  The data of the CAN transport protocol (\<^verbatim>\<open>CanTp_Types.h\<close>, \<^verbatim>\<open>CanTp_Prv.h\<close>, the
  variables of \<^verbatim>\<open>CanTp.c\<close> and \<^verbatim>\<open>CanTp_Prv.c\<close>) and the small inline functions on it.

  \<^item> RAM and configuration arrays are functions of the index; an identifier below the configured
    number is a hypothesis where a property needs it.
  \<^item> \<open>CanTp_Sys\<close> collects what is not in the repository: the compile switches and constants of
    \<^verbatim>\<open>CanTp_Cfg.h\<close>, the width of \<^verbatim>\<open>PduLengthType\<close> and \<^verbatim>\<open>TickType\<close>, and the callees
    (PduR, CanIf, Det), each a function on the state \<open>ext\<close> of the rest of the system. A callee
    does not call back into CanTp before it returns.
  \<^item> The exclusive areas (\<^verbatim>\<open>SchM_Enter/Exit_CanTp_EXCLUSIVE_AREA\<close>) make each operation one
    atomic step, so they have no counterpart of their own.
  \<^item> \<^verbatim>\<open>CANTP_CYCLE_COUNTER\<close> is on: time is \<^verbatim>\<open>CanTp_MainFunctionTicks\<close>.
\<close>

subsection \<open>Configuration\<close>

record CanTp_SharedFcType =
  sf_RxFcPduId :: nat
  sf_TxSduId :: nat

record CanTp_RxPduType =
  rp_RxSduId :: nat
  rp_TxSduId :: nat
  rp_GetSduPair :: "(nat \<Rightarrow> nat \<Rightarrow> nat \<Rightarrow> nat \<times> nat) option"

record CanTp_TxSduType =
  tx_TX_DL :: nat
  tx_BitFields :: nat
  tx_Address :: nat
  tx_AddressFormatId :: nat
  tx_TimeOutId :: nat
  tx_ChannelId :: nat
  tx_TxConfirmationId :: nat
  tx_TxPduId :: nat
  tx_PduRPduHandleId :: nat

record CanTp_RxSduType =
  rx_BitFields :: nat
  rx_Address :: nat
  rx_AddressFormatId :: nat
  rx_TimeOutId :: nat
  rx_ParamId :: nat
  rx_ChannelId :: nat
  rx_TxConfirmationId :: nat
  rx_TxPduId :: nat
  rx_PduRPduHandleId :: nat

record CanTp_TimeOutType =
  AsArTicks :: nat
  BsBrTicks :: nat
  CsCrTicks :: nat

record CanTp_ParamType =
  p_Param :: "nat \<Rightarrow> nat"
  p_FcWaitMax :: nat

record CanTp_ConfigType =
  NumberOfSharedFc :: nat
  NumberOfChannels :: nat
  NumberOfRxPdus :: nat
  NumberOfTxPdus :: nat
  NumberOfRxSdus :: nat
  NumberOfTxSdus :: nat
  SharedFc :: "nat \<Rightarrow> CanTp_SharedFcType"
  RxPdu :: "nat \<Rightarrow> CanTp_RxPduType"
  TxSdu :: "nat \<Rightarrow> CanTp_TxSduType"
  RxSdu :: "nat \<Rightarrow> CanTp_RxSduType"
  TimeOut :: "nat \<Rightarrow> CanTp_TimeOutType"
  Param :: "nat \<Rightarrow> CanTp_ParamType"

subsection \<open>Identifiers whose numbers are in CanTp.h and CanTp\_Cfg.h\<close>

datatype CanTp_Variant = CANTP_PRE_COMPILE | CANTP_POST_BUILD_LOADABLE | CANTP_POST_BUILD_SELECTABLE

datatype CanTp_ApiId =
    CANTP_INIT | CANTP_SHUTDOWN | CANTP_GETVERSIONINFO | CANTP_TRANSMIT | CANTP_CANCELTRANSMIT
  | CANTP_CANCELRECEIVE | CANTP_CHANGEPARAMETER | CANTP_READPARAMETER | CANTP_MAINFUNCTION
  | CANTP_RXINDICATION | CANTP_TXCONFIRMATION | CANTP_TRIGGERTRANSMIT

datatype CanTp_ErrorId =
    CANTP_NO_ERROR | CANTP_E_PARAM_CONFIG | CANTP_E_PARAM_ID | CANTP_E_PARAM_POINTER
  | CANTP_E_INIT_FAILED | CANTP_E_UNINIT | CANTP_E_INVALID_TX_ID | CANTP_E_INVALID_RX_ID
  | CANTP_E_PADDING | CANTP_E_INVALID_TATYPE | CANTP_E_OPER_NOT_SUPPORTED | CANTP_E_COM
  | CANTP_E_RX_COM | CANTP_E_TX_COM

datatype TPParameterType = TP_STMIN | TP_BS | TP_BC

datatype CanTp_PduRApi = CANTP_TX_PDUR_CONFIRMATION | CANTP_RX_PDUR_CONFIRMATION

subsection \<open>Constants of CanTp\_Prv.h\<close>

abbreviation "CANTP_DEFAULT_CAN_DL \<equiv> 8 :: nat"
abbreviation "CANTP_CF_PCISIZE \<equiv> 1 :: nat"
abbreviation "CANTP_FC_PCISIZE \<equiv> 3 :: nat"
abbreviation "CANTP_NPCI_SFCAN \<equiv> 0 :: nat"
abbreviation "CANTP_NPCI_SFCANFD \<equiv> 1 :: nat"
abbreviation "CANTP_NPCI_FFCAN \<equiv> 2 :: nat"
abbreviation "CANTP_NPCI_FFCANFD \<equiv> 3 :: nat"
abbreviation "CANTP_NPCI_CF \<equiv> 4 :: nat"
abbreviation "CANTP_NPCI_FC \<equiv> 5 :: nat"
abbreviation "CANTP_MAXFFDL \<equiv> 4095 :: nat"
abbreviation "CANTP_MAXFDFFDL \<equiv> 4294967295 :: nat"
abbreviation "CANTP_FDSFDL_PCI \<equiv> 1 :: nat"
abbreviation "CANTP_STANDARD \<equiv> 0 :: nat"
abbreviation "CANTP_BUFFER_NOT_ASKED \<equiv> 0 :: nat"
abbreviation "CANTP_BUFFER_ASKED \<equiv> 1 :: nat"
abbreviation "CANTP_BUFFER_AVAILABLE \<equiv> 2 :: nat"
abbreviation "CANTP_MILLISEC_MAX_RANGE \<equiv> 127 :: nat"
abbreviation "CANTP_MICROSEC_MIN_RANGE \<equiv> 241 :: nat"
abbreviation "CANTP_MICROSEC_MAX_RANGE \<equiv> 249 :: nat"
abbreviation "CANTP_MAX_BS_VALUE \<equiv> 255 :: nat"
abbreviation "CANTP_TRIGGER_TRANSMIT_ON \<equiv> 32 :: nat"
abbreviation "CANTP_TC_DISABLED \<equiv> 16 :: nat"
abbreviation "CANTP_PADDINGON \<equiv> 8 :: nat"
abbreviation "CANTP_FUNCTIONAL \<equiv> 4 :: nat"
abbreviation "CANTP_FC_DISABLED \<equiv> 2 :: nat"
abbreviation "CANTP_FD_ENABLED \<equiv> 1 :: nat"
abbreviation "CANTP_SINGLE_FRAME \<equiv> 0 :: nat"
abbreviation "CANTP_FIRST_FRAME \<equiv> 1 :: nat"
abbreviation "CANTP_CONSECUTIVE_FRAME \<equiv> 2 :: nat"
abbreviation "CANTP_FLOWCONTROL_FRAME \<equiv> 3 :: nat"
abbreviation "CANTP_NUMBER_OF_FRAME_TYPES \<equiv> 4 :: nat"
abbreviation "CANTP_LOWERNIBBLE_MASK \<equiv> 15 :: nat"
abbreviation "CANTP_CF_HIGHNIBBLE \<equiv> 32 :: nat"
abbreviation "CANTP_FC_HIGHNIBBLE \<equiv> 48 :: nat"
abbreviation "CANTP_INVALID_DL \<equiv> 255 :: nat"
abbreviation "CANTP_FC_CTS \<equiv> 0 :: nat"
abbreviation "CANTP_FC_WAIT \<equiv> 1 :: nat"
abbreviation "CANTP_FC_OVERFLOW \<equiv> 2 :: nat"

text \<open>The sub-states of a channel, in the order of their numbers, and \<^verbatim>\<open>CanTp_State\<close>.\<close>

datatype CanTp_SubStateType =
    CANTP_IDLE
  | CANTP_TX_TRANSMISSION_REQUEST_ACCEPTED
  | CANTP_TX_WAIT_FOR_TRANSMIT_CONFIRMATION
  | CANTP_TX_WAIT_FOR_FLOWCONTROL_FRAME
  | CANTP_TX_SEND_CONSECUTIVE_FRAME
  | CANTP_RX_RECEPTION_REQUEST_ACCEPTED
  | CANTP_RX_SEND_FC
  | CANTP_RX_WAIT_FOR_FCTRANSMIT_CONFIRMATION
  | CANTP_RX_WAIT_FOR_CONSECUTIVE_FRAME

datatype CanTp_StateType = STATE_IDLE | CANTP_TRANSMISSION | CANTP_RECEPTION

fun CanTp_State :: "CanTp_SubStateType \<Rightarrow> CanTp_StateType" where
  "CanTp_State CANTP_IDLE = STATE_IDLE"
| "CanTp_State CANTP_TX_TRANSMISSION_REQUEST_ACCEPTED = CANTP_TRANSMISSION"
| "CanTp_State CANTP_TX_WAIT_FOR_TRANSMIT_CONFIRMATION = CANTP_TRANSMISSION"
| "CanTp_State CANTP_TX_WAIT_FOR_FLOWCONTROL_FRAME = CANTP_TRANSMISSION"
| "CanTp_State CANTP_TX_SEND_CONSECUTIVE_FRAME = CANTP_TRANSMISSION"
| "CanTp_State CANTP_RX_RECEPTION_REQUEST_ACCEPTED = CANTP_RECEPTION"
| "CanTp_State CANTP_RX_SEND_FC = CANTP_RECEPTION"
| "CanTp_State CANTP_RX_WAIT_FOR_FCTRANSMIT_CONFIRMATION = CANTP_RECEPTION"
| "CanTp_State CANTP_RX_WAIT_FOR_CONSECUTIVE_FRAME = CANTP_RECEPTION"

subsection \<open>The constant tables of CanTp\_Prv.c\<close>

definition CanTp_AddressSize :: "nat \<Rightarrow> nat" where
  "CanTp_AddressSize i = [0, 1, 1, 1, 0] ! i"

definition CanTp_PciFrameType :: "nat \<Rightarrow> nat" where
  "CanTp_PciFrameType i = [0, 0, 1, 1, 2, 3] ! i"

definition CanTp_PciSize :: "nat \<Rightarrow> nat" where
  "CanTp_PciSize i = [1, 2, 2, 6, 1, 3] ! i"

definition CanTp_CanDlTable :: "nat list" where
  "CanTp_CanDlTable =
    [8,
     8, 8, 8, 8, 8, 8, 8, 8, 12, 12, 12, 12, 16, 16, 16, 16,
     20, 20, 20, 20, 24, 24, 24, 24, 32, 32, 32, 32, 32, 32, 32, 32,
     48, 48, 48, 48, 48, 48, 48, 48, 48, 48, 48, 48, 48, 48, 48, 48,
     64, 64, 64, 64, 64, 64, 64, 64, 64, 64, 64, 64, 64, 64, 64, 64]"

subsection \<open>The run-time state\<close>

record CanTp_ChannelType =
  ch_TxBufferStatus :: nat
  ch_RX_DL :: nat
  ch_PciId :: nat
  ch_FlowStatus :: nat
  ch_SN :: nat
  ch_BS :: nat
  ch_ActiveSduId :: nat
  ch_FcWait :: nat
  ch_BlockCfsRemaining :: nat
  ch_SduLengthRemaining :: nat
  ch_SduLength :: nat
  ch_InitialTicks :: nat
  ch_STminTicks :: nat

record CanTp_QType =
  Head_u8 :: nat
  Tail_u8 :: nat
  Queue :: "nat \<Rightarrow> nat"

record 'e CanTp_GlobalType =
  CanTp_MainState :: bool
  CanTp_CfgPtr :: "CanTp_ConfigType option"
  CanTp_Channel :: "nat \<Rightarrow> CanTp_ChannelType"
  CanTp_SubState :: "nat \<Rightarrow> CanTp_SubStateType"
  CanTp_TxConfirmationChannel :: "nat \<Rightarrow> nat"
  CanTp_BurstQ :: CanTp_QType
  CanTp_ParamPair :: "nat \<Rightarrow> nat \<Rightarrow> nat"
  CanTp_MainFunctionTicks :: nat
  ext :: 'e

record CanTp_RxContextType =
  rc_IsFunctional :: bool
  rc_IsPaddingOn :: bool
  rc_IsFdEnabled :: bool
  rc_Address :: nat
  rc_FrameType :: nat
  rc_FlowStatus :: nat
  rc_SN :: nat
  rc_DataOffset :: nat
  rc_AddressSize :: nat
  rc_CAN_DL :: nat
  rc_ChannelId :: nat
  rc_SduId :: nat
  rc_PduId :: nat
  rc_PduRPduHandleId :: nat
  rc_SduLength :: nat

record CanTp_TxContextType =
  tc_PduRApiId :: CanTp_PduRApi
  tc_PayLoadLength :: nat
  tc_BitFields :: nat
  tc_ChannelId :: nat
  tc_TxConfirmationId :: nat
  tc_PduId :: nat
  tc_PduRPduHandleId :: nat
  tc_RemBufSize :: nat
  tc_Value :: nat
  tc_ElapsedValue :: nat
  tc_CsTicks :: nat

subsection \<open>What the module is compiled and linked with\<close>

record 'e CanTp_Sys =
  CANTP_VARIANT :: CanTp_Variant
  CANTP_DEV_ERROR_DETECT :: bool
  CANTP_CANFD_SUPPORT :: bool
  CANTP_TX_BURST_MODE :: bool
  CANTP_SCHM_SUPPORT :: bool
  CANTP_FC_DISABLE_SUPPORT :: bool
  CANTP_DYNAMIC_FC_SUPPORT :: bool
  CANTP_CHANGE_PARAMETER_API :: bool
  CANTP_TRIGGER_TRANSMIT_API :: bool
  CANTP_LEGACY_SHARED_FC_SUPPORT :: bool
  CANTP_STRICT_BSCRTIMEOUT_CHECK :: bool
  CANTP_PAGE_CONFIRMATION :: bool
  CANTP_MAX_CHANNEL_SIZE :: nat
  CANTP_BURST_QUEUE_SIZE :: nat
  CANTP_MAX_NPDU_LENGTH :: nat
  CANTP_PADDING_BYTE :: nat
  CANTP_INVALID_STMIN_TICKS :: nat
  CANTP_DEFAULT_STMIN_TICKS :: nat
  PduLengthBits :: nat
  TickBits :: nat
  uninit :: mem
  CanTp_Config :: CanTp_ConfigType
  CanTp_CfgPtrs :: "nat list"
  CanTp_Cfg_GetUsToTicks :: "nat \<Rightarrow> nat"
  CanTp_Cfg_DlcCheck :: "nat \<Rightarrow> nat \<Rightarrow> Std_ReturnType"
  CanTp_FdCallOut :: "(nat \<Rightarrow> PduInfoType \<Rightarrow> bool \<Rightarrow> Std_ReturnType) option"
  PduR_CanTpCopyTxData :: "nat \<Rightarrow> nat \<Rightarrow> bool \<Rightarrow> 'e \<Rightarrow> BufReq_ReturnType \<times> nat list \<times> nat \<times> 'e"
  PduR_CanTpTxConfirmation :: "nat \<Rightarrow> Std_ReturnType \<Rightarrow> 'e \<Rightarrow> 'e"
  PduR_CanTpStartOfReception :: "nat \<Rightarrow> nat list \<Rightarrow> nat \<Rightarrow> 'e \<Rightarrow> BufReq_ReturnType \<times> nat \<times> 'e"
  PduR_CanTpCopyRxData :: "nat \<Rightarrow> nat list option \<Rightarrow> 'e \<Rightarrow> BufReq_ReturnType \<times> nat \<times> 'e"
  PduR_CanTpRxIndication :: "nat \<Rightarrow> Std_ReturnType \<Rightarrow> 'e \<Rightarrow> 'e"
  CanIf_TransmitFn :: "nat \<Rightarrow> nat list option \<Rightarrow> nat \<Rightarrow> 'e \<Rightarrow> Std_ReturnType \<times> 'e"
  SchM_ActMainFunction :: "'e \<Rightarrow> 'e"
  Det_ReportErrorFn :: "CanTp_ApiId \<Rightarrow> CanTp_ErrorId \<Rightarrow> 'e \<Rightarrow> 'e"
  Det_ReportRuntimeErrorFn :: "CanTp_ApiId \<Rightarrow> CanTp_ErrorId \<Rightarrow> 'e \<Rightarrow> 'e"

text \<open>\<^verbatim>\<open>CANTP_INVALID_CHANNEL\<close> is one past the last channel.\<close>

abbreviation CANTP_INVALID_CHANNEL :: "'e CanTp_Sys \<Rightarrow> nat" where
  "CANTP_INVALID_CHANNEL S \<equiv> CANTP_MAX_CHANNEL_SIZE S"

abbreviation ulen :: "'e CanTp_Sys \<Rightarrow> int \<Rightarrow> nat" where
  "ulen S \<equiv> ubits (PduLengthBits S)"

definition cfgp :: "'e CanTp_GlobalType \<Rightarrow> CanTp_ConfigType" where
  "cfgp s = the (CanTp_CfgPtr s)"

abbreviation set_sub :: "nat \<Rightarrow> CanTp_SubStateType \<Rightarrow> 'e CanTp_GlobalType \<Rightarrow> 'e CanTp_GlobalType" where
  "set_sub c v s \<equiv> s\<lparr>CanTp_SubState := (CanTp_SubState s)(c := v)\<rparr>"

abbreviation upd_ch ::
  "nat \<Rightarrow> (CanTp_ChannelType \<Rightarrow> CanTp_ChannelType) \<Rightarrow> 'e CanTp_GlobalType \<Rightarrow> 'e CanTp_GlobalType" where
  "upd_ch c f s \<equiv> s\<lparr>CanTp_Channel := (CanTp_Channel s)(c := f (CanTp_Channel s c))\<rparr>"

abbreviation set_conf :: "nat \<Rightarrow> nat \<Rightarrow> 'e CanTp_GlobalType \<Rightarrow> 'e CanTp_GlobalType" where
  "set_conf i v s \<equiv> s\<lparr>CanTp_TxConfirmationChannel := (CanTp_TxConfirmationChannel s)(i := v)\<rparr>"

subsection \<open>Macros and inline helpers of CanTp\_Prv.h\<close>

definition CanTp_Prv_PduRConfirmation ::
  "'e CanTp_Sys \<Rightarrow> CanTp_PduRApi \<Rightarrow> nat \<Rightarrow> Std_ReturnType \<Rightarrow> 'e CanTp_GlobalType \<Rightarrow> 'e CanTp_GlobalType" where
  "CanTp_Prv_PduRConfirmation S api i r s =
     s\<lparr>ext := (case api of CANTP_TX_PDUR_CONFIRMATION \<Rightarrow> PduR_CanTpTxConfirmation S i r (ext s)
                         | CANTP_RX_PDUR_CONFIRMATION \<Rightarrow> PduR_CanTpRxIndication S i r (ext s))\<rparr>"

definition CanTp_Prv_ReportError ::
  "'e CanTp_Sys \<Rightarrow> CanTp_ApiId \<Rightarrow> CanTp_ErrorId \<Rightarrow> 'e CanTp_GlobalType \<Rightarrow> 'e CanTp_GlobalType" where
  "CanTp_Prv_ReportError S api e s =
     (if CANTP_DEV_ERROR_DETECT S then s\<lparr>ext := Det_ReportErrorFn S api e (ext s)\<rparr> else s)"

definition CanTp_Prv_ReportRunTimeError ::
  "'e CanTp_Sys \<Rightarrow> CanTp_ApiId \<Rightarrow> CanTp_ErrorId \<Rightarrow> 'e CanTp_GlobalType \<Rightarrow> 'e CanTp_GlobalType" where
  "CanTp_Prv_ReportRunTimeError S api e s =
     (if CANTP_DEV_ERROR_DETECT S then s\<lparr>ext := Det_ReportRuntimeErrorFn S api e (ext s)\<rparr> else s)"

definition CanTp_Prv_GetState :: "nat \<Rightarrow> 'e CanTp_GlobalType \<Rightarrow> CanTp_StateType" where
  "CanTp_Prv_GetState c s = CanTp_State (CanTp_SubState s c)"

definition CanTp_Prv_GetTxDl :: "'e CanTp_Sys \<Rightarrow> CanTp_TxSduType \<Rightarrow> nat" where
  "CanTp_Prv_GetTxDl S conn = (if CANTP_CANFD_SUPPORT S then tx_TX_DL conn else CANTP_DEFAULT_CAN_DL)"

definition CanTp_Prv_GetCanDl :: "'e CanTp_Sys \<Rightarrow> nat \<Rightarrow> nat" where
  "CanTp_Prv_GetCanDl S n = (if CANTP_CANFD_SUPPORT S then CanTp_CanDlTable ! n else CANTP_DEFAULT_CAN_DL)"

definition CanTp_Prv_GetRxDl :: "'e CanTp_Sys \<Rightarrow> nat \<Rightarrow> 'e CanTp_GlobalType \<Rightarrow> nat" where
  "CanTp_Prv_GetRxDl S c s =
     (if CANTP_CANFD_SUPPORT S then ch_RX_DL (CanTp_Channel s c) else CANTP_DEFAULT_CAN_DL)"

definition CanTp_Prv_SetRxDl :: "'e CanTp_Sys \<Rightarrow> nat \<Rightarrow> nat \<Rightarrow> 'e CanTp_GlobalType \<Rightarrow> 'e CanTp_GlobalType" where
  "CanTp_Prv_SetRxDl S c v s = (if CANTP_CANFD_SUPPORT S then upd_ch c (ch_RX_DL_update (\<lambda>_. v)) s else s)"

definition CanTp_Prv_IsRxDlInValid :: "'e CanTp_Sys \<Rightarrow> nat \<Rightarrow> bool" where
  "CanTp_Prv_IsRxDlInValid S n =
     (if CANTP_CANFD_SUPPORT S
      then n \<noteq> 8 \<and> n \<noteq> 12 \<and> n \<noteq> 16 \<and> n \<noteq> 20 \<and> n \<noteq> 24 \<and> n \<noteq> 32 \<and> n \<noteq> 48 \<and> n \<noteq> 64
      else n \<noteq> 8)"

definition CanTp_GetElapsedValue :: "'e CanTp_Sys \<Rightarrow> nat \<Rightarrow> 'e CanTp_GlobalType \<Rightarrow> nat \<times> nat" where
  "CanTp_GetElapsedValue S ValueIn s =
     (let Value = CanTp_MainFunctionTicks s in (Value, ubits (TickBits S) (int Value - int ValueIn)))"

definition CanTp_Prv_GetBit :: "nat \<Rightarrow> nat \<Rightarrow> bool" where
  "CanTp_Prv_GetBit v Mask = (v AND Mask = Mask)"

definition CanTp_IncrementCounter :: "'e CanTp_Sys \<Rightarrow> 'e CanTp_GlobalType \<Rightarrow> 'e CanTp_GlobalType" where
  "CanTp_IncrementCounter S s =
     s\<lparr>CanTp_MainFunctionTicks := ubits (TickBits S) (int (CanTp_MainFunctionTicks s) + 1)\<rparr>"

text \<open>The loop of \<^verbatim>\<open>CanTp_Prv_ArrayInit\<close>, from offset \<open>p\<close> of the array.\<close>

fun CanTp_Prv_ArrayInit :: "(nat \<Rightarrow> 'a) \<Rightarrow> nat \<Rightarrow> nat \<Rightarrow> 'a \<Rightarrow> (nat \<Rightarrow> 'a)" where
  "CanTp_Prv_ArrayInit a p 0 v = a"
| "CanTp_Prv_ArrayInit a p (Suc n) v = CanTp_Prv_ArrayInit (a(p := v)) (Suc p) n v"

definition CanTp_Prv_IsNoDevError ::
  "'e CanTp_Sys \<Rightarrow> nat \<Rightarrow> CanTp_ApiId \<Rightarrow> CanTp_ErrorId \<Rightarrow> 'e CanTp_GlobalType \<Rightarrow> bool \<times> 'e CanTp_GlobalType" where
  "CanTp_Prv_IsNoDevError S i ApiId CanTpEInvalidId s =
     (let ErrorId =
        (if \<not> CanTp_MainState s then CANTP_E_UNINIT
         else let TotalIds =
                (case ApiId of
                   CANTP_CHANGEPARAMETER \<Rightarrow> NumberOfRxSdus (cfgp s)
                 | CANTP_READPARAMETER \<Rightarrow> NumberOfRxSdus (cfgp s)
                 | CANTP_CANCELRECEIVE \<Rightarrow> NumberOfRxSdus (cfgp s)
                 | CANTP_TRANSMIT \<Rightarrow> NumberOfTxSdus (cfgp s)
                 | CANTP_CANCELTRANSMIT \<Rightarrow> NumberOfTxSdus (cfgp s)
                 | CANTP_TXCONFIRMATION \<Rightarrow> NumberOfTxPdus (cfgp s)
                 | CANTP_TRIGGERTRANSMIT \<Rightarrow> NumberOfTxPdus (cfgp s)
                 | CANTP_RXINDICATION \<Rightarrow> NumberOfRxPdus (cfgp s)
                 | _ \<Rightarrow> 0)
              in if TotalIds \<le> i then CanTpEInvalidId else CANTP_NO_ERROR)
      in if ErrorId \<noteq> CANTP_NO_ERROR then (False, CanTp_Prv_ReportError S ApiId ErrorId s) else (True, s))"

text \<open>The guard of an operation: the check is compiled out without development error detection.\<close>

definition dev_guard ::
  "'e CanTp_Sys \<Rightarrow> nat \<Rightarrow> CanTp_ApiId \<Rightarrow> CanTp_ErrorId \<Rightarrow> 'e CanTp_GlobalType \<Rightarrow> bool \<times> 'e CanTp_GlobalType" where
  "dev_guard S i api e s =
     (if CANTP_DEV_ERROR_DETECT S then CanTp_Prv_IsNoDevError S i api e s else (True, s))"

definition CanTp_Prv_GetRxParam :: "'e CanTp_Sys \<Rightarrow> nat \<Rightarrow> TPParameterType \<Rightarrow> 'e CanTp_GlobalType \<Rightarrow> nat" where
  "CanTp_Prv_GetRxParam S i parameter s =
     (let v = (if parameter = TP_STMIN then 0 else 1) in
      if CANTP_CHANGE_PARAMETER_API S then CanTp_ParamPair s i v
      else p_Param (Param (cfgp s) (rx_ParamId (RxSdu (cfgp s) i))) v)"

text \<open>The loop of \<^verbatim>\<open>CanTp_Prv_RxParamInit\<close> over the reception N-SDUs.\<close>

fun rx_param_loop :: "CanTp_ConfigType \<Rightarrow> nat \<Rightarrow> (nat \<Rightarrow> nat \<Rightarrow> nat) \<Rightarrow> (nat \<Rightarrow> nat \<Rightarrow> nat)" where
  "rx_param_loop c 0 pp = pp"
| "rx_param_loop c (Suc n) pp =
     (let pp' = rx_param_loop c n pp; par = p_Param (Param c (rx_ParamId (RxSdu c n)))
      in pp'(n := (pp' n)(0 := par 0, 1 := par 1)))"

definition CanTp_Prv_RxParamInit :: "'e CanTp_Sys \<Rightarrow> 'e CanTp_GlobalType \<Rightarrow> 'e CanTp_GlobalType" where
  "CanTp_Prv_RxParamInit S s =
     (if CANTP_CHANGE_PARAMETER_API S
      then s\<lparr>CanTp_ParamPair := rx_param_loop (cfgp s) (NumberOfRxSdus (cfgp s)) (CanTp_ParamPair s)\<rparr> else s)"

definition CanTp_Prv_IsChangeParameterOk ::
  "'e CanTp_Sys \<Rightarrow> TPParameterType \<Rightarrow> nat \<Rightarrow> 'e CanTp_GlobalType \<Rightarrow> bool \<times> 'e CanTp_GlobalType" where
  "CanTp_Prv_IsChangeParameterOk S parameter v s =
     (let ErrorId =
        (if parameter \<noteq> TP_BS \<and> parameter \<noteq> TP_STMIN then CANTP_E_PARAM_ID
         else if parameter = TP_STMIN \<and>
                 \<not> (v \<le> CANTP_MILLISEC_MAX_RANGE \<or> (CANTP_MICROSEC_MIN_RANGE \<le> v \<and> v \<le> CANTP_MICROSEC_MAX_RANGE))
         then CANTP_E_PARAM_CONFIG
         else if parameter = TP_BS \<and> CANTP_MAX_BS_VALUE < v then CANTP_E_PARAM_CONFIG
         else CANTP_NO_ERROR)
      in if ErrorId \<noteq> CANTP_NO_ERROR
         then (False, CanTp_Prv_ReportRunTimeError S CANTP_CHANGEPARAMETER ErrorId s) else (True, s))"

definition CanTp_Prv_GetTxBlockCfs :: "'e CanTp_Sys \<Rightarrow> nat \<Rightarrow> 'e CanTp_GlobalType \<Rightarrow> nat" where
  "CanTp_Prv_GetTxBlockCfs S c s =
     (let conn = TxSdu (cfgp s) (ch_ActiveSduId (CanTp_Channel s c));
          TX_DL = CanTp_Prv_GetTxDl S conn;
          AddressSize = CanTp_AddressSize (tx_AddressFormatId conn);
          Len = ch_SduLengthRemaining (CanTp_Channel s c);
          PayLoadLength = u8 (int TX_DL - int CANTP_CF_PCISIZE - int AddressSize)
      in if Len mod PayLoadLength = 0 then Len div PayLoadLength else Len div PayLoadLength + 1)"

definition CanTp_Prv_GetRxBlockCfs :: "'e CanTp_Sys \<Rightarrow> nat \<Rightarrow> 'e CanTp_GlobalType \<Rightarrow> nat" where
  "CanTp_Prv_GetRxBlockCfs S c s =
     (let conn = RxSdu (cfgp s) (ch_ActiveSduId (CanTp_Channel s c));
          RX_DL = CanTp_Prv_GetRxDl S c s;
          AddressSize = CanTp_AddressSize (rx_AddressFormatId conn);
          Len = ch_SduLengthRemaining (CanTp_Channel s c);
          PayLoadLength = u8 (int RX_DL - int CANTP_CF_PCISIZE - int AddressSize)
      in if Len mod PayLoadLength = 0 then Len div PayLoadLength else Len div PayLoadLength + 1)"

definition CanTp_Prv_TxPciInit :: "'e CanTp_Sys \<Rightarrow> nat \<Rightarrow> nat \<Rightarrow> 'e CanTp_GlobalType \<Rightarrow> nat" where
  "CanTp_Prv_TxPciInit S CanTpTxSduId Len s =
     (let conn = TxSdu (cfgp s) CanTpTxSduId;
          TX_DL = CanTp_Prv_GetTxDl S conn;
          AddressLength = CanTp_AddressSize (tx_AddressFormatId conn)
      in if u32 (int Len + int AddressLength + 1) \<le> CANTP_DEFAULT_CAN_DL then CANTP_NPCI_SFCAN
         else if CANTP_CANFD_SUPPORT S \<and> CANTP_DEFAULT_CAN_DL < TX_DL \<and> u32 (int Len + int AddressLength + 2) \<le> TX_DL
         then CANTP_NPCI_SFCANFD
         else if CANTP_CANFD_SUPPORT S \<and> CANTP_DEFAULT_CAN_DL < TX_DL \<and> CANTP_MAXFFDL < Len then CANTP_NPCI_FFCANFD
         else CANTP_NPCI_FFCAN)"

end
