(* ===== verification/CanTp_Frame.thy ===== *)
theory CanTp_Frame
  imports CanTp_Model
begin

text \<open>
  Frames: assembly for transmission (\<^verbatim>\<open>CanTp_Prv_CreateTx...Frame\<close> of \<^verbatim>\<open>CanTp_Prv.c\<close>) and
  the examination of a received frame (\<^verbatim>\<open>CanTp_Prv_GetRxContext\<close> and
  \<^verbatim>\<open>CanTp_Prv_RxSduLengthCheck\<close> of \<^verbatim>\<open>CanTp_Prv.h\<close>).

  An assembly function takes the memory behind \<^verbatim>\<open>PduInfoPtr->SduDataPtr\<close> and returns the
  status, that memory, \<^verbatim>\<open>PduInfoPtr->SduLength\<close> and the state.
\<close>

subsection \<open>Assembly\<close>

text \<open>The addressing byte, if any, and where the protocol control information goes.\<close>

definition put_address :: "nat \<Rightarrow> nat \<Rightarrow> mem \<Rightarrow> mem \<times> nat" where
  "put_address AddressFormatId Address m =
     (if AddressFormatId \<noteq> CANTP_STANDARD then (m(0 := Address), 1) else (m, 0))"

definition CanTp_Prv_CreateTxSingleFrame ::
  "'e CanTp_Sys \<Rightarrow> nat \<Rightarrow> mem \<Rightarrow> nat \<Rightarrow> 'e CanTp_GlobalType \<Rightarrow> Std_ReturnType \<times> mem \<times> nat \<times> 'e CanTp_GlobalType" where
  "CanTp_Prv_CreateTxSingleFrame S c m len s =
     (if CanTp_SubState s c = CANTP_TX_WAIT_FOR_TRANSMIT_CONFIRMATION
      then let Channel = CanTp_Channel s c;
               conn = TxSdu (cfgp s) (ch_ActiveSduId Channel);
               PciId = ch_PciId Channel;
               DataOffset = u8 (int (CanTp_AddressSize (tx_AddressFormatId conn)) + int (CanTp_PciSize PciId));
               n = u8 (int (ch_SduLengthRemaining Channel));
               (r, bs, _, e) = PduR_CanTpCopyTxData S (tx_PduRPduHandleId conn) n True (ext s);
               m1 = write_bytes DataOffset bs m;
               s1 = s\<lparr>ext := e\<rparr>
           in if r \<noteq> BUFREQ_OK then (E_NOT_OK, m1, 0, CanTp_Prv_ReportRunTimeError S CANTP_TRIGGERTRANSMIT CANTP_E_COM s1)
              else let (m2, CAN_DL) =
                     (if CanTp_Prv_GetBit (tx_BitFields conn) CANTP_PADDINGON
                      then let dl = CanTp_Prv_GetCanDl S (DataOffset + n);
                               PaddingOffset = u8 (int DataOffset + int n)
                           in (CanTp_Prv_ArrayInit m1 PaddingOffset (u32 (int dl - int PaddingOffset)) (CANTP_PADDING_BYTE S), dl)
                      else (m1, u8 (int DataOffset + int n)));
                       (m3, p) = put_address (tx_AddressFormatId conn) (tx_Address conn) m2;
                       m4 = (if PciId = CANTP_NPCI_SFCAN then m3(p := u8 (int (ch_SduLength Channel)))
                             else if CANTP_CANFD_SUPPORT S \<and> PciId = CANTP_NPCI_SFCANFD
                             then m3(p := 0, p + 1 := u8 (int (ch_SduLength Channel)))
                             else m3)
                   in (E_OK, m4, CAN_DL, s1)
      else (E_NOT_OK, m, len, s))"

definition CanTp_Prv_CreateTxFirstFrame ::
  "'e CanTp_Sys \<Rightarrow> nat \<Rightarrow> mem \<Rightarrow> nat \<Rightarrow> 'e CanTp_GlobalType \<Rightarrow> Std_ReturnType \<times> mem \<times> nat \<times> 'e CanTp_GlobalType" where
  "CanTp_Prv_CreateTxFirstFrame S c m len s =
     (if CanTp_SubState s c = CANTP_TX_WAIT_FOR_TRANSMIT_CONFIRMATION
      then let Channel = CanTp_Channel s c;
               conn = TxSdu (cfgp s) (ch_ActiveSduId Channel);
               PciId = ch_PciId Channel;
               DataOffset = u8 (int (CanTp_AddressSize (tx_AddressFormatId conn)) + int (CanTp_PciSize PciId));
               CAN_DL = CanTp_Prv_GetTxDl S conn;
               L = ch_SduLength Channel;
               n = ulen S (int CAN_DL - int DataOffset);
               (r, bs, _, e) = PduR_CanTpCopyTxData S (tx_PduRPduHandleId conn) n True (ext s);
               m1 = write_bytes DataOffset bs m;
               s1 = s\<lparr>ext := e\<rparr>
           in if r \<noteq> BUFREQ_OK then (E_NOT_OK, m1, 0, CanTp_Prv_ReportRunTimeError S CANTP_TRIGGERTRANSMIT CANTP_E_COM s1)
              else let (m2, p) = put_address (tx_AddressFormatId conn) (tx_Address conn) m1;
                       m3 = (if PciId = CANTP_NPCI_FFCAN
                             then m2(p := u8 (16 + int (u8 (int (drop_bit 8 L)))), p + 1 := u8 (int L))
                             else if CANTP_CANFD_SUPPORT S \<and> PciId = CANTP_NPCI_FFCANFD
                             then m2(p := 16, p + 1 := 0,
                                     p + 2 := u8 (int (drop_bit 24 L)), p + 3 := u8 (int (drop_bit 16 L)),
                                     p + 4 := u8 (int (drop_bit 8 L)), p + 5 := u8 (int L))
                             else m2)
                   in (E_OK, m3, CAN_DL, s1)
      else (E_NOT_OK, m, len, s))"

definition CanTp_Prv_CreateTxConsecutiveFrame ::
  "'e CanTp_Sys \<Rightarrow> nat \<Rightarrow> mem \<Rightarrow> nat \<Rightarrow> 'e CanTp_GlobalType \<Rightarrow> Std_ReturnType \<times> mem \<times> nat \<times> 'e CanTp_GlobalType" where
  "CanTp_Prv_CreateTxConsecutiveFrame S c m len s =
     (if CanTp_SubState s c = CANTP_TX_WAIT_FOR_TRANSMIT_CONFIRMATION
      then let Channel = CanTp_Channel s c;
               conn = TxSdu (cfgp s) (ch_ActiveSduId Channel);
               SN = ch_SN Channel;
               Rem = ch_SduLengthRemaining Channel;
               DataOffset = u8 (int (CanTp_AddressSize (tx_AddressFormatId conn)) + int CANTP_CF_PCISIZE);
               CAN_DL = CanTp_Prv_GetTxDl S conn;
               MaxCopyLength = u8 (int CAN_DL - int DataOffset);
               n = (if MaxCopyLength < Rem then MaxCopyLength else u8 (int Rem));
               (r, bs, _, e) = PduR_CanTpCopyTxData S (tx_PduRPduHandleId conn) n True (ext s);
               m1 = write_bytes DataOffset bs m;
               s1 = s\<lparr>ext := e\<rparr>
           in if r \<noteq> BUFREQ_OK then (E_NOT_OK, m1, 0, CanTp_Prv_ReportRunTimeError S CANTP_TRIGGERTRANSMIT CANTP_E_COM s1)
              else let (m2, DL) =
                     (if Rem < MaxCopyLength
                      then if CanTp_Prv_GetBit (tx_BitFields conn) CANTP_PADDINGON
                           then let dl = CanTp_Prv_GetCanDl S (DataOffset + n);
                                    PaddingOffset = u8 (int DataOffset + int n)
                                in (CanTp_Prv_ArrayInit m1 PaddingOffset (u32 (int dl - int PaddingOffset)) (CANTP_PADDING_BYTE S), dl)
                           else (m1, u8 (int DataOffset + int n))
                      else (m1, CAN_DL));
                       (m3, p) = put_address (tx_AddressFormatId conn) (tx_Address conn) m2
                   in (E_OK, m3(p := CANTP_CF_HIGHNIBBLE OR SN), DL, s1)
      else (E_NOT_OK, m, len, s))"

definition CanTp_Prv_CreateTxFlowControlFrame ::
  "'e CanTp_Sys \<Rightarrow> nat \<Rightarrow> mem \<Rightarrow> nat \<Rightarrow> 'e CanTp_GlobalType \<Rightarrow> Std_ReturnType \<times> mem \<times> nat \<times> 'e CanTp_GlobalType" where
  "CanTp_Prv_CreateTxFlowControlFrame S c m len s =
     (if CanTp_SubState s c = CANTP_RX_WAIT_FOR_FCTRANSMIT_CONFIRMATION
      then let Channel = CanTp_Channel s c;
               conn = RxSdu (cfgp s) (ch_ActiveSduId Channel);
               STMin = CanTp_Prv_GetRxParam S (ch_ActiveSduId Channel) TP_STMIN s;
               (m1, p) = put_address (rx_AddressFormatId conn) (rx_Address conn) m;
               L = CANTP_FC_PCISIZE + p;
               m2 = m1(p := u8 (int (CANTP_FC_HIGHNIBBLE OR ch_FlowStatus Channel)), p + 1 := ch_BS Channel, p + 2 := STMin)
           in if CanTp_Prv_GetBit (rx_BitFields conn) CANTP_PADDINGON
              then let PaddingOffset = u8 (int (CanTp_AddressSize (rx_AddressFormatId conn)) + int CANTP_FC_PCISIZE)
                   in (E_OK, CanTp_Prv_ArrayInit m2 (p + 3) (u32 (int CANTP_DEFAULT_CAN_DL - int PaddingOffset)) (CANTP_PADDING_BYTE S),
                       CANTP_DEFAULT_CAN_DL, s)
              else (E_OK, m2, L, s)
      else (E_NOT_OK, m, 0, s))"

text \<open>\<^verbatim>\<open>CanTp_Prv_CreateFrame\<close>: the table \<^verbatim>\<open>CanTp_CreateFrame\<close> indexed by the frame type.\<close>

definition CanTp_Prv_CreateFrame ::
  "'e CanTp_Sys \<Rightarrow> nat \<Rightarrow> mem \<Rightarrow> nat \<Rightarrow> 'e CanTp_GlobalType \<Rightarrow> Std_ReturnType \<times> mem \<times> nat \<times> 'e CanTp_GlobalType" where
  "CanTp_Prv_CreateFrame S c m len s =
     (let ft = CanTp_PciFrameType (ch_PciId (CanTp_Channel s c)) in
      if ft = CANTP_SINGLE_FRAME then CanTp_Prv_CreateTxSingleFrame S c m len s
      else if ft = CANTP_FIRST_FRAME then CanTp_Prv_CreateTxFirstFrame S c m len s
      else if ft = CANTP_CONSECUTIVE_FRAME then CanTp_Prv_CreateTxConsecutiveFrame S c m len s
      else CanTp_Prv_CreateTxFlowControlFrame S c m len s)"

subsection \<open>Examination of a received frame\<close>

text \<open>The loop over the shared flow-control table, from entry \<open>i\<close>.\<close>

function shared_fc_loop :: "CanTp_RxContextType \<Rightarrow> 'e CanTp_GlobalType \<Rightarrow> nat \<Rightarrow> (nat \<times> nat) option" where
  "shared_fc_loop ctx s i =
     (if i < NumberOfSharedFc (cfgp s)
      then let fc = SharedFc (cfgp s) i;
               ChannelId = tx_ChannelId (TxSdu (cfgp s) (sf_TxSduId fc));
               SduId = ch_ActiveSduId (CanTp_Channel s ChannelId)
           in if sf_RxFcPduId fc = rc_PduId ctx \<and> sf_TxSduId fc \<noteq> rc_SduId ctx \<and>
                 CanTp_SubState s ChannelId = CANTP_TX_WAIT_FOR_FLOWCONTROL_FRAME \<and> sf_TxSduId fc = SduId
              then Some (ChannelId, SduId)
              else shared_fc_loop ctx s (Suc i)
      else None)"
  by pat_completeness auto
termination
  by (relation "measure (\<lambda>(ctx, s, i). NumberOfSharedFc (cfgp s) - i)") auto

declare shared_fc_loop.simps [simp del]

definition CanTp_Prv_GetFcActiveChannel ::
  "'e CanTp_Sys \<Rightarrow> CanTp_RxContextType \<Rightarrow> 'e CanTp_GlobalType \<Rightarrow> Std_ReturnType \<times> CanTp_RxContextType" where
  "CanTp_Prv_GetFcActiveChannel S ctx s =
     (let conn = TxSdu (cfgp s) (rc_SduId ctx) in
      if rc_SduId ctx < NumberOfTxSdus (cfgp s) \<and>
         CanTp_SubState s (tx_ChannelId conn) = CANTP_TX_WAIT_FOR_FLOWCONTROL_FRAME
      then (E_OK, ctx\<lparr>rc_ChannelId := tx_ChannelId conn\<rparr>)
      else if CANTP_LEGACY_SHARED_FC_SUPPORT S
      then (case shared_fc_loop ctx s 0 of
              Some (ChannelId, SduId) \<Rightarrow> (E_OK, ctx\<lparr>rc_ChannelId := ChannelId, rc_SduId := SduId\<rparr>)
            | None \<Rightarrow> (E_NOT_OK, ctx))
      else (E_NOT_OK, ctx))"

definition CanTp_Prv_GetRxContext ::
  "'e CanTp_Sys \<Rightarrow> CanTp_RxContextType \<Rightarrow> PduInfoType \<Rightarrow> 'e CanTp_GlobalType \<Rightarrow> CanTp_ErrorId \<times> CanTp_RxContextType" where
  "CanTp_Prv_GetRxContext S ctx pdu s =
     (case SduDataPtr pdu of
        None \<Rightarrow> (CANTP_E_PARAM_POINTER, ctx)
      | Some Data \<Rightarrow>
         let Pdu = RxPdu (cfgp s) (rc_PduId ctx);
             (Address, p, TxSduId, RxSduId) =
               (case rp_GetSduPair Pdu of
                  None \<Rightarrow> (0, 0, rp_TxSduId Pdu, rp_RxSduId Pdu)
                | Some f \<Rightarrow> let (t, r) = f (rp_TxSduId Pdu) (rp_RxSduId Pdu) (Data 0) in (Data 0, 1, t, r));
             ctx1 = ctx\<lparr>rc_Address := Address\<rparr>;
             FrameType = drop_bit 4 (Data p)
         in if FrameType < CANTP_NUMBER_OF_FRAME_TYPES
            then let ctx2 = ctx1\<lparr>rc_FrameType := FrameType\<rparr> in
                 if FrameType = CANTP_FLOWCONTROL_FRAME
                 then let (r, ctx3) = CanTp_Prv_GetFcActiveChannel S (ctx2\<lparr>rc_SduId := TxSduId\<rparr>) s in
                      if r = E_OK
                      then let conn = TxSdu (cfgp s) (rc_SduId ctx3) in
                           (CANTP_NO_ERROR,
                            ctx3\<lparr>rc_PduRPduHandleId := tx_PduRPduHandleId conn,
                                 rc_AddressSize := CanTp_AddressSize (tx_AddressFormatId conn),
                                 rc_IsPaddingOn := CanTp_Prv_GetBit (tx_BitFields conn) CANTP_PADDINGON\<rparr>)
                      else (CANTP_E_PARAM_CONFIG, ctx3)
                 else let ctx3 = ctx2\<lparr>rc_SduId := RxSduId\<rparr> in
                      if RxSduId < NumberOfRxSdus (cfgp s)
                      then let conn = RxSdu (cfgp s) RxSduId;
                               Functional = CanTp_Prv_GetBit (rx_BitFields conn) CANTP_FUNCTIONAL
                           in (if Functional \<and> FrameType \<noteq> CANTP_SINGLE_FRAME then CANTP_E_INVALID_TATYPE else CANTP_NO_ERROR,
                               ctx3\<lparr>rc_ChannelId := rx_ChannelId conn,
                                    rc_PduRPduHandleId := rx_PduRPduHandleId conn,
                                    rc_AddressSize := CanTp_AddressSize (rx_AddressFormatId conn),
                                    rc_IsPaddingOn := CanTp_Prv_GetBit (rx_BitFields conn) CANTP_PADDINGON,
                                    rc_IsFdEnabled := CanTp_Prv_GetBit (rx_BitFields conn) CANTP_FD_ENABLED,
                                    rc_IsFunctional := Functional\<rparr>)
                      else (CANTP_E_PARAM_CONFIG, ctx3)
            else (CANTP_E_PARAM_CONFIG, ctx1))"

text \<open>
  The four branches of \<^verbatim>\<open>CanTp_Prv_RxSduLengthCheck\<close>. Each gives the expected frame length
  \<^verbatim>\<open>CAN_DL\<close>, the data offset, and the message length \<^verbatim>\<open>SF_DL\<close> or \<^verbatim>\<open>FF_DL\<close>.
\<close>

definition sf_length_check :: "'e CanTp_Sys \<Rightarrow> CanTp_RxContextType \<Rightarrow> mem \<Rightarrow> nat \<Rightarrow> nat \<times> nat \<times> nat" where
  "sf_length_check S ctx Data len =
     (let PciLowerNibble = Data 0 AND CANTP_LOWERNIBBLE_MASK in
      if len \<le> CANTP_DEFAULT_CAN_DL
      then let DataOffset = u8 (int (rc_AddressSize ctx) + int (CanTp_PciSize CANTP_NPCI_SFCAN)) in
           (if PciLowerNibble \<noteq> 0 \<and> PciLowerNibble \<le> u32 (int CANTP_DEFAULT_CAN_DL - int DataOffset)
            then if rc_IsPaddingOn ctx then CANTP_DEFAULT_CAN_DL else u8 (int DataOffset + int PciLowerNibble)
            else CANTP_INVALID_DL, DataOffset, PciLowerNibble)
      else if CANTP_CANFD_SUPPORT S
      then let DataOffset = u8 (int (rc_AddressSize ctx) + int (CanTp_PciSize CANTP_NPCI_SFCANFD));
               SF_DL = Data 1
           in (if PciLowerNibble = 0 \<and> u32 (7 - int (rc_AddressSize ctx)) < SF_DL \<and>
                  int SF_DL \<le> int len - int DataOffset \<and> rc_AddressSize ctx + 2 + SF_DL \<le> CANTP_MAX_NPDU_LENGTH S
               then if rc_IsPaddingOn ctx then CanTp_Prv_GetCanDl S (DataOffset + SF_DL) else u8 (int DataOffset + int SF_DL)
               else CANTP_INVALID_DL, DataOffset, SF_DL)
      else (CANTP_INVALID_DL, 0, 0))"

definition ff_length_check :: "'e CanTp_Sys \<Rightarrow> CanTp_RxContextType \<Rightarrow> mem \<Rightarrow> nat \<Rightarrow> nat \<times> nat \<times> nat" where
  "ff_length_check S ctx Data len =
     (let CAN_DL = u8 (int len);
          RX_DL = (if CanTp_Prv_IsRxDlInValid S CAN_DL then CANTP_INVALID_DL else CAN_DL);
          FF_DLmin = ulen S (int RX_DL - int (rc_AddressSize ctx) - (if CANTP_DEFAULT_CAN_DL < CAN_DL then 1 else 0));
          FfDlValue12bit = ulen S (int ((Data 0 AND CANTP_LOWERNIBBLE_MASK) * 256 + Data 1));
          (FF_DL, DataOffset, RX_DL') =
            (if FfDlValue12bit = 0
             then let d = u32 (int (Data 2 * 16777216 + Data 3 * 65536 + Data 4 * 256 + Data 5)) in
                  (d, u8 (int (rc_AddressSize ctx) + int (CanTp_PciSize CANTP_NPCI_FFCANFD)),
                   if CANTP_MAXFDFFDL < d \<or> d \<le> CANTP_MAXFFDL then CANTP_INVALID_DL else RX_DL)
             else (FfDlValue12bit, u8 (int (rc_AddressSize ctx) + int (CanTp_PciSize CANTP_NPCI_FFCAN)), RX_DL))
      in (if rc_IsFunctional ctx \<or> FF_DL < FF_DLmin then CANTP_INVALID_DL else RX_DL', DataOffset, FF_DL))"

text \<open>The length a consecutive frame must have, before the padding table is applied.\<close>

definition cf_min_dl :: "'e CanTp_Sys \<Rightarrow> CanTp_RxContextType \<Rightarrow> 'e CanTp_GlobalType \<Rightarrow> nat" where
  "cf_min_dl S ctx s =
     (let Rem = ch_SduLengthRemaining (CanTp_Channel s (rc_ChannelId ctx));
          RX_DL = CanTp_Prv_GetRxDl S (rc_ChannelId ctx) s;
          DataOffset = u8 (int (rc_AddressSize ctx) + int CANTP_CF_PCISIZE);
          MaxCfSduLength = u8 (int RX_DL - int DataOffset)
      in if Rem < MaxCfSduLength then u8 (int Rem + int DataOffset) else RX_DL)"

definition cf_length_check :: "'e CanTp_Sys \<Rightarrow> CanTp_RxContextType \<Rightarrow> 'e CanTp_GlobalType \<Rightarrow> nat \<times> nat" where
  "cf_length_check S ctx s =
     (let CAN_DL = cf_min_dl S ctx s in
      (if rc_IsPaddingOn ctx then CanTp_Prv_GetCanDl S CAN_DL else CAN_DL,
       u8 (int (rc_AddressSize ctx) + int CANTP_CF_PCISIZE)))"

definition CanTp_Prv_RxSduLengthCheck ::
  "'e CanTp_Sys \<Rightarrow> CanTp_RxContextType \<Rightarrow> mem \<Rightarrow> nat \<Rightarrow> 'e CanTp_GlobalType \<Rightarrow> Std_ReturnType \<times> CanTp_RxContextType" where
  "CanTp_Prv_RxSduLengthCheck S ctx SduData len s =
     (let Data = (\<lambda>i. SduData (rc_AddressSize ctx + i));
          PciLowerNibble = Data 0 AND CANTP_LOWERNIBBLE_MASK;
          (CAN_DL, DataOffset, SF_DL, FF_DL, ctx1) =
            (if rc_FrameType ctx = CANTP_SINGLE_FRAME
             then let (dl, off, sf) = sf_length_check S ctx Data len in (dl, off, sf, 0, ctx)
             else if rc_FrameType ctx = CANTP_FIRST_FRAME
             then let (dl, off, ff) = ff_length_check S ctx Data len in (dl, off, 0, ff, ctx)
             else if rc_FrameType ctx = CANTP_CONSECUTIVE_FRAME
             then let (dl, off) = cf_length_check S ctx s in (dl, off, 0, 0, ctx\<lparr>rc_SN := PciLowerNibble\<rparr>)
             else if rc_FrameType ctx = CANTP_FLOWCONTROL_FRAME
             then (if rc_IsPaddingOn ctx then CANTP_DEFAULT_CAN_DL else u8 (int CANTP_FC_PCISIZE + int (rc_AddressSize ctx)),
                   u8 (int (rc_AddressSize ctx) + 1), 0, 0, ctx\<lparr>rc_FlowStatus := PciLowerNibble\<rparr>)
             else (CANTP_INVALID_DL, 0, 0, 0, ctx))
      in (CanTp_Cfg_DlcCheck S len CAN_DL,
          ctx1\<lparr>rc_CAN_DL := CAN_DL, rc_DataOffset := DataOffset,
               rc_SduLength := (if rc_FrameType ctx = CANTP_SINGLE_FRAME then SF_DL else ulen S (int FF_DL))\<rparr>))"

subsection \<open>The layout of an assembled frame\<close>

text \<open>
  A frame is its addressing byte (if the format has one), its protocol control information, the
  payload, and padding up to the next length CAN can carry.
\<close>

definition addr_bytes :: "nat \<Rightarrow> nat \<Rightarrow> nat list" where
  "addr_bytes AddressFormatId Address = (if AddressFormatId \<noteq> CANTP_STANDARD then [Address] else [])"

definition padded_len :: "'e CanTp_Sys \<Rightarrow> nat \<Rightarrow> nat \<Rightarrow> nat" where
  "padded_len S BitFields k = (if CanTp_Prv_GetBit BitFields CANTP_PADDINGON then CanTp_Prv_GetCanDl S k else k)"

definition frame_bytes :: "'e CanTp_Sys \<Rightarrow> nat list \<Rightarrow> nat list \<Rightarrow> nat \<Rightarrow> nat list" where
  "frame_bytes S hdr payload L =
     hdr @ payload @ replicate (L - length hdr - length payload) (CANTP_PADDING_BYTE S)"

text \<open>The data lengths a frame may have: eight bytes, or with CAN FD one of the discrete ones.\<close>

definition dl_ok :: "'e CanTp_Sys \<Rightarrow> nat \<Rightarrow> bool" where
  "dl_ok S dl \<longleftrightarrow> \<not> CanTp_Prv_IsRxDlInValid S dl"

lemma length_addr_bytes: "af \<le> 3 \<Longrightarrow> length (addr_bytes af a) = CanTp_AddressSize af"
  by (auto simp: addr_bytes_def CanTp_AddressSize_def le_Suc_eq numeral_3_eq_3)

lemma AddressSize_le: "af \<le> 3 \<Longrightarrow> CanTp_AddressSize af \<le> 1"
  by (auto simp: CanTp_AddressSize_def le_Suc_eq numeral_3_eq_3)

lemma AddressSize_eq: "af \<le> 3 \<Longrightarrow> CanTp_AddressSize af = (if af = 0 then 0 else 1)"
  by (auto simp: CanTp_AddressSize_def le_Suc_eq numeral_3_eq_3)

lemma dl_ok_cases:
  "dl_ok S dl \<Longrightarrow> dl = 8 \<or> (CANTP_CANFD_SUPPORT S \<and> dl \<in> {12, 16, 20, 24, 32, 48, 64})"
  by (auto simp: dl_ok_def CanTp_Prv_IsRxDlInValid_def split: if_splits)

lemma dl_ok_range: "dl_ok S dl \<Longrightarrow> 8 \<le> dl \<and> dl \<le> 64"
  by (auto dest: dl_ok_cases)

lemma ArrayInit_apply: "CanTp_Prv_ArrayInit a p n v i = (if p \<le> i \<and> i < p + n then v else a i)"
  by (induction n arbitrary: a p) (auto simp: not_less_eq_eq le_antisym)

lemma CanDlTable_ge: "k \<le> 64 \<Longrightarrow> k \<le> CanTp_CanDlTable ! k \<and> CanTp_CanDlTable ! k \<le> 64"
proof -
  have "\<forall>k\<in>set [0..<65]. k \<le> CanTp_CanDlTable ! k \<and> CanTp_CanDlTable ! k \<le> 64"
    unfolding CanTp_CanDlTable_def by code_simp
  then show "k \<le> 64 \<Longrightarrow> ?thesis" by simp
qed

lemma GetCanDl_ge: "k \<le> 64 \<Longrightarrow> CANTP_CANFD_SUPPORT S \<or> k \<le> 8 \<Longrightarrow> k \<le> CanTp_Prv_GetCanDl S k \<and> CanTp_Prv_GetCanDl S k \<le> 64"
  using CanDlTable_ge [of k] by (auto simp: CanTp_Prv_GetCanDl_def)

lemma GetCanDl_dl: "dl_ok S dl \<Longrightarrow> CanTp_Prv_GetCanDl S dl = dl"
  by (auto simp: CanTp_Prv_GetCanDl_def CanTp_CanDlTable_def dest!: dl_ok_cases)

lemma padded_len_ge:
  "k \<le> 64 \<Longrightarrow> CANTP_CANFD_SUPPORT S \<or> k \<le> 8 \<Longrightarrow> k \<le> padded_len S b k \<and> padded_len S b k \<le> 64"
  using GetCanDl_ge [of k S] by (simp add: padded_len_def)

lemma padded_len_dl: "dl_ok S dl \<Longrightarrow> padded_len S b dl = dl"
  by (simp add: padded_len_def GetCanDl_dl)

lemma frame_layout:
  assumes "length hdr = off" "length bs = n" "off + n \<le> L"
  shows "rd (write_bytes 0 hdr (CanTp_Prv_ArrayInit (write_bytes off bs m) (off + n) (L - (off + n)) (CANTP_PADDING_BYTE S))) 0 L
         = frame_bytes S hdr bs L"
  using assms by (intro rd_eqI) (auto simp: frame_bytes_def write_bytes_apply ArrayInit_apply nth_append)

lemma frame_layout_full:
  assumes "length hdr = off" "length bs = n" "L = off + n"
  shows "rd (write_bytes 0 hdr (write_bytes off bs m)) 0 L = frame_bytes S hdr bs L"
  using frame_layout [of hdr off bs n L m S] assms by simp

lemma put_address_write:
  "put_address af a m = (write_bytes 0 (addr_bytes af a) m, length (addr_bytes af a))"
  by (simp add: put_address_def addr_bytes_def)

lemma write_bytes_snoc: "p + length xs = q \<Longrightarrow> (write_bytes p xs m)(q := x) = write_bytes p (xs @ [x]) m"
  by (induction xs arbitrary: p m) auto

lemma length_frame_bytes: "length hdr + length bs \<le> L \<Longrightarrow> length (frame_bytes S hdr bs L) = L"
  by (simp add: frame_bytes_def)

lemma u32_pad: "k \<le> L \<Longrightarrow> L \<le> 64 \<Longrightarrow> u32 (int L - int k) = L - k"
  by (simp add: u32_diff)

lemma u32_pad2: "a + b \<le> L \<Longrightarrow> L \<le> 64 \<Longrightarrow> u32 (int L - (int a + int b)) = L - (a + b)"
  using u32_pad [of "a + b" L] by simp

subsection \<open>What the assembly functions produce\<close>

abbreviation tx_conn :: "nat \<Rightarrow> 'e CanTp_GlobalType \<Rightarrow> CanTp_TxSduType" where
  "tx_conn c s \<equiv> TxSdu (cfgp s) (ch_ActiveSduId (CanTp_Channel s c))"

lemma cf_frame:
  assumes st: "CanTp_SubState s c = CANTP_TX_WAIT_FOR_TRANSMIT_CONFIRMATION"
    and conn: "conn = tx_conn c s" "tx_AddressFormatId conn \<le> 3" "dl_ok S (CanTp_Prv_GetTxDl S conn)"
    and off: "off = Suc (CanTp_AddressSize (tx_AddressFormatId conn))"
    and n: "n = min (CanTp_Prv_GetTxDl S conn - off) (ch_SduLengthRemaining (CanTp_Channel s c))"
    and L: "L = (if n < CanTp_Prv_GetTxDl S conn - off then padded_len S (tx_BitFields conn) (off + n) else CanTp_Prv_GetTxDl S conn)"
    and copy: "PduR_CanTpCopyTxData S (tx_PduRPduHandleId conn) n True (ext s) = (BUFREQ_OK, bs, av, e)" "length bs = n"
  shows "\<exists>m. CanTp_Prv_CreateTxConsecutiveFrame S c m0 l0 s = (E_OK, m, L, s\<lparr>ext := e\<rparr>) \<and>
     rd m 0 L = frame_bytes S (addr_bytes (tx_AddressFormatId conn) (tx_Address conn) @
                               [CANTP_CF_HIGHNIBBLE OR ch_SN (CanTp_Channel s c)]) bs L"
proof -
  let ?dl = "CanTp_Prv_GetTxDl S conn" and ?rem = "ch_SduLengthRemaining (CanTp_Channel s c)"
  let ?hdr = "addr_bytes (tx_AddressFormatId conn) (tx_Address conn) @ [CANTP_CF_HIGHNIBBLE OR ch_SN (CanTp_Channel s c)]"
  have a: "CanTp_AddressSize (tx_AddressFormatId conn) \<le> 1" using conn(2) by (rule AddressSize_le)
  have dl: "8 \<le> ?dl" "?dl \<le> 64" using dl_ok_range [OF conn(3)] by auto
  have offle: "off \<le> ?dl" "off \<le> 2" using a off dl by auto
  have hdr: "length ?hdr = off" using length_addr_bytes [OF conn(2)] off by simp
  have u: "u8 (int (CanTp_AddressSize (tx_AddressFormatId conn)) + 1) = off"
    using a off by (simp add: u8_def nat_add_distrib)
  have mx: "u8 (int ?dl - int off) = ?dl - off" using offle dl by (simp add: u8_diff)
  have n': "(if ?dl - off < ?rem then ?dl - off else u8 (int ?rem)) = n"
    using n dl by (auto simp: u8_of_nat)
  have fd: "CANTP_CANFD_SUPPORT S \<or> ?dl = 8" using dl_ok_cases [OF conn(3)] by auto
  have ondl: "off + n \<le> ?dl" using n offle by auto
  have pl: "off + n \<le> padded_len S (tx_BitFields conn) (off + n)" "padded_len S (tx_BitFields conn) (off + n) \<le> 64"
    using padded_len_ge [of "off + n" S "tx_BitFields conn"] ondl dl fd by auto
  have po: "u8 (int off + int n) = off + n" using ondl dl by (simp add: u8_def nat_add_distrib)
  have less: "?rem < ?dl - off \<longleftrightarrow> n < ?dl - off" using n by auto
  have wr: "(write_bytes 0 (addr_bytes (tx_AddressFormatId conn) (tx_Address conn)) m)
              (length (addr_bytes (tx_AddressFormatId conn) (tx_Address conn)) := x)
            = write_bytes 0 (addr_bytes (tx_AddressFormatId conn) (tx_Address conn) @ [x]) m" for x m
    by (simp add: write_bytes_snoc)
  show ?thesis
  proof (cases "n < ?dl - off")
    case True
    then have r: "?rem = n" "u8 (int n) = n" "\<not> ?dl - off < n" using n dl by (auto simp: u8_of_nat)
    show ?thesis
    proof (cases "CanTp_Prv_GetBit (tx_BitFields conn) CANTP_PADDINGON")
      case pad: True
      have "L = CanTp_Prv_GetCanDl S (off + n)" using True pad L by (simp add: padded_len_def)
      moreover have "off + n \<le> L" "L \<le> 64" using pl True L by auto
      ultimately show ?thesis
        using st copy hdr True pad frame_layout [OF hdr copy(2), of L m0 S]
        by (simp add: CanTp_Prv_CreateTxConsecutiveFrame_def Let_def conn(1) [symmetric] r u mx po put_address_write wr u32_pad2)
    next
      case False
      then have "L = off + n" using True L by (simp add: padded_len_def)
      with False st copy hdr True frame_layout_full [OF hdr copy(2), of L m0 S] show ?thesis
        by (simp add: CanTp_Prv_CreateTxConsecutiveFrame_def Let_def conn(1) [symmetric] r u mx po put_address_write wr)
    qed
  next
    case False
    then have d: "L = off + n" "?dl = off + n" and r: "(if n < ?rem then n else u8 (int ?rem)) = n" "\<not> ?rem < n"
      using L ondl n n' less by auto
    then have "n < ?rem \<or> ?rem = n \<and> u8 (int n) = n" by (auto split: if_splits)
    with False st copy hdr frame_layout_full [OF hdr copy(2), of L m0 S] mx d show ?thesis
      by (elim disjE) (simp_all add: CanTp_Prv_CreateTxConsecutiveFrame_def Let_def conn(1) [symmetric] u put_address_write wr)
  qed
qed

definition sf_pci :: "nat \<Rightarrow> nat \<Rightarrow> nat list" where
  "sf_pci PciId len = (if PciId = CANTP_NPCI_SFCAN then [len] else [0, len])"

definition ff_pci :: "nat \<Rightarrow> nat \<Rightarrow> nat list" where
  "ff_pci PciId len =
     (if PciId = CANTP_NPCI_FFCAN then [16 + len div 256, len mod 256]
      else [16, 0, len div 16777216 mod 256, len div 65536 mod 256, len div 256 mod 256, len mod 256])"

lemma length_pci:
  "PciId = CANTP_NPCI_SFCAN \<or> PciId = CANTP_NPCI_SFCANFD \<Longrightarrow> length (sf_pci PciId len) = CanTp_PciSize PciId"
  "PciId = CANTP_NPCI_FFCAN \<or> PciId = CANTP_NPCI_FFCANFD \<Longrightarrow> length (ff_pci PciId len) = CanTp_PciSize PciId"
  by (auto simp: sf_pci_def ff_pci_def CanTp_PciSize_def)

lemma u8_drop_bit: "u8 (int (drop_bit k n)) = n div 2 ^ k mod 256"
  by (simp add: u8_mod drop_bit_eq_div)

lemma PciSize_le: "i \<le> 3 \<Longrightarrow> CanTp_PciSize i \<le> 6"
  by (auto simp: CanTp_PciSize_def le_Suc_eq numeral_3_eq_3)

lemma sf_frame:
  assumes st: "CanTp_SubState s c = CANTP_TX_WAIT_FOR_TRANSMIT_CONFIRMATION"
    and conn: "conn = tx_conn c s" "tx_AddressFormatId conn \<le> 3"
    and pci: "pci = ch_PciId (CanTp_Channel s c)" "pci = CANTP_NPCI_SFCAN \<or> (pci = CANTP_NPCI_SFCANFD \<and> CANTP_CANFD_SUPPORT S)"
    and off: "off = CanTp_AddressSize (tx_AddressFormatId conn) + CanTp_PciSize pci"
    and n: "ch_SduLengthRemaining (CanTp_Channel s c) = n" "ch_SduLength (CanTp_Channel s c) = n"
    and fit: "off + n \<le> (if pci = CANTP_NPCI_SFCAN then 8 else 64)"
    and L: "L = padded_len S (tx_BitFields conn) (off + n)"
    and copy: "PduR_CanTpCopyTxData S (tx_PduRPduHandleId conn) n True (ext s) = (BUFREQ_OK, bs, av, e)" "length bs = n"
  shows "\<exists>m. CanTp_Prv_CreateTxSingleFrame S c m0 l0 s = (E_OK, m, L, s\<lparr>ext := e\<rparr>) \<and>
     rd m 0 L = frame_bytes S (addr_bytes (tx_AddressFormatId conn) (tx_Address conn) @ sf_pci pci n) bs L"
proof -
  let ?ab = "addr_bytes (tx_AddressFormatId conn) (tx_Address conn)"
  have hdr: "length (?ab @ sf_pci pci n) = off"
    using length_addr_bytes [OF conn(2)] length_pci(1) [of pci n] pci(2) off by auto
  have u: "u8 (int (CanTp_AddressSize (tx_AddressFormatId conn)) + int (CanTp_PciSize pci)) = off"
    using AddressSize_le [OF conn(2)] PciSize_le [of pci] pci(2) off by (auto simp: u8_add)
  have fd: "off + n \<le> 64" "CANTP_CANFD_SUPPORT S \<or> off + n \<le> 8" using fit pci(2) by (auto split: if_splits)
  have pl: "off + n \<le> L" "L \<le> 64" using padded_len_ge [OF fd] L by auto
  have po: "u8 (int off + int n) = off + n" "u8 (int n) = n" using fd(1) by (simp_all add: u8_add u8_of_nat)
  have w0: "(write_bytes 0 ?ab m)(length ?ab := x) = write_bytes 0 (?ab @ [x]) m" for x m
    by (simp add: write_bytes_snoc)
  have w1: "(write_bytes 0 (?ab @ [y]) m)(Suc (length ?ab) := x) = write_bytes 0 (?ab @ [y, x]) m" for x y m
    by (simp add: write_bytes_snoc)
  note defs = CanTp_Prv_CreateTxSingleFrame_def Let_def conn(1) [symmetric] pci(1) [symmetric] n u po put_address_write w0 w1
  show ?thesis
  proof (cases "CanTp_Prv_GetBit (tx_BitFields conn) CANTP_PADDINGON")
    case True
    then have "L = CanTp_Prv_GetCanDl S (off + n)" using L by (simp add: padded_len_def)
    with True st copy pl pci(2) frame_layout [OF hdr copy(2), of L m0 S] show ?thesis
      by (auto simp: defs u32_pad2 sf_pci_def)
  next
    case False
    then have "L = off + n" using L by (simp add: padded_len_def)
    with False st copy pci(2) frame_layout_full [OF hdr copy(2), of L m0 S] show ?thesis
      by (auto simp: defs sf_pci_def)
  qed
qed

lemma ff_frame:
  assumes st: "CanTp_SubState s c = CANTP_TX_WAIT_FOR_TRANSMIT_CONFIRMATION"
    and conn: "conn = tx_conn c s" "tx_AddressFormatId conn \<le> 3" "dl_ok S (CanTp_Prv_GetTxDl S conn)"
    and pci: "pci = ch_PciId (CanTp_Channel s c)" "pci = CANTP_NPCI_FFCAN \<or> (pci = CANTP_NPCI_FFCANFD \<and> CANTP_CANFD_SUPPORT S)"
    and off: "off = CanTp_AddressSize (tx_AddressFormatId conn) + CanTp_PciSize pci"
    and n: "n = CanTp_Prv_GetTxDl S conn - off"
    and len: "len = ch_SduLength (CanTp_Channel s c)" "len \<le> (if pci = CANTP_NPCI_FFCAN then 4095 else 4294967295)"
    and w: "7 \<le> PduLengthBits S"
    and copy: "PduR_CanTpCopyTxData S (tx_PduRPduHandleId conn) n True (ext s) = (BUFREQ_OK, bs, av, e)" "length bs = n"
  shows "\<exists>m. CanTp_Prv_CreateTxFirstFrame S c m0 l0 s = (E_OK, m, CanTp_Prv_GetTxDl S conn, s\<lparr>ext := e\<rparr>) \<and>
     rd m 0 (CanTp_Prv_GetTxDl S conn)
       = frame_bytes S (addr_bytes (tx_AddressFormatId conn) (tx_Address conn) @ ff_pci pci len) bs (CanTp_Prv_GetTxDl S conn)"
proof -
  let ?ab = "addr_bytes (tx_AddressFormatId conn) (tx_Address conn)" and ?dl = "CanTp_Prv_GetTxDl S conn"
  have hdr: "length (?ab @ ff_pci pci len) = off"
    using length_addr_bytes [OF conn(2)] length_pci(2) [of pci len] pci(2) off by auto
  have dl: "8 \<le> ?dl" "?dl \<le> 64" using dl_ok_range [OF conn(3)] by auto
  have o7: "off \<le> 7" using AddressSize_le [OF conn(2)] PciSize_le [of pci] pci(2) off by auto
  have u: "u8 (int (CanTp_AddressSize (tx_AddressFormatId conn)) + int (CanTp_PciSize pci)) = off"
    using AddressSize_le [OF conn(2)] PciSize_le [of pci] pci(2) off by (auto simp: u8_add)
  have "(2::nat) ^ 7 \<le> 2 ^ PduLengthBits S" using w by (intro power_increasing) auto
  then have un: "ulen S (int ?dl - int off) = n" using dl o7 n by (simp add: ubits_diff)
  have dln: "?dl = off + n" using n o7 dl by simp
  have upd: "((write_bytes 0 ?ab m)(length ?ab := x))(Suc (length ?ab) := y) = write_bytes 0 (?ab @ [x, y]) m" for x y m
    by (simp add: write_bytes_snoc)
  have upd6: "((write_bytes 0 ?ab m)(length ?ab := a, Suc (length ?ab) := b, Suc (Suc (length ?ab)) := c', length ?ab + 3 := d,
                 length ?ab + 4 := e', length ?ab + 5 := f)) = write_bytes 0 (?ab @ [a, b, c', d, e', f]) m" for a b c' d e' f m
    by (simp add: write_bytes_snoc)
  have hi: "u8 (16 + int (len div 256 mod 256)) = 16 + len div 256" if "len \<le> 4095"
  proof -
    have "len div 256 < 16" using that by (simp add: div_less_dividend less_mult_imp_div_less)
    then show ?thesis by (simp add: u8_def nat_add_distrib)
  qed
  have bytes: "u8 (int (drop_bit 8 len)) = len div 256 mod 256" "u8 (int len) = len mod 256"
     "u8 (int (drop_bit 16 len)) = len div 65536 mod 256" "u8 (int (drop_bit 24 len)) = len div 16777216 mod 256"
    by (simp_all add: u8_mod drop_bit_eq_div)
  note defs = CanTp_Prv_CreateTxFirstFrame_def Let_def conn(1) [symmetric] pci(1) [symmetric] len(1) [symmetric]
    u un put_address_write bytes
  from pci(2) show ?thesis
  proof
    assume p: "pci = CANTP_NPCI_FFCAN"
    with len(2) have "len \<le> 4095" by simp
    with p st copy frame_layout_full [OF hdr copy(2) dln, of m0 S] hi show ?thesis
      by (simp add: defs upd ff_pci_def u [unfolded p])
  next
    assume p: "pci = CANTP_NPCI_FFCANFD \<and> CANTP_CANFD_SUPPORT S"
    with st copy frame_layout_full [OF hdr copy(2) dln, of m0 S] show ?thesis
      by (simp add: defs upd6 ff_pci_def u [unfolded conjunct1 [OF p]])
  qed
qed

end
