(* ===== verification/CanTp_Tx.thy ===== *)
theory CanTp_Tx
  imports CanTp_Frame
begin

text \<open>
  The transmission side of CanTp: buffer negotiation with the upper layer, the hand-over to
  CanIf, and the state functions of \<^verbatim>\<open>CanTp_Prv.c\<close> that the main function runs for a channel in
  one of the \<^verbatim>\<open>CANTP_TX_...\<close> sub-states.
\<close>

definition CanTp_Prv_PageConfirmation ::
  "'e CanTp_Sys \<Rightarrow> CanTp_TxContextType \<Rightarrow> 'e CanTp_GlobalType \<Rightarrow> 'e CanTp_GlobalType" where
  "CanTp_Prv_PageConfirmation S ctx s =
     (let c = tc_ChannelId ctx in
      if ch_TxBufferStatus (CanTp_Channel s c) = CANTP_BUFFER_NOT_ASKED
      then let (_, _, _, e) = PduR_CanTpCopyTxData S (tc_PduRPduHandleId ctx) (tc_PayLoadLength ctx) True (ext s)
           in upd_ch c (ch_TxBufferStatus_update (\<lambda>_. CANTP_BUFFER_ASKED)) (s\<lparr>ext := e\<rparr>)
      else s)"

definition CanTp_Prv_GetTxBuffer ::
  "'e CanTp_Sys \<Rightarrow> CanTp_TxContextType \<Rightarrow> 'e CanTp_GlobalType \<Rightarrow> 'e CanTp_GlobalType" where
  "CanTp_Prv_GetTxBuffer S ctx s =
     (let c = tc_ChannelId ctx in
      if tc_ElapsedValue ctx < tc_CsTicks ctx
      then if ch_TxBufferStatus (CanTp_Channel s c) \<noteq> CANTP_BUFFER_AVAILABLE
           then let (r, _, RemBufSize, e) = PduR_CanTpCopyTxData S (tc_PduRPduHandleId ctx) 0 False (ext s);
                    s1 = s\<lparr>ext := e\<rparr>
                in case r of
                     BUFREQ_OK \<Rightarrow>
                       if tc_PayLoadLength ctx \<le> RemBufSize
                       then upd_ch c (ch_TxBufferStatus_update (\<lambda>_. CANTP_BUFFER_AVAILABLE)) s1
                       else if CANTP_PAGE_CONFIRMATION S then CanTp_Prv_PageConfirmation S ctx s1 else s1
                   | BUFREQ_E_BUSY \<Rightarrow> s1
                   | _ \<Rightarrow> set_sub c CANTP_IDLE
                            (CanTp_Prv_ReportRunTimeError S CANTP_MAINFUNCTION CANTP_E_COM
                              (CanTp_Prv_PduRConfirmation S (tc_PduRApiId ctx) (tc_PduRPduHandleId ctx) E_NOT_OK s1))
           else s
      else if ch_TxBufferStatus (CanTp_Channel s c) \<noteq> CANTP_BUFFER_AVAILABLE
           then set_sub c CANTP_IDLE
                  (CanTp_Prv_ReportRunTimeError S CANTP_MAINFUNCTION CANTP_E_TX_COM
                    (CanTp_Prv_PduRConfirmation S (tc_PduRApiId ctx) (tc_PduRPduHandleId ctx) E_NOT_OK s))
           else s)"

definition CanTp_Prv_CanIfTransmit ::
  "'e CanTp_Sys \<Rightarrow> CanTp_TxContextType \<Rightarrow> nat \<Rightarrow> 'e CanTp_GlobalType \<Rightarrow> 'e CanTp_GlobalType" where
  "CanTp_Prv_CanIfTransmit S ctx len s =
     (let (Result, data, n, s1) =
        (if CANTP_TRIGGER_TRANSMIT_API S \<and> CanTp_Prv_GetBit (tc_BitFields ctx) CANTP_TRIGGER_TRANSMIT_ON
         then (E_OK, None, len, s)
         else let (r, m, n, s') = CanTp_Prv_CreateFrame S (tc_ChannelId ctx) (uninit S) len s
              in (r, Some (rd m 0 n), n, s'))
      in if Result = E_OK
         then let s2 = set_conf (tc_TxConfirmationId ctx) (tc_ChannelId ctx) s1;
                  (r, e) = CanIf_TransmitFn S (tc_PduId ctx) data n (ext s2);
                  s3 = s2\<lparr>ext := e\<rparr>
              in if r \<noteq> E_OK
                 then set_conf (tc_TxConfirmationId ctx) (CANTP_INVALID_CHANNEL S)
                        (set_sub (tc_ChannelId ctx) CANTP_IDLE
                          (CanTp_Prv_ReportRunTimeError S CANTP_MAINFUNCTION CANTP_E_COM
                            (CanTp_Prv_PduRConfirmation S (tc_PduRApiId ctx) (tc_PduRPduHandleId ctx) E_NOT_OK s3)))
                 else s3
         else s1)"

definition CanTp_Prv_PrepareFcRecieve :: "'e CanTp_Sys \<Rightarrow> nat \<Rightarrow> 'e CanTp_GlobalType \<Rightarrow> 'e CanTp_GlobalType" where
  "CanTp_Prv_PrepareFcRecieve S c s =
     (let s1 =
        (if CANTP_FC_DISABLE_SUPPORT S \<and>
            CanTp_Prv_GetBit (tx_BitFields (TxSdu (cfgp s) (ch_ActiveSduId (CanTp_Channel s c)))) CANTP_FC_DISABLED
         then set_sub c CANTP_TX_SEND_CONSECUTIVE_FRAME
                (upd_ch c (\<lambda>ch. ch\<lparr>ch_BlockCfsRemaining := CanTp_Prv_GetTxBlockCfs S c s,
                                    ch_STminTicks := CANTP_DEFAULT_STMIN_TICKS S\<rparr>) s)
         else set_sub c CANTP_TX_WAIT_FOR_FLOWCONTROL_FRAME s)
      in upd_ch c (ch_PciId_update (\<lambda>_. CANTP_NPCI_FC)) s1)"

subsection \<open>State functions\<close>

text \<open>
  In \<^verbatim>\<open>CanTp_Prv_TxSendConsecutiveFrame\<close> and \<^verbatim>\<open>CanTp_Prv_TxTransmissionRequestAccepted\<close> a channel
  whose sub-state has changed leaves \<^verbatim>\<open>Connection\<close> null and the local
  \<^verbatim>\<open>TxConfirmationChannel\<close> at 0; \<open>free\<close> says that the channel is still in its sub-state and that local is
  \<^verbatim>\<open>CANTP_INVALID_CHANNEL\<close>.
\<close>

definition CanTp_Prv_TxSendConsecutiveFrame :: "'e CanTp_Sys \<Rightarrow> nat \<Rightarrow> 'e CanTp_GlobalType \<Rightarrow> 'e CanTp_GlobalType" where
  "CanTp_Prv_TxSendConsecutiveFrame S c s =
     (let Channel = CanTp_Channel s c;
          (Value, Elapsed) = CanTp_GetElapsedValue S (ch_InitialTicks Channel) s;
          conn = TxSdu (cfgp s) (ch_ActiveSduId Channel);
          free = CanTp_SubState s c = CANTP_TX_SEND_CONSECUTIVE_FRAME \<and>
                 CanTp_TxConfirmationChannel s (tx_TxConfirmationId conn) = CANTP_INVALID_CHANNEL S
      in if free
         then let CAN_DL = CanTp_Prv_GetTxDl S conn;
                  MaxLength = u8 (int CAN_DL - int CANTP_CF_PCISIZE - int (CanTp_AddressSize (tx_AddressFormatId conn)));
                  ctx = \<lparr>tc_PduRApiId = CANTP_TX_PDUR_CONFIRMATION,
                         tc_PayLoadLength = (if ch_SduLengthRemaining Channel < MaxLength
                                             then u8 (int (ch_SduLengthRemaining Channel)) else MaxLength),
                         tc_BitFields = tx_BitFields conn, tc_ChannelId = c,
                         tc_TxConfirmationId = tx_TxConfirmationId conn, tc_PduId = tx_TxPduId conn,
                         tc_PduRPduHandleId = tx_PduRPduHandleId conn, tc_RemBufSize = 0,
                         tc_Value = Value, tc_ElapsedValue = Elapsed,
                         tc_CsTicks = CsCrTicks (TimeOut (cfgp s) (tx_TimeOutId conn))\<rparr>;
                  s1 = CanTp_Prv_GetTxBuffer S ctx s
              in if ch_TxBufferStatus (CanTp_Channel s1 c) = CANTP_BUFFER_AVAILABLE \<and>
                    (ch_STminTicks (CanTp_Channel s1 c) \<le> Elapsed \<or> ch_PciId (CanTp_Channel s1 c) \<noteq> CANTP_NPCI_CF)
                 then upd_ch c (ch_TxBufferStatus_update (\<lambda>_. CANTP_BUFFER_NOT_ASKED))
                        (CanTp_Prv_CanIfTransmit S ctx CAN_DL
                          (set_sub c CANTP_TX_WAIT_FOR_TRANSMIT_CONFIRMATION
                            (upd_ch c (\<lambda>ch. ch\<lparr>ch_PciId := CANTP_NPCI_CF, ch_InitialTicks := Value\<rparr>) s1)))
                 else s1
         else s)"

definition CanTp_Prv_TxWaitForFlowControlFrame :: "'e CanTp_Sys \<Rightarrow> nat \<Rightarrow> 'e CanTp_GlobalType \<Rightarrow> 'e CanTp_GlobalType" where
  "CanTp_Prv_TxWaitForFlowControlFrame S c s =
     (let Channel = CanTp_Channel s c;
          (Value, Elapsed) = CanTp_GetElapsedValue S (ch_InitialTicks Channel) s;
          conn = TxSdu (cfgp s) (ch_ActiveSduId Channel)
      in if CanTp_SubState s c = CANTP_TX_WAIT_FOR_FLOWCONTROL_FRAME \<and>
            BsBrTicks (TimeOut (cfgp s) (tx_TimeOutId conn)) < Elapsed
         then set_sub c CANTP_IDLE
                (CanTp_Prv_ReportRunTimeError S CANTP_MAINFUNCTION CANTP_E_TX_COM
                  (CanTp_Prv_PduRConfirmation S CANTP_TX_PDUR_CONFIRMATION (tx_PduRPduHandleId conn) E_NOT_OK s))
         else s)"

definition CanTp_Prv_TxWaitForTransmitConfirmation :: "'e CanTp_Sys \<Rightarrow> nat \<Rightarrow> 'e CanTp_GlobalType \<Rightarrow> 'e CanTp_GlobalType" where
  "CanTp_Prv_TxWaitForTransmitConfirmation S c s =
     (let Channel = CanTp_Channel s c;
          (Value, Elapsed) = CanTp_GetElapsedValue S (ch_InitialTicks Channel) s;
          conn = TxSdu (cfgp s) (ch_ActiveSduId Channel)
      in if CanTp_SubState s c = CANTP_TX_WAIT_FOR_TRANSMIT_CONFIRMATION \<and>
            AsArTicks (TimeOut (cfgp s) (tx_TimeOutId conn)) < Elapsed
         then set_sub c CANTP_IDLE
                (set_conf (tx_TxConfirmationId conn) (CANTP_INVALID_CHANNEL S)
                  (CanTp_Prv_ReportRunTimeError S CANTP_MAINFUNCTION CANTP_E_TX_COM
                    (CanTp_Prv_PduRConfirmation S CANTP_TX_PDUR_CONFIRMATION (tx_PduRPduHandleId conn) E_NOT_OK s)))
         else s)"

definition CanTp_Prv_TxTransmissionRequestAccepted :: "'e CanTp_Sys \<Rightarrow> nat \<Rightarrow> 'e CanTp_GlobalType \<Rightarrow> 'e CanTp_GlobalType" where
  "CanTp_Prv_TxTransmissionRequestAccepted S c s =
     (let Channel = CanTp_Channel s c;
          (Value, Elapsed) = CanTp_GetElapsedValue S (ch_InitialTicks Channel) s;
          conn = TxSdu (cfgp s) (ch_ActiveSduId Channel);
          free = CanTp_SubState s c = CANTP_TX_TRANSMISSION_REQUEST_ACCEPTED \<and>
                 CanTp_TxConfirmationChannel s (tx_TxConfirmationId conn) = CANTP_INVALID_CHANNEL S
      in if free
         then let s0 = upd_ch c (\<lambda>ch. ch\<lparr>ch_BlockCfsRemaining := 0, ch_SduLengthRemaining := ch_SduLength ch, ch_SN := 1\<rparr>) s;
                  DataOffset = u8 (int (CanTp_AddressSize (tx_AddressFormatId conn)) + int (CanTp_PciSize (ch_PciId Channel)));
                  CAN_DL = CanTp_Prv_GetTxDl S conn;
                  ctx = \<lparr>tc_PduRApiId = CANTP_TX_PDUR_CONFIRMATION,
                         tc_PayLoadLength = (if CANTP_NPCI_FFCAN \<le> ch_PciId Channel
                                             then u8 (int CAN_DL - int DataOffset) else u8 (int (ch_SduLength Channel))),
                         tc_BitFields = tx_BitFields conn, tc_ChannelId = c,
                         tc_TxConfirmationId = tx_TxConfirmationId conn, tc_PduId = tx_TxPduId conn,
                         tc_PduRPduHandleId = tx_PduRPduHandleId conn, tc_RemBufSize = 0,
                         tc_Value = Value, tc_ElapsedValue = Elapsed,
                         tc_CsTicks = CsCrTicks (TimeOut (cfgp s) (tx_TimeOutId conn))\<rparr>;
                  s1 = CanTp_Prv_GetTxBuffer S ctx s0
              in if ch_TxBufferStatus (CanTp_Channel s1 c) = CANTP_BUFFER_AVAILABLE
                 then upd_ch c (ch_TxBufferStatus_update (\<lambda>_. CANTP_BUFFER_NOT_ASKED))
                        (CanTp_Prv_CanIfTransmit S ctx CAN_DL
                          (set_sub c CANTP_TX_WAIT_FOR_TRANSMIT_CONFIRMATION
                            (upd_ch c (ch_InitialTicks_update (\<lambda>_. Value)) s1)))
                 else s1
         else if AsArTicks (TimeOut (cfgp s) (tx_TimeOutId conn)) < Elapsed
              then set_conf (tx_TxConfirmationId conn) (CANTP_INVALID_CHANNEL S)
                     (CanTp_Prv_ReportRunTimeError S CANTP_MAINFUNCTION CANTP_E_TX_COM
                       (CanTp_Prv_PduRConfirmation S CANTP_TX_PDUR_CONFIRMATION (tx_PduRPduHandleId conn) E_NOT_OK s))
              else s)"

end
