(* ===== verification/CanTp_Rx.thy ===== *)
theory CanTp_Rx
  imports CanTp_Tx
begin

text \<open>
  The reception side of CanTp: what \<^verbatim>\<open>CanTp_RxIndication\<close> does with each kind of frame
  (\<^verbatim>\<open>CanTp_Prv_ProcessRx...Frame\<close>), flow control, and the state functions of the
  \<^verbatim>\<open>CANTP_RX_...\<close> sub-states. Flow-control frames received belong to a transmission.
\<close>

subsection \<open>Acceptance and block bookkeeping\<close>

definition CanTp_Prv_GetConnectionAcceptance ::
  "'e CanTp_Sys \<Rightarrow> CanTp_RxContextType \<Rightarrow> PduInfoType \<Rightarrow> 'e CanTp_GlobalType \<Rightarrow> Std_ReturnType \<times> 'e CanTp_GlobalType" where
  "CanTp_Prv_GetConnectionAcceptance S ctx pdu s =
     (let c = rc_ChannelId ctx;
          OldChannelState = CanTp_Prv_GetState c s;
          FdOk = (case CanTp_FdCallOut S of None \<Rightarrow> True | Some f \<Rightarrow> f (rc_PduId ctx) pdu (rc_IsFdEnabled ctx) = E_OK)
      in if FdOk
         then if OldChannelState = STATE_IDLE
              then (E_OK, set_sub c CANTP_RX_RECEPTION_REQUEST_ACCEPTED s)
              else if OldChannelState = CANTP_RECEPTION \<and> ch_ActiveSduId (CanTp_Channel s c) = rc_SduId ctx
              then (E_OK, set_sub c CANTP_RX_RECEPTION_REQUEST_ACCEPTED
                            (CanTp_Prv_PduRConfirmation S CANTP_RX_PDUR_CONFIRMATION (rc_PduRPduHandleId ctx) E_NOT_OK s))
              else (E_NOT_OK, s)
         else (E_NOT_OK, s))"

definition CanTp_Prv_SetTxBlockInfo ::
  "'e CanTp_Sys \<Rightarrow> CanTp_RxContextType \<Rightarrow> mem \<Rightarrow> 'e CanTp_GlobalType \<Rightarrow> 'e CanTp_GlobalType" where
  "CanTp_Prv_SetTxBlockInfo S ctx Data s =
     (let c = rc_ChannelId ctx;
          BS = Data (rc_DataOffset ctx);
          ST = Data (rc_DataOffset ctx + 1);
          us = (if ST \<le> CANTP_MILLISEC_MAX_RANGE then ST * 1000
                else if ST < CANTP_MICROSEC_MIN_RANGE \<or> CANTP_MICROSEC_MAX_RANGE < ST then 127000
                else (ST AND CANTP_LOWERNIBBLE_MASK) * 100);
          s1 = (if CANTP_DYNAMIC_FC_SUPPORT S \<or> ch_STminTicks (CanTp_Channel s c) = CANTP_INVALID_STMIN_TICKS S
                then upd_ch c (\<lambda>ch. ch\<lparr>ch_BS := BS, ch_STminTicks := ubits (TickBits S) (int (CanTp_Cfg_GetUsToTicks S us))\<rparr>) s
                else s);
          BlockCfs = CanTp_Prv_GetTxBlockCfs S c s1;
          bs = ch_BS (CanTp_Channel s1 c)
      in upd_ch c (ch_BlockCfsRemaining_update (\<lambda>_. if bs = 0 \<or> BlockCfs < bs then BlockCfs else bs)) s1)"

definition CanTp_Prv_SetRxBlockInfo :: "'e CanTp_Sys \<Rightarrow> nat \<Rightarrow> nat \<Rightarrow> 'e CanTp_GlobalType \<Rightarrow> 'e CanTp_GlobalType" where
  "CanTp_Prv_SetRxBlockInfo S c RemBufSize s =
     (let Channel = CanTp_Channel s c;
          conn = RxSdu (cfgp s) (ch_ActiveSduId Channel);
          OneFramePayloadLength = ulen S (int (CanTp_Prv_GetRxDl S c s) - int (CanTp_AddressSize (rx_AddressFormatId conn)) - int CANTP_CF_PCISIZE);
          Rem = ch_SduLengthRemaining Channel;
          BS = (if CANTP_DYNAMIC_FC_SUPPORT S \<or> ch_STminTicks Channel = CANTP_INVALID_STMIN_TICKS S
                then let BSMax = CanTp_Prv_GetRxParam S (ch_ActiveSduId Channel) TP_BS s in
                     if Rem \<le> RemBufSize then BSMax
                     else let b = u8 (int (RemBufSize div OneFramePayloadLength)) in
                          if BSMax \<noteq> 0 \<and> BSMax < b then BSMax else b
                else ch_BS Channel);
          Wait = (BS = 0 \<and> RemBufSize < Rem) \<or> (BS \<noteq> 0 \<and> RemBufSize < BS * OneFramePayloadLength \<and> RemBufSize < Rem)
      in upd_ch c
           (\<lambda>ch. if Wait then ch\<lparr>ch_FlowStatus := CANTP_FC_WAIT, ch_BS := BS\<rparr>
                 else (if CANTP_DYNAMIC_FC_SUPPORT S then id else ch_STminTicks_update (\<lambda>_. 0))
                        (ch\<lparr>ch_BlockCfsRemaining := (if BS \<noteq> 0 then BS else CanTp_Prv_GetRxBlockCfs S c s),
                            ch_FlowStatus := CANTP_FC_CTS, ch_BS := BS\<rparr>)) s)"

definition CanTp_Prv_PrepareFcTransmit :: "nat \<Rightarrow> 'e CanTp_GlobalType \<Rightarrow> 'e CanTp_GlobalType" where
  "CanTp_Prv_PrepareFcTransmit c s =
     (if ch_BlockCfsRemaining (CanTp_Channel s c) = 0
      then set_sub c CANTP_RX_SEND_FC (upd_ch c (\<lambda>ch. ch\<lparr>ch_FcWait := 0, ch_FlowStatus := CANTP_FC_WAIT\<rparr>) s)
      else s)"

definition CanTp_Prv_FcTxConfirmation :: "'e CanTp_Sys \<Rightarrow> nat \<Rightarrow> 'e CanTp_GlobalType \<Rightarrow> 'e CanTp_GlobalType" where
  "CanTp_Prv_FcTxConfirmation S c s =
     (let Channel = CanTp_Channel s c;
          conn = RxSdu (cfgp s) (ch_ActiveSduId Channel)
      in if ch_FlowStatus Channel = CANTP_FC_CTS then set_sub c CANTP_RX_WAIT_FOR_CONSECUTIVE_FRAME s
         else if ch_FlowStatus Channel = CANTP_FC_WAIT
         then set_sub c (if 0 < ch_SduLengthRemaining Channel then CANTP_RX_SEND_FC else CANTP_IDLE) s
         else if ch_FlowStatus Channel = CANTP_FC_OVERFLOW
         then set_sub c CANTP_IDLE
                (CanTp_Prv_PduRConfirmation S CANTP_RX_PDUR_CONFIRMATION (rx_PduRPduHandleId conn) E_NOT_OK s)
         else s)"

definition CanTp_Prv_FcTransmit ::
  "'e CanTp_Sys \<Rightarrow> CanTp_TxContextType \<Rightarrow> nat \<Rightarrow> bool \<Rightarrow> nat \<Rightarrow> 'e CanTp_GlobalType \<Rightarrow> 'e CanTp_GlobalType" where
  "CanTp_Prv_FcTransmit S ctx len IsFcTransmitReady Value s =
     (let c = tc_ChannelId ctx in
      if IsFcTransmitReady \<and> CanTp_SubState s c = CANTP_RX_SEND_FC
      then let s1 = set_sub c CANTP_RX_WAIT_FOR_FCTRANSMIT_CONFIRMATION
                      (upd_ch c (\<lambda>ch. ch\<lparr>ch_InitialTicks := Value, ch_PciId := CANTP_NPCI_FC\<rparr>) s);
               Channel = CanTp_Channel s1 c
           in if CANTP_FC_DISABLE_SUPPORT S \<and>
                 CanTp_Prv_GetBit (rx_BitFields (RxSdu (cfgp s1) (ch_ActiveSduId Channel))) CANTP_FC_DISABLED
              then if ch_FlowStatus Channel \<noteq> CANTP_FC_OVERFLOW \<and> ch_SduLengthRemaining Channel \<le> tc_RemBufSize ctx
                   then set_sub c CANTP_RX_WAIT_FOR_CONSECUTIVE_FRAME
                          (upd_ch c (\<lambda>ch. ch\<lparr>ch_BlockCfsRemaining := CanTp_Prv_GetRxBlockCfs S c s1,
                                              ch_STminTicks := CANTP_DEFAULT_STMIN_TICKS S\<rparr>) s1)
                   else set_sub c CANTP_IDLE
                          (CanTp_Prv_PduRConfirmation S (tc_PduRApiId ctx) (tc_PduRPduHandleId ctx) E_NOT_OK s1)
              else CanTp_Prv_CanIfTransmit S ctx len s1
      else s)"

definition CanTp_Prv_LengthError ::
  "'e CanTp_Sys \<Rightarrow> CanTp_RxContextType \<Rightarrow> 'e CanTp_GlobalType \<Rightarrow> 'e CanTp_GlobalType" where
  "CanTp_Prv_LengthError S ctx s =
     (let c = rc_ChannelId ctx;
          Api = (if rc_FrameType ctx = CANTP_FLOWCONTROL_FRAME then CANTP_TX_PDUR_CONFIRMATION else CANTP_RX_PDUR_CONFIRMATION);
          s1 = (if CanTp_SubState s c = CANTP_TX_WAIT_FOR_FLOWCONTROL_FRAME \<or>
                   CanTp_SubState s c = CANTP_RX_WAIT_FOR_CONSECUTIVE_FRAME
                then set_sub c CANTP_IDLE (CanTp_Prv_PduRConfirmation S Api (rc_PduRPduHandleId ctx) E_NOT_OK s)
                else s)
      in if rc_IsPaddingOn ctx then CanTp_Prv_ReportError S CANTP_RXINDICATION CANTP_E_PADDING s1
         else CanTp_Prv_ReportRunTimeError S CANTP_RXINDICATION CANTP_E_COM s1)"

subsection \<open>Processing a received frame\<close>

definition CanTp_Prv_ProcessRxSingleFrame ::
  "'e CanTp_Sys \<Rightarrow> CanTp_RxContextType \<Rightarrow> PduInfoType \<Rightarrow> mem \<Rightarrow> 'e CanTp_GlobalType \<Rightarrow> 'e CanTp_GlobalType" where
  "CanTp_Prv_ProcessRxSingleFrame S ctx pdu Data s =
     (let c = rc_ChannelId ctx;
          h = rc_PduRPduHandleId ctx;
          (Value, Elapsed) = CanTp_GetElapsedValue S 0 s;
          Sdu = rd Data (rc_DataOffset ctx) (rc_SduLength ctx);
          (r, s1) = CanTp_Prv_GetConnectionAcceptance S ctx pdu s
      in if r = E_OK
         then let s2 = upd_ch c (\<lambda>ch. ch\<lparr>ch_ActiveSduId := rc_SduId ctx, ch_SduLength := rc_SduLength ctx,
                                         ch_SduLengthRemaining := rc_SduLength ctx\<rparr>) s1;
                  s3 = upd_ch c (ch_InitialTicks_update (\<lambda>_. Value)) (CanTp_Prv_SetRxDl S c (u8 (int (SduLength pdu))) s2);
                  (q, RemBufSize, e) = PduR_CanTpStartOfReception S h Sdu (rc_SduLength ctx) (ext s3);
                  s4 = s3\<lparr>ext := e\<rparr>;
                  s5 = (case q of
                          BUFREQ_OK \<Rightarrow>
                            if rc_SduLength ctx \<le> RemBufSize
                            then let (q', _, e') = PduR_CanTpCopyRxData S h (Some Sdu) (ext s4)
                                 in CanTp_Prv_PduRConfirmation S CANTP_RX_PDUR_CONFIRMATION h
                                      (if q' \<noteq> BUFREQ_OK then E_NOT_OK else E_OK) (s4\<lparr>ext := e'\<rparr>)
                            else CanTp_Prv_PduRConfirmation S CANTP_RX_PDUR_CONFIRMATION h E_NOT_OK s4
                        | BUFREQ_E_OVFL \<Rightarrow> CanTp_Prv_PduRConfirmation S CANTP_RX_PDUR_CONFIRMATION h E_NOT_OK s4
                        | _ \<Rightarrow> s4)
              in set_sub c CANTP_IDLE s5
         else s1)"

definition CanTp_Prv_ProcessRxFirstFrame ::
  "'e CanTp_Sys \<Rightarrow> CanTp_RxContextType \<Rightarrow> PduInfoType \<Rightarrow> mem \<Rightarrow> 'e CanTp_GlobalType \<Rightarrow> 'e CanTp_GlobalType" where
  "CanTp_Prv_ProcessRxFirstFrame S ctx pdu Data s =
     (let c = rc_ChannelId ctx;
          h = rc_PduRPduHandleId ctx;
          (Value, Elapsed) = CanTp_GetElapsedValue S 0 s;
          PayLoadLength = u8 (int (SduLength pdu) - int (rc_DataOffset ctx));
          Sdu = rd Data (rc_DataOffset ctx) PayLoadLength;
          (r, s1) = CanTp_Prv_GetConnectionAcceptance S ctx pdu s
      in if r = E_OK
         then let s2 = upd_ch c (\<lambda>ch. ch\<lparr>ch_ActiveSduId := rc_SduId ctx, ch_SduLength := rc_SduLength ctx\<rparr>) s1;
                  s3 = upd_ch c (ch_InitialTicks_update (\<lambda>_. Value)) (CanTp_Prv_SetRxDl S c (u8 (int (SduLength pdu))) s2);
                  (q, RemBufSize, e) = PduR_CanTpStartOfReception S h Sdu (rc_SduLength ctx) (ext s3);
                  s4 = s3\<lparr>ext := e\<rparr>;
                  (NewSubState, FlowStatus, s5) =
                    (case q of
                       BUFREQ_OK \<Rightarrow>
                         if PayLoadLength \<le> RemBufSize
                         then let (q', _, e') = PduR_CanTpCopyRxData S h (Some Sdu) (ext s4);
                                  s4' = s4\<lparr>ext := e'\<rparr>
                              in if q' \<noteq> BUFREQ_OK
                                 then (CANTP_IDLE, CANTP_FC_WAIT,
                                       CanTp_Prv_ReportRunTimeError S CANTP_RXINDICATION CANTP_E_COM
                                         (CanTp_Prv_PduRConfirmation S CANTP_RX_PDUR_CONFIRMATION h E_NOT_OK s4'))
                                 else (CANTP_RX_SEND_FC, CANTP_FC_WAIT,
                                       upd_ch c (\<lambda>ch. ch\<lparr>ch_SduLengthRemaining := ulen S (int (rc_SduLength ctx) - int PayLoadLength),
                                                         ch_BS := 0, ch_STminTicks := CANTP_INVALID_STMIN_TICKS S,
                                                         ch_FcWait := 0, ch_SN := 1\<rparr>) s4')
                         else (CANTP_IDLE, CANTP_FC_WAIT,
                               CanTp_Prv_PduRConfirmation S CANTP_RX_PDUR_CONFIRMATION h E_NOT_OK s4)
                     | BUFREQ_E_OVFL \<Rightarrow> (CANTP_RX_SEND_FC, CANTP_FC_OVERFLOW, upd_ch c (ch_BS_update (\<lambda>_. 0)) s4)
                     | _ \<Rightarrow> (CANTP_IDLE, CANTP_FC_WAIT, s4))
              in if CanTp_SubState s5 c = CANTP_RX_RECEPTION_REQUEST_ACCEPTED
                 then set_sub c NewSubState (upd_ch c (ch_FlowStatus_update (\<lambda>_. FlowStatus)) s5)
                 else s5
         else s1)"

definition CanTp_Prv_ProcessRxConsecutiveFrame ::
  "'e CanTp_Sys \<Rightarrow> CanTp_RxContextType \<Rightarrow> mem \<Rightarrow> 'e CanTp_GlobalType \<Rightarrow> 'e CanTp_GlobalType" where
  "CanTp_Prv_ProcessRxConsecutiveFrame S ctx Data s =
     (let c = rc_ChannelId ctx;
          h = rc_PduRPduHandleId ctx;
          Channel = CanTp_Channel s c;
          (Value, Elapsed) = CanTp_GetElapsedValue S (ch_InitialTicks Channel) s;
          PayloadLength = u8 (int (rc_CAN_DL ctx) - int (rc_DataOffset ctx))
      in if CanTp_SubState s c = CANTP_RX_WAIT_FOR_CONSECUTIVE_FRAME \<and> rc_SduId ctx = ch_ActiveSduId Channel \<and>
            0 < ch_BlockCfsRemaining Channel
         then if CANTP_STRICT_BSCRTIMEOUT_CHECK S \<and>
                 CsCrTicks (TimeOut (cfgp s) (rx_TimeOutId (RxSdu (cfgp s) (rc_SduId ctx)))) < Elapsed
              then set_sub c CANTP_IDLE
                     (CanTp_Prv_ReportRunTimeError S CANTP_RXINDICATION CANTP_E_RX_COM
                       (CanTp_Prv_PduRConfirmation S CANTP_RX_PDUR_CONFIRMATION h E_NOT_OK s))
              else let (NotifyValue, s1) =
                     (if rc_SN ctx = ch_SN Channel
                      then let n = (if PayloadLength < ch_SduLengthRemaining Channel then PayloadLength
                                    else u8 (int (ch_SduLengthRemaining Channel)));
                               s0 = upd_ch c (ch_InitialTicks_update (\<lambda>_. Value)) s;
                               (q, _, e) = PduR_CanTpCopyRxData S h (Some (rd Data (rc_DataOffset ctx) n)) (ext s0);
                               s0' = s0\<lparr>ext := e\<rparr>
                           in if q = BUFREQ_OK
                              then let s0'' = CanTp_Prv_PrepareFcTransmit c
                                     (upd_ch c (\<lambda>ch. ch\<lparr>ch_SN := u8 (int (ch_SN ch) + 1) AND CANTP_LOWERNIBBLE_MASK,
                                                        ch_SduLengthRemaining := ulen S (int (ch_SduLengthRemaining ch) - int n),
                                                        ch_BlockCfsRemaining := ulen S (int (ch_BlockCfsRemaining ch) - 1)\<rparr>) s0')
                                   in (if ch_SduLengthRemaining (CanTp_Channel s0'' c) \<noteq> 0 then None else Some E_OK, s0'')
                              else (Some E_NOT_OK, s0')
                      else (Some E_NOT_OK, s))
                   in case NotifyValue of
                        None \<Rightarrow> s1
                      | Some v \<Rightarrow> set_sub c CANTP_IDLE (CanTp_Prv_PduRConfirmation S CANTP_RX_PDUR_CONFIRMATION h v s1)
         else s)"

definition CanTp_Prv_ProcessRxFlowControlFrame ::
  "'e CanTp_Sys \<Rightarrow> CanTp_RxContextType \<Rightarrow> mem \<Rightarrow> 'e CanTp_GlobalType \<Rightarrow> 'e CanTp_GlobalType" where
  "CanTp_Prv_ProcessRxFlowControlFrame S ctx Data s =
     (let c = rc_ChannelId ctx;
          h = rc_PduRPduHandleId ctx;
          Channel = CanTp_Channel s c;
          (Value, Elapsed) = CanTp_GetElapsedValue S (ch_InitialTicks Channel) s
      in if CanTp_SubState s c = CANTP_TX_WAIT_FOR_FLOWCONTROL_FRAME
         then if CANTP_STRICT_BSCRTIMEOUT_CHECK S \<and>
                 BsBrTicks (TimeOut (cfgp s) (tx_TimeOutId (TxSdu (cfgp s) (ch_ActiveSduId Channel)))) < Elapsed
              then set_sub c CANTP_IDLE
                     (CanTp_Prv_ReportRunTimeError S CANTP_RXINDICATION CANTP_E_TX_COM
                       (CanTp_Prv_PduRConfirmation S CANTP_TX_PDUR_CONFIRMATION h E_NOT_OK s))
              else let s1 = upd_ch c (ch_InitialTicks_update (\<lambda>_. Value)) s in
                   if rc_FlowStatus ctx = CANTP_FC_WAIT
                   then upd_ch c (ch_FlowStatus_update (\<lambda>_. CANTP_FC_WAIT)) s1
                   else if rc_FlowStatus ctx = CANTP_FC_CTS
                   then set_sub c CANTP_TX_SEND_CONSECUTIVE_FRAME
                          (CanTp_Prv_SetTxBlockInfo S ctx Data (upd_ch c (ch_FlowStatus_update (\<lambda>_. CANTP_FC_CTS)) s1))
                   else set_sub c CANTP_IDLE (CanTp_Prv_PduRConfirmation S CANTP_TX_PDUR_CONFIRMATION h E_NOT_OK s1)
         else s)"

text \<open>\<^verbatim>\<open>CanTp_Prv_ProcessFrame\<close>: the table \<^verbatim>\<open>CanTp_ProcessFrame\<close> indexed by the frame type.\<close>

definition CanTp_Prv_ProcessFrame ::
  "'e CanTp_Sys \<Rightarrow> CanTp_RxContextType \<Rightarrow> PduInfoType \<Rightarrow> mem \<Rightarrow> 'e CanTp_GlobalType \<Rightarrow> 'e CanTp_GlobalType" where
  "CanTp_Prv_ProcessFrame S ctx pdu Data s =
     (if rc_FrameType ctx = CANTP_SINGLE_FRAME then CanTp_Prv_ProcessRxSingleFrame S ctx pdu Data s
      else if rc_FrameType ctx = CANTP_FIRST_FRAME then CanTp_Prv_ProcessRxFirstFrame S ctx pdu Data s
      else if rc_FrameType ctx = CANTP_CONSECUTIVE_FRAME then CanTp_Prv_ProcessRxConsecutiveFrame S ctx Data s
      else CanTp_Prv_ProcessRxFlowControlFrame S ctx Data s)"

subsection \<open>State functions\<close>

definition CanTp_Prv_RxReceptionRequestAccepted :: "'e CanTp_Sys \<Rightarrow> nat \<Rightarrow> 'e CanTp_GlobalType \<Rightarrow> 'e CanTp_GlobalType" where
  "CanTp_Prv_RxReceptionRequestAccepted S c s =
     (let Channel = CanTp_Channel s c;
          (Value, Elapsed) = CanTp_GetElapsedValue S (ch_InitialTicks Channel) s;
          conn = RxSdu (cfgp s) (ch_ActiveSduId Channel)
      in if CanTp_SubState s c = CANTP_RX_RECEPTION_REQUEST_ACCEPTED \<and>
            BsBrTicks (TimeOut (cfgp s) (rx_TimeOutId conn)) < Elapsed
         then set_sub c CANTP_IDLE
                (CanTp_Prv_ReportRunTimeError S CANTP_MAINFUNCTION CANTP_E_RX_COM
                  (CanTp_Prv_PduRConfirmation S CANTP_RX_PDUR_CONFIRMATION (rx_PduRPduHandleId conn) E_NOT_OK s))
         else s)"

text \<open>
  \<^verbatim>\<open>CanTp_Prv_RxSendFlowControlFrame\<close>: ask the upper layer for room, decide between
  continue-to-send and wait, and hand the flow-control frame over.
\<close>

definition CanTp_Prv_RxSendFlowControlFrame :: "'e CanTp_Sys \<Rightarrow> nat \<Rightarrow> 'e CanTp_GlobalType \<Rightarrow> 'e CanTp_GlobalType" where
  "CanTp_Prv_RxSendFlowControlFrame S c s =
     (let Channel = CanTp_Channel s c;
          (Value, Elapsed) = CanTp_GetElapsedValue S (ch_InitialTicks Channel) s;
          conn = RxSdu (cfgp s) (ch_ActiveSduId Channel);
          h = rx_PduRPduHandleId conn;
          IsFcReady0 = CANTP_FC_WAIT < ch_FlowStatus Channel
      in if CanTp_SubState s c = CANTP_RX_SEND_FC \<and>
            CanTp_TxConfirmationChannel s (rx_TxConfirmationId conn) = CANTP_INVALID_CHANNEL S
         then let s0 = upd_ch c (ch_BlockCfsRemaining_update (\<lambda>_. 0)) s;
                  (IsFcReady, RemBufSize, s1) =
                    (if ch_FlowStatus Channel \<noteq> CANTP_FC_OVERFLOW
                     then let (q, Rem, e) = PduR_CanTpCopyRxData S h None (ext s0);
                              s0' = s0\<lparr>ext := e\<rparr>;
                              (rdy, sa) =
                                (if q \<noteq> BUFREQ_OK
                                 then (False, set_sub c CANTP_IDLE
                                         (CanTp_Prv_ReportRunTimeError S CANTP_MAINFUNCTION CANTP_E_COM
                                           (CanTp_Prv_PduRConfirmation S CANTP_RX_PDUR_CONFIRMATION h E_NOT_OK s0')))
                                 else if ch_FlowStatus Channel \<noteq> CANTP_FC_CTS
                                 then let sb = CanTp_Prv_SetRxBlockInfo S c Rem s0'
                                      in (if ch_FlowStatus (CanTp_Channel sb c) \<noteq> CANTP_FC_CTS then IsFcReady0 else True, sb)
                                 else (IsFcReady0, s0'));
                              ch = CanTp_Channel sa c
                          in if ch_FlowStatus ch = CANTP_FC_WAIT \<and>
                                (BsBrTicks (TimeOut (cfgp s) (rx_TimeOutId conn)) \<le> Elapsed \<or> ch_FcWait ch = 0)
                             then if ch_FcWait ch < p_FcWaitMax (Param (cfgp s) (rx_ParamId (RxSdu (cfgp s) (ch_ActiveSduId ch))))
                                  then (True, Rem, upd_ch c (\<lambda>k. k\<lparr>ch_FcWait := u16 (int (ch_FcWait k) + 1), ch_InitialTicks := Value\<rparr>) sa)
                                  else (rdy, Rem, set_sub c CANTP_IDLE
                                          (CanTp_Prv_ReportRunTimeError S CANTP_MAINFUNCTION CANTP_E_RX_COM
                                            (CanTp_Prv_PduRConfirmation S CANTP_RX_PDUR_CONFIRMATION h E_NOT_OK sa)))
                             else (rdy, Rem, sa)
                     else (IsFcReady0, 0, s0));
                  ctx = \<lparr>tc_PduRApiId = CANTP_RX_PDUR_CONFIRMATION, tc_PayLoadLength = 0,
                         tc_BitFields = rx_BitFields conn, tc_ChannelId = c,
                         tc_TxConfirmationId = rx_TxConfirmationId conn, tc_PduId = rx_TxPduId conn,
                         tc_PduRPduHandleId = h, tc_RemBufSize = RemBufSize,
                         tc_Value = 0, tc_ElapsedValue = 0, tc_CsTicks = 0\<rparr>
              in CanTp_Prv_FcTransmit S ctx CANTP_DEFAULT_CAN_DL IsFcReady Value s1
         else s)"

definition CanTp_Prv_RxWaitForFcTransmitConfirmation :: "'e CanTp_Sys \<Rightarrow> nat \<Rightarrow> 'e CanTp_GlobalType \<Rightarrow> 'e CanTp_GlobalType" where
  "CanTp_Prv_RxWaitForFcTransmitConfirmation S c s =
     (let Channel = CanTp_Channel s c;
          (Value, Elapsed) = CanTp_GetElapsedValue S (ch_InitialTicks Channel) s;
          conn = RxSdu (cfgp s) (ch_ActiveSduId Channel)
      in if CanTp_SubState s c = CANTP_RX_WAIT_FOR_FCTRANSMIT_CONFIRMATION \<and>
            AsArTicks (TimeOut (cfgp s) (rx_TimeOutId conn)) < Elapsed
         then set_sub c CANTP_IDLE
                (set_conf (rx_TxConfirmationId conn) (CANTP_INVALID_CHANNEL S)
                  (CanTp_Prv_ReportRunTimeError S CANTP_MAINFUNCTION CANTP_E_RX_COM
                    (CanTp_Prv_PduRConfirmation S CANTP_RX_PDUR_CONFIRMATION (rx_PduRPduHandleId conn) E_NOT_OK s)))
         else s)"

definition CanTp_Prv_RxWaitForConsecutiveFrame :: "'e CanTp_Sys \<Rightarrow> nat \<Rightarrow> 'e CanTp_GlobalType \<Rightarrow> 'e CanTp_GlobalType" where
  "CanTp_Prv_RxWaitForConsecutiveFrame S c s =
     (let Channel = CanTp_Channel s c;
          (Value, Elapsed) = CanTp_GetElapsedValue S (ch_InitialTicks Channel) s;
          conn = RxSdu (cfgp s) (ch_ActiveSduId Channel)
      in if CanTp_SubState s c = CANTP_RX_WAIT_FOR_CONSECUTIVE_FRAME \<and>
            CsCrTicks (TimeOut (cfgp s) (rx_TimeOutId conn)) < Elapsed
         then set_sub c CANTP_IDLE
                (CanTp_Prv_ReportRunTimeError S CANTP_MAINFUNCTION CANTP_E_RX_COM
                  (CanTp_Prv_PduRConfirmation S CANTP_RX_PDUR_CONFIRMATION (rx_PduRPduHandleId conn) E_NOT_OK s))
         else s)"

end
