(* ===== verification/CanTp_Queue.thy ===== *)
theory CanTp_Queue
  imports CanTp_Model
begin

text \<open>
  The burst queue of \<^verbatim>\<open>CanTp_Prv.h\<close>: a ring of channel numbers with two 8-bit counters. The
  fill level is tested as the difference of the counters \<^emph>\<open>before\<close> narrowing (C promotes
  both to \<^verbatim>\<open>int\<close>), so it is negative once the tail has wrapped and the head has not.
\<close>

definition CanTp_Prv_QInit :: "'e CanTp_Sys \<Rightarrow> CanTp_QType \<Rightarrow> CanTp_QType" where
  "CanTp_Prv_QInit S q = (if CANTP_TX_BURST_MODE S then q\<lparr>Tail_u8 := 0, Head_u8 := 0\<rparr> else q)"

definition CanTp_Prv_PutInQ :: "nat \<Rightarrow> nat \<Rightarrow> CanTp_QType \<Rightarrow> Std_ReturnType \<times> CanTp_QType" where
  "CanTp_Prv_PutInQ QSize ChannelId q =
     (if int (Tail_u8 q) - int (Head_u8 q) \<noteq> int QSize
      then let t = u8 (int (Tail_u8 q) + 1)
           in (E_OK, q\<lparr>Tail_u8 := t, Queue := (Queue q)(t mod QSize := ChannelId)\<rparr>)
      else (E_NOT_OK, q))"

definition CanTp_Prv_GetFromQ :: "nat \<Rightarrow> CanTp_QType \<Rightarrow> nat option \<times> CanTp_QType" where
  "CanTp_Prv_GetFromQ QSize q =
     (if int (Tail_u8 q) - int (Head_u8 q) \<noteq> 0
      then let h = u8 (int (Head_u8 q) + 1) in (Some (Queue q (h mod QSize)), q\<lparr>Head_u8 := h\<rparr>)
      else (None, q))"

subsection \<open>The queue as a list\<close>

text \<open>The counters count modulo 256, so the queue holds \<open>(Tail - Head) mod 256\<close> elements.\<close>

definition q_count :: "CanTp_QType \<Rightarrow> nat" where
  "q_count q = u8 (int (Tail_u8 q) - int (Head_u8 q))"

definition q_contents :: "nat \<Rightarrow> CanTp_QType \<Rightarrow> nat list" where
  "q_contents QSize q = map (\<lambda>i. Queue q ((Head_u8 q + 1 + i) mod 256 mod QSize)) [0..<q_count q]"

definition q_invar :: "nat \<Rightarrow> CanTp_QType \<Rightarrow> bool" where
  "q_invar QSize q \<longleftrightarrow> 0 < QSize \<and> QSize dvd 256 \<and> QSize < 256 \<and>
     Head_u8 q < 256 \<and> Tail_u8 q < 256 \<and> q_count q \<le> QSize"

lemma length_q_contents [simp]: "length (q_contents n q) = q_count q"
  by (simp add: q_contents_def)

lemma u8_plus1: "n < 256 \<Longrightarrow> u8 (int n + 1) = Suc n mod 256"
  by (metis Suc_eq_plus1 of_nat_Suc u8_mod add.commute)

lemma u8_wrap_diff: "a < 256 \<Longrightarrow> b < 256 \<Longrightarrow> u8 (int a - int b) = (if b \<le> a then a - b else 256 + a - b)"
proof (cases "b \<le> a")
  case False
  assume "a < 256" "b < 256"
  with False have "(int a - int b + 256) mod 256 = int a - int b + 256"
    by (intro mod_pos_pos_trivial) simp_all
  then have "(int a - int b) mod 256 = int (256 + a - b)"
    using \<open>b < 256\<close> by (simp add: of_nat_diff)
  with False show ?thesis unfolding u8_def by (simp only: nat_int if_False)
qed (simp add: u8_diff)

lemma q_count_eq: "Head_u8 q < 256 \<Longrightarrow> Tail_u8 q < 256 \<Longrightarrow>
    q_count q = (if Head_u8 q \<le> Tail_u8 q then Tail_u8 q - Head_u8 q else 256 + Tail_u8 q - Head_u8 q)"
  by (simp add: q_count_def u8_wrap_diff)

lemma Suc_mod256: "n < 256 \<Longrightarrow> Suc n mod 256 = (if n = 255 then 0 else Suc n)"
  by auto

lemma q_tail: "Head_u8 q < 256 \<Longrightarrow> Tail_u8 q < 256 \<Longrightarrow> (Head_u8 q + q_count q) mod 256 = Tail_u8 q"
  by (auto simp: q_count_eq)

lemma mod256_mod: "QSize dvd 256 \<Longrightarrow> (n::nat) mod 256 mod QSize = n mod QSize"
  by (simp add: mod_mod_cancel)

lemma slot_distinct:
  assumes "i < k" "k < (n::nat)"
  shows "(h + i) mod n \<noteq> (h + k) mod n"
proof
  assume "(h + i) mod n = (h + k) mod n"
  then have "n dvd (h + k) - (h + i)" using assms(1) by (metis add_le_cancel_left less_imp_le mod_eq_dvd_iff_nat)
  with assms show False by (auto dest: dvd_imp_le)
qed

lemma put_contents:
  assumes q: "q_invar QSize q" and c: "q_count q < QSize"
  shows "q_contents QSize (snd (CanTp_Prv_PutInQ QSize x q)) = q_contents QSize q @ [x]
    \<and> q_invar QSize (snd (CanTp_Prv_PutInQ QSize x q)) \<and> fst (CanTp_Prv_PutInQ QSize x q) = E_OK"
proof -
  let ?t = "Suc (Tail_u8 q) mod 256"
  have b: "Head_u8 q < 256" "Tail_u8 q < 256" "QSize < 256" "QSize dvd 256" using q by (auto simp: q_invar_def)
  have ne: "int (Tail_u8 q) - int (Head_u8 q) \<noteq> int QSize"
    using b c by (auto simp: q_count_def u8_def)
  let ?q' = "q\<lparr>Tail_u8 := ?t, Queue := (Queue q)(?t mod QSize := x)\<rparr>"
  have put: "CanTp_Prv_PutInQ QSize x q = (E_OK, ?q')"
    using ne b by (simp add: CanTp_Prv_PutInQ_def u8_plus1 Let_def)
  have c': "q_count ?q' = Suc (q_count q)"
    using b c by (auto simp: q_count_eq Suc_mod256)
  have slot: "?t mod QSize = (Head_u8 q + 1 + q_count q) mod QSize"
    using b q_tail [OF b(1,2)] by (metis Suc_eq_plus1 ab_semigroup_add_class.add_ac(1) add.commute mod256_mod mod_Suc_eq plus_1_eq_Suc)
  have "q_contents QSize ?q' = q_contents QSize q @ [x]"
  proof (rule nth_equalityI)
    show "length (q_contents QSize ?q') = length (q_contents QSize q @ [x])" using c' by simp
  next
    fix i assume "i < length (q_contents QSize ?q')"
    then have i: "i < Suc (q_count q)" using c' by simp
    show "q_contents QSize ?q' ! i = (q_contents QSize q @ [x]) ! i"
    proof (cases "i < q_count q")
      case True
      then have "(Head_u8 q + 1 + i) mod QSize \<noteq> (Head_u8 q + 1 + q_count q) mod QSize"
        using c by (rule slot_distinct)
      with True i c' b slot show ?thesis
        by (simp add: q_contents_def nth_append mod256_mod del: upt_Suc)
    next
      case False
      with i have "i = q_count q" by simp
      with c' b slot show ?thesis by (simp add: q_contents_def nth_append mod256_mod del: upt_Suc)
    qed
  qed
  moreover have "q_invar QSize ?q'" using q c c' by (simp add: q_invar_def)
  ultimately show ?thesis using put by simp
qed

lemma get_none:
  assumes "q_invar QSize q" "q_contents QSize q = []"
  shows "CanTp_Prv_GetFromQ QSize q = (None, q)"
proof -
  have "q_count q = 0" using assms(2) by (metis length_0_conv length_q_contents)
  with assms(1) have "Tail_u8 q = Head_u8 q"
    using q_tail [of q] by (auto simp: q_invar_def)
  then show ?thesis by (simp add: CanTp_Prv_GetFromQ_def)
qed

lemma get_head:
  assumes q: "q_invar QSize q" and c: "q_contents QSize q = x # xs"
  shows "fst (CanTp_Prv_GetFromQ QSize q) = Some x
    \<and> q_contents QSize (snd (CanTp_Prv_GetFromQ QSize q)) = xs
    \<and> q_invar QSize (snd (CanTp_Prv_GetFromQ QSize q))"
proof -
  let ?h = "Suc (Head_u8 q) mod 256"
  have b: "Head_u8 q < 256" "Tail_u8 q < 256" "QSize dvd 256" using q by (auto simp: q_invar_def)
  have n: "q_count q = Suc (length xs)" using c by (metis length_Cons length_q_contents)
  then have ne: "int (Tail_u8 q) - int (Head_u8 q) \<noteq> 0" by (auto simp: q_count_def u8_def)
  let ?q' = "q\<lparr>Head_u8 := ?h\<rparr>"
  have get: "CanTp_Prv_GetFromQ QSize q = (Some (Queue q (?h mod QSize)), ?q')"
    using ne b by (simp add: CanTp_Prv_GetFromQ_def u8_plus1 Let_def)
  have c': "q_count ?q' = length xs" using b n by (auto simp: q_count_eq Suc_mod256 split: if_splits)
  have nth: "(x # xs) ! i = Queue q ((Head_u8 q + 1 + i) mod QSize)" if "i < Suc (length xs)" for i
    using that n b unfolding c [symmetric] by (simp add: q_contents_def mod256_mod del: upt_Suc)
  have "q_contents QSize ?q' = xs"
  proof (rule nth_equalityI)
    show "length (q_contents QSize ?q') = length xs" using c' by simp
  next
    fix i assume "i < length (q_contents QSize ?q')"
    then have i: "i < length xs" using c' by simp
    have "(?h + 1 + i) mod QSize = (Head_u8 q + 1 + Suc i) mod QSize"
      using b by (metis (no_types, lifting) Suc_eq_plus1 add_Suc_right add_Suc_shift mod256_mod mod_add_left_eq)
    with i c' nth [of "Suc i"] b show "q_contents QSize ?q' ! i = xs ! i"
      by (simp add: q_contents_def mod256_mod del: upt_Suc)
  qed
  moreover have "Queue q (?h mod QSize) = x" using nth [of 0] b by (simp add: mod256_mod)
  moreover have "q_invar QSize ?q'" using q n c' by (simp add: q_invar_def)
  ultimately show ?thesis using get by simp
qed

interpretation burst: bounded_fifo "CanTp_Prv_PutInQ QSize" "CanTp_Prv_GetFromQ QSize" "q_contents QSize" QSize "q_invar QSize"
  for QSize
  by unfold_locales (simp_all add: put_contents get_none get_head)

end
