(* ===== verification/CanTp_Api.thy ===== *)
theory CanTp_Api
  imports CanTp_Rx CanTp_Queue
begin

text \<open>
  The services of \<^verbatim>\<open>CanTp.c\<close>: initialisation and shut-down, the cyclic main function, the
  requests of the upper layer and the callbacks of CanIf.

  A configuration pointer is its address together with the configuration it points to: the
  post-build check compares addresses.
\<close>

subsection \<open>Initialisation\<close>

definition CanTp_Prv_PbCfgCheck :: "'e CanTp_Sys \<Rightarrow> nat \<Rightarrow> Std_ReturnType" where
  "CanTp_Prv_PbCfgCheck S CfgAddr = (if CfgAddr \<in> set (CanTp_CfgPtrs S) then E_OK else E_NOT_OK)"

definition CanTp_Init :: "'e CanTp_Sys \<Rightarrow> (nat \<times> CanTp_ConfigType) option \<Rightarrow> 'e CanTp_GlobalType \<Rightarrow> 'e CanTp_GlobalType" where
  "CanTp_Init S CfgPtr s =
     (let s0 = s\<lparr>CanTp_MainState := False\<rparr>;
          s1 = s0\<lparr>CanTp_CfgPtr := (if CANTP_VARIANT S = CANTP_PRE_COMPILE then Some (CanTp_Config S) else map_option snd CfgPtr)\<rparr>;
          start = (\<lambda>s. let a = CanTp_Prv_RxParamInit S s;
                           b = a\<lparr>CanTp_BurstQ := CanTp_Prv_QInit S (CanTp_BurstQ a)\<rparr>
                       in b\<lparr>CanTp_SubState := CanTp_Prv_ArrayInit (CanTp_SubState b) 0 (NumberOfChannels (cfgp b)) CANTP_IDLE,
                            CanTp_TxConfirmationChannel :=
                              CanTp_Prv_ArrayInit (CanTp_TxConfirmationChannel b) 0 (NumberOfTxPdus (cfgp b)) (CANTP_INVALID_CHANNEL S),
                            CanTp_MainState := True\<rparr>)
      in if CANTP_VARIANT S = CANTP_PRE_COMPILE then start s1
         else case CfgPtr of
                None \<Rightarrow> CanTp_Prv_ReportRunTimeError S CANTP_INIT CANTP_E_PARAM_POINTER s1
              | Some (addr, _) \<Rightarrow>
                  if CANTP_DEV_ERROR_DETECT S \<and> CANTP_VARIANT S = CANTP_POST_BUILD_SELECTABLE \<and>
                     CanTp_Prv_PbCfgCheck S addr \<noteq> E_OK
                  then CanTp_Prv_ReportError S CANTP_INIT CANTP_E_INIT_FAILED s1
                  else start s1)"

definition CanTp_Shutdown :: "'e CanTp_Sys \<Rightarrow> 'e CanTp_GlobalType \<Rightarrow> 'e CanTp_GlobalType" where
  "CanTp_Shutdown S s =
     (if CANTP_DEV_ERROR_DETECT S \<and> \<not> CanTp_MainState s
      then CanTp_Prv_ReportError S CANTP_SHUTDOWN CANTP_E_UNINIT s
      else let a = CanTp_Prv_RxParamInit S (s\<lparr>CanTp_MainState := False\<rparr>);
               b = a\<lparr>CanTp_BurstQ := CanTp_Prv_QInit S (CanTp_BurstQ a)\<rparr>
           in b\<lparr>CanTp_SubState := CanTp_Prv_ArrayInit (CanTp_SubState b) 0 (NumberOfChannels (cfgp b)) CANTP_IDLE,
                CanTp_TxConfirmationChannel :=
                  CanTp_Prv_ArrayInit (CanTp_TxConfirmationChannel b) 0 (NumberOfTxPdus (cfgp b)) (CANTP_INVALID_CHANNEL S),
                CanTp_CfgPtr := None\<rparr>)"

subsection \<open>The cyclic function\<close>

text \<open>\<^verbatim>\<open>CanTp_Prv_ExecuteState\<close>: the table \<^verbatim>\<open>CanTp_StateFunctions\<close> indexed by the sub-state.\<close>

definition CanTp_Prv_ExecuteState :: "'e CanTp_Sys \<Rightarrow> nat \<Rightarrow> 'e CanTp_GlobalType \<Rightarrow> 'e CanTp_GlobalType" where
  "CanTp_Prv_ExecuteState S c s =
     (case CanTp_SubState s c of
        CANTP_IDLE \<Rightarrow> s
      | CANTP_TX_TRANSMISSION_REQUEST_ACCEPTED \<Rightarrow> CanTp_Prv_TxTransmissionRequestAccepted S c s
      | CANTP_TX_WAIT_FOR_TRANSMIT_CONFIRMATION \<Rightarrow> CanTp_Prv_TxWaitForTransmitConfirmation S c s
      | CANTP_TX_WAIT_FOR_FLOWCONTROL_FRAME \<Rightarrow> CanTp_Prv_TxWaitForFlowControlFrame S c s
      | CANTP_TX_SEND_CONSECUTIVE_FRAME \<Rightarrow> CanTp_Prv_TxSendConsecutiveFrame S c s
      | CANTP_RX_RECEPTION_REQUEST_ACCEPTED \<Rightarrow> CanTp_Prv_RxReceptionRequestAccepted S c s
      | CANTP_RX_SEND_FC \<Rightarrow> CanTp_Prv_RxSendFlowControlFrame S c s
      | CANTP_RX_WAIT_FOR_FCTRANSMIT_CONFIRMATION \<Rightarrow> CanTp_Prv_RxWaitForFcTransmitConfirmation S c s
      | CANTP_RX_WAIT_FOR_CONSECUTIVE_FRAME \<Rightarrow> CanTp_Prv_RxWaitForConsecutiveFrame S c s)"

definition CanTp_MainFunction :: "'e CanTp_Sys \<Rightarrow> 'e CanTp_GlobalType \<Rightarrow> 'e CanTp_GlobalType" where
  "CanTp_MainFunction S s =
     (if CANTP_DEV_ERROR_DETECT S \<and> \<not> CanTp_MainState s
      then CanTp_Prv_ReportError S CANTP_MAINFUNCTION CANTP_E_UNINIT s
      else let all = (\<lambda>s. CanTp_IncrementCounter S
                            (fold (CanTp_Prv_ExecuteState S) [0..<NumberOfChannels (cfgp s)] s))
           in if CANTP_TX_BURST_MODE S
              then (case CanTp_Prv_GetFromQ (CANTP_BURST_QUEUE_SIZE S) (CanTp_BurstQ s) of
                      (Some c, q) \<Rightarrow> CanTp_Prv_ExecuteState S c (s\<lparr>CanTp_BurstQ := q\<rparr>)
                    | (None, q) \<Rightarrow> all (s\<lparr>CanTp_BurstQ := q\<rparr>))
              else all s)"

definition CanTp_Prv_BurstMainFunction :: "'e CanTp_Sys \<Rightarrow> nat \<Rightarrow> 'e CanTp_GlobalType \<Rightarrow> 'e CanTp_GlobalType" where
  "CanTp_Prv_BurstMainFunction S c s =
     (if CANTP_TX_BURST_MODE S \<and> c < NumberOfChannels (cfgp s) \<and>
         ch_STminTicks (CanTp_Channel s c) = 0 \<and> CanTp_SubState s c = CANTP_TX_SEND_CONSECUTIVE_FRAME
      then let (r, q) = CanTp_Prv_PutInQ (CANTP_BURST_QUEUE_SIZE S) c (CanTp_BurstQ s);
               s1 = s\<lparr>CanTp_BurstQ := q\<rparr>
           in if r = E_OK
              then if CANTP_SCHM_SUPPORT S then s1\<lparr>ext := SchM_ActMainFunction S (ext s1)\<rparr> else CanTp_MainFunction S s1
              else s1
      else s)"

subsection \<open>Requests of the upper layer\<close>

definition CanTp_ChangeParameter ::
  "'e CanTp_Sys \<Rightarrow> nat \<Rightarrow> TPParameterType \<Rightarrow> nat \<Rightarrow> 'e CanTp_GlobalType \<Rightarrow> Std_ReturnType \<times> 'e CanTp_GlobalType" where
  "CanTp_ChangeParameter S i parameter v s =
     (let (ok, s0) = dev_guard S i CANTP_CHANGEPARAMETER CANTP_E_INVALID_RX_ID s in
      if \<not> ok then (E_NOT_OK, s0)
      else let (pok, s1) = CanTp_Prv_IsChangeParameterOk S parameter v s0 in
           if \<not> pok then (E_NOT_OK, s1)
           else if CanTp_Prv_GetState (rx_ChannelId (RxSdu (cfgp s1) i)) s1 = CANTP_RECEPTION
           then (E_NOT_OK, CanTp_Prv_ReportRunTimeError S CANTP_CHANGEPARAMETER CANTP_E_OPER_NOT_SUPPORTED s1)
           else (E_OK, s1\<lparr>CanTp_ParamPair := (CanTp_ParamPair s1)
                    (i := (CanTp_ParamPair s1 i)((if parameter = TP_STMIN then 0 else 1) := u8 (int v)))\<rparr>))"

text \<open>\<open>nonnull\<close> says whether the out-parameter \<^verbatim>\<open>value\<close> is a pointer; the option is what it receives.\<close>

definition CanTp_ReadParameter ::
  "'e CanTp_Sys \<Rightarrow> nat \<Rightarrow> TPParameterType \<Rightarrow> bool \<Rightarrow> 'e CanTp_GlobalType \<Rightarrow> Std_ReturnType \<times> nat option \<times> 'e CanTp_GlobalType" where
  "CanTp_ReadParameter S i parameter nonnull s =
     (let (ok, s0) = dev_guard S i CANTP_READPARAMETER CANTP_E_INVALID_RX_ID s in
      if \<not> ok then (E_NOT_OK, None, s0)
      else if \<not> nonnull
      then (E_NOT_OK, None, CanTp_Prv_ReportRunTimeError S CANTP_READPARAMETER CANTP_E_PARAM_POINTER s0)
      else if parameter \<noteq> TP_BS \<and> parameter \<noteq> TP_STMIN
      then (E_NOT_OK, None, CanTp_Prv_ReportRunTimeError S CANTP_READPARAMETER CANTP_E_PARAM_ID s0)
      else (E_OK, Some (CanTp_Prv_GetRxParam S i parameter s0), s0))"

text \<open>The longest message a connection may carry; \<^verbatim>\<open>(uint16)\<close> narrows the ISO limit.\<close>

definition Transmit_MaxLength :: "'e CanTp_Sys \<Rightarrow> CanTp_TxSduType \<Rightarrow> nat \<Rightarrow> nat" where
  "Transmit_MaxLength S conn PciId =
     (let TX_DL = CanTp_Prv_GetTxDl S conn in
      if CanTp_Prv_GetBit (tx_BitFields conn) CANTP_FUNCTIONAL
      then let PayloadLength = u8 (int TX_DL - 1 - int (CanTp_AddressSize (tx_AddressFormatId conn)))
           in if PciId < CANTP_NPCI_SFCANFD then PayloadLength else u32 (int PayloadLength - int CANTP_FDSFDL_PCI)
      else if CANTP_CANFD_SUPPORT S
      then u16 (int (if CANTP_DEFAULT_CAN_DL < TX_DL then CANTP_MAXFDFFDL else CANTP_MAXFFDL))
      else u16 (int CANTP_MAXFFDL))"

definition CanTp_Transmit ::
  "'e CanTp_Sys \<Rightarrow> nat \<Rightarrow> PduInfoType option \<Rightarrow> 'e CanTp_GlobalType \<Rightarrow> Std_ReturnType \<times> 'e CanTp_GlobalType" where
  "CanTp_Transmit S CanTpTxSduId CanTpTxInfoPtr s =
     (let (ok, s0) = dev_guard S CanTpTxSduId CANTP_TRANSMIT CANTP_E_INVALID_TX_ID s in
      if \<not> ok then (E_NOT_OK, s0)
      else let conn = TxSdu (cfgp s0) CanTpTxSduId;
               c = tx_ChannelId conn;
               len = (case CanTpTxInfoPtr of None \<Rightarrow> 0 | Some info \<Rightarrow> SduLength info);
               PciId = CanTp_Prv_TxPciInit S CanTpTxSduId len s0;
               ErrorId = (if CanTpTxInfoPtr = None then CANTP_E_PARAM_POINTER
                          else if len = 0 then CANTP_E_COM
                          else if Transmit_MaxLength S conn PciId < len then CANTP_E_INVALID_TATYPE else CANTP_NO_ERROR)
           in if ErrorId \<noteq> CANTP_NO_ERROR then (E_NOT_OK, CanTp_Prv_ReportRunTimeError S CANTP_TRANSMIT ErrorId s0)
              else let (Value, Elapsed) = CanTp_GetElapsedValue S 0 s0 in
                   if CanTp_Prv_GetState c s0 = STATE_IDLE
                   then (E_OK,
                         set_sub c CANTP_TX_TRANSMISSION_REQUEST_ACCEPTED
                           (upd_ch c (\<lambda>ch. ch\<lparr>ch_ActiveSduId := CanTpTxSduId, ch_PciId := PciId, ch_SduLength := len,
                                              ch_InitialTicks := Value, ch_TxBufferStatus := CANTP_BUFFER_NOT_ASKED,
                                              ch_STminTicks := CANTP_INVALID_STMIN_TICKS S\<rparr>) s0))
                   else (E_NOT_OK, s0))"

definition CanTp_CancelTransmit ::
  "'e CanTp_Sys \<Rightarrow> nat \<Rightarrow> 'e CanTp_GlobalType \<Rightarrow> Std_ReturnType \<times> 'e CanTp_GlobalType" where
  "CanTp_CancelTransmit S CanTpTxSduId s =
     (let (ok, s0) = dev_guard S CanTpTxSduId CANTP_CANCELTRANSMIT CANTP_E_INVALID_TX_ID s in
      if \<not> ok then (E_NOT_OK, s0)
      else let conn = TxSdu (cfgp s0) CanTpTxSduId; c = tx_ChannelId conn in
           if CanTp_Prv_GetBit (tx_BitFields conn) CANTP_TC_DISABLED \<or> CanTp_Prv_GetState c s0 \<noteq> CANTP_TRANSMISSION \<or>
              CanTpTxSduId \<noteq> ch_ActiveSduId (CanTp_Channel s0 c)
           then (E_NOT_OK, CanTp_Prv_ReportRunTimeError S CANTP_CANCELTRANSMIT CANTP_E_OPER_NOT_SUPPORTED s0)
           else let s1 = CanTp_Prv_PduRConfirmation S CANTP_TX_PDUR_CONFIRMATION (tx_PduRPduHandleId conn) E_NOT_OK s0;
                    s2 = (if CanTp_SubState s1 c = CANTP_TX_WAIT_FOR_TRANSMIT_CONFIRMATION
                          then set_conf (tx_TxConfirmationId conn) (CANTP_INVALID_CHANNEL S) s1 else s1)
                in (E_OK, set_sub c CANTP_IDLE s2))"

definition CanTp_CancelReceive ::
  "'e CanTp_Sys \<Rightarrow> nat \<Rightarrow> 'e CanTp_GlobalType \<Rightarrow> Std_ReturnType \<times> 'e CanTp_GlobalType" where
  "CanTp_CancelReceive S CanTpRxSduId s =
     (let (ok, s0) = dev_guard S CanTpRxSduId CANTP_CANCELRECEIVE CANTP_E_PARAM_ID s in
      if \<not> ok then (E_NOT_OK, s0)
      else let conn = RxSdu (cfgp s0) CanTpRxSduId; c = rx_ChannelId conn in
           if CanTp_Prv_GetState c s0 \<noteq> CANTP_RECEPTION \<or> CanTpRxSduId \<noteq> ch_ActiveSduId (CanTp_Channel s0 c)
           then (E_NOT_OK, CanTp_Prv_ReportRunTimeError S CANTP_CANCELRECEIVE CANTP_E_OPER_NOT_SUPPORTED s0)
           else let PayLoadLength = u8 (int (CanTp_Prv_GetRxDl S c s0) - int (CanTp_AddressSize (rx_AddressFormatId conn))
                                         - int CANTP_CF_PCISIZE)
                in if PayLoadLength < ch_SduLengthRemaining (CanTp_Channel s0 c)
                   then let s1 = CanTp_Prv_PduRConfirmation S CANTP_RX_PDUR_CONFIRMATION (rx_PduRPduHandleId conn) E_NOT_OK s0;
                            s2 = (if CanTp_SubState s1 c = CANTP_RX_WAIT_FOR_FCTRANSMIT_CONFIRMATION
                                  then set_conf (rx_TxConfirmationId conn) (CANTP_INVALID_CHANNEL S) s1 else s1)
                        in (E_OK, set_sub c CANTP_IDLE s2)
                   else (E_NOT_OK, s0))"

subsection \<open>Callbacks of the CAN interface\<close>

text \<open>The branch of \<^verbatim>\<open>CanTp_TxConfirmation\<close> for a data frame of channel \<open>c\<close>.\<close>

definition TxConfirmation_data :: "'e CanTp_Sys \<Rightarrow> nat \<Rightarrow> nat \<Rightarrow> nat \<Rightarrow> 'e CanTp_GlobalType \<Rightarrow> 'e CanTp_GlobalType" where
  "TxConfirmation_data S TxPduId c Value s =
     (let Channel = CanTp_Channel s c;
          conn = TxSdu (cfgp s) (ch_ActiveSduId Channel);
          MaxCopyLength = u8 (int (CanTp_Prv_GetTxDl S conn) - int (CanTp_AddressSize (tx_AddressFormatId conn))
                               - int (CanTp_PciSize (ch_PciId Channel)));
          Rem = (if ch_SduLengthRemaining Channel < MaxCopyLength then 0
                 else ulen S (int (ch_SduLengthRemaining Channel) - int MaxCopyLength));
          s1 = upd_ch c (\<lambda>ch. ch\<lparr>ch_InitialTicks := Value, ch_SduLengthRemaining := Rem\<rparr>) s;
          s2 = (if ch_PciId Channel = CANTP_NPCI_CF
                then upd_ch c (\<lambda>ch. ch\<lparr>ch_SN := u8 (int (ch_SN ch) + 1) AND CANTP_LOWERNIBBLE_MASK,
                                       ch_BlockCfsRemaining := ulen S (int (ch_BlockCfsRemaining ch) - 1)\<rparr>) s1
                else s1);
          s3 = (if Rem = 0
                then CanTp_Prv_PduRConfirmation S CANTP_TX_PDUR_CONFIRMATION (tx_PduRPduHandleId conn) E_OK (set_sub c CANTP_IDLE s2)
                else if ch_BlockCfsRemaining (CanTp_Channel s2 c) \<noteq> 0
                then set_sub c CANTP_TX_SEND_CONSECUTIVE_FRAME s2
                else CanTp_Prv_PrepareFcRecieve S c s2)
      in set_conf TxPduId (CANTP_INVALID_CHANNEL S) s3)"

definition CanTp_TxConfirmation :: "'e CanTp_Sys \<Rightarrow> nat \<Rightarrow> 'e CanTp_GlobalType \<Rightarrow> 'e CanTp_GlobalType" where
  "CanTp_TxConfirmation S TxPduId s =
     (let (ok, s0) = dev_guard S TxPduId CANTP_TXCONFIRMATION CANTP_E_INVALID_TX_ID s in
      if \<not> ok then s0
      else let (Value, Elapsed) = CanTp_GetElapsedValue S 0 s0;
               c = CanTp_TxConfirmationChannel s0 TxPduId;
               SubState = (if c < NumberOfChannels (cfgp s0) then CanTp_SubState s0 c else CANTP_IDLE);
               s1 = (case SubState of
                       CANTP_RX_WAIT_FOR_FCTRANSMIT_CONFIRMATION \<Rightarrow>
                         set_conf TxPduId (CANTP_INVALID_CHANNEL S)
                           (CanTp_Prv_FcTxConfirmation S c (upd_ch c (ch_InitialTicks_update (\<lambda>_. Value)) s0))
                     | CANTP_TX_WAIT_FOR_TRANSMIT_CONFIRMATION \<Rightarrow> TxConfirmation_data S TxPduId c Value s0
                     | _ \<Rightarrow> s0)
           in CanTp_Prv_BurstMainFunction S c s1)"

text \<open>
  The reception context on the stack: three members are set, the others are written by
  \<^verbatim>\<open>CanTp_Prv_GetRxContext\<close> and \<^verbatim>\<open>CanTp_Prv_RxSduLengthCheck\<close> before any use.
\<close>

definition rx_context0 :: "nat \<Rightarrow> CanTp_RxContextType" where
  "rx_context0 RxPduId =
     \<lparr>rc_IsFunctional = False, rc_IsPaddingOn = False, rc_IsFdEnabled = False, rc_Address = 0, rc_FrameType = 0,
      rc_FlowStatus = 0, rc_SN = 0, rc_DataOffset = 0, rc_AddressSize = 0, rc_CAN_DL = 0, rc_ChannelId = 0,
      rc_SduId = 0, rc_PduId = RxPduId, rc_PduRPduHandleId = 0, rc_SduLength = 0\<rparr>"

definition CanTp_RxIndication ::
  "'e CanTp_Sys \<Rightarrow> nat \<Rightarrow> PduInfoType option \<Rightarrow> 'e CanTp_GlobalType \<Rightarrow> 'e CanTp_GlobalType" where
  "CanTp_RxIndication S RxPduId PduInfoPtr s =
     (let (ok, s0) = dev_guard S RxPduId CANTP_RXINDICATION CANTP_E_INVALID_RX_ID s in
      if \<not> ok then s0
      else case PduInfoPtr of
             None \<Rightarrow> CanTp_Prv_ReportRunTimeError S CANTP_RXINDICATION CANTP_E_PARAM_POINTER s0
           | Some pdu \<Rightarrow>
               let (ErrorId, ctx) = CanTp_Prv_GetRxContext S (rx_context0 RxPduId) pdu s0;
                   Data = (case SduDataPtr pdu of None \<Rightarrow> (\<lambda>_. 0) | Some m \<Rightarrow> m)
               in if ErrorId \<noteq> CANTP_NO_ERROR then CanTp_Prv_ReportRunTimeError S CANTP_RXINDICATION ErrorId s0
                  else let (r, ctx1) = CanTp_Prv_RxSduLengthCheck S ctx Data (SduLength pdu) s0 in
                       if r \<noteq> E_OK then CanTp_Prv_LengthError S ctx1 s0
                       else CanTp_Prv_BurstMainFunction S (rc_ChannelId ctx1) (CanTp_Prv_ProcessFrame S ctx1 pdu Data s0))"

definition CanTp_TriggerTransmit ::
  "'e CanTp_Sys \<Rightarrow> nat \<Rightarrow> PduInfoType option \<Rightarrow> 'e CanTp_GlobalType \<Rightarrow>
     Std_ReturnType \<times> PduInfoType option \<times> 'e CanTp_GlobalType" where
  "CanTp_TriggerTransmit S TxPduId PduInfoPtr s =
     (let (ok, s0) = dev_guard S TxPduId CANTP_TRIGGERTRANSMIT CANTP_E_INVALID_TX_ID s in
      if \<not> ok then (E_NOT_OK, PduInfoPtr, s0)
      else case PduInfoPtr of
             None \<Rightarrow> (E_NOT_OK, None, CanTp_Prv_ReportRunTimeError S CANTP_TRIGGERTRANSMIT CANTP_E_PARAM_POINTER s0)
           | Some pdu \<Rightarrow>
               let c = CanTp_TxConfirmationChannel s0 TxPduId in
               if c < NumberOfChannels (cfgp s0)
               then let TX_DL = (if CanTp_SubState s0 c = CANTP_TX_WAIT_FOR_TRANSMIT_CONFIRMATION
                                 then CanTp_Prv_GetTxDl S (TxSdu (cfgp s0) (ch_ActiveSduId (CanTp_Channel s0 c)))
                                 else CANTP_DEFAULT_CAN_DL)
                    in case SduDataPtr pdu of
                         None \<Rightarrow> (E_NOT_OK, PduInfoPtr, CanTp_Prv_ReportRunTimeError S CANTP_TRIGGERTRANSMIT CANTP_E_PARAM_POINTER s0)
                       | Some m \<Rightarrow>
                           if SduLength pdu < TX_DL
                           then (E_NOT_OK, PduInfoPtr, CanTp_Prv_ReportRunTimeError S CANTP_TRIGGERTRANSMIT CANTP_E_PARAM_POINTER s0)
                           else let (r, m', n, s1) = CanTp_Prv_CreateFrame S c m (SduLength pdu) s0
                                in (r, Some \<lparr>SduDataPtr = Some m', SduLength = n\<rparr>, s1)
               else (E_NOT_OK, PduInfoPtr, s0))"

end
