(* ===== verification/CanTp_Channels.thy ===== *)
theory CanTp_Channels
  imports CanTp_Api
begin

text \<open>
  What one step of CanTp may touch. \<open>ch_step S c i s s'\<close> says that a piece of code that works for
  channel \<open>c\<close>, whose connection has the confirmation entry \<open>i\<close>, leaves everything but that
  channel, that entry and the rest of the system alone, keeps the connection, and keeps the channel
  in its direction or returns it to idle. The relation is reflexive and transitive, so it follows the
  composition of the code; from it come the isolation of channels and the invariant of
  \<open>CanTp_Steps\<close>.
\<close>

named_theorems ch_intro "pieces of code that are steps of one channel"

subsection \<open>The step of a channel\<close>

text \<open>The indices and nibbles of a channel record: they select entries of the constant tables.\<close>

definition chan_wt :: "CanTp_ChannelType \<Rightarrow> bool" where
  "chan_wt ch \<longleftrightarrow> ch_PciId ch \<le> CANTP_NPCI_FC \<and> ch_FlowStatus ch \<le> CANTP_FC_OVERFLOW \<and> ch_SN ch < 16 \<and>
     ch_TxBufferStatus ch \<le> CANTP_BUFFER_AVAILABLE"

definition only_ch :: "nat \<Rightarrow> nat \<Rightarrow> 'e CanTp_GlobalType \<Rightarrow> 'e CanTp_GlobalType \<Rightarrow> bool" where
  "only_ch c i s s' \<longleftrightarrow>
     CanTp_MainState s' = CanTp_MainState s \<and> CanTp_CfgPtr s' = CanTp_CfgPtr s \<and> CanTp_ParamPair s' = CanTp_ParamPair s \<and>
     CanTp_MainFunctionTicks s' = CanTp_MainFunctionTicks s \<and> CanTp_BurstQ s' = CanTp_BurstQ s \<and>
     (\<forall>k. k \<noteq> c \<longrightarrow> CanTp_Channel s' k = CanTp_Channel s k \<and> CanTp_SubState s' k = CanTp_SubState s k) \<and>
     (\<forall>k. k \<noteq> i \<longrightarrow> CanTp_TxConfirmationChannel s' k = CanTp_TxConfirmationChannel s k)"

definition ch_step :: "'e CanTp_Sys \<Rightarrow> nat \<Rightarrow> nat \<Rightarrow> 'e CanTp_GlobalType \<Rightarrow> 'e CanTp_GlobalType \<Rightarrow> bool" where
  "ch_step S c i s s' \<longleftrightarrow> only_ch c i s s' \<and>
     ch_ActiveSduId (CanTp_Channel s' c) = ch_ActiveSduId (CanTp_Channel s c) \<and>
     CanTp_State (CanTp_SubState s' c) \<in> {CanTp_State (CanTp_SubState s c), STATE_IDLE} \<and>
     CanTp_TxConfirmationChannel s' i \<in> {CanTp_TxConfirmationChannel s i, CANTP_INVALID_CHANNEL S, c} \<and>
     (chan_wt (CanTp_Channel s c) \<longrightarrow> chan_wt (CanTp_Channel s' c))"

lemma ch_step_refl [ch_intro]: "ch_step S c i s s"
  by (simp add: ch_step_def only_ch_def)

lemma only_ch_trans: "only_ch c i s t \<Longrightarrow> only_ch c i t u \<Longrightarrow> only_ch c i s u"
  by (simp add: only_ch_def)

lemma ch_step_trans: "ch_step S c i s t \<Longrightarrow> ch_step S c i t u \<Longrightarrow> ch_step S c i s u"
  unfolding ch_step_def by (auto elim: only_ch_trans)

lemma ch_step_sub [ch_intro]: "CanTp_State v \<in> {CanTp_State (CanTp_SubState t c), STATE_IDLE} \<Longrightarrow> ch_step S c i s t \<Longrightarrow> ch_step S c i s (set_sub c v t)"
  by (auto simp: ch_step_def only_ch_def)

lemma ch_step_ch:
  "ch_ActiveSduId (f (CanTp_Channel t c)) = ch_ActiveSduId (CanTp_Channel t c) \<Longrightarrow> (chan_wt (CanTp_Channel t c) \<Longrightarrow> chan_wt (f (CanTp_Channel t c))) \<Longrightarrow>
   ch_step S c i s t \<Longrightarrow> ch_step S c i s (upd_ch c f t)"
  by (auto simp: ch_step_def only_ch_def)

lemma ch_step_conf [ch_intro]: "v = CANTP_INVALID_CHANNEL S \<or> v = c \<Longrightarrow> ch_step S c i s t \<Longrightarrow> ch_step S c i s (set_conf i v t)"
  by (auto simp: ch_step_def only_ch_def)

lemma ch_step_ext [ch_intro]: "ch_step S c i s t \<Longrightarrow> ch_step S c i s (t\<lparr>ext := e\<rparr>)"
  by (auto simp: ch_step_def only_ch_def)

lemma ch_step_pdur [ch_intro]: "ch_step S c i s t \<Longrightarrow> ch_step S c i s (CanTp_Prv_PduRConfirmation S api h r t)"
  unfolding CanTp_Prv_PduRConfirmation_def by (rule ch_step_ext)

lemma ch_step_err [ch_intro]: "ch_step S c i s t \<Longrightarrow> ch_step S c i s (CanTp_Prv_ReportError S api e t)"
  by (simp add: CanTp_Prv_ReportError_def ch_step_ext)

lemma ch_step_rerr [ch_intro]: "ch_step S c i s t \<Longrightarrow> ch_step S c i s (CanTp_Prv_ReportRunTimeError S api e t)"
  by (simp add: CanTp_Prv_ReportRunTimeError_def ch_step_ext)

lemma sub_report [simp]:
  "CanTp_SubState (CanTp_Prv_PduRConfirmation S api h r t) = CanTp_SubState t" "CanTp_SubState (CanTp_Prv_ReportError S a e t) = CanTp_SubState t"
  "CanTp_SubState (CanTp_Prv_ReportRunTimeError S a e t) = CanTp_SubState t"
  by (simp_all add: CanTp_Prv_PduRConfirmation_def CanTp_Prv_ReportError_def CanTp_Prv_ReportRunTimeError_def)

lemma and_nibble: "n AND 15 < (16::nat)"
  using take_bit_nat_less_exp [of 4 n] by (simp add: take_bit_eq_mask mask_eq_exp_minus_1)

subsection \<open>Transmission\<close>

lemma PageConfirmation_step: "tc_ChannelId ctx = c \<Longrightarrow> ch_step S c i s t \<Longrightarrow> ch_step S c i s (CanTp_Prv_PageConfirmation S ctx t)"
  by (auto simp: CanTp_Prv_PageConfirmation_def Let_def split: prod.splits) (auto simp: ch_step_def only_ch_def chan_wt_def)

lemma GetTxBuffer_step:
  assumes c: "tc_ChannelId ctx = c" and st: "ch_step S c i s t"
  shows "ch_step S c i s (CanTp_Prv_GetTxBuffer S ctx t)"
proof -
  obtain r a n e where q: "PduR_CanTpCopyTxData S (tc_PduRPduHandleId ctx) 0 False (ext t) = (r, a, n, e)" by (metis prod_cases4)
  have e: "ch_step S c i s (t\<lparr>ext := e\<rparr>)" using st by (rule ch_step_ext)
  have idle: "ch_step S c i s (set_sub c CANTP_IDLE (CanTp_Prv_ReportRunTimeError S api x (CanTp_Prv_PduRConfirmation S a h v u)))"
    if "ch_step S c i s u" for u api x a h v using that by (intro ch_intro) simp_all
  have avail: "ch_step S c i s (upd_ch c (ch_TxBufferStatus_update (\<lambda>_. CANTP_BUFFER_AVAILABLE)) (t\<lparr>ext := e\<rparr>))"
    using e by (intro ch_step_ch) (auto simp: chan_wt_def)
  show ?thesis unfolding CanTp_Prv_GetTxBuffer_def Let_def q c prod.case
    using st e avail idle [OF e] idle [OF st] PageConfirmation_step [OF c e] by (auto split: BufReq_ReturnType.splits)
qed

lemma created_step:
  "ch_step S c i s (snd (snd (snd (if P then (E_NOT_OK, m1, n1, CanTp_Prv_ReportRunTimeError S a x (s\<lparr>ext := e\<rparr>)) else (E_OK, m2, n2, s\<lparr>ext := e\<rparr>)))))"
  by (auto intro: ch_step_ext [OF ch_step_refl] ch_step_rerr)

lemma CreateFrame_step: "ch_step S c i s (snd (snd (snd (CanTp_Prv_CreateFrame S c m len s))))"
proof -
  have "ch_step S c i s (snd (snd (snd (CanTp_Prv_CreateTxSingleFrame S c m len s))))"
    "ch_step S c i s (snd (snd (snd (CanTp_Prv_CreateTxFirstFrame S c m len s))))"
    "ch_step S c i s (snd (snd (snd (CanTp_Prv_CreateTxConsecutiveFrame S c m len s))))"
    unfolding CanTp_Prv_CreateTxSingleFrame_def CanTp_Prv_CreateTxFirstFrame_def CanTp_Prv_CreateTxConsecutiveFrame_def Let_def split_beta
    by (simp_all only: split: if_split [of _ "CanTp_SubState s c = _"]) (simp_all only: simp_thms created_step snd_conv ch_step_refl)
  moreover have "ch_step S c i s (snd (snd (snd (CanTp_Prv_CreateTxFlowControlFrame S c m len s))))"
    by (auto simp: CanTp_Prv_CreateTxFlowControlFrame_def Let_def split_beta ch_step_refl)
  ultimately show ?thesis by (simp add: CanTp_Prv_CreateFrame_def Let_def)
qed

lemma CanIfTransmit_step:
  assumes c: "tc_ChannelId ctx = c" and i: "tc_TxConfirmationId ctx = i" and st: "ch_step S c i s t"
  shows "ch_step S c i s (CanTp_Prv_CanIfTransmit S ctx len t)"
proof -
  obtain r m n u where f: "CanTp_Prv_CreateFrame S c (uninit S) len t = (r, m, n, u)" by (metis prod_cases4)
  have u: "ch_step S c i s u" using CreateFrame_step [of S c i t "uninit S" len] st ch_step_trans by (auto simp: f)
  have fail: "ch_step S c i s (set_conf i (CANTP_INVALID_CHANNEL S) (set_sub c CANTP_IDLE (CanTp_Prv_ReportRunTimeError S api x
      (CanTp_Prv_PduRConfirmation S a h w (set_conf i c v\<lparr>ext := e\<rparr>)))))" if "ch_step S c i s v" for v api x a h w e
    using that by (intro ch_intro) simp_all
  have out: "ch_step S c i s (case CanIf_TransmitFn S pd d k (ext (set_conf i c v)) of (r, e) \<Rightarrow>
      if r \<noteq> E_OK then set_conf i (CANTP_INVALID_CHANNEL S) (set_sub c CANTP_IDLE (CanTp_Prv_ReportRunTimeError S api x
        (CanTp_Prv_PduRConfirmation S a h w (set_conf i c v\<lparr>ext := e\<rparr>)))) else set_conf i c v\<lparr>ext := e\<rparr>)"
    if v: "ch_step S c i s v" for v pd d k api x a h w
    using fail [OF v] ch_step_ext [OF ch_step_conf [OF disjI2, OF refl v]]
    by (cases "CanIf_TransmitFn S pd d k (ext (set_conf i c v))") (simp only: prod.case split: if_split, simp)
  show ?thesis
  proof (cases "CANTP_TRIGGER_TRANSMIT_API S \<and> CanTp_Prv_GetBit (tc_BitFields ctx) CANTP_TRIGGER_TRANSMIT_ON")
    case True
    show ?thesis unfolding CanTp_Prv_CanIfTransmit_def Let_def c i if_P [OF True] prod.case simp_thms if_True by (rule out [OF st])
  next
    case False
    show ?thesis unfolding CanTp_Prv_CanIfTransmit_def Let_def f c i if_not_P [OF False] prod.case using out [OF u] u by (simp only: split: if_split) simp
  qed
qed

lemma send_step:
  assumes "ch_step S c i s t" "CanTp_State (CanTp_SubState t c) = CANTP_TRANSMISSION" "tc_ChannelId ctx = c" "tc_TxConfirmationId ctx = i"
    and f: "\<And>ch. ch_ActiveSduId (f ch) = ch_ActiveSduId ch" "\<And>ch. chan_wt ch \<Longrightarrow> chan_wt (f ch)"
  shows "ch_step S c i s (upd_ch c (ch_TxBufferStatus_update (\<lambda>_. CANTP_BUFFER_NOT_ASKED))
    (CanTp_Prv_CanIfTransmit S ctx len (set_sub c CANTP_TX_WAIT_FOR_TRANSMIT_CONFIRMATION (upd_ch c f t))))"
  using assms by (intro ch_step_ch CanIfTransmit_step ch_step_sub) (auto simp: chan_wt_def)

lemma ubits_ticks: "CanTp_GetElapsedValue S v s = (CanTp_MainFunctionTicks s, ubits (TickBits S) (int (CanTp_MainFunctionTicks s) - int v))"
  by (simp add: CanTp_GetElapsedValue_def Let_def)

lemma GetTxBuffer_state:
  "ch_TxBufferStatus (CanTp_Channel (CanTp_Prv_GetTxBuffer S ctx t) c) = CANTP_BUFFER_AVAILABLE \<Longrightarrow> tc_ChannelId ctx = c \<Longrightarrow>
   CanTp_State (CanTp_SubState t c) = CANTP_TRANSMISSION \<Longrightarrow>
   CanTp_State (CanTp_SubState (CanTp_Prv_GetTxBuffer S ctx t) c) = CANTP_TRANSMISSION"
  unfolding CanTp_Prv_GetTxBuffer_def Let_def CanTp_Prv_PageConfirmation_def
  by (auto simp: split_beta CanTp_Prv_PduRConfirmation_def CanTp_Prv_ReportRunTimeError_def split: if_splits BufReq_ReturnType.splits)

lemma buffered_send:
  assumes "ch_step S c i s t" "CanTp_State (CanTp_SubState t c) = CANTP_TRANSMISSION" "tc_ChannelId ctx = c" "tc_TxConfirmationId ctx = i"
    and "\<And>ch. ch_ActiveSduId (f ch) = ch_ActiveSduId ch" "\<And>ch. chan_wt ch \<Longrightarrow> chan_wt (f ch)"
    and P: "P \<Longrightarrow> ch_TxBufferStatus (CanTp_Channel (CanTp_Prv_GetTxBuffer S ctx t) c) = CANTP_BUFFER_AVAILABLE"
  shows "ch_step S c i s (if P then upd_ch c (ch_TxBufferStatus_update (\<lambda>_. CANTP_BUFFER_NOT_ASKED)) (CanTp_Prv_CanIfTransmit S ctx len
      (set_sub c CANTP_TX_WAIT_FOR_TRANSMIT_CONFIRMATION (upd_ch c f (CanTp_Prv_GetTxBuffer S ctx t)))) else CanTp_Prv_GetTxBuffer S ctx t)"
proof (cases P)
  case True
  then show ?thesis using send_step [OF GetTxBuffer_step [OF assms(3,1)] GetTxBuffer_state [OF P assms(3,2)] assms(3-6)] by simp
next
  case False
  then show ?thesis using GetTxBuffer_step [OF assms(3,1)] by simp
qed

lemma TxSendConsecutiveFrame_step:
  assumes i: "i = tx_TxConfirmationId (TxSdu (cfgp s) (ch_ActiveSduId (CanTp_Channel s c)))"
  shows "ch_step S c i s (CanTp_Prv_TxSendConsecutiveFrame S c s)"
proof -
  let ?free = "CanTp_SubState s c = CANTP_TX_SEND_CONSECUTIVE_FRAME \<and> CanTp_TxConfirmationChannel s i = CANTP_INVALID_CHANNEL S"
  show ?thesis
  proof (cases ?free)
    case True
    show ?thesis unfolding CanTp_Prv_TxSendConsecutiveFrame_def Let_def ubits_ticks prod.case i [symmetric] if_P [OF True]
      by (rule buffered_send [OF ch_step_refl]) (use True in \<open>auto simp: chan_wt_def\<close>)
  next
    case False
    show ?thesis unfolding CanTp_Prv_TxSendConsecutiveFrame_def Let_def ubits_ticks prod.case i [symmetric] if_not_P [OF False] by (rule ch_step_refl)
  qed
qed

lemma TxTransmissionRequestAccepted_step:
  assumes i: "i = tx_TxConfirmationId (TxSdu (cfgp s) (ch_ActiveSduId (CanTp_Channel s c)))"
  shows "ch_step S c i s (CanTp_Prv_TxTransmissionRequestAccepted S c s)"
proof -
  let ?free = "CanTp_SubState s c = CANTP_TX_TRANSMISSION_REQUEST_ACCEPTED \<and> CanTp_TxConfirmationChannel s i = CANTP_INVALID_CHANNEL S"
  let ?f = "\<lambda>ch. ch\<lparr>ch_BlockCfsRemaining := 0, ch_SduLengthRemaining := ch_SduLength ch, ch_SN := 1\<rparr>"
  show ?thesis
  proof (cases ?free)
    case True
    have "ch_step S c i s (upd_ch c ?f s)" by (rule ch_step_ch [OF _ _ ch_step_refl]) (auto simp: chan_wt_def)
    then show ?thesis unfolding CanTp_Prv_TxTransmissionRequestAccepted_def Let_def ubits_ticks prod.case i [symmetric] if_P [OF True]
      by (rule buffered_send) (use True in \<open>auto simp: chan_wt_def\<close>)
  next
    case False
    have "ch_step S c i s (set_conf i (CANTP_INVALID_CHANNEL S) (CanTp_Prv_ReportRunTimeError S api x (CanTp_Prv_PduRConfirmation S a h v s)))"
      for api x a h v by (intro ch_intro) simp
    then show ?thesis unfolding CanTp_Prv_TxTransmissionRequestAccepted_def Let_def ubits_ticks prod.case i [symmetric] if_not_P [OF False]
      by (simp add: ch_step_refl)
  qed
qed

lemma timeout_step:
  "ch_step S c i s (set_sub c CANTP_IDLE (CanTp_Prv_ReportRunTimeError S api x (CanTp_Prv_PduRConfirmation S a h v s)))"
  "ch_step S c i s (set_sub c CANTP_IDLE (set_conf i (CANTP_INVALID_CHANNEL S)
     (CanTp_Prv_ReportRunTimeError S api x (CanTp_Prv_PduRConfirmation S a h v s))))"
  by (intro ch_intro; simp)+

lemma tx_wait_step:
  assumes "i = tx_TxConfirmationId (TxSdu (cfgp s) (ch_ActiveSduId (CanTp_Channel s c)))"
  shows "ch_step S c i s (CanTp_Prv_TxWaitForFlowControlFrame S c s)" "ch_step S c i s (CanTp_Prv_TxWaitForTransmitConfirmation S c s)"
  unfolding CanTp_Prv_TxWaitForFlowControlFrame_def CanTp_Prv_TxWaitForTransmitConfirmation_def Let_def ubits_ticks prod.case assms [symmetric]
  by (simp_all add: timeout_step [simplified] ch_step_refl)

subsection \<open>Reception\<close>

lemma rx_wait_step:
  assumes "i = rx_TxConfirmationId (RxSdu (cfgp s) (ch_ActiveSduId (CanTp_Channel s c)))"
  shows "ch_step S c i s (CanTp_Prv_RxReceptionRequestAccepted S c s)" "ch_step S c i s (CanTp_Prv_RxWaitForConsecutiveFrame S c s)"
    "ch_step S c i s (CanTp_Prv_RxWaitForFcTransmitConfirmation S c s)"
  unfolding CanTp_Prv_RxReceptionRequestAccepted_def CanTp_Prv_RxWaitForConsecutiveFrame_def CanTp_Prv_RxWaitForFcTransmitConfirmation_def
    Let_def ubits_ticks prod.case assms [symmetric]
  by (simp_all add: timeout_step [simplified] ch_step_refl)

lemma SetRxBlockInfo_step: "ch_step S c i s t \<Longrightarrow> ch_step S c i s (CanTp_Prv_SetRxBlockInfo S c n t)"
  unfolding CanTp_Prv_SetRxBlockInfo_def Let_def by (rule ch_step_ch) (auto simp: chan_wt_def)

lemma FcTransmit_step:
  assumes c: "tc_ChannelId ctx = c" and i: "tc_TxConfirmationId ctx = i" and st: "ch_step S c i s t"
  shows "ch_step S c i s (CanTp_Prv_FcTransmit S ctx len rdy v t)"
proof (cases "rdy \<and> CanTp_SubState t c = CANTP_RX_SEND_FC")
  case True
  define u where "u = set_sub c CANTP_RX_WAIT_FOR_FCTRANSMIT_CONFIRMATION (upd_ch c (\<lambda>ch. ch\<lparr>ch_InitialTicks := v, ch_PciId := CANTP_NPCI_FC\<rparr>) t)"
  have u: "ch_step S c i s u" unfolding u_def using True st by (intro ch_step_sub ch_step_ch) (auto simp: chan_wt_def)
  have "CanTp_State (CanTp_SubState u c) = CANTP_RECEPTION" by (simp add: u_def)
  then have "ch_step S c i s (set_sub c CANTP_RX_WAIT_FOR_CONSECUTIVE_FRAME (upd_ch c (\<lambda>ch. ch\<lparr>ch_BlockCfsRemaining := a, ch_STminTicks := b\<rparr>) u))" for a b
    using u by (intro ch_step_sub ch_step_ch) (auto simp: chan_wt_def)
  moreover have "ch_step S c i s (set_sub c CANTP_IDLE (CanTp_Prv_PduRConfirmation S a h r u))" for a h r
    using u by (intro ch_intro) simp_all
  ultimately show ?thesis
    unfolding CanTp_Prv_FcTransmit_def Let_def c if_P [OF True] u_def [symmetric] using CanIfTransmit_step [OF c i u] by simp
next
  case False
  show ?thesis unfolding CanTp_Prv_FcTransmit_def Let_def c if_not_P [OF False] by (rule st)
qed

text \<open>The decision of \<^verbatim>\<open>CanTp_Prv_RxSendFlowControlFrame\<close> about waiting, from the state \<open>sa\<close> after the buffer request.\<close>

lemma fc_wait_step:
  assumes sa: "ch_step S c i s sa"
  shows "ch_step S c i s (snd (snd (if P then if Q then (True, Rem, upd_ch c (\<lambda>k. k\<lparr>ch_FcWait := u16 (int (ch_FcWait k) + 1), ch_InitialTicks := v\<rparr>) sa)
      else (rdy, Rem, set_sub c CANTP_IDLE (CanTp_Prv_ReportRunTimeError S api x (CanTp_Prv_PduRConfirmation S a h r sa)))
    else (rdy, Rem, sa))))"
proof -
  have "ch_step S c i s (upd_ch c (\<lambda>k. k\<lparr>ch_FcWait := u16 (int (ch_FcWait k) + 1), ch_InitialTicks := v\<rparr>) sa)"
    using sa by (intro ch_step_ch) (auto simp: chan_wt_def)
  moreover have "ch_step S c i s (set_sub c CANTP_IDLE (CanTp_Prv_ReportRunTimeError S api x (CanTp_Prv_PduRConfirmation S a h r sa)))"
    using sa by (intro ch_intro) simp_all
  ultimately show ?thesis using sa by simp
qed

lemma fc_ask_step:
  assumes "ch_step S c i s t"
  shows "ch_step S c i s (snd (if A then (False, set_sub c CANTP_IDLE (CanTp_Prv_ReportRunTimeError S api x (CanTp_Prv_PduRConfirmation S a h r t)))
    else if B then (C, CanTp_Prv_SetRxBlockInfo S c n t) else (D, t)))"
proof -
  have "ch_step S c i s (set_sub c CANTP_IDLE (CanTp_Prv_ReportRunTimeError S api x (CanTp_Prv_PduRConfirmation S a h r t)))"
    using assms by (intro ch_intro) simp_all
  then show ?thesis using assms SetRxBlockInfo_step [OF assms] by simp
qed

lemma RxSendFlowControlFrame_step:
  assumes i: "i = rx_TxConfirmationId (RxSdu (cfgp s) (ch_ActiveSduId (CanTp_Channel s c)))"
  shows "ch_step S c i s (CanTp_Prv_RxSendFlowControlFrame S c s)"
proof (cases "CanTp_SubState s c = CANTP_RX_SEND_FC \<and> CanTp_TxConfirmationChannel s i = CANTP_INVALID_CHANNEL S")
  case True
  have s0: "ch_step S c i s (upd_ch c (ch_BlockCfsRemaining_update (\<lambda>_. 0)) s)"
    by (rule ch_step_ch [OF _ _ ch_step_refl]) (auto simp: chan_wt_def)
  show ?thesis
    unfolding CanTp_Prv_RxSendFlowControlFrame_def Let_def ubits_ticks split_beta fst_conv snd_conv i [symmetric] if_P [OF True]
  proof (rule FcTransmit_step, simp, simp, cases "ch_FlowStatus (CanTp_Channel s c) \<noteq> CANTP_FC_OVERFLOW", simp only: if_True simp_thms)
  qed (rule fc_wait_step, rule fc_ask_step, rule ch_step_ext [OF s0], use s0 in simp)
next
  case False
  show ?thesis unfolding CanTp_Prv_RxSendFlowControlFrame_def Let_def ubits_ticks prod.case i [symmetric] if_not_P [OF False] by (rule ch_step_refl)
qed

lemma PrepareFcTransmit_step:
  "CanTp_State (CanTp_SubState t c) = CANTP_RECEPTION \<Longrightarrow> ch_step S c i s t \<Longrightarrow> ch_step S c i s (CanTp_Prv_PrepareFcTransmit c t)"
  by (auto simp: CanTp_Prv_PrepareFcTransmit_def ch_step_def only_ch_def chan_wt_def)

lemma idle_step: "ch_step S c i s t \<Longrightarrow> ch_step S c i s (set_sub c CANTP_IDLE (CanTp_Prv_PduRConfirmation S a h r t))"
  by (intro ch_intro) simp_all

lemma LengthError_step:
  assumes "c = rc_ChannelId ctx"
  shows "ch_step S c i s (CanTp_Prv_LengthError S ctx s)"
proof -
  have "ch_step S c i s (CanTp_Prv_ReportError S a x t)" "ch_step S c i s (CanTp_Prv_ReportRunTimeError S a x t)"
    if "ch_step S c i s t" for a x t using that by (intro ch_intro; simp)+
  then show ?thesis using idle_step [OF ch_step_refl, of S c i s] ch_step_refl
    unfolding CanTp_Prv_LengthError_def Let_def assms [symmetric] by (simp only: split: if_split) blast
qed

lemma notify_step:
  "ch_step S c i s t \<Longrightarrow> ch_step S c i s (case w of None \<Rightarrow> t | Some v \<Rightarrow> set_sub c CANTP_IDLE (CanTp_Prv_PduRConfirmation S a h v t))"
  using idle_step [of S c i s t] by (cases w) simp_all

lemma if_step: "(P \<Longrightarrow> ch_step S c i s t) \<Longrightarrow> (\<not> P \<Longrightarrow> ch_step S c i s u) \<Longrightarrow> ch_step S c i s (if P then t else u)"
  by simp

lemma ProcessRxConsecutiveFrame_step:
  assumes c: "c = rc_ChannelId ctx"
  shows "ch_step S c i s (CanTp_Prv_ProcessRxConsecutiveFrame S ctx Data s)"
proof -
  let ?g = "\<lambda>n ch. ch\<lparr>ch_SN := u8 (int (ch_SN ch) + 1) AND CANTP_LOWERNIBBLE_MASK, ch_SduLengthRemaining := ulen S (int (ch_SduLengthRemaining ch) - int n),
      ch_BlockCfsRemaining := ulen S (int (ch_BlockCfsRemaining ch) - 1)\<rparr>"
  let ?t = "\<lambda>e. (upd_ch c (ch_InitialTicks_update (\<lambda>_. CanTp_MainFunctionTicks s)) s)\<lparr>ext := e\<rparr>"
  have t: "ch_step S c i s (?t e)" for e by (intro ch_step_ext ch_step_ch ch_step_refl) (simp_all add: chan_wt_def)
  have u: "ch_step S c i s (CanTp_Prv_PrepareFcTransmit c (upd_ch c (?g n) (?t e)))" if "CanTp_State (CanTp_SubState s c) = CANTP_RECEPTION" for n e
    using that by (intro PrepareFcTransmit_step ch_step_ch t) (simp_all add: chan_wt_def and_nibble)
  show ?thesis
    unfolding CanTp_Prv_ProcessRxConsecutiveFrame_def Let_def ubits_ticks prod.case split_beta c [symmetric] if_distrib [of snd] snd_conv fst_conv
    by (intro if_step timeout_step notify_step ch_step_refl u t) simp
qed

lemma SetTxBlockInfo_step:
  assumes "c = rc_ChannelId ctx" "ch_step S c i s t"
  shows "ch_step S c i s (CanTp_Prv_SetTxBlockInfo S ctx Data t)"
  unfolding CanTp_Prv_SetTxBlockInfo_def Let_def assms(1) [symmetric]
  by (intro ch_step_ch if_step assms) (simp_all add: chan_wt_def)

lemma ProcessRxFlowControlFrame_step:
  assumes c: "c = rc_ChannelId ctx"
  shows "ch_step S c i s (CanTp_Prv_ProcessRxFlowControlFrame S ctx Data s)"
proof -
  let ?t = "upd_ch c (ch_InitialTicks_update (\<lambda>_. CanTp_MainFunctionTicks s)) s"
  have t: "ch_step S c i s ?t" by (intro ch_step_ch ch_step_refl) (simp_all add: chan_wt_def)
  have f: "ch_step S c i s (upd_ch c (ch_FlowStatus_update (\<lambda>_. v)) ?t)" if "v \<le> CANTP_FC_OVERFLOW" for v
    using that by (intro ch_step_ch t) (simp_all add: chan_wt_def)
  have u: "ch_step S c i s (set_sub c CANTP_TX_SEND_CONSECUTIVE_FRAME (CanTp_Prv_SetTxBlockInfo S ctx Data (upd_ch c (ch_FlowStatus_update (\<lambda>_. CANTP_FC_CTS)) ?t)))"
    if "CanTp_SubState s c = CANTP_TX_WAIT_FOR_FLOWCONTROL_FRAME"
    using that by (intro ch_step_sub SetTxBlockInfo_step c f) (simp_all add: CanTp_Prv_SetTxBlockInfo_def Let_def)
  show ?thesis
    unfolding CanTp_Prv_ProcessRxFlowControlFrame_def Let_def ubits_ticks prod.case c [symmetric]
    by (intro if_step timeout_step idle_step ch_step_refl u t f) simp_all
qed

lemma FcTxConfirmation_step:
  assumes "CanTp_State (CanTp_SubState t c) = CANTP_RECEPTION" "ch_step S c i s t"
  shows "ch_step S c i s (CanTp_Prv_FcTxConfirmation S c t)"
  unfolding CanTp_Prv_FcTxConfirmation_def Let_def by (intro if_step idle_step ch_step_sub assms) (use assms in auto)

lemma PrepareFcRecieve_step:
  assumes "CanTp_State (CanTp_SubState t c) = CANTP_TRANSMISSION" "ch_step S c i s t"
  shows "ch_step S c i s (CanTp_Prv_PrepareFcRecieve S c t)"
  unfolding CanTp_Prv_PrepareFcRecieve_def Let_def by (intro ch_step_ch if_step ch_step_sub assms) (use assms in \<open>auto simp: chan_wt_def\<close>)

lemma TxConfirmation_data_step:
  assumes "CanTp_State (CanTp_SubState s c) = CANTP_TRANSMISSION"
  shows "ch_step S c i s (TxConfirmation_data S i c v s)"
  unfolding TxConfirmation_data_def Let_def
  by (intro ch_step_conf if_step ch_step_pdur PrepareFcRecieve_step ch_step_sub ch_step_ch ch_step_refl)
     (use assms in \<open>simp_all add: chan_wt_def and_nibble\<close>)

subsection \<open>A new reception\<close>

text \<open>
  From \<open>s\<close> to \<open>t\<close>, a Single Frame or First Frame for N-SDU \<open>a\<close> has been accepted on channel \<open>c\<close>, which was
  idle or was receiving that same N-SDU.
\<close>

definition opened :: "nat \<Rightarrow> nat \<Rightarrow> 'e CanTp_GlobalType \<Rightarrow> 'e CanTp_GlobalType \<Rightarrow> bool" where
  "opened c a s t \<longleftrightarrow> (\<forall>i. only_ch c i s t) \<and> CanTp_TxConfirmationChannel t = CanTp_TxConfirmationChannel s \<and>
     ch_ActiveSduId (CanTp_Channel t c) = a \<and> CanTp_SubState t c = CANTP_RX_RECEPTION_REQUEST_ACCEPTED \<and>
     (chan_wt (CanTp_Channel s c) \<longrightarrow> chan_wt (CanTp_Channel t c)) \<and>
     (CanTp_Prv_GetState c s = STATE_IDLE \<or> CanTp_Prv_GetState c s = CANTP_RECEPTION \<and> ch_ActiveSduId (CanTp_Channel s c) = a)"

lemma acceptance_cases:
  assumes "CanTp_Prv_GetConnectionAcceptance S ctx pdu s = (r, s1)" "c = rc_ChannelId ctx"
  shows "(r = E_NOT_OK \<and> s1 = s) \<or> (r = E_OK \<and> opened c (rc_SduId ctx) s (upd_ch c (ch_ActiveSduId_update (\<lambda>_. rc_SduId ctx)) s1))"
  using assms by (auto simp: CanTp_Prv_GetConnectionAcceptance_def CanTp_Prv_PduRConfirmation_def opened_def only_ch_def chan_wt_def Let_def split: if_splits)

lemma opened_after:
  assumes s1: "opened c a s (upd_ch c (ch_ActiveSduId_update (\<lambda>_. a)) s1)"
    and f: "\<And>ch. ch_ActiveSduId (f ch) = a" "chan_wt (CanTp_Channel s1 c) \<Longrightarrow> chan_wt (f (CanTp_Channel s1 c))"
  shows "opened c a s ((upd_ch c (ch_InitialTicks_update (\<lambda>_. v)) (CanTp_Prv_SetRxDl S c n (upd_ch c f s1)))\<lparr>ext := e\<rparr>)"
  using assms by (auto simp: opened_def only_ch_def CanTp_Prv_SetRxDl_def chan_wt_def)

lemma bufreq_step:
  assumes "ch_step S c i s t1" "ch_step S c i s t2" "ch_step S c i s t3" "ch_step S c i s t4"
  shows "ch_step S c i s (case q of BUFREQ_OK \<Rightarrow> t1 | BUFREQ_E_NOT_OK \<Rightarrow> t2 | BUFREQ_E_BUSY \<Rightarrow> t3 | BUFREQ_E_OVFL \<Rightarrow> t4)"
  using assms by (cases q) simp_all

lemma ProcessRxSingleFrame_cases:
  assumes c: "c = rc_ChannelId ctx"
  shows "CanTp_Prv_ProcessRxSingleFrame S ctx pdu Data s = s \<or>
    (\<exists>t. opened c (rc_SduId ctx) s t \<and> ch_step S c i t (CanTp_Prv_ProcessRxSingleFrame S ctx pdu Data s))"
proof -
  obtain r s1 where a: "CanTp_Prv_GetConnectionAcceptance S ctx pdu s = (r, s1)" by fastforce
  show ?thesis
  proof (cases "r = E_OK")
    case False
    then show ?thesis using acceptance_cases [OF a c] unfolding CanTp_Prv_ProcessRxSingleFrame_def Let_def ubits_ticks prod.case a by simp
  next
    case True
    let ?f = "\<lambda>ch. ch\<lparr>ch_ActiveSduId := rc_SduId ctx, ch_SduLength := rc_SduLength ctx, ch_SduLengthRemaining := rc_SduLength ctx\<rparr>"
    let ?s3 = "upd_ch c (ch_InitialTicks_update (\<lambda>_. CanTp_MainFunctionTicks s)) (CanTp_Prv_SetRxDl S c (u8 (int (SduLength pdu))) (upd_ch c ?f s1))"
    obtain q n e where q: "PduR_CanTpStartOfReception S (rc_PduRPduHandleId ctx) (rd Data (rc_DataOffset ctx) (rc_SduLength ctx)) (rc_SduLength ctx) (ext ?s3) = (q, n, e)"
      by (metis prod_cases3)
    have "opened c (rc_SduId ctx) s (?s3\<lparr>ext := e\<rparr>)"
      using acceptance_cases [OF a c] True by (intro opened_after) (auto simp: chan_wt_def)
    moreover have "ch_step S c i (?s3\<lparr>ext := e\<rparr>) (CanTp_Prv_ProcessRxSingleFrame S ctx pdu Data s)"
      unfolding CanTp_Prv_ProcessRxSingleFrame_def Let_def ubits_ticks prod.case a c [symmetric] if_P [OF True] q
      unfolding split_beta by (intro ch_step_sub bufreq_step if_step ch_step_pdur ch_step_ext ch_step_refl) simp
    ultimately show ?thesis by blast
  qed
qed

lemma ff_end_step:
  assumes "ch_step S c i t s5" "N = CANTP_IDLE \<or> N = CANTP_RX_SEND_FC" "F \<le> CANTP_FC_OVERFLOW"
  shows "ch_step S c i t (if CanTp_SubState s5 c = CANTP_RX_RECEPTION_REQUEST_ACCEPTED
    then set_sub c N (upd_ch c (ch_FlowStatus_update (\<lambda>_. F)) s5) else s5)"
  using assms by (intro if_step ch_step_sub ch_step_ch) (auto simp: chan_wt_def)

lemma ff_case_step:
  assumes T: "T = (case q of
      BUFREQ_OK \<Rightarrow>
        if P then (case PduR_CanTpCopyRxData S h x (ext s4) of (q', _, e') \<Rightarrow>
            if q' \<noteq> BUFREQ_OK then (CANTP_IDLE, CANTP_FC_WAIT, CanTp_Prv_ReportRunTimeError S CANTP_RXINDICATION CANTP_E_COM
                (CanTp_Prv_PduRConfirmation S CANTP_RX_PDUR_CONFIRMATION h E_NOT_OK (s4\<lparr>ext := e'\<rparr>)))
            else (CANTP_RX_SEND_FC, CANTP_FC_WAIT, upd_ch c (\<lambda>ch. ch\<lparr>ch_SduLengthRemaining := n, ch_BS := 0,
                ch_STminTicks := v, ch_FcWait := 0, ch_SN := 1\<rparr>) (s4\<lparr>ext := e'\<rparr>)))
        else (CANTP_IDLE, CANTP_FC_WAIT, CanTp_Prv_PduRConfirmation S CANTP_RX_PDUR_CONFIRMATION h E_NOT_OK s4)
    | BUFREQ_E_OVFL \<Rightarrow> (CANTP_RX_SEND_FC, CANTP_FC_OVERFLOW, upd_ch c (ch_BS_update (\<lambda>_. 0)) s4)
    | _ \<Rightarrow> (CANTP_IDLE, CANTP_FC_WAIT, s4))"
  shows "ch_step S c i s4 (case T of (N, F, s5) \<Rightarrow> if CanTp_SubState s5 c = CANTP_RX_RECEPTION_REQUEST_ACCEPTED
    then set_sub c N (upd_ch c (ch_FlowStatus_update (\<lambda>_. F)) s5) else s5)"
proof -
  have "ch_step S c i s4 (upd_ch c (\<lambda>ch. ch\<lparr>ch_SduLengthRemaining := n, ch_BS := 0, ch_STminTicks := v, ch_FcWait := 0, ch_SN := 1\<rparr>) (s4\<lparr>ext := e\<rparr>))" for e
    by (intro ch_step_ch ch_step_ext ch_step_refl) (simp_all add: chan_wt_def)
  moreover have "ch_step S c i s4 (upd_ch c (ch_BS_update (\<lambda>_. 0)) s4)" by (intro ch_step_ch ch_step_refl) (simp_all add: chan_wt_def)
  moreover have "ch_step S c i s4 (CanTp_Prv_ReportRunTimeError S CANTP_RXINDICATION CANTP_E_COM
      (CanTp_Prv_PduRConfirmation S CANTP_RX_PDUR_CONFIRMATION h E_NOT_OK (s4\<lparr>ext := e\<rparr>)))"
    "ch_step S c i s4 (CanTp_Prv_PduRConfirmation S CANTP_RX_PDUR_CONFIRMATION h E_NOT_OK s4)" for e by (intro ch_intro)+
  ultimately have "ch_step S c i s4 (snd (snd T)) \<and> (fst T = CANTP_IDLE \<or> fst T = CANTP_RX_SEND_FC) \<and> fst (snd T) \<le> CANTP_FC_OVERFLOW"
    unfolding T using ch_step_refl [of S c i s4] by (cases q) (auto split: prod.splits)
  then show ?thesis by (simp add: split_beta ff_end_step)
qed

lemma ProcessRxFirstFrame_cases:
  assumes c: "c = rc_ChannelId ctx"
  shows "CanTp_Prv_ProcessRxFirstFrame S ctx pdu Data s = s \<or>
    (\<exists>t. opened c (rc_SduId ctx) s t \<and> ch_step S c i t (CanTp_Prv_ProcessRxFirstFrame S ctx pdu Data s))"
proof -
  obtain r s1 where a: "CanTp_Prv_GetConnectionAcceptance S ctx pdu s = (r, s1)" by fastforce
  show ?thesis
  proof (cases "r = E_OK")
    case False
    then show ?thesis using acceptance_cases [OF a c] unfolding CanTp_Prv_ProcessRxFirstFrame_def Let_def ubits_ticks prod.case a by simp
  next
    case True
    let ?f = "\<lambda>ch. ch\<lparr>ch_ActiveSduId := rc_SduId ctx, ch_SduLength := rc_SduLength ctx\<rparr>"
    let ?s3 = "upd_ch c (ch_InitialTicks_update (\<lambda>_. CanTp_MainFunctionTicks s)) (CanTp_Prv_SetRxDl S c (u8 (int (SduLength pdu))) (upd_ch c ?f s1))"
    let ?Sdu = "rd Data (rc_DataOffset ctx) (u8 (int (SduLength pdu) - int (rc_DataOffset ctx)))"
    obtain q n e where q: "PduR_CanTpStartOfReception S (rc_PduRPduHandleId ctx) ?Sdu (rc_SduLength ctx) (ext ?s3) = (q, n, e)"
      by (metis prod_cases3)
    have "opened c (rc_SduId ctx) s (?s3\<lparr>ext := e\<rparr>)"
      using acceptance_cases [OF a c] True by (intro opened_after) (auto simp: chan_wt_def)
    moreover have "ch_step S c i (?s3\<lparr>ext := e\<rparr>) (CanTp_Prv_ProcessRxFirstFrame S ctx pdu Data s)"
      unfolding CanTp_Prv_ProcessRxFirstFrame_def Let_def ubits_ticks prod.case a c [symmetric] if_P [OF True] q
      by (rule ff_case_step [OF refl])
    ultimately show ?thesis by blast
  qed
qed

lemma ProcessFrame_cases:
  assumes "c = rc_ChannelId ctx"
  shows "ch_step S c i s (CanTp_Prv_ProcessFrame S ctx pdu Data s) \<or>
    (\<exists>t. rc_FrameType ctx \<in> {CANTP_SINGLE_FRAME, CANTP_FIRST_FRAME} \<and> opened c (rc_SduId ctx) s t \<and>
      ch_step S c i t (CanTp_Prv_ProcessFrame S ctx pdu Data s))"
  using ProcessRxSingleFrame_cases [OF assms, of S pdu Data s i] ProcessRxFirstFrame_cases [OF assms, of S pdu Data s i]
    ProcessRxConsecutiveFrame_step [OF assms, of S i s Data] ProcessRxFlowControlFrame_step [OF assms, of S i s Data] ch_step_refl [of S c i s]
  unfolding CanTp_Prv_ProcessFrame_def by (simp split: if_split) metis

subsection \<open>The state functions and the main function\<close>

text \<open>The confirmation entry of the connection a channel is working for.\<close>

definition conf_id :: "nat \<Rightarrow> 'e CanTp_GlobalType \<Rightarrow> nat" where
  "conf_id c s = (let a = ch_ActiveSduId (CanTp_Channel s c) in
     if CanTp_Prv_GetState c s = CANTP_RECEPTION then rx_TxConfirmationId (RxSdu (cfgp s) a) else tx_TxConfirmationId (TxSdu (cfgp s) a))"

lemma ExecuteState_step: "ch_step S c (conf_id c s) s (CanTp_Prv_ExecuteState S c s)"
  by (cases "CanTp_SubState s c")
    (simp_all add: CanTp_Prv_ExecuteState_def conf_id_def CanTp_Prv_GetState_def Let_def ch_step_refl TxTransmissionRequestAccepted_step
      tx_wait_step TxSendConsecutiveFrame_step rx_wait_step RxSendFlowControlFrame_step)

text \<open>In one pass of the main function a channel runs its state function once, on its own record, at the current time.\<close>

definition agree :: "nat \<Rightarrow> 'e CanTp_GlobalType \<Rightarrow> 'e CanTp_GlobalType \<Rightarrow> bool" where
  "agree c s u \<longleftrightarrow> CanTp_MainState u = CanTp_MainState s \<and> CanTp_CfgPtr u = CanTp_CfgPtr s \<and> CanTp_MainFunctionTicks u = CanTp_MainFunctionTicks s \<and>
     CanTp_Channel u c = CanTp_Channel s c \<and> CanTp_SubState u c = CanTp_SubState s c"

lemma agree_refl: "agree c s s" by (simp add: agree_def)

lemma agree_trans: "agree c s t \<Longrightarrow> agree c t u \<Longrightarrow> agree c s u" by (simp add: agree_def)

lemma exec_agree: "k \<noteq> c \<Longrightarrow> agree c s (CanTp_Prv_ExecuteState S k s)"
  using ExecuteState_step [of S k s] by (simp add: agree_def ch_step_def only_ch_def)

lemma fold_agree: "c \<notin> set cs \<Longrightarrow> agree c s (fold (CanTp_Prv_ExecuteState S) cs s)"
  by (induction cs arbitrary: s) (simp add: agree_refl, metis agree_trans exec_agree fold_simps(2) list.set_intros)

lemma fold_exec:
  assumes "distinct cs" "c \<in> set cs"
  shows "\<exists>u. agree c s u \<and> agree c (CanTp_Prv_ExecuteState S c u) (fold (CanTp_Prv_ExecuteState S) cs s)"
  using assms
proof (induction cs arbitrary: s)
  case (Cons k cs)
  show ?case
  proof (cases "k = c")
    case True
    then show ?thesis using Cons.prems fold_agree [of c cs] by (intro exI [of _ s]) (simp add: agree_refl)
  next
    case False
    then obtain u where "agree c (CanTp_Prv_ExecuteState S k s) u" "agree c (CanTp_Prv_ExecuteState S c u) (fold (CanTp_Prv_ExecuteState S) (k # cs) s)"
      using Cons by fastforce
    then show ?thesis using agree_trans [OF exec_agree [OF False]] by blast
  qed
qed simp

lemma main_exec:
  assumes "CanTp_MainState s" "\<not> CANTP_TX_BURST_MODE S" "c < NumberOfChannels (cfgp s)"
  shows "\<exists>u. agree c s u \<and> agree c (CanTp_IncrementCounter S (CanTp_Prv_ExecuteState S c u)) (CanTp_MainFunction S s)"
proof -
  have "CanTp_MainFunction S s = CanTp_IncrementCounter S (fold (CanTp_Prv_ExecuteState S) [0..<NumberOfChannels (cfgp s)] s)"
    using assms by (simp add: CanTp_MainFunction_def Let_def)
  moreover obtain u where "agree c s u" "agree c (CanTp_Prv_ExecuteState S c u) (fold (CanTp_Prv_ExecuteState S) [0..<NumberOfChannels (cfgp s)] s)"
    using fold_exec [of "[0..<NumberOfChannels (cfgp s)]" c s S] assms by auto
  ultimately show ?thesis by (auto simp: agree_def CanTp_IncrementCounter_def)
qed

subsection \<open>Time-outs\<close>

text \<open>The sub-states in which a channel only waits, the time it may, and what it tells the upper layer when that is over.\<close>

fun is_waiting :: "CanTp_SubStateType \<Rightarrow> bool" where
  "is_waiting CANTP_TX_WAIT_FOR_TRANSMIT_CONFIRMATION = True"
| "is_waiting CANTP_TX_WAIT_FOR_FLOWCONTROL_FRAME = True"
| "is_waiting CANTP_RX_RECEPTION_REQUEST_ACCEPTED = True"
| "is_waiting CANTP_RX_WAIT_FOR_FCTRANSMIT_CONFIRMATION = True"
| "is_waiting CANTP_RX_WAIT_FOR_CONSECUTIVE_FRAME = True"
| "is_waiting _ = False"

definition wait_limit :: "nat \<Rightarrow> 'e CanTp_GlobalType \<Rightarrow> nat" where
  "wait_limit c s =
     (let a = ch_ActiveSduId (CanTp_Channel s c);
          tx = TimeOut (cfgp s) (tx_TimeOutId (TxSdu (cfgp s) a)); rx = TimeOut (cfgp s) (rx_TimeOutId (RxSdu (cfgp s) a))
      in case CanTp_SubState s c of
           CANTP_TX_WAIT_FOR_TRANSMIT_CONFIRMATION \<Rightarrow> AsArTicks tx
         | CANTP_TX_WAIT_FOR_FLOWCONTROL_FRAME \<Rightarrow> BsBrTicks tx
         | CANTP_RX_RECEPTION_REQUEST_ACCEPTED \<Rightarrow> BsBrTicks rx
         | CANTP_RX_WAIT_FOR_FCTRANSMIT_CONFIRMATION \<Rightarrow> AsArTicks rx
         | _ \<Rightarrow> CsCrTicks rx)"

definition elapsed :: "'e CanTp_Sys \<Rightarrow> nat \<Rightarrow> 'e CanTp_GlobalType \<Rightarrow> nat" where
  "elapsed S c s = snd (CanTp_GetElapsedValue S (ch_InitialTicks (CanTp_Channel s c)) s)"

definition tell_failure :: "'e CanTp_Sys \<Rightarrow> nat \<Rightarrow> 'e CanTp_GlobalType \<Rightarrow> 'e CanTp_GlobalType" where
  "tell_failure S c s =
     (let a = ch_ActiveSduId (CanTp_Channel s c) in
      if CanTp_Prv_GetState c s = CANTP_RECEPTION
      then CanTp_Prv_ReportRunTimeError S CANTP_MAINFUNCTION CANTP_E_RX_COM
             (CanTp_Prv_PduRConfirmation S CANTP_RX_PDUR_CONFIRMATION (rx_PduRPduHandleId (RxSdu (cfgp s) a)) E_NOT_OK s)
      else CanTp_Prv_ReportRunTimeError S CANTP_MAINFUNCTION CANTP_E_TX_COM
             (CanTp_Prv_PduRConfirmation S CANTP_TX_PDUR_CONFIRMATION (tx_PduRPduHandleId (TxSdu (cfgp s) a)) E_NOT_OK s))"

lemma waiting_exec:
  assumes "is_waiting (CanTp_SubState s c)"
  shows "wait_limit c s < elapsed S c s \<Longrightarrow> CanTp_SubState (CanTp_Prv_ExecuteState S c s) c = CANTP_IDLE \<and>
      ext (CanTp_Prv_ExecuteState S c s) = ext (tell_failure S c s)"
    and "elapsed S c s \<le> wait_limit c s \<Longrightarrow> CanTp_Prv_ExecuteState S c s = s"
  using assms by (cases "CanTp_SubState s c";
    simp add: CanTp_Prv_ExecuteState_def wait_limit_def elapsed_def tell_failure_def CanTp_Prv_GetState_def ubits_ticks Let_def
      CanTp_Prv_TxWaitForTransmitConfirmation_def CanTp_Prv_TxWaitForFlowControlFrame_def CanTp_Prv_RxReceptionRequestAccepted_def
      CanTp_Prv_RxWaitForFcTransmitConfirmation_def CanTp_Prv_RxWaitForConsecutiveFrame_def)+

lemma agree_wait: "agree c s u \<Longrightarrow> wait_limit c u = wait_limit c s \<and> elapsed S c u = elapsed S c s"
  by (simp add: agree_def wait_limit_def elapsed_def cfgp_def ubits_ticks)

lemma main_waiting:
  assumes on: "CanTp_MainState s" "\<not> CANTP_TX_BURST_MODE S" "c < NumberOfChannels (cfgp s)"
  shows "is_waiting (CanTp_SubState s c) \<Longrightarrow> wait_limit c s < elapsed S c s \<Longrightarrow> CanTp_SubState (CanTp_MainFunction S s) c = CANTP_IDLE"
    and "CanTp_SubState s c = CANTP_IDLE \<Longrightarrow> CanTp_SubState (CanTp_MainFunction S s) c = CANTP_IDLE"
    and "is_waiting (CanTp_SubState s c) \<Longrightarrow> elapsed S c s \<le> wait_limit c s \<Longrightarrow>
      agree c (CanTp_IncrementCounter S s) (CanTp_MainFunction S s)"
    and "CanTp_MainState (CanTp_MainFunction S s) \<and> cfgp (CanTp_MainFunction S s) = cfgp s"
proof -
  obtain u where u: "agree c s u" "agree c (CanTp_IncrementCounter S (CanTp_Prv_ExecuteState S c u)) (CanTp_MainFunction S s)"
    using main_exec [OF on] by blast
  note w = agree_wait [OF u(1), of S] and sub = u(1) [unfolded agree_def]
  show "CanTp_SubState (CanTp_MainFunction S s) c = CANTP_IDLE" if "is_waiting (CanTp_SubState s c)" "wait_limit c s < elapsed S c s"
    using that w sub waiting_exec(1) [of u c S] u(2) by (simp add: agree_def CanTp_IncrementCounter_def)
  show "CanTp_SubState (CanTp_MainFunction S s) c = CANTP_IDLE" if "CanTp_SubState s c = CANTP_IDLE"
    using that sub u(2) by (simp add: agree_def CanTp_IncrementCounter_def CanTp_Prv_ExecuteState_def)
  show "agree c (CanTp_IncrementCounter S s) (CanTp_MainFunction S s)" if "is_waiting (CanTp_SubState s c)" "elapsed S c s \<le> wait_limit c s"
    using that w sub waiting_exec(2) [of u c S] u(2) by (simp add: agree_def CanTp_IncrementCounter_def)
  show "CanTp_MainState (CanTp_MainFunction S s) \<and> cfgp (CanTp_MainFunction S s) = cfgp s"
    using ExecuteState_step [of S c u] sub u(2) on(1) by (simp add: agree_def CanTp_IncrementCounter_def cfgp_def ch_step_def only_ch_def)
qed

lemma elapsed_incr: "elapsed S c s < 2 ^ TickBits S - 1 \<Longrightarrow> elapsed S c (CanTp_IncrementCounter S s) = Suc (elapsed S c s)"
proof -
  assume l: "elapsed S c s < 2 ^ TickBits S - 1"
  let ?M = "2 ^ TickBits S :: int" and ?d = "int (CanTp_MainFunctionTicks s) - int (ch_InitialTicks (CanTp_Channel s c))"
  have e: "int (elapsed S c s) = ?d mod ?M" by (simp add: elapsed_def ubits_ticks ubits_def)
  have "int (elapsed S c (CanTp_IncrementCounter S s)) = ((int (CanTp_MainFunctionTicks s) + 1) mod ?M - int (ch_InitialTicks (CanTp_Channel s c))) mod ?M"
    by (simp add: elapsed_def ubits_ticks ubits_def CanTp_IncrementCounter_def)
  also have "\<dots> = (?d + 1) mod ?M" by (simp add: mod_diff_left_eq algebra_simps)
  also have "\<dots> = (?d mod ?M + 1) mod ?M" by (simp add: mod_add_left_eq)
  also have "\<dots> = int (elapsed S c s) + 1" unfolding e [symmetric]
  proof (rule mod_pos_pos_trivial)
    have "int (elapsed S c s + 1) < int (2 ^ TickBits S)" using l by (simp only: of_nat_less_iff)
    then show "int (elapsed S c s) + 1 < ?M" by simp
  qed simp
  finally show ?thesis by simp
qed

lemma main_iterate:
  assumes on: "CanTp_MainState s" "\<not> CANTP_TX_BURST_MODE S" "c < NumberOfChannels (cfgp s)"
    and w: "is_waiting (CanTp_SubState s c)" and T: "wait_limit c s + 1 < 2 ^ TickBits S"
  shows "let t = (CanTp_MainFunction S ^^ k) s in CanTp_MainState t \<and> cfgp t = cfgp s \<and>
    (if k = 0 \<or> k + elapsed S c s \<le> wait_limit c s + 1
     then CanTp_SubState t c = CanTp_SubState s c \<and> wait_limit c t = wait_limit c s \<and> elapsed S c t = k + elapsed S c s
     else CanTp_SubState t c = CANTP_IDLE)"
proof (induction k)
  case (Suc k)
  define t where "t = (CanTp_MainFunction S ^^ k) s"
  have S: "(CanTp_MainFunction S ^^ Suc k) s = CanTp_MainFunction S t" by (simp add: t_def)
  note IH = Suc.IH [unfolded Let_def, folded t_def]
  have t: "CanTp_MainState t" "c < NumberOfChannels (cfgp t)" using IH on by auto
  note m = main_waiting [OF t(1) on(2) t(2)]
  consider "Suc k + elapsed S c s \<le> wait_limit c s + 1" | "k = 0 \<or> k + elapsed S c s \<le> wait_limit c s + 1" "wait_limit c s + 1 < Suc k + elapsed S c s"
    | "k \<noteq> 0" "wait_limit c s + 1 < k + elapsed S c s" by linarith
  then show ?case
  proof cases
    case 1
    then have e: "elapsed S c t = k + elapsed S c s" "wait_limit c t = wait_limit c s" "is_waiting (CanTp_SubState t c)" using IH w by auto
    then have a: "agree c (CanTp_IncrementCounter S t) (CanTp_MainFunction S t)" using 1 by (intro m(3)) simp_all
    have "elapsed S c (CanTp_MainFunction S t) = Suc (elapsed S c t)" using agree_wait [OF a, of S] elapsed_incr [of S c t] e 1 T by simp
    moreover have "wait_limit c (CanTp_IncrementCounter S t) = wait_limit c t" by (simp add: wait_limit_def CanTp_IncrementCounter_def cfgp_def)
    ultimately show ?thesis unfolding S Let_def using 1 e a agree_wait [OF a, of S] m(4) IH by (simp add: agree_def CanTp_IncrementCounter_def)
  next
    case 2
    then have "CanTp_SubState (CanTp_MainFunction S t) c = CANTP_IDLE" using IH w by (intro m(1)) auto
    then show ?thesis unfolding S Let_def using 2 m(4) IH by simp
  next
    case 3
    then have "CanTp_SubState (CanTp_MainFunction S t) c = CANTP_IDLE" using IH by (intro m(2)) simp
    then show ?thesis unfolding S Let_def using 3 m(4) IH by simp
  qed
qed (use on in simp)

end
