(* ===== verification/CanTp_Steps.thy ===== *)
theory CanTp_Steps
  imports CanTp_Channels
begin

text \<open>
  CanTp as a transition system. An event is a call of one of its services by the upper layer, by
  CanIf or by the scheduler, or a change of the rest of the system; the calls come in any order.
  The invariant holds in every state that can be reached: a busy channel works for a connection
  that is configured on it, a pending confirmation belongs to the channel its entry is configured
  for, and the indices kept in a channel stay inside the constant tables they select from.
\<close>

subsection \<open>Events and steps\<close>

datatype CanTp_Event =
    Ev_Transmit nat "PduInfoType option"
  | Ev_CancelTransmit nat
  | Ev_CancelReceive nat
  | Ev_ChangeParameter nat TPParameterType nat
  | Ev_ReadParameter nat TPParameterType bool
  | Ev_RxIndication nat "PduInfoType option"
  | Ev_TxConfirmation nat
  | Ev_TriggerTransmit nat "PduInfoType option"
  | Ev_MainFunction

fun handle :: "'e CanTp_Sys \<Rightarrow> CanTp_Event \<Rightarrow> 'e CanTp_GlobalType \<Rightarrow> 'e CanTp_GlobalType" where
  "handle S (Ev_Transmit i info) s = snd (CanTp_Transmit S i info s)"
| "handle S (Ev_CancelTransmit i) s = snd (CanTp_CancelTransmit S i s)"
| "handle S (Ev_CancelReceive i) s = snd (CanTp_CancelReceive S i s)"
| "handle S (Ev_ChangeParameter i p v) s = snd (CanTp_ChangeParameter S i p v s)"
| "handle S (Ev_ReadParameter i p b) s = snd (snd (CanTp_ReadParameter S i p b s))"
| "handle S (Ev_RxIndication i pdu) s = CanTp_RxIndication S i pdu s"
| "handle S (Ev_TxConfirmation i) s = CanTp_TxConfirmation S i s"
| "handle S (Ev_TriggerTransmit i pdu) s = snd (snd (CanTp_TriggerTransmit S i pdu s))"
| "handle S Ev_MainFunction s = CanTp_MainFunction S s"

inductive cantp_step :: "'e CanTp_Sys \<Rightarrow> 'e CanTp_GlobalType \<Rightarrow> 'e CanTp_GlobalType \<Rightarrow> bool" for S where
  event: "cantp_step S s (handle S ev s)"
| environment: "cantp_step S s (s\<lparr>ext := e\<rparr>)"

inductive cantp_reach :: "'e CanTp_Sys \<Rightarrow> 'e CanTp_GlobalType \<Rightarrow> 'e CanTp_GlobalType \<Rightarrow> bool" for S s0 where
  start: "cantp_reach S s0 s0"
| more: "cantp_reach S s0 s \<Longrightarrow> cantp_step S s t \<Longrightarrow> cantp_reach S s0 t"

inductive_cases cantp_stepE [elim]: "cantp_step S s t"

subsection \<open>The invariant\<close>

text \<open>\<open>own i\<close> is the channel of all connections that use confirmation entry \<open>i\<close>.\<close>

definition conf_private :: "CanTp_ConfigType \<Rightarrow> (nat \<Rightarrow> nat) \<Rightarrow> bool" where
  "conf_private cfg own \<longleftrightarrow> (\<forall>t < NumberOfTxSdus cfg. own (tx_TxConfirmationId (TxSdu cfg t)) = tx_ChannelId (TxSdu cfg t)) \<and>
     (\<forall>r < NumberOfRxSdus cfg. own (rx_TxConfirmationId (RxSdu cfg r)) = rx_ChannelId (RxSdu cfg r))"

definition chan_ok :: "CanTp_ConfigType \<Rightarrow> nat \<Rightarrow> CanTp_SubStateType \<Rightarrow> CanTp_ChannelType \<Rightarrow> bool" where
  "chan_ok cfg c st ch \<longleftrightarrow> chan_wt ch \<and>
     (case CanTp_State st of
        STATE_IDLE \<Rightarrow> True
      | CANTP_TRANSMISSION \<Rightarrow> ch_ActiveSduId ch < NumberOfTxSdus cfg \<and> tx_ChannelId (TxSdu cfg (ch_ActiveSduId ch)) = c
      | CANTP_RECEPTION \<Rightarrow> ch_ActiveSduId ch < NumberOfRxSdus cfg \<and> rx_ChannelId (RxSdu cfg (ch_ActiveSduId ch)) = c)"

definition cantp_inv :: "'e CanTp_Sys \<Rightarrow> CanTp_ConfigType \<Rightarrow> (nat \<Rightarrow> nat) \<Rightarrow> 'e CanTp_GlobalType \<Rightarrow> bool" where
  "cantp_inv S cfg own s \<longleftrightarrow> CanTp_MainState s \<and> CanTp_CfgPtr s = Some cfg \<and>
     (\<forall>c. chan_ok cfg c (CanTp_SubState s c) (CanTp_Channel s c)) \<and>
     (\<forall>i < NumberOfTxPdus cfg. CanTp_TxConfirmationChannel s i \<in> {CANTP_INVALID_CHANNEL S, own i})"

lemma inv_ext: "cantp_inv S cfg own s \<Longrightarrow> cantp_inv S cfg own (s\<lparr>ext := e\<rparr>)"
  "cantp_inv S cfg own s \<Longrightarrow> cantp_inv S cfg own (s\<lparr>CanTp_BurstQ := q\<rparr>)"
  "cantp_inv S cfg own s \<Longrightarrow> cantp_inv S cfg own (s\<lparr>CanTp_ParamPair := p\<rparr>)"
  "cantp_inv S cfg own s \<Longrightarrow> cantp_inv S cfg own (CanTp_IncrementCounter S s)"
  by (simp_all add: cantp_inv_def CanTp_IncrementCounter_def)

lemma inv_report:
  "cantp_inv S cfg own s \<Longrightarrow> cantp_inv S cfg own (CanTp_Prv_ReportError S a e s)"
  "cantp_inv S cfg own s \<Longrightarrow> cantp_inv S cfg own (CanTp_Prv_ReportRunTimeError S a e s)"
  by (simp_all add: CanTp_Prv_ReportError_def CanTp_Prv_ReportRunTimeError_def inv_ext)

lemma inv_cfgp: "cantp_inv S cfg own s \<Longrightarrow> cfgp s = cfg"
  by (simp add: cantp_inv_def cfgp_def)

lemma chan_ok_step:
  assumes "chan_ok cfg c st ch" "CanTp_State st' \<in> {CanTp_State st, STATE_IDLE}" "ch_ActiveSduId ch' = ch_ActiveSduId ch" "chan_wt ch \<longrightarrow> chan_wt ch'"
  shows "chan_ok cfg c st' ch'"
  using assms by (cases "CanTp_State st") (auto simp: chan_ok_def)

lemma inv_step:
  assumes inv: "cantp_inv S cfg own s" and st: "ch_step S c i s s'" and own: "i < NumberOfTxPdus cfg \<Longrightarrow> own i = c"
  shows "cantp_inv S cfg own s'"
proof -
  have only: "only_ch c i s s'" and s: "CanTp_State (CanTp_SubState s' c) \<in> {CanTp_State (CanTp_SubState s c), STATE_IDLE}"
    "ch_ActiveSduId (CanTp_Channel s' c) = ch_ActiveSduId (CanTp_Channel s c)" "chan_wt (CanTp_Channel s c) \<longrightarrow> chan_wt (CanTp_Channel s' c)"
    "CanTp_TxConfirmationChannel s' i \<in> {CanTp_TxConfirmationChannel s i, CANTP_INVALID_CHANNEL S, c}"
    using st unfolding ch_step_def by blast+
  have ok: "chan_ok cfg k (CanTp_SubState s k) (CanTp_Channel s k)" for k using inv by (simp add: cantp_inv_def)
  have "chan_ok cfg k (CanTp_SubState s' k) (CanTp_Channel s' k)" for k
    using ok [of k] only chan_ok_step [OF ok s(1-3)] by (cases "k = c") (simp_all add: only_ch_def)
  moreover have "CanTp_TxConfirmationChannel s' k \<in> {CANTP_INVALID_CHANNEL S, own k}" if "k < NumberOfTxPdus cfg" for k
    using inv only s(4) own that by (cases "k = i") (auto simp: cantp_inv_def only_ch_def)
  ultimately show ?thesis using inv only by (simp add: cantp_inv_def only_ch_def)
qed

lemma inv_opened:
  assumes inv: "cantp_inv S cfg own s" and op: "opened c a s t" and a: "a < NumberOfRxSdus cfg" "rx_ChannelId (RxSdu cfg a) = c"
  shows "cantp_inv S cfg own t"
proof -
  have "chan_ok cfg k (CanTp_SubState t k) (CanTp_Channel t k)" for k
    using inv op a by (cases "k = c") (auto simp: cantp_inv_def opened_def only_ch_def chan_ok_def)
  then show ?thesis using inv op by (simp add: cantp_inv_def opened_def only_ch_def)
qed

lemma inv_exec:
  assumes inv: "cantp_inv S cfg own s" and priv: "conf_private cfg own"
  shows "cantp_inv S cfg own (CanTp_Prv_ExecuteState S c s)"
proof (cases "CanTp_State (CanTp_SubState s c) = STATE_IDLE")
  case True
  then have "CanTp_SubState s c = CANTP_IDLE" by (cases "CanTp_SubState s c") simp_all
  then show ?thesis using inv by (simp add: CanTp_Prv_ExecuteState_def)
next
  case False
  have "chan_ok cfg c (CanTp_SubState s c) (CanTp_Channel s c)" using inv by (simp add: cantp_inv_def)
  then have "own (conf_id c s) = c" using priv False inv_cfgp [OF inv]
    by (cases "CanTp_State (CanTp_SubState s c)") (simp_all add: conf_id_def chan_ok_def conf_private_def CanTp_Prv_GetState_def Let_def)
  then show ?thesis by (intro inv_step [OF inv ExecuteState_step])
qed

lemma inv_main:
  assumes inv: "cantp_inv S cfg own s" and priv: "conf_private cfg own"
  shows "cantp_inv S cfg own (CanTp_MainFunction S s)"
proof -
  have f: "cantp_inv S cfg own (fold (CanTp_Prv_ExecuteState S) cs s)" if "cantp_inv S cfg own s" for cs s
    using that by (induction cs arbitrary: s) (simp_all add: inv_exec [OF _ priv])
  show ?thesis unfolding CanTp_MainFunction_def Let_def
    using inv by (auto simp: inv_exec [OF _ priv] f inv_ext inv_report split: prod.splits option.splits)
qed

lemma inv_burst:
  assumes inv: "cantp_inv S cfg own s" and priv: "conf_private cfg own"
  shows "cantp_inv S cfg own (CanTp_Prv_BurstMainFunction S c s)"
  unfolding CanTp_Prv_BurstMainFunction_def Let_def using inv by (auto simp: inv_main [OF _ priv] inv_ext split_beta)

subsection \<open>Every event keeps the invariant\<close>

lemma guard_cases:
  assumes "CANTP_DEV_ERROR_DETECT S" "dev_guard S i api e s = (ok, s0)"
  shows "(ok \<longrightarrow> s0 = s \<and> CanTp_MainState s) \<and> (\<not> ok \<longrightarrow> (\<exists>x. s0 = CanTp_Prv_ReportError S api x s))"
  using assms by (auto simp: dev_guard_def CanTp_Prv_IsNoDevError_def Let_def split: if_splits)

lemma guard_range:
  assumes "CANTP_DEV_ERROR_DETECT S" "e \<noteq> CANTP_NO_ERROR"
  shows "dev_guard S i CANTP_TRANSMIT e s = (ok, s0) \<Longrightarrow> ok \<Longrightarrow> i < NumberOfTxSdus (cfgp s)"
    "dev_guard S i CANTP_CANCELTRANSMIT e s = (ok, s0) \<Longrightarrow> ok \<Longrightarrow> i < NumberOfTxSdus (cfgp s)"
    "dev_guard S i CANTP_CANCELRECEIVE e s = (ok, s0) \<Longrightarrow> ok \<Longrightarrow> i < NumberOfRxSdus (cfgp s)"
    "dev_guard S i CANTP_TXCONFIRMATION e s = (ok, s0) \<Longrightarrow> ok \<Longrightarrow> i < NumberOfTxPdus (cfgp s)"
  using assms by (auto simp: dev_guard_def CanTp_Prv_IsNoDevError_def Let_def split: if_splits)

lemma inv_transmit:
  assumes inv: "cantp_inv S cfg own s" and det: "CANTP_DEV_ERROR_DETECT S"
  shows "cantp_inv S cfg own (snd (CanTp_Transmit S i info s))"
proof -
  obtain ok s0 where g: "dev_guard S i CANTP_TRANSMIT CANTP_E_INVALID_TX_ID s = (ok, s0)" by fastforce
  show ?thesis
  proof (cases ok)
    case False
    then show ?thesis using guard_cases [OF det g] inv by (auto simp: CanTp_Transmit_def g inv_report)
  next
    case True
    then have s0: "s0 = s" and i: "i < NumberOfTxSdus cfg"
      using guard_cases [OF det g] guard_range(1) [OF det _ g True] True inv_cfgp [OF inv] by auto
    let ?c = "tx_ChannelId (TxSdu cfg i)"
    have "cantp_inv S cfg own (set_sub ?c CANTP_TX_TRANSMISSION_REQUEST_ACCEPTED (upd_ch ?c (\<lambda>ch. ch\<lparr>ch_ActiveSduId := i, ch_PciId := p, ch_SduLength := l,
        ch_InitialTicks := v, ch_TxBufferStatus := CANTP_BUFFER_NOT_ASKED, ch_STminTicks := t\<rparr>) s))" if "p \<le> CANTP_NPCI_FC" for p l v t
      using inv i that by (auto simp: cantp_inv_def chan_ok_def chan_wt_def)
    moreover have "CanTp_Prv_TxPciInit S i l s \<le> CANTP_NPCI_FC" for l by (simp add: CanTp_Prv_TxPciInit_def Let_def)
    ultimately show ?thesis unfolding CanTp_Transmit_def g s0 prod.case Let_def ubits_ticks inv_cfgp [OF inv]
      using True inv inv_report [OF inv] by simp
  qed
qed

lemma inv_cancelled:
  assumes "cantp_inv S cfg own s" "own i = c"
  shows "cantp_inv S cfg own (set_sub c CANTP_IDLE (if B then set_conf i (CANTP_INVALID_CHANNEL S) (CanTp_Prv_PduRConfirmation S a h v s)
    else CanTp_Prv_PduRConfirmation S a h v s))"
proof (rule inv_step [OF assms(1)])
  show "ch_step S c i s (set_sub c CANTP_IDLE (if B then set_conf i (CANTP_INVALID_CHANNEL S) (CanTp_Prv_PduRConfirmation S a h v s)
      else CanTp_Prv_PduRConfirmation S a h v s))" by (intro ch_step_sub if_step ch_intro) simp_all
qed (use assms in simp)

lemma inv_cancel_transmit:
  assumes inv: "cantp_inv S cfg own s" and det: "CANTP_DEV_ERROR_DETECT S" and priv: "conf_private cfg own"
  shows "cantp_inv S cfg own (snd (CanTp_CancelTransmit S i s))"
proof -
  obtain ok s0 where g: "dev_guard S i CANTP_CANCELTRANSMIT CANTP_E_INVALID_TX_ID s = (ok, s0)" by fastforce
  show ?thesis
  proof (cases ok)
    case False
    then show ?thesis using guard_cases [OF det g] inv by (auto simp: CanTp_CancelTransmit_def g inv_report)
  next
    case True
    then have s0: "s0 = s" and i: "i < NumberOfTxSdus cfg"
      using guard_cases [OF det g] guard_range(2) [OF det _ g True] inv_cfgp [OF inv] by auto
    let ?c = "tx_ChannelId (TxSdu cfg i)" and ?i = "tx_TxConfirmationId (TxSdu cfg i)"
    have "own ?i = ?c" using priv i by (simp add: conf_private_def)
    note inv_cancelled [OF inv this]
    then show ?thesis unfolding CanTp_CancelTransmit_def g s0 prod.case Let_def inv_cfgp [OF inv] if_distrib [of snd] snd_conv
      using True inv inv_report [OF inv] by (simp only: split: if_split) simp
  qed
qed

lemma inv_cancel_receive:
  assumes inv: "cantp_inv S cfg own s" and det: "CANTP_DEV_ERROR_DETECT S" and priv: "conf_private cfg own"
  shows "cantp_inv S cfg own (snd (CanTp_CancelReceive S i s))"
proof -
  obtain ok s0 where g: "dev_guard S i CANTP_CANCELRECEIVE CANTP_E_PARAM_ID s = (ok, s0)" by fastforce
  show ?thesis
  proof (cases ok)
    case False
    then show ?thesis using guard_cases [OF det g] inv by (auto simp: CanTp_CancelReceive_def g inv_report)
  next
    case True
    then have s0: "s0 = s" and i: "i < NumberOfRxSdus cfg"
      using guard_cases [OF det g] guard_range(3) [OF det _ g True] inv_cfgp [OF inv] by auto
    let ?c = "rx_ChannelId (RxSdu cfg i)" and ?i = "rx_TxConfirmationId (RxSdu cfg i)"
    have "own ?i = ?c" using priv i by (simp add: conf_private_def)
    note inv_cancelled [OF inv this]
    then show ?thesis unfolding CanTp_CancelReceive_def g s0 prod.case Let_def inv_cfgp [OF inv] if_distrib [of snd] snd_conv
      using True inv inv_report [OF inv] by (simp only: split: if_split) simp
  qed
qed

lemma inv_parameter:
  assumes inv: "cantp_inv S cfg own s" and det: "CANTP_DEV_ERROR_DETECT S"
  shows "cantp_inv S cfg own (snd (CanTp_ChangeParameter S i p v s))" "cantp_inv S cfg own (snd (snd (CanTp_ReadParameter S i p b s)))"
proof -
  obtain ok s0 where g: "dev_guard S i CANTP_CHANGEPARAMETER CANTP_E_INVALID_RX_ID s = (ok, s0)" by fastforce
  have s0: "cantp_inv S cfg own s0" using guard_cases [OF det g] inv by (cases ok) (auto simp: inv_report)
  have "cantp_inv S cfg own (snd (CanTp_Prv_IsChangeParameterOk S p v s0))"
    using s0 by (simp add: CanTp_Prv_IsChangeParameterOk_def Let_def inv_report)
  then show "cantp_inv S cfg own (snd (CanTp_ChangeParameter S i p v s))"
    using s0 unfolding CanTp_ChangeParameter_def g prod.case Let_def split_beta by (simp add: inv_report inv_ext)
  obtain ok' s1 where g': "dev_guard S i CANTP_READPARAMETER CANTP_E_INVALID_RX_ID s = (ok', s1)" by fastforce
  have "cantp_inv S cfg own s1" using guard_cases [OF det g'] inv by (cases ok') (auto simp: inv_report)
  then show "cantp_inv S cfg own (snd (snd (CanTp_ReadParameter S i p b s)))"
    unfolding CanTp_ReadParameter_def g' prod.case Let_def by (simp add: inv_report)
qed

lemma rx_context_sdu:
  assumes "CanTp_Prv_GetRxContext S ctx pdu s = (CANTP_NO_ERROR, ctx')" "rc_FrameType ctx' \<noteq> CANTP_FLOWCONTROL_FRAME"
  shows "rc_SduId ctx' < NumberOfRxSdus (cfgp s) \<and> rc_ChannelId ctx' = rx_ChannelId (RxSdu (cfgp s) (rc_SduId ctx'))"
  using assms by (auto simp: CanTp_Prv_GetRxContext_def CanTp_Prv_GetFcActiveChannel_def Let_def split_beta split: option.splits if_splits)

lemma length_check_keeps:
  assumes "CanTp_Prv_RxSduLengthCheck S ctx D n s = (r, ctx')"
  shows "rc_SduId ctx' = rc_SduId ctx \<and> rc_ChannelId ctx' = rc_ChannelId ctx \<and> rc_FrameType ctx' = rc_FrameType ctx \<and>
    rc_PduRPduHandleId ctx' = rc_PduRPduHandleId ctx"
  using assms by (auto simp: CanTp_Prv_RxSduLengthCheck_def Let_def split_beta split: if_splits)

lemma inv_process:
  assumes inv: "cantp_inv S cfg own s"
    and ctx: "rc_FrameType ctx \<noteq> CANTP_FLOWCONTROL_FRAME \<Longrightarrow> rc_SduId ctx < NumberOfRxSdus cfg \<and> rc_ChannelId ctx = rx_ChannelId (RxSdu cfg (rc_SduId ctx))"
  shows "cantp_inv S cfg own (CanTp_Prv_ProcessFrame S ctx pdu D s)"
proof -
  let ?i = "NumberOfTxPdus cfg" and ?s' = "CanTp_Prv_ProcessFrame S ctx pdu D s"
  consider "ch_step S (rc_ChannelId ctx) ?i s ?s'"
    | t where "rc_FrameType ctx \<in> {CANTP_SINGLE_FRAME, CANTP_FIRST_FRAME}" "opened (rc_ChannelId ctx) (rc_SduId ctx) s t" "ch_step S (rc_ChannelId ctx) ?i t ?s'"
    using ProcessFrame_cases [OF refl, of S ctx ?i s pdu D] by blast
  then show ?thesis
  proof cases
    case 1
    then show ?thesis by (rule inv_step [OF inv]) simp
  next
    case 2
    then have "rc_SduId ctx < NumberOfRxSdus cfg" "rx_ChannelId (RxSdu cfg (rc_SduId ctx)) = rc_ChannelId ctx" using ctx by auto
    then have "cantp_inv S cfg own t" by (rule inv_opened [OF inv 2(2)])
    then show ?thesis using 2(3) by (rule inv_step) simp
  qed
qed

lemma inv_rx_indication:
  assumes inv: "cantp_inv S cfg own s" and det: "CANTP_DEV_ERROR_DETECT S" and priv: "conf_private cfg own"
  shows "cantp_inv S cfg own (CanTp_RxIndication S i info s)"
proof -
  obtain ok s0 where g: "dev_guard S i CANTP_RXINDICATION CANTP_E_INVALID_RX_ID s = (ok, s0)" by fastforce
  show ?thesis
  proof (cases "ok \<and> info \<noteq> None")
    case False
    then show ?thesis using guard_cases [OF det g] inv unfolding CanTp_RxIndication_def g by (auto simp: inv_report)
  next
    case True
    then obtain pdu where pdu: "info = Some pdu" and ok: "ok" "s0 = s" using guard_cases [OF det g] by blast
    obtain e ctx where c: "CanTp_Prv_GetRxContext S (rx_context0 i) pdu s = (e, ctx)" by fastforce
    let ?D = "case SduDataPtr pdu of None \<Rightarrow> \<lambda>_. 0 | Some m \<Rightarrow> m"
    obtain r ctx' where l: "CanTp_Prv_RxSduLengthCheck S ctx ?D (SduLength pdu) s = (r, ctx')" by fastforce
    have "ch_step S (rc_ChannelId ctx') (NumberOfTxPdus cfg) s (CanTp_Prv_LengthError S ctx' s)" by (rule LengthError_step [OF refl])
    then have "cantp_inv S cfg own (CanTp_Prv_LengthError S ctx' s)" by (rule inv_step [OF inv]) simp
    moreover have "cantp_inv S cfg own (CanTp_Prv_ProcessFrame S ctx' pdu ?D s)" if "e = CANTP_NO_ERROR"
      by (rule inv_process [OF inv]) (use rx_context_sdu [OF c [unfolded that]] length_check_keeps [OF l] inv_cfgp [OF inv] in simp)
    ultimately show ?thesis
      unfolding CanTp_RxIndication_def g ok pdu prod.case option.case Let_def c l using inv ok by (simp add: inv_report inv_burst [OF _ priv])
  qed
qed

lemma inv_confirmation:
  assumes inv: "cantp_inv S cfg own s" and det: "CANTP_DEV_ERROR_DETECT S" and priv: "conf_private cfg own"
    and size: "NumberOfChannels cfg \<le> CANTP_MAX_CHANNEL_SIZE S"
  shows "cantp_inv S cfg own (CanTp_TxConfirmation S i s)"
proof -
  obtain ok s0 where g: "dev_guard S i CANTP_TXCONFIRMATION CANTP_E_INVALID_TX_ID s = (ok, s0)" by fastforce
  show ?thesis
  proof (cases ok)
    case False
    then show ?thesis using guard_cases [OF det g] inv by (auto simp: CanTp_TxConfirmation_def g inv_report)
  next
    case True
    then have s0: "s0 = s" and i: "i < NumberOfTxPdus cfg"
      using guard_cases [OF det g] guard_range(4) [OF det _ g True] inv_cfgp [OF inv] by auto
    let ?c = "CanTp_TxConfirmationChannel s i"
    have own: "own i = ?c" if "?c < NumberOfChannels cfg" using inv i that size by (auto simp: cantp_inv_def)
    have "ch_step S ?c i s (set_conf i (CANTP_INVALID_CHANNEL S) (CanTp_Prv_FcTxConfirmation S ?c (upd_ch ?c (ch_InitialTicks_update (\<lambda>_. v)) s)))"
      if "CanTp_SubState s ?c = CANTP_RX_WAIT_FOR_FCTRANSMIT_CONFIRMATION" for v
      using that by (intro ch_step_conf FcTxConfirmation_step ch_step_ch ch_step_refl) (simp_all add: chan_wt_def)
    then have fc: "cantp_inv S cfg own (set_conf i (CANTP_INVALID_CHANNEL S) (CanTp_Prv_FcTxConfirmation S ?c (upd_ch ?c (ch_InitialTicks_update (\<lambda>_. v)) s)))"
      if "CanTp_SubState s ?c = CANTP_RX_WAIT_FOR_FCTRANSMIT_CONFIRMATION" "?c < NumberOfChannels cfg" for v
      using that own by (auto intro: inv_step [OF inv])
    have da: "cantp_inv S cfg own (TxConfirmation_data S i ?c v s)"
      if "CanTp_SubState s ?c = CANTP_TX_WAIT_FOR_TRANSMIT_CONFIRMATION" "?c < NumberOfChannels cfg" for v
      using that own by (auto intro!: inv_step [OF inv] TxConfirmation_data_step)
    show ?thesis unfolding CanTp_TxConfirmation_def g s0 prod.case Let_def ubits_ticks inv_cfgp [OF inv]
      using True by (auto intro!: inv_burst [OF _ priv] simp: inv fc da split: CanTp_SubStateType.split)
  qed
qed

lemma inv_trigger:
  assumes inv: "cantp_inv S cfg own s" and det: "CANTP_DEV_ERROR_DETECT S"
  shows "cantp_inv S cfg own (snd (snd (CanTp_TriggerTransmit S i info s)))"
proof -
  obtain ok s0 where g: "dev_guard S i CANTP_TRIGGERTRANSMIT CANTP_E_INVALID_TX_ID s = (ok, s0)" by fastforce
  have s0: "cantp_inv S cfg own s0" using guard_cases [OF det g] inv by (cases ok) (auto simp: inv_report)
  have "cantp_inv S cfg own (snd (snd (snd (CanTp_Prv_CreateFrame S c m n s0))))" for c m n
    by (rule inv_step [OF s0 CreateFrame_step [where i = "NumberOfTxPdus cfg"]]) simp
  then show ?thesis unfolding CanTp_TriggerTransmit_def g prod.case Let_def
    using s0 by (auto simp: inv_report split_beta split: option.split)
qed

text \<open>The state after initialisation, the RAM being zeroed as the start-up code leaves it.\<close>

definition ram_zero :: "'e CanTp_GlobalType \<Rightarrow> bool" where
  "ram_zero s \<longleftrightarrow> CanTp_SubState s = (\<lambda>_. CANTP_IDLE) \<and> (\<forall>c. chan_wt (CanTp_Channel s c))"

lemma inv_init:
  assumes "ram_zero s" "CANTP_VARIANT S = CANTP_PRE_COMPILE"
  shows "cantp_inv S (CanTp_Config S) own (CanTp_Init S p s)"
  using assms by (simp add: CanTp_Init_def cantp_inv_def ram_zero_def CanTp_Prv_RxParamInit_def cfgp_def ArrayInit_apply chan_ok_def Let_def)

lemma inv_handle:
  assumes "cantp_inv S cfg own s" "CANTP_DEV_ERROR_DETECT S" "conf_private cfg own" "NumberOfChannels cfg \<le> CANTP_MAX_CHANNEL_SIZE S"
  shows "cantp_inv S cfg own (handle S ev s)"
  using assms by (cases ev) (simp_all add: inv_transmit inv_cancel_transmit inv_cancel_receive inv_parameter inv_rx_indication inv_confirmation inv_trigger inv_main)

lemma inv_reach:
  assumes "cantp_reach S s0 s" "cantp_inv S cfg own s0" "CANTP_DEV_ERROR_DETECT S" "conf_private cfg own" "NumberOfChannels cfg \<le> CANTP_MAX_CHANNEL_SIZE S"
  shows "cantp_inv S cfg own s"
  using assms by (induction rule: cantp_reach.induct) (auto simp: inv_handle inv_ext)

end
