(* ===== verification/CanTp_Reassembly.thy ===== *)
theory CanTp_Reassembly
  imports CanTp_Api
begin

text \<open>
  Reassembly of a segmented message: what \<^verbatim>\<open>CanTp_RxIndication\<close> does with the consecutive
  frames of a message. The upper layer is an interface, \<open>tp_sink\<close>: a buffer with room that
  stores what it is given. Inside it, the frames of a message hand over exactly its bytes.
\<close>

subsection \<open>From a frame to its connection\<close>

abbreviation pdu_of :: "nat list \<Rightarrow> PduInfoType" where
  "pdu_of f \<equiv> \<lparr>SduDataPtr = Some (mem_of f), SduLength = length f\<rparr>"

definition CanTp_Receive :: "'e CanTp_Sys \<Rightarrow> nat \<Rightarrow> nat list \<Rightarrow> 'e CanTp_GlobalType \<Rightarrow> 'e CanTp_GlobalType" where
  "CanTp_Receive S P f s = CanTp_RxIndication S P (Some (pdu_of f)) s"

text \<open>
  Frames of N-PDU \<open>P\<close> that start with the address bytes \<open>adr\<close> belong to the reception N-SDU \<open>r\<close>,
  a physical (not functional) connection.
\<close>

definition rx_path :: "'e CanTp_Sys \<Rightarrow> CanTp_ConfigType \<Rightarrow> nat \<Rightarrow> nat \<Rightarrow> nat list \<Rightarrow> bool" where
  "rx_path S cfg P r adr \<longleftrightarrow>
     (case rp_GetSduPair (RxPdu cfg P) of
        None \<Rightarrow> adr = [] \<and> rp_RxSduId (RxPdu cfg P) = r \<and> rx_AddressFormatId (RxSdu cfg r) = 0
      | Some f \<Rightarrow> length adr = 1 \<and> snd (f (rp_TxSduId (RxPdu cfg P)) (rp_RxSduId (RxPdu cfg P)) (hd adr)) = r \<and>
                  0 < rx_AddressFormatId (RxSdu cfg r) \<and> rx_AddressFormatId (RxSdu cfg r) \<le> 3)
     \<and> P < NumberOfRxPdus cfg \<and> r < NumberOfRxSdus cfg
     \<and> \<not> CanTp_Prv_GetBit (rx_BitFields (RxSdu cfg r)) CANTP_FUNCTIONAL"

definition rx_ctx :: "CanTp_ConfigType \<Rightarrow> nat \<Rightarrow> nat \<Rightarrow> nat list \<Rightarrow> nat \<Rightarrow> CanTp_RxContextType" where
  "rx_ctx cfg P r adr ft =
     (rx_context0 P)\<lparr>rc_Address := (case adr of [] \<Rightarrow> 0 | a # _ \<Rightarrow> a), rc_FrameType := ft, rc_SduId := r,
        rc_ChannelId := rx_ChannelId (RxSdu cfg r), rc_PduRPduHandleId := rx_PduRPduHandleId (RxSdu cfg r),
        rc_AddressSize := length adr,
        rc_IsPaddingOn := CanTp_Prv_GetBit (rx_BitFields (RxSdu cfg r)) CANTP_PADDINGON,
        rc_IsFdEnabled := CanTp_Prv_GetBit (rx_BitFields (RxSdu cfg r)) CANTP_FD_ENABLED,
        rc_IsFunctional := False\<rparr>"

definition cantp_on :: "CanTp_ConfigType \<Rightarrow> 'e CanTp_GlobalType \<Rightarrow> bool" where
  "cantp_on cfg s \<longleftrightarrow> CanTp_MainState s \<and> CanTp_CfgPtr s = Some cfg"

lemma cantp_onD: "cantp_on cfg s \<Longrightarrow> CanTp_MainState s \<and> cfgp s = cfg"
  by (simp add: cantp_on_def cfgp_def)

lemma rx_path_adr: "rx_path S cfg P r adr \<Longrightarrow>
    length adr \<le> 1 \<and> length adr = CanTp_AddressSize (rx_AddressFormatId (RxSdu cfg r))"
  using AddressSize_eq [of "rx_AddressFormatId (RxSdu cfg r)"]
  by (auto simp: rx_path_def split: option.splits)

lemma rc_PduId_rx_context0 [simp]: "rc_PduId (rx_context0 P) = P"
  by (simp add: rx_context0_def)

lemma rx_path_dims:
  "rx_path S cfg P r adr \<Longrightarrow> P < NumberOfRxPdus cfg \<and> r < NumberOfRxSdus cfg \<and>
     \<not> CanTp_Prv_GetBit (rx_BitFields (RxSdu cfg r)) CANTP_FUNCTIONAL"
  by (simp add: rx_path_def)

lemma dev_guard_rx:
  "cantp_on cfg s \<Longrightarrow> P < NumberOfRxPdus cfg \<Longrightarrow>
     dev_guard S P CANTP_RXINDICATION CANTP_E_INVALID_RX_ID s = (True, s)"
  by (auto simp: dev_guard_def CanTp_Prv_IsNoDevError_def dest!: cantp_onD)

lemma mem_of_append: "mem_of (xs @ ys) (length xs + i) = mem_of ys i"
  by (simp add: mem_of_def nth_append)

lemma GetRxContext_data:
  assumes on: "cantp_on cfg s" and path: "rx_path S cfg P r adr"
    and ft: "b div 16 = ft" "ft < CANTP_FLOWCONTROL_FRAME"
  shows "CanTp_Prv_GetRxContext S (rx_context0 P) (pdu_of (adr @ b # rest)) s = (CANTP_NO_ERROR, rx_ctx cfg P r adr ft)"
proof -
  have c: "cfgp s = cfg" using cantp_onD [OF on] by simp
  have sz: "length adr = CanTp_AddressSize (rx_AddressFormatId (RxSdu cfg r))" using rx_path_adr [OF path] by simp
  have ft': "drop_bit 4 b = ft" using ft by (simp add: drop_bit_eq_div)
  show ?thesis
  proof (cases "rp_GetSduPair (RxPdu cfg P)")
    case None
    then have "adr = []" "rp_RxSduId (RxPdu cfg P) = r" using path by (auto simp: rx_path_def)
    with None rx_path_dims [OF path] ft' ft(2) sz show ?thesis
      by (simp add: CanTp_Prv_GetRxContext_def c rx_ctx_def mem_of_def Let_def)
  next
    case (Some f)
    then obtain a where a: "adr = [a]" "snd (f (rp_TxSduId (RxPdu cfg P)) (rp_RxSduId (RxPdu cfg P)) a) = r"
      using path by (auto simp: rx_path_def length_Suc_conv)
    obtain t where "f (rp_TxSduId (RxPdu cfg P)) (rp_RxSduId (RxPdu cfg P)) a = (t, r)"
      using a(2) by (metis prod.collapse)
    with Some a rx_path_dims [OF path] ft' ft(2) sz show ?thesis
      by (simp add: CanTp_Prv_GetRxContext_def c rx_ctx_def mem_of_def Let_def)
  qed
qed

lemma Burst_idle: "CanTp_SubState s c \<noteq> CANTP_TX_SEND_CONSECUTIVE_FRAME \<Longrightarrow> CanTp_Prv_BurstMainFunction S c s = s"
  by (simp add: CanTp_Prv_BurstMainFunction_def)

lemma Receive_data:
  assumes on: "cantp_on cfg s" and path: "rx_path S cfg P r adr"
    and ft: "b div 16 = ft" "ft < CANTP_FLOWCONTROL_FRAME"
    and check: "CanTp_Prv_RxSduLengthCheck S (rx_ctx cfg P r adr ft) (mem_of f) (length f) s = (E_OK, ctx)"
    and f: "f = adr @ b # rest"
    and chan: "rc_ChannelId ctx = rx_ChannelId (RxSdu cfg r)"
  shows "CanTp_Receive S P f s =
     CanTp_Prv_BurstMainFunction S (rx_ChannelId (RxSdu cfg r)) (CanTp_Prv_ProcessFrame S ctx (pdu_of f) (mem_of f) s)"
  using dev_guard_rx [OF on, of P S] rx_path_dims [OF path] GetRxContext_data [OF on path ft, of rest] check chan
  by (simp add: CanTp_Receive_def CanTp_RxIndication_def f Let_def)

subsection \<open>One consecutive frame\<close>

definition cf_hdr :: "nat list \<Rightarrow> nat \<Rightarrow> nat list" where
  "cf_hdr adr sn = adr @ [CANTP_CF_HIGHNIBBLE OR sn]"

text \<open>The consecutive frame that carries \<open>bs\<close> when frames have up to \<open>dl\<close> bytes.\<close>

definition cf_bytes :: "'e CanTp_Sys \<Rightarrow> nat \<Rightarrow> nat list \<Rightarrow> nat \<Rightarrow> nat \<Rightarrow> nat list \<Rightarrow> nat list" where
  "cf_bytes S bf adr dl sn bs =
     (let off = Suc (length adr)
      in frame_bytes S (cf_hdr adr sn) bs (if length bs < dl - off then padded_len S bf (off + length bs) else dl))"

lemma cf_nibbles: "sn < 16 \<Longrightarrow> (CANTP_CF_HIGHNIBBLE OR sn) div 16 = 2 \<and> (CANTP_CF_HIGHNIBBLE OR sn) AND 15 = sn"
proof -
  assume "sn < 16"
  moreover have "\<forall>sn\<in>set [0..<16]. (32 OR sn) div 16 = (2::nat) \<and> (32 OR sn) AND 15 = sn" by code_simp
  ultimately show ?thesis by simp
qed

lemma mod16_next: "sn < 16 \<Longrightarrow> u8 (int sn + 1) AND 15 = Suc sn mod 16"
proof -
  assume "sn < 16"
  moreover have "\<forall>sn\<in>set [0..<16]. u8 (int sn + 1) AND 15 = Suc sn mod 16" by code_simp
  ultimately show ?thesis by simp
qed

lemma cf_bytes_len:
  assumes "dl_ok S dl" "length adr \<le> 1" "length bs \<le> dl - Suc (length adr)"
  shows "length (cf_bytes S bf adr dl sn bs) =
      (if length bs < dl - Suc (length adr) then padded_len S bf (Suc (length adr) + length bs) else dl)"
    and "Suc (length adr) + length bs \<le> length (cf_bytes S bf adr dl sn bs)"
    and "length (cf_bytes S bf adr dl sn bs) \<le> 64"
proof -
  let ?k = "Suc (length adr) + length bs"
  have dl: "8 \<le> dl" "dl \<le> 64" using dl_ok_range [OF assms(1)] by auto
  have "?k \<le> dl" using assms(2,3) dl by linarith
  moreover have "CANTP_CANFD_SUPPORT S \<or> dl = 8" using dl_ok_cases [OF assms(1)] by auto
  ultimately have p: "?k \<le> padded_len S bf ?k" "padded_len S bf ?k \<le> 64"
    using padded_len_ge [of ?k S bf] dl by auto
  then show l: "length (cf_bytes S bf adr dl sn bs) =
      (if length bs < dl - Suc (length adr) then padded_len S bf ?k else dl)"
    using assms dl by (auto simp: cf_bytes_def Let_def length_frame_bytes cf_hdr_def)
  show "?k \<le> length (cf_bytes S bf adr dl sn bs)" and "length (cf_bytes S bf adr dl sn bs) \<le> 64"
    unfolding l using p \<open>?k \<le> dl\<close> dl by auto
qed

lemma cf_bytes_payload: "rd (mem_of (cf_bytes S bf adr dl sn bs)) (Suc (length adr)) (length bs) = bs"
  by (rule rd_eqI) (auto simp: cf_bytes_def Let_def frame_bytes_def mem_of_def cf_hdr_def nth_append)

lemma cf_bytes_Cons: "\<exists>rest. cf_bytes S bf adr dl sn bs = adr @ (CANTP_CF_HIGHNIBBLE OR sn) # rest"
  by (auto simp: cf_bytes_def Let_def frame_bytes_def cf_hdr_def)

text \<open>A channel in the middle of a block of the message of N-SDU \<open>r\<close>.\<close>

definition rx_waiting :: "'e CanTp_Sys \<Rightarrow> CanTp_ConfigType \<Rightarrow> nat \<Rightarrow> nat \<Rightarrow> 'e CanTp_GlobalType \<Rightarrow> bool" where
  "rx_waiting S cfg r dl s \<longleftrightarrow>
     (let c = rx_ChannelId (RxSdu cfg r); Channel = CanTp_Channel s c in
      cantp_on cfg s \<and> CanTp_SubState s c = CANTP_RX_WAIT_FOR_CONSECUTIVE_FRAME \<and>
      ch_ActiveSduId Channel = r \<and> CanTp_Prv_GetRxDl S c s = dl \<and> ch_SN Channel < 16 \<and>
      0 < ch_BlockCfsRemaining Channel \<and> ch_BlockCfsRemaining Channel < 2 ^ PduLengthBits S \<and>
      ch_SduLengthRemaining Channel < 2 ^ PduLengthBits S \<and>
      snd (CanTp_GetElapsedValue S (ch_InitialTicks Channel) s) \<le> CsCrTicks (TimeOut cfg (rx_TimeOutId (RxSdu cfg r))))"

lemma cf_check:
  assumes path: "rx_path S cfg P r adr" and dl: "dl_ok S dl" and sn: "sn < 16"
    and rx: "CanTp_Prv_GetRxDl S (rx_ChannelId (RxSdu cfg r)) s = dl"
    and bs: "length bs = min (dl - Suc (length adr)) (ch_SduLengthRemaining (CanTp_Channel s (rx_ChannelId (RxSdu cfg r))))"
    and f: "f = cf_bytes S (rx_BitFields (RxSdu cfg r)) adr dl sn bs"
    and dlc: "CanTp_Cfg_DlcCheck S (length f) (length f) = E_OK"
  shows "CanTp_Prv_RxSduLengthCheck S (rx_ctx cfg P r adr CANTP_CONSECUTIVE_FRAME) (mem_of f) (length f) s =
     (E_OK, (rx_ctx cfg P r adr CANTP_CONSECUTIVE_FRAME)
        \<lparr>rc_SN := sn, rc_CAN_DL := length f, rc_DataOffset := Suc (length adr), rc_SduLength := 0\<rparr>)"
proof -
  let ?ctx = "rx_ctx cfg P r adr CANTP_CONSECUTIVE_FRAME"
  let ?rem = "ch_SduLengthRemaining (CanTp_Channel s (rx_ChannelId (RxSdu cfg r)))"
  have adr: "length adr \<le> 1" using rx_path_adr [OF path] by simp
  have d: "8 \<le> dl" "dl \<le> 64" using dl_ok_range [OF dl] by auto
  obtain rest where fr: "f = adr @ (CANTP_CF_HIGHNIBBLE OR sn) # rest" using cf_bytes_Cons f by metis
  have b0: "mem_of f (length adr) = CANTP_CF_HIGHNIBBLE OR sn"
    using mem_of_append [of adr "(CANTP_CF_HIGHNIBBLE OR sn) # rest" 0] fr by (simp add: mem_of_def)
  have u: "u8 (int (length adr) + 1) = Suc (length adr)" using adr by (simp add: u8_def nat_add_distrib)
  have mx: "u8 (int dl - (1 + int (length adr))) = dl - Suc (length adr)"
    using u8_diff [of "Suc (length adr)" dl] adr d by simp
  have len: "length f = (if ?rem < dl - Suc (length adr) then padded_len S (rx_BitFields (RxSdu cfg r)) (Suc (length adr) + ?rem) else dl)"
    using cf_bytes_len(1) [OF dl adr, of bs "rx_BitFields (RxSdu cfg r)" sn] bs f by (auto simp: min_def)
  have k: "u8 (int ?rem + (1 + int (length adr))) = Suc (length adr) + ?rem" if "?rem < dl - Suc (length adr)"
    using u8_add [of ?rem "Suc (length adr)"] that d by simp
  have "cf_length_check S ?ctx s = (length f, Suc (length adr))"
    using len k GetCanDl_dl [OF dl]
    by (auto simp: cf_length_check_def cf_min_dl_def Let_def rx_ctx_def rx mx u padded_len_def)
  with b0 cf_nibbles [OF sn] dlc show ?thesis
    by (simp add: CanTp_Prv_RxSduLengthCheck_def Let_def rx_ctx_def ubits_def)
qed

definition cf_stored :: "nat \<Rightarrow> nat \<Rightarrow> 'e \<Rightarrow> 'e CanTp_GlobalType \<Rightarrow> 'e CanTp_GlobalType" where
  "cf_stored c n e s =
     upd_ch c (\<lambda>ch. ch\<lparr>ch_InitialTicks := CanTp_MainFunctionTicks s, ch_SN := Suc (ch_SN ch) mod 16,
                       ch_SduLengthRemaining := ch_SduLengthRemaining ch - n,
                       ch_BlockCfsRemaining := ch_BlockCfsRemaining ch - 1\<rparr>) (s\<lparr>ext := e\<rparr>)"

lemma Receive_cf:
  assumes path: "rx_path S cfg P r adr" and dl: "dl_ok S dl" and wait: "rx_waiting S cfg r dl s"
    and c: "c = rx_ChannelId (RxSdu cfg r)" and h: "h = rx_PduRPduHandleId (RxSdu cfg r)"
    and bs: "length bs = min (dl - Suc (length adr)) (ch_SduLengthRemaining (CanTp_Channel s c))"
    and f: "f = cf_bytes S (rx_BitFields (RxSdu cfg r)) adr dl (ch_SN (CanTp_Channel s c)) bs"
    and dlc: "CanTp_Cfg_DlcCheck S (length f) (length f) = E_OK"
    and copy: "PduR_CanTpCopyRxData S h (Some bs) (ext s) = (BUFREQ_OK, rm, e)"
  shows "CanTp_Receive S P f s =
     (let s1 = CanTp_Prv_PrepareFcTransmit c (cf_stored c (length bs) e s) in
      if ch_SduLengthRemaining (CanTp_Channel s c) = length bs
      then set_sub c CANTP_IDLE (CanTp_Prv_PduRConfirmation S CANTP_RX_PDUR_CONFIRMATION h E_OK s1) else s1)"
proof -
  let ?ch = "CanTp_Channel s c" and ?a = "Suc (length adr)"
  have w: "cantp_on cfg s" "CanTp_SubState s c = CANTP_RX_WAIT_FOR_CONSECUTIVE_FRAME" "ch_ActiveSduId ?ch = r"
    "CanTp_Prv_GetRxDl S c s = dl" "ch_SN ?ch < 16" "0 < ch_BlockCfsRemaining ?ch"
    "ch_BlockCfsRemaining ?ch < 2 ^ PduLengthBits S" "ch_SduLengthRemaining ?ch < 2 ^ PduLengthBits S"
    "snd (CanTp_GetElapsedValue S (ch_InitialTicks ?ch) s) \<le> CsCrTicks (TimeOut cfg (rx_TimeOutId (RxSdu cfg r)))"
    using wait c by (auto simp: rx_waiting_def Let_def)
  have cfg: "cfgp s = cfg" using cantp_onD [OF w(1)] by simp
  have adr: "length adr \<le> 1" using rx_path_adr [OF path] by simp
  have bsl: "length bs \<le> dl - ?a" using bs by simp
  note fl = cf_bytes_len [OF dl adr bsl, of "rx_BitFields (RxSdu cfg r)" "ch_SN ?ch", folded f]
  let ?ctx = "(rx_ctx cfg P r adr CANTP_CONSECUTIVE_FRAME)
        \<lparr>rc_SN := ch_SN ?ch, rc_CAN_DL := length f, rc_DataOffset := ?a, rc_SduLength := 0\<rparr>"
  have check: "CanTp_Prv_RxSduLengthCheck S (rx_ctx cfg P r adr CANTP_CONSECUTIVE_FRAME) (mem_of f) (length f) s = (E_OK, ?ctx)"
    using cf_check [OF path dl w(5) w(4) [unfolded c] bs [unfolded c] f dlc] .
  obtain rest where fr: "f = adr @ (CANTP_CF_HIGHNIBBLE OR ch_SN ?ch) # rest" using cf_bytes_Cons f by metis
  have rcv: "CanTp_Receive S P f s = CanTp_Prv_BurstMainFunction S c (CanTp_Prv_ProcessRxConsecutiveFrame S ?ctx (mem_of f) s)"
    using Receive_data [OF w(1) path _ _ check fr] cf_nibbles [OF w(5)] c
    by (simp add: CanTp_Prv_ProcessFrame_def rx_ctx_def)
  have pay: "u8 (int (length f) - int ?a) = length f - ?a" using fl(2,3) u8_diff [of ?a "length f"] by simp
  have n: "(if length f - ?a < ch_SduLengthRemaining ?ch then length f - ?a else u8 (int (ch_SduLengthRemaining ?ch))) = length bs"
    using bs fl adr dl_ok_range [OF dl] by (auto simp: min_def u8_of_nat split: if_splits)
  have rdf: "rd (mem_of f) ?a (length bs) = bs" using cf_bytes_payload f by metis
  have upd: "ulen S (int (ch_SduLengthRemaining ?ch) - int (length bs)) = ch_SduLengthRemaining ?ch - length bs"
    "ulen S (int (ch_BlockCfsRemaining ?ch) - 1) = ch_BlockCfsRemaining ?ch - 1"
    using w(6-8) bs ubits_diff [of 1 "ch_BlockCfsRemaining ?ch" "PduLengthBits S"] by (auto simp: ubits_diff)
  let ?s1 = "CanTp_Prv_PrepareFcTransmit c (cf_stored c (length bs) e s)"
  have rem: "ch_SduLengthRemaining (CanTp_Channel ?s1 c) = ch_SduLengthRemaining ?ch - length bs"
    by (simp add: CanTp_Prv_PrepareFcTransmit_def cf_stored_def)
  have le: "length bs \<le> ch_SduLengthRemaining ?ch" using bs by simp
  let ?r = "if ch_SduLengthRemaining ?ch = length bs
      then set_sub c CANTP_IDLE (CanTp_Prv_PduRConfirmation S CANTP_RX_PDUR_CONFIRMATION h E_OK ?s1) else ?s1"
  have proc: "CanTp_Prv_ProcessRxConsecutiveFrame S ?ctx (mem_of f) s = ?r"
    using w rem le copy pay n rdf mod16_next [OF w(5)]
    by (simp add: CanTp_Prv_ProcessRxConsecutiveFrame_def CanTp_GetElapsedValue_def rx_ctx_def c [symmetric] h [symmetric]
        cfg upd cf_stored_def Let_def)
  have sub: "CanTp_SubState ?r c \<noteq> CANTP_TX_SEND_CONSECUTIVE_FRAME"
    using w(2) by (simp add: CanTp_Prv_PrepareFcTransmit_def cf_stored_def)
  show ?thesis unfolding rcv proc Burst_idle [OF sub] Let_def ..
qed

lemma waiting_step:
  assumes "rx_waiting S cfg r dl s" "1 < ch_BlockCfsRemaining (CanTp_Channel s c)" "c = rx_ChannelId (RxSdu cfg r)"
  shows "rx_waiting S cfg r dl (cf_stored c n e s)"
  using assms by (auto simp: rx_waiting_def Let_def cf_stored_def cantp_on_def CanTp_Prv_GetRxDl_def
      CanTp_GetElapsedValue_def ubits_def)

subsection \<open>The consecutive frames of a message\<close>

lemma drop_less: "xs \<noteq> [] \<Longrightarrow> 0 < p \<Longrightarrow> length (drop p xs) < length xs"
  by simp

text \<open>The frames that carry \<open>xs\<close>, the first of them with sequence number \<open>sn\<close>.\<close>

function segment :: "'e CanTp_Sys \<Rightarrow> nat \<Rightarrow> nat list \<Rightarrow> nat \<Rightarrow> nat \<Rightarrow> nat list \<Rightarrow> nat list list" where
  "segment S bf adr dl sn xs =
     (let p = dl - Suc (length adr) in
      if xs = [] \<or> p = 0 then []
      else cf_bytes S bf adr dl sn (take p xs) # segment S bf adr dl (Suc sn mod 16) (drop p xs))"
  by pat_completeness auto
termination
  by (relation "measure (\<lambda>(S, bf, adr, dl, sn, xs). length xs)") (simp_all only: in_measure prod.case wf_measure drop_less de_Morgan_disj not_gr_zero not_False_eq_True simp_thms neq0_conv)

declare segment.simps [simp del]

lemma segment_Nil [simp]: "segment S bf adr dl sn [] = []"
  by (simp add: segment.simps)

lemma segment_Cons:
  "xs \<noteq> [] \<Longrightarrow> 0 < dl - Suc (length adr) \<Longrightarrow> segment S bf adr dl sn xs =
     cf_bytes S bf adr dl sn (take (dl - Suc (length adr)) xs)
       # segment S bf adr dl (Suc sn mod 16) (drop (dl - Suc (length adr)) xs)"
  by (subst segment.simps) (simp add: Let_def)

lemma length_segment: "0 < dl - Suc (length adr) \<Longrightarrow> length (segment S bf adr dl sn xs) = ceil_div (length xs) (dl - Suc (length adr))"
proof (induction xs arbitrary: sn rule: length_induct)
  case (1 xs)
  let ?p = "dl - Suc (length adr)"
  show ?case
  proof (cases "xs = []")
    case False
    then have "length (segment S bf adr dl sn xs) = Suc (ceil_div (length xs - ?p) ?p)"
      using 1(1) [rule_format, OF drop_less [OF False 1(2)] 1(2), of "Suc sn mod 16"] segment_Cons [OF False 1(2), of S bf sn]
      by (simp only: list.size add_Suc_right add_0_right length_drop)
    moreover have "ceil_div (length xs) ?p = Suc (ceil_div (length xs - ?p) ?p)"
      using ceil_div_step [of ?p "length xs"] ceil_div_small [of "length xs" ?p] 1(2) False
      by (cases "?p < length xs") auto
    ultimately show ?thesis by simp
  qed (use ceil_div_0 [OF 1(2)] in simp)
qed

subsection \<open>Interface: the upper layer as a receive buffer\<close>

text \<open>
  What the transport layer relies on in the upper layer while a message is being received: data
  that fits is stored and acknowledged, data that does not fit is refused (the transport layer
  hands over at most the payload of a frame), and a query (no data) reports the room left.
\<close>

locale tp_sink =
  fixes copy :: "nat list option \<Rightarrow> 'e \<Rightarrow> BufReq_ReturnType \<times> nat \<times> 'e"
    and stored :: "'e \<Rightarrow> nat list"
    and room :: "'e \<Rightarrow> nat"
    and ready :: "'e \<Rightarrow> bool"
  assumes copy_fits: "ready e \<Longrightarrow> length d \<le> room e \<Longrightarrow>
      \<exists>e'. copy (Some d) e = (BUFREQ_OK, room e - length d, e') \<and> ready e' \<and>
           stored e' = stored e @ d \<and> room e' = room e - length d"
    and copy_query: "ready e \<Longrightarrow> copy None e = (BUFREQ_OK, room e, e)"
    and copy_full: "ready e \<Longrightarrow> room e < length d \<Longrightarrow> length d \<le> 64 \<Longrightarrow> fst (copy (Some d) e) = BUFREQ_E_OVFL"
begin

lemma cf_delivered:
  assumes S: "PduR_CanTpCopyRxData S (rx_PduRPduHandleId (RxSdu cfg r)) = copy"
    and path: "rx_path S cfg P r adr" and dl: "dl_ok S dl" and wait: "rx_waiting S cfg r dl s"
    and dlc: "\<And>n. CanTp_Cfg_DlcCheck S n n = E_OK"
    and c: "c = rx_ChannelId (RxSdu cfg r)"
    and bs: "length bs = min (dl - Suc (length adr)) (ch_SduLengthRemaining (CanTp_Channel s c))"
    and up: "ready (ext s)" "length bs \<le> room (ext s)"
    and f: "f = cf_bytes S (rx_BitFields (RxSdu cfg r)) adr dl (ch_SN (CanTp_Channel s c)) bs"
  obtains e where "ready e" "stored e = stored (ext s) @ bs" "room e = room (ext s) - length bs"
    "CanTp_Receive S P f s =
     (let s1 = CanTp_Prv_PrepareFcTransmit c (cf_stored c (length bs) e s) in
      if ch_SduLengthRemaining (CanTp_Channel s c) = length bs
      then set_sub c CANTP_IDLE (CanTp_Prv_PduRConfirmation S CANTP_RX_PDUR_CONFIRMATION (rx_PduRPduHandleId (RxSdu cfg r)) E_OK s1)
      else s1)"
proof -
  obtain e where e: "copy (Some bs) (ext s) = (BUFREQ_OK, room (ext s) - length bs, e)" "ready e"
    "stored e = stored (ext s) @ bs" "room e = room (ext s) - length bs"
    using copy_fits [OF up] by blast
  show thesis
    by (rule that [OF e(2-4)], rule Receive_cf [OF path dl wait c refl bs f dlc])
      (use S e(1) in simp)
qed

lemma message_delivered:
  assumes S: "PduR_CanTpCopyRxData S (rx_PduRPduHandleId (RxSdu cfg r)) = copy"
    and path: "rx_path S cfg P r adr" and dl: "dl_ok S dl"
    and dlc: "\<And>n. CanTp_Cfg_DlcCheck S n n = E_OK"
    and c: "c = rx_ChannelId (RxSdu cfg r)" and p: "p = dl - Suc (length adr)"
  shows "rx_waiting S cfg r dl s \<Longrightarrow> ready (ext s) \<Longrightarrow> xs \<noteq> [] \<Longrightarrow>
     length xs = ch_SduLengthRemaining (CanTp_Channel s c) \<Longrightarrow> length xs \<le> room (ext s) \<Longrightarrow>
     ceil_div (length xs) p \<le> ch_BlockCfsRemaining (CanTp_Channel s c) \<Longrightarrow>
     \<exists>e. stored e = stored (ext s) @ xs \<and>
       ext (fold (CanTp_Receive S P) (segment S (rx_BitFields (RxSdu cfg r)) adr dl (ch_SN (CanTp_Channel s c)) xs) s)
         = PduR_CanTpRxIndication S (rx_PduRPduHandleId (RxSdu cfg r)) E_OK e \<and>
       CanTp_SubState (fold (CanTp_Receive S P)
         (segment S (rx_BitFields (RxSdu cfg r)) adr dl (ch_SN (CanTp_Channel s c)) xs) s) c = CANTP_IDLE"
proof (induction xs arbitrary: s rule: length_induct)
  case (1 xs)
  note wait = 1(2) and up = 1(3) and ne = 1(4) and len = 1(5) and fit = 1(6) and blk = 1(7)
  let ?bs = "take p xs"
  have p0: "0 < p" using p rx_path_adr [OF path] dl_ok_range [OF dl] by auto
  have bs: "length ?bs = min (dl - Suc (length adr)) (ch_SduLengthRemaining (CanTp_Channel s c))"
    using len p by (simp add: min.commute)
  obtain e where e: "ready e" "stored e = stored (ext s) @ ?bs" "room e = room (ext s) - length ?bs"
    and rcv: "CanTp_Receive S P (cf_bytes S (rx_BitFields (RxSdu cfg r)) adr dl (ch_SN (CanTp_Channel s c)) ?bs) s =
     (let s1 = CanTp_Prv_PrepareFcTransmit c (cf_stored c (length ?bs) e s) in
      if ch_SduLengthRemaining (CanTp_Channel s c) = length ?bs
      then set_sub c CANTP_IDLE (CanTp_Prv_PduRConfirmation S CANTP_RX_PDUR_CONFIRMATION (rx_PduRPduHandleId (RxSdu cfg r)) E_OK s1)
      else s1)"
    using cf_delivered [OF S path dl wait dlc c bs up _ refl, of thesis] fit by auto
  note seg = segment_Cons [OF ne p0 [unfolded p], of S "rx_BitFields (RxSdu cfg r)" "ch_SN (CanTp_Channel s c)", folded p]
  show ?case
  proof (cases "length xs \<le> p")
    case True
    then show ?thesis using e(2) rcv len seg
      by (intro exI [of _ e]) (simp add: Let_def CanTp_Prv_PduRConfirmation_def CanTp_Prv_PrepareFcTransmit_def cf_stored_def)
  next
    case False
    let ?s1 = "cf_stored c p e s"
    have more: "ceil_div (length xs) p = Suc (ceil_div (length (drop p xs)) p)" "0 < ceil_div (length (drop p xs)) p"
      using False p0 by (simp_all add: ceil_div_step ceil_div_pos)
    then have b: "1 < ch_BlockCfsRemaining (CanTp_Channel s c)" using blk by simp
    have s1: "CanTp_Receive S P (cf_bytes S (rx_BitFields (RxSdu cfg r)) adr dl (ch_SN (CanTp_Channel s c)) ?bs) s = ?s1"
      using rcv False len b by (simp add: Let_def CanTp_Prv_PrepareFcTransmit_def cf_stored_def)
    have w1: "rx_waiting S cfg r dl ?s1" using waiting_step [OF wait _ c, of p e] b by simp
    have x1: "ext ?s1 = e" and n1: "ch_SN (CanTp_Channel ?s1 c) = Suc (ch_SN (CanTp_Channel s c)) mod 16"
      and l1: "length (drop p xs) = ch_SduLengthRemaining (CanTp_Channel ?s1 c)"
      and b1: "ceil_div (length (drop p xs)) p \<le> ch_BlockCfsRemaining (CanTp_Channel ?s1 c)"
      using len blk more by (simp_all add: cf_stored_def)
    have d1: "length (drop p xs) < length xs" "drop p xs \<noteq> []" using False p0 by auto
    have r1: "ready (ext ?s1)" "length (drop p xs) \<le> room (ext ?s1)" using x1 e(1,3) fit False by auto
    obtain e' where
      "stored e' = stored e @ drop p xs"
      "ext (fold (CanTp_Receive S P) (segment S (rx_BitFields (RxSdu cfg r)) adr dl (Suc (ch_SN (CanTp_Channel s c)) mod 16) (drop p xs)) ?s1)
         = PduR_CanTpRxIndication S (rx_PduRPduHandleId (RxSdu cfg r)) E_OK e'"
      "CanTp_SubState (fold (CanTp_Receive S P) (segment S (rx_BitFields (RxSdu cfg r)) adr dl (Suc (ch_SN (CanTp_Channel s c)) mod 16) (drop p xs)) ?s1) c
         = CANTP_IDLE"
      using 1(1) [rule_format, OF d1(1) w1 r1(1) d1(2) l1 r1(2) b1] unfolding x1 n1 by blast
    then show ?thesis using e(2) seg s1 by (intro exI [of _ e']) simp
  qed
qed

end

end
