(* ===== verification/CanTp_Segmentation.thy ===== *)
theory CanTp_Segmentation
  imports CanTp_Reassembly
begin

text \<open>
  Segmentation of a message: what the main function and \<^verbatim>\<open>CanTp_TxConfirmation\<close> send for the
  rest of a message after the first frame. The upper layer that provides the bytes and the
  interface that takes the frames form the interface \<open>tp_source\<close>.
\<close>

subsection \<open>Interface: a message source and a frame sink\<close>

text \<open>
  While a message is in transmission the upper layer reports what is left and hands out the next
  bytes in order, and the lower layer accepts every frame.
\<close>

locale tp_source =
  fixes copy :: "nat \<Rightarrow> bool \<Rightarrow> 'e \<Rightarrow> BufReq_ReturnType \<times> nat list \<times> nat \<times> 'e"
    and pending :: "'e \<Rightarrow> nat list"
    and transmit :: "nat list option \<Rightarrow> nat \<Rightarrow> 'e \<Rightarrow> Std_ReturnType \<times> 'e"
    and sent :: "'e \<Rightarrow> nat list list"
    and live :: "'e \<Rightarrow> bool"
  assumes query: "live e \<Longrightarrow> copy 0 False e = (BUFREQ_OK, [], length (pending e), e)"
    and fetch: "live e \<Longrightarrow> n \<le> length (pending e) \<Longrightarrow>
      \<exists>e'. copy n True e = (BUFREQ_OK, take n (pending e), length (pending e) - n, e') \<and> live e' \<and>
           pending e' = drop n (pending e) \<and> sent e' = sent e"
    and accept: "live e \<Longrightarrow> length f \<le> 64 \<Longrightarrow>
      \<exists>e'. transmit (Some f) (length f) e = (E_OK, e') \<and> live e' \<and> pending e' = pending e \<and> sent e' = sent e @ [f]"

subsection \<open>A connection in transmission\<close>

definition tx_path :: "'e CanTp_Sys \<Rightarrow> CanTp_ConfigType \<Rightarrow> nat \<Rightarrow> nat \<Rightarrow> bool" where
  "tx_path S cfg t dl \<longleftrightarrow>
     (let conn = TxSdu cfg t in
      tx_AddressFormatId conn \<le> 3 \<and> CanTp_Prv_GetTxDl S conn = dl \<and> dl_ok S dl \<and>
      \<not> (CANTP_TRIGGER_TRANSMIT_API S \<and> CanTp_Prv_GetBit (tx_BitFields conn) CANTP_TRIGGER_TRANSMIT_ON) \<and>
      tx_TxConfirmationId conn < NumberOfTxPdus cfg \<and> tx_ChannelId conn < NumberOfChannels cfg \<and>
      \<not> CANTP_TX_BURST_MODE S)"

definition tx_adr :: "CanTp_ConfigType \<Rightarrow> nat \<Rightarrow> nat list" where
  "tx_adr cfg t = addr_bytes (tx_AddressFormatId (TxSdu cfg t)) (tx_Address (TxSdu cfg t))"

text \<open>The channel of \<open>t\<close> is about to send a consecutive frame and nothing is waiting for confirmation.\<close>

definition tx_sending :: "'e CanTp_Sys \<Rightarrow> CanTp_ConfigType \<Rightarrow> nat \<Rightarrow> 'e CanTp_GlobalType \<Rightarrow> bool" where
  "tx_sending S cfg t s \<longleftrightarrow>
     (let conn = TxSdu cfg t; Channel = CanTp_Channel s (tx_ChannelId conn) in
      cantp_on cfg s \<and> CanTp_SubState s (tx_ChannelId conn) = CANTP_TX_SEND_CONSECUTIVE_FRAME \<and>
      ch_ActiveSduId Channel = t \<and>
      CanTp_TxConfirmationChannel s (tx_TxConfirmationId conn) = CANTP_INVALID_CHANNEL S \<and>
      ch_TxBufferStatus Channel = CANTP_BUFFER_NOT_ASKED \<and> ch_SN Channel < 16 \<and>
      0 < ch_BlockCfsRemaining Channel \<and> ch_BlockCfsRemaining Channel < 2 ^ PduLengthBits S \<and>
      ch_SduLengthRemaining Channel < 2 ^ PduLengthBits S)"

text \<open>The separation time has passed and N\_Cs has not.\<close>

definition tx_due :: "'e CanTp_Sys \<Rightarrow> CanTp_ConfigType \<Rightarrow> nat \<Rightarrow> 'e CanTp_GlobalType \<Rightarrow> bool" where
  "tx_due S cfg t s \<longleftrightarrow>
     (let conn = TxSdu cfg t; Channel = CanTp_Channel s (tx_ChannelId conn);
          Elapsed = snd (CanTp_GetElapsedValue S (ch_InitialTicks Channel) s)
      in Elapsed < CsCrTicks (TimeOut cfg (tx_TimeOutId conn)) \<and>
         (ch_STminTicks Channel \<le> Elapsed \<or> ch_PciId Channel \<noteq> CANTP_NPCI_CF))"

definition cf_handed :: "nat \<Rightarrow> nat \<Rightarrow> 'e \<Rightarrow> 'e CanTp_GlobalType \<Rightarrow> 'e CanTp_GlobalType" where
  "cf_handed c i e s =
     set_conf i c (set_sub c CANTP_TX_WAIT_FOR_TRANSMIT_CONFIRMATION
       (upd_ch c (\<lambda>ch. ch\<lparr>ch_PciId := CANTP_NPCI_CF, ch_InitialTicks := CanTp_MainFunctionTicks s,
                         ch_TxBufferStatus := CANTP_BUFFER_NOT_ASKED\<rparr>) (s\<lparr>ext := e\<rparr>)))"

lemma tx_adr_length: "tx_AddressFormatId (TxSdu cfg t) \<le> 3 \<Longrightarrow>
    length (tx_adr cfg t) = CanTp_AddressSize (tx_AddressFormatId (TxSdu cfg t)) \<and> length (tx_adr cfg t) \<le> 1"
  using length_addr_bytes [of "tx_AddressFormatId (TxSdu cfg t)" "tx_Address (TxSdu cfg t)"] AddressSize_le
  by (simp add: tx_adr_def)

definition cf_next :: "nat \<Rightarrow> nat \<Rightarrow> nat \<Rightarrow> 'e CanTp_Sys \<Rightarrow> 'e \<Rightarrow> 'e CanTp_GlobalType \<Rightarrow> 'e CanTp_GlobalType" where
  "cf_next c i p S e s =
     set_conf i (CANTP_INVALID_CHANNEL S) (set_sub c CANTP_TX_SEND_CONSECUTIVE_FRAME
       (upd_ch c (\<lambda>ch. ch\<lparr>ch_PciId := CANTP_NPCI_CF, ch_TxBufferStatus := CANTP_BUFFER_NOT_ASKED,
                         ch_InitialTicks := CanTp_MainFunctionTicks s,
                         ch_SduLengthRemaining := ch_SduLengthRemaining ch - p, ch_SN := Suc (ch_SN ch) mod 16,
                         ch_BlockCfsRemaining := ch_BlockCfsRemaining ch - 1\<rparr>) (s\<lparr>ext := e\<rparr>)))"

lemma TxConfirmation_waiting:
  assumes on: "cantp_on cfg s" and path: "tx_path S cfg t dl" and i: "i = tx_TxConfirmationId (TxSdu cfg t)" and c: "c = tx_ChannelId (TxSdu cfg t)"
    and st: "CanTp_TxConfirmationChannel s i = c" "CanTp_SubState s c = CANTP_TX_WAIT_FOR_TRANSMIT_CONFIRMATION"
  shows "CanTp_TxConfirmation S i s = TxConfirmation_data S i c (CanTp_MainFunctionTicks s) s"
proof -
  have pa: "i < NumberOfTxPdus cfg" "c < NumberOfChannels cfg" "\<not> CANTP_TX_BURST_MODE S" using path c i by (auto simp: tx_path_def Let_def)
  have cfg: "cfgp s = cfg" "CanTp_MainState s" using cantp_onD [OF on] by auto
  have "dev_guard S i CANTP_TXCONFIRMATION CANTP_E_INVALID_TX_ID s = (True, s)"
    using pa(1) cfg by (simp add: dev_guard_def CanTp_Prv_IsNoDevError_def Let_def)
  then show ?thesis
    using pa(2,3) st by (simp add: CanTp_TxConfirmation_def CanTp_GetElapsedValue_def cfg CanTp_Prv_BurstMainFunction_def Let_def)
qed

lemma cf_confirmed:
  assumes path: "tx_path S cfg t dl" and snd: "tx_sending S cfg t s" and conn: "conn = TxSdu cfg t"
    and c: "c = tx_ChannelId conn" and i: "i = tx_TxConfirmationId conn" and p: "p = dl - Suc (length (tx_adr cfg t))"
  shows "ch_SduLengthRemaining (CanTp_Channel s c) \<le> p \<Longrightarrow>
       CanTp_SubState (CanTp_TxConfirmation S i (cf_handed c i e s)) c = CANTP_IDLE \<and>
       ext (CanTp_TxConfirmation S i (cf_handed c i e s)) = PduR_CanTpTxConfirmation S (tx_PduRPduHandleId conn) E_OK e"
    and "p < ch_SduLengthRemaining (CanTp_Channel s c) \<Longrightarrow> 1 < ch_BlockCfsRemaining (CanTp_Channel s c) \<Longrightarrow>
       CanTp_TxConfirmation S i (cf_handed c i e s) = cf_next c i p S e s"
proof -
  let ?ch = "CanTp_Channel s c" and ?s = "cf_handed c i e s"
  have w: "cantp_on cfg s" "ch_ActiveSduId ?ch = t" "ch_SN ?ch < 16"
    "0 < ch_BlockCfsRemaining ?ch" "ch_BlockCfsRemaining ?ch < 2 ^ PduLengthBits S" "ch_SduLengthRemaining ?ch < 2 ^ PduLengthBits S"
    using snd conn c by (auto simp: tx_sending_def Let_def)
  have pa: "tx_AddressFormatId conn \<le> 3" "CanTp_Prv_GetTxDl S conn = dl" "dl_ok S dl" using path conn by (auto simp: tx_path_def Let_def)
  have adr: "length (tx_adr cfg t) = CanTp_AddressSize (tx_AddressFormatId conn)" "length (tx_adr cfg t) \<le> 1"
    using tx_adr_length [of cfg t] pa(1) conn by auto
  have cfg: "cfgp ?s = cfg" using cantp_onD [OF w(1)] by (simp add: cf_handed_def cfgp_def)
  have conf: "CanTp_TxConfirmation S i ?s = TxConfirmation_data S i c (CanTp_MainFunctionTicks s) ?s"
    using TxConfirmation_waiting [OF _ path, of ?s i c] w(1) conn c i by (simp add: cf_handed_def cantp_on_def)
  have mx: "u8 (int dl - int (CanTp_AddressSize (tx_AddressFormatId conn)) - int (CanTp_PciSize CANTP_NPCI_CF)) = p"
    using u8_diff2 [of "CanTp_AddressSize (tx_AddressFormatId conn)" 1 dl] adr dl_ok_range [OF pa(3)] p
    by (simp add: CanTp_PciSize_def)
  have cs: "CanTp_Channel ?s c = ?ch\<lparr>ch_PciId := CANTP_NPCI_CF, ch_InitialTicks := CanTp_MainFunctionTicks s,
                ch_TxBufferStatus := CANTP_BUFFER_NOT_ASKED\<rparr>" by (simp add: cf_handed_def)
  have cn: "TxSdu (cfgp ?s) (ch_ActiveSduId (CanTp_Channel ?s c)) = conn" using w(2) cs cfg conn by simp
  show "CanTp_SubState (CanTp_TxConfirmation S i ?s) c = CANTP_IDLE \<and>
       ext (CanTp_TxConfirmation S i ?s) = PduR_CanTpTxConfirmation S (tx_PduRPduHandleId conn) E_OK e"
    if "ch_SduLengthRemaining ?ch \<le> p"
  proof -
    have "(if ch_SduLengthRemaining ?ch < p then 0 else ulen S (int (ch_SduLengthRemaining ?ch) - int p)) = 0"
      using that by (auto simp: ubits_def)
    then show ?thesis unfolding conf TxConfirmation_data_def Let_def unfolding cn unfolding cs
      by (simp add: pa(2) mx CanTp_Prv_PduRConfirmation_def cf_handed_def cong del: if_weak_cong split del: if_split)
  qed
  show "CanTp_TxConfirmation S i ?s = cf_next c i p S e s"
    if a: "p < ch_SduLengthRemaining ?ch" and b: "1 < ch_BlockCfsRemaining ?ch"
  proof -
    have "ulen S (int (ch_SduLengthRemaining ?ch) - int p) = ch_SduLengthRemaining ?ch - p"
      "ulen S (int (ch_BlockCfsRemaining ?ch) - 1) = ch_BlockCfsRemaining ?ch - 1"
      using a w(4-6) ubits_diff [of 1 "ch_BlockCfsRemaining ?ch" "PduLengthBits S"] by (auto simp: ubits_diff)
    with a b mod16_next [OF w(3)] show ?thesis unfolding conf TxConfirmation_data_def Let_def unfolding cn unfolding cs
      by (simp add: pa(2) mx cf_handed_def cf_next_def)
  qed
qed

lemma sending_step:
  assumes "tx_sending S cfg t s" "conn = TxSdu cfg t" "c = tx_ChannelId conn" "i = tx_TxConfirmationId conn"
    "1 < ch_BlockCfsRemaining (CanTp_Channel s c)"
  shows "tx_sending S cfg t (cf_next c i p S e s)"
  using assms by (auto simp: tx_sending_def cf_next_def Let_def cantp_on_def)

subsection \<open>The frames of the rest of a message\<close>

text \<open>
  One round: \<open>d\<close> ticks of the main function pass, the channel's state function runs, and the CAN
  interface confirms the frame.
\<close>

definition tx_round :: "'e CanTp_Sys \<Rightarrow> nat \<Rightarrow> nat \<Rightarrow> nat \<Rightarrow> 'e CanTp_GlobalType \<Rightarrow> 'e CanTp_GlobalType" where
  "tx_round S c i d s = CanTp_TxConfirmation S i (CanTp_Prv_ExecuteState S c ((CanTp_IncrementCounter S ^^ d) s))"

lemma ubits_add_left: "ubits w (int (ubits w x) + y) = ubits w (x + y)"
  by (simp add: ubits_def mod_add_left_eq)

lemma ubits_add_right: "ubits w (y + int (ubits w x)) = ubits w (y + x)"
  by (simp add: ubits_def mod_add_right_eq)

lemma ubits_diff_left: "ubits w (int (ubits w x) - y) = ubits w (x - y)"
  by (simp add: ubits_def mod_diff_left_eq)

lemma wait_ticks:
  "0 < d \<Longrightarrow> (CanTp_IncrementCounter S ^^ d) s =
     s\<lparr>CanTp_MainFunctionTicks := ubits (TickBits S) (int (CanTp_MainFunctionTicks s) + int d)\<rparr>"
proof (induction d rule: nat_induct_non_zero)
  case 1
  then show ?case by (simp add: CanTp_IncrementCounter_def)
next
  case (Suc n)
  then show ?case by (simp add: CanTp_IncrementCounter_def ubits_add_left ubits_add_right ac_simps)
qed

lemma wait_elapsed:
  assumes "0 < d" "d < 2 ^ TickBits S" "t0 = CanTp_MainFunctionTicks s"
  shows "snd (CanTp_GetElapsedValue S t0 ((CanTp_IncrementCounter S ^^ d) s)) = d"
  using assms by (simp add: wait_ticks CanTp_GetElapsedValue_def Let_def ubits_diff_left ubits_of_nat)

context tp_source
begin

lemma cf_transmitted:
  assumes S: "PduR_CanTpCopyTxData S (tx_PduRPduHandleId conn) = copy" "CanIf_TransmitFn S (tx_TxPduId conn) = transmit"
    and path: "tx_path S cfg t dl" and snd: "tx_sending S cfg t s" and due: "tx_due S cfg t s"
    and conn: "conn = TxSdu cfg t" and c: "c = tx_ChannelId conn"
    and up: "live (ext s)" "pending (ext s) = xs" "length xs = ch_SduLengthRemaining (CanTp_Channel s c)" "xs \<noteq> []"
    and p: "p = dl - Suc (length (tx_adr cfg t))"
  obtains e where "live e" "pending e = drop p xs"
    "sent e = sent (ext s) @ [cf_bytes S (tx_BitFields conn) (tx_adr cfg t) dl (ch_SN (CanTp_Channel s c)) (take p xs)]"
    "CanTp_Prv_ExecuteState S c s = cf_handed c (tx_TxConfirmationId conn) e s"
proof -
  let ?ch = "CanTp_Channel s c" and ?a = "Suc (length (tx_adr cfg t))"
  have w: "cantp_on cfg s" "CanTp_SubState s c = CANTP_TX_SEND_CONSECUTIVE_FRAME" "ch_ActiveSduId ?ch = t"
    "CanTp_TxConfirmationChannel s (tx_TxConfirmationId conn) = CANTP_INVALID_CHANNEL S"
    "ch_TxBufferStatus ?ch = CANTP_BUFFER_NOT_ASKED" "ch_SN ?ch < 16"
    using snd conn c by (auto simp: tx_sending_def Let_def)
  have cfg: "cfgp s = cfg" using cantp_onD [OF w(1)] by simp
  have pa: "tx_AddressFormatId conn \<le> 3" "CanTp_Prv_GetTxDl S conn = dl" "dl_ok S dl"
    "\<not> (CANTP_TRIGGER_TRANSMIT_API S \<and> CanTp_Prv_GetBit (tx_BitFields conn) CANTP_TRIGGER_TRANSMIT_ON)"
    using path conn by (auto simp: tx_path_def Let_def)
  have adr: "length (tx_adr cfg t) = CanTp_AddressSize (tx_AddressFormatId conn)" "length (tx_adr cfg t) \<le> 1"
    using tx_adr_length [of cfg t] pa(1) conn by auto
  have d: "8 \<le> dl" "dl \<le> 64" using dl_ok_range [OF pa(3)] by auto
  let ?n = "length (take p xs)"
  have n: "?n = min (dl - ?a) (ch_SduLengthRemaining ?ch)" using up p by (simp add: min.commute)
  define s1 where "s1 = upd_ch c (ch_TxBufferStatus_update (\<lambda>_. CANTP_BUFFER_AVAILABLE)) s"
  define s2 where "s2 = set_sub c CANTP_TX_WAIT_FOR_TRANSMIT_CONFIRMATION
                          (upd_ch c (\<lambda>ch. ch\<lparr>ch_PciId := CANTP_NPCI_CF, ch_InitialTicks := CanTp_MainFunctionTicks s\<rparr>) s1)"
  obtain e1 where e1: "copy ?n True (ext s) = (BUFREQ_OK, take ?n xs, length xs - ?n, e1)" "live e1"
     "pending e1 = drop ?n xs" "sent e1 = sent (ext s)"
    using fetch [OF up(1), of ?n] up(2) by auto
  have t: "take ?n xs = take p xs" "drop ?n xs = drop p xs" by (auto simp: min_def)
  let ?f = "cf_bytes S (tx_BitFields conn) (tx_adr cfg t) dl (ch_SN ?ch) (take p xs)"
  have fl: "length ?f \<le> 64" using cf_bytes_len(3) [OF pa(3) adr(2), of "take p xs"] n by simp
  obtain e where e: "transmit (Some ?f) (length ?f) e1 = (E_OK, e)" "live e" "pending e = pending e1" "sent e = sent e1 @ [?f]"
    using accept [OF e1(2) fl] by blast
  have "\<exists>m. CanTp_Prv_CreateFrame S c (uninit S) dl s2 = (E_OK, m, length ?f, s2\<lparr>ext := e1\<rparr>) \<and> rd m 0 (length ?f) = ?f"
  proof -
    have "tx_conn c s2 = conn" "CanTp_SubState s2 c = CANTP_TX_WAIT_FOR_TRANSMIT_CONFIRMATION" "ext s2 = ext s"
      "ch_SduLengthRemaining (CanTp_Channel s2 c) = ch_SduLengthRemaining ?ch" "ch_SN (CanTp_Channel s2 c) = ch_SN ?ch"
      "ch_PciId (CanTp_Channel s2 c) = CANTP_NPCI_CF"
      using w(3) cfg conn by (simp_all add: s2_def s1_def cfgp_def)
    note st = this
    have L: "length ?f = (if ?n < CanTp_Prv_GetTxDl S conn - ?a then padded_len S (tx_BitFields conn) (?a + ?n) else CanTp_Prv_GetTxDl S conn)"
      using cf_bytes_len(1) [OF pa(3) adr(2), of "take p xs"] n pa(2) by simp
    have cp: "PduR_CanTpCopyTxData S (tx_PduRPduHandleId conn) ?n True (ext s2) = (BUFREQ_OK, take p xs, length xs - ?n, e1)"
      using S(1) e1(1) t(1) st(3) by simp
    have nn: "?n = min (CanTp_Prv_GetTxDl S conn - ?a) (ch_SduLengthRemaining (CanTp_Channel s2 c))"
      using n pa(2) st(4) by simp
    have dlo: "dl_ok S (CanTp_Prv_GetTxDl S conn)" using pa by simp
    from cf_frame [OF st(2) st(1) [symmetric] pa(1) dlo _ nn L cp refl, of "uninit S" dl] adr(1)
    have "\<exists>m. CanTp_Prv_CreateTxConsecutiveFrame S c (uninit S) dl s2 = (E_OK, m, length ?f, s2\<lparr>ext := e1\<rparr>) \<and>
       rd m 0 (length ?f) = frame_bytes S (addr_bytes (tx_AddressFormatId conn) (tx_Address conn) @
                               [CANTP_CF_HIGHNIBBLE OR ch_SN ?ch]) (take p xs) (length ?f)"
      using st(5) by simp
    moreover have "frame_bytes S (addr_bytes (tx_AddressFormatId conn) (tx_Address conn) @
                               [CANTP_CF_HIGHNIBBLE OR ch_SN ?ch]) (take p xs) (length ?f) = ?f"
      unfolding L using pa(2) conn by (simp add: cf_bytes_def cf_hdr_def tx_adr_def Let_def)
    ultimately show ?thesis using st(6) by (simp add: CanTp_Prv_CreateFrame_def CanTp_PciFrameType_def Let_def)
  qed
  then obtain m where cr: "CanTp_Prv_CreateFrame S c (uninit S) dl s2 = (E_OK, m, length ?f, s2\<lparr>ext := e1\<rparr>)" "rd m 0 (length ?f) = ?f"
    by blast
  have mx: "u8 (int dl - 1 - int (CanTp_AddressSize (tx_AddressFormatId conn))) = p"
    using u8_diff2 [of 1 "CanTp_AddressSize (tx_AddressFormatId conn)" dl] adr d p by simp
  have pay: "(if ch_SduLengthRemaining ?ch < p then u8 (int (ch_SduLengthRemaining ?ch)) else p) = ?n"
    using up(3) p d by (auto simp: u8_of_nat)
  have conn': "TxSdu cfg t = conn" using conn by simp
  have el: "snd (CanTp_GetElapsedValue S (ch_InitialTicks ?ch) s) < CsCrTicks (TimeOut cfg (tx_TimeOutId conn))"
    "ch_STminTicks ?ch \<le> snd (CanTp_GetElapsedValue S (ch_InitialTicks ?ch) s) \<or> ch_PciId ?ch \<noteq> CANTP_NPCI_CF"
    using due conn c by (auto simp: tx_due_def Let_def)
  have buf: "CanTp_Prv_GetTxBuffer S ctx s = s1"
    if "tc_ChannelId ctx = c" "tc_PayLoadLength ctx = ?n" "tc_PduRPduHandleId ctx = tx_PduRPduHandleId conn"
       "tc_ElapsedValue ctx < tc_CsTicks ctx" for ctx
    using that w(5) S(1) query [OF up(1)] up(2) by (simp add: CanTp_Prv_GetTxBuffer_def s1_def Let_def)
  have tr: "CanTp_Prv_CanIfTransmit S ctx dl s2 = set_conf (tx_TxConfirmationId conn) c (s2\<lparr>ext := e\<rparr>)"
    if "tc_ChannelId ctx = c" "tc_BitFields ctx = tx_BitFields conn" "tc_TxConfirmationId ctx = tx_TxConfirmationId conn"
       "tc_PduId ctx = tx_TxPduId conn" for ctx
    using that pa(4) cr e(1) S(2) by (auto simp: CanTp_Prv_CanIfTransmit_def)
  define ctx where "ctx = \<lparr>tc_PduRApiId = CANTP_TX_PDUR_CONFIRMATION, tc_PayLoadLength = ?n,
     tc_BitFields = tx_BitFields conn, tc_ChannelId = c,
     tc_TxConfirmationId = tx_TxConfirmationId conn, tc_PduId = tx_TxPduId conn,
     tc_PduRPduHandleId = tx_PduRPduHandleId conn, tc_RemBufSize = 0, tc_Value = CanTp_MainFunctionTicks s,
     tc_ElapsedValue = snd (CanTp_GetElapsedValue S (ch_InitialTicks ?ch) s),
     tc_CsTicks = CsCrTicks (TimeOut cfg (tx_TimeOutId conn))\<rparr>"
  have b1: "CanTp_Prv_GetTxBuffer S ctx s = s1" by (rule buf) (use el(1) in \<open>simp_all add: ctx_def\<close>)
  have t1: "CanTp_Prv_CanIfTransmit S ctx dl s2 = set_conf (tx_TxConfirmationId conn) c (s2\<lparr>ext := e\<rparr>)"
    by (rule tr) (simp_all add: ctx_def)
  have ctx': "\<lparr>tc_PduRApiId = CANTP_TX_PDUR_CONFIRMATION,
     tc_PayLoadLength = (if ch_SduLengthRemaining ?ch < p then u8 (int (ch_SduLengthRemaining ?ch)) else p),
     tc_BitFields = tx_BitFields conn, tc_ChannelId = c,
     tc_TxConfirmationId = tx_TxConfirmationId conn, tc_PduId = tx_TxPduId conn,
     tc_PduRPduHandleId = tx_PduRPduHandleId conn, tc_RemBufSize = 0, tc_Value = CanTp_MainFunctionTicks s,
     tc_ElapsedValue = ubits (TickBits S) (int (CanTp_MainFunctionTicks s) - int (ch_InitialTicks ?ch)),
     tc_CsTicks = CsCrTicks (TimeOut cfg (tx_TimeOutId conn))\<rparr> = ctx"
    unfolding ctx_def pay CanTp_GetElapsedValue_def Let_def by simp
  have st1: "ch_TxBufferStatus (CanTp_Channel s1 c) = CANTP_BUFFER_AVAILABLE" "ch_STminTicks (CanTp_Channel s1 c) = ch_STminTicks ?ch"
    "ch_PciId (CanTp_Channel s1 c) = ch_PciId ?ch" by (simp_all add: s1_def)
  have "CanTp_Prv_ExecuteState S c s = upd_ch c (ch_TxBufferStatus_update (\<lambda>_. CANTP_BUFFER_NOT_ASKED)) (CanTp_Prv_CanIfTransmit S ctx dl s2)"
    using w(2-4) el(2) pa(2)
    by (simp add: CanTp_Prv_ExecuteState_def CanTp_Prv_TxSendConsecutiveFrame_def CanTp_GetElapsedValue_def cfg conn' mx
        ctx' b1 st1 s2_def Let_def cong del: if_weak_cong split del: if_split)
  then have ex: "CanTp_Prv_ExecuteState S c s = cf_handed c (tx_TxConfirmationId conn) e s"
    unfolding t1 by (simp add: cf_handed_def s2_def s1_def)
  show thesis using that [OF e(2) _ _ ex] e(3,4) e1(3,4) t(2) by simp
qed

lemma message_sent:
  assumes S: "PduR_CanTpCopyTxData S (tx_PduRPduHandleId conn) = copy" "CanIf_TransmitFn S (tx_TxPduId conn) = transmit"
    and path: "tx_path S cfg t dl"
    and conn: "conn = TxSdu cfg t" and c: "c = tx_ChannelId conn" and i: "i = tx_TxConfirmationId conn"
    and p: "p = dl - Suc (length (tx_adr cfg t))"
    and d: "0 < d" "d < 2 ^ TickBits S" "d < CsCrTicks (TimeOut cfg (tx_TimeOutId conn))"
  shows "tx_sending S cfg t s \<Longrightarrow> ch_InitialTicks (CanTp_Channel s c) = CanTp_MainFunctionTicks s \<Longrightarrow>
     ch_STminTicks (CanTp_Channel s c) \<le> d \<Longrightarrow> live (ext s) \<Longrightarrow> pending (ext s) = xs \<Longrightarrow> xs \<noteq> [] \<Longrightarrow>
     length xs = ch_SduLengthRemaining (CanTp_Channel s c) \<Longrightarrow>
     ceil_div (length xs) p \<le> ch_BlockCfsRemaining (CanTp_Channel s c) \<Longrightarrow>
     \<exists>e. live e \<and> pending e = [] \<and>
       sent e = sent (ext s) @ segment S (tx_BitFields conn) (tx_adr cfg t) dl (ch_SN (CanTp_Channel s c)) xs \<and>
       ext ((tx_round S c i d ^^ ceil_div (length xs) p) s) = PduR_CanTpTxConfirmation S (tx_PduRPduHandleId conn) E_OK e \<and>
       CanTp_SubState ((tx_round S c i d ^^ ceil_div (length xs) p) s) c = CANTP_IDLE"
proof (induction xs arbitrary: s rule: length_induct)
  case (1 xs)
  note snd = 1(2) and t0 = 1(3) and stm = 1(4) and lv = 1(5) and pnd = 1(6) and ne = 1(7) and len = 1(8) and blk = 1(9)
  have pa: "tx_AddressFormatId conn \<le> 3" "dl_ok S dl" using path conn by (auto simp: tx_path_def Let_def)
  have p0: "0 < p" using p tx_adr_length [of cfg t] pa(1) conn dl_ok_range [OF pa(2)] by auto
  let ?w = "(CanTp_IncrementCounter S ^^ d) s"
  have w: "CanTp_Channel ?w = CanTp_Channel s" "ext ?w = ext s" "tx_sending S cfg t ?w"
    using snd d(1) by (auto simp: wait_ticks tx_sending_def Let_def cantp_on_def)
  have due: "tx_due S cfg t ?w"
    using d stm wait_elapsed [OF d(1,2) t0] conn c by (simp add: tx_due_def Let_def w(1))
  obtain e where e: "live e" "pending e = drop p xs"
    "sent e = sent (ext s) @ [cf_bytes S (tx_BitFields conn) (tx_adr cfg t) dl (ch_SN (CanTp_Channel s c)) (take p xs)]"
    and ex: "CanTp_Prv_ExecuteState S c ?w = cf_handed c i e ?w"
    using cf_transmitted [OF S path w(3) due conn c, of xs p thesis] lv pnd len ne p i unfolding w(1,2) by auto
  note conf = cf_confirmed [OF path w(3) conn c i p, of e, unfolded w(1)]
  note seg = segment_Cons [OF ne p0 [unfolded p], of S "tx_BitFields conn" "ch_SN (CanTp_Channel s c)", folded p]
  show ?case
  proof (cases "length xs \<le> p")
    case True
    then have k: "ceil_div (length xs) p = 1" using ne by (intro ceil_div_small) auto
    show ?thesis
      using conf(1) len True e seg unfolding k by (intro exI [of _ e]) (auto simp: tx_round_def ex)
  next
    case False
    let ?s1 = "cf_next c i p S e ?w"
    have more: "ceil_div (length xs) p = Suc (ceil_div (length (drop p xs)) p)" "0 < ceil_div (length (drop p xs)) p"
      using False p0 by (simp_all add: ceil_div_step ceil_div_pos)
    then have b: "1 < ch_BlockCfsRemaining (CanTp_Channel s c)" using blk by simp
    have r: "tx_round S c i d s = ?s1" unfolding tx_round_def ex using conf(2) len False b by simp
    have s1: "tx_sending S cfg t ?s1" using sending_step [OF w(3) conn c i] b w(1) by simp
    have f1: "ch_InitialTicks (CanTp_Channel ?s1 c) = CanTp_MainFunctionTicks ?s1" "ch_STminTicks (CanTp_Channel ?s1 c) \<le> d"
      "live (ext ?s1)" "pending (ext ?s1) = drop p xs" "length (drop p xs) = ch_SduLengthRemaining (CanTp_Channel ?s1 c)"
      "ceil_div (length (drop p xs)) p \<le> ch_BlockCfsRemaining (CanTp_Channel ?s1 c)"
      and n1: "ch_SN (CanTp_Channel ?s1 c) = Suc (ch_SN (CanTp_Channel s c)) mod 16" and x1: "ext ?s1 = e"
      using stm e len blk more by (simp_all add: cf_next_def w(1))
    have d1: "length (drop p xs) < length xs" "drop p xs \<noteq> []" using False p0 by auto
    from 1(1) [rule_format, OF d1(1) s1 f1(1-4) d1(2) f1(5,6)]
    obtain e' where "live e'" "pending e' = []"
      "sent e' = sent e @ segment S (tx_BitFields conn) (tx_adr cfg t) dl (Suc (ch_SN (CanTp_Channel s c)) mod 16) (drop p xs)"
      "ext ((tx_round S c i d ^^ ceil_div (length (drop p xs)) p) ?s1) = PduR_CanTpTxConfirmation S (tx_PduRPduHandleId conn) E_OK e'"
      "CanTp_SubState ((tx_round S c i d ^^ ceil_div (length (drop p xs)) p) ?s1) c = CANTP_IDLE"
      unfolding n1 x1 by blast
    moreover have "(tx_round S c i d ^^ ceil_div (length xs) p) s = (tx_round S c i d ^^ ceil_div (length (drop p xs)) p) ?s1"
      unfolding more(1) by (simp add: funpow_swap1 r)
    ultimately show ?thesis using e(3) seg by (intro exI [of _ e']) simp
  qed
qed

end

end
