(* ===== verification/CanTp_Reception.thy ===== *)
theory CanTp_Reception
  imports CanTp_Segmentation
begin

text \<open>
  A whole segmented reception: the first frame opens it, a flow-control frame grants each block, and
  the consecutive frames of all blocks deliver the rest. The upper layer and the lower layer that
  takes the flow-control frames form the interface \<open>tp_receiver\<close>, an extension of \<open>tp_sink\<close>.
\<close>

subsection \<open>The flow-control frame\<close>

text \<open>The flow-control frame of N-SDU \<open>r\<close> with flow status \<open>fs\<close> and block size \<open>bs\<close>.\<close>

definition fc_bytes :: "'e CanTp_Sys \<Rightarrow> nat \<Rightarrow> nat list \<Rightarrow> nat \<Rightarrow> nat \<Rightarrow> nat \<Rightarrow> nat list" where
  "fc_bytes S bf adr fs bs st =
     frame_bytes S (adr @ [CANTP_FC_HIGHNIBBLE OR fs, bs, st]) []
       (if CanTp_Prv_GetBit bf CANTP_PADDINGON then CANTP_DEFAULT_CAN_DL else CANTP_FC_PCISIZE + length adr)"

lemma fc_bytes_len: "length adr \<le> 1 \<Longrightarrow> length (fc_bytes S bf adr fs bs st) \<le> 8"
  by (simp add: fc_bytes_def frame_bytes_def)

definition rx_adr :: "CanTp_ConfigType \<Rightarrow> nat \<Rightarrow> nat list" where
  "rx_adr cfg r = addr_bytes (rx_AddressFormatId (RxSdu cfg r)) (rx_Address (RxSdu cfg r))"

lemma fc_frame:
  assumes st: "CanTp_SubState s c = CANTP_RX_WAIT_FOR_FCTRANSMIT_CONFIRMATION"
    and ch: "ch_ActiveSduId (CanTp_Channel s c) = r" "ch_PciId (CanTp_Channel s c) = CANTP_NPCI_FC" "ch_FlowStatus (CanTp_Channel s c) \<le> 2"
    and cfg: "cfgp s = cfg" "rx_AddressFormatId (RxSdu cfg r) \<le> 3"
    and f: "f = fc_bytes S (rx_BitFields (RxSdu cfg r)) (rx_adr cfg r) (ch_FlowStatus (CanTp_Channel s c)) (ch_BS (CanTp_Channel s c))
                 (CanTp_Prv_GetRxParam S r TP_STMIN s)"
  shows "\<exists>m. CanTp_Prv_CreateFrame S c m0 l0 s = (E_OK, m, length f, s) \<and> rd m 0 (length f) = f"
proof -
  let ?conn = "RxSdu cfg r" and ?ch = "CanTp_Channel s c"
  let ?ab = "addr_bytes (rx_AddressFormatId ?conn) (rx_Address ?conn)"
  let ?x = "CANTP_FC_HIGHNIBBLE OR ch_FlowStatus ?ch" and ?st = "CanTp_Prv_GetRxParam S r TP_STMIN s"
  have u: "u8 (int ?x) = ?x"
  proof -
    have "\<forall>k\<in>set [0..<3]. u8 (int (48 OR k)) = (48 OR k)" by code_simp
    then show ?thesis using ch(3) by simp
  qed
  have a: "length ?ab = CanTp_AddressSize (rx_AddressFormatId ?conn)" "length ?ab \<le> 1"
    using length_addr_bytes [OF cfg(2)] AddressSize_le [OF cfg(2)] by auto
  have w: "((write_bytes 0 ?ab m)(length ?ab := x, Suc (length ?ab) := y, Suc (Suc (length ?ab)) := z)) = write_bytes 0 (?ab @ [x, y, z]) m" for x y z m
    by (simp add: write_bytes_snoc)
  let ?m = "write_bytes 0 (?ab @ [?x, ch_BS ?ch, ?st]) m0"
  have ft: "CanTp_PciFrameType CANTP_NPCI_FC = CANTP_FLOWCONTROL_FRAME" by (simp add: CanTp_PciFrameType_def)
  show ?thesis
  proof (cases "CanTp_Prv_GetBit (rx_BitFields ?conn) CANTP_PADDINGON")
    case True
    let ?m' = "CanTp_Prv_ArrayInit ?m (length ?ab + 3) (u32 (int 8 - int (u8 (int (length ?ab) + int CANTP_FC_PCISIZE)))) (CANTP_PADDING_BYTE S)"
    have n: "u32 (int 8 - int (u8 (int (length ?ab) + int CANTP_FC_PCISIZE))) = 5 - length ?ab"
      using a(2) by (auto simp: u8_def u32_def le_Suc_eq)
    have "length f = 8" using True a(2) by (simp add: f fc_bytes_def frame_bytes_def rx_adr_def)
    moreover have "rd ?m' 0 8 = f"
      unfolding n using True a(2)
      by (intro rd_eqI) (auto simp: f fc_bytes_def frame_bytes_def rx_adr_def ArrayInit_apply write_bytes_apply nth_append nth_Cons')
    moreover have "CanTp_Prv_CreateFrame S c m0 l0 s = (E_OK, ?m', 8, s)"
      using st ch True unfolding CanTp_Prv_CreateFrame_def ch(2) ft CanTp_Prv_CreateTxFlowControlFrame_def
      by (simp add: cfg put_address_write u w a(1) [symmetric] Let_def)
    ultimately show ?thesis by metis
  next
    case False
    have l: "length f = 3 + length ?ab" using False by (simp add: f fc_bytes_def frame_bytes_def rx_adr_def)
    moreover have "rd ?m 0 (3 + length ?ab) = f"
      using False by (intro rd_eqI) (auto simp: f fc_bytes_def frame_bytes_def rx_adr_def write_bytes_apply)
    moreover have "CanTp_Prv_CreateFrame S c m0 l0 s = (E_OK, ?m, 3 + length ?ab, s)"
      using st ch False unfolding CanTp_Prv_CreateFrame_def ch(2) ft CanTp_Prv_CreateTxFlowControlFrame_def
      by (simp add: cfg put_address_write u w Let_def)
    ultimately show ?thesis by metis
  qed
qed

text \<open>The block size that the next flow-control frame announces when the upper layer has room for the rest.\<close>

definition fc_bs :: "'e CanTp_Sys \<Rightarrow> nat \<Rightarrow> nat \<Rightarrow> 'e CanTp_GlobalType \<Rightarrow> nat" where
  "fc_bs S r c s =
     (if CANTP_DYNAMIC_FC_SUPPORT S \<or> ch_STminTicks (CanTp_Channel s c) = CANTP_INVALID_STMIN_TICKS S
      then CanTp_Prv_GetRxParam S r TP_BS s else ch_BS (CanTp_Channel s c))"

definition fc_granted :: "'e CanTp_Sys \<Rightarrow> nat \<Rightarrow> nat \<Rightarrow> 'e CanTp_GlobalType \<Rightarrow> CanTp_ChannelType \<Rightarrow> CanTp_ChannelType" where
  "fc_granted S r c s ch =
     (if CANTP_DYNAMIC_FC_SUPPORT S then id else ch_STminTicks_update (\<lambda>_. 0))
       (ch\<lparr>ch_BlockCfsRemaining := (if fc_bs S r c s \<noteq> 0 then fc_bs S r c s else CanTp_Prv_GetRxBlockCfs S c s),
           ch_FlowStatus := CANTP_FC_CTS, ch_BS := fc_bs S r c s\<rparr>)"

lemma SetRxBlockInfo_room:
  assumes "ch_ActiveSduId (CanTp_Channel s c) = r" "ch_SduLengthRemaining (CanTp_Channel s c) \<le> RemBufSize"
  shows "CanTp_Prv_SetRxBlockInfo S c RemBufSize s = upd_ch c (fc_granted S r c s) s"
  using assms by (simp add: CanTp_Prv_SetRxBlockInfo_def fc_granted_def fc_bs_def Let_def not_less)

definition rx_fc_path :: "'e CanTp_Sys \<Rightarrow> CanTp_ConfigType \<Rightarrow> nat \<Rightarrow> bool" where
  "rx_fc_path S cfg r \<longleftrightarrow>
     (let conn = RxSdu cfg r in
      rx_AddressFormatId conn \<le> 3 \<and> rx_TxConfirmationId conn < NumberOfTxPdus cfg \<and> rx_ChannelId conn < NumberOfChannels cfg \<and>
      \<not> (CANTP_TRIGGER_TRANSMIT_API S \<and> CanTp_Prv_GetBit (rx_BitFields conn) CANTP_TRIGGER_TRANSMIT_ON) \<and>
      \<not> (CANTP_FC_DISABLE_SUPPORT S \<and> CanTp_Prv_GetBit (rx_BitFields conn) CANTP_FC_DISABLED))"

text \<open>A channel that owes its peer a flow-control frame for the \<open>rem\<close> bytes that are missing.\<close>

definition rx_fc_due :: "'e CanTp_Sys \<Rightarrow> CanTp_ConfigType \<Rightarrow> nat \<Rightarrow> nat \<Rightarrow> nat \<Rightarrow> 'e CanTp_GlobalType \<Rightarrow> bool" where
  "rx_fc_due S cfg r dl rem s \<longleftrightarrow>
     (let c = rx_ChannelId (RxSdu cfg r); Channel = CanTp_Channel s c in
      cantp_on cfg s \<and> CanTp_SubState s c = CANTP_RX_SEND_FC \<and> ch_ActiveSduId Channel = r \<and> CanTp_Prv_GetRxDl S c s = dl \<and>
      ch_SN Channel < 16 \<and> ch_FlowStatus Channel = CANTP_FC_WAIT \<and> ch_FcWait Channel = 0 \<and>
      ch_SduLengthRemaining Channel = rem \<and> 0 < rem \<and> rem < 2 ^ PduLengthBits S \<and>
      CanTp_TxConfirmationChannel s (rx_TxConfirmationId (RxSdu cfg r)) = CANTP_INVALID_CHANNEL S \<and>
      CanTp_Prv_GetRxParam S r TP_BS s < 2 ^ PduLengthBits S \<and> ch_BS Channel < 2 ^ PduLengthBits S)"

text \<open>The state after the flow-control frame has been handed over, with \<open>e\<close> behind the module.\<close>

definition fc_handed :: "'e CanTp_Sys \<Rightarrow> nat \<Rightarrow> nat \<Rightarrow> nat \<Rightarrow> 'e \<Rightarrow> 'e CanTp_GlobalType \<Rightarrow> 'e CanTp_GlobalType" where
  "fc_handed S r c i e s =
     set_conf i c (set_sub c CANTP_RX_WAIT_FOR_FCTRANSMIT_CONFIRMATION
       (upd_ch c (\<lambda>ch. (fc_granted S r c s (ch\<lparr>ch_BlockCfsRemaining := 0\<rparr>))\<lparr>ch_InitialTicks := CanTp_MainFunctionTicks s, ch_PciId := CANTP_NPCI_FC\<rparr>)
         (s\<lparr>ext := e\<rparr>)))"

lemma fc_granted_fields [simp]:
  "ch_ActiveSduId (fc_granted S r c s ch) = ch_ActiveSduId ch" "ch_FlowStatus (fc_granted S r c s ch) = CANTP_FC_CTS"
  "ch_BS (fc_granted S r c s ch) = fc_bs S r c s" "ch_SduLengthRemaining (fc_granted S r c s ch) = ch_SduLengthRemaining ch"
  "ch_RX_DL (fc_granted S r c s ch) = ch_RX_DL ch" "ch_SN (fc_granted S r c s ch) = ch_SN ch"
  "ch_BlockCfsRemaining (fc_granted S r c s ch) = (if fc_bs S r c s \<noteq> 0 then fc_bs S r c s else CanTp_Prv_GetRxBlockCfs S c s)"
  by (simp_all add: fc_granted_def)

lemma SendFlowControl:
  assumes due: "rx_fc_due S cfg r dl rem s" and path: "rx_fc_path S cfg r"
    and conn: "conn = RxSdu cfg r" and c: "c = rx_ChannelId conn" and i: "i = rx_TxConfirmationId conn"
    and q: "PduR_CanTpCopyRxData S (rx_PduRPduHandleId conn) None (ext s) = (BUFREQ_OK, n, ext s)" "rem \<le> n"
    and f: "f = fc_bytes S (rx_BitFields conn) (rx_adr cfg r) CANTP_FC_CTS (fc_bs S r c s) (CanTp_Prv_GetRxParam S r TP_STMIN s)"
    and tx: "CanIf_TransmitFn S (rx_TxPduId conn) (Some f) (length f) (ext s) = (E_OK, e)"
  shows "CanTp_Prv_ExecuteState S c s = fc_handed S r c i e s"
proof -
  let ?ch = "CanTp_Channel s c"
  have w: "cantp_on cfg s" "CanTp_SubState s c = CANTP_RX_SEND_FC" "ch_ActiveSduId ?ch = r" "ch_FlowStatus ?ch = CANTP_FC_WAIT"
    "ch_SduLengthRemaining ?ch = rem" "CanTp_TxConfirmationChannel s i = CANTP_INVALID_CHANNEL S"
    using due conn c i by (auto simp: rx_fc_due_def Let_def)
  have pa: "rx_AddressFormatId conn \<le> 3"
    "\<not> (CANTP_TRIGGER_TRANSMIT_API S \<and> CanTp_Prv_GetBit (rx_BitFields conn) CANTP_TRIGGER_TRANSMIT_ON)"
    "\<not> (CANTP_FC_DISABLE_SUPPORT S \<and> CanTp_Prv_GetBit (rx_BitFields conn) CANTP_FC_DISABLED)"
    using path conn by (auto simp: rx_fc_path_def Let_def)
  have cfg: "cfgp s = cfg" using cantp_onD [OF w(1)] by simp
  define s0 where "s0 = upd_ch c (ch_BlockCfsRemaining_update (\<lambda>_. 0)) s"
  have s0: "ext s0 = ext s" "cfgp s0 = cfg" "s0\<lparr>ext := ext s\<rparr> = s0" "CanTp_SubState s0 = CanTp_SubState s"
    "fc_bs S r c s0 = fc_bs S r c s" "CanTp_Prv_GetRxBlockCfs S c s0 = CanTp_Prv_GetRxBlockCfs S c s"
    using cfg by (simp_all add: s0_def cfgp_def fc_bs_def CanTp_Prv_GetRxParam_def CanTp_Prv_GetRxBlockCfs_def CanTp_Prv_GetRxDl_def Let_def)
  have g: "fc_granted S r c s0 = fc_granted S r c s" unfolding fc_granted_def s0(5,6) ..
  have blk: "CanTp_Prv_SetRxBlockInfo S c n s0 = upd_ch c (fc_granted S r c s) s0"
    using SetRxBlockInfo_room [of s0 c r n S] w(3,5) q(2) g by (simp add: s0_def)
  define s1 where "s1 = upd_ch c (fc_granted S r c s) s0"
  have s1: "ext s1 = ext s" "ch_FlowStatus (CanTp_Channel s1 c) = CANTP_FC_CTS" "CanTp_SubState s1 c = CANTP_RX_SEND_FC"
    using w(2) s0(1,4) by (simp_all add: s1_def)
  define s2 where "s2 = set_sub c CANTP_RX_WAIT_FOR_FCTRANSMIT_CONFIRMATION
     (upd_ch c (\<lambda>ch. ch\<lparr>ch_InitialTicks := CanTp_MainFunctionTicks s, ch_PciId := CANTP_NPCI_FC\<rparr>) s1)"
  have s2: "CanTp_SubState s2 c = CANTP_RX_WAIT_FOR_FCTRANSMIT_CONFIRMATION" "ch_ActiveSduId (CanTp_Channel s2 c) = r"
    "ch_PciId (CanTp_Channel s2 c) = CANTP_NPCI_FC" "ch_FlowStatus (CanTp_Channel s2 c) = CANTP_FC_CTS" "cfgp s2 = cfg"
    "ch_BS (CanTp_Channel s2 c) = fc_bs S r c s" "ext s2 = ext s" "CanTp_Prv_GetRxParam S r TP_STMIN s2 = CanTp_Prv_GetRxParam S r TP_STMIN s"
    using w(3) s0(1,2) cfg by (simp_all add: s2_def s1_def s0_def cfgp_def CanTp_Prv_GetRxParam_def)
  obtain m where m: "CanTp_Prv_CreateFrame S c (uninit S) 8 s2 = (E_OK, m, length f, s2)" "rd m 0 (length f) = f"
    using fc_frame [OF s2(1-3) _ s2(5), of f S "uninit S" 8] s2(4,6,8) pa(1) conn f by auto
  have tr: "CanTp_Prv_CanIfTransmit S ctx 8 s2 = set_conf i c (s2\<lparr>ext := e\<rparr>)"
    if "tc_ChannelId ctx = c" "tc_BitFields ctx = rx_BitFields conn" "tc_TxConfirmationId ctx = i" "tc_PduId ctx = rx_TxPduId conn" for ctx
    using that pa(2) m tx s2(7) by (auto simp: CanTp_Prv_CanIfTransmit_def)
  have fct: "CanTp_Prv_FcTransmit S ctx 8 True (CanTp_MainFunctionTicks s) s1 = set_conf i c (s2\<lparr>ext := e\<rparr>)"
    if "tc_ChannelId ctx = c" "tc_BitFields ctx = rx_BitFields conn" "tc_TxConfirmationId ctx = i" "tc_PduId ctx = rx_TxPduId conn" for ctx
  proof -
    have "\<not> (CANTP_FC_DISABLE_SUPPORT S \<and> CanTp_Prv_GetBit (rx_BitFields (RxSdu (cfgp s2) (ch_ActiveSduId (CanTp_Channel s2 c)))) CANTP_FC_DISABLED)"
      using pa(3) s2(2,5) conn by simp
    note nd = if_not_P [OF this]
    show ?thesis
      unfolding CanTp_Prv_FcTransmit_def Let_def that(1) s2_def [symmetric] nd using tr [OF that] s1(3) by simp
  qed
  have conn': "RxSdu cfg r = conn" using conn by simp
  have "CanTp_Prv_ExecuteState S c s = CanTp_Prv_RxSendFlowControlFrame S c s" using w(2) by (simp add: CanTp_Prv_ExecuteState_def)
  also have "\<dots> = set_conf i c (s2\<lparr>ext := e\<rparr>)"
    unfolding CanTp_Prv_RxSendFlowControlFrame_def CanTp_GetElapsedValue_def Let_def case_prod_conv
    by (simp add: w cfg conn' i [symmetric] s0_def [symmetric] s0 q(1) blk s1_def [symmetric] s1 fct)
  finally show ?thesis by (simp add: fc_handed_def s2_def s1_def s0_def)
qed

lemma ceil_div_le: "0 < p \<Longrightarrow> ceil_div n p \<le> n"
proof (cases n)
  case (Suc k)
  assume "0 < p"
  then have "n + p - 1 \<le> n * p" using Suc by (cases p) auto
  then have "(n + p - 1) div p \<le> n * p div p" by (rule div_le_mono)
  then show ?thesis using \<open>0 < p\<close> by (simp add: ceil_div_def)
qed simp

lemma GetRxBlockCfs_ceil:
  assumes "cfgp s = cfg" "ch_ActiveSduId (CanTp_Channel s c) = r" "CanTp_Prv_GetRxDl S c s = dl" "dl_ok S dl"
    "rx_AddressFormatId (RxSdu cfg r) \<le> 3" "p = dl - Suc (CanTp_AddressSize (rx_AddressFormatId (RxSdu cfg r)))"
  shows "CanTp_Prv_GetRxBlockCfs S c s = ceil_div (ch_SduLengthRemaining (CanTp_Channel s c)) p" "0 < p"
proof -
  have a: "CanTp_AddressSize (rx_AddressFormatId (RxSdu cfg r)) \<le> 1" using AddressSize_le assms(5) by simp
  have d: "8 \<le> dl" "dl \<le> 64" using dl_ok_range [OF assms(4)] by auto
  show p0: "0 < p" using a d assms(6) by simp
  have u: "u8 (int dl - int CANTP_CF_PCISIZE - int (CanTp_AddressSize (rx_AddressFormatId (RxSdu cfg r)))) = p"
    using u8_diff2 [of 1 "CanTp_AddressSize (rx_AddressFormatId (RxSdu cfg r))" dl] a d assms(6) by simp
  show "CanTp_Prv_GetRxBlockCfs S c s = ceil_div (ch_SduLengthRemaining (CanTp_Channel s c)) p"
    unfolding CanTp_Prv_GetRxBlockCfs_def Let_def assms(1-3) u by (rule ceil_div_code [OF p0])
qed

text \<open>A channel that waits for consecutive frames, just served, and can grant further blocks.\<close>

definition rx_ready :: "'e CanTp_Sys \<Rightarrow> CanTp_ConfigType \<Rightarrow> nat \<Rightarrow> nat \<Rightarrow> 'e CanTp_GlobalType \<Rightarrow> bool" where
  "rx_ready S cfg r dl s \<longleftrightarrow>
     (let c = rx_ChannelId (RxSdu cfg r); Channel = CanTp_Channel s c in
      rx_waiting S cfg r dl s \<and> ch_InitialTicks Channel = CanTp_MainFunctionTicks s \<and>
      CanTp_TxConfirmationChannel s (rx_TxConfirmationId (RxSdu cfg r)) = CANTP_INVALID_CHANNEL S \<and>
      CanTp_Prv_GetRxParam S r TP_BS s < 2 ^ PduLengthBits S \<and> ch_BS Channel < 2 ^ PduLengthBits S)"

lemma fc_confirmed:
  assumes due: "rx_fc_due S cfg r dl rem s" and path: "rx_fc_path S cfg r" and dl: "dl_ok S dl"
    and conn: "conn = RxSdu cfg r" and c: "c = rx_ChannelId conn" and i: "i = rx_TxConfirmationId conn"
    and s': "s' = CanTp_TxConfirmation S i (fc_handed S r c i e s)"
  shows "rx_ready S cfg r dl s'" "ext s' = e" "ch_SN (CanTp_Channel s' c) = ch_SN (CanTp_Channel s c)"
    "ch_SduLengthRemaining (CanTp_Channel s' c) = rem"
proof -
  let ?ch = "CanTp_Channel s c" and ?s = "fc_handed S r c i e s"
  have w: "cantp_on cfg s" "ch_ActiveSduId ?ch = r" "ch_SN ?ch < 16" "CanTp_Prv_GetRxDl S c s = dl"
    "ch_SduLengthRemaining ?ch = rem" "0 < rem" "rem < 2 ^ PduLengthBits S"
    "CanTp_Prv_GetRxParam S r TP_BS s < 2 ^ PduLengthBits S" "ch_BS ?ch < 2 ^ PduLengthBits S"
    using due conn c i by (auto simp: rx_fc_due_def Let_def)
  have pa: "rx_AddressFormatId conn \<le> 3" "i < NumberOfTxPdus cfg" "c < NumberOfChannels cfg"
    using path conn c i by (auto simp: rx_fc_path_def Let_def)
  have cfg: "cfgp s = cfg" using cantp_onD [OF w(1)] by simp
  have cfg': "cfgp ?s = cfg" "CanTp_MainState ?s" using cantp_onD [OF w(1)] by (simp_all add: fc_handed_def cfgp_def)
  have g: "dev_guard S i CANTP_TXCONFIRMATION CANTP_E_INVALID_TX_ID ?s = (True, ?s)"
    using pa(2) cfg' by (simp add: dev_guard_def CanTp_Prv_IsNoDevError_def Let_def)
  have st: "CanTp_TxConfirmationChannel ?s i = c" "CanTp_SubState ?s c = CANTP_RX_WAIT_FOR_FCTRANSMIT_CONFIRMATION"
    "CanTp_MainFunctionTicks ?s = CanTp_MainFunctionTicks s" "ch_FlowStatus (CanTp_Channel ?s c) = CANTP_FC_CTS"
    by (simp_all add: fc_handed_def)
  let ?t = "set_conf i (CANTP_INVALID_CHANNEL S) (set_sub c CANTP_RX_WAIT_FOR_CONSECUTIVE_FRAME
       (upd_ch c (ch_InitialTicks_update (\<lambda>_. CanTp_MainFunctionTicks s)) ?s))"
  have "CanTp_TxConfirmation S i ?s = CanTp_Prv_BurstMainFunction S c ?t"
    using pa(3) g st by (simp add: CanTp_TxConfirmation_def CanTp_GetElapsedValue_def cfg' CanTp_Prv_FcTxConfirmation_def Let_def)
  then have t: "s' = ?t" using s' Burst_idle [of ?t c S] by simp
  have fb: "fc_bs S r c s < 2 ^ PduLengthBits S" using w(8,9) by (simp add: fc_bs_def)
  note blk = GetRxBlockCfs_ceil [OF cfg w(2,4) dl pa(1) [unfolded conn] refl, unfolded w(5)]
  have b: "0 < CanTp_Prv_GetRxBlockCfs S c s" "CanTp_Prv_GetRxBlockCfs S c s < 2 ^ PduLengthBits S"
    using blk ceil_div_pos [OF blk(2) w(6)] ceil_div_le [OF blk(2), of rem] w(7) by auto
  have "CanTp_CfgPtr s = Some cfg" "CanTp_MainState s" using w(1) by (simp_all add: cantp_on_def)
  moreover have "CanTp_Prv_GetRxDl S c s' = dl" "CanTp_Prv_GetRxParam S r TP_BS s' = CanTp_Prv_GetRxParam S r TP_BS s"
    unfolding t w(4) [symmetric] by (simp_all add: fc_handed_def CanTp_Prv_GetRxDl_def CanTp_Prv_GetRxParam_def cfgp_def)
  moreover have "snd (CanTp_GetElapsedValue S (ch_InitialTicks (CanTp_Channel s' c)) s') = 0" "CanTp_MainFunctionTicks s' = CanTp_MainFunctionTicks s"
    by (simp_all add: t fc_handed_def CanTp_GetElapsedValue_def ubits_def)
  moreover have "CanTp_CfgPtr s' = CanTp_CfgPtr s" "CanTp_MainState s' = CanTp_MainState s" "CanTp_TxConfirmationChannel s' i = CANTP_INVALID_CHANNEL S"
    "CanTp_SubState s' c = CANTP_RX_WAIT_FOR_CONSECUTIVE_FRAME" "ch_InitialTicks (CanTp_Channel s' c) = CanTp_MainFunctionTicks s"
    "ch_ActiveSduId (CanTp_Channel s' c) = r" "ch_SN (CanTp_Channel s' c) = ch_SN ?ch" "ch_SduLengthRemaining (CanTp_Channel s' c) = rem"
    "ch_BS (CanTp_Channel s' c) = fc_bs S r c s"
    "ch_BlockCfsRemaining (CanTp_Channel s' c) = (if fc_bs S r c s \<noteq> 0 then fc_bs S r c s else CanTp_Prv_GetRxBlockCfs S c s)"
    using w(2,5) by (simp_all add: t fc_handed_def)
  ultimately show "rx_ready S cfg r dl s'"
    using w fb b unfolding rx_ready_def rx_waiting_def conn [symmetric] c [symmetric] i [symmetric] Let_def cantp_on_def by simp
  show "ext s' = e" "ch_SN (CanTp_Channel s' c) = ch_SN ?ch" "ch_SduLengthRemaining (CanTp_Channel s' c) = rem"
    using w(5) by (simp_all add: t fc_handed_def)
qed

text \<open>
  One frame of a reception: \<open>d\<close> ticks pass, the frame arrives, and when the channel owes a flow-control
  frame the main function sends it and the CAN interface confirms it.
\<close>

definition rx_frame :: "'e CanTp_Sys \<Rightarrow> nat \<Rightarrow> nat \<Rightarrow> nat \<Rightarrow> nat \<Rightarrow> nat list \<Rightarrow> 'e CanTp_GlobalType \<Rightarrow> 'e CanTp_GlobalType" where
  "rx_frame S P c i d f s =
     (let s1 = CanTp_Receive S P f ((CanTp_IncrementCounter S ^^ d) s) in
      if CanTp_SubState s1 c = CANTP_RX_SEND_FC then CanTp_TxConfirmation S i (CanTp_Prv_ExecuteState S c s1) else s1)"

lemma rx_ready_wait:
  assumes "rx_ready S cfg r dl s" "0 < d" "d < 2 ^ TickBits S" "d \<le> CsCrTicks (TimeOut cfg (rx_TimeOutId (RxSdu cfg r)))"
    "s' = (CanTp_IncrementCounter S ^^ d) s"
  shows "rx_waiting S cfg r dl s'" "CanTp_Channel s' = CanTp_Channel s" "ext s' = ext s"
    "CanTp_TxConfirmationChannel s' = CanTp_TxConfirmationChannel s" "CanTp_Prv_GetRxParam S r q s' = CanTp_Prv_GetRxParam S r q s"
  using assms wait_elapsed [OF assms(2,3), of "ch_InitialTicks (CanTp_Channel s (rx_ChannelId (RxSdu cfg r)))" s]
  by (auto simp: rx_ready_def rx_waiting_def wait_ticks Let_def cantp_on_def CanTp_Prv_GetRxDl_def CanTp_Prv_GetRxParam_def cfgp_def)

subsection \<open>The first frame\<close>

definition ff_bytes :: "'e CanTp_Sys \<Rightarrow> nat list \<Rightarrow> nat \<Rightarrow> nat \<Rightarrow> nat list \<Rightarrow> nat list" where
  "ff_bytes S adr dl len bs = frame_bytes S (adr @ ff_pci (if len \<le> CANTP_MAXFFDL then CANTP_NPCI_FFCAN else CANTP_NPCI_FFCANFD) len) bs dl"

text \<open>The payload of the first frame of a message of \<open>len\<close> bytes.\<close>

definition ff_room :: "nat list \<Rightarrow> nat \<Rightarrow> nat \<Rightarrow> nat" where
  "ff_room adr dl len = dl - length adr - (if len \<le> CANTP_MAXFFDL then 2 else 6)"

text \<open>The lengths that are sent segmented: longer than what a single frame of \<open>dl\<close> bytes carries.\<close>

definition ff_len_ok :: "'e CanTp_Sys \<Rightarrow> nat list \<Rightarrow> nat \<Rightarrow> nat \<Rightarrow> bool" where
  "ff_len_ok S adr dl len \<longleftrightarrow>
     dl - length adr - (if CANTP_DEFAULT_CAN_DL < dl then 1 else 0) \<le> len \<and> len < 2 ^ PduLengthBits S \<and> len \<le> CANTP_MAXFDFFDL \<and>
     12 \<le> PduLengthBits S"

definition ff_off :: "nat list \<Rightarrow> nat \<Rightarrow> nat" where
  "ff_off adr len = length adr + (if len \<le> CANTP_MAXFFDL then 2 else 6)"

lemma ff_room_off: "ff_room adr dl len = dl - ff_off adr len"
  by (simp add: ff_room_def ff_off_def)

lemma ff_bounds:
  assumes "ff_len_ok S adr dl len" "dl_ok S dl" "length adr \<le> 1"
  shows "0 < ff_room adr dl len" "ff_room adr dl len < len" "ff_off adr len + ff_room adr dl len = dl" "dl \<le> 64" "ff_off adr len \<le> 7"
    "7 \<le> len"
  using assms dl_ok_range [OF assms(2)] by (auto simp: ff_len_ok_def ff_room_def ff_off_def split: if_splits)

lemma ff_bytes_len:
  assumes "ff_len_ok S adr dl len" "dl_ok S dl" "length adr \<le> 1" "length bs = ff_room adr dl len"
  shows "length (ff_bytes S adr dl len bs) = dl"
  using ff_bounds [OF assms(1-3)] assms(4)
  by (simp add: ff_bytes_def frame_bytes_def ff_pci_def ff_off_def split: if_splits)

lemma rd_middle: "length h = off \<Longrightarrow> rd (mem_of (h @ bs @ z)) off (length bs) = bs"
  by (simp add: rd_mem_of)

lemma ff_payload: "rd (mem_of (ff_bytes S adr dl len bs)) (ff_off adr len) (length bs) = bs"
  unfolding ff_bytes_def frame_bytes_def by (rule rd_middle) (simp add: ff_pci_def ff_off_def)

lemma ff_nibble: "k < 16 \<Longrightarrow> (16 + k) div 16 = (1::nat) \<and> (16 + k) AND 15 = k"
proof -
  assume "k < 16"
  moreover have "\<forall>k\<in>set [0..<16]. (16 + k) div 16 = (1::nat) \<and> (16 + k) AND 15 = k" by code_simp
  ultimately show ?thesis by simp
qed

lemma bytes4:
  assumes "len \<le> 4294967295"
  shows "len div 16777216 mod 256 * 16777216 + len div 65536 mod 256 * 65536 + len div 256 mod 256 * 256 + len mod 256 = (len::nat)"
proof -
  have "len div 16777216 < 256" using assms by (simp add: less_mult_imp_div_less)
  then have "len div 16777216 mod 256 = len div 16777216" by simp
  moreover have "len div 65536 = len div 256 div 256" "len div 16777216 = len div 65536 div 256"
    by (simp_all add: div_mult2_eq [symmetric])
  moreover have "len = len div 256 * 256 + len mod 256" "len div 256 = len div 256 div 256 * 256 + len div 256 mod 256"
    "len div 65536 = len div 65536 div 256 * 256 + len div 65536 mod 256" by simp_all
  ultimately show ?thesis by linarith
qed

lemma ff_check:
  assumes path: "rx_path S cfg P r adr" and dl: "dl_ok S dl" and ok: "ff_len_ok S adr dl len"
    and bs: "length bs = ff_room adr dl len" and f: "f = ff_bytes S adr dl len bs"
    and dlc: "CanTp_Cfg_DlcCheck S dl dl = E_OK"
  shows "CanTp_Prv_RxSduLengthCheck S (rx_ctx cfg P r adr CANTP_FIRST_FRAME) (mem_of f) (length f) s =
     (E_OK, (rx_ctx cfg P r adr CANTP_FIRST_FRAME)\<lparr>rc_CAN_DL := dl, rc_DataOffset := ff_off adr len, rc_SduLength := len\<rparr>)"
    and "\<exists>b rest. f = adr @ b # rest \<and> b div 16 = 1"
proof -
  let ?ctx = "rx_ctx cfg P r adr CANTP_FIRST_FRAME" and ?D = "\<lambda>i. mem_of f (length adr + i)"
  have adr: "length adr \<le> 1" using rx_path_adr [OF path] by simp
  note b = ff_bounds [OF ok dl adr]
  have d: "8 \<le> dl" "dl \<le> 64" using dl_ok_range [OF dl] by auto
  have w: "(2::nat) ^ 12 \<le> 2 ^ PduLengthBits S" using ok by (intro power_increasing) (simp_all add: ff_len_ok_def)
  have len: "length f = dl" using ff_bytes_len [OF ok dl adr bs] f by simp
  have inv: "\<not> CanTp_Prv_IsRxDlInValid S dl" using dl by (simp add: dl_ok_def)
  define mn where "mn = dl - length adr - (if CANTP_DEFAULT_CAN_DL < dl then 1 else 0)"
  have min: "ulen S (int dl - int (length adr) - (if CANTP_DEFAULT_CAN_DL < dl then 1 else 0)) = mn"
    using ubits_diff2 [of "length adr" 1 dl "PduLengthBits S"] ubits_diff [of "length adr" 8 "PduLengthBits S"] adr d w
    by (simp add: mn_def)
  have le: "\<not> len < mn" "len < 2 ^ PduLengthBits S" "len \<le> 4294967295" using ok by (auto simp: ff_len_ok_def mn_def)
  define D where "D = ?D"
  have mem: "D i = mem_of (ff_pci (if len \<le> CANTP_MAXFFDL then CANTP_NPCI_FFCAN else CANTP_NPCI_FFCANFD) len @ bs) i" for i
    using mem_of_append [of adr "ff_pci (if len \<le> CANTP_MAXFFDL then CANTP_NPCI_FFCAN else CANTP_NPCI_FFCANFD) len @ bs" i] b bs
    by (simp add: D_def f ff_bytes_def frame_bytes_def ff_pci_def ff_off_def split: if_splits)
  have ff: "ff_length_check S ?ctx D dl = (dl, ff_off adr len, len)"
  proof (cases "len \<le> 4095")
    case True
    then have k: "len div 256 < 16" by (simp add: less_mult_imp_div_less)
    have D: "D 0 = 16 + len div 256" "D 1 = len mod 256" using True by (simp_all add: mem ff_pci_def mem_of_def)
    have v: "ulen S (int ((D 0 AND CANTP_LOWERNIBBLE_MASK) * 256 + D 1)) = len"
      unfolding D ff_nibble [OF k, THEN conjunct2] using le(2) ubits_of_nat [of len] by simp
    show ?thesis
      unfolding ff_length_check_def Let_def v
      using b(6) True inv d le(1) adr by (simp add: rx_ctx_def u8_of_nat min ff_off_def CanTp_PciSize_def u8_def nat_add_distrib)
  next
    case False
    have D: "D 0 = 16" "D 1 = 0" "D 2 = len div 16777216 mod 256" "D 3 = len div 65536 mod 256" "D 4 = len div 256 mod 256" "D 5 = len mod 256"
      using False by (simp_all add: mem ff_pci_def mem_of_def)
    have v: "ulen S (int ((D 0 AND CANTP_LOWERNIBBLE_MASK) * 256 + D 1)) = 0"
      unfolding D using ff_nibble [of 0] by (simp add: ubits_def)
    have q: "u32 (int (D 2 * 16777216 + D 3 * 65536 + D 4 * 256 + D 5)) = len"
      unfolding D bytes4 [OF le(3)] using le(3) by (simp add: u32_of_nat)
    show ?thesis
      unfolding ff_length_check_def Let_def v q
      using False inv d le adr by (simp add: rx_ctx_def u8_of_nat min ff_off_def CanTp_PciSize_def u8_def nat_add_distrib)
  qed
  note ff [unfolded D_def]
  then show "CanTp_Prv_RxSduLengthCheck S ?ctx (mem_of f) (length f) s =
     (E_OK, ?ctx\<lparr>rc_CAN_DL := dl, rc_DataOffset := ff_off adr len, rc_SduLength := len\<rparr>)"
    using dlc le(2) by (simp add: CanTp_Prv_RxSduLengthCheck_def len rx_ctx_def Let_def ubits_of_nat)
  show "\<exists>b rest. f = adr @ b # rest \<and> b div 16 = 1"
    using ff_nibble [of "len div 256"] ff_nibble [of 0]
    by (auto simp: f ff_bytes_def frame_bytes_def ff_pci_def less_mult_imp_div_less)
qed

lemma Receive_ff:
  assumes on: "cantp_on cfg s" and path: "rx_path S cfg P r adr" and dl: "dl_ok S dl" and ok: "ff_len_ok S adr dl len"
    and bs: "length bs = ff_room adr dl len" and f: "f = ff_bytes S adr dl len bs"
    and dlc: "CanTp_Cfg_DlcCheck S dl dl = E_OK"
    and fd: "case CanTp_FdCallOut S of None \<Rightarrow> True
             | Some g \<Rightarrow> g P (pdu_of f) (CanTp_Prv_GetBit (rx_BitFields (RxSdu cfg r)) CANTP_FD_ENABLED) = E_OK"
    and c: "c = rx_ChannelId (RxSdu cfg r)" and h: "h = rx_PduRPduHandleId (RxSdu cfg r)"
    and idle: "CanTp_SubState s c = CANTP_IDLE" "CanTp_TxConfirmationChannel s (rx_TxConfirmationId (RxSdu cfg r)) = CANTP_INVALID_CHANNEL S"
    and par: "CanTp_Prv_GetRxParam S r TP_BS s < 2 ^ PduLengthBits S"
    and start: "PduR_CanTpStartOfReception S h bs len (ext s) = (BUFREQ_OK, m, e1)" "length bs \<le> m"
    and copy: "PduR_CanTpCopyRxData S h (Some bs) e1 = (BUFREQ_OK, rm, e2)"
    and s': "s' = CanTp_Receive S P f s"
  shows "rx_fc_due S cfg r dl (len - length bs) s'" "ext s' = e2" "ch_SN (CanTp_Channel s' c) = 1"
proof -
  have adr: "length adr \<le> 1" using rx_path_adr [OF path] by simp
  note b = ff_bounds [OF ok dl adr]
  have cfg: "cfgp s = cfg" using cantp_onD [OF on] by simp
  have len: "length f = dl" using ff_bytes_len [OF ok dl adr bs] f by simp
  let ?ctx = "(rx_ctx cfg P r adr CANTP_FIRST_FRAME)\<lparr>rc_CAN_DL := dl, rc_DataOffset := ff_off adr len, rc_SduLength := len\<rparr>"
  note chk = ff_check [OF path dl ok bs f dlc]
  obtain b0 rest where fr: "f = adr @ b0 # rest" "b0 div 16 = 1" using chk(2) by blast
  have rcv: "CanTp_Receive S P f s = CanTp_Prv_BurstMainFunction S c (CanTp_Prv_ProcessRxFirstFrame S ?ctx (pdu_of f) (mem_of f) s)"
    using Receive_data [OF on path fr(2) _ chk(1) fr(1)] c by (simp add: CanTp_Prv_ProcessFrame_def rx_ctx_def)
  have pay: "u8 (int dl - int (ff_off adr len)) = length bs" "u8 (int dl) = dl"
    using b bs ff_room_off [of adr dl len] u8_diff [of "ff_off adr len" dl] by (simp_all add: u8_of_nat)
  have rdf: "rd (mem_of f) (ff_off adr len) (length bs) = bs" using ff_payload f by metis
  have acc: "CanTp_Prv_GetConnectionAcceptance S ?ctx (pdu_of f) s = (E_OK, set_sub c CANTP_RX_RECEPTION_REQUEST_ACCEPTED s)"
    using fd idle(1) c by (auto simp: CanTp_Prv_GetConnectionAcceptance_def CanTp_Prv_GetState_def rx_ctx_def Let_def rx_context0_def split: option.splits)
  have rem: "ulen S (int len - int (length bs)) = len - length bs"
    using b(2) bs ok by (simp add: ubits_diff ff_len_ok_def)
  let ?g = "\<lambda>ch. (if CANTP_CANFD_SUPPORT S then ch_RX_DL_update (\<lambda>_. dl) else id) (ch\<lparr>ch_ActiveSduId := r, ch_SduLength := len\<rparr>)"
  let ?t = "set_sub c CANTP_RX_SEND_FC (upd_ch c (\<lambda>ch. (?g ch)\<lparr>ch_InitialTicks := CanTp_MainFunctionTicks s, ch_SduLengthRemaining := len - length bs,
     ch_BS := 0, ch_STminTicks := CANTP_INVALID_STMIN_TICKS S, ch_FcWait := 0, ch_SN := 1, ch_FlowStatus := CANTP_FC_WAIT\<rparr>) (s\<lparr>ext := e2\<rparr>))"
  define ctx where "ctx = ?ctx"
  have x: "rc_ChannelId ctx = c" "rc_PduRPduHandleId ctx = h" "rc_DataOffset ctx = ff_off adr len" "rc_SduLength ctx = len" "rc_SduId ctx = r"
    using c h by (simp_all add: ctx_def rx_ctx_def)
  define pd where "pd = pdu_of f"
  have pd: "SduLength pd = dl" using len by (simp add: pd_def)
  have "CanTp_Prv_ProcessRxFirstFrame S ctx pd (mem_of f) s = ?t"
    using start copy
    by (simp add: CanTp_Prv_ProcessRxFirstFrame_def CanTp_GetElapsedValue_def acc [folded ctx_def pd_def] x pd pay rdf rem
        CanTp_Prv_SetRxDl_def Let_def)
  then have t: "s' = ?t" using s' rcv [folded ctx_def pd_def] Burst_idle [of ?t c S] by simp
  have "CanTp_Prv_GetRxDl S c s' = dl" "CanTp_Prv_GetRxParam S r TP_BS s' = CanTp_Prv_GetRxParam S r TP_BS s"
    using dl_ok_cases [OF dl] by (auto simp: t CanTp_Prv_GetRxDl_def CanTp_Prv_GetRxParam_def cfgp_def)
  moreover have "CanTp_CfgPtr s' = CanTp_CfgPtr s" "CanTp_MainState s' = CanTp_MainState s"
    "CanTp_TxConfirmationChannel s' = CanTp_TxConfirmationChannel s" "CanTp_SubState s' c = CANTP_RX_SEND_FC"
    "ch_ActiveSduId (CanTp_Channel s' c) = r" "ch_FlowStatus (CanTp_Channel s' c) = CANTP_FC_WAIT" "ch_FcWait (CanTp_Channel s' c) = 0"
    "ch_SduLengthRemaining (CanTp_Channel s' c) = len - length bs" "ch_BS (CanTp_Channel s' c) = 0"
    and sn: "ch_SN (CanTp_Channel s' c) = 1" and e: "ext s' = e2"
    by (simp_all add: t)
  moreover have "0 < len - length bs" "len - length bs < 2 ^ PduLengthBits S" using b(2) bs ok by (auto simp: ff_len_ok_def)
  ultimately show "rx_fc_due S cfg r dl (len - length bs) s'"
    using on idle(2) par unfolding rx_fc_due_def c [symmetric] Let_def cantp_on_def by simp
  show "ext s' = e2" "ch_SN (CanTp_Channel s' c) = 1" by (rule e, rule sn)
qed

subsection \<open>Interface: the upper layer and the bus during a reception\<close>

text \<open>
  A receiver accepts a message that fits its capacity, stores its pieces as a \<open>tp_sink\<close> does, and the
  bus below takes flow-control frames; \<open>idle\<close> states accept a new message, \<open>bus\<close> says that the
  lower layer transmits.
\<close>

locale tp_receiver = tp_sink copy stored room ready
  for copy :: "nat list option \<Rightarrow> 'e \<Rightarrow> BufReq_ReturnType \<times> nat \<times> 'e" and stored room ready +
  fixes start :: "nat list \<Rightarrow> nat \<Rightarrow> 'e \<Rightarrow> BufReq_ReturnType \<times> nat \<times> 'e"
    and fc_send :: "nat list option \<Rightarrow> nat \<Rightarrow> 'e \<Rightarrow> Std_ReturnType \<times> 'e"
    and idle :: "'e \<Rightarrow> bool" and bus :: "'e \<Rightarrow> bool" and cap :: nat
  assumes start_ok: "idle e \<Longrightarrow> bus e \<Longrightarrow> n \<le> cap \<Longrightarrow>
      \<exists>m e'. start d n e = (BUFREQ_OK, m, e') \<and> cap \<le> m \<and> ready e' \<and> bus e' \<and> stored e' = [] \<and> room e' = cap"
    and copy_bus: "ready e \<Longrightarrow> bus e \<Longrightarrow> copy (Some d) e = (BUFREQ_OK, n, e') \<Longrightarrow> bus e'"
    and fc_ok: "ready e \<Longrightarrow> bus e \<Longrightarrow> length f \<le> 8 \<Longrightarrow>
      \<exists>e'. fc_send (Some f) (length f) e = (E_OK, e') \<and> ready e' \<and> bus e' \<and> stored e' = stored e \<and> room e' = room e"
begin

lemma fc_done:
  assumes S: "PduR_CanTpCopyRxData S (rx_PduRPduHandleId conn) = copy" "CanIf_TransmitFn S (rx_TxPduId conn) = fc_send"
    and due: "rx_fc_due S cfg r dl rem s" and path: "rx_fc_path S cfg r" and dl: "dl_ok S dl"
    and conn: "conn = RxSdu cfg r" and c: "c = rx_ChannelId conn" and i: "i = rx_TxConfirmationId conn"
    and up: "ready (ext s)" "bus (ext s)" "rem \<le> room (ext s)"
    and s': "s' = CanTp_TxConfirmation S i (CanTp_Prv_ExecuteState S c s)"
  shows "rx_ready S cfg r dl s' \<and> ready (ext s') \<and> bus (ext s') \<and> stored (ext s') = stored (ext s) \<and> room (ext s') = room (ext s) \<and>
     ch_SN (CanTp_Channel s' c) = ch_SN (CanTp_Channel s c) \<and> ch_SduLengthRemaining (CanTp_Channel s' c) = rem"
proof -
  let ?f = "fc_bytes S (rx_BitFields conn) (rx_adr cfg r) CANTP_FC_CTS (fc_bs S r c s) (CanTp_Prv_GetRxParam S r TP_STMIN s)"
  have "length (rx_adr cfg r) \<le> 1" by (simp add: rx_adr_def addr_bytes_def)
  then have "length ?f \<le> 8" by (rule fc_bytes_len)
  then obtain e where e: "fc_send (Some ?f) (length ?f) (ext s) = (E_OK, e)" "ready e" "bus e" "stored e = stored (ext s)" "room e = room (ext s)"
    using fc_ok [OF up(1,2)] by blast
  have q: "PduR_CanTpCopyRxData S (rx_PduRPduHandleId conn) None (ext s) = (BUFREQ_OK, room (ext s), ext s)"
    using copy_query [OF up(1)] S(1) by simp
  have ex: "CanTp_Prv_ExecuteState S c s = fc_handed S r c i e s"
    using SendFlowControl [OF due path conn c i q up(3) refl] e(1) S(2) by simp
  show ?thesis using fc_confirmed [OF due path dl conn c i, of s' e] e s' ex by simp
qed

lemma rx_next:
  assumes S: "PduR_CanTpCopyRxData S (rx_PduRPduHandleId conn) = copy" "CanIf_TransmitFn S (rx_TxPduId conn) = fc_send"
    and path: "rx_path S cfg P r adr" "rx_fc_path S cfg r" and dl: "dl_ok S dl"
    and dlc: "\<And>n. CanTp_Cfg_DlcCheck S n n = E_OK"
    and conn: "conn = RxSdu cfg r" and c: "c = rx_ChannelId conn" and i: "i = rx_TxConfirmationId conn"
    and p: "p = dl - Suc (length adr)"
    and d: "0 < d" "d < 2 ^ TickBits S" "d \<le> CsCrTicks (TimeOut cfg (rx_TimeOutId conn))"
    and rdy: "rx_ready S cfg r dl s" and up: "ready (ext s)" "bus (ext s)"
    and xs: "length xs = ch_SduLengthRemaining (CanTp_Channel s c)" "length xs \<le> room (ext s)" "p < length xs"
    and s': "s' = rx_frame S P c i d (cf_bytes S (rx_BitFields conn) adr dl (ch_SN (CanTp_Channel s c)) (take p xs)) s"
  shows "rx_ready S cfg r dl s' \<and> ready (ext s') \<and> bus (ext s') \<and> stored (ext s') = stored (ext s) @ take p xs \<and>
     room (ext s') = room (ext s) - p \<and> ch_SN (CanTp_Channel s' c) = Suc (ch_SN (CanTp_Channel s c)) mod 16 \<and>
     ch_SduLengthRemaining (CanTp_Channel s' c) = length (drop p xs)"
proof -
  define w where "w = (CanTp_IncrementCounter S ^^ d) s"
  note ww = rx_ready_wait [OF rdy d(1,2) d(3) [unfolded conn] w_def]
  have r0: "CanTp_TxConfirmationChannel s i = CANTP_INVALID_CHANNEL S" "CanTp_Prv_GetRxParam S r TP_BS s < 2 ^ PduLengthBits S"
    "ch_BS (CanTp_Channel s c) < 2 ^ PduLengthBits S" "ch_SN (CanTp_Channel s c) < 16" "0 < ch_BlockCfsRemaining (CanTp_Channel s c)"
    "ch_SduLengthRemaining (CanTp_Channel s c) < 2 ^ PduLengthBits S"
    using rdy conn c i by (auto simp: rx_ready_def rx_waiting_def Let_def)
  have bs: "length (take p xs) = min (dl - Suc (length adr)) (ch_SduLengthRemaining (CanTp_Channel w c))"
    using xs p ww(2) by (simp add: min.commute)
  have lp: "length (take p xs) = p" using xs(3) by simp
  let ?f = "cf_bytes S (rx_BitFields conn) adr dl (ch_SN (CanTp_Channel s c)) (take p xs)"
  obtain e where e: "copy (Some (take p xs)) (ext w) = (BUFREQ_OK, room (ext w) - p, e)" "ready e"
    "stored e = stored (ext s) @ take p xs" "room e = room (ext s) - p"
    using copy_fits [OF up(1), of "take p xs"] xs lp ww(3) by auto
  have be: "bus e" using copy_bus [OF up(1,2)] e(1) ww(3) by simp
  define t where "t = cf_stored c p e w"
  have rcv: "CanTp_Receive S P ?f w = CanTp_Prv_PrepareFcTransmit c t"
    using Receive_cf [OF path(1) dl ww(1) c [unfolded conn] refl bs, of ?f "room (ext w) - p" e] dlc e(1) S(1) xs ww(2) lp conn
    by (simp add: Let_def t_def)
  have t: "CanTp_Channel t c = (CanTp_Channel s c)\<lparr>ch_InitialTicks := CanTp_MainFunctionTicks w, ch_SN := Suc (ch_SN (CanTp_Channel s c)) mod 16,
      ch_SduLengthRemaining := length (drop p xs), ch_BlockCfsRemaining := ch_BlockCfsRemaining (CanTp_Channel s c) - 1\<rparr>"
    "ext t = e" "CanTp_TxConfirmationChannel t = CanTp_TxConfirmationChannel s" "CanTp_MainFunctionTicks t = CanTp_MainFunctionTicks w"
    "CanTp_SubState t = CanTp_SubState w" "CanTp_CfgPtr t = CanTp_CfgPtr w" "CanTp_MainState t = CanTp_MainState w"
    "CanTp_ParamPair t = CanTp_ParamPair w"
    using xs ww(2,4) by (simp_all add: t_def cf_stored_def)
  have par: "CanTp_Prv_GetRxParam S r TP_BS t = CanTp_Prv_GetRxParam S r TP_BS s"
    unfolding ww(5) [of TP_BS, symmetric] by (simp add: CanTp_Prv_GetRxParam_def cfgp_def t(6,8))
  show ?thesis
  proof (cases "1 < ch_BlockCfsRemaining (CanTp_Channel s c)")
    case True
    have "rx_waiting S cfg r dl t" using waiting_step [OF ww(1), of c p e] True ww(2) c conn by (simp add: t_def)
    moreover have "CanTp_SubState t c \<noteq> CANTP_RX_SEND_FC" using calculation c conn by (simp add: rx_waiting_def Let_def)
    ultimately have "s' = t" "rx_ready S cfg r dl t"
      using s' rcv True t r0 par conn c i
      by (simp_all add: rx_frame_def w_def [symmetric] CanTp_Prv_PrepareFcTransmit_def rx_ready_def Let_def)
    then show ?thesis using t(1,2) e be by simp
  next
    case False
    define u where "u = set_sub c CANTP_RX_SEND_FC (upd_ch c (\<lambda>ch. ch\<lparr>ch_FcWait := 0, ch_FlowStatus := CANTP_FC_WAIT\<rparr>) t)"
    have u: "CanTp_Prv_PrepareFcTransmit c t = u" using False r0(5) t(1) by (simp add: CanTp_Prv_PrepareFcTransmit_def u_def)
    have wt: "cantp_on cfg w" "ch_ActiveSduId (CanTp_Channel s c) = r" "CanTp_Prv_GetRxDl S c w = dl"
      using ww(1,2) c conn by (auto simp: rx_waiting_def Let_def)
    have g: "CanTp_Prv_GetRxDl S c u = dl" "CanTp_Prv_GetRxParam S r TP_BS u = CanTp_Prv_GetRxParam S r TP_BS s"
      unfolding wt(3) [symmetric] par [symmetric] using ww(2) t(1) by (simp_all add: u_def CanTp_Prv_GetRxDl_def CanTp_Prv_GetRxParam_def cfgp_def)
    have due: "rx_fc_due S cfg r dl (length (drop p xs)) u"
      unfolding rx_fc_due_def conn [symmetric] c [symmetric] i [symmetric] Let_def g cantp_on_def
      using r0 xs wt t by (simp add: u_def cantp_on_def)
    have eu: "ext u = e" "ch_SN (CanTp_Channel u c) = Suc (ch_SN (CanTp_Channel s c)) mod 16" using t(1,2) by (simp_all add: u_def)
    have su: "s' = CanTp_TxConfirmation S i (CanTp_Prv_ExecuteState S c u)"
      using s' rcv u by (simp add: rx_frame_def w_def [symmetric] Let_def) (simp add: u_def)
    have "length (drop p xs) \<le> room (ext u)" using xs e(4) eu(1) by simp
    from fc_done [OF S due path(2) dl conn c i _ _ this su] e be eu show ?thesis by simp
  qed
qed

lemma rx_last:
  assumes S: "PduR_CanTpCopyRxData S (rx_PduRPduHandleId conn) = copy"
    and path: "rx_path S cfg P r adr" and dl: "dl_ok S dl"
    and dlc: "\<And>n. CanTp_Cfg_DlcCheck S n n = E_OK"
    and conn: "conn = RxSdu cfg r" and c: "c = rx_ChannelId conn" and p: "p = dl - Suc (length adr)"
    and d: "0 < d" "d < 2 ^ TickBits S" "d \<le> CsCrTicks (TimeOut cfg (rx_TimeOutId conn))"
    and rdy: "rx_ready S cfg r dl s" and up: "ready (ext s)" "bus (ext s)"
    and xs: "length xs = ch_SduLengthRemaining (CanTp_Channel s c)" "length xs \<le> room (ext s)" "length xs \<le> p"
    and s': "s' = rx_frame S P c i d (cf_bytes S (rx_BitFields conn) adr dl (ch_SN (CanTp_Channel s c)) xs) s"
  shows "\<exists>e. ready e \<and> bus e \<and> stored e = stored (ext s) @ xs \<and>
     ext s' = PduR_CanTpRxIndication S (rx_PduRPduHandleId conn) E_OK e \<and> CanTp_SubState s' c = CANTP_IDLE"
proof -
  define w where "w = (CanTp_IncrementCounter S ^^ d) s"
  note ww = rx_ready_wait [OF rdy d(1,2) d(3) [unfolded conn] w_def]
  have bs: "length xs = min (dl - Suc (length adr)) (ch_SduLengthRemaining (CanTp_Channel w c))"
    using xs p ww(2) by (simp add: min_def)
  obtain e where e: "copy (Some xs) (ext w) = (BUFREQ_OK, room (ext w) - length xs, e)" "ready e" "stored e = stored (ext s) @ xs"
    using copy_fits [OF up(1) xs(2)] ww(3) by auto
  have be: "bus e" using copy_bus [OF up(1,2)] e(1) ww(3) by simp
  have "CanTp_Receive S P (cf_bytes S (rx_BitFields conn) adr dl (ch_SN (CanTp_Channel s c)) xs) w =
     set_sub c CANTP_IDLE (CanTp_Prv_PduRConfirmation S CANTP_RX_PDUR_CONFIRMATION (rx_PduRPduHandleId conn) E_OK
       (CanTp_Prv_PrepareFcTransmit c (cf_stored c (length xs) e w)))"
    using Receive_cf [OF path dl ww(1) c [unfolded conn] refl bs refl, of "room (ext w) - length xs" e] dlc e(1) S xs ww(2) conn
    by (simp add: Let_def)
  then have "s' = set_sub c CANTP_IDLE (CanTp_Prv_PduRConfirmation S CANTP_RX_PDUR_CONFIRMATION (rx_PduRPduHandleId conn) E_OK
       (CanTp_Prv_PrepareFcTransmit c (cf_stored c (length xs) e w)))"
    using s' by (simp add: rx_frame_def w_def [symmetric] Let_def)
  then show ?thesis using e be
    by (intro exI [of _ e]) (simp add: CanTp_Prv_PduRConfirmation_def CanTp_Prv_PrepareFcTransmit_def cf_stored_def)
qed

lemma rx_rest:
  assumes S: "PduR_CanTpCopyRxData S (rx_PduRPduHandleId conn) = copy" "CanIf_TransmitFn S (rx_TxPduId conn) = fc_send"
    and path: "rx_path S cfg P r adr" "rx_fc_path S cfg r" and dl: "dl_ok S dl"
    and dlc: "\<And>n. CanTp_Cfg_DlcCheck S n n = E_OK"
    and conn: "conn = RxSdu cfg r" and c: "c = rx_ChannelId conn" and i: "i = rx_TxConfirmationId conn"
    and d: "0 < d" "d < 2 ^ TickBits S" "d \<le> CsCrTicks (TimeOut cfg (rx_TimeOutId conn))"
  shows "rx_ready S cfg r dl s \<Longrightarrow> ready (ext s) \<Longrightarrow> bus (ext s) \<Longrightarrow> xs \<noteq> [] \<Longrightarrow>
     length xs = ch_SduLengthRemaining (CanTp_Channel s c) \<Longrightarrow> length xs \<le> room (ext s) \<Longrightarrow>
     s' = fold (rx_frame S P c i d) (segment S (rx_BitFields conn) adr dl (ch_SN (CanTp_Channel s c)) xs) s \<Longrightarrow>
     \<exists>e. ready e \<and> bus e \<and> stored e = stored (ext s) @ xs \<and>
       ext s' = PduR_CanTpRxIndication S (rx_PduRPduHandleId conn) E_OK e \<and> CanTp_SubState s' c = CANTP_IDLE"
proof (induction xs arbitrary: s rule: length_induct)
  case (1 xs)
  define p where "p = dl - Suc (length adr)"
  have p0: "0 < p" using p_def rx_path_adr [OF path(1)] dl_ok_range [OF dl] by auto
  note seg = segment_Cons [OF 1(5) p0 [unfolded p_def], of S "rx_BitFields conn" "ch_SN (CanTp_Channel s c)", folded p_def]
  show ?case
  proof (cases "length xs \<le> p")
    case True
    then have "s' = rx_frame S P c i d (cf_bytes S (rx_BitFields conn) adr dl (ch_SN (CanTp_Channel s c)) xs) s" using 1(8) seg by simp
    with rx_last [OF S(1) path(1) dl dlc conn c p_def d 1(2-4,6,7) True] show ?thesis by simp
  next
    case False
    define s1 where "s1 = rx_frame S P c i d (cf_bytes S (rx_BitFields conn) adr dl (ch_SN (CanTp_Channel s c)) (take p xs)) s"
    have n: "rx_ready S cfg r dl s1 \<and> ready (ext s1) \<and> bus (ext s1) \<and> stored (ext s1) = stored (ext s) @ take p xs \<and>
     room (ext s1) = room (ext s) - p \<and> ch_SN (CanTp_Channel s1 c) = Suc (ch_SN (CanTp_Channel s c)) mod 16 \<and>
     ch_SduLengthRemaining (CanTp_Channel s1 c) = length (drop p xs)"
      using rx_next [OF S path dl dlc conn c i p_def d 1(2-4,6,7) _ s1_def] False by simp
    have d1: "length (drop p xs) < length xs" "drop p xs \<noteq> []" using False p0 by auto
    have f: "s' = fold (rx_frame S P c i d) (segment S (rx_BitFields conn) adr dl (ch_SN (CanTp_Channel s1 c)) (drop p xs)) s1"
      using 1(8) n by (simp add: seg s1_def)
    have "length (drop p xs) \<le> room (ext s1)" using n 1(7) by simp
    with 1(1) [rule_format, OF d1(1) _ _ _ d1(2) _ _ f] n
    obtain e where "ready e" "bus e" "stored e = stored (ext s1) @ drop p xs"
      "ext s' = PduR_CanTpRxIndication S (rx_PduRPduHandleId conn) E_OK e" "CanTp_SubState s' c = CANTP_IDLE" by metis
    then show ?thesis using n by (intro exI [of _ e]) simp
  qed
qed

text \<open>A message of \<open>xs\<close>, first frame to last, is handed over in full and reported as received.\<close>

lemma message_received:
  assumes S: "PduR_CanTpCopyRxData S (rx_PduRPduHandleId conn) = copy" "CanIf_TransmitFn S (rx_TxPduId conn) = fc_send"
      "PduR_CanTpStartOfReception S (rx_PduRPduHandleId conn) = start"
    and on: "cantp_on cfg s" and path: "rx_path S cfg P r adr" "rx_fc_path S cfg r" and dl: "dl_ok S dl"
    and dlc: "\<And>n. CanTp_Cfg_DlcCheck S n n = E_OK"
    and fd: "case CanTp_FdCallOut S of None \<Rightarrow> True | Some g \<Rightarrow> \<forall>P q b. g P q b = E_OK"
    and conn: "conn = RxSdu cfg r" and c: "c = rx_ChannelId conn" and i: "i = rx_TxConfirmationId conn"
    and d: "0 < d" "d < 2 ^ TickBits S" "d \<le> CsCrTicks (TimeOut cfg (rx_TimeOutId conn))"
    and st: "CanTp_SubState s c = CANTP_IDLE" "CanTp_TxConfirmationChannel s i = CANTP_INVALID_CHANNEL S"
    and par: "CanTp_Prv_GetRxParam S r TP_BS s < 2 ^ PduLengthBits S"
    and up: "idle (ext s)" "bus (ext s)" and len: "ff_len_ok S adr dl (length xs)" "length xs \<le> cap"
    and n: "n = ff_room adr dl (length xs)"
    and s': "s' = fold (rx_frame S P c i d) (ff_bytes S adr dl (length xs) (take n xs) # segment S (rx_BitFields conn) adr dl 1 (drop n xs)) s"
  shows "\<exists>e. ready e \<and> bus e \<and> stored e = xs \<and> ext s' = PduR_CanTpRxIndication S (rx_PduRPduHandleId conn) E_OK e \<and>
     CanTp_SubState s' c = CANTP_IDLE"
proof -
  have adr: "length adr \<le> 1" using rx_path_adr [OF path(1)] by simp
  note b = ff_bounds [OF len(1) dl adr, folded n]
  have ln: "length (take n xs) = n" using b(2) by simp
  then have room: "length (take n xs) = ff_room adr dl (length xs)" unfolding n .
  define w where "w = (CanTp_IncrementCounter S ^^ d) s"
  have ww: "cantp_on cfg w" "CanTp_SubState w c = CANTP_IDLE" "CanTp_TxConfirmationChannel w i = CANTP_INVALID_CHANNEL S" "ext w = ext s"
    "CanTp_Prv_GetRxParam S r TP_BS w < 2 ^ PduLengthBits S"
    using on st par d(1) by (auto simp: w_def wait_ticks cantp_on_def CanTp_Prv_GetRxParam_def cfgp_def)
  obtain m e1 where e1: "start (take n xs) (length xs) (ext s) = (BUFREQ_OK, m, e1)" "cap \<le> m" "ready e1" "bus e1" "stored e1 = []" "room e1 = cap"
    using start_ok [OF up len(2)] by blast
  obtain e2 where e2: "copy (Some (take n xs)) e1 = (BUFREQ_OK, room e1 - n, e2)" "ready e2" "stored e2 = take n xs" "room e2 = cap - n"
    using copy_fits [OF e1(3), of "take n xs"] e1(5,6) len(2) b(2) ln by auto
  have be: "bus e2" using copy_bus [OF e1(3,4) e2(1)] .
  define t where "t = CanTp_Receive S P (ff_bytes S adr dl (length xs) (take n xs)) w"
  have fd': "case CanTp_FdCallOut S of None \<Rightarrow> True
     | Some g \<Rightarrow> g P (pdu_of (ff_bytes S adr dl (length xs) (take n xs))) (CanTp_Prv_GetBit (rx_BitFields (RxSdu cfg r)) CANTP_FD_ENABLED) = E_OK"
    using fd by (auto split: option.splits)
  have S1: "PduR_CanTpStartOfReception S (rx_PduRPduHandleId conn) (take n xs) (length xs) (ext w) = (BUFREQ_OK, m, e1)"
    "PduR_CanTpCopyRxData S (rx_PduRPduHandleId conn) (Some (take n xs)) e1 = (BUFREQ_OK, room e1 - n, e2)"
    "length (take n xs) \<le> m" using S e1 e2 ww(4) ln b(2) len(2) by auto
  have tt: "rx_fc_due S cfg r dl (length xs - n) t" "ext t = e2" "ch_SN (CanTp_Channel t c) = 1"
    using Receive_ff [OF ww(1) path(1) dl len(1) room refl dlc fd' c [unfolded conn] refl ww(2) ww(3) [unfolded i conn] ww(5)
       S1(1) [unfolded conn] S1(3) S1(2) [unfolded conn] t_def] ln by simp_all
  define u where "u = CanTp_TxConfirmation S i (CanTp_Prv_ExecuteState S c t)"
  have "length xs - n \<le> room (ext t)" using tt(2) e2(4) len(2) by simp
  from fc_done [OF S(1,2) tt(1) path(2) dl conn c i _ _ this u_def] tt(2,3) e2 be
  have uu: "rx_ready S cfg r dl u" "ready (ext u)" "bus (ext u)" "stored (ext u) = take n xs" "room (ext u) = cap - n"
    "ch_SN (CanTp_Channel u c) = 1" "length (drop n xs) = ch_SduLengthRemaining (CanTp_Channel u c)" by auto
  have "CanTp_SubState t c = CANTP_RX_SEND_FC" using tt(1) conn c by (simp add: rx_fc_due_def Let_def)
  then have "rx_frame S P c i d (ff_bytes S adr dl (length xs) (take n xs)) s = u"
    by (simp add: rx_frame_def w_def [symmetric] t_def [symmetric] u_def Let_def)
  then have f: "s' = fold (rx_frame S P c i d) (segment S (rx_BitFields conn) adr dl (ch_SN (CanTp_Channel u c)) (drop n xs)) u"
    using s' uu(6) by simp
  have ne: "drop n xs \<noteq> []" "length (drop n xs) \<le> room (ext u)" using b(2) uu(5) len(2) by auto
  show ?thesis using rx_rest [OF S(1,2) path dl dlc conn c i d uu(1-3) ne(1) uu(7) ne(2) f] uu(4) by simp
qed

end

end
