(* ===== verification/CanTp_Transmission.thy ===== *)
theory CanTp_Transmission
  imports CanTp_Reception
begin

text \<open>
  A whole transmission: the request of the upper layer, the single or first frame, the flow-control
  frames of the peer, and the consecutive frames of all blocks, over the interface \<open>tp_source\<close>.
\<close>

subsection \<open>The request\<close>

definition tx_requested :: "'e CanTp_Sys \<Rightarrow> CanTp_ConfigType \<Rightarrow> nat \<Rightarrow> nat \<Rightarrow> nat \<Rightarrow> 'e CanTp_GlobalType \<Rightarrow> bool" where
  "tx_requested S cfg t pci len s \<longleftrightarrow>
     (let conn = TxSdu cfg t; Channel = CanTp_Channel s (tx_ChannelId conn) in
      cantp_on cfg s \<and> CanTp_SubState s (tx_ChannelId conn) = CANTP_TX_TRANSMISSION_REQUEST_ACCEPTED \<and>
      ch_ActiveSduId Channel = t \<and> ch_PciId Channel = pci \<and> ch_SduLength Channel = len \<and>
      ch_TxBufferStatus Channel = CANTP_BUFFER_NOT_ASKED \<and> ch_STminTicks Channel = CANTP_INVALID_STMIN_TICKS S \<and>
      CanTp_TxConfirmationChannel s (tx_TxConfirmationId conn) = CANTP_INVALID_CHANNEL S)"

text \<open>The protocol control information that \<^verbatim>\<open>CanTp_Prv_TxPciInit\<close> chooses for a message of \<open>len\<close> bytes.\<close>

definition pci_for :: "'e CanTp_Sys \<Rightarrow> nat list \<Rightarrow> nat \<Rightarrow> nat \<Rightarrow> nat" where
  "pci_for S adr dl len =
     (if len + length adr + 1 \<le> 8 then CANTP_NPCI_SFCAN
      else if 8 < dl \<and> len + length adr + 2 \<le> dl then CANTP_NPCI_SFCANFD
      else if 8 < dl \<and> CANTP_MAXFFDL < len then CANTP_NPCI_FFCANFD else CANTP_NPCI_FFCAN)"

definition tx_len_max :: "nat \<Rightarrow> nat" where
  "tx_len_max dl = (if 8 < dl then 65535 else CANTP_MAXFFDL)"

lemma TxPciInit_for:
  assumes "cfgp s = cfg" "tx_path S cfg t dl" "len \<le> 65535"
  shows "CanTp_Prv_TxPciInit S t len s = pci_for S (tx_adr cfg t) dl len"
proof -
  have pa: "tx_AddressFormatId (TxSdu cfg t) \<le> 3" "CanTp_Prv_GetTxDl S (TxSdu cfg t) = dl" "dl_ok S dl"
    using assms(2) by (auto simp: tx_path_def Let_def)
  note a = tx_adr_length [OF pa(1)]
  have u: "u32 (int len + int (length (tx_adr cfg t)) + 1) = len + length (tx_adr cfg t) + 1"
    "u32 (int len + int (length (tx_adr cfg t)) + 2) = len + length (tx_adr cfg t) + 2"
    using u32_of_nat [of "len + length (tx_adr cfg t) + 1"] u32_of_nat [of "len + length (tx_adr cfg t) + 2"] a assms(3) by (simp_all add: ac_simps)
  have "CANTP_CANFD_SUPPORT S \<or> \<not> 8 < dl" using dl_ok_cases [OF pa(3)] by auto
  then show ?thesis
    unfolding CanTp_Prv_TxPciInit_def Let_def assms(1) pa(2) conjunct1 [OF a, symmetric] u pci_for_def by auto
qed

lemma CanTp_Transmit_accepted:
  assumes on: "cantp_on cfg s" and path: "tx_path S cfg t dl" and t: "t < NumberOfTxSdus cfg"
    and conn: "conn = TxSdu cfg t" and c: "c = tx_ChannelId conn"
    and phys: "\<not> CanTp_Prv_GetBit (tx_BitFields conn) CANTP_FUNCTIONAL"
    and len: "0 < len" "len \<le> tx_len_max dl"
    and st: "CanTp_SubState s c = CANTP_IDLE" "CanTp_TxConfirmationChannel s (tx_TxConfirmationId conn) = CANTP_INVALID_CHANNEL S"
    and r: "(r, s') = CanTp_Transmit S t (Some \<lparr>SduDataPtr = m, SduLength = len\<rparr>) s"
  shows "r = E_OK \<and> tx_requested S cfg t (pci_for S (tx_adr cfg t) dl len) len s' \<and> ext s' = ext s \<and>
     ch_InitialTicks (CanTp_Channel s' c) = CanTp_MainFunctionTicks s'"
proof -
  have cfg: "cfgp s = cfg" "CanTp_MainState s" using cantp_onD [OF on] by auto
  have g: "dev_guard S t CANTP_TRANSMIT CANTP_E_INVALID_TX_ID s = (True, s)"
    using t cfg by (simp add: dev_guard_def CanTp_Prv_IsNoDevError_def Let_def)
  have pa: "CanTp_Prv_GetTxDl S conn = dl" "dl_ok S dl" using path conn by (auto simp: tx_path_def Let_def)
  have mx: "len \<le> 65535" "\<not> Transmit_MaxLength S conn q < len" for q
    using len dl_ok_cases [OF pa(2)] phys by (auto simp: tx_len_max_def Transmit_MaxLength_def pa(1) Let_def u16_def split: if_splits)
  note pci = TxPciInit_for [OF cfg(1) path mx(1)]
  have "CanTp_Prv_GetState c s = STATE_IDLE" using st(1) by (simp add: CanTp_Prv_GetState_def)
  with r have "r = E_OK \<and> s' = set_sub c CANTP_TX_TRANSMISSION_REQUEST_ACCEPTED
     (upd_ch c (\<lambda>ch. ch\<lparr>ch_ActiveSduId := t, ch_PciId := pci_for S (tx_adr cfg t) dl len, ch_SduLength := len,
        ch_InitialTicks := CanTp_MainFunctionTicks s, ch_TxBufferStatus := CANTP_BUFFER_NOT_ASKED,
        ch_STminTicks := CANTP_INVALID_STMIN_TICKS S\<rparr>) s)"
    using len(1) mx(2) unfolding CanTp_Transmit_def g cfg
    by (simp add: cfg(1) conn [symmetric] c [symmetric] pci CanTp_GetElapsedValue_def Let_def split: if_splits)
  then show ?thesis using on st(2) by (simp add: tx_requested_def Let_def conn [symmetric] c [symmetric] cantp_on_def)
qed

subsection \<open>The first frame of a request\<close>

definition req_started :: "nat \<Rightarrow> 'e CanTp_GlobalType \<Rightarrow> 'e CanTp_GlobalType" where
  "req_started c s =
     set_sub c CANTP_TX_WAIT_FOR_TRANSMIT_CONFIRMATION
       (upd_ch c (\<lambda>ch. ch\<lparr>ch_BlockCfsRemaining := 0, ch_SduLengthRemaining := ch_SduLength ch, ch_SN := 1,
                         ch_TxBufferStatus := CANTP_BUFFER_AVAILABLE, ch_InitialTicks := CanTp_MainFunctionTicks s\<rparr>) s)"

definition req_handed :: "nat \<Rightarrow> nat \<Rightarrow> 'e \<Rightarrow> 'e CanTp_GlobalType \<Rightarrow> 'e CanTp_GlobalType" where
  "req_handed c i e s =
     set_conf i c (upd_ch c (ch_TxBufferStatus_update (\<lambda>_. CANTP_BUFFER_NOT_ASKED)) ((req_started c s)\<lparr>ext := e\<rparr>))"

lemma request_served:
  assumes req: "tx_requested S cfg t pci len s" and path: "tx_path S cfg t dl"
    and conn: "conn = TxSdu cfg t" and c: "c = tx_ChannelId conn" and i: "i = tx_TxConfirmationId conn"
    and el: "snd (CanTp_GetElapsedValue S (ch_InitialTicks (CanTp_Channel s c)) s) < CsCrTicks (TimeOut cfg (tx_TimeOutId conn))"
    and n: "n = (if CANTP_NPCI_FFCAN \<le> pci
                 then u8 (int dl - int (u8 (int (CanTp_AddressSize (tx_AddressFormatId conn)) + int (CanTp_PciSize pci)))) else u8 (int len))"
    and q: "PduR_CanTpCopyTxData S (tx_PduRPduHandleId conn) 0 False (ext s) = (BUFREQ_OK, [], av, ext s)" "n \<le> av"
    and f: "CanTp_Prv_CreateFrame S c (uninit S) dl (req_started c s) = (E_OK, m, length f, (req_started c s)\<lparr>ext := e1\<rparr>)" "rd m 0 (length f) = f"
    and tx: "CanIf_TransmitFn S (tx_TxPduId conn) (Some f) (length f) e1 = (E_OK, e)"
  shows "CanTp_Prv_ExecuteState S c s = req_handed c i e s"
proof -
  let ?ch = "CanTp_Channel s c"
  have w: "cantp_on cfg s" "CanTp_SubState s c = CANTP_TX_TRANSMISSION_REQUEST_ACCEPTED" "ch_ActiveSduId ?ch = t"
    "CanTp_TxConfirmationChannel s i = CANTP_INVALID_CHANNEL S" "ch_TxBufferStatus ?ch = CANTP_BUFFER_NOT_ASKED"
    "ch_PciId ?ch = pci" "ch_SduLength ?ch = len"
    using req conn c i by (auto simp: tx_requested_def Let_def)
  have cfg: "cfgp s = cfg" using cantp_onD [OF w(1)] by simp
  have pa: "CanTp_Prv_GetTxDl S conn = dl"
    "\<not> (CANTP_TRIGGER_TRANSMIT_API S \<and> CanTp_Prv_GetBit (tx_BitFields conn) CANTP_TRIGGER_TRANSMIT_ON)"
    using path conn by (auto simp: tx_path_def Let_def)
  define s0 where "s0 = upd_ch c (\<lambda>ch. ch\<lparr>ch_BlockCfsRemaining := 0, ch_SduLengthRemaining := len, ch_SN := 1\<rparr>) s"
  define s1 where "s1 = upd_ch c (ch_TxBufferStatus_update (\<lambda>_. CANTP_BUFFER_AVAILABLE)) s0"
  have s0: "ext s0 = ext s" "ch_TxBufferStatus (CanTp_Channel s0 c) = CANTP_BUFFER_NOT_ASKED" using w(5) by (simp_all add: s0_def)
  have st: "set_sub c CANTP_TX_WAIT_FOR_TRANSMIT_CONFIRMATION (upd_ch c (ch_InitialTicks_update (\<lambda>_. CanTp_MainFunctionTicks s)) s1) = req_started c s"
    using w(7) by (simp add: s1_def s0_def req_started_def)
  define ctx where "ctx = \<lparr>tc_PduRApiId = CANTP_TX_PDUR_CONFIRMATION, tc_PayLoadLength = n,
     tc_BitFields = tx_BitFields conn, tc_ChannelId = c, tc_TxConfirmationId = i, tc_PduId = tx_TxPduId conn,
     tc_PduRPduHandleId = tx_PduRPduHandleId conn, tc_RemBufSize = 0, tc_Value = CanTp_MainFunctionTicks s,
     tc_ElapsedValue = ubits (TickBits S) (int (CanTp_MainFunctionTicks s) - int (ch_InitialTicks ?ch)),
     tc_CsTicks = CsCrTicks (TimeOut cfg (tx_TimeOutId conn))\<rparr>"
  have buf: "CanTp_Prv_GetTxBuffer S ctx s0 = s1"
    using s0 q el by (simp add: CanTp_Prv_GetTxBuffer_def ctx_def s1_def CanTp_GetElapsedValue_def Let_def)
  have tr: "CanTp_Prv_CanIfTransmit S ctx dl (req_started c s) = set_conf i c ((req_started c s)\<lparr>ext := e\<rparr>)"
    using pa(2) f tx by (auto simp: CanTp_Prv_CanIfTransmit_def ctx_def)
  have conn': "TxSdu cfg t = conn" using conn by simp
  have av: "ch_TxBufferStatus (CanTp_Channel s1 c) = CANTP_BUFFER_AVAILABLE" by (simp add: s1_def)
  have "CanTp_Prv_ExecuteState S c s = upd_ch c (ch_TxBufferStatus_update (\<lambda>_. CANTP_BUFFER_NOT_ASKED))
      (CanTp_Prv_CanIfTransmit S ctx dl (req_started c s))"
    unfolding CanTp_Prv_ExecuteState_def CanTp_Prv_TxTransmissionRequestAccepted_def Let_def CanTp_GetElapsedValue_def case_prod_conv
      w(2,3) cfg conn' pa(1) w(6,7) i [symmetric] n [symmetric] ctx_def [symmetric] s0_def [symmetric]
    using w(2,4) by (simp add: buf av st [symmetric])
  then show ?thesis unfolding tr by (simp add: req_handed_def)
qed

subsection \<open>Waiting for flow control\<close>

definition tx_fc_on :: "'e CanTp_Sys \<Rightarrow> CanTp_ConfigType \<Rightarrow> nat \<Rightarrow> bool" where
  "tx_fc_on S cfg t \<longleftrightarrow> \<not> (CANTP_FC_DISABLE_SUPPORT S \<and> CanTp_Prv_GetBit (tx_BitFields (TxSdu cfg t)) CANTP_FC_DISABLED)"

text \<open>The channel of \<open>t\<close> waits for a flow-control frame, with \<open>rem\<close> bytes left and next sequence number \<open>sn\<close>.\<close>

definition tx_wait_fc :: "'e CanTp_Sys \<Rightarrow> CanTp_ConfigType \<Rightarrow> nat \<Rightarrow> nat \<Rightarrow> nat \<Rightarrow> 'e CanTp_GlobalType \<Rightarrow> bool" where
  "tx_wait_fc S cfg t rem sn s \<longleftrightarrow>
     (let conn = TxSdu cfg t; Channel = CanTp_Channel s (tx_ChannelId conn) in
      cantp_on cfg s \<and> CanTp_SubState s (tx_ChannelId conn) = CANTP_TX_WAIT_FOR_FLOWCONTROL_FRAME \<and>
      ch_ActiveSduId Channel = t \<and>
      CanTp_TxConfirmationChannel s (tx_TxConfirmationId conn) = CANTP_INVALID_CHANNEL S \<and>
      ch_TxBufferStatus Channel = CANTP_BUFFER_NOT_ASKED \<and> ch_SN Channel = sn \<and> sn < 16 \<and>
      ch_SduLengthRemaining Channel = rem \<and> 0 < rem \<and> rem < 2 ^ PduLengthBits S \<and>
      ch_InitialTicks Channel = CanTp_MainFunctionTicks s)"

lemma PrepareFcRecieve_on:
  assumes "cfgp s = cfg" "ch_ActiveSduId (CanTp_Channel s c) = t" "tx_fc_on S cfg t"
  shows "CanTp_Prv_PrepareFcRecieve S c s = upd_ch c (ch_PciId_update (\<lambda>_. CANTP_NPCI_FC)) (set_sub c CANTP_TX_WAIT_FOR_FLOWCONTROL_FRAME s)"
  using assms by (auto simp: CanTp_Prv_PrepareFcRecieve_def tx_fc_on_def)

lemma req_confirmed:
  assumes path: "tx_path S cfg t dl" and req: "tx_requested S cfg t pci len s" and pci: "pci \<le> 3"
    and conn: "conn = TxSdu cfg t" and c: "c = tx_ChannelId conn" and i: "i = tx_TxConfirmationId conn"
    and n: "n = dl - (length (tx_adr cfg t) + CanTp_PciSize pci)" and len: "len < 2 ^ PduLengthBits S"
    and s': "s' = CanTp_TxConfirmation S i (req_handed c i e s)"
  shows "len \<le> n \<Longrightarrow> CanTp_SubState s' c = CANTP_IDLE \<and> ext s' = PduR_CanTpTxConfirmation S (tx_PduRPduHandleId conn) E_OK e"
    and "n < len \<Longrightarrow> tx_fc_on S cfg t \<Longrightarrow> tx_wait_fc S cfg t (len - n) 1 s' \<and> ext s' = e \<and>
      ch_STminTicks (CanTp_Channel s' c) = CANTP_INVALID_STMIN_TICKS S"
proof -
  let ?s = "req_handed c i e s"
  have w: "cantp_on cfg s" "ch_ActiveSduId (CanTp_Channel s c) = t" "ch_PciId (CanTp_Channel s c) = pci" "ch_SduLength (CanTp_Channel s c) = len"
    "ch_STminTicks (CanTp_Channel s c) = CANTP_INVALID_STMIN_TICKS S"
    using req conn c by (auto simp: tx_requested_def Let_def)
  have pa: "tx_AddressFormatId conn \<le> 3" "CanTp_Prv_GetTxDl S conn = dl" "dl_ok S dl" using path conn by (auto simp: tx_path_def Let_def)
  have adr: "length (tx_adr cfg t) = CanTp_AddressSize (tx_AddressFormatId conn)" "length (tx_adr cfg t) \<le> 1"
    using tx_adr_length [of cfg t] pa(1) conn by auto
  have cfg: "cfgp ?s = cfg" using cantp_onD [OF w(1)] by (simp add: req_handed_def req_started_def cfgp_def)
  have conf: "s' = TxConfirmation_data S i c (CanTp_MainFunctionTicks s) ?s"
    using TxConfirmation_waiting [OF _ path, of ?s i c] w(1) conn c i s' by (simp add: req_handed_def req_started_def cantp_on_def)
  have mx: "u8 (int dl - int (CanTp_AddressSize (tx_AddressFormatId conn)) - int (CanTp_PciSize pci)) = n"
    using u8_diff2 [of "CanTp_AddressSize (tx_AddressFormatId conn)" "CanTp_PciSize pci" dl] adr dl_ok_range [OF pa(3)] n PciSize_le [OF pci]
    by simp
  have cs: "CanTp_Channel ?s c = (CanTp_Channel s c)\<lparr>ch_BlockCfsRemaining := 0, ch_SduLengthRemaining := len, ch_SN := 1,
      ch_TxBufferStatus := CANTP_BUFFER_NOT_ASKED, ch_InitialTicks := CanTp_MainFunctionTicks s\<rparr>"
    using w(4) by (simp add: req_handed_def req_started_def)
  have cn: "TxSdu (cfgp ?s) (ch_ActiveSduId (CanTp_Channel ?s c)) = conn" using w(2) cs cfg conn by simp
  have pc: "ch_PciId (CanTp_Channel ?s c) = pci" "pci \<noteq> CANTP_NPCI_CF" using w(3) cs pci by auto
  show "CanTp_SubState s' c = CANTP_IDLE \<and> ext s' = PduR_CanTpTxConfirmation S (tx_PduRPduHandleId conn) E_OK e" if "len \<le> n"
  proof -
    have r: "(if ch_SduLengthRemaining (CanTp_Channel ?s c) < n then 0 else ulen S (int (ch_SduLengthRemaining (CanTp_Channel ?s c)) - int n)) = 0"
      using that cs by (auto simp: ubits_def)
    have "ext ?s = e" by (simp add: req_handed_def)
    then show ?thesis unfolding conf TxConfirmation_data_def Let_def unfolding cn pc(1) pa(2) mx r
      using pc(2) by (simp add: CanTp_Prv_PduRConfirmation_def)
  qed
  show "tx_wait_fc S cfg t (len - n) 1 s' \<and> ext s' = e \<and> ch_STminTicks (CanTp_Channel s' c) = CANTP_INVALID_STMIN_TICKS S"
    if a: "n < len" and fc: "tx_fc_on S cfg t"
  proof -
    have "ulen S (int len - int n) = len - n" using a len by (simp add: ubits_diff)
    define s1 where "s1 = upd_ch c (\<lambda>ch. ch\<lparr>ch_InitialTicks := CanTp_MainFunctionTicks s, ch_SduLengthRemaining := len - n\<rparr>) ?s"
    have s1: "CanTp_Channel s1 c = (CanTp_Channel s c)\<lparr>ch_BlockCfsRemaining := 0, ch_SduLengthRemaining := len - n, ch_SN := 1,
      ch_TxBufferStatus := CANTP_BUFFER_NOT_ASKED, ch_InitialTicks := CanTp_MainFunctionTicks s\<rparr>"
      using cs by (simp add: s1_def)
    have "s' = set_conf i (CANTP_INVALID_CHANNEL S) (CanTp_Prv_PrepareFcRecieve S c s1)"
      unfolding conf TxConfirmation_data_def Let_def unfolding cn pc(1)
      using pc(2) a \<open>ulen S (int len - int n) = len - n\<close> by (simp add: cs pa(2) mx s1_def)
    moreover have "cfgp s1 = cfg" "ch_ActiveSduId (CanTp_Channel s1 c) = t" using s1 w(2) cfg by (simp_all add: s1_def cfgp_def)
    ultimately have "s' = set_conf i (CANTP_INVALID_CHANNEL S)
       (upd_ch c (ch_PciId_update (\<lambda>_. CANTP_NPCI_FC)) (set_sub c CANTP_TX_WAIT_FOR_FLOWCONTROL_FRAME s1))"
      using PrepareFcRecieve_on [OF _ _ fc, of s1 c] by simp
    then have f: "CanTp_Channel s' c = (CanTp_Channel s1 c)\<lparr>ch_PciId := CANTP_NPCI_FC\<rparr>" "CanTp_SubState s' c = CANTP_TX_WAIT_FOR_FLOWCONTROL_FRAME"
      "CanTp_TxConfirmationChannel s' i = CANTP_INVALID_CHANNEL S" "CanTp_CfgPtr s' = CanTp_CfgPtr s" "CanTp_MainState s' = CanTp_MainState s"
      "CanTp_MainFunctionTicks s' = CanTp_MainFunctionTicks s" "ext s' = e"
      by (simp_all add: s1_def req_handed_def req_started_def)
    show ?thesis unfolding tx_wait_fc_def conn [symmetric] c [symmetric] i [symmetric] Let_def cantp_on_def f s1
      using w len a by (simp add: cantp_on_def)
  qed
qed

text \<open>Flow-control frames of N-PDU \<open>P\<close> that start with \<open>adr\<close> belong to the transmission N-SDU \<open>t\<close>.\<close>

definition fc_path :: "CanTp_ConfigType \<Rightarrow> nat \<Rightarrow> nat \<Rightarrow> nat list \<Rightarrow> bool" where
  "fc_path cfg P t adr \<longleftrightarrow>
     (case rp_GetSduPair (RxPdu cfg P) of
        None \<Rightarrow> adr = [] \<and> rp_TxSduId (RxPdu cfg P) = t \<and> tx_AddressFormatId (TxSdu cfg t) = 0
      | Some f \<Rightarrow> length adr = 1 \<and> fst (f (rp_TxSduId (RxPdu cfg P)) (rp_RxSduId (RxPdu cfg P)) (hd adr)) = t \<and>
                  0 < tx_AddressFormatId (TxSdu cfg t) \<and> tx_AddressFormatId (TxSdu cfg t) \<le> 3)
     \<and> P < NumberOfRxPdus cfg \<and> t < NumberOfTxSdus cfg"

lemma fc_path_adr: "fc_path cfg P t adr \<Longrightarrow> length adr \<le> 1 \<and> CanTp_AddressSize (tx_AddressFormatId (TxSdu cfg t)) = length adr"
  using AddressSize_eq [of "tx_AddressFormatId (TxSdu cfg t)"] by (auto simp: fc_path_def split: option.splits)

definition fc_ctx :: "CanTp_ConfigType \<Rightarrow> nat \<Rightarrow> nat \<Rightarrow> nat list \<Rightarrow> CanTp_RxContextType" where
  "fc_ctx cfg P t adr =
     (rx_context0 P)\<lparr>rc_Address := (case adr of [] \<Rightarrow> 0 | a # _ \<Rightarrow> a), rc_FrameType := CANTP_FLOWCONTROL_FRAME, rc_SduId := t,
        rc_ChannelId := tx_ChannelId (TxSdu cfg t), rc_PduRPduHandleId := tx_PduRPduHandleId (TxSdu cfg t),
        rc_AddressSize := length adr,
        rc_IsPaddingOn := CanTp_Prv_GetBit (tx_BitFields (TxSdu cfg t)) CANTP_PADDINGON\<rparr>"

lemma GetRxContext_fc:
  assumes on: "cantp_on cfg s" and path: "fc_path cfg P t adr" and st: "CanTp_SubState s (tx_ChannelId (TxSdu cfg t)) = CANTP_TX_WAIT_FOR_FLOWCONTROL_FRAME"
    and b: "b div 16 = 3"
  shows "CanTp_Prv_GetRxContext S (rx_context0 P) (pdu_of (adr @ b # rest)) s = (CANTP_NO_ERROR, fc_ctx cfg P t adr)"
proof -
  have c: "cfgp s = cfg" using cantp_onD [OF on] by simp
  have sz: "CanTp_AddressSize (tx_AddressFormatId (TxSdu cfg t)) = length adr" and t: "t < NumberOfTxSdus cfg"
    using fc_path_adr [OF path] path by (simp_all add: fc_path_def)
  have ft: "drop_bit 4 b = 3" using b by (simp add: drop_bit_eq_div)
  show ?thesis
  proof (cases "rp_GetSduPair (RxPdu cfg P)")
    case None
    then have "adr = []" "rp_TxSduId (RxPdu cfg P) = t" using path by (auto simp: fc_path_def)
    with None t ft st sz show ?thesis
      by (simp add: CanTp_Prv_GetRxContext_def CanTp_Prv_GetFcActiveChannel_def c fc_ctx_def mem_of_def Let_def)
  next
    case (Some f)
    then obtain a where a: "adr = [a]" "fst (f (rp_TxSduId (RxPdu cfg P)) (rp_RxSduId (RxPdu cfg P)) a) = t"
      using path by (auto simp: fc_path_def length_Suc_conv)
    obtain r where "f (rp_TxSduId (RxPdu cfg P)) (rp_RxSduId (RxPdu cfg P)) a = (t, r)" using a(2) by (metis prod.collapse)
    with Some a t ft st sz show ?thesis
      by (simp add: CanTp_Prv_GetRxContext_def CanTp_Prv_GetFcActiveChannel_def c fc_ctx_def mem_of_def Let_def)
  qed
qed

lemma mem_of_Cons: "mem_of (x # xs) 0 = x" "mem_of (x # xs) (Suc i) = mem_of xs i"
  by (simp_all add: mem_of_def)

lemma fc_nibble: "fs \<le> 2 \<Longrightarrow> (48 OR fs) div 16 = (3::nat) \<and> (48 OR fs) AND 15 = fs"
proof -
  assume "fs \<le> 2"
  moreover have "\<forall>k\<in>set [0..<3]. (48 OR k) div 16 = (3::nat) \<and> (48 OR k) AND 15 = k" by code_simp
  ultimately show ?thesis by simp
qed

lemma Receive_fc:
  assumes on: "cantp_on cfg s" and path: "fc_path cfg P t adr" and st: "CanTp_SubState s (tx_ChannelId (TxSdu cfg t)) = CANTP_TX_WAIT_FOR_FLOWCONTROL_FRAME"
    and fs: "fs \<le> 2" and f: "f = fc_bytes S (tx_BitFields (TxSdu cfg t)) adr fs bs stm"
    and dlc: "CanTp_Cfg_DlcCheck S (length f) (length f) = E_OK"
  obtains ctx where "rc_ChannelId ctx = tx_ChannelId (TxSdu cfg t)" "rc_PduRPduHandleId ctx = tx_PduRPduHandleId (TxSdu cfg t)"
    "rc_FlowStatus ctx = fs" "mem_of f (rc_DataOffset ctx) = bs" "mem_of f (rc_DataOffset ctx + 1) = stm"
    "CanTp_Receive S P f s = CanTp_Prv_BurstMainFunction S (tx_ChannelId (TxSdu cfg t)) (CanTp_Prv_ProcessRxFlowControlFrame S ctx (mem_of f) s)"
proof -
  have adr: "length adr \<le> 1" using fc_path_adr [OF path] by simp
  obtain z where fr: "f = adr @ (48 OR fs) # bs # stm # z" using f by (simp add: fc_bytes_def frame_bytes_def)
  have len: "length f = (if CanTp_Prv_GetBit (tx_BitFields (TxSdu cfg t)) CANTP_PADDINGON then 8 else 3 + length adr)"
    using adr by (simp add: f fc_bytes_def frame_bytes_def)
  have m: "mem_of f (length adr + k) = mem_of ((48 OR fs) # bs # stm # z) k" for k
    unfolding fr by (rule mem_of_append)
  have m0: "mem_of f (length adr) = 48 OR fs" "mem_of f (Suc (length adr)) = bs" "mem_of f (Suc (Suc (length adr))) = stm"
    using m [of 0] m [of 1] m [of 2] by (simp_all add: mem_of_Cons numeral_2_eq_2)
  have u: "u8 (int (length adr) + 1) = Suc (length adr)" "u8 (3 + int (length adr)) = 3 + length adr"
    using u8_add [of "length adr" 1] u8_add [of 3 "length adr"] adr by simp_all
  let ?ctx = "(fc_ctx cfg P t adr)\<lparr>rc_FlowStatus := fs, rc_CAN_DL := length f, rc_DataOffset := Suc (length adr), rc_SduLength := 0\<rparr>"
  have chk: "CanTp_Prv_RxSduLengthCheck S (fc_ctx cfg P t adr) (mem_of f) (length f) s = (E_OK, ?ctx)"
    using dlc fc_nibble [OF fs] u len
    by (cases "CanTp_Prv_GetBit (tx_BitFields (TxSdu cfg t)) CANTP_PADDINGON")
      (simp_all add: CanTp_Prv_RxSduLengthCheck_def fc_ctx_def Let_def ubits_def m0)
  have "CanTp_Receive S P f s = CanTp_Prv_BurstMainFunction S (tx_ChannelId (TxSdu cfg t)) (CanTp_Prv_ProcessRxFlowControlFrame S ?ctx (mem_of f) s)"
    using dev_guard_rx [OF on, of P S] path GetRxContext_fc [OF on path st, of "48 OR fs" S "bs # stm # z", folded fr] fc_nibble [OF fs] chk
    by (simp add: CanTp_Receive_def CanTp_RxIndication_def Let_def fc_path_def CanTp_Prv_ProcessFrame_def fc_ctx_def)
  then show thesis by (intro that [of ?ctx]) (simp_all add: fc_ctx_def m0)
qed

text \<open>The separation time, in ticks, that a flow-control frame with \<^verbatim>\<open>STmin\<close> byte \<open>st\<close> asks for.\<close>

definition fc_stmin :: "'e CanTp_Sys \<Rightarrow> nat \<Rightarrow> nat" where
  "fc_stmin S st = ubits (TickBits S) (int (CanTp_Cfg_GetUsToTicks S
     (if st \<le> CANTP_MILLISEC_MAX_RANGE then st * 1000
      else if st < CANTP_MICROSEC_MIN_RANGE \<or> CANTP_MICROSEC_MAX_RANGE < st then 127000
      else (st AND CANTP_LOWERNIBBLE_MASK) * 100)))"

text \<open>The block size and separation time in force: none yet, or those of the peer's first flow-control frame.\<close>

definition fc_known :: "'e CanTp_Sys \<Rightarrow> nat \<Rightarrow> nat \<Rightarrow> CanTp_ChannelType \<Rightarrow> bool" where
  "fc_known S bs st ch \<longleftrightarrow> ch_STminTicks ch = CANTP_INVALID_STMIN_TICKS S \<or> (ch_BS ch = bs \<and> ch_STminTicks ch = fc_stmin S st)"

definition tx_ready :: "'e CanTp_Sys \<Rightarrow> CanTp_ConfigType \<Rightarrow> nat \<Rightarrow> nat \<Rightarrow> nat \<Rightarrow> 'e CanTp_GlobalType \<Rightarrow> bool" where
  "tx_ready S cfg t bs st s \<longleftrightarrow>
     (let Channel = CanTp_Channel s (tx_ChannelId (TxSdu cfg t)) in
      tx_sending S cfg t s \<and> ch_InitialTicks Channel = CanTp_MainFunctionTicks s \<and> ch_BS Channel = bs \<and> ch_STminTicks Channel = fc_stmin S st)"

lemma GetTxBlockCfs_ceil:
  assumes "cfgp s = cfg" "ch_ActiveSduId (CanTp_Channel s c) = t" "tx_path S cfg t dl" "p = dl - Suc (length (tx_adr cfg t))"
  shows "CanTp_Prv_GetTxBlockCfs S c s = ceil_div (ch_SduLengthRemaining (CanTp_Channel s c)) p" "0 < p"
proof -
  have pa: "tx_AddressFormatId (TxSdu cfg t) \<le> 3" "CanTp_Prv_GetTxDl S (TxSdu cfg t) = dl" "dl_ok S dl"
    using assms(3) by (auto simp: tx_path_def Let_def)
  note a = tx_adr_length [OF pa(1)]
  have d: "8 \<le> dl" "dl \<le> 64" using dl_ok_range [OF pa(3)] by auto
  show p0: "0 < p" using a d assms(4) by simp
  have u: "u8 (int dl - int CANTP_CF_PCISIZE - int (CanTp_AddressSize (tx_AddressFormatId (TxSdu cfg t)))) = p"
    using u8_diff2 [of 1 "CanTp_AddressSize (tx_AddressFormatId (TxSdu cfg t))" dl] a d assms(4) by simp
  show "CanTp_Prv_GetTxBlockCfs S c s = ceil_div (ch_SduLengthRemaining (CanTp_Channel s c)) p"
    unfolding CanTp_Prv_GetTxBlockCfs_def Let_def assms(1,2) pa(2) u by (rule ceil_div_code [OF p0])
qed

lemma fc_taken:
  assumes wait: "tx_wait_fc S cfg t rem sn s" and known: "fc_known S bs st (CanTp_Channel s c)"
    and path: "tx_path S cfg t dl" "fc_path cfg P t adr"
    and conn: "conn = TxSdu cfg t" and c: "c = tx_ChannelId conn"
    and d: "0 < d" "d < 2 ^ TickBits S" "d \<le> BsBrTicks (TimeOut cfg (tx_TimeOutId conn))"
    and dlc: "\<And>n. CanTp_Cfg_DlcCheck S n n = E_OK" and bs: "bs < 2 ^ PduLengthBits S"
    and s': "s' = CanTp_Receive S P (fc_bytes S (tx_BitFields conn) adr CANTP_FC_CTS bs st) ((CanTp_IncrementCounter S ^^ d) s)"
  shows "tx_ready S cfg t bs st s'" "ext s' = ext s" "ch_SduLengthRemaining (CanTp_Channel s' c) = rem" "ch_SN (CanTp_Channel s' c) = sn"
proof -
  let ?f = "fc_bytes S (tx_BitFields conn) adr CANTP_FC_CTS bs st"
  define w where "w = (CanTp_IncrementCounter S ^^ d) s"
  have s0: "cantp_on cfg s" "CanTp_SubState s c = CANTP_TX_WAIT_FOR_FLOWCONTROL_FRAME" "ch_ActiveSduId (CanTp_Channel s c) = t"
    "CanTp_TxConfirmationChannel s (tx_TxConfirmationId conn) = CANTP_INVALID_CHANNEL S" "ch_TxBufferStatus (CanTp_Channel s c) = CANTP_BUFFER_NOT_ASKED"
    "ch_SN (CanTp_Channel s c) = sn" "sn < 16" "ch_SduLengthRemaining (CanTp_Channel s c) = rem" "0 < rem" "rem < 2 ^ PduLengthBits S"
    "ch_InitialTicks (CanTp_Channel s c) = CanTp_MainFunctionTicks s"
    using wait conn c by (auto simp: tx_wait_fc_def Let_def)
  have ww: "CanTp_Channel w = CanTp_Channel s" "CanTp_SubState w = CanTp_SubState s" "ext w = ext s" "cantp_on cfg w"
    "CanTp_TxConfirmationChannel w = CanTp_TxConfirmationChannel s"
    using s0(1) d(1) by (simp_all add: w_def wait_ticks cantp_on_def)
  have cfg: "cfgp w = cfg" using cantp_onD [OF ww(4)] by simp
  have el: "snd (CanTp_GetElapsedValue S (ch_InitialTicks (CanTp_Channel w c)) w) = d"
    unfolding ww(1) by (rule wait_elapsed [OF d(1,2) s0(11), folded w_def])
  obtain ctx where x: "rc_ChannelId ctx = c" "rc_PduRPduHandleId ctx = tx_PduRPduHandleId conn" "rc_FlowStatus ctx = CANTP_FC_CTS"
    "mem_of ?f (rc_DataOffset ctx) = bs" "mem_of ?f (rc_DataOffset ctx + 1) = st"
    "CanTp_Receive S P ?f w = CanTp_Prv_BurstMainFunction S c (CanTp_Prv_ProcessRxFlowControlFrame S ctx (mem_of ?f) w)"
    by (rule Receive_fc [OF ww(4) path(2), of 0 ?f S bs st]) (use s0(2) ww(2) conn c dlc in simp_all)
  have nb: "\<not> CANTP_TX_BURST_MODE S" using path(1) by (simp add: tx_path_def Let_def)
  define s1 where "s1 = upd_ch c (\<lambda>ch. ch\<lparr>ch_InitialTicks := CanTp_MainFunctionTicks w, ch_FlowStatus := CANTP_FC_CTS\<rparr>) w"
  define s2 where "s2 = (if CANTP_DYNAMIC_FC_SUPPORT S \<or> ch_STminTicks (CanTp_Channel s c) = CANTP_INVALID_STMIN_TICKS S
       then upd_ch c (\<lambda>ch. ch\<lparr>ch_BS := bs, ch_STminTicks := fc_stmin S st\<rparr>) s1 else s1)"
  have st1: "ch_STminTicks (CanTp_Channel s1 c) = ch_STminTicks (CanTp_Channel s c)" by (simp add: s1_def ww(1))
  have s2: "ch_BS (CanTp_Channel s2 c) = bs" "ch_STminTicks (CanTp_Channel s2 c) = fc_stmin S st"
    using known by (auto simp: s2_def s1_def fc_known_def ww(1))
  have keep: "cfgp s2 = cfg" "ch_ActiveSduId (CanTp_Channel s2 c) = t" "ch_SduLengthRemaining (CanTp_Channel s2 c) = rem"
    using cfg s0 ww(1) by (simp_all add: s2_def s1_def cfgp_def)
  define p where "p = dl - Suc (length (tx_adr cfg t))"
  note blk = GetTxBlockCfs_ceil [OF keep(1,2) path(1) p_def, unfolded keep(3)]
  define B where "B = (if bs = 0 \<or> ceil_div rem p < bs then ceil_div rem p else bs)"
  have b: "0 < B" "B < 2 ^ PduLengthBits S"
    using ceil_div_pos [OF blk(2) s0(9)] ceil_div_le [OF blk(2), of rem] s0(10) bs by (auto simp: B_def)
  define D where "D = mem_of ?f"
  have blkinfo: "CanTp_Prv_SetTxBlockInfo S ctx D s1 = upd_ch c (ch_BlockCfsRemaining_update (\<lambda>_. B)) s2"
    unfolding CanTp_Prv_SetTxBlockInfo_def Let_def D_def x(1,4,5) st1 fc_stmin_def [symmetric] s2_def [symmetric] blk(1) s2(1) B_def ..
  have el': "ubits (TickBits S) (int (CanTp_MainFunctionTicks w) - int (ch_InitialTicks (CanTp_Channel w c))) = d"
    using el by (simp add: CanTp_GetElapsedValue_def Let_def)
  have act: "CanTp_SubState w c = CANTP_TX_WAIT_FOR_FLOWCONTROL_FRAME" "TxSdu cfg (ch_ActiveSduId (CanTp_Channel w c)) = conn"
    using s0(2,3) ww(1,2) conn by simp_all
  have "CanTp_Prv_ProcessRxFlowControlFrame S ctx D w = set_sub c CANTP_TX_SEND_CONSECUTIVE_FRAME (CanTp_Prv_SetTxBlockInfo S ctx D s1)"
    unfolding CanTp_Prv_ProcessRxFlowControlFrame_def CanTp_GetElapsedValue_def Let_def case_prod_conv x(1-3) act el' cfg
    using d(3) act by (simp add: s1_def)
  then have t: "s' = set_sub c CANTP_TX_SEND_CONSECUTIVE_FRAME (upd_ch c (ch_BlockCfsRemaining_update (\<lambda>_. B)) s2)"
    using s' x(6) nb unfolding w_def [symmetric] D_def [symmetric] blkinfo by (simp add: CanTp_Prv_BurstMainFunction_def)
  have s2': "CanTp_Channel s2 c = (CanTp_Channel s c)\<lparr>ch_InitialTicks := CanTp_MainFunctionTicks w, ch_FlowStatus := CANTP_FC_CTS,
       ch_BS := bs, ch_STminTicks := fc_stmin S st\<rparr>"
    "CanTp_CfgPtr s2 = CanTp_CfgPtr w" "CanTp_MainState s2 = CanTp_MainState w" "CanTp_TxConfirmationChannel s2 = CanTp_TxConfirmationChannel w"
    "CanTp_MainFunctionTicks s2 = CanTp_MainFunctionTicks w" "ext s2 = ext w"
    using s2 by (simp_all add: s2_def s1_def ww(1) split: if_splits)
  have f: "CanTp_Channel s' c = (CanTp_Channel s c)\<lparr>ch_InitialTicks := CanTp_MainFunctionTicks w, ch_FlowStatus := CANTP_FC_CTS,
       ch_BS := bs, ch_STminTicks := fc_stmin S st, ch_BlockCfsRemaining := B\<rparr>"
    "CanTp_CfgPtr s' = CanTp_CfgPtr w" "CanTp_MainState s' = CanTp_MainState w" "CanTp_TxConfirmationChannel s' = CanTp_TxConfirmationChannel s"
    "CanTp_MainFunctionTicks s' = CanTp_MainFunctionTicks w" "ext s' = ext s" "CanTp_SubState s' c = CANTP_TX_SEND_CONSECUTIVE_FRAME"
    using s2' ww by (simp_all add: t)
  show "tx_ready S cfg t bs st s'"
    unfolding tx_ready_def tx_sending_def conn [symmetric] c [symmetric] Let_def cantp_on_def f
    using s0 b ww(4) by (simp add: cantp_on_def)
  show "ext s' = ext s" "ch_SduLengthRemaining (CanTp_Channel s' c) = rem" "ch_SN (CanTp_Channel s' c) = sn"
    using s0(6,8) by (simp_all add: f)
qed

lemma cf_block_end:
  assumes path: "tx_path S cfg t dl" and snd: "tx_sending S cfg t s" and conn: "conn = TxSdu cfg t"
    and c: "c = tx_ChannelId conn" and i: "i = tx_TxConfirmationId conn" and p: "p = dl - Suc (length (tx_adr cfg t))"
    and more: "p < ch_SduLengthRemaining (CanTp_Channel s c)" and last: "ch_BlockCfsRemaining (CanTp_Channel s c) = 1" and fc: "tx_fc_on S cfg t"
    and s': "s' = CanTp_TxConfirmation S i (cf_handed c i e s)"
  shows "tx_wait_fc S cfg t (ch_SduLengthRemaining (CanTp_Channel s c) - p) (Suc (ch_SN (CanTp_Channel s c)) mod 16) s' \<and> ext s' = e \<and>
     ch_BS (CanTp_Channel s' c) = ch_BS (CanTp_Channel s c) \<and> ch_STminTicks (CanTp_Channel s' c) = ch_STminTicks (CanTp_Channel s c)"
proof -
  let ?ch = "CanTp_Channel s c" and ?s = "cf_handed c i e s"
  have w: "cantp_on cfg s" "ch_ActiveSduId ?ch = t" "ch_SN ?ch < 16" "ch_SduLengthRemaining ?ch < 2 ^ PduLengthBits S"
    using snd conn c by (auto simp: tx_sending_def Let_def)
  have pa: "tx_AddressFormatId conn \<le> 3" "CanTp_Prv_GetTxDl S conn = dl" "dl_ok S dl" using path conn by (auto simp: tx_path_def Let_def)
  have adr: "length (tx_adr cfg t) = CanTp_AddressSize (tx_AddressFormatId conn)" "length (tx_adr cfg t) \<le> 1"
    using tx_adr_length [of cfg t] pa(1) conn by auto
  have cfg: "cfgp ?s = cfg" using cantp_onD [OF w(1)] by (simp add: cf_handed_def cfgp_def)
  have conf: "s' = TxConfirmation_data S i c (CanTp_MainFunctionTicks s) ?s"
    using TxConfirmation_waiting [OF _ path, of ?s i c] w(1) conn c i s' by (simp add: cf_handed_def cantp_on_def)
  have mx: "u8 (int dl - int (CanTp_AddressSize (tx_AddressFormatId conn)) - int (CanTp_PciSize CANTP_NPCI_CF)) = p"
    using u8_diff2 [of "CanTp_AddressSize (tx_AddressFormatId conn)" 1 dl] adr dl_ok_range [OF pa(3)] p
    by (simp add: CanTp_PciSize_def)
  have cs: "CanTp_Channel ?s c = ?ch\<lparr>ch_PciId := CANTP_NPCI_CF, ch_InitialTicks := CanTp_MainFunctionTicks s,
                ch_TxBufferStatus := CANTP_BUFFER_NOT_ASKED\<rparr>" by (simp add: cf_handed_def)
  have cn: "TxSdu (cfgp ?s) (ch_ActiveSduId (CanTp_Channel ?s c)) = conn" "ch_PciId (CanTp_Channel ?s c) = CANTP_NPCI_CF"
    using w(2) cs cfg conn by simp_all
  have r: "(if ch_SduLengthRemaining (CanTp_Channel ?s c) < p then 0 else ulen S (int (ch_SduLengthRemaining (CanTp_Channel ?s c)) - int p))
      = ch_SduLengthRemaining ?ch - p"
    using more w(4) cs by (simp add: ubits_diff)
  define s1 where "s1 = upd_ch c (\<lambda>ch. ch\<lparr>ch_InitialTicks := CanTp_MainFunctionTicks s, ch_SduLengthRemaining := ch_SduLengthRemaining ?ch - p,
      ch_SN := u8 (int (ch_SN ch) + 1) AND CANTP_LOWERNIBBLE_MASK, ch_BlockCfsRemaining := ulen S (int (ch_BlockCfsRemaining ch) - 1)\<rparr>) ?s"
  have s1: "CanTp_Channel s1 c = ?ch\<lparr>ch_PciId := CANTP_NPCI_CF, ch_TxBufferStatus := CANTP_BUFFER_NOT_ASKED, ch_InitialTicks := CanTp_MainFunctionTicks s,
      ch_SduLengthRemaining := ch_SduLengthRemaining ?ch - p, ch_SN := Suc (ch_SN ?ch) mod 16, ch_BlockCfsRemaining := 0\<rparr>"
    using mod16_next [OF w(3)] cs last by (simp add: s1_def ubits_def)
  have "s' = set_conf i (CANTP_INVALID_CHANNEL S) (CanTp_Prv_PrepareFcRecieve S c s1)"
    unfolding conf TxConfirmation_data_def Let_def unfolding cn pa(2) mx r
    using more s1 by (simp add: s1_def)
  moreover have "cfgp s1 = cfg" "ch_ActiveSduId (CanTp_Channel s1 c) = t" using s1 w(2) cfg by (simp_all add: s1_def cfgp_def)
  ultimately have "s' = set_conf i (CANTP_INVALID_CHANNEL S)
     (upd_ch c (ch_PciId_update (\<lambda>_. CANTP_NPCI_FC)) (set_sub c CANTP_TX_WAIT_FOR_FLOWCONTROL_FRAME s1))"
    using PrepareFcRecieve_on [OF _ _ fc, of s1 c] by simp
  then have f: "CanTp_Channel s' c = (CanTp_Channel s1 c)\<lparr>ch_PciId := CANTP_NPCI_FC\<rparr>" "CanTp_SubState s' c = CANTP_TX_WAIT_FOR_FLOWCONTROL_FRAME"
    "CanTp_TxConfirmationChannel s' i = CANTP_INVALID_CHANNEL S" "CanTp_CfgPtr s' = CanTp_CfgPtr s" "CanTp_MainState s' = CanTp_MainState s"
    "CanTp_MainFunctionTicks s' = CanTp_MainFunctionTicks s" "ext s' = e"
    by (simp_all add: s1_def cf_handed_def)
  show ?thesis unfolding tx_wait_fc_def conn [symmetric] c [symmetric] i [symmetric] Let_def cantp_on_def f s1
    using w more by (simp add: cantp_on_def)
qed

subsection \<open>The frames of a whole message\<close>

text \<open>
  One turn of a transmission: a round, and when the channel then waits for flow control, the
  flow-control frame \<open>fc\<close> of the peer, \<open>d\<close> ticks later.
\<close>

definition tx_turn :: "'e CanTp_Sys \<Rightarrow> nat \<Rightarrow> nat \<Rightarrow> nat \<Rightarrow> nat \<Rightarrow> nat list \<Rightarrow> 'e CanTp_GlobalType \<Rightarrow> 'e CanTp_GlobalType" where
  "tx_turn S P c i d fc s =
     (let s1 = tx_round S c i d s in
      if CanTp_SubState s1 c = CANTP_TX_WAIT_FOR_FLOWCONTROL_FRAME
      then CanTp_Receive S P fc ((CanTp_IncrementCounter S ^^ d) s1) else s1)"

text \<open>The first frame of a message: a single frame with all of it, or a first frame with what fits.\<close>

definition first_len :: "'e CanTp_Sys \<Rightarrow> nat list \<Rightarrow> nat \<Rightarrow> nat \<Rightarrow> nat" where
  "first_len S adr dl len = (if pci_for S adr dl len \<le> 1 then len else dl - (length adr + CanTp_PciSize (pci_for S adr dl len)))"

definition first_bytes :: "'e CanTp_Sys \<Rightarrow> nat \<Rightarrow> nat list \<Rightarrow> nat \<Rightarrow> nat list \<Rightarrow> nat list" where
  "first_bytes S bf adr dl xs =
     (let pci = pci_for S adr dl (length xs) in
      if pci \<le> 1
      then frame_bytes S (adr @ sf_pci pci (length xs)) xs (padded_len S bf (length adr + CanTp_PciSize pci + length xs))
      else frame_bytes S (adr @ ff_pci pci (length xs)) (take (first_len S adr dl (length xs)) xs) dl)"

text \<open>All frames of a message.\<close>

definition tx_frames :: "'e CanTp_Sys \<Rightarrow> nat \<Rightarrow> nat list \<Rightarrow> nat \<Rightarrow> nat list \<Rightarrow> nat list list" where
  "tx_frames S bf adr dl xs =
     first_bytes S bf adr dl xs # segment S bf adr dl 1 (drop (first_len S adr dl (length xs)) xs)"

lemma first_bounds:
  assumes "dl_ok S dl" "length adr \<le> 1" "0 < len" "len \<le> tx_len_max dl"
  shows "first_len S adr dl len \<le> len" "pci_for S adr dl len \<le> 3" "len \<le> 65535"
    "pci_for S adr dl len \<le> 1 \<Longrightarrow> first_len S adr dl len = len \<and>
       (pci_for S adr dl len = 0 \<or> (pci_for S adr dl len = 1 \<and> CANTP_CANFD_SUPPORT S)) \<and>
       length adr + CanTp_PciSize (pci_for S adr dl len) + len \<le> (if pci_for S adr dl len = 0 then 8 else 64) \<and>
       length adr + CanTp_PciSize (pci_for S adr dl len) + len \<le> dl"
    "\<not> pci_for S adr dl len \<le> 1 \<Longrightarrow> first_len S adr dl len = dl - (length adr + CanTp_PciSize (pci_for S adr dl len)) \<and>
       first_len S adr dl len < len \<and>
       (pci_for S adr dl len = 2 \<or> (pci_for S adr dl len = 3 \<and> CANTP_CANFD_SUPPORT S)) \<and> len \<le> (if pci_for S adr dl len = 2 then 4095 else 4294967295)"
  using assms dl_ok_range [OF assms(1)] dl_ok_cases [OF assms(1)]
  by (auto simp: first_len_def pci_for_def tx_len_max_def CanTp_PciSize_def split: if_splits)

lemma first_bytes_sf:
  assumes "dl_ok S dl" "length adr \<le> 1" "0 < length xs" "length xs \<le> tx_len_max dl" "pci_for S adr dl (length xs) \<le> 1"
  shows "length (first_bytes S bf adr dl xs) = padded_len S bf (length adr + CanTp_PciSize (pci_for S adr dl (length xs)) + length xs)"
    "first_bytes S bf adr dl xs = frame_bytes S (adr @ sf_pci (pci_for S adr dl (length xs)) (length xs)) xs (length (first_bytes S bf adr dl xs))"
    "length (first_bytes S bf adr dl xs) \<le> 64"
proof -
  let ?k = "length adr + CanTp_PciSize (pci_for S adr dl (length xs)) + length xs"
  note b = first_bounds(4) [OF assms(1-4) assms(5)]
  have "?k \<le> 64 \<and> (CANTP_CANFD_SUPPORT S \<or> ?k \<le> 8)" using b by (auto split: if_splits)
  then have p: "?k \<le> padded_len S bf ?k" "padded_len S bf ?k \<le> 64" using padded_len_ge [of ?k S bf] by auto
  show l: "length (first_bytes S bf adr dl xs) = padded_len S bf ?k"
    using assms(5) b p length_pci(1) [of "pci_for S adr dl (length xs)" "length xs"] by (auto simp: first_bytes_def Let_def length_frame_bytes)
  show "first_bytes S bf adr dl xs = frame_bytes S (adr @ sf_pci (pci_for S adr dl (length xs)) (length xs)) xs (length (first_bytes S bf adr dl xs))"
    unfolding l using assms(5) by (simp add: first_bytes_def Let_def)
  show "length (first_bytes S bf adr dl xs) \<le> 64" unfolding l by (rule p(2))
qed

lemma first_bytes_ff:
  assumes "dl_ok S dl" "length adr \<le> 1" "0 < length xs" "length xs \<le> tx_len_max dl" "\<not> pci_for S adr dl (length xs) \<le> 1"
  shows "length (first_bytes S bf adr dl xs) = dl"
    "first_bytes S bf adr dl xs = frame_bytes S (adr @ ff_pci (pci_for S adr dl (length xs)) (length xs)) (take (first_len S adr dl (length xs)) xs) dl"
proof -
  note b = first_bounds(5) [OF assms(1-4) assms(5)]
  show e: "first_bytes S bf adr dl xs = frame_bytes S (adr @ ff_pci (pci_for S adr dl (length xs)) (length xs)) (take (first_len S adr dl (length xs)) xs) dl"
    using assms(5) by (simp add: first_bytes_def Let_def)
  have "length adr + CanTp_PciSize (pci_for S adr dl (length xs)) \<le> dl"
    using dl_ok_range [OF assms(1)] PciSize_le [of "pci_for S adr dl (length xs)"] first_bounds(2) [OF assms(1-4)] assms(2) by linarith
  then show "length (first_bytes S bf adr dl xs) = dl"
    unfolding e using b length_pci(2) [of "pci_for S adr dl (length xs)" "length xs"] by (auto simp: length_frame_bytes)
qed

lemma first_bytes_len:
  assumes "dl_ok S dl" "length adr \<le> 1" "0 < length xs" "length xs \<le> tx_len_max dl"
  shows "length (first_bytes S bf adr dl xs) \<le> 64"
  using first_bytes_sf(3) [OF assms] first_bytes_ff(1) [OF assms] dl_ok_range [OF assms(1)]
  by (cases "pci_for S adr dl (length xs) \<le> 1") auto

context tp_source
begin

lemma tx_next:
  assumes S: "PduR_CanTpCopyTxData S (tx_PduRPduHandleId conn) = copy" "CanIf_TransmitFn S (tx_TxPduId conn) = transmit"
    and path: "tx_path S cfg t dl" "fc_path cfg P t adr" "tx_fc_on S cfg t"
    and conn: "conn = TxSdu cfg t" and c: "c = tx_ChannelId conn" and i: "i = tx_TxConfirmationId conn"
    and p: "p = dl - Suc (length (tx_adr cfg t))"
    and d: "0 < d" "d < 2 ^ TickBits S" "d < CsCrTicks (TimeOut cfg (tx_TimeOutId conn))" "d \<le> BsBrTicks (TimeOut cfg (tx_TimeOutId conn))"
    and dlc: "\<And>n. CanTp_Cfg_DlcCheck S n n = E_OK" and bs: "bs < 2 ^ PduLengthBits S" "fc_stmin S st \<le> d"
    and rdy: "tx_ready S cfg t bs st s"
    and up: "live (ext s)" "pending (ext s) = xs" "length xs = ch_SduLengthRemaining (CanTp_Channel s c)" "xs \<noteq> []"
    and f: "f = cf_bytes S (tx_BitFields conn) (tx_adr cfg t) dl (ch_SN (CanTp_Channel s c)) (take p xs)"
    and s': "s' = tx_turn S P c i d (fc_bytes S (tx_BitFields conn) adr CANTP_FC_CTS bs st) s"
  shows "\<exists>e. live e \<and> pending e = drop p xs \<and> sent e = sent (ext s) @ [f] \<and>
     (if length xs \<le> p
      then ext s' = PduR_CanTpTxConfirmation S (tx_PduRPduHandleId conn) E_OK e \<and> CanTp_SubState s' c = CANTP_IDLE
      else ext s' = e \<and> tx_ready S cfg t bs st s' \<and> ch_SN (CanTp_Channel s' c) = Suc (ch_SN (CanTp_Channel s c)) mod 16 \<and>
           ch_SduLengthRemaining (CanTp_Channel s' c) = length (drop p xs))"
proof -
  let ?w = "(CanTp_IncrementCounter S ^^ d) s"
  have r: "tx_sending S cfg t s" "ch_InitialTicks (CanTp_Channel s c) = CanTp_MainFunctionTicks s" "ch_BS (CanTp_Channel s c) = bs"
    "ch_STminTicks (CanTp_Channel s c) = fc_stmin S st" using rdy conn c by (auto simp: tx_ready_def Let_def)
  have w: "CanTp_Channel ?w = CanTp_Channel s" "ext ?w = ext s" "tx_sending S cfg t ?w"
    using r(1) d(1) by (auto simp: wait_ticks tx_sending_def Let_def cantp_on_def)
  have due: "tx_due S cfg t ?w"
    using d bs(2) r(4) wait_elapsed [OF d(1,2) r(2)] conn c by (simp add: tx_due_def Let_def w(1))
  obtain e where e: "live e" "pending e = drop p xs" "sent e = sent (ext s) @ [f]" and ex: "CanTp_Prv_ExecuteState S c ?w = cf_handed c i e ?w"
    using cf_transmitted [OF S path(1) w(3) due conn c, of xs p thesis] up p i f unfolding w(1,2) by auto
  note conf = cf_confirmed [OF path(1) w(3) conn c i p, of e, unfolded w(1)]
  have rnd: "tx_round S c i d s = CanTp_TxConfirmation S i (cf_handed c i e ?w)" unfolding tx_round_def ex ..
  show ?thesis
  proof (cases "length xs \<le> p")
    case True
    then have "CanTp_SubState (tx_round S c i d s) c = CANTP_IDLE \<and>
       ext (tx_round S c i d s) = PduR_CanTpTxConfirmation S (tx_PduRPduHandleId conn) E_OK e"
      unfolding rnd using conf(1) up(3) by simp
    moreover from this have "s' = tx_round S c i d s" using s' by (simp add: tx_turn_def Let_def)
    ultimately show ?thesis using True e by auto
  next
    case False
    then have more: "p < ch_SduLengthRemaining (CanTp_Channel s c)" using up(3) by simp
    show ?thesis
    proof (cases "1 < ch_BlockCfsRemaining (CanTp_Channel s c)")
      case True
      have n: "tx_round S c i d s = cf_next c i p S e ?w" unfolding rnd using conf(2) more True by simp
      have "tx_sending S cfg t (cf_next c i p S e ?w)" using sending_step [OF w(3) conn c i] True w(1) by simp
      moreover have "s' = cf_next c i p S e ?w" using s' n by (simp add: tx_turn_def Let_def cf_next_def)
      ultimately show ?thesis using False e r up(3) conn c
        by (intro exI [of _ e]) (simp add: tx_ready_def Let_def w(1), simp add: cf_next_def w(1))
    next
      case False
      then have one: "ch_BlockCfsRemaining (CanTp_Channel ?w c) = 1" using r(1) conn c w(1) by (auto simp: tx_sending_def Let_def)
      define s1 where "s1 = tx_round S c i d s"
      have b: "tx_wait_fc S cfg t (length (drop p xs)) (Suc (ch_SN (CanTp_Channel s c)) mod 16) s1" "ext s1 = e"
        "ch_BS (CanTp_Channel s1 c) = bs" "ch_STminTicks (CanTp_Channel s1 c) = fc_stmin S st"
        using cf_block_end [OF path(1) w(3) conn c i p _ one path(3), of s1 e] more up(3) r by (simp_all add: w(1) s1_def rnd)
      have s1': "s' = CanTp_Receive S P (fc_bytes S (tx_BitFields conn) adr CANTP_FC_CTS bs st) ((CanTp_IncrementCounter S ^^ d) s1)"
        unfolding s' tx_turn_def s1_def [symmetric] Let_def using b(1) conn c by (simp add: tx_wait_fc_def Let_def)
      have "fc_known S bs st (CanTp_Channel s1 c)" using b(3,4) by (simp add: fc_known_def)
      from fc_taken [OF b(1) this path(1,2) conn c d(1,2,4) dlc bs(1) s1'] b(2) e more up(3) show ?thesis
        by (intro exI [of _ e]) simp
    qed
  qed
qed

lemma tx_rest:
  assumes S: "PduR_CanTpCopyTxData S (tx_PduRPduHandleId conn) = copy" "CanIf_TransmitFn S (tx_TxPduId conn) = transmit"
    and path: "tx_path S cfg t dl" "fc_path cfg P t adr" "tx_fc_on S cfg t"
    and conn: "conn = TxSdu cfg t" and c: "c = tx_ChannelId conn" and i: "i = tx_TxConfirmationId conn"
    and p: "p = dl - Suc (length (tx_adr cfg t))"
    and d: "0 < d" "d < 2 ^ TickBits S" "d < CsCrTicks (TimeOut cfg (tx_TimeOutId conn))" "d \<le> BsBrTicks (TimeOut cfg (tx_TimeOutId conn))"
    and dlc: "\<And>n. CanTp_Cfg_DlcCheck S n n = E_OK" and bs: "bs < 2 ^ PduLengthBits S" "fc_stmin S st \<le> d"
  shows "tx_ready S cfg t bs st s \<Longrightarrow> live (ext s) \<Longrightarrow> pending (ext s) = xs \<Longrightarrow> length xs = ch_SduLengthRemaining (CanTp_Channel s c) \<Longrightarrow>
     xs \<noteq> [] \<Longrightarrow> s' = (tx_turn S P c i d (fc_bytes S (tx_BitFields conn) adr CANTP_FC_CTS bs st) ^^ ceil_div (length xs) p) s \<Longrightarrow>
     \<exists>e. live e \<and> pending e = [] \<and>
       sent e = sent (ext s) @ segment S (tx_BitFields conn) (tx_adr cfg t) dl (ch_SN (CanTp_Channel s c)) xs \<and>
       ext s' = PduR_CanTpTxConfirmation S (tx_PduRPduHandleId conn) E_OK e \<and> CanTp_SubState s' c = CANTP_IDLE"
proof (induction xs arbitrary: s rule: length_induct)
  case (1 xs)
  let ?turn = "tx_turn S P c i d (fc_bytes S (tx_BitFields conn) adr CANTP_FC_CTS bs st)"
  have p0: "0 < p" using p tx_adr_length [of cfg t] path(1) dl_ok_range [of S dl] by (auto simp: tx_path_def Let_def)
  note seg = segment_Cons [OF 1(6) p0 [unfolded p], of S "tx_BitFields conn" "ch_SN (CanTp_Channel s c)", folded p]
  obtain e where e: "live e" "pending e = drop p xs"
      "sent e = sent (ext s) @ [cf_bytes S (tx_BitFields conn) (tx_adr cfg t) dl (ch_SN (CanTp_Channel s c)) (take p xs)]"
    and step: "if length xs \<le> p
      then ext (?turn s) = PduR_CanTpTxConfirmation S (tx_PduRPduHandleId conn) E_OK e \<and> CanTp_SubState (?turn s) c = CANTP_IDLE
      else ext (?turn s) = e \<and> tx_ready S cfg t bs st (?turn s) \<and> ch_SN (CanTp_Channel (?turn s) c) = Suc (ch_SN (CanTp_Channel s c)) mod 16 \<and>
           ch_SduLengthRemaining (CanTp_Channel (?turn s) c) = length (drop p xs)"
    using tx_next [OF S path conn c i p d dlc bs 1(2-6) refl refl] by blast
  show ?case
  proof (cases "length xs \<le> p")
    case True
    then have "ceil_div (length xs) p = 1" using 1(6) by (intro ceil_div_small) auto
    then show ?thesis using True step e seg 1(7) by (intro exI [of _ e]) simp
  next
    case False
    define s1 where "s1 = ?turn s"
    have more: "ceil_div (length xs) p = Suc (ceil_div (length (drop p xs)) p)" using False p0 by (simp add: ceil_div_step)
    have s1: "ext s1 = e" "tx_ready S cfg t bs st s1" "ch_SN (CanTp_Channel s1 c) = Suc (ch_SN (CanTp_Channel s c)) mod 16"
      "length (drop p xs) = ch_SduLengthRemaining (CanTp_Channel s1 c)" using step False by (simp_all add: s1_def)
    have d1: "length (drop p xs) < length xs" "drop p xs \<noteq> []" using False p0 by auto
    have f: "s' = (?turn ^^ ceil_div (length (drop p xs)) p) s1" using 1(7) more by (simp add: funpow_swap1 s1_def)
    obtain e' where "live e'" "pending e' = []"
      "sent e' = sent (ext s1) @ segment S (tx_BitFields conn) (tx_adr cfg t) dl (ch_SN (CanTp_Channel s1 c)) (drop p xs)"
      "ext s' = PduR_CanTpTxConfirmation S (tx_PduRPduHandleId conn) E_OK e'" "CanTp_SubState s' c = CANTP_IDLE"
      using 1(1) [rule_format, OF d1(1) s1(2) _ _ s1(4) d1(2) f] e(1,2) s1(1) by auto
    then show ?thesis using e(3) seg s1(1,3) by (intro exI [of _ e']) simp
  qed
qed

lemma request_transmitted:
  assumes S: "PduR_CanTpCopyTxData S (tx_PduRPduHandleId conn) = copy" "CanIf_TransmitFn S (tx_TxPduId conn) = transmit"
    and path: "tx_path S cfg t dl" and w: "7 \<le> PduLengthBits S"
    and conn: "conn = TxSdu cfg t" and c: "c = tx_ChannelId conn" and i: "i = tx_TxConfirmationId conn"
    and d: "0 < d" "d < 2 ^ TickBits S" "d < CsCrTicks (TimeOut cfg (tx_TimeOutId conn))"
    and req: "tx_requested S cfg t pci (length xs) s" "ch_InitialTicks (CanTp_Channel s c) = CanTp_MainFunctionTicks s"
    and up: "live (ext s)" "pending (ext s) = xs" "0 < length xs" "length xs \<le> tx_len_max dl"
    and pci: "pci = pci_for S (tx_adr cfg t) dl (length xs)"
    and f: "f = first_bytes S (tx_BitFields conn) (tx_adr cfg t) dl xs" and n: "n = first_len S (tx_adr cfg t) dl (length xs)"
    and s1: "s1 = (CanTp_IncrementCounter S ^^ d) s"
  shows "\<exists>e. live e \<and> pending e = drop n xs \<and> sent e = sent (ext s) @ [f] \<and> CanTp_Prv_ExecuteState S c s1 = req_handed c i e s1"
proof -
  let ?adr = "tx_adr cfg t" and ?s2 = "req_started c s1"
  have pa: "tx_AddressFormatId conn \<le> 3" "CanTp_Prv_GetTxDl S conn = dl" "dl_ok S dl"
    using path conn by (auto simp: tx_path_def Let_def)
  have adr: "length ?adr = CanTp_AddressSize (tx_AddressFormatId conn)" "length ?adr \<le> 1" "?adr = addr_bytes (tx_AddressFormatId conn) (tx_Address conn)"
    using tx_adr_length [of cfg t] pa(1) conn by (auto simp: tx_adr_def)
  note b = first_bounds [OF pa(3) adr(2) up(3,4), folded pci n]
  have w1: "CanTp_Channel s1 = CanTp_Channel s" "ext s1 = ext s" "tx_requested S cfg t pci (length xs) s1"
    using req(1) d(1) by (auto simp: s1 wait_ticks tx_requested_def Let_def cantp_on_def)
  have rq: "cantp_on cfg s1" "ch_ActiveSduId (CanTp_Channel s1 c) = t" "ch_PciId (CanTp_Channel s1 c) = pci" "ch_SduLength (CanTp_Channel s1 c) = length xs"
    using w1(3) conn c by (auto simp: tx_requested_def Let_def)
  have st: "CanTp_SubState ?s2 c = CANTP_TX_WAIT_FOR_TRANSMIT_CONFIRMATION" "conn = tx_conn c ?s2" "pci = ch_PciId (CanTp_Channel ?s2 c)"
    "ch_SduLengthRemaining (CanTp_Channel ?s2 c) = length xs" "ch_SduLength (CanTp_Channel ?s2 c) = length xs" "ext ?s2 = ext s"
    using rq w1(2) conn cantp_onD [OF rq(1)] by (simp_all add: req_started_def cfgp_def)
  have el: "snd (CanTp_GetElapsedValue S (ch_InitialTicks (CanTp_Channel s1 c)) s1) < CsCrTicks (TimeOut cfg (tx_TimeOutId conn))"
    using wait_elapsed [OF d(1,2) req(2), folded s1] d(3) unfolding w1(1) by simp
  obtain e1 where e1: "copy n True (ext s) = (BUFREQ_OK, take n xs, length xs - n, e1)" "live e1" "pending e1 = drop n xs" "sent e1 = sent (ext s)"
    using fetch [OF up(1), of n] up(2) b(1) by auto
  obtain e where e: "transmit (Some f) (length f) e1 = (E_OK, e)" "live e" "pending e = pending e1" "sent e = sent e1 @ [f]"
    using accept [OF e1(2), of f] first_bytes_len [OF pa(3) adr(2) up(3,4)] f by auto
  have cp: "PduR_CanTpCopyTxData S (tx_PduRPduHandleId conn) n True (ext ?s2) = (BUFREQ_OK, take n xs, length xs - n, e1)" "length (take n xs) = n"
    using S(1) e1(1) st(6) b(1) by auto
  have cr: "\<exists>m. CanTp_Prv_CreateFrame S c (uninit S) dl ?s2 = (E_OK, m, length f, ?s2\<lparr>ext := e1\<rparr>) \<and> rd m 0 (length f) = f"
  proof (cases "pci \<le> 1")
    case True
    then have nl: "n = length xs" "pci = CANTP_NPCI_SFCAN \<or> (pci = CANTP_NPCI_SFCANFD \<and> CANTP_CANFD_SUPPORT S)"
      "length ?adr + CanTp_PciSize pci + length xs \<le> (if pci = CANTP_NPCI_SFCAN then 8 else 64)" using b by auto
    have len: "length f = padded_len S (tx_BitFields conn) (length ?adr + CanTp_PciSize pci + length xs)"
      "f = frame_bytes S (?adr @ sf_pci pci (length xs)) (take n xs) (length f)"
      using first_bytes_sf [OF pa(3) adr(2) up(3,4), folded pci, of "tx_BitFields conn", folded f] True nl(1) by auto
    have "CanTp_PciFrameType pci = CANTP_SINGLE_FRAME" using nl(2) by (auto simp: CanTp_PciFrameType_def)
    with sf_frame [OF st(1,2) pa(1) st(3) nl(2) refl st(4,5) nl(3) [unfolded adr(1)] refl cp(1) [unfolded nl(1)] _, of "uninit S" dl] cp(2) nl(1) len adr
    show ?thesis by (auto simp: CanTp_Prv_CreateFrame_def Let_def st(3) [symmetric])
  next
    case False
    then have pf: "pci = CANTP_NPCI_FFCAN \<or> (pci = CANTP_NPCI_FFCANFD \<and> CANTP_CANFD_SUPPORT S)"
      "n = dl - (length ?adr + CanTp_PciSize pci)" "length xs \<le> (if pci = CANTP_NPCI_FFCAN then 4095 else 4294967295)" using b up(4) by auto
    have len: "length f = dl" "f = frame_bytes S (?adr @ ff_pci pci (length xs)) (take n xs) dl"
      using first_bytes_ff [OF pa(3) adr(2) up(3,4), folded pci n, of "tx_BitFields conn", folded f] False by auto
    have "CanTp_PciFrameType pci = CANTP_FIRST_FRAME" using pf(1) by (auto simp: CanTp_PciFrameType_def)
    with ff_frame [OF st(1,2) pa(1) _ st(3) pf(1) refl _ st(5) [symmetric] pf(3) w cp(1), of "uninit S" dl] cp(2) pf(2) pa(2,3) len adr
    show ?thesis by (simp add: CanTp_Prv_CreateFrame_def Let_def st(3) [symmetric])
  qed
  then obtain m where m: "CanTp_Prv_CreateFrame S c (uninit S) dl ?s2 = (E_OK, m, length f, ?s2\<lparr>ext := e1\<rparr>)" "rd m 0 (length f) = f" by blast
  have pay: "n = (if CANTP_NPCI_FFCAN \<le> pci
      then u8 (int dl - int (u8 (int (CanTp_AddressSize (tx_AddressFormatId conn)) + int (CanTp_PciSize pci)))) else u8 (int (length xs)))"
    using b adr(1) dl_ok_range [OF pa(3)] PciSize_le [of pci] u8_diff [of "length ?adr + CanTp_PciSize pci" dl] u8_add [of "length ?adr" "CanTp_PciSize pci"] adr(2)
    by (auto simp: u8_of_nat)
  have q: "PduR_CanTpCopyTxData S (tx_PduRPduHandleId conn) 0 False (ext s1) = (BUFREQ_OK, [], length xs, ext s1)"
    using S(1) query [OF up(1)] up(2) w1(2) by simp
  have "CanTp_Prv_ExecuteState S c s1 = req_handed c i e s1"
    by (rule request_served [OF w1(3) path conn c i el pay q b(1) m]) (use e(1) S(2) in simp)
  then show ?thesis using e e1 by auto
qed

lemma message_transmitted:
  assumes S: "PduR_CanTpCopyTxData S (tx_PduRPduHandleId conn) = copy" "CanIf_TransmitFn S (tx_TxPduId conn) = transmit"
    and on: "cantp_on cfg s" and path: "tx_path S cfg t dl" "fc_path cfg P t adr" "tx_fc_on S cfg t"
    and w: "16 \<le> PduLengthBits S" and phys: "\<not> CanTp_Prv_GetBit (tx_BitFields conn) CANTP_FUNCTIONAL"
    and conn: "conn = TxSdu cfg t" and c: "c = tx_ChannelId conn" and i: "i = tx_TxConfirmationId conn"
    and d: "0 < d" "d < 2 ^ TickBits S" "d < CsCrTicks (TimeOut cfg (tx_TimeOutId conn))" "d \<le> BsBrTicks (TimeOut cfg (tx_TimeOutId conn))"
    and dlc: "\<And>n. CanTp_Cfg_DlcCheck S n n = E_OK" and bs: "bs < 2 ^ PduLengthBits S" "fc_stmin S st \<le> d"
    and st: "CanTp_SubState s c = CANTP_IDLE" "CanTp_TxConfirmationChannel s i = CANTP_INVALID_CHANNEL S"
    and up: "live (ext s)" "pending (ext s) = xs" "0 < length xs" "length xs \<le> tx_len_max dl"
    and r: "(r, s1) = CanTp_Transmit S t (Some \<lparr>SduDataPtr = m, SduLength = length xs\<rparr>) s"
    and fs: "fs = tx_frames S (tx_BitFields conn) (tx_adr cfg t) dl xs"
    and s': "s' = (tx_turn S P c i d (fc_bytes S (tx_BitFields conn) adr CANTP_FC_CTS bs st) ^^ length fs) s1"
  shows "r = E_OK \<and> (\<exists>e. live e \<and> pending e = [] \<and> sent e = sent (ext s) @ fs \<and>
     ext s' = PduR_CanTpTxConfirmation S (tx_PduRPduHandleId conn) E_OK e \<and> CanTp_SubState s' c = CANTP_IDLE)"
proof -
  let ?adr = "tx_adr cfg t" and ?turn = "tx_turn S P c i d (fc_bytes S (tx_BitFields conn) adr CANTP_FC_CTS bs st)"
  define pci where "pci = pci_for S ?adr dl (length xs)"
  define n where "n = first_len S ?adr dl (length xs)"
  define p where "p = dl - Suc (length ?adr)"
  have t: "t < NumberOfTxSdus cfg" using path(2) by (simp add: fc_path_def)
  have pa: "tx_AddressFormatId conn \<le> 3" "dl_ok S dl" using path(1) conn by (auto simp: tx_path_def Let_def)
  have adr: "length ?adr = CanTp_AddressSize (tx_AddressFormatId conn)" "length ?adr \<le> 1"
    using tx_adr_length [of cfg t] pa(1) conn by auto
  note b = first_bounds [OF pa(2) adr(2) up(3,4), folded pci_def n_def]
  have "(2::nat) ^ 16 \<le> 2 ^ PduLengthBits S" using w by (intro power_increasing) auto
  then have len: "length xs < 2 ^ PduLengthBits S" "7 \<le> PduLengthBits S" using b(3) w by simp_all
  have acc: "r = E_OK" "tx_requested S cfg t pci (length xs) s1" "ext s1 = ext s" "ch_InitialTicks (CanTp_Channel s1 c) = CanTp_MainFunctionTicks s1"
    using CanTp_Transmit_accepted [OF on path(1) t conn c phys up(3,4) st(1) st(2) [unfolded i] r] by (simp_all add: pci_def)
  define s2 where "s2 = (CanTp_IncrementCounter S ^^ d) s1"
  have rq2: "tx_requested S cfg t pci (length xs) s2"
    using acc(2) d(1) by (auto simp: s2_def wait_ticks tx_requested_def Let_def cantp_on_def)
  obtain e where e: "live e" "pending e = drop n xs" "sent e = sent (ext s) @ [first_bytes S (tx_BitFields conn) ?adr dl xs]"
    and ex: "CanTp_Prv_ExecuteState S c s2 = req_handed c i e s2"
    using request_transmitted [OF S path(1) len(2) conn c i d(1-3) acc(2,4) _ _ up(3,4) pci_def refl n_def s2_def] acc(3) up(1,2) by auto
  define s3 where "s3 = tx_round S c i d s1"
  have s3: "s3 = CanTp_TxConfirmation S i (req_handed c i e s2)" by (simp add: s3_def tx_round_def s2_def [symmetric] ex)
  note conf = req_confirmed [OF path(1) rq2 b(2) conn c i refl len(1) s3]
  have p0: "0 < p" using adr(2) dl_ok_range [OF pa(2)] by (simp add: p_def)
  have fs': "fs = first_bytes S (tx_BitFields conn) ?adr dl xs # segment S (tx_BitFields conn) ?adr dl 1 (drop n xs)"
    by (simp add: fs tx_frames_def n_def)
  then have lf: "length fs = Suc (ceil_div (length (drop n xs)) p)" by (simp add: length_segment [OF p0 [unfolded p_def]] p_def)
  have "\<exists>e. live e \<and> pending e = [] \<and> sent e = sent (ext s) @ fs \<and>
     ext s' = PduR_CanTpTxConfirmation S (tx_PduRPduHandleId conn) E_OK e \<and> CanTp_SubState s' c = CANTP_IDLE"
  proof (cases "pci \<le> 1")
    case True
    then have nl: "n = length xs" "length xs \<le> dl - (length ?adr + CanTp_PciSize pci)" using b(4) by auto
    have "?turn s1 = s3" using conf(1) [OF nl(2)] by (simp add: tx_turn_def s3_def [symmetric])
    then have "s' = s3" using s' lf nl(1) ceil_div_0 [OF p0] by simp
    with conf(1) [OF nl(2)] e nl(1) fs' show ?thesis by (intro exI [of _ e]) simp
  next
    case False
    then have n: "n = dl - (length ?adr + CanTp_PciSize pci)" "n < length xs" using b(5) by auto
    have wt: "tx_wait_fc S cfg t (length (drop n xs)) 1 s3" "ext s3 = e" "fc_known S bs st (CanTp_Channel s3 c)"
      using conf(2) path(3) n by (auto simp: fc_known_def)
    define s4 where "s4 = ?turn s1"
    have s4: "s4 = CanTp_Receive S P (fc_bytes S (tx_BitFields conn) adr CANTP_FC_CTS bs st) ((CanTp_IncrementCounter S ^^ d) s3)"
      unfolding s4_def tx_turn_def s3_def [symmetric] Let_def using wt(1) conn c by (simp add: tx_wait_fc_def Let_def)
    note rd = fc_taken [OF wt(1,3) path(1,2) conn c d(1,2,4) dlc bs(1) s4]
    have "s' = (?turn ^^ ceil_div (length (drop n xs)) p) s4" using s' lf by (simp add: funpow_swap1 s4_def)
    from tx_rest [OF S path conn c i p_def d dlc bs rd(1) _ _ _ _ this] rd wt(2) e n(2)
    obtain e' where "live e'" "pending e' = []" "sent e' = sent e @ segment S (tx_BitFields conn) ?adr dl 1 (drop n xs)"
      "ext s' = PduR_CanTpTxConfirmation S (tx_PduRPduHandleId conn) E_OK e'" "CanTp_SubState s' c = CANTP_IDLE" by auto
    then show ?thesis using e(3) fs' by (intro exI [of _ e']) simp
  qed
  then show ?thesis using acc(1) by simp
qed

end

end
