(* ===== verification/CanTp_Session.thy ===== *)
theory CanTp_Session
  imports CanTp_Transmission
begin

text \<open>
  A message from one end to the other: what a receiver does with the frames that a transmitter sends,
  single frame or segmented.
\<close>

subsection \<open>The single frame\<close>

lemma nibble_small: "k < 8 \<Longrightarrow> k div 16 = (0::nat) \<and> k AND 15 = k"
proof -
  assume "k < 8"
  moreover have "\<forall>k\<in>set [0..<8]. k div 16 = (0::nat) \<and> k AND 15 = k" by code_simp
  ultimately show ?thesis by simp
qed

lemma sf_check:
  assumes path: "rx_path S cfg P r adr" and dl: "dl_ok S dl" "dl \<le> CANTP_MAX_NPDU_LENGTH S"
    and len: "0 < length xs" "length xs \<le> tx_len_max dl" and pci: "pci_for S adr dl (length xs) \<le> 1"
    and f: "f = first_bytes S (rx_BitFields (RxSdu cfg r)) adr dl xs"
    and dlc: "CanTp_Cfg_DlcCheck S (length f) (length f) = E_OK"
    and off: "off = length adr + CanTp_PciSize (pci_for S adr dl (length xs))"
  shows "CanTp_Prv_RxSduLengthCheck S (rx_ctx cfg P r adr CANTP_SINGLE_FRAME) (mem_of f) (length f) s =
     (E_OK, (rx_ctx cfg P r adr CANTP_SINGLE_FRAME)\<lparr>rc_CAN_DL := length f, rc_DataOffset := off, rc_SduLength := length xs\<rparr>)"
    and "\<exists>b rest. f = adr @ b # rest \<and> b div 16 = 0" and "rd (mem_of f) off (length xs) = xs"
proof -
  let ?pci = "pci_for S adr dl (length xs)" and ?ctx = "rx_ctx cfg P r adr CANTP_SINGLE_FRAME" and ?bf = "rx_BitFields (RxSdu cfg r)"
  have adr: "length adr \<le> 1" using rx_path_adr [OF path] by simp
  note b = first_bounds(4) [OF dl(1) adr len pci]
  note fb = first_bytes_sf [OF dl(1) adr len pci, of ?bf, folded f off]
  have hdr: "length (adr @ sf_pci ?pci (length xs)) = off" using b length_pci(1) [of ?pci "length xs"] off by auto
  show "rd (mem_of f) off (length xs) = xs" using rd_middle [OF hdr] fb(2) by (metis append_assoc frame_bytes_def)
  define D where "D = (\<lambda>i. mem_of f (length adr + i))"
  have D: "D i = mem_of (sf_pci ?pci (length xs) @ xs @ replicate (length f - length (adr @ sf_pci ?pci (length xs)) - length xs) (CANTP_PADDING_BYTE S)) i" for i
    unfolding D_def by (subst fb(2)) (simp only: frame_bytes_def append_assoc mem_of_append)
  have k: "off + length xs \<le> 64" "off + length xs \<le> dl" "off \<le> 3" using b off adr by (auto simp: CanTp_PciSize_def split: if_splits)
  have uoff: "u8 (int (length adr) + int (CanTp_PciSize ?pci)) = off" "u8 (int off + int (length xs)) = off + length xs"
    using u8_add [of "length adr" "CanTp_PciSize ?pci"] u8_add [of off "length xs"] k off by auto
  have chk: "sf_length_check S ?ctx D (length f) = (length f, off, length xs)"
  proof (cases "?pci = 0")
    case True
    then have o: "off = Suc (length adr)" "off + length xs \<le> 8" "length xs < 8" using b off by (auto simp: CanTp_PciSize_def)
    have "CanTp_Prv_GetCanDl S (off + length xs) = 8"
    proof -
      have "\<forall>k\<in>set [0..<9]. CanTp_CanDlTable ! k = 8" by code_simp
      then show ?thesis using o(2) by (simp add: CanTp_Prv_GetCanDl_def)
    qed
    then have l8: "length f = (if CanTp_Prv_GetBit ?bf CANTP_PADDINGON then 8 else off + length xs)" using fb(1) by (simp add: padded_len_def)
    have d0: "D 0 = length xs" using D [of 0] True by (simp add: sf_pci_def mem_of_Cons)
    have u: "u32 (int CANTP_DEFAULT_CAN_DL - int off) = 8 - off" using u32_pad [of off 8] o adr by simp
    show ?thesis using l8 o len(1) nibble_small [OF o(3)] uoff True u adr
      by (simp add: sf_length_check_def d0 rx_ctx_def Let_def)
  next
    case False
    then have p1: "?pci = 1" "CANTP_CANFD_SUPPORT S" using b by auto
    then have o: "off = length adr + 2" "8 < off + length xs" "7 < length adr + length xs"
      using off pci by (auto simp: CanTp_PciSize_def pci_for_def split: if_splits)
    have L: "length f = (if CanTp_Prv_GetBit ?bf CANTP_PADDINGON then CanTp_Prv_GetCanDl S (off + length xs) else off + length xs)"
      using fb(1) by (simp add: padded_len_def)
    have ge: "off + length xs \<le> length f" using L GetCanDl_ge [OF k(1)] p1(2) by auto
    have d0: "D 0 = 0" "D 1 = length xs" using D [of 0] D [of 1] p1 by (simp_all add: sf_pci_def mem_of_Cons)
    have u: "u32 (7 - int (length adr)) = 7 - length adr" using u32_pad [of "length adr" 7] adr by simp
    have "7 - length adr < length xs" using o(3) adr by simp
    with L ge o uoff p1 u k dl(2) d0 show ?thesis
      by (simp add: sf_length_check_def rx_ctx_def Let_def)
  qed
  have "rc_FrameType ?ctx = CANTP_SINGLE_FRAME" "rc_AddressSize ?ctx = length adr" by (simp_all add: rx_ctx_def)
  then show "CanTp_Prv_RxSduLengthCheck S ?ctx (mem_of f) (length f) s =
     (E_OK, ?ctx\<lparr>rc_CAN_DL := length f, rc_DataOffset := off, rc_SduLength := length xs\<rparr>)"
    using dlc chk by (simp add: CanTp_Prv_RxSduLengthCheck_def D_def Let_def)
  show "\<exists>b rest. f = adr @ b # rest \<and> b div 16 = 0"
    using b nibble_small [of "length xs"] off by (subst fb(2)) (auto simp: frame_bytes_def sf_pci_def CanTp_PciSize_def)
qed

lemma Receive_sf:
  assumes on: "cantp_on cfg s" and path: "rx_path S cfg P r adr" and dl: "dl_ok S dl" "dl \<le> CANTP_MAX_NPDU_LENGTH S"
    and len: "0 < length xs" "length xs \<le> tx_len_max dl" and pci: "pci_for S adr dl (length xs) \<le> 1"
    and f: "f = first_bytes S (rx_BitFields (RxSdu cfg r)) adr dl xs"
    and dlc: "CanTp_Cfg_DlcCheck S (length f) (length f) = E_OK"
    and fd: "case CanTp_FdCallOut S of None \<Rightarrow> True | Some g \<Rightarrow> \<forall>P q b. g P q b = E_OK"
    and c: "c = rx_ChannelId (RxSdu cfg r)" and h: "h = rx_PduRPduHandleId (RxSdu cfg r)"
    and idle: "CanTp_SubState s c = CANTP_IDLE"
    and start: "PduR_CanTpStartOfReception S h xs (length xs) (ext s) = (BUFREQ_OK, m, e1)" "length xs \<le> m"
    and copy: "PduR_CanTpCopyRxData S h (Some xs) e1 = (BUFREQ_OK, rm, e2)"
    and s': "s' = CanTp_Receive S P f s"
  shows "CanTp_SubState s' c = CANTP_IDLE" "ext s' = PduR_CanTpRxIndication S h E_OK e2"
proof -
  let ?off = "length adr + CanTp_PciSize (pci_for S adr dl (length xs))"
  note chk = sf_check [OF path dl len pci f dlc refl]
  obtain b rest where fr: "f = adr @ b # rest" "b div 16 = 0" using chk(2) by blast
  define ctx where "ctx = (rx_ctx cfg P r adr CANTP_SINGLE_FRAME)\<lparr>rc_CAN_DL := length f, rc_DataOffset := ?off, rc_SduLength := length xs\<rparr>"
  have x: "rc_ChannelId ctx = c" "rc_PduRPduHandleId ctx = h" "rc_DataOffset ctx = ?off" "rc_SduLength ctx = length xs" "rc_SduId ctx = r"
    using c h by (simp_all add: ctx_def rx_ctx_def)
  have rcv: "s' = CanTp_Prv_BurstMainFunction S c (CanTp_Prv_ProcessRxSingleFrame S ctx (pdu_of f) (mem_of f) s)"
    using Receive_data [OF on path fr(2) _ chk(1) fr(1)] c s' by (simp add: CanTp_Prv_ProcessFrame_def rx_ctx_def ctx_def)
  have acc: "CanTp_Prv_GetConnectionAcceptance S ctx (pdu_of f) s = (E_OK, set_sub c CANTP_RX_RECEPTION_REQUEST_ACCEPTED s)"
    using fd idle x(1) by (auto simp: CanTp_Prv_GetConnectionAcceptance_def CanTp_Prv_GetState_def Let_def split: option.splits)
  define pd where "pd = pdu_of f"
  have "ext (CanTp_Prv_ProcessRxSingleFrame S ctx pd (mem_of f) s) = PduR_CanTpRxIndication S h E_OK e2 \<and>
     CanTp_SubState (CanTp_Prv_ProcessRxSingleFrame S ctx pd (mem_of f) s) c = CANTP_IDLE"
    using start copy
    by (simp add: CanTp_Prv_ProcessRxSingleFrame_def CanTp_GetElapsedValue_def acc [folded pd_def] x chk(3)
        CanTp_Prv_SetRxDl_def CanTp_Prv_PduRConfirmation_def Let_def)
  then show "CanTp_SubState s' c = CANTP_IDLE" "ext s' = PduR_CanTpRxIndication S h E_OK e2"
    using rcv Burst_idle [of "CanTp_Prv_ProcessRxSingleFrame S ctx pd (mem_of f) s" c S] by (simp_all add: pd_def)
qed

subsection \<open>All frames of a message at the receiver\<close>

lemma first_bytes_is_ff:
  assumes "dl_ok S dl" "length adr \<le> 1" "0 < length xs" "length xs \<le> tx_len_max dl" "\<not> pci_for S adr dl (length xs) \<le> 1" "16 \<le> PduLengthBits S"
  shows "first_bytes S bf adr dl xs = ff_bytes S adr dl (length xs) (take (ff_room adr dl (length xs)) xs)"
    "first_len S adr dl (length xs) = ff_room adr dl (length xs)" "ff_len_ok S adr dl (length xs)"
proof -
  have pci: "pci_for S adr dl (length xs) = (if length xs \<le> CANTP_MAXFFDL then CANTP_NPCI_FFCAN else CANTP_NPCI_FFCANFD)"
    using assms(4,5) by (auto simp: pci_for_def tx_len_max_def split: if_splits)
  show n: "first_len S adr dl (length xs) = ff_room adr dl (length xs)"
    using assms(5) unfolding first_len_def by (auto simp: pci ff_room_def CanTp_PciSize_def)
  show "first_bytes S bf adr dl xs = ff_bytes S adr dl (length xs) (take (ff_room adr dl (length xs)) xs)"
    using first_bytes_ff(2) [OF assms(1-5), of bf] n by (simp add: ff_bytes_def pci)
  have "(2::nat) ^ 16 \<le> 2 ^ PduLengthBits S" using assms(6) by (intro power_increasing) auto
  then have "length xs < 2 ^ PduLengthBits S" using first_bounds(3) [OF assms(1-4)] by simp
  moreover have "length xs \<le> CANTP_MAXFDFFDL" using first_bounds(3) [OF assms(1-4)] by simp
  moreover have "dl - length adr - (if 8 < dl then 1 else 0) \<le> length xs"
    using assms(5) dl_ok_range [OF assms(1)] by (auto simp: pci_for_def split: if_splits)
  ultimately show "ff_len_ok S adr dl (length xs)" using assms(6) by (simp add: ff_len_ok_def)
qed

context tp_receiver
begin

lemma frames_received:
  assumes S: "PduR_CanTpCopyRxData S (rx_PduRPduHandleId conn) = copy" "CanIf_TransmitFn S (rx_TxPduId conn) = fc_send"
      "PduR_CanTpStartOfReception S (rx_PduRPduHandleId conn) = start"
    and on: "cantp_on cfg s" and path: "rx_path S cfg P r adr" "rx_fc_path S cfg r" and dl: "dl_ok S dl" "dl \<le> CANTP_MAX_NPDU_LENGTH S"
    and dlc: "\<And>n. CanTp_Cfg_DlcCheck S n n = E_OK"
    and fd: "case CanTp_FdCallOut S of None \<Rightarrow> True | Some g \<Rightarrow> \<forall>P q b. g P q b = E_OK"
    and conn: "conn = RxSdu cfg r" and c: "c = rx_ChannelId conn" and i: "i = rx_TxConfirmationId conn"
    and d: "0 < d" "d < 2 ^ TickBits S" "d \<le> CsCrTicks (TimeOut cfg (rx_TimeOutId conn))"
    and st: "CanTp_SubState s c = CANTP_IDLE" "CanTp_TxConfirmationChannel s i = CANTP_INVALID_CHANNEL S"
    and par: "CanTp_Prv_GetRxParam S r TP_BS s < 2 ^ PduLengthBits S"
    and up: "idle (ext s)" "bus (ext s)" and len: "0 < length xs" "length xs \<le> tx_len_max dl" "length xs \<le> cap" and w: "16 \<le> PduLengthBits S"
    and s': "s' = fold (rx_frame S P c i d) (tx_frames S (rx_BitFields conn) adr dl xs) s"
  shows "\<exists>e. ready e \<and> bus e \<and> stored e = xs \<and> ext s' = PduR_CanTpRxIndication S (rx_PduRPduHandleId conn) E_OK e \<and>
     CanTp_SubState s' c = CANTP_IDLE"
proof (cases "pci_for S adr dl (length xs) \<le> 1")
  case True
  have adr: "length adr \<le> 1" using rx_path_adr [OF path(1)] by simp
  define u where "u = (CanTp_IncrementCounter S ^^ d) s"
  have uu: "cantp_on cfg u" "CanTp_SubState u c = CANTP_IDLE" "ext u = ext s" using on st(1) d(1) by (auto simp: u_def wait_ticks cantp_on_def)
  obtain m e1 where e1: "start xs (length xs) (ext s) = (BUFREQ_OK, m, e1)" "cap \<le> m" "ready e1" "bus e1" "stored e1 = []" "room e1 = cap"
    using start_ok [OF up len(3)] by blast
  obtain e2 where e2: "copy (Some xs) e1 = (BUFREQ_OK, room e1 - length xs, e2)" "ready e2" "stored e2 = xs"
    using copy_fits [OF e1(3), of xs] e1(5,6) len(3) by auto
  have be: "bus e2" using copy_bus [OF e1(3,4) e2(1)] .
  define f where "f = first_bytes S (rx_BitFields conn) adr dl xs"
  have "tx_frames S (rx_BitFields conn) adr dl xs = [f]" using True by (simp add: tx_frames_def first_len_def f_def)
  then have s1: "s' = rx_frame S P c i d f s" using s' by simp
  note rcv = Receive_sf [OF uu(1) path(1) dl len(1,2) True f_def [unfolded conn] dlc fd c [unfolded conn] refl uu(2),
      of m e1 "room e1 - length xs" e2 "CanTp_Receive S P f u", OF _ _ _ refl]
  have "CanTp_SubState (CanTp_Receive S P f u) c = CANTP_IDLE \<and> ext (CanTp_Receive S P f u) = PduR_CanTpRxIndication S (rx_PduRPduHandleId conn) E_OK e2"
    using rcv S e1(1,2) e2(1) uu(3) len(3) conn by simp
  then show ?thesis using s1 e2 be by (intro exI [of _ e2]) (simp add: rx_frame_def u_def [symmetric])
next
  case False
  have adr: "length adr \<le> 1" using rx_path_adr [OF path(1)] by simp
  note ff = first_bytes_is_ff [OF dl(1) adr len(1,2) False w]
  have "tx_frames S (rx_BitFields conn) adr dl xs =
     ff_bytes S adr dl (length xs) (take (ff_room adr dl (length xs)) xs) # segment S (rx_BitFields conn) adr dl 1 (drop (ff_room adr dl (length xs)) xs)"
    by (simp add: tx_frames_def ff)
  with message_received [OF S on path dl(1) dlc fd conn c i d st par up ff(3) len(3) refl] s' show ?thesis by simp
qed

end

end
