(* ===== verification/AnchorComTp.thy ===== *)
theory AnchorComTp
  imports Prelude
begin

text \<open>
  \<^verbatim>\<open>rbdAnchorComTp.c\<close>, the application of the transport layer on the CC2642: per-peer transmit
  and receive queues, the transmit request, and the five callbacks through which the transport
  layer fetches and delivers messages.

  The build modelled is the CC26xx one (neither \<^verbatim>\<open>RBD_PK_MASTER_MCU\<close> nor \<^verbatim>\<open>RBD_PK_CPU_NCJ29D5\<close>,
  no IMC broadcast, test mode and XCP off). \<^verbatim>\<open>rbdAnchorCom_Private.h\<close> and the generated
  \<^verbatim>\<open>rbdAnchorCom_CfgMsg.h\<close> are not in the repository: their constants and tables are the fields
  of \<open>AnchorCfg\<close>. Calls of \<^verbatim>\<open>rbdAnchorCom_ReportError\<close> are recorded in the state. A queue entry's
  \<^verbatim>\<open>BufferPtr\<close> is a reference to the buffer it aliases.
\<close>

subsection \<open>Data\<close>

datatype AncBufState = RBDANCHORCOM_TPSTATE_IDLE | RBDANCHORCOM_TPSTATE_HASDATA

datatype AncQueueState =
    RBDANCHORCOM_TX_IDLE | RBDANCHORCOM_TX_QUEUED | RBDANCHORCOM_TX_ENC_READY | RBDANCHORCOM_TX_ENC_RUNNING
  | RBDANCHORCOM_TX_CMAC_READY | RBDANCHORCOM_TX_CMAC_RUNNING | RBDANCHORCOM_TX_TRANS_READY
  | RBDANCHORCOM_TX_TRANS_RUNNING | RBDANCHORCOM_TX_TRANS_DONE
  | RBDANCHORCOM_RX_QUEUED | RBDANCHORCOM_RX_CMAC_READY | RBDANCHORCOM_RX_CMAC_RUNNING | RBDANCHORCOM_RX_DEC_READY
  | RBDANCHORCOM_RX_DEC_RUNNING | RBDANCHORCOM_RX_PROCESS_READY | RBDANCHORCOM_RX_PROCESS_DONE

datatype AncApi =
    RBD_ANCHORCOM_API_TP_GETBUFFER | RBD_ANCHORCOM_API_TP_TRANSMIT | RBD_ANCHORCOM_API_TP_TXCOPY
  | RBD_ANCHORCOM_API_TP_TXCONFIRMATION | RBD_ANCHORCOM_API_TP_RXSTART | RBD_ANCHORCOM_API_TP_RXCOPY
  | RBD_ANCHORCOM_API_TP_RXINDICATION | RBD_ANCHORCOM_API_TX_FORMAT

datatype AncErr = RBD_ANCHORCOM_ERR_NULL | RBD_ANCHORCOM_ERR_PDU | RBD_ANCHORCOM_ERR_LENGTH | RBD_ANCHORCOM_ERR_OTHERENDIDX

datatype AncBufRef = ChRxBuffRef nat nat | ChRxTempRef nat nat

record rbdAnchorComTp_Cfg_st =
  cf_PduId :: nat
  cf_Channel :: nat
  cf_HasRxIndication :: bool
  cf_Length :: nat
  cf_EncDecFlag :: bool
  cf_Broadcast :: bool

record rbdAnchorComTp_MsgInfo_st =
  mi_BufState :: AncBufState
  mi_Length :: nat

record rbdAnchorComTp_Queue_st =
  tq_MsgIdx :: nat
  tq_AnchorId :: nat
  tq_Channel :: nat
  tq_QueueState :: AncQueueState
  tq_ErrCounter :: nat
  tq_TruncFresh :: nat
  tq_CmacValue :: mem

record rbdAnchorComTp_RxQueue_st =
  rq_Channel :: nat
  rq_AnchorId :: nat
  rq_IsTempBuf :: bool
  rq_QueueState :: AncQueueState
  rq_ErrCounter :: nat
  rq_BufferPtr :: AncBufRef
  rq_DataLen :: nat
  rq_MsgIdx :: nat
  rq_TruncFresh :: nat
  rq_CmacValue :: mem

record rbdAnchorComTp_ChTxInfo_st =
  ct_TxInProgress :: bool
  ct_TxOffset :: nat
  ct_TxMsgIdx :: nat

record rbdAnchorComTp_ChRxInfo_st =
  cr_RxOffset :: nat
  cr_RxBuffer :: mem

record rbdAnchorComTp_ChRxDataInfo_st =
  cd_RxBuffer :: mem
  cd_RxOffset :: nat
  cd_PduId :: nat
  cd_NeedVerify :: bool

record AnchorCfg =
  RBDANCHORCOM_TPCH_MAX :: nat
  RBDANCHORCOM_TP_NUM_LL_TX :: nat
  RBDANCHORCOM_TP_NUM_LL_RX :: nat
  RBDANCHORCOM_TP_MAX_RX_BUFFER_LEN :: nat
  RBDANCHORCOM_TP_MIN_RX_DATA_LEN :: nat
  RBDANCHORCOM_CHANID_LEN :: nat
  RBDANCHORCOM_HEADER_LEN :: nat
  RBD_PK_MAX_NODES :: nat
  rbdAnchorComTp_MsgCfg :: "rbdAnchorComTp_Cfg_st list"
  rbdAnchorComTp_LowerTxCbPdu :: "nat \<Rightarrow> nat"
  rbdAnchorComTp_LowerRxPdu :: "nat \<Rightarrow> nat"
  rbdAnchorComTp_LowerTxCallPdu :: "nat \<Rightarrow> nat \<Rightarrow> nat"
  AncPduLengthBits :: nat

record AnchorSt =
  rbdAnchorComTp_MsgTxInfo :: "nat \<Rightarrow> nat \<Rightarrow> rbdAnchorComTp_MsgInfo_st"
  anc_TxBuffer :: "nat \<Rightarrow> nat \<Rightarrow> mem"
  rbdAnchorComTp_TxMsgQueue :: "nat \<Rightarrow> nat \<Rightarrow> rbdAnchorComTp_Queue_st"
  rbdAnchorComTp_RxMsgQueue :: "nat \<Rightarrow> nat \<Rightarrow> rbdAnchorComTp_RxQueue_st"
  rbdAnchorComTp_TxHead :: "nat \<Rightarrow> nat"
  rbdAnchorComTp_TxTail :: "nat \<Rightarrow> nat"
  rbdAnchorComTp_RxHead :: "nat \<Rightarrow> nat"
  rbdAnchorComTp_RxTail :: "nat \<Rightarrow> nat"
  rbdAnchorComTp_ChTxInfo :: "nat \<Rightarrow> nat \<Rightarrow> rbdAnchorComTp_ChTxInfo_st"
  rbdAnchorComTp_ChRxInfo :: "nat \<Rightarrow> nat \<Rightarrow> rbdAnchorComTp_ChRxInfo_st"
  rbdAnchorComTp_ChRxBuff :: "nat \<Rightarrow> nat \<Rightarrow> rbdAnchorComTp_ChRxDataInfo_st"
  rbdAnchorComTp_ChRxTemp :: "nat \<Rightarrow> nat \<Rightarrow> rbdAnchorComTp_ChRxDataInfo_st"
  anc_errors :: "(nat \<times> AncApi \<times> AncErr) list"

abbreviation "RBDANCHORCOM_TP_QUEUE_SIZE \<equiv> 16 :: nat"

definition upd2 :: "nat \<Rightarrow> nat \<Rightarrow> ('a \<Rightarrow> 'a) \<Rightarrow> (nat \<Rightarrow> nat \<Rightarrow> 'a) \<Rightarrow> (nat \<Rightarrow> nat \<Rightarrow> 'a)" where
  "upd2 i j f m = m(i := (m i)(j := f (m i j)))"

lemma upd2_apply [simp]: "upd2 i j f m i' j' = (if i' = i \<and> j' = j then f (m i j) else m i' j')"
  by (simp add: upd2_def)

definition rbdAnchorCom_ReportError :: "nat \<Rightarrow> AncApi \<Rightarrow> AncErr \<Rightarrow> AnchorSt \<Rightarrow> AnchorSt" where
  "rbdAnchorCom_ReportError v api e s = s\<lparr>anc_errors := anc_errors s @ [(v, api, e)]\<rparr>"

subsection \<open>Searching the tables\<close>

text \<open>The loop of \<^verbatim>\<open>rbdAnchorComTp_FindIdx\<close>: the index of the first match, or the length.\<close>

fun find_idx :: "nat \<Rightarrow> rbdAnchorComTp_Cfg_st list \<Rightarrow> nat" where
  "find_idx i [] = 0"
| "find_idx i (x # xs) = (if cf_PduId x = i then 0 else Suc (find_idx i xs))"

definition rbdAnchorComTp_FindIdx :: "AnchorCfg \<Rightarrow> nat \<Rightarrow> nat" where
  "rbdAnchorComTp_FindIdx C PduId = find_idx PduId (rbdAnchorComTp_MsgCfg C)"

definition rbdAnchorComTp_FindByLLPdu :: "AnchorCfg \<Rightarrow> nat \<Rightarrow> (nat \<Rightarrow> nat) \<Rightarrow> nat \<Rightarrow> (nat \<times> nat) option" where
  "rbdAnchorComTp_FindByLLPdu C PduId PduList TpPduNum =
     find (\<lambda>(ch, oe). PduList (ch * TpPduNum + oe) = PduId)
       (concat (map (\<lambda>ch. map (\<lambda>oe. (ch, oe)) [0..<TpPduNum]) [0..<RBDANCHORCOM_TPCH_MAX C]))"

subsection \<open>The queues\<close>

definition rbdAnchorComTp_GetTxQueueHead :: "nat \<Rightarrow> AnchorSt \<Rightarrow> rbdAnchorComTp_Queue_st option" where
  "rbdAnchorComTp_GetTxQueueHead oe s =
     (if rbdAnchorComTp_TxTail s oe = rbdAnchorComTp_TxHead s oe then None
      else Some (rbdAnchorComTp_TxMsgQueue s oe (rbdAnchorComTp_TxHead s oe)))"

definition rbdAnchorComTp_RemoveTxQueueHead :: "nat \<Rightarrow> AnchorSt \<Rightarrow> Std_ReturnType \<times> AnchorSt" where
  "rbdAnchorComTp_RemoveTxQueueHead oe s =
     (if rbdAnchorComTp_TxTail s oe = rbdAnchorComTp_TxHead s oe then (E_NOT_OK, s)
      else (E_OK, s\<lparr>rbdAnchorComTp_TxHead := (rbdAnchorComTp_TxHead s)(oe := (rbdAnchorComTp_TxHead s oe + 1) mod RBDANCHORCOM_TP_QUEUE_SIZE)\<rparr>))"

definition rbdAnchorComTp_AddTxQueue :: "AnchorCfg \<Rightarrow> nat \<Rightarrow> nat \<Rightarrow> AnchorSt \<Rightarrow> Std_ReturnType \<times> AnchorSt" where
  "rbdAnchorComTp_AddTxQueue C oe msgIdx s =
     (let t = rbdAnchorComTp_TxTail s oe in
      if (t + 1) mod RBDANCHORCOM_TP_QUEUE_SIZE = rbdAnchorComTp_TxHead s oe then (E_NOT_OK, s)
      else (E_OK, s\<lparr>rbdAnchorComTp_TxMsgQueue := upd2 oe t (\<lambda>q.
                      q\<lparr>tq_MsgIdx := msgIdx, tq_AnchorId := oe, tq_Channel := cf_Channel (rbdAnchorComTp_MsgCfg C ! msgIdx),
                        tq_QueueState := RBDANCHORCOM_TX_QUEUED, tq_ErrCounter := 0\<rparr>) (rbdAnchorComTp_TxMsgQueue s),
                    rbdAnchorComTp_TxTail := (rbdAnchorComTp_TxTail s)(oe := (t + 1) mod RBDANCHORCOM_TP_QUEUE_SIZE)\<rparr>))"

definition rbdAnchorComTp_GetRxQueueHead :: "nat \<Rightarrow> AnchorSt \<Rightarrow> rbdAnchorComTp_RxQueue_st option" where
  "rbdAnchorComTp_GetRxQueueHead oe s =
     (if rbdAnchorComTp_RxTail s oe = rbdAnchorComTp_RxHead s oe then None
      else Some (rbdAnchorComTp_RxMsgQueue s oe (rbdAnchorComTp_RxHead s oe)))"

definition rbdAnchorComTp_RemoveRxQueueHead :: "nat \<Rightarrow> AnchorSt \<Rightarrow> Std_ReturnType \<times> AnchorSt" where
  "rbdAnchorComTp_RemoveRxQueueHead oe s =
     (if rbdAnchorComTp_RxTail s oe = rbdAnchorComTp_RxHead s oe then (E_NOT_OK, s)
      else (E_OK, s\<lparr>rbdAnchorComTp_RxMsgQueue :=
                      upd2 oe (rbdAnchorComTp_RxHead s oe) (rq_QueueState_update (\<lambda>_. RBDANCHORCOM_TX_IDLE)) (rbdAnchorComTp_RxMsgQueue s),
                    rbdAnchorComTp_RxHead := (rbdAnchorComTp_RxHead s)(oe := (rbdAnchorComTp_RxHead s oe + 1) mod RBDANCHORCOM_TP_QUEUE_SIZE)\<rparr>))"

definition rbdAnchorComTp_AddRxQueue :: "nat \<Rightarrow> nat \<Rightarrow> bool \<Rightarrow> AnchorSt \<Rightarrow> Std_ReturnType \<times> AnchorSt" where
  "rbdAnchorComTp_AddRxQueue ch oe IsTempBuf s =
     (let t = rbdAnchorComTp_RxTail s oe in
      if (t + 1) mod RBDANCHORCOM_TP_QUEUE_SIZE = rbdAnchorComTp_RxHead s oe then (E_NOT_OK, s)
      else (E_OK, s\<lparr>rbdAnchorComTp_RxMsgQueue := upd2 oe t (\<lambda>q.
                      q\<lparr>rq_Channel := ch, rq_AnchorId := oe, rq_IsTempBuf := IsTempBuf, rq_QueueState := RBDANCHORCOM_RX_QUEUED,
                       rq_ErrCounter := 0,
                       rq_BufferPtr := (if IsTempBuf then ChRxTempRef ch oe else ChRxBuffRef ch oe),
                       rq_DataLen := (if IsTempBuf then cd_RxOffset (rbdAnchorComTp_ChRxTemp s ch oe)
                                     else cd_RxOffset (rbdAnchorComTp_ChRxBuff s ch oe))\<rparr>) (rbdAnchorComTp_RxMsgQueue s),
                    rbdAnchorComTp_RxTail := (rbdAnchorComTp_RxTail s)(oe := (t + 1) mod RBDANCHORCOM_TP_QUEUE_SIZE)\<rparr>))"

subsection \<open>Requests of the application\<close>

definition anc_target :: "AnchorCfg \<Rightarrow> nat \<Rightarrow> nat \<Rightarrow> nat" where
  "anc_target C Idx oe = (if cf_Broadcast (rbdAnchorComTp_MsgCfg C ! Idx) then RBD_PK_MAX_NODES C else oe)"

definition anc_buf_free :: "bool \<Rightarrow> AncBufState \<Rightarrow> bool" where
  "anc_buf_free OverwriteOldData st \<longleftrightarrow>
     st = RBDANCHORCOM_TPSTATE_IDLE \<or> (st = RBDANCHORCOM_TPSTATE_HASDATA \<and> OverwriteOldData)"

definition rbdAnchorCom_IsTxPossible :: "AnchorCfg \<Rightarrow> nat \<Rightarrow> nat \<Rightarrow> bool \<Rightarrow> AnchorSt \<Rightarrow> Std_ReturnType \<times> AnchorSt" where
  "rbdAnchorCom_IsTxPossible C oe PduId OverwriteOldData s =
     (let Idx = rbdAnchorComTp_FindIdx C PduId in
      if length (rbdAnchorComTp_MsgCfg C) \<le> Idx
      then (E_NOT_OK, rbdAnchorCom_ReportError PduId RBD_ANCHORCOM_API_TP_GETBUFFER RBD_ANCHORCOM_ERR_PDU s)
      else if RBDANCHORCOM_TP_NUM_LL_TX C \<le> oe
      then (E_NOT_OK, rbdAnchorCom_ReportError oe RBD_ANCHORCOM_API_TP_GETBUFFER RBD_ANCHORCOM_ERR_OTHERENDIDX s)
      else (if anc_buf_free OverwriteOldData (mi_BufState (rbdAnchorComTp_MsgTxInfo s (anc_target C Idx oe) Idx))
            then E_OK else E_NOT_OK, s))"

text \<open>\<^verbatim>\<open>Buf\<close> and \<^verbatim>\<open>Buf2\<close> are the memory they point to, \<open>None\<close> the null pointer.\<close>

definition rbdAnchorCom_Transmit ::
  "AnchorCfg \<Rightarrow> nat \<Rightarrow> nat \<Rightarrow> nat \<Rightarrow> mem option \<Rightarrow> nat \<Rightarrow> mem option \<Rightarrow> bool \<Rightarrow> AnchorSt \<Rightarrow> Std_ReturnType \<times> AnchorSt" where
  "rbdAnchorCom_Transmit C oe PduId Length Buf Length2 Buf2 OverwriteOldData s =
     (let Idx = rbdAnchorComTp_FindIdx C PduId;
          TotalLength = u16 (int Length + int Length2)
      in if length (rbdAnchorComTp_MsgCfg C) \<le> Idx
         then (E_NOT_OK, rbdAnchorCom_ReportError PduId RBD_ANCHORCOM_API_TP_TRANSMIT RBD_ANCHORCOM_ERR_PDU s)
         else if RBDANCHORCOM_TP_NUM_LL_TX C \<le> oe
         then (E_NOT_OK, rbdAnchorCom_ReportError oe RBD_ANCHORCOM_API_TP_GETBUFFER RBD_ANCHORCOM_ERR_OTHERENDIDX s)
         else if cf_Length (rbdAnchorComTp_MsgCfg C ! Idx) < TotalLength
         then (E_NOT_OK, rbdAnchorCom_ReportError Length RBD_ANCHORCOM_API_TP_TRANSMIT RBD_ANCHORCOM_ERR_LENGTH s)
         else case (Buf, Buf2) of
           (Some b, _) \<Rightarrow>
             if 0 < Length2 \<and> Buf2 = None
             then (E_NOT_OK, rbdAnchorCom_ReportError 0 RBD_ANCHORCOM_API_TP_TRANSMIT RBD_ANCHORCOM_ERR_NULL s)
             else let oe' = anc_target C Idx oe in
                  if anc_buf_free OverwriteOldData (mi_BufState (rbdAnchorComTp_MsgTxInfo s oe' Idx))
                  then let m1 = write_bytes (RBDANCHORCOM_HEADER_LEN C) (rd b 0 Length) (anc_TxBuffer s oe' Idx);
                           m2 = (case Buf2 of Some b2 \<Rightarrow> if 0 < Length2 then write_bytes (RBDANCHORCOM_HEADER_LEN C + Length) (rd b2 0 Length2) m1 else m1
                                            | None \<Rightarrow> m1);
                           s1 = s\<lparr>anc_TxBuffer := upd2 oe' Idx (\<lambda>_. m2) (anc_TxBuffer s),
                                  rbdAnchorComTp_MsgTxInfo :=
                                    upd2 oe Idx (mi_BufState_update (\<lambda>_. RBDANCHORCOM_TPSTATE_HASDATA))
                                      (upd2 oe' Idx (mi_Length_update (\<lambda>_. TotalLength)) (rbdAnchorComTp_MsgTxInfo s))\<rparr>;
                           (r, s2) = rbdAnchorComTp_AddTxQueue C oe' (u8 (int Idx)) s1
                       in if r = E_OK
                          then (E_OK, s2\<lparr>rbdAnchorComTp_MsgTxInfo :=
                                  upd2 oe' Idx (mi_BufState_update (\<lambda>_. RBDANCHORCOM_TPSTATE_HASDATA)) (rbdAnchorComTp_MsgTxInfo s2)\<rparr>)
                          else (E_NOT_OK, s2)
                  else (E_NOT_OK, s)
         | (None, _) \<Rightarrow> (E_NOT_OK, rbdAnchorCom_ReportError 0 RBD_ANCHORCOM_API_TP_TRANSMIT RBD_ANCHORCOM_ERR_NULL s))"

datatype rbdAnchorCom_Result_et = RBDANCHORCOM_OK | RBDANCHORCOM_FAIL | RBDANCHORCOM_PENDING | RBDANCHORCOM_FATAL_FAIL

text \<open>
  \<^verbatim>\<open>rbdAnchorComTp_TxStartTx\<close> for a queue entry: the channel is set up for a transmission from
  offset 0 and the request is passed down; \<open>transmit\<close> is \<^verbatim>\<open>PduR_TpTransmit\<close>, which works on the rest of the world.
\<close>

definition rbdAnchorComTp_TxStartTx ::
  "AnchorCfg \<Rightarrow> (nat \<Rightarrow> PduInfoType \<Rightarrow> 'e \<Rightarrow> Std_ReturnType \<times> 'e) \<Rightarrow> rbdAnchorComTp_Queue_st option \<Rightarrow> AnchorSt \<times> 'e \<Rightarrow>
     rbdAnchorCom_Result_et \<times> AnchorSt \<times> 'e" where
  "rbdAnchorComTp_TxStartTx C transmit QueuePtr = (\<lambda>(s, e).
     case QueuePtr of
        None \<Rightarrow> (RBDANCHORCOM_FATAL_FAIL, rbdAnchorCom_ReportError 0 RBD_ANCHORCOM_API_TX_FORMAT RBD_ANCHORCOM_ERR_NULL s, e)
      | Some q \<Rightarrow>
          let ch = tq_Channel q; oe = tq_AnchorId q;
              info = \<lparr>SduDataPtr = None, SduLength = mi_Length (rbdAnchorComTp_MsgTxInfo s oe (tq_MsgIdx q))\<rparr>;
              s1 = s\<lparr>rbdAnchorComTp_ChTxInfo :=
                       upd2 ch oe (\<lambda>_. \<lparr>ct_TxInProgress = True, ct_TxOffset = 0, ct_TxMsgIdx = tq_MsgIdx q\<rparr>) (rbdAnchorComTp_ChTxInfo s)\<rparr>;
              (r, e1) = transmit (rbdAnchorComTp_LowerTxCallPdu C ch oe) info e
          in (if r = E_OK then RBDANCHORCOM_OK else RBDANCHORCOM_FATAL_FAIL, s1, e1))"

definition rbdAnchorComTp_FinishData :: "rbdAnchorComTp_Queue_st option \<Rightarrow> AnchorSt \<Rightarrow> bool \<times> AnchorSt" where
  "rbdAnchorComTp_FinishData QueuePtr s =
     (case QueuePtr of
        None \<Rightarrow> (False, rbdAnchorCom_ReportError 0 RBD_ANCHORCOM_API_TX_FORMAT RBD_ANCHORCOM_ERR_NULL s)
      | Some q \<Rightarrow>
          let s1 = s\<lparr>rbdAnchorComTp_MsgTxInfo :=
                       upd2 (tq_AnchorId q) (tq_MsgIdx q) (mi_BufState_update (\<lambda>_. RBDANCHORCOM_TPSTATE_IDLE)) (rbdAnchorComTp_MsgTxInfo s)\<rparr>
          in (True, snd (rbdAnchorComTp_RemoveTxQueueHead (tq_AnchorId q) s1)))"

subsection \<open>Callbacks of the transport layer\<close>

text \<open>
  \<^verbatim>\<open>info\<close> of \<^verbatim>\<open>rbdAnchorComTp_CopyTxData\<close> is the requested length and whether there is a buffer
  to copy into; \<open>retry\<close> is the offset of a \<^verbatim>\<open>TP_DATARETRY\<close> request. The result is the return
  value, the bytes copied, and what \<^verbatim>\<open>availableDataPtr\<close> receives.
\<close>

definition rbdAnchorComTp_CopyTxData ::
  "AnchorCfg \<Rightarrow> nat \<Rightarrow> (nat \<times> bool) option \<Rightarrow> nat option \<Rightarrow> AnchorSt \<Rightarrow> BufReq_ReturnType \<times> nat list \<times> nat option \<times> AnchorSt" where
  "rbdAnchorComTp_CopyTxData C i info retry s =
     (case info of
        None \<Rightarrow> (BUFREQ_E_NOT_OK, [], None, rbdAnchorCom_ReportError i RBD_ANCHORCOM_API_TP_TXCOPY RBD_ANCHORCOM_ERR_NULL s)
      | Some (SduLen, hasBuf) \<Rightarrow>
         (case rbdAnchorComTp_FindByLLPdu C i (rbdAnchorComTp_LowerTxCbPdu C) (RBDANCHORCOM_TP_NUM_LL_TX C) of
            None \<Rightarrow> (BUFREQ_E_NOT_OK, [], None, rbdAnchorCom_ReportError i RBD_ANCHORCOM_API_TP_TXCOPY RBD_ANCHORCOM_ERR_PDU s)
          | Some (ch, oe) \<Rightarrow>
              let MsgIdx = ct_TxMsgIdx (rbdAnchorComTp_ChTxInfo s ch oe) in
              if rbdAnchorComTp_GetTxQueueHead oe s = None
              then (BUFREQ_E_NOT_OK, [], None, rbdAnchorCom_ReportError i RBD_ANCHORCOM_API_TP_TXCOPY RBD_ANCHORCOM_ERR_NULL s)
              else let Offset = (case retry of Some n \<Rightarrow> u16 (int n) | None \<Rightarrow> ct_TxOffset (rbdAnchorComTp_ChTxInfo s ch oe));
                       BytesRemaining = u16 (int (mi_Length (rbdAnchorComTp_MsgTxInfo s oe MsgIdx)) - int Offset);
                       BytesToCopy = (if BytesRemaining < u16 (int SduLen) then BytesRemaining else u16 (int SduLen))
                   in if hasBuf
                      then (BUFREQ_OK, rd (anc_TxBuffer s oe MsgIdx) (Offset + RBDANCHORCOM_CHANID_LEN C) BytesToCopy,
                            Some (BytesRemaining - BytesToCopy),
                            s\<lparr>rbdAnchorComTp_ChTxInfo :=
                                upd2 ch oe (ct_TxOffset_update (\<lambda>_. u16 (int Offset + int BytesToCopy))) (rbdAnchorComTp_ChTxInfo s)\<rparr>)
                      else (BUFREQ_OK, [], Some BytesRemaining, s)))"

definition anc_set_head :: "nat \<Rightarrow> (rbdAnchorComTp_Queue_st \<Rightarrow> rbdAnchorComTp_Queue_st) \<Rightarrow> AnchorSt \<Rightarrow> AnchorSt" where
  "anc_set_head oe f s = s\<lparr>rbdAnchorComTp_TxMsgQueue := upd2 oe (rbdAnchorComTp_TxHead s oe) f (rbdAnchorComTp_TxMsgQueue s)\<rparr>"

definition rbdAnchorComTp_TpTxConfirmation :: "AnchorCfg \<Rightarrow> nat \<Rightarrow> Std_ReturnType \<Rightarrow> AnchorSt \<Rightarrow> AnchorSt" where
  "rbdAnchorComTp_TpTxConfirmation C i result s =
     (case rbdAnchorComTp_FindByLLPdu C i (rbdAnchorComTp_LowerTxCbPdu C) (RBDANCHORCOM_TP_NUM_LL_TX C) of
        None \<Rightarrow> rbdAnchorCom_ReportError i RBD_ANCHORCOM_API_TP_TXCONFIRMATION RBD_ANCHORCOM_ERR_PDU s
      | Some (ch, oe) \<Rightarrow>
          if rbdAnchorComTp_GetTxQueueHead oe s = None
          then rbdAnchorCom_ReportError i RBD_ANCHORCOM_API_TP_TXCOPY RBD_ANCHORCOM_ERR_NULL s
          else if ct_TxInProgress (rbdAnchorComTp_ChTxInfo s ch oe)
          then let s1 = s\<lparr>rbdAnchorComTp_ChTxInfo := upd2 ch oe (ct_TxInProgress_update (\<lambda>_. False)) (rbdAnchorComTp_ChTxInfo s)\<rparr>
               in if result = E_OK
                  then anc_set_head oe (tq_QueueState_update (\<lambda>_. RBDANCHORCOM_TX_TRANS_DONE)) s1
                  else anc_set_head oe (\<lambda>q. q\<lparr>tq_QueueState := RBDANCHORCOM_TX_TRANS_READY,
                                              tq_ErrCounter := tq_ErrCounter q + 1\<rparr>) s1
          else s)"

definition rbdAnchorComTp_StartOfReception :: "AnchorCfg \<Rightarrow> nat \<Rightarrow> nat \<Rightarrow> AnchorSt \<Rightarrow> BufReq_ReturnType \<times> nat option \<times> AnchorSt" where
  "rbdAnchorComTp_StartOfReception C i TpSduLength s =
     (case rbdAnchorComTp_FindByLLPdu C i (rbdAnchorComTp_LowerRxPdu C) (RBDANCHORCOM_TP_NUM_LL_RX C) of
        None \<Rightarrow> (BUFREQ_E_NOT_OK, None, rbdAnchorCom_ReportError i RBD_ANCHORCOM_API_TP_RXSTART RBD_ANCHORCOM_ERR_PDU s)
      | Some (ch, oe) \<Rightarrow>
          if RBDANCHORCOM_TP_MAX_RX_BUFFER_LEN C < TpSduLength then (BUFREQ_E_OVFL, None, s)
          else (BUFREQ_OK, Some (RBDANCHORCOM_TP_MAX_RX_BUFFER_LEN C),
                s\<lparr>rbdAnchorComTp_ChRxInfo := upd2 ch oe (cr_RxOffset_update (\<lambda>_. RBDANCHORCOM_CHANID_LEN C)) (rbdAnchorComTp_ChRxInfo s)\<rparr>))"

text \<open>
  \<^verbatim>\<open>info\<close> of \<^verbatim>\<open>rbdAnchorComTp_CopyRxData\<close> is the data, or its absence (\<^verbatim>\<open>SduDataPtr\<close> null) with a length;
  the transport layer queries with length 0. Both pointers the function checks are non-null.
\<close>

definition rbdAnchorComTp_CopyRxData :: "AnchorCfg \<Rightarrow> nat \<Rightarrow> nat list option \<Rightarrow> nat \<Rightarrow> AnchorSt \<Rightarrow> BufReq_ReturnType \<times> nat option \<times> AnchorSt" where
  "rbdAnchorComTp_CopyRxData C i data SduLen s =
     (case rbdAnchorComTp_FindByLLPdu C i (rbdAnchorComTp_LowerRxPdu C) (RBDANCHORCOM_TP_NUM_LL_RX C) of
        None \<Rightarrow> (BUFREQ_E_NOT_OK, None, rbdAnchorCom_ReportError i RBD_ANCHORCOM_API_TP_RXCOPY RBD_ANCHORCOM_ERR_PDU s)
      | Some (ch, oe) \<Rightarrow>
          let Offset = cr_RxOffset (rbdAnchorComTp_ChRxInfo s ch oe);
              NewLength = ubits (AncPduLengthBits C) (int Offset + int SduLen)
          in if RBDANCHORCOM_TP_MAX_RX_BUFFER_LEN C < NewLength then (BUFREQ_E_OVFL, None, s)
             else (BUFREQ_OK, Some (RBDANCHORCOM_TP_MAX_RX_BUFFER_LEN C - NewLength),
                   case data of
                     None \<Rightarrow> s
                   | Some d \<Rightarrow> s\<lparr>rbdAnchorComTp_ChRxInfo :=
                       upd2 ch oe (\<lambda>x. \<lparr>cr_RxOffset = u16 (int NewLength), cr_RxBuffer = write_bytes Offset d (cr_RxBuffer x)\<rparr>)
                         (rbdAnchorComTp_ChRxInfo s)\<rparr>))"

definition anc_store :: "nat \<Rightarrow> rbdAnchorComTp_ChRxInfo_st \<Rightarrow> rbdAnchorComTp_ChRxDataInfo_st \<Rightarrow> rbdAnchorComTp_ChRxDataInfo_st" where
  "anc_store i x d =
     \<lparr>cd_RxBuffer = write_bytes 0 (rd (cr_RxBuffer x) 0 (cr_RxOffset x)) (cd_RxBuffer d),
      cd_RxOffset = cr_RxOffset x, cd_PduId = i, cd_NeedVerify = True\<rparr>"

definition rbdAnchorComTp_TpRxIndication :: "AnchorCfg \<Rightarrow> nat \<Rightarrow> Std_ReturnType \<Rightarrow> AnchorSt \<Rightarrow> AnchorSt" where
  "rbdAnchorComTp_TpRxIndication C i result s =
     (case rbdAnchorComTp_FindByLLPdu C i (rbdAnchorComTp_LowerRxPdu C) (RBDANCHORCOM_TP_NUM_LL_RX C) of
        None \<Rightarrow> rbdAnchorCom_ReportError i RBD_ANCHORCOM_API_TP_RXINDICATION RBD_ANCHORCOM_ERR_PDU s
      | Some (ch, oe) \<Rightarrow>
          if result \<noteq> E_OK then s
          else if RBDANCHORCOM_TP_MIN_RX_DATA_LEN C \<le> cr_RxOffset (rbdAnchorComTp_ChRxInfo s ch oe)
          then if \<not> cd_NeedVerify (rbdAnchorComTp_ChRxBuff s ch oe)
               then let (r, s1) = rbdAnchorComTp_AddRxQueue ch oe False
                          (s\<lparr>rbdAnchorComTp_ChRxBuff := upd2 ch oe (anc_store i (rbdAnchorComTp_ChRxInfo s ch oe)) (rbdAnchorComTp_ChRxBuff s)\<rparr>)
                    in if r = E_NOT_OK
                       then s1\<lparr>rbdAnchorComTp_ChRxBuff := upd2 ch oe (cd_NeedVerify_update (\<lambda>_. False)) (rbdAnchorComTp_ChRxBuff s1)\<rparr>
                       else s1
               else if \<not> cd_NeedVerify (rbdAnchorComTp_ChRxTemp s ch oe)
               then let (r, s1) = rbdAnchorComTp_AddRxQueue ch oe True
                          (s\<lparr>rbdAnchorComTp_ChRxTemp := upd2 ch oe (anc_store i (rbdAnchorComTp_ChRxInfo s ch oe)) (rbdAnchorComTp_ChRxTemp s)\<rparr>)
                    in if r = E_NOT_OK
                       then s1\<lparr>rbdAnchorComTp_ChRxTemp := upd2 ch oe (cd_NeedVerify_update (\<lambda>_. False)) (rbdAnchorComTp_ChRxTemp s1)\<rparr>
                       else s1
               else s
          else s)"

definition rbdAnchorComTp_Init :: "AnchorCfg \<Rightarrow> AnchorSt \<Rightarrow> AnchorSt" where
  "rbdAnchorComTp_Init C s =
     (let tx = (\<lambda>oe. oe < RBDANCHORCOM_TP_NUM_LL_TX C); rx = (\<lambda>oe. oe < RBDANCHORCOM_TP_NUM_LL_RX C);
          ch_ok = (\<lambda>ch. ch < RBDANCHORCOM_TPCH_MAX C);
          verify = (\<lambda>m ch oe. if ch_ok ch \<and> rx oe then (m ch oe)\<lparr>cd_NeedVerify := False\<rparr> else m ch oe)
      in s\<lparr>rbdAnchorComTp_MsgTxInfo := (\<lambda>oe i. if tx oe \<and> i < length (rbdAnchorComTp_MsgCfg C)
             then (rbdAnchorComTp_MsgTxInfo s oe i)\<lparr>mi_BufState := RBDANCHORCOM_TPSTATE_IDLE\<rparr> else rbdAnchorComTp_MsgTxInfo s oe i),
           rbdAnchorComTp_ChTxInfo := (\<lambda>ch oe. if ch_ok ch \<and> tx oe
             then (rbdAnchorComTp_ChTxInfo s ch oe)\<lparr>ct_TxInProgress := False\<rparr> else rbdAnchorComTp_ChTxInfo s ch oe),
           rbdAnchorComTp_TxHead := (\<lambda>oe. if tx oe then 0 else rbdAnchorComTp_TxHead s oe),
           rbdAnchorComTp_TxTail := (\<lambda>oe. if tx oe then 0 else rbdAnchorComTp_TxTail s oe),
           rbdAnchorComTp_ChRxBuff := verify (rbdAnchorComTp_ChRxBuff s),
           rbdAnchorComTp_ChRxTemp := verify (rbdAnchorComTp_ChRxTemp s),
           rbdAnchorComTp_RxHead := (\<lambda>oe. if rx oe then 0 else rbdAnchorComTp_RxHead s oe),
           rbdAnchorComTp_RxTail := (\<lambda>oe. if rx oe then 0 else rbdAnchorComTp_RxTail s oe)\<rparr>)"

subsection \<open>The queues as lists\<close>

definition ring_count :: "nat \<Rightarrow> nat \<Rightarrow> nat" where
  "ring_count h t = (t + RBDANCHORCOM_TP_QUEUE_SIZE - h) mod RBDANCHORCOM_TP_QUEUE_SIZE"

definition ring_list :: "(nat \<Rightarrow> 'a) \<Rightarrow> nat \<Rightarrow> nat \<Rightarrow> 'a list" where
  "ring_list q h t = map (\<lambda>i. q ((h + i) mod RBDANCHORCOM_TP_QUEUE_SIZE)) [0..<ring_count h t]"

lemma length_ring_list [simp]: "length (ring_list q h t) = ring_count h t"
  by (simp add: ring_list_def)

lemma ring_count_cases: "h < 16 \<Longrightarrow> t < 16 \<Longrightarrow> ring_count h t = (if h \<le> t then t - h else 16 + t - h)"
  by (auto simp: ring_count_def mod_if)

lemma ring_empty: "h < 16 \<Longrightarrow> t < 16 \<Longrightarrow> (ring_list q h t = []) = (t = h)"
  by (subst length_0_conv [symmetric]) (auto simp: ring_count_cases)

lemma ring_put:
  assumes "h < 16" "t < 16" "ring_count h t < 15"
  shows "ring_list (q(t := x)) h (Suc t mod 16) = ring_list q h t @ [x]" and "Suc t mod 16 \<noteq> h"
proof -
  have n: "ring_count h (Suc t mod 16) = Suc (ring_count h t)" and t: "(h + ring_count h t) mod 16 = t"
    using assms by (auto simp: ring_count_cases mod_if split: if_splits)
  have d: "(h + i) mod 16 \<noteq> t" if "i < ring_count h t" for i
    using assms that by (auto simp: ring_count_cases mod_if split: if_splits)
  show "ring_list (q(t := x)) h (Suc t mod 16) = ring_list q h t @ [x]"
    unfolding ring_list_def n using t d by simp
  show "Suc t mod 16 \<noteq> h" using assms by (auto simp: ring_count_cases mod_if split: if_splits)
qed

lemma ring_get:
  assumes "h < 16" "t < 16" "ring_list q h t = x # xs"
  shows "q h = x" and "ring_list q (Suc h mod 16) t = xs" and "t \<noteq> h"
proof -
  have c: "ring_count h t = Suc (length xs)" using assms(3) by (metis length_Cons length_ring_list)
  then show "t \<noteq> h" by (auto simp: ring_count_def)
  have n: "ring_count (Suc h mod 16) t = length xs"
    using c assms by (auto simp: ring_count_cases mod_if split: if_splits)
  have nth: "(x # xs) ! i = q ((h + i) mod 16)" if "i < Suc (length xs)" for i
    using that c unfolding assms(3) [symmetric] by (simp add: ring_list_def del: upt_Suc)
  show "q h = x" using nth [of 0] assms(1) by simp
  show "ring_list q (Suc h mod 16) t = xs"
  proof (rule nth_equalityI)
    show "length (ring_list q (Suc h mod 16) t) = length xs" using n by simp
  next
    fix i assume "i < length (ring_list q (Suc h mod 16) t)"
    then have i: "i < length xs" using n by simp
    have "(Suc h mod 16 + i) mod 16 = (h + Suc i) mod 16" by (simp add: mod_Suc_eq mod_add_left_eq)
    with i n nth [of "Suc i"] show "ring_list q (Suc h mod 16) t ! i = xs ! i"
      by (simp add: ring_list_def)
  qed
qed

text \<open>The transmit queue of one peer, as the interface of a bounded queue sees it.\<close>

definition txq_get :: "nat \<Rightarrow> AnchorSt \<Rightarrow> nat option \<times> AnchorSt" where
  "txq_get oe s = (map_option tq_MsgIdx (rbdAnchorComTp_GetTxQueueHead oe s), snd (rbdAnchorComTp_RemoveTxQueueHead oe s))"

definition txq_list :: "nat \<Rightarrow> AnchorSt \<Rightarrow> nat list" where
  "txq_list oe s = map tq_MsgIdx (ring_list (rbdAnchorComTp_TxMsgQueue s oe) (rbdAnchorComTp_TxHead s oe) (rbdAnchorComTp_TxTail s oe))"

definition txq_ok :: "nat \<Rightarrow> AnchorSt \<Rightarrow> bool" where
  "txq_ok oe s \<longleftrightarrow> rbdAnchorComTp_TxHead s oe < RBDANCHORCOM_TP_QUEUE_SIZE \<and> rbdAnchorComTp_TxTail s oe < RBDANCHORCOM_TP_QUEUE_SIZE"

interpretation txq: bounded_fifo "rbdAnchorComTp_AddTxQueue C oe" "txq_get oe" "txq_list oe" 15 "txq_ok oe"
  for C oe
proof
  fix s x
  assume ok: "txq_ok oe s" and c: "length (txq_list oe s) < 15"
  let ?h = "rbdAnchorComTp_TxHead s oe" and ?t = "rbdAnchorComTp_TxTail s oe"
  have b: "?h < 16" "?t < 16" "ring_count ?h ?t < 15" using ok c by (auto simp: txq_ok_def txq_list_def)
  have q: "upd2 oe ?t f Q oe = (Q oe)(?t := f (Q oe ?t))" for f and Q :: "nat \<Rightarrow> nat \<Rightarrow> rbdAnchorComTp_Queue_st"
    by (simp add: upd2_def)
  show "fst (rbdAnchorComTp_AddTxQueue C oe x s) = E_OK \<and>
      txq_list oe (snd (rbdAnchorComTp_AddTxQueue C oe x s)) = txq_list oe s @ [x] \<and>
      txq_ok oe (snd (rbdAnchorComTp_AddTxQueue C oe x s))"
    using b by (simp add: ring_put [OF b] rbdAnchorComTp_AddTxQueue_def Let_def txq_list_def txq_ok_def q)
next
  fix s
  assume ok: "txq_ok oe s" and "txq_list oe s = []"
  then show "txq_get oe s = (None, s)"
    by (auto simp: txq_list_def txq_ok_def ring_empty txq_get_def rbdAnchorComTp_GetTxQueueHead_def rbdAnchorComTp_RemoveTxQueueHead_def)
next
  fix s x xs
  assume ok: "txq_ok oe s" and l: "txq_list oe s = x # xs"
  let ?h = "rbdAnchorComTp_TxHead s oe" and ?t = "rbdAnchorComTp_TxTail s oe"
  obtain y ys where y: "ring_list (rbdAnchorComTp_TxMsgQueue s oe) ?h ?t = y # ys" "tq_MsgIdx y = x" "map tq_MsgIdx ys = xs"
    using l by (auto simp: txq_list_def)
  from ring_get [OF _ _ y(1)] ok y(2,3)
  show "fst (txq_get oe s) = Some x \<and> txq_list oe (snd (txq_get oe s)) = xs \<and> txq_ok oe (snd (txq_get oe s))"
    by (simp add: txq_get_def rbdAnchorComTp_GetTxQueueHead_def rbdAnchorComTp_RemoveTxQueueHead_def txq_list_def txq_ok_def)
qed

text \<open>The receive queue of one peer; an element is the channel and whether the temporary buffer holds the data.\<close>

definition rxq_put :: "nat \<Rightarrow> nat \<times> bool \<Rightarrow> AnchorSt \<Rightarrow> Std_ReturnType \<times> AnchorSt" where
  "rxq_put oe x s = rbdAnchorComTp_AddRxQueue (fst x) oe (snd x) s"

definition rxq_get :: "nat \<Rightarrow> AnchorSt \<Rightarrow> (nat \<times> bool) option \<times> AnchorSt" where
  "rxq_get oe s = (map_option (\<lambda>q. (rq_Channel q, rq_IsTempBuf q)) (rbdAnchorComTp_GetRxQueueHead oe s),
     snd (rbdAnchorComTp_RemoveRxQueueHead oe s))"

definition rxq_list :: "nat \<Rightarrow> AnchorSt \<Rightarrow> (nat \<times> bool) list" where
  "rxq_list oe s = map (\<lambda>q. (rq_Channel q, rq_IsTempBuf q))
     (ring_list (rbdAnchorComTp_RxMsgQueue s oe) (rbdAnchorComTp_RxHead s oe) (rbdAnchorComTp_RxTail s oe))"

definition rxq_ok :: "nat \<Rightarrow> AnchorSt \<Rightarrow> bool" where
  "rxq_ok oe s \<longleftrightarrow> rbdAnchorComTp_RxHead s oe < RBDANCHORCOM_TP_QUEUE_SIZE \<and> rbdAnchorComTp_RxTail s oe < RBDANCHORCOM_TP_QUEUE_SIZE"

lemma map_ring_upd: "g (f (q h)) = g (q h) \<Longrightarrow> map g (ring_list (q(h := f (q h))) a b) = map g (ring_list q a b)"
  by (simp add: ring_list_def)

interpretation rxq: bounded_fifo "rxq_put oe" "rxq_get oe" "rxq_list oe" 15 "rxq_ok oe"
  for oe
proof
  fix s x
  assume ok: "rxq_ok oe s" and c: "length (rxq_list oe s) < 15"
  let ?h = "rbdAnchorComTp_RxHead s oe" and ?t = "rbdAnchorComTp_RxTail s oe"
  have b: "?h < 16" "?t < 16" "ring_count ?h ?t < 15" using ok c by (auto simp: rxq_ok_def rxq_list_def)
  have q: "upd2 oe ?t f Q oe = (Q oe)(?t := f (Q oe ?t))" for f and Q :: "nat \<Rightarrow> nat \<Rightarrow> rbdAnchorComTp_RxQueue_st"
    by (simp add: upd2_def)
  show "fst (rxq_put oe x s) = E_OK \<and> rxq_list oe (snd (rxq_put oe x s)) = rxq_list oe s @ [x] \<and> rxq_ok oe (snd (rxq_put oe x s))"
    using b by (simp add: ring_put [OF b] rxq_put_def rbdAnchorComTp_AddRxQueue_def Let_def rxq_list_def rxq_ok_def q)
next
  fix s
  assume ok: "rxq_ok oe s" and "rxq_list oe s = []"
  then show "rxq_get oe s = (None, s)"
    by (auto simp: rxq_list_def rxq_ok_def ring_empty rxq_get_def rbdAnchorComTp_GetRxQueueHead_def rbdAnchorComTp_RemoveRxQueueHead_def)
next
  fix s x xs
  assume ok: "rxq_ok oe s" and l: "rxq_list oe s = x # xs"
  let ?h = "rbdAnchorComTp_RxHead s oe" and ?t = "rbdAnchorComTp_RxTail s oe"
  obtain y ys where y: "ring_list (rbdAnchorComTp_RxMsgQueue s oe) ?h ?t = y # ys" "(rq_Channel y, rq_IsTempBuf y) = x"
     "map (\<lambda>q. (rq_Channel q, rq_IsTempBuf q)) ys = xs"
    using l by (auto simp: rxq_list_def)
  have q: "upd2 oe ?h f Q oe = (Q oe)(?h := f (Q oe ?h))" for f and Q :: "nat \<Rightarrow> nat \<Rightarrow> rbdAnchorComTp_RxQueue_st"
    by (simp add: upd2_def)
  from ring_get [OF _ _ y(1)] ok y(2,3)
  show "fst (rxq_get oe s) = Some x \<and> rxq_list oe (snd (rxq_get oe s)) = xs \<and> rxq_ok oe (snd (rxq_get oe s))"
    by (auto simp: rxq_get_def rbdAnchorComTp_GetRxQueueHead_def rbdAnchorComTp_RemoveRxQueueHead_def rxq_list_def rxq_ok_def q map_ring_upd)
qed

subsection \<open>Properties\<close>

text \<open>A configuration with two messages and two peers, for the concrete instances of the properties.\<close>

definition anc_demo_cfg :: AnchorCfg where
  "anc_demo_cfg =
     \<lparr>RBDANCHORCOM_TPCH_MAX = 1, RBDANCHORCOM_TP_NUM_LL_TX = 2, RBDANCHORCOM_TP_NUM_LL_RX = 2, RBDANCHORCOM_TP_MAX_RX_BUFFER_LEN = 64,
      RBDANCHORCOM_TP_MIN_RX_DATA_LEN = 3, RBDANCHORCOM_CHANID_LEN = 1, RBDANCHORCOM_HEADER_LEN = 1, RBD_PK_MAX_NODES = 1,
      rbdAnchorComTp_MsgCfg = [\<lparr>cf_PduId = 20, cf_Channel = 0, cf_HasRxIndication = False, cf_Length = 40, cf_EncDecFlag = False, cf_Broadcast = False\<rparr>,
                               \<lparr>cf_PduId = 21, cf_Channel = 0, cf_HasRxIndication = False, cf_Length = 8, cf_EncDecFlag = False, cf_Broadcast = False\<rparr>],
      rbdAnchorComTp_LowerTxCbPdu = (\<lambda>i. i), rbdAnchorComTp_LowerRxPdu = (\<lambda>i. i), rbdAnchorComTp_LowerTxCallPdu = (\<lambda>ch oe. oe),
      AncPduLengthBits = 16\<rparr>"

definition anc_demo :: AnchorSt where
  "anc_demo = rbdAnchorComTp_Init anc_demo_cfg
     \<lparr>rbdAnchorComTp_MsgTxInfo = (\<lambda>_ _. \<lparr>mi_BufState = RBDANCHORCOM_TPSTATE_IDLE, mi_Length = 0\<rparr>), anc_TxBuffer = (\<lambda>_ _ _. 0),
      rbdAnchorComTp_TxMsgQueue = (\<lambda>_ _. \<lparr>tq_MsgIdx = 0, tq_AnchorId = 0, tq_Channel = 0, tq_QueueState = RBDANCHORCOM_TX_IDLE, tq_ErrCounter = 0,
        tq_TruncFresh = 0, tq_CmacValue = (\<lambda>_. 0)\<rparr>),
      rbdAnchorComTp_RxMsgQueue = (\<lambda>_ _. \<lparr>rq_Channel = 0, rq_AnchorId = 0, rq_IsTempBuf = False, rq_QueueState = RBDANCHORCOM_TX_IDLE,
        rq_ErrCounter = 0, rq_BufferPtr = ChRxBuffRef 0 0, rq_DataLen = 0, rq_MsgIdx = 0, rq_TruncFresh = 0, rq_CmacValue = (\<lambda>_. 0)\<rparr>),
      rbdAnchorComTp_TxHead = (\<lambda>_. 0), rbdAnchorComTp_TxTail = (\<lambda>_. 0), rbdAnchorComTp_RxHead = (\<lambda>_. 0), rbdAnchorComTp_RxTail = (\<lambda>_. 0),
      rbdAnchorComTp_ChTxInfo = (\<lambda>_ _. \<lparr>ct_TxInProgress = False, ct_TxOffset = 0, ct_TxMsgIdx = 0\<rparr>),
      rbdAnchorComTp_ChRxInfo = (\<lambda>_ _. \<lparr>cr_RxOffset = 0, cr_RxBuffer = (\<lambda>_. 0)\<rparr>),
      rbdAnchorComTp_ChRxBuff = (\<lambda>_ _. \<lparr>cd_RxBuffer = (\<lambda>_. 0), cd_RxOffset = 0, cd_PduId = 0, cd_NeedVerify = False\<rparr>),
      rbdAnchorComTp_ChRxTemp = (\<lambda>_ _. \<lparr>cd_RxBuffer = (\<lambda>_. 0), cd_RxOffset = 0, cd_PduId = 0, cd_NeedVerify = False\<rparr>), anc_errors = []\<rparr>"

lemma Init_txq: "oe < RBDANCHORCOM_TP_NUM_LL_TX C \<Longrightarrow> txq_ok oe (rbdAnchorComTp_Init C s) \<and> txq_list oe (rbdAnchorComTp_Init C s) = []"
  by (simp add: rbdAnchorComTp_Init_def txq_ok_def txq_list_def ring_list_def ring_count_def Let_def)

text \<open>
  The transmit queue of a peer is first-in-first-out: after initialisation, up to 15 messages added
  to the queue are taken out in the order in which they were added.
\<close>

theorem anchor_tx_fifo:
  assumes "oe < RBDANCHORCOM_TP_NUM_LL_TX C" "length ms \<le> 15" "i < length ms"
  shows "fst (txq_get oe (((\<lambda>s. snd (txq_get oe s)) ^^ i)
           (fold (\<lambda>m s. snd (rbdAnchorComTp_AddTxQueue C oe m s)) ms (rbdAnchorComTp_Init C s)))) = Some (ms ! i)"
  using txq.fifo_order Init_txq [OF assms(1)] assms(2,3) by blast

theorem anchor_tx_fifo_witness:
  "fst (txq_get 1 (((\<lambda>s. snd (txq_get 1 s)) ^^ 2)
           (fold (\<lambda>m s. snd (rbdAnchorComTp_AddTxQueue anc_demo_cfg 1 m s)) [1, 0, 1] (rbdAnchorComTp_Init anc_demo_cfg anc_demo)))) = Some 1"
  using anchor_tx_fifo [of 1 anc_demo_cfg "[1, 0, 1]" 2 anc_demo] by (simp add: anc_demo_cfg_def)

text \<open>The checks of \<^verbatim>\<open>rbdAnchorCom_Transmit\<close> that come before the buffer state.\<close>

definition anc_request_ok :: "AnchorCfg \<Rightarrow> nat \<Rightarrow> nat \<Rightarrow> nat \<Rightarrow> nat \<Rightarrow> mem option \<Rightarrow> bool" where
  "anc_request_ok C oe Idx Length Length2 Buf2 \<longleftrightarrow>
     Idx < length (rbdAnchorComTp_MsgCfg C) \<and> Idx < 256 \<and> oe < RBDANCHORCOM_TP_NUM_LL_TX C \<and>
     u16 (int Length + int Length2) \<le> cf_Length (rbdAnchorComTp_MsgCfg C ! Idx) \<and> (Length2 = 0 \<or> Buf2 \<noteq> None)"

definition anc_payload :: "nat \<Rightarrow> mem \<Rightarrow> nat \<Rightarrow> mem option \<Rightarrow> nat list" where
  "anc_payload Length b Length2 Buf2 = rd b 0 Length @ (case Buf2 of Some b2 \<Rightarrow> rd b2 0 Length2 | None \<Rightarrow> [])"

lemma write_bytes_append: "write_bytes p (xs @ ys) m = write_bytes (p + length xs) ys (write_bytes p xs m)"
  by (induction xs arbitrary: p m) simp_all

lemma rd_zero [simp]: "rd m off 0 = []"
  by (simp add: rd_def)

lemma Transmit_accepted:
  assumes ok: "anc_request_ok C oe Idx Length Length2 Buf2" and idx: "rbdAnchorComTp_FindIdx C PduId = Idx"
    and free: "anc_buf_free ow (mi_BufState (rbdAnchorComTp_MsgTxInfo s (anc_target C Idx oe) Idx))"
    and t: "t = anc_target C Idx oe" and n: "Length2 = 0 \<longrightarrow> Buf2 = None"
  shows "rbdAnchorCom_Transmit C oe PduId Length (Some b) Length2 Buf2 ow s =
     (let s1 = s\<lparr>anc_TxBuffer := upd2 t Idx (\<lambda>_. write_bytes (RBDANCHORCOM_HEADER_LEN C) (anc_payload Length b Length2 Buf2) (anc_TxBuffer s t Idx)) (anc_TxBuffer s),
                 rbdAnchorComTp_MsgTxInfo :=
                   upd2 oe Idx (mi_BufState_update (\<lambda>_. RBDANCHORCOM_TPSTATE_HASDATA))
                     (upd2 t Idx (mi_Length_update (\<lambda>_. u16 (int Length + int Length2))) (rbdAnchorComTp_MsgTxInfo s))\<rparr>;
          (r, s2) = rbdAnchorComTp_AddTxQueue C t Idx s1
      in if r = E_OK
         then (E_OK, s2\<lparr>rbdAnchorComTp_MsgTxInfo :=
                 upd2 t Idx (mi_BufState_update (\<lambda>_. RBDANCHORCOM_TPSTATE_HASDATA)) (rbdAnchorComTp_MsgTxInfo s2)\<rparr>)
         else (E_NOT_OK, s2))"
proof -
  have u: "u8 (int Idx) = Idx" using ok by (simp add: anc_request_ok_def u8_of_nat)
  have b2: "(case Buf2 of Some b2 \<Rightarrow> if 0 < Length2 then write_bytes (RBDANCHORCOM_HEADER_LEN C + Length) (rd b2 0 Length2) m else m | None \<Rightarrow> m)
      = write_bytes (RBDANCHORCOM_HEADER_LEN C + Length) (case Buf2 of Some b2 \<Rightarrow> rd b2 0 Length2 | None \<Rightarrow> []) m" for m
    using n by (cases Buf2) auto
  show ?thesis
    using ok free t unfolding rbdAnchorCom_Transmit_def idx Let_def u b2
    by (simp add: anc_request_ok_def anc_payload_def write_bytes_append
        del: upd2_apply split: option.splits) (auto simp: not_le)
qed

lemma AddTxQueue_keeps:
  "rbdAnchorComTp_MsgTxInfo (snd (rbdAnchorComTp_AddTxQueue C oe x s)) = rbdAnchorComTp_MsgTxInfo s"
  "anc_TxBuffer (snd (rbdAnchorComTp_AddTxQueue C oe x s)) = anc_TxBuffer s"
  by (simp_all add: rbdAnchorComTp_AddTxQueue_def Let_def)

lemma AddTxQueue_full: "txq_ok oe s \<Longrightarrow> length (txq_list oe s) = 15 \<Longrightarrow> rbdAnchorComTp_AddTxQueue C oe x s = (E_NOT_OK, s)"
  by (auto simp: txq_ok_def txq_list_def ring_count_cases rbdAnchorComTp_AddTxQueue_def Let_def mod_if split: if_splits)

lemma txq_cong:
  assumes "rbdAnchorComTp_TxMsgQueue s' = rbdAnchorComTp_TxMsgQueue s" "rbdAnchorComTp_TxHead s' = rbdAnchorComTp_TxHead s"
    "rbdAnchorComTp_TxTail s' = rbdAnchorComTp_TxTail s"
  shows "txq_list oe s' = txq_list oe s" "txq_ok oe s' = txq_ok oe s"
  using assms by (simp_all add: txq_list_def txq_ok_def)

lemma Transmit_stored:
  assumes ok: "anc_request_ok C oe Idx Length Length2 Buf2" and idx: "rbdAnchorComTp_FindIdx C PduId = Idx"
    and free: "anc_buf_free ow (mi_BufState (rbdAnchorComTp_MsgTxInfo s (anc_target C Idx oe) Idx))"
    and t: "t = anc_target C Idx oe" and n: "Length2 = 0 \<longrightarrow> Buf2 = None"
    and q: "txq_ok t s" "length (txq_list t s) < 15"
  shows "\<exists>s'. rbdAnchorCom_Transmit C oe PduId Length (Some b) Length2 Buf2 ow s = (E_OK, s') \<and>
     anc_TxBuffer s' t Idx = write_bytes (RBDANCHORCOM_HEADER_LEN C) (anc_payload Length b Length2 Buf2) (anc_TxBuffer s t Idx) \<and>
     rbdAnchorComTp_MsgTxInfo s' t Idx = \<lparr>mi_BufState = RBDANCHORCOM_TPSTATE_HASDATA, mi_Length = u16 (int Length + int Length2)\<rparr> \<and>
     txq_list t s' = txq_list t s @ [Idx] \<and> txq_ok t s'"
proof -
  let ?s1 = "s\<lparr>anc_TxBuffer := upd2 t Idx (\<lambda>_. write_bytes (RBDANCHORCOM_HEADER_LEN C) (anc_payload Length b Length2 Buf2) (anc_TxBuffer s t Idx)) (anc_TxBuffer s),
                 rbdAnchorComTp_MsgTxInfo :=
                   upd2 oe Idx (mi_BufState_update (\<lambda>_. RBDANCHORCOM_TPSTATE_HASDATA))
                     (upd2 t Idx (mi_Length_update (\<lambda>_. u16 (int Length + int Length2))) (rbdAnchorComTp_MsgTxInfo s))\<rparr>"
  define s2 where "s2 = snd (rbdAnchorComTp_AddTxQueue C t Idx ?s1)"
  have q1: "txq_ok t ?s1" "txq_list t ?s1 = txq_list t s" using q(1) by (simp_all add: txq_ok_def txq_list_def)
  have "fst (rbdAnchorComTp_AddTxQueue C t Idx ?s1) = E_OK" and l: "txq_list t s2 = txq_list t s @ [Idx]" "txq_ok t s2"
    using txq.put_ok [OF q1(1), of C Idx] q(2) unfolding q1(2) s2_def by simp_all
  then have add: "rbdAnchorComTp_AddTxQueue C t Idx ?s1 = (E_OK, s2)" unfolding s2_def by (metis prod.collapse)
  have k: "rbdAnchorComTp_MsgTxInfo s2 = rbdAnchorComTp_MsgTxInfo ?s1" "anc_TxBuffer s2 = anc_TxBuffer ?s1"
    unfolding s2_def by (rule AddTxQueue_keeps)+
  let ?s3 = "s2\<lparr>rbdAnchorComTp_MsgTxInfo := upd2 t Idx (mi_BufState_update (\<lambda>_. RBDANCHORCOM_TPSTATE_HASDATA)) (rbdAnchorComTp_MsgTxInfo s2)\<rparr>"
  have "rbdAnchorCom_Transmit C oe PduId Length (Some b) Length2 Buf2 ow s = (E_OK, ?s3)"
    unfolding Transmit_accepted [OF ok idx free t n] Let_def add by simp
  then show ?thesis using l k by (intro exI [of _ ?s3]) (simp add: txq_list_def txq_ok_def)
qed

text \<open>
  An accepted transmit request stores the two parts of the message one after the other behind the
  header of the message buffer, records their total length, and appends the message to the
  transmit queue of the peer it goes to.
\<close>

theorem anchor_transmit_stores:
  assumes "anc_request_ok C oe Idx Length Length2 Buf2" "rbdAnchorComTp_FindIdx C PduId = Idx" "t = anc_target C Idx oe"
    and "anc_buf_free ow (mi_BufState (rbdAnchorComTp_MsgTxInfo s t Idx))" "Length2 = 0 \<longrightarrow> Buf2 = None"
    and "txq_ok t s" "length (txq_list t s) < 15" "Length + Length2 < 65536"
  shows "\<exists>s'. rbdAnchorCom_Transmit C oe PduId Length (Some b) Length2 Buf2 ow s = (E_OK, s') \<and>
     rd (anc_TxBuffer s' t Idx) (RBDANCHORCOM_HEADER_LEN C) (Length + Length2) = anc_payload Length b Length2 Buf2 \<and>
     rbdAnchorComTp_MsgTxInfo s' t Idx = \<lparr>mi_BufState = RBDANCHORCOM_TPSTATE_HASDATA, mi_Length = Length + Length2\<rparr> \<and>
     txq_list t s' = txq_list t s @ [Idx]"
proof -
  have l: "length (anc_payload Length b Length2 Buf2) = Length + Length2"
    using assms(1,5) by (auto simp: anc_payload_def anc_request_ok_def split: option.splits)
  then have "rd (write_bytes (RBDANCHORCOM_HEADER_LEN C) (anc_payload Length b Length2 Buf2) m) (RBDANCHORCOM_HEADER_LEN C) (Length + Length2)
     = anc_payload Length b Length2 Buf2" for m
    by (intro rd_eqI) (auto simp: write_bytes_apply)
  with Transmit_stored [OF assms(1,2) assms(4) [unfolded assms(3)] assms(3,5-7), of b] assms(8) u16_of_nat [of "Length + Length2"]
  show ?thesis by auto
qed

lemma anc_demo_ok:
  "anc_request_ok anc_demo_cfg 0 0 2 2 (Some b2)" "rbdAnchorComTp_FindIdx anc_demo_cfg 20 = 0" "anc_target anc_demo_cfg 0 0 = 0"
  "txq_ok 0 anc_demo" "txq_list 0 anc_demo = []" "mi_BufState (rbdAnchorComTp_MsgTxInfo anc_demo 0 0) = RBDANCHORCOM_TPSTATE_IDLE"
  by (simp_all add: anc_request_ok_def anc_demo_cfg_def rbdAnchorComTp_FindIdx_def anc_target_def u16_def anc_demo_def
      rbdAnchorComTp_Init_def txq_ok_def txq_list_def ring_list_def ring_count_def)

theorem anchor_transmit_stores_witness:
  "\<exists>s'. rbdAnchorCom_Transmit anc_demo_cfg 0 20 2 (Some (mem_of [7, 8])) 2 (Some (mem_of [9, 10])) False anc_demo = (E_OK, s') \<and>
     rd (anc_TxBuffer s' 0 0) 1 4 = [7, 8, 9, 10] \<and> txq_list 0 s' = [0]"
  using anchor_transmit_stores [of anc_demo_cfg 0 0 2 2 "Some (mem_of [9, 10])" 20 0 False anc_demo "mem_of [7, 8]"]
  by (simp add: anc_demo_ok anc_buf_free_def) (auto simp: anc_demo_cfg_def anc_payload_def rd_mem_of)

text \<open>
  A transmit request that finds the queue full is refused, but the buffer of the message stays
  marked as holding data although no queue entry refers to it: further requests without the
  overwrite flag, and \<^verbatim>\<open>rbdAnchorCom_IsTxPossible\<close>, are refused from then on, and only the completion
  of a queued transmission would clear the mark.
\<close>

theorem anchor_full_queue_strands_buffer:
  assumes "anc_request_ok C oe Idx Length Length2 Buf2" "rbdAnchorComTp_FindIdx C PduId = Idx" "anc_target C Idx oe = oe"
    and "mi_BufState (rbdAnchorComTp_MsgTxInfo s oe Idx) = RBDANCHORCOM_TPSTATE_IDLE" "Length2 = 0 \<longrightarrow> Buf2 = None"
    and "txq_ok oe s" "length (txq_list oe s) = 15" "Idx \<notin> set (txq_list oe s)"
  shows "\<exists>s'. rbdAnchorCom_Transmit C oe PduId Length (Some b) Length2 Buf2 False s = (E_NOT_OK, s') \<and>
     txq_list oe s' = txq_list oe s \<and> Idx \<notin> set (txq_list oe s') \<and>
     rbdAnchorCom_IsTxPossible C oe PduId False s' = (E_NOT_OK, s')"
proof -
  let ?s1 = "s\<lparr>anc_TxBuffer := upd2 oe Idx (\<lambda>_. write_bytes (RBDANCHORCOM_HEADER_LEN C) (anc_payload Length b Length2 Buf2) (anc_TxBuffer s oe Idx)) (anc_TxBuffer s),
                 rbdAnchorComTp_MsgTxInfo :=
                   upd2 oe Idx (mi_BufState_update (\<lambda>_. RBDANCHORCOM_TPSTATE_HASDATA))
                     (upd2 oe Idx (mi_Length_update (\<lambda>_. u16 (int Length + int Length2))) (rbdAnchorComTp_MsgTxInfo s))\<rparr>"
  have l: "txq_list oe ?s1 = txq_list oe s" "txq_ok oe ?s1" using assms(6) by (simp_all add: txq_list_def txq_ok_def)
  have add: "rbdAnchorComTp_AddTxQueue C oe Idx ?s1 = (E_NOT_OK, ?s1)"
    using AddTxQueue_full l assms(7) by simp
  have free: "anc_buf_free False (mi_BufState (rbdAnchorComTp_MsgTxInfo s (anc_target C Idx oe) Idx))"
    using assms(3,4) by (simp add: anc_buf_free_def)
  have "rbdAnchorCom_Transmit C oe PduId Length (Some b) Length2 Buf2 False s = (E_NOT_OK, ?s1)"
    unfolding Transmit_accepted [OF assms(1,2) free assms(3) [symmetric] assms(5)] Let_def add by simp
  moreover have "rbdAnchorCom_IsTxPossible C oe PduId False ?s1 = (E_NOT_OK, ?s1)"
    using assms(1,3) by (simp add: rbdAnchorCom_IsTxPossible_def assms(2) anc_request_ok_def anc_buf_free_def Let_def)
  moreover have "Idx \<notin> set (txq_list oe ?s1)" using l(1) assms(8) by metis
  ultimately show ?thesis using l(1) by metis
qed

definition anc_demo_full :: AnchorSt where
  "anc_demo_full = fold (\<lambda>m s. snd (rbdAnchorComTp_AddTxQueue anc_demo_cfg 0 m s)) (replicate 15 1) anc_demo"

lemma anc_demo_full_ok:
  "txq_ok 0 anc_demo_full" "txq_list 0 anc_demo_full = replicate 15 1"
  "mi_BufState (rbdAnchorComTp_MsgTxInfo anc_demo_full 0 0) = RBDANCHORCOM_TPSTATE_IDLE"
proof -
  show "txq_ok 0 anc_demo_full" "txq_list 0 anc_demo_full = replicate 15 1"
    using txq.puts_contents [of 0 anc_demo "replicate 15 1" anc_demo_cfg]
    unfolding anc_demo_full_def txq.puts_fold by (simp_all add: anc_demo_ok)
  have "rbdAnchorComTp_MsgTxInfo (fold (\<lambda>m s. snd (rbdAnchorComTp_AddTxQueue anc_demo_cfg 0 m s)) ms s) = rbdAnchorComTp_MsgTxInfo s" for ms s
    by (induction ms arbitrary: s) (simp_all add: AddTxQueue_keeps)
  then show "mi_BufState (rbdAnchorComTp_MsgTxInfo anc_demo_full 0 0) = RBDANCHORCOM_TPSTATE_IDLE"
    unfolding anc_demo_full_def by (simp only: anc_demo_ok)
qed

theorem anchor_full_queue_strands_buffer_witness:
  "\<exists>s'. rbdAnchorCom_Transmit anc_demo_cfg 0 20 2 (Some (mem_of [7, 8])) 2 (Some (mem_of [9, 10])) False anc_demo_full = (E_NOT_OK, s') \<and>
     rbdAnchorCom_IsTxPossible anc_demo_cfg 0 20 False s' = (E_NOT_OK, s')"
  using anchor_full_queue_strands_buffer [of anc_demo_cfg 0 0 2 2 "Some (mem_of [9, 10])" 20 anc_demo_full "mem_of [7, 8]"]
  by (auto simp: anc_demo_ok anc_demo_full_ok)

text \<open>
  The length check of a transmit request is on the 16-bit sum of the two lengths: two parts whose
  sum wraps around pass it although together they are longer than the message buffer, and the
  first part is copied whole, past the configured length.
\<close>

theorem anchor_length_check_wraps:
  assumes "anc_request_ok C oe Idx Length Length2 Buf2" "rbdAnchorComTp_FindIdx C PduId = Idx" "t = anc_target C Idx oe"
    and "anc_buf_free ow (mi_BufState (rbdAnchorComTp_MsgTxInfo s t Idx))" "Length2 = 0 \<longrightarrow> Buf2 = None"
    and "txq_ok t s" "length (txq_list t s) < 15" "65536 \<le> Length + Length2"
    and "cf_Length (rbdAnchorComTp_MsgCfg C ! Idx) \<le> k" "k < Length"
  shows "\<exists>s'. rbdAnchorCom_Transmit C oe PduId Length (Some b) Length2 Buf2 ow s = (E_OK, s') \<and>
     anc_TxBuffer s' t Idx (RBDANCHORCOM_HEADER_LEN C + k) = b k"
proof -
  have "write_bytes (RBDANCHORCOM_HEADER_LEN C) (anc_payload Length b Length2 Buf2) m (RBDANCHORCOM_HEADER_LEN C + k) = b k" for m
    using assms(10) by (simp add: write_bytes_apply anc_payload_def nth_append)
  with Transmit_stored [OF assms(1,2) assms(4) [unfolded assms(3)] assms(3,5-7), of b] show ?thesis by auto
qed

theorem anchor_length_check_wraps_witness:
  "\<exists>s'. rbdAnchorCom_Transmit anc_demo_cfg 0 20 65535 (Some (\<lambda>i. i mod 256)) 2 (Some (mem_of [9, 10])) False anc_demo = (E_OK, s') \<and>
     anc_TxBuffer s' 0 0 1000 = 999 mod 256"
proof -
  have "anc_request_ok anc_demo_cfg 0 0 65535 2 (Some (mem_of [9, 10]))"
    by (simp add: anc_request_ok_def anc_demo_cfg_def u16_def)
  from anchor_length_check_wraps [OF this, of 20 0 False anc_demo 999 "\<lambda>i. i mod 256"] show ?thesis
    by (simp add: anc_demo_ok anc_buf_free_def) (simp add: anc_demo_cfg_def)
qed

lemma rx_indication_stores:
  assumes "rbdAnchorComTp_FindByLLPdu C i (rbdAnchorComTp_LowerRxPdu C) (RBDANCHORCOM_TP_NUM_LL_RX C) = Some (ch, oe)"
    and "x = rbdAnchorComTp_ChRxInfo s ch oe" "RBDANCHORCOM_TP_MIN_RX_DATA_LEN C \<le> cr_RxOffset x"
    and "rxq_ok oe s" "length (rxq_list oe s) < 15" "s' = rbdAnchorComTp_TpRxIndication C i E_OK s"
    and "busy = cd_NeedVerify (rbdAnchorComTp_ChRxBuff s ch oe)" "busy2 = cd_NeedVerify (rbdAnchorComTp_ChRxTemp s ch oe)"
  shows "(if busy \<and> busy2 then s' = s
          else rxq_list oe s' = rxq_list oe s @ [(ch, busy)] \<and>
               (let d = (if busy then rbdAnchorComTp_ChRxTemp s' ch oe else rbdAnchorComTp_ChRxBuff s' ch oe) in
                rd (cd_RxBuffer d) 0 (cd_RxOffset d) = rd (cr_RxBuffer x) 0 (cr_RxOffset x) \<and> cd_RxOffset d = cr_RxOffset x \<and>
                cd_PduId d = i \<and> cd_NeedVerify d))"
proof (cases "busy \<and> busy2")
  case True
  then show ?thesis using assms(1,6-8) by (auto simp: rbdAnchorComTp_TpRxIndication_def)
next
  case False
  define s1 where "s1 = (if busy then s\<lparr>rbdAnchorComTp_ChRxTemp := upd2 ch oe (anc_store i x) (rbdAnchorComTp_ChRxTemp s)\<rparr>
                         else s\<lparr>rbdAnchorComTp_ChRxBuff := upd2 ch oe (anc_store i x) (rbdAnchorComTp_ChRxBuff s)\<rparr>)"
  have "rxq_ok oe s1" "rxq_list oe s1 = rxq_list oe s" using assms(4) by (simp_all add: s1_def rxq_ok_def rxq_list_def)
  then have put: "fst (rbdAnchorComTp_AddRxQueue ch oe busy s1) = E_OK"
    "rxq_list oe (snd (rbdAnchorComTp_AddRxQueue ch oe busy s1)) = rxq_list oe s @ [(ch, busy)]"
    using rxq.put_ok [of oe s1 "(ch, busy)"] assms(5) by (simp_all add: rxq_put_def)
  have s': "s' = snd (rbdAnchorComTp_AddRxQueue ch oe busy s1)"
    using False put(1) assms(1-3,6-8)
    by (cases busy) (auto simp: rbdAnchorComTp_TpRxIndication_def s1_def case_prod_beta Let_def)
  have keep: "rbdAnchorComTp_ChRxTemp s' = rbdAnchorComTp_ChRxTemp s1" "rbdAnchorComTp_ChRxBuff s' = rbdAnchorComTp_ChRxBuff s1"
    by (simp_all add: s' rbdAnchorComTp_AddRxQueue_def Let_def)
  have "rd (write_bytes 0 (rd m 0 n) m') 0 n = rd m 0 n" for m m' n
    by (intro rd_eqI) (simp_all add: write_bytes_apply)
  then show ?thesis using False put(2) [folded s'] by (auto simp: keep s1_def anc_store_def Let_def)
qed

text \<open>
  When the transport layer reports a complete message, it is copied out of the reassembly buffer into
  the receive buffer of its channel, or into the temporary one while the first still holds a message
  that has not been verified, and appended to the receive queue of the peer; while both buffers
  are taken the message is dropped and nothing changes.
\<close>

theorem anchor_rx_indication_queues:
  assumes "rbdAnchorComTp_FindByLLPdu C i (rbdAnchorComTp_LowerRxPdu C) (RBDANCHORCOM_TP_NUM_LL_RX C) = Some (ch, oe)"
    and "x = rbdAnchorComTp_ChRxInfo s ch oe" "RBDANCHORCOM_TP_MIN_RX_DATA_LEN C \<le> cr_RxOffset x"
    and "rxq_ok oe s" "length (rxq_list oe s) < 15" "s' = rbdAnchorComTp_TpRxIndication C i E_OK s"
    and "busy = cd_NeedVerify (rbdAnchorComTp_ChRxBuff s ch oe)" "busy2 = cd_NeedVerify (rbdAnchorComTp_ChRxTemp s ch oe)"
  shows "(if busy \<and> busy2 then s' = s
          else rxq_list oe s' = rxq_list oe s @ [(ch, busy)] \<and>
               (let d = (if busy then rbdAnchorComTp_ChRxTemp s' ch oe else rbdAnchorComTp_ChRxBuff s' ch oe) in
                rd (cd_RxBuffer d) 0 (cd_RxOffset d) = rd (cr_RxBuffer x) 0 (cr_RxOffset x) \<and> cd_RxOffset d = cr_RxOffset x \<and>
                cd_PduId d = i \<and> cd_NeedVerify d))"
  by (rule rx_indication_stores [OF assms])

definition anc_demo_rx :: AnchorSt where
  "anc_demo_rx = anc_demo\<lparr>rbdAnchorComTp_ChRxInfo := (\<lambda>_ _. \<lparr>cr_RxOffset = 4, cr_RxBuffer = mem_of [0, 5, 6, 7]\<rparr>)\<rparr>"

theorem anchor_rx_indication_queues_witness:
  "rxq_list 1 (rbdAnchorComTp_TpRxIndication anc_demo_cfg 1 E_OK anc_demo_rx) = [(0, False)] \<and>
   rd (cd_RxBuffer (rbdAnchorComTp_ChRxBuff (rbdAnchorComTp_TpRxIndication anc_demo_cfg 1 E_OK anc_demo_rx) 0 1)) 0 4 = [0, 5, 6, 7]"
proof -
  have "rbdAnchorComTp_FindByLLPdu anc_demo_cfg 1 (rbdAnchorComTp_LowerRxPdu anc_demo_cfg) (RBDANCHORCOM_TP_NUM_LL_RX anc_demo_cfg) = Some (0, 1)"
    by (simp add: rbdAnchorComTp_FindByLLPdu_def anc_demo_cfg_def upt_rec)
  note q = anchor_rx_indication_queues [OF this refl, of anc_demo_rx, OF _ _ _ refl refl refl]
  have "rbdAnchorComTp_ChRxInfo anc_demo_rx 0 1 = \<lparr>cr_RxOffset = 4, cr_RxBuffer = mem_of [0, 5, 6, 7]\<rparr>"
    "rxq_ok 1 anc_demo_rx" "rxq_list 1 anc_demo_rx = []" "RBDANCHORCOM_TP_MIN_RX_DATA_LEN anc_demo_cfg = 3"
    "\<not> cd_NeedVerify (rbdAnchorComTp_ChRxBuff anc_demo_rx 0 1)"
    by (simp_all add: anc_demo_rx_def anc_demo_def anc_demo_cfg_def rbdAnchorComTp_Init_def rxq_ok_def rxq_list_def ring_list_def ring_count_def)
  with q show ?thesis by (auto simp: rd_mem_of Let_def)
qed

text \<open>
  \<^verbatim>\<open>rbdAnchorComTp_StartOfReception\<close> promises more room than there is: it accepts a message as long as
  the whole reassembly buffer and reports that length as free, but the copy starts behind the
  channel identifier, so handing over that many bytes is refused with an overflow.
\<close>

theorem anchor_start_overpromises:
  assumes "rbdAnchorComTp_FindByLLPdu C i (rbdAnchorComTp_LowerRxPdu C) (RBDANCHORCOM_TP_NUM_LL_RX C) = Some (ch, oe)"
    and "n = RBDANCHORCOM_TP_MAX_RX_BUFFER_LEN C" "0 < RBDANCHORCOM_CHANID_LEN C" "n + RBDANCHORCOM_CHANID_LEN C < 2 ^ AncPduLengthBits C"
    and "length d = n"
  shows "\<exists>s1. rbdAnchorComTp_StartOfReception C i n s = (BUFREQ_OK, Some n, s1) \<and>
     rbdAnchorComTp_CopyRxData C i (Some d) (length d) s1 = (BUFREQ_E_OVFL, None, s1)"
proof -
  have "ubits (AncPduLengthBits C) (int (RBDANCHORCOM_CHANID_LEN C) + int n) = RBDANCHORCOM_CHANID_LEN C + n"
    using ubits_of_nat [of "RBDANCHORCOM_CHANID_LEN C + n"] assms(4) by (simp add: add.commute)
  with assms(1,3) assms(2) [symmetric] assms(5) show ?thesis
    by (simp add: rbdAnchorComTp_StartOfReception_def rbdAnchorComTp_CopyRxData_def Let_def)
qed

theorem anchor_start_overpromises_witness:
  "\<exists>s1. rbdAnchorComTp_StartOfReception anc_demo_cfg 1 64 anc_demo = (BUFREQ_OK, Some 64, s1) \<and>
     rbdAnchorComTp_CopyRxData anc_demo_cfg 1 (Some (replicate 64 0)) 64 s1 = (BUFREQ_E_OVFL, None, s1)"
proof -
  have "rbdAnchorComTp_FindByLLPdu anc_demo_cfg 1 (rbdAnchorComTp_LowerRxPdu anc_demo_cfg) (RBDANCHORCOM_TP_NUM_LL_RX anc_demo_cfg) = Some (0, 1)"
    by (simp add: rbdAnchorComTp_FindByLLPdu_def anc_demo_cfg_def upt_rec)
  from anchor_start_overpromises [OF this, of 64 "replicate 64 0" anc_demo] show ?thesis by (simp add: anc_demo_cfg_def)
qed

end
