(* ===== verification/PduR.thy ===== *)
theory PduR
  imports Prelude
begin

text \<open>
  The PDU router, \<^verbatim>\<open>PduR.c\<close> and \<^verbatim>\<open>PduR_Tp.c\<close>: every service looks its PDU up in the configured
  routing table and calls the function found there with the PDU identifier of that layer. A null
  function pointer is \<open>None\<close>. Routed functions act on a state \<open>'e\<close> of the rest of the system. The
  route types and the table sizes (\<^verbatim>\<open>PduR_Types.h\<close>, \<^verbatim>\<open>PduR_Cfg.h\<close>) are not in the repository; the
  fields are those the code uses.
\<close>

record 'e PduR_TpRouteTx =
  LoTpTransmit :: "(nat \<Rightarrow> PduInfoType \<Rightarrow> 'e \<Rightarrow> Std_ReturnType \<times> 'e) option"
  LoTpCancelTransmit :: "(nat \<Rightarrow> 'e \<Rightarrow> Std_ReturnType \<times> 'e) option"
  LoTpTxPduId :: nat
  UpTpCopyTxData :: "(nat \<Rightarrow> (nat \<times> bool) option \<Rightarrow> nat option \<Rightarrow> 'e \<Rightarrow> BufReq_ReturnType \<times> nat list \<times> nat option \<times> 'e) option"
  UpTpTxConfirmation :: "(nat \<Rightarrow> Std_ReturnType \<Rightarrow> 'e \<Rightarrow> 'e) option"
  UpTpTxPduId :: nat

record 'e PduR_TpRouteRx =
  UpTpStartOfReception :: "(nat \<Rightarrow> nat \<Rightarrow> 'e \<Rightarrow> BufReq_ReturnType \<times> nat option \<times> 'e) option"
  UpTpCopyRxData :: "(nat \<Rightarrow> nat list option \<Rightarrow> nat \<Rightarrow> 'e \<Rightarrow> BufReq_ReturnType \<times> nat option \<times> 'e) option"
  UpTpRxIndication :: "(nat \<Rightarrow> Std_ReturnType \<Rightarrow> 'e \<Rightarrow> 'e) option"
  UpTpRxPduId :: nat

record 'e PduR_RouteTx =
  LoTransmit :: "(nat \<Rightarrow> PduInfoType \<Rightarrow> 'e \<Rightarrow> Std_ReturnType \<times> 'e) option"
  LoCancelTransmit :: "(nat \<Rightarrow> 'e \<Rightarrow> Std_ReturnType \<times> 'e) option"
  LoTxPduId :: nat
  UpTxConfirmation :: "(nat \<Rightarrow> 'e \<Rightarrow> 'e) option"
  UpTxPduId :: nat

record 'e PduR_RouteRx =
  UpRxIndication :: "(nat \<Rightarrow> PduInfoType \<Rightarrow> 'e \<Rightarrow> 'e) option"
  UpRxPduId :: nat

record 'e PduR_ConfigType =
  RouteTblTx :: "nat \<Rightarrow> 'e PduR_RouteTx"
  RouteTblRx :: "nat \<Rightarrow> 'e PduR_RouteRx"
  TpRouteTblTx :: "nat \<Rightarrow> 'e PduR_TpRouteTx"
  TpRouteTblRx :: "nat \<Rightarrow> 'e PduR_TpRouteRx"
  SetTxConfirmationLatency :: "(nat \<Rightarrow> nat \<Rightarrow> 'e \<Rightarrow> 'e) option"
  TxInterrupt :: "(nat \<Rightarrow> 'e \<Rightarrow> 'e) option"

record PduR_Dim =
  PDUR_PDU_TX_MAX :: nat
  PDUR_PDU_RX_MAX :: nat
  PDUR_PDU_TP_TX_MAX :: nat
  PDUR_PDU_TP_RX_MAX :: nat

text \<open>\<^verbatim>\<open>PduR_Config\<close> is the router's only variable; a service is a function of it.\<close>

type_synonym 'e PduR_St = "'e PduR_ConfigType option"

definition PduR_Init :: "'e PduR_ConfigType option \<Rightarrow> 'e PduR_St \<Rightarrow> 'e PduR_St" where
  "PduR_Init config s = config"

definition routed :: "nat \<Rightarrow> nat \<Rightarrow> 'e PduR_St \<Rightarrow> ('e PduR_ConfigType \<Rightarrow> 'f option) \<Rightarrow> ('e PduR_ConfigType \<times> 'f) option" where
  "routed i m s f = (if i < m then (case s of Some c \<Rightarrow> map_option (Pair c) (f c) | None \<Rightarrow> None) else None)"

subsection \<open>Single-frame services\<close>

definition PduR_Transmit :: "PduR_Dim \<Rightarrow> 'e PduR_St \<Rightarrow> nat \<Rightarrow> PduInfoType \<Rightarrow> 'e \<Rightarrow> Std_ReturnType \<times> 'e" where
  "PduR_Transmit D s i info e =
     (case routed i (PDUR_PDU_TX_MAX D) s (\<lambda>c. LoTransmit (RouteTblTx c i)) of
        Some (c, f) \<Rightarrow> f (LoTxPduId (RouteTblTx c i)) info e | None \<Rightarrow> (E_NOT_OK, e))"

definition PduR_CancelTransmit :: "PduR_Dim \<Rightarrow> 'e PduR_St \<Rightarrow> nat \<Rightarrow> 'e \<Rightarrow> Std_ReturnType \<times> 'e" where
  "PduR_CancelTransmit D s i e =
     (case routed i (PDUR_PDU_TX_MAX D) s (\<lambda>c. LoCancelTransmit (RouteTblTx c i)) of
        Some (c, f) \<Rightarrow> f (LoTxPduId (RouteTblTx c i)) e | None \<Rightarrow> (E_NOT_OK, e))"

definition PduR_TxConfirmation :: "PduR_Dim \<Rightarrow> 'e PduR_St \<Rightarrow> nat \<Rightarrow> 'e \<Rightarrow> 'e" where
  "PduR_TxConfirmation D s i e =
     (case routed i (PDUR_PDU_TX_MAX D) s (\<lambda>c. UpTxConfirmation (RouteTblTx c i)) of
        Some (c, f) \<Rightarrow> f (UpTxPduId (RouteTblTx c i)) e | None \<Rightarrow> e)"

definition PduR_RxIndication :: "PduR_Dim \<Rightarrow> 'e PduR_St \<Rightarrow> nat \<Rightarrow> PduInfoType \<Rightarrow> 'e \<Rightarrow> 'e" where
  "PduR_RxIndication D s i info e =
     (case routed i (PDUR_PDU_RX_MAX D) s (\<lambda>c. UpRxIndication (RouteTblRx c i)) of
        Some (c, f) \<Rightarrow> f (UpRxPduId (RouteTblRx c i)) info e | None \<Rightarrow> e)"

definition PduR_SetTxConfirmationLatency :: "PduR_Dim \<Rightarrow> 'e PduR_St \<Rightarrow> nat \<Rightarrow> nat \<Rightarrow> 'e \<Rightarrow> 'e" where
  "PduR_SetTxConfirmationLatency D s i latency e =
     (case routed i (PDUR_PDU_TX_MAX D) s SetTxConfirmationLatency of
        Some (c, f) \<Rightarrow> f (UpTxPduId (RouteTblTx c i)) latency e | None \<Rightarrow> e)"

definition PduR_TxInterrupt :: "PduR_Dim \<Rightarrow> 'e PduR_St \<Rightarrow> nat \<Rightarrow> 'e \<Rightarrow> 'e" where
  "PduR_TxInterrupt D s i e =
     (case routed i (PDUR_PDU_TX_MAX D) s TxInterrupt of
        Some (c, f) \<Rightarrow> f (UpTxPduId (RouteTblTx c i)) e | None \<Rightarrow> e)"

subsection \<open>Transport-protocol services\<close>

definition PduR_TpTransmit :: "PduR_Dim \<Rightarrow> 'e PduR_St \<Rightarrow> nat \<Rightarrow> PduInfoType \<Rightarrow> 'e \<Rightarrow> Std_ReturnType \<times> 'e" where
  "PduR_TpTransmit D s i info e =
     (case routed i (PDUR_PDU_TP_TX_MAX D) s (\<lambda>c. LoTpTransmit (TpRouteTblTx c i)) of
        Some (c, f) \<Rightarrow> f (LoTpTxPduId (TpRouteTblTx c i)) info e | None \<Rightarrow> (E_NOT_OK, e))"

definition PduR_TpCancelTransmit :: "PduR_Dim \<Rightarrow> 'e PduR_St \<Rightarrow> nat \<Rightarrow> 'e \<Rightarrow> Std_ReturnType \<times> 'e" where
  "PduR_TpCancelTransmit D s i e =
     (case routed i (PDUR_PDU_TP_TX_MAX D) s (\<lambda>c. LoTpCancelTransmit (TpRouteTblTx c i)) of
        Some (c, f) \<Rightarrow> f (LoTpTxPduId (TpRouteTblTx c i)) e | None \<Rightarrow> (E_NOT_OK, e))"

definition PduR_TpCopyTxData ::
  "PduR_Dim \<Rightarrow> 'e PduR_St \<Rightarrow> nat \<Rightarrow> (nat \<times> bool) option \<Rightarrow> nat option \<Rightarrow> 'e \<Rightarrow> BufReq_ReturnType \<times> nat list \<times> nat option \<times> 'e" where
  "PduR_TpCopyTxData D s i info retry e =
     (case routed i (PDUR_PDU_TP_TX_MAX D) s (\<lambda>c. UpTpCopyTxData (TpRouteTblTx c i)) of
        Some (c, f) \<Rightarrow> f (UpTpTxPduId (TpRouteTblTx c i)) info retry e | None \<Rightarrow> (BUFREQ_E_NOT_OK, [], None, e))"

definition PduR_TpTxConfirmation :: "PduR_Dim \<Rightarrow> 'e PduR_St \<Rightarrow> nat \<Rightarrow> Std_ReturnType \<Rightarrow> 'e \<Rightarrow> 'e" where
  "PduR_TpTxConfirmation D s i result e =
     (case routed i (PDUR_PDU_TP_TX_MAX D) s (\<lambda>c. UpTpTxConfirmation (TpRouteTblTx c i)) of
        Some (c, f) \<Rightarrow> f (UpTpTxPduId (TpRouteTblTx c i)) result e | None \<Rightarrow> e)"

definition PduR_TpStartOfReception ::
  "PduR_Dim \<Rightarrow> 'e PduR_St \<Rightarrow> nat \<Rightarrow> nat \<Rightarrow> 'e \<Rightarrow> BufReq_ReturnType \<times> nat option \<times> 'e" where
  "PduR_TpStartOfReception D s i len e =
     (case routed i (PDUR_PDU_TP_RX_MAX D) s (\<lambda>c. UpTpStartOfReception (TpRouteTblRx c i)) of
        Some (c, f) \<Rightarrow> f (UpTpRxPduId (TpRouteTblRx c i)) len e | None \<Rightarrow> (BUFREQ_E_NOT_OK, None, e))"

definition PduR_TpCopyRxData ::
  "PduR_Dim \<Rightarrow> 'e PduR_St \<Rightarrow> nat \<Rightarrow> nat list option \<Rightarrow> nat \<Rightarrow> 'e \<Rightarrow> BufReq_ReturnType \<times> nat option \<times> 'e" where
  "PduR_TpCopyRxData D s i data len e =
     (case routed i (PDUR_PDU_TP_RX_MAX D) s (\<lambda>c. UpTpCopyRxData (TpRouteTblRx c i)) of
        Some (c, f) \<Rightarrow> f (UpTpRxPduId (TpRouteTblRx c i)) data len e | None \<Rightarrow> (BUFREQ_E_NOT_OK, None, e))"

definition PduR_TpRxIndication :: "PduR_Dim \<Rightarrow> 'e PduR_St \<Rightarrow> nat \<Rightarrow> Std_ReturnType \<Rightarrow> 'e \<Rightarrow> 'e" where
  "PduR_TpRxIndication D s i result e =
     (case routed i (PDUR_PDU_TP_RX_MAX D) s (\<lambda>c. UpTpRxIndication (TpRouteTblRx c i)) of
        Some (c, f) \<Rightarrow> f (UpTpRxPduId (TpRouteTblRx c i)) result e | None \<Rightarrow> e)"

lemma routed_None: "m \<le> i \<or> s = None \<Longrightarrow> routed i m s f = None"
  by (auto simp: routed_def)

lemma routed_Some: "i < m \<Longrightarrow> f c = Some g \<Longrightarrow> routed i m (Some c) f = Some (c, g)"
  by (simp add: routed_def)

subsection \<open>Properties\<close>

text \<open>
  Before \<^verbatim>\<open>PduR_Init\<close>, and for PDU identifiers outside the routing tables, every service of the
  router is inert: requests are refused and nothing is called.
\<close>

theorem pdur_unrouted_inert:
  assumes "s = None \<or> (PDUR_PDU_TX_MAX D \<le> i \<and> PDUR_PDU_RX_MAX D \<le> i \<and> PDUR_PDU_TP_TX_MAX D \<le> i \<and> PDUR_PDU_TP_RX_MAX D \<le> i)"
  shows "PduR_Transmit D s i info e = (E_NOT_OK, e) \<and> PduR_CancelTransmit D s i e = (E_NOT_OK, e) \<and>
    PduR_TxConfirmation D s i e = e \<and> PduR_RxIndication D s i info e = e \<and>
    PduR_SetTxConfirmationLatency D s i l e = e \<and> PduR_TxInterrupt D s i e = e \<and>
    PduR_TpTransmit D s i info e = (E_NOT_OK, e) \<and> PduR_TpCancelTransmit D s i e = (E_NOT_OK, e) \<and>
    PduR_TpCopyTxData D s i inf' r e = (BUFREQ_E_NOT_OK, [], None, e) \<and> PduR_TpTxConfirmation D s i res e = e \<and>
    PduR_TpStartOfReception D s i n e = (BUFREQ_E_NOT_OK, None, e) \<and>
    PduR_TpCopyRxData D s i d n e = (BUFREQ_E_NOT_OK, None, e) \<and> PduR_TpRxIndication D s i res e = e"
  using assms by (auto simp: PduR_Transmit_def PduR_CancelTransmit_def PduR_TxConfirmation_def PduR_RxIndication_def
      PduR_TpTransmit_def PduR_TpCancelTransmit_def PduR_TpCopyTxData_def PduR_TpTxConfirmation_def
      PduR_TpStartOfReception_def PduR_TpCopyRxData_def PduR_TpRxIndication_def PduR_SetTxConfirmationLatency_def PduR_TxInterrupt_def routed_None)

theorem pdur_unrouted_inert_witness:
  "PduR_TpTransmit \<lparr>PDUR_PDU_TX_MAX = 1, PDUR_PDU_RX_MAX = 1, PDUR_PDU_TP_TX_MAX = 1, PDUR_PDU_TP_RX_MAX = 1\<rparr> None 0
     \<lparr>SduDataPtr = None, SduLength = 0\<rparr> (0::nat) = (E_NOT_OK, 0)"
  using pdur_unrouted_inert [of None "\<lparr>PDUR_PDU_TX_MAX = 1, PDUR_PDU_RX_MAX = 1, PDUR_PDU_TP_TX_MAX = 1, PDUR_PDU_TP_RX_MAX = 1\<rparr>" 0
    "\<lparr>SduDataPtr = None, SduLength = 0\<rparr>" "0::nat"] by simp

text \<open>
  A configured transport-protocol route is followed: the request and every callback of a PDU reach
  the function of its route entry, with the identifier of the layer that is called, and nothing else
  happens.
\<close>

theorem pdur_tp_routes:
  assumes "i < PDUR_PDU_TP_TX_MAX D" "i < PDUR_PDU_TP_RX_MAX D"
    and "LoTpTransmit (TpRouteTblTx c i) = Some tx" "UpTpCopyTxData (TpRouteTblTx c i) = Some cptx"
    and "UpTpTxConfirmation (TpRouteTblTx c i) = Some conf" "UpTpStartOfReception (TpRouteTblRx c i) = Some sor"
    and "UpTpCopyRxData (TpRouteTblRx c i) = Some cprx" "UpTpRxIndication (TpRouteTblRx c i) = Some ind"
  shows "PduR_TpTransmit D (PduR_Init (Some c) s) i info e = tx (LoTpTxPduId (TpRouteTblTx c i)) info e \<and>
    PduR_TpCopyTxData D (PduR_Init (Some c) s) i inf' r e = cptx (UpTpTxPduId (TpRouteTblTx c i)) inf' r e \<and>
    PduR_TpTxConfirmation D (PduR_Init (Some c) s) i res e = conf (UpTpTxPduId (TpRouteTblTx c i)) res e \<and>
    PduR_TpStartOfReception D (PduR_Init (Some c) s) i n e = sor (UpTpRxPduId (TpRouteTblRx c i)) n e \<and>
    PduR_TpCopyRxData D (PduR_Init (Some c) s) i d n e = cprx (UpTpRxPduId (TpRouteTblRx c i)) d n e \<and>
    PduR_TpRxIndication D (PduR_Init (Some c) s) i res e = ind (UpTpRxPduId (TpRouteTblRx c i)) res e"
  using assms by (simp add: PduR_Init_def PduR_TpTransmit_def PduR_TpCopyTxData_def PduR_TpTxConfirmation_def
      PduR_TpStartOfReception_def PduR_TpCopyRxData_def PduR_TpRxIndication_def routed_def)

definition pdur_demo :: "nat PduR_ConfigType" where
  "pdur_demo = \<lparr>RouteTblTx = (\<lambda>_. \<lparr>LoTransmit = None, LoCancelTransmit = None, LoTxPduId = 0, UpTxConfirmation = None, UpTxPduId = 0\<rparr>),
     RouteTblRx = (\<lambda>_. \<lparr>UpRxIndication = None, UpRxPduId = 0\<rparr>),
     TpRouteTblTx = (\<lambda>i. \<lparr>LoTpTransmit = Some (\<lambda>i _ e. (E_OK, e + i)), LoTpCancelTransmit = None, LoTpTxPduId = 5,
       UpTpCopyTxData = Some (\<lambda>i _ _ e. (BUFREQ_OK, [i], Some 0, e)), UpTpTxConfirmation = Some (\<lambda>i _ e. i), UpTpTxPduId = 6\<rparr>),
     TpRouteTblRx = (\<lambda>i. \<lparr>UpTpStartOfReception = Some (\<lambda>i n e. (BUFREQ_OK, Some n, e)),
       UpTpCopyRxData = Some (\<lambda>i _ n e. (BUFREQ_OK, Some n, e)), UpTpRxIndication = Some (\<lambda>i _ e. e + i), UpTpRxPduId = 7\<rparr>),
     SetTxConfirmationLatency = None, TxInterrupt = None\<rparr>"

theorem pdur_tp_routes_witness:
  "PduR_TpTransmit \<lparr>PDUR_PDU_TX_MAX = 1, PDUR_PDU_RX_MAX = 1, PDUR_PDU_TP_TX_MAX = 1, PDUR_PDU_TP_RX_MAX = 1\<rparr> (PduR_Init (Some pdur_demo) None) 0
     \<lparr>SduDataPtr = None, SduLength = 0\<rparr> 1 = (E_OK, 6)"
  using pdur_tp_routes [of 0 "\<lparr>PDUR_PDU_TX_MAX = 1, PDUR_PDU_RX_MAX = 1, PDUR_PDU_TP_TX_MAX = 1, PDUR_PDU_TP_RX_MAX = 1\<rparr>" pdur_demo,
      where info = "\<lparr>SduDataPtr = None, SduLength = 0\<rparr>" and e = 1 and s = None]
  by (simp add: pdur_demo_def)

end
