(* ===== verification/CanIf.thy ===== *)
theory CanIf
  imports Prelude
begin

text \<open>
  The CAN interface, \<^verbatim>\<open>CanIf.c\<close> and \<^verbatim>\<open>CanIf_Cbk.c\<close>. Its variables are the arrays that
  \<^verbatim>\<open>CanIf_Config\<close> points to. The CAN driver, the transceiver, the power monitor, \<^verbatim>\<open>CanSM\<close> and the
  upper layers are functions of \<open>CanIf_Sys\<close> on the whole state, so that a callback may call back
  into CanIf. CAN identifiers are 32-bit words; \<^verbatim>\<open>CAN_FD_FRAME_MASK\<close> is a parameter. Null pointers
  reach the code only in builds with error detection, where they are reported.
\<close>

datatype CanIf_ControllerModeType = CANIF_CS_UNINIT | CANIF_CS_SLEEP | CANIF_CS_STARTED | CANIF_CS_STOPPED | CANIF_CS_WAKEUP

datatype CanTrcv_TrcvModeType = CANTRCV_TRCVMODE_NORMAL | CANTRCV_TRCVMODE_SLEEP | CANTRCV_TRCVMODE_STANDBY | CANTRCV_TRCVMODE_OTHER nat

datatype CanIf_PduUserCallbackULType = CANIF_CAN_TP | CANIF_CAN_TSYN | CANIF_PDUR | CANIF_CDD

datatype Can_ReturnType = CAN_OK | CAN_NOT_OK | CAN_BUSY

datatype Can_StateTransitionType = CAN_T_START | CAN_T_STOP | CAN_T_SLEEP | CAN_T_WAKEUP

datatype CanIf_Api =
    CANIF_API_TRANSMIT | CANIF_API_RXINDICATION | CANIF_API_TXCONFIRMATION | CANIF_API_SET_CTRL_MODE | CANIF_API_GET_CTRL_MODE
  | CANIF_API_SET_TRCV_MODE | CANIF_API_GET_TRCV_MODE | CANIF_API_CTRL_BUSOFF | CANIF_API_CTRL_MODE_IND | CANIF_API_TRCV_MODE_IND

datatype CanIf_Err =
    CANIF_ERR_MCAN_TRANSITION | CANIF_ERR_TRCV_TRANSITION | CANIF_ERR_PARAM_POINTER | CANIF_ERR_PARAM_PDUID | CANIF_ERR_PARAM_CTRLID
  | CANIF_ERR_PARAM_TRCVID | CANIF_ERR_PARAM_CTRLMODE | CANIF_ERR_PARAM_TRCVMODE | CANIF_ERR_TRANSMIT_FAILED | CANIF_ERR_PARAM_VOLTAGE

record CanIf_PduHandleType =
  LoHwHandle :: nat
  UpPduId :: nat

record Can_PduType =
  swPduHandle :: nat
  can_id :: "32 word"
  can_length :: nat
  can_sdu :: "nat list option"

record 'e CanIf_St =
  CanIfPendingTxConfirm :: "nat \<Rightarrow> bool"
  CanIfControllerMode :: "nat \<Rightarrow> CanIf_ControllerModeType"
  CanIfTrcvMode :: "nat \<Rightarrow> CanTrcv_TrcvModeType"
  CanIfPduCanIdMappingCfg :: "nat \<Rightarrow> 32 word"
  ci_ext :: 'e

text \<open>A received PDU: data and the time stamp that time synchronisation turns into a latency.\<close>

record RxPdu =
  rx_data :: "nat list"
  rx_SduTimeStamp :: nat

record 'e CanIf_UserCallback =
  UserTxConfirmationFn :: "(nat \<Rightarrow> 'e CanIf_St \<Rightarrow> 'e CanIf_St) option"
  UserRxIndicationFn :: "(nat \<Rightarrow> RxPdu \<Rightarrow> 'e CanIf_St \<Rightarrow> 'e CanIf_St) option"
  FakeTxConfirmPduId :: nat

record 'e CanIf_Sys =
  CANIF_DEV_ERROR_DETECT :: bool
  RBD_PK_BLE_TIMESYNC :: bool
  CAN_FD_FRAME_MASK :: "32 word"
  CanIfPduMax :: nat
  CanIfNumController :: nat
  CanIfNumChannels :: nat
  CanIfCtrlId :: nat
  CanIfTimestampFrequency :: nat
  CanIfPduHandleCfg :: "nat \<Rightarrow> CanIf_PduHandleType"
  CanIfPduUserCallbackULCfg :: "nat \<Rightarrow> CanIf_PduUserCallbackULType"
  CanIfPduUserCallbackNameCfg :: "nat \<Rightarrow> 'e CanIf_UserCallback"
  CanIf_Cfg_SetAnchorCanId :: "'e CanIf_St \<Rightarrow> (nat \<Rightarrow> 32 word)"
  CanTrcv_Write :: "nat \<Rightarrow> Can_PduType \<Rightarrow> 'e CanIf_St \<Rightarrow> Can_ReturnType \<times> 'e CanIf_St"
  CanTrcv_SetControllerMode :: "nat \<Rightarrow> Can_StateTransitionType \<Rightarrow> 'e CanIf_St \<Rightarrow> Can_ReturnType \<times> 'e CanIf_St"
  CanTrcv_SetOpMode :: "nat \<Rightarrow> CanTrcv_TrcvModeType \<Rightarrow> 'e CanIf_St \<Rightarrow> Std_ReturnType \<times> 'e CanIf_St"
  CanTrcv_GetOpMode :: "nat \<Rightarrow> 'e CanIf_St \<Rightarrow> Std_ReturnType \<times> CanTrcv_TrcvModeType \<times> 'e CanIf_St"
  CanTrcv_DisableAllInterrupts :: "(nat \<Rightarrow> 'e CanIf_St \<Rightarrow> 'e CanIf_St) option"
  CanTrcv_ClearTXBRP :: "(nat \<Rightarrow> 'e CanIf_St \<Rightarrow> 'e CanIf_St) option"
  CanTrcv_GetCurrentTimeStampCounterValue :: "'e CanIf_St \<Rightarrow> nat"
  CanTrcv_GetCurrentTxTimeStamp :: "'e CanIf_St \<Rightarrow> nat"
  rbdPwrVM_Normal :: "'e CanIf_St \<Rightarrow> bool"
  CanSM_ControllerBusOff :: "nat \<Rightarrow> 'e CanIf_St \<Rightarrow> 'e CanIf_St"
  ci_CanTp_TxConfirmation :: "nat \<Rightarrow> 'e CanIf_St \<Rightarrow> 'e CanIf_St"
  ci_CanTp_RxIndication :: "nat \<Rightarrow> RxPdu \<Rightarrow> 'e CanIf_St \<Rightarrow> 'e CanIf_St"
  ci_PduR_TxConfirmation :: "nat \<Rightarrow> 'e CanIf_St \<Rightarrow> 'e CanIf_St"
  ci_PduR_RxIndication :: "nat \<Rightarrow> RxPdu \<Rightarrow> 'e CanIf_St \<Rightarrow> 'e CanIf_St"
  ci_PduR_SetTxConfirmationLatency :: "nat \<Rightarrow> nat \<Rightarrow> 'e CanIf_St \<Rightarrow> 'e CanIf_St"
  ci_Det_ReportError :: "CanIf_Api \<Rightarrow> CanIf_Err \<Rightarrow> 'e CanIf_St \<Rightarrow> 'e CanIf_St"

subsection \<open>Services\<close>

definition CanIf_Init :: "'e CanIf_Sys \<Rightarrow> 'e CanIf_St \<Rightarrow> 'e CanIf_St" where
  "CanIf_Init S s =
     (let s1 = s\<lparr>CanIfControllerMode := (\<lambda>i. if i < CanIfNumController S then CANIF_CS_UNINIT else CanIfControllerMode s i),
                 CanIfTrcvMode := (\<lambda>i. if i < CanIfNumChannels S then CANTRCV_TRCVMODE_SLEEP else CanIfTrcvMode s i)\<rparr>
      in s1\<lparr>CanIfPduCanIdMappingCfg := CanIf_Cfg_SetAnchorCanId S s1,
            CanIfPendingTxConfirm := (\<lambda>i. if i < CanIfPduMax S then False else CanIfPendingTxConfirm s1 i)\<rparr>)"

definition CanIf_RefreshDynamicId :: "'e CanIf_Sys \<Rightarrow> 'e CanIf_St \<Rightarrow> 'e CanIf_St" where
  "CanIf_RefreshDynamicId S s = s\<lparr>CanIfPduCanIdMappingCfg := CanIf_Cfg_SetAnchorCanId S s\<rparr>"

definition ci_report :: "'e CanIf_Sys \<Rightarrow> CanIf_Api \<Rightarrow> CanIf_Err \<Rightarrow> 'e CanIf_St \<Rightarrow> 'e CanIf_St" where
  "ci_report S api e s = (if CANIF_DEV_ERROR_DETECT S then ci_Det_ReportError S api e s else s)"

text \<open>\<open>info\<close> is \<^verbatim>\<open>PduInfoPtr\<close>: the announced length and the data, or the null pointer.\<close>

definition CanIf_Transmit :: "'e CanIf_Sys \<Rightarrow> nat \<Rightarrow> (nat \<times> nat list option) option \<Rightarrow> 'e CanIf_St \<Rightarrow> Std_ReturnType \<times> 'e CanIf_St" where
  "CanIf_Transmit S TxPduId info s =
     (if CANIF_DEV_ERROR_DETECT S \<and> CanIfPduMax S \<le> TxPduId
      then (E_NOT_OK, ci_report S CANIF_API_TRANSMIT CANIF_ERR_PARAM_PDUID s)
      else case info of
        None \<Rightarrow> (E_NOT_OK, ci_report S CANIF_API_TRANSMIT CANIF_ERR_PARAM_POINTER s)
      | Some (len, data) \<Rightarrow>
          if \<not> rbdPwrVM_Normal S s then (E_NOT_OK, ci_report S CANIF_API_TRANSMIT CANIF_ERR_PARAM_VOLTAGE s)
          else if CanIfControllerMode s (CanIfCtrlId S) = CANIF_CS_STARTED
          then let (r, s1) = CanTrcv_Write S (LoHwHandle (CanIfPduHandleCfg S TxPduId))
                     \<lparr>swPduHandle = TxPduId, can_id = CanIfPduCanIdMappingCfg s TxPduId, can_length = u8 (int len), can_sdu = data\<rparr> s
               in case r of
                    CAN_BUSY \<Rightarrow> (E_NOT_OK, s1)
                  | CAN_NOT_OK \<Rightarrow> (E_NOT_OK, ci_report S CANIF_API_TRANSMIT CANIF_ERR_TRANSMIT_FAILED s1)
                  | CAN_OK \<Rightarrow> (E_OK, s1\<lparr>CanIfPendingTxConfirm := (CanIfPendingTxConfirm s1)(TxPduId := True)\<rparr>)
          else (E_NOT_OK, s))"

definition CanIf_SetControllerMode :: "'e CanIf_Sys \<Rightarrow> nat \<Rightarrow> CanIf_ControllerModeType \<Rightarrow> 'e CanIf_St \<Rightarrow> Std_ReturnType \<times> 'e CanIf_St" where
  "CanIf_SetControllerMode S i mode s =
     (if CANIF_DEV_ERROR_DETECT S \<and> CanIfNumController S \<le> i
      then (E_NOT_OK, ci_report S CANIF_API_SET_CTRL_MODE CANIF_ERR_PARAM_CTRLID s)
      else if CANIF_DEV_ERROR_DETECT S \<and> mode \<notin> {CANIF_CS_SLEEP, CANIF_CS_STARTED, CANIF_CS_WAKEUP, CANIF_CS_STOPPED}
      then (E_NOT_OK, ci_report S CANIF_API_SET_CTRL_MODE CANIF_ERR_PARAM_CTRLMODE s)
      else let Transition = (if mode = CANIF_CS_STARTED then CAN_T_START else if mode = CANIF_CS_SLEEP then CAN_T_SLEEP
                             else if mode = CANIF_CS_WAKEUP then CAN_T_WAKEUP else CAN_T_STOP);
               (r, s1) = CanTrcv_SetControllerMode S i Transition s
           in case r of CAN_OK \<Rightarrow> (E_OK, s1) | CAN_BUSY \<Rightarrow> (E_NOT_OK, s1)
                      | CAN_NOT_OK \<Rightarrow> (E_NOT_OK, ci_report S CANIF_API_SET_CTRL_MODE CANIF_ERR_MCAN_TRANSITION s1))"

text \<open>\<open>nonnull\<close>: the out-parameter is a pointer; the option is what it receives.\<close>

definition CanIf_GetControllerMode ::
  "'e CanIf_Sys \<Rightarrow> nat \<Rightarrow> bool \<Rightarrow> 'e CanIf_St \<Rightarrow> Std_ReturnType \<times> CanIf_ControllerModeType option \<times> 'e CanIf_St" where
  "CanIf_GetControllerMode S i nonnull s =
     (if CANIF_DEV_ERROR_DETECT S \<and> CanIfNumController S \<le> i
      then (E_NOT_OK, None, ci_report S CANIF_API_GET_CTRL_MODE CANIF_ERR_PARAM_CTRLID s)
      else if CANIF_DEV_ERROR_DETECT S \<and> \<not> nonnull
      then (E_NOT_OK, None, ci_report S CANIF_API_GET_CTRL_MODE CANIF_ERR_PARAM_POINTER s)
      else (E_OK, Some (CanIfControllerMode s i), s))"

definition CanIf_SetTrcvMode :: "'e CanIf_Sys \<Rightarrow> nat \<Rightarrow> CanTrcv_TrcvModeType \<Rightarrow> 'e CanIf_St \<Rightarrow> Std_ReturnType \<times> 'e CanIf_St" where
  "CanIf_SetTrcvMode S i mode s =
     (if CANIF_DEV_ERROR_DETECT S \<and> CanIfNumChannels S \<le> i
      then (E_NOT_OK, ci_report S CANIF_API_SET_TRCV_MODE CANIF_ERR_PARAM_TRCVID s)
      else if CANIF_DEV_ERROR_DETECT S \<and> mode \<notin> {CANTRCV_TRCVMODE_NORMAL, CANTRCV_TRCVMODE_SLEEP, CANTRCV_TRCVMODE_STANDBY}
      then (E_NOT_OK, ci_report S CANIF_API_SET_TRCV_MODE CANIF_ERR_PARAM_TRCVMODE s)
      else let (r, s1) = CanTrcv_SetOpMode S i mode s;
               (r2, s2) = (if r = E_OK
                           then let (g, m, s') = CanTrcv_GetOpMode S i s1
                                in (if g = E_OK \<and> m \<noteq> mode then E_NOT_OK else g, s')
                           else (r, s1))
           in (r2, if r2 = E_NOT_OK then ci_report S CANIF_API_SET_TRCV_MODE CANIF_ERR_TRCV_TRANSITION s2 else s2))"

definition CanIf_GetTrcvMode ::
  "'e CanIf_Sys \<Rightarrow> nat \<Rightarrow> bool \<Rightarrow> 'e CanIf_St \<Rightarrow> Std_ReturnType \<times> CanTrcv_TrcvModeType option \<times> 'e CanIf_St" where
  "CanIf_GetTrcvMode S i nonnull s =
     (if CANIF_DEV_ERROR_DETECT S \<and> CanIfNumChannels S \<le> i
      then (E_NOT_OK, None, ci_report S CANIF_API_GET_TRCV_MODE CANIF_ERR_PARAM_TRCVID s)
      else if CANIF_DEV_ERROR_DETECT S \<and> \<not> nonnull
      then (E_NOT_OK, None, ci_report S CANIF_API_GET_TRCV_MODE CANIF_ERR_PARAM_POINTER s)
      else (if CanIfControllerMode s (CanIfCtrlId S) \<noteq> CANIF_CS_UNINIT then E_OK else E_NOT_OK, Some (CanIfTrcvMode s i), s))"

definition CanIf_ControllerModeIndication :: "'e CanIf_Sys \<Rightarrow> nat \<Rightarrow> CanIf_ControllerModeType \<Rightarrow> 'e CanIf_St \<Rightarrow> 'e CanIf_St" where
  "CanIf_ControllerModeIndication S i mode s =
     (if CANIF_DEV_ERROR_DETECT S \<and> CanIfNumController S \<le> i
      then ci_report S CANIF_API_CTRL_MODE_IND CANIF_ERR_PARAM_CTRLID s
      else if CANIF_DEV_ERROR_DETECT S \<and> mode \<notin> {CANIF_CS_SLEEP, CANIF_CS_STARTED, CANIF_CS_STOPPED}
      then ci_report S CANIF_API_CTRL_MODE_IND CANIF_ERR_PARAM_CTRLMODE s
      else s\<lparr>CanIfControllerMode := (CanIfControllerMode s)(i := mode)\<rparr>)"

definition CanIf_TrcvModeIndication :: "'e CanIf_Sys \<Rightarrow> nat \<Rightarrow> CanTrcv_TrcvModeType \<Rightarrow> 'e CanIf_St \<Rightarrow> 'e CanIf_St" where
  "CanIf_TrcvModeIndication S i mode s =
     (if CANIF_DEV_ERROR_DETECT S \<and> CanIfNumChannels S \<le> i
      then ci_report S CANIF_API_TRCV_MODE_IND CANIF_ERR_PARAM_TRCVID s
      else s\<lparr>CanIfTrcvMode := (CanIfTrcvMode s)(i := mode)\<rparr>)"

definition opt_call :: "('a \<Rightarrow> 's \<Rightarrow> 's) option \<Rightarrow> 'a \<Rightarrow> 's \<Rightarrow> 's" where
  "opt_call f x s = (case f of None \<Rightarrow> s | Some g \<Rightarrow> g x s)"

definition CanIf_ControllerBusOff :: "'e CanIf_Sys \<Rightarrow> nat \<Rightarrow> 'e CanIf_St \<Rightarrow> 'e CanIf_St" where
  "CanIf_ControllerBusOff S i s =
     (if CANIF_DEV_ERROR_DETECT S \<and> CanIfNumController S \<le> i
      then ci_report S CANIF_API_CTRL_BUSOFF CANIF_ERR_PARAM_CTRLID s
      else CanSM_ControllerBusOff S i
             (opt_call (CanTrcv_ClearTXBRP S) i
               (opt_call (CanTrcv_DisableAllInterrupts S) i
                 (s\<lparr>CanIfControllerMode := (CanIfControllerMode s)(i := CANIF_CS_STOPPED)\<rparr>))))"

subsection \<open>Callbacks of the driver\<close>

definition ts_latency :: "'e CanIf_Sys \<Rightarrow> nat \<Rightarrow> nat \<Rightarrow> nat" where
  "ts_latency S now stamp =
     u32 (int (u32 (int now - int stamp) AND 65535) * int (1000000000 div CanIfTimestampFrequency S))"

definition CanIf_TxConfirmation :: "'e CanIf_Sys \<Rightarrow> nat \<Rightarrow> 'e CanIf_St \<Rightarrow> 'e CanIf_St" where
  "CanIf_TxConfirmation S CanTxPduId s =
     (if CANIF_DEV_ERROR_DETECT S \<and> CanIfPduMax S \<le> CanTxPduId
      then ci_report S CANIF_API_TXCONFIRMATION CANIF_ERR_PARAM_PDUID s
      else let TxPduId = UpPduId (CanIfPduHandleCfg S CanTxPduId) in
           if CanIfPendingTxConfirm s CanTxPduId
           then let s1 = s\<lparr>CanIfPendingTxConfirm := (CanIfPendingTxConfirm s)(CanTxPduId := False)\<rparr> in
                case CanIfPduUserCallbackULCfg S CanTxPduId of
                  CANIF_CAN_TP \<Rightarrow> ci_CanTp_TxConfirmation S TxPduId s1
                | CANIF_CAN_TSYN \<Rightarrow>
                    if RBD_PK_BLE_TIMESYNC S
                    then ci_PduR_TxConfirmation S TxPduId
                           (if CanIfTimestampFrequency S \<noteq> 0
                            then ci_PduR_SetTxConfirmationLatency S TxPduId
                                   (ts_latency S (CanTrcv_GetCurrentTimeStampCounterValue S s1) (CanTrcv_GetCurrentTxTimeStamp S s1)) s1
                            else s1)
                    else s1
                | CANIF_PDUR \<Rightarrow> ci_PduR_TxConfirmation S TxPduId s1
                | CANIF_CDD \<Rightarrow> opt_call (UserTxConfirmationFn (CanIfPduUserCallbackNameCfg S CanTxPduId)) TxPduId s1
           else s)"

definition id_match :: "'e CanIf_Sys \<Rightarrow> 32 word \<Rightarrow> 32 word \<Rightarrow> bool" where
  "id_match S a b \<longleftrightarrow> (a XOR b) AND NOT (CAN_FD_FRAME_MASK S) = 0"

definition CanIf_GetPduId :: "'e CanIf_Sys \<Rightarrow> 32 word \<Rightarrow> 'e CanIf_St \<Rightarrow> nat option" where
  "CanIf_GetPduId S CanId s = find (\<lambda>i. id_match S CanId (CanIfPduCanIdMappingCfg s i)) [0..<CanIfPduMax S]"

text \<open>\<open>mb\<close> is the identifier in \<^verbatim>\<open>Mailbox\<close> and \<open>pdu\<close> is \<^verbatim>\<open>PduInfoPtr\<close>, each possibly null.\<close>

definition CanIf_RxIndication :: "'e CanIf_Sys \<Rightarrow> (32 word) option \<Rightarrow> RxPdu option \<Rightarrow> 'e CanIf_St \<Rightarrow> 'e CanIf_St" where
  "CanIf_RxIndication S mb pdu s =
     (case (mb, pdu) of
        (Some CanId, Some p) \<Rightarrow>
          (case CanIf_GetPduId S CanId s of
             None \<Rightarrow> s
           | Some PduId \<Rightarrow>
               let RxPduId = UpPduId (CanIfPduHandleCfg S PduId);
                   fake = FakeTxConfirmPduId (CanIfPduUserCallbackNameCfg S PduId);
                   s1 = (if fake < CanIfPduMax S then CanIf_TxConfirmation S fake s else s)
               in case CanIfPduUserCallbackULCfg S PduId of
                    CANIF_CAN_TP \<Rightarrow> ci_CanTp_RxIndication S RxPduId p s1
                  | CANIF_CAN_TSYN \<Rightarrow>
                      if RBD_PK_BLE_TIMESYNC S
                      then ci_PduR_RxIndication S RxPduId
                             (if CanIfTimestampFrequency S \<noteq> 0
                              then p\<lparr>rx_SduTimeStamp := ts_latency S (CanTrcv_GetCurrentTimeStampCounterValue S s1) (rx_SduTimeStamp p)\<rparr>
                              else p) s1
                      else s1
                  | CANIF_PDUR \<Rightarrow> ci_PduR_RxIndication S RxPduId p s1
                  | CANIF_CDD \<Rightarrow> (case UserRxIndicationFn (CanIfPduUserCallbackNameCfg S PduId) of None \<Rightarrow> s1 | Some f \<Rightarrow> f RxPduId p s1))
      | _ \<Rightarrow> ci_report S CANIF_API_RXINDICATION CANIF_ERR_PARAM_POINTER s)"

subsection \<open>Properties\<close>

text \<open>A driver that counts what it is given, for the concrete instances of the properties below.\<close>

definition ci_demo_sys :: "nat list CanIf_Sys" where
  "ci_demo_sys =
     \<lparr>CANIF_DEV_ERROR_DETECT = True, RBD_PK_BLE_TIMESYNC = False, CAN_FD_FRAME_MASK = 0x40000000, CanIfPduMax = 3,
      CanIfNumController = 1, CanIfNumChannels = 1, CanIfCtrlId = 0, CanIfTimestampFrequency = 0,
      CanIfPduHandleCfg = \<lambda>i. \<lparr>LoHwHandle = i, UpPduId = 10 + i\<rparr>, CanIfPduUserCallbackULCfg = \<lambda>_. CANIF_CAN_TP,
      CanIfPduUserCallbackNameCfg = \<lambda>_. \<lparr>UserTxConfirmationFn = None, UserRxIndicationFn = None, FakeTxConfirmPduId = 3\<rparr>,
      CanIf_Cfg_SetAnchorCanId = CanIfPduCanIdMappingCfg,
      CanTrcv_Write = \<lambda>hw pdu s. (CAN_OK, s\<lparr>ci_ext := ci_ext s @ [swPduHandle pdu]\<rparr>),
      CanTrcv_SetControllerMode = \<lambda>_ _ s. (CAN_OK, s), CanTrcv_SetOpMode = \<lambda>_ _ s. (E_OK, s),
      CanTrcv_GetOpMode = \<lambda>i s. (E_OK, CanIfTrcvMode s i, s), CanTrcv_DisableAllInterrupts = None, CanTrcv_ClearTXBRP = None,
      CanTrcv_GetCurrentTimeStampCounterValue = \<lambda>_. 0, CanTrcv_GetCurrentTxTimeStamp = \<lambda>_. 0, rbdPwrVM_Normal = \<lambda>_. True,
      CanSM_ControllerBusOff = \<lambda>_ s. s, ci_CanTp_TxConfirmation = \<lambda>i s. s\<lparr>ci_ext := ci_ext s @ [100 + i]\<rparr>,
      ci_CanTp_RxIndication = \<lambda>i p s. s\<lparr>ci_ext := ci_ext s @ i # rx_data p\<rparr>, ci_PduR_TxConfirmation = \<lambda>_ s. s,
      ci_PduR_RxIndication = \<lambda>_ _ s. s, ci_PduR_SetTxConfirmationLatency = \<lambda>_ _ s. s, ci_Det_ReportError = \<lambda>_ _ s. s\<rparr>"

definition ci_demo :: "nat list CanIf_St" where
  "ci_demo = \<lparr>CanIfPendingTxConfirm = (\<lambda>_. False), CanIfControllerMode = (\<lambda>_. CANIF_CS_STARTED),
     CanIfTrcvMode = (\<lambda>_. CANTRCV_TRCVMODE_NORMAL), CanIfPduCanIdMappingCfg = (\<lambda>i. 0x600 + of_nat i), ci_ext = []\<rparr>"

text \<open>
  \<^verbatim>\<open>CanIf_Transmit\<close> accepts a frame exactly when the PDU is in range (where that is checked), the
  pointer is not null, the supply voltage is normal, the controller is started and the driver
  takes the frame.
\<close>

theorem canif_transmit_iff:
  "fst (CanIf_Transmit S i info s) = E_OK \<longleftrightarrow>
     (\<not> CANIF_DEV_ERROR_DETECT S \<or> i < CanIfPduMax S) \<and> rbdPwrVM_Normal S s \<and> CanIfControllerMode s (CanIfCtrlId S) = CANIF_CS_STARTED \<and>
     (\<exists>len data. info = Some (len, data) \<and>
        fst (CanTrcv_Write S (LoHwHandle (CanIfPduHandleCfg S i))
               \<lparr>swPduHandle = i, can_id = CanIfPduCanIdMappingCfg s i, can_length = u8 (int len), can_sdu = data\<rparr> s) = CAN_OK)"
  by (auto simp: CanIf_Transmit_def Let_def not_le split: option.splits prod.splits Can_ReturnType.splits)

theorem canif_transmit_iff_witness:
  "fst (CanIf_Transmit ci_demo_sys 2 (Some (8, Some [1])) ci_demo) = E_OK \<and> fst (CanIf_Transmit ci_demo_sys 3 (Some (8, Some [1])) ci_demo) \<noteq> E_OK"
  using canif_transmit_iff [of ci_demo_sys 2 "Some (8, Some [1])" ci_demo] canif_transmit_iff [of ci_demo_sys 3 "Some (8, Some [1])" ci_demo]
  by (simp add: ci_demo_sys_def ci_demo_def)

text \<open>
  A transport-protocol frame is confirmed to CanTp exactly once: the confirmation of a pending
  frame is passed up with the pending mark cleared, and a confirmation without a pending frame
  does nothing.
\<close>

theorem canif_confirm_once:
  assumes "i < CanIfPduMax S" "CanIfPduUserCallbackULCfg S i = CANIF_CAN_TP" "CanIfPendingTxConfirm s i"
    and "s1 = s\<lparr>CanIfPendingTxConfirm := (CanIfPendingTxConfirm s)(i := False)\<rparr>"
  shows "CanIf_TxConfirmation S i s = ci_CanTp_TxConfirmation S (UpPduId (CanIfPduHandleCfg S i)) s1 \<and> CanIf_TxConfirmation S i s1 = s1"
  using assms by (simp add: CanIf_TxConfirmation_def)

theorem canif_confirm_once_witness:
  "CanIf_TxConfirmation ci_demo_sys 1 (snd (CanIf_Transmit ci_demo_sys 1 (Some (8, Some [1]))  ci_demo)) = ci_demo\<lparr>ci_ext := [1, 111]\<rparr>"
proof -
  let ?s = "snd (CanIf_Transmit ci_demo_sys 1 (Some (8, Some [1])) ci_demo)"
  have s: "?s = ci_demo\<lparr>CanIfPendingTxConfirm := (\<lambda>_. False)(1 := True), ci_ext := [1]\<rparr>"
    by (simp add: CanIf_Transmit_def ci_demo_sys_def ci_demo_def)
  have "1 < CanIfPduMax ci_demo_sys" "CanIfPduUserCallbackULCfg ci_demo_sys 1 = CANIF_CAN_TP" "CanIfPendingTxConfirm ?s 1"
    unfolding s by (simp_all add: ci_demo_sys_def)
  from canif_confirm_once [OF this refl] show ?thesis
    unfolding s by (simp add: ci_demo_sys_def ci_demo_def fun_eq_iff)
qed

text \<open>
  After a bus-off of the controller no frame is accepted from any PDU, provided the state manager
  and the driver hooks leave the controller stopped.
\<close>

theorem canif_busoff_blocks:
  assumes "CanIfCtrlId S < CanIfNumController S"
    and "\<And>i s. CanIfControllerMode (CanSM_ControllerBusOff S i s) = CanIfControllerMode s"
    and "\<And>f i s. CanTrcv_ClearTXBRP S = Some f \<or> CanTrcv_DisableAllInterrupts S = Some f \<Longrightarrow> CanIfControllerMode (f i s) = CanIfControllerMode s"
  shows "fst (CanIf_Transmit S j info (CanIf_ControllerBusOff S (CanIfCtrlId S) s)) = E_NOT_OK"
proof -
  have keep: "CanIfControllerMode (opt_call (CanTrcv_ClearTXBRP S) i t) = CanIfControllerMode t"
    "CanIfControllerMode (opt_call (CanTrcv_DisableAllInterrupts S) i t) = CanIfControllerMode t" for i t
    using assms(3) by (auto simp: opt_call_def split: option.splits)
  have "CanIfControllerMode (CanIf_ControllerBusOff S (CanIfCtrlId S) s) (CanIfCtrlId S) = CANIF_CS_STOPPED"
    using assms(1) by (simp add: CanIf_ControllerBusOff_def assms(2) keep)
  then show ?thesis by (auto simp: CanIf_Transmit_def split: option.splits)
qed

theorem canif_busoff_blocks_witness:
  "fst (CanIf_Transmit ci_demo_sys 0 (Some (8, Some [1])) ci_demo) = E_OK \<and>
   fst (CanIf_Transmit ci_demo_sys 0 (Some (8, Some [1])) (CanIf_ControllerBusOff ci_demo_sys (CanIfCtrlId ci_demo_sys) ci_demo)) = E_NOT_OK"
proof
  show "fst (CanIf_Transmit ci_demo_sys 0 (Some (8, Some [1])) ci_demo) = E_OK"
    by (simp add: CanIf_Transmit_def ci_demo_sys_def ci_demo_def)
  show "fst (CanIf_Transmit ci_demo_sys 0 (Some (8, Some [1])) (CanIf_ControllerBusOff ci_demo_sys (CanIfCtrlId ci_demo_sys) ci_demo)) = E_NOT_OK"
    by (rule canif_busoff_blocks) (simp_all add: ci_demo_sys_def)
qed

lemma GetPduId_Some:
  "CanIf_GetPduId S x s = Some i \<longleftrightarrow>
     i < CanIfPduMax S \<and> id_match S x (CanIfPduCanIdMappingCfg s i) \<and> (\<forall>j < i. \<not> id_match S x (CanIfPduCanIdMappingCfg s j))"
  by (auto simp: CanIf_GetPduId_def find_Some_iff)

lemma GetPduId_None: "CanIf_GetPduId S x s = None \<longleftrightarrow> (\<forall>j < CanIfPduMax S. \<not> id_match S x (CanIfPduCanIdMappingCfg s j))"
  by (auto simp: CanIf_GetPduId_def find_None_iff)

text \<open>
  A received frame is handed to CanTp under the upper-layer identifier of the first PDU whose CAN
  identifier agrees with it outside the CAN FD flag; a frame that no PDU matches is ignored.
\<close>

theorem canif_rx_dispatch:
  assumes "\<And>i. CanIfPduUserCallbackULCfg S i = CANIF_CAN_TP"
    and "\<And>i. CanIfPduMax S \<le> FakeTxConfirmPduId (CanIfPduUserCallbackNameCfg S i)"
  shows "(CanIf_RxIndication S (Some x) (Some p) s = s \<and> (\<forall>j < CanIfPduMax S. \<not> id_match S x (CanIfPduCanIdMappingCfg s j))) \<or>
     (\<exists>i < CanIfPduMax S. CanIf_RxIndication S (Some x) (Some p) s = ci_CanTp_RxIndication S (UpPduId (CanIfPduHandleCfg S i)) p s \<and>
        id_match S x (CanIfPduCanIdMappingCfg s i) \<and> (\<forall>j < i. \<not> id_match S x (CanIfPduCanIdMappingCfg s j)))"
proof (cases "CanIf_GetPduId S x s")
  case None
  then have "CanIf_RxIndication S (Some x) (Some p) s = s" by (simp add: CanIf_RxIndication_def)
  then show ?thesis using None by (simp add: GetPduId_None)
next
  case (Some i)
  then have "CanIf_RxIndication S (Some x) (Some p) s = ci_CanTp_RxIndication S (UpPduId (CanIfPduHandleCfg S i)) p s"
    using assms(1) leD [OF assms(2) [of i]] by (simp add: CanIf_RxIndication_def Let_def)
  then show ?thesis using Some by (auto simp: GetPduId_Some)
qed

theorem canif_rx_dispatch_witness:
  "CanIf_RxIndication ci_demo_sys (Some 0x40000601) (Some \<lparr>rx_data = [5], rx_SduTimeStamp = 0\<rparr>) ci_demo = ci_demo\<lparr>ci_ext := [11, 5]\<rparr>"
proof -
  have d: "\<And>i. CanIfPduUserCallbackULCfg ci_demo_sys i = CANIF_CAN_TP"
    "\<And>i. CanIfPduMax ci_demo_sys \<le> FakeTxConfirmPduId (CanIfPduUserCallbackNameCfg ci_demo_sys i)"
    by (simp_all add: ci_demo_sys_def)
  have m: "id_match ci_demo_sys 0x40000601 (CanIfPduCanIdMappingCfg ci_demo 1)" "\<not> id_match ci_demo_sys 0x40000601 (CanIfPduCanIdMappingCfg ci_demo 0)"
    by (simp_all add: id_match_def ci_demo_sys_def ci_demo_def)
  from canif_rx_dispatch [of ci_demo_sys "0x40000601" "\<lparr>rx_data = [5], rx_SduTimeStamp = 0\<rparr>" ci_demo, OF d] m
  obtain i where "CanIf_RxIndication ci_demo_sys (Some 0x40000601) (Some \<lparr>rx_data = [5], rx_SduTimeStamp = 0\<rparr>) ci_demo
      = ci_CanTp_RxIndication ci_demo_sys (UpPduId (CanIfPduHandleCfg ci_demo_sys i)) \<lparr>rx_data = [5], rx_SduTimeStamp = 0\<rparr> ci_demo"
    "id_match ci_demo_sys 0x40000601 (CanIfPduCanIdMappingCfg ci_demo i)" "\<forall>j<i. \<not> id_match ci_demo_sys 0x40000601 (CanIfPduCanIdMappingCfg ci_demo j)"
    by (auto simp: ci_demo_sys_def)
  moreover from this(2,3) m have "i = 1"
    by (metis less_one nat_neq_iff)
  ultimately show ?thesis by (simp add: ci_demo_sys_def ci_demo_def)
qed

end
