(* ===== verification/Stack.thy ===== *)
theory Stack
  imports CanTp_Session AnchorComTp PduR CanIf
begin

text \<open>
  The communication stack put together: CanTp calls its upper layer through the inline functions
  of \<^verbatim>\<open>PduR_CanTp.h\<close>, the router dispatches to the callbacks of rbdAnchorComTp, and the state
  those act on is part of the state behind CanTp.
\<close>

record 'x StackExt =
  ext_anchor :: AnchorSt
  ext_rest :: 'x

definition on_anchor :: "(AnchorSt \<Rightarrow> AnchorSt) \<Rightarrow> 'x StackExt \<Rightarrow> 'x StackExt" where
  "on_anchor f e = e\<lparr>ext_anchor := f (ext_anchor e)\<rparr>"

definition anc_up_CopyTxData where
  "anc_up_CopyTxData C i info retry e =
     (let (r, bs, av, a) = rbdAnchorComTp_CopyTxData C i info retry (ext_anchor e) in (r, bs, av, e\<lparr>ext_anchor := a\<rparr>))"

definition anc_up_StartOfReception where
  "anc_up_StartOfReception C i len e =
     (let (r, n, a) = rbdAnchorComTp_StartOfReception C i len (ext_anchor e) in (r, n, e\<lparr>ext_anchor := a\<rparr>))"

definition anc_up_CopyRxData where
  "anc_up_CopyRxData C i data len e =
     (let (r, n, a) = rbdAnchorComTp_CopyRxData C i data len (ext_anchor e) in (r, n, e\<lparr>ext_anchor := a\<rparr>))"

text \<open>The functions of \<^verbatim>\<open>PduR_CanTp.h\<close> that CanTp calls.\<close>

definition PduR_CanTp_CopyTxData :: "PduR_Dim \<Rightarrow> 'e PduR_St \<Rightarrow> nat \<Rightarrow> nat \<Rightarrow> bool \<Rightarrow> 'e \<Rightarrow> BufReq_ReturnType \<times> nat list \<times> nat \<times> 'e" where
  "PduR_CanTp_CopyTxData D R i len hasBuf e =
     (let (r, bs, av, e') = PduR_TpCopyTxData D R i (Some (len, hasBuf)) None e in (r, bs, case av of Some n \<Rightarrow> n | None \<Rightarrow> 0, e'))"

definition PduR_CanTp_StartOfReception :: "PduR_Dim \<Rightarrow> 'e PduR_St \<Rightarrow> nat \<Rightarrow> nat list \<Rightarrow> nat \<Rightarrow> 'e \<Rightarrow> BufReq_ReturnType \<times> nat \<times> 'e" where
  "PduR_CanTp_StartOfReception D R i data len e =
     (let (r, n, e') = PduR_TpStartOfReception D R i len e in (r, case n of Some k \<Rightarrow> k | None \<Rightarrow> 0, e'))"

definition PduR_CanTp_CopyRxData :: "PduR_Dim \<Rightarrow> 'e PduR_St \<Rightarrow> nat \<Rightarrow> nat list option \<Rightarrow> 'e \<Rightarrow> BufReq_ReturnType \<times> nat \<times> 'e" where
  "PduR_CanTp_CopyRxData D R i data e =
     (let (r, n, e') = PduR_TpCopyRxData D R i data (case data of Some d \<Rightarrow> length d | None \<Rightarrow> 0) e
      in (r, case n of Some k \<Rightarrow> k | None \<Rightarrow> 0, e'))"

definition stack_sys :: "PduR_Dim \<Rightarrow> 'e PduR_St \<Rightarrow> 'e CanTp_Sys \<Rightarrow> 'e CanTp_Sys" where
  "stack_sys D R S = S\<lparr>PduR_CanTpCopyTxData := PduR_CanTp_CopyTxData D R,
     PduR_CanTpTxConfirmation := PduR_TpTxConfirmation D R,
     PduR_CanTpStartOfReception := PduR_CanTp_StartOfReception D R,
     PduR_CanTpCopyRxData := PduR_CanTp_CopyRxData D R,
     PduR_CanTpRxIndication := PduR_TpRxIndication D R\<rparr>"

text \<open>The reception route of handle \<open>h\<close> ends at channel \<open>ch\<close>, peer \<open>oe\<close> of rbdAnchorComTp.\<close>

definition anc_rx_route :: "AnchorCfg \<Rightarrow> PduR_Dim \<Rightarrow> 'x StackExt PduR_St \<Rightarrow> nat \<Rightarrow> nat \<Rightarrow> nat \<Rightarrow> bool" where
  "anc_rx_route C D R h ch oe \<longleftrightarrow>
     h < PDUR_PDU_TP_RX_MAX D \<and>
     (case R of None \<Rightarrow> False
      | Some cfg \<Rightarrow>
          UpTpStartOfReception (TpRouteTblRx cfg h) = Some (anc_up_StartOfReception C) \<and>
          UpTpCopyRxData (TpRouteTblRx cfg h) = Some (anc_up_CopyRxData C) \<and>
          UpTpRxIndication (TpRouteTblRx cfg h) = Some (\<lambda>i r. on_anchor (rbdAnchorComTp_TpRxIndication C i r)) \<and>
          rbdAnchorComTp_FindByLLPdu C (UpTpRxPduId (TpRouteTblRx cfg h)) (rbdAnchorComTp_LowerRxPdu C) (RBDANCHORCOM_TP_NUM_LL_RX C)
            = Some (ch, oe)) \<and>
     RBDANCHORCOM_TP_MAX_RX_BUFFER_LEN C < 65536 \<and> RBDANCHORCOM_TP_MAX_RX_BUFFER_LEN C + 64 < 2 ^ AncPduLengthBits C \<and>
     RBDANCHORCOM_CHANID_LEN C \<le> RBDANCHORCOM_TP_MAX_RX_BUFFER_LEN C"

definition anc_rx_info :: "nat \<Rightarrow> nat \<Rightarrow> 'x StackExt \<Rightarrow> rbdAnchorComTp_ChRxInfo_st" where
  "anc_rx_info ch oe e = rbdAnchorComTp_ChRxInfo (ext_anchor e) ch oe"

definition anc_stored :: "AnchorCfg \<Rightarrow> nat \<Rightarrow> nat \<Rightarrow> 'x StackExt \<Rightarrow> nat list" where
  "anc_stored C ch oe e =
     rd (cr_RxBuffer (anc_rx_info ch oe e)) (RBDANCHORCOM_CHANID_LEN C) (cr_RxOffset (anc_rx_info ch oe e) - RBDANCHORCOM_CHANID_LEN C)"

definition anc_room :: "AnchorCfg \<Rightarrow> nat \<Rightarrow> nat \<Rightarrow> 'x StackExt \<Rightarrow> nat" where
  "anc_room C ch oe e = RBDANCHORCOM_TP_MAX_RX_BUFFER_LEN C - cr_RxOffset (anc_rx_info ch oe e)"

text \<open>Of the application's state \<open>a0\<close>, a reception touches only the reassembly buffer of its channel and peer.\<close>

definition anc_rx_frame :: "nat \<Rightarrow> nat \<Rightarrow> AnchorSt \<Rightarrow> 'x StackExt \<Rightarrow> bool" where
  "anc_rx_frame ch oe a0 e \<longleftrightarrow>
     ext_anchor e = a0\<lparr>rbdAnchorComTp_ChRxInfo := upd2 ch oe (\<lambda>_. anc_rx_info ch oe e) (rbdAnchorComTp_ChRxInfo a0)\<rparr>"

definition anc_receiving :: "AnchorCfg \<Rightarrow> PduR_Dim \<Rightarrow> 'x StackExt PduR_St \<Rightarrow> nat \<Rightarrow> nat \<Rightarrow> nat \<Rightarrow> AnchorSt \<Rightarrow> 'x StackExt \<Rightarrow> bool" where
  "anc_receiving C D R h ch oe a0 e \<longleftrightarrow> anc_rx_route C D R h ch oe \<and> anc_rx_frame ch oe a0 e \<and>
     RBDANCHORCOM_CHANID_LEN C \<le> cr_RxOffset (anc_rx_info ch oe e) \<and>
     cr_RxOffset (anc_rx_info ch oe e) \<le> RBDANCHORCOM_TP_MAX_RX_BUFFER_LEN C"

lemma anc_routeE:
  assumes "anc_rx_route C D R h ch oe"
  obtains cfg i where "R = Some cfg" "h < PDUR_PDU_TP_RX_MAX D" "i = UpTpRxPduId (TpRouteTblRx cfg h)"
    "UpTpStartOfReception (TpRouteTblRx cfg h) = Some (anc_up_StartOfReception C)"
    "UpTpCopyRxData (TpRouteTblRx cfg h) = Some (anc_up_CopyRxData C)"
    "UpTpRxIndication (TpRouteTblRx cfg h) = Some (\<lambda>i r. on_anchor (rbdAnchorComTp_TpRxIndication C i r))"
    "rbdAnchorComTp_FindByLLPdu C i (rbdAnchorComTp_LowerRxPdu C) (RBDANCHORCOM_TP_NUM_LL_RX C) = Some (ch, oe)"
    "RBDANCHORCOM_TP_MAX_RX_BUFFER_LEN C < 65536" "RBDANCHORCOM_TP_MAX_RX_BUFFER_LEN C < 2 ^ AncPduLengthBits C"
  using assms by (auto simp: anc_rx_route_def split: option.splits)

lemma stack_copy_rx:
  assumes "anc_rx_route C D R h ch oe"
  shows "PduR_CanTp_CopyRxData D R h data e =
     (let Offset = cr_RxOffset (anc_rx_info ch oe e);
          NewLength = ubits (AncPduLengthBits C) (int Offset + int (case data of Some d \<Rightarrow> length d | None \<Rightarrow> 0))
      in if RBDANCHORCOM_TP_MAX_RX_BUFFER_LEN C < NewLength then (BUFREQ_E_OVFL, 0, e)
         else (BUFREQ_OK, RBDANCHORCOM_TP_MAX_RX_BUFFER_LEN C - NewLength,
               case data of None \<Rightarrow> e
               | Some d \<Rightarrow> on_anchor (\<lambda>s. s\<lparr>rbdAnchorComTp_ChRxInfo :=
                   upd2 ch oe (\<lambda>x. \<lparr>cr_RxOffset = u16 (int NewLength), cr_RxBuffer = write_bytes Offset d (cr_RxBuffer x)\<rparr>)
                     (rbdAnchorComTp_ChRxInfo s)\<rparr>) e))"
  using assms by (elim anc_routeE)
    (simp add: PduR_CanTp_CopyRxData_def PduR_TpCopyRxData_def routed_def anc_up_CopyRxData_def rbdAnchorComTp_CopyRxData_def
      anc_rx_info_def on_anchor_def Let_def split: option.splits)

lemma upd2_upd2 [simp]: "upd2 i j f (upd2 i j g m) = upd2 i j (f \<circ> g) m"
  by (rule ext) (auto simp: upd2_def)

lemma anc_rx_frame_step:
  assumes "anc_rx_frame ch oe a0 e"
  shows "anc_rx_frame ch oe a0 (on_anchor (\<lambda>s. s\<lparr>rbdAnchorComTp_ChRxInfo := upd2 ch oe f (rbdAnchorComTp_ChRxInfo s)\<rparr>) e)"
proof -
  obtain x where x: "ext_anchor e = a0\<lparr>rbdAnchorComTp_ChRxInfo := upd2 ch oe (\<lambda>_. x) (rbdAnchorComTp_ChRxInfo a0)\<rparr>"
    using assms by (auto simp: anc_rx_frame_def)
  show ?thesis by (simp add: anc_rx_frame_def on_anchor_def anc_rx_info_def x o_def)
qed

lemma anc_offset_sum:
  assumes "o' \<le> m" "m < 2 ^ w" "m < 65536" "n \<le> m - o'"
  shows "ubits w (int o' + int n) = o' + n" "u16 (int (o' + n)) = o' + n"
  using assms ubits_of_nat [of "o' + n" w] u16_of_nat [of "o' + n"] by simp_all

interpretation anc: tp_sink "PduR_CanTp_CopyRxData D R h" "anc_stored C ch oe" "anc_room C ch oe" "anc_receiving C D R h ch oe a0"
  for C D R h ch oe a0
proof
  fix e and d :: "nat list"
  assume rdy: "anc_receiving C D R h ch oe a0 e" and fit: "length d \<le> anc_room C ch oe e"
  let ?o = "cr_RxOffset (anc_rx_info ch oe e)" and ?c = "RBDANCHORCOM_CHANID_LEN C"
  have rt: "anc_rx_route C D R h ch oe" and o: "?c \<le> ?o" "?o \<le> RBDANCHORCOM_TP_MAX_RX_BUFFER_LEN C" and fr: "anc_rx_frame ch oe a0 e"
    using rdy by (auto simp: anc_receiving_def)
  have m: "RBDANCHORCOM_TP_MAX_RX_BUFFER_LEN C < 65536" "RBDANCHORCOM_TP_MAX_RX_BUFFER_LEN C < 2 ^ AncPduLengthBits C"
    using rt by (auto simp: anc_rx_route_def)
  note sum = anc_offset_sum [OF o(2) m(2,1) fit [unfolded anc_room_def]]
  let ?e = "on_anchor (\<lambda>s. s\<lparr>rbdAnchorComTp_ChRxInfo :=
     upd2 ch oe (\<lambda>x. \<lparr>cr_RxOffset = ?o + length d, cr_RxBuffer = write_bytes ?o d (cr_RxBuffer x)\<rparr>) (rbdAnchorComTp_ChRxInfo s)\<rparr>) e"
  have le: "?o + length d \<le> RBDANCHORCOM_TP_MAX_RX_BUFFER_LEN C" using fit o by (simp add: anc_room_def)
  have i: "anc_rx_info ch oe ?e = \<lparr>cr_RxOffset = ?o + length d, cr_RxBuffer = write_bytes ?o d (cr_RxBuffer (anc_rx_info ch oe e))\<rparr>"
    by (simp add: anc_rx_info_def on_anchor_def)
  have "anc_stored C ch oe ?e = anc_stored C ch oe e @ d"
    unfolding anc_stored_def i using o by (intro rd_eqI) (auto simp: write_bytes_apply nth_append add.commute)
  moreover have "PduR_CanTp_CopyRxData D R h (Some d) e = (BUFREQ_OK, anc_room C ch oe e - length d, ?e)"
    using le sum(2) by (simp add: stack_copy_rx [OF rt] sum(1) Let_def anc_room_def)
  moreover have "anc_receiving C D R h ch oe a0 ?e" "anc_room C ch oe ?e = anc_room C ch oe e - length d"
    using rt o le anc_rx_frame_step [OF fr] by (simp_all add: anc_receiving_def anc_room_def i)
  ultimately show "\<exists>e'. PduR_CanTp_CopyRxData D R h (Some d) e = (BUFREQ_OK, anc_room C ch oe e - length d, e') \<and>
     anc_receiving C D R h ch oe a0 e' \<and> anc_stored C ch oe e' = anc_stored C ch oe e @ d \<and>
     anc_room C ch oe e' = anc_room C ch oe e - length d" by blast
next
  fix e
  assume rdy: "anc_receiving C D R h ch oe a0 e"
  let ?o = "cr_RxOffset (anc_rx_info ch oe e)"
  have rt: "anc_rx_route C D R h ch oe" and o: "?o < 2 ^ AncPduLengthBits C" "?o \<le> RBDANCHORCOM_TP_MAX_RX_BUFFER_LEN C"
    using rdy by (auto simp: anc_receiving_def anc_rx_route_def)
  then show "PduR_CanTp_CopyRxData D R h None e = (BUFREQ_OK, anc_room C ch oe e, e)"
    by (simp add: stack_copy_rx [OF rt] Let_def anc_room_def ubits_of_nat)
next
  fix e and d :: "nat list"
  assume rdy: "anc_receiving C D R h ch oe a0 e" and over: "anc_room C ch oe e < length d" and d: "length d \<le> 64"
  let ?o = "cr_RxOffset (anc_rx_info ch oe e)"
  have rt: "anc_rx_route C D R h ch oe" and "?o + length d < 2 ^ AncPduLengthBits C"
    using rdy d by (auto simp: anc_receiving_def anc_rx_route_def)
  then have "ubits (AncPduLengthBits C) (int ?o + int (length d)) = ?o + length d"
    using ubits_of_nat [of "?o + length d"] by simp
  then show "fst (PduR_CanTp_CopyRxData D R h (Some d) e) = BUFREQ_E_OVFL"
    using over by (simp add: stack_copy_rx [OF rt] Let_def anc_room_def)
qed

subsection \<open>The transmission path\<close>

text \<open>
  Below CanTp, \<^verbatim>\<open>CanIf_Transmit\<close> on the state of CanIf. The CAN driver is a parameter of CanIf; the
  laws need one that accepts every frame, on a bus that is up. \<open>log\<close> is the sequence of frames it took.
\<close>

definition stack_CanIf_Transmit ::
  "'y CanIf_Sys \<Rightarrow> nat \<Rightarrow> nat list option \<Rightarrow> nat \<Rightarrow> 'y CanIf_St StackExt \<Rightarrow> Std_ReturnType \<times> 'y CanIf_St StackExt" where
  "stack_CanIf_Transmit CS i data n e =
     (let (r, ci) = CanIf_Transmit CS i (Some (n, data)) (ext_rest e) in (r, e\<lparr>ext_rest := ci\<rparr>))"

definition driver_accepts :: "'y CanIf_Sys \<Rightarrow> ('y CanIf_St \<Rightarrow> nat list list) \<Rightarrow> bool" where
  "driver_accepts CS log \<longleftrightarrow>
     (\<forall>hw pdu s. \<exists>s'. CanTrcv_Write CS hw pdu s = (CAN_OK, s') \<and>
        log s' = log s @ [case can_sdu pdu of Some f \<Rightarrow> f | None \<Rightarrow> []] \<and>
        CanIfControllerMode s' = CanIfControllerMode s \<and> rbdPwrVM_Normal CS s' = rbdPwrVM_Normal CS s) \<and>
     (\<forall>s x. log (s\<lparr>CanIfPendingTxConfirm := x\<rparr>) = log s \<and>
        rbdPwrVM_Normal CS (s\<lparr>CanIfPendingTxConfirm := x\<rparr>) = rbdPwrVM_Normal CS s)"

definition bus_up :: "'y CanIf_Sys \<Rightarrow> nat \<Rightarrow> 'y CanIf_St \<Rightarrow> bool" where
  "bus_up CS i s \<longleftrightarrow> i < CanIfPduMax CS \<and> rbdPwrVM_Normal CS s \<and> CanIfControllerMode s (CanIfCtrlId CS) = CANIF_CS_STARTED"

definition anc_tx_route :: "AnchorCfg \<Rightarrow> PduR_Dim \<Rightarrow> 'x StackExt PduR_St \<Rightarrow> nat \<Rightarrow> nat \<Rightarrow> nat \<Rightarrow> bool" where
  "anc_tx_route C D R h ch oe \<longleftrightarrow>
     h < PDUR_PDU_TP_TX_MAX D \<and>
     (case R of None \<Rightarrow> False
      | Some cfg \<Rightarrow>
          UpTpCopyTxData (TpRouteTblTx cfg h) = Some (anc_up_CopyTxData C) \<and>
          UpTpTxConfirmation (TpRouteTblTx cfg h) = Some (\<lambda>i r. on_anchor (rbdAnchorComTp_TpTxConfirmation C i r)) \<and>
          rbdAnchorComTp_FindByLLPdu C (UpTpTxPduId (TpRouteTblTx cfg h)) (rbdAnchorComTp_LowerTxCbPdu C) (RBDANCHORCOM_TP_NUM_LL_TX C)
            = Some (ch, oe))"

definition anc_tx_off :: "nat \<Rightarrow> nat \<Rightarrow> 'x StackExt \<Rightarrow> nat" where
  "anc_tx_off ch oe e = ct_TxOffset (rbdAnchorComTp_ChTxInfo (ext_anchor e) ch oe)"

definition anc_tx_msg :: "nat \<Rightarrow> nat \<Rightarrow> 'x StackExt \<Rightarrow> nat" where
  "anc_tx_msg ch oe e = ct_TxMsgIdx (rbdAnchorComTp_ChTxInfo (ext_anchor e) ch oe)"

definition anc_tx_len :: "nat \<Rightarrow> nat \<Rightarrow> 'x StackExt \<Rightarrow> nat" where
  "anc_tx_len ch oe e = mi_Length (rbdAnchorComTp_MsgTxInfo (ext_anchor e) oe (anc_tx_msg ch oe e))"

definition anc_pending :: "AnchorCfg \<Rightarrow> nat \<Rightarrow> nat \<Rightarrow> 'x StackExt \<Rightarrow> nat list" where
  "anc_pending C ch oe e =
     rd (anc_TxBuffer (ext_anchor e) oe (anc_tx_msg ch oe e)) (anc_tx_off ch oe e + RBDANCHORCOM_CHANID_LEN C)
        (anc_tx_len ch oe e - anc_tx_off ch oe e)"

text \<open>Of the application's state \<open>a0\<close>, a transmission touches only the offset of its channel and peer.\<close>

definition anc_tx_frame :: "nat \<Rightarrow> nat \<Rightarrow> AnchorSt \<Rightarrow> 'x StackExt \<Rightarrow> bool" where
  "anc_tx_frame ch oe a0 e \<longleftrightarrow>
     ext_anchor e = a0\<lparr>rbdAnchorComTp_ChTxInfo := upd2 ch oe (ct_TxOffset_update (\<lambda>_. anc_tx_off ch oe e)) (rbdAnchorComTp_ChTxInfo a0)\<rparr>"

lemma anc_tx_frame_step:
  assumes "anc_tx_frame ch oe a0 e"
  shows "anc_tx_frame ch oe a0 (on_anchor (\<lambda>s. s\<lparr>rbdAnchorComTp_ChTxInfo :=
      upd2 ch oe (ct_TxOffset_update (\<lambda>_. n)) (rbdAnchorComTp_ChTxInfo s)\<rparr>) e)"
proof -
  obtain x where x: "ext_anchor e = a0\<lparr>rbdAnchorComTp_ChTxInfo := upd2 ch oe (ct_TxOffset_update (\<lambda>_. x)) (rbdAnchorComTp_ChTxInfo a0)\<rparr>"
    using assms by (auto simp: anc_tx_frame_def)
  show ?thesis by (simp add: anc_tx_frame_def on_anchor_def anc_tx_off_def x o_def)
qed

definition anc_sending ::
  "AnchorCfg \<Rightarrow> PduR_Dim \<Rightarrow> 'y CanIf_St StackExt PduR_St \<Rightarrow> nat \<Rightarrow> nat \<Rightarrow> nat \<Rightarrow> AnchorSt \<Rightarrow> 'y CanIf_Sys \<Rightarrow> ('y CanIf_St \<Rightarrow> nat list list) \<Rightarrow> nat \<Rightarrow>
     'y CanIf_St StackExt \<Rightarrow> bool" where
  "anc_sending C D R h ch oe a0 CS log i e \<longleftrightarrow> anc_tx_route C D R h ch oe \<and> anc_tx_frame ch oe a0 e \<and> driver_accepts CS log \<and> bus_up CS i (ext_rest e) \<and>
     rbdAnchorComTp_GetTxQueueHead oe (ext_anchor e) \<noteq> None \<and>
     anc_tx_off ch oe e \<le> anc_tx_len ch oe e \<and> anc_tx_len ch oe e < 65536"

lemma CanIf_accepts:
  assumes "driver_accepts CS log" "bus_up CS i s"
  obtains s' where "CanIf_Transmit CS i (Some (n, Some f)) s = (E_OK, s')" "log s' = log s @ [f]" "bus_up CS i s'"
proof -
  let ?pdu = "\<lparr>swPduHandle = i, can_id = CanIfPduCanIdMappingCfg s i, can_length = u8 (int n), can_sdu = Some f\<rparr>"
  obtain s1 where s1: "CanTrcv_Write CS (LoHwHandle (CanIfPduHandleCfg CS i)) ?pdu s = (CAN_OK, s1)" "log s1 = log s @ [f]"
     "CanIfControllerMode s1 = CanIfControllerMode s" "rbdPwrVM_Normal CS s1 = rbdPwrVM_Normal CS s"
    using assms(1) unfolding driver_accepts_def by fastforce
  let ?s' = "s1\<lparr>CanIfPendingTxConfirm := (CanIfPendingTxConfirm s1)(i := True)\<rparr>"
  have k: "log ?s' = log s1" "rbdPwrVM_Normal CS ?s' = rbdPwrVM_Normal CS s1"
    using assms(1) unfolding driver_accepts_def by blast+
  show thesis
    by (rule that [of ?s']) (use s1 k assms(2) in \<open>auto simp: CanIf_Transmit_def bus_up_def\<close>)
qed

lemma stack_copy_tx:
  assumes "anc_tx_route C D R h ch oe" "rbdAnchorComTp_GetTxQueueHead oe (ext_anchor e) \<noteq> None"
    "anc_tx_off ch oe e \<le> anc_tx_len ch oe e" "anc_tx_len ch oe e < 65536" "n \<le> anc_tx_len ch oe e - anc_tx_off ch oe e"
  shows "PduR_CanTp_CopyTxData D R h n b e =
     (if b then (BUFREQ_OK, rd (anc_TxBuffer (ext_anchor e) oe (anc_tx_msg ch oe e)) (anc_tx_off ch oe e + RBDANCHORCOM_CHANID_LEN C) n,
                 anc_tx_len ch oe e - anc_tx_off ch oe e - n,
                 on_anchor (\<lambda>s. s\<lparr>rbdAnchorComTp_ChTxInfo :=
                    upd2 ch oe (ct_TxOffset_update (\<lambda>_. anc_tx_off ch oe e + n)) (rbdAnchorComTp_ChTxInfo s)\<rparr>) e)
      else (BUFREQ_OK, [], anc_tx_len ch oe e - anc_tx_off ch oe e, e))"
proof -
  let ?o = "anc_tx_off ch oe e" and ?l = "anc_tx_len ch oe e"
  have u: "u16 (int ?l - int ?o) = ?l - ?o" "u16 (int n) = n" "u16 (int ?o + int n) = ?o + n"
    using assms(3-5) u16_of_nat [of "?l - ?o"] u16_of_nat [of n] u16_of_nat [of "?o + n"] by (auto simp: of_nat_diff)
  have m: "\<not> ?l - ?o < n" using assms(5) by auto
  obtain cfg where cfg: "R = Some cfg" "h < PDUR_PDU_TP_TX_MAX D" "UpTpCopyTxData (TpRouteTblTx cfg h) = Some (anc_up_CopyTxData C)"
    "rbdAnchorComTp_FindByLLPdu C (UpTpTxPduId (TpRouteTblTx cfg h)) (rbdAnchorComTp_LowerTxCbPdu C) (RBDANCHORCOM_TP_NUM_LL_TX C)
       = Some (ch, oe)"
    using assms(1) by (auto simp: anc_tx_route_def split: option.splits)
  show ?thesis
    using assms(2) u m cfg by (simp add: PduR_CanTp_CopyTxData_def PduR_TpCopyTxData_def routed_def anc_up_CopyTxData_def
        rbdAnchorComTp_CopyTxData_def anc_tx_off_def anc_tx_len_def anc_tx_msg_def on_anchor_def Let_def)
qed

text \<open>The application has a message in transmission on channel \<open>ch\<close> to peer \<open>oe\<close>.\<close>

definition anc_source :: "AnchorCfg \<Rightarrow> PduR_Dim \<Rightarrow> 'x StackExt PduR_St \<Rightarrow> nat \<Rightarrow> nat \<Rightarrow> nat \<Rightarrow> AnchorSt \<Rightarrow> 'x StackExt \<Rightarrow> bool" where
  "anc_source C D R h ch oe a0 e \<longleftrightarrow> anc_tx_route C D R h ch oe \<and> anc_tx_frame ch oe a0 e \<and>
     rbdAnchorComTp_GetTxQueueHead oe (ext_anchor e) \<noteq> None \<and> anc_tx_off ch oe e \<le> anc_tx_len ch oe e \<and> anc_tx_len ch oe e < 65536"

lemma anc_fetch:
  assumes l: "anc_source C D R h ch oe a0 e" and n: "n \<le> length (anc_pending C ch oe e)"
  obtains e' where "PduR_CanTp_CopyTxData D R h n True e = (BUFREQ_OK, take n (anc_pending C ch oe e), length (anc_pending C ch oe e) - n, e')"
    "anc_source C D R h ch oe a0 e'" "anc_pending C ch oe e' = drop n (anc_pending C ch oe e)" "ext_rest e' = ext_rest e"
proof -
  let ?e = "on_anchor (\<lambda>s. s\<lparr>rbdAnchorComTp_ChTxInfo :=
              upd2 ch oe (ct_TxOffset_update (\<lambda>_. anc_tx_off ch oe e + n)) (rbdAnchorComTp_ChTxInfo s)\<rparr>) e"
  have n': "n \<le> anc_tx_len ch oe e - anc_tx_off ch oe e" using n by (simp add: anc_pending_def)
  have cp: "PduR_CanTp_CopyTxData D R h n True e =
      (BUFREQ_OK, rd (anc_TxBuffer (ext_anchor e) oe (anc_tx_msg ch oe e)) (anc_tx_off ch oe e + RBDANCHORCOM_CHANID_LEN C) n,
       anc_tx_len ch oe e - anc_tx_off ch oe e - n, ?e)"
    using stack_copy_tx [OF _ _ _ _ n', of C D R h True] l by (simp add: anc_source_def)
  have f: "anc_tx_off ch oe ?e = anc_tx_off ch oe e + n" "anc_tx_msg ch oe ?e = anc_tx_msg ch oe e"
    "anc_tx_len ch oe ?e = anc_tx_len ch oe e" "ext_rest ?e = ext_rest e" "anc_TxBuffer (ext_anchor ?e) = anc_TxBuffer (ext_anchor e)"
    "rbdAnchorComTp_GetTxQueueHead oe (ext_anchor ?e) = rbdAnchorComTp_GetTxQueueHead oe (ext_anchor e)"
    by (simp_all add: anc_tx_off_def anc_tx_msg_def anc_tx_len_def on_anchor_def rbdAnchorComTp_GetTxQueueHead_def)
  have t: "rd (anc_TxBuffer (ext_anchor e) oe (anc_tx_msg ch oe e)) (anc_tx_off ch oe e + RBDANCHORCOM_CHANID_LEN C) n
     = take n (anc_pending C ch oe e)" and p: "anc_pending C ch oe ?e = drop n (anc_pending C ch oe e)"
    using n' unfolding anc_pending_def f by (auto intro!: nth_equalityI simp: ac_simps)
  have "anc_source C D R h ch oe a0 ?e"
    using l n' anc_tx_frame_step [of ch oe a0 e "anc_tx_off ch oe e + n"] unfolding anc_source_def f by auto
  with cp t p f(4) show thesis by (intro that [of ?e]) (simp_all add: anc_pending_def)
qed

interpretation anc_tx: tp_source "PduR_CanTp_CopyTxData D R h" "anc_pending C ch oe" "stack_CanIf_Transmit CS i"
    "\<lambda>e. log (ext_rest e)" "anc_sending C D R h ch oe a0 CS log i"
  for C D R h ch oe a0 CS log i
proof
  fix e
  assume l: "anc_sending C D R h ch oe a0 CS log i e"
  then show "PduR_CanTp_CopyTxData D R h 0 False e = (BUFREQ_OK, [], length (anc_pending C ch oe e), e)"
    using stack_copy_tx [of C D R h ch oe e 0 False] by (simp add: anc_sending_def anc_pending_def)
next
  fix e n
  assume l: "anc_sending C D R h ch oe a0 CS log i e" and n: "n \<le> length (anc_pending C ch oe e)"
  have "anc_source C D R h ch oe a0 e" using l by (simp add: anc_sending_def anc_source_def)
  from anc_fetch [OF this n] obtain e' where
    "PduR_CanTp_CopyTxData D R h n True e = (BUFREQ_OK, take n (anc_pending C ch oe e), length (anc_pending C ch oe e) - n, e')"
    "anc_source C D R h ch oe a0 e'" "anc_pending C ch oe e' = drop n (anc_pending C ch oe e)" "ext_rest e' = ext_rest e" by blast
  then show "\<exists>e'. PduR_CanTp_CopyTxData D R h n True e =
      (BUFREQ_OK, take n (anc_pending C ch oe e), length (anc_pending C ch oe e) - n, e') \<and>
      anc_sending C D R h ch oe a0 CS log i e' \<and> anc_pending C ch oe e' = drop n (anc_pending C ch oe e) \<and>
      log (ext_rest e') = log (ext_rest e)"
    using l by (auto simp: anc_sending_def anc_source_def)
next
  fix e and f :: "nat list"
  assume l: "anc_sending C D R h ch oe a0 CS log i e"
  then obtain ci where ci: "CanIf_Transmit CS i (Some (length f, Some f)) (ext_rest e) = (E_OK, ci)"
     "log ci = log (ext_rest e) @ [f]" "bus_up CS i ci"
    using CanIf_accepts [of CS log i "ext_rest e" "length f" f] by (auto simp: anc_sending_def)
  show "\<exists>e'. stack_CanIf_Transmit CS i (Some f) (length f) e = (E_OK, e') \<and> anc_sending C D R h ch oe a0 CS log i e' \<and>
      anc_pending C ch oe e' = anc_pending C ch oe e \<and> log (ext_rest e') = log (ext_rest e) @ [f]"
    using l ci by (intro exI [of _ "e\<lparr>ext_rest := ci\<rparr>"])
      (simp add: stack_CanIf_Transmit_def anc_sending_def anc_pending_def anc_tx_off_def anc_tx_len_def anc_tx_msg_def anc_tx_frame_def)
qed

subsection \<open>The reception path\<close>

definition bus_live :: "'y CanIf_Sys \<Rightarrow> ('y CanIf_St \<Rightarrow> nat list list) \<Rightarrow> nat \<Rightarrow> 'y CanIf_St StackExt \<Rightarrow> bool" where
  "bus_live CS log i e \<longleftrightarrow> driver_accepts CS log \<and> bus_up CS i (ext_rest e)"

definition anc_cap :: "AnchorCfg \<Rightarrow> nat" where
  "anc_cap C = RBDANCHORCOM_TP_MAX_RX_BUFFER_LEN C - RBDANCHORCOM_CHANID_LEN C"

lemma anc_started:
  assumes rt: "anc_rx_route C D R h ch oe" and fr: "anc_rx_frame ch oe a0 e" and n: "n \<le> anc_cap C"
  shows "\<exists>m e'. PduR_CanTp_StartOfReception D R h d n e = (BUFREQ_OK, m, e') \<and> anc_cap C \<le> m \<and>
     anc_receiving C D R h ch oe a0 e' \<and> anc_stored C ch oe e' = [] \<and> anc_room C ch oe e' = anc_cap C \<and> ext_rest e' = ext_rest e"
proof -
  let ?e = "on_anchor (\<lambda>s. s\<lparr>rbdAnchorComTp_ChRxInfo :=
     upd2 ch oe (cr_RxOffset_update (\<lambda>_. RBDANCHORCOM_CHANID_LEN C)) (rbdAnchorComTp_ChRxInfo s)\<rparr>) e"
  have le: "RBDANCHORCOM_CHANID_LEN C \<le> RBDANCHORCOM_TP_MAX_RX_BUFFER_LEN C" using rt by (simp add: anc_rx_route_def)
  have i: "cr_RxOffset (anc_rx_info ch oe ?e) = RBDANCHORCOM_CHANID_LEN C" by (simp add: anc_rx_info_def on_anchor_def)
  have "PduR_CanTp_StartOfReception D R h d n e = (BUFREQ_OK, RBDANCHORCOM_TP_MAX_RX_BUFFER_LEN C, ?e)"
    using rt n by (elim anc_routeE)
      (simp add: PduR_CanTp_StartOfReception_def PduR_TpStartOfReception_def routed_def anc_up_StartOfReception_def
        rbdAnchorComTp_StartOfReception_def on_anchor_def anc_cap_def)
  moreover have "anc_receiving C D R h ch oe a0 ?e" "anc_stored C ch oe ?e = []" "anc_room C ch oe ?e = anc_cap C"
    using rt le anc_rx_frame_step [OF fr] by (simp_all add: anc_receiving_def anc_stored_def anc_room_def anc_cap_def i)
  ultimately show ?thesis by (simp add: anc_cap_def on_anchor_def)
qed

interpretation anc_rx: tp_receiver "PduR_CanTp_CopyRxData D R h" "anc_stored C ch oe" "anc_room C ch oe" "anc_receiving C D R h ch oe a0"
    "PduR_CanTp_StartOfReception D R h" "stack_CanIf_Transmit CS i" "\<lambda>e. anc_rx_route C D R h ch oe \<and> anc_rx_frame ch oe a0 e" "bus_live CS log i" "anc_cap C"
  for C D R h ch oe a0 CS log i
proof
  fix e :: "'a CanIf_St StackExt" and n and d :: "nat list"
  assume idle: "anc_rx_route C D R h ch oe \<and> anc_rx_frame ch oe a0 e" and b: "bus_live CS log i e" and n: "n \<le> anc_cap C"
  then obtain m e' where "PduR_CanTp_StartOfReception D R h d n e = (BUFREQ_OK, m, e')" "anc_cap C \<le> m" "anc_receiving C D R h ch oe a0 e'"
    "anc_stored C ch oe e' = []" "anc_room C ch oe e' = anc_cap C" "ext_rest e' = ext_rest e"
    using anc_started [of C D R h ch oe a0 e n d] by blast
  then show "\<exists>m e'. PduR_CanTp_StartOfReception D R h d n e = (BUFREQ_OK, m, e') \<and> anc_cap C \<le> m \<and>
     anc_receiving C D R h ch oe a0 e' \<and> bus_live CS log i e' \<and> anc_stored C ch oe e' = [] \<and> anc_room C ch oe e' = anc_cap C"
    using b by (simp add: bus_live_def)
next
  fix e :: "'a CanIf_St StackExt" and d n e'
  assume "anc_receiving C D R h ch oe a0 e" and b: "bus_live CS log i e" and cp: "PduR_CanTp_CopyRxData D R h (Some d) e = (BUFREQ_OK, n, e')"
  then have "anc_rx_route C D R h ch oe" by (simp add: anc_receiving_def)
  from cp [unfolded stack_copy_rx [OF this]] have "ext_rest e' = ext_rest e" by (auto simp: Let_def on_anchor_def split: if_splits)
  then show "bus_live CS log i e'" using b by (simp add: bus_live_def)
next
  fix e :: "'a CanIf_St StackExt" and f :: "nat list"
  assume r: "anc_receiving C D R h ch oe a0 e" and b: "bus_live CS log i e"
  obtain ci where ci: "CanIf_Transmit CS i (Some (length f, Some f)) (ext_rest e) = (E_OK, ci)" "bus_up CS i ci"
    using CanIf_accepts [of CS log i "ext_rest e" "length f" f] b by (auto simp: bus_live_def)
  show "\<exists>e'. stack_CanIf_Transmit CS i (Some f) (length f) e = (E_OK, e') \<and> anc_receiving C D R h ch oe a0 e' \<and> bus_live CS log i e' \<and>
     anc_stored C ch oe e' = anc_stored C ch oe e \<and> anc_room C ch oe e' = anc_room C ch oe e"
    using r b ci by (intro exI [of _ "e\<lparr>ext_rest := ci\<rparr>"])
      (simp add: stack_CanIf_Transmit_def bus_live_def anc_receiving_def anc_stored_def anc_room_def anc_rx_info_def anc_rx_frame_def)
qed

end
