(* ===== verification/Stations.thy ===== *)
theory Stations
  imports Stack
begin

text \<open>
  Two stations on a bus: the whole transmission and the whole reception of a message on the composed
  stack, from the transmit buffer of one rbdAnchorComTp to the receive buffer and queue of the other.
\<close>

subsection \<open>The composed system\<close>

definition full_sys :: "PduR_Dim \<Rightarrow> 'y CanIf_St StackExt PduR_St \<Rightarrow> 'y CanIf_Sys \<Rightarrow> 'y CanIf_St StackExt CanTp_Sys \<Rightarrow> 'y CanIf_St StackExt CanTp_Sys" where
  "full_sys D R CS S = (stack_sys D R S)\<lparr>CanIf_TransmitFn := stack_CanIf_Transmit CS\<rparr>"

lemma full_sys_fields [simp]:
  "PduR_CanTpCopyTxData (full_sys D R CS S) = PduR_CanTp_CopyTxData D R" "PduR_CanTpCopyRxData (full_sys D R CS S) = PduR_CanTp_CopyRxData D R"
  "PduR_CanTpStartOfReception (full_sys D R CS S) = PduR_CanTp_StartOfReception D R" "PduR_CanTpRxIndication (full_sys D R CS S) = PduR_TpRxIndication D R"
  "PduR_CanTpTxConfirmation (full_sys D R CS S) = PduR_TpTxConfirmation D R" "CanIf_TransmitFn (full_sys D R CS S) = stack_CanIf_Transmit CS"
  by (simp_all add: full_sys_def stack_sys_def)

text \<open>What both directions need of the build: the exact data length passes the length check.\<close>

definition build_ok :: "'e CanTp_Sys \<Rightarrow> nat \<Rightarrow> nat \<Rightarrow> bool" where
  "build_ok S dl d \<longleftrightarrow> dl_ok S dl \<and> dl \<le> CANTP_MAX_NPDU_LENGTH S \<and> 16 \<le> PduLengthBits S \<and> 0 < d \<and> d < 2 ^ TickBits S \<and>
     (\<forall>n. CanTp_Cfg_DlcCheck S n n = E_OK) \<and> (case CanTp_FdCallOut S of None \<Rightarrow> True | Some g \<Rightarrow> \<forall>P q b. g P q b = E_OK)"

text \<open>An idle reception N-SDU \<open>r\<close> that serves N-PDU \<open>P\<close>, with frames \<open>d\<close> ticks apart.\<close>

definition rx_station :: "'e CanTp_Sys \<Rightarrow> CanTp_ConfigType \<Rightarrow> nat \<Rightarrow> nat \<Rightarrow> nat list \<Rightarrow> nat \<Rightarrow> 'e CanTp_GlobalType \<Rightarrow> bool" where
  "rx_station S cfg P r adr d s \<longleftrightarrow>
     cantp_on cfg s \<and> rx_path S cfg P r adr \<and> rx_fc_path S cfg r \<and> d \<le> CsCrTicks (TimeOut cfg (rx_TimeOutId (RxSdu cfg r))) \<and>
     CanTp_SubState s (rx_ChannelId (RxSdu cfg r)) = CANTP_IDLE \<and>
     CanTp_TxConfirmationChannel s (rx_TxConfirmationId (RxSdu cfg r)) = CANTP_INVALID_CHANNEL S \<and>
     CanTp_Prv_GetRxParam S r TP_BS s < 2 ^ PduLengthBits S"

text \<open>The application behind it: its route, free buffers, and room in the receive queue.\<close>

definition anc_rx_station :: "AnchorCfg \<Rightarrow> PduR_Dim \<Rightarrow> 'y CanIf_St StackExt PduR_St \<Rightarrow> 'y CanIf_Sys \<Rightarrow> ('y CanIf_St \<Rightarrow> nat list list) \<Rightarrow>
    nat \<Rightarrow> nat \<Rightarrow> nat \<Rightarrow> nat \<Rightarrow> 'y CanIf_St StackExt \<Rightarrow> bool" where
  "anc_rx_station C D R CS log h i ch oe e \<longleftrightarrow>
     anc_rx_route C D R h ch oe \<and> bus_live CS log i e \<and> rxq_ok oe (ext_anchor e) \<and> length (rxq_list oe (ext_anchor e)) < 15 \<and>
     \<not> cd_NeedVerify (rbdAnchorComTp_ChRxBuff (ext_anchor e) ch oe)"

lemma anc_rx_frame_refl: "anc_rx_frame ch oe (ext_anchor e) e"
  by (simp add: anc_rx_frame_def anc_rx_info_def upd2_def)

lemma stack_RxIndication:
  "anc_rx_route C D R h ch oe \<Longrightarrow> \<exists>i. PduR_TpRxIndication D R h r e = on_anchor (rbdAnchorComTp_TpRxIndication C i r) e \<and>
     rbdAnchorComTp_FindByLLPdu C i (rbdAnchorComTp_LowerRxPdu C) (RBDANCHORCOM_TP_NUM_LL_RX C) = Some (ch, oe)"
  by (elim anc_routeE) (auto simp: PduR_TpRxIndication_def routed_def)

text \<open>What the application has after a message was handed over.\<close>

definition anc_has :: "AnchorCfg \<Rightarrow> nat \<Rightarrow> nat \<Rightarrow> nat list \<Rightarrow> AnchorSt \<Rightarrow> AnchorSt \<Rightarrow> bool" where
  "anc_has C ch oe xs a a' \<longleftrightarrow>
     rxq_list oe a' = rxq_list oe a @ [(ch, False)] \<and>
     rd (cd_RxBuffer (rbdAnchorComTp_ChRxBuff a' ch oe)) (RBDANCHORCOM_CHANID_LEN C) (length xs) = xs \<and>
     cd_RxOffset (rbdAnchorComTp_ChRxBuff a' ch oe) = RBDANCHORCOM_CHANID_LEN C + length xs \<and>
     cd_NeedVerify (rbdAnchorComTp_ChRxBuff a' ch oe)"

lemma rd_suffix: "rd m 0 (k + n) = rd m' 0 (k + n) \<Longrightarrow> rd m k n = rd m' k n"
proof -
  assume "rd m 0 (k + n) = rd m' 0 (k + n)"
  then have "drop k (rd m 0 (k + n)) = drop k (rd m' 0 (k + n))" by simp
  then show ?thesis by (simp add: rd_def drop_map)
qed

text \<open>A complete message in the reassembly buffer is handed over by the indication.\<close>

lemma anc_delivered:
  assumes rt: "anc_rx_route C D R h ch oe" and e: "anc_receiving C D R h ch oe a e" "anc_stored C ch oe e = xs"
    and q0: "rxq_ok oe a" "length (rxq_list oe a) < 15" "\<not> cd_NeedVerify (rbdAnchorComTp_ChRxBuff a ch oe)"
    and len: "RBDANCHORCOM_TP_MIN_RX_DATA_LEN C \<le> RBDANCHORCOM_CHANID_LEN C + length xs"
  shows "anc_has C ch oe xs a (ext_anchor (PduR_TpRxIndication D R h E_OK e))"
proof -
  let ?x = "anc_rx_info ch oe e" and ?k = "RBDANCHORCOM_CHANID_LEN C" and ?e = "PduR_TpRxIndication D R h E_OK e"
  obtain i where i: "?e = on_anchor (rbdAnchorComTp_TpRxIndication C i E_OK) e"
    "rbdAnchorComTp_FindByLLPdu C i (rbdAnchorComTp_LowerRxPdu C) (RBDANCHORCOM_TP_NUM_LL_RX C) = Some (ch, oe)"
    using stack_RxIndication [OF rt, of E_OK e] by blast
  have off: "?k \<le> cr_RxOffset ?x" using e(1) by (simp add: anc_receiving_def)
  have st: "rd (cr_RxBuffer ?x) ?k (cr_RxOffset ?x - ?k) = xs" using e(2) by (simp add: anc_stored_def)
  then have "cr_RxOffset ?x - ?k = length xs" by (metis length_rd)
  with off st have x: "cr_RxOffset ?x = ?k + length xs" "rd (cr_RxBuffer ?x) ?k (length xs) = xs" by auto
  have fr: "ext_anchor e = a\<lparr>rbdAnchorComTp_ChRxInfo := upd2 ch oe (\<lambda>_. ?x) (rbdAnchorComTp_ChRxInfo a)\<rparr>"
    using e(1) by (simp add: anc_receiving_def anc_rx_frame_def)
  have q: "rxq_ok oe (ext_anchor e)" "rxq_list oe (ext_anchor e) = rxq_list oe a" "\<not> cd_NeedVerify (rbdAnchorComTp_ChRxBuff (ext_anchor e) ch oe)"
    using q0 by (simp_all add: fr rxq_ok_def rxq_list_def)
  have a': "ext_anchor ?e = rbdAnchorComTp_TpRxIndication C i E_OK (ext_anchor e)" using i(1) by (simp add: on_anchor_def)
  have m: "RBDANCHORCOM_TP_MIN_RX_DATA_LEN C \<le> cr_RxOffset (rbdAnchorComTp_ChRxInfo (ext_anchor e) ch oe)" "length (rxq_list oe (ext_anchor e)) < 15"
    using x(1) len q(2) q0(2) by (simp_all add: anc_rx_info_def)
  note stores = rx_indication_stores [OF i(2) refl m(1) q(1) m(2) a' refl refl]
  have nb: "\<not> (cd_NeedVerify (rbdAnchorComTp_ChRxBuff (ext_anchor e) ch oe) \<and> X)" for X using q(3) by simp
  define buf where "buf = rbdAnchorComTp_ChRxBuff (ext_anchor ?e) ch oe"
  have "rxq_list oe (ext_anchor ?e) = rxq_list oe a @ [(ch, False)] \<and>
     rd (cd_RxBuffer buf) 0 (cd_RxOffset buf) = rd (cr_RxBuffer ?x) 0 (?k + length xs) \<and> cd_RxOffset buf = ?k + length xs \<and> cd_NeedVerify buf"
    using stores [unfolded if_not_P [OF nb] if_not_P [OF q(3)] Let_def anc_rx_info_def [symmetric] x(1) q(2), folded buf_def] q(3) by auto
  then have bf: "rxq_list oe (ext_anchor ?e) = rxq_list oe a @ [(ch, False)]" "cd_RxOffset buf = ?k + length xs" "cd_NeedVerify buf"
    "rd (cd_RxBuffer buf) 0 (?k + length xs) = rd (cr_RxBuffer ?x) 0 (?k + length xs)" by auto
  from rd_suffix [OF bf(4)] x(2) have "rd (cd_RxBuffer buf) ?k (length xs) = xs" by simp
  then show ?thesis using bf(1-3) by (simp add: anc_has_def buf_def)
qed

lemma stack_received:
  assumes sys: "S = full_sys D R CS S0" and b: "build_ok S dl d" and rs: "rx_station S cfg P r adr d s"
    and conn: "conn = RxSdu cfg r"
    and up: "anc_rx_station C D R CS log (rx_PduRPduHandleId conn) (rx_TxPduId conn) ch oe (ext s)"
    and len: "0 < length xs" "length xs \<le> tx_len_max dl" "length xs \<le> anc_cap C"
      "RBDANCHORCOM_TP_MIN_RX_DATA_LEN C \<le> RBDANCHORCOM_CHANID_LEN C + length xs"
    and s': "s' = fold (rx_frame S P (rx_ChannelId conn) (rx_TxConfirmationId conn) d) (tx_frames S (rx_BitFields conn) adr dl xs) s"
  shows "CanTp_SubState s' (rx_ChannelId conn) = CANTP_IDLE \<and> anc_has C ch oe xs (ext_anchor (ext s)) (ext_anchor (ext s'))"
proof -
  let ?h = "rx_PduRPduHandleId conn" and ?a = "ext_anchor (ext s)"
  have bb: "dl_ok S dl" "dl \<le> CANTP_MAX_NPDU_LENGTH S" "16 \<le> PduLengthBits S" "0 < d" "d < 2 ^ TickBits S" "\<And>n. CanTp_Cfg_DlcCheck S n n = E_OK"
    "case CanTp_FdCallOut S of None \<Rightarrow> True | Some g \<Rightarrow> \<forall>P q b. g P q b = E_OK" using b by (auto simp: build_ok_def)
  have rr: "cantp_on cfg s" "rx_path S cfg P r adr" "rx_fc_path S cfg r" "d \<le> CsCrTicks (TimeOut cfg (rx_TimeOutId conn))"
    "CanTp_SubState s (rx_ChannelId conn) = CANTP_IDLE" "CanTp_TxConfirmationChannel s (rx_TxConfirmationId conn) = CANTP_INVALID_CHANNEL S"
    "CanTp_Prv_GetRxParam S r TP_BS s < 2 ^ PduLengthBits S" using rs conn by (auto simp: rx_station_def)
  have uu: "anc_rx_route C D R ?h ch oe" "bus_live CS log (rx_TxPduId conn) (ext s)" "rxq_ok oe ?a" "length (rxq_list oe ?a) < 15"
    "\<not> cd_NeedVerify (rbdAnchorComTp_ChRxBuff ?a ch oe)" using up by (auto simp: anc_rx_station_def)
  have S: "PduR_CanTpCopyRxData S ?h = PduR_CanTp_CopyRxData D R ?h" "CanIf_TransmitFn S (rx_TxPduId conn) = stack_CanIf_Transmit CS (rx_TxPduId conn)"
    "PduR_CanTpStartOfReception S ?h = PduR_CanTp_StartOfReception D R ?h" by (simp_all add: sys)
  obtain e where e: "anc_receiving C D R ?h ch oe ?a e" "anc_stored C ch oe e = xs"
    "ext s' = PduR_CanTpRxIndication S ?h E_OK e" "CanTp_SubState s' (rx_ChannelId conn) = CANTP_IDLE"
    using anc_rx.frames_received [OF S rr(1-3) bb(1,2,6,7) conn refl refl bb(4,5) rr(4-7), where ?a0.0 = ?a and ch = ch and oe = oe and C = C and log = log,
        OF _ uu(2) len(1-3) bb(3) s'] uu(1) anc_rx_frame_refl by blast
  have "ext s' = PduR_TpRxIndication D R ?h E_OK e" using e(3) by (simp add: sys)
  then show ?thesis using e(4) anc_delivered [OF uu(1) e(1,2) uu(3-5) len(4)] by simp
qed

subsection \<open>The sending station\<close>

text \<open>
  An idle transmission N-SDU \<open>t\<close> whose peer answers on N-PDU \<open>P\<close> with flow-control frames that announce
  block size \<open>bs\<close> and separation time \<open>st\<close>, with \<open>d\<close> ticks between the steps.
\<close>

definition tx_station :: "'e CanTp_Sys \<Rightarrow> CanTp_ConfigType \<Rightarrow> nat \<Rightarrow> nat \<Rightarrow> nat list \<Rightarrow> nat \<Rightarrow> nat \<Rightarrow> nat \<Rightarrow> nat \<Rightarrow> 'e CanTp_GlobalType \<Rightarrow> bool" where
  "tx_station S cfg P t adr dl bs st d s \<longleftrightarrow>
     (let conn = TxSdu cfg t in
      cantp_on cfg s \<and> tx_path S cfg t dl \<and> fc_path cfg P t adr \<and> tx_fc_on S cfg t \<and> \<not> CanTp_Prv_GetBit (tx_BitFields conn) CANTP_FUNCTIONAL \<and>
      d < CsCrTicks (TimeOut cfg (tx_TimeOutId conn)) \<and> d \<le> BsBrTicks (TimeOut cfg (tx_TimeOutId conn)) \<and>
      bs < 2 ^ PduLengthBits S \<and> fc_stmin S st \<le> d \<and>
      CanTp_SubState s (tx_ChannelId conn) = CANTP_IDLE \<and> CanTp_TxConfirmationChannel s (tx_TxConfirmationId conn) = CANTP_INVALID_CHANNEL S)"

text \<open>The application behind it has started the transmission of \<open>xs\<close>.\<close>

definition anc_tx_station :: "AnchorCfg \<Rightarrow> PduR_Dim \<Rightarrow> 'y CanIf_St StackExt PduR_St \<Rightarrow> 'y CanIf_Sys \<Rightarrow> ('y CanIf_St \<Rightarrow> nat list list) \<Rightarrow>
    nat \<Rightarrow> nat \<Rightarrow> nat \<Rightarrow> nat \<Rightarrow> nat list \<Rightarrow> 'y CanIf_St StackExt \<Rightarrow> bool" where
  "anc_tx_station C D R CS log h i ch oe xs e \<longleftrightarrow>
     anc_tx_route C D R h ch oe \<and> driver_accepts CS log \<and> bus_up CS i (ext_rest e) \<and>
     rbdAnchorComTp_GetTxQueueHead oe (ext_anchor e) \<noteq> None \<and> ct_TxInProgress (rbdAnchorComTp_ChTxInfo (ext_anchor e) ch oe) \<and>
     anc_tx_off ch oe e = 0 \<and> anc_tx_len ch oe e < 65536 \<and> anc_pending C ch oe e = xs"

definition anc_sent :: "nat \<Rightarrow> nat \<Rightarrow> AnchorSt \<Rightarrow> bool" where
  "anc_sent ch oe a \<longleftrightarrow> \<not> ct_TxInProgress (rbdAnchorComTp_ChTxInfo a ch oe) \<and>
     map_option tq_QueueState (rbdAnchorComTp_GetTxQueueHead oe a) = Some RBDANCHORCOM_TX_TRANS_DONE"

lemma anc_tx_frame_refl: "anc_tx_frame ch oe (ext_anchor e) e"
  by (simp add: anc_tx_frame_def anc_tx_off_def upd2_def)

lemma stack_TxConfirmation:
  "anc_tx_route C D R h ch oe \<Longrightarrow> \<exists>i. PduR_TpTxConfirmation D R h r e = on_anchor (rbdAnchorComTp_TpTxConfirmation C i r) e \<and>
     rbdAnchorComTp_FindByLLPdu C i (rbdAnchorComTp_LowerTxCbPdu C) (RBDANCHORCOM_TP_NUM_LL_TX C) = Some (ch, oe)"
  by (auto simp: anc_tx_route_def PduR_TpTxConfirmation_def routed_def split: option.splits)

lemma TxConfirmation_sent:
  assumes "rbdAnchorComTp_FindByLLPdu C i (rbdAnchorComTp_LowerTxCbPdu C) (RBDANCHORCOM_TP_NUM_LL_TX C) = Some (ch, oe)"
    and "rbdAnchorComTp_GetTxQueueHead oe a \<noteq> None" "ct_TxInProgress (rbdAnchorComTp_ChTxInfo a ch oe)"
  shows "anc_sent ch oe (rbdAnchorComTp_TpTxConfirmation C i E_OK a)"
  using assms by (auto simp: anc_sent_def rbdAnchorComTp_TpTxConfirmation_def anc_set_head_def rbdAnchorComTp_GetTxQueueHead_def split: if_splits)

lemma stack_sent:
  assumes sys: "S = full_sys D R CS S0" and b: "build_ok S dl d" and ts: "tx_station S cfg P t adr dl bs st d s"
    and conn: "conn = TxSdu cfg t"
    and up: "anc_tx_station C D R CS log (tx_PduRPduHandleId conn) (tx_TxPduId conn) ch oe xs (ext s)"
    and len: "0 < length xs" "length xs \<le> tx_len_max dl"
    and r: "(r, s1) = CanTp_Transmit S t (Some \<lparr>SduDataPtr = m, SduLength = length xs\<rparr>) s"
    and fs: "fs = tx_frames S (tx_BitFields conn) (tx_adr cfg t) dl xs"
    and s': "s' = (tx_turn S P (tx_ChannelId conn) (tx_TxConfirmationId conn) d
        (fc_bytes S (tx_BitFields conn) adr CANTP_FC_CTS bs st) ^^ length fs) s1"
  shows "r = E_OK \<and> CanTp_SubState s' (tx_ChannelId conn) = CANTP_IDLE \<and> log (ext_rest (ext s')) = log (ext_rest (ext s)) @ fs \<and>
     anc_sent ch oe (ext_anchor (ext s'))"
proof -
  let ?h = "tx_PduRPduHandleId conn" and ?a = "ext_anchor (ext s)"
  have bb: "16 \<le> PduLengthBits S" "0 < d" "d < 2 ^ TickBits S" "\<And>n. CanTp_Cfg_DlcCheck S n n = E_OK" using b by (auto simp: build_ok_def)
  have tt: "cantp_on cfg s" "tx_path S cfg t dl" "fc_path cfg P t adr" "tx_fc_on S cfg t" "\<not> CanTp_Prv_GetBit (tx_BitFields conn) CANTP_FUNCTIONAL"
    "d < CsCrTicks (TimeOut cfg (tx_TimeOutId conn))" "d \<le> BsBrTicks (TimeOut cfg (tx_TimeOutId conn))" "bs < 2 ^ PduLengthBits S" "fc_stmin S st \<le> d"
    "CanTp_SubState s (tx_ChannelId conn) = CANTP_IDLE" "CanTp_TxConfirmationChannel s (tx_TxConfirmationId conn) = CANTP_INVALID_CHANNEL S"
    using ts conn by (auto simp: tx_station_def Let_def)
  have uu: "anc_tx_route C D R ?h ch oe" "rbdAnchorComTp_GetTxQueueHead oe ?a \<noteq> None" "ct_TxInProgress (rbdAnchorComTp_ChTxInfo ?a ch oe)"
    "anc_pending C ch oe (ext s) = xs" using up by (auto simp: anc_tx_station_def)
  have live: "anc_sending C D R ?h ch oe ?a CS log (tx_TxPduId conn) (ext s)"
    using up anc_tx_frame_refl by (auto simp: anc_tx_station_def anc_sending_def)
  have S: "PduR_CanTpCopyTxData S ?h = PduR_CanTp_CopyTxData D R ?h" "CanIf_TransmitFn S (tx_TxPduId conn) = stack_CanIf_Transmit CS (tx_TxPduId conn)"
    by (simp_all add: sys)
  obtain e where ok: "r = E_OK" and e: "anc_sending C D R ?h ch oe ?a CS log (tx_TxPduId conn) e" "log (ext_rest e) = log (ext_rest (ext s)) @ fs"
    "ext s' = PduR_CanTpTxConfirmation S ?h E_OK e" "CanTp_SubState s' (tx_ChannelId conn) = CANTP_IDLE"
    using anc_tx.message_transmitted [OF S tt(1-4) bb(1) tt(5) conn refl refl bb(2,3) tt(6,7) bb(4) tt(8-11) live uu(4) len r fs s'] by blast
  obtain i where i: "ext s' = on_anchor (rbdAnchorComTp_TpTxConfirmation C i E_OK) e"
    "rbdAnchorComTp_FindByLLPdu C i (rbdAnchorComTp_LowerTxCbPdu C) (RBDANCHORCOM_TP_NUM_LL_TX C) = Some (ch, oe)"
    using stack_TxConfirmation [OF uu(1), of E_OK e] e(3) by (auto simp: sys)
  have "ext_anchor e = ?a\<lparr>rbdAnchorComTp_ChTxInfo := upd2 ch oe (ct_TxOffset_update (\<lambda>_. anc_tx_off ch oe e)) (rbdAnchorComTp_ChTxInfo ?a)\<rparr>"
    using e(1) by (simp add: anc_sending_def anc_tx_frame_def)
  then have "ct_TxInProgress (rbdAnchorComTp_ChTxInfo (ext_anchor e) ch oe)" "rbdAnchorComTp_GetTxQueueHead oe (ext_anchor e) \<noteq> None"
    using uu(2,3) by (simp_all add: rbdAnchorComTp_GetTxQueueHead_def split: if_splits)
  then show ?thesis using ok e(2,4) i TxConfirmation_sent [OF i(2)] by (simp add: on_anchor_def)
qed

subsection \<open>Both ends\<close>

lemma segment_cong:
  assumes "CANTP_CANFD_SUPPORT S1 = CANTP_CANFD_SUPPORT S2" "CANTP_PADDING_BYTE S1 = CANTP_PADDING_BYTE S2"
    "CanTp_Prv_GetBit b1 CANTP_PADDINGON = CanTp_Prv_GetBit b2 CANTP_PADDINGON"
  shows "segment S1 b1 adr dl sn xs = segment S2 b2 adr dl sn xs"
proof (induction xs arbitrary: sn rule: length_induct)
  case (1 xs)
  let ?p = "dl - Suc (length adr)"
  have cf: "cf_bytes S1 b1 adr dl sn bs = cf_bytes S2 b2 adr dl sn bs" for bs
    using assms by (simp add: cf_bytes_def frame_bytes_def padded_len_def CanTp_Prv_GetCanDl_def Let_def)
  show ?case
  proof (cases "xs = [] \<or> ?p = 0")
    case False
    then have p: "xs \<noteq> []" "0 < ?p" by auto
    then show ?thesis using 1(1) [rule_format, OF drop_less [OF p], of "Suc sn mod 16"] cf
      by (simp only: segment_Cons [OF p])
  qed (simp add: segment.simps)
qed

lemma tx_frames_cong:
  assumes "CANTP_CANFD_SUPPORT S1 = CANTP_CANFD_SUPPORT S2" "CANTP_PADDING_BYTE S1 = CANTP_PADDING_BYTE S2"
    "CanTp_Prv_GetBit b1 CANTP_PADDINGON = CanTp_Prv_GetBit b2 CANTP_PADDINGON"
  shows "tx_frames S1 b1 adr dl xs = tx_frames S2 b2 adr dl xs"
  using assms segment_cong [OF assms]
  by (simp add: tx_frames_def first_bytes_def first_len_def pci_for_def frame_bytes_def padded_len_def CanTp_Prv_GetCanDl_def Let_def)

subsection \<open>A concrete station\<close>

text \<open>
  Classical CAN with padding and standard addressing, one transmission and one reception N-SDU on a
  channel each, block size 2; rbdAnchorComTp with the configuration of its examples; a driver that
  keeps a list of the frames it took.
\<close>

definition st_cfg :: CanTp_ConfigType where
  "st_cfg = \<lparr>NumberOfSharedFc = 0, NumberOfChannels = 2, NumberOfRxPdus = 1, NumberOfTxPdus = 2, NumberOfRxSdus = 1, NumberOfTxSdus = 1,
     SharedFc = (\<lambda>_. \<lparr>sf_RxFcPduId = 0, sf_TxSduId = 0\<rparr>), RxPdu = (\<lambda>_. \<lparr>rp_RxSduId = 0, rp_TxSduId = 0, rp_GetSduPair = None\<rparr>),
     TxSdu = (\<lambda>_. \<lparr>tx_TX_DL = 8, tx_BitFields = 8, tx_Address = 0, tx_AddressFormatId = 0, tx_TimeOutId = 0, tx_ChannelId = 0,
       tx_TxConfirmationId = 0, tx_TxPduId = 0, tx_PduRPduHandleId = 0\<rparr>),
     RxSdu = (\<lambda>_. \<lparr>rx_BitFields = 8, rx_Address = 0, rx_AddressFormatId = 0, rx_TimeOutId = 0, rx_ParamId = 0, rx_ChannelId = 1,
       rx_TxConfirmationId = 1, rx_TxPduId = 1, rx_PduRPduHandleId = 0\<rparr>),
     TimeOut = (\<lambda>_. \<lparr>AsArTicks = 100, BsBrTicks = 100, CsCrTicks = 100\<rparr>), Param = (\<lambda>_. \<lparr>p_Param = (\<lambda>i. if i = 0 then 0 else 2), p_FcWaitMax = 3\<rparr>)\<rparr>"

definition st_dim :: PduR_Dim where
  "st_dim = \<lparr>PDUR_PDU_TX_MAX = 1, PDUR_PDU_RX_MAX = 1, PDUR_PDU_TP_TX_MAX = 1, PDUR_PDU_TP_RX_MAX = 1\<rparr>"

definition st_routes :: "nat list list CanIf_St StackExt PduR_St" where
  "st_routes = Some
    \<lparr>RouteTblTx = (\<lambda>_. \<lparr>LoTransmit = None, LoCancelTransmit = None, LoTxPduId = 0, UpTxConfirmation = None, UpTxPduId = 0\<rparr>),
     RouteTblRx = (\<lambda>_. \<lparr>UpRxIndication = None, UpRxPduId = 0\<rparr>),
     TpRouteTblTx = (\<lambda>_. \<lparr>LoTpTransmit = None, LoTpCancelTransmit = None, LoTpTxPduId = 0, UpTpCopyTxData = Some (anc_up_CopyTxData anc_demo_cfg),
       UpTpTxConfirmation = Some (\<lambda>i r. on_anchor (rbdAnchorComTp_TpTxConfirmation anc_demo_cfg i r)), UpTpTxPduId = 1\<rparr>),
     TpRouteTblRx = (\<lambda>_. \<lparr>UpTpStartOfReception = Some (anc_up_StartOfReception anc_demo_cfg), UpTpCopyRxData = Some (anc_up_CopyRxData anc_demo_cfg),
       UpTpRxIndication = Some (\<lambda>i r. on_anchor (rbdAnchorComTp_TpRxIndication anc_demo_cfg i r)), UpTpRxPduId = 1\<rparr>),
     SetTxConfirmationLatency = None, TxInterrupt = None\<rparr>"

definition st_can :: "nat list list CanIf_Sys" where
  "st_can =
     \<lparr>CANIF_DEV_ERROR_DETECT = True, RBD_PK_BLE_TIMESYNC = False, CAN_FD_FRAME_MASK = 0x40000000, CanIfPduMax = 2,
      CanIfNumController = 1, CanIfNumChannels = 1, CanIfCtrlId = 0, CanIfTimestampFrequency = 0,
      CanIfPduHandleCfg = \<lambda>i. \<lparr>LoHwHandle = i, UpPduId = i\<rparr>, CanIfPduUserCallbackULCfg = \<lambda>_. CANIF_CAN_TP,
      CanIfPduUserCallbackNameCfg = \<lambda>_. \<lparr>UserTxConfirmationFn = None, UserRxIndicationFn = None, FakeTxConfirmPduId = 3\<rparr>,
      CanIf_Cfg_SetAnchorCanId = CanIfPduCanIdMappingCfg,
      CanTrcv_Write = \<lambda>hw pdu s. (CAN_OK, s\<lparr>ci_ext := ci_ext s @ [case can_sdu pdu of Some f \<Rightarrow> f | None \<Rightarrow> []]\<rparr>),
      CanTrcv_SetControllerMode = \<lambda>_ _ s. (CAN_OK, s), CanTrcv_SetOpMode = \<lambda>_ _ s. (E_OK, s),
      CanTrcv_GetOpMode = \<lambda>i s. (E_OK, CanIfTrcvMode s i, s), CanTrcv_DisableAllInterrupts = None, CanTrcv_ClearTXBRP = None,
      CanTrcv_GetCurrentTimeStampCounterValue = \<lambda>_. 0, CanTrcv_GetCurrentTxTimeStamp = \<lambda>_. 0, rbdPwrVM_Normal = \<lambda>_. True,
      CanSM_ControllerBusOff = \<lambda>_ s. s, ci_CanTp_TxConfirmation = \<lambda>_ s. s, ci_CanTp_RxIndication = \<lambda>_ _ s. s, ci_PduR_TxConfirmation = \<lambda>_ s. s,
      ci_PduR_RxIndication = \<lambda>_ _ s. s, ci_PduR_SetTxConfirmationLatency = \<lambda>_ _ s. s, ci_Det_ReportError = \<lambda>_ _ s. s\<rparr>"

definition st_sys0 :: "'e CanTp_Sys" where
  "st_sys0 =
     \<lparr>CANTP_VARIANT = CANTP_PRE_COMPILE, CANTP_DEV_ERROR_DETECT = True, CANTP_CANFD_SUPPORT = False, CANTP_TX_BURST_MODE = False,
      CANTP_SCHM_SUPPORT = False, CANTP_FC_DISABLE_SUPPORT = False, CANTP_DYNAMIC_FC_SUPPORT = True, CANTP_CHANGE_PARAMETER_API = False,
      CANTP_TRIGGER_TRANSMIT_API = False, CANTP_LEGACY_SHARED_FC_SUPPORT = False, CANTP_STRICT_BSCRTIMEOUT_CHECK = True,
      CANTP_PAGE_CONFIRMATION = False, CANTP_MAX_CHANNEL_SIZE = 2, CANTP_BURST_QUEUE_SIZE = 3, CANTP_MAX_NPDU_LENGTH = 8, CANTP_PADDING_BYTE = 204,
      CANTP_INVALID_STMIN_TICKS = 65535, CANTP_DEFAULT_STMIN_TICKS = 0, PduLengthBits = 16, TickBits = 16, uninit = (\<lambda>_. 0), CanTp_Config = st_cfg,
      CanTp_CfgPtrs = [], CanTp_Cfg_GetUsToTicks = (\<lambda>us. us div 1000), CanTp_Cfg_DlcCheck = (\<lambda>a b. if a = b then E_OK else E_NOT_OK),
      CanTp_FdCallOut = None, PduR_CanTpCopyTxData = (\<lambda>_ _ _ e. (BUFREQ_E_NOT_OK, [], 0, e)), PduR_CanTpTxConfirmation = (\<lambda>_ _ e. e),
      PduR_CanTpStartOfReception = (\<lambda>_ _ _ e. (BUFREQ_E_NOT_OK, 0, e)), PduR_CanTpCopyRxData = (\<lambda>_ _ e. (BUFREQ_E_NOT_OK, 0, e)),
      PduR_CanTpRxIndication = (\<lambda>_ _ e. e), CanIf_TransmitFn = (\<lambda>_ _ _ e. (E_NOT_OK, e)), SchM_ActMainFunction = (\<lambda>e. e),
      Det_ReportErrorFn = (\<lambda>_ _ e. e), Det_ReportRuntimeErrorFn = (\<lambda>_ _ e. e)\<rparr>"

definition st_sys :: "nat list list CanIf_St StackExt CanTp_Sys" where
  "st_sys = full_sys st_dim st_routes st_can st_sys0"

definition st_bus :: "nat list list CanIf_St" where
  "st_bus = \<lparr>CanIfPendingTxConfirm = (\<lambda>_. False), CanIfControllerMode = (\<lambda>_. CANIF_CS_STARTED),
     CanIfTrcvMode = (\<lambda>_. CANTRCV_TRCVMODE_NORMAL), CanIfPduCanIdMappingCfg = (\<lambda>i. 0x600 + of_nat i), ci_ext = []\<rparr>"

definition st_idle :: "'e \<Rightarrow> 'e CanTp_GlobalType" where
  "st_idle e = \<lparr>CanTp_MainState = True, CanTp_CfgPtr = Some st_cfg,
     CanTp_Channel = (\<lambda>_. \<lparr>ch_TxBufferStatus = 0, ch_RX_DL = 0, ch_PciId = 0, ch_FlowStatus = 0, ch_SN = 0, ch_BS = 0, ch_ActiveSduId = 0,
       ch_FcWait = 0, ch_BlockCfsRemaining = 0, ch_SduLengthRemaining = 0, ch_SduLength = 0, ch_InitialTicks = 0, ch_STminTicks = 0\<rparr>),
     CanTp_SubState = (\<lambda>_. CANTP_IDLE), CanTp_TxConfirmationChannel = (\<lambda>_. 2),
     CanTp_BurstQ = \<lparr>Head_u8 = 0, Tail_u8 = 0, Queue = (\<lambda>_. 0)\<rparr>, CanTp_ParamPair = (\<lambda>_ _. 0), CanTp_MainFunctionTicks = 0, ext = e\<rparr>"

text \<open>The sender's application: message 0 of peer 1, twenty bytes, at the head of the queue and in progress.\<close>

definition st_msg :: "nat list" where "st_msg = map Suc [0..<20]"

definition st_sender :: AnchorSt where
  "st_sender = anc_demo\<lparr>rbdAnchorComTp_MsgTxInfo := (\<lambda>_ _. \<lparr>mi_BufState = RBDANCHORCOM_TPSTATE_HASDATA, mi_Length = 20\<rparr>),
     anc_TxBuffer := (\<lambda>_ _ i. i), rbdAnchorComTp_TxTail := (\<lambda>_. 1),
     rbdAnchorComTp_ChTxInfo := (\<lambda>_ _. \<lparr>ct_TxInProgress = True, ct_TxOffset = 0, ct_TxMsgIdx = 0\<rparr>)\<rparr>"

definition st_tx :: "nat list list CanIf_St StackExt CanTp_GlobalType" where
  "st_tx = st_idle \<lparr>ext_anchor = st_sender, ext_rest = st_bus\<rparr>"

definition st_rx :: "nat list list CanIf_St StackExt CanTp_GlobalType" where
  "st_rx = st_idle \<lparr>ext_anchor = anc_demo, ext_rest = st_bus\<rparr>"

lemma st_sys_fields:
  "CANTP_CANFD_SUPPORT st_sys = False" "CANTP_TX_BURST_MODE st_sys = False" "CANTP_FC_DISABLE_SUPPORT st_sys = False" "CANTP_TRIGGER_TRANSMIT_API st_sys = False"
  "CANTP_CHANGE_PARAMETER_API st_sys = False" "CANTP_MAX_CHANNEL_SIZE st_sys = 2" "CANTP_MAX_NPDU_LENGTH st_sys = 8" "CANTP_PADDING_BYTE st_sys = 204"
  "PduLengthBits st_sys = 16" "TickBits st_sys = 16" "CanTp_Cfg_GetUsToTicks st_sys = (\<lambda>us. us div 1000)"
  "CanTp_Cfg_DlcCheck st_sys = (\<lambda>a b. if a = b then E_OK else E_NOT_OK)" "CanTp_FdCallOut st_sys = None"
  by (simp_all add: st_sys_def full_sys_def stack_sys_def st_sys0_def)

lemma st_driver: "driver_accepts st_can ci_ext" "bus_live st_can ci_ext 1 (ext st_rx)"
  by (simp_all add: driver_accepts_def bus_live_def bus_up_def st_can_def st_bus_def st_rx_def st_idle_def)

lemma st_find: "rbdAnchorComTp_FindByLLPdu anc_demo_cfg 1 (\<lambda>i. i) 2 = Some (0, 1)"
  by (simp add: rbdAnchorComTp_FindByLLPdu_def anc_demo_cfg_def upt_rec)

lemma st_build: "build_ok st_sys 8 1"
  by (simp add: build_ok_def st_sys_fields dl_ok_def CanTp_Prv_IsRxDlInValid_def)

lemma st_rx_station: "rx_station st_sys st_cfg 0 0 [] 1 st_rx"
  by (simp add: rx_station_def cantp_on_def rx_path_def rx_fc_path_def st_rx_def st_idle_def st_cfg_def st_sys_fields CanTp_Prv_GetRxParam_def cfgp_def
      CanTp_Prv_GetBit_def)

lemma st_anc_rx: "anc_rx_station anc_demo_cfg st_dim st_routes st_can ci_ext 0 1 0 1 (ext st_rx)"
  using st_driver st_find
  by (simp add: anc_rx_station_def anc_rx_route_def st_routes_def st_dim_def st_rx_def st_idle_def anc_demo_def rbdAnchorComTp_Init_def
      rxq_ok_def rxq_list_def ring_list_def ring_count_def) (simp add: anc_demo_cfg_def)

lemma st_tx_station: "tx_station st_sys st_cfg 0 0 [] 8 2 0 1 st_tx"
  by (simp add: tx_station_def cantp_on_def tx_path_def fc_path_def tx_fc_on_def st_tx_def st_idle_def st_cfg_def st_sys_fields
      CanTp_Prv_GetBit_def CanTp_Prv_GetTxDl_def dl_ok_def CanTp_Prv_IsRxDlInValid_def fc_stmin_def ubits_def)

lemma st_anc_tx: "anc_tx_station anc_demo_cfg st_dim st_routes st_can ci_ext 0 0 0 1 st_msg (ext st_tx)"
  using st_driver st_find
  by (simp add: anc_tx_station_def anc_tx_route_def st_routes_def st_dim_def st_tx_def st_idle_def st_sender_def anc_demo_def rbdAnchorComTp_Init_def
      bus_up_def st_can_def st_bus_def rbdAnchorComTp_GetTxQueueHead_def anc_tx_off_def anc_tx_len_def anc_tx_msg_def anc_pending_def)
    (simp add: anc_demo_cfg_def st_msg_def rd_def)

text \<open>The sender after the request and one turn per frame, its peer granting blocks of two frames.\<close>

definition st_tx_done :: "nat list list CanIf_St StackExt CanTp_GlobalType" where
  "st_tx_done = (tx_turn st_sys 0 0 0 1 (fc_bytes st_sys 8 [] CANTP_FC_CTS 2 0) ^^ length (tx_frames st_sys 8 [] 8 st_msg))
     (snd (CanTp_Transmit st_sys 0 (Some \<lparr>SduDataPtr = None, SduLength = length st_msg\<rparr>) st_tx))"

lemma st_ids:
  "tx_PduRPduHandleId (TxSdu st_cfg 0) = 0" "tx_TxPduId (TxSdu st_cfg 0) = 0" "tx_adr st_cfg 0 = []" "tx_BitFields (TxSdu st_cfg 0) = 8"
  "tx_ChannelId (TxSdu st_cfg 0) = 0" "tx_TxConfirmationId (TxSdu st_cfg 0) = 0"
  "rx_PduRPduHandleId (RxSdu st_cfg 0) = 0" "rx_TxPduId (RxSdu st_cfg 0) = 1" "rx_ChannelId (RxSdu st_cfg 0) = 1"
  "rx_TxConfirmationId (RxSdu st_cfg 0) = 1" "rx_BitFields (RxSdu st_cfg 0) = 8"
  by (simp_all add: st_cfg_def tx_adr_def addr_bytes_def)

lemma st_log: "ci_ext (ext_rest (ext st_tx)) = []"
  by (simp add: st_tx_def st_idle_def st_bus_def)

lemma st_msg_len:
  "0 < length st_msg" "length st_msg \<le> tx_len_max 8" "length st_msg \<le> anc_cap anc_demo_cfg"
  "RBDANCHORCOM_TP_MIN_RX_DATA_LEN anc_demo_cfg \<le> RBDANCHORCOM_CHANID_LEN anc_demo_cfg + length st_msg"
  by (simp_all add: st_msg_def tx_len_max_def anc_cap_def anc_demo_cfg_def)

end
