(* ===== verification/CanTp_Props.thy ===== *)
theory CanTp_Props
  imports CanTp_Steps Stations
begin

text \<open>
  Properties of CanTp as a whole: the invariant of its reachable states, the isolation of channels,
  time-outs, acceptance and refusal of requests, and what it does with frames that do not fit.
  The witnesses use the station of \<open>Stations\<close>.
\<close>

subsection \<open>Reachable states\<close>

text \<open>
  C4. Whatever the order in which the services, the callbacks of CanIf and the main function are
  called after \<^verbatim>\<open>CanTp_Init\<close>, a busy channel works for a connection configured on it, and a
  pending confirmation entry names the channel the entry is configured for.
\<close>

theorem cantp_reachable_inv:
  assumes "ram_zero s" "CANTP_VARIANT S = CANTP_PRE_COMPILE" "CANTP_DEV_ERROR_DETECT S"
    and "conf_private (CanTp_Config S) own" "NumberOfChannels (CanTp_Config S) \<le> CANTP_MAX_CHANNEL_SIZE S"
    and "cantp_reach S (CanTp_Init S p s) t"
  shows "(\<forall>c. CanTp_Prv_GetState c t = CANTP_TRANSMISSION \<longrightarrow>
        ch_ActiveSduId (CanTp_Channel t c) < NumberOfTxSdus (CanTp_Config S) \<and>
        tx_ChannelId (TxSdu (CanTp_Config S) (ch_ActiveSduId (CanTp_Channel t c))) = c) \<and>
     (\<forall>c. CanTp_Prv_GetState c t = CANTP_RECEPTION \<longrightarrow>
        ch_ActiveSduId (CanTp_Channel t c) < NumberOfRxSdus (CanTp_Config S) \<and>
        rx_ChannelId (RxSdu (CanTp_Config S) (ch_ActiveSduId (CanTp_Channel t c))) = c) \<and>
     (\<forall>i < NumberOfTxPdus (CanTp_Config S). CanTp_TxConfirmationChannel t i \<in> {CANTP_INVALID_CHANNEL S, own i})"
proof -
  have inv: "cantp_inv S (CanTp_Config S) own t" by (rule inv_reach [OF assms(6) inv_init [OF assms(1,2)] assms(3-5)])
  then have ok: "chan_ok (CanTp_Config S) c (CanTp_SubState t c) (CanTp_Channel t c)" for c by (simp add: cantp_inv_def)
  show ?thesis
  proof (intro conjI allI impI)
    fix c assume "CanTp_Prv_GetState c t = CANTP_TRANSMISSION"
    then show "ch_ActiveSduId (CanTp_Channel t c) < NumberOfTxSdus (CanTp_Config S)"
      "tx_ChannelId (TxSdu (CanTp_Config S) (ch_ActiveSduId (CanTp_Channel t c))) = c" using ok [of c] by (simp_all add: chan_ok_def CanTp_Prv_GetState_def)
  next
    fix c assume "CanTp_Prv_GetState c t = CANTP_RECEPTION"
    then show "ch_ActiveSduId (CanTp_Channel t c) < NumberOfRxSdus (CanTp_Config S)"
      "rx_ChannelId (RxSdu (CanTp_Config S) (ch_ActiveSduId (CanTp_Channel t c))) = c" using ok [of c] by (simp_all add: chan_ok_def CanTp_Prv_GetState_def)
  qed (use inv in \<open>simp add: cantp_inv_def\<close>)
qed

lemma st_ram: "ram_zero (st_idle e)"
  by (simp add: ram_zero_def st_idle_def chan_wt_def)

lemma st_build_fields:
  "CANTP_VARIANT st_sys = CANTP_PRE_COMPILE" "CANTP_DEV_ERROR_DETECT st_sys" "CanTp_Config st_sys = st_cfg"
  "NumberOfChannels st_cfg \<le> CANTP_MAX_CHANNEL_SIZE st_sys" "conf_private st_cfg id"
  by (simp_all add: st_sys_def full_sys_def stack_sys_def st_sys0_def st_cfg_def conf_private_def)

text \<open>The station after its request: channel 0 is transmitting.\<close>

definition st_requested :: "nat list list CanIf_St StackExt CanTp_GlobalType" where
  "st_requested = handle st_sys (Ev_Transmit 0 (Some \<lparr>SduDataPtr = None, SduLength = 20\<rparr>)) (CanTp_Init st_sys None st_tx)"

lemma st_requested_reach: "cantp_reach st_sys (CanTp_Init st_sys None st_tx) st_requested"
  unfolding st_requested_def by (rule cantp_reach.more [OF cantp_reach.start cantp_step.event])

lemma st_requested_state: "CanTp_Prv_GetState 0 st_requested = CANTP_TRANSMISSION"
  by (simp add: st_requested_def CanTp_Prv_GetState_def CanTp_Transmit_def CanTp_Init_def st_build_fields st_sys_fields dev_guard_def CanTp_Prv_IsNoDevError_def
    CanTp_Prv_RxParamInit_def cfgp_def ArrayInit_apply st_cfg_def st_tx_def st_idle_def Transmit_MaxLength_def CanTp_Prv_GetTxDl_def CanTp_Prv_GetBit_def ubits_ticks u16_def Let_def)

theorem cantp_reachable_inv_witness:
  "CanTp_Prv_GetState 0 st_requested = CANTP_TRANSMISSION \<and> ch_ActiveSduId (CanTp_Channel st_requested 0) < 1"
proof -
  have "ram_zero st_tx" by (simp add: st_tx_def st_ram)
  note i = cantp_reachable_inv [OF this st_build_fields(1,2), where own = id, unfolded st_build_fields(3), OF st_build_fields(5,4) st_requested_reach]
  show ?thesis using i st_requested_state by (simp add: st_cfg_def)
qed

text \<open>
  C37. In every reachable state the indices a channel keeps select existing entries: \<^verbatim>\<open>PciId\<close> one of
  the six of \<^verbatim>\<open>CanTp_PciSize\<close> and \<^verbatim>\<open>CanTp_PciFrameType\<close>, \<^verbatim>\<open>FlowStatus\<close> one of the three defined, and the
  sequence number is a nibble.
\<close>

theorem cantp_reachable_types:
  assumes "ram_zero s" "CANTP_VARIANT S = CANTP_PRE_COMPILE" "CANTP_DEV_ERROR_DETECT S"
    and "conf_private (CanTp_Config S) own" "NumberOfChannels (CanTp_Config S) \<le> CANTP_MAX_CHANNEL_SIZE S"
    and "cantp_reach S (CanTp_Init S p s) t"
  shows "ch_PciId (CanTp_Channel t c) < 6 \<and> ch_FlowStatus (CanTp_Channel t c) < 3 \<and> ch_SN (CanTp_Channel t c) < 16 \<and>
    ch_TxBufferStatus (CanTp_Channel t c) < 3"
proof -
  have "cantp_inv S (CanTp_Config S) own t" by (rule inv_reach [OF assms(6) inv_init [OF assms(1,2)] assms(3-5)])
  then have "chan_wt (CanTp_Channel t c)" by (simp add: cantp_inv_def chan_ok_def)
  then show ?thesis by (simp add: chan_wt_def less_Suc_eq_le numeral_eq_Suc)
qed

theorem cantp_reachable_types_witness:
  "CanTp_Prv_GetState 0 st_requested = CANTP_TRANSMISSION \<and> ch_PciId (CanTp_Channel st_requested 0) < 6"
proof -
  have "ram_zero st_tx" by (simp add: st_tx_def st_ram)
  note i = cantp_reachable_types [OF this st_build_fields(1,2), where own = id, unfolded st_build_fields(3), OF st_build_fields(5,4) st_requested_reach]
  show ?thesis using i [of 0] st_requested_state by simp
qed

subsection \<open>Channels do not disturb each other\<close>

text \<open>
  C6. Processing one received frame, whatever its type, changes at most the channel its connection
  is on: no other channel's record or sub-state, no confirmation entry, no parameter, not the time.
\<close>

theorem cantp_frame_isolation:
  assumes "k \<noteq> rc_ChannelId ctx" "s' = CanTp_Prv_ProcessFrame S ctx pdu D s"
  shows "CanTp_Channel s' k = CanTp_Channel s k \<and> CanTp_SubState s' k = CanTp_SubState s k \<and>
    CanTp_TxConfirmationChannel s' = CanTp_TxConfirmationChannel s \<and> CanTp_ParamPair s' = CanTp_ParamPair s \<and>
    CanTp_MainFunctionTicks s' = CanTp_MainFunctionTicks s"
proof -
  have only: "only_ch (rc_ChannelId ctx) i s s'" for i
    using ProcessFrame_cases [OF refl, of S ctx i s pdu D] only_ch_trans unfolding assms(2) ch_step_def opened_def by blast
  have "CanTp_TxConfirmationChannel s' j = CanTp_TxConfirmationChannel s j" for j using only [of "Suc j"] by (simp add: only_ch_def)
  then show ?thesis using only [of 0] assms(1) by (auto simp: only_ch_def)
qed

definition st_ff_ctx :: CanTp_RxContextType where
  "st_ff_ctx = (rx_context0 0)\<lparr>rc_FrameType := 1, rc_ChannelId := 1, rc_DataOffset := 2, rc_SduLength := 20\<rparr>"

theorem cantp_frame_isolation_witness:
  "CanTp_SubState (CanTp_Prv_ProcessFrame st_sys st_ff_ctx \<lparr>SduDataPtr = None, SduLength = 8\<rparr> (\<lambda>_. 0) st_requested) 0 = CanTp_SubState st_requested 0"
proof -
  have "(0::nat) \<noteq> rc_ChannelId st_ff_ctx" by (simp add: st_ff_ctx_def)
  from cantp_frame_isolation [OF this refl] show ?thesis by blast
qed

subsection \<open>Time-outs\<close>

text \<open>
  C5. A channel that waits (for a confirmation, a flow control, a consecutive frame or the end of
  a reception request) does not wait for ever: left alone, it stays in its sub-state exactly until
  its N_As/N_Ar, N_Bs/N_Br or N_Cs/N_Cr limit has passed, counted in calls of the main function
  from the time it has waited already, and is idle from the next call on. Other channels may do
  anything meanwhile.
\<close>

theorem cantp_waiting_ends:
  assumes "CanTp_MainState s" "\<not> CANTP_TX_BURST_MODE S" "c < NumberOfChannels (cfgp s)"
    and "is_waiting (CanTp_SubState s c)" "wait_limit c s + 1 < 2 ^ TickBits S"
  shows "CanTp_SubState ((CanTp_MainFunction S ^^ k) s) c =
    (if k = 0 \<or> k + elapsed S c s \<le> wait_limit c s + 1 then CanTp_SubState s c else CANTP_IDLE)"
  using main_iterate [OF assms, of k] by (simp add: Let_def)

definition st_waiting :: "nat list list CanIf_St StackExt CanTp_GlobalType" where
  "st_waiting = set_sub 0 CANTP_TX_WAIT_FOR_FLOWCONTROL_FRAME st_tx"

lemma st_waiting_fields:
  "CanTp_MainState st_waiting" "\<not> CANTP_TX_BURST_MODE st_sys" "0 < NumberOfChannels (cfgp st_waiting)" "CanTp_SubState st_waiting 0 = CANTP_TX_WAIT_FOR_FLOWCONTROL_FRAME"
  "wait_limit 0 st_waiting = 100" "elapsed st_sys 0 st_waiting = 0" "TickBits st_sys = 16"
  by (simp_all add: st_waiting_def st_tx_def st_idle_def st_cfg_def st_sys_fields cfgp_def wait_limit_def elapsed_def ubits_ticks ubits_def)

theorem cantp_waiting_ends_witness:
  "CanTp_SubState ((CanTp_MainFunction st_sys ^^ 101) st_waiting) 0 = CANTP_TX_WAIT_FOR_FLOWCONTROL_FRAME \<and>
   CanTp_SubState ((CanTp_MainFunction st_sys ^^ 102) st_waiting) 0 = CANTP_IDLE"
proof -
  have w: "is_waiting (CanTp_SubState st_waiting 0)" "wait_limit 0 st_waiting + 1 < 2 ^ TickBits st_sys" by (simp_all add: st_waiting_fields)
  note c = cantp_waiting_ends [OF st_waiting_fields(1-3) w]
  show ?thesis unfolding c [of 101] c [of 102] st_waiting_fields by simp
qed

text \<open>
  When the limit of a waiting channel has passed, its state function reports the failure once:
  \<^verbatim>\<open>PduR_CanTpTxConfirmation\<close> or \<^verbatim>\<open>PduR_CanTpRxIndication\<close> with \<^verbatim>\<open>E_NOT_OK\<close> for its connection and
  the run-time error, after which the channel is idle. Before that it changes nothing.
\<close>

theorem cantp_timeout_reported:
  assumes "is_waiting (CanTp_SubState s c)"
  shows "if wait_limit c s < elapsed S c s
    then CanTp_SubState (CanTp_Prv_ExecuteState S c s) c = CANTP_IDLE \<and> ext (CanTp_Prv_ExecuteState S c s) = ext (tell_failure S c s)
    else CanTp_Prv_ExecuteState S c s = s"
  using waiting_exec [OF assms, of S] by simp

theorem cantp_timeout_reported_witness:
  "CanTp_Prv_ExecuteState st_sys 0 (st_waiting\<lparr>CanTp_MainFunctionTicks := 100\<rparr>) = st_waiting\<lparr>CanTp_MainFunctionTicks := 100\<rparr> \<and>
   CanTp_SubState (CanTp_Prv_ExecuteState st_sys 0 (st_waiting\<lparr>CanTp_MainFunctionTicks := 101\<rparr>)) 0 = CANTP_IDLE"
proof -
  have w: "is_waiting (CanTp_SubState (st_waiting\<lparr>CanTp_MainFunctionTicks := n\<rparr>) 0)" "wait_limit 0 (st_waiting\<lparr>CanTp_MainFunctionTicks := n\<rparr>) = 100"
    for n by (simp_all add: st_waiting_def st_tx_def st_idle_def st_cfg_def cfgp_def wait_limit_def)
  have e: "elapsed st_sys 0 (st_waiting\<lparr>CanTp_MainFunctionTicks := 100\<rparr>) = 100" "elapsed st_sys 0 (st_waiting\<lparr>CanTp_MainFunctionTicks := 101\<rparr>) = 101"
    by (simp_all add: st_waiting_def st_tx_def st_idle_def elapsed_def ubits_ticks ubits_def st_sys_fields)
  show ?thesis using cantp_timeout_reported [OF w(1) [of 100], of st_sys] cantp_timeout_reported [OF w(1) [of 101], of st_sys]
    unfolding w(2) e by simp
qed

subsection \<open>Requests\<close>

text \<open>
  Before initialisation, with development error detection, no service does anything but
  report \<^verbatim>\<open>CANTP_E_UNINIT\<close>: channels, confirmations, parameters and time stay as they are.
\<close>

theorem cantp_uninit_inert:
  assumes "CANTP_DEV_ERROR_DETECT S" "\<not> CanTp_MainState s"
  shows "\<exists>api. handle S ev s = s\<lparr>ext := Det_ReportErrorFn S api CANTP_E_UNINIT (ext s)\<rparr>"
  using assms by (cases ev)
    (auto simp: CanTp_Transmit_def CanTp_CancelTransmit_def CanTp_CancelReceive_def CanTp_ChangeParameter_def CanTp_ReadParameter_def CanTp_RxIndication_def
      CanTp_TxConfirmation_def CanTp_TriggerTransmit_def CanTp_MainFunction_def dev_guard_def CanTp_Prv_IsNoDevError_def CanTp_Prv_ReportError_def)

theorem cantp_uninit_inert_witness:
  "\<exists>api. handle st_sys (Ev_Transmit 0 (Some \<lparr>SduDataPtr = None, SduLength = 20\<rparr>)) (st_tx\<lparr>CanTp_MainState := False\<rparr>) =
     (st_tx\<lparr>CanTp_MainState := False\<rparr>)\<lparr>ext := Det_ReportErrorFn st_sys api CANTP_E_UNINIT (ext (st_tx\<lparr>CanTp_MainState := False\<rparr>))\<rparr>"
  by (rule cantp_uninit_inert) (simp_all add: st_build_fields)

text \<open>
  C32. \<^verbatim>\<open>CanTp_Transmit\<close> accepts a request exactly when it has a description of a message that is not empty and
  not longer than the connection may carry, and the channel is idle. An accepted request only
  books the channel; a refused one changes nothing in CanTp.
\<close>

theorem cantp_transmit_iff:
  assumes "cantp_on cfg s" "i < NumberOfTxSdus cfg" "conn = TxSdu cfg i" "CanTp_Transmit S i info s = (r, s')"
  shows "(r = E_OK \<longleftrightarrow> (\<exists>pdu. info = Some pdu \<and> 0 < SduLength pdu \<and>
      SduLength pdu \<le> Transmit_MaxLength S conn (CanTp_Prv_TxPciInit S i (SduLength pdu) s) \<and> CanTp_SubState s (tx_ChannelId conn) = CANTP_IDLE)) \<and>
    (r = E_OK \<longrightarrow> CanTp_SubState s' = (CanTp_SubState s)(tx_ChannelId conn := CANTP_TX_TRANSMISSION_REQUEST_ACCEPTED) \<and>
      ch_ActiveSduId (CanTp_Channel s' (tx_ChannelId conn)) = i \<and> ext s' = ext s) \<and>
    (r \<noteq> E_OK \<longrightarrow> s' = s\<lparr>ext := ext s'\<rparr>)"
proof -
  have g: "dev_guard S i CANTP_TRANSMIT CANTP_E_INVALID_TX_ID s = (True, s)" "cfgp s = cfg"
    using assms(1,2) by (auto simp: dev_guard_def CanTp_Prv_IsNoDevError_def dest!: cantp_onD)
  have idle: "CanTp_Prv_GetState c s = STATE_IDLE \<longleftrightarrow> CanTp_SubState s c = CANTP_IDLE" for c
    by (cases "CanTp_SubState s c") (simp_all add: CanTp_Prv_GetState_def)
  show ?thesis using assms(4) unfolding CanTp_Transmit_def g prod.case Let_def ubits_ticks idle assms(3) [symmetric]
    by (cases info) (auto simp: CanTp_Prv_ReportRunTimeError_def split: if_splits)
qed

theorem cantp_transmit_iff_witness:
  "fst (CanTp_Transmit st_sys 0 (Some \<lparr>SduDataPtr = None, SduLength = 20\<rparr>) st_tx) = E_OK \<and>
   fst (CanTp_Transmit st_sys 0 (Some \<lparr>SduDataPtr = None, SduLength = 4096\<rparr>) st_tx) \<noteq> E_OK"
proof -
  have on: "cantp_on st_cfg st_tx" "0 < NumberOfTxSdus st_cfg" by (simp_all add: cantp_on_def st_tx_def st_idle_def st_cfg_def)
  have m: "Transmit_MaxLength st_sys (TxSdu st_cfg 0) x = 4095" "CanTp_SubState st_tx k = CANTP_IDLE" for x k
    by (simp_all add: Transmit_MaxLength_def st_sys_fields st_cfg_def CanTp_Prv_GetBit_def CanTp_Prv_GetTxDl_def u16_def st_tx_def st_idle_def Let_def)
  note c = cantp_transmit_iff [OF on refl prod.collapse [symmetric], of st_sys, unfolded m]
  show ?thesis using c [of "Some \<lparr>SduDataPtr = None, SduLength = 20\<rparr>"] c [of "Some \<lparr>SduDataPtr = None, SduLength = 4096\<rparr>"] by simp
qed

subsection \<open>Frames that do not fit\<close>

text \<open>
  C33. A consecutive frame with a sequence number other than the one expected ends the reception: the
  upper layer gets \<^verbatim>\<open>PduR_CanTpRxIndication\<close> with \<^verbatim>\<open>E_NOT_OK\<close>, none of the frame's bytes are handed over, and
  the channel is idle.
\<close>

theorem cantp_wrong_sn_aborts:
  assumes path: "rx_path S cfg P r adr" and dl: "dl_ok S dl" and wait: "rx_waiting S cfg r dl s"
    and c: "c = rx_ChannelId (RxSdu cfg r)"
    and sn: "sn < 16" "sn \<noteq> ch_SN (CanTp_Channel s c)"
    and bs: "length bs = min (dl - Suc (length adr)) (ch_SduLengthRemaining (CanTp_Channel s c))"
    and f: "f = cf_bytes S (rx_BitFields (RxSdu cfg r)) adr dl sn bs"
    and dlc: "CanTp_Cfg_DlcCheck S (length f) (length f) = E_OK"
  shows "CanTp_Receive S P f s = set_sub c CANTP_IDLE (s\<lparr>ext := PduR_CanTpRxIndication S (rx_PduRPduHandleId (RxSdu cfg r)) E_NOT_OK (ext s)\<rparr>)"
proof -
  have w: "cantp_on cfg s" "CanTp_SubState s c = CANTP_RX_WAIT_FOR_CONSECUTIVE_FRAME" "ch_ActiveSduId (CanTp_Channel s c) = r"
    "CanTp_Prv_GetRxDl S c s = dl" "0 < ch_BlockCfsRemaining (CanTp_Channel s c)"
    "snd (CanTp_GetElapsedValue S (ch_InitialTicks (CanTp_Channel s c)) s) \<le> CsCrTicks (TimeOut cfg (rx_TimeOutId (RxSdu cfg r)))"
    using wait c by (auto simp: rx_waiting_def Let_def)
  obtain rest where fr: "f = adr @ (CANTP_CF_HIGHNIBBLE OR sn) # rest" using cf_bytes_Cons f by metis
  let ?ctx = "(rx_ctx cfg P r adr CANTP_CONSECUTIVE_FRAME)\<lparr>rc_SN := sn, rc_CAN_DL := length f, rc_DataOffset := Suc (length adr), rc_SduLength := 0\<rparr>"
  have chk: "CanTp_Prv_RxSduLengthCheck S (rx_ctx cfg P r adr CANTP_CONSECUTIVE_FRAME) (mem_of f) (length f) s = (E_OK, ?ctx)"
    using w(4) bs by (intro cf_check [OF path dl sn(1) _ _ f dlc]) (simp_all add: c)
  have "CanTp_Prv_ProcessFrame S ?ctx (pdu_of f) (mem_of f) s =
      set_sub c CANTP_IDLE (s\<lparr>ext := PduR_CanTpRxIndication S (rx_PduRPduHandleId (RxSdu cfg r)) E_NOT_OK (ext s)\<rparr>)"
    using w sn cantp_onD [OF w(1)]
    by (simp add: CanTp_Prv_ProcessFrame_def CanTp_Prv_ProcessRxConsecutiveFrame_def rx_ctx_def ubits_ticks CanTp_Prv_PduRConfirmation_def c [symmetric] Let_def)
  then show ?thesis
    using Receive_data [OF w(1) path _ _ chk fr] cf_nibbles [OF sn(1)] by (simp add: rx_ctx_def c Burst_idle)
qed

definition st_cf :: "nat list list CanIf_St StackExt CanTp_GlobalType" where
  "st_cf = set_sub 1 CANTP_RX_WAIT_FOR_CONSECUTIVE_FRAME (upd_ch 1 (\<lambda>ch. ch\<lparr>ch_SN := 1, ch_BlockCfsRemaining := 2, ch_SduLengthRemaining := 14\<rparr>) st_rx)"

theorem cantp_wrong_sn_aborts_witness:
  "CanTp_SubState (CanTp_Receive st_sys 0 (cf_bytes st_sys 8 [] 8 3 [1, 2, 3, 4, 5, 6, 7]) st_cf) 1 = CANTP_IDLE"
proof -
  have p: "rx_path st_sys st_cfg 0 0 []" "dl_ok st_sys 8" using st_rx_station st_build by (auto simp: rx_station_def build_ok_def Let_def)
  have w: "rx_waiting st_sys st_cfg 0 8 st_cf"
    by (simp add: rx_waiting_def st_cf_def st_rx_def st_idle_def st_cfg_def cantp_on_def CanTp_Prv_GetRxDl_def st_sys_fields ubits_ticks ubits_def)
  have b: "rx_BitFields (RxSdu st_cfg 0) = 8" "rx_ChannelId (RxSdu st_cfg 0) = 1" by (simp_all add: st_cfg_def)
  have d: "CanTp_Cfg_DlcCheck st_sys n n = E_OK" for n by (simp add: st_sys_fields)
  have "CanTp_Receive st_sys 0 (cf_bytes st_sys 8 [] 8 3 [1, 2, 3, 4, 5, 6, 7]) st_cf =
      set_sub 1 CANTP_IDLE (st_cf\<lparr>ext := PduR_CanTpRxIndication st_sys (rx_PduRPduHandleId (RxSdu st_cfg 0)) E_NOT_OK (ext st_cf)\<rparr>)"
    by (rule cantp_wrong_sn_aborts [OF p w _ _ _ _ _ d, unfolded b, where bs = "[1, 2, 3, 4, 5, 6, 7]" and sn = 3]) (simp_all add: st_cf_def)
  then show ?thesis by simp
qed

text \<open>
  While a sender waits for flow control, a flow-control frame that says wait only restarts its
  timer; one that says overflow ends the transmission, with \<^verbatim>\<open>PduR_CanTpTxConfirmation\<close> and \<^verbatim>\<open>E_NOT_OK\<close>.
\<close>

theorem cantp_fc_wait_overflow:
  assumes on: "cantp_on cfg s" and path: "fc_path cfg P t adr" and c: "c = tx_ChannelId (TxSdu cfg t)"
    and st: "CanTp_SubState s c = CANTP_TX_WAIT_FOR_FLOWCONTROL_FRAME" "ch_ActiveSduId (CanTp_Channel s c) = t"
    and time: "elapsed S c s \<le> BsBrTicks (TimeOut cfg (tx_TimeOutId (TxSdu cfg t)))"
    and fs: "fs = CANTP_FC_WAIT \<or> fs = CANTP_FC_OVERFLOW" and f: "f = fc_bytes S (tx_BitFields (TxSdu cfg t)) adr fs bs stm"
    and dlc: "CanTp_Cfg_DlcCheck S (length f) (length f) = E_OK"
  shows "CanTp_Receive S P f s =
    (let s1 = upd_ch c (ch_InitialTicks_update (\<lambda>_. CanTp_MainFunctionTicks s)) s in
     if fs = CANTP_FC_WAIT then upd_ch c (ch_FlowStatus_update (\<lambda>_. CANTP_FC_WAIT)) s1
     else set_sub c CANTP_IDLE (s1\<lparr>ext := PduR_CanTpTxConfirmation S (tx_PduRPduHandleId (TxSdu cfg t)) E_NOT_OK (ext s)\<rparr>))"
proof -
  have "fs \<le> 2" using fs by auto
  from Receive_fc [OF on path st(1) [unfolded c] this f dlc] obtain ctx where ctx: "rc_ChannelId ctx = c" "rc_PduRPduHandleId ctx = tx_PduRPduHandleId (TxSdu cfg t)"
    "rc_FlowStatus ctx = fs" "CanTp_Receive S P f s = CanTp_Prv_BurstMainFunction S c (CanTp_Prv_ProcessRxFlowControlFrame S ctx (mem_of f) s)"
    unfolding c by metis
  show ?thesis
    using fs st time cantp_onD [OF on]
    by (auto simp: ctx CanTp_Prv_ProcessRxFlowControlFrame_def CanTp_Prv_PduRConfirmation_def elapsed_def ubits_ticks Burst_idle Let_def)
qed

theorem cantp_fc_wait_overflow_witness:
  "CanTp_SubState (CanTp_Receive st_sys 0 (fc_bytes st_sys 8 [] CANTP_FC_OVERFLOW 0 0) st_waiting) 0 = CANTP_IDLE \<and>
   CanTp_SubState (CanTp_Receive st_sys 0 (fc_bytes st_sys 8 [] CANTP_FC_WAIT 0 0) st_waiting) 0 = CANTP_TX_WAIT_FOR_FLOWCONTROL_FRAME"
proof -
  have p: "cantp_on st_cfg st_waiting" "fc_path st_cfg 0 0 []" "0 = tx_ChannelId (TxSdu st_cfg 0)" "ch_ActiveSduId (CanTp_Channel st_waiting 0) = 0"
    "elapsed st_sys 0 st_waiting \<le> BsBrTicks (TimeOut st_cfg (tx_TimeOutId (TxSdu st_cfg 0)))" "tx_BitFields (TxSdu st_cfg 0) = 8"
    using st_waiting_fields by (simp_all add: cantp_on_def st_waiting_def st_tx_def st_idle_def fc_path_def st_cfg_def)
  have d: "CanTp_Cfg_DlcCheck st_sys n n = E_OK" for n by (simp add: st_sys_fields)
  note c = cantp_fc_wait_overflow [OF p(1-3) st_waiting_fields(4) p(4,5) _ _ d, unfolded p(6), where bs = 0 and stm = 0]
  show ?thesis using c [where fs = CANTP_FC_OVERFLOW, OF _ refl] c [where fs = CANTP_FC_WAIT, OF _ refl] st_waiting_fields(4) by (simp add: Let_def)
qed

subsection \<open>A reception that never ends\<close>

text \<open>
  A channel owes a flow-control frame while the confirmation entry of its connection still names it, as
  after a First Frame that arrives while the flow-control frame of the previous one is unconfirmed.
\<close>

definition fc_blocked :: "nat \<Rightarrow> nat \<Rightarrow> 'e CanTp_GlobalType \<Rightarrow> bool" where
  "fc_blocked c i s \<longleftrightarrow> CanTp_SubState s c = CANTP_RX_SEND_FC \<and>
     rx_TxConfirmationId (RxSdu (cfgp s) (ch_ActiveSduId (CanTp_Channel s c))) = i \<and> CanTp_TxConfirmationChannel s i = c"

lemma fc_blocked_keep:
  assumes "fc_blocked c i s" "only_ch k j s t" "k \<noteq> c" "j \<noteq> i"
  shows "fc_blocked c i t"
proof -
  have "cfgp t = cfgp s" using assms(2) by (simp add: only_ch_def cfgp_def)
  then show ?thesis using assms by (simp add: fc_blocked_def only_ch_def)
qed

lemma fc_blocked_exec:
  assumes inv: "cantp_inv S cfg own s" and priv: "conf_private cfg own" and b: "fc_blocked c i s" and i: "own i = c" "c \<noteq> CANTP_INVALID_CHANNEL S"
  shows "fc_blocked c i (CanTp_Prv_ExecuteState S k s)"
proof -
  consider "k = c" | "k \<noteq> c" "CanTp_SubState s k = CANTP_IDLE" | "k \<noteq> c" "CanTp_State (CanTp_SubState s k) \<noteq> STATE_IDLE"
    by (cases "CanTp_SubState s k") auto
  then show ?thesis
  proof cases
    case 1
    have st: "CanTp_SubState s c = CANTP_RX_SEND_FC" "rx_TxConfirmationId (RxSdu (cfgp s) (ch_ActiveSduId (CanTp_Channel s c))) = i"
      and n: "\<not> (CanTp_SubState s c = CANTP_RX_SEND_FC \<and> CanTp_TxConfirmationChannel s i = CANTP_INVALID_CHANNEL S)"
      using b i by (simp_all add: fc_blocked_def)
    have "CanTp_Prv_RxSendFlowControlFrame S c s = s"
      unfolding CanTp_Prv_RxSendFlowControlFrame_def Let_def ubits_ticks prod.case st(2) if_not_P [OF n] ..
    then show ?thesis using b 1 st by (simp add: CanTp_Prv_ExecuteState_def)
  next
    case 2
    then show ?thesis using b by (simp add: CanTp_Prv_ExecuteState_def)
  next
    case 3
    have "chan_ok cfg k (CanTp_SubState s k) (CanTp_Channel s k)" using inv by (simp add: cantp_inv_def)
    then have "own (conf_id k s) = k" using priv 3 inv_cfgp [OF inv]
      by (cases "CanTp_State (CanTp_SubState s k)") (simp_all add: conf_id_def chan_ok_def conf_private_def CanTp_Prv_GetState_def Let_def)
    then have "conf_id k s \<noteq> i" using 3 i by auto
    moreover have "only_ch k (conf_id k s) s (CanTp_Prv_ExecuteState S k s)" using ExecuteState_step by (auto simp: ch_step_def)
    ultimately show ?thesis using fc_blocked_keep [OF b _ 3(1)] by blast
  qed
qed

lemma fc_blocked_main:
  assumes inv: "cantp_inv S cfg own s" and priv: "conf_private cfg own" and burst: "\<not> CANTP_TX_BURST_MODE S"
    and b: "fc_blocked c i s" and i: "own i = c" "c \<noteq> CANTP_INVALID_CHANNEL S"
  shows "fc_blocked c i (CanTp_MainFunction S s)"
proof -
  have "cantp_inv S cfg own (fold (CanTp_Prv_ExecuteState S) ks s) \<and> fc_blocked c i (fold (CanTp_Prv_ExecuteState S) ks s)" for ks
    using inv b by (induction ks arbitrary: s) (simp_all add: inv_exec [OF _ priv] fc_blocked_exec [OF _ priv _ i])
  moreover have "fc_blocked c i (CanTp_IncrementCounter S u)" if "fc_blocked c i u" for u
    using that by (simp add: CanTp_IncrementCounter_def fc_blocked_def cfgp_def)
  moreover have "CanTp_MainState s" using inv by (simp add: cantp_inv_def)
  ultimately show ?thesis using burst by (simp add: CanTp_MainFunction_def Let_def)
qed

lemma fc_blocked_confirmation:
  assumes inv: "cantp_inv S cfg own s" and det: "CANTP_DEV_ERROR_DETECT S" and size: "NumberOfChannels cfg \<le> CANTP_MAX_CHANNEL_SIZE S"
    and burst: "\<not> CANTP_TX_BURST_MODE S" and b: "fc_blocked c i s" and i: "own i = c"
  shows "fc_blocked c i (CanTp_TxConfirmation S j s)"
proof -
  obtain ok s0 where g: "dev_guard S j CANTP_TXCONFIRMATION CANTP_E_INVALID_TX_ID s = (ok, s0)" by fastforce
  note bm = CanTp_Prv_BurstMainFunction_def
  show ?thesis
  proof (cases ok)
    case False
    then show ?thesis using guard_cases [OF det g] b by (auto simp: CanTp_TxConfirmation_def g fc_blocked_def CanTp_Prv_ReportError_def cfgp_def)
  next
    case True
    then have s0: "s0 = s" and jr: "j < NumberOfTxPdus cfg"
      using guard_cases [OF det g] guard_range(4) [OF det _ g True] inv_cfgp [OF inv] by auto
    let ?k = "CanTp_TxConfirmationChannel s j"
    have ne: "?k \<noteq> c \<and> j \<noteq> i" if "is_waiting (CanTp_SubState s ?k)" "?k < NumberOfChannels cfg" using that b by (auto simp: fc_blocked_def)
    have "ch_step S ?k j s (set_conf j (CANTP_INVALID_CHANNEL S) (CanTp_Prv_FcTxConfirmation S ?k (upd_ch ?k (ch_InitialTicks_update (\<lambda>_. v)) s)))"
      if "CanTp_SubState s ?k = CANTP_RX_WAIT_FOR_FCTRANSMIT_CONFIRMATION" for v
      using that by (intro ch_step_conf FcTxConfirmation_step ch_step_ch ch_step_refl) (simp_all add: chan_wt_def)
    then have fc: "fc_blocked c i (set_conf j (CANTP_INVALID_CHANNEL S) (CanTp_Prv_FcTxConfirmation S ?k (upd_ch ?k (ch_InitialTicks_update (\<lambda>_. v)) s)))"
      if "CanTp_SubState s ?k = CANTP_RX_WAIT_FOR_FCTRANSMIT_CONFIRMATION" "?k < NumberOfChannels cfg" for v
      using that ne by (intro fc_blocked_keep [OF b, of ?k j]) (simp_all add: ch_step_def)
    have da: "fc_blocked c i (TxConfirmation_data S j ?k v s)"
      if "CanTp_SubState s ?k = CANTP_TX_WAIT_FOR_TRANSMIT_CONFIRMATION" "?k < NumberOfChannels cfg" for v
      using that ne TxConfirmation_data_step [of s ?k S j v] by (intro fc_blocked_keep [OF b, of ?k j]) (simp_all add: ch_step_def)
    show ?thesis unfolding CanTp_TxConfirmation_def g s0 prod.case Let_def ubits_ticks inv_cfgp [OF inv]
      using True b burst by (auto simp: bm fc da split: CanTp_SubStateType.split)
  qed
qed

text \<open>
  C38. From such a state neither the main function nor any confirmation of CanIf, in any order and number, gets
  the channel out: it never sends its flow-control frame, no time-out ends it, and
  the upper layer is told nothing. Only a new request or frame, or a cancellation, can.
\<close>

theorem cantp_fc_blocked_forever:
  assumes "cantp_inv S cfg own s" "conf_private cfg own" "CANTP_DEV_ERROR_DETECT S" "NumberOfChannels cfg \<le> CANTP_MAX_CHANNEL_SIZE S"
    and "\<not> CANTP_TX_BURST_MODE S" "fc_blocked c i s" "own i = c" "c < CANTP_MAX_CHANNEL_SIZE S"
    and evs: "set evs \<subseteq> insert Ev_MainFunction (range Ev_TxConfirmation)"
  shows "fc_blocked c i (fold (handle S) evs s)"
  using assms(1,6) evs
proof (induction evs arbitrary: s)
  case (Cons ev evs)
  have "cantp_inv S cfg own (handle S ev s)" by (rule inv_handle [OF Cons.prems(1) assms(3,2,4)])
  moreover have "fc_blocked c i (handle S ev s)"
    using Cons.prems fc_blocked_main [OF Cons.prems(1) assms(2,5) Cons.prems(2) assms(7)]
      fc_blocked_confirmation [OF Cons.prems(1) assms(3-5) Cons.prems(2) assms(7)] assms(8) by auto
  ultimately show ?case using Cons by simp
qed simp

text \<open>
  The receiver of a station whose upper layer has room for a hundred bytes: a First Frame, the main function
  sends the flow control, and the sender repeats its First Frame before CanIf has confirmed it.
\<close>

definition rep_sys :: "unit CanTp_Sys" where
  "rep_sys = st_sys0\<lparr>PduR_CanTpStartOfReception := \<lambda>_ _ _ e. (BUFREQ_OK, 100, e), PduR_CanTpCopyRxData := \<lambda>_ _ e. (BUFREQ_OK, 100, e),
     CanIf_TransmitFn := \<lambda>_ _ _ e. (E_OK, e)\<rparr>"

definition rep_ff :: CanTp_Event where
  "rep_ff = Ev_RxIndication 0 (Some (pdu_of [16, 20, 1, 2, 3, 4, 5, 6]))"

definition rep_ctx :: CanTp_RxContextType where
  "rep_ctx = (rx_ctx st_cfg 0 0 [] 1)\<lparr>rc_CAN_DL := 8, rc_DataOffset := 2, rc_SduLength := 20\<rparr>"

lemma rep_fields:
  "CANTP_DEV_ERROR_DETECT rep_sys" "CANTP_CANFD_SUPPORT rep_sys = False" "PduLengthBits rep_sys = 16" "CANTP_TX_BURST_MODE rep_sys = False"
  "TickBits rep_sys = 16" "CanTp_Cfg_DlcCheck rep_sys = (\<lambda>a b. if a = b then E_OK else E_NOT_OK)" "CanTp_FdCallOut rep_sys = None"
  "PduR_CanTpStartOfReception rep_sys = (\<lambda>_ _ _ e. (BUFREQ_OK, 100, e))" "PduR_CanTpCopyRxData rep_sys = (\<lambda>_ _ e. (BUFREQ_OK, 100, e))"
  "CanIf_TransmitFn rep_sys = (\<lambda>_ _ _ e. (E_OK, e))" "CANTP_MAX_CHANNEL_SIZE rep_sys = 2" "CANTP_FC_DISABLE_SUPPORT rep_sys = False"
  "CANTP_TRIGGER_TRANSMIT_API rep_sys = False" "CANTP_DYNAMIC_FC_SUPPORT rep_sys" "CANTP_CHANGE_PARAMETER_API rep_sys = False" "CANTP_INVALID_STMIN_TICKS rep_sys = 65535"
  by (simp_all add: rep_sys_def st_sys0_def)

lemma rep_path: "rx_path rep_sys st_cfg 0 0 []"
  by (simp add: rx_path_def st_cfg_def CanTp_Prv_GetBit_def)

lemma rep_received:
  assumes on: "cantp_on st_cfg s" and st: "CanTp_Prv_GetState 1 s = STATE_IDLE \<or> CanTp_Prv_GetState 1 s = CANTP_RECEPTION \<and> ch_ActiveSduId (CanTp_Channel s 1) = 0"
    and t: "t = handle rep_sys rep_ff s"
  shows "cantp_on st_cfg t" "CanTp_SubState t = (CanTp_SubState s)(1 := CANTP_RX_SEND_FC)" "CanTp_TxConfirmationChannel t = CanTp_TxConfirmationChannel s"
    "ch_ActiveSduId (CanTp_Channel t 1) = 0" "CanTp_TxConfirmationChannel s 1 = 2 \<Longrightarrow> rx_fc_due rep_sys st_cfg 0 8 14 t"
proof -
  let ?f = "[16, 20, 1, 2, 3, 4, 5, 6] :: nat list"
  have chk: "CanTp_Prv_RxSduLengthCheck rep_sys (rx_ctx st_cfg 0 0 [] 1) (mem_of ?f) 8 s = (E_OK, rep_ctx)"
    by (simp add: CanTp_Prv_RxSduLengthCheck_def ff_length_check_def rep_ctx_def rx_ctx_def mem_of_def rep_fields CanTp_Prv_IsRxDlInValid_def CanTp_PciSize_def
        u8_def ubits_def Let_def)
  have chk': "CanTp_Prv_RxSduLengthCheck rep_sys (rx_ctx st_cfg 0 0 [] 1) (mem_of ?f) (length ?f) s = (E_OK, rep_ctx)"
  proof -
    have "length ?f = 8" by simp
    then show ?thesis using chk by (simp only:)
  qed
  have "t = CanTp_Prv_BurstMainFunction rep_sys 1 (CanTp_Prv_ProcessFrame rep_sys rep_ctx (pdu_of ?f) (mem_of ?f) s)"
    using Receive_data [OF on rep_path _ _ chk', of 16 "tl ?f"] by (simp add: t rep_ff_def CanTp_Receive_def rep_ctx_def rx_ctx_def st_cfg_def)
  then have e: "t = CanTp_Prv_ProcessRxFirstFrame rep_sys rep_ctx (pdu_of ?f) (mem_of ?f) s"
    by (simp add: CanTp_Prv_BurstMainFunction_def rep_fields CanTp_Prv_ProcessFrame_def rep_ctx_def rx_ctx_def)
  have c: "rc_ChannelId rep_ctx = 1" "rc_SduId rep_ctx = 0" "rc_DataOffset rep_ctx = 2" "rc_SduLength rep_ctx = 20" "rc_PduRPduHandleId rep_ctx = 0"
    by (simp_all add: rep_ctx_def rx_ctx_def st_cfg_def)
  show "cantp_on st_cfg t" "CanTp_SubState t = (CanTp_SubState s)(1 := CANTP_RX_SEND_FC)" "CanTp_TxConfirmationChannel t = CanTp_TxConfirmationChannel s"
    "ch_ActiveSduId (CanTp_Channel t 1) = 0" "CanTp_TxConfirmationChannel s 1 = 2 \<Longrightarrow> rx_fc_due rep_sys st_cfg 0 8 14 t"
    using on st unfolding e CanTp_Prv_ProcessRxFirstFrame_def CanTp_Prv_GetConnectionAcceptance_def c
    by (auto simp: rep_fields CanTp_Prv_SetRxDl_def CanTp_Prv_PduRConfirmation_def ubits_ticks cantp_on_def u8_def ubits_def Let_def
      rx_fc_due_def st_cfg_def CanTp_Prv_GetRxDl_def CanTp_Prv_GetRxParam_def cfgp_def)
qed

lemma rep_sent:
  assumes st: "CanTp_SubState s = (\<lambda>_. CANTP_IDLE)(1 := CANTP_RX_SEND_FC)" and due: "rx_fc_due rep_sys st_cfg 0 8 14 s"
    and t: "t = handle rep_sys Ev_MainFunction s"
  shows "cantp_on st_cfg t" "CanTp_SubState t 1 = CANTP_RX_WAIT_FOR_FCTRANSMIT_CONFIRMATION" "ch_ActiveSduId (CanTp_Channel t 1) = 0" "CanTp_TxConfirmationChannel t 1 = 1"
proof -
  have on: "cantp_on st_cfg s" and a: "ch_ActiveSduId (CanTp_Channel s 1) = 0" using due by (auto simp: rx_fc_due_def Let_def st_cfg_def)
  have p: "rx_fc_path rep_sys st_cfg 0" "1 = rx_ChannelId (RxSdu st_cfg 0)" "1 = rx_TxConfirmationId (RxSdu st_cfg 0)" "NumberOfChannels st_cfg = 2"
    by (simp_all add: rx_fc_path_def st_cfg_def rep_fields)
  have "CanTp_Prv_ExecuteState rep_sys 1 s = fc_handed rep_sys 0 1 1 (ext s) s"
    by (rule SendFlowControl [OF due p(1) refl p(2,3), where n = 100]) (simp_all add: rep_fields)
  moreover have "CanTp_Prv_ExecuteState rep_sys 0 s = s" using st by (simp add: CanTp_Prv_ExecuteState_def)
  ultimately have "t = CanTp_IncrementCounter rep_sys (fc_handed rep_sys 0 1 1 (ext s) s)"
    using cantp_onD [OF on] p(4) by (simp add: t CanTp_MainFunction_def rep_fields upt_rec Let_def)
  then show "cantp_on st_cfg t" "CanTp_SubState t 1 = CANTP_RX_WAIT_FOR_FCTRANSMIT_CONFIRMATION" "ch_ActiveSduId (CanTp_Channel t 1) = 0"
    "CanTp_TxConfirmationChannel t 1 = 1" using on a by (simp_all add: CanTp_IncrementCounter_def cantp_on_def fc_handed_def)
qed

definition rep_state :: "unit CanTp_GlobalType" where
  "rep_state = fold (handle rep_sys) [rep_ff, Ev_MainFunction, rep_ff] (st_idle ())"

lemma rep_blocked: "fc_blocked 1 1 rep_state \<and> cantp_inv rep_sys st_cfg id rep_state"
proof -
  let ?s1 = "handle rep_sys rep_ff (st_idle ())"
  have i: "cantp_on st_cfg (st_idle ())" "CanTp_Prv_GetState 1 (st_idle ()) = STATE_IDLE" "CanTp_SubState (st_idle ()) = (\<lambda>_. CANTP_IDLE)"
    "CanTp_TxConfirmationChannel (st_idle ()) = (\<lambda>_. 2)" by (simp_all add: st_idle_def cantp_on_def CanTp_Prv_GetState_def)
  note r1 = rep_received [OF i(1) disjI1, OF i(2) refl]
  have "CanTp_SubState ?s1 = (\<lambda>_. CANTP_IDLE)(1 := CANTP_RX_SEND_FC)" "rx_fc_due rep_sys st_cfg 0 8 14 ?s1" using r1(2,5) i(3,4) by simp_all
  note r2 = rep_sent [OF this refl]
  have g: "CanTp_Prv_GetState 1 (handle rep_sys Ev_MainFunction ?s1) = CANTP_RECEPTION" using r2(2) by (simp add: CanTp_Prv_GetState_def)
  note r3 = rep_received [OF r2(1) disjI2, OF conjI, OF g r2(3) refl]
  have "fc_blocked 1 1 rep_state" using r3 r2(4) cantp_onD [OF r3(1)] by (simp add: rep_state_def fc_blocked_def st_cfg_def)
  moreover have "cantp_inv rep_sys st_cfg id (st_idle ())"
    by (simp add: cantp_inv_def st_idle_def chan_ok_def chan_wt_def rep_fields)
  then have "cantp_inv rep_sys st_cfg id (fold (handle rep_sys) evs (st_idle ()))" for evs
    using st_build_fields(4,5) by (induction evs arbitrary: rule: rev_induct) (simp_all add: inv_handle rep_fields st_cfg_def)
  ultimately show ?thesis unfolding rep_state_def by blast
qed

theorem cantp_fc_blocked_forever_witness:
  "CanTp_SubState (fold (handle rep_sys) [Ev_TxConfirmation 1, Ev_MainFunction, Ev_MainFunction] rep_state) 1 = CANTP_RX_SEND_FC"
proof -
  have "fc_blocked 1 1 (fold (handle rep_sys) [Ev_TxConfirmation 1, Ev_MainFunction, Ev_MainFunction] rep_state)"
    by (rule cantp_fc_blocked_forever [of rep_sys st_cfg id]) (use rep_blocked st_build_fields(5) in \<open>simp_all add: rep_fields st_cfg_def\<close>)
  then show ?thesis by (simp only: fc_blocked_def)
qed

subsection \<open>A request that fails and is not ended\<close>

lemma late_request:
  assumes "CanTp_SubState s c = CANTP_TX_TRANSMISSION_REQUEST_ACCEPTED" "conn = TxSdu (cfgp s) (ch_ActiveSduId (CanTp_Channel s c))"
    and "CanTp_TxConfirmationChannel s (tx_TxConfirmationId conn) \<noteq> CANTP_INVALID_CHANNEL S"
    and "AsArTicks (TimeOut (cfgp s) (tx_TimeOutId conn)) < elapsed S c s"
  shows "CanTp_Prv_ExecuteState S c s = set_conf (tx_TxConfirmationId conn) (CANTP_INVALID_CHANNEL S) (tell_failure S c s)"
proof -
  have n: "\<not> (CanTp_SubState s c = CANTP_TX_TRANSMISSION_REQUEST_ACCEPTED \<and> CanTp_TxConfirmationChannel s (tx_TxConfirmationId conn) = CANTP_INVALID_CHANNEL S)"
    using assms(3) by simp
  have "CanTp_Prv_TxTransmissionRequestAccepted S c s = set_conf (tx_TxConfirmationId conn) (CANTP_INVALID_CHANNEL S) (tell_failure S c s)"
    using assms(4) unfolding CanTp_Prv_TxTransmissionRequestAccepted_def Let_def ubits_ticks prod.case assms(2) [symmetric] if_not_P [OF n]
    by (simp add: elapsed_def ubits_ticks tell_failure_def CanTp_Prv_GetState_def assms(1,2))
  then show ?thesis using assms(1) by (simp add: CanTp_Prv_ExecuteState_def)
qed

lemma expired_request:
  assumes "CanTp_SubState s c = CANTP_TX_TRANSMISSION_REQUEST_ACCEPTED" "conn = TxSdu (cfgp s) (ch_ActiveSduId (CanTp_Channel s c))"
    and "CanTp_TxConfirmationChannel s (tx_TxConfirmationId conn) = CANTP_INVALID_CHANNEL S" "ch_TxBufferStatus (CanTp_Channel s c) \<noteq> CANTP_BUFFER_AVAILABLE"
    and "CsCrTicks (TimeOut (cfgp s) (tx_TimeOutId conn)) \<le> elapsed S c s"
  shows "ext (CanTp_Prv_ExecuteState S c s) = ext (tell_failure S c s) \<and> CanTp_SubState (CanTp_Prv_ExecuteState S c s) c = CANTP_IDLE"
  using assms by (simp add: CanTp_Prv_ExecuteState_def CanTp_Prv_TxTransmissionRequestAccepted_def CanTp_Prv_GetTxBuffer_def ubits_ticks elapsed_def
      tell_failure_def CanTp_Prv_GetState_def CanTp_Prv_ReportRunTimeError_def CanTp_Prv_PduRConfirmation_def Let_def)

text \<open>
  C39. When a request has waited longer than N_As for the confirmation of another message of its N-PDU, the upper layer
  is told that the transmission has failed and the other message's confirmation entry is freed, but the channel is not set
  idle and keeps the request. When N_Cs is over as well at the next execution, at any tick and with the channel left alone in between, and no data is buffered for it,
  the upper layer is told of the failure of the same message a second time, and only then the channel is idle.
\<close>

theorem cantp_late_request_fails_twice:
  assumes "CanTp_SubState s c = CANTP_TX_TRANSMISSION_REQUEST_ACCEPTED" "conn = TxSdu (cfgp s) (ch_ActiveSduId (CanTp_Channel s c))"
    and "CanTp_TxConfirmationChannel s (tx_TxConfirmationId conn) \<noteq> CANTP_INVALID_CHANNEL S" "ch_TxBufferStatus (CanTp_Channel s c) \<noteq> CANTP_BUFFER_AVAILABLE"
    and "AsArTicks (TimeOut (cfgp s) (tx_TimeOutId conn)) < elapsed S c s" "s1 = CanTp_Prv_ExecuteState S c s"
    and "s2 = s1\<lparr>CanTp_MainFunctionTicks := tick\<rparr>" "CsCrTicks (TimeOut (cfgp s) (tx_TimeOutId conn)) \<le> elapsed S c s2" "s3 = CanTp_Prv_ExecuteState S c s2"
  shows "ext s1 = ext (tell_failure S c s) \<and> CanTp_SubState s1 c = CANTP_TX_TRANSMISSION_REQUEST_ACCEPTED \<and>
    CanTp_Channel s1 c = CanTp_Channel s c \<and> CanTp_TxConfirmationChannel s1 (tx_TxConfirmationId conn) = CANTP_INVALID_CHANNEL S \<and>
    ext s3 = ext (tell_failure S c s2) \<and> CanTp_SubState s3 c = CANTP_IDLE"
proof -
  have s1: "s1 = set_conf (tx_TxConfirmationId conn) (CANTP_INVALID_CHANNEL S) (tell_failure S c s)"
    unfolding assms(6) by (rule late_request [OF assms(1-3,5)])
  have f: "CanTp_SubState s1 c = CANTP_TX_TRANSMISSION_REQUEST_ACCEPTED" "CanTp_Channel s1 c = CanTp_Channel s c" "cfgp s1 = cfgp s"
    "CanTp_TxConfirmationChannel s1 (tx_TxConfirmationId conn) = CANTP_INVALID_CHANNEL S" "ext s1 = ext (tell_failure S c s)"
    using assms(1) by (simp_all add: s1 tell_failure_def cfgp_def CanTp_Prv_GetState_def CanTp_Prv_ReportRunTimeError_def CanTp_Prv_PduRConfirmation_def Let_def)
  have g: "CanTp_SubState s2 c = CANTP_TX_TRANSMISSION_REQUEST_ACCEPTED" "conn = TxSdu (cfgp s2) (ch_ActiveSduId (CanTp_Channel s2 c))"
    "CanTp_TxConfirmationChannel s2 (tx_TxConfirmationId conn) = CANTP_INVALID_CHANNEL S" "ch_TxBufferStatus (CanTp_Channel s2 c) \<noteq> CANTP_BUFFER_AVAILABLE"
    "cfgp s2 = cfgp s"
    using f assms(2,4) by (simp_all add: assms(7) cfgp_def)
  from expired_request [OF g(1-4)] assms(8) f show ?thesis by (simp add: assms(9) g(5))
qed

text \<open>A station with a request that has waited 101 ticks; its upper layer and driver accept everything.\<close>

definition late_sys :: "unit CanTp_Sys" where
  "late_sys = st_sys0\<lparr>PduR_CanTpCopyTxData := \<lambda>_ n _ e. (BUFREQ_OK, replicate n 7, 100, e), CanIf_TransmitFn := \<lambda>_ _ _ e. (E_OK, e)\<rparr>"

definition late_state :: "unit CanTp_GlobalType" where
  "late_state = (snd (CanTp_Transmit late_sys 0 (Some \<lparr>SduDataPtr = None, SduLength = 5\<rparr>) (set_conf 0 1 (st_idle ()))))\<lparr>CanTp_MainFunctionTicks := 101\<rparr>"

lemma late_fields:
  "CanTp_SubState late_state 0 = CANTP_TX_TRANSMISSION_REQUEST_ACCEPTED" "CanTp_TxConfirmationChannel late_state 0 = 1" "cfgp late_state = st_cfg"
  "ch_ActiveSduId (CanTp_Channel late_state 0) = 0" "elapsed late_sys 0 late_state = 101" "CANTP_INVALID_CHANNEL late_sys = 2"
  by (simp_all add: late_state_def CanTp_Transmit_def late_sys_def st_sys0_def dev_guard_def CanTp_Prv_IsNoDevError_def cfgp_def st_idle_def st_cfg_def
      Transmit_MaxLength_def CanTp_Prv_GetTxDl_def CanTp_Prv_GetBit_def ubits_ticks u16_def CanTp_Prv_GetState_def elapsed_def ubits_def Let_def)

lemma late_ticks:
  "ch_TxBufferStatus (CanTp_Channel late_state 0) \<noteq> CANTP_BUFFER_AVAILABLE"
  "elapsed late_sys 0 ((CanTp_Prv_ExecuteState late_sys 0 late_state)\<lparr>CanTp_MainFunctionTicks := 102\<rparr>) = 102"
proof -
  show b: "ch_TxBufferStatus (CanTp_Channel late_state 0) \<noteq> CANTP_BUFFER_AVAILABLE"
    by (simp add: late_state_def CanTp_Transmit_def late_sys_def st_sys0_def dev_guard_def CanTp_Prv_IsNoDevError_def cfgp_def st_idle_def st_cfg_def
      Transmit_MaxLength_def CanTp_Prv_GetTxDl_def CanTp_Prv_GetBit_def ubits_ticks u16_def CanTp_Prv_GetState_def Let_def)
  have i: "ch_InitialTicks (CanTp_Channel late_state 0) = 0"
    by (simp add: late_state_def CanTp_Transmit_def late_sys_def st_sys0_def dev_guard_def CanTp_Prv_IsNoDevError_def cfgp_def st_idle_def st_cfg_def
      Transmit_MaxLength_def CanTp_Prv_GetTxDl_def CanTp_Prv_GetBit_def ubits_ticks u16_def CanTp_Prv_GetState_def Let_def)
  have "CanTp_Channel (CanTp_Prv_ExecuteState late_sys 0 late_state) 0 = CanTp_Channel late_state 0"
    using late_request [OF late_fields(1) refl, of late_sys] late_fields
    by (simp add: st_cfg_def tell_failure_def CanTp_Prv_GetState_def CanTp_Prv_ReportRunTimeError_def CanTp_Prv_PduRConfirmation_def Let_def)
  moreover have "TickBits late_sys = 16" by (simp add: late_sys_def st_sys0_def)
  ultimately show "elapsed late_sys 0 ((CanTp_Prv_ExecuteState late_sys 0 late_state)\<lparr>CanTp_MainFunctionTicks := 102\<rparr>) = 102"
    using i by (simp add: elapsed_def CanTp_GetElapsedValue_def ubits_def)
qed

theorem cantp_late_request_fails_twice_witness:
  "let s1 = CanTp_Prv_ExecuteState late_sys 0 late_state
   in CanTp_SubState s1 0 = CANTP_TX_TRANSMISSION_REQUEST_ACCEPTED \<and> CanTp_TxConfirmationChannel s1 0 = 2 \<and>
      CanTp_SubState (CanTp_Prv_ExecuteState late_sys 0 (s1\<lparr>CanTp_MainFunctionTicks := 102\<rparr>)) 0 = CANTP_IDLE"
proof -
  have i: "tx_TxConfirmationId (TxSdu (cfgp late_state) (ch_ActiveSduId (CanTp_Channel late_state 0))) = 0" by (simp add: late_fields st_cfg_def)
  note c = cantp_late_request_fails_twice [OF late_fields(1) refl _ _ _ refl refl _ refl, of late_sys 102, unfolded i late_fields]
  show ?thesis using c by (simp add: late_fields late_ticks st_cfg_def)
qed

subsection \<open>Flow control and the room of the upper layer\<close>

text \<open>
  C34. A receiver invites no more than its upper layer has room for: when \<^verbatim>\<open>CanTp_Prv_SetRxBlockInfo\<close> decides
  for continue-to-send, the frames of the block, or what is left of the message, fit into the buffer it was told of.
\<close>

theorem cantp_block_fits:
  assumes "s' = CanTp_Prv_SetRxBlockInfo S c RemBufSize s" "ch_FlowStatus (CanTp_Channel s' c) = CANTP_FC_CTS"
    and "payload = ulen S (int (CanTp_Prv_GetRxDl S c s) - int (CanTp_AddressSize (rx_AddressFormatId (RxSdu (cfgp s) (ch_ActiveSduId (CanTp_Channel s c))))) - 1)"
  shows "min (ch_SduLengthRemaining (CanTp_Channel s' c)) (ch_BlockCfsRemaining (CanTp_Channel s' c) * payload) \<le> RemBufSize"
  using assms by (auto simp: CanTp_Prv_SetRxBlockInfo_def Let_def min_le_iff_disj split: if_splits)

theorem cantp_block_fits_witness:
  "ch_BlockCfsRemaining (CanTp_Channel (CanTp_Prv_SetRxBlockInfo rep_sys 1 10 (upd_ch 1 (ch_SduLengthRemaining_update (\<lambda>_. 14)) (st_idle ()))) 1) * 7 \<le> 10"
proof -
  let ?s = "upd_ch 1 (ch_SduLengthRemaining_update (\<lambda>_. 14)) (st_idle ())"
  have c: "cfgp ?s = st_cfg" "ch_ActiveSduId (CanTp_Channel ?s 1) = 0" "10 < ch_SduLengthRemaining (CanTp_Channel ?s 1)" by (simp_all add: st_idle_def cfgp_def)
  have b: "ch_FlowStatus (CanTp_Channel (CanTp_Prv_SetRxBlockInfo rep_sys 1 10 ?s) 1) = CANTP_FC_CTS"
    "ch_SduLengthRemaining (CanTp_Channel (CanTp_Prv_SetRxBlockInfo rep_sys 1 10 ?s) 1) = 14"
    by (simp_all add: CanTp_Prv_SetRxBlockInfo_def CanTp_Prv_GetRxDl_def CanTp_Prv_GetRxParam_def rep_fields CanTp_AddressSize_def st_cfg_def st_idle_def cfgp_def
        ubits_def u8_def Let_def)
  have p: "7 = ulen rep_sys (int (CanTp_Prv_GetRxDl rep_sys 1 ?s) - int (CanTp_AddressSize (rx_AddressFormatId (RxSdu (cfgp ?s) (ch_ActiveSduId (CanTp_Channel ?s 1))))) - 1)"
    unfolding c by (simp add: CanTp_Prv_GetRxDl_def rep_fields CanTp_AddressSize_def st_cfg_def ubits_def)
  show ?thesis using cantp_block_fits [OF refl _ p, of 10] b by simp
qed

text \<open>
  The number of frames that fit is narrowed to eight bits: when it is a multiple of 256 and the rest of the
  message does not fit as a whole, the receiver answers wait, however large the buffer is.
\<close>

theorem cantp_block_count_truncated:
  assumes "CANTP_DYNAMIC_FC_SUPPORT S" "RemBufSize < ch_SduLengthRemaining (CanTp_Channel s c)"
    and "payload = ulen S (int (CanTp_Prv_GetRxDl S c s) - int (CanTp_AddressSize (rx_AddressFormatId (RxSdu (cfgp s) (ch_ActiveSduId (CanTp_Channel s c))))) - 1)"
    and "256 dvd RemBufSize div payload"
  shows "ch_FlowStatus (CanTp_Channel (CanTp_Prv_SetRxBlockInfo S c RemBufSize s) c) = CANTP_FC_WAIT"
proof -
  have "u8 (int (RemBufSize div payload)) = 0" using assms(4) by (simp add: u8_mod)
  then show ?thesis using assms(1,2) by (simp add: CanTp_Prv_SetRxBlockInfo_def assms(3) Let_def)
qed

theorem cantp_block_count_truncated_witness:
  "ch_FlowStatus (CanTp_Channel (CanTp_Prv_SetRxBlockInfo rep_sys 1 1792 (upd_ch 1 (ch_SduLengthRemaining_update (\<lambda>_. 4000)) (st_idle ()))) 1) = CANTP_FC_WAIT"
proof -
  let ?s = "upd_ch 1 (ch_SduLengthRemaining_update (\<lambda>_. 4000)) (st_idle ())"
  have c: "cfgp ?s = st_cfg" "ch_ActiveSduId (CanTp_Channel ?s 1) = 0" "1792 < ch_SduLengthRemaining (CanTp_Channel ?s 1)" by (simp_all add: st_idle_def cfgp_def)
  have p: "7 = ulen rep_sys (int (CanTp_Prv_GetRxDl rep_sys 1 ?s) - int (CanTp_AddressSize (rx_AddressFormatId (RxSdu (cfgp ?s) (ch_ActiveSduId (CanTp_Channel ?s 1))))) - 1)"
    unfolding c by (simp add: CanTp_Prv_GetRxDl_def rep_fields CanTp_AddressSize_def st_cfg_def ubits_def)
  show ?thesis by (rule cantp_block_count_truncated [OF rep_fields(14) c(3) p]) simp
qed

subsection \<open>Parameters\<close>

text \<open>
  A parameter that \<^verbatim>\<open>CanTp_ChangeParameter\<close> has accepted is what \<^verbatim>\<open>CanTp_ReadParameter\<close> returns and what the next flow-control frame
  announces; the other parameter and the other connections keep theirs. A connection in the middle of
  a reception refuses the change.
\<close>

theorem cantp_parameter_roundtrip:
  assumes "cantp_on cfg s" "CANTP_CHANGE_PARAMETER_API S" "i < NumberOfRxSdus cfg" "CanTp_ChangeParameter S i p v s = (r, s')"
  shows "(r = E_OK \<longrightarrow> CanTp_ReadParameter S i p True s' = (E_OK, Some v, s') \<and> CanTp_Prv_GetRxParam S i p s' = v \<and>
      (\<forall>j q. (j, q = TP_STMIN) \<noteq> (i, p = TP_STMIN) \<longrightarrow> CanTp_Prv_GetRxParam S j q s' = CanTp_Prv_GetRxParam S j q s)) \<and>
    (CanTp_Prv_GetState (rx_ChannelId (RxSdu cfg i)) s = CANTP_RECEPTION \<longrightarrow> r = E_NOT_OK \<and> CanTp_ParamPair s' = CanTp_ParamPair s)"
proof -
  have g: "dev_guard S i CANTP_CHANGEPARAMETER CANTP_E_INVALID_RX_ID s = (True, s)" "cfgp s = cfg"
    using assms(1,3) by (auto simp: dev_guard_def CanTp_Prv_IsNoDevError_def dest!: cantp_onD)
  have rd: "dev_guard S i CANTP_READPARAMETER CANTP_E_INVALID_RX_ID (s\<lparr>CanTp_ParamPair := x\<rparr>) = (True, s\<lparr>CanTp_ParamPair := x\<rparr>)" for x
    using assms(1,3) by (simp add: dev_guard_def CanTp_Prv_IsNoDevError_def cantp_on_def cfgp_def)
  have u: "u8 (int v) = v" if "v \<le> 255" using that by (simp add: u8_of_nat)
  have cp: "CanTp_CfgPtr s = Some cfg" using assms(1) by (simp add: cantp_on_def)
  show ?thesis using assms(2,4) unfolding CanTp_ChangeParameter_def g prod.case
    by (cases p) (auto simp: CanTp_Prv_IsChangeParameterOk_def CanTp_Prv_ReportRunTimeError_def g(2) CanTp_ReadParameter_def rd CanTp_Prv_GetRxParam_def u
        CanTp_Prv_GetState_def cfgp_def cp Let_def split: if_splits)
qed

definition par_sys :: "unit CanTp_Sys" where
  "par_sys = st_sys0\<lparr>CANTP_CHANGE_PARAMETER_API := True\<rparr>"

theorem cantp_parameter_roundtrip_witness:
  "CanTp_Prv_GetRxParam par_sys 0 TP_BS (snd (CanTp_ChangeParameter par_sys 0 TP_BS 8 (st_idle ()))) = 8"
proof -
  have f: "fst (CanTp_ChangeParameter par_sys 0 TP_BS 8 (st_idle ())) = E_OK" "cantp_on st_cfg (st_idle ())" "CANTP_CHANGE_PARAMETER_API par_sys" "0 < NumberOfRxSdus st_cfg"
    by (simp_all add: CanTp_ChangeParameter_def par_sys_def st_sys0_def dev_guard_def CanTp_Prv_IsNoDevError_def st_idle_def cfgp_def st_cfg_def
        CanTp_Prv_IsChangeParameterOk_def CanTp_Prv_GetState_def cantp_on_def)
  show ?thesis using cantp_parameter_roundtrip [OF f(2-4) prod.collapse [symmetric]] f(1) by blast
qed

subsection \<open>Tables and counts\<close>

text \<open>
  With CAN FD the padding table gives, for every length a frame can have, the least data length CAN can carry that is
  not shorter.
\<close>

theorem cantp_can_dl_least:
  assumes "CANTP_CANFD_SUPPORT S" "n \<le> 64"
  shows "CanTp_Prv_GetCanDl S n = (LEAST dl. dl_ok S dl \<and> n \<le> dl)"
proof -
  have ok: "dl_ok S dl \<longleftrightarrow> dl \<in> {8, 12, 16, 20, 24, 32, 48, 64}" for dl using assms(1) by (auto simp: dl_ok_def CanTp_Prv_IsRxDlInValid_def)
  have "\<forall>n \<in> set [0..<65]. let d = CanTp_CanDlTable ! n in d \<in> {8, 12, 16, 20, 24, 32, 48, 64} \<and> n \<le> d \<and>
      (\<forall>e \<in> {8, 12, 16, 20, 24, 32, 48, 64}. n \<le> e \<longrightarrow> d \<le> e)" unfolding CanTp_CanDlTable_def by code_simp
  then have "let d = CanTp_CanDlTable ! n in d \<in> {8, 12, 16, 20, 24, 32, 48, 64} \<and> n \<le> d \<and> (\<forall>e \<in> {8, 12, 16, 20, 24, 32, 48, 64}. n \<le> e \<longrightarrow> d \<le> e)"
    using assms(2) by simp
  then show ?thesis using assms(1) unfolding ok CanTp_Prv_GetCanDl_def Let_def by (intro Least_equality [symmetric]) auto
qed

theorem cantp_can_dl_least_witness: "CanTp_Prv_GetCanDl (st_sys0\<lparr>CANTP_CANFD_SUPPORT := True\<rparr>) 33 = 48 \<and>
    (LEAST dl. dl_ok (st_sys0\<lparr>CANTP_CANFD_SUPPORT := True\<rparr>) dl \<and> 33 \<le> dl) = 48"
  using cantp_can_dl_least [of "st_sys0\<lparr>CANTP_CANFD_SUPPORT := True\<rparr>" 33] by (simp add: CanTp_Prv_GetCanDl_def CanTp_CanDlTable_def)

text \<open>
  C35. The number of consecutive frames that \<^verbatim>\<open>CanTp_Prv_GetTxBlockCfs\<close> computes with a division and a remainder is the number
  of frames into which the rest of the message is cut.
\<close>

theorem cantp_block_count_is_segments:
  assumes "cfgp s = cfg" "ch_ActiveSduId (CanTp_Channel s c) = t" "tx_path S cfg t dl" "length xs = ch_SduLengthRemaining (CanTp_Channel s c)"
  shows "CanTp_Prv_GetTxBlockCfs S c s = length (segment S bf (tx_adr cfg t) dl sn xs)"
  using GetTxBlockCfs_ceil [OF assms(1-3) refl] length_segment [of dl "tx_adr cfg t" S bf sn xs] assms(4) by simp

theorem cantp_block_count_is_segments_witness:
  "CanTp_Prv_GetTxBlockCfs st_sys 0 (upd_ch 0 (ch_SduLengthRemaining_update (\<lambda>_. 20)) st_tx) = length (segment st_sys 8 (tx_adr st_cfg 0) 8 1 st_msg)"
proof -
  let ?s = "upd_ch 0 (ch_SduLengthRemaining_update (\<lambda>_. 20)) st_tx"
  have c: "cfgp ?s = st_cfg" "ch_ActiveSduId (CanTp_Channel ?s 0) = 0" "length st_msg = ch_SduLengthRemaining (CanTp_Channel ?s 0)"
    by (simp_all add: st_tx_def st_idle_def cfgp_def st_msg_def)
  have p: "tx_path st_sys st_cfg 0 8" using st_tx_station by (auto simp: tx_station_def Let_def)
  show ?thesis by (rule cantp_block_count_is_segments [OF c(1,2) p c(3)])
qed

subsection \<open>The burst queue\<close>

text \<open>
  C36. A burst queue whose size divides 256 is first in, first out: while no more than its capacity is put into the empty queue, the
  \<open>i\<close>-th channel taken out is the \<open>i\<close>-th put in, however often the 8-bit counters have wrapped before. For another
  size this is false when a counter wraps (\<open>cantp_burst_wrap_order\<close>).
\<close>

theorem cantp_burst_fifo:
  assumes "0 < QSize" "QSize < 256" "QSize dvd 256" "Head_u8 q < 256" "Tail_u8 q = Head_u8 q" "length cs \<le> QSize" "i < length cs"
  shows "fst (CanTp_Prv_GetFromQ QSize (((\<lambda>q. snd (CanTp_Prv_GetFromQ QSize q)) ^^ i) (fold (\<lambda>c q. snd (CanTp_Prv_PutInQ QSize c q)) cs q))) = Some (cs ! i)"
proof -
  have "q_invar QSize q" "q_contents QSize q = []" using assms(1-5) by (simp_all add: q_invar_def q_contents_def q_count_def u8_def)
  then show ?thesis using assms(6,7) by (rule burst.fifo_order)
qed

theorem cantp_burst_fifo_witness:
  "fst (CanTp_Prv_GetFromQ 4 (((\<lambda>q. snd (CanTp_Prv_GetFromQ 4 q)) ^^ 1)
     (fold (\<lambda>c q. snd (CanTp_Prv_PutInQ 4 c q)) [7, 5, 9] \<lparr>Head_u8 = 254, Tail_u8 = 254, Queue = \<lambda>_. 0\<rparr>))) = Some 5"
  using cantp_burst_fifo [of 4 "\<lparr>Head_u8 = 254, Tail_u8 = 254, Queue = \<lambda>_. 0\<rparr>" "[7, 5, 9]" 1] by simp

text \<open>
  The size that is configured need not divide 256. When it does not, the entries on both sides of the wrap of the tail counter can share
  a place: of two entries put at the last and the first count, the second overwrites the first whenever 255 is a multiple of the size.
\<close>

theorem cantp_burst_wrap_order:
  assumes "1 < QSize" "QSize < 255" "QSize dvd 255" "q = \<lparr>Head_u8 = 254, Tail_u8 = 254, Queue = m\<rparr>"
  shows "fst (CanTp_Prv_GetFromQ QSize (snd (CanTp_Prv_PutInQ QSize b (snd (CanTp_Prv_PutInQ QSize a q))))) = Some b"
  using assms by (auto simp: CanTp_Prv_PutInQ_def CanTp_Prv_GetFromQ_def u8_def)

text \<open>
  The full queue is not recognised once its tail counter has wrapped and its head counter has not: the
  put is accepted, and the oldest entry is overwritten.
\<close>

theorem cantp_burst_full_missed:
  assumes "0 < QSize" "QSize dvd 256" "QSize < 256" "Head_u8 q < 256" "Tail_u8 q < Head_u8 q" "q_count q = QSize"
  shows "fst (CanTp_Prv_PutInQ QSize c q) = E_OK \<and> fst (CanTp_Prv_GetFromQ QSize (snd (CanTp_Prv_PutInQ QSize c q))) = Some c"
proof -
  have w: "256 + Tail_u8 q = Head_u8 q + QSize" using assms q_count_eq [of q] by auto
  have t: "u8 (int (Tail_u8 q) + 1) = Suc (Tail_u8 q)" using u8_plus1 [of "Tail_u8 q"] assms by simp
  have h: "u8 (int (Head_u8 q) + 1) mod QSize = Suc (Head_u8 q) mod QSize" using u8_plus1 [OF assms(4)] mod256_mod [OF assms(2)] by simp
  have "Suc (Tail_u8 q) mod QSize = (256 + Suc (Tail_u8 q)) mod QSize" using assms(2) by (metis dvd_imp_mod_0 mod_add_left_eq add_0)
  also have "\<dots> = Suc (Head_u8 q) mod QSize" using w by (simp flip: add_Suc)
  finally have "Suc (Tail_u8 q) mod QSize = Suc (Head_u8 q) mod QSize" .
  moreover have "QSize \<noteq> 255" using assms(2) by auto
  then have "1 + int (Tail_u8 q) \<noteq> int (Head_u8 q)" using w by linarith
  ultimately show ?thesis using assms t h by (simp add: CanTp_Prv_PutInQ_def CanTp_Prv_GetFromQ_def Let_def)
qed

theorem cantp_burst_full_missed_witness:
  "fst (CanTp_Prv_PutInQ 4 9 \<lparr>Head_u8 = 254, Tail_u8 = 2, Queue = \<lambda>_. 0\<rparr>) = E_OK \<and>
   fst (CanTp_Prv_GetFromQ 4 (snd (CanTp_Prv_PutInQ 4 9 \<lparr>Head_u8 = 254, Tail_u8 = 2, Queue = \<lambda>_. 0\<rparr>))) = Some 9"
  by (rule cantp_burst_full_missed) (simp_all add: q_count_def u8_def)

end
