(* ===== verification/UdsCore.thy ===== *)
theory UdsCore
  imports Prelude
begin

text \<open>
  The diagnostic core of \<^verbatim>\<open>rbUds_Core.c\<close>: it takes requests from the transport layer, looks up the service,
  checks session and length, lets the service's handler answer, and keeps a request pending while the handler needs
  more time.

  \<^item> \<open>Uds_Sys\<close> holds what is outside the repository: the numbers of \<^verbatim>\<open>rbUds_Iso14229.h\<close> and of the session and security headers, the header
    lengths of \<^verbatim>\<open>rbUds_Did.h\<close> and \<^verbatim>\<open>rbUds_Routine.h\<close>, the handlers and their pending callbacks, the timers, and the transmission of a response. A
    timer of the control block is named by \<open>UdsTimer\<close> and lives behind its interface.
  \<^item> A handler gets the bytes behind the pointer and length it is given, and returns its response code, the bytes it has
    written to the response buffer and the length it reports.
  \<^item> The request buffer is not changed by its owner while a request is being processed, so \<^verbatim>\<open>Uds_CtrlBlk.req\<close> is its content.
  \<^item> \<^verbatim>\<open>RBD_PK_APP\<close> and \<^verbatim>\<open>RBD_PK_FBL\<close> select the application and the boot loader build; the other switches have the values of
    \<^verbatim>\<open>rbUds_CoreCfg.h\<close>.
\<close>

subsection \<open>Services, timers and the control block\<close>

datatype UdsService =
    Uds_SvcDsc | Uds_SvcEr | Uds_SvcCdtci | Uds_SvcRdtci | Uds_SvcRdbi | Uds_SvcSa
  | Uds_SvcWdbi | Uds_SvcRc | Uds_SvcRd | Uds_SvcTd | Uds_SvcRte | Uds_SvcTp

datatype UdsTimer = Uds_rcrrpTimer | Uds_s3Timer | Uds_rcrrpPendingTimer

datatype UdsTimerState =
    RBD_ELTIME_RBTIMER_STATE_IDLE | RBD_ELTIME_RBTIMER_STATE_RUNNING
  | RBD_ELTIME_RBTIMER_STATE_STOPPED | RBD_ELTIME_RBTIMER_STATE_ELAPSED

datatype UdsErrorId = RB_UDS_E_VALUE | RB_UDS_E_NULL | RB_UDS_E_TIMEOUT

datatype UdsApiId = RB_UDS_S_APIDATAINDICATION | RB_UDS_S_CORERESPONSEPENDINGSUBTASK

record Uds_CoreServiceElement =
  se_sid :: nat
  se_permittedSession :: nat
  se_minLength :: nat
  se_Sid_fp :: "UdsService option"
  se_SidPending_fp :: "UdsService option"

record 'e Uds_Ctrl =
  isBusy :: bool
  suppressPosResp :: bool
  rcrrpTxConfirm :: bool
  rcrrpSidIndex :: nat
  uds_req :: mem
  uds_reqLen :: nat
  uds_respLen :: nat
  resp_a :: mem
  negResp_a :: mem
  Uds_PwrReqID :: nat
  uds_ext :: 'e

record 'e Uds_Sys =
  RBD_PK_APP :: bool
  RBD_PK_FBL :: bool
  RB_UDS_SID :: "UdsService \<Rightarrow> nat"
  NRC_PR :: nat
  NRC_RCRRP :: nat
  NRC_GR :: nat
  NRC_SNS :: nat
  NRC_SFNS :: nat
  NRC_IMLOIF :: nat
  NRC_SNSIAS :: nat
  NRC_SAD :: nat
  UDS_SESSION_ANY :: nat
  UDS_SESSION_MASK_DS :: nat
  UDS_SESSION_MASK_PRGS :: nat
  UDS_SESSION_MASK_EXTDS :: nat
  RB_UDS_SECURITY_MASK_ANY :: nat
  RB_UDS_DID_MSB_OFFSET :: nat
  RB_UDS_DID_LSB_OFFSET :: nat
  RB_UDS_DID_HDR_LEN :: nat
  RB_UDS_ROUTINE_SUB_FN_OFFSET :: nat
  RB_UDS_ROUTINE_RID_MSB_OFFSET :: nat
  RB_UDS_ROUTINE_RID_LSB_OFFSET :: nat
  RB_UDS_ROUTINE_HDR_LEN :: nat
  rbUds_Make16Bit :: "nat \<Rightarrow> nat \<Rightarrow> nat"
  rbUds_Make32Bit :: "nat \<Rightarrow> nat \<Rightarrow> nat \<Rightarrow> nat \<Rightarrow> nat"
  rbUds_SessionGetState :: "'e \<Rightarrow> nat"
  rbUds_SecurityGetLevel :: "'e \<Rightarrow> nat"
  rbUds_DidRead :: "nat \<Rightarrow> 'e \<Rightarrow> nat \<times> nat list \<times> nat \<times> 'e"
  rbUds_DidWrite :: "nat list \<Rightarrow> nat \<Rightarrow> 'e \<Rightarrow> nat \<times> nat list \<times> nat \<times> 'e"
  rbUds_Routine :: "nat list \<Rightarrow> nat \<Rightarrow> nat \<Rightarrow> 'e \<Rightarrow> nat \<times> nat list \<times> nat \<times> 'e"
  rbUds_DtcRead :: "nat list \<Rightarrow> nat \<Rightarrow> 'e \<Rightarrow> nat \<times> nat list \<times> nat \<times> 'e"
  rbUds_DtcClearCfgClear :: "nat \<Rightarrow> 'e \<Rightarrow> nat \<times> 'e"
  rbUds_Session :: "nat \<Rightarrow> 'e \<Rightarrow> nat \<times> nat list \<times> nat \<times> 'e"
  rbUds_Security :: "nat list \<Rightarrow> nat \<Rightarrow> 'e \<Rightarrow> nat \<times> nat list \<times> nat \<times> 'e"
  rbUds_RequestDownloadCfg :: "nat list \<Rightarrow> nat \<Rightarrow> nat \<Rightarrow> 'e \<Rightarrow> nat \<times> 'e"
  rbUds_TransferDataCfg :: "nat list \<Rightarrow> nat \<Rightarrow> 'e \<Rightarrow> nat \<times> nat list \<times> nat \<times> 'e"
  rbUds_TransferExitCfg :: "nat list \<Rightarrow> 'e \<Rightarrow> nat \<times> nat list \<times> nat \<times> 'e"
  rbUds_EcuReset :: "nat \<Rightarrow> 'e \<Rightarrow> nat \<times> 'e"
  Uds_Pending :: "UdsService \<Rightarrow> nat list \<Rightarrow> 'e \<Rightarrow> nat \<times> nat list \<times> nat \<times> 'e"
  Uds_CoreCfgSendResponse :: "nat list \<Rightarrow> bool \<Rightarrow> 'e \<Rightarrow> 'e"
  rbTimerInit :: "UdsTimer \<Rightarrow> 'e \<Rightarrow> 'e"
  rbTimerStart :: "UdsTimer \<Rightarrow> nat \<Rightarrow> 'e \<Rightarrow> 'e"
  rbTimerStop :: "UdsTimer \<Rightarrow> 'e \<Rightarrow> 'e"
  rbTimerUpdate :: "UdsTimer \<Rightarrow> 'e \<Rightarrow> UdsTimerState \<times> 'e"
  rbUds_SessionS3TimerExpiredReset :: "'e \<Rightarrow> 'e"
  rbUds_RoutineClearStateinfo :: "'e \<Rightarrow> 'e"
  rbUds_DidReadClearStateinfo :: "'e \<Rightarrow> 'e"
  rbUds_WriteDidClearStateinfo :: "'e \<Rightarrow> 'e"
  Mcu_PerformReset :: "'e \<Rightarrow> 'e"
  rbdPwrReq_GetID :: "'e \<Rightarrow> nat \<times> 'e"
  rbdPwrReq_RequestService :: "nat \<Rightarrow> 'e \<Rightarrow> 'e"
  rbdPwrReq_ReleaseService :: "nat \<Rightarrow> 'e \<Rightarrow> 'e"
  uds_Det_ReportError :: "nat \<Rightarrow> UdsApiId \<Rightarrow> UdsErrorId \<Rightarrow> 'e \<Rightarrow> 'e"

abbreviation "UDS_S3_SERVER_MAX_MS \<equiv> 5000 :: nat"
abbreviation "UDS_RCRRP_INTERVAL_MS \<equiv> 1000 :: nat"
abbreviation "UDS_RCRRP_LIMIT_MS \<equiv> 10000 :: nat"
abbreviation "UDS_SID_LEN \<equiv> 1 :: nat"
abbreviation "UDS_SUBFN_LEN \<equiv> 1 :: nat"
abbreviation "UDS_CORE_INVALID_RCRRP_INDEX \<equiv> 255 :: nat"
abbreviation "UDS_CORE_SPRMIB_MASK \<equiv> 128 :: nat"
abbreviation "UDS_CORE_SUBFN_MASK \<equiv> 127 :: nat"
abbreviation "UDS_CORE_NEG_RESP_LEN \<equiv> 3 :: nat"
abbreviation "SID_NR \<equiv> 127 :: nat"
abbreviation "SID_PR \<equiv> 64 :: nat"
abbreviation "RB_UDS_CDTCI_HDR_LEN \<equiv> 3 :: nat"
abbreviation "RB_UDS_SUB_FN_OFFSET \<equiv> 0 :: nat"
abbreviation "RB_UDS_SUBFN_ONLY_HDR_LEN \<equiv> 1 :: nat"
abbreviation "RB_UDS_MEM_ADDR_OFFSET \<equiv> 2 :: nat"
abbreviation "RB_UDS_REQ_DOWNLOAD_HDR_LEN \<equiv> 4 :: nat"
abbreviation "RB_UDS_TRANSFER_DATA_HDR_LEN \<equiv> 1 :: nat"
abbreviation "RB_UDS_REQ_TRANSFER_EXIT_HDR_LEN \<equiv> 0 :: nat"

abbreviation on_ext :: "('e \<Rightarrow> 'e) \<Rightarrow> 'e Uds_Ctrl \<Rightarrow> 'e Uds_Ctrl" where
  "on_ext f s \<equiv> s\<lparr>uds_ext := f (uds_ext s)\<rparr>"

definition svc_entry :: "'e Uds_Sys \<Rightarrow> UdsService \<Rightarrow> nat \<Rightarrow> nat \<Rightarrow> UdsService option \<Rightarrow> Uds_CoreServiceElement" where
  "svc_entry S v sess len pend =
     \<lparr>se_sid = RB_UDS_SID S v, se_permittedSession = sess, se_minLength = len, se_Sid_fp = Some v, se_SidPending_fp = pend\<rparr>"

definition serviceCfg_a :: "'e Uds_Sys \<Rightarrow> Uds_CoreServiceElement list" where
  "serviceCfg_a S =
     [svc_entry S Uds_SvcDsc (UDS_SESSION_ANY S) (1 + UDS_SUBFN_LEN) (Some Uds_SvcDsc),
      svc_entry S Uds_SvcEr (UDS_SESSION_ANY S) (1 + UDS_SUBFN_LEN) None] @
     (if RBD_PK_APP S
      then [svc_entry S Uds_SvcCdtci (UDS_SESSION_MASK_EXTDS S) (1 + RB_UDS_CDTCI_HDR_LEN) (Some Uds_SvcCdtci),
            svc_entry S Uds_SvcRdtci (UDS_SESSION_MASK_DS S OR UDS_SESSION_MASK_EXTDS S) (1 + UDS_SUBFN_LEN) None]
      else []) @
     [svc_entry S Uds_SvcRdbi (UDS_SESSION_ANY S) (1 + RB_UDS_DID_HDR_LEN S) (Some Uds_SvcRdbi),
      svc_entry S Uds_SvcSa (UDS_SESSION_MASK_PRGS S OR UDS_SESSION_MASK_EXTDS S) (1 + UDS_SUBFN_LEN) (Some Uds_SvcSa),
      svc_entry S Uds_SvcWdbi (UDS_SESSION_MASK_EXTDS S) (1 + RB_UDS_DID_HDR_LEN S + 1) (Some Uds_SvcWdbi),
      svc_entry S Uds_SvcRc (UDS_SESSION_MASK_EXTDS S OR UDS_SESSION_MASK_PRGS S) (1 + UDS_SUBFN_LEN + RB_UDS_DID_HDR_LEN S) (Some Uds_SvcRc)] @
     (if RBD_PK_FBL S
      then [svc_entry S Uds_SvcRd (UDS_SESSION_MASK_PRGS S) (1 + RB_UDS_REQ_DOWNLOAD_HDR_LEN) (Some Uds_SvcRd),
            svc_entry S Uds_SvcTd (UDS_SESSION_MASK_PRGS S) (1 + RB_UDS_TRANSFER_DATA_HDR_LEN) (Some Uds_SvcTd),
            svc_entry S Uds_SvcRte (UDS_SESSION_MASK_PRGS S) (1 + RB_UDS_REQ_TRANSFER_EXIT_HDR_LEN) (Some Uds_SvcRte)]
      else []) @
     [svc_entry S Uds_SvcTp (UDS_SESSION_ANY S) (1 + UDS_SUBFN_LEN) None]"

subsection \<open>Idle, S3 and responses\<close>

definition Uds_CoreSetIdle :: "'e Uds_Sys \<Rightarrow> 'e Uds_Ctrl \<Rightarrow> 'e Uds_Ctrl" where
  "Uds_CoreSetIdle S s =
     on_ext (rbTimerInit S Uds_rcrrpTimer)
       (s\<lparr>isBusy := False, rcrrpTxConfirm := False, rcrrpSidIndex := UDS_CORE_INVALID_RCRRP_INDEX, uds_respLen := 0, suppressPosResp := False\<rparr>)"

definition Uds_CoreReset :: "'e Uds_Sys \<Rightarrow> 'e Uds_Ctrl \<Rightarrow> 'e Uds_Ctrl" where
  "Uds_CoreReset S s = on_ext (rbTimerInit S Uds_s3Timer) (Uds_CoreSetIdle S s)"

definition Uds_CorePwrReqIDInit :: "'e Uds_Sys \<Rightarrow> 'e Uds_Ctrl \<Rightarrow> 'e Uds_Ctrl" where
  "Uds_CorePwrReqIDInit S s = (let (i, e) = rbdPwrReq_GetID S (uds_ext s) in s\<lparr>Uds_PwrReqID := i, uds_ext := e\<rparr>)"

definition rbUds_CoreStartS3 :: "'e Uds_Sys \<Rightarrow> 'e Uds_Ctrl \<Rightarrow> 'e Uds_Ctrl" where
  "rbUds_CoreStartS3 S s =
     on_ext (rbdPwrReq_RequestService S (Uds_PwrReqID s)) (on_ext (rbTimerStart S Uds_s3Timer UDS_S3_SERVER_MAX_MS) s)"

definition Uds_CoreTxConfirmation :: "'e Uds_Sys \<Rightarrow> 'e Uds_Ctrl \<Rightarrow> 'e Uds_Ctrl" where
  "Uds_CoreTxConfirmation S s =
     (if length (serviceCfg_a S) \<le> rcrrpSidIndex s then rbUds_CoreStartS3 S s else s\<lparr>rcrrpTxConfirm := True\<rparr>)"

definition Uds_CoreTxAborted :: "'e Uds_Sys \<Rightarrow> 'e Uds_Ctrl \<Rightarrow> 'e Uds_Ctrl" where
  "Uds_CoreTxAborted S s = Uds_CoreTxConfirmation S s"

definition rbUds_ApiRxStarted :: "'e Uds_Sys \<Rightarrow> 'e Uds_Ctrl \<Rightarrow> 'e Uds_Ctrl" where
  "rbUds_ApiRxStarted S s =
     (let (st, e) = rbTimerUpdate S Uds_s3Timer (uds_ext s); s1 = s\<lparr>uds_ext := e\<rparr> in
      case st of
        RBD_ELTIME_RBTIMER_STATE_STOPPED \<Rightarrow> s1
      | RBD_ELTIME_RBTIMER_STATE_IDLE \<Rightarrow>
          on_ext (rbTimerStop S Uds_s3Timer) (on_ext (rbTimerStart S Uds_s3Timer UDS_S3_SERVER_MAX_MS) s1)
      | _ \<Rightarrow> on_ext (rbTimerInit S Uds_s3Timer) s1)"

definition rbUds_ApiRxAborted :: "'e Uds_Sys \<Rightarrow> 'e Uds_Ctrl \<Rightarrow> 'e Uds_Ctrl" where
  "rbUds_ApiRxAborted S s = rbUds_CoreStartS3 S s"

definition rbUds_ApiIsS3Active :: "'e Uds_Sys \<Rightarrow> 'e Uds_Ctrl \<Rightarrow> bool \<times> 'e Uds_Ctrl" where
  "rbUds_ApiIsS3Active S s =
     (let (st, e) = rbTimerUpdate S Uds_s3Timer (uds_ext s) in
      (st = RBD_ELTIME_RBTIMER_STATE_RUNNING \<or> st = RBD_ELTIME_RBTIMER_STATE_STOPPED, s\<lparr>uds_ext := e\<rparr>))"

definition rbUds_ApiPendingSubtask :: "'e Uds_Sys \<Rightarrow> 'e Uds_Ctrl \<Rightarrow> bool" where
  "rbUds_ApiPendingSubtask S s \<longleftrightarrow> rcrrpSidIndex s < length (serviceCfg_a S)"

definition Uds_CoreExtractSubFn :: "nat \<Rightarrow> 'e Uds_Ctrl \<Rightarrow> nat \<times> 'e Uds_Ctrl" where
  "Uds_CoreExtractSubFn Byte s =
     (Byte AND UDS_CORE_SUBFN_MASK,
      if Byte AND UDS_CORE_SPRMIB_MASK = UDS_CORE_SPRMIB_MASK then s\<lparr>suppressPosResp := True\<rparr> else s)"

definition Uds_CoreFillNegativeResponse :: "nat \<Rightarrow> nat \<Rightarrow> 'e Uds_Ctrl \<Rightarrow> 'e Uds_Ctrl" where
  "Uds_CoreFillNegativeResponse Sid ResponseCode s = s\<lparr>negResp_a := (negResp_a s)(0 := SID_NR, 1 := Sid, 2 := ResponseCode)\<rparr>"

definition Uds_CoreSendPositiveResponse :: "'e Uds_Sys \<Rightarrow> nat \<Rightarrow> 'e Uds_Ctrl \<Rightarrow> 'e Uds_Ctrl" where
  "Uds_CoreSendPositiveResponse S Sid s =
     (let s1 = s\<lparr>resp_a := (resp_a s)(0 := u8 (int Sid + int SID_PR)), uds_respLen := u16 (int (uds_respLen s) + 1)\<rparr>;
          s2 = on_ext (Uds_CoreCfgSendResponse S (rd (resp_a s1) 0 (uds_respLen s1)) (suppressPosResp s1)) s1;
          s3 = (if suppressPosResp s2 then Uds_CoreTxConfirmation S s2 else s2)
      in Uds_CoreSetIdle S s3)"

definition Uds_CoreSendPendingResponse :: "'e Uds_Sys \<Rightarrow> nat \<Rightarrow> 'e Uds_Ctrl \<Rightarrow> 'e Uds_Ctrl" where
  "Uds_CoreSendPendingResponse S Sid s =
     (let s1 = Uds_CoreFillNegativeResponse Sid (NRC_RCRRP S) s;
          s2 = on_ext (Uds_CoreCfgSendResponse S (rd (negResp_a s1) 0 UDS_CORE_NEG_RESP_LEN) False) s1;
          s3 = on_ext (rbTimerStart S Uds_rcrrpTimer (3 * UDS_RCRRP_INTERVAL_MS)) s2
      in s3\<lparr>suppressPosResp := False, rcrrpTxConfirm := False\<rparr>)"

definition Uds_CoreSendNegativeResponse :: "'e Uds_Sys \<Rightarrow> nat \<Rightarrow> nat \<Rightarrow> 'e Uds_Ctrl \<Rightarrow> 'e Uds_Ctrl" where
  "Uds_CoreSendNegativeResponse S Sid ResponseCode s =
     (let s1 = Uds_CoreFillNegativeResponse Sid ResponseCode s
      in Uds_CoreSetIdle S (on_ext (Uds_CoreCfgSendResponse S (rd (negResp_a s1) 0 UDS_CORE_NEG_RESP_LEN) False) s1))"

definition Uds_CoreCheckSessionSecurity :: "'e Uds_Sys \<Rightarrow> nat \<Rightarrow> nat \<Rightarrow> 'e Uds_Ctrl \<Rightarrow> nat" where
  "Uds_CoreCheckSessionSecurity S PermittedSession PermittedSecurity s =
     (let currentSession = rbUds_SessionGetState S (uds_ext s); currentSecurity = rbUds_SecurityGetLevel S (uds_ext s) in
      if currentSession = UDS_SESSION_MASK_DS S \<and> PermittedSecurity \<noteq> RB_UDS_SECURITY_MASK_ANY S then NRC_GR S
      else if currentSession AND PermittedSession = 0 then NRC_SNSIAS S
      else if currentSecurity AND PermittedSecurity = 0 then NRC_SAD S
      else NRC_PR S)"

subsection \<open>The services\<close>

text \<open>
  A service gets the request behind its SID. What a handler writes goes to the response buffer behind the
  SID and the bytes the service repeats from the request.
\<close>

definition put_resp :: "nat \<Rightarrow> nat list \<Rightarrow> 'e \<Rightarrow> 'e Uds_Ctrl \<Rightarrow> 'e Uds_Ctrl" where
  "put_resp off bs e s = s\<lparr>resp_a := write_bytes off bs (resp_a s), uds_ext := e\<rparr>"

definition Uds_CoreRdbi :: "'e Uds_Sys \<Rightarrow> mem \<Rightarrow> nat \<Rightarrow> 'e Uds_Ctrl \<Rightarrow> nat \<times> 'e Uds_Ctrl" where
  "Uds_CoreRdbi S Req ReqLen s =
     (if RB_UDS_DID_HDR_LEN S \<noteq> ReqLen then (NRC_IMLOIF S, s\<lparr>uds_respLen := 0\<rparr>)
      else let did = rbUds_Make16Bit S (Req (RB_UDS_DID_MSB_OFFSET S)) (Req (RB_UDS_DID_LSB_OFFSET S));
               (code, bs, respLen, e) = rbUds_DidRead S did (uds_ext s);
               s1 = put_resp (UDS_SID_LEN + RB_UDS_DID_HDR_LEN S) bs e s
           in if code = NRC_PR S \<or> code = NRC_RCRRP S
              then (code, s1\<lparr>resp_a := (resp_a s1)(UDS_SID_LEN + RB_UDS_DID_MSB_OFFSET S := Req (RB_UDS_DID_MSB_OFFSET S),
                                                     UDS_SID_LEN + RB_UDS_DID_LSB_OFFSET S := Req (RB_UDS_DID_LSB_OFFSET S)),
                             uds_respLen := u16 (int (RB_UDS_DID_HDR_LEN S) + int (if code = NRC_RCRRP S then 0 else respLen))\<rparr>)
              else (code, s1\<lparr>uds_respLen := 0\<rparr>))"

definition Uds_CoreWdbi :: "'e Uds_Sys \<Rightarrow> mem \<Rightarrow> nat \<Rightarrow> 'e Uds_Ctrl \<Rightarrow> nat \<times> 'e Uds_Ctrl" where
  "Uds_CoreWdbi S Req ReqLen s =
     (let did = rbUds_Make16Bit S (Req (RB_UDS_DID_MSB_OFFSET S)) (Req (RB_UDS_DID_LSB_OFFSET S));
          (code, bs, respLen, e) = rbUds_DidWrite S (rd Req (RB_UDS_DID_HDR_LEN S) (u16 (int ReqLen - int (RB_UDS_DID_HDR_LEN S)))) did (uds_ext s);
          s1 = put_resp (UDS_SID_LEN + RB_UDS_DID_HDR_LEN S) bs e s
      in if code = NRC_PR S \<or> code = NRC_RCRRP S
         then (code, s1\<lparr>resp_a := (resp_a s1)(UDS_SID_LEN + RB_UDS_DID_MSB_OFFSET S := Req (RB_UDS_DID_MSB_OFFSET S),
                                                UDS_SID_LEN + RB_UDS_DID_LSB_OFFSET S := Req (RB_UDS_DID_LSB_OFFSET S)),
                        uds_respLen := u16 (int (RB_UDS_DID_HDR_LEN S) + int respLen)\<rparr>)
         else (code, s1\<lparr>uds_respLen := 0\<rparr>))"

definition Uds_CoreRc :: "'e Uds_Sys \<Rightarrow> mem \<Rightarrow> nat \<Rightarrow> 'e Uds_Ctrl \<Rightarrow> nat \<times> 'e Uds_Ctrl" where
  "Uds_CoreRc S Req ReqLen s =
     (let (subFn, s0) = Uds_CoreExtractSubFn (Req (RB_UDS_ROUTINE_SUB_FN_OFFSET S)) s;
          rid = rbUds_Make16Bit S (Req (RB_UDS_ROUTINE_RID_MSB_OFFSET S)) (Req (RB_UDS_ROUTINE_RID_LSB_OFFSET S));
          s1 = s0\<lparr>uds_req := \<lambda>i. Req (RB_UDS_ROUTINE_HDR_LEN S + i), uds_reqLen := u16 (int ReqLen - int (RB_UDS_ROUTINE_HDR_LEN S))\<rparr>;
          (code, bs, respLen, e) = rbUds_Routine S (rd (uds_req s1) 0 (uds_reqLen s1)) rid subFn (uds_ext s1);
          s2 = put_resp (UDS_SID_LEN + RB_UDS_ROUTINE_HDR_LEN S) bs e s1
      in if code = NRC_PR S \<or> code = NRC_RCRRP S
         then (code, s2\<lparr>resp_a := (resp_a s2)(UDS_SID_LEN + RB_UDS_ROUTINE_SUB_FN_OFFSET S := subFn,
                                                UDS_SID_LEN + RB_UDS_ROUTINE_RID_MSB_OFFSET S := Req (RB_UDS_ROUTINE_RID_MSB_OFFSET S),
                                                UDS_SID_LEN + RB_UDS_ROUTINE_RID_LSB_OFFSET S := Req (RB_UDS_ROUTINE_RID_LSB_OFFSET S)),
                        uds_respLen := u16 (int (RB_UDS_ROUTINE_HDR_LEN S) + int respLen)\<rparr>)
         else (code, s2\<lparr>uds_respLen := 0\<rparr>))"

text \<open>Sub-function, data behind it: the shape of read DTC and security access.\<close>

definition Uds_CoreRdtci :: "'e Uds_Sys \<Rightarrow> mem \<Rightarrow> nat \<Rightarrow> 'e Uds_Ctrl \<Rightarrow> nat \<times> 'e Uds_Ctrl" where
  "Uds_CoreRdtci S Req ReqLen s =
     (let (subFn, s0) = Uds_CoreExtractSubFn (Req RB_UDS_SUB_FN_OFFSET) s;
          (code, bs, respLen, e) =
            rbUds_DtcRead S (rd Req RB_UDS_SUBFN_ONLY_HDR_LEN (u16 (int ReqLen - int RB_UDS_SUBFN_ONLY_HDR_LEN))) subFn (uds_ext s0);
          s1 = put_resp (UDS_SID_LEN + RB_UDS_SUBFN_ONLY_HDR_LEN) bs e s0
      in if code = NRC_PR S
         then (code, s1\<lparr>resp_a := (resp_a s1)(UDS_SID_LEN + RB_UDS_SUB_FN_OFFSET := subFn), uds_respLen := u16 (int RB_UDS_SUBFN_ONLY_HDR_LEN + int respLen)\<rparr>)
         else (code, s1\<lparr>uds_respLen := 0\<rparr>))"

definition Uds_CoreCdtci :: "'e Uds_Sys \<Rightarrow> mem \<Rightarrow> nat \<Rightarrow> 'e Uds_Ctrl \<Rightarrow> nat \<times> 'e Uds_Ctrl" where
  "Uds_CoreCdtci S Req ReqLen s =
     (if RB_UDS_CDTCI_HDR_LEN \<noteq> ReqLen then (NRC_IMLOIF S, s\<lparr>uds_respLen := 0\<rparr>)
      else let (code, e) = rbUds_DtcClearCfgClear S (rbUds_Make32Bit S 0 (Req 0) (Req 1) (Req 2)) (uds_ext s)
           in (code, s\<lparr>uds_ext := e, uds_respLen := 0\<rparr>))"

definition Uds_CoreDsc :: "'e Uds_Sys \<Rightarrow> mem \<Rightarrow> nat \<Rightarrow> 'e Uds_Ctrl \<Rightarrow> nat \<times> 'e Uds_Ctrl" where
  "Uds_CoreDsc S Req ReqLen s =
     (if ReqLen \<noteq> 1 then (NRC_IMLOIF S, s\<lparr>uds_respLen := 0\<rparr>)
      else let (subFn, s0) = Uds_CoreExtractSubFn (Req RB_UDS_SUB_FN_OFFSET) s;
               (code, bs, respLen, e) = rbUds_Session S subFn (uds_ext s0);
               s1 = put_resp (UDS_SID_LEN + RB_UDS_SUBFN_ONLY_HDR_LEN) bs e s0
           in if code = NRC_PR S \<or> code = NRC_RCRRP S
              then (code, s1\<lparr>resp_a := (resp_a s1)(UDS_SID_LEN + RB_UDS_SUB_FN_OFFSET := subFn), uds_respLen := u16 (int RB_UDS_SUBFN_ONLY_HDR_LEN + int respLen)\<rparr>)
              else (code, s1\<lparr>uds_respLen := 0\<rparr>))"

definition Uds_CoreTp :: "'e Uds_Sys \<Rightarrow> mem \<Rightarrow> nat \<Rightarrow> 'e Uds_Ctrl \<Rightarrow> nat \<times> 'e Uds_Ctrl" where
  "Uds_CoreTp S Req ReqLen s =
     (let (subFn, s0) = Uds_CoreExtractSubFn (Req RB_UDS_SUB_FN_OFFSET) s in
      if ReqLen \<noteq> 1 then (NRC_IMLOIF S, s0\<lparr>uds_respLen := 0\<rparr>)
      else if subFn \<noteq> 0 then (NRC_SFNS S, s0\<lparr>uds_respLen := 0\<rparr>)
      else (NRC_PR S, s0\<lparr>resp_a := (resp_a s0)(UDS_SID_LEN + RB_UDS_SUB_FN_OFFSET := subFn), uds_respLen := RB_UDS_SUBFN_ONLY_HDR_LEN\<rparr>))"

definition Uds_CoreSa :: "'e Uds_Sys \<Rightarrow> mem \<Rightarrow> nat \<Rightarrow> 'e Uds_Ctrl \<Rightarrow> nat \<times> 'e Uds_Ctrl" where
  "Uds_CoreSa S Req ReqLen s =
     (let (subFn, s0) = Uds_CoreExtractSubFn (Req RB_UDS_SUB_FN_OFFSET) s;
          (code, bs, respLen, e) =
            rbUds_Security S (rd Req RB_UDS_SUBFN_ONLY_HDR_LEN (u16 (int ReqLen - int RB_UDS_SUBFN_ONLY_HDR_LEN))) subFn (uds_ext s0);
          s1 = put_resp (UDS_SID_LEN + RB_UDS_SUBFN_ONLY_HDR_LEN) bs e s0
      in if code = NRC_PR S \<or> code = NRC_RCRRP S
         then (code, s1\<lparr>resp_a := (resp_a s1)(UDS_SID_LEN + RB_UDS_SUB_FN_OFFSET := subFn), uds_respLen := u16 (int RB_UDS_SUBFN_ONLY_HDR_LEN + int respLen)\<rparr>)
         else (code, s1\<lparr>uds_respLen := 0\<rparr>))"

definition Uds_CoreRd :: "'e Uds_Sys \<Rightarrow> mem \<Rightarrow> nat \<Rightarrow> 'e Uds_Ctrl \<Rightarrow> nat \<times> 'e Uds_Ctrl" where
  "Uds_CoreRd S Req ReqLen s =
     (let (code, e) = rbUds_RequestDownloadCfg S (rd Req RB_UDS_MEM_ADDR_OFFSET (u16 (int ReqLen - int RB_UDS_MEM_ADDR_OFFSET))) (Req 0) (Req 1) (uds_ext s)
      in (if code = NRC_PR S then NRC_GR S else code, s\<lparr>uds_ext := e, uds_respLen := 0\<rparr>))"

definition Uds_CoreTd :: "'e Uds_Sys \<Rightarrow> mem \<Rightarrow> nat \<Rightarrow> 'e Uds_Ctrl \<Rightarrow> nat \<times> 'e Uds_Ctrl" where
  "Uds_CoreTd S Req ReqLen s =
     (let (code, bs, respLen, e) =
        rbUds_TransferDataCfg S (rd Req RB_UDS_TRANSFER_DATA_HDR_LEN (u16 (int ReqLen - int RB_UDS_TRANSFER_DATA_HDR_LEN))) (Req 0) (uds_ext s)
      in (code, (put_resp UDS_SID_LEN bs e s)\<lparr>uds_respLen := (if code = NRC_PR S then respLen else 0)\<rparr>))"

definition Uds_CoreRte :: "'e Uds_Sys \<Rightarrow> mem \<Rightarrow> nat \<Rightarrow> 'e Uds_Ctrl \<Rightarrow> nat \<times> 'e Uds_Ctrl" where
  "Uds_CoreRte S Req ReqLen s =
     (let (code, bs, respLen, e) = rbUds_TransferExitCfg S (rd Req RB_UDS_REQ_TRANSFER_EXIT_HDR_LEN (u16 (int ReqLen - int RB_UDS_REQ_TRANSFER_EXIT_HDR_LEN))) (uds_ext s)
      in (code, (put_resp UDS_SID_LEN bs e s)\<lparr>uds_respLen := (if code = NRC_PR S then respLen else 0)\<rparr>))"

definition Uds_CoreEr :: "'e Uds_Sys \<Rightarrow> mem \<Rightarrow> nat \<Rightarrow> 'e Uds_Ctrl \<Rightarrow> nat \<times> 'e Uds_Ctrl" where
  "Uds_CoreEr S Req ReqLen s =
     (let (subFn, s0) = Uds_CoreExtractSubFn (Req RB_UDS_SUB_FN_OFFSET) s in
      if ReqLen \<noteq> 1 then (NRC_IMLOIF S, s0\<lparr>uds_respLen := 0\<rparr>)
      else let (code, e) = rbUds_EcuReset S subFn (uds_ext s0); s1 = s0\<lparr>uds_ext := e\<rparr>
           in if code = NRC_PR S
              then (code, s1\<lparr>resp_a := (resp_a s1)(UDS_SID_LEN + RB_UDS_SUB_FN_OFFSET := subFn), uds_respLen := RB_UDS_SUBFN_ONLY_HDR_LEN\<rparr>)
              else (code, s1\<lparr>uds_respLen := 0\<rparr>))"

text \<open>The function pointer \<^verbatim>\<open>Sid_fp\<close> of a table entry.\<close>

fun Uds_CoreService :: "'e Uds_Sys \<Rightarrow> UdsService \<Rightarrow> mem \<Rightarrow> nat \<Rightarrow> 'e Uds_Ctrl \<Rightarrow> nat \<times> 'e Uds_Ctrl" where
  "Uds_CoreService S Uds_SvcDsc = Uds_CoreDsc S"
| "Uds_CoreService S Uds_SvcEr = Uds_CoreEr S"
| "Uds_CoreService S Uds_SvcCdtci = Uds_CoreCdtci S"
| "Uds_CoreService S Uds_SvcRdtci = Uds_CoreRdtci S"
| "Uds_CoreService S Uds_SvcRdbi = Uds_CoreRdbi S"
| "Uds_CoreService S Uds_SvcSa = Uds_CoreSa S"
| "Uds_CoreService S Uds_SvcWdbi = Uds_CoreWdbi S"
| "Uds_CoreService S Uds_SvcRc = Uds_CoreRc S"
| "Uds_CoreService S Uds_SvcRd = Uds_CoreRd S"
| "Uds_CoreService S Uds_SvcTd = Uds_CoreTd S"
| "Uds_CoreService S Uds_SvcRte = Uds_CoreRte S"
| "Uds_CoreService S Uds_SvcTp = Uds_CoreTp S"

subsection \<open>Requests\<close>

definition UdsResponse_function :: "'e Uds_Sys \<Rightarrow> nat \<Rightarrow> nat \<Rightarrow> nat \<Rightarrow> 'e Uds_Ctrl \<Rightarrow> 'e Uds_Ctrl" where
  "UdsResponse_function S ResponseCode sid ii s =
     (if ResponseCode = NRC_PR S then Uds_CoreSendPositiveResponse S sid s
      else if ResponseCode = NRC_RCRRP S
      then let s1 = on_ext (rbTimerStart S Uds_rcrrpPendingTimer UDS_RCRRP_LIMIT_MS) s in
           case se_SidPending_fp (serviceCfg_a S ! ii) of
             None \<Rightarrow> Uds_CoreSendNegativeResponse S sid (NRC_GR S) s1
           | Some _ \<Rightarrow> Uds_CoreSendPendingResponse S sid (s1\<lparr>rcrrpSidIndex := u8 (int ii)\<rparr>)
      else Uds_CoreSendNegativeResponse S sid ResponseCode s)"

text \<open>The search loop of \<^verbatim>\<open>Uds_ApiDataIndication\<close> from entry \<open>ii\<close>, for the rest \<open>cs\<close> of the table.\<close>

fun sid_loop :: "'e Uds_Sys \<Rightarrow> mem \<Rightarrow> nat \<Rightarrow> nat \<Rightarrow> Uds_CoreServiceElement list \<Rightarrow> 'e Uds_Ctrl \<Rightarrow> 'e Uds_Ctrl" where
  "sid_loop S Req ReqLen ii [] s = Uds_CoreSendNegativeResponse S (Req 0) (NRC_SNS S) s"
| "sid_loop S Req ReqLen ii (c # cs) s =
     (if se_sid c = Req 0
      then (case se_Sid_fp c of
              None \<Rightarrow> Uds_CoreSendNegativeResponse S (Req 0) (NRC_GR S) (on_ext (uds_Det_ReportError S 1 RB_UDS_S_APIDATAINDICATION RB_UDS_E_NULL) s)
            | Some v \<Rightarrow>
                if rbUds_SessionGetState S (uds_ext s) AND se_permittedSession c = 0 then Uds_CoreSendNegativeResponse S (Req 0) (NRC_SNSIAS S) s
                else if ReqLen < se_minLength c then Uds_CoreSendNegativeResponse S (Req 0) (NRC_IMLOIF S) s
                else let (code, s1) = Uds_CoreService S v (\<lambda>i. Req (1 + i)) (u16 (int ReqLen - 1)) (s\<lparr>isBusy := True\<rparr>)
                     in UdsResponse_function S code (Req 0) ii s1)
      else sid_loop S Req ReqLen (Suc ii) cs s)"

definition Uds_ApiDataIndication :: "'e Uds_Sys \<Rightarrow> mem option \<Rightarrow> nat \<Rightarrow> 'e Uds_Ctrl \<Rightarrow> 'e Uds_Ctrl" where
  "Uds_ApiDataIndication S Req_a ReqLen s =
     (let s0 = rbUds_CoreStartS3 S s in
      case Req_a of
        None \<Rightarrow> Uds_CoreSendNegativeResponse S 0 (NRC_GR S) (on_ext (uds_Det_ReportError S 0 RB_UDS_S_APIDATAINDICATION RB_UDS_E_NULL) s0)
      | Some Req \<Rightarrow>
          if ReqLen < 1
          then Uds_CoreSendNegativeResponse S 0 (NRC_GR S) (on_ext (uds_Det_ReportError S 0 RB_UDS_S_APIDATAINDICATION RB_UDS_E_VALUE) s0)
          else if isBusy s0 then s0
          else sid_loop S Req ReqLen 0 (serviceCfg_a S) (s0\<lparr>uds_req := Req, uds_reqLen := ReqLen, uds_respLen := 0\<rparr>))"

subsection \<open>The cyclic task\<close>

definition Uds_CoreResponsePendingTask :: "'e Uds_Sys \<Rightarrow> nat \<Rightarrow> nat \<Rightarrow> nat \<Rightarrow> 'e Uds_Ctrl \<Rightarrow> 'e Uds_Ctrl" where
  "Uds_CoreResponsePendingTask S ResponseCode sid respLen s =
     (let (rcrrpTimerState, e) = rbTimerUpdate S Uds_rcrrpTimer (uds_ext s); s1 = s\<lparr>uds_ext := e\<rparr> in
      if ResponseCode = NRC_PR S
      then Uds_CoreSendPositiveResponse S sid (s1\<lparr>uds_respLen := u16 (int (uds_respLen s1) + int respLen)\<rparr>)
      else if ResponseCode = NRC_RCRRP S
      then if rcrrpTimerState = RBD_ELTIME_RBTIMER_STATE_ELAPSED then Uds_CoreSendPendingResponse S sid (rbUds_CoreStartS3 S s1) else s1
      else Uds_CoreSendNegativeResponse S sid ResponseCode s1)"

text \<open>The time-out branch: a reset for security, session and reset services, otherwise the handler's state is cleared and the request fails.\<close>

definition pending_timeout :: "'e Uds_Sys \<Rightarrow> nat \<Rightarrow> nat \<Rightarrow> 'e Uds_Ctrl \<Rightarrow> nat \<times> 'e Uds_Ctrl" where
  "pending_timeout S sid code s =
     (if sid = RB_UDS_SID S Uds_SvcSa \<or> sid = RB_UDS_SID S Uds_SvcDsc \<or> sid = RB_UDS_SID S Uds_SvcEr then (code, on_ext (Mcu_PerformReset S) s)
      else (NRC_GR S,
            if sid = RB_UDS_SID S Uds_SvcRc then on_ext (rbUds_RoutineClearStateinfo S) s
            else if sid = RB_UDS_SID S Uds_SvcRdbi then on_ext (rbUds_DidReadClearStateinfo S) s
            else if sid = RB_UDS_SID S Uds_SvcWdbi then on_ext (rbUds_WriteDidClearStateinfo S) s
            else s))"

definition Uds_CoreResponsePendingSubtask :: "'e Uds_Sys \<Rightarrow> 'e Uds_Ctrl \<Rightarrow> 'e Uds_Ctrl" where
  "Uds_CoreResponsePendingSubtask S s =
     (if rcrrpSidIndex s < length (serviceCfg_a S)
      then let c = serviceCfg_a S ! rcrrpSidIndex s; sid = se_sid c in
           case se_SidPending_fp c of
             None \<Rightarrow> Uds_CoreSetIdle S (on_ext (uds_Det_ReportError S 0 RB_UDS_S_CORERESPONSEPENDINGSUBTASK RB_UDS_E_NULL) s)
           | Some v \<Rightarrow>
               let (rcrrpTimerState, e) = rbTimerUpdate S Uds_rcrrpTimer (uds_ext s);
                   (timerState, e') = rbTimerUpdate S Uds_rcrrpPendingTimer e;
                   s1 = s\<lparr>uds_ext := e'\<rparr>
               in if rcrrpTxConfirm s1
                  then let off = (if sid = RB_UDS_SID S Uds_SvcRdbi then UDS_SID_LEN + RB_UDS_DID_HDR_LEN S else UDS_SID_LEN + uds_respLen s1);
                           (code, bs, respLen, e'') = Uds_Pending S v (rd (uds_req s1) 0 (uds_reqLen s1)) (uds_ext s1);
                           s2 = put_resp off bs e'' s1;
                           (code', s3) = (if timerState = RBD_ELTIME_RBTIMER_STATE_ELAPSED then pending_timeout S sid code s2 else (code, s2))
                       in Uds_CoreResponsePendingTask S code' sid respLen s3
                  else if rcrrpTimerState = RBD_ELTIME_RBTIMER_STATE_ELAPSED
                  then Uds_CoreSetIdle S (on_ext (uds_Det_ReportError S 0 RB_UDS_S_CORERESPONSEPENDINGSUBTASK RB_UDS_E_TIMEOUT) s1)
                  else s1
      else s)"

definition Uds_CoreS3TimerSubtask :: "'e Uds_Sys \<Rightarrow> 'e Uds_Ctrl \<Rightarrow> 'e Uds_Ctrl" where
  "Uds_CoreS3TimerSubtask S s =
     (let currentSession = rbUds_SessionGetState S (uds_ext s);
          (s3TimerState, e) = rbTimerUpdate S Uds_s3Timer (uds_ext s);
          s1 = s\<lparr>uds_ext := e\<rparr>;
          s2 = (if UDS_SESSION_MASK_DS S \<noteq> currentSession \<and> s3TimerState = RBD_ELTIME_RBTIMER_STATE_ELAPSED
                then Uds_CoreReset S (on_ext (rbUds_SessionS3TimerExpiredReset S) s1) else s1)
      in if s3TimerState = RBD_ELTIME_RBTIMER_STATE_ELAPSED then on_ext (rbdPwrReq_ReleaseService S (Uds_PwrReqID s2)) s2 else s2)"

definition Uds_CoreCyclic :: "'e Uds_Sys \<Rightarrow> 'e Uds_Ctrl \<Rightarrow> 'e Uds_Ctrl" where
  "Uds_CoreCyclic S s = Uds_CoreS3TimerSubtask S (Uds_CoreResponsePendingSubtask S s)"

definition Uds_CoreIsBusy :: "'e Uds_Ctrl \<Rightarrow> bool" where
  "Uds_CoreIsBusy s = isBusy s"

end
