(* ===== verification/UdsProps.thy ===== *)
theory UdsProps
  imports UdsCore
begin

text \<open>
  The diagnostic core between two calls is idle or has exactly one request pending; what it answers,
  when it refuses, and what it reads of a request.
\<close>

subsection \<open>The core as a step system\<close>

datatype UdsEvent =
    Uds_EvRequest "mem option" nat
  | Uds_EvTxConfirmation
  | Uds_EvTxAborted
  | Uds_EvRxStarted
  | Uds_EvRxAborted
  | Uds_EvIsS3Active
  | Uds_EvCyclic
  | Uds_EvReset

fun uds_step :: "'e Uds_Sys \<Rightarrow> 'e Uds_Ctrl \<Rightarrow> UdsEvent \<Rightarrow> 'e Uds_Ctrl" where
  "uds_step S s (Uds_EvRequest r n) = Uds_ApiDataIndication S r n s"
| "uds_step S s Uds_EvTxConfirmation = Uds_CoreTxConfirmation S s"
| "uds_step S s Uds_EvTxAborted = Uds_CoreTxAborted S s"
| "uds_step S s Uds_EvRxStarted = rbUds_ApiRxStarted S s"
| "uds_step S s Uds_EvRxAborted = rbUds_ApiRxAborted S s"
| "uds_step S s Uds_EvIsS3Active = snd (rbUds_ApiIsS3Active S s)"
| "uds_step S s Uds_EvCyclic = Uds_CoreCyclic S s"
| "uds_step S s Uds_EvReset = Uds_CoreReset S s"

text \<open>Idle, or busy with one pending request whose service has a callback.\<close>

definition uds_idle :: "'e Uds_Ctrl \<Rightarrow> bool" where
  "uds_idle s \<longleftrightarrow> \<not> isBusy s \<and> \<not> rcrrpTxConfirm s \<and> rcrrpSidIndex s = UDS_CORE_INVALID_RCRRP_INDEX \<and> \<not> suppressPosResp s"

definition uds_pending :: "'e Uds_Sys \<Rightarrow> 'e Uds_Ctrl \<Rightarrow> bool" where
  "uds_pending S s \<longleftrightarrow> isBusy s \<and> rcrrpSidIndex s < length (serviceCfg_a S) \<and> se_SidPending_fp (serviceCfg_a S ! rcrrpSidIndex s) \<noteq> None \<and>
     \<not> suppressPosResp s"

definition uds_inv :: "'e Uds_Sys \<Rightarrow> 'e Uds_Ctrl \<Rightarrow> bool" where
  "uds_inv S s \<longleftrightarrow> uds_idle s \<or> uds_pending S s"

lemma serviceCfg_len: "length (serviceCfg_a S) \<le> 12"
  by (simp add: serviceCfg_a_def)

lemma serviceCfg_idx: "length (serviceCfg_a S) \<le> UDS_CORE_INVALID_RCRRP_INDEX"
  using serviceCfg_len [of S] by simp

lemma idle_not_pending: "uds_idle s \<Longrightarrow> length (serviceCfg_a S) \<le> rcrrpSidIndex s"
  using serviceCfg_len [of S] by (simp add: uds_idle_def)

lemma SetIdle_idle [simp]: "uds_idle (Uds_CoreSetIdle S s)"
  by (simp add: uds_idle_def Uds_CoreSetIdle_def)

lemma SendNegative_idle [simp]: "uds_idle (Uds_CoreSendNegativeResponse S sid c s)"
  by (simp add: Uds_CoreSendNegativeResponse_def Let_def)

lemma SendPositive_idle [simp]: "uds_idle (Uds_CoreSendPositiveResponse S sid s)"
  by (simp add: Uds_CoreSendPositiveResponse_def Let_def)

lemma StartS3_fields [simp]:
  "uds_idle (rbUds_CoreStartS3 S s) = uds_idle s" "uds_pending S (rbUds_CoreStartS3 S s) = uds_pending S s" "isBusy (rbUds_CoreStartS3 S s) = isBusy s"
  by (simp_all add: rbUds_CoreStartS3_def uds_idle_def uds_pending_def)

lemma ext_fields [simp]:
  "uds_idle (s\<lparr>uds_ext := e\<rparr>) = uds_idle s" "uds_pending S (s\<lparr>uds_ext := e\<rparr>) = uds_pending S s" "uds_inv S (s\<lparr>uds_ext := e\<rparr>) = uds_inv S s"
  by (simp_all add: uds_idle_def uds_pending_def uds_inv_def)

lemma service_keeps:
  assumes "Uds_CoreService S v Req n s = (code, s')"
  shows "isBusy s' = isBusy s \<and> rcrrpSidIndex s' = rcrrpSidIndex s \<and> rcrrpTxConfirm s' = rcrrpTxConfirm s"
  using assms by (cases v)
    (auto simp: Uds_CoreDsc_def Uds_CoreEr_def Uds_CoreCdtci_def Uds_CoreRdtci_def Uds_CoreRdbi_def Uds_CoreSa_def Uds_CoreWdbi_def Uds_CoreRc_def
      Uds_CoreRd_def Uds_CoreTd_def Uds_CoreRte_def Uds_CoreTp_def Uds_CoreExtractSubFn_def put_resp_def Let_def split: if_splits prod.splits)

lemma response_inv:
  assumes "isBusy s" "ii < length (serviceCfg_a S)"
  shows "uds_inv S (UdsResponse_function S code sid ii s)"
proof -
  have "u8 (int ii) = ii" using assms(2) serviceCfg_len [of S] by (simp add: u8_of_nat)
  then show ?thesis using assms
    by (auto simp: UdsResponse_function_def uds_inv_def uds_pending_def Uds_CoreSendPendingResponse_def Uds_CoreFillNegativeResponse_def Let_def split: option.split)
qed

lemma sid_loop_inv:
  assumes "ii + length cs = length (serviceCfg_a S)"
  shows "uds_inv S (sid_loop S Req n ii cs s)"
  using assms
proof (induction S Req n ii cs s rule: sid_loop.induct)
  case (2 S Req n ii c cs s)
  then show ?case
    by (auto simp: uds_inv_def [of S "Uds_CoreSendNegativeResponse _ _ _ _"] Let_def split: option.split prod.split intro!: response_inv dest: service_keeps)
qed (simp add: uds_inv_def)

lemma request_inv: "uds_inv S s \<Longrightarrow> uds_inv S (Uds_ApiDataIndication S r n s)"
  by (auto simp: Uds_ApiDataIndication_def Let_def uds_inv_def [of S "Uds_CoreSendNegativeResponse _ _ _ _"] sid_loop_inv split: option.split)
    (simp_all add: uds_inv_def)

lemma pending_task_inv: "uds_pending S s \<Longrightarrow> uds_inv S (Uds_CoreResponsePendingTask S code sid n s)"
  by (auto simp: Uds_CoreResponsePendingTask_def Uds_CoreSendPendingResponse_def Uds_CoreFillNegativeResponse_def Let_def uds_inv_def uds_pending_def
      rbUds_CoreStartS3_def split: prod.split)

lemma timeout_pending: "uds_pending S (snd (pending_timeout S sid code s)) = uds_pending S s"
  by (simp add: pending_timeout_def)

lemma pending_subtask_inv:
  assumes "uds_inv S s"
  shows "uds_inv S (Uds_CoreResponsePendingSubtask S s)"
proof (cases "uds_pending S s")
  case True
  have p: "uds_pending S (put_resp off bs e (s\<lparr>uds_ext := e'\<rparr>))" for off bs e e' using True by (simp add: put_resp_def uds_pending_def)
  obtain v where v: "se_SidPending_fp (serviceCfg_a S ! rcrrpSidIndex s) = Some v" "rcrrpSidIndex s < length (serviceCfg_a S)" using True by (auto simp: uds_pending_def)
  obtain t1 e1 where t1: "rbTimerUpdate S Uds_rcrrpTimer (uds_ext s) = (t1, e1)" by fastforce
  obtain t2 e2 where t2: "rbTimerUpdate S Uds_rcrrpPendingTimer e1 = (t2, e2)" by fastforce
  have q: "uds_pending S (snd (if B then pending_timeout S sid code u else (code, u)))" if "uds_pending S u" for B sid code u
    using that by (simp add: timeout_pending)
  show ?thesis unfolding Uds_CoreResponsePendingSubtask_def Let_def if_P [OF v(2)] v(1) option.case t1 t2 prod.case split_beta
    using assms by (simp add: uds_inv_def [of S "Uds_CoreSetIdle _ _"] pending_task_inv p q)
next
  case False
  then show ?thesis using assms idle_not_pending [of s S] by (simp add: uds_inv_def Uds_CoreResponsePendingSubtask_def)
qed

lemma uds_step_inv: "uds_inv S s \<Longrightarrow> uds_inv S (uds_step S s ev)"
proof (cases ev)
  case Uds_EvCyclic
  assume "uds_inv S s"
  from pending_subtask_inv [OF this] show ?thesis
    by (auto simp: Uds_EvCyclic Uds_CoreCyclic_def Uds_CoreS3TimerSubtask_def Uds_CoreReset_def Let_def uds_inv_def [of S "Uds_CoreSetIdle _ _"] split: prod.split)
next
  case (Uds_EvRequest r n)
  assume "uds_inv S s"
  then show ?thesis by (simp add: Uds_EvRequest request_inv)
qed (auto simp: serviceCfg_idx Uds_CoreTxConfirmation_def Uds_CoreTxAborted_def rbUds_ApiRxStarted_def rbUds_ApiRxAborted_def rbUds_ApiIsS3Active_def Uds_CoreReset_def
  Let_def uds_inv_def uds_idle_def uds_pending_def Uds_CoreSetIdle_def rbUds_CoreStartS3_def split: prod.split UdsTimerState.split)

interpretation uds: step_system "uds_step S" "uds_inv S" for S
  by unfold_locales (rule uds_step_inv)

text \<open>
  C20. After a reset and any sequence of requests, confirmations, receive notifications and cyclic calls the core
  is idle, or has exactly one request pending, of a service that has a callback to finish it; no stale flag to suppress a positive
  response is left.
\<close>

theorem uds_idle_or_pending:
  "uds_idle (foldl (uds_step S) (Uds_CoreReset S s) evs) \<or> uds_pending S (foldl (uds_step S) (Uds_CoreReset S s) evs)"
proof -
  have "uds_inv S (Uds_CoreReset S s)" by (simp add: uds_inv_def Uds_CoreReset_def)
  from uds.foldl_inv [OF this, of evs] show ?thesis by (simp add: uds_inv_def)
qed

subsection \<open>What the core reads of a request\<close>

text \<open>The header offsets lie inside the headers, as in ISO 14229.\<close>

definition uds_headers :: "'e Uds_Sys \<Rightarrow> bool" where
  "uds_headers S \<longleftrightarrow> RB_UDS_DID_MSB_OFFSET S < RB_UDS_DID_HDR_LEN S \<and> RB_UDS_DID_LSB_OFFSET S < RB_UDS_DID_HDR_LEN S \<and>
     RB_UDS_ROUTINE_SUB_FN_OFFSET S < RB_UDS_ROUTINE_HDR_LEN S \<and> RB_UDS_ROUTINE_RID_MSB_OFFSET S < RB_UDS_ROUTINE_HDR_LEN S \<and>
     RB_UDS_ROUTINE_RID_LSB_OFFSET S < RB_UDS_ROUTINE_HDR_LEN S \<and> RB_UDS_ROUTINE_HDR_LEN S = 1 + RB_UDS_DID_HDR_LEN S"

fun svc_min :: "'e Uds_Sys \<Rightarrow> UdsService \<Rightarrow> nat" where
  "svc_min S Uds_SvcCdtci = RB_UDS_CDTCI_HDR_LEN"
| "svc_min S Uds_SvcRdbi = RB_UDS_DID_HDR_LEN S"
| "svc_min S Uds_SvcWdbi = RB_UDS_DID_HDR_LEN S + 1"
| "svc_min S Uds_SvcRc = 1 + RB_UDS_DID_HDR_LEN S"
| "svc_min S Uds_SvcRd = RB_UDS_REQ_DOWNLOAD_HDR_LEN"
| "svc_min S Uds_SvcRte = 0"
| "svc_min S _ = 1"

lemma table_min: "c \<in> set (serviceCfg_a S) \<Longrightarrow> se_Sid_fp c = Some v \<Longrightarrow> se_minLength c = 1 + svc_min S v"
  by (auto simp: serviceCfg_a_def svc_entry_def split: if_splits)

lemma rd_agree: "(\<And>i. i < n \<Longrightarrow> R i = R' i) \<Longrightarrow> off + k \<le> n \<Longrightarrow> rd R off k = rd R' off k"
  by (rule rd_eqI) auto

lemma u16_tail: "k \<le> n \<Longrightarrow> n < 65536 \<Longrightarrow> k + u16 (int n - int k) = n"
  by (simp add: u16_def of_nat_diff [symmetric] del: of_nat_diff)

lemma service_agree:
  assumes R: "\<And>i. i < n \<Longrightarrow> R i = R' i" and n: "svc_min S v \<le> n" "n < 65536" and h: "uds_headers S"
  shows "fst (Uds_CoreService S v R' n (s\<lparr>uds_req := q\<rparr>)) = fst (Uds_CoreService S v R n s) \<and>
    (snd (Uds_CoreService S v R' n (s\<lparr>uds_req := q\<rparr>)))\<lparr>uds_req := z\<rparr> = (snd (Uds_CoreService S v R n s))\<lparr>uds_req := z\<rparr>"
proof -
  have tail: "rd R' k (u16 (int n - int k)) = rd R k (u16 (int n - int k))" if "k \<le> n" for k
    using rd_agree [of n R R' k "u16 (int n - int k)"] R u16_tail [OF that n(2)] by simp
  note hh = h [unfolded uds_headers_def]
  have tail': "rd (\<lambda>i. R' (k + i)) 0 (u16 (int n - int k)) = rd (\<lambda>i. R (k + i)) 0 (u16 (int n - int k))" if "k \<le> n" for k
    using tail [OF that] by (simp add: rd_def)
  show ?thesis
  proof (cases v)
    case Uds_SvcRc
    have "R' i = R i" if "i < RB_UDS_ROUTINE_HDR_LEN S" for i using R [of i] that hh n Uds_SvcRc by simp
    then show ?thesis using hh n tail' [of "RB_UDS_ROUTINE_HDR_LEN S"] by (simp add: Uds_SvcRc Uds_CoreRc_def Uds_CoreExtractSubFn_def put_resp_def Let_def split_beta)
  next
    case Uds_SvcRdbi
    have "R' i = R i" if "i < RB_UDS_DID_HDR_LEN S" for i using R [of i] that n Uds_SvcRdbi by simp
    then show ?thesis using hh by (simp add: Uds_SvcRdbi Uds_CoreRdbi_def put_resp_def Let_def split_beta)
  next
    case Uds_SvcWdbi
    have "R' i = R i" if "i < RB_UDS_DID_HDR_LEN S" for i using R [of i] that n Uds_SvcWdbi by simp
    then show ?thesis using hh n tail [of "RB_UDS_DID_HDR_LEN S"] by (simp add: Uds_SvcWdbi Uds_CoreWdbi_def put_resp_def Let_def split_beta)
  qed (use n R tail [of 0] tail [of 1] tail [of 2] in \<open>simp_all add: Uds_CoreDsc_def Uds_CoreEr_def Uds_CoreCdtci_def Uds_CoreRdtci_def Uds_CoreSa_def Uds_CoreRd_def
      Uds_CoreTd_def Uds_CoreRte_def Uds_CoreTp_def Uds_CoreExtractSubFn_def put_resp_def Let_def split_beta\<close>)
qed

lemma response_req:
  "(UdsResponse_function S code sid ii (s\<lparr>uds_req := q\<rparr>))\<lparr>uds_req := z\<rparr> = (UdsResponse_function S code sid ii s)\<lparr>uds_req := z\<rparr>"
  "(Uds_CoreSendNegativeResponse S sid code (s\<lparr>uds_req := q\<rparr>))\<lparr>uds_req := z\<rparr> = (Uds_CoreSendNegativeResponse S sid code s)\<lparr>uds_req := z\<rparr>"
  by (simp_all add: UdsResponse_function_def Uds_CoreSendPositiveResponse_def Uds_CoreSendNegativeResponse_def Uds_CoreSendPendingResponse_def
      Uds_CoreFillNegativeResponse_def Uds_CoreSetIdle_def Uds_CoreTxConfirmation_def rbUds_CoreStartS3_def Let_def split: option.split)

lemma response_cong:
  assumes "s\<lparr>uds_req := z\<rparr> = s'\<lparr>uds_req := z\<rparr>"
  shows "(UdsResponse_function S code sid ii s)\<lparr>uds_req := z\<rparr> = (UdsResponse_function S code sid ii s')\<lparr>uds_req := z\<rparr>"
  using response_req(1) [where s = s and q = z and z = z] response_req(1) [where s = s' and q = z and z = z] assms by simp

lemma sid_loop_agree:
  assumes "\<And>i. i < n \<Longrightarrow> R i = R' i" "0 < n" "n < 65536" "uds_headers S" "set cs \<subseteq> set (serviceCfg_a S)"
  shows "(sid_loop S R' n ii cs (s\<lparr>uds_req := q\<rparr>))\<lparr>uds_req := z\<rparr> = (sid_loop S R n ii cs s)\<lparr>uds_req := z\<rparr>"
  using assms(5)
proof (induction cs arbitrary: ii)
  case Nil
  then show ?case using assms(1) [of 0] assms(2) response_req(2) by simp
next
  case (Cons c cs)
  have r0: "R' 0 = R 0" using assms(1) [of 0] assms(2) by simp
  show ?case
  proof (cases "se_sid c = R 0 \<and> se_Sid_fp c \<noteq> None \<and> rbUds_SessionGetState S (uds_ext s) AND se_permittedSession c \<noteq> 0 \<and> se_minLength c \<le> n")
    case False
    have e: "(s\<lparr>uds_req := q\<rparr>)\<lparr>uds_ext := e\<rparr> = (s\<lparr>uds_ext := e\<rparr>)\<lparr>uds_req := q\<rparr>" for e by simp
    show ?thesis using False Cons r0 by (auto simp: response_req(2) e split: option.split)
  next
    case True
    then obtain v where v: "se_Sid_fp c = Some v" by blast
    have m: "svc_min S v \<le> n - 1" using True table_min [of c S v] v Cons.prems by auto
    have u: "u16 (int n - 1) = n - 1" using assms(2,3) u16_of_nat [of "n - 1"] by (simp add: of_nat_diff)
    let ?F = "\<lambda>R s. Uds_CoreService S v (\<lambda>i. R (1 + i)) (n - 1) (s\<lparr>isBusy := True\<rparr>)"
    have w: "(s\<lparr>uds_req := q\<rparr>)\<lparr>isBusy := True\<rparr> = (s\<lparr>isBusy := True\<rparr>)\<lparr>uds_req := q\<rparr>" by simp
    have R1: "R (1 + i) = R' (1 + i)" if "i < n - 1" for i using assms(1) [of "1 + i"] that by simp
    have n1: "n - 1 < 65536" using assms(3) by simp
    note sa = service_agree [where S = S and v = v and n = "n - 1" and R = "\<lambda>i. R (1 + i)" and R' = "\<lambda>i. R' (1 + i)" and s = "s\<lparr>isBusy := True\<rparr>" and q = q,
        OF R1 m n1 assms(4)]
    have a: "fst (?F R' (s\<lparr>uds_req := q\<rparr>)) = fst (?F R s)" "(snd (?F R' (s\<lparr>uds_req := q\<rparr>)))\<lparr>uds_req := z\<rparr> = (snd (?F R s))\<lparr>uds_req := z\<rparr>" for z
      unfolding w using sa by blast+
    show ?thesis using True v r0 a(1) response_cong [where S = S and sid = "R 0" and ii = ii, OF a(2)] by (simp add: u Let_def split_beta)
  qed
qed

text \<open>
  C21. The core reads nothing behind the end of a request: two buffers that agree on the announced length lead to the same
  answer and the same state. The minimal length of every service covers all the bytes its handler
  is passed or the core looks at.
\<close>

theorem uds_reads_within_request:
  assumes "uds_headers S" "n < 65536" "\<And>i. i < n \<Longrightarrow> m i = m' i"
  shows "(Uds_ApiDataIndication S (Some m') n s)\<lparr>uds_req := z\<rparr> = (Uds_ApiDataIndication S (Some m) n s)\<lparr>uds_req := z\<rparr>"
proof (cases "n < 1 \<or> isBusy s")
  case True
  then show ?thesis by (auto simp: Uds_ApiDataIndication_def Let_def)
next
  case False
  define s0 where "s0 = (rbUds_CoreStartS3 S s)\<lparr>uds_req := m, uds_reqLen := n, uds_respLen := 0\<rparr>"
  have e: "(rbUds_CoreStartS3 S s)\<lparr>uds_req := m', uds_reqLen := n, uds_respLen := 0\<rparr> = s0\<lparr>uds_req := m'\<rparr>" by (simp add: s0_def)
  have d: "Uds_ApiDataIndication S (Some r) n s = sid_loop S r n 0 (serviceCfg_a S) ((rbUds_CoreStartS3 S s)\<lparr>uds_req := r, uds_reqLen := n, uds_respLen := 0\<rparr>)" for r
    using False by (simp add: Uds_ApiDataIndication_def Let_def)
  have n0: "0 < n" using False by simp
  show ?thesis unfolding d e s0_def [symmetric]
    by (rule sid_loop_agree [where R = m and R' = m', OF assms(3) n0 assms(2,1) order_refl])
qed

subsection \<open>Answers\<close>

text \<open>
  A record \<open>log\<close> of the calls of \<^verbatim>\<open>Uds_CoreCfgSendResponse\<close> (message, suppressed or not) that no other callee touches.
\<close>

definition uds_log :: "'e Uds_Sys \<Rightarrow> ('e \<Rightarrow> (nat list \<times> bool) list) \<Rightarrow> bool" where
  "uds_log S log \<longleftrightarrow>
     (\<forall>f b e. log (Uds_CoreCfgSendResponse S f b e) = log e @ [(f, b)]) \<and>
     (\<forall>t n e. log (rbTimerInit S t e) = log e \<and> log (rbTimerStart S t n e) = log e \<and> log (snd (rbTimerUpdate S t e)) = log e) \<and>
     (\<forall>i e. log (rbdPwrReq_RequestService S i e) = log e \<and> log (rbdPwrReq_ReleaseService S i e) = log e) \<and>
     (\<forall>i a x e. log (uds_Det_ReportError S i a x e) = log e)"

text \<open>A service's handler does not answer by itself.\<close>

definition svc_quiet :: "'e Uds_Sys \<Rightarrow> ('e \<Rightarrow> (nat list \<times> bool) list) \<Rightarrow> bool" where
  "svc_quiet S log \<longleftrightarrow> (\<forall>v R n s. log (uds_ext (snd (Uds_CoreService S v R n s))) = log (uds_ext s))"

lemma neg_bytes: "rd ((m :: mem)(0 := a, Suc 0 := b, 2 := c)) 0 3 = [a, b, c]"
  by (simp add: rd_def numeral_3_eq_3)

lemma log_answer:
  assumes l: "uds_log S log"
  shows "log (uds_ext (Uds_CoreSetIdle S s)) = log (uds_ext s)" "log (uds_ext (rbUds_CoreStartS3 S s)) = log (uds_ext s)"
    "log (uds_ext (Uds_CoreTxConfirmation S s)) = log (uds_ext s)"
    "log (uds_ext (Uds_CoreSendNegativeResponse S sid code s)) = log (uds_ext s) @ [([SID_NR, sid, code], False)]"
    "log (uds_ext (Uds_CoreSendPendingResponse S sid s)) = log (uds_ext s) @ [([SID_NR, sid, NRC_RCRRP S], False)]"
    "log (uds_ext (Uds_CoreSendPositiveResponse S sid s)) =
       log (uds_ext s) @ [(rd ((resp_a s)(0 := u8 (int sid + 64))) 0 (u16 (int (uds_respLen s) + 1)), suppressPosResp s)]"
  using l by (simp_all add: uds_log_def Uds_CoreSetIdle_def rbUds_CoreStartS3_def Uds_CoreTxConfirmation_def Uds_CoreSendNegativeResponse_def
      Uds_CoreSendPendingResponse_def Uds_CoreSendPositiveResponse_def Uds_CoreFillNegativeResponse_def neg_bytes Let_def)

text \<open>
  The one response to a request with service identifier \<open>sid\<close>: a final negative one, the announcement that the request is pending, which it
  then is, or a final positive one, which begins with the identifier of a positive response unless its 16-bit length has wrapped
  to 0. Only a positive response can be handed over as suppressed, and only when \<open>may\<close> holds.
\<close>

definition uds_answer :: "'e Uds_Sys \<Rightarrow> nat \<Rightarrow> bool \<Rightarrow> nat list \<times> bool \<Rightarrow> 'e Uds_Ctrl \<Rightarrow> bool" where
  "uds_answer S sid may a t \<longleftrightarrow>
     (\<exists>c. a = ([SID_NR, sid, c], False)) \<and> uds_idle t \<or>
     a = ([SID_NR, sid, NRC_RCRRP S], False) \<and> uds_pending S t \<or>
     (fst a = [] \<or> hd (fst a) = u8 (int sid + 64)) \<and> (snd a \<longrightarrow> may) \<and> uds_idle t"

lemma log_response:
  assumes l: "uds_log S log" and b: "isBusy s" "ii < length (serviceCfg_a S)" and sup: "suppressPosResp s \<Longrightarrow> may"
  shows "\<exists>a. log (uds_ext (UdsResponse_function S code sid ii s)) = log (uds_ext s) @ [a] \<and> uds_answer S sid may a (UdsResponse_function S code sid ii s)"
proof (cases "code = NRC_PR S")
  case True
  have "k = 0 \<or> hd (rd (R(0 := x)) 0 k) = x" for R :: mem and x k by (cases k) (simp_all add: rd_def upt_conv_Cons del: upt_Suc)
  then show ?thesis using True sup log_answer(6) [OF l, of sid s] by (auto simp: UdsResponse_function_def uds_answer_def rd_def)
next
  case False
  have tm: "log (rbTimerStart S tm k e) = log e" for tm k e using l by (simp add: uds_log_def)
  have inv: "uds_idle u \<or> uds_pending S u" if "u = UdsResponse_function S code sid ii s" for u using response_inv [OF b, of code sid] that by (simp add: uds_inv_def)
  have neg: "uds_idle u \<Longrightarrow> uds_answer S sid may ([SID_NR, sid, x], False) u" for u x by (auto simp: uds_answer_def)
  show ?thesis
  proof (cases "code = NRC_RCRRP S \<and> se_SidPending_fp (serviceCfg_a S ! ii) \<noteq> None")
    case True
    then obtain u where u: "UdsResponse_function S code sid ii s = Uds_CoreSendPendingResponse S sid u" "log (uds_ext u) = log (uds_ext s)"
      using False by (auto simp: UdsResponse_function_def tm)
    then show ?thesis using inv [OF refl] log_answer(5) [OF l] by (auto simp: uds_answer_def)
  next
    case no: False
    then obtain u x where "UdsResponse_function S code sid ii s = Uds_CoreSendNegativeResponse S sid x u" "log (uds_ext u) = log (uds_ext s)"
      using False by (cases "code = NRC_RCRRP S") (auto simp: UdsResponse_function_def tm)
    then show ?thesis using neg log_answer(4) [OF l] by simp
  qed
qed

lemma service_suppress:
  assumes "RB_UDS_ROUTINE_SUB_FN_OFFSET S = 0" "suppressPosResp (snd (Uds_CoreService S v R n s))" "\<not> suppressPosResp s"
  shows "R 0 AND UDS_CORE_SPRMIB_MASK = UDS_CORE_SPRMIB_MASK"
  using assms by (cases v)
    (auto simp: Uds_CoreDsc_def Uds_CoreEr_def Uds_CoreCdtci_def Uds_CoreRdtci_def Uds_CoreRdbi_def Uds_CoreSa_def Uds_CoreWdbi_def Uds_CoreRc_def
      Uds_CoreRd_def Uds_CoreTd_def Uds_CoreRte_def Uds_CoreTp_def Uds_CoreExtractSubFn_def put_resp_def Let_def split: if_splits prod.splits)

lemma log_loop:
  assumes "uds_log S log" "svc_quiet S log" "RB_UDS_ROUTINE_SUB_FN_OFFSET S = 0" "\<not> suppressPosResp s"
  shows "ii + length cs = length (serviceCfg_a S) \<Longrightarrow> \<exists>a. log (uds_ext (sid_loop S R n ii cs s)) = log (uds_ext s) @ [a] \<and>
    uds_answer S (R 0) (R 1 AND UDS_CORE_SPRMIB_MASK = UDS_CORE_SPRMIB_MASK) a (sid_loop S R n ii cs s)"
proof (induction cs arbitrary: ii)
  case (Cons c cs)
  have d: "log (uds_Det_ReportError S 1 RB_UDS_S_APIDATAINDICATION RB_UDS_E_NULL (uds_ext s)) = log (uds_ext s)" using assms(1) by (simp add: uds_log_def)
  have neg: "\<exists>a. log (uds_ext (Uds_CoreSendNegativeResponse S (R 0) x u)) = log (uds_ext s) @ [a] \<and>
      uds_answer S (R 0) q a (Uds_CoreSendNegativeResponse S (R 0) x u)" if "log (uds_ext u) = log (uds_ext s)" for x u q
    using that log_answer(4) [OF assms(1)] by (auto simp: uds_answer_def)
  show ?case
  proof (cases "se_sid c = R 0")
    case True
    obtain code s1 where c: "Uds_CoreService S v (\<lambda>i. R (1 + i)) (u16 (int n - 1)) (s\<lparr>isBusy := True\<rparr>) = (code, s1)"
      if "se_Sid_fp c = Some v" for v by (cases "se_Sid_fp c") fastforce+
    have r: "\<exists>a. log (uds_ext (UdsResponse_function S code (R 0) ii s1)) = log (uds_ext s) @ [a] \<and>
        uds_answer S (R 0) (R 1 AND UDS_CORE_SPRMIB_MASK = UDS_CORE_SPRMIB_MASK) a (UdsResponse_function S code (R 0) ii s1)" if v: "se_Sid_fp c = Some v" for v
    proof -
      have "log (uds_ext s1) = log (uds_ext s)"
        using assms(2) [unfolded svc_quiet_def, rule_format, of v "\<lambda>i. R (1 + i)" "u16 (int n - 1)" "s\<lparr>isBusy := True\<rparr>"] c [OF v] by simp
      moreover have "isBusy s1" using service_keeps [OF c [OF v]] by simp
      moreover have "ii < length (serviceCfg_a S)" using Cons.prems by simp
      moreover have "suppressPosResp s1 \<Longrightarrow> R 1 AND UDS_CORE_SPRMIB_MASK = UDS_CORE_SPRMIB_MASK"
        using service_suppress [OF assms(3), of v "\<lambda>i. R (1 + i)" "u16 (int n - 1)" "s\<lparr>isBusy := True\<rparr>"] c [OF v] assms(4) by simp
      ultimately show ?thesis using log_response [OF assms(1), of s1 ii _ code "R 0"] by metis
    qed
    show ?thesis
    proof (cases "se_Sid_fp c")
      case None
      then show ?thesis using True neg d by simp
    next
      case (Some v)
      then show ?thesis using True neg [OF refl] c [OF Some] r [OF Some] by simp
    qed
  qed (use Cons in simp)
qed (use log_answer(4) [OF assms(1)] in \<open>auto simp: uds_answer_def\<close>)

text \<open>
  C22. What every indication of a request leads to, in the states the core reaches and with handlers that send no response themselves. One that holds at least one byte and finds the core idle has exactly one response
  handed to the transmission: a final negative or positive one, after which the core is idle, or the announcement that it is
  pending. Only a positive response can be marked as suppressed, so that it is not sent, and only when the request carries
  the suppress bit in its second byte. One that finds the core busy gets no response and disturbs nothing but the session timer.
  An empty indication is answered with a general reject and leaves the core idle, whether it was busy or not.
\<close>

theorem uds_one_answer:
  assumes "uds_log S log" "svc_quiet S log" "RB_UDS_ROUTINE_SUB_FN_OFFSET S = 0" "uds_inv S s" "t = Uds_ApiDataIndication S r n s"
  shows "case r of
      Some m \<Rightarrow> if n = 0 then log (uds_ext t) = log (uds_ext s) @ [([SID_NR, 0, NRC_GR S], False)] \<and> uds_idle t
        else if isBusy s then t = rbUds_CoreStartS3 S s
        else \<exists>a. log (uds_ext t) = log (uds_ext s) @ [a] \<and> uds_answer S (m 0) (m 1 AND UDS_CORE_SPRMIB_MASK = UDS_CORE_SPRMIB_MASK) a t
    | None \<Rightarrow> log (uds_ext t) = log (uds_ext s) @ [([SID_NR, 0, NRC_GR S], False)] \<and> uds_idle t"
proof -
  have det: "log (uds_Det_ReportError S i a x e) = log e" for i a x e using assms(1) by (simp add: uds_log_def)
  have sup: "\<not> suppressPosResp s" using assms(4) by (auto simp: uds_inv_def uds_idle_def uds_pending_def)
  show ?thesis
  proof (cases r)
    case None
    then show ?thesis using log_answer(2,4) [OF assms(1)] det by (simp add: assms(5) Uds_ApiDataIndication_def Let_def)
  next
    case (Some m)
    have "\<not> suppressPosResp ((rbUds_CoreStartS3 S s)\<lparr>uds_req := m, uds_reqLen := n, uds_respLen := 0\<rparr>)" using sup by (simp add: rbUds_CoreStartS3_def)
    from log_loop [OF assms(1-3) this, of 0 "serviceCfg_a S" m n] show ?thesis
      using Some log_answer(2,4) [OF assms(1)] det by (auto simp: assms(5) Uds_ApiDataIndication_def Let_def)
  qed
qed

subsection \<open>A pending request\<close>

text \<open>Pending callbacks and the clean-up after a time-out do not answer by themselves either.\<close>

definition pending_quiet :: "'e Uds_Sys \<Rightarrow> ('e \<Rightarrow> (nat list \<times> bool) list) \<Rightarrow> bool" where
  "pending_quiet S log \<longleftrightarrow>
     (\<forall>v r e. log (snd (snd (snd (Uds_Pending S v r e)))) = log e) \<and>
     (\<forall>e. log (rbUds_RoutineClearStateinfo S e) = log e \<and> log (rbUds_DidReadClearStateinfo S e) = log e \<and>
          log (rbUds_WriteDidClearStateinfo S e) = log e \<and> log (Mcu_PerformReset S e) = log e)"

text \<open>\<open>mcu\<close> counts the calls of \<^verbatim>\<open>Mcu_PerformReset\<close>; the other callees of the task do not reset the controller.\<close>

definition uds_resets :: "'e Uds_Sys \<Rightarrow> ('e \<Rightarrow> nat) \<Rightarrow> bool" where
  "uds_resets S mcu \<longleftrightarrow>
     (\<forall>e. mcu (Mcu_PerformReset S e) = Suc (mcu e)) \<and>
     (\<forall>f b e. mcu (Uds_CoreCfgSendResponse S f b e) = mcu e) \<and>
     (\<forall>tm n e. mcu (rbTimerInit S tm e) = mcu e \<and> mcu (rbTimerStart S tm n e) = mcu e \<and> mcu (snd (rbTimerUpdate S tm e)) = mcu e) \<and>
     (\<forall>i e. mcu (rbdPwrReq_RequestService S i e) = mcu e) \<and> (\<forall>i a x e. mcu (uds_Det_ReportError S i a x e) = mcu e) \<and>
     (\<forall>v r e. mcu (snd (snd (snd (Uds_Pending S v r e)))) = mcu e) \<and>
     (\<forall>e. mcu (rbUds_RoutineClearStateinfo S e) = mcu e \<and> mcu (rbUds_DidReadClearStateinfo S e) = mcu e \<and> mcu (rbUds_WriteDidClearStateinfo S e) = mcu e)"

text \<open>The final response to a pending request, from what the callback returned.\<close>

definition final_answer :: "'e Uds_Sys \<Rightarrow> nat \<Rightarrow> nat \<Rightarrow> nat \<Rightarrow> mem \<Rightarrow> nat \<Rightarrow> nat list" where
  "final_answer S sid code n R k =
     (if code = NRC_PR S then rd (R(0 := u8 (int sid + 64))) 0 (u16 (int (u16 (int k + int n)) + 1)) else [SID_NR, sid, code])"

lemma log_task:
  assumes l: "uds_log S log"
  shows "code \<noteq> NRC_RCRRP S \<Longrightarrow> \<not> suppressPosResp s \<Longrightarrow>
      log (uds_ext (Uds_CoreResponsePendingTask S code sid n s)) = log (uds_ext s) @ [(final_answer S sid code n (resp_a s) (uds_respLen s), False)] \<and>
      uds_idle (Uds_CoreResponsePendingTask S code sid n s)"
    "code = NRC_RCRRP S \<Longrightarrow> code \<noteq> NRC_PR S \<Longrightarrow> uds_pending S s \<Longrightarrow> uds_pending S (Uds_CoreResponsePendingTask S code sid n s) \<and>
      log (uds_ext (Uds_CoreResponsePendingTask S code sid n s)) \<in> {log (uds_ext s), log (uds_ext s) @ [([SID_NR, sid, NRC_RCRRP S], False)]}"
proof -
  obtain x e where e: "rbTimerUpdate S Uds_rcrrpTimer (uds_ext s) = (x, e)" "log e = log (uds_ext s)"
    using l by (metis uds_log_def surj_pair snd_conv)
  show "code \<noteq> NRC_RCRRP S \<Longrightarrow> \<not> suppressPosResp s \<Longrightarrow>
      log (uds_ext (Uds_CoreResponsePendingTask S code sid n s)) = log (uds_ext s) @ [(final_answer S sid code n (resp_a s) (uds_respLen s), False)] \<and>
      uds_idle (Uds_CoreResponsePendingTask S code sid n s)"
    using e log_answer(4,6) [OF l] by (simp add: Uds_CoreResponsePendingTask_def final_answer_def)
  have p: "uds_pending S (Uds_CoreSendPendingResponse S sid u)" if "uds_pending S u" for u
    using that by (simp add: Uds_CoreSendPendingResponse_def Uds_CoreFillNegativeResponse_def uds_pending_def Let_def)
  show "code = NRC_RCRRP S \<Longrightarrow> code \<noteq> NRC_PR S \<Longrightarrow> uds_pending S s \<Longrightarrow> uds_pending S (Uds_CoreResponsePendingTask S code sid n s) \<and>
      log (uds_ext (Uds_CoreResponsePendingTask S code sid n s)) \<in> {log (uds_ext s), log (uds_ext s) @ [([SID_NR, sid, NRC_RCRRP S], False)]}"
    using e log_answer(2,5) [OF l] p by (simp add: Uds_CoreResponsePendingTask_def Let_def)
qed

lemma reset_count:
  assumes r: "uds_resets S mcu"
  shows "mcu (uds_ext (Uds_CoreResponsePendingTask S code sid n s)) = mcu (uds_ext s)"
    "mcu (uds_ext (snd (pending_timeout S sid code s))) =
      (if sid \<in> RB_UDS_SID S ` {Uds_SvcSa, Uds_SvcDsc, Uds_SvcEr} then Suc (mcu (uds_ext s)) else mcu (uds_ext s))"
    "mcu (uds_ext (Uds_CoreSetIdle S s)) = mcu (uds_ext s)"
proof -
  obtain x e where e: "rbTimerUpdate S Uds_rcrrpTimer (uds_ext s) = (x, e)" "mcu e = mcu (uds_ext s)"
    using r by (metis uds_resets_def surj_pair snd_conv)
  show "mcu (uds_ext (Uds_CoreResponsePendingTask S code sid n s)) = mcu (uds_ext s)"
    using r e by (simp add: uds_resets_def Uds_CoreResponsePendingTask_def Uds_CoreSendPositiveResponse_def Uds_CoreSendNegativeResponse_def
        Uds_CoreSendPendingResponse_def Uds_CoreFillNegativeResponse_def Uds_CoreSetIdle_def Uds_CoreTxConfirmation_def rbUds_CoreStartS3_def Let_def)
qed (use r in \<open>auto simp: uds_resets_def pending_timeout_def Uds_CoreSetIdle_def\<close>)

lemma subtask_confirmed:
  assumes "uds_pending S s" "rcrrpTxConfirm s" "se_SidPending_fp (serviceCfg_a S ! rcrrpSidIndex s) = Some v"
    "rbTimerUpdate S Uds_rcrrpTimer (uds_ext s) = (t1, e1)" "rbTimerUpdate S Uds_rcrrpPendingTimer e1 = (t2, e2)"
    "Uds_Pending S v (rd (uds_req s) 0 (uds_reqLen s)) e2 = (code, bs, n, e3)" "sid = se_sid (serviceCfg_a S ! rcrrpSidIndex s)"
    "s2 = put_resp (if sid = RB_UDS_SID S Uds_SvcRdbi then UDS_SID_LEN + RB_UDS_DID_HDR_LEN S else UDS_SID_LEN + uds_respLen s) bs e3 (s\<lparr>uds_ext := e2\<rparr>)"
  shows "Uds_CoreResponsePendingSubtask S s =
    (if t2 = RBD_ELTIME_RBTIMER_STATE_ELAPSED
     then Uds_CoreResponsePendingTask S (fst (pending_timeout S sid code s2)) sid n (snd (pending_timeout S sid code s2))
     else Uds_CoreResponsePendingTask S code sid n s2)"
  using assms by (simp add: Uds_CoreResponsePendingSubtask_def uds_pending_def Let_def split_beta)

lemma timeout_result:
  assumes "pending_quiet S log" "sid \<notin> RB_UDS_SID S ` {Uds_SvcSa, Uds_SvcDsc, Uds_SvcEr}"
  shows "fst (pending_timeout S sid code s) = NRC_GR S" "log (uds_ext (snd (pending_timeout S sid code s))) = log (uds_ext s)"
  using assms by (auto simp: pending_timeout_def pending_quiet_def)

text \<open>
  C23. What a call of the pending task does with a pending request, with callbacks that send no response themselves. Once the last announcement is confirmed and before the limit of ten seconds is over:
  the request stays pending while the callback says so, with a further announcement when it is due, and otherwise gets its final
  response, the callback's data appended to the response or its negative code, and the core is idle. When the limit is over, the request
  is answered with a general reject, whatever the callback returns, and the core is idle; for SecurityAccess,
  DiagnosticSessionControl and ECUReset the controller is reset instead, and only then. When the confirmation of the announcement does not come in
  time, the request is given up without an answer.
\<close>

theorem uds_pending_ends:
  assumes log: "uds_log S log" "pending_quiet S log" "uds_resets S mcu" and nrc: "NRC_GR S \<noteq> NRC_PR S" "NRC_GR S \<noteq> NRC_RCRRP S" "NRC_RCRRP S \<noteq> NRC_PR S"
    and pend: "uds_pending S s" "se_SidPending_fp (serviceCfg_a S ! rcrrpSidIndex s) = Some v" "sid = se_sid (serviceCfg_a S ! rcrrpSidIndex s)"
    and timers: "rbTimerUpdate S Uds_rcrrpTimer (uds_ext s) = (t1, e1)" "rbTimerUpdate S Uds_rcrrpPendingTimer e1 = (t2, e2)"
    and callback: "Uds_Pending S v (rd (uds_req s) 0 (uds_reqLen s)) e2 = (code, bs, n, e3)"
    and off: "off = UDS_SID_LEN + (if sid = RB_UDS_SID S Uds_SvcRdbi then RB_UDS_DID_HDR_LEN S else uds_respLen s)"
    and resets: "resets \<longleftrightarrow> rcrrpTxConfirm s \<and> t2 = RBD_ELTIME_RBTIMER_STATE_ELAPSED \<and> sid \<in> RB_UDS_SID S ` {Uds_SvcSa, Uds_SvcDsc, Uds_SvcEr}"
    and t: "t = Uds_CoreResponsePendingSubtask S s"
  shows "mcu (uds_ext t) = mcu (uds_ext s) + (if resets then 1 else 0) \<and>
    (if \<not> rcrrpTxConfirm s then log (uds_ext t) = log (uds_ext s) \<and> (if t1 = RBD_ELTIME_RBTIMER_STATE_ELAPSED then uds_idle t else uds_pending S t)
     else if t2 = RBD_ELTIME_RBTIMER_STATE_ELAPSED
     then resets \<or> log (uds_ext t) = log (uds_ext s) @ [([SID_NR, sid, NRC_GR S], False)] \<and> uds_idle t
     else if code = NRC_RCRRP S
     then uds_pending S t \<and> log (uds_ext t) \<in> {log (uds_ext s), log (uds_ext s) @ [([SID_NR, sid, NRC_RCRRP S], False)]}
     else log (uds_ext t) = log (uds_ext s) @ [(final_answer S sid code n (write_bytes off bs (resp_a s)) (uds_respLen s), False)] \<and> uds_idle t)"
proof -
  define s2 where "s2 = put_resp (if sid = RB_UDS_SID S Uds_SvcRdbi then UDS_SID_LEN + RB_UDS_DID_HDR_LEN S else UDS_SID_LEN + uds_respLen s) bs e3 (s\<lparr>uds_ext := e2\<rparr>)"
  have u: "log (snd (rbTimerUpdate S tm e)) = log e" "log (snd (snd (snd (Uds_Pending S w r e)))) = log e"
    "mcu (snd (rbTimerUpdate S tm e)) = mcu e" "mcu (snd (snd (snd (Uds_Pending S w r e)))) = mcu e" for tm e w r
    using log by (simp_all add: uds_log_def pending_quiet_def uds_resets_def)
  have e2: "log e2 = log (uds_ext s)" "mcu e2 = mcu (uds_ext s)"
    using u(1,3) [of Uds_rcrrpTimer "uds_ext s"] u(1,3) [of Uds_rcrrpPendingTimer e1] timers by simp_all
  have l2: "log (uds_ext s2) = log (uds_ext s)" "mcu (uds_ext s2) = mcu (uds_ext s)" "uds_pending S s2" "\<not> suppressPosResp s2"
    "resp_a s2 = write_bytes off bs (resp_a s)" "uds_respLen s2 = uds_respLen s"
    using e2 u(2,4) [of v "rd (uds_req s) 0 (uds_reqLen s)" e2] callback pend(1) by (simp_all add: s2_def put_resp_def uds_pending_def off)
  have sup: "suppressPosResp (snd (pending_timeout S sid code s2)) = suppressPosResp s2" by (simp add: pending_timeout_def)
  show ?thesis
  proof (cases "rcrrpTxConfirm s")
    case False
    let ?s = "s\<lparr>uds_ext := e2\<rparr>"
    have "t = (if t1 = RBD_ELTIME_RBTIMER_STATE_ELAPSED
        then Uds_CoreSetIdle S (on_ext (uds_Det_ReportError S 0 RB_UDS_S_CORERESPONSEPENDINGSUBTASK RB_UDS_E_TIMEOUT) ?s) else ?s)"
      using False pend timers by (simp add: t Uds_CoreResponsePendingSubtask_def uds_pending_def Let_def)
    then show ?thesis using False pend(1) e2 log(1,3) log_answer(1) [OF log(1)] reset_count(3) [OF log(3)]
      by (simp add: resets uds_log_def uds_resets_def)
  next
    case True
    note st = subtask_confirmed [OF pend(1) True pend(2) timers callback pend(3) s2_def, folded t]
    show ?thesis
    proof (cases "t2 = RBD_ELTIME_RBTIMER_STATE_ELAPSED")
      case el: True
      have gr: "final_answer S sid (NRC_GR S) n R k = [SID_NR, sid, NRC_GR S]" for R k using nrc(1) by (simp add: final_answer_def)
      show ?thesis
        using True el st reset_count [OF log(3)] l2 sup timeout_result [OF log(2), of sid code s2] nrc(2)
          log_task(1) [OF log(1), of "NRC_GR S" "snd (pending_timeout S sid code s2)" sid n] by (auto simp: resets gr)
    next
      case False
      show ?thesis using True False st reset_count(1) [OF log(3)] l2 nrc(3) log_task [OF log(1), of code s2 sid n] by (simp add: resets)
    qed
  qed
qed

subsection \<open>Reading a data identifier that takes time\<close>

text \<open>Distinct service and response codes, and the two byte identifier behind the SID, as in ISO 14229.\<close>

definition uds_iso :: "'e Uds_Sys \<Rightarrow> bool" where
  "uds_iso S \<longleftrightarrow> inj (RB_UDS_SID S) \<and> NRC_PR S \<noteq> NRC_RCRRP S \<and>
     RB_UDS_DID_MSB_OFFSET S = 0 \<and> RB_UDS_DID_LSB_OFFSET S = 1 \<and> RB_UDS_DID_HDR_LEN S = 2"

abbreviation rdbi_index :: "'e Uds_Sys \<Rightarrow> nat" where
  "rdbi_index S \<equiv> if RBD_PK_APP S then 4 else 2"

lemma rdbi_entry:
  "rdbi_index S < length (serviceCfg_a S)"
  "serviceCfg_a S ! rdbi_index S = svc_entry S Uds_SvcRdbi (UDS_SESSION_ANY S) (1 + RB_UDS_DID_HDR_LEN S) (Some Uds_SvcRdbi)"
  by (simp_all add: serviceCfg_a_def)

lemma four_Suc: "(4 :: nat) = Suc (Suc (Suc (Suc 0)))"
  by simp

lemma rdbi_found:
  assumes "uds_iso S" "m 0 = RB_UDS_SID S Uds_SvcRdbi" "rbUds_SessionGetState S (uds_ext s) AND UDS_SESSION_ANY S \<noteq> 0"
  shows "sid_loop S m 3 0 (serviceCfg_a S) s =
    (let (code, s1) = Uds_CoreRdbi S (\<lambda>i. m (1 + i)) 2 (s\<lparr>isBusy := True\<rparr>) in UdsResponse_function S code (m 0) (rdbi_index S) s1)"
proof -
  have "RB_UDS_SID S v = RB_UDS_SID S w \<longleftrightarrow> v = w" for v w using assms(1) by (auto simp: uds_iso_def inj_def)
  then show ?thesis using assms by (simp add: serviceCfg_a_def svc_entry_def uds_iso_def u16_def numeral_3_eq_3 numeral_2_eq_2 four_Suc)
qed

lemma response_bytes:
  assumes "n + 3 < 65536" "length data = n"
  shows "rd ((write_bytes 3 data ((mm :: mem)(1 := b, 2 := c)))(0 := a)) 0 (u16 (int (u16 (int 2 + int n)) + 1)) = a # b # c # data"
proof -
  have "u16 (int (u16 (int 2 + int n)) + 1) = n + 3" using assms(1) by (simp add: u16_def)
  then show ?thesis using assms(2)
    by (auto intro!: nth_equalityI simp: rd_def write_bytes_apply nth_Cons split: nat.split)
qed

lemma rdbi_pending_state:
  assumes log: "uds_log S log" "svc_quiet S log" and iso: "uds_iso S" and idle: "uds_idle s"
    and session: "\<And>e. rbUds_SessionGetState S e AND UDS_SESSION_ANY S \<noteq> 0"
    and req: "m 0 = RB_UDS_SID S Uds_SvcRdbi" and busy: "\<And>e. fst (rbUds_DidRead S (rbUds_Make16Bit S (m 1) (m 2)) e) = NRC_RCRRP S"
    and r: "r = Uds_CoreTxConfirmation S (Uds_ApiDataIndication S (Some m) 3 s)"
  shows "uds_pending S r \<and> rcrrpTxConfirm r \<and> rcrrpSidIndex r = rdbi_index S \<and> uds_req r = m \<and> uds_reqLen r = 3 \<and> uds_respLen r = 2 \<and>
    resp_a r 1 = m 1 \<and> resp_a r 2 = m 2 \<and> log (uds_ext r) = log (uds_ext s) @ [([SID_NR, m 0, NRC_RCRRP S], False)]"
proof -
  define s0 where "s0 = ((rbUds_CoreStartS3 S s)\<lparr>uds_req := m, uds_reqLen := 3, uds_respLen := 0\<rparr>)\<lparr>isBusy := True\<rparr>"
  obtain bs k e where d: "rbUds_DidRead S (rbUds_Make16Bit S (m 1) (m 2)) (uds_ext s0) = (NRC_RCRRP S, bs, k, e)"
    using busy [of "uds_ext s0"] by (cases "rbUds_DidRead S (rbUds_Make16Bit S (m 1) (m 2)) (uds_ext s0)") auto
  define s1 where "s1 = s0\<lparr>resp_a := (write_bytes 3 bs (resp_a s0))(1 := m 1, 2 := m 2), uds_ext := e, uds_respLen := 2\<rparr>"
  have c: "Uds_CoreRdbi S (\<lambda>i. m (1 + i)) 2 s0 = (NRC_RCRRP S, s1)"
    using iso d by (simp add: Uds_CoreRdbi_def put_resp_def uds_iso_def s1_def u16_def numeral_3_eq_3 numeral_2_eq_2)
  have "log e = log (uds_ext s0)"
    using log(2) [unfolded svc_quiet_def, rule_format, of Uds_SvcRdbi "\<lambda>i. m (1 + i)" 2 s0] c by (simp add: s1_def)
  then have l: "log (uds_ext s1) = log (uds_ext s)" using log_answer(2) [OF log(1), of s] by (simp add: s1_def s0_def)
  have "Uds_ApiDataIndication S (Some m) 3 s = UdsResponse_function S (NRC_RCRRP S) (m 0) (rdbi_index S) s1"
    using idle rdbi_found [where S = S and m = m, OF iso req, OF session] c by (simp add: Uds_ApiDataIndication_def uds_idle_def s0_def)
  also have "\<dots> = Uds_CoreSendPendingResponse S (m 0) (on_ext (rbTimerStart S Uds_rcrrpPendingTimer UDS_RCRRP_LIMIT_MS) s1\<lparr>rcrrpSidIndex := rdbi_index S\<rparr>)"
    (is "_ = Uds_CoreSendPendingResponse S _ ?s2")
    using iso by (simp add: UdsResponse_function_def rdbi_entry(2) svc_entry_def uds_iso_def u8_def Let_def)
  finally have a: "Uds_ApiDataIndication S (Some m) 3 s = Uds_CoreSendPendingResponse S (m 0) ?s2" .
  have "log (uds_ext ?s2) = log (uds_ext s)" using l log(1) by (simp add: uds_log_def)
  then have "log (uds_ext (Uds_CoreSendPendingResponse S (m 0) ?s2)) = log (uds_ext s) @ [([SID_NR, m 0, NRC_RCRRP S], False)]"
    using log_answer(5) [OF log(1), of "m 0" ?s2] by simp
  moreover have "r = (Uds_CoreSendPendingResponse S (m 0) ?s2)\<lparr>rcrrpTxConfirm := True\<rparr>"
    using rdbi_entry(1) [of S] by (simp add: r a Uds_CoreTxConfirmation_def Uds_CoreSendPendingResponse_def Uds_CoreFillNegativeResponse_def Let_def)
  ultimately show ?thesis using rdbi_entry [of S]
    by (simp add: uds_pending_def svc_entry_def Uds_CoreSendPendingResponse_def Uds_CoreFillNegativeResponse_def s1_def s0_def Let_def)
qed

text \<open>
  Reading a data identifier whose value is not there at once: the request is answered with the announcement that the response is
  pending; after its confirmation the next cyclic call sends the positive response, which repeats the identifier
  and carries exactly the data of the callback, and the core is idle again.
\<close>

theorem uds_rdbi_pending_answer:
  assumes log: "uds_log S log" "svc_quiet S log" "pending_quiet S log" and iso: "uds_iso S" and idle: "uds_idle s"
    and session: "\<And>e. rbUds_SessionGetState S e AND UDS_SESSION_ANY S \<noteq> 0"
    and req: "m 0 = RB_UDS_SID S Uds_SvcRdbi" and busy: "\<And>e. fst (rbUds_DidRead S (rbUds_Make16Bit S (m 1) (m 2)) e) = NRC_RCRRP S"
    and in_time: "\<And>e. fst (rbTimerUpdate S Uds_rcrrpPendingTimer e) \<noteq> RBD_ELTIME_RBTIMER_STATE_ELAPSED"
    and data: "\<And>e. \<exists>e'. Uds_Pending S Uds_SvcRdbi [m 0, m 1, m 2] e = (NRC_PR S, data, length data, e')" "length data + 3 < 65536"
    and t: "t = Uds_CoreResponsePendingSubtask S (Uds_CoreTxConfirmation S (Uds_ApiDataIndication S (Some m) 3 s))"
  shows "log (uds_ext t) = log (uds_ext s) @ [([SID_NR, m 0, NRC_RCRRP S], False), (u8 (int (m 0) + 64) # m 1 # m 2 # data, False)] \<and> uds_idle t"
proof -
  define r where "r = Uds_CoreTxConfirmation S (Uds_ApiDataIndication S (Some m) 3 s)"
  note p = rdbi_pending_state [OF log(1,2) iso idle session req busy r_def]
  obtain t1 e1 where t1: "rbTimerUpdate S Uds_rcrrpTimer (uds_ext r) = (t1, e1)" by fastforce
  obtain t2 e2 where t2: "rbTimerUpdate S Uds_rcrrpPendingTimer e1 = (t2, e2)" by fastforce
  obtain e3 where e3: "Uds_Pending S Uds_SvcRdbi [m 0, m 1, m 2] e2 = (NRC_PR S, data, length data, e3)" using data(1) by blast
  have q: "rd (uds_req r) 0 (uds_reqLen r) = [m 0, m 1, m 2]" using p by (simp add: rd_def numeral_3_eq_3 numeral_2_eq_2)
  define s2 where "s2 = put_resp 3 data e3 (r\<lparr>uds_ext := e2\<rparr>)"
  have tr: "t = Uds_CoreResponsePendingSubtask S r" by (simp add: t r_def)
  have st: "t = Uds_CoreResponsePendingTask S (NRC_PR S) (m 0) (length data) s2"
    using subtask_confirmed [where S = S and s = r and v = Uds_SvcRdbi, OF _ _ _ t1 t2 _ refl refl] p e3 q in_time [of e1] t2 iso
    by (simp add: tr rdbi_entry(2) svc_entry_def req s2_def uds_iso_def numeral_3_eq_3 numeral_2_eq_2)
  have l2: "log (uds_ext s2) = log (uds_ext r)"
  proof -
    have "log e1 = log (uds_ext r)" "log e2 = log e1" using log(1) t1 t2 by (metis uds_log_def snd_conv)+
    moreover have "log e3 = log e2" using log(3) e3 by (metis pending_quiet_def snd_conv)
    ultimately show ?thesis by (simp add: s2_def put_resp_def)
  qed
  have b: "resp_a s2 = write_bytes 3 data ((resp_a r)(1 := m 1, 2 := m 2))" "uds_respLen s2 = 2" "\<not> suppressPosResp s2"
    using p by (auto simp: s2_def put_resp_def uds_pending_def fun_upd_idem)
  obtain t3 e4 where t3: "rbTimerUpdate S Uds_rcrrpTimer (uds_ext s2) = (t3, e4)" by fastforce
  have "log e4 = log (uds_ext s2)" using log(1) t3 by (metis uds_log_def snd_conv)
  moreover have "t = Uds_CoreSendPositiveResponse S (m 0) (s2\<lparr>uds_ext := e4, uds_respLen := u16 (int 2 + int (length data))\<rparr>)"
    using b(2) by (simp add: st Uds_CoreResponsePendingTask_def t3)
  ultimately show ?thesis using log_answer(6) [OF log(1), of "m 0" "s2\<lparr>uds_ext := e4, uds_respLen := u16 (int 2 + int (length data))\<rparr>"]
      b(1,3) l2 p response_bytes [OF data(2) refl, where a = "u8 (int (m 0) + 64)" and b = "m 1" and c = "m 2" and mm = "resp_a r"] by simp
qed

text \<open>
  An indication without data, or of length zero, is looked at before the core asks whether it is busy: it ends a pending
  request, which then never gets its final answer.
\<close>

theorem uds_empty_request_drops_pending:
  assumes "uds_log S log" "uds_pending S s" "r = None \<or> n = 0" "t = Uds_ApiDataIndication S r n s"
  shows "uds_idle t \<and> log (uds_ext t) = log (uds_ext s) @ [([SID_NR, 0, NRC_GR S], False)] \<and>
    Uds_CoreResponsePendingSubtask S t = t"
proof -
  obtain s' where s': "t = Uds_CoreSendNegativeResponse S 0 (NRC_GR S) s'" "log (uds_ext s') = log (uds_ext s)"
    using assms(1,3) log_answer(2) [OF assms(1), of s] by (cases r) (auto simp: assms(4) Uds_ApiDataIndication_def Let_def uds_log_def)
  have "uds_idle t" by (simp add: s')
  then show ?thesis using s' log_answer(4) [OF assms(1)] idle_not_pending [of t S] by (simp add: Uds_CoreResponsePendingSubtask_def)
qed

subsection \<open>Witnesses\<close>

text \<open>
  A boot loader and application build with the numbers of ISO 14229, whose outside keeps the list of sent responses and the number of resets. The one data identifier there
  is takes time and then has the value 9; timers never elapse.
\<close>

fun demo_sid :: "UdsService \<Rightarrow> nat" where
  "demo_sid Uds_SvcDsc = 16"
| "demo_sid Uds_SvcEr = 17"
| "demo_sid Uds_SvcCdtci = 20"
| "demo_sid Uds_SvcRdtci = 25"
| "demo_sid Uds_SvcRdbi = 34"
| "demo_sid Uds_SvcSa = 39"
| "demo_sid Uds_SvcWdbi = 46"
| "demo_sid Uds_SvcRc = 49"
| "demo_sid Uds_SvcRd = 52"
| "demo_sid Uds_SvcTd = 54"
| "demo_sid Uds_SvcRte = 55"
| "demo_sid Uds_SvcTp = 62"

definition uds_demo :: "((nat list \<times> bool) list \<times> nat) Uds_Sys" where
  "uds_demo = \<lparr>RBD_PK_APP = True, RBD_PK_FBL = True, RB_UDS_SID = demo_sid,
     NRC_PR = 0, NRC_RCRRP = 120, NRC_GR = 16, NRC_SNS = 17, NRC_SFNS = 18, NRC_IMLOIF = 19, NRC_SNSIAS = 127, NRC_SAD = 51,
     UDS_SESSION_ANY = 255, UDS_SESSION_MASK_DS = 1, UDS_SESSION_MASK_PRGS = 2, UDS_SESSION_MASK_EXTDS = 4, RB_UDS_SECURITY_MASK_ANY = 255,
     RB_UDS_DID_MSB_OFFSET = 0, RB_UDS_DID_LSB_OFFSET = 1, RB_UDS_DID_HDR_LEN = 2,
     RB_UDS_ROUTINE_SUB_FN_OFFSET = 0, RB_UDS_ROUTINE_RID_MSB_OFFSET = 1, RB_UDS_ROUTINE_RID_LSB_OFFSET = 2, RB_UDS_ROUTINE_HDR_LEN = 3,
     rbUds_Make16Bit = (\<lambda>a b. 256 * a + b), rbUds_Make32Bit = (\<lambda>a b c d. 16777216 * a + 65536 * b + 256 * c + d),
     rbUds_SessionGetState = (\<lambda>_. 1), rbUds_SecurityGetLevel = (\<lambda>_. 1),
     rbUds_DidRead = (\<lambda>_ e. (120, [], 0, e)), rbUds_DidWrite = (\<lambda>_ _ e. (0, [], 0, e)), rbUds_Routine = (\<lambda>_ _ _ e. (0, [], 0, e)),
     rbUds_DtcRead = (\<lambda>_ _ e. (0, [], 0, e)), rbUds_DtcClearCfgClear = (\<lambda>_ e. (0, e)), rbUds_Session = (\<lambda>_ e. (0, [], 0, e)),
     rbUds_Security = (\<lambda>_ _ e. (0, [], 0, e)), rbUds_RequestDownloadCfg = (\<lambda>_ _ _ e. (120, e)), rbUds_TransferDataCfg = (\<lambda>_ _ e. (0, [], 0, e)),
     rbUds_TransferExitCfg = (\<lambda>_ e. (0, [], 0, e)), rbUds_EcuReset = (\<lambda>_ e. (0, e)), Uds_Pending = (\<lambda>_ _ e. (0, [9], 1, e)),
     Uds_CoreCfgSendResponse = (\<lambda>f b (l, k). (l @ [(f, b)], k)), rbTimerInit = (\<lambda>_ e. e), rbTimerStart = (\<lambda>_ _ e. e), rbTimerStop = (\<lambda>_ e. e),
     rbTimerUpdate = (\<lambda>_ e. (RBD_ELTIME_RBTIMER_STATE_RUNNING, e)), rbUds_SessionS3TimerExpiredReset = (\<lambda>e. e), rbUds_RoutineClearStateinfo = (\<lambda>e. e),
     rbUds_DidReadClearStateinfo = (\<lambda>e. e), rbUds_WriteDidClearStateinfo = (\<lambda>e. e), Mcu_PerformReset = (\<lambda>(l, k). (l, Suc k)), rbdPwrReq_GetID = (\<lambda>e. (0, e)),
     rbdPwrReq_RequestService = (\<lambda>_ e. e), rbdPwrReq_ReleaseService = (\<lambda>_ e. e), uds_Det_ReportError = (\<lambda>_ _ _ e. e)\<rparr>"

definition uds_demo_state :: "((nat list \<times> bool) list \<times> nat) Uds_Ctrl" where
  "uds_demo_state = \<lparr>isBusy = False, suppressPosResp = False, rcrrpTxConfirm = False, rcrrpSidIndex = 255, uds_req = (\<lambda>_. 0), uds_reqLen = 0, uds_respLen = 0,
     resp_a = (\<lambda>_. 0), negResp_a = (\<lambda>_. 0), Uds_PwrReqID = 0, uds_ext = ([], 0)\<rparr>"

lemma demo_ok:
  "uds_log uds_demo fst" "pending_quiet uds_demo fst" "uds_headers uds_demo" "uds_idle uds_demo_state"
  by (simp_all add: uds_log_def pending_quiet_def uds_headers_def uds_idle_def uds_demo_def uds_demo_state_def split_beta)

lemma demo_resets: "uds_resets uds_demo snd"
  by (simp add: uds_resets_def uds_demo_def split_beta)

lemma demo_iso: "uds_iso uds_demo"
proof -
  have "demo_sid v = demo_sid w \<Longrightarrow> v = w" for v w by (cases v; cases w) auto
  then show ?thesis by (simp add: uds_iso_def uds_demo_def inj_def)
qed

lemma demo_quiet: "svc_quiet uds_demo fst"
proof -
  have "uds_ext (snd (Uds_CoreService uds_demo v R n s)) = uds_ext s" for v R n s
    by (cases v) (simp_all add: uds_demo_def Uds_CoreDsc_def Uds_CoreEr_def Uds_CoreCdtci_def Uds_CoreRdtci_def Uds_CoreRdbi_def Uds_CoreSa_def Uds_CoreWdbi_def
      Uds_CoreRc_def Uds_CoreRd_def Uds_CoreTd_def Uds_CoreRte_def Uds_CoreTp_def Uds_CoreExtractSubFn_def put_resp_def Let_def)
  then show ?thesis by (simp add: svc_quiet_def)
qed

theorem uds_reads_within_request_witness:
  "(Uds_ApiDataIndication uds_demo (Some (mem_of [62, 0, 7])) 2 uds_demo_state)\<lparr>uds_req := mem_of []\<rparr>
     = (Uds_ApiDataIndication uds_demo (Some (mem_of [62, 0])) 2 uds_demo_state)\<lparr>uds_req := mem_of []\<rparr>"
  by (rule uds_reads_within_request [OF demo_ok(3)]) (auto simp: mem_of_def nth_append less_2_cases_iff)

theorem uds_one_answer_witness:
  "\<exists>a. fst (uds_ext (Uds_ApiDataIndication uds_demo (Some (mem_of [62, 128])) 2 uds_demo_state)) = [a] \<and>
     uds_answer uds_demo 62 True a (Uds_ApiDataIndication uds_demo (Some (mem_of [62, 128])) 2 uds_demo_state)"
proof -
  have i: "uds_inv uds_demo uds_demo_state" "\<not> isBusy uds_demo_state" "fst (uds_ext uds_demo_state) = []" "RB_UDS_ROUTINE_SUB_FN_OFFSET uds_demo = 0"
    using demo_ok(4) by (simp_all add: uds_inv_def) (simp_all add: uds_demo_state_def uds_demo_def)
  show ?thesis using uds_one_answer [OF demo_ok(1) demo_quiet i(4,1) refl, where r = "Some (mem_of [62, 128])" and n = 2] i(2,3) by (simp add: mem_of_def)
qed

theorem uds_rdbi_pending_answer_witness:
  "fst (uds_ext (Uds_CoreResponsePendingSubtask uds_demo (Uds_CoreTxConfirmation uds_demo (Uds_ApiDataIndication uds_demo (Some (mem_of [34, 241, 144])) 3 uds_demo_state))))
     = [([127, 34, 120], False), ([98, 241, 144, 9], False)]"
  using uds_rdbi_pending_answer [OF demo_ok(1) demo_quiet demo_ok(2) demo_iso demo_ok(4), where m = "mem_of [34, 241, 144]" and data = "[9]", OF _ _ _ _ _ _ refl]
  by (simp add: uds_demo_def uds_demo_state_def mem_of_def u8_def)

definition uds_demo_pending :: "((nat list \<times> bool) list \<times> nat) Uds_Ctrl" where
  "uds_demo_pending = uds_demo_state\<lparr>isBusy := True, rcrrpSidIndex := 4, rcrrpTxConfirm := True, uds_respLen := 2\<rparr>"

lemma demo_pending:
  "uds_pending uds_demo uds_demo_pending" "se_SidPending_fp (serviceCfg_a uds_demo ! rcrrpSidIndex uds_demo_pending) = Some Uds_SvcRdbi"
  by (simp_all add: uds_pending_def uds_demo_pending_def uds_demo_state_def serviceCfg_a_def svc_entry_def uds_demo_def)

theorem uds_pending_ends_witness:
  "fst (uds_ext (Uds_CoreResponsePendingSubtask uds_demo uds_demo_pending)) = [([98, 0, 0, 9], False)] \<and>
    uds_idle (Uds_CoreResponsePendingSubtask uds_demo uds_demo_pending)"
  using uds_pending_ends [OF demo_ok(1,2) demo_resets _ _ _ demo_pending refl _ _ _ refl refl refl, where ?t1.0 = RBD_ELTIME_RBTIMER_STATE_RUNNING
      and ?e1.0 = "([], 0)" and ?t2.0 = RBD_ELTIME_RBTIMER_STATE_RUNNING and ?e2.0 = "([], 0)" and code = 0 and bs = "[9]" and n = 1 and ?e3.0 = "([], 0)"]
  by (simp add: uds_demo_def uds_demo_pending_def uds_demo_state_def serviceCfg_a_def svc_entry_def final_answer_def rd_def u8_def u16_def upt_rec)

theorem uds_empty_request_drops_pending_witness:
  "uds_pending uds_demo uds_demo_pending \<and> uds_idle (Uds_ApiDataIndication uds_demo None 0 uds_demo_pending)"
  using uds_empty_request_drops_pending [OF demo_ok(1) demo_pending(1) _ refl, where r = None and n = 0] demo_pending(1) by simp

end
