(* ===== verification/AnchorSecure.thy ===== *)
theory AnchorSecure
  imports AnchorComTp
begin

unbundle bit_operations_syntax

text \<open>
  The cyclic processing of \<^verbatim>\<open>rbdAnchorComTp.c\<close>: a queued message is given a channel identifier and a freshness value, padded and
  encrypted where configured, authenticated and passed down; a received one is verified, decrypted and distributed. Also
  \<^verbatim>\<open>rbdAnchorCom.c\<close>, which decides which peers may be sent to.

  \<^item> \<open>AncSys\<close> holds what is outside the repository: the crypto services, the freshness manager, the upper layer's callbacks, the time
    base and the constants of the private header. A service that works on a buffer gets the bytes it reads and returns
    the bytes it writes from the start of that buffer.
  \<^item> A pointer to a queue entry is the position of its slot. The state is the module's variables and the rest of the world.
  \<^item> The three builds are covered, with the broadcast over the inter-micro link, test mode and asynchronous crypto calls off. A service may still answer
    that it is pending.
  \<^item> The error counters do not overflow, and the length of a received message is at least that of the authentication data it ends with.
\<close>

subsection \<open>The rest of the world\<close>

datatype AncBuild = Build_CC26xx | Build_NCJ29D5 | Build_MASTER_MCU

record 'e AncSys =
  anc_build :: AncBuild
  RBDANCHORCOM_FRESH_LEN :: nat
  RBDANCHORCOM_AES_KEY_LEN :: nat
  RBDANCHORCOM_CMAC_LEN :: nat
  RBDANCHORCOM_APPEND_LEN :: nat
  RBDANCHORCOM_PREFIX_LEN :: nat
  RBDANCHORCOM_MAX_RETRY_COUNT :: nat
  RBDANCHORCOM_TPCH_BLE :: nat
  own_CanIdx :: "'e \<Rightarrow> nat"
  rbdAnchorCom_Fresh_GetTxFreshnessTruncData :: "nat \<Rightarrow> 'e \<Rightarrow> Std_ReturnType \<times> nat list \<times> nat \<times> 'e"
  rbdAnchorCom_Fresh_GetRxFreshness :: "nat \<Rightarrow> nat \<Rightarrow> 'e \<Rightarrow> Std_ReturnType \<times> nat list \<times> 'e"
  rbdAnchorComCsm_Encrypt :: "nat list \<Rightarrow> nat list \<Rightarrow> 'e \<Rightarrow> rbdAnchorCom_Result_et \<times> nat list \<times> 'e"
  rbdAnchorComCsm_Authenticate :: "nat list \<Rightarrow> 'e \<Rightarrow> rbdAnchorCom_Result_et \<times> nat list \<times> 'e"
  rbdAnchorComCsm_Verify :: "nat \<Rightarrow> nat list \<Rightarrow> nat list \<Rightarrow> 'e \<Rightarrow> rbdAnchorCom_Result_et \<times> 'e"
  rbdAnchorComCsm_Decrypt :: "nat \<Rightarrow> nat list \<Rightarrow> nat list \<Rightarrow> 'e \<Rightarrow> rbdAnchorCom_Result_et \<times> nat list \<times> 'e"
  anc_RxIndication :: "nat \<Rightarrow> nat \<Rightarrow> nat \<Rightarrow> nat list \<Rightarrow> 'e \<Rightarrow> 'e"
  PduR_rbdAnchorComTpTransmit :: "nat \<Rightarrow> PduInfoType \<Rightarrow> 'e \<Rightarrow> Std_ReturnType \<times> 'e"
  StbM_GetCurrentTime :: "'e \<Rightarrow> Std_ReturnType \<times> nat \<times> nat \<times> 'e"
  LostCommStatus_pass :: "nat \<Rightarrow> 'e \<Rightarrow> bool"
  R4Sec_IsCryptoFree :: "'e \<Rightarrow> bool"

type_synonym 'e AncW = "AnchorSt \<times> 'e"
type_synonym slot = "nat \<times> nat"

definition tx_at :: "AnchorSt \<Rightarrow> slot \<Rightarrow> rbdAnchorComTp_Queue_st" where
  "tx_at s p = rbdAnchorComTp_TxMsgQueue s (fst p) (snd p)"

definition set_tx :: "slot \<Rightarrow> (rbdAnchorComTp_Queue_st \<Rightarrow> rbdAnchorComTp_Queue_st) \<Rightarrow> AnchorSt \<Rightarrow> AnchorSt" where
  "set_tx p f s = s\<lparr>rbdAnchorComTp_TxMsgQueue := upd2 (fst p) (snd p) f (rbdAnchorComTp_TxMsgQueue s)\<rparr>"

definition rx_at :: "AnchorSt \<Rightarrow> slot \<Rightarrow> rbdAnchorComTp_RxQueue_st" where
  "rx_at s p = rbdAnchorComTp_RxMsgQueue s (fst p) (snd p)"

definition set_rx :: "slot \<Rightarrow> (rbdAnchorComTp_RxQueue_st \<Rightarrow> rbdAnchorComTp_RxQueue_st) \<Rightarrow> AnchorSt \<Rightarrow> AnchorSt" where
  "set_rx p f s = s\<lparr>rbdAnchorComTp_RxMsgQueue := upd2 (fst p) (snd p) f (rbdAnchorComTp_RxMsgQueue s)\<rparr>"

fun rx_buf :: "AncBufRef \<Rightarrow> AnchorSt \<Rightarrow> mem" where
  "rx_buf (ChRxBuffRef ch oe) s = cd_RxBuffer (rbdAnchorComTp_ChRxBuff s ch oe)"
| "rx_buf (ChRxTempRef ch oe) s = cd_RxBuffer (rbdAnchorComTp_ChRxTemp s ch oe)"

fun set_rx_buf :: "AncBufRef \<Rightarrow> mem \<Rightarrow> AnchorSt \<Rightarrow> AnchorSt" where
  "set_rx_buf (ChRxBuffRef ch oe) m s = s\<lparr>rbdAnchorComTp_ChRxBuff := upd2 ch oe (cd_RxBuffer_update (\<lambda>_. m)) (rbdAnchorComTp_ChRxBuff s)\<rparr>"
| "set_rx_buf (ChRxTempRef ch oe) m s = s\<lparr>rbdAnchorComTp_ChRxTemp := upd2 ch oe (cd_RxBuffer_update (\<lambda>_. m)) (rbdAnchorComTp_ChRxTemp s)\<rparr>"

text \<open>The positions \<^verbatim>\<open>rbdAnchorComTp_GetTxQueueHead\<close> and \<^verbatim>\<open>rbdAnchorComTp_GetRxQueueHead\<close> point to.\<close>

definition tx_head :: "nat \<Rightarrow> AnchorSt \<Rightarrow> slot option" where
  "tx_head oe s = (if rbdAnchorComTp_GetTxQueueHead oe s = None then None else Some (oe, rbdAnchorComTp_TxHead s oe))"

definition rx_head :: "nat \<Rightarrow> AnchorSt \<Rightarrow> slot option" where
  "rx_head oe s = (if rbdAnchorComTp_GetRxQueueHead oe s = None then None else Some (oe, rbdAnchorComTp_RxHead s oe))"

text \<open>The check for the null pointer every stage starts with.\<close>

definition not_null :: "(slot \<Rightarrow> 'e AncW \<Rightarrow> rbdAnchorCom_Result_et \<times> 'e AncW) \<Rightarrow> slot option \<Rightarrow> 'e AncW \<Rightarrow> rbdAnchorCom_Result_et \<times> 'e AncW" where
  "not_null f QueuePtr w =
     (case QueuePtr of
        None \<Rightarrow> (RBDANCHORCOM_FATAL_FAIL, rbdAnchorCom_ReportError 0 RBD_ANCHORCOM_API_TX_FORMAT RBD_ANCHORCOM_ERR_NULL (fst w), snd w)
      | Some p \<Rightarrow> f p w)"

lemma not_null_simps [simp]: "not_null f (Some p) w = f p w"
  by (simp add: not_null_def)

subsection \<open>Channel identifiers\<close>

definition rbdAnchorComTp_GetChanId :: "nat \<Rightarrow> bool \<Rightarrow> bool \<Rightarrow> bool \<Rightarrow> nat" where
  "rbdAnchorComTp_GetChanId CanIdx IsBroadcast IsBleChannel FromMaster =
     (let c0 = CanIdx AND 15;
          c1 = (if IsBroadcast then c0 OR 128 else c0);
          c2 = (if IsBleChannel then c1 OR 64 else c1 OR 16)
      in if FromMaster then c2 OR 32 else c2)"

definition rbdAnchorComTp_GetTxChanId :: "'e AncSys \<Rightarrow> AnchorCfg \<Rightarrow> rbdAnchorComTp_Queue_st \<Rightarrow> 'e \<Rightarrow> nat" where
  "rbdAnchorComTp_GetTxChanId S C q e =
     (let m = rbdAnchorComTp_MsgCfg C ! tq_MsgIdx q in
      case anc_build S of
        Build_CC26xx \<Rightarrow> rbdAnchorComTp_GetChanId (own_CanIdx S e) (cf_Broadcast m) True False
      | Build_NCJ29D5 \<Rightarrow> rbdAnchorComTp_GetChanId (own_CanIdx S e) (cf_Broadcast m) False False
      | Build_MASTER_MCU \<Rightarrow>
          rbdAnchorComTp_GetChanId (if cf_Broadcast m then 0 else u8 (int (tq_AnchorId q) + 1)) (cf_Broadcast m) (cf_Channel m = RBDANCHORCOM_TPCH_BLE S) True)"

definition rbdAnchorComTp_GetRxChanId :: "'e AncSys \<Rightarrow> AnchorCfg \<Rightarrow> rbdAnchorComTp_RxQueue_st \<Rightarrow> 'e \<Rightarrow> nat" where
  "rbdAnchorComTp_GetRxChanId S C q e =
     (let m = rbdAnchorComTp_MsgCfg C ! rq_MsgIdx q in
      case anc_build S of
        Build_CC26xx \<Rightarrow> rbdAnchorComTp_GetChanId (own_CanIdx S e) (cf_Broadcast m) True True
      | Build_NCJ29D5 \<Rightarrow> rbdAnchorComTp_GetChanId (if cf_Broadcast m then 0 else own_CanIdx S e) (cf_Broadcast m) False True
      | Build_MASTER_MCU \<Rightarrow>
          rbdAnchorComTp_GetChanId (u8 (int (rq_AnchorId q) + 1)) (cf_Broadcast m) (cf_Channel m = RBDANCHORCOM_TPCH_BLE S) False)"

subsection \<open>Transmission\<close>

text \<open>
  The part of \<^verbatim>\<open>rbdAnchorComTp_TxFormatForCrypto\<close> that fills the message buffer, and the padded length: header, padding, freshness.
\<close>

definition tx_padding :: "'e AncSys \<Rightarrow> nat \<Rightarrow> nat" where
  "tx_padding S PayloadLen =
     (let Padding = u8 (int (PayloadLen mod RBDANCHORCOM_AES_KEY_LEN S))
      in if Padding \<noteq> 0 then u8 (int (RBDANCHORCOM_AES_KEY_LEN S) - int Padding) else 0)"

definition tx_header :: "'e AncSys \<Rightarrow> AnchorCfg \<Rightarrow> rbdAnchorComTp_Queue_st \<Rightarrow> 'e \<Rightarrow> nat \<Rightarrow> mem \<Rightarrow> mem" where
  "tx_header S C q e PayloadLen b =
     (let m = rbdAnchorComTp_MsgCfg C ! tq_MsgIdx q;
          b1 = b(0 := rbdAnchorComTp_GetTxChanId S C q e, 1 := cf_PduId m);
          Padding = tx_padding S PayloadLen
      in if cf_EncDecFlag m
         then if Padding \<noteq> 0
              then let b2 = write_bytes (PayloadLen + RBDANCHORCOM_HEADER_LEN C) (replicate Padding 0) (b1(2 := 128)) in b2(2 := b2 2 OR (Padding AND 15))
              else b1(2 := 0)
         else b1)"

definition rbdAnchorComTp_TxFormatForCrypto :: "'e AncSys \<Rightarrow> AnchorCfg \<Rightarrow> slot option \<Rightarrow> 'e AncW \<Rightarrow> rbdAnchorCom_Result_et \<times> 'e AncW" where
  "rbdAnchorComTp_TxFormatForCrypto S C = not_null (\<lambda>p (s, e).
     let (r, FreshArray, TruncFresh, e1) = rbdAnchorCom_Fresh_GetTxFreshnessTruncData S (RBDANCHORCOM_FRESH_LEN S) e in
     if r = E_OK
     then let q = tx_at s p; i = tq_MsgIdx q; oe = tq_AnchorId q; m = rbdAnchorComTp_MsgCfg C ! i;
              Len = mi_Length (rbdAnchorComTp_MsgTxInfo s oe i);
              PayloadLen = (if cf_EncDecFlag m then u16 (int Len + int (tx_padding S Len)) else Len);
              b = write_bytes (PayloadLen + RBDANCHORCOM_HEADER_LEN C) FreshArray (tx_header S C q e1 Len (anc_TxBuffer s oe i));
              s1 = s\<lparr>anc_TxBuffer := upd2 oe i (\<lambda>_. b) (anc_TxBuffer s),
                     rbdAnchorComTp_MsgTxInfo := upd2 oe i (mi_Length_update (\<lambda>_. PayloadLen)) (rbdAnchorComTp_MsgTxInfo s)\<rparr>
          in (RBDANCHORCOM_OK,
              set_tx p (\<lambda>q. q\<lparr>tq_TruncFresh := TruncFresh,
                              tq_QueueState := (if cf_EncDecFlag m then RBDANCHORCOM_TX_ENC_READY else RBDANCHORCOM_TX_CMAC_READY)\<rparr>) s1, e1)
     else (RBDANCHORCOM_FAIL, s, e1))"

definition rbdAnchorComTp_TxStartEncryption :: "'e AncSys \<Rightarrow> AnchorCfg \<Rightarrow> slot option \<Rightarrow> 'e AncW \<Rightarrow> rbdAnchorCom_Result_et \<times> 'e AncW" where
  "rbdAnchorComTp_TxStartEncryption S C = not_null (\<lambda>p (s, e).
     let q = tx_at s p; i = tq_MsgIdx q; oe = tq_AnchorId q; b = anc_TxBuffer s oe i;
         PayloadLen = mi_Length (rbdAnchorComTp_MsgTxInfo s oe i);
         (r, bs, e1) = rbdAnchorComCsm_Encrypt S (rd b (RBDANCHORCOM_HEADER_LEN C) PayloadLen)
                         (rd b (RBDANCHORCOM_HEADER_LEN C + PayloadLen) (RBDANCHORCOM_FRESH_LEN S)) e
     in (r, s\<lparr>anc_TxBuffer := upd2 oe i (\<lambda>_. write_bytes (RBDANCHORCOM_HEADER_LEN C) bs b) (anc_TxBuffer s)\<rparr>, e1))"

definition rbdAnchorComTp_TxStartCmac :: "'e AncSys \<Rightarrow> AnchorCfg \<Rightarrow> slot option \<Rightarrow> 'e AncW \<Rightarrow> rbdAnchorCom_Result_et \<times> 'e AncW" where
  "rbdAnchorComTp_TxStartCmac S C = not_null (\<lambda>p (s, e).
     let q = tx_at s p; i = tq_MsgIdx q; oe = tq_AnchorId q;
         DataLen = u16 (int (mi_Length (rbdAnchorComTp_MsgTxInfo s oe i)) + int (RBDANCHORCOM_HEADER_LEN C) + int (RBDANCHORCOM_FRESH_LEN S));
         (r, bs, e1) = rbdAnchorComCsm_Authenticate S (rd (anc_TxBuffer s oe i) 0 DataLen) e
     in (r, set_tx p (\<lambda>q. q\<lparr>tq_CmacValue := write_bytes 0 bs (tq_CmacValue q)\<rparr>) s, e1))"

abbreviation tx_error :: "nat \<Rightarrow> slot \<Rightarrow> AnchorSt \<Rightarrow> AnchorSt" where
  "tx_error n p s \<equiv> set_tx p (\<lambda>q. q\<lparr>tq_ErrCounter := tq_ErrCounter q + n\<rparr>) s"

abbreviation tx_state :: "AncQueueState \<Rightarrow> slot \<Rightarrow> AnchorSt \<Rightarrow> AnchorSt" where
  "tx_state st p s \<equiv> set_tx p (\<lambda>q. q\<lparr>tq_QueueState := st\<rparr>) s"

definition tx_encrypted :: "'e AncSys \<Rightarrow> slot \<Rightarrow> rbdAnchorCom_Result_et \<Rightarrow> AnchorSt \<Rightarrow> AnchorSt" where
  "tx_encrypted S p r s =
     (case r of
        RBDANCHORCOM_OK \<Rightarrow> tx_state RBDANCHORCOM_TX_CMAC_READY p s
      | RBDANCHORCOM_FAIL \<Rightarrow> tx_error 1 p s
      | RBDANCHORCOM_PENDING \<Rightarrow> tx_state RBDANCHORCOM_TX_ENC_RUNNING p s
      | RBDANCHORCOM_FATAL_FAIL \<Rightarrow> tx_error (RBDANCHORCOM_MAX_RETRY_COUNT S) p s)"

definition rbdAnchorComTp_TxPart1 :: "'e AncSys \<Rightarrow> AnchorCfg \<Rightarrow> slot option \<Rightarrow> 'e AncW \<Rightarrow> rbdAnchorCom_Result_et \<times> 'e AncW" where
  "rbdAnchorComTp_TxPart1 S C = not_null (\<lambda>p (s, e).
     if tq_QueueState (tx_at s p) = RBDANCHORCOM_TX_QUEUED
     then let (r, s1, e1) = rbdAnchorComTp_TxFormatForCrypto S C (Some p) (s, e);
              s2 = (if r \<noteq> RBDANCHORCOM_OK then tx_error 1 p s1 else s1)
          in if tq_QueueState (tx_at s2 p) = RBDANCHORCOM_TX_ENC_READY
             then let (r, s3, e3) = rbdAnchorComTp_TxStartEncryption S C (Some p) (s2, e1) in (r, tx_encrypted S p r s3, e3)
             else (r, s2, e1)
     else (RBDANCHORCOM_OK, s, e))"

definition tx_authenticated :: "'e AncSys \<Rightarrow> AnchorCfg \<Rightarrow> slot \<Rightarrow> rbdAnchorCom_Result_et \<Rightarrow> AnchorSt \<Rightarrow> AnchorSt" where
  "tx_authenticated S C p r s =
     (case r of
        RBDANCHORCOM_OK \<Rightarrow>
          let q = tx_at s p; i = tq_MsgIdx q; oe = tq_AnchorId q;
              CmacOffset = u16 (int (mi_Length (rbdAnchorComTp_MsgTxInfo s oe i)) + int (RBDANCHORCOM_HEADER_LEN C));
              b = write_bytes (CmacOffset + 1) (rd (tq_CmacValue q) 0 (RBDANCHORCOM_CMAC_LEN S)) ((anc_TxBuffer s oe i)(CmacOffset := tq_TruncFresh q))
          in tx_state RBDANCHORCOM_TX_TRANS_READY p
               (s\<lparr>anc_TxBuffer := upd2 oe i (\<lambda>_. b) (anc_TxBuffer s),
                   rbdAnchorComTp_MsgTxInfo :=
                     upd2 oe i (\<lambda>x. x\<lparr>mi_Length := u16 (int (mi_Length x) + int (RBDANCHORCOM_APPEND_LEN S) + int (RBDANCHORCOM_PREFIX_LEN S))\<rparr>)
                       (rbdAnchorComTp_MsgTxInfo s)\<rparr>)
      | RBDANCHORCOM_PENDING \<Rightarrow> tx_state RBDANCHORCOM_TX_CMAC_RUNNING p s
      | RBDANCHORCOM_FAIL \<Rightarrow> tx_error 1 p s
      | RBDANCHORCOM_FATAL_FAIL \<Rightarrow> tx_error (RBDANCHORCOM_MAX_RETRY_COUNT S) p s)"

definition rbdAnchorComTp_TxPart2 :: "'e AncSys \<Rightarrow> AnchorCfg \<Rightarrow> slot option \<Rightarrow> 'e AncW \<Rightarrow> rbdAnchorCom_Result_et \<times> 'e AncW" where
  "rbdAnchorComTp_TxPart2 S C = not_null (\<lambda>p (s, e).
     if tq_QueueState (tx_at s p) = RBDANCHORCOM_TX_CMAC_READY
     then let (r, s1, e1) = rbdAnchorComTp_TxStartCmac S C (Some p) (s, e) in (r, tx_authenticated S C p r s1, e1)
     else (RBDANCHORCOM_OK, s, e))"

definition tx_passed_down :: "'e AncSys \<Rightarrow> slot \<Rightarrow> rbdAnchorCom_Result_et \<Rightarrow> AnchorSt \<Rightarrow> AnchorSt" where
  "tx_passed_down S p r s =
     (case r of
        RBDANCHORCOM_OK \<Rightarrow> tx_state RBDANCHORCOM_TX_TRANS_RUNNING p s
      | RBDANCHORCOM_FAIL \<Rightarrow> tx_error 1 p s
      | _ \<Rightarrow> tx_error (RBDANCHORCOM_MAX_RETRY_COUNT S) p s)"

definition rbdAnchorComTp_TxPart3 :: "'e AncSys \<Rightarrow> AnchorCfg \<Rightarrow> slot option \<Rightarrow> 'e AncW \<Rightarrow> rbdAnchorCom_Result_et \<times> 'e AncW" where
  "rbdAnchorComTp_TxPart3 S C = not_null (\<lambda>p (s, e).
     if tq_QueueState (tx_at s p) = RBDANCHORCOM_TX_TRANS_READY
     then let s0 = tx_state RBDANCHORCOM_TX_TRANS_RUNNING p s;
              (r, s1, e1) = rbdAnchorComTp_TxStartTx C (PduR_rbdAnchorComTpTransmit S) (Some (tx_at s0 p)) (s0, e)
          in (r, tx_passed_down S p r s1, e1)
     else (RBDANCHORCOM_OK, s, e))"

definition rbdAnchorCom_NodeOkToTx :: "'e AncSys \<Rightarrow> AnchorCfg \<Rightarrow> 'e \<Rightarrow> nat \<times> 'e" where
  "rbdAnchorCom_NodeOkToTx S C e =
     (case anc_build S of
        Build_MASTER_MCU \<Rightarrow> (foldl (\<lambda>result nodeIdx. if LostCommStatus_pass S nodeIdx e then u32 (int (result OR push_bit nodeIdx 1)) else result) 0 [0..<RBD_PK_MAX_NODES C], e)
      | _ \<Rightarrow> let (r, userDataLength, userByte0, e1) = StbM_GetCurrentTime S e
             in (if r = E_OK \<and> 0 < userDataLength \<and> userByte0 \<noteq> 0 then 4294967295 else 0, e1))"

text \<open>The body of the loop of \<^verbatim>\<open>rbdAnchorComTp_CyclicTx\<close> for a peer that may be sent to.\<close>

definition tx_drop :: "'e AncSys \<Rightarrow> slot \<Rightarrow> AnchorSt \<Rightarrow> AnchorSt" where
  "tx_drop S p s =
     (let q = tx_at s p in
      if RBDANCHORCOM_MAX_RETRY_COUNT S \<le> tq_ErrCounter q
      then let s1 = s\<lparr>rbdAnchorComTp_MsgTxInfo := upd2 (tq_AnchorId q) (tq_MsgIdx q) (mi_BufState_update (\<lambda>_. RBDANCHORCOM_TPSTATE_IDLE)) (rbdAnchorComTp_MsgTxInfo s),
                      rbdAnchorComTp_ChTxInfo := upd2 (tq_Channel q) (tq_AnchorId q) (ct_TxInProgress_update (\<lambda>_. False)) (rbdAnchorComTp_ChTxInfo s)\<rparr>
           in snd (rbdAnchorComTp_RemoveTxQueueHead (tq_AnchorId q) s1)
      else s)"

definition tx_finish :: "nat \<Rightarrow> AnchorSt \<Rightarrow> slot option \<times> AnchorSt" where
  "tx_finish oe s =
     (case tx_head oe s of
        None \<Rightarrow> (None, s)
      | Some p \<Rightarrow>
          if tq_QueueState (tx_at s p) = RBDANCHORCOM_TX_TRANS_DONE
          then let s1 = snd (rbdAnchorComTp_FinishData (Some (tx_at s p)) s) in (tx_head oe s1, s1)
          else if tq_QueueState (tx_at s p) = RBDANCHORCOM_TX_TRANS_RUNNING then (Some p, tx_error 1 p s)
          else (Some p, s))"

definition tx_peer :: "'e AncSys \<Rightarrow> AnchorCfg \<Rightarrow> nat \<Rightarrow> 'e AncW \<Rightarrow> 'e AncW" where
  "tx_peer S C oe = (\<lambda>(s, e).
     case tx_finish oe s of
       (None, s1) \<Rightarrow> (s1, e)
     | (Some p, s1) \<Rightarrow>
         let (_, w1) = rbdAnchorComTp_TxPart1 S C (Some p) (s1, e);
             (_, w2) = rbdAnchorComTp_TxPart2 S C (Some p) w1;
             (_, s3, e3) = rbdAnchorComTp_TxPart3 S C (Some p) w2
         in (tx_drop S p s3, e3))"

abbreviation crypto_free :: "'e AncSys \<Rightarrow> 'e \<Rightarrow> bool" where
  "crypto_free S e \<equiv> anc_build S = Build_NCJ29D5 \<longrightarrow> R4Sec_IsCryptoFree S e"

definition rbdAnchorComTp_CyclicTx :: "'e AncSys \<Rightarrow> AnchorCfg \<Rightarrow> 'e AncW \<Rightarrow> 'e AncW" where
  "rbdAnchorComTp_CyclicTx S C = (\<lambda>(s, e).
     let (TransmitAllowed, e1) = rbdAnchorCom_NodeOkToTx S C e in
     if crypto_free S e1
     then fold (\<lambda>oe w. if TransmitAllowed AND u32 (int (push_bit oe 1)) \<noteq> 0 \<or> RBD_PK_MAX_NODES C \<le> oe then tx_peer S C oe w else w)
            [0..<RBDANCHORCOM_TP_NUM_LL_TX C] (s, e1)
     else (s, e1))"

definition rbdAnchorCom_CyclicTx :: "'e AncSys \<Rightarrow> AnchorCfg \<Rightarrow> 'e AncW \<Rightarrow> 'e AncW" where
  "rbdAnchorCom_CyclicTx S C w = rbdAnchorComTp_CyclicTx S C w"

definition rbdAnchorCom_Init :: "AnchorCfg \<Rightarrow> AnchorSt \<Rightarrow> AnchorSt" where
  "rbdAnchorCom_Init C s = rbdAnchorComTp_Init C s"

subsection \<open>Reception\<close>

definition rbdAnchorComTp_RxFormatForCmac :: "'e AncSys \<Rightarrow> AnchorCfg \<Rightarrow> slot option \<Rightarrow> 'e AncW \<Rightarrow> rbdAnchorCom_Result_et \<times> 'e AncW" where
  "rbdAnchorComTp_RxFormatForCmac S C = not_null (\<lambda>p (s, e).
     let q = rx_at s p; b = rx_buf (rq_BufferPtr q) s; n = rq_DataLen q;
         MsgIdx = rbdAnchorComTp_FindIdx C (b (RBDANCHORCOM_CHANID_LEN C))
     in if MsgIdx < length (rbdAnchorComTp_MsgCfg C)
        then let q1 = q\<lparr>rq_MsgIdx := u8 (int MsgIdx)\<rparr>;
                 q2 = (if 4 < n
                       then q1\<lparr>rq_TruncFresh := b (n - RBDANCHORCOM_APPEND_LEN S),
                               rq_CmacValue := write_bytes 0 (rd b (n - RBDANCHORCOM_CMAC_LEN S) (RBDANCHORCOM_CMAC_LEN S)) (rq_CmacValue q1)\<rparr>
                       else q1);
                 (r, FreshArray, e1) = rbdAnchorCom_Fresh_GetRxFreshness S (rq_TruncFresh q2) (RBDANCHORCOM_FRESH_LEN S) e
             in if r = E_OK
                then let b1 = b(0 := rbdAnchorComTp_GetRxChanId S C q2 e1);
                         b2 = write_bytes (n - RBDANCHORCOM_APPEND_LEN S) FreshArray b1
                     in (RBDANCHORCOM_OK,
                         set_rx p (\<lambda>_. q2\<lparr>rq_DataLen := u16 (int n + int (RBDANCHORCOM_APPEND_LEN S)), rq_QueueState := RBDANCHORCOM_RX_CMAC_READY\<rparr>)
                           (set_rx_buf (rq_BufferPtr q) b2 s), e1)
                else (RBDANCHORCOM_FAIL, set_rx p (\<lambda>_. q2) s, e1)
        else (RBDANCHORCOM_FATAL_FAIL, s, e))"

definition rbdAnchorComTp_RxStartCmac :: "'e AncSys \<Rightarrow> slot option \<Rightarrow> 'e AncW \<Rightarrow> rbdAnchorCom_Result_et \<times> 'e AncW" where
  "rbdAnchorComTp_RxStartCmac S = not_null (\<lambda>p (s, e).
     let q = rx_at s p;
         (r, e1) = rbdAnchorComCsm_Verify S (rq_AnchorId q) (rd (rx_buf (rq_BufferPtr q) s) 0 (rq_DataLen q)) (rd (rq_CmacValue q) 0 (RBDANCHORCOM_CMAC_LEN S)) e
     in (r, s, e1))"

definition rbdAnchorComTp_RxStartDecryption :: "'e AncSys \<Rightarrow> AnchorCfg \<Rightarrow> slot option \<Rightarrow> 'e AncW \<Rightarrow> rbdAnchorCom_Result_et \<times> 'e AncW" where
  "rbdAnchorComTp_RxStartDecryption S C = not_null (\<lambda>p (s, e).
     let q = rx_at s p; b = rx_buf (rq_BufferPtr q) s;
         PayloadLen = u16 (int (rq_DataLen q) - int (RBDANCHORCOM_HEADER_LEN C));
         (r, bs, e1) = rbdAnchorComCsm_Decrypt S (rq_AnchorId q) (rd b (RBDANCHORCOM_HEADER_LEN C) PayloadLen)
                         (rd b (RBDANCHORCOM_HEADER_LEN C + PayloadLen) (RBDANCHORCOM_FRESH_LEN S)) e
     in (r, set_rx_buf (rq_BufferPtr q) (write_bytes (RBDANCHORCOM_HEADER_LEN C) bs b) s, e1))"

definition rbdAnchorComTp_RxDistributeMsg :: "'e AncSys \<Rightarrow> AnchorCfg \<Rightarrow> slot option \<Rightarrow> 'e AncW \<Rightarrow> rbdAnchorCom_Result_et \<times> 'e AncW" where
  "rbdAnchorComTp_RxDistributeMsg S C = not_null (\<lambda>p (s, e).
     let q = rx_at s p; m = rbdAnchorComTp_MsgCfg C ! rq_MsgIdx q in
     if cf_HasRxIndication m
     then let RxPayloadLen = u16 (int (rq_DataLen q) - int (RBDANCHORCOM_HEADER_LEN C))
          in (RBDANCHORCOM_OK, s,
              anc_RxIndication S (rq_MsgIdx q) (rq_AnchorId q) (cf_PduId m) (rd (rx_buf (rq_BufferPtr q) s) (RBDANCHORCOM_HEADER_LEN C) RxPayloadLen) e)
     else (RBDANCHORCOM_FATAL_FAIL, s, e))"

abbreviation rx_error :: "nat \<Rightarrow> slot \<Rightarrow> AnchorSt \<Rightarrow> AnchorSt" where
  "rx_error n p s \<equiv> set_rx p (\<lambda>q. q\<lparr>rq_ErrCounter := rq_ErrCounter q + n\<rparr>) s"

abbreviation rx_state :: "AncQueueState \<Rightarrow> slot \<Rightarrow> AnchorSt \<Rightarrow> AnchorSt" where
  "rx_state st p s \<equiv> set_rx p (\<lambda>q. q\<lparr>rq_QueueState := st\<rparr>) s"

text \<open>The two halves of \<^verbatim>\<open>rbdAnchorComTp_RxPart1\<close>: formatting of a new message, and what follows from the result of the verification.\<close>

definition rx_prepare :: "'e AncSys \<Rightarrow> AnchorCfg \<Rightarrow> slot \<Rightarrow> 'e AncW \<Rightarrow> rbdAnchorCom_Result_et \<times> 'e AncW" where
  "rx_prepare S C p = (\<lambda>(s, e).
     if rq_QueueState (rx_at s p) = RBDANCHORCOM_RX_QUEUED
     then let (r, s1, e1) = rbdAnchorComTp_RxFormatForCmac S C (Some p) (s, e)
          in (r, if r \<noteq> RBDANCHORCOM_OK then rx_error 1 p s1 else s1, e1)
     else (RBDANCHORCOM_FATAL_FAIL, s, e))"

definition rx_verdict :: "'e AncSys \<Rightarrow> AnchorCfg \<Rightarrow> slot \<Rightarrow> rbdAnchorCom_Result_et \<Rightarrow> AnchorSt \<Rightarrow> AnchorSt" where
  "rx_verdict S C p r s =
     (case r of
        RBDANCHORCOM_OK \<Rightarrow>
          set_rx p (\<lambda>q. q\<lparr>rq_DataLen := u16 (int (rq_DataLen q) - int (RBDANCHORCOM_FRESH_LEN S)),
                          rq_QueueState := (if cf_EncDecFlag (rbdAnchorComTp_MsgCfg C ! rq_MsgIdx q)
                                            then RBDANCHORCOM_RX_DEC_READY else RBDANCHORCOM_RX_PROCESS_READY)\<rparr>) s
      | RBDANCHORCOM_PENDING \<Rightarrow> rx_state RBDANCHORCOM_RX_CMAC_RUNNING p s
      | RBDANCHORCOM_FAIL \<Rightarrow> rx_error 1 p s
      | RBDANCHORCOM_FATAL_FAIL \<Rightarrow> rx_error (RBDANCHORCOM_MAX_RETRY_COUNT S) p s)"

definition rbdAnchorComTp_RxPart1 :: "'e AncSys \<Rightarrow> AnchorCfg \<Rightarrow> slot option \<Rightarrow> 'e AncW \<Rightarrow> rbdAnchorCom_Result_et \<times> 'e AncW" where
  "rbdAnchorComTp_RxPart1 S C = not_null (\<lambda>p w.
     let (ret, s2, e2) = rx_prepare S C p w
     in if rq_QueueState (rx_at s2 p) = RBDANCHORCOM_RX_CMAC_READY
        then let (r, s3, e3) = rbdAnchorComTp_RxStartCmac S (Some p) (s2, e2) in (r, rx_verdict S C p r s3, e3)
        else (ret, s2, e2))"

definition rx_decrypted :: "'e AncSys \<Rightarrow> slot \<Rightarrow> rbdAnchorCom_Result_et \<Rightarrow> AnchorSt \<Rightarrow> AnchorSt" where
  "rx_decrypted S p r s =
     (case r of
        RBDANCHORCOM_OK \<Rightarrow>
          set_rx p (\<lambda>q. q\<lparr>rq_DataLen := u16 (int (rq_DataLen q) - int (rx_buf (rq_BufferPtr q) s 2 AND 15)),
                          rq_QueueState := RBDANCHORCOM_RX_PROCESS_READY\<rparr>) s
      | RBDANCHORCOM_PENDING \<Rightarrow> rx_state RBDANCHORCOM_RX_DEC_RUNNING p s
      | RBDANCHORCOM_FAIL \<Rightarrow> rx_error 1 p s
      | RBDANCHORCOM_FATAL_FAIL \<Rightarrow> rx_error (RBDANCHORCOM_MAX_RETRY_COUNT S) p s)"

definition rbdAnchorComTp_RxPart2 :: "'e AncSys \<Rightarrow> AnchorCfg \<Rightarrow> slot option \<Rightarrow> 'e AncW \<Rightarrow> rbdAnchorCom_Result_et \<times> 'e AncW" where
  "rbdAnchorComTp_RxPart2 S C = not_null (\<lambda>p (s, e).
     if rq_QueueState (rx_at s p) = RBDANCHORCOM_RX_DEC_READY
     then let (r, s1, e1) = rbdAnchorComTp_RxStartDecryption S C (Some p) (s, e) in (r, rx_decrypted S p r s1, e1)
     else (RBDANCHORCOM_OK, s, e))"

definition rbdAnchorComTp_RxPart3 :: "'e AncSys \<Rightarrow> AnchorCfg \<Rightarrow> slot option \<Rightarrow> 'e AncW \<Rightarrow> rbdAnchorCom_Result_et \<times> 'e AncW" where
  "rbdAnchorComTp_RxPart3 S C = not_null (\<lambda>p (s, e).
     if rq_QueueState (rx_at s p) = RBDANCHORCOM_RX_PROCESS_READY
     then let (r, s1, e1) = rbdAnchorComTp_RxDistributeMsg S C (Some p) (s, e)
          in (r, case r of
                   RBDANCHORCOM_OK \<Rightarrow> rx_state RBDANCHORCOM_RX_PROCESS_DONE p s1
                 | RBDANCHORCOM_FAIL \<Rightarrow> rx_error 1 p s1
                 | _ \<Rightarrow> rx_error (RBDANCHORCOM_MAX_RETRY_COUNT S) p s1, e1)
     else (RBDANCHORCOM_OK, s, e))"

text \<open>The body of the loop of \<^verbatim>\<open>rbdAnchorCom_CyclicRx\<close>.\<close>

definition rx_drop :: "'e AncSys \<Rightarrow> slot \<Rightarrow> AnchorSt \<Rightarrow> AnchorSt" where
  "rx_drop S p s =
     (let q = rx_at s p in
      if RBDANCHORCOM_MAX_RETRY_COUNT S \<le> rq_ErrCounter q \<or> rq_QueueState q = RBDANCHORCOM_RX_PROCESS_DONE
      then let done = upd2 (rq_Channel q) (rq_AnchorId q) (cd_NeedVerify_update (\<lambda>_. False));
               s1 = (if rq_IsTempBuf q then s\<lparr>rbdAnchorComTp_ChRxTemp := done (rbdAnchorComTp_ChRxTemp s)\<rparr>
                     else s\<lparr>rbdAnchorComTp_ChRxBuff := done (rbdAnchorComTp_ChRxBuff s)\<rparr>)
           in snd (rbdAnchorComTp_RemoveRxQueueHead (rq_AnchorId q) s1)
      else s)"

definition rx_peer :: "'e AncSys \<Rightarrow> AnchorCfg \<Rightarrow> nat \<Rightarrow> 'e AncW \<Rightarrow> 'e AncW" where
  "rx_peer S C oe = (\<lambda>(s, e).
     case rx_head oe s of
       None \<Rightarrow> (s, e)
     | Some p \<Rightarrow>
         let (_, w1) = rbdAnchorComTp_RxPart1 S C (Some p) (s, e);
             (_, w2) = rbdAnchorComTp_RxPart2 S C (Some p) w1;
             (_, s3, e3) = rbdAnchorComTp_RxPart3 S C (Some p) w2
         in (rx_drop S p s3, e3))"

definition rbdAnchorCom_CyclicRx :: "'e AncSys \<Rightarrow> AnchorCfg \<Rightarrow> 'e AncW \<Rightarrow> 'e AncW" where
  "rbdAnchorCom_CyclicRx S C = (\<lambda>(s, e).
     if crypto_free S e then fold (rx_peer S C) [0..<RBDANCHORCOM_TP_NUM_LL_RX C] (s, e) else (s, e))"

end
