(* ===== verification/AnchorCyclic.thy ===== *)
theory AnchorCyclic
  imports AnchorSecure
begin

unbundle bit_operations_syntax

text \<open>
  What the cyclic processing promises: the identifiers that tie a message to its sender, that only verified messages are distributed, that
  a message leaves its queue, and that a protected message arrives as it was sent.
\<close>

subsection \<open>Channel identifiers\<close>

lemma chanid_table:
  "list_all (\<lambda>c. list_all (\<lambda>b. list_all (\<lambda>l. list_all (\<lambda>m.
     rbdAnchorComTp_GetChanId c b l m = c + of_bool b * 128 + (if l then 64 else 16) + of_bool m * 32) [False, True]) [False, True]) [False, True]) [0..<16]"
  by code_simp

lemma chanid_sum:
  assumes "c < 16"
  shows "rbdAnchorComTp_GetChanId c b l m = c + of_bool b * 128 + (if l then 64 else 16) + of_bool m * 32"
proof -
  have "c \<in> set [0..<16]" "b \<in> set [False, True]" "l \<in> set [False, True]" "m \<in> set [False, True]" using assms by auto
  then show ?thesis using chanid_table unfolding list_all_iff by blast
qed

text \<open>
  The identifier put in front of a message before it is authenticated determines the node, whether the message is a broadcast, the
  kind of radio and the direction: no message can be replayed under another of these.
\<close>

theorem anchor_channel_ids:
  assumes "c < 16" "c' < 16"
  shows "rbdAnchorComTp_GetChanId c b l m = rbdAnchorComTp_GetChanId c' b' l' m' \<longleftrightarrow> c = c' \<and> b = b' \<and> l = l' \<and> m = m'"
  unfolding chanid_sum [OF assms(1)] chanid_sum [OF assms(2)] using assms
  by (cases b; cases l; cases m; cases b'; cases l'; cases m') auto

theorem anchor_channel_ids_witness:
  "rbdAnchorComTp_GetChanId 3 False True True \<noteq> rbdAnchorComTp_GetChanId 4 False True True"
  using anchor_channel_ids [of 3 4 False True True False True True] by simp

text \<open>
  C11. Master and CC2642 anchor compute the same identifier for every message from the anchor, and for every message from the
  master that is no broadcast. They do not agree on a broadcast of the master: the master uses node 0 for it, as the receiver of the
  ultra-wideband build does, but the receiver of the CC2642 build its own number.
\<close>

theorem anchor_broadcast_id_mismatch:
  assumes "anc_build M = Build_MASTER_MCU" "anc_build A = Build_CC26xx" "own_CanIdx A f < 16" "k + 1 = own_CanIdx A f"
    and "cf_Channel mm = RBDANCHORCOM_TPCH_BLE M" "cf_Broadcast mm = cf_Broadcast ma"
    and "rbdAnchorComTp_MsgCfg CM ! i = mm" "rbdAnchorComTp_MsgCfg CA ! j = ma"
    and "tq_MsgIdx q = i" "tq_AnchorId q = k" "rq_MsgIdx r = j" "tq_MsgIdx q' = j" "rq_MsgIdx r' = i" "rq_AnchorId r' = k"
  shows "(rbdAnchorComTp_GetTxChanId M CM q e = rbdAnchorComTp_GetRxChanId A CA r f \<longleftrightarrow> \<not> cf_Broadcast mm) \<and>
    rbdAnchorComTp_GetTxChanId A CA q' f = rbdAnchorComTp_GetRxChanId M CM r' e"
proof -
  have u: "u8 (int k + 1) = own_CanIdx A f" using assms(3,4) by (simp add: u8_def flip: assms(4))
  show ?thesis using assms u
    by (auto simp: rbdAnchorComTp_GetTxChanId_def rbdAnchorComTp_GetRxChanId_def Let_def chanid_sum)
qed

subsection \<open>Slots\<close>

lemma slot_simps [simp]:
  "tx_at (set_tx p f s) p = f (tx_at s p)" "rx_at (set_rx p g s) p = g (rx_at s p)" "rx_at (set_tx p' f s) p = rx_at s p"
  "tx_at (s\<lparr>anc_TxBuffer := x\<rparr>) p = tx_at s p" "tx_at (s\<lparr>rbdAnchorComTp_MsgTxInfo := y\<rparr>) p = tx_at s p" "tx_at (s\<lparr>rbdAnchorComTp_ChTxInfo := z\<rparr>) p = tx_at s p"
  by (simp_all add: tx_at_def set_tx_def rx_at_def set_rx_def)

lemma set_tx_fields [simp]:
  "anc_TxBuffer (set_tx p f s) = anc_TxBuffer s" "rbdAnchorComTp_MsgTxInfo (set_tx p f s) = rbdAnchorComTp_MsgTxInfo s"
  "rbdAnchorComTp_TxHead (set_tx p f s) = rbdAnchorComTp_TxHead s" "rbdAnchorComTp_TxTail (set_tx p f s) = rbdAnchorComTp_TxTail s"
  "rbdAnchorComTp_RxMsgQueue (set_tx p f s) = rbdAnchorComTp_RxMsgQueue s"
  by (simp_all add: set_tx_def)

lemma set_rx_fields [simp]:
  "rx_buf r (set_rx p f s) = rx_buf r s" "rbdAnchorComTp_RxHead (set_rx p f s) = rbdAnchorComTp_RxHead s" "rbdAnchorComTp_RxTail (set_rx p f s) = rbdAnchorComTp_RxTail s"
  by (cases r; simp add: set_rx_def)+

lemma set_rx_buf_fields [simp]:
  "rx_buf r (set_rx_buf r m s) = m" "rx_at (set_rx_buf r m s) p = rx_at s p" "rbdAnchorComTp_RxMsgQueue (set_rx_buf r m s) = rbdAnchorComTp_RxMsgQueue s"
  "rbdAnchorComTp_RxHead (set_rx_buf r m s) = rbdAnchorComTp_RxHead s" "rbdAnchorComTp_RxTail (set_rx_buf r m s) = rbdAnchorComTp_RxTail s"
  by (cases r; simp add: rx_at_def)+

subsection \<open>An encryption that fails once\<close>


subsection \<open>A received message leaves the queue\<close>

definition head_waiting :: "rbdAnchorComTp_RxQueue_st \<Rightarrow> bool" where
  "head_waiting q \<longleftrightarrow> rq_QueueState q \<in> {RBDANCHORCOM_RX_QUEUED, RBDANCHORCOM_RX_CMAC_READY, RBDANCHORCOM_RX_DEC_READY, RBDANCHORCOM_RX_PROCESS_READY}"

definition never_pending :: "'e AncSys \<Rightarrow> bool" where
  "never_pending S \<longleftrightarrow> (\<forall>a d c e. fst (rbdAnchorComCsm_Verify S a d c e) \<noteq> RBDANCHORCOM_PENDING) \<and>
     (\<forall>a d f e. fst (rbdAnchorComCsm_Decrypt S a d f e) \<noteq> RBDANCHORCOM_PENDING)"

text \<open>A stage works on its own slot and keeps the ends of the queue and the owner of the entry.\<close>

definition entry_frame :: "slot \<Rightarrow> AnchorSt \<Rightarrow> AnchorSt \<Rightarrow> bool" where
  "entry_frame p s s' \<longleftrightarrow> rbdAnchorComTp_RxHead s' = rbdAnchorComTp_RxHead s \<and> rbdAnchorComTp_RxTail s' = rbdAnchorComTp_RxTail s \<and>
     rq_AnchorId (rx_at s' p) = rq_AnchorId (rx_at s p) \<and> (\<forall>p'. p' \<noteq> p \<longrightarrow> rx_at s' p' = rx_at s p')"

lemma rx_at_other [simp]: "p' \<noteq> p \<Longrightarrow> rx_at (set_rx p f s) p' = rx_at s p'"
  by (auto simp: rx_at_def set_rx_def prod_eq_iff)

lemma entry_frame_refl: "entry_frame p s s"
  by (simp add: entry_frame_def)

lemma entry_frame_trans: "entry_frame p s s1 \<Longrightarrow> entry_frame p s1 s2 \<Longrightarrow> entry_frame p s s2"
  by (simp add: entry_frame_def)

lemma entry_frame_set: "(\<And>q. rq_AnchorId (f q) = rq_AnchorId q) \<Longrightarrow> entry_frame p s s' \<Longrightarrow> entry_frame p s (set_rx p f s')"
  by (simp add: entry_frame_def)

lemma entry_frame_buf: "entry_frame p s (set_rx_buf r m s)"
  by (simp add: entry_frame_def)

lemma rx_format_effect:
  assumes "rbdAnchorComTp_RxFormatForCmac S C (Some p) (s, e) = (r, s1, e1)"
  shows "entry_frame p s s1 \<and> rq_ErrCounter (rx_at s1 p) = rq_ErrCounter (rx_at s p) \<and>
    rq_QueueState (rx_at s1 p) = (if r = RBDANCHORCOM_OK then RBDANCHORCOM_RX_CMAC_READY else rq_QueueState (rx_at s p))"
proof -
  have "entry_frame p s (set_rx p (\<lambda>_. q) (set_rx_buf b m s))" "entry_frame p s (set_rx p (\<lambda>_. q) s)" if "rq_AnchorId q = rq_AnchorId (rx_at s p)" for q b m
    using that by (simp_all add: entry_frame_def)
  then show ?thesis using assms
    by (simp add: rbdAnchorComTp_RxFormatForCmac_def Let_def split_beta entry_frame_refl split: if_split_asm) auto
qed

lemma rx_cmac_effect: "rbdAnchorComTp_RxStartCmac S (Some p) (s, e) = (r, s1, e1) \<Longrightarrow>
    s1 = s \<and> (\<exists>a d c. rbdAnchorComCsm_Verify S a d c e = (r, e1))"
  by (auto simp: rbdAnchorComTp_RxStartCmac_def Let_def split_beta prod_eq_iff)

lemma rx_decrypt_effect: "rbdAnchorComTp_RxStartDecryption S C (Some p) (s, e) = (r, s1, e1) \<Longrightarrow>
    entry_frame p s s1 \<and> rx_at s1 p = rx_at s p \<and> (\<exists>a d f bs. rbdAnchorComCsm_Decrypt S a d f e = (r, bs, e1))"
  by (auto simp: rbdAnchorComTp_RxStartDecryption_def Let_def split_beta entry_frame_buf prod_eq_iff)

text \<open>The three stages of one cycle.\<close>

definition rx_stages :: "'e AncSys \<Rightarrow> AnchorCfg \<Rightarrow> slot \<Rightarrow> 'e AncW \<Rightarrow> 'e AncW" where
  "rx_stages S C p w = snd (rbdAnchorComTp_RxPart3 S C (Some p) (snd (rbdAnchorComTp_RxPart2 S C (Some p) (snd (rbdAnchorComTp_RxPart1 S C (Some p) w)))))"

lemma rx_peer_stages:
  "rx_peer S C oe (s, e) = (case rx_head oe s of None \<Rightarrow> (s, e) | Some p \<Rightarrow> (rx_drop S p (fst (rx_stages S C p (s, e))), snd (rx_stages S C p (s, e))))"
  by (simp add: rx_peer_def rx_stages_def split_beta Let_def split: option.split)

lemma rx_prepare_effect:
  assumes "rx_prepare S C p (s, e) = (r, s', e')"
  shows "entry_frame p s s' \<and>
    (if rq_QueueState (rx_at s p) = RBDANCHORCOM_RX_QUEUED
     then rq_ErrCounter (rx_at s' p) = rq_ErrCounter (rx_at s p) \<and> rq_QueueState (rx_at s' p) = RBDANCHORCOM_RX_CMAC_READY \<or>
       rq_ErrCounter (rx_at s' p) = rq_ErrCounter (rx_at s p) + 1 \<and> rq_QueueState (rx_at s' p) = RBDANCHORCOM_RX_QUEUED
     else s' = s)"
proof -
  obtain rf sf ef where f: "rbdAnchorComTp_RxFormatForCmac S C (Some p) (s, e) = (rf, sf, ef)" by (cases "rbdAnchorComTp_RxFormatForCmac S C (Some p) (s, e)")
  show ?thesis using rx_format_effect [OF f] assms by (auto simp: rx_prepare_def f entry_frame_refl entry_frame_set split: if_split_asm)
qed

lemma rx_part1_effect:
  assumes "rbdAnchorComTp_RxPart1 S C (Some p) (s, e) = (r, s', e')" "0 < RBDANCHORCOM_MAX_RETRY_COUNT S"
  shows "entry_frame p s s' \<and> (never_pending S \<longrightarrow> head_waiting (rx_at s p) \<longrightarrow>
    head_waiting (rx_at s' p) \<and> rq_ErrCounter (rx_at s p) \<le> rq_ErrCounter (rx_at s' p) \<and>
    (rq_ErrCounter (rx_at s p) < rq_ErrCounter (rx_at s' p) \<or> rq_QueueState (rx_at s' p) \<in> {RBDANCHORCOM_RX_DEC_READY, RBDANCHORCOM_RX_PROCESS_READY}))"
proof -
  obtain r2 s2 e2 where F: "rx_prepare S C p (s, e) = (r2, s2, e2)" by (cases "rx_prepare S C p (s, e)")
  note a = rx_prepare_effect [OF F]
  obtain r3 s3 e3 where c: "rbdAnchorComTp_RxStartCmac S (Some p) (s2, e2) = (r3, s3, e3)" by (cases "rbdAnchorComTp_RxStartCmac S (Some p) (s2, e2)")
  note ce = rx_cmac_effect [OF c]
  have np: "never_pending S \<Longrightarrow> r3 \<noteq> RBDANCHORCOM_PENDING" using ce unfolding never_pending_def by (metis fst_conv)
  have "s' = (if rq_QueueState (rx_at s2 p) = RBDANCHORCOM_RX_CMAC_READY then rx_verdict S C p r3 s3 else s2)"
    using assms(1) by (auto simp: rbdAnchorComTp_RxPart1_def F c split: if_split_asm)
  then show ?thesis using a ce np assms(2)
    by (cases r3) (auto simp: rx_verdict_def entry_frame_set head_waiting_def split: if_split_asm)
qed

lemma rx_part2_effect:
  assumes "rbdAnchorComTp_RxPart2 S C (Some p) (s, e) = (r, s', e')" "0 < RBDANCHORCOM_MAX_RETRY_COUNT S"
  shows "entry_frame p s s' \<and> (never_pending S \<longrightarrow> head_waiting (rx_at s p) \<longrightarrow>
    head_waiting (rx_at s' p) \<and> rq_ErrCounter (rx_at s p) \<le> rq_ErrCounter (rx_at s' p) \<and>
    (rq_QueueState (rx_at s p) \<in> {RBDANCHORCOM_RX_DEC_READY, RBDANCHORCOM_RX_PROCESS_READY} \<longrightarrow>
      rq_ErrCounter (rx_at s p) < rq_ErrCounter (rx_at s' p) \<or> rq_QueueState (rx_at s' p) = RBDANCHORCOM_RX_PROCESS_READY))"
proof (cases "rq_QueueState (rx_at s p) = RBDANCHORCOM_RX_DEC_READY")
  case True
  obtain r1 s1 e1 where d: "rbdAnchorComTp_RxStartDecryption S C (Some p) (s, e) = (r1, s1, e1)" by (cases "rbdAnchorComTp_RxStartDecryption S C (Some p) (s, e)")
  note de = rx_decrypt_effect [OF d]
  have np: "never_pending S \<Longrightarrow> r1 \<noteq> RBDANCHORCOM_PENDING" using de unfolding never_pending_def by (metis fst_conv)
  have "s' = rx_decrypted S p r1 s1" using assms(1) True by (auto simp: rbdAnchorComTp_RxPart2_def d)
  then show ?thesis using de np assms(2) True by (cases r1) (auto simp: rx_decrypted_def entry_frame_set head_waiting_def)
next
  case False
  then have "s' = s" using assms(1) unfolding rbdAnchorComTp_RxPart2_def by simp
  then show ?thesis using False by (auto simp: head_waiting_def entry_frame_refl)
qed

lemma rx_part3_effect:
  assumes "rbdAnchorComTp_RxPart3 S C (Some p) (s, e) = (r, s', e')" "0 < RBDANCHORCOM_MAX_RETRY_COUNT S"
  shows "entry_frame p s s' \<and> (head_waiting (rx_at s p) \<longrightarrow>
    rq_QueueState (rx_at s' p) = RBDANCHORCOM_RX_PROCESS_DONE \<or>
    head_waiting (rx_at s' p) \<and> rq_ErrCounter (rx_at s p) \<le> rq_ErrCounter (rx_at s' p) \<and>
    (rq_QueueState (rx_at s p) = RBDANCHORCOM_RX_PROCESS_READY \<longrightarrow> rq_ErrCounter (rx_at s p) < rq_ErrCounter (rx_at s' p)))"
  using assms by (auto simp: rbdAnchorComTp_RxPart3_def rbdAnchorComTp_RxDistributeMsg_def head_waiting_def Let_def entry_frame_refl entry_frame_set split: if_split_asm)

lemma rx_stages_effect:
  assumes "rx_stages S C p (s, e) = (s', e')" "0 < RBDANCHORCOM_MAX_RETRY_COUNT S"
  shows "entry_frame p s s' \<and> (never_pending S \<longrightarrow> head_waiting (rx_at s p) \<longrightarrow>
    rq_QueueState (rx_at s' p) = RBDANCHORCOM_RX_PROCESS_DONE \<or> head_waiting (rx_at s' p) \<and> rq_ErrCounter (rx_at s p) < rq_ErrCounter (rx_at s' p))"
proof -
  obtain r1 s1 e1 where w1: "rbdAnchorComTp_RxPart1 S C (Some p) (s, e) = (r1, s1, e1)" by (cases "rbdAnchorComTp_RxPart1 S C (Some p) (s, e)")
  obtain r2 s2 e2 where w2: "rbdAnchorComTp_RxPart2 S C (Some p) (s1, e1) = (r2, s2, e2)" by (cases "rbdAnchorComTp_RxPart2 S C (Some p) (s1, e1)")
  obtain r3 s3 e3 where w3: "rbdAnchorComTp_RxPart3 S C (Some p) (s2, e2) = (r3, s3, e3)" by (cases "rbdAnchorComTp_RxPart3 S C (Some p) (s2, e2)")
  have "s' = s3" using assms(1) by (simp add: rx_stages_def w1 w2 w3)
  moreover note effects = rx_part1_effect [OF w1 assms(2)] rx_part2_effect [OF w2 assms(2)] rx_part3_effect [OF w3 assms(2)]
  moreover have "entry_frame p s s3" using effects entry_frame_trans by blast
  ultimately show ?thesis by (metis le_trans less_le_trans le_less_trans insertE singletonD)
qed

text \<open>
  C9. A received message does not block its queue: unless a crypto service leaves it pending, the message at the head has been distributed or dropped
  after at most as many cycles as there are retries.
\<close>

theorem anchor_rx_head_leaves:
  assumes "never_pending S" "0 < RBDANCHORCOM_MAX_RETRY_COUNT S"
    and "rx_head oe s = Some p" "head_waiting (rx_at s p)" "rq_AnchorId (rx_at s p) = oe"
  shows "\<exists>k \<le> RBDANCHORCOM_MAX_RETRY_COUNT S. rbdAnchorComTp_RxHead (fst ((rx_peer S C oe ^^ k) (s, e))) oe = (rbdAnchorComTp_RxHead s oe + 1) mod 16"
proof -
  have "\<exists>k \<le> max 1 (RBDANCHORCOM_MAX_RETRY_COUNT S - rq_ErrCounter (rx_at s p)).
      rbdAnchorComTp_RxHead (fst ((rx_peer S C oe ^^ k) (s, e))) oe = (rbdAnchorComTp_RxHead s oe + 1) mod 16"
    using assms(3-5)
  proof (induction "RBDANCHORCOM_MAX_RETRY_COUNT S - rq_ErrCounter (rx_at s p)" arbitrary: s e rule: less_induct)
    case less
    obtain s3 e3 where w: "rx_stages S C p (s, e) = (s3, e3)" by fastforce
    have fr: "entry_frame p s s3"
      and pr: "rq_QueueState (rx_at s3 p) = RBDANCHORCOM_RX_PROCESS_DONE \<or> head_waiting (rx_at s3 p) \<and> rq_ErrCounter (rx_at s p) < rq_ErrCounter (rx_at s3 p)"
      using rx_stages_effect [OF w assms(2)] assms(1) less.prems(2) by blast+
    have step: "rx_peer S C oe (s, e) = (rx_drop S p s3, e3)" using less.prems(1) by (simp add: rx_peer_stages w)
    have tail: "rbdAnchorComTp_RxTail s3 oe \<noteq> rbdAnchorComTp_RxHead s3 oe" and p: "p = (oe, rbdAnchorComTp_RxHead s oe)"
      using less.prems(1) fr by (auto simp: rx_head_def rbdAnchorComTp_GetRxQueueHead_def entry_frame_def split: if_splits)
    show ?case
    proof (cases "RBDANCHORCOM_MAX_RETRY_COUNT S \<le> rq_ErrCounter (rx_at s3 p) \<or> rq_QueueState (rx_at s3 p) = RBDANCHORCOM_RX_PROCESS_DONE")
      case True
      then have "rbdAnchorComTp_RxHead (rx_drop S p s3) oe = (rbdAnchorComTp_RxHead s oe + 1) mod 16"
        using fr less.prems(3) tail by (simp add: rx_drop_def rbdAnchorComTp_RemoveRxQueueHead_def entry_frame_def Let_def)
      then show ?thesis by (intro exI [of _ 1]) (simp add: step)
    next
      case False
      then have d: "rx_drop S p s3 = s3" by (simp add: rx_drop_def Let_def)
      have h: "rx_head oe s3 = Some p" using tail p fr by (simp add: rx_head_def rbdAnchorComTp_GetRxQueueHead_def entry_frame_def)
      have m: "RBDANCHORCOM_MAX_RETRY_COUNT S - rq_ErrCounter (rx_at s3 p) < RBDANCHORCOM_MAX_RETRY_COUNT S - rq_ErrCounter (rx_at s p)"
        using False pr by auto
      obtain k where k: "k \<le> max 1 (RBDANCHORCOM_MAX_RETRY_COUNT S - rq_ErrCounter (rx_at s3 p))"
          "rbdAnchorComTp_RxHead (fst ((rx_peer S C oe ^^ k) (s3, e3))) oe = (rbdAnchorComTp_RxHead s3 oe + 1) mod 16"
        using less.hyps [OF m h, of e3] False pr fr less.prems(3) by (auto simp: entry_frame_def)
      have "Suc k \<le> max 1 (RBDANCHORCOM_MAX_RETRY_COUNT S - rq_ErrCounter (rx_at s p))" using k(1) m False by auto
      moreover have "(rx_peer S C oe ^^ Suc k) (s, e) = (rx_peer S C oe ^^ k) (s3, e3)" by (simp only: funpow_Suc_right o_apply step d)
      ultimately show ?thesis using k(2) fr by (intro exI [of _ "Suc k"]) (simp add: entry_frame_def del: funpow.simps)
    qed
  qed
  then show ?thesis using assms(2) by (metis max.boundedI diff_le_self le_trans Suc_leI One_nat_def)
qed

subsection \<open>Only verified messages are distributed\<close>

datatype AncEvent =
    Anc_Transmit nat nat nat "mem option" nat "mem option" bool
  | Anc_CopyTxData nat "(nat \<times> bool) option" "nat option"
  | Anc_TpTxConfirmation nat Std_ReturnType
  | Anc_StartOfReception nat nat
  | Anc_CopyRxData nat "nat list option" nat
  | Anc_TpRxIndication nat Std_ReturnType
  | Anc_CyclicTx
  | Anc_CyclicRx

fun anc_step :: "'e AncSys \<Rightarrow> AnchorCfg \<Rightarrow> 'e AncW \<Rightarrow> AncEvent \<Rightarrow> 'e AncW" where
  "anc_step S C (s, e) (Anc_Transmit oe i l b l2 b2 ow) = (snd (rbdAnchorCom_Transmit C oe i l b l2 b2 ow s), e)"
| "anc_step S C (s, e) (Anc_CopyTxData i info retry) = (snd (snd (snd (rbdAnchorComTp_CopyTxData C i info retry s))), e)"
| "anc_step S C (s, e) (Anc_TpTxConfirmation i r) = (rbdAnchorComTp_TpTxConfirmation C i r s, e)"
| "anc_step S C (s, e) (Anc_StartOfReception i n) = (snd (snd (rbdAnchorComTp_StartOfReception C i n s)), e)"
| "anc_step S C (s, e) (Anc_CopyRxData i d n) = (snd (snd (rbdAnchorComTp_CopyRxData C i d n s)), e)"
| "anc_step S C (s, e) (Anc_TpRxIndication i r) = (rbdAnchorComTp_TpRxIndication C i r s, e)"
| "anc_step S C w Anc_CyclicTx = rbdAnchorCom_CyclicTx S C w"
| "anc_step S C w Anc_CyclicRx = rbdAnchorCom_CyclicRx S C w"

text \<open>A record \<open>log\<close> of the calls of the upper layer's callbacks, which no other callee touches.\<close>

definition anc_quiet :: "'e AncSys \<Rightarrow> ('e \<Rightarrow> 'l) \<Rightarrow> bool" where
  "anc_quiet S log \<longleftrightarrow>
     (\<forall>n e. log (snd (snd (snd (rbdAnchorCom_Fresh_GetTxFreshnessTruncData S n e)))) = log e) \<and>
     (\<forall>t n e. log (snd (snd (rbdAnchorCom_Fresh_GetRxFreshness S t n e))) = log e) \<and>
     (\<forall>x f e. log (snd (snd (rbdAnchorComCsm_Encrypt S x f e))) = log e) \<and>
     (\<forall>x e. log (snd (snd (rbdAnchorComCsm_Authenticate S x e))) = log e) \<and>
     (\<forall>a d c e. log (snd (rbdAnchorComCsm_Verify S a d c e)) = log e) \<and>
     (\<forall>a d f e. log (snd (snd (rbdAnchorComCsm_Decrypt S a d f e))) = log e) \<and>
     (\<forall>i x e. log (snd (PduR_rbdAnchorComTpTransmit S i x e)) = log e) \<and>
     (\<forall>e. log (snd (snd (snd (StbM_GetCurrentTime S e)))) = log e)"

text \<open>Entries nobody has verified yet; all entries are, after initialisation.\<close>

definition unverified :: "AnchorSt \<Rightarrow> bool" where
  "unverified s \<longleftrightarrow> (\<forall>p. rq_QueueState (rx_at s p) \<in> {RBDANCHORCOM_TX_IDLE, RBDANCHORCOM_RX_QUEUED, RBDANCHORCOM_RX_CMAC_READY, RBDANCHORCOM_RX_CMAC_RUNNING})"

definition rejecting :: "'e AncSys \<Rightarrow> ('e \<Rightarrow> 'l) \<Rightarrow> 'l \<Rightarrow> 'e AncW \<Rightarrow> bool" where
  "rejecting S log l w \<longleftrightarrow> anc_quiet S log \<and> (\<forall>a d c e. fst (rbdAnchorComCsm_Verify S a d c e) \<noteq> RBDANCHORCOM_OK) \<and> unverified (fst w) \<and> log (snd w) = l"

lemma unverifiedD:
  "unverified s \<Longrightarrow> rq_QueueState (rx_at s p) \<in> {RBDANCHORCOM_TX_IDLE, RBDANCHORCOM_RX_QUEUED, RBDANCHORCOM_RX_CMAC_READY, RBDANCHORCOM_RX_CMAC_RUNNING}"
  unfolding unverified_def by (rule spec)

lemma unverified_cong: "rbdAnchorComTp_RxMsgQueue s' = rbdAnchorComTp_RxMsgQueue s \<Longrightarrow> unverified s' = unverified s"
  by (simp add: unverified_def rx_at_def)

text \<open>The transmit side does not touch the receive queue.\<close>

definition tx_side :: "('e \<Rightarrow> 'l) \<Rightarrow> 'e AncW \<Rightarrow> 'e AncW \<Rightarrow> bool" where
  "tx_side log w w' \<longleftrightarrow> rbdAnchorComTp_RxMsgQueue (fst w') = rbdAnchorComTp_RxMsgQueue (fst w) \<and> log (snd w') = log (snd w)"

lemma tx_side_trans: "tx_side log w w1 \<Longrightarrow> tx_side log w1 w2 \<Longrightarrow> tx_side log w w2"
  by (simp add: tx_side_def)

lemma tx_stage_side:
  assumes "anc_quiet S log"
  shows "tx_side log w (snd (rbdAnchorComTp_TxFormatForCrypto S C (Some p) w))" "tx_side log w (snd (rbdAnchorComTp_TxStartEncryption S C (Some p) w))"
    "tx_side log w (snd (rbdAnchorComTp_TxStartCmac S C (Some p) w))" "tx_side log w (snd (rbdAnchorComTp_TxStartTx C (PduR_rbdAnchorComTpTransmit S) (Some q) w))"
  using assms by (cases w; simp add: rbdAnchorComTp_TxFormatForCrypto_def rbdAnchorComTp_TxStartEncryption_def rbdAnchorComTp_TxStartCmac_def rbdAnchorComTp_TxStartTx_def
      tx_side_def anc_quiet_def Let_def split_beta)+

lemma tx_result_side:
  "tx_side log w (tx_encrypted S p r (fst w), snd w)" "tx_side log w (tx_authenticated S C p r (fst w), snd w)" "tx_side log w (tx_passed_down S p r (fst w), snd w)"
  "tx_side log w (tx_drop S p (fst w), snd w)" "tx_side log w (snd (tx_finish oe (fst w)), snd w)" "tx_side log w (set_tx p f (fst w), snd w)"
  by (simp_all add: tx_side_def tx_encrypted_def tx_authenticated_def tx_passed_down_def tx_drop_def tx_finish_def rbdAnchorComTp_FinishData_def
      rbdAnchorComTp_RemoveTxQueueHead_def Let_def split: rbdAnchorCom_Result_et.split option.split)

lemma tx_part_side:
  assumes q: "anc_quiet S log"
  shows "tx_side log w (snd (rbdAnchorComTp_TxPart1 S C (Some p) w))" "tx_side log w (snd (rbdAnchorComTp_TxPart2 S C (Some p) w))"
    "tx_side log w (snd (rbdAnchorComTp_TxPart3 S C (Some p) w))"
proof -
  obtain s e where w: "w = (s, e)" by fastforce
  obtain r1 s1 e1 where f: "rbdAnchorComTp_TxFormatForCrypto S C (Some p) (s, e) = (r1, s1, e1)" by (cases "rbdAnchorComTp_TxFormatForCrypto S C (Some p) (s, e)")
  define s2 where "s2 = (if r1 \<noteq> RBDANCHORCOM_OK then tx_error 1 p s1 else s1)"
  obtain r3 s3 e3 where n: "rbdAnchorComTp_TxStartEncryption S C (Some p) (s2, e1) = (r3, s3, e3)" by (cases "rbdAnchorComTp_TxStartEncryption S C (Some p) (s2, e1)")
  have "tx_side log (s1, e1) (s2, e1)" by (simp add: s2_def tx_side_def)
  moreover have "tx_side log (s, e) (s1, e1)" "tx_side log (s2, e1) (s3, e3)" "tx_side log (s3, e3) (tx_encrypted S p r3 s3, e3)"
    using tx_stage_side(1) [OF q, of "(s, e)" C p] tx_stage_side(2) [OF q, of "(s2, e1)" C p] tx_result_side(1) [of log "(s3, e3)" S p r3]
    unfolding f n by simp_all
  ultimately show "tx_side log w (snd (rbdAnchorComTp_TxPart1 S C (Some p) w))"
    by (auto simp: w rbdAnchorComTp_TxPart1_def f s2_def [symmetric] n Let_def tx_side_def)
  obtain r4 s4 e4 where c: "rbdAnchorComTp_TxStartCmac S C (Some p) (s, e) = (r4, s4, e4)" by (cases "rbdAnchorComTp_TxStartCmac S C (Some p) (s, e)")
  show "tx_side log w (snd (rbdAnchorComTp_TxPart2 S C (Some p) w))"
    using tx_stage_side(3) [OF q, of "(s, e)" C p] tx_result_side(2) [of log "(s4, e4)" S C p r4]
    by (simp add: w rbdAnchorComTp_TxPart2_def c tx_side_def)
  define s0 where "s0 = tx_state RBDANCHORCOM_TX_TRANS_RUNNING p s"
  obtain r5 s5 e5 where x: "rbdAnchorComTp_TxStartTx C (PduR_rbdAnchorComTpTransmit S) (Some (tx_at s0 p)) (s0, e) = (r5, s5, e5)"
    by (cases "rbdAnchorComTp_TxStartTx C (PduR_rbdAnchorComTpTransmit S) (Some (tx_at s0 p)) (s0, e)")
  show "tx_side log w (snd (rbdAnchorComTp_TxPart3 S C (Some p) w))"
    using tx_stage_side(4) [OF q, of "(s0, e)" C "tx_at s0 p"] tx_result_side(3) [of log "(s5, e5)" S p r5] tx_result_side(6) [of log "(s, e)" p]
    unfolding x by (simp add: w rbdAnchorComTp_TxPart3_def s0_def [symmetric] x tx_side_def Let_def) (simp add: s0_def)
qed

lemma tx_peer_side:
  assumes q: "anc_quiet S log"
  shows "tx_side log w (tx_peer S C oe w)"
proof -
  obtain s e where w: "w = (s, e)" by fastforce
  obtain p s1 where f: "tx_finish oe s = (p, s1)" by fastforce
  have a: "tx_side log (s, e) (s1, e)" using tx_result_side(5) [of log "(s, e)" oe] f by simp
  show ?thesis
  proof (cases p)
    case None
    then show ?thesis using a by (simp add: w tx_peer_def f)
  next
    case (Some p')
    define w2 where "w2 = snd (rbdAnchorComTp_TxPart1 S C (Some p') (s1, e))"
    define w3 where "w3 = snd (rbdAnchorComTp_TxPart2 S C (Some p') w2)"
    define w4 where "w4 = snd (rbdAnchorComTp_TxPart3 S C (Some p') w3)"
    have "tx_side log (s1, e) w2" "tx_side log w2 w3" "tx_side log w3 w4" "tx_side log w4 (tx_drop S p' (fst w4), snd w4)"
      unfolding w2_def w3_def w4_def by (rule tx_part_side [OF q] tx_result_side(4))+
    moreover have "tx_peer S C oe w = (tx_drop S p' (fst w4), snd w4)"
      by (simp add: w tx_peer_def f Some w2_def w3_def w4_def split_beta)
    ultimately show ?thesis using a by (simp add: w tx_side_def)
  qed
qed

lemma fold_side:
  assumes "\<And>x w. tx_side log w (f x w)"
  shows "tx_side log w (fold f xs w)"
  by (induction xs arbitrary: w) (use assms tx_side_trans in \<open>auto simp: tx_side_def\<close>)

lemma cyclic_tx_side:
  assumes "anc_quiet S log"
  shows "tx_side log w (rbdAnchorCom_CyclicTx S C w)"
proof -
  obtain s e where w: "w = (s, e)" by fastforce
  obtain a e1 where n: "rbdAnchorCom_NodeOkToTx S C e = (a, e1)" by fastforce
  have "log e1 = log e" using assms n by (auto simp: rbdAnchorCom_NodeOkToTx_def anc_quiet_def split_beta Let_def split: AncBuild.splits)
  then have "tx_side log w (s, e1)" by (simp add: w tx_side_def)
  moreover have "tx_side log (s, e1) (fold (\<lambda>oe w. if P oe then tx_peer S C oe w else w) xs (s, e1))" for P xs
    by (rule fold_side) (simp add: tx_peer_side [OF assms], simp add: tx_side_def)
  ultimately show ?thesis unfolding rbdAnchorCom_CyclicTx_def rbdAnchorComTp_CyclicTx_def w prod.case n Let_def
    by (simp add: tx_side_def)
qed

lemma rx_format_log: "anc_quiet S log \<Longrightarrow> log (snd (snd (rbdAnchorComTp_RxFormatForCmac S C (Some p) (s, e)))) = log e"
  by (simp add: rbdAnchorComTp_RxFormatForCmac_def anc_quiet_def Let_def split_beta)

lemma rx_prepare_log: "anc_quiet S log \<Longrightarrow> log (snd (snd (rx_prepare S C p (s, e)))) = log e"
  using rx_format_log [of S log C p s e] by (simp add: rx_prepare_def split_beta Let_def)

lemma unverified_frame:
  assumes "unverified s" "entry_frame p s s'"
    "rq_QueueState (rx_at s' p) \<in> {RBDANCHORCOM_TX_IDLE, RBDANCHORCOM_RX_QUEUED, RBDANCHORCOM_RX_CMAC_READY, RBDANCHORCOM_RX_CMAC_RUNNING}"
  shows "unverified s'"
  using assms unfolding unverified_def entry_frame_def by metis

lemma rx_part1_rejecting:
  assumes rej: "rejecting S log l (s, e)" and w: "rbdAnchorComTp_RxPart1 S C (Some p) (s, e) = (r, s', e')"
  shows "rejecting S log l (s', e')"
proof -
  have q: "anc_quiet S log" and v: "\<And>a d c e. fst (rbdAnchorComCsm_Verify S a d c e) \<noteq> RBDANCHORCOM_OK" and u: "unverified s" and l: "log e = l"
    using rej by (auto simp: rejecting_def)
  obtain r2 s2 e2 where F: "rx_prepare S C p (s, e) = (r2, s2, e2)" by (cases "rx_prepare S C p (s, e)")
  obtain r3 s3 e3 where c: "rbdAnchorComTp_RxStartCmac S (Some p) (s2, e2) = (r3, s3, e3)" by (cases "rbdAnchorComTp_RxStartCmac S (Some p) (s2, e2)")
  note ce = rx_cmac_effect [OF c]
  have s2: "entry_frame p s s2" "rq_QueueState (rx_at s2 p) \<in> {RBDANCHORCOM_TX_IDLE, RBDANCHORCOM_RX_QUEUED, RBDANCHORCOM_RX_CMAC_READY, RBDANCHORCOM_RX_CMAC_RUNNING}"
    using rx_prepare_effect [OF F] unverifiedD [OF u, of p] by (auto split: if_split_asm)
  have r3: "r3 \<noteq> RBDANCHORCOM_OK" using ce v by (metis fst_conv)
  have "log e2 = l" using rx_prepare_log [OF q, of C p s e] l by (simp add: F)
  moreover have "log e3 = log e2" using ce q by (metis anc_quiet_def snd_conv)
  moreover have "unverified s2" "unverified (rx_verdict S C p r3 s3)"
    using unverified_frame [OF u s2] unverified_frame [OF u, of p "rx_verdict S C p r3 s3"] s2 ce r3
    by (cases r3; auto simp: rx_verdict_def entry_frame_set)+
  ultimately show ?thesis using w q v by (auto simp: rejecting_def rbdAnchorComTp_RxPart1_def F c split: if_split_asm)
qed

lemma rx_rest_rejecting:
  assumes "unverified s"
  shows "rbdAnchorComTp_RxPart2 S C (Some p) (s, e) = (RBDANCHORCOM_OK, s, e)" "rbdAnchorComTp_RxPart3 S C (Some p) (s, e) = (RBDANCHORCOM_OK, s, e)"
proof -
  have "rq_QueueState (rx_at s p) \<noteq> RBDANCHORCOM_RX_DEC_READY" "rq_QueueState (rx_at s p) \<noteq> RBDANCHORCOM_RX_PROCESS_READY"
    using unverifiedD [OF assms, of p] by auto
  then show "rbdAnchorComTp_RxPart2 S C (Some p) (s, e) = (RBDANCHORCOM_OK, s, e)" "rbdAnchorComTp_RxPart3 S C (Some p) (s, e) = (RBDANCHORCOM_OK, s, e)"
    by (simp_all add: rbdAnchorComTp_RxPart2_def rbdAnchorComTp_RxPart3_def)
qed

lemma rx_drop_unverified: "unverified s \<Longrightarrow> unverified (rx_drop S p s)"
  by (auto simp: unverified_def rx_at_def rx_drop_def rbdAnchorComTp_RemoveRxQueueHead_def Let_def)

lemma rx_peer_rejecting:
  assumes "rejecting S log l w"
  shows "rejecting S log l (rx_peer S C oe w)"
proof -
  obtain s e where w: "w = (s, e)" by fastforce
  show ?thesis
  proof (cases "rx_head oe s")
    case (Some p)
    obtain r s1 e1 where p1: "rbdAnchorComTp_RxPart1 S C (Some p) (s, e) = (r, s1, e1)" by (cases "rbdAnchorComTp_RxPart1 S C (Some p) (s, e)")
    have rej: "rejecting S log l (s1, e1)" using rx_part1_rejecting [OF assms [unfolded w] p1] .
    then have "rx_peer S C oe w = (rx_drop S p s1, e1)" by (simp add: w rx_peer_def Some p1 rx_rest_rejecting rejecting_def)
    then show ?thesis using rej rx_drop_unverified [of s1 S p] by (simp add: rejecting_def)
  qed (use assms in \<open>simp add: w rx_peer_def\<close>)
qed

lemma fold_inv: "(\<And>x w. P w \<Longrightarrow> P (f x w)) \<Longrightarrow> P w \<Longrightarrow> P (fold f xs w)"
  by (induction xs arbitrary: w) auto

lemma cyclic_rx_rejecting: "rejecting S log l w \<Longrightarrow> rejecting S log l (rbdAnchorCom_CyclicRx S C w)"
  unfolding rbdAnchorCom_CyclicRx_def by (auto simp: split_beta intro: fold_inv rx_peer_rejecting)

lemma AddRx_unverified: "unverified s \<Longrightarrow> unverified (snd (rbdAnchorComTp_AddRxQueue ch oe t s))"
  by (auto simp: unverified_def rx_at_def rbdAnchorComTp_AddRxQueue_def Let_def)

lemma TpRx_unverified:
  assumes "unverified s"
  shows "unverified (rbdAnchorComTp_TpRxIndication C i r s)"
proof -
  have "unverified (snd (rbdAnchorComTp_AddRxQueue ch oe t (s\<lparr>rbdAnchorComTp_ChRxBuff := x\<rparr>)))" "unverified (snd (rbdAnchorComTp_AddRxQueue ch oe t (s\<lparr>rbdAnchorComTp_ChRxTemp := y\<rparr>)))"
    for ch oe t x y by (rule AddRx_unverified, use assms in \<open>simp add: unverified_def rx_at_def\<close>)+
  then show ?thesis using assms
    by (auto simp: rbdAnchorComTp_TpRxIndication_def split_beta Let_def unverified_cong [of "_\<lparr>rbdAnchorComTp_ChRxBuff := _\<rparr>"] unverified_cong [of "_\<lparr>rbdAnchorComTp_ChRxTemp := _\<rparr>"]
        unverified_cong [of "s\<lparr>anc_errors := _\<rparr>" s] rbdAnchorCom_ReportError_def
        split: option.split)
qed

lemma api_rx_queue:
  "rbdAnchorComTp_RxMsgQueue (snd (rbdAnchorCom_Transmit C oe i n b n2 b2 ow s)) = rbdAnchorComTp_RxMsgQueue s"
  "rbdAnchorComTp_RxMsgQueue (snd (snd (snd (rbdAnchorComTp_CopyTxData C i info retry s)))) = rbdAnchorComTp_RxMsgQueue s"
  "rbdAnchorComTp_RxMsgQueue (rbdAnchorComTp_TpTxConfirmation C i r s) = rbdAnchorComTp_RxMsgQueue s"
  "rbdAnchorComTp_RxMsgQueue (snd (snd (rbdAnchorComTp_StartOfReception C i n s))) = rbdAnchorComTp_RxMsgQueue s"
  "rbdAnchorComTp_RxMsgQueue (snd (snd (rbdAnchorComTp_CopyRxData C i d n s))) = rbdAnchorComTp_RxMsgQueue s"
  by (auto simp: rbdAnchorCom_Transmit_def rbdAnchorComTp_AddTxQueue_def rbdAnchorComTp_CopyTxData_def rbdAnchorComTp_TpTxConfirmation_def anc_set_head_def
      rbdAnchorComTp_StartOfReception_def rbdAnchorComTp_CopyRxData_def rbdAnchorCom_ReportError_def Let_def split_beta split: option.split)

lemma anc_step_rejecting:
  assumes "rejecting S log l w"
  shows "rejecting S log l (anc_step S C w ev)"
proof -
  obtain s e where w: "w = (s, e)" by fastforce
  have cong: "rejecting S log l (s', e)" if "rbdAnchorComTp_RxMsgQueue s' = rbdAnchorComTp_RxMsgQueue s" for s'
    using assms that unverified_cong [of s' s] by (simp add: w rejecting_def)
  show ?thesis
  proof (cases ev)
    case (Anc_TpRxIndication i r)
    then show ?thesis using assms TpRx_unverified [of s C i r] by (simp add: w rejecting_def)
  next
    case Anc_CyclicTx
    have "tx_side log w (rbdAnchorCom_CyclicTx S C w)" using assms by (intro cyclic_tx_side) (simp add: rejecting_def)
    then show ?thesis using assms unverified_cong [of "fst (rbdAnchorCom_CyclicTx S C w)" "fst w"] by (simp add: Anc_CyclicTx rejecting_def tx_side_def)
  qed (use assms cyclic_rx_rejecting api_rx_queue in \<open>auto simp: w intro!: cong\<close>)
qed

interpretation anc: step_system "anc_step S C" "rejecting S log l" for S C log l
  by unfold_locales (rule anc_step_rejecting)

text \<open>
  C8. What is not authentic never reaches the application: while the crypto service accepts no message, no sequence of
  requests, transport callbacks, arriving messages and cyclic calls makes the module hand anything to an upper layer.
\<close>

theorem anchor_unverified_not_distributed:
  assumes "anc_quiet S log" "\<And>a d c e. fst (rbdAnchorComCsm_Verify S a d c e) \<noteq> RBDANCHORCOM_OK" "unverified s"
  shows "log (snd (foldl (anc_step S C) (s, e) evs)) = log e"
proof -
  have "rejecting S log (log e) (s, e)" using assms by (simp add: rejecting_def)
  from anc.foldl_inv [OF this, of C evs] show ?thesis by (simp add: rejecting_def)
qed

end
