(* ===== verification/AnchorRound.thy ===== *)
theory AnchorRound
  imports AnchorCyclic
begin

unbundle bit_operations_syntax

text \<open>
  A protected message on its way from the transmit buffer of the sender to the upper layer of the receiver, stage by stage, and the concrete nodes of the witnesses.
\<close>

definition anc_layout :: "'e AncSys \<Rightarrow> AnchorCfg \<Rightarrow> bool" where
  "anc_layout S C \<longleftrightarrow> RBDANCHORCOM_CHANID_LEN C = 1 \<and> RBDANCHORCOM_HEADER_LEN C = 3 \<and> RBDANCHORCOM_PREFIX_LEN S = 2 \<and> RBDANCHORCOM_CMAC_LEN S = 3 \<and>
     RBDANCHORCOM_APPEND_LEN S = 4 \<and> RBDANCHORCOM_FRESH_LEN S = 8 \<and> RBDANCHORCOM_AES_KEY_LEN S = 16"

text \<open>The padding that makes an encrypted payload a multiple of the block length, and the flag byte that records it.\<close>

definition anc_pad :: "bool \<Rightarrow> nat \<Rightarrow> nat" where
  "anc_pad enc n = (if enc then (16 - n mod 16) mod 16 else 0)"

definition anc_flag :: "bool \<Rightarrow> nat \<Rightarrow> nat \<Rightarrow> nat" where
  "anc_flag enc old n = (if enc then if anc_pad enc n = 0 then 0 else 128 + anc_pad enc n else old)"

definition anc_padded :: "bool \<Rightarrow> nat list \<Rightarrow> nat list" where
  "anc_padded enc xs = xs @ replicate (anc_pad enc (length xs)) 0"

lemma flag_table: "list_all (\<lambda>p. (128 OR (p AND 15)) = 128 + p \<and> (128 + p) AND 15 = p) [0..<16]"
  by code_simp

lemma flag_bits: "p < 16 \<Longrightarrow> 128 OR (p AND 15) = 128 + p \<and> (128 + p) AND 15 = (p :: nat)"
  using flag_table unfolding list_all_iff by simp

lemma pad_less: "anc_pad enc n < 16"
  by (simp add: anc_pad_def)

lemma flag_pad: "anc_flag True old n AND 15 = anc_pad True n"
  using flag_bits [OF pad_less [of True n]] by (simp add: anc_flag_def)

lemma tx_padding_pad:
  assumes "anc_layout S C"
  shows "tx_padding S n = anc_pad True n"
proof -
  obtain k where k: "n mod 16 = k" "k < 16" by simp
  have "u8 (int k) = k" "u8 (16 - int k) = 16 - k"
    using k(2) u8_of_nat [of k] u8_of_nat [of "16 - k"] by (simp_all add: of_nat_diff)
  moreover have "RBDANCHORCOM_AES_KEY_LEN S = 16" using assms by (simp add: anc_layout_def)
  ultimately show ?thesis using k(2) by (simp add: tx_padding_def anc_pad_def k(1) Let_def)
qed

lemma tx_header_bytes:
  assumes lay: "anc_layout S C" and m: "m = rbdAnchorComTp_MsgCfg C ! tq_MsgIdx q" and pay: "rd b 3 (length pay) = pay"
    and hb: "hb = tx_header S C q e (length pay) b"
  shows "hb 0 = rbdAnchorComTp_GetTxChanId S C q e \<and> hb 1 = cf_PduId m \<and> hb 2 = anc_flag (cf_EncDecFlag m) (b 2) (length pay) \<and>
    (\<forall>k < length (anc_padded (cf_EncDecFlag m) pay). hb (3 + k) = anc_padded (cf_EncDecFlag m) pay ! k)"
proof -
  have p: "b (3 + k) = pay ! k" if "k < length pay" for k
    using arg_cong [OF pay, of "\<lambda>xs. xs ! k"] that by (simp add: rd_def)
  have h3: "RBDANCHORCOM_HEADER_LEN C = 3" using lay by (simp add: anc_layout_def)
  have hb': "hb = (let b1 = b(0 := rbdAnchorComTp_GetTxChanId S C q e, 1 := cf_PduId m); pd = anc_pad True (length pay)
      in if cf_EncDecFlag m then if pd \<noteq> 0 then (write_bytes (length pay + 3) (replicate pd 0) (b1(2 := 128)))(2 := 128 + pd) else b1(2 := 0) else b1)"
    using flag_bits [OF pad_less [of True "length pay"]] by (simp add: hb tx_header_def Let_def h3 m tx_padding_pad [OF lay] write_bytes_apply)
  show ?thesis
    using p by (auto simp: hb' Let_def anc_flag_def anc_padded_def anc_pad_def write_bytes_apply nth_append add.commute)
qed

text \<open>A message in work: its queue entry, its length, and what its buffer starts with.\<close>

definition tx_has :: "slot \<Rightarrow> rbdAnchorComTp_Queue_st \<Rightarrow> nat \<Rightarrow> nat list \<Rightarrow> AnchorSt \<Rightarrow> bool" where
  "tx_has p q n bytes s \<longleftrightarrow> tx_at s p = q \<and> mi_Length (rbdAnchorComTp_MsgTxInfo s (tq_AnchorId q) (tq_MsgIdx q)) = n \<and>
     rd (anc_TxBuffer s (tq_AnchorId q) (tq_MsgIdx q)) 0 (length bytes) = bytes"

lemma rd_prefix: "rd m 0 n = xs \<longleftrightarrow> length xs = n \<and> (\<forall>k < n. m k = xs ! k)"
  by (auto simp: list_eq_iff_nth_eq)

lemma rd_part:
  assumes "rd m 0 n = xs @ ys @ zs"
  shows "rd m (length xs) (length ys) = ys"
proof (rule rd_eqI)
  fix i
  assume "i < length ys"
  moreover from this have "m (length xs + i) = (xs @ ys @ zs) ! (length xs + i)" using assms by (simp add: rd_prefix del: length_append) auto
  ultimately show "m (length xs + i) = ys ! i" by (simp add: nth_append)
qed simp

lemma tx_formatted:
  assumes lay: "anc_layout S C" and q: "tx_at s p = q" "m = rbdAnchorComTp_MsgCfg C ! tq_MsgIdx q" "enc = cf_EncDecFlag m"
    and b: "b = anc_TxBuffer s (tq_AnchorId q) (tq_MsgIdx q)" "mi_Length (rbdAnchorComTp_MsgTxInfo s (tq_AnchorId q) (tq_MsgIdx q)) = length pay" "rd b 3 (length pay) = pay"
    and n: "length pay + 32 < 65536"
    and fresh: "rbdAnchorCom_Fresh_GetTxFreshnessTruncData S 8 e = (E_OK, F, t, e1)"
    and hdr: "hdr = [rbdAnchorComTp_GetTxChanId S C q e1, cf_PduId m, anc_flag enc (b 2) (length pay)]"
  shows "\<exists>s1. rbdAnchorComTp_TxFormatForCrypto S C (Some p) (s, e) = (RBDANCHORCOM_OK, s1, e1) \<and>
    tx_has p (q\<lparr>tq_TruncFresh := t, tq_QueueState := (if enc then RBDANCHORCOM_TX_ENC_READY else RBDANCHORCOM_TX_CMAC_READY)\<rparr>)
      (length (anc_padded enc pay)) (hdr @ anc_padded enc pay @ F) s1"
proof -
  define hb where "hb = tx_header S C q e1 (length pay) b"
  note hb = tx_header_bytes [OF lay q(2) b(3) hb_def, folded q(3)]
  have len: "(if enc then u16 (int (length pay) + int (anc_pad True (length pay))) else length pay) = length (anc_padded enc pay)"
    using n pad_less [of True "length pay"] by (auto simp: anc_padded_def anc_pad_def u16_def nat_add_distrib)
  let ?b = "write_bytes (length (anc_padded enc pay) + 3) F hb"
  have "?b k = (hdr @ anc_padded enc pay @ F) ! k" if "k < length (hdr @ anc_padded enc pay @ F)" for k
  proof (cases "k < 3")
    case True
    then consider "k = 0" | "k = 1" | "k = 2" by linarith
    then show ?thesis using hb by cases (simp_all add: write_bytes_apply hdr nth_append)
  next
    case False
    then obtain j where j: "k = 3 + j" by (metis le_Suc_ex not_less)
    then show ?thesis using hb that by (auto simp: write_bytes_apply hdr nth_append nth_Cons' numeral_3_eq_3)
  qed
  then have r: "rd ?b 0 (length (hdr @ anc_padded enc pay @ F)) = hdr @ anc_padded enc pay @ F" by (simp only: rd_prefix) simp
  have f8: "RBDANCHORCOM_FRESH_LEN S = 8" and h3: "RBDANCHORCOM_HEADER_LEN C = 3" using lay by (simp_all add: anc_layout_def)
  show ?thesis
    using r unfolding rbdAnchorComTp_TxFormatForCrypto_def not_null_simps prod.case f8 h3 fresh Let_def q(1) q(2) [symmetric] q(3) [symmetric] tx_padding_pad [OF lay] b(2) len b(1) [symmetric] hb_def [symmetric]
    by (simp add: tx_has_def q(1) del: length_append)
qed

lemma tx_encrypted_bytes:
  assumes lay: "anc_layout S C" and has: "tx_has p q (length P) (hdr @ P @ F) s" "length hdr = 3" "length F = 8"
    and enc: "rbdAnchorComCsm_Encrypt S P F e = (RBDANCHORCOM_OK, X, e')" "length X = length P"
  shows "\<exists>s1. rbdAnchorComTp_TxStartEncryption S C (Some p) (s, e) = (RBDANCHORCOM_OK, s1, e') \<and> tx_has p q (length X) (hdr @ X @ F) s1"
proof -
  let ?b = "anc_TxBuffer s (tq_AnchorId q) (tq_MsgIdx q)"
  have b: "rd ?b 0 (length (hdr @ P @ F)) = hdr @ P @ F" using has(1) by (simp add: tx_has_def)
  have "rd ?b 3 (length P) = P" "rd ?b (3 + length P) 8 = F"
    using rd_part [OF b] rd_part [of ?b _ "hdr @ P" F "[]"] b has(2,3) by simp_all
  moreover have "rd (write_bytes 3 X ?b) 0 (length (hdr @ X @ F)) = hdr @ X @ F"
    using b enc(2) has(2) by (auto simp: rd_prefix write_bytes_apply nth_append)
  moreover have "RBDANCHORCOM_FRESH_LEN S = 8" "RBDANCHORCOM_HEADER_LEN C = 3" using lay by (simp_all add: anc_layout_def)
  ultimately show ?thesis using has(1) enc by (simp add: rbdAnchorComTp_TxStartEncryption_def tx_has_def Let_def)
qed

lemma tx_part1_bytes:
  assumes lay: "anc_layout S C" and q: "tx_at s p = q" "m = rbdAnchorComTp_MsgCfg C ! tq_MsgIdx q" "enc = cf_EncDecFlag m" "tq_QueueState q = RBDANCHORCOM_TX_QUEUED"
    and b: "b = anc_TxBuffer s (tq_AnchorId q) (tq_MsgIdx q)" "mi_Length (rbdAnchorComTp_MsgTxInfo s (tq_AnchorId q) (tq_MsgIdx q)) = length pay" "rd b 3 (length pay) = pay"
    and n: "length pay + 32 < 65536"
    and fresh: "rbdAnchorCom_Fresh_GetTxFreshnessTruncData S 8 e = (E_OK, F, t, e1)" "length F = 8"
    and hdr: "hdr = [rbdAnchorComTp_GetTxChanId S C q e1, cf_PduId m, anc_flag enc (b 2) (length pay)]"
    and crypt: "if enc then rbdAnchorComCsm_Encrypt S (anc_padded enc pay) F e1 = (RBDANCHORCOM_OK, X, e2) else X = pay \<and> e2 = e1"
      "length X = length (anc_padded enc pay)"
  shows "\<exists>s1. snd (rbdAnchorComTp_TxPart1 S C (Some p) (s, e)) = (s1, e2) \<and>
    tx_has p (q\<lparr>tq_TruncFresh := t, tq_QueueState := RBDANCHORCOM_TX_CMAC_READY\<rparr>) (length X) (hdr @ X @ F) s1"
proof -
  obtain s1 where f: "rbdAnchorComTp_TxFormatForCrypto S C (Some p) (s, e) = (RBDANCHORCOM_OK, s1, e1)"
      and has: "tx_has p (q\<lparr>tq_TruncFresh := t, tq_QueueState := (if enc then RBDANCHORCOM_TX_ENC_READY else RBDANCHORCOM_TX_CMAC_READY)\<rparr>)
        (length (anc_padded enc pay)) (hdr @ anc_padded enc pay @ F) s1"
    using tx_formatted [OF lay q(1-3) b n fresh(1) hdr] by blast
  show ?thesis
  proof (cases enc)
    case True
    have "length hdr = 3" by (simp add: hdr)
    from tx_encrypted_bytes [OF lay has this fresh(2), of e1 X e2] obtain s2 where
      s2: "rbdAnchorComTp_TxStartEncryption S C (Some p) (s1, e1) = (RBDANCHORCOM_OK, s2, e2)"
        "tx_has p (q\<lparr>tq_TruncFresh := t, tq_QueueState := RBDANCHORCOM_TX_ENC_READY\<rparr>) (length X) (hdr @ X @ F) s2"
      using crypt True by auto
    moreover have "tq_QueueState (tx_at s1 p) = RBDANCHORCOM_TX_ENC_READY" using has True by (simp add: tx_has_def)
    ultimately show ?thesis
      by (intro exI [of _ "tx_state RBDANCHORCOM_TX_CMAC_READY p s2"]) (simp add: rbdAnchorComTp_TxPart1_def q(1,4) f tx_encrypted_def tx_has_def)
  next
    case False
    then have "X = anc_padded enc pay" "e2 = e1" using crypt by (simp_all add: anc_padded_def anc_pad_def)
    moreover have "tq_QueueState (tx_at s1 p) = RBDANCHORCOM_TX_CMAC_READY" using has False by (simp add: tx_has_def)
    ultimately show ?thesis using has False by (intro exI [of _ s1]) (simp add: rbdAnchorComTp_TxPart1_def q(1,4) f)
  qed
qed

lemma tx_part2_bytes:
  assumes lay: "anc_layout S C" and has: "tx_has p q (length X) (hdr @ X @ F) s" "length hdr = 3" "length F = 8" "length X + 16 < 65536"
    and q: "tq_QueueState q = RBDANCHORCOM_TX_CMAC_READY"
    and auth: "rbdAnchorComCsm_Authenticate S (hdr @ X @ F) e = (RBDANCHORCOM_OK, M, e')" "3 \<le> length M"
  shows "\<exists>s1. snd (rbdAnchorComTp_TxPart2 S C (Some p) (s, e)) = (s1, e') \<and>
    tx_has p (q\<lparr>tq_CmacValue := write_bytes 0 M (tq_CmacValue q), tq_QueueState := RBDANCHORCOM_TX_TRANS_READY\<rparr>) (length X + 6) (hdr @ X @ tq_TruncFresh q # take 3 M) s1"
proof -
  let ?oe = "tq_AnchorId q" and ?i = "tq_MsgIdx q"
  let ?b = "anc_TxBuffer s ?oe ?i"
  have b: "rd ?b 0 (3 + length X + 8) = hdr @ X @ F" and L: "mi_Length (rbdAnchorComTp_MsgTxInfo s ?oe ?i) = length X" and at: "tx_at s p = q"
    using has(1-3) by (simp_all add: tx_has_def add.assoc)
  have c: "RBDANCHORCOM_FRESH_LEN S = 8" "RBDANCHORCOM_HEADER_LEN C = 3" "RBDANCHORCOM_CMAC_LEN S = 3" "RBDANCHORCOM_APPEND_LEN S = 4" "RBDANCHORCOM_PREFIX_LEN S = 2"
    using lay by (simp_all add: anc_layout_def)
  have u: "u16 (int (length X) + 3 + 8) = 3 + length X + 8" "u16 (int (length X) + 3) = length X + 3" "u16 (int (length X) + 4 + 2) = length X + 6"
    using has(4) by (simp_all add: u16_def)
  define s1 where "s1 = set_tx p (\<lambda>q. q\<lparr>tq_CmacValue := write_bytes 0 M (tq_CmacValue q)\<rparr>) s"
  have cm: "rbdAnchorComTp_TxStartCmac S C (Some p) (s, e) = (RBDANCHORCOM_OK, s1, e')"
    using b L at auth(1) u(1) c(1,2) by (simp add: rbdAnchorComTp_TxStartCmac_def s1_def Let_def)
  have m3: "rd (write_bytes 0 M mm) 0 3 = take 3 M" for mm using auth(2) by (intro rd_eqI) (auto simp: write_bytes_apply)
  let ?b1 = "write_bytes (length X + 3 + 1) (take 3 M) (?b(length X + 3 := tq_TruncFresh q))"
  have b1: "rd ?b1 0 (length (hdr @ X @ tq_TruncFresh q # take 3 M)) = hdr @ X @ tq_TruncFresh q # take 3 M"
    using b has(2) auth(2) by (auto simp: rd_prefix write_bytes_apply nth_append nth_Cons')
  have a: "tx_authenticated S C p RBDANCHORCOM_OK s1 = tx_state RBDANCHORCOM_TX_TRANS_READY p
      (s1\<lparr>anc_TxBuffer := upd2 ?oe ?i (\<lambda>_. ?b1) (anc_TxBuffer s),
          rbdAnchorComTp_MsgTxInfo := upd2 ?oe ?i (\<lambda>x. x\<lparr>mi_Length := u16 (int (mi_Length x) + 4 + 2)\<rparr>) (rbdAnchorComTp_MsgTxInfo s)\<rparr>)"
    by (simp add: tx_authenticated_def Let_def c at s1_def L u(2) m3)
  have "snd (rbdAnchorComTp_TxPart2 S C (Some p) (s, e)) = (tx_authenticated S C p RBDANCHORCOM_OK s1, e')"
    by (simp add: rbdAnchorComTp_TxPart2_def at q cm)
  moreover have "tx_at (tx_authenticated S C p RBDANCHORCOM_OK s1) p = q\<lparr>tq_CmacValue := write_bytes 0 M (tq_CmacValue q), tq_QueueState := RBDANCHORCOM_TX_TRANS_READY\<rparr>"
    unfolding a by (simp add: s1_def at)
  moreover have "anc_TxBuffer (tx_authenticated S C p RBDANCHORCOM_OK s1) ?oe ?i = ?b1" "mi_Length (rbdAnchorComTp_MsgTxInfo (tx_authenticated S C p RBDANCHORCOM_OK s1) ?oe ?i) = length X + 6"
    unfolding a using u(3) by (simp_all add: L)
  ultimately show ?thesis using b1 by (simp add: tx_has_def)
qed

text \<open>A received message in work.\<close>

definition rx_has :: "slot \<Rightarrow> rbdAnchorComTp_RxQueue_st \<Rightarrow> nat list \<Rightarrow> AnchorSt \<Rightarrow> bool" where
  "rx_has p q bytes s \<longleftrightarrow> rx_at s p = q \<and> rd (rx_buf (rq_BufferPtr q) s) 0 (length bytes) = bytes"

lemma rx_formatted:
  assumes lay: "anc_layout R C" and q: "rx_at s p = q" and w: "w = pdu # flag # X @ t # cm" "length cm = 3" "length X + 16 < 65536"
    and b: "b = rx_buf (rq_BufferPtr q) s" "rd b 1 (length w) = w" "rq_DataLen q = Suc (length w)"
    and j: "rbdAnchorComTp_FindIdx C pdu = j" "j < length (rbdAnchorComTp_MsgCfg C)" "j < 256"
    and fresh: "rbdAnchorCom_Fresh_GetRxFreshness R t 8 f = (E_OK, F, f1)" "length F = 8"
    and chan: "chan = rbdAnchorComTp_GetRxChanId R C (q\<lparr>rq_MsgIdx := j\<rparr>) f1"
  shows "\<exists>s1 q1. rbdAnchorComTp_RxFormatForCmac R C (Some p) (s, f) = (RBDANCHORCOM_OK, s1, f1) \<and> rx_has p q1 ([chan, pdu, flag] @ X @ F) s1 \<and>
    rd (rq_CmacValue q1) 0 3 = cm \<and> rq_DataLen q1 = length X + 11 \<and> rq_MsgIdx q1 = j \<and> rq_AnchorId q1 = rq_AnchorId q \<and> rq_QueueState q1 = RBDANCHORCOM_RX_CMAC_READY \<and>
    rq_ErrCounter q1 = rq_ErrCounter q"
proof -
  have bw: "b (1 + k) = w ! k" if "k < length w" for k using arg_cong [OF b(2), of "\<lambda>xs. xs ! k"] that by simp
  have n: "rq_DataLen q = length X + 7" using b(3) w by simp
  have b1: "b 1 = pdu" using bw [of 0] w(1) by simp
  have bt: "b (length X + 3) = t" using bw [of "length X + 2"] w(1) by (simp add: nth_append numeral_3_eq_3)
  have bc: "rd b (length X + 4) 3 = cm"
  proof (rule rd_eqI [OF w(2)])
    fix k
    assume "k < (3 :: nat)"
    then show "b (length X + 4 + k) = cm ! k" using bw [of "length X + 3 + k"] w by (simp add: nth_append nth_Cons' ac_simps)
  qed
  have c: "RBDANCHORCOM_FRESH_LEN R = 8" "RBDANCHORCOM_CHANID_LEN C = 1" "RBDANCHORCOM_CMAC_LEN R = 3" "RBDANCHORCOM_APPEND_LEN R = 4"
    using lay by (simp_all add: anc_layout_def)
  define q2 where "q2 = q\<lparr>rq_MsgIdx := j, rq_TruncFresh := t, rq_CmacValue := write_bytes 0 cm (rq_CmacValue q)\<rparr>"
  have q2': "q\<lparr>rq_MsgIdx := j\<rparr>\<lparr>rq_TruncFresh := t, rq_CmacValue := write_bytes 0 cm (rq_CmacValue (q\<lparr>rq_MsgIdx := j\<rparr>))\<rparr> = q2" by (simp add: q2_def)
  have tf: "rq_TruncFresh q2 = t" by (simp add: q2_def)
  have sub: "length X + 7 - 4 = length X + 3" "length X + 7 - 3 = length X + 4" "4 < length X + 7" by simp_all
  define b2 where "b2 = write_bytes (length X + 3) F (b(0 := chan))"
  define q3 where "q3 = q2\<lparr>rq_DataLen := length X + 11, rq_QueueState := RBDANCHORCOM_RX_CMAC_READY\<rparr>"
  have ch: "rbdAnchorComTp_GetRxChanId R C q2 f1 = chan" by (simp add: chan q2_def rbdAnchorComTp_GetRxChanId_def Let_def split: AncBuild.split)
  have u: "u16 (int (length X + 7) + int 4) = length X + 11" "u8 (int j) = j" using w(3) j(3) by (simp_all add: u16_def u8_def)
  have f: "rbdAnchorComTp_RxFormatForCmac R C (Some p) (s, f) = (RBDANCHORCOM_OK, set_rx p (\<lambda>_. q3) (set_rx_buf (rq_BufferPtr q) b2 s), f1)"
    unfolding rbdAnchorComTp_RxFormatForCmac_def not_null_simps prod.case q Let_def b(1) [symmetric] n c b1 j(1) u(2) if_P [OF j(2)] sub(1,2) if_P [OF sub(3)] bt bc q2' tf
    by (simp add: fresh(1) ch b2_def q3_def u(1) [simplified])
  have "b2 k = ([chan, pdu, flag] @ X @ F) ! k" if k: "k < length X + 11" for k
  proof -
    consider "k = 0" | "1 \<le> k" "k < length X + 3" | "length X + 3 \<le> k" by linarith
    then show ?thesis
    proof cases
      case 2
      then show ?thesis using bw [of "k - 1"] w by (auto simp: b2_def write_bytes_apply nth_append nth_Cons' split: if_split_asm)
    qed (use fresh(2) k in \<open>auto simp: b2_def write_bytes_apply nth_append nth_Cons' numeral_3_eq_3\<close>)
  qed
  then have r: "rd b2 0 (length ([chan, pdu, flag] @ X @ F)) = [chan, pdu, flag] @ X @ F" using fresh(2) by (simp add: rd_prefix)
  have cm: "rd (write_bytes 0 cm mm) 0 3 = cm" for mm using w(2) by (intro rd_eqI) (simp_all add: write_bytes_apply)
  show ?thesis using f r cm
    by (intro exI [of _ "set_rx p (\<lambda>_. q3) (set_rx_buf (rq_BufferPtr q) b2 s)"] exI [of _ q3]) (simp add: rx_has_def q3_def q2_def)
qed

lemma find_idx_id: "find_idx i xs < length xs \<Longrightarrow> cf_PduId (xs ! find_idx i xs) = i"
  by (induction xs) auto

lemma rx_part1_bytes:
  assumes lay: "anc_layout R C" and q: "rx_at s p = q" "rq_QueueState q = RBDANCHORCOM_RX_QUEUED"
    and f: "rbdAnchorComTp_RxFormatForCmac R C (Some p) (s, f) = (RBDANCHORCOM_OK, s1, f1)"
    and q1: "rx_has p q1 (hdr @ X @ F) s1" "length hdr = 3" "length F = 8" "rd (rq_CmacValue q1) 0 3 = cm" "rq_DataLen q1 = length X + 11"
      "rq_QueueState q1 = RBDANCHORCOM_RX_CMAC_READY" "length X + 16 < 65536"
    and v: "rbdAnchorComCsm_Verify R (rq_AnchorId q1) (hdr @ X @ F) cm f1 = (RBDANCHORCOM_OK, f2)"
    and q2: "q2 = q1\<lparr>rq_DataLen := length X + 3, rq_QueueState := (if cf_EncDecFlag (rbdAnchorComTp_MsgCfg C ! rq_MsgIdx q1) then RBDANCHORCOM_RX_DEC_READY else RBDANCHORCOM_RX_PROCESS_READY)\<rparr>"
  shows "\<exists>s2. snd (rbdAnchorComTp_RxPart1 R C (Some p) (s, f)) = (s2, f2) \<and> rx_has p q2 (hdr @ X @ F) s2"
proof -
  have at: "rx_at s1 p = q1" and b: "rd (rx_buf (rq_BufferPtr q1) s1) 0 (length (hdr @ X @ F)) = hdr @ X @ F" using q1(1) by (simp_all add: rx_has_def)
  have c: "RBDANCHORCOM_FRESH_LEN R = 8" "RBDANCHORCOM_CMAC_LEN R = 3" using lay by (simp_all add: anc_layout_def)
  have l: "rq_DataLen q1 = length (hdr @ X @ F)" using q1(2,3,5) by simp
  have cm: "rbdAnchorComTp_RxStartCmac R (Some p) (s1, f1) = (RBDANCHORCOM_OK, s1, f2)"
    unfolding rbdAnchorComTp_RxStartCmac_def not_null_simps prod.case Let_def at l b c(2) q1(4) v by simp
  have pr: "rx_prepare R C p (s, f) = (RBDANCHORCOM_OK, s1, f1)" by (simp add: rx_prepare_def q f)
  have u: "u16 (int (length X + 11) - int 8) = length X + 3" using q1(7) by (simp add: u16_def)
  have "snd (rbdAnchorComTp_RxPart1 R C (Some p) (s, f)) = (rx_verdict R C p RBDANCHORCOM_OK s1, f2)"
    unfolding rbdAnchorComTp_RxPart1_def not_null_simps pr Let_def prod.case at q1(6) cm by simp
  moreover have "rx_at (rx_verdict R C p RBDANCHORCOM_OK s1) p = q2" using u by (simp add: rx_verdict_def at q2 q1(5) c(1))
  moreover have "rx_buf (rq_BufferPtr q2) (rx_verdict R C p RBDANCHORCOM_OK s1) = rx_buf (rq_BufferPtr q1) s1" by (simp add: rx_verdict_def q2)
  ultimately show ?thesis using b by (simp add: rx_has_def)
qed

lemma rx_part2_bytes:
  assumes lay: "anc_layout R C" and q: "rx_has p q (hdr @ X @ F) s" "length hdr = 3" "length F = 8" "rq_DataLen q = length X + 3" "rq_QueueState q = RBDANCHORCOM_RX_DEC_READY"
    and n: "length X + 16 < 65536"
    and d: "rbdAnchorComCsm_Decrypt R (rq_AnchorId q) X F f = (RBDANCHORCOM_OK, P, f')" "length P = length X" "hdr ! 2 AND 15 \<le> length P"
    and q': "q' = q\<lparr>rq_DataLen := length P - (hdr ! 2 AND 15) + 3, rq_QueueState := RBDANCHORCOM_RX_PROCESS_READY\<rparr>"
  shows "\<exists>s'. snd (rbdAnchorComTp_RxPart2 R C (Some p) (s, f)) = (s', f') \<and> rx_has p q' (hdr @ P @ F) s'"
proof -
  let ?b = "rx_buf (rq_BufferPtr q) s"
  have at: "rx_at s p = q" and b: "rd ?b 0 (length (hdr @ X @ F)) = hdr @ X @ F" using q(1) by (simp_all add: rx_has_def)
  have c: "RBDANCHORCOM_FRESH_LEN R = 8" "RBDANCHORCOM_HEADER_LEN C = 3" using lay by (simp_all add: anc_layout_def)
  have x: "rd ?b 3 (length X) = X" "rd ?b (3 + length X) 8 = F" using rd_part [OF b] rd_part [of ?b _ "hdr @ X" F "[]"] b q(2,3) by simp_all
  have u: "u16 (int (length X + 3) - int 3) = length X" using n by (simp add: u16_def)
  define s1 where "s1 = set_rx_buf (rq_BufferPtr q) (write_bytes 3 P ?b) s"
  have r: "rd (write_bytes 3 P ?b) 0 (length (hdr @ P @ F)) = hdr @ P @ F" using b d(2) q(2) by (auto simp: rd_prefix write_bytes_apply nth_append)
  have h2: "write_bytes 3 P ?b 2 = hdr ! 2" using b q(2) by (simp add: rd_prefix write_bytes_apply nth_append)
  have de: "rbdAnchorComTp_RxStartDecryption R C (Some p) (s, f) = (RBDANCHORCOM_OK, s1, f')"
    unfolding rbdAnchorComTp_RxStartDecryption_def not_null_simps prod.case Let_def at q(4) c u x d(1) by (simp add: s1_def)
  have v: "u16 (int (length X + 3) - int (hdr ! 2 AND 15)) = length P - (hdr ! 2 AND 15) + 3"
    using d(2,3) n u16_of_nat [of "length P - (hdr ! 2 AND 15) + 3"] by (simp add: of_nat_diff)
  have "snd (rbdAnchorComTp_RxPart2 R C (Some p) (s, f)) = (rx_decrypted R p RBDANCHORCOM_OK s1, f')"
    unfolding rbdAnchorComTp_RxPart2_def not_null_simps prod.case at q(5) de Let_def by simp
  moreover have "rx_at (rx_decrypted R p RBDANCHORCOM_OK s1) p = q'" using v h2 by (simp add: rx_decrypted_def s1_def at q' q(4))
  moreover have "rx_buf (rq_BufferPtr q') (rx_decrypted R p RBDANCHORCOM_OK s1) = write_bytes 3 P ?b" by (simp add: rx_decrypted_def q' s1_def)
  ultimately show ?thesis using r by (simp add: rx_has_def)
qed

lemma rx_part3_bytes:
  assumes lay: "anc_layout R C" and q: "rx_has p q (hdr @ P @ F) s" "length hdr = 3" "rq_DataLen q = n + 3" "n \<le> length P" "rq_QueueState q = RBDANCHORCOM_RX_PROCESS_READY" "n < 65536"
    and m: "m = rbdAnchorComTp_MsgCfg C ! rq_MsgIdx q" "cf_HasRxIndication m"
  shows "snd (rbdAnchorComTp_RxPart3 R C (Some p) (s, f)) =
    (rx_state RBDANCHORCOM_RX_PROCESS_DONE p s, anc_RxIndication R (rq_MsgIdx q) (rq_AnchorId q) (cf_PduId m) (take n P) f)"
proof -
  have at: "rx_at s p = q" and b: "rd (rx_buf (rq_BufferPtr q) s) 0 (length (hdr @ P @ F)) = hdr @ P @ F" using q(1) by (simp_all add: rx_has_def)
  have "rd (rx_buf (rq_BufferPtr q) s) 3 n = take n P"
  proof (rule rd_eqI)
    fix i
    assume "i < n"
    then show "rx_buf (rq_BufferPtr q) s (3 + i) = take n P ! i" using b q(2,4) by (simp add: rd_prefix nth_append)
  qed (use q(4) in simp)
  moreover have "u16 (int (n + 3) - int 3) = n" using q(6) by (simp add: u16_def)
  moreover have "RBDANCHORCOM_HEADER_LEN C = 3" using lay by (simp add: anc_layout_def)
  ultimately have "rbdAnchorComTp_RxDistributeMsg R C (Some p) (s, f) = (RBDANCHORCOM_OK, s, anc_RxIndication R (rq_MsgIdx q) (rq_AnchorId q) (cf_PduId m) (take n P) f)"
    using m by (simp add: rbdAnchorComTp_RxDistributeMsg_def Let_def at q(3))
  then show ?thesis by (simp add: rbdAnchorComTp_RxPart3_def at q(5))
qed

text \<open>
  The services used for one message. At the sender: the freshness value \<open>F\<close> with its truncation \<open>t\<close>, the ciphertext \<open>X\<close> of the padded payload
  (the payload itself for a message that is not encrypted) and the authenticator \<open>M\<close> of header, payload and freshness. At the receiver: the same freshness value is
  recovered from its truncation, the authenticator is accepted, and decryption gives the padded payload back.
\<close>

definition tx_services :: "'e AncSys \<Rightarrow> AnchorCfg \<Rightarrow> rbdAnchorComTp_Queue_st \<Rightarrow> nat \<Rightarrow> nat list \<Rightarrow> 'e \<Rightarrow> nat list \<Rightarrow> nat list \<Rightarrow> nat \<Rightarrow> nat list \<Rightarrow> nat list \<Rightarrow> bool" where
  "tx_services S C q flag pay e hdr F t X M \<longleftrightarrow>
     (\<exists>e1 e2 e3. let m = rbdAnchorComTp_MsgCfg C ! tq_MsgIdx q; enc = cf_EncDecFlag m in
        rbdAnchorCom_Fresh_GetTxFreshnessTruncData S 8 e = (E_OK, F, t, e1) \<and> length F = 8 \<and>
        hdr = [rbdAnchorComTp_GetTxChanId S C q e1, cf_PduId m, anc_flag enc flag (length pay)] \<and>
        (if enc then rbdAnchorComCsm_Encrypt S (anc_padded enc pay) F e1 = (RBDANCHORCOM_OK, X, e2) else X = pay \<and> e2 = e1) \<and>
        length X = length (anc_padded enc pay) \<and>
        rbdAnchorComCsm_Authenticate S (hdr @ X @ F) e2 = (RBDANCHORCOM_OK, M, e3) \<and> 3 \<le> length M)"

definition rx_services :: "'e AncSys \<Rightarrow> AnchorCfg \<Rightarrow> rbdAnchorComTp_RxQueue_st \<Rightarrow> nat \<Rightarrow> nat list \<Rightarrow> 'e \<Rightarrow> nat list \<Rightarrow> nat list \<Rightarrow> nat \<Rightarrow> nat list \<Rightarrow> nat list \<Rightarrow> 'e \<Rightarrow> bool" where
  "rx_services R C k j pay f hdr F t X M f3 \<longleftrightarrow>
     (\<exists>f1 f2. let enc = cf_EncDecFlag (rbdAnchorComTp_MsgCfg C ! j) in
        rbdAnchorCom_Fresh_GetRxFreshness R t 8 f = (E_OK, F, f1) \<and>
        rbdAnchorComTp_GetRxChanId R C (k\<lparr>rq_MsgIdx := j\<rparr>) f1 = hdr ! 0 \<and>
        rbdAnchorComCsm_Verify R (rq_AnchorId k) (hdr @ X @ F) (take 3 M) f1 = (RBDANCHORCOM_OK, f2) \<and>
        (if enc then rbdAnchorComCsm_Decrypt R (rq_AnchorId k) X F f2 = (RBDANCHORCOM_OK, anc_padded enc pay, f3) else f3 = f2))"

lemma tx_peer_sends:
  assumes lay: "anc_layout S C" and head: "tx_head oe s = Some p" "tx_at s p = q" "tq_QueueState q = RBDANCHORCOM_TX_QUEUED"
      "tq_ErrCounter q < RBDANCHORCOM_MAX_RETRY_COUNT S"
    and b: "b = anc_TxBuffer s (tq_AnchorId q) (tq_MsgIdx q)" "mi_Length (rbdAnchorComTp_MsgTxInfo s (tq_AnchorId q) (tq_MsgIdx q)) = length pay" "rd b 3 (length pay) = pay"
      "length pay + 32 < 65536"
    and serv: "tx_services S C q (b 2) pay e hdr F t X M" and down: "\<And>i info e. fst (PduR_rbdAnchorComTpTransmit S i info e) = E_OK"
    and w: "tx_peer S C oe (s, e) = (s', e')"
  shows "tq_QueueState (tx_at s' p) = RBDANCHORCOM_TX_TRANS_RUNNING \<and>
    rd (anc_TxBuffer s' (tq_AnchorId q) (tq_MsgIdx q)) 1 (mi_Length (rbdAnchorComTp_MsgTxInfo s' (tq_AnchorId q) (tq_MsgIdx q))) = tl hdr @ X @ t # take 3 M"
proof -
  define m where "m = rbdAnchorComTp_MsgCfg C ! tq_MsgIdx q"
  define enc where "enc = cf_EncDecFlag m"
  obtain e1 e2 e3 where fresh: "rbdAnchorCom_Fresh_GetTxFreshnessTruncData S 8 e = (E_OK, F, t, e1)" "length F = 8"
      and hdr: "hdr = [rbdAnchorComTp_GetTxChanId S C q e1, cf_PduId m, anc_flag enc (b 2) (length pay)]"
      and crypt: "if enc then rbdAnchorComCsm_Encrypt S (anc_padded enc pay) F e1 = (RBDANCHORCOM_OK, X, e2) else X = pay \<and> e2 = e1" "length X = length (anc_padded enc pay)"
      and auth: "rbdAnchorComCsm_Authenticate S (hdr @ X @ F) e2 = (RBDANCHORCOM_OK, M, e3)" "3 \<le> length M"
    using serv unfolding tx_services_def Let_def m_def [symmetric] enc_def [symmetric] by blast
  obtain s1 where s1: "snd (rbdAnchorComTp_TxPart1 S C (Some p) (s, e)) = (s1, e2)"
      and has1: "tx_has p (q\<lparr>tq_TruncFresh := t, tq_QueueState := RBDANCHORCOM_TX_CMAC_READY\<rparr>) (length X) (hdr @ X @ F) s1"
    using tx_part1_bytes [OF lay head(2) m_def enc_def head(3) b fresh hdr crypt] by blast
  have l: "length hdr = 3" "length X + 16 < 65536" using hdr crypt(2) b(4) pad_less [of enc "length pay"] by (simp_all add: anc_padded_def)
  define q1 where "q1 = q\<lparr>tq_TruncFresh := t, tq_QueueState := RBDANCHORCOM_TX_CMAC_READY\<rparr>"
  define q2 where "q2 = q1\<lparr>tq_CmacValue := write_bytes 0 M (tq_CmacValue q1), tq_QueueState := RBDANCHORCOM_TX_TRANS_READY\<rparr>"
  have q: "tq_AnchorId q2 = tq_AnchorId q" "tq_MsgIdx q2 = tq_MsgIdx q" "tq_ErrCounter q2 = tq_ErrCounter q" "tq_QueueState q2 = RBDANCHORCOM_TX_TRANS_READY"
    "tq_TruncFresh q1 = t" "tq_QueueState q1 = RBDANCHORCOM_TX_CMAC_READY" by (simp_all add: q2_def q1_def)
  obtain s2 where s2: "snd (rbdAnchorComTp_TxPart2 S C (Some p) (s1, e2)) = (s2, e3)" and has2: "tx_has p q2 (length X + 6) (hdr @ X @ t # take 3 M) s2"
    using tx_part2_bytes [OF lay has1 [folded q1_def] l(1) fresh(2) l(2) q(6) auth] unfolding q(5) q2_def [symmetric] by blast
  have at: "tx_at s2 p = q2" using has2 by (simp add: tx_has_def)
  obtain s3 e4 where s3: "snd (rbdAnchorComTp_TxPart3 S C (Some p) (s2, e3)) = (s3, e4)" by fastforce
  have k3: "anc_TxBuffer s3 = anc_TxBuffer s2" "rbdAnchorComTp_MsgTxInfo s3 = rbdAnchorComTp_MsgTxInfo s2" "tx_at s3 p = q2\<lparr>tq_QueueState := RBDANCHORCOM_TX_TRANS_RUNNING\<rparr>"
    using s3 down by (auto simp: rbdAnchorComTp_TxPart3_def at q rbdAnchorComTp_TxStartTx_def tx_passed_down_def split_beta Let_def)
  have "tx_finish oe s = (Some p, s)" using head by (simp add: tx_finish_def)
  then have "tx_peer S C oe (s, e) = (tx_drop S p s3, e4)" using s1 s2 s3 by (simp add: tx_peer_def split_beta)
  moreover have "tx_drop S p s3 = s3" using k3(3) q(3) head(4) by (simp add: tx_drop_def Let_def)
  ultimately have s': "s' = s3" using w by simp
  have "rd (anc_TxBuffer s3 (tq_AnchorId q) (tq_MsgIdx q)) 0 (length (hdr @ X @ t # take 3 M)) = take 1 hdr @ (tl hdr @ X @ t # take 3 M) @ []"
    using has2 q(1,2) hdr by (simp add: tx_has_def k3)
  from rd_part [OF this] have "rd (anc_TxBuffer s3 (tq_AnchorId q) (tq_MsgIdx q)) 1 (length X + 6) = tl hdr @ X @ t # take 3 M" using hdr auth(2) by (simp add: add.commute)
  moreover have "mi_Length (rbdAnchorComTp_MsgTxInfo s3 (tq_AnchorId q) (tq_MsgIdx q)) = length X + 6" using has2 q(1,2) by (simp add: tx_has_def k3)
  ultimately show ?thesis using k3(3) by (simp add: s')
qed

lemma rx_peer_delivers:
  assumes lay: "anc_layout R C" "0 < RBDANCHORCOM_MAX_RETRY_COUNT R" and head: "rx_head oe r = Some p" "rx_at r p = k" "rq_QueueState k = RBDANCHORCOM_RX_QUEUED" "rq_AnchorId k = oe"
    and w: "w = pdu # flag # X @ t # cm" "cm = take 3 M" "3 \<le> length M" "length X + 16 < 65536"
    and b: "rd (rx_buf (rq_BufferPtr k) r) 1 (length w) = w" "rq_DataLen k = Suc (length w)"
    and j: "rbdAnchorComTp_FindIdx C pdu = j" "j < length (rbdAnchorComTp_MsgCfg C)" "j < 256"
    and m: "m = rbdAnchorComTp_MsgCfg C ! j" "cf_HasRxIndication m" "enc = cf_EncDecFlag m"
    and len: "length X = length (anc_padded enc pay)" "\<not> enc \<Longrightarrow> X = pay" "enc \<Longrightarrow> flag AND 15 = anc_pad enc (length pay)"
    and hdr: "hdr = [chan, pdu, flag]" "length F = 8"
    and serv: "rx_services R C k j pay f hdr F t X M f3" and peer: "rx_peer R C oe (r, f) = (r', f')"
  shows "f' = anc_RxIndication R j oe pdu pay f3 \<and> rbdAnchorComTp_RxHead r' oe = (rbdAnchorComTp_RxHead r oe + 1) mod 16"
proof -
  obtain f1 f2 where fresh: "rbdAnchorCom_Fresh_GetRxFreshness R t 8 f = (E_OK, F, f1)" and chan: "chan = rbdAnchorComTp_GetRxChanId R C (k\<lparr>rq_MsgIdx := j\<rparr>) f1"
      and v: "rbdAnchorComCsm_Verify R (rq_AnchorId k) (hdr @ X @ F) cm f1 = (RBDANCHORCOM_OK, f2)"
      and d: "if enc then rbdAnchorComCsm_Decrypt R (rq_AnchorId k) X F f2 = (RBDANCHORCOM_OK, anc_padded enc pay, f3) else f3 = f2"
    using serv unfolding rx_services_def Let_def m(1) [symmetric] m(3) [symmetric] w(2) [symmetric] hdr(1) by auto
  have cm3: "length cm = 3" using w(2,3) by simp
  obtain s1 q1 where f: "rbdAnchorComTp_RxFormatForCmac R C (Some p) (r, f) = (RBDANCHORCOM_OK, s1, f1)" and h1: "rx_has p q1 (hdr @ X @ F) s1"
      and q1: "rd (rq_CmacValue q1) 0 3 = cm" "rq_DataLen q1 = length X + 11" "rq_MsgIdx q1 = j" "rq_AnchorId q1 = rq_AnchorId k" "rq_QueueState q1 = RBDANCHORCOM_RX_CMAC_READY"
    using rx_formatted [OF lay(1) head(2) w(1) cm3 w(4) refl b j fresh hdr(2) chan] unfolding hdr(1) by blast
  have h3: "length hdr = 3" by (simp add: hdr(1))
  define q2 where "q2 = q1\<lparr>rq_DataLen := length X + 3, rq_QueueState := (if cf_EncDecFlag (rbdAnchorComTp_MsgCfg C ! rq_MsgIdx q1) then RBDANCHORCOM_RX_DEC_READY else RBDANCHORCOM_RX_PROCESS_READY)\<rparr>"
  obtain s2 where s2: "snd (rbdAnchorComTp_RxPart1 R C (Some p) (r, f)) = (s2, f2)" and h2: "rx_has p q2 (hdr @ X @ F) s2"
    using rx_part1_bytes [OF lay(1) head(2,3) f h1 h3 hdr(2) q1(1,2,5) w(4) v [folded q1(4)] q2_def] by blast
  define q3 where "q3 = q2\<lparr>rq_DataLen := length pay + 3, rq_QueueState := RBDANCHORCOM_RX_PROCESS_READY\<rparr>"
  have q3: "rq_MsgIdx q3 = j" "rq_AnchorId q3 = oe" "rq_DataLen q3 = length pay + 3" "rq_QueueState q3 = RBDANCHORCOM_RX_PROCESS_READY"
    by (simp_all add: q3_def q2_def q1 head(4))
  obtain s3 where s3: "snd (rbdAnchorComTp_RxPart2 R C (Some p) (s2, f2)) = (s3, f3)" and h3': "rx_has p q3 (hdr @ anc_padded enc pay @ F) s3"
  proof (cases enc)
    case True
    have dl: "rq_DataLen q2 = length X + 3" and ds: "rq_QueueState q2 = RBDANCHORCOM_RX_DEC_READY" and hd: "hdr ! 2 AND 15 = anc_pad enc (length pay)"
      using True len(3) m by (simp_all add: q2_def q1(3) hdr(1))
    have dec: "rbdAnchorComCsm_Decrypt R (rq_AnchorId q2) X F f2 = (RBDANCHORCOM_OK, anc_padded enc pay, f3)" using d True by (simp add: q2_def q1(4))
    have le: "hdr ! 2 AND 15 \<le> length (anc_padded enc pay)" unfolding hd by (simp add: anc_padded_def)
    have q3': "q3 = q2\<lparr>rq_DataLen := length (anc_padded enc pay) - (hdr ! 2 AND 15) + 3, rq_QueueState := RBDANCHORCOM_RX_PROCESS_READY\<rparr>"
      unfolding hd by (simp add: q3_def anc_padded_def)
    show ?thesis using rx_part2_bytes [OF lay(1) h2 h3 hdr(2) dl ds w(4) dec len(1) [symmetric] le q3'] that by blast
  next
    case False
    then have p: "anc_padded enc pay = pay" "X = pay" "f3 = f2" using len(2) d by (simp_all add: anc_padded_def anc_pad_def)
    have "q3 = q2" using False m by (simp add: q3_def q2_def q1(3) p(2))
    moreover have "rq_QueueState q2 = RBDANCHORCOM_RX_PROCESS_READY" using False m by (simp add: q2_def q1(3))
    ultimately show ?thesis using h2 p that [of s2] by (simp add: rbdAnchorComTp_RxPart2_def rx_has_def)
  qed
  have pn: "length pay \<le> length (anc_padded enc pay)" "length pay < 65536" using len(1) w(4) by (simp_all add: anc_padded_def)
  have pid: "cf_PduId m = pdu" using find_idx_id [of pdu "rbdAnchorComTp_MsgCfg C"] j(1,2) by (simp add: m(1) rbdAnchorComTp_FindIdx_def)
  have st: "rx_stages R C p (r, f) = (rx_state RBDANCHORCOM_RX_PROCESS_DONE p s3, anc_RxIndication R j oe pdu pay f3)"
    using rx_part3_bytes [OF lay(1) h3' h3 q3(3) pn(1) q3(4) pn(2), of m] m q3 pid by (simp add: rx_stages_def s2 s3 anc_padded_def)
  have fr: "entry_frame p r (rx_state RBDANCHORCOM_RX_PROCESS_DONE p s3)" using rx_stages_effect [OF st] lay(2) by blast
  have tail: "rbdAnchorComTp_RxTail r oe \<noteq> rbdAnchorComTp_RxHead r oe"
    using head(1) by (auto simp: rx_head_def rbdAnchorComTp_GetRxQueueHead_def split: if_splits)
  have "rbdAnchorComTp_RxHead (rx_drop R p (rx_state RBDANCHORCOM_RX_PROCESS_DONE p s3)) oe = (rbdAnchorComTp_RxHead r oe + 1) mod 16"
    using fr tail head(2,4) by (simp add: rx_drop_def rbdAnchorComTp_RemoveRxQueueHead_def entry_frame_def Let_def)
  then show ?thesis using peer by (auto simp: rx_peer_stages head(1) st)
qed

text \<open>
  C7. A protected message arrives as it was sent. One cycle of the sender adds channel identifier, message identifier and freshness, pads and
  encrypts the payload where configured, authenticates all of it and passes \<open>w\<close> down. When the receiver holds \<open>w\<close> in a receive buffer, one of its cycles verifies
  it, decrypts it, removes freshness and padding, hands exactly the payload to the upper layer of the message, and takes it from the queue. Freshness,
  identifiers and authenticator never reach the application.
\<close>

theorem anchor_secure_roundtrip:
  assumes sender: "anc_layout S C" "tx_head oe s = Some p" "tx_at s p = q" "tq_QueueState q = RBDANCHORCOM_TX_QUEUED" "tq_ErrCounter q < RBDANCHORCOM_MAX_RETRY_COUNT S"
    and msg: "b = anc_TxBuffer s (tq_AnchorId q) (tq_MsgIdx q)" "mi_Length (rbdAnchorComTp_MsgTxInfo s (tq_AnchorId q) (tq_MsgIdx q)) = length pay"
      "rd b 3 (length pay) = pay" "length pay + 32 < 65536"
    and tx: "tx_services S C q (b 2) pay e hdr F t X M" "\<And>i info e. fst (PduR_rbdAnchorComTpTransmit S i info e) = E_OK" "tx_peer S C oe (s, e) = (s', e')"
      "w = rd (anc_TxBuffer s' (tq_AnchorId q) (tq_MsgIdx q)) (RBDANCHORCOM_CHANID_LEN C) (mi_Length (rbdAnchorComTp_MsgTxInfo s' (tq_AnchorId q) (tq_MsgIdx q)))"
    and receiver: "anc_layout R D" "0 < RBDANCHORCOM_MAX_RETRY_COUNT R" "rx_head oe' r = Some p'" "rx_at r p' = k" "rq_QueueState k = RBDANCHORCOM_RX_QUEUED" "rq_AnchorId k = oe'"
    and arrived: "rd (rx_buf (rq_BufferPtr k) r) 1 (length w) = w" "rq_DataLen k = Suc (length w)"
    and cfg: "m = rbdAnchorComTp_MsgCfg C ! tq_MsgIdx q" "rbdAnchorComTp_FindIdx D (cf_PduId m) = j" "j < length (rbdAnchorComTp_MsgCfg D)" "j < 256"
      "cf_EncDecFlag (rbdAnchorComTp_MsgCfg D ! j) = cf_EncDecFlag m" "cf_HasRxIndication (rbdAnchorComTp_MsgCfg D ! j)"
    and rx: "rx_services R D k j pay f hdr F t X M f3" "rx_peer R D oe' (r, f) = (r', f')"
  shows "f' = anc_RxIndication R j oe' (cf_PduId m) pay f3 \<and> rbdAnchorComTp_RxHead r' oe' = (rbdAnchorComTp_RxHead r oe' + 1) mod 16"
proof -
  let ?enc = "cf_EncDecFlag m"
  obtain e1 e2 e3 where serv: "length F = 8" "hdr = [rbdAnchorComTp_GetTxChanId S C q e1, cf_PduId m, anc_flag ?enc (b 2) (length pay)]"
      "length X = length (anc_padded ?enc pay)" "\<not> ?enc \<longrightarrow> X = pay" "3 \<le> length M"
    using tx(1) unfolding tx_services_def Let_def cfg(1) [symmetric] by auto
  have "w = tl hdr @ X @ t # take 3 M"
    using tx_peer_sends [OF sender msg tx(1-3)] sender(1) tx(4) by (simp add: anc_layout_def)
  then have w: "w = cf_PduId m # anc_flag ?enc (b 2) (length pay) # X @ t # take 3 M" by (simp add: serv(2))
  have n: "length X + 16 < 65536" using serv(3) msg(4) pad_less [of ?enc "length pay"] by (simp add: anc_padded_def)
  show ?thesis
    using serv(3,4) flag_pad by (intro rx_peer_delivers [OF receiver w refl serv(5) n arrived cfg(2-4) refl cfg(6) cfg(5) [symmetric] _ _ _ serv(2,1) rx]) auto
qed

subsection \<open>Witnesses\<close>

text \<open>
  A master and a CC2642 anchor with one encrypted message; the crypto is a toy that satisfies the hypotheses, and the rest of the world is the list of what was
  handed to the upper layers.
\<close>

definition sec_sys :: "AncBuild \<Rightarrow> (nat \<times> nat \<times> nat list) list AncSys" where
  "sec_sys B = \<lparr>anc_build = B, RBDANCHORCOM_FRESH_LEN = 8, RBDANCHORCOM_AES_KEY_LEN = 16, RBDANCHORCOM_CMAC_LEN = 3, RBDANCHORCOM_APPEND_LEN = 4,
     RBDANCHORCOM_PREFIX_LEN = 2, RBDANCHORCOM_MAX_RETRY_COUNT = 3, RBDANCHORCOM_TPCH_BLE = 0, own_CanIdx = (\<lambda>_. 1),
     rbdAnchorCom_Fresh_GetTxFreshnessTruncData = (\<lambda>n e. (E_OK, replicate 8 5, 5, e)), rbdAnchorCom_Fresh_GetRxFreshness = (\<lambda>t n e. (E_OK, replicate 8 t, e)),
     rbdAnchorComCsm_Encrypt = (\<lambda>x f e. (RBDANCHORCOM_OK, map Suc x, e)), rbdAnchorComCsm_Authenticate = (\<lambda>x e. (RBDANCHORCOM_OK, [sum_list x, length x, hd x], e)),
     rbdAnchorComCsm_Verify = (\<lambda>a d c e. (if c = [sum_list d, length d, hd d] then RBDANCHORCOM_OK else RBDANCHORCOM_FAIL, e)),
     rbdAnchorComCsm_Decrypt = (\<lambda>a x f e. (RBDANCHORCOM_OK, map (\<lambda>y. y - 1) x, e)), anc_RxIndication = (\<lambda>i a pdu d e. e @ [(a, pdu, d)]),
     PduR_rbdAnchorComTpTransmit = (\<lambda>_ _ e. (E_OK, e)), StbM_GetCurrentTime = (\<lambda>e. (E_OK, 1, 1, e)), LostCommStatus_pass = (\<lambda>_ _. True), R4Sec_IsCryptoFree = (\<lambda>_. True)\<rparr>"

definition sec_cfg :: AnchorCfg where
  "sec_cfg = anc_demo_cfg\<lparr>RBDANCHORCOM_HEADER_LEN := 3,
     rbdAnchorComTp_MsgCfg := [\<lparr>cf_PduId = 20, cf_Channel = 0, cf_HasRxIndication = True, cf_Length = 40, cf_EncDecFlag = True, cf_Broadcast = False\<rparr>]\<rparr>"

definition sec_entry :: rbdAnchorComTp_Queue_st where
  "sec_entry = \<lparr>tq_MsgIdx = 0, tq_AnchorId = 0, tq_Channel = 0, tq_QueueState = RBDANCHORCOM_TX_QUEUED, tq_ErrCounter = 0, tq_TruncFresh = 0, tq_CmacValue = (\<lambda>_. 0)\<rparr>"

definition sec_sender :: AnchorSt where
  "sec_sender = anc_demo\<lparr>rbdAnchorComTp_MsgTxInfo := (\<lambda>_ _. \<lparr>mi_BufState = RBDANCHORCOM_TPSTATE_HASDATA, mi_Length = 3\<rparr>),
     anc_TxBuffer := (\<lambda>_ _. mem_of [0, 0, 0, 7, 8, 9]), rbdAnchorComTp_TxMsgQueue := (\<lambda>_ _. sec_entry), rbdAnchorComTp_TxTail := (\<lambda>_. 1)\<rparr>"

definition sec_rx_entry :: "nat \<Rightarrow> rbdAnchorComTp_RxQueue_st" where
  "sec_rx_entry n = \<lparr>rq_Channel = 0, rq_AnchorId = 0, rq_IsTempBuf = False, rq_QueueState = RBDANCHORCOM_RX_QUEUED, rq_ErrCounter = 0, rq_BufferPtr = ChRxBuffRef 0 0,
     rq_DataLen = Suc n, rq_MsgIdx = 0, rq_TruncFresh = 0, rq_CmacValue = (\<lambda>_. 0)\<rparr>"

definition sec_receiver :: "nat list \<Rightarrow> AnchorSt" where
  "sec_receiver w = anc_demo\<lparr>rbdAnchorComTp_RxMsgQueue := (\<lambda>_ _. sec_rx_entry (length w)), rbdAnchorComTp_RxTail := (\<lambda>_. 1),
     rbdAnchorComTp_ChRxBuff := (\<lambda>_ _. \<lparr>cd_RxBuffer = write_bytes 1 w (\<lambda>_. 0), cd_RxOffset = Suc (length w), cd_PduId = 20, cd_NeedVerify = True\<rparr>)\<rparr>"

definition sec_wire :: "nat list" where
  "sec_wire = (let s' = fst (tx_peer (sec_sys Build_MASTER_MCU) sec_cfg 0 (sec_sender, []))
     in rd (anc_TxBuffer s' 0 0) 1 (mi_Length (rbdAnchorComTp_MsgTxInfo s' 0 0)))"

lemma anc_demo_ends: "rbdAnchorComTp_RxHead anc_demo oe = 0" "rbdAnchorComTp_TxHead anc_demo oe = 0"
  by (simp_all add: anc_demo_def rbdAnchorComTp_Init_def)

theorem anchor_secure_roundtrip_witness:
  "snd (rx_peer (sec_sys Build_CC26xx) sec_cfg 0 (sec_receiver sec_wire, [])) = [(0, 20, [7, 8, 9])]"
proof -
  let ?S = "sec_sys Build_MASTER_MCU" and ?R = "sec_sys Build_CC26xx"
  define X where "X = map Suc (anc_padded True [7, 8, 9])"
  define hdr where "hdr = [97, 20, anc_flag True 0 (length [7, 8, 9 :: nat])]"
  define F where "F = replicate 8 (5 :: nat)"
  define M where "M = [sum_list (hdr @ X @ F), length (hdr @ X @ F), 97]"
  have lay: "anc_layout (sec_sys B) sec_cfg" for B by (simp add: anc_layout_def sec_sys_def sec_cfg_def anc_demo_cfg_def)
  have chan: "rbdAnchorComTp_GetTxChanId ?S sec_cfg sec_entry e = 97" "rbdAnchorComTp_GetRxChanId ?R sec_cfg (q\<lparr>rq_MsgIdx := 0\<rparr>) e = 97" for e q
    by (simp_all add: rbdAnchorComTp_GetTxChanId_def rbdAnchorComTp_GetRxChanId_def sec_sys_def sec_cfg_def sec_entry_def chanid_sum Let_def u8_def)
  have tx: "tx_services ?S sec_cfg sec_entry 0 [7, 8, 9] [] hdr F 5 X M"
    unfolding tx_services_def Let_def chan
    by (simp add: sec_sys_def sec_cfg_def sec_entry_def F_def hdr_def M_def X_def)
  have rx: "rx_services ?R sec_cfg (sec_rx_entry n) 0 [7, 8, 9] [] hdr F 5 X M []" for n
    unfolding rx_services_def Let_def chan
    by (simp add: sec_sys_def sec_cfg_def F_def hdr_def M_def X_def o_def)
  obtain s' e' where p: "tx_peer ?S sec_cfg 0 (sec_sender, []) = (s', e')" by fastforce
  obtain r' f' where pr: "rx_peer ?R sec_cfg 0 (sec_receiver sec_wire, []) = (r', f')" by fastforce
  have head: "tx_head 0 sec_sender = Some (0, 0)" "rx_head 0 (sec_receiver w) = Some (0, 0)" for w
    by (simp_all add: tx_head_def rx_head_def rbdAnchorComTp_GetTxQueueHead_def rbdAnchorComTp_GetRxQueueHead_def sec_sender_def sec_receiver_def anc_demo_ends)
  let ?q = sec_entry and ?k = "sec_rx_entry (length sec_wire)" and ?b = "mem_of [0, 0, 0, 7, 8, 9]" and ?m = "rbdAnchorComTp_MsgCfg sec_cfg ! tq_MsgIdx sec_entry"
  have i0: "tq_AnchorId ?q = 0" "tq_MsgIdx ?q = 0" by (simp_all add: sec_entry_def)
  have s: "tx_at sec_sender (0, 0) = ?q" "tq_QueueState ?q = RBDANCHORCOM_TX_QUEUED" "tq_ErrCounter ?q < RBDANCHORCOM_MAX_RETRY_COUNT ?S"
    by (simp_all add: tx_at_def sec_sender_def sec_entry_def sec_sys_def)
  have b: "?b = anc_TxBuffer sec_sender (tq_AnchorId ?q) (tq_MsgIdx ?q)" "mi_Length (rbdAnchorComTp_MsgTxInfo sec_sender (tq_AnchorId ?q) (tq_MsgIdx ?q)) = length [7, 8, 9 :: nat]"
    "rd ?b 3 (length [7, 8, 9 :: nat]) = [7, 8, 9]" "length [7, 8, 9 :: nat] + 32 < 65536" "?b 2 = 0"
    by (simp_all add: sec_sender_def rd_mem_of mem_of_def)
  have tx': "tx_services ?S sec_cfg ?q (?b 2) [7, 8, 9] [] hdr F 5 X M" unfolding b(5) by (rule tx)
  have d: "fst (PduR_rbdAnchorComTpTransmit ?S i info e) = E_OK" for i info e by (simp add: sec_sys_def)
  have w: "sec_wire = rd (anc_TxBuffer s' (tq_AnchorId ?q) (tq_MsgIdx ?q)) (RBDANCHORCOM_CHANID_LEN sec_cfg) (mi_Length (rbdAnchorComTp_MsgTxInfo s' (tq_AnchorId ?q) (tq_MsgIdx ?q)))"
    using lay [of Build_MASTER_MCU] by (simp add: sec_wire_def i0 p anc_layout_def)
  have r: "0 < RBDANCHORCOM_MAX_RETRY_COUNT ?R" "rx_at (sec_receiver sec_wire) (0, 0) = ?k" "rq_QueueState ?k = RBDANCHORCOM_RX_QUEUED" "rq_AnchorId ?k = 0"
    by (simp_all add: rx_at_def sec_receiver_def sec_rx_entry_def sec_sys_def)
  have a: "rd (rx_buf (rq_BufferPtr ?k) (sec_receiver sec_wire)) 1 (length sec_wire) = sec_wire" "rq_DataLen ?k = Suc (length sec_wire)"
    using rd_eqI [of sec_wire "length sec_wire" "write_bytes 1 sec_wire (\<lambda>_. 0)" 1] by (simp_all add: sec_receiver_def sec_rx_entry_def write_bytes_apply)
  have c: "rbdAnchorComTp_FindIdx sec_cfg (cf_PduId ?m) = 0" "0 < length (rbdAnchorComTp_MsgCfg sec_cfg)" "(0 :: nat) < 256"
    "cf_EncDecFlag (rbdAnchorComTp_MsgCfg sec_cfg ! 0) = cf_EncDecFlag ?m" "cf_HasRxIndication (rbdAnchorComTp_MsgCfg sec_cfg ! 0)" "cf_PduId ?m = 20"
    by (simp_all add: rbdAnchorComTp_FindIdx_def sec_cfg_def i0)
  have "f' = anc_RxIndication ?R 0 0 (cf_PduId ?m) [7, 8, 9] []"
    by (rule anchor_secure_roundtrip [where S = ?S and C = sec_cfg and oe = 0 and s = sec_sender and p = "(0, 0)" and q = ?q and b = ?b and pay = "[7, 8, 9]" and e = "[]"
        and hdr = hdr and F = F and t = 5 and X = X and M = M and s' = s' and e' = e' and w = sec_wire and R = ?R and D = sec_cfg and oe' = 0 and r = "sec_receiver sec_wire"
        and p' = "(0, 0)" and k = ?k and m = ?m and j = 0 and f = "[]" and ?f3.0 = "[]" and r' = r' and f' = f',
        OF lay head(1) s b(1-4) tx' d p w lay r(1) head(2) r(2-4) a refl c(1-5) rx pr, THEN conjunct1])
  then have "f' = anc_RxIndication ?R 0 0 20 [7, 8, 9] []" unfolding c(6) .
  then show ?thesis by (simp add: pr) (simp add: sec_sys_def)
qed

definition sec_bcast :: AnchorCfg where
  "sec_bcast = sec_cfg\<lparr>rbdAnchorComTp_MsgCfg := [(rbdAnchorComTp_MsgCfg sec_cfg ! 0)\<lparr>cf_Broadcast := True\<rparr>]\<rparr>"

theorem anchor_broadcast_id_mismatch_witness:
  "rbdAnchorComTp_GetTxChanId (sec_sys Build_MASTER_MCU) sec_bcast sec_entry [] \<noteq> rbdAnchorComTp_GetRxChanId (sec_sys Build_CC26xx) sec_bcast (sec_rx_entry 0) []"
proof -
  let ?m = "rbdAnchorComTp_MsgCfg sec_bcast ! 0"
  have "anc_build (sec_sys Build_MASTER_MCU) = Build_MASTER_MCU" "anc_build (sec_sys Build_CC26xx) = Build_CC26xx" "own_CanIdx (sec_sys Build_CC26xx) [] < 16" "0 + 1 = own_CanIdx (sec_sys Build_CC26xx) []"
    "cf_Channel ?m = RBDANCHORCOM_TPCH_BLE (sec_sys Build_MASTER_MCU)" "cf_Broadcast ?m" by (simp_all add: sec_sys_def sec_bcast_def sec_cfg_def)
  moreover have "tq_MsgIdx sec_entry = 0" "tq_AnchorId sec_entry = 0" "rq_MsgIdx (sec_rx_entry 0) = 0" "rq_AnchorId (sec_rx_entry 0) = 0" by (simp_all add: sec_entry_def sec_rx_entry_def)
  ultimately show ?thesis
    using anchor_broadcast_id_mismatch [where M = "sec_sys Build_MASTER_MCU" and A = "sec_sys Build_CC26xx" and f = "[]" and e = "[]" and k = 0 and mm = ?m and ma = ?m
        and CM = sec_bcast and CA = sec_bcast and i = 0 and j = 0 and q = sec_entry and r = "sec_rx_entry 0" and q' = sec_entry and r' = "sec_rx_entry 0"] by simp
qed


definition sec_reject :: "(nat \<times> nat \<times> nat list) list AncSys" where
  "sec_reject = (sec_sys Build_CC26xx)\<lparr>rbdAnchorComCsm_Verify := \<lambda>a d c e. (RBDANCHORCOM_FAIL, e)\<rparr>"

theorem anchor_rx_head_leaves_witness:
  "\<exists>k \<le> 3. rbdAnchorComTp_RxHead (fst ((rx_peer sec_reject sec_cfg 0 ^^ k) (sec_receiver [20, 0, 1, 2, 3, 4, 5], []))) 0 = 1"
proof -
  let ?r = "sec_receiver [20, 0, 1, 2, 3, 4, 5]"
  have "never_pending sec_reject" "RBDANCHORCOM_MAX_RETRY_COUNT sec_reject = 3" by (simp_all add: never_pending_def sec_reject_def sec_sys_def)
  moreover have "rx_head 0 ?r = Some (0, 0)" "rbdAnchorComTp_RxHead ?r 0 = 0" by (simp_all add: rx_head_def rbdAnchorComTp_GetRxQueueHead_def sec_receiver_def anc_demo_ends)
  moreover have "head_waiting (rx_at ?r (0, 0))" "rq_AnchorId (rx_at ?r (0, 0)) = 0" by (simp_all add: head_waiting_def rx_at_def sec_receiver_def sec_rx_entry_def)
  ultimately show ?thesis using anchor_rx_head_leaves [of sec_reject 0 ?r "(0, 0)" sec_cfg "[]"] by simp
qed

theorem anchor_unverified_not_distributed_witness:
  "snd (foldl (anc_step sec_reject sec_cfg) (sec_receiver [20, 0, 1, 2, 3, 4, 5], []) [Anc_CyclicRx, Anc_TpRxIndication 1 E_OK, Anc_CyclicTx, Anc_CyclicRx]) = []"
proof -
  have "anc_quiet sec_reject (\<lambda>e. e)" by (simp add: anc_quiet_def sec_reject_def sec_sys_def)
  moreover have "fst (rbdAnchorComCsm_Verify sec_reject a d c e) \<noteq> RBDANCHORCOM_OK" for a d c e by (simp add: sec_reject_def)
  moreover have "unverified (sec_receiver [20, 0, 1, 2, 3, 4, 5])" by (simp add: unverified_def rx_at_def sec_receiver_def sec_rx_entry_def)
  ultimately show ?thesis by (rule anchor_unverified_not_distributed)
qed

end
