(* ===== verification/ImcTp.thy ===== *)
theory ImcTp
  imports PduR
begin

text \<open>
  The transport protocol between the chips of a node, \<^verbatim>\<open>rbdImc_PduRTp.c\<close> with the types of
  \<^verbatim>\<open>rbdImc_PduR_Types.h\<close>. A message is cut into packets of at most \<^verbatim>\<open>IMCIF_MSG_MAX_LEN\<close> bytes: the first
  carries a zero byte and the length of the message, the others a sequence number. The upper layer
  is reached through the PDU router of theory \<open>PduR\<close>, which the build for the anchor calls directly. The layer
  below (\<^verbatim>\<open>ImcIf\<close>) and the error tracer are not in the repository: they are the fields of \<open>ImcSys\<close>,
  functions on the state \<open>'e\<close> of the rest of the system. A queue item is a value: what the code wrote into
  an item that it then does not queue is lost.
\<close>

subsection \<open>Data\<close>

record rbdImc_TpMsgCfg_st =
  UpperTxFromPduR :: nat
  UpperTxToPduR :: nat
  UpperRxPduId :: nat
  ImcPduId :: nat

record rbdImc_TpTxInfo_st =
  ti_bytesRemaining :: nat
  ti_offset :: nat
  ti_sequence :: nat
  ti_numPktsPending :: nat

record rbdImc_TpRxInfo_st =
  ri_bytesRemaining :: nat
  ri_active :: bool
  ri_sequence :: nat

text \<open>\<^verbatim>\<open>NumMsg\<close> is the length of \<^verbatim>\<open>MsgCfg\<close>.\<close>

type_synonym rbdImc_TpCfg_st = "rbdImc_TpMsgCfg_st list"

record ImcTpSt =
  TpTxInfo :: "nat \<Rightarrow> rbdImc_TpTxInfo_st"
  TpRxInfo :: "nat \<Rightarrow> rbdImc_TpRxInfo_st"

record ImcIf_TxQueue_st =
  iq_Msg :: mem
  iq_Length :: nat

record 'e ImcSys =
  IMCIF_MSG_MAX_LEN :: nat
  ImcIf_GetBuffer :: "nat \<Rightarrow> nat \<Rightarrow> 'e \<Rightarrow> (nat \<times> ImcIf_TxQueue_st) option \<times> 'e"
  ImcIf_QueueAdd :: "nat \<Rightarrow> ImcIf_TxQueue_st \<Rightarrow> 'e \<Rightarrow> 'e"
  ImcDet_ReportError :: "nat \<Rightarrow> nat \<Rightarrow> nat \<Rightarrow> 'e \<Rightarrow> 'e"
  ImcDet_ReportRuntimeError :: "nat \<Rightarrow> nat \<Rightarrow> nat \<Rightarrow> 'e \<Rightarrow> 'e"
  ImcPduDim :: PduR_Dim
  ImcPduR :: "'e PduR_St"

type_synonym 'e ImcW = "ImcTpSt \<times> 'e"

definition RBDIMCPDUR_TP_TX :: nat where "RBDIMCPDUR_TP_TX = 2"
definition RBDIMCPDUR_TP_RX :: nat where "RBDIMCPDUR_TP_RX = 4"
definition RBDIMCPDUR_TP_CANCEL :: nat where "RBDIMCPDUR_TP_CANCEL = 6"
definition RBDIMCPDUR_ERR_NULL :: nat where "RBDIMCPDUR_ERR_NULL = 1"
definition RBDIMCPDUR_ERR_PDU :: nat where "RBDIMCPDUR_ERR_PDU = 2"
definition RBDIMCPDUR_ERR_LENGTH :: nat where "RBDIMCPDUR_ERR_LENGTH = 3"
definition RBDIMCPDUR_ERR_SEQUENCE :: nat where "RBDIMCPDUR_ERR_SEQUENCE = 4"
definition RBDIMCPDUR_ERR_RESULT :: nat where "RBDIMCPDUR_ERR_RESULT = 5"

abbreviation upd_tx :: "nat \<Rightarrow> (rbdImc_TpTxInfo_st \<Rightarrow> rbdImc_TpTxInfo_st) \<Rightarrow> ImcTpSt \<Rightarrow> ImcTpSt" where
  "upd_tx i f s \<equiv> s\<lparr>TpTxInfo := (TpTxInfo s)(i := f (TpTxInfo s i))\<rparr>"

abbreviation upd_rx :: "nat \<Rightarrow> (rbdImc_TpRxInfo_st \<Rightarrow> rbdImc_TpRxInfo_st) \<Rightarrow> ImcTpSt \<Rightarrow> ImcTpSt" where
  "upd_rx i f s \<equiv> s\<lparr>TpRxInfo := (TpRxInfo s)(i := f (TpRxInfo s i))\<rparr>"

subsection \<open>Calls of the router\<close>

text \<open>The inline functions that stand for generated code in the builds without a run-time environment.\<close>

definition PduR_rbdImcTpCopyTxData :: "'e ImcSys \<Rightarrow> nat \<Rightarrow> nat \<Rightarrow> 'e \<Rightarrow> BufReq_ReturnType \<times> nat list \<times> 'e" where
  "PduR_rbdImcTpCopyTxData I i n e =
     (let (r, bs, _, e') = PduR_TpCopyTxData (ImcPduDim I) (ImcPduR I) i (Some (n, True)) None e in (r, bs, e'))"

definition PduR_rbdImcTpTxConfirmation :: "'e ImcSys \<Rightarrow> nat \<Rightarrow> Std_ReturnType \<Rightarrow> 'e \<Rightarrow> 'e" where
  "PduR_rbdImcTpTxConfirmation I = PduR_TpTxConfirmation (ImcPduDim I) (ImcPduR I)"

definition PduR_rbdImcTpStartOfReception :: "'e ImcSys \<Rightarrow> nat \<Rightarrow> nat \<Rightarrow> 'e \<Rightarrow> BufReq_ReturnType \<times> 'e" where
  "PduR_rbdImcTpStartOfReception I i len e =
     (let (r, _, e') = PduR_TpStartOfReception (ImcPduDim I) (ImcPduR I) i len e in (r, e'))"

definition PduR_rbdImcTpCopyRxData :: "'e ImcSys \<Rightarrow> nat \<Rightarrow> nat list \<Rightarrow> 'e \<Rightarrow> BufReq_ReturnType \<times> 'e" where
  "PduR_rbdImcTpCopyRxData I i bs e =
     (let (r, _, e') = PduR_TpCopyRxData (ImcPduDim I) (ImcPduR I) i (Some bs) (length bs) e in (r, e'))"

definition PduR_rbdImcTpRxIndication :: "'e ImcSys \<Rightarrow> nat \<Rightarrow> Std_ReturnType \<Rightarrow> 'e \<Rightarrow> 'e" where
  "PduR_rbdImcTpRxIndication I = PduR_TpRxIndication (ImcPduDim I) (ImcPduR I)"

subsection \<open>Look-up\<close>

fun tp_find :: "(rbdImc_TpMsgCfg_st \<Rightarrow> bool) \<Rightarrow> rbdImc_TpCfg_st \<Rightarrow> nat" where
  "tp_find P [] = 0"
| "tp_find P (c # cs) = (if P c then 0 else Suc (tp_find P cs))"

definition rbdImc_TpFindByImcId :: "rbdImc_TpCfg_st \<Rightarrow> nat \<Rightarrow> nat" where
  "rbdImc_TpFindByImcId C i = tp_find (\<lambda>c. i = ImcPduId c) C"

definition rbdImc_TpFindByPdurTxId :: "rbdImc_TpCfg_st \<Rightarrow> nat \<Rightarrow> nat" where
  "rbdImc_TpFindByPdurTxId C i = tp_find (\<lambda>c. i = UpperTxFromPduR c) C"

subsection \<open>Requests\<close>

definition rbdImcTp_Transmit :: "'e ImcSys \<Rightarrow> rbdImc_TpCfg_st \<Rightarrow> nat \<Rightarrow> PduInfoType option \<Rightarrow> 'e ImcW \<Rightarrow> Std_ReturnType \<times> 'e ImcW" where
  "rbdImcTp_Transmit I C TxPduId PduInfoPtr = (\<lambda>(s, e).
     let PduIdx = rbdImc_TpFindByPdurTxId C TxPduId in
     case PduInfoPtr of
       None \<Rightarrow> (E_NOT_OK, s, ImcDet_ReportError I 0 RBDIMCPDUR_TP_TX RBDIMCPDUR_ERR_NULL e)
     | Some info \<Rightarrow>
         if length C \<le> PduIdx then (E_NOT_OK, s, ImcDet_ReportError I (u8 (int TxPduId)) RBDIMCPDUR_TP_TX RBDIMCPDUR_ERR_PDU e)
         else (E_OK, upd_tx PduIdx (\<lambda>t. t\<lparr>ti_sequence := 0, ti_bytesRemaining := u16 (int (SduLength info)), ti_offset := 0\<rparr>) s, e))"

definition rbdImcTp_CancelTransmit :: "'e ImcSys \<Rightarrow> rbdImc_TpCfg_st \<Rightarrow> nat \<Rightarrow> 'e ImcW \<Rightarrow> Std_ReturnType \<times> 'e ImcW" where
  "rbdImcTp_CancelTransmit I C CanTxPduId = (\<lambda>(s, e).
     let PduIdx = rbdImc_TpFindByPdurTxId C CanTxPduId in
     if length C \<le> PduIdx then (E_NOT_OK, s, ImcDet_ReportError I (u8 (int CanTxPduId)) RBDIMCPDUR_TP_CANCEL RBDIMCPDUR_ERR_PDU e)
     else if ti_bytesRemaining (TpTxInfo s PduIdx) = 0 then (E_NOT_OK, s, e)
     else (E_OK, upd_tx PduIdx (\<lambda>t. t\<lparr>ti_bytesRemaining := 0\<rparr>) s, e))"

subsection \<open>Reception\<close>

definition rbdImc_TpReportRxError :: "'e ImcSys \<Rightarrow> rbdImc_TpCfg_st \<Rightarrow> nat \<Rightarrow> nat \<Rightarrow> nat \<Rightarrow> nat \<Rightarrow> 'e ImcW \<Rightarrow> 'e ImcW" where
  "rbdImc_TpReportRxError I C PduIdx Instance Service Error = (\<lambda>(s, e).
     let e1 = ImcDet_ReportRuntimeError I Instance Service Error e in
     if ri_active (TpRxInfo s PduIdx)
     then (upd_rx PduIdx (\<lambda>r. r\<lparr>ri_active := False\<rparr>) s, PduR_rbdImcTpRxIndication I (UpperRxPduId (C ! PduIdx)) E_NOT_OK e1)
     else (s, e1))"

definition rbdImc_TpRxFirstFrame :: "'e ImcSys \<Rightarrow> rbdImc_TpCfg_st \<Rightarrow> nat \<Rightarrow> nat \<Rightarrow> mem \<Rightarrow> 'e ImcW \<Rightarrow> 'e ImcW" where
  "rbdImc_TpRxFirstFrame I C PduIdx Len Msg = (\<lambda>(s, e).
     let totalMsgLen = u16 (int (Msg 1) * 256 + int (Msg 2));
         bytesThisFrame = u16 (int Len - 3);
         up = UpperRxPduId (C ! PduIdx)
     in if totalMsgLen < bytesThisFrame
        then rbdImc_TpReportRxError I C PduIdx (u8 (int bytesThisFrame)) RBDIMCPDUR_TP_RX RBDIMCPDUR_ERR_LENGTH (s, e)
        else
          let (r1, e1) = PduR_rbdImcTpStartOfReception I up totalMsgLen e;
              (r2, e2) = (if r1 = BUFREQ_OK then PduR_rbdImcTpCopyRxData I up (rd Msg 3 bytesThisFrame) e1 else (r1, e1))
          in if r2 = BUFREQ_OK
             then (upd_rx PduIdx (\<lambda>_. \<lparr>ri_bytesRemaining = u16 (int totalMsgLen - int bytesThisFrame), ri_active = True, ri_sequence = 1\<rparr>) s, e2)
             else (upd_rx PduIdx (\<lambda>r. r\<lparr>ri_active := False\<rparr>) s, e2))"

definition rbdImc_TpRxConsecutiveFrame :: "'e ImcSys \<Rightarrow> rbdImc_TpCfg_st \<Rightarrow> nat \<Rightarrow> nat \<Rightarrow> mem \<Rightarrow> 'e ImcW \<Rightarrow> 'e ImcW" where
  "rbdImc_TpRxConsecutiveFrame I C PduIdx Len Msg = (\<lambda>(s, e).
     let bytesThisFrame = u16 (int Len - 1); info = TpRxInfo s PduIdx in
     if (Msg 0 AND 15) \<noteq> (ri_sequence info AND 15)
     then rbdImc_TpReportRxError I C PduIdx (Msg 0) RBDIMCPDUR_TP_RX RBDIMCPDUR_ERR_SEQUENCE (s, e)
     else if ri_bytesRemaining info < bytesThisFrame
     then rbdImc_TpReportRxError I C PduIdx (u8 (int bytesThisFrame)) RBDIMCPDUR_TP_RX RBDIMCPDUR_ERR_LENGTH (s, e)
     else
       let (r, e1) = PduR_rbdImcTpCopyRxData I (UpperRxPduId (C ! PduIdx)) (rd Msg 1 bytesThisFrame) e in
       if r = BUFREQ_OK
       then (upd_rx PduIdx (\<lambda>x. x\<lparr>ri_bytesRemaining := u16 (int (ri_bytesRemaining x) - int bytesThisFrame),
                                  ri_sequence := u8 (int (ri_sequence x) + 1)\<rparr>) s, e1)
       else rbdImc_TpReportRxError I C PduIdx (u8 (int bytesThisFrame)) RBDIMCPDUR_TP_RX RBDIMCPDUR_ERR_RESULT (s, e1))"

definition tp_rx_end :: "'e ImcSys \<Rightarrow> rbdImc_TpCfg_st \<Rightarrow> nat \<Rightarrow> 'e ImcW \<Rightarrow> 'e ImcW" where
  "tp_rx_end I C PduIdx = (\<lambda>(s, e).
     if ri_bytesRemaining (TpRxInfo s PduIdx) = 0 \<and> ri_active (TpRxInfo s PduIdx)
     then (upd_rx PduIdx (\<lambda>r. r\<lparr>ri_active := False, ri_sequence := 0\<rparr>) s, PduR_rbdImcTpRxIndication I (UpperRxPduId (C ! PduIdx)) E_OK e)
     else (s, e))"

definition rbdImc_TpRxIndication :: "'e ImcSys \<Rightarrow> rbdImc_TpCfg_st \<Rightarrow> nat \<Rightarrow> nat \<Rightarrow> mem option \<Rightarrow> 'e ImcW \<Rightarrow> 'e ImcW" where
  "rbdImc_TpRxIndication I C MsgId Len MsgPtr = (\<lambda>(s, e).
     let PduIdx = rbdImc_TpFindByImcId C MsgId in
     if length C \<le> PduIdx then (s, ImcDet_ReportError I (u8 (int MsgId)) RBDIMCPDUR_TP_RX RBDIMCPDUR_ERR_PDU e)
     else case MsgPtr of
       None \<Rightarrow> (s, ImcDet_ReportError I (u8 (int MsgId)) RBDIMCPDUR_TP_RX RBDIMCPDUR_ERR_NULL e)
     | Some Msg \<Rightarrow>
         if Len < 1 \<or> (Msg 0 = 0 \<and> Len < 3)
         then rbdImc_TpReportRxError I C PduIdx (u8 (int MsgId)) RBDIMCPDUR_TP_RX RBDIMCPDUR_ERR_LENGTH (s, e)
         else tp_rx_end I C PduIdx
                (if Msg 0 = 0 then rbdImc_TpRxFirstFrame I C PduIdx Len Msg (s, e)
                 else rbdImc_TpRxConsecutiveFrame I C PduIdx Len Msg (s, e)))"

subsection \<open>Transmission\<close>

definition rbdImc_TpTxConfirmation :: "'e ImcSys \<Rightarrow> rbdImc_TpCfg_st \<Rightarrow> nat \<Rightarrow> 'e ImcW \<Rightarrow> 'e ImcW" where
  "rbdImc_TpTxConfirmation I C MsgId = (\<lambda>(s, e).
     let PduIdx = rbdImc_TpFindByImcId C MsgId in
     if length C \<le> PduIdx then (s, ImcDet_ReportError I (u8 (int MsgId)) RBDIMCPDUR_TP_RX RBDIMCPDUR_ERR_PDU e)
     else
       let s1 = (if 0 < ti_numPktsPending (TpTxInfo s PduIdx)
                 then upd_tx PduIdx (\<lambda>t. t\<lparr>ti_numPktsPending := ti_numPktsPending t - 1\<rparr>) s else s)
       in if ti_numPktsPending (TpTxInfo s1 PduIdx) = 0 \<and> ti_bytesRemaining (TpTxInfo s1 PduIdx) = 0
          then (s1, PduR_rbdImcTpTxConfirmation I (UpperTxToPduR (C ! PduIdx)) E_OK e)
          else (s1, e))"

text \<open>The protocol bytes of the next packet: their values and, by their number, the position of the payload.\<close>

definition tp_header :: "rbdImc_TpTxInfo_st \<Rightarrow> nat list" where
  "tp_header t =
     (if ti_sequence t = 0
      then [ti_sequence t AND 15, u8 (int (drop_bit 8 (ti_bytesRemaining t))), u8 (int (ti_bytesRemaining t AND 255))]
      else [(ti_sequence t AND 15) OR 32])"

definition tp_cyclic_channel :: "'e ImcSys \<Rightarrow> rbdImc_TpCfg_st \<Rightarrow> nat \<Rightarrow> 'e ImcW \<Rightarrow> 'e ImcW" where
  "tp_cyclic_channel I C PduIdx = (\<lambda>(s, e).
     let t = TpTxInfo s PduIdx; cfg = C ! PduIdx in
     if 0 < ti_bytesRemaining t then
       (case ImcIf_GetBuffer I (ImcPduId cfg) (IMCIF_MSG_MAX_LEN I) e of
          (None, e1) \<Rightarrow> (s, e1)
        | (Some (Channel, QueueItem), e1) \<Rightarrow>
            let pos = length (tp_header t);
                room = u32 (int (IMCIF_MSG_MAX_LEN I) - int pos);
                bytesThisPacket = (if ti_bytesRemaining t < room then ti_bytesRemaining t else room);
                (r, bs, e2) = PduR_rbdImcTpCopyTxData I (UpperTxToPduR cfg) (u16 (int bytesThisPacket)) e1
            in if r = BUFREQ_OK then
                 (upd_tx PduIdx (\<lambda>t. t\<lparr>ti_sequence := u8 (int (ti_sequence t) + 1),
                                        ti_bytesRemaining := u16 (int (ti_bytesRemaining t) - int (u16 (int bytesThisPacket))),
                                        ti_numPktsPending := u8 (int (ti_numPktsPending t) + 1)\<rparr>) s,
                  ImcIf_QueueAdd I Channel
                    (QueueItem\<lparr>iq_Msg := write_bytes pos bs (write_bytes 0 (tp_header t) (iq_Msg QueueItem)),
                               iq_Length := u16 (int (pos + bytesThisPacket))\<rparr>) e2)
               else (s, e2))
     else (s, e))"

definition rbdImc_TpCyclic :: "'e ImcSys \<Rightarrow> rbdImc_TpCfg_st \<Rightarrow> 'e ImcW \<Rightarrow> 'e ImcW" where
  "rbdImc_TpCyclic I C w = fold (tp_cyclic_channel I C) [0..<length C] w"

end
