(* ===== verification/ImcLink.thy ===== *)
theory ImcLink
  imports ImcTp Stations
begin

text \<open>
  The inter-chip transport protocol over many packets. \<open>imc_source\<close> is what its transmission relies on: an upper layer
  that has bytes and a queue below that takes packets. \<open>imc_sink\<close> is what its reception relies on.
\<close>

subsection \<open>The packets of a message\<close>

definition imc_header :: "nat \<Rightarrow> nat \<Rightarrow> nat list" where
  "imc_header q n = (if q = 0 then [0, n div 256, n mod 256] else [32 + q mod 16])"

text \<open>\<open>M\<close> is the size of a packet, \<open>q\<close> the sequence number of the next one.\<close>

function imc_frames :: "nat \<Rightarrow> nat \<Rightarrow> nat list \<Rightarrow> nat list list" where
  "imc_frames M q xs =
     (if xs = [] \<or> M \<le> 3 then []
      else let h = imc_header q (length xs); n = M - length h
           in (h @ take n xs) # imc_frames M (Suc q mod 256) (drop n xs))"
  by pat_completeness auto
termination
  by (relation "measure (\<lambda>(M, q, xs). length xs)") 
    (auto simp: imc_header_def less_diff_conv2 simp flip: length_greater_0_conv)

declare imc_frames.simps [simp del]

lemma imc_frames_Nil [simp]: "imc_frames M q [] = []"
  by (simp add: imc_frames.simps)

lemma imc_frames_Cons:
  "xs \<noteq> [] \<Longrightarrow> 3 < M \<Longrightarrow> n = M - length (imc_header q (length xs)) \<Longrightarrow>
   imc_frames M q xs = (imc_header q (length xs) @ take n xs) # imc_frames M (Suc q mod 256) (drop n xs)"
  by (subst imc_frames.simps) (simp add: Let_def)

lemma nibble_or: "(q mod 16) OR 32 = 32 + q mod (16 :: nat)"
proof -
  have "list_all (\<lambda>q. q OR 32 = 32 + q) [0..<16 :: nat]" by code_simp
  then show ?thesis unfolding list_all_iff by simp
qed

lemma nibble_frame: "(32 + q mod 16) AND 15 = q mod (16 :: nat)"
  unfolding nibble_and using mod_mult_self1 [of "q mod 16" 2 16] by (simp add: add.commute)

lemma tp_header_is: "ti_sequence t < 256 \<Longrightarrow> ti_bytesRemaining t < 65536 \<Longrightarrow> tp_header t = imc_header (ti_sequence t) (ti_bytesRemaining t)"
proof -
  assume q: "ti_sequence t < 256" and n: "ti_bytesRemaining t < 65536"
  have "ti_bytesRemaining t AND 255 = ti_bytesRemaining t mod 256" using take_bit_eq_mask [of 8 "ti_bytesRemaining t"]
    by (simp add: mask_eq_exp_minus_1 take_bit_eq_mod)
  moreover have "u8 (int (drop_bit 8 (ti_bytesRemaining t))) = ti_bytesRemaining t div 256"
    using n by (simp add: drop_bit_eq_div u8_mod)
  ultimately show ?thesis by (simp add: tp_header_def imc_header_def u8_mod nibble_and nibble_or)
qed

subsection \<open>Turns of a station\<close>

text \<open>Channel \<open>i\<close> serves the message with router identifier \<open>h\<close> and packet identifier \<open>mid\<close>.\<close>

definition imc_channel :: "rbdImc_TpCfg_st \<Rightarrow> nat \<Rightarrow> nat \<Rightarrow> nat \<Rightarrow> bool" where
  "imc_channel C i h mid \<longleftrightarrow> i < length C \<and> UpperTxToPduR (C ! i) = h \<and> ImcPduId (C ! i) = mid \<and> rbdImc_TpFindByImcId C mid = i"

text \<open>No other channel has anything to send.\<close>

definition imc_only :: "rbdImc_TpCfg_st \<Rightarrow> nat \<Rightarrow> ImcTpSt \<Rightarrow> bool" where
  "imc_only C i s \<longleftrightarrow> (\<forall>j < length C. j \<noteq> i \<longrightarrow> ti_bytesRemaining (TpTxInfo s j) = 0)"

text \<open>A turn: one call of the cyclic function, then the confirmation of the packet.\<close>

definition imc_turn :: "'e ImcSys \<Rightarrow> rbdImc_TpCfg_st \<Rightarrow> nat \<Rightarrow> 'e ImcW \<Rightarrow> 'e ImcW" where
  "imc_turn I C m w = rbdImc_TpTxConfirmation I C m (rbdImc_TpCyclic I C w)"

lemma channel_idle: "ti_bytesRemaining (TpTxInfo s j) = 0 \<Longrightarrow> tp_cyclic_channel I C j (s, e) = (s, e)"
  by (simp add: tp_cyclic_channel_def)

lemma channels_idle: "(\<And>j. j \<in> set js \<Longrightarrow> ti_bytesRemaining (TpTxInfo s j) = 0) \<Longrightarrow> fold (tp_cyclic_channel I C) js (s, e) = (s, e)"
  by (induction js) (simp_all add: channel_idle)

lemma channel_keeps: "j \<noteq> i \<Longrightarrow> TpTxInfo (fst (tp_cyclic_channel I C i w)) j = TpTxInfo (fst w) j"
  by (cases w) (auto simp: tp_cyclic_channel_def Let_def split: prod.split option.split)

lemma cyclic_one:
  assumes "i < length C" "imc_only C i s"
  shows "rbdImc_TpCyclic I C (s, e) = tp_cyclic_channel I C i (s, e)"
proof -
  obtain s1 e1 where w: "tp_cyclic_channel I C i (s, e) = (s1, e1)" by (cases "tp_cyclic_channel I C i (s, e)")
  have "[0..<length C] = [0..<i] @ i # [Suc i..<length C]" using assms(1) upt_add_eq_append [of 0 i "length C - i"]
    by (simp add: upt_conv_Cons)
  moreover have "fold (tp_cyclic_channel I C) [0..<i] (s, e) = (s, e)"
    using assms by (intro channels_idle) (auto simp: imc_only_def)
  moreover have "fold (tp_cyclic_channel I C) [Suc i..<length C] (s1, e1) = (s1, e1)"
    using assms channel_keeps [of _ i I C "(s, e)"] w by (intro channels_idle) (auto simp: imc_only_def)
  ultimately show ?thesis using w by (simp add: rbdImc_TpCyclic_def)
qed

subsection \<open>Interface: a source of bytes over a packet queue\<close>

locale imc_source =
  fixes I :: "'e ImcSys" and h :: nat and mid :: nat
    and pending :: "'e \<Rightarrow> nat list" and sent :: "'e \<Rightarrow> nat list list" and live :: "'e \<Rightarrow> bool"
  assumes fetch: "live e \<Longrightarrow> n \<le> length (pending e) \<Longrightarrow>
      \<exists>e'. PduR_rbdImcTpCopyTxData I h n e = (BUFREQ_OK, take n (pending e), e') \<and> live e' \<and>
           pending e' = drop n (pending e) \<and> sent e' = sent e"
    and buffer: "live e \<Longrightarrow> \<exists>ch q e'. ImcIf_GetBuffer I mid (IMCIF_MSG_MAX_LEN I) e = (Some (ch, q), e') \<and> live e' \<and>
           pending e' = pending e \<and> sent e' = sent e"
    and queue: "live e \<Longrightarrow> live (ImcIf_QueueAdd I ch q e) \<and> pending (ImcIf_QueueAdd I ch q e) = pending e \<and>
           sent (ImcIf_QueueAdd I ch q e) = sent e @ [rd (iq_Msg q) 0 (iq_Length q)]"
begin

text \<open>One cycle of a channel with data queues the next packet of the message.\<close>

lemma packet_sent:
  assumes cfg: "UpperTxToPduR (C ! i) = h" "ImcPduId (C ! i) = mid"
    and M: "3 < IMCIF_MSG_MAX_LEN I" "IMCIF_MSG_MAX_LEN I < 65536"
    and t: "t = TpTxInfo s i" "ti_sequence t < 256" "ti_numPktsPending t < 256"
    and up: "live e" "pending e = xs" "ti_bytesRemaining t = length xs" "xs \<noteq> []" "length xs < 65536"
    and hb: "hb = imc_header (ti_sequence t) (length xs)" and n: "n = IMCIF_MSG_MAX_LEN I - length hb"
  obtains e' where "tp_cyclic_channel I C i (s, e) =
      (upd_tx i (\<lambda>t. t\<lparr>ti_sequence := Suc (ti_sequence t) mod 256, ti_bytesRemaining := length (drop n xs),
                       ti_numPktsPending := Suc (ti_numPktsPending t) mod 256\<rparr>) s, e')"
    "live e'" "pending e' = drop n xs" "sent e' = sent e @ [hb @ take n xs]"
proof -
  have th: "tp_header t = hb" using tp_header_is [of t] t up by (simp add: hb)
  have lh: "length hb \<le> 3" by (simp add: hb imc_header_def)
  let ?b = "min n (length xs)"
  have room: "u32 (int (IMCIF_MSG_MAX_LEN I) - int (length hb)) = n"
    using M lh by (simp add: n u32_diff)
  have b: "(if length xs < n then length xs else n) = ?b" "u16 (int ?b) = ?b" "u16 (int (length hb + ?b)) = length hb + ?b"
    "u16 (int (length xs) - int ?b) = length (drop n xs)" "take ?b xs = take n xs" "drop ?b xs = drop n xs"
    using M lh up(5) u16_of_nat [of ?b] u16_of_nat [of "length hb + ?b"] u16_of_nat [of "length xs - ?b"] by (auto simp: n min_def of_nat_diff)
  obtain ch q e1 where e1: "ImcIf_GetBuffer I mid (IMCIF_MSG_MAX_LEN I) e = (Some (ch, q), e1)" "live e1" "pending e1 = xs" "sent e1 = sent e"
    using buffer [OF up(1)] up(2) by auto
  obtain e2 where e2: "PduR_rbdImcTpCopyTxData I h ?b e1 = (BUFREQ_OK, take n xs, e2)" "live e2" "pending e2 = drop n xs" "sent e2 = sent e"
    using fetch [OF e1(2), of ?b] e1(3,4) b(5,6) by auto
  let ?q = "q\<lparr>iq_Msg := write_bytes (length hb) (take n xs) (write_bytes 0 hb (iq_Msg q)), iq_Length := length hb + ?b\<rparr>"
  have "rd (iq_Msg ?q) 0 (iq_Length ?q) = hb @ take n xs"
    by (rule rd_eqI) (auto simp: write_bytes_apply nth_append)
  moreover have "tp_cyclic_channel I C i (s, e) =
      (upd_tx i (\<lambda>t. t\<lparr>ti_sequence := Suc (ti_sequence t) mod 256, ti_bytesRemaining := length (drop n xs),
                       ti_numPktsPending := Suc (ti_numPktsPending t) mod 256\<rparr>) s, ImcIf_QueueAdd I ch ?q e2)"
    using up(3,4) b(2-4) e1(1) e2(1) cfg th room u8_mod [of "Suc (ti_sequence t)"] u8_mod [of "Suc (ti_numPktsPending t)"]
    by (simp add: tp_cyclic_channel_def Let_def b(1) t(1) [symmetric] add.commute cong: if_cong)
  ultimately show thesis using queue [OF e2(2), of ch ?q] e2(3,4) by (intro that [of "ImcIf_QueueAdd I ch ?q e2"]) simp_all
qed

text \<open>After one turn per packet the message is in the queue below and its transmission is confirmed.\<close>

lemma message_queued:
  assumes C: "imc_channel C i h mid" and M: "3 < IMCIF_MSG_MAX_LEN I" "IMCIF_MSG_MAX_LEN I < 65536"
    and t: "ti_sequence (TpTxInfo s i) < 256" "ti_numPktsPending (TpTxInfo s i) = 0" and idle: "imc_only C i s"
    and up: "live e" "pending e = xs" "ti_bytesRemaining (TpTxInfo s i) = length xs" "xs \<noteq> []" "length xs < 65536"
    and fs: "fs = imc_frames (IMCIF_MSG_MAX_LEN I) (ti_sequence (TpTxInfo s i)) xs"
  shows "\<exists>s' e'. (imc_turn I C mid ^^ length fs) (s, e) = (s', PduR_rbdImcTpTxConfirmation I h E_OK e') \<and> live e' \<and>
    sent e' = sent e @ fs \<and> ti_bytesRemaining (TpTxInfo s' i) = 0 \<and> ti_numPktsPending (TpTxInfo s' i) = 0"
  using t idle up fs
proof (induction "length xs" arbitrary: xs s e fs rule: less_induct)
  case less
  let ?t = "TpTxInfo s i" and ?M = "IMCIF_MSG_MAX_LEN I"
  define hb n where "hb = imc_header (ti_sequence ?t) (length xs)" and "n = ?M - length hb"
  have c: "UpperTxToPduR (C ! i) = h" "ImcPduId (C ! i) = mid" "i < length C" "rbdImc_TpFindByImcId C mid = i" using C by (auto simp: imc_channel_def)
  have fs: "fs = (hb @ take n xs) # imc_frames ?M (Suc (ti_sequence ?t) mod 256) (drop n xs)"
    using less.prems(7,9) M imc_frames_Cons hb_def n_def by simp
  obtain e1 where e1: "tp_cyclic_channel I C i (s, e) =
      (upd_tx i (\<lambda>t. t\<lparr>ti_sequence := Suc (ti_sequence t) mod 256, ti_bytesRemaining := length (drop n xs), ti_numPktsPending := 1\<rparr>) s, e1)"
    "live e1" "pending e1 = drop n xs" "sent e1 = sent e @ [hb @ take n xs]"
    using packet_sent [OF c(1,2) M refl less.prems(1) _ less.prems(4-8) hb_def n_def] less.prems(2) by auto
  let ?s = "upd_tx i (\<lambda>t. t\<lparr>ti_sequence := Suc (ti_sequence t) mod 256, ti_bytesRemaining := length (drop n xs), ti_numPktsPending := 0\<rparr>) s"
  have turn: "imc_turn I C mid (s, e) = (?s, if drop n xs = [] then PduR_rbdImcTpTxConfirmation I h E_OK e1 else e1)"
    unfolding imc_turn_def cyclic_one [OF c(3) less.prems(3)] e1(1) using c by (simp add: rbdImc_TpTxConfirmation_def Let_def)
  show ?case
  proof (cases "drop n xs = []")
    case True
    then show ?thesis using turn e1 fs by auto
  next
    case False
    have n: "0 < n" using M by (simp add: n_def hb_def imc_header_def)
    have l: "length (drop n xs) < length xs" using n less.prems(7) by auto
    have i: "imc_only C i ?s" using less.prems(3) by (simp add: imc_only_def)
    show ?thesis
      using less.hyps [OF l, of ?s e1 "imc_frames ?M (Suc (ti_sequence ?t) mod 256) (drop n xs)"] i e1(2-4) False less.prems(8) turn fs
      by (auto simp del: funpow.simps simp: funpow_Suc_right)
  qed
qed

end

subsection \<open>Interface: a sink of bytes\<close>

definition imc_receive :: "'e ImcSys \<Rightarrow> rbdImc_TpCfg_st \<Rightarrow> nat \<Rightarrow> nat list \<Rightarrow> 'e ImcW \<Rightarrow> 'e ImcW" where
  "imc_receive I C mid f w = rbdImc_TpRxIndication I C mid (length f) (Some (mem_of f)) w"

definition imc_rx_channel :: "rbdImc_TpCfg_st \<Rightarrow> nat \<Rightarrow> nat \<Rightarrow> nat \<Rightarrow> bool" where
  "imc_rx_channel C i h mid \<longleftrightarrow> i < length C \<and> UpperRxPduId (C ! i) = h \<and> rbdImc_TpFindByImcId C mid = i"

locale imc_sink =
  fixes I :: "'e ImcSys" and h :: nat
    and stored :: "'e \<Rightarrow> nat list" and room :: "'e \<Rightarrow> nat" and ready :: "'e \<Rightarrow> bool" and idle :: "'e \<Rightarrow> bool" and cap :: nat
  assumes start: "idle e \<Longrightarrow> n \<le> cap \<Longrightarrow>
      \<exists>e'. PduR_rbdImcTpStartOfReception I h n e = (BUFREQ_OK, e') \<and> ready e' \<and> stored e' = [] \<and> room e' = cap"
    and copy: "ready e \<Longrightarrow> length d \<le> room e \<Longrightarrow>
      \<exists>e'. PduR_rbdImcTpCopyRxData I h d e = (BUFREQ_OK, e') \<and> ready e' \<and> stored e' = stored e @ d \<and> room e' = room e - length d"
    and ready_idle: "ready e \<Longrightarrow> idle e"
begin

lemma cf_received:
  assumes C: "imc_rx_channel C i h mid"
    and r: "TpRxInfo s i = \<lparr>ri_bytesRemaining = length xs, ri_active = True, ri_sequence = q\<rparr>" "q < 256"
    and up: "ready e" "length xs \<le> room e" "length xs < 65536" "length (take n xs) < 65535"
  obtains e' where "ready e'" "stored e' = stored e @ take n xs" "room e' = room e - length (take n xs)"
    "imc_receive I C mid ([32 + q mod 16] @ take n xs) (s, e) =
       (if drop n xs = []
        then (upd_rx i (\<lambda>_. \<lparr>ri_bytesRemaining = 0, ri_active = False, ri_sequence = 0\<rparr>) s, PduR_rbdImcTpRxIndication I h E_OK e')
        else (upd_rx i (\<lambda>_. \<lparr>ri_bytesRemaining = length (drop n xs), ri_active = True, ri_sequence = Suc q mod 256\<rparr>) s, e'))"
proof -
  let ?d = "take n xs" and ?f = "[32 + q mod 16] @ take n xs"
  have le: "length ?d \<le> room e" using up(2) by simp
  obtain e' where e': "PduR_rbdImcTpCopyRxData I h ?d e = (BUFREQ_OK, e')" "ready e'" "stored e' = stored e @ ?d" "room e' = room e - length ?d"
    using copy [OF up(1), of ?d, OF le] by blast
  have c: "i < length C" "UpperRxPduId (C ! i) = h" "rbdImc_TpFindByImcId C mid = i" using C by (auto simp: imc_rx_channel_def)
  have k: "length xs - length ?d = length (drop n xs)" by (simp add: min_def)
  have m: "mem_of ?f 0 = 32 + q mod 16" "rd (mem_of ?f) 1 (length ?d) = ?d"
    by (auto simp: mem_of_def rd_def intro!: nth_equalityI)
  have u: "u16 (int (length ?f) - 1) = length ?d" "u16 (int (length xs) - int (length ?d)) = length (drop n xs)" "u8 (int q + 1) = Suc q mod 256"
    using up(3,4) u16_of_nat [of "length ?d"] u16_of_nat [of "length xs - length ?d"] u8_mod [of "Suc q"] by (auto simp: of_nat_diff k add.commute)
  have cf: "rbdImc_TpRxConsecutiveFrame I C i (length ?f) (mem_of ?f) (s, e) =
      (upd_rx i (\<lambda>_. \<lparr>ri_bytesRemaining = length (drop n xs), ri_active = True, ri_sequence = Suc q mod 256\<rparr>) s, e')"
    unfolding rbdImc_TpRxConsecutiveFrame_def u(1) m split Let_def r c(2) nibble_frame
    using e'(1) u(2,3) r(2) by (simp add: nibble_and)
  have "imc_receive I C mid ?f (s, e) = tp_rx_end I C i (rbdImc_TpRxConsecutiveFrame I C i (length ?f) (mem_of ?f) (s, e))"
    using c m(1) by (simp add: imc_receive_def rbdImc_TpRxIndication_def Let_def)
  then show thesis using c by (intro that [OF e'(2-4)]) (simp only: cf, simp add: tp_rx_end_def)
qed

lemma rest_received:
  assumes C: "imc_rx_channel C i h mid" and M: "3 < M" "M < 65536"
    and r: "TpRxInfo s i = \<lparr>ri_bytesRemaining = length xs, ri_active = True, ri_sequence = q\<rparr>" "0 < q"
    and up: "ready e" "length xs \<le> room e" "xs \<noteq> []" "length xs < 65536" "length xs \<le> (256 - q) * (M - 1)"
  shows "\<exists>s' e'. fold (imc_receive I C mid) (imc_frames M q xs) (s, e) = (s', PduR_rbdImcTpRxIndication I h E_OK e') \<and> ready e' \<and>
    stored e' = stored e @ xs \<and> \<not> ri_active (TpRxInfo s' i)"
  using r up
proof (induction "length xs" arbitrary: xs s e q rule: less_induct)
  case less
  have q: "q < 256" using less.prems(5,7) by (cases "q < 256") auto
  let ?n = "M - 1"
  have fs: "imc_frames M q xs = ([32 + q mod 16] @ take ?n xs) # imc_frames M (Suc q mod 256) (drop ?n xs)"
    using imc_frames_Cons [OF less.prems(5) M(1) refl] less.prems(2) by (simp add: imc_header_def)
  obtain e1 where e1: "ready e1" "stored e1 = stored e @ take ?n xs" "room e1 = room e - length (take ?n xs)"
    "imc_receive I C mid ([32 + q mod 16] @ take ?n xs) (s, e) =
       (if drop ?n xs = []
        then (upd_rx i (\<lambda>_. \<lparr>ri_bytesRemaining = 0, ri_active = False, ri_sequence = 0\<rparr>) s, PduR_rbdImcTpRxIndication I h E_OK e1)
        else (upd_rx i (\<lambda>_. \<lparr>ri_bytesRemaining = length (drop ?n xs), ri_active = True, ri_sequence = Suc q mod 256\<rparr>) s, e1))"
    by (rule cf_received [OF C less.prems(1) q less.prems(3,4,6), of ?n]) (use M in simp)
  show ?case
  proof (cases "drop ?n xs = []")
    case True
    then show ?thesis using e1 fs by (auto simp: imc_frames_Nil)
  next
    case False
    have b: "length (drop ?n xs) \<le> (256 - Suc q) * (M - 1)"
      using less.prems(7) q by (simp add: Suc_diff_Suc [symmetric])
    have q': "Suc q mod 256 = Suc q" using b False q by (cases "Suc q = 256") auto
    have l: "length (drop ?n xs) < length xs" using M less.prems(5) by (cases xs) auto
    let ?s = "upd_rx i (\<lambda>_. \<lparr>ri_bytesRemaining = length (drop ?n xs), ri_active = True, ri_sequence = Suc q\<rparr>) s"
    have st: "stored e1 @ drop ?n xs = stored e @ xs" by (simp add: e1(2))
    show ?thesis
      using less.hyps [OF l, of ?s "Suc q" e1] e1(1,3,4) False b less.prems(4,6) st unfolding fs q' by simp
  qed
qed

lemma ff_received:
  assumes C: "imc_rx_channel C i h mid" and len: "length xs \<le> cap" "length xs < 65536" "length (take n xs) < 65533" and idle: "idle e"
  obtains e' where "ready e'" "stored e' = take n xs" "room e' = cap - length (take n xs)"
    "imc_receive I C mid (imc_header 0 (length xs) @ take n xs) (s, e) =
       (if drop n xs = []
        then (upd_rx i (\<lambda>_. \<lparr>ri_bytesRemaining = 0, ri_active = False, ri_sequence = 0\<rparr>) s, PduR_rbdImcTpRxIndication I h E_OK e')
        else (upd_rx i (\<lambda>_. \<lparr>ri_bytesRemaining = length (drop n xs), ri_active = True, ri_sequence = 1\<rparr>) s, e'))"
proof -
  let ?d = "take n xs" and ?f = "[0, length xs div 256, length xs mod 256] @ take n xs"
  obtain e1 where e1: "PduR_rbdImcTpStartOfReception I h (length xs) e = (BUFREQ_OK, e1)" "ready e1" "stored e1 = []" "room e1 = cap"
    using start [OF idle len(1)] by blast
  have le: "length ?d \<le> room e1" using e1(4) len(1) by simp
  obtain e' where e': "PduR_rbdImcTpCopyRxData I h ?d e1 = (BUFREQ_OK, e')" "ready e'" "stored e' = ?d" "room e' = cap - length ?d"
    using copy [OF e1(2), of ?d, OF le] e1(3,4) by auto
  have c: "i < length C" "UpperRxPduId (C ! i) = h" "rbdImc_TpFindByImcId C mid = i" using C by (auto simp: imc_rx_channel_def)
  have k: "length xs - length ?d = length (drop n xs)" by (simp add: min_def)
  have m: "mem_of ?f 0 = 0" "mem_of ?f 1 = length xs div 256" "mem_of ?f 2 = length xs mod 256" "rd (mem_of ?f) 3 (length ?d) = ?d"
    by (auto simp: mem_of_def rd_def numeral_2_eq_2 numeral_3_eq_3 intro!: nth_equalityI)
  have u: "u16 (int (length ?f) - 3) = length ?d" "u16 (int (length xs) - int (length ?d)) = length (drop n xs)"
    "u16 (int (length xs div 256) * 256 + int (length xs mod 256)) = length xs"
    using len(2,3) u16_of_nat [of "length ?d"] u16_of_nat [of "length xs - length ?d"] u16_of_nat [of "length xs"]
    by (auto simp: of_nat_diff k zdiv_int zmod_int mult.commute [of _ 256])
  have le2: "\<not> length xs < length ?d" by simp
  have ff: "rbdImc_TpRxFirstFrame I C i (length ?f) (mem_of ?f) (s, e) =
      (upd_rx i (\<lambda>_. \<lparr>ri_bytesRemaining = length (drop n xs), ri_active = True, ri_sequence = 1\<rparr>) s, e')"
    unfolding rbdImc_TpRxFirstFrame_def u m split Let_def c(2) if_not_P [OF le2] e1(1) by (simp only: if_True split e'(1) u refl simp_thms)
  have "imc_receive I C mid ?f (s, e) = tp_rx_end I C i (rbdImc_TpRxFirstFrame I C i (length ?f) (mem_of ?f) (s, e))"
    using c m(1) by (simp add: imc_receive_def rbdImc_TpRxIndication_def Let_def)
  then show thesis using c by (intro that [OF e'(2-4)]) (simp only: ff imc_header_def if_True simp_thms, simp add: tp_rx_end_def)
qed

text \<open>
  The packets of a message leave it, whole and once, with the upper layer, up to the length at which the 8-bit sequence
  number of the sender starts again at zero.
\<close>

lemma message_assembled:
  assumes C: "imc_rx_channel C i h mid" and M: "3 < M" "M < 65536" and idle: "idle e"
    and len: "xs \<noteq> []" "length xs \<le> cap" "length xs < 65536" "length xs \<le> (M - 3) + 255 * (M - 1)"
  shows "\<exists>s' e'. fold (imc_receive I C mid) (imc_frames M 0 xs) (s, e) = (s', PduR_rbdImcTpRxIndication I h E_OK e') \<and> ready e' \<and>
    stored e' = xs \<and> \<not> ri_active (TpRxInfo s' i)"
proof -
  let ?n = "M - 3"
  have fs: "imc_frames M 0 xs = (imc_header 0 (length xs) @ take ?n xs) # imc_frames M 1 (drop ?n xs)"
    using imc_frames_Cons [OF len(1) M(1) refl] by (simp add: imc_header_def numeral_3_eq_3)
  obtain e1 where e1: "ready e1" "stored e1 = take ?n xs" "room e1 = cap - length (take ?n xs)"
    "imc_receive I C mid (imc_header 0 (length xs) @ take ?n xs) (s, e) =
       (if drop ?n xs = []
        then (upd_rx i (\<lambda>_. \<lparr>ri_bytesRemaining = 0, ri_active = False, ri_sequence = 0\<rparr>) s, PduR_rbdImcTpRxIndication I h E_OK e1)
        else (upd_rx i (\<lambda>_. \<lparr>ri_bytesRemaining = length (drop ?n xs), ri_active = True, ri_sequence = 1\<rparr>) s, e1))"
    by (rule ff_received [OF C len(2,3) _ idle, of ?n]) (use M in simp)
  show ?thesis
  proof (cases "drop ?n xs = []")
    case True
    then show ?thesis using e1 fs by auto
  next
    case False
    let ?s = "upd_rx i (\<lambda>_. \<lparr>ri_bytesRemaining = length (drop ?n xs), ri_active = True, ri_sequence = 1\<rparr>) s"
    have "\<exists>s' e'. fold (imc_receive I C mid) (imc_frames M 1 (drop ?n xs)) (?s, e1) = (s', PduR_rbdImcTpRxIndication I h E_OK e') \<and> ready e' \<and>
      stored e' = stored e1 @ drop ?n xs \<and> \<not> ri_active (TpRxInfo s' i)"
      by (rule rest_received [OF C M]) (use e1 len False in auto)
    then show ?thesis using False e1 by (simp add: fs)
  qed
qed

text \<open>
  Behind packet 255 the sequence number of the sender is zero again. The next packet looks like a first one and announces
  the rest of the message; the receiver starts anew and ends up with that rest only.
\<close>

lemma packets_before:
  assumes C: "imc_rx_channel C i h mid" and M: "3 < M" "M < 65536"
    and r: "TpRxInfo s i = \<lparr>ri_bytesRemaining = length xs, ri_active = True, ri_sequence = q\<rparr>" "0 < q" "q < 256" "q + k \<le> 256"
    and up: "ready e" "length xs \<le> room e" "length xs < 65536" "k * (M - 1) < length xs"
  shows "\<exists>s' e' fs. imc_frames M q xs = fs @ imc_frames M ((q + k) mod 256) (drop (k * (M - 1)) xs) \<and>
    fold (imc_receive I C mid) fs (s, e) = (s', e') \<and> ready e'"
  using r up
proof (induction k arbitrary: xs s e q)
  case 0
  then show ?case by (intro exI [of _ s] exI [of _ e] exI [of _ "[]"]) simp
next
  case (Suc k)
  let ?n = "M - 1"
  have ne: "xs \<noteq> []" and ne': "drop ?n xs \<noteq> []" using Suc.prems(8) by auto
  have fs: "imc_frames M q xs = ([32 + q mod 16] @ take ?n xs) # imc_frames M (Suc q mod 256) (drop ?n xs)"
    using imc_frames_Cons [OF ne M(1) refl] Suc.prems(2) by (simp add: imc_header_def)
  let ?s = "upd_rx i (\<lambda>_. \<lparr>ri_bytesRemaining = length (drop ?n xs), ri_active = True, ri_sequence = Suc q mod 256\<rparr>) s"
  obtain e1 where e1: "ready e1" "room e1 = room e - length (take ?n xs)"
    "imc_receive I C mid ([32 + q mod 16] @ take ?n xs) (s, e) = (?s, e1)"
    by (rule cf_received [OF C Suc.prems(1,3,5,6,7), of ?n]) (use M ne' in auto)
  show ?case
  proof (cases "k = 0")
    case True
    then show ?thesis using fs e1 by (intro exI [of _ ?s] exI [of _ e1] exI [of _ "[[32 + q mod 16] @ take ?n xs]"]) simp
  next
    case False
    then have q: "Suc q < 256" using Suc.prems(4) by simp
    have d: "drop (k * ?n) (drop ?n xs) = drop (Suc k * ?n) xs" by (simp add: add.commute)
    have "Suc k * ?n < length xs" using Suc.prems(8) .
    then have b: "length (drop ?n xs) \<le> room e1" "length (drop ?n xs) < 65536" "k * ?n < length (drop ?n xs)"
      using e1(2) Suc.prems(6,7) unfolding mult_Suc by (simp_all only: length_drop length_take, simp_all)
    have r1: "TpRxInfo ?s i = \<lparr>ri_bytesRemaining = length (drop ?n xs), ri_active = True, ri_sequence = Suc q\<rparr>" using q by simp
    obtain s' e' fs' where "imc_frames M (Suc q) (drop ?n xs) = fs' @ imc_frames M ((Suc q + k) mod 256) (drop (k * ?n) (drop ?n xs))"
      "fold (imc_receive I C mid) fs' (?s, e1) = (s', e')" "ready e'"
      using Suc.IH [OF r1 _ q _ e1(1) b] Suc.prems(4) by auto
    then show ?thesis using fs e1(3) q unfolding d by (intro exI [of _ s'] exI [of _ e'] exI [of _ "([32 + q mod 16] @ take ?n xs) # fs'"]) simp
  qed
qed

lemma wrap_bounds: "a + 255 * b < l \<Longrightarrow> l \<le> c \<Longrightarrow> l < 65536 \<Longrightarrow> l - a \<le> c - min l a \<and> l - a < 65536 \<and> 255 * b < l - (a :: nat)"
  by auto

lemma wrapped_message:
  assumes C: "imc_rx_channel C i h mid" and M: "3 < M" "M < 65536" and idle: "idle e" and L: "L = (M - 3) + 255 * (M - 1)"
    and len: "length xs \<le> cap" "length xs < 65536" "L < length xs" "length xs \<le> 2 * L"
  shows "\<exists>s' e'. fold (imc_receive I C mid) (imc_frames M 0 xs) (s, e) = (s', PduR_rbdImcTpRxIndication I h E_OK e') \<and> ready e' \<and>
    stored e' = drop L xs \<and> \<not> ri_active (TpRxInfo s' i)"
proof -
  let ?n = "M - 3"
  have ne: "xs \<noteq> []" "drop ?n xs \<noteq> []" using len(3) L M by auto
  have fs: "imc_frames M 0 xs = (imc_header 0 (length xs) @ take ?n xs) # imc_frames M 1 (drop ?n xs)"
    using imc_frames_Cons [OF ne(1) M(1) refl] by (simp add: imc_header_def numeral_3_eq_3)
  let ?s = "upd_rx i (\<lambda>_. \<lparr>ri_bytesRemaining = length (drop ?n xs), ri_active = True, ri_sequence = 1\<rparr>) s"
  obtain e1 where e1: "ready e1" "room e1 = cap - length (take ?n xs)"
    "imc_receive I C mid (imc_header 0 (length xs) @ take ?n xs) (s, e) = (?s, e1)"
    by (rule ff_received [OF C len(1,2) _ idle, of ?n]) (use M ne in auto)
  have d: "drop (255 * (M - 1)) (drop ?n xs) = drop L xs" by (simp add: L add.commute)
  have b: "length (drop ?n xs) \<le> room e1" "length (drop ?n xs) < 65536" "255 * (M - 1) < length (drop ?n xs)"
    using wrap_bounds [OF len(3) [unfolded L] len(1,2)] e1(2) by simp_all
  obtain s2 e2 fs' where p: "imc_frames M 1 (drop ?n xs) = fs' @ imc_frames M 0 (drop L xs)"
    "fold (imc_receive I C mid) fs' (?s, e1) = (s2, e2)" "ready e2"
    using packets_before [OF C M _ _ _ _ e1(1) b, where q = 1 and s = ?s] unfolding d by auto
  have t: "drop L xs \<noteq> []" "length (drop L xs) \<le> cap" "length (drop L xs) < 65536" "length (drop L xs) \<le> L" using len by simp_all
  obtain s' e' where "fold (imc_receive I C mid) (imc_frames M 0 (drop L xs)) (s2, e2) = (s', PduR_rbdImcTpRxIndication I h E_OK e')" "ready e'"
    "stored e' = drop L xs" "\<not> ri_active (TpRxInfo s' i)"
    using message_assembled [OF C M ready_idle [OF p(3)], folded L, of "drop L xs" s2, OF t] by blast
  then show ?thesis using fs p(1,2) e1(3) by (intro exI [of _ s'] exI [of _ e']) simp
qed

end

end
