(* ===== verification/ImcStation.thy ===== *)
theory ImcStation
  imports ImcLink
begin

text \<open>
  The inter-chip transport protocol below the PDU router and rbdAnchorComTp: the interfaces of \<open>ImcLink\<close> on the
  definitions of these components, and a message from chip to chip.
\<close>

subsection \<open>The sending chip\<close>

text \<open>What the protocol needs of the layer below: it has a buffer for every packet and queues what it is given. \<open>log\<close> is the
  sequence of packets it took.\<close>

definition imcif_takes :: "'x StackExt ImcSys \<Rightarrow> ('x \<Rightarrow> nat list list) \<Rightarrow> bool" where
  "imcif_takes I log \<longleftrightarrow>
     (\<forall>i n e. \<exists>ch q x. ImcIf_GetBuffer I i n e = (Some (ch, q), e\<lparr>ext_rest := x\<rparr>) \<and> log x = log (ext_rest e)) \<and>
     (\<forall>ch q e. \<exists>x. ImcIf_QueueAdd I ch q e = e\<lparr>ext_rest := x\<rparr> \<and> log x = log (ext_rest e) @ [rd (iq_Msg q) 0 (iq_Length q)])"

definition imc_sending ::
  "AnchorCfg \<Rightarrow> 'x StackExt ImcSys \<Rightarrow> nat \<Rightarrow> nat \<Rightarrow> nat \<Rightarrow> AnchorSt \<Rightarrow> ('x \<Rightarrow> nat list list) \<Rightarrow> 'x StackExt \<Rightarrow> bool" where
  "imc_sending C I h ch oe a0 log e \<longleftrightarrow> anc_source C (ImcPduDim I) (ImcPduR I) h ch oe a0 e \<and> imcif_takes I log"

lemma anc_source_rest: "anc_source C D R h ch oe a0 (e\<lparr>ext_rest := x\<rparr>) = anc_source C D R h ch oe a0 e"
  "anc_pending C ch oe (e\<lparr>ext_rest := x\<rparr>) = anc_pending C ch oe e"
  by (simp_all add: anc_source_def anc_pending_def anc_tx_off_def anc_tx_len_def anc_tx_msg_def anc_tx_frame_def)

interpretation imc_anc: imc_source I h mid "anc_pending C ch oe" "\<lambda>e. log (ext_rest e)" "imc_sending C I h ch oe a0 log"
  for I :: "'x StackExt ImcSys" and h mid C ch oe log a0
proof
  fix e :: "'x StackExt" and n
  assume l: "imc_sending C I h ch oe a0 log e" and n: "n \<le> length (anc_pending C ch oe e)"
  then have "anc_source C (ImcPduDim I) (ImcPduR I) h ch oe a0 e" by (simp add: imc_sending_def)
  then obtain e' where "PduR_CanTp_CopyTxData (ImcPduDim I) (ImcPduR I) h n True e =
      (BUFREQ_OK, take n (anc_pending C ch oe e), length (anc_pending C ch oe e) - n, e')"
    "anc_source C (ImcPduDim I) (ImcPduR I) h ch oe a0 e'" "anc_pending C ch oe e' = drop n (anc_pending C ch oe e)" "ext_rest e' = ext_rest e"
    using anc_fetch n by blast
  then show "\<exists>e'. PduR_rbdImcTpCopyTxData I h n e = (BUFREQ_OK, take n (anc_pending C ch oe e), e') \<and> imc_sending C I h ch oe a0 log e' \<and>
      anc_pending C ch oe e' = drop n (anc_pending C ch oe e) \<and> log (ext_rest e') = log (ext_rest e)"
    using l by (auto simp: PduR_rbdImcTpCopyTxData_def PduR_CanTp_CopyTxData_def imc_sending_def split: prod.splits)
next
  fix e :: "'x StackExt"
  assume l: "imc_sending C I h ch oe a0 log e"
  then obtain c q x where "ImcIf_GetBuffer I mid (IMCIF_MSG_MAX_LEN I) e = (Some (c, q), e\<lparr>ext_rest := x\<rparr>)" "log x = log (ext_rest e)"
    unfolding imc_sending_def imcif_takes_def by blast
  then show "\<exists>c q e'. ImcIf_GetBuffer I mid (IMCIF_MSG_MAX_LEN I) e = (Some (c, q), e') \<and> imc_sending C I h ch oe a0 log e' \<and>
      anc_pending C ch oe e' = anc_pending C ch oe e \<and> log (ext_rest e') = log (ext_rest e)"
    using l by (auto simp: imc_sending_def anc_source_rest)
next
  fix e :: "'x StackExt" and c q
  assume l: "imc_sending C I h ch oe a0 log e"
  then obtain x where "ImcIf_QueueAdd I c q e = e\<lparr>ext_rest := x\<rparr>" "log x = log (ext_rest e) @ [rd (iq_Msg q) 0 (iq_Length q)]"
    unfolding imc_sending_def imcif_takes_def by blast
  then show "imc_sending C I h ch oe a0 log (ImcIf_QueueAdd I c q e) \<and> anc_pending C ch oe (ImcIf_QueueAdd I c q e) = anc_pending C ch oe e \<and>
      log (ext_rest (ImcIf_QueueAdd I c q e)) = log (ext_rest e) @ [rd (iq_Msg q) 0 (iq_Length q)]"
    using l by (simp add: imc_sending_def anc_source_rest)
qed

subsection \<open>The receiving chip\<close>

interpretation imc_anc_rx: imc_sink I h "anc_stored C ch oe" "anc_room C ch oe" "anc_receiving C (ImcPduDim I) (ImcPduR I) h ch oe a0"
    "\<lambda>e. anc_rx_route C (ImcPduDim I) (ImcPduR I) h ch oe \<and> anc_rx_frame ch oe a0 e" "anc_cap C"
  for I :: "'x StackExt ImcSys" and h C ch oe a0
proof
  fix e :: "'x StackExt" and n
  assume idle: "anc_rx_route C (ImcPduDim I) (ImcPduR I) h ch oe \<and> anc_rx_frame ch oe a0 e" and n: "n \<le> anc_cap C"
  then show "\<exists>e'. PduR_rbdImcTpStartOfReception I h n e = (BUFREQ_OK, e') \<and> anc_receiving C (ImcPduDim I) (ImcPduR I) h ch oe a0 e' \<and>
      anc_stored C ch oe e' = [] \<and> anc_room C ch oe e' = anc_cap C"
    using anc_started [of C "ImcPduDim I" "ImcPduR I" h ch oe a0 e n]
    by (auto simp: PduR_rbdImcTpStartOfReception_def PduR_CanTp_StartOfReception_def split: prod.splits)
next
  fix e :: "'x StackExt" and d :: "nat list"
  assume "anc_receiving C (ImcPduDim I) (ImcPduR I) h ch oe a0 e" "length d \<le> anc_room C ch oe e"
  then show "\<exists>e'. PduR_rbdImcTpCopyRxData I h d e = (BUFREQ_OK, e') \<and> anc_receiving C (ImcPduDim I) (ImcPduR I) h ch oe a0 e' \<and>
      anc_stored C ch oe e' = anc_stored C ch oe e @ d \<and> anc_room C ch oe e' = anc_room C ch oe e - length d"
    using anc.copy_fits [of C "ImcPduDim I" "ImcPduR I" h ch oe a0 e d]
    by (auto simp: PduR_rbdImcTpCopyRxData_def PduR_CanTp_CopyRxData_def split: prod.splits)
next
  fix e :: "'x StackExt"
  assume "anc_receiving C (ImcPduDim I) (ImcPduR I) h ch oe a0 e"
  then show "anc_rx_route C (ImcPduDim I) (ImcPduR I) h ch oe \<and> anc_rx_frame ch oe a0 e" by (simp add: anc_receiving_def)
qed

subsection \<open>From chip to chip\<close>

text \<open>
  The sending chip: channel \<open>i\<close> of its transport protocol is free, no other channel has data, and its application has
  started the transmission of \<open>xs\<close> with router identifier \<open>h\<close>.
\<close>

definition imc_sender :: "'x StackExt ImcSys \<Rightarrow> rbdImc_TpCfg_st \<Rightarrow> AnchorCfg \<Rightarrow> ('x \<Rightarrow> nat list list) \<Rightarrow> nat \<Rightarrow> nat \<Rightarrow> nat \<Rightarrow> nat \<Rightarrow>
    nat \<Rightarrow> nat list \<Rightarrow> 'x StackExt ImcW \<Rightarrow> bool" where
  "imc_sender I C A log txid i mid ch oe xs = (\<lambda>(s, e).
     let h = UpperTxToPduR (C ! i) in
     imc_channel C i h mid \<and> rbdImc_TpFindByPdurTxId C txid = i \<and> 3 < IMCIF_MSG_MAX_LEN I \<and> IMCIF_MSG_MAX_LEN I < 65536 \<and>
     imc_only C i s \<and> ti_numPktsPending (TpTxInfo s i) = 0 \<and> imcif_takes I log \<and>
     anc_tx_route A (ImcPduDim I) (ImcPduR I) h ch oe \<and> rbdAnchorComTp_GetTxQueueHead oe (ext_anchor e) \<noteq> None \<and>
     ct_TxInProgress (rbdAnchorComTp_ChTxInfo (ext_anchor e) ch oe) \<and> anc_tx_off ch oe e = 0 \<and> anc_tx_len ch oe e < 65536 \<and>
     anc_pending A ch oe e = xs)"

text \<open>The receiving chip: channel \<open>i\<close> serves packet \<open>mid\<close>, its application has a free buffer and room in its receive queue.\<close>

definition imc_receiver :: "'x StackExt ImcSys \<Rightarrow> rbdImc_TpCfg_st \<Rightarrow> AnchorCfg \<Rightarrow> nat \<Rightarrow> nat \<Rightarrow> nat \<Rightarrow> nat \<Rightarrow> 'x StackExt \<Rightarrow> bool" where
  "imc_receiver I C A i mid ch oe e \<longleftrightarrow>
     imc_rx_channel C i (UpperRxPduId (C ! i)) mid \<and> anc_rx_route A (ImcPduDim I) (ImcPduR I) (UpperRxPduId (C ! i)) ch oe \<and>
     rxq_ok oe (ext_anchor e) \<and> length (rxq_list oe (ext_anchor e)) < 15 \<and> \<not> cd_NeedVerify (rbdAnchorComTp_ChRxBuff (ext_anchor e) ch oe)"

lemma imc_chip_sends:
  assumes S: "imc_sender I C A log txid i mid ch oe xs (s, e)" and len: "xs \<noteq> []" "length xs < 65536"
    and req: "(r, w) = rbdImcTp_Transmit I C txid (Some \<lparr>SduDataPtr = m, SduLength = length xs\<rparr>) (s, e)"
    and fs: "fs = imc_frames (IMCIF_MSG_MAX_LEN I) 0 xs" and run: "(s', e') = (imc_turn I C mid ^^ length fs) w"
  shows "r = E_OK \<and> ti_bytesRemaining (TpTxInfo s' i) = 0 \<and> log (ext_rest e') = log (ext_rest e) @ fs \<and> anc_sent ch oe (ext_anchor e')"
proof -
  let ?h = "UpperTxToPduR (C ! i)" and ?a = "ext_anchor e"
  let ?s = "upd_tx i (\<lambda>t. t\<lparr>ti_sequence := 0, ti_bytesRemaining := length xs, ti_offset := 0\<rparr>) s"
  have c: "imc_channel C i ?h mid" "rbdImc_TpFindByPdurTxId C txid = i" "3 < IMCIF_MSG_MAX_LEN I" "IMCIF_MSG_MAX_LEN I < 65536" "imc_only C i s"
    "ti_numPktsPending (TpTxInfo s i) = 0" and up: "imcif_takes I log" "anc_tx_route A (ImcPduDim I) (ImcPduR I) ?h ch oe"
    "rbdAnchorComTp_GetTxQueueHead oe ?a \<noteq> None" "ct_TxInProgress (rbdAnchorComTp_ChTxInfo ?a ch oe)" "anc_tx_off ch oe e = 0"
    "anc_tx_len ch oe e < 65536" "anc_pending A ch oe e = xs" using S by (auto simp: imc_sender_def Let_def)
  have i: "i < length C" using c(1) by (simp add: imc_channel_def)
  have w: "r = E_OK" "w = (?s, e)" using req c(2) i len(2) by (auto simp: rbdImcTp_Transmit_def u16_of_nat Let_def)
  have live: "imc_sending A I ?h ch oe ?a log e"
    using up anc_tx_frame_refl by (simp add: imc_sending_def anc_source_def)
  have idle: "imc_only C i ?s" using c(5) by (simp add: imc_only_def)
  obtain s1 e1 where e1: "(imc_turn I C mid ^^ length fs) (?s, e) = (s1, PduR_rbdImcTpTxConfirmation I ?h E_OK e1)" "imc_sending A I ?h ch oe ?a log e1"
    "log (ext_rest e1) = log (ext_rest e) @ fs" "ti_bytesRemaining (TpTxInfo s1 i) = 0"
    using imc_anc.message_queued [OF c(1,3,4) _ _ idle live up(7) _ len, of fs] c(6) fs by auto
  obtain j where j: "e' = on_anchor (rbdAnchorComTp_TpTxConfirmation A j E_OK) e1"
    "rbdAnchorComTp_FindByLLPdu A j (rbdAnchorComTp_LowerTxCbPdu A) (RBDANCHORCOM_TP_NUM_LL_TX A) = Some (ch, oe)"
    using stack_TxConfirmation [OF up(2), of E_OK e1] e1(1) run w(2) by (auto simp: PduR_rbdImcTpTxConfirmation_def)
  have "ext_anchor e1 = ?a\<lparr>rbdAnchorComTp_ChTxInfo := upd2 ch oe (ct_TxOffset_update (\<lambda>_. anc_tx_off ch oe e1)) (rbdAnchorComTp_ChTxInfo ?a)\<rparr>"
    using e1(2) by (simp add: imc_sending_def anc_source_def anc_tx_frame_def)
  then have "ct_TxInProgress (rbdAnchorComTp_ChTxInfo (ext_anchor e1) ch oe)" "rbdAnchorComTp_GetTxQueueHead oe (ext_anchor e1) \<noteq> None"
    using up(3,4) by (simp_all add: rbdAnchorComTp_GetTxQueueHead_def split: if_splits)
  then have "anc_sent ch oe (ext_anchor e')" using TxConfirmation_sent [OF j(2)] by (simp add: j(1) on_anchor_def)
  moreover have "s' = s1" using run w(2) e1(1) by simp
  moreover have "ext_rest e' = ext_rest e1" by (simp add: j(1) on_anchor_def)
  ultimately show ?thesis using w(1) e1(3,4) by simp
qed

lemma imc_chip_receives:
  assumes R: "imc_receiver I C A i mid ch oe e" and M: "3 < M" "M < 65536"
    and len: "xs \<noteq> []" "length xs \<le> anc_cap A" "length xs < 65536" "length xs \<le> (M - 3) + 255 * (M - 1)"
      "RBDANCHORCOM_TP_MIN_RX_DATA_LEN A \<le> RBDANCHORCOM_CHANID_LEN A + length xs"
    and rcv: "(s', e') = fold (imc_receive I C mid) (imc_frames M 0 xs) (s, e)"
  shows "\<not> ri_active (TpRxInfo s' i) \<and> anc_has A ch oe xs (ext_anchor e) (ext_anchor e')"
proof -
  let ?h = "UpperRxPduId (C ! i)" and ?a = "ext_anchor e"
  have c: "imc_rx_channel C i ?h mid" "anc_rx_route A (ImcPduDim I) (ImcPduR I) ?h ch oe" "rxq_ok oe ?a" "length (rxq_list oe ?a) < 15"
    "\<not> cd_NeedVerify (rbdAnchorComTp_ChRxBuff ?a ch oe)" using R by (auto simp: imc_receiver_def)
  obtain s1 e1 where e1: "fold (imc_receive I C mid) (imc_frames M 0 xs) (s, e) = (s1, PduR_rbdImcTpRxIndication I ?h E_OK e1)"
    "anc_receiving A (ImcPduDim I) (ImcPduR I) ?h ch oe ?a e1" "anc_stored A ch oe e1 = xs" "\<not> ri_active (TpRxInfo s1 i)"
    using imc_anc_rx.message_assembled [OF c(1) M _ len(1-4), where ?a0.0 = ?a and ch = ch and oe = oe and e = e and s = s] c(2) anc_rx_frame_refl by blast
  then show ?thesis using rcv anc_delivered [OF c(2) e1(2,3) c(3-5) len(5)] by (simp add: PduR_rbdImcTpRxIndication_def)
qed

text \<open>
  C12. From chip to chip. The application of chip A has started a message and chip B listens. The request to the inter-chip transport
  protocol is accepted; after one turn per packet A's channel is free, its application has been told of the success, and when
  the packets that A queued reach B one by one, B's reception is closed and its application has the message, byte for byte, in its receive
  buffer, with one more entry in its receive queue. This holds up to the length at which the 8-bit sequence number of the
  sender would return to zero.
\<close>

theorem imc_end_to_end:
  assumes A: "imc_sender IA CA AA log txid i mid chA oeA xs (s, e)"
    and B: "imc_receiver IB CB AB j mid chB oeB f" and M: "M = IMCIF_MSG_MAX_LEN IA"
    and len: "xs \<noteq> []" "length xs < 65536" "length xs \<le> (M - 3) + 255 * (M - 1)" "length xs \<le> anc_cap AB"
      "RBDANCHORCOM_TP_MIN_RX_DATA_LEN AB \<le> RBDANCHORCOM_CHANID_LEN AB + length xs"
    and req: "(r, w) = rbdImcTp_Transmit IA CA txid (Some \<lparr>SduDataPtr = m, SduLength = length xs\<rparr>) (s, e)"
    and run: "(s', e') = (imc_turn IA CA mid ^^ length (imc_frames M 0 xs)) w"
    and sent: "fs = drop (length (log (ext_rest e))) (log (ext_rest e'))"
    and rcv: "(t', f') = fold (imc_receive IB CB mid) fs (t, f)"
  shows "r = E_OK \<and> ti_bytesRemaining (TpTxInfo s' i) = 0 \<and> anc_sent chA oeA (ext_anchor e') \<and>
     \<not> ri_active (TpRxInfo t' j) \<and> anc_has AB chB oeB xs (ext_anchor f) (ext_anchor f')"
proof -
  note tx = imc_chip_sends [OF A len(1,2) req refl run [unfolded M]]
  have m: "3 < M" "M < 65536" using A by (auto simp: M imc_sender_def Let_def)
  have "fs = imc_frames M 0 xs" using tx sent by (simp add: M)
  then show ?thesis using tx imc_chip_receives [OF B m len(1,4,2,3,5), of t' f' t] rcv by simp
qed

text \<open>
  C40. The limit of that length is real. A longer message is accepted and confirmed as sent, but its packet number 256 carries the
  sequence number zero, which makes it a first packet that announces the rest of the message. The receiving application is told of
  the success of a message that consists of that rest only.
\<close>

theorem imc_sequence_wraps:
  assumes A: "imc_sender IA CA AA log txid i mid chA oeA xs (s, e)"
    and B: "imc_receiver IB CB AB j mid chB oeB f" and M: "M = IMCIF_MSG_MAX_LEN IA" and L: "L = (M - 3) + 255 * (M - 1)"
    and len: "L < length xs" "length xs < 65536" "length xs \<le> 2 * L" "length xs \<le> anc_cap AB"
      "RBDANCHORCOM_TP_MIN_RX_DATA_LEN AB \<le> RBDANCHORCOM_CHANID_LEN AB + (length xs - L)"
    and req: "(r, w) = rbdImcTp_Transmit IA CA txid (Some \<lparr>SduDataPtr = m, SduLength = length xs\<rparr>) (s, e)"
    and run: "(s', e') = (imc_turn IA CA mid ^^ length (imc_frames M 0 xs)) w"
    and sent: "fs = drop (length (log (ext_rest e))) (log (ext_rest e'))"
    and rcv: "(t', f') = fold (imc_receive IB CB mid) fs (t, f)"
  shows "r = E_OK \<and> anc_sent chA oeA (ext_anchor e') \<and>
     \<not> ri_active (TpRxInfo t' j) \<and> anc_has AB chB oeB (drop L xs) (ext_anchor f) (ext_anchor f')"
proof -
  have m: "3 < M" "M < 65536" using A by (auto simp: M imc_sender_def Let_def)
  have ne: "xs \<noteq> []" using len(1) by auto
  note tx = imc_chip_sends [OF A ne len(2) req refl run [unfolded M]]
  have fs: "fs = imc_frames M 0 xs" using tx sent by (simp add: M)
  let ?h = "UpperRxPduId (CB ! j)" and ?a = "ext_anchor f"
  have c: "imc_rx_channel CB j ?h mid" "anc_rx_route AB (ImcPduDim IB) (ImcPduR IB) ?h chB oeB" "rxq_ok oeB ?a" "length (rxq_list oeB ?a) < 15"
    "\<not> cd_NeedVerify (rbdAnchorComTp_ChRxBuff ?a chB oeB)" using B by (auto simp: imc_receiver_def)
  obtain t1 f1 where f1: "fold (imc_receive IB CB mid) (imc_frames M 0 xs) (t, f) = (t1, PduR_rbdImcTpRxIndication IB ?h E_OK f1)"
    "anc_receiving AB (ImcPduDim IB) (ImcPduR IB) ?h chB oeB ?a f1" "anc_stored AB chB oeB f1 = drop L xs" "\<not> ri_active (TpRxInfo t1 j)"
    using imc_anc_rx.wrapped_message [OF c(1) m _ L len(4,2,1,3), where ?a0.0 = ?a and ch = chB and oe = oeB and e = f and s = t] c(2) anc_rx_frame_refl by blast
  have "RBDANCHORCOM_TP_MIN_RX_DATA_LEN AB \<le> RBDANCHORCOM_CHANID_LEN AB + length (drop L xs)" using len(5) by simp
  from anc_delivered [OF c(2) f1(2,3) c(3-5) this] show ?thesis using tx f1(1,4) rcv fs by (simp add: PduR_rbdImcTpRxIndication_def)
qed

subsection \<open>Two concrete chips\<close>

text \<open>One channel with packets of \<open>M\<close> bytes; rbdAnchorComTp with the configuration of its examples and a larger buffer; a layer below that
  keeps a list of the packets it took. The sender's application has a message of \<open>n\<close> bytes in progress.\<close>

definition imc_demo_anc :: AnchorCfg where
  "imc_demo_anc = anc_demo_cfg\<lparr>RBDANCHORCOM_TP_MAX_RX_BUFFER_LEN := 1000\<rparr>"

definition imc_demo_routes :: "'x StackExt PduR_St" where
  "imc_demo_routes = Some
    \<lparr>RouteTblTx = (\<lambda>_. \<lparr>LoTransmit = None, LoCancelTransmit = None, LoTxPduId = 0, UpTxConfirmation = None, UpTxPduId = 0\<rparr>),
     RouteTblRx = (\<lambda>_. \<lparr>UpRxIndication = None, UpRxPduId = 0\<rparr>),
     TpRouteTblTx = (\<lambda>_. \<lparr>LoTpTransmit = None, LoTpCancelTransmit = None, LoTpTxPduId = 0, UpTpCopyTxData = Some (anc_up_CopyTxData imc_demo_anc),
       UpTpTxConfirmation = Some (\<lambda>i r. on_anchor (rbdAnchorComTp_TpTxConfirmation imc_demo_anc i r)), UpTpTxPduId = 1\<rparr>),
     TpRouteTblRx = (\<lambda>_. \<lparr>UpTpStartOfReception = Some (anc_up_StartOfReception imc_demo_anc), UpTpCopyRxData = Some (anc_up_CopyRxData imc_demo_anc),
       UpTpRxIndication = Some (\<lambda>i r. on_anchor (rbdAnchorComTp_TpRxIndication imc_demo_anc i r)), UpTpRxPduId = 1\<rparr>),
     SetTxConfirmationLatency = None, TxInterrupt = None\<rparr>"

definition imc_demo_sys :: "nat \<Rightarrow> nat list list StackExt ImcSys" where
  "imc_demo_sys M =
     \<lparr>IMCIF_MSG_MAX_LEN = M, ImcIf_GetBuffer = (\<lambda>_ _ e. (Some (0, \<lparr>iq_Msg = (\<lambda>_. 0), iq_Length = 0\<rparr>), e)),
      ImcIf_QueueAdd = (\<lambda>_ q e. e\<lparr>ext_rest := ext_rest e @ [rd (iq_Msg q) 0 (iq_Length q)]\<rparr>),
      ImcDet_ReportError = (\<lambda>_ _ _ e. e), ImcDet_ReportRuntimeError = (\<lambda>_ _ _ e. e), ImcPduDim = st_dim, ImcPduR = imc_demo_routes\<rparr>"

definition imc_demo_cfg :: rbdImc_TpCfg_st where
  "imc_demo_cfg = [\<lparr>UpperTxFromPduR = 5, UpperTxToPduR = 0, UpperRxPduId = 0, ImcPduId = 7\<rparr>]"

definition imc_demo_idle :: ImcTpSt where
  "imc_demo_idle = \<lparr>TpTxInfo = (\<lambda>_. \<lparr>ti_bytesRemaining = 0, ti_offset = 0, ti_sequence = 0, ti_numPktsPending = 0\<rparr>),
     TpRxInfo = (\<lambda>_. \<lparr>ri_bytesRemaining = 0, ri_active = False, ri_sequence = 0\<rparr>)\<rparr>"

definition imc_demo_app :: "nat \<Rightarrow> nat list list StackExt" where
  "imc_demo_app n = \<lparr>ext_anchor = st_sender\<lparr>rbdAnchorComTp_MsgTxInfo := (\<lambda>_ _. \<lparr>mi_BufState = RBDANCHORCOM_TPSTATE_HASDATA, mi_Length = n\<rparr>)\<rparr>,
     ext_rest = []\<rparr>"

definition imc_demo_rx :: "nat list list StackExt" where
  "imc_demo_rx = \<lparr>ext_anchor = anc_demo, ext_rest = []\<rparr>"

lemma imc_demo_find:
  "rbdAnchorComTp_FindByLLPdu imc_demo_anc 1 (\<lambda>i. i) 2 = Some (0, 1)" "rbdImc_TpFindByImcId imc_demo_cfg 7 = 0" "rbdImc_TpFindByPdurTxId imc_demo_cfg 5 = 0"
  by (simp_all add: rbdAnchorComTp_FindByLLPdu_def imc_demo_anc_def anc_demo_cfg_def upt_rec imc_demo_cfg_def rbdImc_TpFindByImcId_def
      rbdImc_TpFindByPdurTxId_def)

lemma imc_demo_sender:
  assumes "3 < M" "M < 65536" "n < 65536"
  shows "imc_sender (imc_demo_sys M) imc_demo_cfg imc_demo_anc (\<lambda>x. x) 5 0 7 0 1 (map Suc [0..<n]) (imc_demo_idle, imc_demo_app n)"
proof -
  have "imcif_takes (imc_demo_sys M) (\<lambda>x. x)" by (auto simp: imcif_takes_def imc_demo_sys_def intro: exI [of _ "ext_rest _"])
  moreover have "anc_tx_route imc_demo_anc st_dim imc_demo_routes 0 0 1"
    using imc_demo_find(1) by (simp add: anc_tx_route_def imc_demo_routes_def st_dim_def) (simp add: imc_demo_anc_def anc_demo_cfg_def)
  moreover have "anc_pending imc_demo_anc 0 1 (imc_demo_app n) = map Suc [0..<n]"
    by (simp add: anc_pending_def anc_tx_off_def anc_tx_len_def anc_tx_msg_def imc_demo_app_def st_sender_def imc_demo_anc_def anc_demo_cfg_def rd_def)
  ultimately show ?thesis using assms imc_demo_find(2,3)
    by (simp add: imc_sender_def imc_channel_def imc_only_def imc_demo_idle_def)
      (simp add: imc_demo_sys_def imc_demo_cfg_def imc_demo_app_def st_sender_def anc_demo_def rbdAnchorComTp_Init_def rbdAnchorComTp_GetTxQueueHead_def
        anc_tx_off_def anc_tx_len_def)
qed

lemma imc_demo_receiver: "imc_receiver (imc_demo_sys M) imc_demo_cfg imc_demo_anc 0 7 0 1 imc_demo_rx"
  using imc_demo_find
  by (simp add: imc_receiver_def imc_rx_channel_def imc_demo_sys_def anc_rx_route_def imc_demo_routes_def st_dim_def imc_demo_rx_def anc_demo_def
      rbdAnchorComTp_Init_def rxq_ok_def rxq_list_def ring_list_def ring_count_def) (simp add: imc_demo_anc_def anc_demo_cfg_def imc_demo_cfg_def)

definition imc_demo_sent :: "nat \<Rightarrow> nat \<Rightarrow> nat list list StackExt ImcW" where
  "imc_demo_sent M n = (imc_turn (imc_demo_sys M) imc_demo_cfg 7 ^^ length (imc_frames M 0 (map Suc [0..<n])))
     (snd (rbdImcTp_Transmit (imc_demo_sys M) imc_demo_cfg 5 (Some \<lparr>SduDataPtr = None, SduLength = n\<rparr>) (imc_demo_idle, imc_demo_app n)))"

definition imc_demo_got :: "nat \<Rightarrow> nat \<Rightarrow> nat list list StackExt ImcW" where
  "imc_demo_got M n = fold (imc_receive (imc_demo_sys M) imc_demo_cfg 7) (ext_rest (snd (imc_demo_sent M n))) (imc_demo_idle, imc_demo_rx)"

lemma imc_demo_dims: "anc_cap imc_demo_anc = 999" "RBDANCHORCOM_TP_MIN_RX_DATA_LEN imc_demo_anc = 3" "RBDANCHORCOM_CHANID_LEN imc_demo_anc = 1"
  "IMCIF_MSG_MAX_LEN (imc_demo_sys M) = M" "ext_rest (imc_demo_app n) = []"
  by (simp_all add: anc_cap_def imc_demo_anc_def anc_demo_cfg_def imc_demo_sys_def imc_demo_app_def)

theorem imc_end_to_end_witness:
  "anc_has imc_demo_anc 0 1 (map Suc [0..<20]) anc_demo (ext_anchor (snd (imc_demo_got 8 20)))"
  using imc_end_to_end [OF imc_demo_sender [of 8 20] imc_demo_receiver [of 8] refl _ _ _ _ _ prod.collapse prod.collapse refl prod.collapse,
      where m = None and t = imc_demo_idle]
  by (simp add: imc_demo_dims imc_demo_sent_def imc_demo_got_def imc_demo_rx_def)

theorem imc_sequence_wraps_witness:
  "anc_has imc_demo_anc 0 1 (drop 766 (map Suc [0..<800])) anc_demo (ext_anchor (snd (imc_demo_got 4 800)))"
  using imc_sequence_wraps [OF imc_demo_sender [of 4 800] imc_demo_receiver [of 4] refl refl _ _ _ _ _ prod.collapse prod.collapse refl prod.collapse,
      where m = None and t = imc_demo_idle]
  by (simp add: imc_demo_dims imc_demo_sent_def imc_demo_got_def imc_demo_rx_def del: upt_Suc drop_map drop_upt)

end
