(* ===== verification/ImcSafe.thy ===== *)
theory ImcSafe
  imports ImcLink
begin

text \<open>
  What the inter-chip transport protocol promises its upper layer for every sequence of calls and packets, also wrong ones:
  a message is reported as received only when it is complete, and a transmission is confirmed exactly once while at most 255 packets are outstanding.
\<close>

subsection \<open>What the upper layer sees of a reception\<close>

datatype UpEv = UStart nat BufReq_ReturnType | UCopy nat BufReq_ReturnType | UInd Std_ReturnType

text \<open>
  A monitor of these calls. Its state is the number of bytes that the open reception still lacks. It accepts the report of a
  success only when a reception is open and lacks nothing, and no more bytes than announced; a refused call closes the reception.
\<close>

fun up_next :: "nat option \<Rightarrow> UpEv \<Rightarrow> nat option option" where
  "up_next m (UStart n r) = Some (if r = BUFREQ_OK then Some n else None)"
| "up_next None (UCopy k r) = Some None"
| "up_next (Some n) (UCopy k r) = (if r = BUFREQ_OK then if k \<le> n then Some (Some (n - k)) else None else Some None)"
| "up_next m (UInd E_OK) = (if m = Some 0 then Some None else None)"
| "up_next m (UInd E_NOT_OK) = Some None"

fun up_run :: "nat option \<Rightarrow> UpEv list \<Rightarrow> nat option option" where
  "up_run m [] = Some m"
| "up_run m (x # xs) = (case up_next m x of None \<Rightarrow> None | Some m' \<Rightarrow> up_run m' xs)"

lemma up_run_append: "up_run m (xs @ ys) = (case up_run m xs of None \<Rightarrow> None | Some m' \<Rightarrow> up_run m' ys)"
  by (induction xs arbitrary: m) (simp_all split: option.split)

definition copies :: "nat list \<Rightarrow> UpEv list" where
  "copies ks = map (\<lambda>k. UCopy k BUFREQ_OK) ks"

lemma up_run_open: "up_run None l = Some (Some n) \<Longrightarrow> \<exists>a t ks. l = a @ UStart t BUFREQ_OK # copies ks \<and> sum_list ks + n = t"
proof (induction l arbitrary: n rule: rev_induct)
  case Nil
  then show ?case by simp
next
  case (snoc x l)
  then obtain m where m: "up_run None l = Some m" "up_next m x = Some (Some n)" by (auto simp: up_run_append split: option.splits)
  show ?case
  proof (cases x)
    case (UStart t r)
    then have "l @ [x] = l @ UStart n BUFREQ_OK # copies []" using m(2) by (auto simp: copies_def split: if_splits)
    then show ?thesis by (intro exI [of _ l] exI [of _ n] exI [of _ "[]"]) simp
  next
    case (UCopy k r)
    then obtain n' where n': "m = Some n'" "r = BUFREQ_OK" "k \<le> n'" "n = n' - k" using m(2) by (cases m) (auto split: if_splits)
    obtain a t ks where "l = a @ UStart t BUFREQ_OK # copies ks" "sum_list ks + n' = t" using snoc.IH m(1) n'(1) by blast
    then show ?thesis using n' UCopy by (intro exI [of _ a] exI [of _ t] exI [of _ "ks @ [k]"]) (simp add: copies_def)
  next
    case (UInd r)
    then show ?thesis using m(2) by (cases r; cases m) (auto split: if_splits)
  qed
qed

lemma up_run_complete:
  assumes "up_run None (l @ UInd E_OK # l') \<noteq> None"
  shows "\<exists>a ks. l = a @ UStart (sum_list ks) BUFREQ_OK # copies ks"
proof -
  from assms obtain m where "up_run None l = Some m" "up_next m (UInd E_OK) \<noteq> None" by (auto simp: up_run_append split: option.splits)
  then have "up_run None l = Some (Some 0)" by (cases m) (auto split: if_splits)
  from up_run_open [OF this] show ?thesis by auto
qed

subsection \<open>Reception\<close>

text \<open>The upper layer keeps a log of the calls that reach it, with the router identifier; the rest of the system does not touch it.\<close>

definition up_logged :: "'e ImcSys \<Rightarrow> rbdImc_TpCfg_st \<Rightarrow> ('e \<Rightarrow> (nat \<times> UpEv) list) \<Rightarrow> bool" where
  "up_logged I C log \<longleftrightarrow>
     (\<forall>c \<in> set C. \<forall>e. let h = UpperRxPduId c in
        (\<forall>n. log (snd (PduR_rbdImcTpStartOfReception I h n e)) = log e @ [(h, UStart n (fst (PduR_rbdImcTpStartOfReception I h n e)))]) \<and>
        (\<forall>bs. log (snd (PduR_rbdImcTpCopyRxData I h bs e)) = log e @ [(h, UCopy (length bs) (fst (PduR_rbdImcTpCopyRxData I h bs e)))]) \<and>
        (\<forall>r. log (PduR_rbdImcTpRxIndication I h r e) = log e @ [(h, UInd r)])) \<and>
     (\<forall>a b c e. log (ImcDet_ReportError I a b c e) = log e \<and> log (ImcDet_ReportRuntimeError I a b c e) = log e) \<and>
     (\<forall>i n e. log (snd (ImcIf_GetBuffer I i n e)) = log e \<and> log (snd (snd (PduR_rbdImcTpCopyTxData I i n e))) = log e) \<and>
     (\<forall>c q e. log (ImcIf_QueueAdd I c q e) = log e) \<and> (\<forall>i r e. log (PduR_rbdImcTpTxConfirmation I i r e) = log e)"

definition seen :: "nat \<Rightarrow> (nat \<times> UpEv) list \<Rightarrow> UpEv list" where
  "seen h l = map snd (filter (\<lambda>p. fst p = h) l)"

lemma seen_append: "seen h (l @ map (Pair h') l') = seen h l @ (if h = h' then l' else [])"
  by (simp add: seen_def filter_map o_def)

definition rx_st :: "ImcTpSt \<Rightarrow> nat \<Rightarrow> nat option" where
  "rx_st s i = (if ri_active (TpRxInfo s i) then Some (ri_bytesRemaining (TpRxInfo s i)) else None)"

text \<open>A piece of code that works for channel \<open>i\<close> makes only calls that the monitor accepts, and leaves the channel as the monitor has it.\<close>

definition rx_ok :: "rbdImc_TpCfg_st \<Rightarrow> ('e \<Rightarrow> (nat \<times> UpEv) list) \<Rightarrow> nat \<Rightarrow> 'e ImcW \<Rightarrow> 'e ImcW \<Rightarrow> bool" where
  "rx_ok C log i w w' \<longleftrightarrow>
     (\<exists>l. log (snd w') = log (snd w) @ map (Pair (UpperRxPduId (C ! i))) l \<and> up_run (rx_st (fst w) i) l = Some (rx_st (fst w') i)) \<and>
     (\<forall>j. j \<noteq> i \<longrightarrow> TpRxInfo (fst w') j = TpRxInfo (fst w) j) \<and>
     (ri_bytesRemaining (TpRxInfo (fst w) i) < 65536 \<longrightarrow> ri_bytesRemaining (TpRxInfo (fst w') i) < 65536)"

lemma rx_okI:
  assumes "log e' = log e @ map (Pair (UpperRxPduId (C ! i))) l" "up_run (rx_st s i) l = Some (rx_st s' i)"
    "\<And>j. j \<noteq> i \<Longrightarrow> TpRxInfo s' j = TpRxInfo s j"
    "ri_bytesRemaining (TpRxInfo s i) < 65536 \<Longrightarrow> ri_bytesRemaining (TpRxInfo s' i) < 65536"
  shows "rx_ok C log i (s, e) (s', e')"
  using assms by (auto simp: rx_ok_def)

lemma rx_ok_trans:
  assumes "rx_ok C log i w w1" "rx_ok C log i w1 w2"
  shows "rx_ok C log i w w2"
proof -
  obtain l l' where l: "log (snd w1) = log (snd w) @ map (Pair (UpperRxPduId (C ! i))) l" "up_run (rx_st (fst w) i) l = Some (rx_st (fst w1) i)"
    and l': "log (snd w2) = log (snd w1) @ map (Pair (UpperRxPduId (C ! i))) l'" "up_run (rx_st (fst w1) i) l' = Some (rx_st (fst w2) i)"
    using assms by (auto simp: rx_ok_def)
  have "log (snd w2) = log (snd w) @ map (Pair (UpperRxPduId (C ! i))) (l @ l')" "up_run (rx_st (fst w) i) (l @ l') = Some (rx_st (fst w2) i)"
    using l l' by (simp_all add: up_run_append)
  then show ?thesis using assms unfolding rx_ok_def by (auto intro!: exI [of _ "l @ l'"])
qed

lemma rx_error_ok:
  assumes "up_logged I C log" "i < length C"
  shows "rx_ok C log i (s, e) (rbdImc_TpReportRxError I C i a b c (s, e))"
proof -
  have c: "C ! i \<in> set C" using assms(2) by simp
  show ?thesis unfolding rbdImc_TpReportRxError_def Let_def split
    using assms(1) c by (auto simp: up_logged_def Let_def rx_st_def
        intro!: rx_okI [where l = "if ri_active (TpRxInfo s i) then [UInd E_NOT_OK] else []"])
qed

lemma rx_first_ok:
  assumes "up_logged I C log" "i < length C"
  shows "rx_ok C log i (s, e) (rbdImc_TpRxFirstFrame I C i n m (s, e))"
proof -
  let ?h = "UpperRxPduId (C ! i)"
  define t b where "t = u16 (int (m 1) * 256 + int (m 2))" and "b = u16 (int n - 3)"
  obtain r1 e1 where st: "PduR_rbdImcTpStartOfReception I ?h t e = (r1, e1)" by (cases "PduR_rbdImcTpStartOfReception I ?h t e")
  obtain r2 e2 where cp: "PduR_rbdImcTpCopyRxData I ?h (rd m 3 b) e1 = (r2, e2)" by (cases "PduR_rbdImcTpCopyRxData I ?h (rd m 3 b) e1")
  have "C ! i \<in> set C" using assms(2) by simp
  then have lg: "log e1 = log e @ [(?h, UStart t r1)]" "log e2 = log e1 @ [(?h, UCopy b r2)]"
    using assms(1) st cp unfolding up_logged_def Let_def by (metis fst_conv snd_conv, metis fst_conv snd_conv length_rd)
  show ?thesis
  proof (cases "t < b")
    case True
    then show ?thesis using rx_error_ok [OF assms] by (simp add: rbdImc_TpRxFirstFrame_def Let_def t_def b_def)
  next
    case False
    have tb: "t < 65536" by (simp add: t_def)
    have u: "u16 (int t - int b) = t - b" using False u16_of_nat [of "t - b"] tb by (simp add: of_nat_diff)
    have ff: "rbdImc_TpRxFirstFrame I C i n m (s, e) =
       (if r1 = BUFREQ_OK \<and> r2 = BUFREQ_OK
        then (upd_rx i (\<lambda>_. \<lparr>ri_bytesRemaining = t - b, ri_active = True, ri_sequence = 1\<rparr>) s, e2)
        else (upd_rx i (\<lambda>r. r\<lparr>ri_active := False\<rparr>) s, if r1 = BUFREQ_OK then e2 else e1))"
      unfolding rbdImc_TpRxFirstFrame_def split Let_def t_def [symmetric] b_def [symmetric] if_not_P [OF False] st u
      by (cases "r1 = BUFREQ_OK"; cases "r2 = BUFREQ_OK") (simp_all add: cp)
    show ?thesis
    proof (cases "r1 = BUFREQ_OK")
      case True
      have "up_run m0 [UStart t r1, UCopy b r2] = Some (if r2 = BUFREQ_OK then Some (t - b) else None)" for m0
        using True False by simp
      then show ?thesis unfolding ff using True lg tb
        by (auto simp: rx_st_def intro!: rx_okI [where l = "[UStart t r1, UCopy b r2]"])
    next
      case ne: False
      then show ?thesis unfolding ff using lg
        by (auto simp: rx_st_def intro!: rx_okI [where l = "[UStart t r1]"])
    qed
  qed
qed

lemma rx_next_ok:
  assumes "up_logged I C log" "i < length C" "ri_bytesRemaining (TpRxInfo s i) < 65536"
  shows "rx_ok C log i (s, e) (rbdImc_TpRxConsecutiveFrame I C i n m (s, e))"
proof -
  let ?h = "UpperRxPduId (C ! i)" and ?r = "TpRxInfo s i"
  define b where "b = u16 (int n - 1)"
  obtain r e1 where cp: "PduR_rbdImcTpCopyRxData I ?h (rd m 1 b) e = (r, e1)" by (cases "PduR_rbdImcTpCopyRxData I ?h (rd m 1 b) e")
  have c: "C ! i \<in> set C" using assms(2) by simp
  then have lg: "log e1 = log e @ [(?h, UCopy b r)]"
    using assms(1) cp unfolding up_logged_def Let_def by (metis fst_conv snd_conv length_rd)
  show ?thesis
  proof (cases "(m 0 AND 15) \<noteq> (ri_sequence ?r AND 15) \<or> ri_bytesRemaining ?r < b")
    case True
    then show ?thesis using rx_error_ok [OF assms(1,2)] by (auto simp: rbdImc_TpRxConsecutiveFrame_def Let_def b_def)
  next
    case False
    have u: "u16 (int (ri_bytesRemaining ?r) - int b) = ri_bytesRemaining ?r - b"
      using False assms(3) u16_of_nat [of "ri_bytesRemaining ?r - b"] by (simp add: of_nat_diff)
    have cf: "rbdImc_TpRxConsecutiveFrame I C i n m (s, e) =
       (if r = BUFREQ_OK
        then (upd_rx i (\<lambda>x. x\<lparr>ri_bytesRemaining := ri_bytesRemaining x - b, ri_sequence := u8 (int (ri_sequence x) + 1)\<rparr>) s, e1)
        else rbdImc_TpReportRxError I C i (u8 (int b)) RBDIMCPDUR_TP_RX RBDIMCPDUR_ERR_RESULT (s, e1))"
      using False u cp by (simp add: rbdImc_TpRxConsecutiveFrame_def Let_def b_def [symmetric])
    show ?thesis
    proof (cases "r = BUFREQ_OK")
      case True
      then show ?thesis unfolding cf using lg False assms(3)
        by (auto simp: rx_st_def intro!: rx_okI [where l = "[UCopy b r]"])
    next
      case ne: False
      then show ?thesis unfolding cf rbdImc_TpReportRxError_def Let_def split using lg assms(1) c
        by (auto simp: rx_st_def up_logged_def Let_def
            intro!: rx_okI [where l = "UCopy b r # (if ri_active ?r then [UInd E_NOT_OK] else [])"])
    qed
  qed
qed

lemma rx_end_ok:
  assumes "up_logged I C log" "i < length C"
  shows "rx_ok C log i w (tp_rx_end I C i w)"
proof -
  obtain s e where w: "w = (s, e)" by (cases w)
  have c: "C ! i \<in> set C" using assms(2) by simp
  show ?thesis unfolding w tp_rx_end_def split
    using assms(1) c by (auto simp: up_logged_def Let_def rx_st_def
        intro!: rx_okI [where l = "if ri_bytesRemaining (TpRxInfo s i) = 0 \<and> ri_active (TpRxInfo s i) then [UInd E_OK] else []"])
qed

subsection \<open>The module as a transition system\<close>

datatype ImcOp =
    Imc_Transmit nat "PduInfoType option"
  | Imc_Cancel nat
  | Imc_Rx nat nat "mem option"
  | Imc_Confirmed nat
  | Imc_Cycle

fun imc_step :: "'e ImcSys \<Rightarrow> rbdImc_TpCfg_st \<Rightarrow> 'e ImcW \<Rightarrow> ImcOp \<Rightarrow> 'e ImcW" where
  "imc_step I C w (Imc_Transmit i info) = snd (rbdImcTp_Transmit I C i info w)"
| "imc_step I C w (Imc_Cancel i) = snd (rbdImcTp_CancelTransmit I C i w)"
| "imc_step I C w (Imc_Rx i n m) = rbdImc_TpRxIndication I C i n m w"
| "imc_step I C w (Imc_Confirmed i) = rbdImc_TpTxConfirmation I C i w"
| "imc_step I C w Imc_Cycle = rbdImc_TpCyclic I C w"

definition imc_inv :: "'e ImcSys \<Rightarrow> rbdImc_TpCfg_st \<Rightarrow> ('e \<Rightarrow> (nat \<times> UpEv) list) \<Rightarrow> 'e ImcW \<Rightarrow> bool" where
  "imc_inv I C log w \<longleftrightarrow> up_logged I C log \<and> distinct (map UpperRxPduId C) \<and>
     (\<forall>i < length C. ri_bytesRemaining (TpRxInfo (fst w) i) < 65536 \<and>
        up_run None (seen (UpperRxPduId (C ! i)) (log (snd w))) = Some (rx_st (fst w) i))"

lemma imc_inv_rx:
  assumes inv: "imc_inv I C log w" and i: "i < length C" and ok: "rx_ok C log i w w'"
  shows "imc_inv I C log w'"
proof -
  obtain l where l: "log (snd w') = log (snd w) @ map (Pair (UpperRxPduId (C ! i))) l" "up_run (rx_st (fst w) i) l = Some (rx_st (fst w') i)"
    using ok by (auto simp: rx_ok_def)
  have "ri_bytesRemaining (TpRxInfo (fst w') j) < 65536 \<and> up_run None (seen (UpperRxPduId (C ! j)) (log (snd w'))) = Some (rx_st (fst w') j)"
    if j: "j < length C" for j
  proof (cases "j = i")
    case True
    then show ?thesis using inv i l ok by (auto simp: imc_inv_def rx_ok_def seen_append up_run_append)
  next
    case False
    then have "UpperRxPduId (C ! j) \<noteq> UpperRxPduId (C ! i)" using inv i j by (auto simp: imc_inv_def distinct_conv_nth)
    then show ?thesis using inv j l(1) ok False by (simp add: imc_inv_def rx_ok_def seen_append rx_st_def)
  qed
  then show ?thesis using inv by (simp add: imc_inv_def)
qed

lemma imc_inv_same: "imc_inv I C log w \<Longrightarrow> TpRxInfo (fst w') = TpRxInfo (fst w) \<Longrightarrow> log (snd w') = log (snd w) \<Longrightarrow> imc_inv I C log w'"
  by (simp add: imc_inv_def rx_st_def)

lemma rx_indication_inv:
  assumes inv: "imc_inv I C log w"
  shows "imc_inv I C log (rbdImc_TpRxIndication I C mid n p w)"
proof -
  obtain s e where w: "w = (s, e)" by (cases w)
  define i where "i = rbdImc_TpFindByImcId C mid"
  have up: "up_logged I C log" using inv by (simp add: imc_inv_def)
  show ?thesis
  proof (cases "length C \<le> i \<or> p = None")
    case True
    then show ?thesis using inv up unfolding w
      by (auto simp: rbdImc_TpRxIndication_def Let_def i_def up_logged_def intro: imc_inv_same)
  next
    case False
    then obtain m where i: "i < length C" and p: "p = Some m" by auto
    have b: "ri_bytesRemaining (TpRxInfo s i) < 65536" using inv i by (simp add: imc_inv_def w)
    have r: "rbdImc_TpRxIndication I C mid n p w =
       (if n < 1 \<or> m 0 = 0 \<and> n < 3 then rbdImc_TpReportRxError I C i (u8 (int mid)) RBDIMCPDUR_TP_RX RBDIMCPDUR_ERR_LENGTH (s, e)
        else tp_rx_end I C i (if m 0 = 0 then rbdImc_TpRxFirstFrame I C i n m (s, e) else rbdImc_TpRxConsecutiveFrame I C i n m (s, e)))"
      using i unfolding w p rbdImc_TpRxIndication_def by (simp add: Let_def i_def [symmetric])
    have "rx_ok C log i w (rbdImc_TpRxIndication I C mid n p w)"
      unfolding r unfolding w using rx_error_ok [OF up i] rx_ok_trans [OF rx_first_ok [OF up i] rx_end_ok [OF up i]]
        rx_ok_trans [OF rx_next_ok [OF up i b] rx_end_ok [OF up i]] by simp
    then show ?thesis by (rule imc_inv_rx [OF inv i])
  qed
qed

lemma cyclic_keeps:
  assumes "up_logged I C log"
  shows "TpRxInfo (fst (rbdImc_TpCyclic I C w)) = TpRxInfo (fst w) \<and> log (snd (rbdImc_TpCyclic I C w)) = log (snd w)"
proof -
  have one: "TpRxInfo (fst (tp_cyclic_channel I C i w)) = TpRxInfo (fst w) \<and> log (snd (tp_cyclic_channel I C i w)) = log (snd w)" for i w
  proof -
    obtain s e where w: "w = (s, e)" by (cases w)
    have k: "log (snd (ImcIf_GetBuffer I a n e)) = log e" "log (snd (snd (PduR_rbdImcTpCopyTxData I a n e))) = log e"
      "log (ImcIf_QueueAdd I c q e) = log e" for a n e c q using assms by (simp_all add: up_logged_def)
    show ?thesis
      using k(1) [of "ImcPduId (C ! i)" "IMCIF_MSG_MAX_LEN I" e] k(2) [of "UpperTxToPduR (C ! i)"] k(3)
      by (auto simp: w tp_cyclic_channel_def Let_def split: prod.split option.split) (metis snd_conv)+
  qed
  have "TpRxInfo (fst (fold (tp_cyclic_channel I C) is w)) = TpRxInfo (fst w) \<and> log (snd (fold (tp_cyclic_channel I C) is w)) = log (snd w)" for "is"
    by (induction "is" arbitrary: w) (simp_all add: one)
  then show ?thesis by (simp add: rbdImc_TpCyclic_def)
qed

lemma imc_step_inv: "imc_inv I C log w \<Longrightarrow> imc_inv I C log (imc_step I C w a)"
proof -
  assume inv: "imc_inv I C log w"
  then have up: "up_logged I C log" by (simp add: imc_inv_def)
  show ?thesis
  proof (cases a)
    case (Imc_Rx i n m)
    then show ?thesis using rx_indication_inv [OF inv] by simp
  next
    case Imc_Cycle
    then show ?thesis using imc_inv_same [OF inv] cyclic_keeps [OF up] by simp
  qed (use up in \<open>auto intro!: imc_inv_same [OF inv] simp: rbdImcTp_Transmit_def rbdImcTp_CancelTransmit_def rbdImc_TpTxConfirmation_def
      up_logged_def Let_def split: prod.split option.split\<close>)
qed

interpretation imc: step_system "imc_step I C" "imc_inv I C log" for I C log
  by unfold_locales (rule imc_step_inv)

text \<open>
  C13. Whatever packets arrive, in whatever order and mixed with any other calls: when the upper layer is told that a message
  was received, it was told of its start and length before, and has since then been given, by calls that all succeeded,
  exactly as many bytes as were announced.
\<close>

theorem imc_success_is_complete:
  assumes "up_logged I C log" "distinct (map UpperRxPduId C)" "log e = []" "\<And>i. \<not> ri_active (TpRxInfo s i) \<and> ri_bytesRemaining (TpRxInfo s i) = 0"
    and "i < length C" "seen (UpperRxPduId (C ! i)) (log (snd (foldl (imc_step I C) (s, e) ops))) = l @ UInd E_OK # l'"
  shows "\<exists>a ks. l = a @ UStart (sum_list ks) BUFREQ_OK # copies ks"
proof -
  have "imc_inv I C log (s, e)" using assms(1-4) by (simp add: imc_inv_def rx_st_def seen_def)
  from imc.foldl_inv [OF this, of ops] assms(5,6) have "up_run None (l @ UInd E_OK # l') \<noteq> None" by (auto simp: imc_inv_def)
  then show ?thesis by (rule up_run_complete)
qed

subsection \<open>Confirmation\<close>

text \<open>
  A schedule of the station: \<open>True\<close> is a call of the cyclic function, \<open>False\<close> the confirmation of a packet. \<open>imc_run\<close> executes any
  schedule. \<open>imc_window\<close> tells whether, starting with \<open>k\<close> confirmations, a schedule confirms queued packets only and leaves at most
  255 of them outstanding, which is what the 8-bit counter \<^verbatim>\<open>numPktsPending\<close> can represent; \<open>pk\<close> counts the packets that were queued.
\<close>

fun imc_run :: "'e ImcSys \<Rightarrow> rbdImc_TpCfg_st \<Rightarrow> nat \<Rightarrow> bool list \<Rightarrow> 'e ImcW \<Rightarrow> 'e ImcW" where
  "imc_run I C mid [] w = w"
| "imc_run I C mid (True # bs) w = imc_run I C mid bs (rbdImc_TpCyclic I C w)"
| "imc_run I C mid (False # bs) w = imc_run I C mid bs (rbdImc_TpTxConfirmation I C mid w)"

fun imc_window :: "'e ImcSys \<Rightarrow> rbdImc_TpCfg_st \<Rightarrow> nat \<Rightarrow> ('e \<Rightarrow> nat) \<Rightarrow> bool list \<Rightarrow> nat \<Rightarrow> 'e ImcW \<Rightarrow> bool" where
  "imc_window I C mid pk [] k w \<longleftrightarrow> True"
| "imc_window I C mid pk (True # bs) k w \<longleftrightarrow>
     pk (snd (rbdImc_TpCyclic I C w)) \<le> k + 255 \<and> imc_window I C mid pk bs k (rbdImc_TpCyclic I C w)"
| "imc_window I C mid pk (False # bs) k w \<longleftrightarrow>
     k < pk (snd w) \<and> imc_window I C mid pk bs (Suc k) (rbdImc_TpTxConfirmation I C mid w)"

text \<open>\<open>pk\<close> counts the queued packets and \<open>cnf\<close> the confirmations given to the upper layer.\<close>

definition imc_counted :: "'e ImcSys \<Rightarrow> nat \<Rightarrow> ('e \<Rightarrow> nat) \<Rightarrow> ('e \<Rightarrow> nat) \<Rightarrow> bool" where
  "imc_counted I h pk cnf \<longleftrightarrow>
     (\<forall>c q e. pk (ImcIf_QueueAdd I c q e) = Suc (pk e) \<and> cnf (ImcIf_QueueAdd I c q e) = cnf e) \<and>
     (\<forall>r e. pk (PduR_rbdImcTpTxConfirmation I h r e) = pk e \<and> cnf (PduR_rbdImcTpTxConfirmation I h r e) = Suc (cnf e)) \<and>
     (\<forall>i n e. pk (snd (ImcIf_GetBuffer I i n e)) = pk e \<and> cnf (snd (ImcIf_GetBuffer I i n e)) = cnf e \<and>
        pk (snd (snd (PduR_rbdImcTpCopyTxData I i n e))) = pk e \<and> cnf (snd (snd (PduR_rbdImcTpCopyTxData I i n e))) = cnf e)"

text \<open>The counters of channel \<open>i\<close> and the upper layer's view agree.\<close>

definition conf_ok :: "rbdImc_TpCfg_st \<Rightarrow> nat \<Rightarrow> ('e \<Rightarrow> nat) \<Rightarrow> ('e \<Rightarrow> nat) \<Rightarrow> nat \<Rightarrow> 'e ImcW \<Rightarrow> bool" where
  "conf_ok C i pk cnf k w \<longleftrightarrow> imc_only C i (fst w) \<and> k \<le> pk (snd w) \<and> pk (snd w) \<le> k + 255 \<and>
     ti_numPktsPending (TpTxInfo (fst w) i) = pk (snd w) - k \<and>
     cnf (snd w) = (if ti_bytesRemaining (TpTxInfo (fst w) i) = 0 \<and> k = pk (snd w) then 1 else 0)"

lemma channel_counts:
  assumes "imc_counted I (UpperTxToPduR (C ! i)) pk cnf"
  shows "tp_cyclic_channel I C i (s, e) = (s1, e1) \<Longrightarrow>
    cnf e1 = cnf e \<and> (s1 = s \<and> pk e1 = pk e \<or>
      pk e1 = Suc (pk e) \<and> 0 < ti_bytesRemaining (TpTxInfo s i) \<and> (\<forall>j. j \<noteq> i \<longrightarrow> TpTxInfo s1 j = TpTxInfo s j) \<and>
      ti_numPktsPending (TpTxInfo s1 i) = u8 (int (ti_numPktsPending (TpTxInfo s i)) + 1))"
proof -
  have k: "pk (snd (ImcIf_GetBuffer I a n e)) = pk e" "cnf (snd (ImcIf_GetBuffer I a n e)) = cnf e"
    "pk (snd (snd (PduR_rbdImcTpCopyTxData I a n e))) = pk e" "cnf (snd (snd (PduR_rbdImcTpCopyTxData I a n e))) = cnf e"
    "pk (ImcIf_QueueAdd I c q e) = Suc (pk e)" "cnf (ImcIf_QueueAdd I c q e) = cnf e" for a n e c q using assms by (simp_all add: imc_counted_def)
  assume st: "tp_cyclic_channel I C i (s, e) = (s1, e1)"
  let ?t = "TpTxInfo s i"
  obtain b e2 where gb: "ImcIf_GetBuffer I (ImcPduId (C ! i)) (IMCIF_MSG_MAX_LEN I) e = (b, e2)"
    by (cases "ImcIf_GetBuffer I (ImcPduId (C ! i)) (IMCIF_MSG_MAX_LEN I) e")
  have e2: "pk e2 = pk e" "cnf e2 = cnf e" using k(1,2) [of "ImcPduId (C ! i)" "IMCIF_MSG_MAX_LEN I" e] by (simp_all add: gb)
  define n where "n = (let room = u32 (int (IMCIF_MSG_MAX_LEN I) - int (length (tp_header ?t))) in if ti_bytesRemaining ?t < room then ti_bytesRemaining ?t else room)"
  obtain r bs e3 where cp: "PduR_rbdImcTpCopyTxData I (UpperTxToPduR (C ! i)) (u16 (int n)) e2 = (r, bs, e3)"
    by (cases "PduR_rbdImcTpCopyTxData I (UpperTxToPduR (C ! i)) (u16 (int n)) e2")
  have e3: "pk e3 = pk e" "cnf e3 = cnf e" using k(3,4) [of "UpperTxToPduR (C ! i)" "u16 (int n)" e2] e2 by (simp_all add: cp)
  show ?thesis
    using st gb cp e2 e3 k(5,6) unfolding tp_cyclic_channel_def split Let_def n_def [unfolded Let_def, symmetric]
    by (auto split: if_splits option.splits prod.splits)
qed

lemma cycle_conf:
  assumes cnt: "imc_counted I (UpperTxToPduR (C ! i)) pk cnf" and i: "i < length C" and ok: "conf_ok C i pk cnf k w"
    and b: "pk (snd (rbdImc_TpCyclic I C w)) \<le> k + 255"
  shows "conf_ok C i pk cnf k (rbdImc_TpCyclic I C w)"
proof -
  obtain s e where w: "w = (s, e)" by (cases w)
  obtain s1 e1 where st: "tp_cyclic_channel I C i (s, e) = (s1, e1)" by (cases "tp_cyclic_channel I C i (s, e)")
  have only: "imc_only C i s" using ok by (simp add: conf_ok_def w)
  have cy: "rbdImc_TpCyclic I C w = (s1, e1)" using cyclic_one [OF i only, of I e] st by (simp add: w)
  have u: "ti_numPktsPending (TpTxInfo s i) = pk e - k" using ok by (simp add: conf_ok_def w)
  note ch = channel_counts [OF cnt st]
  show ?thesis
  proof (cases "s1 = s \<and> pk e1 = pk e")
    case True
    then show ?thesis using ok ch unfolding cy by (simp add: conf_ok_def w)
  next
    case False
    then have n: "pk e1 = Suc (pk e)" "0 < ti_bytesRemaining (TpTxInfo s i)" "imc_only C i s1"
      "ti_numPktsPending (TpTxInfo s1 i) = u8 (int (pk e - k) + 1)" "cnf e1 = cnf e" using ch only u by (auto simp: imc_only_def)
    have "k \<le> pk e" "Suc (pk e) \<le> k + 255" "cnf e = 0" using ok b [unfolded cy] n(1,2) by (simp_all add: conf_ok_def w)
    moreover from this have "u8 (int (pk e - k) + 1) = Suc (pk e) - k" using u8_of_nat [of "Suc (pk e - k)"] by (simp add: Suc_diff_le add.commute)
    ultimately show ?thesis unfolding cy using n by (simp add: conf_ok_def)
  qed
qed

lemma confirmation_conf:
  assumes cnt: "imc_counted I (UpperTxToPduR (C ! i)) pk cnf" and i: "i < length C" "rbdImc_TpFindByImcId C mid = i"
    and ok: "conf_ok C i pk cnf k w" and b: "k < pk (snd w)"
  shows "conf_ok C i pk cnf (Suc k) (rbdImc_TpTxConfirmation I C mid w)"
proof -
  obtain s e where w: "w = (s, e)" by (cases w)
  have c: "pk (PduR_rbdImcTpTxConfirmation I (UpperTxToPduR (C ! i)) E_OK e) = pk e"
    "cnf (PduR_rbdImcTpTxConfirmation I (UpperTxToPduR (C ! i)) E_OK e) = Suc (cnf e)" using cnt by (simp_all add: imc_counted_def)
  show ?thesis using ok b i c by (auto simp: conf_ok_def w rbdImc_TpTxConfirmation_def Let_def imc_only_def split: if_splits)
qed

lemma run_conf:
  assumes cnt: "imc_counted I (UpperTxToPduR (C ! i)) pk cnf" and i: "i < length C" "rbdImc_TpFindByImcId C mid = i"
  shows "conf_ok C i pk cnf k w \<Longrightarrow> imc_window I C mid pk bs k w \<Longrightarrow> conf_ok C i pk cnf (k + count_list bs False) (imc_run I C mid bs w)"
proof (induction bs arbitrary: k w)
  case (Cons b bs)
  then show ?case
    using cycle_conf [OF cnt i(1) Cons.prems(1)] confirmation_conf [OF cnt i Cons.prems(1)] Cons.IH [of "Suc k" "rbdImc_TpTxConfirmation I C mid w"]
    by (cases b) auto
qed simp

text \<open>
  C14. Exactly one confirmation, as long as the 8-bit counter of outstanding packets does not overflow. An accepted request for a message, the only
  one under way, is followed by an interleaving of the cyclic function, whose attempts to get a buffer or data may fail, with confirmations of packets, in which only
  queued packets are confirmed and at most 255 of them are ever outstanding. The upper layer has then been told of the success exactly
  once if everything is sent and all packets are confirmed, and not at all before. What happens beyond that limit is \<open>imc_confirmation_wraps\<close>.
\<close>

theorem imc_one_confirmation:
  assumes "imc_counted I (UpperTxToPduR (C ! i)) pk cnf" "i < length C" "rbdImc_TpFindByImcId C mid = i" "rbdImc_TpFindByPdurTxId C txid = i"
    and "imc_only C i s" "ti_numPktsPending (TpTxInfo s i) = 0" "pk e = 0" "cnf e = 0" "0 < n" "n < 65536"
    and "w = snd (rbdImcTp_Transmit I C txid (Some \<lparr>SduDataPtr = m, SduLength = n\<rparr>) (s, e))"
    and "imc_window I C mid pk bs 0 w" "imc_run I C mid bs w = (s', e')"
  shows "cnf e' = (if ti_bytesRemaining (TpTxInfo s' i) = 0 \<and> count_list bs False = pk e' then 1 else 0)"
proof -
  have "conf_ok C i pk cnf 0 w" using assms(2,4-11) by (simp add: conf_ok_def rbdImcTp_Transmit_def imc_only_def u16_of_nat)
  from run_conf [OF assms(1-3) this assms(12)] assms(13) show ?thesis by (simp add: conf_ok_def)
qed

lemma cycles_pending:
  assumes cnt: "imc_counted I (UpperTxToPduR (C ! i)) pk cnf" and i: "i < length C"
  shows "imc_only C i (fst w) \<Longrightarrow> imc_run I C mid (replicate k True) w = (s', e') \<Longrightarrow> ti_numPktsPending (TpTxInfo (fst w) i) < 256 \<Longrightarrow>
    cnf e' = cnf (snd w) \<and> pk (snd w) \<le> pk e' \<and>
    ti_numPktsPending (TpTxInfo s' i) = (ti_numPktsPending (TpTxInfo (fst w) i) + (pk e' - pk (snd w))) mod 256"
proof (induction k arbitrary: w)
  case (Suc k)
  obtain s e where w: "w = (s, e)" by (cases w)
  obtain s1 e1 where st: "tp_cyclic_channel I C i (s, e) = (s1, e1)" by (cases "tp_cyclic_channel I C i (s, e)")
  have cy: "rbdImc_TpCyclic I C w = (s1, e1)" using cyclic_one [OF i, of s I e] Suc.prems(1) st by (simp add: w)
  note ch = channel_counts [OF cnt st]
  have u: "u8 (int n + 1) = Suc n mod 256" for n by (simp add: u8_def nat_mod_as_int add.commute)
  have "imc_only C i s1" "ti_numPktsPending (TpTxInfo s1 i) < 256" using ch Suc.prems(1,3) by (auto simp: imc_only_def w u)
  from Suc.IH [of "(s1, e1)"] this Suc.prems(2)
  have "cnf e' = cnf e1 \<and> pk e1 \<le> pk e' \<and> ti_numPktsPending (TpTxInfo s' i) = (ti_numPktsPending (TpTxInfo s1 i) + (pk e' - pk e1)) mod 256"
    by (simp add: cy)
  moreover have "(Suc a mod 256 + (p' - Suc p)) mod 256 = (a + (p' - p)) mod 256" if "Suc p \<le> p'" for a p p' :: nat
    using that mod_add_left_eq [of "Suc a" 256 "p' - Suc p"] by (simp add: Suc_diff_Suc)
  ultimately show ?case using ch by (auto simp: w u simp del: Nat.add_diff_assoc)
qed simp

lemma confirmations_zero:
  assumes cnt: "imc_counted I (UpperTxToPduR (C ! i)) pk cnf" and i: "i < length C" "rbdImc_TpFindByImcId C mid = i"
  shows "ti_numPktsPending (TpTxInfo (fst w) i) = 0 \<Longrightarrow> ti_bytesRemaining (TpTxInfo (fst w) i) = 0 \<Longrightarrow>
    cnf (snd (imc_run I C mid (replicate m False) w)) = cnf (snd w) + m"
proof (induction m arbitrary: w)
  case (Suc m)
  have "rbdImc_TpTxConfirmation I C mid w = (fst w, PduR_rbdImcTpTxConfirmation I (UpperTxToPduR (C ! i)) E_OK (snd w))"
    using Suc.prems i by (cases w) (simp add: rbdImc_TpTxConfirmation_def)
  then show ?case using Suc.IH [of "rbdImc_TpTxConfirmation I C mid w"] Suc.prems cnt by (simp add: imc_counted_def)
qed simp

text \<open>
  Beyond the limit: when cycles have queued 256 packets with no confirmation in between, the counter is 0 again. If the message
  is complete with the last of them, every one of the confirmations that follow is passed on to the upper layer, the first one too.
\<close>

theorem imc_confirmation_wraps:
  assumes "imc_counted I (UpperTxToPduR (C ! i)) pk cnf" "i < length C" "rbdImc_TpFindByImcId C mid = i"
    and "imc_only C i (fst w)" "ti_numPktsPending (TpTxInfo (fst w) i) = 0"
    and "imc_run I C mid (replicate k True) w = (s', e')" "pk e' = pk (snd w) + 256" "ti_bytesRemaining (TpTxInfo s' i) = 0"
  shows "cnf (snd (imc_run I C mid (replicate m False) (s', e'))) = cnf (snd w) + m"
  using cycles_pending [OF assms(1,2,4,6)] confirmations_zero [OF assms(1-3), of "(s', e')" m] assms(5,7,8) by simp

subsection \<open>A wrong sequence number\<close>

text \<open>
  A packet with the wrong sequence number ends the reception: the error is traced and the upper layer told of the failure, once,
  and nothing of the packet is handed over. But the sequence number and the count of missing bytes stay: a packet that would have
  continued the ended reception is still handed to the upper layer, without any further report of success or failure.
\<close>

theorem imc_aborted_still_copies:
  assumes C: "imc_rx_channel C i h mid" and act: "ri_active (TpRxInfo s i)" and q: "q = ri_sequence (TpRxInfo s i) AND 15"
    and f: "f \<noteq> []" "hd f \<noteq> 0" "hd f AND 15 \<noteq> q"
    and g: "g \<noteq> []" "hd g \<noteq> 0" "hd g AND 15 = q" "length g - 1 \<le> ri_bytesRemaining (TpRxInfo s i)" "length g < 65536"
    and r: "(s1, e1) = imc_receive I C mid f (s, e)" "(s2, e2) = imc_receive I C mid g (s1, e1)"
  shows "e1 = PduR_rbdImcTpRxIndication I h E_NOT_OK (ImcDet_ReportRuntimeError I (hd f) RBDIMCPDUR_TP_RX RBDIMCPDUR_ERR_SEQUENCE e) \<and>
    \<not> ri_active (TpRxInfo s1 i) \<and>
    (fst (PduR_rbdImcTpCopyRxData I h (tl g) e1) = BUFREQ_OK \<longrightarrow> e2 = snd (PduR_rbdImcTpCopyRxData I h (tl g) e1) \<and> \<not> ri_active (TpRxInfo s2 i))"
proof -
  have c: "i < length C" "UpperRxPduId (C ! i) = h" "rbdImc_TpFindByImcId C mid = i" using C by (auto simp: imc_rx_channel_def)
  have m: "mem_of f 0 = hd f" "mem_of g 0 = hd g" "rd (mem_of g) 1 (length g - 1) = tl g"
    using f(1) g(1) by (auto simp: mem_of_def hd_conv_nth nth_tl intro!: rd_eqI)
  have len: "\<not> length f < 1" "\<not> length g < 1" using f(1) g(1) by (simp_all add: Suc_le_eq)
  have u: "u16 (int (length g) - 1) = length g - 1" using g(1,5) u16_of_nat [of "length g - 1"] by (cases g) auto
  let ?d = "ImcDet_ReportRuntimeError I (hd f) RBDIMCPDUR_TP_RX RBDIMCPDUR_ERR_SEQUENCE e"
  have "imc_receive I C mid f (s, e) =
      (upd_rx i (\<lambda>r. r\<lparr>ri_active := False\<rparr>) s, PduR_rbdImcTpRxIndication I h E_NOT_OK ?d)"
    using c m(1) f(2,3) len(1) act q
    by (simp add: imc_receive_def rbdImc_TpRxIndication_def rbdImc_TpRxConsecutiveFrame_def rbdImc_TpReportRxError_def tp_rx_end_def Let_def)
  then have 1: "s1 = upd_rx i (\<lambda>r. r\<lparr>ri_active := False\<rparr>) s" "e1 = PduR_rbdImcTpRxIndication I h E_NOT_OK ?d" using r(1) by simp_all
  obtain x e' where cp: "PduR_rbdImcTpCopyRxData I h (tl g) e1 = (x, e')" by (cases "PduR_rbdImcTpCopyRxData I h (tl g) e1")
  have "x = BUFREQ_OK \<Longrightarrow> imc_receive I C mid g (s1, e1) =
      (upd_rx i (\<lambda>r. r\<lparr>ri_bytesRemaining := u16 (int (ri_bytesRemaining r) - int (length g - 1)), ri_sequence := u8 (int (ri_sequence r) + 1)\<rparr>) s1, e')"
    using c m(2,3) g(2-4) len(2) cp q 1(1)
    by (simp add: imc_receive_def rbdImc_TpRxIndication_def rbdImc_TpRxConsecutiveFrame_def tp_rx_end_def Let_def u)
  then show ?thesis using 1 r(2) cp by auto
qed

subsection \<open>A concrete upper layer\<close>

text \<open>The state of the rest of the system is the log of the upper layer, the number of queued packets and that of confirmations.\<close>

type_synonym imc_log = "(nat \<times> UpEv) list \<times> nat \<times> nat"

definition log_routes :: "imc_log PduR_St" where
  "log_routes = Some
    \<lparr>RouteTblTx = (\<lambda>_. \<lparr>LoTransmit = None, LoCancelTransmit = None, LoTxPduId = 0, UpTxConfirmation = None, UpTxPduId = 0\<rparr>),
     RouteTblRx = (\<lambda>_. \<lparr>UpRxIndication = None, UpRxPduId = 0\<rparr>),
     TpRouteTblTx = (\<lambda>i. \<lparr>LoTpTransmit = None, LoTpCancelTransmit = None, LoTpTxPduId = 0,
       UpTpCopyTxData = Some (\<lambda>i info _ e. (BUFREQ_OK, replicate (case info of Some (n, _) \<Rightarrow> n | None \<Rightarrow> 0) 0, None, e)),
       UpTpTxConfirmation = Some (\<lambda>i r (l, p, c). (l, p, Suc c)), UpTpTxPduId = i\<rparr>),
     TpRouteTblRx = (\<lambda>i. \<lparr>UpTpStartOfReception = Some (\<lambda>i n (l, x). (BUFREQ_OK, None, l @ [(i, UStart n BUFREQ_OK)], x)),
       UpTpCopyRxData = Some (\<lambda>i bs n (l, x). (BUFREQ_OK, None, l @ [(i, UCopy n BUFREQ_OK)], x)),
       UpTpRxIndication = Some (\<lambda>i r (l, x). (l @ [(i, UInd r)], x)), UpTpRxPduId = i\<rparr>),
     SetTxConfirmationLatency = None, TxInterrupt = None\<rparr>"

definition log_sys :: "imc_log ImcSys" where
  "log_sys =
     \<lparr>IMCIF_MSG_MAX_LEN = 8, ImcIf_GetBuffer = (\<lambda>_ _ e. (Some (0, \<lparr>iq_Msg = (\<lambda>_. 0), iq_Length = 0\<rparr>), e)),
      ImcIf_QueueAdd = (\<lambda>_ q (l, p, c). (l, Suc p, c)), ImcDet_ReportError = (\<lambda>_ _ _ e. e), ImcDet_ReportRuntimeError = (\<lambda>_ _ _ e. e),
      ImcPduDim = \<lparr>PDUR_PDU_TX_MAX = 1, PDUR_PDU_RX_MAX = 1, PDUR_PDU_TP_TX_MAX = 1, PDUR_PDU_TP_RX_MAX = 1\<rparr>, ImcPduR = log_routes\<rparr>"

definition log_cfg :: rbdImc_TpCfg_st where
  "log_cfg = [\<lparr>UpperTxFromPduR = 5, UpperTxToPduR = 0, UpperRxPduId = 0, ImcPduId = 7\<rparr>]"

definition log_idle :: "imc_log ImcW" where
  "log_idle = (\<lparr>TpTxInfo = (\<lambda>_. \<lparr>ti_bytesRemaining = 0, ti_offset = 0, ti_sequence = 0, ti_numPktsPending = 0\<rparr>),
     TpRxInfo = (\<lambda>_. \<lparr>ri_bytesRemaining = 0, ri_active = False, ri_sequence = 0\<rparr>)\<rparr>, [], 0, 0)"

lemmas log_defs = PduR_rbdImcTpStartOfReception_def PduR_rbdImcTpCopyRxData_def PduR_rbdImcTpRxIndication_def PduR_rbdImcTpCopyTxData_def
  PduR_rbdImcTpTxConfirmation_def PduR_TpStartOfReception_def PduR_TpCopyRxData_def PduR_TpRxIndication_def PduR_TpCopyTxData_def
  PduR_TpTxConfirmation_def routed_def log_sys_def log_routes_def

lemma log_sys_logged: "up_logged log_sys log_cfg fst"
  by (auto simp: up_logged_def log_cfg_def log_defs split: prod.split)

lemma log_sys_counted: "imc_counted log_sys 0 (fst \<circ> snd) (snd \<circ> snd)"
  by (auto simp: imc_counted_def log_defs split: prod.split)

theorem imc_success_is_complete_witness:
  "\<exists>a ks. [UStart 2 BUFREQ_OK, UCopy 2 BUFREQ_OK] = a @ UStart (sum_list ks) BUFREQ_OK # copies ks"
proof -
  have "fst (snd (foldl (imc_step log_sys log_cfg) log_idle [Imc_Rx 7 5 (Some (mem_of [0, 0, 2, 9, 8]))])) =
      [(0, UStart 2 BUFREQ_OK), (0, UCopy 2 BUFREQ_OK), (0, UInd E_OK)]"
    by (simp add: log_idle_def log_cfg_def rbdImc_TpRxIndication_def rbdImc_TpFindByImcId_def mem_of_def rbdImc_TpRxFirstFrame_def tp_rx_end_def u16_def
        Let_def log_defs)
  then show ?thesis
    using imc_success_is_complete [OF log_sys_logged, of "snd log_idle" "fst log_idle" 0 "[Imc_Rx 7 5 (Some (mem_of [0, 0, 2, 9, 8]))]"
        "[UStart 2 BUFREQ_OK, UCopy 2 BUFREQ_OK]" "[]"]
    by (simp add: log_idle_def log_cfg_def seen_def)
qed

theorem imc_one_confirmation_witness:
  "(snd \<circ> snd) (snd (imc_run log_sys log_cfg 7 [True, True, False, True, False]
      (snd (rbdImcTp_Transmit log_sys log_cfg 5 (Some \<lparr>SduDataPtr = None, SduLength = 10\<rparr>) log_idle)))) = 1"
proof -
  let ?w = "snd (rbdImcTp_Transmit log_sys log_cfg 5 (Some \<lparr>SduDataPtr = None, SduLength = 10\<rparr>) log_idle)"
  let ?r = "imc_run log_sys log_cfg 7 [True, True, False, True, False] ?w"
  have "imc_window log_sys log_cfg 7 (fst \<circ> snd) [True, True, False, True, False] 0 ?w \<and>
      ti_bytesRemaining (TpTxInfo (fst ?r) 0) = 0 \<and> (fst \<circ> snd) (snd ?r) = 2"
    by (simp add: log_idle_def log_cfg_def rbdImcTp_Transmit_def rbdImc_TpFindByPdurTxId_def rbdImc_TpFindByImcId_def rbdImc_TpCyclic_def tp_cyclic_channel_def
        tp_header_def rbdImc_TpTxConfirmation_def u8_def u16_def u32_def Let_def log_defs)
  then show ?thesis
    using imc_one_confirmation [of log_sys log_cfg 0 "fst \<circ> snd" "snd \<circ> snd" 7 5 "fst log_idle" "snd log_idle" 10 ?w None
        "[True, True, False, True, False]" "fst ?r" "snd ?r"] log_sys_counted
    by (simp add: log_idle_def log_cfg_def imc_only_def rbdImc_TpFindByPdurTxId_def rbdImc_TpFindByImcId_def)
qed

text \<open>Six of ten bytes were received when the packet with number 5 comes instead of number 1; then number 1 comes.\<close>

theorem imc_aborted_still_copies_witness:
  "let s = \<lparr>TpTxInfo = TpTxInfo (fst log_idle), TpRxInfo = (\<lambda>_. \<lparr>ri_bytesRemaining = 4, ri_active = True, ri_sequence = 1\<rparr>)\<rparr>;
       w1 = imc_receive log_sys log_cfg 7 [37, 1, 2] (s, [], 0, 0); w2 = imc_receive log_sys log_cfg 7 [33, 3, 4] w1
   in snd w1 = ([(0, UInd E_NOT_OK)], 0, 0) \<and> snd w2 = ([(0, UInd E_NOT_OK), (0, UCopy 2 BUFREQ_OK)], 0, 0)"
proof -
  let ?s = "\<lparr>TpTxInfo = TpTxInfo (fst log_idle), TpRxInfo = (\<lambda>_. \<lparr>ri_bytesRemaining = 4, ri_active = True, ri_sequence = 1\<rparr>)\<rparr>"
  have c: "imc_rx_channel log_cfg 0 0 7" by (simp add: imc_rx_channel_def log_cfg_def rbdImc_TpFindByImcId_def)
  show ?thesis
    using imc_aborted_still_copies [OF c _ refl, where s = ?s and f = "[37, 1, 2]" and g = "[33, 3, 4]" and I = log_sys and e = "([], 0, 0)",
        OF _ _ _ _ _ _ _ _ _ prod.collapse prod.collapse]
    by (simp add: log_defs Let_def)
qed

end
