(* ===== verification/Imc.thy ===== *)
theory Imc
  imports ImcTp
begin

text \<open>
  The rest of the inter-chip communication: set-up and cyclic calls (\<^verbatim>\<open>rbdImc.c\<close>), plain messages (\<^verbatim>\<open>rbdImc_PduR.c\<close>), the ping test
  (\<^verbatim>\<open>rbdImc_Ping.c\<close>) and the extra tasks of the master (\<^verbatim>\<open>rbdImcRte.c\<close>). What is not in the repository is a field of \<open>ImcTopSys\<close>:
  the layers below (\<^verbatim>\<open>ImcIf\<close>, \<^verbatim>\<open>ImcTl\<close>, \<^verbatim>\<open>ImcDlSpi\<close>), plant data, timers (named by \<open>ImcTimer\<close>), the clock, the byte order of the union in the
  ping message, and the pins. \<open>ImcCpu\<close> and the switches select the build.
\<close>

subsection \<open>Build and environment\<close>

datatype ImcCpu = CPU_SPC58ECx | CPU_CC26xx | CPU_S32 | CPU_NCJ29D5

datatype ImcTimer = PingTimer | PowerModeTxTimer

datatype rbdImc_ChannelEn_et = IMC_CH_EN_OFF | IMC_CH_EN_DL_ONLY | IMC_CH_EN_FULL

datatype ImcUdsResult = RB_UDS_14229_PR | RB_UDS_14229_BRR | RB_UDS_14229_RSE

datatype ImcPin = PIN_HIGH | PIN_LOW

record rbdImc_Ping_st =
  pg_SumRTT :: nat
  pg_NumPackets :: nat
  pg_NumTx :: nat
  pg_NumRx :: nat
  pg_running :: bool
  pg_STmin_ms :: nat

record ImcModSt =
  Imc_ChannelEn :: "nat \<Rightarrow> rbdImc_ChannelEn_et"
  rbdImc_Ping_s :: rbdImc_Ping_st
  rbdImc_BleResetDelay :: nat
  rbdImc_IsFastSleepActive :: bool

record rbdImc_PduRMsgCfgRx_st =
  rc_UpperRxToPduR :: nat
  rc_Imc_PduId :: nat

record rbdImc_PduRMsgCfgTx_st =
  tc_UpperTxFromPduR :: nat
  tc_UpperTxToPduR :: nat
  tc_Imc_PduId :: nat

text \<open>A null table is \<open>None\<close>; the number of messages is the length of the table.\<close>

record rbdImc_PduRCfg_st =
  PduR_TxCfg :: "rbdImc_PduRMsgCfgTx_st list option"
  PduR_RxCfg :: "rbdImc_PduRMsgCfgRx_st list option"

record 'e ImcTopSys =
  imc_cpu :: ImcCpu
  imc_APP :: bool
  imc_FBL :: bool
  imc_VEHICLE :: bool
  imc_KEYFOB :: bool
  imc_MASTER_MCU :: bool
  imc_DEVELOPMENT :: bool
  imc_CanLoading_None :: "'e \<Rightarrow> bool"
  imc_UwbLoading_None :: "'e \<Rightarrow> bool"
  ImcIf_Tx :: "nat \<Rightarrow> nat \<Rightarrow> mem option \<Rightarrow> 'e \<Rightarrow> bool \<times> 'e"
  ImcDlSpi_Initialise :: "'e \<Rightarrow> 'e"
  ImcTl_Initialise :: "'e \<Rightarrow> 'e"
  ImcIf_Initialise :: "'e \<Rightarrow> 'e"
  imc_StartCanChannel :: "'e \<Rightarrow> 'e"
  ImcDlSpi_Cyclic :: "'e \<Rightarrow> 'e"
  ImcIf_MainFunction :: "'e \<Rightarrow> 'e"
  ImcTl_Cyclic :: "'e \<Rightarrow> 'e"
  ImcIf_ResetChannel :: "nat \<Rightarrow> 'e \<Rightarrow> 'e"
  ImcTl_ResetChannel :: "nat \<Rightarrow> 'e \<Rightarrow> 'e"
  ImcDlSpi_ResetChannel :: "nat \<Rightarrow> 'e \<Rightarrow> 'e"
  IMCIF_MSG_PING_BLE :: nat
  IMCIF_MSG_PING_UWB :: nat
  imc_TimerInit :: "ImcTimer \<Rightarrow> 'e \<Rightarrow> 'e"
  imc_TimerStart :: "ImcTimer \<Rightarrow> nat \<Rightarrow> 'e \<Rightarrow> 'e"
  imc_TimerStop :: "ImcTimer \<Rightarrow> 'e \<Rightarrow> 'e"
  imc_TimerRunning :: "ImcTimer \<Rightarrow> 'e \<Rightarrow> bool \<times> 'e"
  imc_KhzCounter :: "'e \<Rightarrow> nat"
  imc_KhzToMs :: "nat \<Rightarrow> nat"
  imc_StampBytes :: "nat \<Rightarrow> mem"
  imc_StampValue :: "mem \<Rightarrow> nat"
  imc_isPOR :: "'e \<Rightarrow> bool"
  imc_WriteBleReset :: "ImcPin \<Rightarrow> 'e \<Rightarrow> 'e"
  imc_NmActive :: "'e \<Rightarrow> bool"
  imc_TxCanNm :: "'e \<Rightarrow> 'e"
  imc_TxFastSleep :: "nat \<Rightarrow> 'e \<Rightarrow> 'e"
  RBDIMC_CANNM_PERIOD_MS :: nat
  imc_PduDim :: PduR_Dim
  imc_PduR :: "'e PduR_St"

type_synonym 'e ImcTopW = "ImcModSt \<times> 'e"

datatype ImcEnd = IMC_NONE | IMC_MASTER | IMC_SLAVE

definition IMC_MCUBLE_EN :: "'e ImcTopSys \<Rightarrow> ImcEnd" where
  "IMC_MCUBLE_EN S = (case imc_cpu S of CPU_SPC58ECx \<Rightarrow> IMC_MASTER | CPU_CC26xx \<Rightarrow> IMC_SLAVE | _ \<Rightarrow> IMC_NONE)"

definition IMC_BLEUWB_EN :: "'e ImcTopSys \<Rightarrow> ImcEnd" where
  "IMC_BLEUWB_EN S = (case imc_cpu S of CPU_SPC58ECx \<Rightarrow> IMC_NONE | CPU_CC26xx \<Rightarrow> IMC_MASTER | CPU_S32 \<Rightarrow> IMC_MASTER | CPU_NCJ29D5 \<Rightarrow> IMC_SLAVE)"

text \<open>The numbers that the enumeration \<^verbatim>\<open>rbdImc_Channel_et\<close> gives to the channels of a build.\<close>

definition IMC_CH_MCUBLE :: nat where "IMC_CH_MCUBLE = 0"

definition IMC_CH_BLEUWB :: "'e ImcTopSys \<Rightarrow> nat" where
  "IMC_CH_BLEUWB S = (if IMC_MCUBLE_EN S = IMC_NONE then 0 else 1)"

definition IMC_CH_COUNT :: "'e ImcTopSys \<Rightarrow> nat" where
  "IMC_CH_COUNT S = (if IMC_MCUBLE_EN S = IMC_NONE then 0 else 1) + (if IMC_BLEUWB_EN S = IMC_NONE then 0 else 1)"

subsection \<open>Set-up and cyclic calls\<close>

definition mcuble_enable :: "'e ImcTopSys \<Rightarrow> 'e \<Rightarrow> rbdImc_ChannelEn_et" where
  "mcuble_enable S e = (if IMC_MCUBLE_EN S = IMC_MASTER \<or> imc_CanLoading_None S e then IMC_CH_EN_FULL else IMC_CH_EN_OFF)"

definition bleuwb_enable :: "'e ImcTopSys \<Rightarrow> 'e \<Rightarrow> rbdImc_ChannelEn_et" where
  "bleuwb_enable S e = (if IMC_BLEUWB_EN S = IMC_MASTER \<and> imc_UwbLoading_None S e then IMC_CH_EN_OFF else IMC_CH_EN_FULL)"

definition rbdImc_Init :: "'e ImcTopSys \<Rightarrow> 'e ImcTopW \<Rightarrow> 'e ImcTopW" where
  "rbdImc_Init S = (\<lambda>(s, e).
     let s1 = (if IMC_MCUBLE_EN S = IMC_NONE then s
               else s\<lparr>Imc_ChannelEn := (Imc_ChannelEn s)(IMC_CH_MCUBLE := mcuble_enable S e)\<rparr>);
         s2 = (if IMC_BLEUWB_EN S = IMC_NONE then s1
               else s1\<lparr>Imc_ChannelEn := (Imc_ChannelEn s1)(IMC_CH_BLEUWB S := bleuwb_enable S e)\<rparr>);
         e1 = ImcIf_Initialise S (ImcTl_Initialise S (ImcDlSpi_Initialise S e))
     in (s2, if imc_MASTER_MCU S then imc_StartCanChannel S e1 else e1))"

definition rbdImc_CyclicFast :: "'e ImcTopSys \<Rightarrow> 'e ImcTopW \<Rightarrow> 'e ImcTopW" where
  "rbdImc_CyclicFast S = (\<lambda>(s, e). (s, ImcDlSpi_Cyclic S e))"

definition rbdImc_CyclicFast2 :: "'e ImcTopSys \<Rightarrow> 'e ImcTopW \<Rightarrow> 'e ImcTopW" where
  "rbdImc_CyclicFast2 S w = rbdImc_CyclicFast S w"

definition rbdImc_SetChannelEn :: "'e ImcTopSys \<Rightarrow> nat \<Rightarrow> rbdImc_ChannelEn_et \<Rightarrow> ImcModSt \<Rightarrow> ImcModSt" where
  "rbdImc_SetChannelEn S ch enable s =
     (if ch < IMC_CH_COUNT S then s\<lparr>Imc_ChannelEn := (Imc_ChannelEn s)(ch := enable)\<rparr> else s)"

definition rbdImc_ResetChannel :: "'e ImcTopSys \<Rightarrow> nat \<Rightarrow> 'e \<Rightarrow> 'e" where
  "rbdImc_ResetChannel S ch e = ImcDlSpi_ResetChannel S ch (ImcTl_ResetChannel S ch (ImcIf_ResetChannel S ch e))"

definition rbdImcTx_Tx :: "'e ImcTopSys \<Rightarrow> nat \<Rightarrow> nat \<Rightarrow> mem option \<Rightarrow> 'e \<Rightarrow> Std_ReturnType \<times> 'e" where
  "rbdImcTx_Tx S MsgType Len Msg e = (let (ok, e1) = ImcIf_Tx S MsgType Len Msg e in (if ok then E_OK else E_NOT_OK, e1))"

subsection \<open>Plain messages\<close>

fun com_transmit :: "'e ImcTopSys \<Rightarrow> nat \<Rightarrow> PduInfoType \<Rightarrow> rbdImc_PduRMsgCfgTx_st list \<Rightarrow> Std_ReturnType \<times> 'e \<Rightarrow> Std_ReturnType \<times> 'e" where
  "com_transmit S TxPduId info [] (result, e) = (result, e)"
| "com_transmit S TxPduId info (c # cs) (result, e) =
     (if TxPduId = tc_UpperTxFromPduR c
      then let (ok, e1) = ImcIf_Tx S (tc_Imc_PduId c) (SduLength info) (SduDataPtr info) e
           in com_transmit S TxPduId info cs (if ok then E_OK else result, e1)
      else com_transmit S TxPduId info cs (result, e))"

definition RBDIMCPDUR_IF_TX :: nat where "RBDIMCPDUR_IF_TX = 1"

definition rbdImcCom_Transmit :: "'e ImcTopSys \<Rightarrow> 'e ImcSys \<Rightarrow> rbdImc_PduRCfg_st \<Rightarrow> nat \<Rightarrow> PduInfoType option \<Rightarrow> 'e \<Rightarrow> Std_ReturnType \<times> 'e" where
  "rbdImcCom_Transmit S I C TxPduId PduInfoPtr e =
     (case PduInfoPtr of None \<Rightarrow> (E_NOT_OK, ImcDet_ReportError I 0 RBDIMCPDUR_IF_TX RBDIMCPDUR_ERR_NULL e)
      | Some info \<Rightarrow> (case PduR_TxCfg C of None \<Rightarrow> (E_NOT_OK, e) | Some cs \<Rightarrow> com_transmit S TxPduId info cs (E_NOT_OK, e)))"

definition rbdImcCom_CancelTransmit :: "nat \<Rightarrow> Std_ReturnType" where
  "rbdImcCom_CancelTransmit CanTxPduId = E_NOT_OK"

definition rbdImc_IfTxInterrupt :: "'e ImcTopSys \<Rightarrow> rbdImc_PduRCfg_st \<Rightarrow> nat \<Rightarrow> 'e \<Rightarrow> 'e" where
  "rbdImc_IfTxInterrupt S C MsgId e =
     (if imc_APP S \<and> (imc_cpu S = CPU_CC26xx \<or> imc_cpu S = CPU_S32)
      then fold (\<lambda>c e. if MsgId = tc_Imc_PduId c then PduR_TxInterrupt (imc_PduDim S) (imc_PduR S) (tc_UpperTxToPduR c) e else e)
             (case PduR_TxCfg C of None \<Rightarrow> [] | Some cs \<Rightarrow> cs) e
      else e)"

definition rbdImc_IfTxConfirmation :: "'e ImcTopSys \<Rightarrow> rbdImc_PduRCfg_st \<Rightarrow> nat \<Rightarrow> 'e \<Rightarrow> 'e" where
  "rbdImc_IfTxConfirmation S C MsgId e =
     fold (\<lambda>c e. if MsgId = tc_Imc_PduId c then PduR_TxConfirmation (imc_PduDim S) (imc_PduR S) (tc_UpperTxToPduR c) e else e)
       (case PduR_TxCfg C of None \<Rightarrow> [] | Some cs \<Rightarrow> cs) e"

text \<open>The time stamp that \<^verbatim>\<open>rbdImc_IfRxIndication\<close> adds to the message is not part of \<open>PduInfoType\<close>; reading the clock for it changes nothing.\<close>

definition rbdImc_IfRxIndication :: "'e ImcTopSys \<Rightarrow> rbdImc_PduRCfg_st \<Rightarrow> nat \<Rightarrow> nat \<Rightarrow> mem option \<Rightarrow> 'e \<Rightarrow> 'e" where
  "rbdImc_IfRxIndication S C MsgId Len Msg e =
     fold (\<lambda>c e. if MsgId = rc_Imc_PduId c
                 then PduR_RxIndication (imc_PduDim S) (imc_PduR S) (rc_UpperRxToPduR c) \<lparr>SduDataPtr = Msg, SduLength = Len\<rparr> e else e)
       (case PduR_RxCfg C of None \<Rightarrow> [] | Some cs \<Rightarrow> cs) e"

subsection \<open>Ping test\<close>

abbreviation upd_ping :: "(rbdImc_Ping_st \<Rightarrow> rbdImc_Ping_st) \<Rightarrow> ImcModSt \<Rightarrow> ImcModSt" where
  "upd_ping f s \<equiv> s\<lparr>rbdImc_Ping_s := f (rbdImc_Ping_s s)\<rparr>"

definition RBDIMC_PING_TXMSG :: "'e ImcTopSys \<Rightarrow> nat option" where
  "RBDIMC_PING_TXMSG S =
     (if imc_APP S then (case imc_cpu S of CPU_SPC58ECx \<Rightarrow> Some (IMCIF_MSG_PING_BLE S) | CPU_CC26xx \<Rightarrow> Some (IMCIF_MSG_PING_UWB S)
                         | CPU_S32 \<Rightarrow> Some (IMCIF_MSG_PING_UWB S) | CPU_NCJ29D5 \<Rightarrow> None) else None)"

definition RBDIMC_PING_RXMSG :: "'e ImcTopSys \<Rightarrow> nat option" where
  "RBDIMC_PING_RXMSG S =
     (if imc_APP S then (case imc_cpu S of CPU_CC26xx \<Rightarrow> Some (IMCIF_MSG_PING_BLE S) | CPU_NCJ29D5 \<Rightarrow> Some (IMCIF_MSG_PING_UWB S) | _ \<Rightarrow> None) else None)"

definition rbdImc_PingStart :: "'e ImcTopSys \<Rightarrow> mem \<Rightarrow> 'e ImcTopW \<Rightarrow> ImcUdsResult \<times> 'e ImcTopW" where
  "rbdImc_PingStart S In_ReqData = (\<lambda>(s, e).
     if pg_running (rbdImc_Ping_s s) then (RB_UDS_14229_BRR, s, e)
     else (RB_UDS_14229_PR,
           upd_ping (\<lambda>p. p\<lparr>pg_NumPackets := u16 (int (In_ReqData 0) * 256 + int (In_ReqData 1)), pg_NumTx := 0, pg_NumRx := 0, pg_SumRTT := 0,
                           pg_running := True\<rparr>) s,
           imc_TimerInit S PingTimer e))"

text \<open>The entry point of the run-time environment: the reply has no data.\<close>

definition rbdImc_ImcPingStart_Start :: "'e ImcTopSys \<Rightarrow> mem \<Rightarrow> 'e ImcTopW \<Rightarrow> (bool \<times> ImcUdsResult \<times> nat) \<times> 'e ImcTopW" where
  "rbdImc_ImcPingStart_Start S req w =
     (let (ErrorCode, w1) = rbdImc_PingStart S req w in ((ErrorCode = RB_UDS_14229_PR, ErrorCode, 0), w1))"

definition rbdImc_storeU16 :: "nat \<Rightarrow> nat list" where
  "rbdImc_storeU16 v = [u8 (int (v div 256)), u8 (int v)]"

text \<open>The result and, when there is one, the bytes written; their number is the length reported.\<close>

definition rbdImc_PingResult :: "'e ImcTopSys \<Rightarrow> ImcModSt \<Rightarrow> ImcUdsResult \<times> nat list option" where
  "rbdImc_PingResult S s =
     (let p = rbdImc_Ping_s s in
      if pg_NumPackets p = 0 then (RB_UDS_14229_RSE, None)
      else let RTT = (if 0 < pg_NumRx p then u16 (int (imc_KhzToMs S (pg_SumRTT p div pg_NumRx p))) else 0)
           in (RB_UDS_14229_PR, Some (rbdImc_storeU16 (pg_NumTx p) @ rbdImc_storeU16 (pg_NumRx p) @ rbdImc_storeU16 RTT)))"

text \<open>The entry point of the run-time environment reports an uninitialised length, \<open>junk\<close>, when there is no result.\<close>

definition rbdImc_ImcPingResult_Result :: "'e ImcTopSys \<Rightarrow> nat \<Rightarrow> ImcModSt \<Rightarrow> bool \<times> ImcUdsResult \<times> nat list option \<times> nat" where
  "rbdImc_ImcPingResult_Result S junk s =
     (let (ErrorCode, out) = rbdImc_PingResult S s
      in (ErrorCode = RB_UDS_14229_PR, ErrorCode, out, case out of Some bs \<Rightarrow> length bs | None \<Rightarrow> junk))"

definition rbdImc_PingCyclic :: "'e ImcTopSys \<Rightarrow> 'e ImcTopW \<Rightarrow> 'e ImcTopW" where
  "rbdImc_PingCyclic S = (\<lambda>(s, e).
     case RBDIMC_PING_TXMSG S of
       None \<Rightarrow> (s, e)
     | Some txmsg \<Rightarrow>
         if imc_DEVELOPMENT S \<and> pg_running (rbdImc_Ping_s s) then
           let (running, e1) = imc_TimerRunning S PingTimer e; p = rbdImc_Ping_s s in
           if pg_NumPackets p \<le> pg_NumTx p then (upd_ping (\<lambda>p. p\<lparr>pg_running := False\<rparr>) s, e1)
           else if running then (s, e1)
           else let (ok, e2) = ImcIf_Tx S txmsg 4 (Some (imc_StampBytes S (imc_KhzCounter S e1))) e1 in
             if ok then (upd_ping (\<lambda>p. p\<lparr>pg_NumTx := u16 (int (pg_NumTx p) + 1)\<rparr>) s,
                         if 0 < pg_STmin_ms p then imc_TimerStart S PingTimer (pg_STmin_ms p) e2 else e2)
             else (s, e2)
         else (s, e))"

definition rbdImc_PingRxIndication :: "'e ImcTopSys \<Rightarrow> nat \<Rightarrow> nat \<Rightarrow> mem \<Rightarrow> 'e ImcTopW \<Rightarrow> 'e ImcTopW" where
  "rbdImc_PingRxIndication S MsgId Len Msg = (\<lambda>(s, e).
     if imc_DEVELOPMENT S then
       let e1 = (if RBDIMC_PING_RXMSG S = Some MsgId then snd (ImcIf_Tx S MsgId Len (Some Msg) e) else e) in
       if RBDIMC_PING_TXMSG S = Some MsgId
       then (upd_ping (\<lambda>p. p\<lparr>pg_SumRTT := u32 (int (pg_SumRTT p) + (int (imc_KhzCounter S e1) - int (imc_StampValue S Msg))),
                             pg_NumRx := u16 (int (pg_NumRx p) + 1)\<rparr>) s, e1)
       else (s, e1)
     else (s, e))"

subsection \<open>The cyclic call of the stack\<close>

definition rbdImc_CyclicMedium :: "'e ImcTopSys \<Rightarrow> 'e ImcSys \<Rightarrow> rbdImc_TpCfg_st \<Rightarrow> ImcTpSt \<times> 'e ImcTopW \<Rightarrow> ImcTpSt \<times> 'e ImcTopW" where
  "rbdImc_CyclicMedium S I C = (\<lambda>(t, s, e).
     let e1 = ImcTl_Cyclic S (ImcIf_MainFunction S e);
         (t1, e2) = (if imc_KEYFOB S \<or> imc_FBL S \<and> (imc_cpu S = CPU_NCJ29D5 \<or> imc_cpu S = CPU_S32) then (t, e1) else rbdImc_TpCyclic I C (t, e1))
     in if imc_APP S \<and> imc_VEHICLE S then (t1, rbdImc_PingCyclic S (s, e2)) else (t1, s, e2))"

subsection \<open>Additional tasks of the master\<close>

definition RBDIMC_BLE_RESET_CYCLES :: nat where "RBDIMC_BLE_RESET_CYCLES = 1"

definition rbd_cddImc_Init :: "'e ImcTopSys \<Rightarrow> 'e ImcTopW \<Rightarrow> 'e ImcTopW" where
  "rbd_cddImc_Init S = (\<lambda>(s, e).
     let e1 = imc_TimerInit S PowerModeTxTimer e in
     if imc_isPOR S e1 then (s\<lparr>rbdImc_BleResetDelay := RBDIMC_BLE_RESET_CYCLES\<rparr>, imc_WriteBleReset S PIN_LOW e1) else (s, e1))"

definition cdd_nm :: "'e ImcTopSys \<Rightarrow> 'e ImcTopW \<Rightarrow> 'e ImcTopW" where
  "cdd_nm S = (\<lambda>(s, e).
     if rbdImc_IsFastSleepActive s then (s, e)
     else if imc_NmActive S e
     then let (running, e1) = imc_TimerRunning S PowerModeTxTimer e in
       (s, if running then e1 else imc_TimerStart S PowerModeTxTimer (RBDIMC_CANNM_PERIOD_MS S) (imc_TxCanNm S e1))
     else (s, imc_TimerStop S PowerModeTxTimer e))"

definition rbd_cddImc_Cyclic :: "'e ImcTopSys \<Rightarrow> 'e ImcTopW \<Rightarrow> 'e ImcTopW" where
  "rbd_cddImc_Cyclic S w =
     (let (s, e) = cdd_nm S w in
      if 0 < rbdImc_BleResetDelay s
      then let s1 = s\<lparr>rbdImc_BleResetDelay := rbdImc_BleResetDelay s - 1\<rparr>
           in (s1, if rbdImc_BleResetDelay s1 = 0 then imc_WriteBleReset S PIN_HIGH e else e)
      else (s, e))"

definition rbd_cddImc_FastSleepReq :: "'e ImcTopSys \<Rightarrow> nat \<Rightarrow> 'e ImcTopW \<Rightarrow> 'e ImcTopW" where
  "rbd_cddImc_FastSleepReq S mode = (\<lambda>(s, e). (s\<lparr>rbdImc_IsFastSleepActive := True\<rparr>, imc_TxFastSleep S mode e))"

subsection \<open>The ping test ends\<close>

text \<open>
  The layer below takes every ping, and a timer that was initialised and not started is not running; \<open>stopped\<close> says that
  the ping timer is in that state.
\<close>

definition ping_link :: "'e ImcTopSys \<Rightarrow> nat \<Rightarrow> ('e \<Rightarrow> bool) \<Rightarrow> bool" where
  "ping_link S m stopped \<longleftrightarrow> RBDIMC_PING_TXMSG S = Some m \<and> imc_DEVELOPMENT S \<and> (\<forall>e. stopped (imc_TimerInit S PingTimer e)) \<and>
     (\<forall>e. stopped e \<longrightarrow> fst (imc_TimerRunning S PingTimer e) = False \<and> stopped (snd (imc_TimerRunning S PingTimer e))) \<and>
     (\<forall>x e. stopped e \<longrightarrow> fst (ImcIf_Tx S m 4 x e) \<and> stopped (snd (ImcIf_Tx S m 4 x e)))"

lemma ping_cycle:
  assumes link: "ping_link S m stopped" and st: "stopped e" and p: "pg_STmin_ms (rbdImc_Ping_s s) = 0" "pg_NumTx (rbdImc_Ping_s s) < 65536"
  shows "\<exists>e'. rbdImc_PingCyclic S (s, e) =
      (if pg_running (rbdImc_Ping_s s)
       then if pg_NumPackets (rbdImc_Ping_s s) \<le> pg_NumTx (rbdImc_Ping_s s) then upd_ping (\<lambda>p. p\<lparr>pg_running := False\<rparr>) s
            else upd_ping (\<lambda>p. p\<lparr>pg_NumTx := u16 (int (pg_NumTx p) + 1)\<rparr>) s
       else s, e') \<and> stopped e'"
proof -
  obtain r e1 where t: "imc_TimerRunning S PingTimer e = (r, e1)" by (cases "imc_TimerRunning S PingTimer e")
  have e1: "\<not> r" "stopped e1" using link st t unfolding ping_link_def by (metis fst_conv snd_conv)+
  let ?x = "Some (imc_StampBytes S (imc_KhzCounter S e1))"
  obtain ok e2 where tx: "ImcIf_Tx S m 4 ?x e1 = (ok, e2)" by (cases "ImcIf_Tx S m 4 ?x e1")
  have e2: "ok" "stopped e2" using link e1(2) tx unfolding ping_link_def by (metis fst_conv snd_conv)+
  show ?thesis using link st t e1 tx e2 p(1) by (auto simp: rbdImc_PingCyclic_def ping_link_def Let_def)
qed

text \<open>
  A ping test ends. A test started for \<open>n\<close> packets sends one packet in each of the next \<open>n\<close> cycles; the cycle after them ends the
  test, and no later cycle sends anything or changes the counters.
\<close>

theorem imc_ping_ends:
  assumes link: "ping_link S m stopped" and idle: "\<not> pg_running (rbdImc_Ping_s s)" "pg_STmin_ms (rbdImc_Ping_s s) = 0"
    and n: "n = req 0 * 256 + req 1" "n < 65536" and w: "(r, w) = rbdImc_PingStart S req (s, e)"
  shows "r = RB_UDS_14229_PR \<and> rbdImc_Ping_s (fst ((rbdImc_PingCyclic S ^^ k) w)) =
    \<lparr>pg_SumRTT = 0, pg_NumPackets = n, pg_NumTx = min k n, pg_NumRx = 0, pg_running = (k \<le> n), pg_STmin_ms = 0\<rparr>"
proof -
  let ?p = "\<lambda>k. \<lparr>pg_SumRTT = 0, pg_NumPackets = n, pg_NumTx = min k n, pg_NumRx = 0, pg_running = (k \<le> n), pg_STmin_ms = 0\<rparr>"
  have u: "u16 (int (req 0) * 256 + int (req 1)) = n" using n u16_of_nat [of n] by simp
  have 0: "r = RB_UDS_14229_PR" "rbdImc_Ping_s (fst w) = ?p 0" "stopped (snd w)"
    using w idle u link by (auto simp: rbdImc_PingStart_def ping_link_def)
  have "rbdImc_Ping_s (fst ((rbdImc_PingCyclic S ^^ k) w)) = ?p k \<and> stopped (snd ((rbdImc_PingCyclic S ^^ k) w))"
  proof (induction k)
    case (Suc k)
    obtain s1 e1 where w1: "(rbdImc_PingCyclic S ^^ k) w = (s1, e1)" by (cases "(rbdImc_PingCyclic S ^^ k) w")
    have p: "rbdImc_Ping_s s1 = ?p k" "stopped e1" using Suc w1 by simp_all
    have v: "k < n \<Longrightarrow> u16 (int k + 1) = Suc k" using n(2) u16_of_nat [of "Suc k"] by (simp add: add.commute)
    have q: "pg_STmin_ms (rbdImc_Ping_s s1) = 0" "pg_NumTx (rbdImc_Ping_s s1) < 65536" using p(1) n(2) by simp_all
    obtain e2 where
      "rbdImc_PingCyclic S (s1, e1) = (if k \<le> n then if n \<le> min k n then upd_ping (\<lambda>p. p\<lparr>pg_running := False\<rparr>) s1
            else upd_ping (\<lambda>p. p\<lparr>pg_NumTx := u16 (int (pg_NumTx p) + 1)\<rparr>) s1 else s1, e2)" "stopped e2"
      using ping_cycle [OF link p(2) q] by (auto simp: p(1))
    then show ?case using p v w1 by (auto simp: min_def)
  qed (use 0 in simp)
  with 0(1) show ?thesis by simp
qed

subsection \<open>What a ping test measures\<close>

text \<open>Answers to pings: the time stamp each brings back and the state of the system when it comes.\<close>

definition ping_answers :: "'e ImcTopSys \<Rightarrow> nat \<Rightarrow> (nat \<times> 'e) list \<Rightarrow> ImcModSt \<Rightarrow> ImcModSt" where
  "ping_answers S m as s = fold (\<lambda>(t, e) s. fst (rbdImc_PingRxIndication S m 4 (imc_StampBytes S t) (s, e))) as s"

lemma ping_sum:
  assumes "RBDIMC_PING_TXMSG S = Some m" "RBDIMC_PING_RXMSG S \<noteq> Some m" "imc_DEVELOPMENT S"
    and "list_all (\<lambda>(t, e). imc_StampValue S (imc_StampBytes S t) = t \<and> t \<le> imc_KhzCounter S e) as"
    and "pg_SumRTT (rbdImc_Ping_s s) + (\<Sum>(t, e)\<leftarrow>as. imc_KhzCounter S e - t) < 4294967296" "pg_NumRx (rbdImc_Ping_s s) + length as < 65536"
  shows "rbdImc_Ping_s (ping_answers S m as s) = (rbdImc_Ping_s s)
    \<lparr>pg_SumRTT := pg_SumRTT (rbdImc_Ping_s s) + (\<Sum>(t, e)\<leftarrow>as. imc_KhzCounter S e - t), pg_NumRx := pg_NumRx (rbdImc_Ping_s s) + length as\<rparr>"
  using assms(4-)
proof (induction as arbitrary: s)
  case (Cons a as)
  obtain t e where a: "a = (t, e)" by (cases a)
  let ?p = "rbdImc_Ping_s s"
  have v: "imc_StampValue S (imc_StampBytes S t) = t" "t \<le> imc_KhzCounter S e" using Cons.prems(1) a by simp_all
  have c: "pg_SumRTT ?p + (imc_KhzCounter S e - t) < 4294967296" "Suc (pg_NumRx ?p) < 65536" using Cons.prems(2,3) by (simp_all add: a)
  have z: "int (pg_SumRTT ?p) + (int (imc_KhzCounter S e) - int t) = int (pg_SumRTT ?p + (imc_KhzCounter S e - t))"
    "int (pg_NumRx ?p) + 1 = int (Suc (pg_NumRx ?p))" using v(2) by simp_all
  have u: "u32 (int (pg_SumRTT ?p) + (int (imc_KhzCounter S e) - int t)) = pg_SumRTT ?p + (imc_KhzCounter S e - t)"
    "u16 (int (pg_NumRx ?p) + 1) = Suc (pg_NumRx ?p)"
    unfolding z using c u32_of_nat [of "pg_SumRTT ?p + (imc_KhzCounter S e - t)"] u16_of_nat [of "Suc (pg_NumRx ?p)"] by simp_all
  define d where "d = imc_KhzCounter S e - t"
  let ?s = "upd_ping (\<lambda>p. p\<lparr>pg_SumRTT := pg_SumRTT p + d, pg_NumRx := Suc (pg_NumRx p)\<rparr>) s"
  have st: "fst (rbdImc_PingRxIndication S m 4 (imc_StampBytes S t) (s, e)) = ?s"
    using assms(1-3) u v(1) by (simp add: rbdImc_PingRxIndication_def Let_def d_def)
  have sm: "(\<Sum>(t, e)\<leftarrow>a # as. imc_KhzCounter S e - t) = d + (\<Sum>(t, e)\<leftarrow>as. imc_KhzCounter S e - t)" by (simp add: a d_def)
  have "rbdImc_Ping_s (ping_answers S m as ?s) = (rbdImc_Ping_s ?s)
    \<lparr>pg_SumRTT := pg_SumRTT (rbdImc_Ping_s ?s) + (\<Sum>(t, e)\<leftarrow>as. imc_KhzCounter S e - t), pg_NumRx := pg_NumRx (rbdImc_Ping_s ?s) + length as\<rparr>"
    using Cons.prems unfolding sm by (intro Cons.IH) (simp_all add: a)
  moreover have "ping_answers S m (a # as) s = ping_answers S m as ?s" by (simp add: ping_answers_def a st)
  ultimately show ?case unfolding sm by (simp add: add.assoc)
qed (simp add: ping_answers_def)

text \<open>
  What is measured. When the answers to the pings of a test have come, the result reports how many packets were sent, how many answers came, and the mean of the
  times from sending to answer in milliseconds.
\<close>

theorem imc_ping_measures:
  assumes "RBDIMC_PING_TXMSG S = Some m" "RBDIMC_PING_RXMSG S \<noteq> Some m" "imc_DEVELOPMENT S"
    and "list_all (\<lambda>(t, e). imc_StampValue S (imc_StampBytes S t) = t \<and> t \<le> imc_KhzCounter S e) as"
    and sum: "ticks = (\<Sum>(t, e)\<leftarrow>as. imc_KhzCounter S e - t)" "ticks < 4294967296" "0 < length as" "length as < 65536"
    and p: "pg_SumRTT (rbdImc_Ping_s s) = 0" "pg_NumRx (rbdImc_Ping_s s) = 0" "pg_NumPackets (rbdImc_Ping_s s) \<noteq> 0" "pg_NumTx (rbdImc_Ping_s s) < 65536"
  shows "rbdImc_PingResult S (ping_answers S m as s) = (RB_UDS_14229_PR, Some
    (let tx = pg_NumTx (rbdImc_Ping_s s); ms = imc_KhzToMs S (ticks div length as) mod 65536
     in [tx div 256, tx mod 256, length as div 256, length as mod 256, ms div 256, ms mod 256]))"
proof -
  have r: "rbdImc_Ping_s (ping_answers S m as s) = (rbdImc_Ping_s s)\<lparr>pg_SumRTT := ticks, pg_NumRx := length as\<rparr>"
    using ping_sum [OF assms(1-4), of s] sum p by simp
  have "u16 (int x) = x mod 65536" for x by (simp add: u16_def nat_mod_distrib)
  moreover have "x < 65536 \<Longrightarrow> rbdImc_storeU16 x = [x div 256, x mod 256]" for x by (simp add: rbdImc_storeU16_def u8_mod)
  ultimately show ?thesis using sum(3,4) p by (simp add: rbdImc_PingResult_def r Let_def)
qed

subsection \<open>The reset of the BLE chip\<close>

text \<open>The calls after the initialisation: \<open>None\<close> is a cycle, \<open>Some m\<close> a request for fast sleep.\<close>

definition cdd_step :: "'e ImcTopSys \<Rightarrow> nat option \<Rightarrow> 'e ImcTopW \<Rightarrow> 'e ImcTopW" where
  "cdd_step S a w = (case a of None \<Rightarrow> rbd_cddImc_Cyclic S w | Some m \<Rightarrow> rbd_cddImc_FastSleepReq S m w)"

definition pin_log :: "'e ImcTopSys \<Rightarrow> ('e \<Rightarrow> ImcPin list) \<Rightarrow> bool" where
  "pin_log S pins \<longleftrightarrow> (\<forall>v e. pins (imc_WriteBleReset S v e) = pins e @ [v]) \<and> (\<forall>t e. pins (imc_TimerInit S t e) = pins e) \<and>
     (\<forall>t n e. pins (imc_TimerStart S t n e) = pins e) \<and> (\<forall>t e. pins (imc_TimerStop S t e) = pins e) \<and>
     (\<forall>t e. pins (snd (imc_TimerRunning S t e)) = pins e) \<and> (\<forall>e. pins (imc_TxCanNm S e) = pins e) \<and> (\<forall>m e. pins (imc_TxFastSleep S m e) = pins e)"

lemma cdd_step_pins:
  assumes "pin_log S pins" "rbdImc_BleResetDelay (fst w) \<le> 1"
  shows "rbdImc_BleResetDelay (fst (cdd_step S a w)) = (if a = None then 0 else rbdImc_BleResetDelay (fst w)) \<and>
    pins (snd (cdd_step S a w)) = pins (snd w) @ (if a = None \<and> rbdImc_BleResetDelay (fst w) = 1 then [PIN_HIGH] else [])"
proof -
  obtain s e where w: "w = (s, e)" by (cases w)
  obtain r e1 where t: "imc_TimerRunning S PowerModeTxTimer e = (r, e1)" by (cases "imc_TimerRunning S PowerModeTxTimer e")
  have "pins e1 = pins e" using assms(1) t unfolding pin_log_def by (metis snd_conv)
  then show ?thesis using assms t
    by (auto simp: w cdd_step_def rbd_cddImc_Cyclic_def cdd_nm_def rbd_cddImc_FastSleepReq_def pin_log_def split: option.split)
qed

text \<open>
  The reset of the BLE chip. After a power-on reset the initialisation takes the reset line down; the first cycle after it, and no other call, takes it up
  again, whatever else is called in between.
\<close>

theorem imc_ble_reset_released:
  assumes "pin_log S pins" "imc_isPOR S (imc_TimerInit S PowerModeTxTimer e)"
  shows "pins (snd (fold (cdd_step S) as (rbd_cddImc_Init S (s, e)))) = pins e @ [PIN_LOW] @ (if None \<in> set as then [PIN_HIGH] else [])"
proof -
  have run: "rbdImc_BleResetDelay (fst w) \<le> 1 \<Longrightarrow>
    pins (snd (fold (cdd_step S) as w)) = pins (snd w) @ (if None \<in> set as \<and> rbdImc_BleResetDelay (fst w) = 1 then [PIN_HIGH] else [])" for w
  proof (induction as arbitrary: w)
    case (Cons a as)
    show ?case using Cons.IH [of "cdd_step S a w"] cdd_step_pins [OF assms(1) Cons.prems, of a] Cons.prems by auto
  qed simp
  have "rbdImc_BleResetDelay (fst (rbd_cddImc_Init S (s, e))) = 1" "pins (snd (rbd_cddImc_Init S (s, e))) = pins e @ [PIN_LOW]"
    using assms by (simp_all add: rbd_cddImc_Init_def RBDIMC_BLE_RESET_CYCLES_def pin_log_def)
  then show ?thesis using run [of "rbd_cddImc_Init S (s, e)"] by simp
qed

subsection \<open>A concrete master\<close>

text \<open>The state of the rest of the system is the clock, whether the ping timer runs, and the writes to the reset line.\<close>

definition top_demo :: "(nat \<times> bool \<times> ImcPin list) ImcTopSys" where
  "top_demo =
     \<lparr>imc_cpu = CPU_SPC58ECx, imc_APP = True, imc_FBL = False, imc_VEHICLE = True, imc_KEYFOB = False, imc_MASTER_MCU = True, imc_DEVELOPMENT = True,
      imc_CanLoading_None = (\<lambda>_. True), imc_UwbLoading_None = (\<lambda>_. False), ImcIf_Tx = (\<lambda>_ _ _ e. (True, e)),
      ImcDlSpi_Initialise = (\<lambda>e. e), ImcTl_Initialise = (\<lambda>e. e), ImcIf_Initialise = (\<lambda>e. e), imc_StartCanChannel = (\<lambda>e. e), ImcDlSpi_Cyclic = (\<lambda>e. e),
      ImcIf_MainFunction = (\<lambda>e. e), ImcTl_Cyclic = (\<lambda>e. e), ImcIf_ResetChannel = (\<lambda>_ e. e), ImcTl_ResetChannel = (\<lambda>_ e. e), ImcDlSpi_ResetChannel = (\<lambda>_ e. e),
      IMCIF_MSG_PING_BLE = 1, IMCIF_MSG_PING_UWB = 2,
      imc_TimerInit = (\<lambda>t (c, r, p). (c, if t = PingTimer then False else r, p)), imc_TimerStart = (\<lambda>t n (c, r, p). (c, if t = PingTimer then True else r, p)),
      imc_TimerStop = (\<lambda>t (c, r, p). (c, if t = PingTimer then False else r, p)), imc_TimerRunning = (\<lambda>t (c, r, p). (r, c, r, p)),
      imc_KhzCounter = fst, imc_KhzToMs = (\<lambda>n. n), imc_StampBytes = (\<lambda>t _. t), imc_StampValue = (\<lambda>m. m 0), imc_isPOR = (\<lambda>_. True),
      imc_WriteBleReset = (\<lambda>v (c, r, p). (c, r, p @ [v])), imc_NmActive = (\<lambda>_. True), imc_TxCanNm = (\<lambda>e. e), imc_TxFastSleep = (\<lambda>_ e. e),
      RBDIMC_CANNM_PERIOD_MS = 100, imc_PduDim = \<lparr>PDUR_PDU_TX_MAX = 0, PDUR_PDU_RX_MAX = 0, PDUR_PDU_TP_TX_MAX = 0, PDUR_PDU_TP_RX_MAX = 0\<rparr>, imc_PduR = None\<rparr>"

definition top_idle :: ImcModSt where
  "top_idle = \<lparr>Imc_ChannelEn = (\<lambda>_. IMC_CH_EN_OFF),
     rbdImc_Ping_s = \<lparr>pg_SumRTT = 0, pg_NumPackets = 0, pg_NumTx = 0, pg_NumRx = 0, pg_running = False, pg_STmin_ms = 0\<rparr>,
     rbdImc_BleResetDelay = 0, rbdImc_IsFastSleepActive = False\<rparr>"

lemma top_demo_link: "ping_link top_demo 1 (\<lambda>(c, r, p). \<not> r)"
  by (auto simp: ping_link_def top_demo_def RBDIMC_PING_TXMSG_def)

theorem imc_ping_ends_witness:
  "\<not> pg_running (rbdImc_Ping_s (fst ((rbdImc_PingCyclic top_demo ^^ 4) (snd (rbdImc_PingStart top_demo (mem_of [0, 3]) (top_idle, 0, True, []))))))"
  using imc_ping_ends [OF top_demo_link, where s = top_idle and n = 3 and req = "mem_of [0, 3]" and e = "(0, True, [])" and k = 4, OF _ _ _ _ prod.collapse]
  by (simp add: top_idle_def mem_of_def)

theorem imc_ping_measures_witness:
  "rbdImc_PingResult top_demo (ping_answers top_demo 1 [(10, 14, False, []), (20, 26, False, [])]
      (top_idle\<lparr>rbdImc_Ping_s := \<lparr>pg_SumRTT = 0, pg_NumPackets = 2, pg_NumTx = 2, pg_NumRx = 0, pg_running = True, pg_STmin_ms = 0\<rparr>\<rparr>)) =
    (RB_UDS_14229_PR, Some [0, 2, 0, 2, 0, 5])"
proof -
  have f: "RBDIMC_PING_TXMSG top_demo = Some 1" "RBDIMC_PING_RXMSG top_demo = None" "imc_DEVELOPMENT top_demo" "imc_KhzCounter top_demo = fst"
    "imc_KhzToMs top_demo = (\<lambda>n. n)" "imc_StampValue top_demo (imc_StampBytes top_demo t) = t" for t
    by (simp_all add: top_demo_def RBDIMC_PING_TXMSG_def RBDIMC_PING_RXMSG_def)
  show ?thesis
    using imc_ping_measures [where S = top_demo and m = 1 and as = "[(10, 14, False, []), (20, 26, False, [])]" and ticks = 10 and
      s = "top_idle\<lparr>rbdImc_Ping_s := \<lparr>pg_SumRTT = 0, pg_NumPackets = 2, pg_NumTx = 2, pg_NumRx = 0, pg_running = True, pg_STmin_ms = 0\<rparr>\<rparr>"]
    by (simp add: f Let_def numeral_2_eq_2 [symmetric])
qed

theorem imc_ble_reset_released_witness:
  "snd (snd (snd (fold (cdd_step top_demo) [Some 1, None, None] (rbd_cddImc_Init top_demo (top_idle, 0, False, []))))) = [PIN_LOW, PIN_HIGH]"
proof -
  have "pin_log top_demo (\<lambda>e. snd (snd e))" by (auto simp: pin_log_def top_demo_def)
  from imc_ble_reset_released [OF this, where e = "(0, False, [])" and s = top_idle and as = "[Some 1, None, None]"]
  show ?thesis by (simp add: top_demo_def)
qed

end
