(* ===== verification/CanNm.thy ===== *)
theory CanNm
  imports Prelude
begin

text \<open>
  Network management, \<^verbatim>\<open>CanNm.c\<close>: a state machine driven by network requests, received NM frames
  and three timers. Events only set \<^verbatim>\<open>CanNm_nextState\<close>; the cyclic \<^verbatim>\<open>CanNm_MainFunction\<close> changes the
  state. The timers (\<^verbatim>\<open>rbd_ElTime\<close>), PduR, the power services and CanSm are functions of \<open>CanNm_Sys\<close>;
  a timer is read against the state \<open>'e\<close> of the rest of the system, which holds the clock. The NM
  frame is two bytes of content and six unused ones; its control byte is an 8-bit word whose bit 0
  is \<^verbatim>\<open>RepeatMessageRequest\<close> and bit 4 \<^verbatim>\<open>ActiveWakeup\<close> (bit-fields allocated from the least
  significant bit).
\<close>

datatype CanNm_ModeType = NM_MODE_BUS_SLEEP | NM_MODE_PREPARE_BUS_SLEEP | NM_MODE_NETWORK | NM_MODE_MAX_NUMBER

datatype CanNm_StateType =
    NM_STATE_BUS_SLEEP | NM_STATE_PREPARE_BUS_SLEEP | NM_STATE_READY_SLEEP | NM_STATE_NORMAL_OPERATION
  | NM_STATE_REPEAT_MESSAGE | NM_STATE_MAX_NUMBER

datatype CanNm_AdditionalNetworkStateType = NM_NETWORK_STATE_REQUESTED | NM_NETWORK_STATE_RELEASED

datatype rbTimerState = RBD_ELTIME_RBTIMER_STATE_STOPPED | RBD_ELTIME_RBTIMER_STATE_RUNNING | RBD_ELTIME_RBTIMER_STATE_ELAPSED

datatype CanNm_Api =
    CANNM_APIID_PASSIVESTARTUP | CANNM_APIID_NETWORKREQUEST | CANNM_APIID_NETWORKRELEASE | CANNM_APIID_DISABLECOMMUNICATION
  | CANNM_APIID_GETSTATE | CANNM_APIID_TXCONFIRMATION | CANNM_APIID_RXINDICATION | CANNM_APIID_MAINFUNCTION
  | CANNM_APIID_TRIGGERTRANSMISSION | CANNM_APIID_TIMEOUTHANDLING

datatype CanNm_Err = CANNM_E_UNINIT | CANNM_E_PARAM_INVALID | CANNM_E_DATA_INVALID | CANNM_E_RETURN_INVALID | CANNM_E_TIMEOUT

abbreviation "CANNM_TXMESSAGE_TIMEOUT \<equiv> 500 :: nat"
abbreviation "CANNM_FRAME_MIN_LENGTH \<equiv> 2 :: nat"
abbreviation "CANNM_FRAME_LENGTH \<equiv> 8 :: nat"

record CanNm_Frame_st =
  NodeId :: nat
  AutosarNMControl :: "8 word"

record ('t, 'e) CanNm_St =
  nm_Initialized :: bool
  CanNm_State :: CanNm_StateType
  nm_TxEnabled :: bool
  nm_CanIdx :: nat
  NmTimeoutTimer :: 't
  MsgCycleTimer :: 't
  MsgTimeoutTimer :: 't
  CanNm_TxMsg :: CanNm_Frame_st
  CanNm_nextState :: CanNm_StateType
  CanNm_Network_State :: CanNm_AdditionalNetworkStateType
  CanNm_CanFitted :: bool
  CanNm_PwrReqID :: nat
  CanNm_ImmediateTransmissionCount :: nat
  nm_ext :: 'e

record ('t, 'e) CanNm_Sys =
  rbTimerInit :: "'t \<Rightarrow> 't"
  rbTimerStart :: "nat \<Rightarrow> 'e \<Rightarrow> 't \<Rightarrow> 't"
  rbTimerUpdate :: "'e \<Rightarrow> 't \<Rightarrow> rbTimerState \<times> 't"
  cp_BB_APS_CanNmTimeoutTime :: nat
  cp_BB_APS_CanNmWaitBusSleepTime :: nat
  cp_BB_APS_CanNmRepeatMessageTime :: nat
  cp_BB_APS_CanNmMsgCycleTime :: nat
  cp_BB_CanNmImmediateNmCycleTime :: nat
  cp_BB_CanNmImmediateNmTransmissions :: nat
  cp_BB_CanNmMsgReducedTime :: "nat \<Rightarrow> nat"
  CanNm_NodeIdTbl :: "nat \<Rightarrow> nat"
  PduR_TxPdu_AnchorNm :: nat
  nm_CanLoaded :: bool
  nm_PwrReq_GetID :: "'e \<Rightarrow> nat"
  nm_CanSmOnline :: "'e \<Rightarrow> bool"
  nm_PduR_Transmit :: "nat \<Rightarrow> nat list \<Rightarrow> 'e \<Rightarrow> Std_ReturnType \<times> 'e"
  nm_SleepIndication :: "'e \<Rightarrow> 'e"
  nm_ReleaseCPU :: "nat \<Rightarrow> 'e \<Rightarrow> 'e"
  nm_RequestCPU :: "nat \<Rightarrow> 'e \<Rightarrow> 'e"
  nm_Det :: "CanNm_Api \<Rightarrow> CanNm_Err \<Rightarrow> 'e \<Rightarrow> 'e"

abbreviation nm_report :: "('t, 'e) CanNm_Sys \<Rightarrow> CanNm_Api \<Rightarrow> CanNm_Err \<Rightarrow> ('t, 'e) CanNm_St \<Rightarrow> ('t, 'e) CanNm_St" where
  "nm_report S a x s \<equiv> s\<lparr>nm_ext := nm_Det S a x (nm_ext s)\<rparr>"

definition frame_bytes_nm :: "CanNm_Frame_st \<Rightarrow> nat list" where
  "frame_bytes_nm f = [NodeId f, unat (AutosarNMControl f), 0, 0, 0, 0, 0, 0]"

text \<open>Reading \<^verbatim>\<open>CanNm_Frame_st\<close> out of a received buffer of at least two bytes.\<close>

definition frame_of :: "nat list \<Rightarrow> CanNm_Frame_st" where
  "frame_of bs = \<lparr>NodeId = bs ! 0, AutosarNMControl = of_nat (bs ! 1)\<rparr>"

subsection \<open>Services\<close>

definition CanNm_Init :: "('t, 'e) CanNm_Sys \<Rightarrow> ('t, 'e) CanNm_St \<Rightarrow> ('t, 'e) CanNm_St" where
  "CanNm_Init S s =
     s\<lparr>CanNm_nextState := NM_STATE_BUS_SLEEP, CanNm_Network_State := NM_NETWORK_STATE_RELEASED,
       nm_Initialized := True, CanNm_State := NM_STATE_BUS_SLEEP, nm_TxEnabled := True,
       NmTimeoutTimer := rbTimerInit S (NmTimeoutTimer s), MsgCycleTimer := rbTimerInit S (MsgCycleTimer s),
       MsgTimeoutTimer := rbTimerInit S (MsgTimeoutTimer s),
       CanNm_TxMsg := \<lparr>NodeId = 0, AutosarNMControl = 0\<rparr>, CanNm_CanFitted := nm_CanLoaded S,
       CanNm_PwrReqID := nm_PwrReq_GetID S (nm_ext s), CanNm_ImmediateTransmissionCount := 0\<rparr>"

definition CanNm_GetState :: "('t, 'e) CanNm_St \<Rightarrow> Std_ReturnType \<times> CanNm_StateType \<times> CanNm_ModeType" where
  "CanNm_GetState s =
     (case CanNm_State s of
        NM_STATE_BUS_SLEEP \<Rightarrow> (E_OK, CanNm_State s, NM_MODE_BUS_SLEEP)
      | NM_STATE_PREPARE_BUS_SLEEP \<Rightarrow> (E_OK, CanNm_State s, NM_MODE_PREPARE_BUS_SLEEP)
      | NM_STATE_MAX_NUMBER \<Rightarrow> (E_NOT_OK, CanNm_State s, NM_MODE_MAX_NUMBER)
      | _ \<Rightarrow> (E_OK, CanNm_State s, NM_MODE_NETWORK))"

definition CanNm_PassiveStartUp :: "('t, 'e) CanNm_Sys \<Rightarrow> ('t, 'e) CanNm_St \<Rightarrow> Std_ReturnType \<times> ('t, 'e) CanNm_St" where
  "CanNm_PassiveStartUp S s =
     (if \<not> nm_Initialized s then (E_NOT_OK, nm_report S CANNM_APIID_PASSIVESTARTUP CANNM_E_UNINIT s)
      else let (r, st, mode) = CanNm_GetState s in
           if r \<noteq> E_OK then (E_NOT_OK, nm_report S CANNM_APIID_PASSIVESTARTUP CANNM_E_PARAM_INVALID s)
           else if mode = NM_MODE_BUS_SLEEP \<or> mode = NM_MODE_PREPARE_BUS_SLEEP
           then (E_OK, s\<lparr>CanNm_nextState := NM_STATE_REPEAT_MESSAGE\<rparr>) else (E_NOT_OK, s))"

definition nm_set_network ::
  "('t, 'e) CanNm_Sys \<Rightarrow> CanNm_Api \<Rightarrow> CanNm_AdditionalNetworkStateType \<Rightarrow> ('t, 'e) CanNm_St \<Rightarrow> Std_ReturnType \<times> ('t, 'e) CanNm_St" where
  "nm_set_network S api v s =
     (if \<not> nm_Initialized s then (E_NOT_OK, nm_report S api CANNM_E_UNINIT s)
      else if fst (CanNm_GetState s) \<noteq> E_OK then (E_NOT_OK, nm_report S CANNM_APIID_DISABLECOMMUNICATION CANNM_E_PARAM_INVALID s)
      else (E_OK, s\<lparr>CanNm_Network_State := v\<rparr>))"

definition CanNm_NetworkRequest :: "('t, 'e) CanNm_Sys \<Rightarrow> ('t, 'e) CanNm_St \<Rightarrow> Std_ReturnType \<times> ('t, 'e) CanNm_St" where
  "CanNm_NetworkRequest S s = nm_set_network S CANNM_APIID_NETWORKREQUEST NM_NETWORK_STATE_REQUESTED s"

definition CanNm_NetworkRelease :: "('t, 'e) CanNm_Sys \<Rightarrow> ('t, 'e) CanNm_St \<Rightarrow> Std_ReturnType \<times> ('t, 'e) CanNm_St" where
  "CanNm_NetworkRelease S s = nm_set_network S CANNM_APIID_NETWORKRELEASE NM_NETWORK_STATE_RELEASED s"

definition CanNm_TxConfirmation :: "('t, 'e) CanNm_Sys \<Rightarrow> ('t, 'e) CanNm_St \<Rightarrow> ('t, 'e) CanNm_St" where
  "CanNm_TxConfirmation S s =
     (if \<not> nm_Initialized s then nm_report S CANNM_APIID_TXCONFIRMATION CANNM_E_UNINIT s
      else s\<lparr>MsgTimeoutTimer := rbTimerInit S (MsgTimeoutTimer s)\<rparr>)"

definition CanNm_SetCanIdx :: "('t, 'e) CanNm_Sys \<Rightarrow> nat \<Rightarrow> ('t, 'e) CanNm_St \<Rightarrow> ('t, 'e) CanNm_St" where
  "CanNm_SetCanIdx S CanIdx s =
     s\<lparr>CanNm_TxMsg := (CanNm_TxMsg s)\<lparr>NodeId := CanNm_NodeIdTbl S CanIdx\<rparr>, nm_TxEnabled := (CanIdx < 15), nm_CanIdx := CanIdx\<rparr>"

definition CanNm_RxIndication :: "('t, 'e) CanNm_Sys \<Rightarrow> nat list \<Rightarrow> ('t, 'e) CanNm_St \<Rightarrow> ('t, 'e) CanNm_St" where
  "CanNm_RxIndication S sdu s =
     (if \<not> nm_Initialized s then nm_report S CANNM_APIID_RXINDICATION CANNM_E_UNINIT s
      else if length sdu < CANNM_FRAME_MIN_LENGTH then nm_report S CANNM_APIID_RXINDICATION CANNM_E_DATA_INVALID s
      else let RxPduData = frame_of sdu; (r, nmState, mode) = CanNm_GetState s in
           if r \<noteq> E_OK then nm_report S CANNM_APIID_RXINDICATION CANNM_E_PARAM_INVALID s
           else let s1 = (case nmState of
                            NM_STATE_BUS_SLEEP \<Rightarrow> s\<lparr>CanNm_nextState := NM_STATE_REPEAT_MESSAGE\<rparr>
                          | NM_STATE_PREPARE_BUS_SLEEP \<Rightarrow> s\<lparr>CanNm_nextState := NM_STATE_REPEAT_MESSAGE\<rparr>
                          | NM_STATE_READY_SLEEP \<Rightarrow>
                              s\<lparr>NmTimeoutTimer := rbTimerStart S (cp_BB_APS_CanNmTimeoutTime S) (nm_ext s) (NmTimeoutTimer s)\<rparr>
                          | NM_STATE_NORMAL_OPERATION \<Rightarrow>
                              if 0 < cp_BB_CanNmMsgReducedTime S (nm_CanIdx s)
                              then s\<lparr>MsgCycleTimer := rbTimerStart S (cp_BB_CanNmMsgReducedTime S (nm_CanIdx s)) (nm_ext s) (MsgCycleTimer s)\<rparr>
                              else s
                          | _ \<Rightarrow> s)
                in if bit (AutosarNMControl RxPduData) 0 \<and> (nmState = NM_STATE_NORMAL_OPERATION \<or> nmState = NM_STATE_READY_SLEEP)
                   then s1\<lparr>CanNm_nextState := NM_STATE_REPEAT_MESSAGE\<rparr> else s1)"

subsection \<open>The cyclic function\<close>

definition CanNm_TriggerTransmission :: "('t, 'e) CanNm_Sys \<Rightarrow> ('t, 'e) CanNm_St \<Rightarrow> Std_ReturnType \<times> ('t, 'e) CanNm_St" where
  "CanNm_TriggerTransmission S s =
     (if \<not> nm_TxEnabled s then (E_NOT_OK, s)
      else let ctl = (if CanNm_Network_State s = NM_NETWORK_STATE_REQUESTED then Bit_Operations.set_bit else Bit_Operations.unset_bit) 4
                       (AutosarNMControl (CanNm_TxMsg s));
               s1 = s\<lparr>CanNm_TxMsg := (CanNm_TxMsg s)\<lparr>AutosarNMControl := ctl\<rparr>\<rparr>;
               (r, e) = nm_PduR_Transmit S (PduR_TxPdu_AnchorNm S) (frame_bytes_nm (CanNm_TxMsg s1)) (nm_ext s1);
               s2 = s1\<lparr>nm_ext := e\<rparr>
           in if r = E_OK
              then (E_OK, s2\<lparr>MsgTimeoutTimer := rbTimerStart S CANNM_TXMESSAGE_TIMEOUT (nm_ext s2) (MsgTimeoutTimer s2)\<rparr>)
              else (E_NOT_OK, nm_report S CANNM_APIID_TRIGGERTRANSMISSION CANNM_E_RETURN_INVALID s2))"

definition CanNm_SetState :: "('t, 'e) CanNm_Sys \<Rightarrow> CanNm_StateType \<Rightarrow> ('t, 'e) CanNm_St \<Rightarrow> ('t, 'e) CanNm_St" where
  "CanNm_SetState S NmState s0 =
     (let s = s0\<lparr>CanNm_State := NmState\<rparr>;
          start = (\<lambda>d t. rbTimerStart S d (nm_ext s) t);
          power = (\<lambda>s. s\<lparr>nm_ext := nm_RequestCPU S (CanNm_PwrReqID s) (nm_ext s)\<rparr>)
      in case NmState of
           NM_STATE_BUS_SLEEP \<Rightarrow>
             s\<lparr>NmTimeoutTimer := rbTimerInit S (NmTimeoutTimer s), MsgCycleTimer := rbTimerInit S (MsgCycleTimer s),
               nm_ext := nm_ReleaseCPU S (CanNm_PwrReqID s) (nm_SleepIndication S (nm_ext s))\<rparr>
         | NM_STATE_PREPARE_BUS_SLEEP \<Rightarrow>
             s\<lparr>NmTimeoutTimer := start (cp_BB_APS_CanNmWaitBusSleepTime S) (NmTimeoutTimer s), MsgCycleTimer := rbTimerInit S (MsgCycleTimer s)\<rparr>
         | NM_STATE_READY_SLEEP \<Rightarrow>
             s\<lparr>NmTimeoutTimer := start (cp_BB_APS_CanNmTimeoutTime S) (NmTimeoutTimer s), MsgCycleTimer := rbTimerInit S (MsgCycleTimer s)\<rparr>
         | NM_STATE_NORMAL_OPERATION \<Rightarrow>
             let s1 = s\<lparr>NmTimeoutTimer := rbTimerInit S (NmTimeoutTimer s)\<rparr>;
                 (r, t) = rbTimerUpdate S (nm_ext s1) (MsgCycleTimer s1);
                 s2 = s1\<lparr>MsgCycleTimer := t\<rparr>
             in power (if r \<noteq> RBD_ELTIME_RBTIMER_STATE_RUNNING
                       then snd (CanNm_TriggerTransmission S (s2\<lparr>MsgCycleTimer := start (cp_BB_APS_CanNmMsgCycleTime S) (MsgCycleTimer s2)\<rparr>))
                       else s2)
         | NM_STATE_REPEAT_MESSAGE \<Rightarrow>
             let s1 = s\<lparr>NmTimeoutTimer := start (cp_BB_APS_CanNmRepeatMessageTime S) (NmTimeoutTimer s)\<rparr>;
                 s2 = (if 0 < CanNm_ImmediateTransmissionCount s1
                       then s1\<lparr>MsgCycleTimer := start (cp_BB_CanNmImmediateNmCycleTime S) (MsgCycleTimer s1),
                               CanNm_ImmediateTransmissionCount := CanNm_ImmediateTransmissionCount s1 - 1\<rparr>
                       else s1\<lparr>MsgCycleTimer := start (cp_BB_APS_CanNmMsgCycleTime S) (MsgCycleTimer s1)\<rparr>)
             in power (snd (CanNm_TriggerTransmission S s2))
         | NM_STATE_MAX_NUMBER \<Rightarrow> s)"

definition CanNm_MsgTimeoutTimerHandling :: "('t, 'e) CanNm_Sys \<Rightarrow> ('t, 'e) CanNm_St \<Rightarrow> ('t, 'e) CanNm_St" where
  "CanNm_MsgTimeoutTimerHandling S s =
     (let (r, t) = rbTimerUpdate S (nm_ext s) (MsgTimeoutTimer s) in
      if r = RBD_ELTIME_RBTIMER_STATE_ELAPSED
      then nm_report S CANNM_APIID_TIMEOUTHANDLING CANNM_E_TIMEOUT (s\<lparr>MsgTimeoutTimer := rbTimerInit S t\<rparr>)
      else s\<lparr>MsgTimeoutTimer := t\<rparr>)"

definition CanNm_MsgCycleTimerHandling :: "('t, 'e) CanNm_Sys \<Rightarrow> CanNm_StateType \<Rightarrow> ('t, 'e) CanNm_St \<Rightarrow> ('t, 'e) CanNm_St" where
  "CanNm_MsgCycleTimerHandling S nmState s =
     (let (r, t) = rbTimerUpdate S (nm_ext s) (MsgCycleTimer s); s0 = s\<lparr>MsgCycleTimer := t\<rparr> in
      if r = RBD_ELTIME_RBTIMER_STATE_ELAPSED
      then let s1 = snd (CanNm_TriggerTransmission S s0);
               restart = (\<lambda>d s. s\<lparr>MsgCycleTimer := rbTimerStart S d (nm_ext s) (MsgCycleTimer s)\<rparr>)
           in case nmState of
                NM_STATE_REPEAT_MESSAGE \<Rightarrow>
                  let s2 = (if 0 < CanNm_ImmediateTransmissionCount s1
                            then s1\<lparr>CanNm_ImmediateTransmissionCount := CanNm_ImmediateTransmissionCount s1 - 1\<rparr> else s1)
                  in if CanNm_ImmediateTransmissionCount s2 = 0 then restart (cp_BB_APS_CanNmMsgCycleTime S) s2
                     else restart (cp_BB_CanNmImmediateNmCycleTime S) s2
              | NM_STATE_NORMAL_OPERATION \<Rightarrow> restart (cp_BB_APS_CanNmMsgCycleTime S) s1
              | _ \<Rightarrow> s1
      else s0)"

definition CanNm_NmTimeoutTimerHandling :: "('t, 'e) CanNm_Sys \<Rightarrow> CanNm_StateType \<Rightarrow> ('t, 'e) CanNm_St \<Rightarrow> ('t, 'e) CanNm_St" where
  "CanNm_NmTimeoutTimerHandling S nmState s =
     (let (r, t) = rbTimerUpdate S (nm_ext s) (NmTimeoutTimer s); s0 = s\<lparr>NmTimeoutTimer := t\<rparr> in
      if r = RBD_ELTIME_RBTIMER_STATE_ELAPSED
      then (case nmState of
              NM_STATE_PREPARE_BUS_SLEEP \<Rightarrow> s0\<lparr>CanNm_nextState := NM_STATE_BUS_SLEEP\<rparr>
            | NM_STATE_READY_SLEEP \<Rightarrow> s0\<lparr>CanNm_nextState := NM_STATE_PREPARE_BUS_SLEEP\<rparr>
            | _ \<Rightarrow> s0)
      else s0)"

definition CanNm_RepeatMessageTimeoutHandling :: "('t, 'e) CanNm_Sys \<Rightarrow> CanNm_StateType \<Rightarrow> ('t, 'e) CanNm_St \<Rightarrow> ('t, 'e) CanNm_St" where
  "CanNm_RepeatMessageTimeoutHandling S nmState s =
     (if CanNm_ImmediateTransmissionCount s = 0 \<and> nmState = NM_STATE_REPEAT_MESSAGE
      then let (r, t) = rbTimerUpdate S (nm_ext s) (NmTimeoutTimer s); s0 = s\<lparr>NmTimeoutTimer := t\<rparr> in
           if r = RBD_ELTIME_RBTIMER_STATE_ELAPSED
           then s0\<lparr>CanNm_nextState := (if CanNm_Network_State s0 = NM_NETWORK_STATE_REQUESTED then NM_STATE_NORMAL_OPERATION
                                        else NM_STATE_READY_SLEEP)\<rparr>
           else s0
      else s)"

definition CanNm_NetworkRequestHandling ::
  "('t, 'e) CanNm_Sys \<Rightarrow> CanNm_StateType \<Rightarrow> CanNm_AdditionalNetworkStateType \<Rightarrow> ('t, 'e) CanNm_St \<Rightarrow> ('t, 'e) CanNm_St" where
  "CanNm_NetworkRequestHandling S nmState networkState s =
     (case nmState of
        NM_STATE_BUS_SLEEP \<Rightarrow>
          if networkState = NM_NETWORK_STATE_REQUESTED
          then s\<lparr>CanNm_ImmediateTransmissionCount := cp_BB_CanNmImmediateNmTransmissions S, CanNm_nextState := NM_STATE_REPEAT_MESSAGE\<rparr> else s
      | NM_STATE_PREPARE_BUS_SLEEP \<Rightarrow>
          if networkState = NM_NETWORK_STATE_REQUESTED
          then s\<lparr>CanNm_ImmediateTransmissionCount := cp_BB_CanNmImmediateNmTransmissions S, CanNm_nextState := NM_STATE_REPEAT_MESSAGE\<rparr> else s
      | NM_STATE_READY_SLEEP \<Rightarrow>
          if networkState = NM_NETWORK_STATE_REQUESTED then s\<lparr>CanNm_nextState := NM_STATE_NORMAL_OPERATION\<rparr> else s
      | NM_STATE_NORMAL_OPERATION \<Rightarrow>
          if networkState = NM_NETWORK_STATE_RELEASED then s\<lparr>CanNm_nextState := NM_STATE_READY_SLEEP\<rparr> else s
      | _ \<Rightarrow> s)"

text \<open>The events and timers of one cycle, before the state is changed.\<close>

definition nm_cycle :: "('t, 'e) CanNm_Sys \<Rightarrow> ('t, 'e) CanNm_St \<Rightarrow> ('t, 'e) CanNm_St" where
  "nm_cycle S s =
     (let st = CanNm_State s;
          s3 = CanNm_RepeatMessageTimeoutHandling S st (CanNm_NmTimeoutTimerHandling S st (CanNm_MsgCycleTimerHandling S st s))
      in CanNm_MsgTimeoutTimerHandling S (CanNm_NetworkRequestHandling S st (CanNm_Network_State s3) s3))"

definition CanNm_MainFunction :: "('t, 'e) CanNm_Sys \<Rightarrow> ('t, 'e) CanNm_St \<Rightarrow> ('t, 'e) CanNm_St" where
  "CanNm_MainFunction S s =
     (if \<not> nm_CanSmOnline S (nm_ext s) \<and> CanNm_CanFitted s then s
      else if \<not> nm_Initialized s then nm_report S CANNM_APIID_MAINFUNCTION CANNM_E_UNINIT s
      else let (r, nmState, mode) = CanNm_GetState s in
           if r \<noteq> E_OK then nm_report S CANNM_APIID_DISABLECOMMUNICATION CANNM_E_PARAM_INVALID s
           else let s1 = nm_cycle S s in
                if CanNm_nextState s1 \<noteq> nmState
                then CanNm_SetState S (CanNm_nextState s1)
                       (if nmState = NM_STATE_REPEAT_MESSAGE
                        then s1\<lparr>CanNm_TxMsg := (CanNm_TxMsg s1)\<lparr>AutosarNMControl := Bit_Operations.unset_bit 0 (AutosarNMControl (CanNm_TxMsg s1))\<rparr>\<rparr>
                        else s1)
                else s1)"

subsection \<open>The state machine\<close>

text \<open>The transitions of the AUTOSAR network-management state machine that the code implements.\<close>

fun nm_succ :: "CanNm_StateType \<Rightarrow> CanNm_StateType set" where
  "nm_succ NM_STATE_BUS_SLEEP = {NM_STATE_BUS_SLEEP, NM_STATE_REPEAT_MESSAGE}"
| "nm_succ NM_STATE_PREPARE_BUS_SLEEP = {NM_STATE_PREPARE_BUS_SLEEP, NM_STATE_BUS_SLEEP, NM_STATE_REPEAT_MESSAGE}"
| "nm_succ NM_STATE_READY_SLEEP =
     {NM_STATE_READY_SLEEP, NM_STATE_PREPARE_BUS_SLEEP, NM_STATE_NORMAL_OPERATION, NM_STATE_REPEAT_MESSAGE}"
| "nm_succ NM_STATE_NORMAL_OPERATION = {NM_STATE_NORMAL_OPERATION, NM_STATE_READY_SLEEP, NM_STATE_REPEAT_MESSAGE}"
| "nm_succ NM_STATE_REPEAT_MESSAGE = {NM_STATE_REPEAT_MESSAGE, NM_STATE_NORMAL_OPERATION, NM_STATE_READY_SLEEP}"
| "nm_succ NM_STATE_MAX_NUMBER = {}"

definition nm_inv :: "('t, 'e) CanNm_St \<Rightarrow> bool" where
  "nm_inv s \<longleftrightarrow> nm_Initialized s \<and> CanNm_nextState s \<in> nm_succ (CanNm_State s)"

datatype nm_op = NmPassiveStartUp | NmNetworkRequest | NmNetworkRelease | NmTxConfirmation | NmRxIndication "nat list"
  | NmSetCanIdx nat | NmMain

text \<open>One call; between calls the environment changes the rest of the system (time passes) by \<open>env\<close>.\<close>

fun nm_step :: "('t, 'e) CanNm_Sys \<Rightarrow> ('t, 'e) CanNm_St \<Rightarrow> nm_op \<times> ('e \<Rightarrow> 'e) \<Rightarrow> ('t, 'e) CanNm_St" where
  "nm_step S s (op, env) =
     (let s' = s\<lparr>nm_ext := env (nm_ext s)\<rparr> in
      case op of
        NmPassiveStartUp \<Rightarrow> snd (CanNm_PassiveStartUp S s')
      | NmNetworkRequest \<Rightarrow> snd (CanNm_NetworkRequest S s')
      | NmNetworkRelease \<Rightarrow> snd (CanNm_NetworkRelease S s')
      | NmTxConfirmation \<Rightarrow> CanNm_TxConfirmation S s'
      | NmRxIndication d \<Rightarrow> CanNm_RxIndication S d s'
      | NmSetCanIdx i \<Rightarrow> CanNm_SetCanIdx S i s'
      | NmMain \<Rightarrow> CanNm_MainFunction S s')"

lemma nm_succ_refl: "st \<noteq> NM_STATE_MAX_NUMBER \<Longrightarrow> st \<in> nm_succ st"
  by (cases st) auto

lemma nm_succ_valid: "x \<in> nm_succ st \<Longrightarrow> st \<noteq> NM_STATE_MAX_NUMBER \<and> x \<noteq> NM_STATE_MAX_NUMBER"
  by (cases st) auto

lemma GetState_ok: "CanNm_State s \<noteq> NM_STATE_MAX_NUMBER \<Longrightarrow> \<exists>m. CanNm_GetState s = (E_OK, CanNm_State s, m)"
  by (cases "CanNm_State s") (auto simp: CanNm_GetState_def)

lemma Trigger_keeps [simp]:
  "CanNm_nextState (snd (CanNm_TriggerTransmission S s)) = CanNm_nextState s"
  "CanNm_State (snd (CanNm_TriggerTransmission S s)) = CanNm_State s"
  "nm_Initialized (snd (CanNm_TriggerTransmission S s)) = nm_Initialized s"
  "CanNm_Network_State (snd (CanNm_TriggerTransmission S s)) = CanNm_Network_State s"
  "CanNm_ImmediateTransmissionCount (snd (CanNm_TriggerTransmission S s)) = CanNm_ImmediateTransmissionCount s"
  by (auto simp: CanNm_TriggerTransmission_def Let_def split: prod.splits)

lemma MsgCycle_keeps [simp]:
  "CanNm_nextState (CanNm_MsgCycleTimerHandling S st s) = CanNm_nextState s"
  "CanNm_State (CanNm_MsgCycleTimerHandling S st s) = CanNm_State s"
  "nm_Initialized (CanNm_MsgCycleTimerHandling S st s) = nm_Initialized s"
  "CanNm_Network_State (CanNm_MsgCycleTimerHandling S st s) = CanNm_Network_State s"
  by (cases st; simp add: CanNm_MsgCycleTimerHandling_def Let_def split: prod.splits)+

lemma MsgTimeout_keeps [simp]:
  "CanNm_nextState (CanNm_MsgTimeoutTimerHandling S s) = CanNm_nextState s"
  "CanNm_State (CanNm_MsgTimeoutTimerHandling S s) = CanNm_State s"
  "nm_Initialized (CanNm_MsgTimeoutTimerHandling S s) = nm_Initialized s"
  by (simp_all add: CanNm_MsgTimeoutTimerHandling_def Let_def split: prod.splits)

lemma NmTimeout_keeps [simp]:
  "CanNm_State (CanNm_NmTimeoutTimerHandling S st s) = CanNm_State s"
  "nm_Initialized (CanNm_NmTimeoutTimerHandling S st s) = nm_Initialized s"
  "CanNm_Network_State (CanNm_NmTimeoutTimerHandling S st s) = CanNm_Network_State s"
  by (cases st; simp add: CanNm_NmTimeoutTimerHandling_def Let_def split: prod.splits)+

lemma RepeatTimeout_keeps [simp]:
  "CanNm_State (CanNm_RepeatMessageTimeoutHandling S st s) = CanNm_State s"
  "nm_Initialized (CanNm_RepeatMessageTimeoutHandling S st s) = nm_Initialized s"
  "CanNm_Network_State (CanNm_RepeatMessageTimeoutHandling S st s) = CanNm_Network_State s"
  by (simp_all add: CanNm_RepeatMessageTimeoutHandling_def Let_def split: prod.splits)

lemma Request_keeps [simp]:
  "CanNm_State (CanNm_NetworkRequestHandling S st n s) = CanNm_State s"
  "nm_Initialized (CanNm_NetworkRequestHandling S st n s) = nm_Initialized s"
  by (cases st; simp add: CanNm_NetworkRequestHandling_def)+

lemma NmTimeout_next: "CanNm_nextState s \<in> nm_succ st \<Longrightarrow> CanNm_nextState (CanNm_NmTimeoutTimerHandling S st s) \<in> nm_succ st"
  by (cases st) (auto simp: CanNm_NmTimeoutTimerHandling_def Let_def split: prod.splits)

lemma RepeatTimeout_next:
  "CanNm_nextState s \<in> nm_succ st \<Longrightarrow> CanNm_nextState (CanNm_RepeatMessageTimeoutHandling S st s) \<in> nm_succ st"
  by (cases st) (auto simp: CanNm_RepeatMessageTimeoutHandling_def Let_def split: prod.splits)

lemma Request_next: "CanNm_nextState s \<in> nm_succ st \<Longrightarrow> CanNm_nextState (CanNm_NetworkRequestHandling S st n s) \<in> nm_succ st"
  by (cases st) (auto simp: CanNm_NetworkRequestHandling_def)

lemma SetState_keeps [simp]:
  "CanNm_State (CanNm_SetState S st s) = st"
  "CanNm_nextState (CanNm_SetState S st s) = CanNm_nextState s"
  "nm_Initialized (CanNm_SetState S st s) = nm_Initialized s"
  by (cases st; simp add: CanNm_SetState_def Let_def split: prod.splits)+

lemma nm_cycle_keeps:
  "CanNm_State (nm_cycle S s) = CanNm_State s" "nm_Initialized (nm_cycle S s) = nm_Initialized s"
  by (simp_all add: nm_cycle_def Let_def)

lemma nm_cycle_next: "CanNm_nextState s \<in> nm_succ (CanNm_State s) \<Longrightarrow> CanNm_nextState (nm_cycle S s) \<in> nm_succ (CanNm_State s)"
  by (simp add: nm_cycle_def Let_def Request_next RepeatTimeout_next NmTimeout_next)

lemma MainFunction_state:
  assumes "nm_inv s"
  shows "nm_inv (CanNm_MainFunction S s) \<and> CanNm_State (CanNm_MainFunction S s) \<in> nm_succ (CanNm_State s)"
proof -
  have n: "CanNm_nextState s \<in> nm_succ (CanNm_State s)" "nm_Initialized s" using assms by (auto simp: nm_inv_def)
  obtain m where g: "CanNm_GetState s = (E_OK, CanNm_State s, m)" using GetState_ok nm_succ_valid n(1) by blast
  have c: "CanNm_nextState (nm_cycle S s) \<in> nm_succ (CanNm_State s)" using nm_cycle_next n(1) .
  have v: "CanNm_State s \<in> nm_succ (CanNm_State s)" "CanNm_nextState (nm_cycle S s) \<in> nm_succ (CanNm_nextState (nm_cycle S s))"
    using nm_succ_valid [OF c] by (auto intro: nm_succ_refl)
  show ?thesis
    using n g c v by (auto simp: CanNm_MainFunction_def nm_inv_def nm_cycle_keeps Let_def)
qed

lemma RxIndication_keeps:
  "CanNm_State (CanNm_RxIndication S d s) = CanNm_State s" "nm_Initialized (CanNm_RxIndication S d s) = nm_Initialized s"
  by (auto simp: CanNm_RxIndication_def Let_def split: prod.splits CanNm_StateType.splits)

lemma RxIndication_next:
  "CanNm_nextState s \<in> nm_succ (CanNm_State s) \<Longrightarrow> CanNm_nextState (CanNm_RxIndication S d s) \<in> nm_succ (CanNm_State s)"
  by (cases "CanNm_State s") (auto simp: CanNm_RxIndication_def CanNm_GetState_def Let_def)

lemma nm_step_inv: "nm_inv s \<Longrightarrow> nm_inv (nm_step S s a)"
proof (cases a)
  case (Pair op env)
  assume i: "nm_inv s"
  let ?s = "s\<lparr>nm_ext := env (nm_ext s)\<rparr>"
  have i': "nm_inv ?s" using i by (simp add: nm_inv_def)
  show ?thesis
  proof (cases op)
    case NmPassiveStartUp
    then show ?thesis using i Pair
      by (cases "CanNm_State s") (auto simp: nm_inv_def CanNm_PassiveStartUp_def CanNm_GetState_def Let_def)
  next
    case (NmRxIndication d)
    then show ?thesis using i' Pair RxIndication_next [of ?s S d] by (simp add: nm_inv_def RxIndication_keeps)
  next
    case NmMain
    then show ?thesis using MainFunction_state [OF i'] Pair by simp
  qed (use i Pair in \<open>auto simp: nm_inv_def CanNm_NetworkRequest_def CanNm_NetworkRelease_def nm_set_network_def
        CanNm_TxConfirmation_def CanNm_SetCanIdx_def Let_def\<close>)
qed

interpretation nm: step_system "nm_step S" nm_inv for S
  by unfold_locales (rule nm_step_inv)

subsection \<open>Properties\<close>

lemma nm_step_succ:
  assumes "nm_inv s"
  shows "CanNm_State (nm_step S s a) \<in> nm_succ (CanNm_State s)"
proof (cases a)
  case (Pair op env)
  let ?s = "s\<lparr>nm_ext := env (nm_ext s)\<rparr>"
  have i: "nm_inv ?s" using assms by (simp add: nm_inv_def)
  have v: "CanNm_State s \<in> nm_succ (CanNm_State s)"
    using assms nm_succ_valid by (auto simp: nm_inv_def intro: nm_succ_refl)
  show ?thesis
  proof (cases op)
    case NmMain
    then show ?thesis using MainFunction_state [OF i] Pair by simp
  qed (use v Pair in \<open>auto simp: CanNm_PassiveStartUp_def CanNm_NetworkRequest_def CanNm_NetworkRelease_def nm_set_network_def
        CanNm_TxConfirmation_def CanNm_SetCanIdx_def RxIndication_keeps Let_def split: prod.splits\<close>)
qed

lemma nm_init_inv: "nm_inv (CanNm_Init S s)"
  by (simp add: nm_inv_def CanNm_Init_def)

text \<open>
  C18. After initialisation and any sequence of calls, with any behaviour of the clock and of the
  other modules in between, the next call changes the state only along the transitions of the
  AUTOSAR network-management machine; in particular bus sleep is entered only from prepare bus
  sleep, and prepare bus sleep only from ready sleep.
\<close>

theorem nm_transitions:
  "CanNm_State (nm_step S (foldl (nm_step S) (CanNm_Init S s) ops) a) \<in> nm_succ (CanNm_State (foldl (nm_step S) (CanNm_Init S s) ops))"
  by (intro nm_step_succ nm.foldl_inv nm_init_inv)

text \<open>
  The abstract machine: the state after a cycle as a function of the state, the network request,
  the state pending from events (\<open>nxt\<close>) and whether the timer that guards the state has elapsed.
\<close>

fun nm_next :: "CanNm_StateType \<Rightarrow> CanNm_AdditionalNetworkStateType \<Rightarrow> CanNm_StateType \<Rightarrow> bool \<Rightarrow> CanNm_StateType" where
  "nm_next NM_STATE_BUS_SLEEP net nxt el = (if net = NM_NETWORK_STATE_REQUESTED then NM_STATE_REPEAT_MESSAGE else nxt)"
| "nm_next NM_STATE_PREPARE_BUS_SLEEP net nxt el =
     (if net = NM_NETWORK_STATE_REQUESTED then NM_STATE_REPEAT_MESSAGE else if el then NM_STATE_BUS_SLEEP else nxt)"
| "nm_next NM_STATE_READY_SLEEP net nxt el =
     (if net = NM_NETWORK_STATE_REQUESTED then NM_STATE_NORMAL_OPERATION else if el then NM_STATE_PREPARE_BUS_SLEEP else nxt)"
| "nm_next NM_STATE_NORMAL_OPERATION net nxt el = (if net = NM_NETWORK_STATE_RELEASED then NM_STATE_READY_SLEEP else nxt)"
| "nm_next NM_STATE_REPEAT_MESSAGE net nxt el =
     (if el then (if net = NM_NETWORK_STATE_REQUESTED then NM_STATE_NORMAL_OPERATION else NM_STATE_READY_SLEEP) else nxt)"
| "nm_next NM_STATE_MAX_NUMBER net nxt el = nxt"

text \<open>
  The guard timer is read after the message cycle has been handled; in repeat message it is read
  a second time and counts only once the immediate transmissions are done.
\<close>

definition nm_elapsed :: "('t, 'e) CanNm_Sys \<Rightarrow> ('t, 'e) CanNm_St \<Rightarrow> bool" where
  "nm_elapsed S s =
     (let s1 = CanNm_MsgCycleTimerHandling S (CanNm_State s) s;
          (r, t) = rbTimerUpdate S (nm_ext s1) (NmTimeoutTimer s1)
      in if CanNm_State s = NM_STATE_REPEAT_MESSAGE
         then CanNm_ImmediateTransmissionCount s1 = 0 \<and> fst (rbTimerUpdate S (nm_ext s1) t) = RBD_ELTIME_RBTIMER_STATE_ELAPSED
         else r = RBD_ELTIME_RBTIMER_STATE_ELAPSED)"

lemma nm_cycle_refines:
  "CanNm_nextState (nm_cycle S s) = nm_next (CanNm_State s) (CanNm_Network_State s) (CanNm_nextState s) (nm_elapsed S s)"
  by (cases "CanNm_State s"; cases "CanNm_Network_State s")
    (auto simp: nm_cycle_def nm_elapsed_def CanNm_NetworkRequestHandling_def CanNm_NmTimeoutTimerHandling_def
      CanNm_RepeatMessageTimeoutHandling_def Let_def case_prod_beta)

text \<open>
  C19. The cyclic function refines the abstract machine: in every initialised state, with the CAN
  stack online (or CAN not fitted), the state afterwards is the one the abstract machine gives for
  the state, the network request, the pending event and the elapsed timer.
\<close>

theorem nm_main_refines:
  assumes "nm_inv s" "nm_CanSmOnline S (nm_ext s) \<or> \<not> CanNm_CanFitted s"
  shows "CanNm_State (CanNm_MainFunction S s) =
     nm_next (CanNm_State s) (CanNm_Network_State s) (CanNm_nextState s) (nm_elapsed S s)"
proof -
  have n: "CanNm_nextState s \<in> nm_succ (CanNm_State s)" "nm_Initialized s" using assms by (auto simp: nm_inv_def)
  obtain m where "CanNm_GetState s = (E_OK, CanNm_State s, m)" using GetState_ok nm_succ_valid n(1) by blast
  with n(2) assms(2) show ?thesis
    by (auto simp: CanNm_MainFunction_def nm_cycle_keeps Let_def nm_cycle_refines [symmetric])
qed

text \<open>A clock and timers for the concrete instances: a timer is the time at which it elapses.\<close>

definition nm_demo_sys :: "(nat option, nat) CanNm_Sys" where
  "nm_demo_sys =
     \<lparr>rbTimerInit = \<lambda>_. None, rbTimerStart = \<lambda>d now _. Some (now + d),
      rbTimerUpdate = \<lambda>now t. (case t of None \<Rightarrow> RBD_ELTIME_RBTIMER_STATE_STOPPED
        | Some x \<Rightarrow> if now < x then RBD_ELTIME_RBTIMER_STATE_RUNNING else RBD_ELTIME_RBTIMER_STATE_ELAPSED, t),
      cp_BB_APS_CanNmTimeoutTime = 20, cp_BB_APS_CanNmWaitBusSleepTime = 15, cp_BB_APS_CanNmRepeatMessageTime = 10,
      cp_BB_APS_CanNmMsgCycleTime = 5, cp_BB_CanNmImmediateNmCycleTime = 1, cp_BB_CanNmImmediateNmTransmissions = 3,
      cp_BB_CanNmMsgReducedTime = \<lambda>_. 0, CanNm_NodeIdTbl = \<lambda>i. i, PduR_TxPdu_AnchorNm = 7, nm_CanLoaded = True,
      nm_PwrReq_GetID = \<lambda>_. 0, nm_CanSmOnline = \<lambda>_. True, nm_PduR_Transmit = \<lambda>_ _ e. (E_OK, e), nm_SleepIndication = id,
      nm_ReleaseCPU = \<lambda>_ e. e, nm_RequestCPU = \<lambda>_ e. e, nm_Det = \<lambda>_ _ e. e\<rparr>"

definition nm_demo :: "CanNm_StateType \<Rightarrow> CanNm_AdditionalNetworkStateType \<Rightarrow> (nat option, nat) CanNm_St" where
  "nm_demo st net =
     \<lparr>nm_Initialized = True, CanNm_State = st, nm_TxEnabled = True, nm_CanIdx = 0, NmTimeoutTimer = Some 0, MsgCycleTimer = None,
      MsgTimeoutTimer = None, CanNm_TxMsg = \<lparr>NodeId = 1, AutosarNMControl = 0\<rparr>, CanNm_nextState = st, CanNm_Network_State = net,
      CanNm_CanFitted = True, CanNm_PwrReqID = 0, CanNm_ImmediateTransmissionCount = 0, nm_ext = 0\<rparr>"

theorem nm_main_refines_witness:
  "CanNm_State (CanNm_MainFunction nm_demo_sys (nm_demo NM_STATE_READY_SLEEP NM_NETWORK_STATE_RELEASED)) = NM_STATE_PREPARE_BUS_SLEEP"
proof -
  let ?s = "nm_demo NM_STATE_READY_SLEEP NM_NETWORK_STATE_RELEASED"
  have "nm_inv ?s" "nm_CanSmOnline nm_demo_sys (nm_ext ?s) \<or> \<not> CanNm_CanFitted ?s"
    by (simp_all add: nm_inv_def nm_demo_def nm_demo_sys_def)
  from nm_main_refines [OF this] show ?thesis
    by (simp add: nm_elapsed_def CanNm_MsgCycleTimerHandling_def nm_demo_def nm_demo_sys_def)
qed

lemma nm_cycle_pending:
  assumes "nm_inv s" "length f = 8" "bit (AutosarNMControl (frame_of f)) 0"
    "CanNm_State s = NM_STATE_READY_SLEEP \<or> CanNm_State s = NM_STATE_NORMAL_OPERATION"
  shows "CanNm_nextState (CanNm_RxIndication S f s) = NM_STATE_REPEAT_MESSAGE"
    "CanNm_Network_State (CanNm_RxIndication S f s) = CanNm_Network_State s" "nm_ext (CanNm_RxIndication S f s) = nm_ext s"
    "CanNm_CanFitted (CanNm_RxIndication S f s) = CanNm_CanFitted s"
  using assms by (auto simp: CanNm_RxIndication_def CanNm_GetState_def nm_inv_def Let_def)

text \<open>
  A repeat-message request received in ready sleep or normal operation is lost when the network
  request changes in the same cycle: the handling of the request overwrites the pending state, so
  the node goes to normal operation, or to ready sleep, instead of repeat message.
\<close>

theorem nm_repeat_request_lost:
  assumes inv: "nm_inv s" and online: "nm_CanSmOnline S (nm_ext s)" and f: "length f = 8" "bit (AutosarNMControl (frame_of f)) 0"
    and st: "(CanNm_State s, CanNm_Network_State s) \<in>
        {(NM_STATE_READY_SLEEP, NM_NETWORK_STATE_REQUESTED), (NM_STATE_NORMAL_OPERATION, NM_NETWORK_STATE_RELEASED)}"
  shows "CanNm_nextState (CanNm_RxIndication S f s) = NM_STATE_REPEAT_MESSAGE \<and>
     CanNm_State (CanNm_MainFunction S (CanNm_RxIndication S f s)) =
       (if CanNm_State s = NM_STATE_READY_SLEEP then NM_STATE_NORMAL_OPERATION else NM_STATE_READY_SLEEP)"
proof -
  let ?s = "CanNm_RxIndication S f s"
  have p: "CanNm_nextState ?s = NM_STATE_REPEAT_MESSAGE" "CanNm_Network_State ?s = CanNm_Network_State s"
    "nm_ext ?s = nm_ext s" "CanNm_CanFitted ?s = CanNm_CanFitted s"
    using nm_cycle_pending [OF inv f] st by auto
  have "nm_inv ?s" using nm_step_inv [OF inv, of S "(NmRxIndication f, id)"] by simp
  then obtain m where "CanNm_GetState ?s = (E_OK, CanNm_State ?s, m)" "nm_Initialized ?s"
    using GetState_ok nm_succ_valid by (metis nm_inv_def)
  moreover have "CanNm_nextState (nm_cycle S ?s) = (if CanNm_State s = NM_STATE_READY_SLEEP then NM_STATE_NORMAL_OPERATION else NM_STATE_READY_SLEEP)"
    using st by (auto simp: nm_cycle_refines RxIndication_keeps p(2))
  ultimately show ?thesis
    using p online st by (auto simp: CanNm_MainFunction_def RxIndication_keeps Let_def)
qed

theorem nm_repeat_request_lost_witness:
  "CanNm_State (CanNm_MainFunction nm_demo_sys
     (CanNm_RxIndication nm_demo_sys [9, 1, 0, 0, 0, 0, 0, 0] (nm_demo NM_STATE_READY_SLEEP NM_NETWORK_STATE_REQUESTED)))
     = NM_STATE_NORMAL_OPERATION"
  using nm_repeat_request_lost [of "nm_demo NM_STATE_READY_SLEEP NM_NETWORK_STATE_REQUESTED" nm_demo_sys "[9, 1, 0, 0, 0, 0, 0, 0]"]
  by (simp add: nm_inv_def nm_demo_def nm_demo_sys_def frame_of_def)

end
