(* ===== verification/TxAncStatus.thy ===== *)
theory TxAncStatus
  imports CanNm PduR
begin

text \<open>
  The anchor status message, \<^verbatim>\<open>rbdTxAncStatus.c\<close>, above \<open>CanNm\<close> and \<open>PduR\<close>: in network mode the anchor sends its power modes and one
  diagnostic trouble code per message, at once when the network wakes up and then cyclically. The timers, the power services, the DTC
  manager and the generated configuration (\<^verbatim>\<open>rbdTxAncStatus_Cfg.h\<close>) are fields of \<open>TxAncSys\<close>. The table that
  \<^verbatim>\<open>DtcMgr_ApiUdsReadDtcSupported\<close> fills is memory, \<open>None\<close> when the response is not positive.
\<close>

subsection \<open>State and operations\<close>

record 't TxAncSt =
  tas_CyclicTimer :: 't
  tas_TxEnabled :: bool
  tas_prev_NmMode :: CanNm_ModeType
  tas_dtcIndex :: nat

record ('t, 'e) TxAncSys =
  tas_rbTimerInit :: "'t \<Rightarrow> 't"
  tas_rbTimerStart :: "nat \<Rightarrow> 'e \<Rightarrow> 't \<Rightarrow> 't"
  tas_rbTimerUpdate :: "'e \<Rightarrow> 't \<Rightarrow> rbTimerState \<times> 't"
  cp_BB_APS_CanStatusMsgCycleTime :: nat
  cp_BB_APS_CanStatusMsgCycleTimeFast :: nat
  RBD_PK_12H_REBOOT :: bool
  tas_GetBBAnchorPwrModeTarget :: "'e \<Rightarrow> nat"
  tas_GetAnchorPwrMode :: "'e \<Rightarrow> nat"
  tas_GetBBUwbPwrMode :: "'e \<Rightarrow> nat"
  tas_SecureBootCounter_Read :: "'e \<Rightarrow> nat"
  DtcMgr_ApiUdsReadDtcSupported :: "nat \<Rightarrow> 'e \<Rightarrow> mem option \<times> 'e"
  DTC_MGR_CFG_NUMBER_DTCS :: nat
  PduR_TxPdu_AnchorStatus :: nat
  tas_PduDim :: PduR_Dim

definition rbdTxAncStatus_Init :: "('t, 'e) TxAncSys \<Rightarrow> 't TxAncSt \<Rightarrow> 't TxAncSt" where
  "rbdTxAncStatus_Init S a = a\<lparr>tas_CyclicTimer := tas_rbTimerInit S (tas_CyclicTimer a)\<rparr>"

definition rbdTxAncStatus_SetCanIdx :: "nat \<Rightarrow> 't TxAncSt \<Rightarrow> 't TxAncSt" where
  "rbdTxAncStatus_SetCanIdx CanIdx a = (if CanIdx < 15 then a\<lparr>tas_TxEnabled := True\<rparr> else a\<lparr>tas_TxEnabled := False\<rparr>)"

definition rbdTxAncStatus_Transmit :: "('t, 'e) TxAncSys \<Rightarrow> 'e PduR_St \<Rightarrow> 't TxAncSt \<times> 'e \<Rightarrow> 't TxAncSt \<times> 'e" where
  "rbdTxAncStatus_Transmit S P ae = (let (a, e) = ae in
     if tas_TxEnabled a then
       let b0 = u8 (int ((u8 (int (tas_GetBBAnchorPwrModeTarget S e)) AND 0x0F) OR push_bit 4 (u8 (int (tas_GetAnchorPwrMode S e)))));
           b1 = (if RBD_PK_12H_REBOOT S
                 then u8 (int ((tas_GetBBUwbPwrMode S e AND 0x0F) OR push_bit 4 (tas_SecureBootCounter_Read S e AND 0x03)))
                 else u8 (int (tas_GetBBUwbPwrMode S e AND 0x0F)));
           AncStatus = (replicate 16 0)[0 := b0, 1 := b1];
           (dtcStatus, e) = DtcMgr_ApiUdsReadDtcSupported S (u16 (int (5 * DTC_MGR_CFG_NUMBER_DTCS S))) e;
           AncStatus = (case dtcStatus of
               Some m \<Rightarrow> AncStatus[8 := m (5 * tas_dtcIndex a + 1), 9 := m (5 * tas_dtcIndex a + 2),
                               10 := m (5 * tas_dtcIndex a + 3), 11 := m (5 * tas_dtcIndex a + 4)]
             | None \<Rightarrow> AncStatus);
           (r, e) = PduR_Transmit (tas_PduDim S) P (PduR_TxPdu_AnchorStatus S)
                      \<lparr>SduDataPtr = Some (mem_of AncStatus), SduLength = 16\<rparr> e;
           i = u8 (int (tas_dtcIndex a) + 1)
       in (a\<lparr>tas_dtcIndex := if u8 (int (DTC_MGR_CFG_NUMBER_DTCS S)) \<le> i then 0 else i\<rparr>, e)
     else (a, e))"

definition rbdTxAncStatus_Cyclic ::
  "('t, 'e) TxAncSys \<Rightarrow> 'e PduR_St \<Rightarrow> ('n, 'm) CanNm_St \<Rightarrow> 't TxAncSt \<times> 'e \<Rightarrow> 't TxAncSt \<times> 'e" where
  "rbdTxAncStatus_Cyclic S P nm ae = (let
       (a, e) = ae;
       (NmStateResult, NmState, NmMode) = CanNm_GetState nm;
       NmMode = (if NmStateResult \<noteq> E_OK \<or> NmState = NM_STATE_MAX_NUMBER then NM_MODE_BUS_SLEEP else NmMode);
       cyclicTime = (if NmState = NM_STATE_REPEAT_MESSAGE then cp_BB_APS_CanStatusMsgCycleTimeFast S
                     else cp_BB_APS_CanStatusMsgCycleTime S);
       (a, e) = (if NmMode = NM_MODE_NETWORK \<and> tas_prev_NmMode a \<noteq> NM_MODE_NETWORK then
                   let (a, e) = rbdTxAncStatus_Transmit S P (a, e)
                   in (a\<lparr>tas_CyclicTimer := tas_rbTimerStart S cyclicTime e (tas_CyclicTimer a)\<rparr>, e)
                 else if NmMode = NM_MODE_NETWORK then
                   let (timerState, t) = tas_rbTimerUpdate S e (tas_CyclicTimer a);
                       a = a\<lparr>tas_CyclicTimer := t\<rparr>
                   in if timerState = RBD_ELTIME_RBTIMER_STATE_ELAPSED then
                        rbdTxAncStatus_Transmit S P (a\<lparr>tas_CyclicTimer := tas_rbTimerStart S cyclicTime e (tas_CyclicTimer a)\<rparr>, e)
                      else (a, e)
                 else (a, e))
     in (a\<lparr>tas_prev_NmMode := NmMode\<rparr>, e))"

text \<open>The static variables of a started program, before \<^verbatim>\<open>rbdTxAncStatus_SetCanIdx\<close> has been called.\<close>

definition tas_start :: "'t \<Rightarrow> 't TxAncSt" where
  "tas_start t = \<lparr>tas_CyclicTimer = t, tas_TxEnabled = False, tas_prev_NmMode = NM_MODE_BUS_SLEEP, tas_dtcIndex = 0\<rparr>"

datatype ('n, 'm, 'e) TxAncOp = TxAncInit | TxAncCyclic "('n, 'm) CanNm_St" | TxAncSetCanIdx nat | TxAncElse "'e \<Rightarrow> 'e"

fun tas_step :: "('t, 'e) TxAncSys \<Rightarrow> 'e PduR_St \<Rightarrow> 't TxAncSt \<times> 'e \<Rightarrow> ('n, 'm, 'e) TxAncOp \<Rightarrow> 't TxAncSt \<times> 'e" where
  "tas_step S P (a, e) TxAncInit = (rbdTxAncStatus_Init S a, e)"
| "tas_step S P (a, e) (TxAncCyclic nm) = rbdTxAncStatus_Cyclic S P nm (a, e)"
| "tas_step S P (a, e) (TxAncSetCanIdx i) = (rbdTxAncStatus_SetCanIdx i a, e)"
| "tas_step S P (a, e) (TxAncElse f) = (a, f e)"

subsection \<open>One message\<close>

text \<open>The message and the state after it, for the DTC with the given index.\<close>

definition status_bytes :: "('t, 'e) TxAncSys \<Rightarrow> 'e \<Rightarrow> mem option \<Rightarrow> nat \<Rightarrow> nat list" where
  "status_bytes S e dtcs i =
     [tas_GetBBAnchorPwrModeTarget S e mod 16 + 16 * (tas_GetAnchorPwrMode S e mod 16),
      tas_GetBBUwbPwrMode S e mod 16 + (if RBD_PK_12H_REBOOT S then 16 * (tas_SecureBootCounter_Read S e mod 4) else 0)]
     @ replicate 6 0 @ (case dtcs of Some m \<Rightarrow> rd m (5 * i + 1) 4 | None \<Rightarrow> replicate 4 0) @ replicate 4 0"

definition tas_dtcs :: "('t, 'e) TxAncSys \<Rightarrow> nat" where
  "tas_dtcs S = max 1 (u8 (int (DTC_MGR_CFG_NUMBER_DTCS S)))"

lemma crumb: "(x::nat) AND 3 = x mod 4"
  using take_bit_eq_mask [of 2 x] take_bit_eq_mod [of 2 x] by (simp add: mask_eq_exp_minus_1)

lemma or_shifted: "(x::nat) < 16 \<Longrightarrow> x OR push_bit 4 y = x + 16 * y"
proof -
  assume "x < 16"
  then have "x = take_bit 4 x" by (simp add: take_bit_eq_mod)
  moreover have "take_bit 4 x AND push_bit 4 y = 0" by (rule bit_eqI) (simp add: bit_simps)
  ultimately have "x AND push_bit 4 y = 0" by simp
  then show ?thesis using disjunctive_add_eq_or [of x "push_bit 4 y"] by (simp add: push_bit_eq_mult)
qed

lemma status_byte0: "u8 (int ((u8 (int x) AND 15) OR push_bit 4 (u8 (int y)))) = x mod 16 + 16 * (y mod 16)"
proof -
  have "x mod 256 mod 16 = x mod 16" by (rule mod_mod_cancel) simp
  moreover have "(16 * (y mod 256)) mod 256 = 16 * (y mod 16)"
    using mod_mult_mult1 [of 16 "y mod 256" 16] mod_mod_cancel [of 16 256 y] by simp
  moreover have "(x mod 16 + 16 * (y mod 256)) mod 256 = x mod 16 + (16 * (y mod 256)) mod 256"
    using calculation(2) by (subst mod_add_right_eq [symmetric]) simp
  ultimately show ?thesis by (simp add: u8_mod nibble_and or_shifted del: of_nat_add)
qed

lemma status_byte1:
  "(if c then u8 (int ((x AND 15) OR push_bit 4 (y AND 3))) else u8 (int (x AND 15))) = x mod 16 + (if c then 16 * (y mod 4) else 0)"
proof -
  have "x mod 16 + 16 * (y mod 4) < 256"
    using mod_less_divisor [of 16 x] mod_less_divisor [of 4 y] by linarith
  then show ?thesis by (simp add: nibble_and crumb or_shifted u8_of_nat del: of_nat_add)
qed

lemma Transmit_disabled: "\<not> tas_TxEnabled a \<Longrightarrow> rbdTxAncStatus_Transmit S P (a, e) = (a, e)"
  by (simp add: rbdTxAncStatus_Transmit_def)

lemma next_index: "i < n \<Longrightarrow> n < 256 \<Longrightarrow> (if n \<le> u8 (int i + 1) then 0 else u8 (int i + 1)) = Suc i mod n"
  using u8_of_nat [of "Suc i"] by (auto simp: u8_def mod_Suc le_Suc_eq)

lemma tas_dtcs_next:
  "i < tas_dtcs S \<Longrightarrow> (if u8 (int (DTC_MGR_CFG_NUMBER_DTCS S)) \<le> u8 (int i + 1) then 0 else u8 (int i + 1)) = Suc i mod tas_dtcs S"
  using next_index [of i "u8 (int (DTC_MGR_CFG_NUMBER_DTCS S))"] by (auto simp: tas_dtcs_def max_def not_le)

lemma Transmit_enabled:
  assumes "tas_TxEnabled a" "tas_dtcIndex a < tas_dtcs S"
    and d: "DtcMgr_ApiUdsReadDtcSupported S (u16 (int (5 * DTC_MGR_CFG_NUMBER_DTCS S))) e = (dtcs, e')"
  shows "rbdTxAncStatus_Transmit S P (a, e) =
     (a\<lparr>tas_dtcIndex := Suc (tas_dtcIndex a) mod tas_dtcs S\<rparr>,
      snd (PduR_Transmit (tas_PduDim S) P (PduR_TxPdu_AnchorStatus S)
             \<lparr>SduDataPtr = Some (mem_of (status_bytes S e dtcs (tas_dtcIndex a))), SduLength = 16\<rparr> e'))"
proof -
  have b: "(case dtcs of Some m \<Rightarrow> ((replicate 16 0)[0 := x, 1 := y])[8 := m (5 * i + 1), 9 := m (5 * i + 2), 10 := m (5 * i + 3), 11 := m (5 * i + 4)]
      | None \<Rightarrow> (replicate 16 0)[0 := x, 1 := y]) = [x, y] @ replicate 6 0 @ (case dtcs of Some m \<Rightarrow> rd m (5 * i + 1) 4 | None \<Rightarrow> replicate 4 0) @ replicate 4 0"
    for x y i :: nat
    by (cases dtcs) (simp_all add: numeral_eq_Suc rd_def)
  show ?thesis
    unfolding rbdTxAncStatus_Transmit_def Let_def prod.case d b status_byte0 status_byte1 tas_dtcs_next [OF assms(2)]
    using assms(1) by (simp add: status_bytes_def case_prod_beta del: append.simps replicate.simps)
qed

subsection \<open>When a message is due\<close>

definition tas_network :: "('n, 'm) CanNm_St \<Rightarrow> bool" where
  "tas_network nm = (CanNm_State nm \<in> {NM_STATE_READY_SLEEP, NM_STATE_NORMAL_OPERATION, NM_STATE_REPEAT_MESSAGE})"

definition tas_due :: "('t, 'e) TxAncSys \<Rightarrow> ('n, 'm) CanNm_St \<Rightarrow> 't TxAncSt \<Rightarrow> 'e \<Rightarrow> bool" where
  "tas_due S nm a e = (tas_network nm \<and>
     (tas_prev_NmMode a = NM_MODE_NETWORK \<longrightarrow> fst (tas_rbTimerUpdate S e (tas_CyclicTimer a)) = RBD_ELTIME_RBTIMER_STATE_ELAPSED))"

definition tas_period :: "('t, 'e) TxAncSys \<Rightarrow> ('n, 'm) CanNm_St \<Rightarrow> nat" where
  "tas_period S nm = (if CanNm_State nm = NM_STATE_REPEAT_MESSAGE then cp_BB_APS_CanStatusMsgCycleTimeFast S
                      else cp_BB_APS_CanStatusMsgCycleTime S)"

lemma GetState_network:
  assumes "CanNm_GetState nm = (r, st, m)"
  shows "(if r \<noteq> E_OK \<or> st = NM_STATE_MAX_NUMBER then NM_MODE_BUS_SLEEP else m) = NM_MODE_NETWORK \<longleftrightarrow> tas_network nm"
    and "(if st = NM_STATE_REPEAT_MESSAGE then f else g) = (if CanNm_State nm = NM_STATE_REPEAT_MESSAGE then f else g)"
  using assms by (auto simp: CanNm_GetState_def tas_network_def split: CanNm_StateType.splits)

lemma Transmit_keeps:
  "rbdTxAncStatus_Transmit S P (a, e) = (a', e') \<Longrightarrow>
     tas_CyclicTimer a' = tas_CyclicTimer a \<and> tas_TxEnabled a' = tas_TxEnabled a \<and> tas_prev_NmMode a' = tas_prev_NmMode a"
  by (auto simp: rbdTxAncStatus_Transmit_def Let_def split: prod.splits if_splits)

lemma Cyclic_cases:
  obtains m where "m = NM_MODE_NETWORK \<longleftrightarrow> tas_network nm"
    "rbdTxAncStatus_Cyclic S P nm (a, e) =
      (if \<not> tas_network nm then (a\<lparr>tas_prev_NmMode := m\<rparr>, e)
       else if tas_prev_NmMode a \<noteq> NM_MODE_NETWORK then
         let (a', e') = rbdTxAncStatus_Transmit S P (a, e)
         in (a'\<lparr>tas_CyclicTimer := tas_rbTimerStart S (tas_period S nm) e' (tas_CyclicTimer a), tas_prev_NmMode := m\<rparr>, e')
       else let (ts, t) = tas_rbTimerUpdate S e (tas_CyclicTimer a) in
         if ts = RBD_ELTIME_RBTIMER_STATE_ELAPSED then
           let (a', e') = rbdTxAncStatus_Transmit S P (a\<lparr>tas_CyclicTimer := tas_rbTimerStart S (tas_period S nm) e t\<rparr>, e)
           in (a'\<lparr>tas_prev_NmMode := m\<rparr>, e')
         else (a\<lparr>tas_CyclicTimer := t, tas_prev_NmMode := m\<rparr>, e))"
proof -
  obtain r st md where g: "CanNm_GetState nm = (r, st, md)" by (metis prod.collapse)
  define m where "m = (if r \<noteq> E_OK \<or> st = NM_STATE_MAX_NUMBER then NM_MODE_BUS_SLEEP else md)"
  have m: "m = NM_MODE_NETWORK \<longleftrightarrow> tas_network nm" using GetState_network(1) [OF g] by (simp add: m_def)
  show thesis
    by (rule that [OF m], unfold rbdTxAncStatus_Cyclic_def Let_def g prod.case m_def [symmetric] GetState_network(2) [OF g] tas_period_def [symmetric] m)
      (simp add: case_prod_beta Transmit_keeps [OF prod.collapse [symmetric]])
qed

lemma Cyclic_due:
  assumes "tas_dtcIndex a < tas_dtcs S" "tas_due S nm a e" "tas_TxEnabled a"
    and "DtcMgr_ApiUdsReadDtcSupported S (u16 (int (5 * DTC_MGR_CFG_NUMBER_DTCS S))) e = (dtcs, e')"
  shows "tas_dtcIndex (fst (rbdTxAncStatus_Cyclic S P nm (a, e))) = Suc (tas_dtcIndex a) mod tas_dtcs S"
    and "snd (rbdTxAncStatus_Cyclic S P nm (a, e)) = snd (PduR_Transmit (tas_PduDim S) P (PduR_TxPdu_AnchorStatus S)
          \<lparr>SduDataPtr = Some (mem_of (status_bytes S e dtcs (tas_dtcIndex a))), SduLength = 16\<rparr> e')"
  by (rule Cyclic_cases [of nm S P a e]; use assms in \<open>simp add: tas_due_def Transmit_enabled [OF _ _ assms(4)] case_prod_beta\<close>)+

lemma Cyclic_not_due:
  assumes "\<not> (tas_due S nm a e \<and> tas_TxEnabled a)"
  shows "tas_dtcIndex (fst (rbdTxAncStatus_Cyclic S P nm (a, e))) = tas_dtcIndex a"
    and "snd (rbdTxAncStatus_Cyclic S P nm (a, e)) = e"
  by (rule Cyclic_cases [of nm S P a e]; use assms in \<open>auto simp: tas_due_def Transmit_disabled case_prod_beta Let_def split: if_splits\<close>)+

lemma Cyclic_timer:
  "tas_CyclicTimer (fst (rbdTxAncStatus_Cyclic S P nm (a, e))) =
     (if \<not> tas_network nm then tas_CyclicTimer a
      else if tas_prev_NmMode a \<noteq> NM_MODE_NETWORK
        then tas_rbTimerStart S (tas_period S nm) (snd (rbdTxAncStatus_Cyclic S P nm (a, e))) (tas_CyclicTimer a)
      else let (ts, t) = tas_rbTimerUpdate S e (tas_CyclicTimer a) in
        if ts = RBD_ELTIME_RBTIMER_STATE_ELAPSED then tas_rbTimerStart S (tas_period S nm) e t else t)"
  by (rule Cyclic_cases [of nm S P a e])
    (auto simp: case_prod_beta Let_def Transmit_keeps [OF prod.collapse [symmetric]])

subsection \<open>Every sequence of calls\<close>

definition tas_inv :: "('t, 'e) TxAncSys \<Rightarrow> 't TxAncSt \<times> 'e \<Rightarrow> bool" where
  "tas_inv S ae = (tas_dtcIndex (fst ae) < tas_dtcs S)"

lemma tas_dtcs_pos: "0 < tas_dtcs S"
  by (simp add: tas_dtcs_def)

lemma tas_step_inv: "tas_inv S ae \<Longrightarrow> tas_inv S (tas_step S P ae op)"
proof -
  assume i: "tas_inv S ae"
  obtain a e where ae: "ae = (a, e)" by (cases ae)
  show ?thesis
  proof (cases op)
    case (TxAncCyclic nm)
    from i TxAncCyclic show ?thesis
      using Cyclic_due(1) [OF _ _ _ prod.collapse [symmetric], of a S nm e P] Cyclic_not_due(1) [of S nm a e P] mod_less_divisor [OF tas_dtcs_pos]
      by (cases "tas_due S nm a e \<and> tas_TxEnabled a") (simp_all add: ae tas_inv_def)
  qed (use i in \<open>simp_all add: ae tas_inv_def rbdTxAncStatus_Init_def rbdTxAncStatus_SetCanIdx_def\<close>)
qed

interpretation tas: step_system "tas_step S P :: 't TxAncSt \<times> 'e \<Rightarrow> ('n, 'm, 'e) TxAncOp \<Rightarrow> 't TxAncSt \<times> 'e" "tas_inv S" for S P
  by unfold_locales (rule tas_step_inv)

definition tas_logs :: "('t, 'e) TxAncSys \<Rightarrow> 'e PduR_St \<Rightarrow> mem \<Rightarrow> ('e \<Rightarrow> nat list list) \<Rightarrow> bool" where
  "tas_logs S P table sent \<longleftrightarrow>
     (\<forall>m e. sent (snd (PduR_Transmit (tas_PduDim S) P (PduR_TxPdu_AnchorStatus S) \<lparr>SduDataPtr = Some m, SduLength = 16\<rparr> e)) = sent e @ [rd m 0 16]) \<and>
     (\<forall>n e. fst (DtcMgr_ApiUdsReadDtcSupported S n e) = Some table \<and> sent (snd (DtcMgr_ApiUdsReadDtcSupported S n e)) = sent e)"

lemma status_bytes_dtc: "take 4 (drop 8 (status_bytes S e (Some m) i)) = rd m (5 * i + 1) 4" "length (status_bytes S e (Some m) i) = 16"
  by (simp_all add: status_bytes_def)

lemma tas_step_log:
  assumes "tas_logs S P table sent" "tas_inv S (a, e)" "tas_step S P (a, e) op = (a', e')"
    and "\<And>f. op = TxAncElse f \<Longrightarrow> sent (f e) = sent e"
  shows "(sent e' = sent e \<and> tas_dtcIndex a' = tas_dtcIndex a) \<or>
    (\<exists>x. sent e' = sent e @ [x] \<and> take 4 (drop 8 x) = rd table (5 * tas_dtcIndex a + 1) 4 \<and> tas_dtcIndex a' = Suc (tas_dtcIndex a) mod tas_dtcs S)"
proof (cases op)
  case (TxAncCyclic nm)
  then have c: "a' = fst (rbdTxAncStatus_Cyclic S P nm (a, e))" "e' = snd (rbdTxAncStatus_Cyclic S P nm (a, e))" using assms(3) by simp_all
  let ?d = "DtcMgr_ApiUdsReadDtcSupported S (u16 (int (5 * DTC_MGR_CFG_NUMBER_DTCS S))) e"
  have d: "?d = (Some table, snd ?d)" and s: "sent (snd ?d) = sent e"
    using assms(1) by (simp_all add: tas_logs_def prod_eq_iff)
  show ?thesis
  proof (cases "tas_due S nm a e \<and> tas_TxEnabled a")
    case True
    then have i: "tas_dtcIndex a' = Suc (tas_dtcIndex a) mod tas_dtcs S"
      and "sent e' = sent (snd ?d) @ [rd (mem_of (status_bytes S e (Some table) (tas_dtcIndex a))) 0 16]"
      using Cyclic_due [of a S nm e, OF _ _ _ d, of P] assms(1,2) unfolding c by (auto simp: tas_inv_def tas_logs_def)
    then have "sent e' = sent e @ [status_bytes S e (Some table) (tas_dtcIndex a)]"
      using s by (simp add: rd_mem_of status_bytes_dtc(2))
    then show ?thesis using i by (intro disjI2 exI conjI) (auto simp: status_bytes_dtc(1))
  next
    case False
    then show ?thesis unfolding c using Cyclic_not_due by metis
  qed
qed (use assms in \<open>auto simp: rbdTxAncStatus_Init_def rbdTxAncStatus_SetCanIdx_def split: if_splits\<close>)

text \<open>What a call of \<^verbatim>\<open>rbdTxAncStatus_Cyclic\<close> does: a status message leaves the anchor exactly when sending is enabled, the network is in network mode, and
  either the network has just woken up or the cycle timer has elapsed; it carries both nibbles of the power modes and the trouble code at the current index, and
  the index then moves on cyclically. The timer is restarted with the fast cycle time in the repeat-message state and the normal one otherwise.\<close>

theorem status_cyclic_sends:
  assumes "tas_dtcIndex a < tas_dtcs S"
    and "DtcMgr_ApiUdsReadDtcSupported S (u16 (int (5 * DTC_MGR_CFG_NUMBER_DTCS S))) e = (dtcs, e1)"
    and "rbdTxAncStatus_Cyclic S P nm (a, e) = (a', e')"
  shows "e' = (if tas_due S nm a e \<and> tas_TxEnabled a
               then snd (PduR_Transmit (tas_PduDim S) P (PduR_TxPdu_AnchorStatus S)
                      \<lparr>SduDataPtr = Some (mem_of (status_bytes S e dtcs (tas_dtcIndex a))), SduLength = 16\<rparr> e1) else e) \<and>
    tas_dtcIndex a' = (if tas_due S nm a e \<and> tas_TxEnabled a then Suc (tas_dtcIndex a) mod tas_dtcs S else tas_dtcIndex a) \<and>
    tas_CyclicTimer a' =
          (if \<not> tas_network nm then tas_CyclicTimer a
           else if tas_prev_NmMode a \<noteq> NM_MODE_NETWORK then tas_rbTimerStart S (tas_period S nm) e' (tas_CyclicTimer a)
           else let (ts, t) = tas_rbTimerUpdate S e (tas_CyclicTimer a) in
             if ts = RBD_ELTIME_RBTIMER_STATE_ELAPSED then tas_rbTimerStart S (tas_period S nm) e t else t)"
  using Cyclic_due [OF assms(1) _ _ assms(2), of nm P] Cyclic_not_due [of S nm a e P] Cyclic_timer [of S P nm a e] assms(3) by auto

text \<open>C31. Every trouble code is reported in turn: after any sequence of calls, interleaved with any other activity, the \<open>i\<close>-th status message sent since the
  start carries the code and status of table entry \<open>i\<close> modulo the number of trouble codes (as the code narrows it, to 8 bits), which is an entry
  of the table. Hypotheses: PduR hands every status message on, the DTC manager answers with the table, and other activity sends no status message.\<close>

theorem status_round_robin:
  assumes "tas_logs S P table sent" "0 < DTC_MGR_CFG_NUMBER_DTCS S" "\<forall>f. TxAncElse f \<in> set ops \<longrightarrow> (\<forall>e. sent (f e) = sent e)"
    and "foldl (tas_step S P) (tas_start t, e) ops = (a', e')" "sent e = []"
  shows "(\<forall>i < length (sent e'). take 4 (drop 8 (sent e' ! i)) = rd table (5 * (i mod tas_dtcs S) + 1) 4) \<and>
    tas_dtcIndex a' = length (sent e') mod tas_dtcs S \<and> tas_dtcIndex a' < DTC_MGR_CFG_NUMBER_DTCS S"
proof -
  let ?I = "\<lambda>(a, e). tas_dtcIndex a = length (sent e) mod tas_dtcs S \<and>
    (\<forall>i < length (sent e). take 4 (drop 8 (sent e ! i)) = rd table (5 * (i mod tas_dtcs S) + 1) 4)"
  have "?I (foldl (tas_step S P) (tas_start t, e) ops)" using assms(3)
  proof (induction ops rule: rev_induct)
    case Nil
    then show ?case by (simp add: tas_start_def assms(5))
  next
    case (snoc op ops)
    obtain a1 e1 where f: "foldl (tas_step S P) (tas_start t, e) ops = (a1, e1)" by (metis prod.collapse)
    obtain a2 e2 where n: "tas_step S P (a1, e1) op = (a2, e2)" by (metis prod.collapse)
    have "tas_inv S (a1, e1)" using tas.foldl_inv [of S "(tas_start t, e)" P ops] by (simp add: tas_dtcs_pos tas_inv_def tas_start_def f [unfolded tas_start_def])
    from tas_step_log [OF assms(1) this n] snoc f n show ?case
      by (auto simp: nth_append less_Suc_eq mod_Suc_eq)
  qed
  then have i: "?I (a', e')" using assms(4) by simp
  have "tas_dtcs S \<le> DTC_MGR_CFG_NUMBER_DTCS S" using assms(2) by (simp add: tas_dtcs_def u8_mod)
  then have "tas_dtcIndex a' < DTC_MGR_CFG_NUMBER_DTCS S"
    using i mod_less_divisor [OF tas_dtcs_pos, of "length (sent e')" S] by simp
  with i show ?thesis by simp
qed

subsection \<open>Witnesses\<close>

text \<open>An environment that records what reaches the layer below PduR; the timer counts calls and elapses when it reaches zero.\<close>

definition ex_route :: "nat list list PduR_St" where
  "ex_route = Some \<lparr>
     RouteTblTx = \<lambda>i. \<lparr>LoTransmit = Some (\<lambda>j info l. (E_OK, l @ [case SduDataPtr info of Some m \<Rightarrow> rd m 0 (SduLength info) | None \<Rightarrow> []])),
                        LoCancelTransmit = None, LoTxPduId = i, UpTxConfirmation = None, UpTxPduId = i\<rparr>,
     RouteTblRx = \<lambda>i. \<lparr>UpRxIndication = None, UpRxPduId = i\<rparr>,
     TpRouteTblTx = \<lambda>i. \<lparr>LoTpTransmit = None, LoTpCancelTransmit = None, LoTpTxPduId = i, UpTpCopyTxData = None, UpTpTxConfirmation = None, UpTpTxPduId = i\<rparr>,
     TpRouteTblRx = \<lambda>i. \<lparr>UpTpStartOfReception = None, UpTpCopyRxData = None, UpTpRxIndication = None, UpTpRxPduId = i\<rparr>,
     SetTxConfirmationLatency = None, TxInterrupt = None\<rparr>"

definition ex_status :: "(nat, nat list list) TxAncSys" where
  "ex_status = \<lparr>tas_rbTimerInit = \<lambda>t. 0, tas_rbTimerStart = \<lambda>n e t. n,
     tas_rbTimerUpdate = \<lambda>e t. (if t = 0 then RBD_ELTIME_RBTIMER_STATE_ELAPSED else RBD_ELTIME_RBTIMER_STATE_RUNNING, t - 1),
     cp_BB_APS_CanStatusMsgCycleTime = 2, cp_BB_APS_CanStatusMsgCycleTimeFast = 1, RBD_PK_12H_REBOOT = True,
     tas_GetBBAnchorPwrModeTarget = \<lambda>e. 3, tas_GetAnchorPwrMode = \<lambda>e. 2, tas_GetBBUwbPwrMode = \<lambda>e. 1, tas_SecureBootCounter_Read = \<lambda>e. 1,
     DtcMgr_ApiUdsReadDtcSupported = \<lambda>n e. (Some (\<lambda>i. i), e), DTC_MGR_CFG_NUMBER_DTCS = 2, PduR_TxPdu_AnchorStatus = 0,
     tas_PduDim = \<lparr>PDUR_PDU_TX_MAX = 1, PDUR_PDU_RX_MAX = 0, PDUR_PDU_TP_TX_MAX = 0, PDUR_PDU_TP_RX_MAX = 0\<rparr>\<rparr>"

definition ex_nm :: "CanNm_StateType \<Rightarrow> (unit, unit) CanNm_St" where
  "ex_nm st = \<lparr>nm_Initialized = True, CanNm_State = st, nm_TxEnabled = True, nm_CanIdx = 1, NmTimeoutTimer = (), MsgCycleTimer = (), MsgTimeoutTimer = (),
     CanNm_TxMsg = \<lparr>NodeId = 0, AutosarNMControl = 0\<rparr>, CanNm_nextState = st, CanNm_Network_State = NM_NETWORK_STATE_RELEASED,
     CanNm_CanFitted = True, CanNm_PwrReqID = 0, CanNm_ImmediateTransmissionCount = 0, nm_ext = ()\<rparr>"

definition ex_calls :: "(unit, unit, nat list list) TxAncOp list" where
  "ex_calls = [TxAncInit, TxAncSetCanIdx 1, TxAncCyclic (ex_nm NM_STATE_BUS_SLEEP), TxAncCyclic (ex_nm NM_STATE_REPEAT_MESSAGE),
     TxAncCyclic (ex_nm NM_STATE_REPEAT_MESSAGE), TxAncCyclic (ex_nm NM_STATE_REPEAT_MESSAGE), TxAncElse (\<lambda>e. e), TxAncSetCanIdx 15,
     TxAncCyclic (ex_nm NM_STATE_NORMAL_OPERATION), TxAncCyclic (ex_nm NM_STATE_NORMAL_OPERATION)]"

lemma ex_status_logs: "tas_logs ex_status ex_route (\<lambda>i. i) (\<lambda>l. l)"
  by (simp add: tas_logs_def ex_status_def ex_route_def PduR_Transmit_def routed_def)

lemma ex_status_run: "foldl (tas_step ex_status ex_route) (tas_start 0, []) ex_calls =
  (\<lparr>tas_CyclicTimer = 2, tas_TxEnabled = False, tas_prev_NmMode = NM_MODE_NETWORK, tas_dtcIndex = 0\<rparr>,
   [[35, 17, 0, 0, 0, 0, 0, 0, 1, 2, 3, 4, 0, 0, 0, 0], [35, 17, 0, 0, 0, 0, 0, 0, 6, 7, 8, 9, 0, 0, 0, 0]])"
  by code_simp

theorem status_cyclic_sends_witness:
  "tas_due ex_status (ex_nm NM_STATE_REPEAT_MESSAGE) ((tas_start 0)\<lparr>tas_TxEnabled := True\<rparr>) [] \<and>
   snd (rbdTxAncStatus_Cyclic ex_status ex_route (ex_nm NM_STATE_REPEAT_MESSAGE) ((tas_start 0)\<lparr>tas_TxEnabled := True\<rparr>, [])) =
     [[35, 17, 0, 0, 0, 0, 0, 0, 1, 2, 3, 4, 0, 0, 0, 0]]"
proof -
  let ?a = "(tas_start 0)\<lparr>tas_TxEnabled := True\<rparr>"
  have d: "tas_due ex_status (ex_nm NM_STATE_REPEAT_MESSAGE) ?a []" by code_simp
  have i: "tas_dtcIndex ?a < tas_dtcs ex_status" by code_simp
  have p: "snd (PduR_Transmit (tas_PduDim ex_status) ex_route (PduR_TxPdu_AnchorStatus ex_status)
      \<lparr>SduDataPtr = Some (mem_of (status_bytes ex_status [] (Some (\<lambda>i. i)) (tas_dtcIndex ?a))), SduLength = 16\<rparr> []) =
      [[35, 17, 0, 0, 0, 0, 0, 0, 1, 2, 3, 4, 0, 0, 0, 0]]" by code_simp
  have r: "DtcMgr_ApiUdsReadDtcSupported ex_status (u16 (int (5 * DTC_MGR_CFG_NUMBER_DTCS ex_status))) [] = (Some (\<lambda>i. i), [])"
    by (simp add: ex_status_def)
  from status_cyclic_sends [OF i r prod.collapse [symmetric], of ex_route "ex_nm NM_STATE_REPEAT_MESSAGE"] d p
  show ?thesis by (simp add: tas_start_def)
qed

theorem status_round_robin_witness:
  "take 4 (drop 8 ([[35, 17, 0, 0, 0, 0, 0, 0, 1, 2, 3, 4, 0, 0, 0, 0], [35, 17, 0, 0, 0, 0, 0, 0, 6, 7, 8, 9, 0, 0, 0, 0]] ! 1)) = rd (\<lambda>i. i) 6 4 \<and>
   foldl (tas_step ex_status ex_route) (tas_start 0, []) ex_calls =
     (\<lparr>tas_CyclicTimer = 2, tas_TxEnabled = False, tas_prev_NmMode = NM_MODE_NETWORK, tas_dtcIndex = 0\<rparr>,
      [[35, 17, 0, 0, 0, 0, 0, 0, 1, 2, 3, 4, 0, 0, 0, 0], [35, 17, 0, 0, 0, 0, 0, 0, 6, 7, 8, 9, 0, 0, 0, 0]])"
proof -
  have n: "0 < DTC_MGR_CFG_NUMBER_DTCS ex_status" "tas_dtcs ex_status = 2" by code_simp+
  have f: "\<forall>f. TxAncElse f \<in> set ex_calls \<longrightarrow> (\<forall>e. f e = e)" by (auto simp: ex_calls_def)
  from status_round_robin [OF ex_status_logs n(1) f ex_status_run refl, THEN conjunct1, rule_format, of 1]
  show ?thesis using ex_status_run by (simp add: n(2))
qed

end
