(* ===== verification/XlDriver.thy ===== *)
theory XlDriver
  imports Prelude
begin

text \<open>
  The host tool \<^verbatim>\<open>source_XL-Driver/src/xlSPICAN.c\<close>: the part of it that drives the CAN hardware through the vendor library \<^verbatim>\<open>vxlapi\<close>. The library, the threads of the
  operating system and the console are functions of \<open>XlSys\<close> on the state \<open>'w\<close> outside of the program; output to the console has no counterpart. A read past the end of an
  array is \<open>None\<close>. The constants are those of \<^verbatim>\<open>include/vxlapi.h\<close>. A message is given to the library as \<^verbatim>\<open>XLevent\<close> or, for CAN FD, as \<^verbatim>\<open>XLcanTxEvent\<close>, here \<open>XlMsg\<close> with
  the whole data array.
\<close>

unbundle bit_operations_syntax

subsection \<open>Data\<close>

type_synonym XLstatus = nat
type_synonym XLaccess = "64 word"

abbreviation "XL_SUCCESS \<equiv> 0 :: nat"
abbreviation "XL_ERROR \<equiv> 255 :: nat"
abbreviation "XL_INVALID_PORTHANDLE \<equiv> - 1 :: int"
abbreviation "XL_BUS_ACTIVE_CAP_CAN \<equiv> 0x00010000 :: 32 word"
abbreviation "XL_CHANNEL_FLAG_CANFD_BOSCH_SUPPORT \<equiv> 0x20000000 :: 32 word"
abbreviation "XL_CHANNEL_FLAG_CANFD_ISO_SUPPORT \<equiv> 0x80000000 :: 32 word"
abbreviation "XL_HWTYPE_VIRTUAL \<equiv> 1 :: nat"
abbreviation "XL_CAN_EXT_MSG_ID \<equiv> 0x80000000 :: 32 word"
abbreviation "XL_CAN_TXMSG_FLAG_EDL \<equiv> 1 :: nat"
abbreviation "XL_CAN_TXMSG_FLAG_BRS \<equiv> 2 :: nat"
abbreviation "XL_CAN_FLAG_REMOTE \<equiv> 0x10 :: nat"
abbreviation "XL_CAN_MAX_DATA_LEN \<equiv> 64 :: nat"
abbreviation "RX_QUEUE_SIZE \<equiv> 4096 :: nat"
abbreviation "RX_QUEUE_SIZE_FD \<equiv> 16384 :: nat"

record XlMsg =
  xm_ex :: bool
  xm_id :: "32 word"
  xm_flags :: nat
  xm_dlc :: nat
  xm_data :: "8 word list"

record XLchannel =
  channelIndex :: nat
  channelMask :: XLaccess
  channelBusCapabilities :: "32 word"
  channelCapabilities :: "32 word"
  hwType :: nat

record XLcanFdConf =
  arbitrationBitRate :: nat
  tseg1Abr :: nat
  tseg2Abr :: nat
  sjwAbr :: nat
  dataBitRate :: nat
  tseg1Dbr :: nat
  tseg2Dbr :: nat
  sjwDbr :: nat
  fd_NoIso :: bool

datatype XlThread = RxThread | RxCanFdThread | TxThread

datatype XlOutput = XL_OUTPUT_MODE_SILENT | XL_OUTPUT_MODE_NORMAL

text \<open>The global variables, and the static counter of \<^verbatim>\<open>demoTransmit\<close>. A thread handle is whether it is non-null.\<close>

record 'w XlApp =
  g_xlPortHandle :: int
  g_xlDrvConfig :: "XLchannel list"
  g_xlChannelMask :: XLaccess
  g_xlPermissionMask :: XLaccess
  g_BaudRate :: nat
  g_silent :: bool
  g_TimerRate :: nat
  g_canFdSupport :: bool
  g_canFdModeNoIso :: bool
  g_hRXThread :: bool
  g_hTXThread :: bool
  g_TXThreadRun :: bool
  g_TXThreadCanId :: "32 word"
  g_TXThreadTxMask :: XLaccess
  xl_cnt :: nat
  xl_world :: 'w

record 'w XlSys =
  xlOpenDriver :: "'w \<Rightarrow> XLstatus \<times> 'w"
  xlCloseDriver :: "'w \<Rightarrow> 'w"
  xlGetDriverConfig :: "'w \<Rightarrow> XLstatus \<times> XLchannel list \<times> 'w"
  xlOpenPort :: "XLaccess \<Rightarrow> XLaccess \<Rightarrow> nat \<Rightarrow> bool \<Rightarrow> 'w \<Rightarrow> XLstatus \<times> int \<times> XLaccess \<times> 'w"
  xlClosePort :: "int \<Rightarrow> 'w \<Rightarrow> XLstatus \<times> 'w"
  xlCanFdSetConfiguration :: "int \<Rightarrow> XLaccess \<Rightarrow> XLcanFdConf \<Rightarrow> 'w \<Rightarrow> XLstatus \<times> 'w"
  xlCanSetChannelBitrate :: "int \<Rightarrow> XLaccess \<Rightarrow> nat \<Rightarrow> 'w \<Rightarrow> XLstatus \<times> 'w"
  xlActivateChannel :: "int \<Rightarrow> XLaccess \<Rightarrow> 'w \<Rightarrow> XLstatus \<times> 'w"
  xlDeactivateChannel :: "int \<Rightarrow> XLaccess \<Rightarrow> 'w \<Rightarrow> XLstatus \<times> 'w"
  xlCanSetChannelOutput :: "int \<Rightarrow> XLaccess \<Rightarrow> XlOutput \<Rightarrow> 'w \<Rightarrow> XLstatus \<times> 'w"
  xlSetNotification :: "int \<Rightarrow> 'w \<Rightarrow> XLstatus \<times> 'w"
  xlCanTransmit :: "int \<Rightarrow> XLaccess \<Rightarrow> XlMsg \<Rightarrow> 'w \<Rightarrow> XLstatus \<times> 'w"
  xlCanRequestChipState :: "int \<Rightarrow> XLaccess \<Rightarrow> 'w \<Rightarrow> XLstatus \<times> 'w"
  xlSetTimerRate :: "int \<Rightarrow> nat \<Rightarrow> 'w \<Rightarrow> XLstatus \<times> 'w"
  xlResetClock :: "int \<Rightarrow> 'w \<Rightarrow> XLstatus \<times> 'w"
  xlGenerateSyncPulse :: "int \<Rightarrow> XLaccess \<Rightarrow> 'w \<Rightarrow> XLstatus \<times> 'w"
  CreateThread :: "XlThread \<Rightarrow> 'w \<Rightarrow> bool \<times> 'w"

text \<open>A call of the library that changes only what is outside of the program.\<close>

definition xl_call :: "('w \<Rightarrow> XLstatus \<times> 'w) \<Rightarrow> 'w XlApp \<Rightarrow> XLstatus \<times> 'w XlApp" where
  "xl_call f a = (let (r, w) = f (xl_world a) in (r, a\<lparr>xl_world := w\<rparr>))"

subsection \<open>Sending\<close>

definition demoTransmitWithPayload :: "'w XlSys \<Rightarrow> XLaccess \<Rightarrow> 32 word \<Rightarrow> 8 word list \<Rightarrow> nat \<Rightarrow> 'w XlApp \<Rightarrow> XLstatus \<times> 'w XlApp" where
  "demoTransmitWithPayload X chan txID payload payloadLength a =
     (if 8 < payloadLength then (XL_ERROR, a)
      else let n = (if g_canFdSupport a then XL_CAN_MAX_DATA_LEN else 8);
               msg = \<lparr>xm_ex = g_canFdSupport a, xm_id = txID, xm_flags = 0, xm_dlc = payloadLength,
                      xm_data = take payloadLength payload @ replicate (n - payloadLength) 0\<rparr>
           in xl_call (xlCanTransmit X (g_xlPortHandle a) chan msg) a)"

definition demoTransmit :: "'w XlSys \<Rightarrow> 32 word \<Rightarrow> XLaccess \<Rightarrow> 'w XlApp \<Rightarrow> XLstatus \<times> 'w XlApp" where
  "demoTransmit X txID chan a =
     (if g_canFdSupport a then
        let flags = [0, XL_CAN_TXMSG_FLAG_EDL, XL_CAN_TXMSG_FLAG_EDL OR XL_CAN_TXMSG_FLAG_BRS] ! (xl_cnt a mod 3);
            cnt = Suc (xl_cnt a);
            msg = \<lparr>xm_ex = True, xm_id = txID, xm_flags = flags, xm_dlc = (if flags AND XL_CAN_TXMSG_FLAG_EDL \<noteq> 0 then 15 else 8),
                   xm_data = of_nat cnt # map (\<lambda>i. of_nat i - 1) [1..<XL_CAN_MAX_DATA_LEN]\<rparr>
        in xl_call (xlCanTransmit X (g_xlPortHandle a) chan msg) (a\<lparr>xl_cnt := cnt\<rparr>)
      else xl_call (xlCanTransmit X (g_xlPortHandle a) chan
                     \<lparr>xm_ex = False, xm_id = txID, xm_flags = 0, xm_dlc = 8, xm_data = [0 + 1, 2, 3, 4, 5, 6, 7, 8]\<rparr>) a)"

definition demoTransmitRemote :: "'w XlSys \<Rightarrow> 32 word \<Rightarrow> XLaccess \<Rightarrow> 'w XlApp \<Rightarrow> XLstatus \<times> 'w XlApp" where
  "demoTransmitRemote X txID chan a =
     (let n = (if g_canFdSupport a then XL_CAN_MAX_DATA_LEN else 8);
          (r, a) = xl_call (xlCanTransmit X (g_xlPortHandle a) chan
                     \<lparr>xm_ex = g_canFdSupport a, xm_id = txID, xm_flags = XL_CAN_FLAG_REMOTE, xm_dlc = 8, xm_data = replicate n 0\<rparr>) a
      in (XL_SUCCESS, a))"

subsection \<open>The burst thread\<close>

definition demoStopTransmitBurst :: "'w XlApp \<Rightarrow> 'w XlApp" where
  "demoStopTransmitBurst a = (if g_hTXThread a then a\<lparr>g_TXThreadRun := False, g_hTXThread := False\<rparr> else a)"

definition demoTransmitBurst :: "'w XlSys \<Rightarrow> 32 word \<Rightarrow> XLaccess \<Rightarrow> 'w XlApp \<Rightarrow> 'w XlApp" where
  "demoTransmitBurst X txID chan a =
     (let a = (demoStopTransmitBurst a)\<lparr>g_TXThreadCanId := txID, g_TXThreadTxMask := chan, g_TXThreadRun := True\<rparr>;
          (h, w) = CreateThread X TxThread (xl_world a)
      in a\<lparr>g_hTXThread := h, xl_world := w\<rparr>)"

text \<open>\<^verbatim>\<open>TxThread\<close>: the message it builds first, and one turn of its loop on the message and the last status; \<open>None\<close> when the loop has ended.\<close>

definition TxThread_msg :: "'w XlApp \<Rightarrow> XlMsg" where
  "TxThread_msg a =
     (if g_canFdSupport a
      then \<lparr>xm_ex = True, xm_id = g_TXThreadCanId a, xm_flags = XL_CAN_TXMSG_FLAG_EDL OR XL_CAN_TXMSG_FLAG_BRS, xm_dlc = 15,
            xm_data = 0 # map (\<lambda>i. of_nat i - 1) [1..<XL_CAN_MAX_DATA_LEN]\<rparr>
      else \<lparr>xm_ex = False, xm_id = g_TXThreadCanId a, xm_flags = 0, xm_dlc = 8, xm_data = [1, 2, 3, 4, 5, 6, 7, 8]\<rparr>)"

definition TxThread_turn :: "'w XlSys \<Rightarrow> XlMsg \<times> XLstatus \<Rightarrow> 'w XlApp \<Rightarrow> (XlMsg \<times> XLstatus) option \<times> 'w XlApp" where
  "TxThread_turn X ms a =
     (let (m, st) = ms in
      if g_TXThreadRun a \<and> st = XL_SUCCESS then
        let m = m\<lparr>xm_data := (xm_data m)[0 := xm_data m ! 0 + 1]\<rparr>;
            (st, a) = xl_call (xlCanTransmit X (g_xlPortHandle a) (g_TXThreadTxMask a) m) a
        in (Some (m, st), a)
      else (None, a\<lparr>g_TXThreadRun := False\<rparr>))"

subsection \<open>Set-up and clean-up\<close>

definition demoStartStop :: "'w XlSys \<Rightarrow> bool \<Rightarrow> 'w XlApp \<Rightarrow> XLstatus \<times> 'w XlApp" where
  "demoStartStop X activated a =
     (if activated then (XL_SUCCESS, snd (xl_call (xlActivateChannel X (g_xlPortHandle a) (g_xlChannelMask a)) a))
      else let a = demoStopTransmitBurst a
           in (XL_SUCCESS, snd (xl_call (xlDeactivateChannel X (g_xlPortHandle a) (g_xlChannelMask a)) a)))"

definition demoSetOutput :: "'w XlSys \<Rightarrow> XlOutput \<Rightarrow> XLaccess \<Rightarrow> 'w XlApp \<Rightarrow> XLstatus \<times> 'w XlApp" where
  "demoSetOutput X outputMode chan a =
     (let (r, a) = xl_call (xlDeactivateChannel X (g_xlPortHandle a) (g_xlChannelMask a)) a;
          (r, a) = xl_call (xlCanSetChannelOutput X (g_xlPortHandle a) chan outputMode) a
      in xl_call (xlActivateChannel X (g_xlPortHandle a) (g_xlChannelMask a)) a)"

definition demoCreateRxThread :: "'w XlSys \<Rightarrow> 'w XlApp \<Rightarrow> XLstatus \<times> 'w XlApp" where
  "demoCreateRxThread X a =
     (if g_xlPortHandle a \<noteq> XL_INVALID_PORTHANDLE then
        let (r, a) = xl_call (xlSetNotification X (g_xlPortHandle a)) a;
            (h, w) = CreateThread X (if g_canFdSupport a then RxCanFdThread else RxThread) (xl_world a)
        in (r, a\<lparr>g_hRXThread := h, xl_world := w\<rparr>)
      else (XL_ERROR, a))"

text \<open>The masks that the loop over the channels collects: the transmit channel, the plain and the two CAN FD masks.\<close>

record XlPick =
  pk_MaskTx :: XLaccess
  pk_IndexTx :: nat
  pk_Mask :: XLaccess
  pk_MaskFd :: XLaccess
  pk_MaskFdNoIso :: XLaccess

definition can_channel :: "XLchannel \<Rightarrow> bool" where
  "can_channel c = (channelBusCapabilities c AND XL_BUS_ACTIVE_CAP_CAN \<noteq> 0)"

definition fd_channel :: "XLchannel \<Rightarrow> bool" where
  "fd_channel c = (channelCapabilities c AND XL_CHANNEL_FLAG_CANFD_ISO_SUPPORT \<noteq> 0 \<and> hwType c \<noteq> XL_HWTYPE_VIRTUAL)"

definition pick_channel :: "XlPick \<Rightarrow> XLchannel \<Rightarrow> XlPick" where
  "pick_channel p c =
     (if can_channel c then
        let p = (if pk_MaskTx p = 0 then p\<lparr>pk_MaskTx := channelMask c, pk_IndexTx := channelIndex c\<rparr> else p) in
        if fd_channel c then
          let p = p\<lparr>pk_MaskFd := pk_MaskFd p OR channelMask c\<rparr> in
          if channelCapabilities c AND XL_CHANNEL_FLAG_CANFD_BOSCH_SUPPORT \<noteq> 0 then p\<lparr>pk_MaskFdNoIso := pk_MaskFdNoIso p OR channelMask c\<rparr> else p
        else p\<lparr>pk_Mask := pk_Mask p OR channelMask c\<rparr>
      else p)"

definition fdParams :: "nat \<Rightarrow> bool \<Rightarrow> XLcanFdConf" where
  "fdParams rate noIso = \<lparr>arbitrationBitRate = rate, tseg1Abr = 6, tseg2Abr = 3, sjwAbr = 2, dataBitRate = u32 (int rate * 2),
     tseg1Dbr = 6, tseg2Dbr = 3, sjwDbr = 2, fd_NoIso = noIso\<rparr>"

text \<open>The selection of the channels, then the opening of the port. The arbitration rate is the one for CAN FD. The result is the status, \<^verbatim>\<open>*pxlChannelMaskTx\<close> and \<^verbatim>\<open>*pxlChannelIndex\<close>.\<close>

definition select_channels :: "XLaccess \<Rightarrow> nat \<Rightarrow> 'w XlApp \<Rightarrow> XLstatus \<times> XLaccess \<times> nat \<times> 'w XlApp" where
  "select_channels tx idx a =
     (let p = foldl pick_channel \<lparr>pk_MaskTx = tx, pk_IndexTx = idx, pk_Mask = 0, pk_MaskFd = 0, pk_MaskFdNoIso = 0\<rparr> (g_xlDrvConfig a);
          a = a\<lparr>g_xlChannelMask := pk_Mask p\<rparr>;
          a = (if pk_MaskFd p \<noteq> 0 \<and> \<not> g_canFdModeNoIso a then a\<lparr>g_xlChannelMask := pk_MaskFd p, g_canFdSupport := True\<rparr> else a);
          a = (if pk_MaskFdNoIso p \<noteq> 0 \<and> g_canFdModeNoIso a then a\<lparr>g_xlChannelMask := pk_MaskFdNoIso p, g_canFdSupport := True\<rparr> else a)
      in (if g_xlChannelMask a = 0 then XL_ERROR else XL_SUCCESS, pk_MaskTx p, pk_IndexTx p, a))"

definition open_port :: "'w XlSys \<Rightarrow> nat \<Rightarrow> XLstatus \<Rightarrow> 'w XlApp \<Rightarrow> XLstatus \<times> 'w XlApp" where
  "open_port X rate xlStatus a =
     (let a = a\<lparr>g_xlPermissionMask := g_xlChannelMask a\<rparr>;
          (xlStatus, a) =
            (if xlStatus = XL_SUCCESS then
               let (r, h, pm, w) = xlOpenPort X (g_xlChannelMask a) (g_xlPermissionMask a)
                                     (if g_canFdSupport a then RX_QUEUE_SIZE_FD else RX_QUEUE_SIZE) (g_canFdSupport a) (xl_world a)
               in (r, a\<lparr>g_xlPortHandle := h, g_xlPermissionMask := pm, xl_world := w\<rparr>)
             else (xlStatus, a))
      in if xlStatus = XL_SUCCESS \<and> g_xlPortHandle a \<noteq> XL_INVALID_PORTHANDLE then
           if g_xlChannelMask a = g_xlPermissionMask a then
             if g_canFdSupport a
             then xl_call (xlCanFdSetConfiguration X (g_xlPortHandle a) (g_xlChannelMask a) (fdParams rate (g_canFdModeNoIso a))) a
             else xl_call (xlCanSetChannelBitrate X (g_xlPortHandle a) (g_xlChannelMask a) (g_BaudRate a)) a
           else (xlStatus, a)
         else let (r, a) = xl_call (xlClosePort X (g_xlPortHandle a)) a in (XL_ERROR, a\<lparr>g_xlPortHandle := XL_INVALID_PORTHANDLE\<rparr>))"

definition demoInitDriver :: "'w XlSys \<Rightarrow> XLaccess \<Rightarrow> nat \<Rightarrow> 'w XlApp \<Rightarrow> XLstatus \<times> XLaccess \<times> nat \<times> 'w XlApp" where
  "demoInitDriver X tx idx a =
     (let (st, a) = xl_call (xlOpenDriver X) a;
          (st, a) = (if st = XL_SUCCESS then
                       let (r, cfg, w) = xlGetDriverConfig X (xl_world a) in (r, a\<lparr>g_xlDrvConfig := cfg, xl_world := w\<rparr>)
                     else (st, a));
          (st, tx, idx, a) = (if st = XL_SUCCESS then select_channels tx idx a else (st, tx, idx, a));
          (st, a) = open_port X 1000000 st a
      in (st, tx, idx, a))"

definition demoCleanUp :: "'w XlSys \<Rightarrow> 'w XlApp \<Rightarrow> XLstatus \<times> 'w XlApp" where
  "demoCleanUp X a =
     (let a = (if g_xlPortHandle a \<noteq> XL_INVALID_PORTHANDLE then snd (xl_call (xlClosePort X (g_xlPortHandle a)) a) else a)
      in (XL_SUCCESS, a\<lparr>g_xlPortHandle := XL_INVALID_PORTHANDLE, xl_world := xlCloseDriver X (xl_world a)\<rparr>))"

subsection \<open>The main program\<close>

text \<open>The local variables of \<^verbatim>\<open>main\<close>. \<open>main_start\<close> is what it does before it listens, with the identifier from the command line.\<close>

record 'w XlMain =
  mn_app :: "'w XlApp"
  mn_Status :: XLstatus
  mn_ChanMaskTx :: XLaccess
  mn_ChanIndex :: nat
  mn_txID :: "32 word"
  mn_activated :: bool
  mn_outputMode :: XlOutput
  mn_stop :: bool

definition main_start :: "'w XlSys \<Rightarrow> 32 word \<Rightarrow> 'w XlApp \<Rightarrow> 'w XlMain" where
  "main_start X txID a =
     (let (st, tx, idx, a) = demoInitDriver X 0 0 a;
          (st, a) = (if st = XL_SUCCESS then demoCreateRxThread X a else (st, a));
          (st, act, a) = (if st = XL_SUCCESS then
                            let (st, a) = xl_call (xlActivateChannel X (g_xlPortHandle a) (g_xlChannelMask a)) a in (st, st = XL_SUCCESS, a)
                          else (st, False, a))
      in \<lparr>mn_app = a, mn_Status = st, mn_ChanMaskTx = tx, mn_ChanIndex = idx, mn_txID = txID, mn_activated = act,
          mn_outputMode = XL_OUTPUT_MODE_NORMAL, mn_stop = False\<rparr>)"

definition main_do :: "('w XlApp \<Rightarrow> XLstatus \<times> 'w XlApp) \<Rightarrow> 'w XlMain \<Rightarrow> 'w XlMain" where
  "main_do f m = m\<lparr>mn_app := snd (f (mn_app m))\<rparr>"

definition main_status :: "('w XlApp \<Rightarrow> XLstatus \<times> 'w XlApp) \<Rightarrow> 'w XlMain \<Rightarrow> 'w XlMain" where
  "main_status f m = (let (r, a) = f (mn_app m) in m\<lparr>mn_app := a, mn_Status := r\<rparr>)"

text \<open>\<^verbatim>\<open>g_xlDrvConfig.channel[xlChanIndex]\<close>: undefined past the channels that were found.\<close>

definition main_channel :: "nat \<Rightarrow> 'w XlMain \<Rightarrow> 'w XlMain option" where
  "main_channel i m =
     (if i < length (g_xlDrvConfig (mn_app m)) then Some (m\<lparr>mn_ChanIndex := i, mn_ChanMaskTx := channelMask (g_xlDrvConfig (mn_app m) ! i)\<rparr>)
      else None)"

definition main_key :: "'w XlSys \<Rightarrow> char \<Rightarrow> 'w XlMain \<Rightarrow> 'w XlMain option" where
  "main_key X c m =
     (let a = mn_app m; h = g_xlPortHandle a; cm = g_xlChannelMask a; tx = mn_ChanMaskTx m; ID = mn_txID m; n = length (g_xlDrvConfig a) in
      if c = CHR ''v'' then Some (m\<lparr>mn_app := a\<lparr>g_silent := \<not> g_silent a\<rparr>\<rparr>)
      else if c = CHR ''t'' then Some (main_do (demoTransmit X ID tx) m)
      else if c = CHR ''b'' then Some (m\<lparr>mn_app := if g_TXThreadRun a then demoStopTransmitBurst a else demoTransmitBurst X ID tx a\<rparr>)
      else if c = CHR ''m'' then Some (main_do (demoTransmitRemote X ID tx) m)
      else if c = CHR ''-'' then main_channel (u32 (int (if mn_ChanIndex m = 0 then n else mn_ChanIndex m) - 1)) m
      else if c = CHR ''+'' then main_channel (let i = u32 (int (mn_ChanIndex m) + 1) in if n \<le> i then 0 else i) m
      else if c = CHR ''x'' then Some (m\<lparr>mn_txID := ID XOR XL_CAN_EXT_MSG_ID\<rparr>)
      else if c = CHR ''I'' then
        Some (m\<lparr>mn_txID := if ID AND XL_CAN_EXT_MSG_ID \<noteq> 0 then (ID - 1) OR XL_CAN_EXT_MSG_ID else if ID = 0 then 0x7FF else ID - 1\<rparr>)
      else if c = CHR ''i'' then
        Some (m\<lparr>mn_txID := if ID AND XL_CAN_EXT_MSG_ID \<noteq> 0 then (ID + 1) OR XL_CAN_EXT_MSG_ID else if ID = 0x7FF then 0 else ID + 1\<rparr>)
      else if c = CHR ''g'' then Some (main_status (xl_call (xlCanRequestChipState X h cm)) m)
      else if c = CHR ''a'' then
        (let r = (if g_TimerRate a \<noteq> 0 then 0 else 20000)
         in Some (main_status (xl_call (xlSetTimerRate X h r)) (m\<lparr>mn_app := a\<lparr>g_TimerRate := r\<rparr>\<rparr>)))
      else if c = CHR ''o'' then
        (let o' = (if mn_outputMode m = XL_OUTPUT_MODE_NORMAL then XL_OUTPUT_MODE_SILENT else XL_OUTPUT_MODE_NORMAL)
         in Some (main_do (demoSetOutput X o' tx) (m\<lparr>mn_outputMode := o'\<rparr>)))
      else if c = CHR ''r'' then Some (main_status (xl_call (xlResetClock X h)) m)
      else if c = CHR ''s'' then Some (main_do (demoStartStop X (\<not> mn_activated m)) (m\<lparr>mn_activated := \<not> mn_activated m\<rparr>))
      else if c = CHR ''y'' then Some (main_status (xl_call (xlGenerateSyncPulse X h tx)) m)
      else if c = CHR 0x1B then Some (m\<lparr>mn_stop := True\<rparr>)
      else Some m)"

definition main_end :: "'w XlSys \<Rightarrow> 'w XlMain \<Rightarrow> 'w XlApp" where
  "main_end X m =
     (let a = mn_app m;
          a = (if mn_Status m \<noteq> XL_SUCCESS \<and> mn_activated m then snd (xl_call (xlDeactivateChannel X (g_xlPortHandle a) (g_xlChannelMask a)) a) else a)
      in snd (demoCleanUp X a))"

subsection \<open>Which channels are opened\<close>

text \<open>The union of the masks of the channels that satisfy a condition.\<close>

definition masks :: "(XLchannel \<Rightarrow> bool) \<Rightarrow> XLchannel list \<Rightarrow> XLaccess" where
  "masks P cs = foldr (\<lambda>c m. channelMask c OR m) (filter P cs) 0"

lemma masks_Nil [simp]: "masks P [] = 0"
  by (simp add: masks_def)

lemma masks_snoc: "masks P (cs @ [c]) = (if P c then masks P cs OR channelMask c else masks P cs)"
proof -
  have "foldr (\<lambda>c m. channelMask c OR m) cs m = foldr (\<lambda>c m. channelMask c OR m) cs 0 OR m" for cs and m :: XLaccess
    by (induction cs) (simp_all add: or.assoc)
  from this [of "filter P cs" "channelMask c"] show ?thesis by (simp add: masks_def)
qed

definition noiso_channel :: "XLchannel \<Rightarrow> bool" where
  "noiso_channel c = (channelCapabilities c AND XL_CHANNEL_FLAG_CANFD_BOSCH_SUPPORT \<noteq> 0)"

definition picked :: "XLchannel list \<Rightarrow> XlPick" where
  "picked cs = foldl pick_channel \<lparr>pk_MaskTx = 0, pk_IndexTx = 0, pk_Mask = 0, pk_MaskFd = 0, pk_MaskFdNoIso = 0\<rparr> cs"

lemma picked_snoc: "picked (cs @ [c]) = pick_channel (picked cs) c"
  by (simp add: picked_def)

lemma picked_masks:
  "pk_Mask (picked cs) = masks (\<lambda>c. can_channel c \<and> \<not> fd_channel c) cs"
  "pk_MaskFd (picked cs) = masks (\<lambda>c. can_channel c \<and> fd_channel c) cs"
  "pk_MaskFdNoIso (picked cs) = masks (\<lambda>c. can_channel c \<and> fd_channel c \<and> noiso_channel c) cs"
proof (induction cs rule: rev_induct)
  case Nil
  { case 1 show ?case by (simp add: picked_def) next case 2 show ?case by (simp add: picked_def) next case 3 show ?case by (simp add: picked_def) }
next
  case (snoc c cs)
  { case 1 show ?case using snoc by (simp add: picked_snoc pick_channel_def masks_snoc Let_def)
  next case 2 show ?case using snoc by (simp add: picked_snoc pick_channel_def masks_snoc Let_def)
  next case 3 show ?case using snoc by (simp add: picked_snoc pick_channel_def masks_snoc noiso_channel_def Let_def) }
qed

lemma picked_tx:
  assumes "list_all (\<lambda>c. channelMask c \<noteq> 0) cs"
  shows "pk_MaskTx (picked cs) = (case filter can_channel cs of [] \<Rightarrow> 0 | c # _ \<Rightarrow> channelMask c)"
  using assms
proof (induction cs rule: rev_induct)
  case (snoc c cs)
  then show ?case
    by (cases "filter can_channel cs") (auto simp: picked_snoc pick_channel_def Let_def list_all_iff filter_eq_Cons_iff)
qed (simp add: picked_def)

lemma select_channels_is:
  "select_channels 0 0 a =
     (let cs = g_xlDrvConfig a; fd = masks (\<lambda>c. can_channel c \<and> fd_channel c) cs;
          b = masks (\<lambda>c. can_channel c \<and> fd_channel c \<and> noiso_channel c) cs; f = (if g_canFdModeNoIso a then b else fd);
          m = (if f \<noteq> 0 then f else masks (\<lambda>c. can_channel c \<and> \<not> fd_channel c) cs)
      in (if m = 0 then XL_ERROR else XL_SUCCESS, pk_MaskTx (picked cs), pk_IndexTx (picked cs),
          a\<lparr>g_xlChannelMask := m, g_canFdSupport := g_canFdSupport a \<or> f \<noteq> 0\<rparr>))"
  unfolding select_channels_def picked_def [symmetric] by (auto simp: picked_masks Let_def)

lemma masks_disjoint: "list_all (\<lambda>c. P c \<longrightarrow> m AND channelMask c = 0) cs \<Longrightarrow> m AND masks P cs = 0"
  by (induction cs rule: rev_induct) (simp_all add: masks_snoc bit.conj_disj_distrib)

lemma open_port_keeps:
  "open_port X rate st a = (st', a') \<Longrightarrow> g_xlChannelMask a' = g_xlChannelMask a \<and> g_canFdSupport a' = g_canFdSupport a \<and> g_xlDrvConfig a' = g_xlDrvConfig a"
  by (auto simp: open_port_def xl_call_def Let_def case_prod_beta split: if_splits)

lemma open_port_ok: "open_port X rate st a = (XL_SUCCESS, a') \<Longrightarrow> st = XL_SUCCESS"
  by (auto simp: open_port_def xl_call_def Let_def case_prod_beta split: if_splits)

lemma demoInitDriver_ok:
  fixes a a' :: "'w XlApp"
  assumes "demoInitDriver X 0 0 a = (XL_SUCCESS, tx, idx, a')"
  obtains a1 a2 :: "'w XlApp" where "select_channels 0 0 a1 = (XL_SUCCESS, tx, idx, a2)" "g_canFdModeNoIso a1 = g_canFdModeNoIso a" "g_canFdSupport a1 = g_canFdSupport a"
    "g_xlChannelMask a' = g_xlChannelMask a2" "g_canFdSupport a' = g_canFdSupport a2" "g_xlDrvConfig a' = g_xlDrvConfig a1"
proof -
  obtain r0 a0 where r0: "xl_call (xlOpenDriver X) a = (r0, a0)" by (cases "xl_call (xlOpenDriver X) a")
  obtain r1 cfg w where r1: "xlGetDriverConfig X (xl_world a0) = (r1, cfg, w)" by (cases "xlGetDriverConfig X (xl_world a0)")
  define a1 where "a1 = a0\<lparr>g_xlDrvConfig := cfg, xl_world := w\<rparr>"
  obtain st t i a2 where s: "select_channels 0 0 a1 = (st, t, i, a2)" by (cases "select_channels 0 0 a1")
  have u0: "r0 = XL_SUCCESS"
  proof (rule ccontr)
    assume "r0 \<noteq> XL_SUCCESS"
    then have "open_port X 1000000 r0 a0 = (XL_SUCCESS, a')" using assms by (simp add: demoInitDriver_def r0 split: prod.splits)
    then show False using open_port_ok \<open>r0 \<noteq> XL_SUCCESS\<close> by blast
  qed
  have u1: "r1 = XL_SUCCESS"
  proof (rule ccontr)
    assume "r1 \<noteq> XL_SUCCESS"
    then have "open_port X 1000000 r1 a1 = (XL_SUCCESS, a')" using assms by (simp add: demoInitDriver_def r0 r1 u0 a1_def split: prod.splits)
    then show False using open_port_ok \<open>r1 \<noteq> XL_SUCCESS\<close> by blast
  qed
  have o: "open_port X 1000000 st a2 = (XL_SUCCESS, a')" "tx = t" "idx = i"
    using assms s by (auto simp: demoInitDriver_def r0 r1 u0 u1 a1_def [symmetric] split: prod.splits)
  have k: "g_canFdModeNoIso a1 = g_canFdModeNoIso a" "g_canFdSupport a1 = g_canFdSupport a"
    using r0 by (auto simp: a1_def xl_call_def case_prod_beta Let_def)
  have "g_xlDrvConfig a2 = g_xlDrvConfig a1" using s by (auto simp: select_channels_def Let_def)
  then show thesis using that [OF _ k, of a2] s o open_port_ok [OF o(1)] open_port_keeps [OF o(1)] by simp
qed

lemma masks_one_kind:
  assumes "masks P (c # cs) \<noteq> 0" "list_all (\<lambda>c'. P c' = P c) (c # cs)"
  shows "channelMask c AND masks P (c # cs) = channelMask c"
proof -
  have "P c"
  proof (rule ccontr)
    assume "\<not> P c"
    then have "filter P (c # cs) = []" using assms(2) by (simp add: list_all_iff filter_empty_conv)
    then show False using assms(1) by (simp add: masks_def)
  qed
  then show ?thesis by (simp add: masks_def)
qed

text \<open>
  Which channels the tool opens and on which it sends: a successful start opens all CAN FD channels of real devices when there is one, and all other CAN channels
  otherwise, and it sends on the first CAN channel found, which is open when the channels are of one kind. When CAN FD channels are opened and the first
  CAN channel is not one of them, every message is sent on a channel that was not opened.
\<close>

theorem xl_channels_opened:
  fixes a a' :: "'w XlApp"
  assumes "demoInitDriver X 0 0 a = (XL_SUCCESS, tx, idx, a')" "\<not> g_canFdModeNoIso a" "\<not> g_canFdSupport a"
    and "list_all (\<lambda>c. channelMask c \<noteq> 0) (g_xlDrvConfig a')"
  shows "\<exists>c cs. filter can_channel (g_xlDrvConfig a') = c # cs \<and> tx = channelMask c \<and>
    g_xlChannelMask a' = (if g_canFdSupport a' then masks fd_channel (c # cs) else masks (\<lambda>c. \<not> fd_channel c) (c # cs)) \<and>
    (list_all (\<lambda>c'. fd_channel c' = fd_channel c) (c # cs) \<longrightarrow> tx AND g_xlChannelMask a' = tx) \<and>
    (g_canFdSupport a' \<and> list_all (\<lambda>c'. fd_channel c' \<longrightarrow> channelMask c AND channelMask c' = 0) (c # cs) \<longrightarrow> tx AND g_xlChannelMask a' = 0)"
proof -
  obtain a1 a2 :: "'w XlApp" where s: "select_channels 0 0 a1 = (XL_SUCCESS, tx, idx, a2)" "g_canFdModeNoIso a1 = g_canFdModeNoIso a" "g_canFdSupport a1 = g_canFdSupport a"
    and k: "g_xlChannelMask a' = g_xlChannelMask a2" "g_canFdSupport a' = g_canFdSupport a2" "g_xlDrvConfig a' = g_xlDrvConfig a1"
    by (rule demoInitDriver_ok [OF assms(1)])
  define cs where "cs = filter can_channel (g_xlDrvConfig a1)"
  have f: "masks (\<lambda>c. can_channel c \<and> P c) (g_xlDrvConfig a1) = masks P cs" for P
    by (simp add: masks_def cs_def)
  have m: "g_canFdSupport a' = (masks fd_channel cs \<noteq> 0)"
    "g_xlChannelMask a' = (if g_canFdSupport a' then masks fd_channel cs else masks (\<lambda>c. \<not> fd_channel c) cs)"
    "g_xlChannelMask a' \<noteq> 0" "tx = pk_MaskTx (picked (g_xlDrvConfig a1))"
    using s(1) assms(2,3) s(2,3) unfolding select_channels_is k(1,2) by (auto simp: Let_def f split: if_splits)
  from m(2,3) obtain c cs' where c: "cs = c # cs'" by (cases cs) (auto split: if_splits)
  have t: "tx = channelMask c" using m(4) picked_tx [OF assms(4) [unfolded k(3)]] c by (simp add: cs_def)
  have "tx AND g_xlChannelMask a' = tx" if "list_all (\<lambda>c'. fd_channel c' = fd_channel c) cs"
    using that m(2,3) masks_one_kind [of fd_channel c cs'] masks_one_kind [of "\<lambda>c. \<not> fd_channel c" c cs'] t c by (auto split: if_splits)
  moreover have "tx AND g_xlChannelMask a' = 0"
    if "g_canFdSupport a'" "list_all (\<lambda>c'. fd_channel c' \<longrightarrow> channelMask c AND channelMask c' = 0) cs"
    using masks_disjoint [OF that(2)] that(1) m(2) t by simp
  ultimately show ?thesis using c t m(2) k(3) cs_def by auto
qed

subsection \<open>An example\<close>

text \<open>A library that accepts everything and records the messages; its devices are given.\<close>

definition xl_demo :: "XLchannel list \<Rightarrow> ('p \<times> (XLaccess \<times> XlMsg) list) XlSys" where
  "xl_demo cfg = \<lparr>xlOpenDriver = \<lambda>w. (XL_SUCCESS, w), xlCloseDriver = \<lambda>w. w, xlGetDriverConfig = \<lambda>w. (XL_SUCCESS, cfg, w),
     xlOpenPort = \<lambda>m p n v w. (XL_SUCCESS, 1, p, w), xlClosePort = \<lambda>h w. (XL_SUCCESS, w), xlCanFdSetConfiguration = \<lambda>h m c w. (XL_SUCCESS, w),
     xlCanSetChannelBitrate = \<lambda>h m b w. (XL_SUCCESS, w), xlActivateChannel = \<lambda>h m w. (XL_SUCCESS, w), xlDeactivateChannel = \<lambda>h m w. (XL_SUCCESS, w),
     xlCanSetChannelOutput = \<lambda>h m b w. (XL_SUCCESS, w), xlSetNotification = \<lambda>h w. (XL_SUCCESS, w),
     xlCanTransmit = \<lambda>h m x (p, l). (XL_SUCCESS, (p, l @ [(m, x)])), xlCanRequestChipState = \<lambda>h m w. (XL_SUCCESS, w),
     xlSetTimerRate = \<lambda>h n w. (XL_SUCCESS, w), xlResetClock = \<lambda>h w. (XL_SUCCESS, w), xlGenerateSyncPulse = \<lambda>h m w. (XL_SUCCESS, w),
     CreateThread = \<lambda>t w. (True, w)\<rparr>"

definition xl_demo_app :: "'w \<Rightarrow> 'w XlApp" where
  "xl_demo_app w = \<lparr>g_xlPortHandle = XL_INVALID_PORTHANDLE, g_xlDrvConfig = [], g_xlChannelMask = 0, g_xlPermissionMask = 0, g_BaudRate = 500000,
     g_silent = False, g_TimerRate = 0, g_canFdSupport = False, g_canFdModeNoIso = False, g_hRXThread = False, g_hTXThread = False,
     g_TXThreadRun = False, g_TXThreadCanId = 0, g_TXThreadTxMask = 0, xl_cnt = 0, xl_world = w\<rparr>"

definition xl_demo_cfg :: "XLchannel list" where
  "xl_demo_cfg = [\<lparr>channelIndex = 0, channelMask = 1, channelBusCapabilities = 0x10001, channelCapabilities = 0, hwType = XL_HWTYPE_VIRTUAL\<rparr>,
     \<lparr>channelIndex = 1, channelMask = 2, channelBusCapabilities = 0x10001, channelCapabilities = 0x80000000, hwType = 57\<rparr>]"

theorem xl_channels_opened_witness:
  "\<exists>a'. demoInitDriver (xl_demo xl_demo_cfg) 0 0 (xl_demo_app ((), [])) = (XL_SUCCESS, 1, 0, a') \<and> g_canFdSupport a' \<and> 1 AND g_xlChannelMask a' = 0"
proof -
  let ?a = "(xl_demo_app ((), []))\<lparr>g_xlDrvConfig := xl_demo_cfg, g_xlPortHandle := 1, g_xlChannelMask := 2, g_xlPermissionMask := 2, g_canFdSupport := True\<rparr>"
  have r: "demoInitDriver (xl_demo xl_demo_cfg) 0 0 (xl_demo_app ((), [])) = (XL_SUCCESS, 1, 0, ?a)"
    by (simp add: demoInitDriver_def xl_demo_def xl_call_def xl_demo_app_def select_channels_def open_port_def pick_channel_def xl_demo_cfg_def can_channel_def fd_channel_def)
  have d: "filter can_channel xl_demo_cfg = xl_demo_cfg" "list_all (\<lambda>c. channelMask c \<noteq> 0) xl_demo_cfg" by code_simp+
  have f: "list_all (\<lambda>c'. fd_channel c' \<longrightarrow> channelMask (xl_demo_cfg ! 0) AND channelMask c' = 0) xl_demo_cfg" by code_simp
  have n: "\<not> g_canFdModeNoIso (xl_demo_app ((), []))" "\<not> g_canFdSupport (xl_demo_app ((), []))" by (simp_all add: xl_demo_app_def)
  from xl_channels_opened [OF r n] d f show ?thesis using r by auto
qed

end
