(* ===== verification/SpiBridge.thy ===== *)
theory SpiBridge
  imports Prelude
begin

text \<open>
  \<^verbatim>\<open>source_QEMU/stm32f2xx_spi.c\<close>, the SPI controller that the virtual ECU runs on: bytes written
  to the data register are collected into frames \<open>[01][length][data][checksum][0A]\<close> and forwarded
  over TCP. Registers are 32-bit words, bytes 8-bit words. A write past the end of
  \<^verbatim>\<open>frame_buffer[256]\<close> is undefined behaviour in C: the model returns \<open>None\<close>. The SSI bus and the
  character backend are functions of \<open>SpiSys\<close> on the state \<open>'b\<close> of the host; printing and logging
  have no counterpart.
\<close>

datatype FrameState = FRAME_IDLE | FRAME_GOT_START | FRAME_GOT_LENGTH | FRAME_RECEIVING_DATA | FRAME_WAIT_FOR_CHECKSUM | FRAME_WAIT_FOR_END

record 'b SpiState =
  spi_cr1 :: "32 word"
  spi_cr2 :: "32 word"
  spi_sr :: "32 word"
  spi_dr :: "32 word"
  spi_crcpr :: "32 word"
  spi_rxcrcr :: "32 word"
  spi_txcrcr :: "32 word"
  spi_i2scfgr :: "32 word"
  spi_i2spr :: "32 word"
  frame_state :: FrameState
  frame_buffer :: "8 word list"
  frame_index :: nat
  expected_len :: nat
  host :: 'b

record 'b SpiSys =
  ssi_transfer :: "32 word \<Rightarrow> 'b \<Rightarrow> 32 word \<times> 'b"
  chr_connected :: "'b \<Rightarrow> bool"
  chr_write_all :: "8 word list \<Rightarrow> 'b \<Rightarrow> 'b"

abbreviation "FRAME_BUFFER_SIZE \<equiv> 256 :: nat"

definition stm32f2xx_spi_reset :: "'b SpiState \<Rightarrow> 'b SpiState" where
  "stm32f2xx_spi_reset s =
     s\<lparr>spi_cr1 := 0, spi_cr2 := 0, spi_sr := 0xA, spi_dr := 0xC, spi_crcpr := 7, spi_rxcrcr := 0, spi_txcrcr := 0,
       spi_i2scfgr := 0, spi_i2spr := 2, frame_state := FRAME_IDLE, frame_index := 0, expected_len := 0,
       frame_buffer := replicate FRAME_BUFFER_SIZE 0\<rparr>"

definition stm32f2xx_spi_transfer :: "'b SpiSys \<Rightarrow> 'b SpiState \<Rightarrow> 'b SpiState" where
  "stm32f2xx_spi_transfer S s =
     (let (d, b) = ssi_transfer S (spi_dr s) (host s) in s\<lparr>spi_dr := d, host := b, spi_sr := spi_sr s OR 1\<rparr>)"

definition stm32f2xx_spi_read :: "nat \<Rightarrow> 'b SpiState \<Rightarrow> 32 word \<times> 'b SpiState" where
  "stm32f2xx_spi_read addr s =
     (if addr = 0x00 then (spi_cr1 s, s) else if addr = 0x04 then (spi_cr2 s, s) else if addr = 0x08 then (spi_sr s, s)
      else if addr = 0x0C then (1, s\<lparr>spi_dr := 1\<rparr>)
      else if addr = 0x10 then (spi_crcpr s, s) else if addr = 0x14 then (spi_rxcrcr s, s) else if addr = 0x18 then (spi_txcrcr s, s)
      else if addr = 0x1C then (spi_i2scfgr s, s) else if addr = 0x20 then (spi_i2spr s, s) else (0, s))"

text \<open>\<^verbatim>\<open>s->frame_buffer[s->frame_index++] = byte\<close>\<close>

definition put_byte :: "8 word \<Rightarrow> 'b SpiState \<Rightarrow> 'b SpiState option" where
  "put_byte byte s =
     (if frame_index s < FRAME_BUFFER_SIZE
      then Some (s\<lparr>frame_buffer := (frame_buffer s)[frame_index s := byte], frame_index := Suc (frame_index s)\<rparr>) else None)"

definition frame_end :: "'b SpiSys \<Rightarrow> 8 word \<Rightarrow> 'b SpiState \<Rightarrow> 'b SpiState" where
  "frame_end S byte s =
     (let total_size = 2 + expected_len s + 1 + 1;
          s1 = (if byte = 0x0A \<and> frame_index s = total_size
                then (if chr_connected S (host s) then s\<lparr>host := chr_write_all S (take total_size (frame_buffer s)) (host s)\<rparr> else s)
                       \<lparr>frame_buffer := replicate FRAME_BUFFER_SIZE 0, frame_index := 0, expected_len := 0\<rparr>
                else s)
      in s1\<lparr>frame_index := 0, frame_state := FRAME_IDLE\<rparr>)"

text \<open>The state machine inside the write of the data register.\<close>

definition frame_step :: "'b SpiSys \<Rightarrow> 8 word \<Rightarrow> 'b SpiState \<Rightarrow> 'b SpiState option" where
  "frame_step S byte s =
     (case frame_state s of
        FRAME_IDLE \<Rightarrow>
          Some (if byte = 0x01 then s\<lparr>frame_buffer := (frame_buffer s)[0 := byte], frame_index := 1, frame_state := FRAME_GOT_START\<rparr> else s)
      | FRAME_GOT_START \<Rightarrow> map_option (\<lambda>s. s\<lparr>expected_len := unat byte, frame_state := FRAME_GOT_LENGTH\<rparr>) (put_byte byte s)
      | FRAME_GOT_LENGTH \<Rightarrow>
          map_option (\<lambda>s. if 2 + expected_len s \<le> frame_index s then s\<lparr>frame_state := FRAME_WAIT_FOR_CHECKSUM\<rparr> else s) (put_byte byte s)
      | FRAME_WAIT_FOR_CHECKSUM \<Rightarrow> map_option (\<lambda>s. s\<lparr>frame_state := FRAME_WAIT_FOR_END\<rparr>) (put_byte byte s)
      | FRAME_WAIT_FOR_END \<Rightarrow> map_option (frame_end S byte) (put_byte byte s)
      | FRAME_RECEIVING_DATA \<Rightarrow> Some (s\<lparr>frame_index := 0, expected_len := 0, frame_state := FRAME_IDLE\<rparr>))"

definition stm32f2xx_spi_write :: "'b SpiSys \<Rightarrow> nat \<Rightarrow> 64 word \<Rightarrow> 'b SpiState \<Rightarrow> 'b SpiState option" where
  "stm32f2xx_spi_write S addr val64 s =
     (let byte = ucast val64; v = ucast val64 in
      if addr = 0x00 then Some (s\<lparr>spi_cr1 := v\<rparr>)
      else if addr = 0x04 then Some (s\<lparr>spi_cr2 := v\<rparr>)
      else if addr = 0x0C then map_option (stm32f2xx_spi_transfer S) (frame_step S byte s)
      else Some s)"

subsection \<open>A sequence of writes to the data register\<close>

definition spi_put :: "'b SpiSys \<Rightarrow> 8 word \<Rightarrow> 'b SpiState \<Rightarrow> 'b SpiState option" where
  "spi_put S b s = stm32f2xx_spi_write S 0x0C (ucast b) s"

fun dr_writes :: "'b SpiSys \<Rightarrow> 8 word list \<Rightarrow> 'b SpiState \<Rightarrow> 'b SpiState option" where
  "dr_writes S [] s = Some s"
| "dr_writes S (b # bs) s = Option.bind (spi_put S b s) (dr_writes S bs)"

definition spi_frame :: "8 word list \<Rightarrow> 8 word \<Rightarrow> 8 word list" where
  "spi_frame payload cs = [0x01, of_nat (length payload)] @ payload @ [cs, 0x0A]"

text \<open>
  What is used of the host: an SSI transfer neither sends to the character backend nor changes
  whether it is connected, and a write to the backend appends to what was sent (\<open>log\<close>).
\<close>

definition host_ok :: "'b SpiSys \<Rightarrow> ('b \<Rightarrow> 8 word list list) \<Rightarrow> bool" where
  "host_ok S log \<longleftrightarrow>
     (\<forall>v b. log (snd (ssi_transfer S v b)) = log b \<and> chr_connected S (snd (ssi_transfer S v b)) = chr_connected S b) \<and>
     (\<forall>f b. log (chr_write_all S f b) = log b @ [f])"

definition same_host :: "'b SpiSys \<Rightarrow> 'b SpiState \<Rightarrow> 'b SpiState \<Rightarrow> bool" where
  "same_host S s t \<longleftrightarrow> (\<forall>log. host_ok S log \<longrightarrow>
     log (host t) = log (host s) \<and> chr_connected S (host t) = chr_connected S (host s))"

lemma same_host_refl [simp]: "same_host S s s"
  by (simp add: same_host_def)

lemma same_host_trans: "same_host S s t \<Longrightarrow> same_host S t u \<Longrightarrow> same_host S s u"
  by (auto simp: same_host_def)

lemma same_host_cong: "host t = host s \<Longrightarrow> same_host S s t"
  by (simp add: same_host_def)

lemma transfer_keeps [simp]:
  "frame_state (stm32f2xx_spi_transfer S s) = frame_state s" "frame_buffer (stm32f2xx_spi_transfer S s) = frame_buffer s"
  "frame_index (stm32f2xx_spi_transfer S s) = frame_index s" "expected_len (stm32f2xx_spi_transfer S s) = expected_len s"
  by (simp_all add: stm32f2xx_spi_transfer_def Let_def case_prod_beta)

lemma transfer_host: "same_host S s (stm32f2xx_spi_transfer S s)"
  by (simp add: stm32f2xx_spi_transfer_def same_host_def host_ok_def Let_def case_prod_beta)

lemma ucast_byte: "ucast (ucast (b :: 8 word) :: 64 word) = b"
  by transfer simp

lemma write_dr: "spi_put S b s = map_option (stm32f2xx_spi_transfer S) (frame_step S b s)"
  by (simp add: spi_put_def stm32f2xx_spi_write_def ucast_byte Let_def)

lemma dr_writes_append: "dr_writes S (xs @ ys) s = Option.bind (dr_writes S xs s) (dr_writes S ys)"
proof (induction xs arbitrary: s)
  case (Cons b bs)
  then show ?case by (cases "spi_put S b s") simp_all
qed simp

lemma dr_writes_then: "dr_writes S xs s = Some t \<Longrightarrow> dr_writes S (xs @ ys) s = dr_writes S ys t"
  by (simp add: dr_writes_append)

lemma same_hostD: "same_host S s t \<Longrightarrow> host_ok S log \<Longrightarrow>
    log (host t) = log (host s) \<and> chr_connected S (host t) = chr_connected S (host s)"
  by (simp add: same_host_def)

lemma put_byte_Some:
  "frame_index s < 256 \<Longrightarrow> put_byte b s =
     Some (s\<lparr>frame_buffer := (frame_buffer s)[frame_index s := b], frame_index := Suc (frame_index s)\<rparr>)"
  by (simp add: put_byte_def)

lemma take_update_Suc: "i < length xs \<Longrightarrow> take (Suc i) (xs[i := b]) = take i xs @ [b]"
  by (simp add: take_Suc_conv_app_nth)

lemma spi_self:
  "expected_len t = n \<Longrightarrow> t\<lparr>frame_buffer := b, frame_index := i, frame_state := st\<rparr> =
     t\<lparr>frame_buffer := b, frame_index := i, expected_len := n, frame_state := st\<rparr>"
  "expected_len t = n \<Longrightarrow> frame_state t = st \<Longrightarrow> t\<lparr>frame_buffer := b, frame_index := i\<rparr> =
     t\<lparr>frame_buffer := b, frame_index := i, expected_len := n, frame_state := st\<rparr>"
  by auto

text \<open>The parser after \<open>ys\<close>: its state, what the buffer starts with, and the announced length.\<close>

definition parsed :: "'b SpiSys \<Rightarrow> 'b SpiState \<Rightarrow> FrameState \<Rightarrow> 8 word list \<Rightarrow> nat \<Rightarrow> 'b SpiState \<Rightarrow> bool" where
  "parsed S s st ys n t \<longleftrightarrow> frame_state t = st \<and> length (frame_buffer t) = 256 \<and> frame_index t = length ys \<and>
     length ys \<le> 256 \<and> take (length ys) (frame_buffer t) = ys \<and> expected_len t = n \<and> same_host S s t"

lemma parsed_put:
  assumes "parsed S s st ys n t" "length ys < 256"
  shows "put_byte b t = Some (t\<lparr>frame_buffer := (frame_buffer t)[length ys := b], frame_index := Suc (length ys)\<rparr>)"
    and "parsed S s st' (ys @ [b]) n'
           (stm32f2xx_spi_transfer S (t\<lparr>frame_buffer := (frame_buffer t)[length ys := b], frame_index := Suc (length ys),
              expected_len := n', frame_state := st'\<rparr>))"
proof -
  show "put_byte b t = Some (t\<lparr>frame_buffer := (frame_buffer t)[length ys := b], frame_index := Suc (length ys)\<rparr>)"
    using assms by (simp add: parsed_def put_byte_Some)
  have "same_host S s t" using assms by (simp add: parsed_def)
  then have "same_host S s (stm32f2xx_spi_transfer S (t\<lparr>frame_buffer := (frame_buffer t)[length ys := b], frame_index := Suc (length ys),
              expected_len := n', frame_state := st'\<rparr>))"
    by (rule same_host_trans [OF same_host_trans [OF _ same_host_cong] transfer_host]) simp
  then show "parsed S s st' (ys @ [b]) n'
           (stm32f2xx_spi_transfer S (t\<lparr>frame_buffer := (frame_buffer t)[length ys := b], frame_index := Suc (length ys),
              expected_len := n', frame_state := st'\<rparr>))"
    using assms by (simp add: parsed_def take_update_Suc)
qed

lemma parse_header:
  assumes "frame_state s = FRAME_IDLE" "length (frame_buffer s) = 256" "n < 256"
  shows "\<exists>t. dr_writes S [0x01, of_nat n] s = Some t \<and> parsed S s FRAME_GOT_LENGTH [0x01, of_nat n] n t"
proof -
  let ?s1 = "stm32f2xx_spi_transfer S (s\<lparr>frame_buffer := (frame_buffer s)[0 := 0x01], frame_index := 1, frame_state := FRAME_GOT_START\<rparr>)"
  have "same_host S s ?s1" by (rule same_host_trans [OF same_host_cong transfer_host]) simp
  moreover have "take 1 ((frame_buffer s)[0 := 0x01]) = [0x01]" using assms(2) by (cases "frame_buffer s") auto
  ultimately have p: "parsed S s FRAME_GOT_START [0x01] (expected_len s) ?s1"
    using assms by (simp add: parsed_def)
  let ?t = "stm32f2xx_spi_transfer S (?s1\<lparr>frame_buffer := (frame_buffer ?s1)[1 := of_nat n], frame_index := 2,
              expected_len := n, frame_state := FRAME_GOT_LENGTH\<rparr>)"
  have u: "unat (of_nat n :: 8 word) = n" using assms(3) by (simp add: unsigned_of_nat take_bit_nat_eq_self)
  have "dr_writes S [0x01, of_nat n] s = Some ?t"
    using assms(1) parsed_put(1) [OF p] u by (simp add: write_dr frame_step_def numeral_2_eq_2)
  moreover have "parsed S s FRAME_GOT_LENGTH [0x01, of_nat n] n ?t"
    using parsed_put(2) [OF p, of FRAME_GOT_LENGTH "of_nat n" n] by (simp add: numeral_2_eq_2)
  ultimately show ?thesis by blast
qed

lemma parse_data:
  assumes "parsed S s FRAME_GOT_LENGTH xs n t" "length xs + length ys < 2 + n" "length xs + length ys \<le> 256"
  shows "\<exists>u. dr_writes S ys t = Some u \<and> parsed S s FRAME_GOT_LENGTH (xs @ ys) n u"
  using assms
proof (induction ys arbitrary: xs t)
  case (Cons y ys)
  let ?t = "stm32f2xx_spi_transfer S (t\<lparr>frame_buffer := (frame_buffer t)[length xs := y], frame_index := Suc (length xs),
              expected_len := n, frame_state := FRAME_GOT_LENGTH\<rparr>)"
  have l: "length xs < 256" "Suc (length xs) < 2 + n" using Cons.prems by simp_all
  have e: "expected_len t = n" "frame_state t = FRAME_GOT_LENGTH" using Cons.prems(1) by (simp_all add: parsed_def)
  have "spi_put S y t = Some ?t"
    using l e parsed_put(1) [OF Cons.prems(1) l(1)] by (simp add: write_dr frame_step_def spi_self(2) [OF e, symmetric])
  moreover have "parsed S s FRAME_GOT_LENGTH (xs @ [y]) n ?t" using parsed_put(2) [OF Cons.prems(1) l(1)] .
  ultimately show ?case using Cons.IH [of "xs @ [y]" ?t] Cons.prems by simp
qed simp

lemma parse_payload:
  assumes t: "parsed S s FRAME_GOT_LENGTH xs n t" and ys: "ys \<noteq> []" "length xs + length ys = 2 + n" "2 + n \<le> 256"
  shows "\<exists>u. dr_writes S ys t = Some u \<and> parsed S s FRAME_WAIT_FOR_CHECKSUM (xs @ ys) n u"
proof -
  obtain zs z where z: "ys = zs @ [z]" using ys(1) by (cases ys rule: rev_cases) auto
  obtain u where u: "dr_writes S zs t = Some u" "parsed S s FRAME_GOT_LENGTH (xs @ zs) n u"
    using parse_data [OF t, of zs] ys z by auto
  have l: "length (xs @ zs) < 256" "Suc (length (xs @ zs)) = 2 + n" using ys z by simp_all
  have e: "expected_len u = n" "frame_state u = FRAME_GOT_LENGTH" using u(2) by (simp_all add: parsed_def)
  let ?v = "stm32f2xx_spi_transfer S (u\<lparr>frame_buffer := (frame_buffer u)[length (xs @ zs) := z], frame_index := Suc (length (xs @ zs)),
              expected_len := n, frame_state := FRAME_WAIT_FOR_CHECKSUM\<rparr>)"
  have "spi_put S z u = Some ?v"
    using l e parsed_put(1) [OF u(2) l(1)] by (simp add: write_dr frame_step_def spi_self(1) [OF e(1), symmetric])
  with u(1) parsed_put(2) [OF u(2) l(1)] z show ?thesis by (auto simp: dr_writes_append)
qed

lemma parse_frame:
  assumes s: "frame_state s = FRAME_IDLE" "length (frame_buffer s) = 256" and n: "ys \<noteq> []" "length ys \<le> 254"
  obtains t where "dr_writes S ([0x01, of_nat (length ys)] @ ys) s = Some t"
    "parsed S s FRAME_WAIT_FOR_CHECKSUM ([0x01, of_nat (length ys)] @ ys) (length ys) t"
proof -
  obtain h where h: "dr_writes S [0x01, of_nat (length ys)] s = Some h"
    "parsed S s FRAME_GOT_LENGTH [0x01, of_nat (length ys)] (length ys) h"
    using parse_header [OF s, of "length ys" S] n by auto
  obtain t where t: "dr_writes S ys h = Some t"
    "parsed S s FRAME_WAIT_FOR_CHECKSUM ([0x01, of_nat (length ys)] @ ys) (length ys) t"
    using parse_payload [OF h(2) n(1)] n by auto
  from h(1) t(1) have "dr_writes S ([0x01, of_nat (length ys)] @ ys) s = Some t"
    by (simp only: dr_writes_append bind.simps)
  with t(2) show thesis using that by blast
qed

lemma spi_frame_split: "spi_frame ys cs = ([0x01, of_nat (length ys)] @ ys) @ [cs, 0x0A]"
  by (simp add: spi_frame_def)

lemma spi_one_frame:
  assumes s: "frame_state s = FRAME_IDLE" "length (frame_buffer s) = 256" and ok: "host_ok S log"
    and n: "ys \<noteq> []" "length ys \<le> 252"
  shows "\<exists>t. dr_writes S (spi_frame ys cs) s = Some t \<and> frame_state t = FRAME_IDLE \<and> frame_index t = 0 \<and>
     frame_buffer t = replicate 256 0 \<and>
     log (host t) = log (host s) @ (if chr_connected S (host s) then [spi_frame ys cs] else []) \<and>
     ((\<forall>f b. chr_connected S (chr_write_all S f b) = chr_connected S b) \<longrightarrow> chr_connected S (host t) = chr_connected S (host s))"
proof -
  let ?h = "[0x01, of_nat (length ys)] @ ys" and ?n = "length ys"
  have n': "?n \<le> 254" using n(2) by simp
  obtain t where t: "dr_writes S ?h s = Some t" "parsed S s FRAME_WAIT_FOR_CHECKSUM ?h ?n t"
    using parse_frame [OF s n(1) n'] by blast
  have l: "length ?h < 256" "length (?h @ [cs]) < 256" using n(2) by simp_all
  have e: "expected_len t = ?n" "frame_state t = FRAME_WAIT_FOR_CHECKSUM" using t(2) by (simp_all add: parsed_def)
  obtain u where u: "spi_put S cs t = Some u" "parsed S s FRAME_WAIT_FOR_END (?h @ [cs]) ?n u"
    by (rule that [OF _ parsed_put(2) [OF t(2) l(1)]])
      (use e parsed_put(1) [OF t(2) l(1)] in \<open>simp add: write_dr frame_step_def spi_self(1) [OF e(1), symmetric]\<close>)
  have eu: "expected_len u = ?n" "frame_state u = FRAME_WAIT_FOR_END" "same_host S s u"
    using u(2) by (simp_all add: parsed_def)
  define v where "v = u\<lparr>frame_buffer := (frame_buffer u)[length (?h @ [cs]) := 0x0A], frame_index := Suc (length (?h @ [cs]))\<rparr>"
  have pb: "put_byte 0x0A u = Some v" unfolding v_def by (rule parsed_put(1) [OF u(2) l(2)])
  have tk: "take (Suc (Suc (Suc (Suc ?n)))) (frame_buffer v) = spi_frame ys cs"
    using parsed_put(2) [OF u(2) l(2), of FRAME_WAIT_FOR_END "0x0A" ?n] by (simp add: parsed_def spi_frame_def v_def)
  have iv: "frame_index v = 4 + ?n" "expected_len v = ?n" "host v = host u" using eu(1) by (simp_all add: v_def)
  define w where "w = stm32f2xx_spi_transfer S (frame_end S 0x0A v)"
  have w: "spi_put S 0x0A u = Some w" using eu pb by (simp add: write_dr frame_step_def w_def)
  have fe: "frame_end S 0x0A v = (if chr_connected S (host u) then v\<lparr>host := chr_write_all S (spi_frame ys cs) (host u)\<rparr> else v)
      \<lparr>frame_buffer := replicate FRAME_BUFFER_SIZE 0, expected_len := 0, frame_index := 0, frame_state := FRAME_IDLE\<rparr>"
    using tk iv by (simp add: frame_end_def Let_def)
  have "dr_writes S (spi_frame ys cs) s = Some w"
    unfolding spi_frame_split dr_writes_then [OF t(1)] by (simp add: u w)
  moreover have "log (host u) = log (host s)" "chr_connected S (host u) = chr_connected S (host s)"
    using same_hostD [OF eu(3) ok] by blast+
  moreover have "log (host w) = log (host (frame_end S 0x0A v))" "chr_connected S (host w) = chr_connected S (host (frame_end S 0x0A v))"
    unfolding w_def using same_hostD [OF transfer_host ok] by blast+
  moreover have "frame_state w = FRAME_IDLE" "frame_index w = 0" "frame_buffer w = replicate 256 0"
    unfolding w_def fe by simp_all
  ultimately show ?thesis
    using ok iv(3) by (intro exI [of _ w]) (simp add: fe host_ok_def)
qed

subsection \<open>Properties\<close>

text \<open>A host that records what it is sent, for the concrete instances of the properties below.\<close>

definition spi_demo_sys :: "8 word list list SpiSys" where
  "spi_demo_sys = \<lparr>ssi_transfer = \<lambda>v b. (v, b), chr_connected = \<lambda>_. True, chr_write_all = \<lambda>f b. b @ [f]\<rparr>"

definition spi_demo :: "8 word list list SpiState" where
  "spi_demo = stm32f2xx_spi_reset
     \<lparr>spi_cr1 = 0, spi_cr2 = 0, spi_sr = 0, spi_dr = 0, spi_crcpr = 0, spi_rxcrcr = 0, spi_txcrcr = 0, spi_i2scfgr = 0, spi_i2spr = 0,
      frame_state = FRAME_IDLE, frame_buffer = [], frame_index = 0, expected_len = 0, host = []\<rparr>"

lemma spi_demo_ok:
  "host_ok spi_demo_sys id" "frame_state spi_demo = FRAME_IDLE" "length (frame_buffer spi_demo) = 256"
  "chr_connected spi_demo_sys b" "host spi_demo = []"
  by (simp_all add: host_ok_def spi_demo_sys_def spi_demo_def stm32f2xx_spi_reset_def)

text \<open>
  Any sequence of frames with 1 to 252 payload bytes, written byte by byte to the data register
  of an idle controller, is forwarded to the connected TCP backend whole, unchanged and in order
  (and dropped whole when the backend is not connected), and the controller is idle afterwards.
\<close>

lemma spi_frames_forwarded:
  assumes "frame_state s = FRAME_IDLE" "length (frame_buffer s) = 256" "host_ok S log"
    and "\<forall>f b. chr_connected S (chr_write_all S f b) = chr_connected S b"
    and "\<forall>(ys, cs) \<in> set fs. ys \<noteq> [] \<and> length ys \<le> 252"
  shows "\<exists>t. dr_writes S (concat (map (\<lambda>(ys, cs). spi_frame ys cs) fs)) s = Some t \<and> frame_state t = FRAME_IDLE \<and>
     log (host t) = log (host s) @ (if chr_connected S (host s) then map (\<lambda>(ys, cs). spi_frame ys cs) fs else [])"
  using assms
proof (induction fs arbitrary: s)
  case (Cons f fs)
  obtain ys cs where f: "f = (ys, cs)" by (cases f)
  obtain t where t: "dr_writes S (spi_frame ys cs) s = Some t" "frame_state t = FRAME_IDLE" "length (frame_buffer t) = 256"
    "log (host t) = log (host s) @ (if chr_connected S (host s) then [spi_frame ys cs] else [])"
    "chr_connected S (host t) = chr_connected S (host s)"
    using spi_one_frame [OF Cons.prems(1-3), of ys cs] Cons.prems(4,5) f by auto
  obtain u where "dr_writes S (concat (map (\<lambda>(ys, cs). spi_frame ys cs) fs)) t = Some u" "frame_state u = FRAME_IDLE"
    "log (host u) = log (host t) @ (if chr_connected S (host t) then map (\<lambda>(ys, cs). spi_frame ys cs) fs else [])"
    using Cons.IH [OF t(2,3) Cons.prems(3,4)] Cons.prems(5) by auto
  with t f show ?case by (auto simp: dr_writes_append)
qed simp

text \<open>
  A frame that announces 253 to 255 payload bytes makes the controller write past the end of the
  256-byte \<^verbatim>\<open>frame_buffer\<close>: the length byte taken from the bus is not checked against the buffer.
\<close>

theorem spi_long_frame_overflows:
  assumes s: "frame_state s = FRAME_IDLE" "length (frame_buffer s) = 256" and n: "253 \<le> length ys" "length ys \<le> 255"
  shows "dr_writes S (spi_frame ys cs) s = None"
proof (cases "length ys = 255")
  case True
  then obtain zs z where ys: "ys = zs @ [z]" "length zs = 254" by (cases ys rule: rev_cases) auto
  obtain h where h: "dr_writes S [0x01, of_nat 255] s = Some h" "parsed S s FRAME_GOT_LENGTH [0x01, of_nat 255] 255 h"
    using parse_header [OF s, of 255 S] by auto
  obtain u where u: "dr_writes S zs h = Some u" "parsed S s FRAME_GOT_LENGTH ([0x01, of_nat 255] @ zs) 255 u"
    using parse_data [OF h(2), of zs] ys(2) by auto
  have "spi_put S z u = None" using u(2) ys(2) by (simp add: parsed_def write_dr frame_step_def put_byte_def)
  then have "dr_writes S ([0x01, of_nat 255] @ zs @ [z] @ [cs, 0x0A]) s = None"
    using h(1) u(1) by (simp only: dr_writes_append bind.simps dr_writes.simps)
  then show ?thesis using True ys by (simp add: spi_frame_def)
next
  case False
  then have le: "ys \<noteq> []" "length ys \<le> 254" using n by auto
  obtain t where t: "dr_writes S ([0x01, of_nat (length ys)] @ ys) s = Some t"
    "parsed S s FRAME_WAIT_FOR_CHECKSUM ([0x01, of_nat (length ys)] @ ys) (length ys) t"
    using parse_frame [OF s le] by blast
  have "dr_writes S [cs, 0x0A] t = None"
    using t(2) n by (auto simp: parsed_def write_dr frame_step_def put_byte_def)
  then show ?thesis unfolding spi_frame_split dr_writes_then [OF t(1)] .
qed

theorem spi_long_frame_overflows_witness: "dr_writes spi_demo_sys (spi_frame (replicate 253 0) 0) spi_demo = None"
  using spi_long_frame_overflows [of spi_demo "replicate 253 0" spi_demo_sys 0] by (simp add: spi_demo_ok)

text \<open>
  A frame with an empty payload is never forwarded: its checksum is taken for data and its end
  marker for the checksum, so the controller waits for one more byte, and that byte, the start
  marker of the next frame, is discarded.
\<close>

theorem spi_empty_frame_lost:
  assumes s: "frame_state s = FRAME_IDLE" "length (frame_buffer s) = 256" and ok: "host_ok S log"
  shows "\<exists>t u. dr_writes S (spi_frame [] cs) s = Some t \<and> frame_state t = FRAME_WAIT_FOR_END \<and> log (host t) = log (host s) \<and>
     spi_put S 0x01 t = Some u \<and> frame_state u = FRAME_IDLE \<and> log (host u) = log (host s)"
proof -
  obtain h where h: "dr_writes S [0x01, 0] s = Some h" "parsed S s FRAME_GOT_LENGTH [0x01, 0] 0 h"
    using parse_header [OF s, of 0 S] by (auto simp del: dr_writes.simps)
  obtain a where a: "spi_put S cs h = Some a" "parsed S s FRAME_WAIT_FOR_CHECKSUM [0x01, 0, cs] 0 a"
  proof -
    have e: "expected_len h = 0" "frame_state h = FRAME_GOT_LENGTH" using h(2) by (simp_all add: parsed_def)
    show thesis
      by (rule that [OF _ parsed_put(2) [OF h(2), of FRAME_WAIT_FOR_CHECKSUM cs 0, simplified]])
        (use e parsed_put(1) [OF h(2), of cs] in \<open>simp_all add: write_dr frame_step_def spi_self(1) [OF e(1), symmetric]\<close>)
  qed
  obtain b where b: "spi_put S 0x0A a = Some b" "parsed S s FRAME_WAIT_FOR_END [0x01, 0, cs, 0x0A] 0 b"
  proof -
    have e: "expected_len a = 0" "frame_state a = FRAME_WAIT_FOR_CHECKSUM" using a(2) by (simp_all add: parsed_def)
    show thesis
      by (rule that [OF _ parsed_put(2) [OF a(2), of FRAME_WAIT_FOR_END "0x0A" 0, simplified]])
        (use e parsed_put(1) [OF a(2), of "0x0A"] in \<open>simp_all add: write_dr frame_step_def spi_self(1) [OF e(1), symmetric]\<close>)
  qed
  let ?v = "b\<lparr>frame_buffer := (frame_buffer b)[4 := 0x01], frame_index := 5\<rparr>"
  have e: "frame_state b = FRAME_WAIT_FOR_END" "frame_index b = 4" "same_host S s b" using b(2) by (simp_all add: parsed_def)
  have "spi_put S 0x01 b = Some (stm32f2xx_spi_transfer S (frame_end S 0x01 ?v))"
    using e by (simp add: write_dr frame_step_def put_byte_def)
  moreover have "log (host b) = log (host s)" using e(3) ok by (simp add: same_host_def)
  moreover have "log (host (stm32f2xx_spi_transfer S (frame_end S 0x01 ?v))) = log (host b)"
    using transfer_host [of S "frame_end S 0x01 ?v"] ok by (simp add: same_host_def frame_end_def)
  moreover have "frame_state (stm32f2xx_spi_transfer S (frame_end S 0x01 ?v)) = FRAME_IDLE" by (simp add: frame_end_def Let_def)
  moreover have "dr_writes S (spi_frame [] cs) s = Some b"
    using a(1) b(1) dr_writes_then [OF h(1), of "[cs, 0x0A]"] by (simp add: spi_frame_def)
  ultimately show ?thesis using e(1) by auto
qed

theorem spi_empty_frame_lost_witness:
  "\<exists>t u. dr_writes spi_demo_sys (spi_frame [] 0x55) spi_demo = Some t \<and> frame_state t = FRAME_WAIT_FOR_END \<and> host t = [] \<and>
     spi_put spi_demo_sys 0x01 t = Some u \<and> frame_state u = FRAME_IDLE \<and> host u = []"
  using spi_empty_frame_lost [of spi_demo spi_demo_sys id "0x55"] by (simp add: spi_demo_ok)

text \<open>
  The value written to the data register never reaches the SSI bus: every write to it clocks out
  what the register held before (the answer to the previous transfer, or 1 after a read), because
  no branch of the write stores the value in \<^verbatim>\<open>spi_dr\<close>.
\<close>

theorem spi_write_sends_stale_data:
  assumes "stm32f2xx_spi_write S 0x0C v s = Some t"
  shows "\<exists>h. (spi_dr t, host t) = ssi_transfer S (spi_dr s) h"
proof -
  obtain u where u: "frame_step S (ucast v) s = Some u" and t: "t = stm32f2xx_spi_transfer S u"
    using assms by (auto simp: stm32f2xx_spi_write_def Let_def)
  have "spi_dr u = spi_dr s"
    using u by (auto simp: frame_step_def put_byte_def frame_end_def Let_def split: FrameState.splits if_splits)
  then show ?thesis
    by (intro exI [of _ "host u"]) (simp add: t stm32f2xx_spi_transfer_def Let_def case_prod_beta)
qed

theorem spi_write_sends_stale_data_witness:
  "\<exists>h. (spi_dr (stm32f2xx_spi_transfer spi_demo_sys spi_demo), host (stm32f2xx_spi_transfer spi_demo_sys spi_demo))
     = ssi_transfer spi_demo_sys 0xC h"
proof -
  have "stm32f2xx_spi_write spi_demo_sys 0x0C 0x55 spi_demo = Some (stm32f2xx_spi_transfer spi_demo_sys spi_demo)"
    by (simp add: stm32f2xx_spi_write_def frame_step_def spi_demo_ok Let_def)
  from spi_write_sends_stale_data [OF this] show ?thesis by (simp add: spi_demo_def stm32f2xx_spi_reset_def)
qed

end
