(* ===== verification/XlGateway.thy ===== *)
theory XlGateway
  imports XlDriver SpiBridge
begin

text \<open>
  The gateway from the virtual ECU to the CAN bus: \<^verbatim>\<open>calculate_checksum\<close> and \<^verbatim>\<open>listen_uart\<close> of \<^verbatim>\<open>xlSPICAN.c\<close>, which read the frames that the controller of \<open>SpiBridge\<close>
  forwards over TCP and put their payload on the bus in messages of at most eight bytes, and the variants of the loop in \<^verbatim>\<open>xlUartCanDemo.c\<close> and \<^verbatim>\<open>xlTCANdemo.c\<close>.
  The connection is \<open>gw_recv\<close>: \<^verbatim>\<open>recv\<close> for at most the given number of bytes, \<open>None\<close> for an error. The loop of \<^verbatim>\<open>listen_uart\<close> never ends, so one turn of it is
  a function.
\<close>

subsection \<open>Reading frames\<close>

record 'w XlNet =
  gw_recv :: "nat \<Rightarrow> 'w \<Rightarrow> 8 word list option \<times> 'w"

definition overwrite :: "nat \<Rightarrow> 'a list \<Rightarrow> 'a list \<Rightarrow> 'a list" where
  "overwrite off bs buf = take off buf @ bs @ drop (off + length bs) buf"

text \<open>\<^verbatim>\<open>recv(sockfd, buffer + off, n, 0)\<close>: the number of bytes received, and the buffer after it.\<close>

definition recv_into :: "'w XlNet \<Rightarrow> nat \<Rightarrow> nat \<Rightarrow> 8 word list \<Rightarrow> 'w XlApp \<Rightarrow> int \<times> 8 word list \<times> 'w XlApp" where
  "recv_into N off n buf a =
     (case gw_recv N n (xl_world a) of
        (None, w) \<Rightarrow> (- 1, buf, a\<lparr>xl_world := w\<rparr>)
      | (Some bs, w) \<Rightarrow> (int (length bs), overwrite off bs buf, a\<lparr>xl_world := w\<rparr>))"

definition calculate_checksum :: "8 word list \<Rightarrow> nat \<Rightarrow> 8 word" where
  "calculate_checksum data len = foldl (\<lambda>c i. c XOR data ! i) 0 [1..<len]"

text \<open>The start marker, the length, the payload, the checksum and one more byte; the bus part runs only when all of them were received and the checksum fits.\<close>

definition listen_turn ::
  "('w XlApp \<Rightarrow> 8 word list \<Rightarrow> 'w XlApp) \<Rightarrow> 'w XlNet \<Rightarrow> 8 word list \<times> 'w XlApp \<Rightarrow> 8 word list \<times> 'w XlApp" where
  "listen_turn send N ba =
     (let (buf, a) = ba; (r, buf, a) = recv_into N 0 1 buf a in
      if r \<noteq> 1 \<or> buf ! 0 \<noteq> 0x01 then (buf, a)
      else let (r, buf, a) = recv_into N 1 1 buf a in
      if r \<noteq> 1 then (buf, a)
      else let (r, buf, a) = recv_into N 2 (unat (buf ! 1)) buf a in
      if r \<noteq> int (unat (buf ! 1)) then (buf, a)
      else let n = unat (buf ! 1); (r, buf, a) = recv_into N (2 + n) 1 buf a in
      if r \<noteq> 1 then (buf, a)
      else if buf ! (n + 2) \<noteq> calculate_checksum buf (n + 2) then (buf, a)
      else let (r, buf, a) = recv_into N (2 + n + 1) 1 buf a in
      if r \<noteq> 1 then (buf, a) else (buf, send a buf))"

subsection \<open>Sending them\<close>

text \<open>\<^verbatim>\<open>xlSPICAN.c\<close>: as many messages as the payload needs.\<close>

function spican_send :: "'w XlSys \<Rightarrow> XLaccess \<Rightarrow> nat \<Rightarrow> nat \<Rightarrow> 8 word list \<Rightarrow> 'w XlApp \<Rightarrow> 'w XlApp" where
  "spican_send X chan remaining count buf a =
     (if 0 < remaining then
        let dlc = (if 8 \<le> remaining then 8 else remaining);
            remaining = (if 8 \<le> remaining then remaining - 8 else 0);
            data = map (\<lambda>i. buf ! (2 + i + dlc * count)) [0..<dlc];
            (st, a) = demoTransmitWithPayload X chan (of_nat (0x111 + unat (buf ! 1) + count)) data dlc a
        in spican_send X chan remaining (Suc count) buf a
      else a)"
  by pat_completeness auto

termination spican_send
  by (relation "measure (\<lambda>(X, chan, remaining, count, buf, a). remaining)") auto

declare spican_send.simps [simp del]

definition spican_turn :: "'w XlSys \<Rightarrow> 'w XlNet \<Rightarrow> XLaccess \<Rightarrow> 8 word list \<times> 'w XlApp \<Rightarrow> 8 word list \<times> 'w XlApp" where
  "spican_turn X N chan = listen_turn (\<lambda>a buf. spican_send X chan (unat (buf ! 1)) 0 buf a) N"

text \<open>\<^verbatim>\<open>xlUartCanDemo.c\<close>: one message of eight bytes.\<close>

definition uartcan_send :: "'w XlSys \<Rightarrow> XLaccess \<Rightarrow> 8 word list \<Rightarrow> 'w XlApp \<Rightarrow> 'w XlApp" where
  "uartcan_send X chan buf a = snd (demoTransmitWithPayload X chan 0x111 (map (\<lambda>i. buf ! (2 + i)) [0..<8]) 8 a)"

definition uartcan_turn :: "'w XlSys \<Rightarrow> 'w XlNet \<Rightarrow> XLaccess \<Rightarrow> 8 word list \<times> 'w XlApp \<Rightarrow> 8 word list \<times> 'w XlApp" where
  "uartcan_turn X N chan = listen_turn (\<lambda>a buf. uartcan_send X chan buf a) N"

subsection \<open>The line protocol\<close>

text \<open>
  \<^verbatim>\<open>xlTCANdemo.c\<close>: what is received is appended as a C string to \<^verbatim>\<open>recv_buffer\<close>, and every line of it is sent. Bytes after a null byte are lost; a string that does
  not fit the buffer is undefined behaviour, here \<open>None\<close>. The identifier is parsed from the uninitialised \<^verbatim>\<open>idStr\<close> and is a parameter.
\<close>

abbreviation "BUFFER_SIZE \<equiv> 1024 :: nat"

definition c_string :: "8 word list \<Rightarrow> 8 word list" where
  "c_string bs = takeWhile (\<lambda>b. b \<noteq> 0) bs"

definition tcan_line :: "'w XlSys \<Rightarrow> XLaccess \<Rightarrow> 32 word \<Rightarrow> 8 word list \<Rightarrow> 'w XlApp \<Rightarrow> 'w XlApp" where
  "tcan_line X chan ID line a =
     (let dlc = (if 8 < length line then 8 else length line)
      in snd (demoTransmitWithPayload X chan ID (take dlc line @ replicate (8 - dlc) 0) dlc a))"

function tcan_lines :: "'w XlSys \<Rightarrow> XLaccess \<Rightarrow> 32 word \<Rightarrow> 8 word list \<Rightarrow> 'w XlApp \<Rightarrow> 8 word list \<times> 'w XlApp" where
  "tcan_lines X chan ID rb a =
     (if 0x0A \<in> set rb
      then tcan_lines X chan ID (tl (dropWhile (\<lambda>b. b \<noteq> 0x0A) rb)) (tcan_line X chan ID (takeWhile (\<lambda>b. b \<noteq> 0x0A) rb) a)
      else (rb, a))"
  by pat_completeness auto

termination tcan_lines
proof (relation "measure (\<lambda>(X, chan, ID, rb, a). length rb)", simp)
  fix rb :: "8 word list"
  assume "0x0A \<in> set rb"
  then have "dropWhile (\<lambda>b. b \<noteq> 0x0A) rb \<noteq> []" by (simp add: dropWhile_eq_Nil_conv)
  then have "length (tl (dropWhile (\<lambda>b. b \<noteq> 0x0A) rb)) < length rb"
    using length_dropWhile_le [of "\<lambda>b. b \<noteq> 0x0A" rb] by (cases "dropWhile (\<lambda>b. b \<noteq> 0x0A) rb") auto
  then show "((X, chan, ID, tl (dropWhile (\<lambda>b. b \<noteq> 0x0A) rb), a'), (X, chan, ID, rb, a)) \<in> measure (\<lambda>(X, chan, ID, rb, a). length rb)"
    for X :: "'w XlSys" and chan ID and a a' :: "'w XlApp" by simp
qed

declare tcan_lines.simps [simp del]

text \<open>One turn: \<open>None\<close> for undefined behaviour, otherwise whether the loop goes on, the buffer and the program's state.\<close>

definition tcan_turn :: "'w XlSys \<Rightarrow> 'w XlNet \<Rightarrow> XLaccess \<Rightarrow> 32 word \<Rightarrow> 8 word list \<times> 'w XlApp \<Rightarrow> (bool \<times> 8 word list \<times> 'w XlApp) option" where
  "tcan_turn X N chan ID ra =
     (let (rb, a) = ra in
      case gw_recv N (BUFFER_SIZE - 1) (xl_world a) of
        (None, w) \<Rightarrow> Some (False, rb, a\<lparr>xl_world := w\<rparr>)
      | (Some bs, w) \<Rightarrow>
          if bs = [] then Some (False, rb, a\<lparr>xl_world := w\<rparr>)
          else if BUFFER_SIZE \<le> length rb + length (c_string bs) then None
          else Some (True, tcan_lines X chan ID (rb @ c_string bs) (a\<lparr>xl_world := w\<rparr>)))"

subsection \<open>What the gateway sends\<close>

text \<open>
  What is used of the surroundings: \<^verbatim>\<open>recv\<close> returns all bytes it was asked for when they have arrived (\<open>stream\<close>), and every message given to the library appears
  on the bus (\<open>sent\<close>).
\<close>

definition gw_bus :: "'w XlSys \<Rightarrow> ('w \<Rightarrow> 'k) \<Rightarrow> ('w \<Rightarrow> (XLaccess \<times> XlMsg) list) \<Rightarrow> bool" where
  "gw_bus X net sent \<longleftrightarrow>
     (\<forall>h chan m w. sent (snd (xlCanTransmit X h chan m w)) = sent w @ [(chan, m)] \<and> net (snd (xlCanTransmit X h chan m w)) = net w)"

definition gw_env :: "'w XlSys \<Rightarrow> 'w XlNet \<Rightarrow> ('w \<Rightarrow> 8 word list) \<Rightarrow> ('w \<Rightarrow> (XLaccess \<times> XlMsg) list) \<Rightarrow> bool" where
  "gw_env X N stream sent \<longleftrightarrow>
     (\<forall>n w. n \<le> length (stream w) \<longrightarrow> fst (gw_recv N n w) = Some (take n (stream w)) \<and>
        stream (snd (gw_recv N n w)) = drop n (stream w) \<and> sent (snd (gw_recv N n w)) = sent w) \<and>
     gw_bus X stream sent"

definition can_message :: "bool \<Rightarrow> 8 word list \<Rightarrow> nat \<Rightarrow> XlMsg" where
  "can_message fd ys k =
     (let n = length ys; d = min 8 (n - 8 * k) in
      \<lparr>xm_ex = fd, xm_id = of_nat (0x111 + n + k), xm_flags = 0, xm_dlc = d,
       xm_data = take d (drop (d * k) ys) @ replicate ((if fd then XL_CAN_MAX_DATA_LEN else 8) - d) 0\<rparr>)"

definition can_messages :: "bool \<Rightarrow> 8 word list \<Rightarrow> XlMsg list" where
  "can_messages fd ys = map (can_message fd ys) [0..<ceil_div (length ys) 8]"

text \<open>The bytes a list of messages carries.\<close>

definition carried :: "XlMsg list \<Rightarrow> 8 word list" where
  "carried ms = concat (map (\<lambda>m. take (xm_dlc m) (xm_data m)) ms)"

definition xl_checksum :: "8 word list \<Rightarrow> 8 word" where
  "xl_checksum ys = foldl (XOR) (of_nat (length ys)) ys"

lemma gw_recvD:
  assumes "gw_env X N stream sent" "stream (xl_world a) = bs @ rest" "n = length bs"
  obtains w where "recv_into N off n buf a = (int n, overwrite off bs buf, a\<lparr>xl_world := w\<rparr>)" "stream w = rest" "sent w = sent (xl_world a)"
proof -
  obtain r w where e: "gw_recv N n (xl_world a) = (r, w)" by (cases "gw_recv N n (xl_world a)")
  have "n \<le> length (stream (xl_world a)) \<longrightarrow> fst (gw_recv N n (xl_world a)) = Some (take n (stream (xl_world a))) \<and>
      stream (snd (gw_recv N n (xl_world a))) = drop n (stream (xl_world a)) \<and> sent (snd (gw_recv N n (xl_world a))) = sent (xl_world a)"
    using assms(1) unfolding gw_env_def by blast
  then have "r = Some bs" "stream w = rest" "sent w = sent (xl_world a)" using assms(2) by (simp_all add: e assms(3) [symmetric])
  then show thesis using that [of w] e assms(3) by (simp add: recv_into_def)
qed

lemma transmitD:
  assumes "gw_bus X net sent" "d \<le> 8"
  obtains st w where "demoTransmitWithPayload X chan ID data d a = (st, a\<lparr>xl_world := w\<rparr>)" "net w = net (xl_world a)"
    "sent w = sent (xl_world a) @ [(chan, \<lparr>xm_ex = g_canFdSupport a, xm_id = ID, xm_flags = 0, xm_dlc = d,
       xm_data = take d data @ replicate ((if g_canFdSupport a then XL_CAN_MAX_DATA_LEN else 8) - d) 0\<rparr>)]"
proof -
  define m where "m = \<lparr>xm_ex = g_canFdSupport a, xm_id = ID, xm_flags = 0, xm_dlc = d,
       xm_data = take d data @ replicate ((if g_canFdSupport a then XL_CAN_MAX_DATA_LEN else 8) - d) 0\<rparr>"
  obtain st w where e: "xlCanTransmit X (g_xlPortHandle a) chan m (xl_world a) = (st, w)"
    by (cases "xlCanTransmit X (g_xlPortHandle a) chan m (xl_world a)")
  have "sent (snd (xlCanTransmit X (g_xlPortHandle a) chan m (xl_world a))) = sent (xl_world a) @ [(chan, m)] \<and>
      net (snd (xlCanTransmit X (g_xlPortHandle a) chan m (xl_world a))) = net (xl_world a)"
    using assms(1) unfolding gw_bus_def by blast
  then have "sent w = sent (xl_world a) @ [(chan, m)]" "net w = net (xl_world a)" by (simp_all add: e)
  moreover have "demoTransmitWithPayload X chan ID data d a = (st, a\<lparr>xl_world := w\<rparr>)"
    using assms(2) e by (simp add: demoTransmitWithPayload_def xl_call_def Let_def m_def)
  ultimately show thesis using that m_def by blast
qed

lemma gw_env_bus: "gw_env X N stream sent \<Longrightarrow> gw_bus X stream sent"
  by (simp add: gw_env_def)

lemma chunk_fits: "8 * k < n \<Longrightarrow> min 8 (n - 8 * k) * k + min 8 (n - 8 * k) \<le> (n :: nat)"
proof -
  assume k: "8 * k < n"
  define d where "d = min 8 (n - 8 * k)"
  have "d * k \<le> 8 * k" by (rule mult_le_mono1) (simp add: d_def)
  moreover have "8 * k + d \<le> n" using k by (simp add: d_def)
  ultimately show ?thesis unfolding d_def [symmetric] by linarith
qed

lemma ceil_div_8: "8 * k < n \<Longrightarrow> [k..<ceil_div n 8] = k # [Suc k..<ceil_div n 8]"
  using ceil_div_mult_ge [of 8 n] by (simp add: upt_conv_Cons)

lemma ceil_div_8_done: "n \<le> 8 * k \<Longrightarrow> [k..<ceil_div n 8] = []"
  by (simp add: ceil_div_def)

lemma nth_payload:
  fixes buf :: "8 word list"
  assumes "take (2 + n) buf = [0x01, of_nat n] @ ys" "length ys = n" "n < 256" "2 + n \<le> length buf" "i < n"
  shows "buf ! Suc (Suc i) = ys ! i"
proof -
  have "take (2 + n) buf ! (2 + i) = ys ! i" by (simp only: assms(1)) simp
  then show ?thesis using assms(5) by simp
qed

lemma header_payload:
  fixes buf :: "8 word list"
  assumes "take (2 + n) buf = [0x01, of_nat n] @ ys" "length ys = n" "n < 256" "2 + n \<le> length buf"
  shows "unat (buf ! 1) = n" "unat (buf ! Suc 0) = n"
proof -
  have "take (2 + n) buf ! 1 = of_nat n" by (simp only: assms(1)) simp
  then show "unat (buf ! 1) = n" using assms(3) by (simp add: unsigned_of_nat take_bit_nat_eq_self)
  then show "unat (buf ! Suc 0) = n" by simp
qed

lemma spican_send_log:
  assumes env: "gw_env X N stream sent" and buf: "take (2 + n) buf = [0x01, of_nat n] @ ys" "length ys = n" "n < 256" "2 + n \<le> length buf"
  shows "\<exists>w. spican_send X chan (n - 8 * k) k buf a = a\<lparr>xl_world := w\<rparr> \<and> stream w = stream (xl_world a) \<and>
     sent w = sent (xl_world a) @ map (\<lambda>k. (chan, can_message (g_canFdSupport a) ys k)) [k..<ceil_div n 8]"
proof (induction "n - 8 * k" arbitrary: k a rule: less_induct)
  case less
  show ?case
  proof (cases "8 * k < n")
    case False
    then show ?thesis by (intro exI [of _ "xl_world a"]) (simp add: spican_send.simps ceil_div_8_done)
  next
    case True
    define d where "d = min 8 (n - 8 * k)"
    have d: "d = (if 8 \<le> n - 8 * k then 8 else n - 8 * k)" "d \<le> 8" by (simp_all add: d_def)
    have dk: "d * k + d \<le> n" unfolding d_def by (rule chunk_fits [OF True])
    have data: "map (\<lambda>i. buf ! (2 + i + d * k)) [0..<d] = take d (drop (d * k) ys)"
      by (rule nth_equalityI) (use dk buf(2) in \<open>simp_all add: nth_payload [OF buf] add.commute\<close>)
    have m: "\<lparr>xm_ex = g_canFdSupport a, xm_id = of_nat (0x111 + n + k), xm_flags = 0, xm_dlc = d,
        xm_data = take d (take d (drop (d * k) ys)) @ replicate ((if g_canFdSupport a then XL_CAN_MAX_DATA_LEN else 8) - d) 0\<rparr> =
      can_message (g_canFdSupport a) ys k"
      by (simp add: can_message_def Let_def buf(2) d_def [symmetric])
    obtain st w where w: "demoTransmitWithPayload X chan (of_nat (0x111 + n + k)) (take d (drop (d * k) ys)) d a = (st, a\<lparr>xl_world := w\<rparr>)"
      "stream w = stream (xl_world a)" "sent w = sent (xl_world a) @ [(chan, can_message (g_canFdSupport a) ys k)]"
      by (rule transmitD [OF gw_env_bus [OF env] d(2), of chan "of_nat (0x111 + n + k)" "take d (drop (d * k) ys)" a, unfolded m])
    have "spican_send X chan (n - 8 * k) k buf a = spican_send X chan (n - 8 * Suc k) (Suc k) buf (a\<lparr>xl_world := w\<rparr>)"
      by (subst spican_send.simps) (use True w(1) data in \<open>simp add: Let_def header_payload [OF buf] d(1) [symmetric] add.commute [of 8]\<close>)
    then show ?thesis using less [of "Suc k" "a\<lparr>xl_world := w\<rparr>"] True w(2,3) by (auto simp: ceil_div_8)
  qed
qed

lemma overwrite_length: "off + length bs \<le> length buf \<Longrightarrow> length (overwrite off bs buf) = length buf"
  by (simp add: overwrite_def)

lemma overwrite_take: "off + length bs \<le> length buf \<Longrightarrow> take (off + length bs) (overwrite off bs buf) = take off buf @ bs"
  by (simp add: overwrite_def)

lemma overwrite_nth: "i < off \<Longrightarrow> off \<le> length buf \<Longrightarrow> overwrite off bs buf ! i = buf ! i"
  by (simp add: overwrite_def nth_append)

lemma calculate_checksum_is:
  assumes "take (2 + n) buf = [0x01, of_nat n] @ ys" "length ys = n" "n < 256" "2 + n \<le> length buf"
  shows "calculate_checksum buf (n + 2) = xl_checksum ys"
proof -
  have "map ((!) buf) [1..<2 + n] = of_nat n # ys"
  proof (rule nth_equalityI)
    show "length (map ((!) buf) [1..<2 + n]) = length (of_nat n # ys)" using assms(2) by simp
    fix i
    assume i: "i < length (map ((!) buf) [1..<2 + n])"
    then have "map ((!) buf) [1..<2 + n] ! i = take (2 + n) buf ! Suc i" by (simp del: upt_Suc)
    also have "\<dots> = (of_nat n # ys) ! i" by (simp only: assms(1)) simp
    finally show "map ((!) buf) [1..<2 + n] ! i = (of_nat n # ys) ! i" .
  qed
  moreover have "calculate_checksum buf (n + 2) = foldl (XOR) 0 (map ((!) buf) [1..<2 + n])"
    by (simp add: calculate_checksum_def foldl_map add.commute)
  ultimately show ?thesis using assms(2) by (simp add: xl_checksum_def)
qed

text \<open>A buffer that starts with what has been received so far.\<close>

definition starts :: "8 word list \<Rightarrow> 8 word list \<Rightarrow> bool" where
  "starts buf xs \<longleftrightarrow> length buf = 1024 \<and> length xs \<le> 1024 \<and> take (length xs) buf = xs"

lemma starts_nth: "starts buf xs \<Longrightarrow> i < length xs \<Longrightarrow> buf ! i = xs ! i"
  unfolding starts_def by (metis nth_take)

lemma starts_prefix: "starts buf (xs @ ys) \<Longrightarrow> take (length xs) buf = xs"
proof -
  assume "starts buf (xs @ ys)"
  then have "take (length xs) (take (length xs + length ys) buf) = take (length xs) (xs @ ys)" by (simp only: starts_def length_append)
  then show ?thesis by simp
qed

lemma recv_more:
  assumes "gw_env X N stream sent" "starts buf xs" "length xs + length bs \<le> 1024" "stream w = bs @ rest"
  obtains buf' w' where "recv_into N (length xs) (length bs) buf (a\<lparr>xl_world := w\<rparr>) = (int (length bs), buf', a\<lparr>xl_world := w'\<rparr>)"
    "starts buf' (xs @ bs)" "stream w' = rest" "sent w' = sent w"
proof (rule gw_recvD [OF assms(1), of "a\<lparr>xl_world := w\<rparr>" bs rest "length bs" "length xs" buf])
  fix w'
  assume *: "recv_into N (length xs) (length bs) buf (a\<lparr>xl_world := w\<rparr>) = (int (length bs), overwrite (length xs) bs buf, a\<lparr>xl_world := w, xl_world := w'\<rparr>)"
    "stream w' = rest" "sent w' = sent (xl_world (a\<lparr>xl_world := w\<rparr>))"
  have "starts (overwrite (length xs) bs buf) (xs @ bs)"
    using assms(2,3) by (simp add: starts_def overwrite_length overwrite_take)
  with * show thesis using that [of _ w'] by simp
qed (use assms(4) in simp_all)

text \<open>A turn on a frame that has arrived: the buffer starts with it, and it is sent when the checksum fits.\<close>

lemma listen_turn_frame:
  assumes env: "gw_env X N stream sent" and len: "length buf = 1024" "length ys < 256"
    and st: "stream (xl_world a) = spi_frame ys cs @ rest"
  obtains buf' w where "listen_turn send N (buf, a) = (if cs = xl_checksum ys then (buf', send (a\<lparr>xl_world := w\<rparr>) buf') else (buf', a\<lparr>xl_world := w\<rparr>))"
    "starts buf' (([0x01, of_nat (length ys)] @ ys) @ [cs])"
    "stream w = (if cs = xl_checksum ys then rest else 0x0A # rest)" "sent w = sent (xl_world a)"
proof -
  let ?n = "length ys"
  have s: "stream (xl_world a) = [0x01] @ ([of_nat ?n] @ (ys @ ([cs] @ ([0x0A] @ rest))))" using st by (simp add: spi_frame_def)
  have "starts buf []" using len by (simp add: starts_def)
  from recv_more [OF env this _ s, of a] obtain b1 w1 where 1: "recv_into N 0 1 buf a = (1, b1, a\<lparr>xl_world := w1\<rparr>)" "starts b1 [0x01]"
    "stream w1 = [of_nat ?n] @ (ys @ ([cs] @ ([0x0A] @ rest)))" "sent w1 = sent (xl_world a)" by auto
  from recv_more [OF env 1(2) _ 1(3), of a] obtain b2 w2 where 2: "recv_into N 1 1 b1 (a\<lparr>xl_world := w1\<rparr>) = (1, b2, a\<lparr>xl_world := w2\<rparr>)"
    "starts b2 [0x01, of_nat ?n]" "stream w2 = ys @ ([cs] @ ([0x0A] @ rest))" "sent w2 = sent w1" by auto
  from recv_more [OF env 2(2) _ 2(3), of a] obtain b3 w3 where 3: "recv_into N 2 ?n b2 (a\<lparr>xl_world := w2\<rparr>) = (int ?n, b3, a\<lparr>xl_world := w3\<rparr>)"
    "starts b3 ([0x01, of_nat ?n] @ ys)" "stream w3 = [cs] @ ([0x0A] @ rest)" "sent w3 = sent w2" using len by (auto simp: numeral_2_eq_2)
  from recv_more [OF env 3(2) _ 3(3), of a] obtain b4 w4 where 4: "recv_into N (2 + ?n) 1 b3 (a\<lparr>xl_world := w3\<rparr>) = (1, b4, a\<lparr>xl_world := w4\<rparr>)"
    "starts b4 (([0x01, of_nat ?n] @ ys) @ [cs])" "stream w4 = [0x0A] @ rest" "sent w4 = sent w3" using len by auto
  from recv_more [OF env 4(2) _ 4(3), of a] obtain b5 w5 where 5: "recv_into N (2 + ?n + 1) 1 b4 (a\<lparr>xl_world := w4\<rparr>) = (1, b5, a\<lparr>xl_world := w5\<rparr>)"
    "starts b5 ((([0x01, of_nat ?n] @ ys) @ [cs]) @ [0x0A])" "stream w5 = rest" "sent w5 = sent w4" using len by auto
  have p: "take (2 + ?n) b4 = [0x01, of_nat ?n] @ ys" using starts_prefix [OF 4(2)] by simp
  have q: "starts b5 (([0x01, of_nat ?n] @ ys) @ [cs])" using starts_prefix [OF 5(2)] 5(2) by (simp add: starts_def)
  have l: "length b4 = 1024" using 4(2) by (simp add: starts_def)
  have u: "b1 ! 0 = 0x01" "unat (b2 ! 1) = ?n" "unat (b3 ! 1) = ?n" "b4 ! (?n + 2) = cs" "calculate_checksum b4 (?n + 2) = xl_checksum ys"
    using starts_nth [OF 1(2), of 0] starts_nth [OF 2(2), of 1] starts_nth [OF 3(2), of 1] starts_nth [OF 4(2), of "?n + 2"]
      calculate_checksum_is [OF p] len(2) l by (simp_all add: nth_append unsigned_of_nat take_bit_nat_eq_self)
  have "listen_turn send N (buf, a) = (if cs = xl_checksum ys then (b5, send (a\<lparr>xl_world := w5\<rparr>) b5) else (b4, a\<lparr>xl_world := w4\<rparr>))"
    unfolding listen_turn_def Let_def prod.case 1(1) u 2(1) 3(1) 4(1) 5(1) by simp
  then show thesis
    using that [of "if cs = xl_checksum ys then b5 else b4" "if cs = xl_checksum ys then w5 else w4"] q 4(2) 1(4) 2(4) 3(4) 4(3,4) 5(3,4)
    by (simp split: if_splits)
qed

lemma spican_turn_frame:
  assumes env: "gw_env X N stream sent" and len: "length buf = 1024" "length ys < 256"
    and st: "stream (xl_world a) = spi_frame ys cs @ rest"
  obtains buf' w where "spican_turn X N chan (buf, a) = (buf', a\<lparr>xl_world := w\<rparr>)" "length buf' = 1024"
    "stream w = (if cs = xl_checksum ys then rest else 0x0A # rest)"
    "sent w = sent (xl_world a) @ (if cs = xl_checksum ys then map (Pair chan) (can_messages (g_canFdSupport a) ys) else [])"
proof -
  let ?n = "length ys"
  obtain b w1 where t: "listen_turn (\<lambda>a buf. spican_send X chan (unat (buf ! 1)) 0 buf a) N (buf, a) =
      (if cs = xl_checksum ys then (b, spican_send X chan (unat (b ! 1)) 0 b (a\<lparr>xl_world := w1\<rparr>)) else (b, a\<lparr>xl_world := w1\<rparr>))"
    "starts b (([0x01, of_nat ?n] @ ys) @ [cs])" "stream w1 = (if cs = xl_checksum ys then rest else 0x0A # rest)" "sent w1 = sent (xl_world a)"
    by (rule listen_turn_frame [OF env len st])
  have p: "take (2 + ?n) b = [0x01, of_nat ?n] @ ys" using starts_prefix [OF t(2)] by simp
  have l: "length b = 1024" "2 + ?n \<le> length b" using t(2) by (simp_all add: starts_def)
  obtain w2 where w2: "spican_send X chan (unat (b ! 1)) 0 b (a\<lparr>xl_world := w1\<rparr>) = a\<lparr>xl_world := w2\<rparr>" "stream w2 = stream w1"
      "sent w2 = sent w1 @ map (Pair chan) (can_messages (g_canFdSupport a) ys)"
    using spican_send_log [OF env p refl len(2) l(2), of chan 0 "a\<lparr>xl_world := w1\<rparr>"] header_payload(2) [OF p refl len(2) l(2)]
    by (auto simp: can_messages_def comp_def)
  show thesis
    using that [of b "if cs = xl_checksum ys then w2 else w1"] t(1,3,4) w2 l(1) by (simp add: spican_turn_def split: if_splits)
qed

lemma carried_message:
  "take (xm_dlc (can_message fd ys k)) (xm_data (can_message fd ys k)) = take (min 8 (length ys - 8 * k)) (drop (min 8 (length ys - 8 * k) * k) ys)"
proof (cases "8 * k < length ys")
  case True
  define d where "d = min 8 (length ys - 8 * k)"
  have "d * k + d \<le> length ys" unfolding d_def by (rule chunk_fits [OF True])
  then show ?thesis by (simp add: can_message_def Let_def d_def [symmetric])
qed (simp add: can_message_def)

lemma carried_can_messages:
  "carried (can_messages fd ys) = concat (map (\<lambda>k. take (min 8 (length ys - 8 * k)) (drop (min 8 (length ys - 8 * k) * k) ys)) [0..<ceil_div (length ys) 8])"
  by (simp add: carried_def can_messages_def carried_message comp_def)

lemma concat_chunks: "concat (map (\<lambda>k. take n (drop (n * k) ys)) [0..<m]) = take (n * m) ys"
  by (induction m) (simp_all add: add.commute [of n] take_add)

lemma carried_all: "length ys < 8 \<or> 8 dvd length ys \<Longrightarrow> carried (can_messages fd ys) = ys"
proof (cases "8 dvd length ys")
  case True
  then obtain m where m: "length ys = 8 * m" by blast
  have c: "ceil_div (8 * m) 8 = m" by (simp add: ceil_div_def)
  have "map (\<lambda>k. take (min 8 (8 * m - 8 * k)) (drop (min 8 (8 * m - 8 * k) * k) ys)) [0..<m] = map (\<lambda>k. take 8 (drop (8 * k) ys)) [0..<m]"
    by (rule map_cong) (auto simp: min_def)
  then show ?thesis unfolding carried_can_messages m c by (simp only: concat_chunks) (simp add: m)
next
  case False
  assume "length ys < 8 \<or> 8 dvd length ys"
  with False have "0 < length ys" "length ys < 8" by auto
  then show ?thesis by (simp add: carried_can_messages ceil_div_small)
qed

lemma carried_append: "carried (xs @ ys) = carried xs @ carried ys"
  by (simp add: carried_def)

subsection \<open>Properties\<close>

text \<open>Whole frames one after the other.\<close>

lemma spican_frames:
  assumes "gw_env X N stream sent" "length buf = 1024" "list_all (\<lambda>ys. length ys < 256) yss"
    and "stream (xl_world a) = concat (map (\<lambda>ys. spi_frame ys (xl_checksum ys)) yss)"
  shows "\<exists>buf' w. (spican_turn X N chan ^^ length yss) (buf, a) = (buf', a\<lparr>xl_world := w\<rparr>) \<and> stream w = [] \<and>
     sent w = sent (xl_world a) @ map (Pair chan) (concat (map (can_messages (g_canFdSupport a)) yss))"
  using assms(2-4)
proof (induction yss arbitrary: buf a)
  case Nil
  then show ?case by (intro exI [of _ buf] exI [of _ "xl_world a"]) simp
next
  case (Cons ys yss)
  let ?rest = "concat (map (\<lambda>ys. spi_frame ys (xl_checksum ys)) yss)"
  have l: "length ys < 256" "list_all (\<lambda>ys. length ys < 256) yss" and r: "stream (xl_world a) = spi_frame ys (xl_checksum ys) @ ?rest"
    using Cons.prems(2,3) by simp_all
  obtain buf' w where t: "spican_turn X N chan (buf, a) = (buf', a\<lparr>xl_world := w\<rparr>)" "length buf' = 1024"
    "stream w = (if xl_checksum ys = xl_checksum ys then ?rest else 0x0A # ?rest)"
    "sent w = sent (xl_world a) @ (if xl_checksum ys = xl_checksum ys then map (Pair chan) (can_messages (g_canFdSupport a) ys) else [])"
    by (rule spican_turn_frame [OF assms(1) Cons.prems(1) l(1) r])
  have "stream (xl_world (a\<lparr>xl_world := w\<rparr>)) = ?rest" using t(3) by simp
  from Cons.IH [OF t(2) l(2) this]
  obtain buf2 w2 where "(spican_turn X N chan ^^ length yss) (buf', a\<lparr>xl_world := w\<rparr>) = (buf2, a\<lparr>xl_world := w2\<rparr>)" "stream w2 = []"
    "sent w2 = sent w @ map (Pair chan) (concat (map (can_messages (g_canFdSupport a)) yss))" by auto
  with t show ?case by (intro exI [of _ buf2] exI [of _ w2]) (simp add: funpow_Suc_right del: funpow.simps)
qed

text \<open>
  C24. A message of the virtual ECU reaches the CAN bus unchanged: payloads whose length is below eight or a multiple of eight (up to 252 bytes), written as frames with
  their checksum to the data register of the SPI controller, are forwarded over TCP, and when what was forwarded has arrived, the gateway puts exactly these
  bytes on the bus, in order, in messages with the identifiers \<open>0x111 + length + k\<close>, and has read the connection empty.
\<close>

theorem gateway_end_to_end:
  assumes "frame_state s = FRAME_IDLE" "length (frame_buffer s) = 256" "host_ok S log" "chr_connected S (host s)"
    and "\<forall>f b. chr_connected S (chr_write_all S f b) = chr_connected S b"
    and "list_all (\<lambda>ys. ys \<noteq> [] \<and> length ys \<le> 252 \<and> (length ys < 8 \<or> 8 dvd length ys)) yss"
    and "gw_env X N stream sent" "length buf = 1024"
  shows "\<exists>t. dr_writes S (concat (map (\<lambda>ys. spi_frame ys (xl_checksum ys)) yss)) s = Some t \<and> frame_state t = FRAME_IDLE \<and>
    (stream (xl_world a) = concat (drop (length (log (host s))) (log (host t))) \<longrightarrow>
      (\<exists>buf' w ms. (spican_turn X N chan ^^ length yss) (buf, a) = (buf', a\<lparr>xl_world := w\<rparr>) \<and> stream w = [] \<and>
         sent w = sent (xl_world a) @ map (Pair chan) ms \<and> ms = concat (map (can_messages (g_canFdSupport a)) yss) \<and> carried ms = concat yss))"
proof -
  let ?fs = "map (\<lambda>ys. (ys, xl_checksum ys)) yss"
  have "\<forall>(ys, cs) \<in> set ?fs. ys \<noteq> [] \<and> length ys \<le> 252" using assms(6) by (auto simp: list_all_iff)
  from spi_frames_forwarded [OF assms(1-3,5) this] assms(4)
  obtain t where t: "dr_writes S (concat (map (\<lambda>ys. spi_frame ys (xl_checksum ys)) yss)) s = Some t" "frame_state t = FRAME_IDLE"
    "log (host t) = log (host s) @ map (\<lambda>ys. spi_frame ys (xl_checksum ys)) yss" by (auto simp: comp_def)
  have l: "list_all (\<lambda>ys. length ys < 256) yss" using assms(6) by (auto simp: list_all_iff)
  have "carried (concat (map (can_messages fd) yss)) = concat yss" for fd
    using assms(6) by (induction yss) (simp_all add: carried_append carried_all, simp add: carried_def)
  with spican_frames [OF assms(7,8) l, of a chan] t show ?thesis by auto
qed

lemma can_messages_last_byte:
  assumes n: "8 < Suc (length ys)" "\<not> 8 dvd Suc (length ys)"
  shows "can_messages fd (ys @ [b]) = can_messages fd (ys @ [c])"
proof -
  have "can_message fd (ys @ [b]) k = can_message fd (ys @ [c]) k" if "k < ceil_div (Suc (length ys)) 8" for k
  proof -
    define d where "d = min 8 (Suc (length ys) - 8 * k)"
    have k: "8 * k < Suc (length ys)" using that by (simp add: ceil_div_def) 
    have "d * k + d \<noteq> Suc (length ys)"
    proof
      assume e: "d * k + d = Suc (length ys)"
      then have "\<not> 8 dvd d" using n(2) by (metis dvd_add dvd_mult2)
      then have d: "d = Suc (length ys) - 8 * k" "d < 8" by (auto simp: d_def min_def split: if_splits)
      have "k \<noteq> 0" using d n(1) by auto
      moreover have "8 * k + d = d * k + d" using d(1) k e by simp
      ultimately show False using d(2) by simp
    qed
    with chunk_fits [OF k] have "d * k + d \<le> length ys" unfolding d_def by linarith
    then have "d \<le> length ys - d * k" "d * k - length ys = 0" by linarith+
    then show ?thesis by (simp add: can_message_def Let_def d_def [symmetric])
  qed
  then show ?thesis by (simp add: can_messages_def)
qed

text \<open>
  C25. A payload longer than eight bytes whose length is not a multiple of eight does not reach the bus: the last message is read from the wrong place of the buffer
  (\<^verbatim>\<open>msg.dlc * count\<close> instead of \<^verbatim>\<open>8 * count\<close>), and whatever the last byte of the payload is, the gateway puts the same messages on the bus.
\<close>

theorem gateway_loses_last_byte:
  assumes "gw_env X N stream sent" "length buf = 1024" "length buf' = 1024"
    and "8 < Suc (length ys)" "\<not> 8 dvd Suc (length ys)" "Suc (length ys) < 256"
    and "stream (xl_world a) = spi_frame (ys @ [b]) (xl_checksum (ys @ [b])) @ rest"
    and "stream (xl_world a') = spi_frame (ys @ [c]) (xl_checksum (ys @ [c])) @ rest'"
    and "sent (xl_world a) = sent (xl_world a')" "g_canFdSupport a = g_canFdSupport a'"
  shows "sent (xl_world (snd (spican_turn X N chan (buf, a)))) = sent (xl_world (snd (spican_turn X N chan (buf', a'))))"
proof -
  have l: "length (ys @ [b]) < 256" "length (ys @ [c]) < 256" using assms(6) by simp_all
  obtain b1 w1 where "spican_turn X N chan (buf, a) = (b1, a\<lparr>xl_world := w1\<rparr>)"
    "sent w1 = sent (xl_world a) @ (if xl_checksum (ys @ [b]) = xl_checksum (ys @ [b]) then map (Pair chan) (can_messages (g_canFdSupport a) (ys @ [b])) else [])"
    by (rule spican_turn_frame [OF assms(1,2) l(1) assms(7)])
  moreover obtain b2 w2 where "spican_turn X N chan (buf', a') = (b2, a'\<lparr>xl_world := w2\<rparr>)"
    "sent w2 = sent (xl_world a') @ (if xl_checksum (ys @ [c]) = xl_checksum (ys @ [c]) then map (Pair chan) (can_messages (g_canFdSupport a') (ys @ [c])) else [])"
    by (rule spican_turn_frame [OF assms(1,3) l(2) assms(8)])
  ultimately show ?thesis using can_messages_last_byte [OF assms(4,5), of "g_canFdSupport a" b c] assms(9,10) by simp
qed

text \<open>
  A frame with a wrong checksum is dropped whole, and the gateway is at the start of the next frame two turns later (the second one skips the end marker).
\<close>

theorem gateway_drops_bad_checksum:
  assumes "gw_env X N stream sent" "length buf = 1024" "length ys < 256" "cs \<noteq> xl_checksum ys"
    and "stream (xl_world a) = spi_frame ys cs @ rest"
  shows "\<exists>buf' w. spican_turn X N chan (spican_turn X N chan (buf, a)) = (buf', a\<lparr>xl_world := w\<rparr>) \<and> stream w = rest \<and> sent w = sent (xl_world a)"
proof -
  obtain b1 w1 where t: "spican_turn X N chan (buf, a) = (b1, a\<lparr>xl_world := w1\<rparr>)" "length b1 = 1024"
    "stream w1 = (if cs = xl_checksum ys then rest else 0x0A # rest)"
    "sent w1 = sent (xl_world a) @ (if cs = xl_checksum ys then map (Pair chan) (can_messages (g_canFdSupport a) ys) else [])"
    by (rule spican_turn_frame [OF assms(1-3,5)])
  have s: "stream w1 = [0x0A] @ rest" using t(3) assms(4) by simp
  have b: "starts b1 []" "length ([] :: 8 word list) + length [0x0A :: 8 word] \<le> 1024" using t(2) by (simp_all add: starts_def)
  from recv_more [OF assms(1) b s, of a] obtain b2 w2 where r: "recv_into N 0 1 b1 (a\<lparr>xl_world := w1\<rparr>) = (1, b2, a\<lparr>xl_world := w2\<rparr>)"
    "starts b2 [0x0A]" "stream w2 = rest" "sent w2 = sent w1" by auto
  have "spican_turn X N chan (b1, a\<lparr>xl_world := w1\<rparr>) = (b2, a\<lparr>xl_world := w2\<rparr>)"
    using r(1) starts_nth [OF r(2), of 0] by (simp add: spican_turn_def listen_turn_def)
  then show ?thesis using t(1,4) r(3,4) assms(4) by (intro exI [of _ b2] exI [of _ w2]) simp
qed

text \<open>
  The gateway of \<^verbatim>\<open>xlUartCanDemo.c\<close> always sends eight bytes: it is exact for payloads of eight bytes, cuts longer ones off, and sends the checksum of the frame as
  the eighth byte of a payload of seven.
\<close>

theorem uartcan_sends_eight:
  assumes "gw_env X N stream sent" "length buf = 1024" "7 \<le> length ys" "length ys < 256"
    and "stream (xl_world a) = spi_frame ys (xl_checksum ys) @ rest"
  shows "\<exists>buf' w. uartcan_turn X N chan (buf, a) = (buf', a\<lparr>xl_world := w\<rparr>) \<and> stream w = rest \<and>
    sent w = sent (xl_world a) @ [(chan, \<lparr>xm_ex = g_canFdSupport a, xm_id = 0x111, xm_flags = 0, xm_dlc = 8,
      xm_data = take 8 (ys @ [xl_checksum ys]) @ replicate (if g_canFdSupport a then 56 else 0) 0\<rparr>)]"
proof -
  let ?n = "length ys" and ?cs = "xl_checksum ys"
  obtain b w1 where t: "listen_turn (\<lambda>a buf. uartcan_send X chan buf a) N (buf, a) =
      (if ?cs = xl_checksum ys then (b, uartcan_send X chan b (a\<lparr>xl_world := w1\<rparr>)) else (b, a\<lparr>xl_world := w1\<rparr>))"
    "starts b (([0x01, of_nat ?n] @ ys) @ [?cs])" "stream w1 = (if ?cs = xl_checksum ys then rest else 0x0A # rest)" "sent w1 = sent (xl_world a)"
    by (rule listen_turn_frame [OF assms(1,2,4,5)])
  have d: "map (\<lambda>i. b ! (2 + i)) [0..<8] = take 8 (ys @ [?cs])"
  proof (rule nth_equalityI)
    fix i
    assume "i < length (map (\<lambda>i. b ! (2 + i)) [0..<8])"
    then show "map (\<lambda>i. b ! (2 + i)) [0..<8] ! i = take 8 (ys @ [?cs]) ! i"
      using starts_nth [OF t(2), of "2 + i"] assms(3) by (simp add: nth_append)
  qed (use assms(3) in simp)
  obtain st w where w: "demoTransmitWithPayload X chan 0x111 (take 8 (ys @ [?cs])) 8 (a\<lparr>xl_world := w1\<rparr>) = (st, (a\<lparr>xl_world := w1\<rparr>)\<lparr>xl_world := w\<rparr>)"
    "stream w = stream (xl_world (a\<lparr>xl_world := w1\<rparr>))"
    "sent w = sent (xl_world (a\<lparr>xl_world := w1\<rparr>)) @ [(chan, \<lparr>xm_ex = g_canFdSupport (a\<lparr>xl_world := w1\<rparr>), xm_id = 0x111, xm_flags = 0, xm_dlc = 8,
      xm_data = take 8 (take 8 (ys @ [?cs])) @ replicate ((if g_canFdSupport (a\<lparr>xl_world := w1\<rparr>) then XL_CAN_MAX_DATA_LEN else 8) - 8) 0\<rparr>)]"
    by (rule transmitD [OF gw_env_bus [OF assms(1)] order_refl])
  have "uartcan_send X chan b (a\<lparr>xl_world := w1\<rparr>) = a\<lparr>xl_world := w\<rparr>" unfolding uartcan_send_def d using w(1) by simp
  then show ?thesis using t w(2,3) by (intro exI [of _ b] exI [of _ w]) (simp add: uartcan_turn_def min_def)
qed

subsection \<open>Lines\<close>

text \<open>The complete lines of a text, and what follows the last line break.\<close>

fun line_split :: "8 word list \<Rightarrow> 8 word list list \<times> 8 word list" where
  "line_split [] = ([], [])"
| "line_split (b # bs) =
     (let (ls, r) = line_split bs in
      if b = 0x0A then ([] # ls, r) else case ls of [] \<Rightarrow> ([], b # r) | l # ls' \<Rightarrow> ((b # l) # ls', r))"

lemma line_split_none: "0x0A \<notin> set bs \<Longrightarrow> line_split bs = ([], bs)"
  by (induction bs) auto

lemma line_split_first: "0x0A \<notin> set xs \<Longrightarrow> line_split (xs @ 0x0A # ys) = (xs # fst (line_split ys), snd (line_split ys))"
  by (induction xs) (auto simp: case_prod_beta)

lemma line_split_rest: "0x0A \<notin> set (snd (line_split bs))"
  by (induction bs) (auto simp: case_prod_beta split: list.splits)

lemma line_split_append: "line_split (xs @ ys) = (fst (line_split xs) @ fst (line_split (snd (line_split xs) @ ys)), snd (line_split (snd (line_split xs) @ ys)))"
  by (induction xs) (auto simp: case_prod_beta split: list.splits)

lemma tcan_lines_is: "tcan_lines X chan ID rb a = (snd (line_split rb), fold (tcan_line X chan ID) (fst (line_split rb)) a)"
proof (induction X chan ID rb a rule: tcan_lines.induct)
  case (1 X chan ID rb a)
  show ?case
  proof (cases "0x0A \<in> set rb")
    case True
    then obtain xs ys where x: "rb = xs @ 0x0A # ys" "0x0A \<notin> set xs" by (metis split_list_first)
    then have "takeWhile (\<lambda>b. b \<noteq> 0x0A) rb = xs" "dropWhile (\<lambda>b. b \<noteq> 0x0A) rb = 0x0A # ys"
      by (auto simp: takeWhile_append dropWhile_append)
    then show ?thesis using 1 [OF True] True line_split_first [OF x(2), of ys] unfolding x(1) [symmetric]
      by (simp add: tcan_lines.simps [of X chan ID rb])
  next
    case False
    then show ?thesis by (simp add: tcan_lines.simps line_split_none)
  qed
qed

definition line_message :: "bool \<Rightarrow> 32 word \<Rightarrow> 8 word list \<Rightarrow> XlMsg" where
  "line_message fd ID l = \<lparr>xm_ex = fd, xm_id = ID, xm_flags = 0, xm_dlc = min 8 (length l),
     xm_data = take 8 l @ replicate ((if fd then XL_CAN_MAX_DATA_LEN else 8) - min 8 (length l)) 0\<rparr>"

text \<open>A connection that delivers the given pieces one by one.\<close>

definition gw_chunks :: "'w XlSys \<Rightarrow> 'w XlNet \<Rightarrow> ('w \<Rightarrow> 8 word list list) \<Rightarrow> ('w \<Rightarrow> (XLaccess \<times> XlMsg) list) \<Rightarrow> bool" where
  "gw_chunks X N chunks sent \<longleftrightarrow>
     (\<forall>w c cs. chunks w = c # cs \<longrightarrow> fst (gw_recv N 1023 w) = Some c \<and> chunks (snd (gw_recv N 1023 w)) = cs \<and> sent (snd (gw_recv N 1023 w)) = sent w) \<and>
     gw_bus X chunks sent"

lemma tcan_line_log:
  assumes "gw_chunks X N chunks sent"
  obtains w where "tcan_line X chan ID l a = a\<lparr>xl_world := w\<rparr>" "chunks w = chunks (xl_world a)"
    "sent w = sent (xl_world a) @ [(chan, line_message (g_canFdSupport a) ID l)]"
proof -
  have b: "gw_bus X chunks sent" using assms by (simp add: gw_chunks_def)
  define d where "d = min 8 (length l)"
  have d8: "d \<le> 8" by (simp add: d_def)
  have m: "\<lparr>xm_ex = g_canFdSupport a, xm_id = ID, xm_flags = 0, xm_dlc = d, xm_data = take d (take d l @ replicate (8 - d) 0) @
      replicate ((if g_canFdSupport a then XL_CAN_MAX_DATA_LEN else 8) - d) 0\<rparr> = line_message (g_canFdSupport a) ID l"
    by (simp add: line_message_def d_def min_def)
  obtain st w where w: "demoTransmitWithPayload X chan ID (take d l @ replicate (8 - d) 0) d a = (st, a\<lparr>xl_world := w\<rparr>)" "chunks w = chunks (xl_world a)"
    "sent w = sent (xl_world a) @ [(chan, line_message (g_canFdSupport a) ID l)]"
    by (rule transmitD [OF b d8, of chan ID "take d l @ replicate (8 - d) 0" a, unfolded m])
  have e: "(if 8 < length l then 8 else length l) = d" by (simp add: d_def)
  have "tcan_line X chan ID l a = a\<lparr>xl_world := w\<rparr>"
    unfolding tcan_line_def Let_def e w(1) by simp
  then show thesis using that w(2,3) by blast
qed

lemma tcan_lines_log:
  assumes "gw_chunks X N chunks sent"
  shows "\<exists>w. fold (tcan_line X chan ID) ls a = a\<lparr>xl_world := w\<rparr> \<and> chunks w = chunks (xl_world a) \<and>
    sent w = sent (xl_world a) @ map (\<lambda>l. (chan, line_message (g_canFdSupport a) ID l)) ls"
proof (induction ls arbitrary: a)
  case Nil
  then show ?case by (intro exI [of _ "xl_world a"]) simp
next
  case (Cons l ls)
  obtain w where "tcan_line X chan ID l a = a\<lparr>xl_world := w\<rparr>" "chunks w = chunks (xl_world a)"
    "sent w = sent (xl_world a) @ [(chan, line_message (g_canFdSupport a) ID l)]" by (rule tcan_line_log [OF assms])
  then show ?case using Cons.IH [of "a\<lparr>xl_world := w\<rparr>"] by auto
qed

text \<open>Turns until the given number is reached, the connection ends, or the behaviour is undefined.\<close>

fun tcan_turns :: "'w XlSys \<Rightarrow> 'w XlNet \<Rightarrow> XLaccess \<Rightarrow> 32 word \<Rightarrow> nat \<Rightarrow> 8 word list \<times> 'w XlApp \<Rightarrow> (8 word list \<times> 'w XlApp) option" where
  "tcan_turns X N chan ID 0 ra = Some ra"
| "tcan_turns X N chan ID (Suc n) ra =
     (case tcan_turn X N chan ID ra of None \<Rightarrow> None | Some (go, ra') \<Rightarrow> if go then tcan_turns X N chan ID n ra' else Some ra')"

lemma c_string_id: "0 \<notin> set bs \<Longrightarrow> c_string bs = bs"
  unfolding c_string_def by (rule takeWhile_eq_all_conv [THEN iffD2]) auto

lemma tcan_turn_chunk:
  assumes env: "gw_chunks X N chunks sent" and c: "chunks (xl_world a) = c # cs" "c \<noteq> []" "0 \<notin> set c" "length rb + length c < 1024"
  obtains w where "tcan_turn X N chan ID (rb, a) = Some (True, snd (line_split (rb @ c)), a\<lparr>xl_world := w\<rparr>)" "chunks w = cs"
    "sent w = sent (xl_world a) @ map (\<lambda>l. (chan, line_message (g_canFdSupport a) ID l)) (fst (line_split (rb @ c)))"
proof -
  obtain w1 where w1: "gw_recv N 1023 (xl_world a) = (Some c, w1)" "chunks w1 = cs" "sent w1 = sent (xl_world a)"
  proof -
    have "fst (gw_recv N 1023 (xl_world a)) = Some c" "chunks (snd (gw_recv N 1023 (xl_world a))) = cs" "sent (snd (gw_recv N 1023 (xl_world a))) = sent (xl_world a)"
      using env c(1) by (simp_all add: gw_chunks_def)
    then show thesis using that [of "snd (gw_recv N 1023 (xl_world a))"] by (simp add: prod_eq_iff)
  qed
  obtain w where w: "fold (tcan_line X chan ID) (fst (line_split (rb @ c))) (a\<lparr>xl_world := w1\<rparr>) = a\<lparr>xl_world := w\<rparr>" "chunks w = cs"
    "sent w = sent w1 @ map (\<lambda>l. (chan, line_message (g_canFdSupport a) ID l)) (fst (line_split (rb @ c)))"
    using tcan_lines_log [OF env, of chan ID "fst (line_split (rb @ c))" "a\<lparr>xl_world := w1\<rparr>"] w1(2) by auto
  then show thesis using that [of w] w1 c(2-4) by (simp add: tcan_turn_def tcan_lines_is c_string_id)
qed

text \<open>
  The line gateway of \<^verbatim>\<open>xlTCANdemo.c\<close> does not depend on how TCP cuts the text: as long as no piece contains a null byte and the text after the last line break
  fits the buffer together with the next piece, the messages sent are the complete lines of the whole text, cut to eight bytes, and the rest of it is kept.
\<close>

theorem tcan_cuts_do_not_matter:
  assumes "gw_chunks X N chunks sent" "chunks (xl_world a) = cs" "list_all (\<lambda>c. c \<noteq> [] \<and> 0 \<notin> set c) cs"
    and "\<forall>k < length cs. length (snd (line_split (concat (take k cs)))) + length (cs ! k) < 1024"
  shows "\<exists>w. tcan_turns X N chan ID (length cs) ([], a) = Some (snd (line_split (concat cs)), a\<lparr>xl_world := w\<rparr>) \<and>
    sent w = sent (xl_world a) @ map (\<lambda>l. (chan, line_message (g_canFdSupport a) ID l)) (fst (line_split (concat cs)))"
proof -
  have "\<exists>w. tcan_turns X N chan ID (length cs) (rb, a) = Some (snd (line_split (rb @ concat cs)), a\<lparr>xl_world := w\<rparr>) \<and>
      sent w = sent (xl_world a) @ map (\<lambda>l. (chan, line_message (g_canFdSupport a) ID l)) (fst (line_split (rb @ concat cs)))"
    if "chunks (xl_world a) = cs" "list_all (\<lambda>c. c \<noteq> [] \<and> 0 \<notin> set c) cs" "0x0A \<notin> set rb"
      "\<forall>k < length cs. length (snd (line_split (rb @ concat (take k cs)))) + length (cs ! k) < 1024" for rb a
    using that
  proof (induction cs arbitrary: rb a)
    case Nil
    then show ?case by (intro exI [of _ "xl_world a"]) (simp add: line_split_none)
  next
    case (Cons c cs)
    have "length rb + length c < 1024" using Cons.prems(4) [rule_format, of 0] Cons.prems(3) by (simp add: line_split_none)
    then obtain w where w: "tcan_turn X N chan ID (rb, a) = Some (True, snd (line_split (rb @ c)), a\<lparr>xl_world := w\<rparr>)" "chunks w = cs"
      "sent w = sent (xl_world a) @ map (\<lambda>l. (chan, line_message (g_canFdSupport a) ID l)) (fst (line_split (rb @ c)))"
      using tcan_turn_chunk [OF assms(1), of a c cs rb chan ID] Cons.prems(1,2) by auto
    let ?rb = "snd (line_split (rb @ c))"
    have "length (snd (line_split (?rb @ concat (take k cs)))) + length (cs ! k) < 1024" if "k < length cs" for k
      using Cons.prems(4) [rule_format, of "Suc k"] that line_split_append [of "rb @ c" "concat (take k cs)"] by simp
    with Cons.IH [of "a\<lparr>xl_world := w\<rparr>" ?rb] w Cons.prems(2) line_split_rest [of "rb @ c"] line_split_append [of "rb @ c" "concat cs"]
    show ?case by auto
  qed
  from this [of a "[]"] assms show ?thesis by simp
qed

subsection \<open>Examples\<close>

text \<open>Connections that have received the given bytes, or the given pieces.\<close>

definition gw_demo_net :: "(8 word list \<times> 'l) XlNet" where
  "gw_demo_net = \<lparr>gw_recv = \<lambda>n (bs, l). (Some (take n bs), (drop n bs, l))\<rparr>"

definition gw_demo_pieces :: "(8 word list list \<times> 'l) XlNet" where
  "gw_demo_pieces = \<lparr>gw_recv = \<lambda>n (cs, l). case cs of [] \<Rightarrow> (None, (cs, l)) | c # cs' \<Rightarrow> (Some c, (cs', l))\<rparr>"

lemma gw_demo_env: "gw_env (xl_demo cfg) gw_demo_net fst snd"
  by (simp add: gw_env_def gw_bus_def xl_demo_def gw_demo_net_def case_prod_beta)

lemma gw_demo_chunks: "gw_chunks (xl_demo cfg) gw_demo_pieces fst snd"
  by (auto simp: gw_chunks_def gw_bus_def xl_demo_def gw_demo_pieces_def)

definition gw_demo_buf :: "8 word list" where
  "gw_demo_buf = replicate 1024 0"

lemma gw_demo_len: "length gw_demo_buf = 1024"
  by (simp add: gw_demo_buf_def)

theorem gateway_end_to_end_witness:
  "\<exists>t w. dr_writes spi_demo_sys (concat (map (\<lambda>ys. spi_frame ys (xl_checksum ys)) [[0xAA, 0xBB], replicate 16 7])) spi_demo = Some t \<and>
     snd ((spican_turn (xl_demo []) gw_demo_net 1 ^^ 2) (gw_demo_buf, xl_demo_app (concat (host t), []))) = (xl_demo_app (concat (host t), []))\<lparr>xl_world := w\<rparr> \<and>
     carried (map snd (snd w)) = 0xAA # 0xBB # replicate 16 7"
proof -
  let ?yss = "[[0xAA, 0xBB], replicate 16 7] :: 8 word list list"
  have l: "list_all (\<lambda>ys. ys \<noteq> [] \<and> length ys \<le> 252 \<and> (length ys < 8 \<or> 8 dvd length ys)) ?yss" by (simp add: dvd_def exI [of _ 2])
  have c: "chr_connected spi_demo_sys (host spi_demo)" "\<forall>f b. chr_connected spi_demo_sys (chr_write_all spi_demo_sys f b) = chr_connected spi_demo_sys b"
    by (simp_all add: spi_demo_ok)
  note e = gateway_end_to_end [OF spi_demo_ok(2,3,1) c l gw_demo_env [of "[]"] gw_demo_len]
  have "\<exists>t. dr_writes spi_demo_sys (concat (map (\<lambda>ys. spi_frame ys (xl_checksum ys)) ?yss)) spi_demo = Some t"
    using e [of "xl_demo_app ([], [])" 1] by blast
  then obtain t where t: "dr_writes spi_demo_sys (concat (map (\<lambda>ys. spi_frame ys (xl_checksum ys)) ?yss)) spi_demo = Some t" by blast
  have h: "fst (xl_world (xl_demo_app (concat (host t), []))) = concat (drop (length (id (host spi_demo))) (id (host t)))"
    by (simp add: xl_demo_app_def spi_demo_ok)
  have n: "length ?yss = 2" by simp
  let ?a = "xl_demo_app (concat (host t), []) :: (8 word list \<times> (XLaccess \<times> XlMsg) list) XlApp"
  from e [of ?a 1, unfolded n t] h
  obtain buf' w ms where "(spican_turn (xl_demo []) gw_demo_net 1 ^^ 2) (gw_demo_buf, ?a) = (buf', ?a\<lparr>xl_world := w\<rparr>)"
    "snd w = snd (xl_world ?a) @ map (Pair 1) ms" "carried ms = concat ?yss" by (metis option.inject)
  then show ?thesis using t by (intro exI [of _ t] exI [of _ w]) (simp add: xl_demo_app_def comp_def)
qed

theorem gateway_loses_last_byte_witness:
  "snd (xl_world (snd (spican_turn (xl_demo []) gw_demo_net 1 (gw_demo_buf, xl_demo_app (spi_frame (replicate 8 1 @ [2]) (xl_checksum (replicate 8 1 @ [2])), []))))) =
   snd (xl_world (snd (spican_turn (xl_demo []) gw_demo_net 1 (gw_demo_buf, xl_demo_app (spi_frame (replicate 8 1 @ [3]) (xl_checksum (replicate 8 1 @ [3])), [])))))"
  by (rule gateway_loses_last_byte [OF gw_demo_env gw_demo_len gw_demo_len, where rest = "[]" and rest' = "[]" and ys = "replicate 8 1" and b = 2 and c = 3])
    (simp_all add: xl_demo_app_def)

theorem gateway_drops_bad_checksum_witness:
  "\<exists>buf' w. spican_turn (xl_demo []) gw_demo_net 1 (spican_turn (xl_demo []) gw_demo_net 1 (gw_demo_buf, xl_demo_app (spi_frame [5] 0 @ [1, 2], []))) =
     (buf', (xl_demo_app (spi_frame [5] 0 @ [1, 2], []))\<lparr>xl_world := w\<rparr>) \<and> fst w = [1, 2] \<and> snd w = []"
proof -
  have c: "(0 :: 8 word) \<noteq> xl_checksum [5]" by (simp add: xl_checksum_def)
  have s: "fst (xl_world (xl_demo_app (spi_frame [5] 0 @ [1, 2], [] :: (XLaccess \<times> XlMsg) list))) = spi_frame [5] 0 @ [1, 2]" by (simp add: xl_demo_app_def)
  from gateway_drops_bad_checksum [OF gw_demo_env gw_demo_len _ c s, of "[]" 1] show ?thesis by (simp add: xl_demo_app_def)
qed

theorem uartcan_sends_eight_witness:
  "\<exists>buf' w. uartcan_turn (xl_demo []) gw_demo_net 1 (gw_demo_buf, xl_demo_app (spi_frame (replicate 7 1) (xl_checksum (replicate 7 1)), [])) =
     (buf', (xl_demo_app (spi_frame (replicate 7 1) (xl_checksum (replicate 7 1)), []))\<lparr>xl_world := w\<rparr>) \<and>
     carried (map snd (snd w)) = replicate 7 1 @ [xl_checksum (replicate 7 1)]"
proof -
  let ?w = "(spi_frame (replicate 7 1) (xl_checksum (replicate 7 1)), []) :: 8 word list \<times> (XLaccess \<times> XlMsg) list"
  have s: "fst (xl_world (xl_demo_app ?w)) = spi_frame (replicate 7 1) (xl_checksum (replicate 7 1)) @ []" by (simp add: xl_demo_app_def)
  from uartcan_sends_eight [OF gw_demo_env gw_demo_len _ _ s, of "[]" 1]
  obtain buf' w where "uartcan_turn (xl_demo []) gw_demo_net 1 (gw_demo_buf, xl_demo_app ?w) = (buf', (xl_demo_app ?w)\<lparr>xl_world := w\<rparr>)"
    "snd w = snd (xl_world (xl_demo_app ?w)) @ [(1, \<lparr>xm_ex = g_canFdSupport (xl_demo_app ?w), xm_id = 0x111, xm_flags = 0, xm_dlc = 8,
      xm_data = take 8 (replicate 7 1 @ [xl_checksum (replicate 7 1)]) @ replicate (if g_canFdSupport (xl_demo_app ?w) then 56 else 0) 0\<rparr>)]"
    by auto
  then show ?thesis by (intro exI [of _ buf'] exI [of _ w]) (simp add: carried_def xl_demo_app_def)
qed

theorem tcan_cuts_do_not_matter_witness:
  "\<exists>w. tcan_turns (xl_demo []) gw_demo_pieces 1 5 2 ([], xl_demo_app ([[65], [66, 0x0A, 67]], [])) = Some ([67], (xl_demo_app ([[65], [66, 0x0A, 67]], []))\<lparr>xl_world := w\<rparr>) \<and>
     carried (map snd (snd w)) = [65, 66]"
proof -
  let ?w = "([[65], [66, 0x0A, 67]], []) :: 8 word list list \<times> (XLaccess \<times> XlMsg) list"
  have f: "fst (xl_world (xl_demo_app ?w)) = [[65], [66, 0x0A, 67]]" by (simp add: xl_demo_app_def)
  have k: "\<forall>k < length [[65], [66, 0x0A, 67 :: 8 word]]. length (snd (line_split (concat (take k [[65], [66, 0x0A, 67]])))) + length ([[65], [66, 0x0A, 67 :: 8 word]] ! k) < 1024"
    by (auto simp: less_Suc_eq numeral_2_eq_2)
  have n: "length [[65], [66, 0x0A, 67 :: 8 word]] = 2" and s: "line_split (concat [[65], [66, 0x0A, 67]]) = ([[65, 66]], [67])" by simp_all
  from tcan_cuts_do_not_matter [OF gw_demo_chunks f _ k, of "[]" 1 5, unfolded n s]
  obtain w where "tcan_turns (xl_demo []) gw_demo_pieces 1 5 2 ([], xl_demo_app ?w) = Some ([67], (xl_demo_app ?w)\<lparr>xl_world := w\<rparr>)"
    "snd w = snd (xl_world (xl_demo_app ?w)) @ [(1, line_message (g_canFdSupport (xl_demo_app ?w)) 5 [65, 66])]" by auto
  then show ?thesis by (intro exI [of _ w]) (simp add: xl_demo_app_def line_message_def carried_def)
qed

end
