(* ===== verification/XlVmcal.thy ===== *)
theory XlVmcal
  imports XlDriver
begin

text \<open>
  \<^verbatim>\<open>source_XL-Driver/src/customCANdemo.c\<close>, which replaces the CAN driver of a virtual ECU by the vendor library: initialisation, sending and receiving, above the library of
  \<open>XlDriver\<close>. \<^verbatim>\<open>CANType\<close> is \<open>g_canFdSupport\<close>, and the static counter of \<^verbatim>\<open>CAN_Transmit\<close> is \<open>xl_cnt\<close>. Copying past the end of the data field of a message is undefined
  behaviour, here \<open>None\<close>.
\<close>

record 'w Vmcal =
  vm_app :: "'w XlApp"
  vm_isInitialized :: bool
  vm_ChanMaskTx :: XLaccess

definition CAN_DriverInit :: "'w XlSys \<Rightarrow> XLaccess \<Rightarrow> nat \<Rightarrow> 'w XlApp \<Rightarrow> XLstatus \<times> XLaccess \<times> nat \<times> 'w XlApp" where
  "CAN_DriverInit X tx idx a =
     (let (st, a) = xl_call (xlOpenDriver X) a;
          (st, a) = (if st = XL_SUCCESS then
                       let (r, cfg, w) = xlGetDriverConfig X (xl_world a) in (r, a\<lparr>g_xlDrvConfig := cfg, xl_world := w\<rparr>)
                     else (st, a));
          (st, tx, idx, a) = (if st = XL_SUCCESS then select_channels tx idx a else (st, tx, idx, a));
          (st, a) = open_port X (g_BaudRate a) st a
      in (st, tx, idx, a))"

definition CAN_CreateRxThread :: "'w XlSys \<Rightarrow> 'w XlApp \<Rightarrow> XLstatus \<times> 'w XlApp" where
  "CAN_CreateRxThread X a = demoCreateRxThread X a"

definition vMCAL_CAN_Init :: "'w XlSys \<Rightarrow> 'w Vmcal \<Rightarrow> 'w Vmcal" where
  "vMCAL_CAN_Init X v =
     (if vm_isInitialized v then v
      else let (st, tx, idx, a) = CAN_DriverInit X (vm_ChanMaskTx v) 0 (vm_app v);
               (st, a) = (if st = XL_SUCCESS then CAN_CreateRxThread X a else (st, a));
               (st, a) = (if st = XL_SUCCESS then xl_call (xlActivateChannel X (g_xlPortHandle a) (g_xlChannelMask a)) a else (st, a))
           in v\<lparr>vm_app := a, vm_ChanMaskTx := tx, vm_isInitialized := True\<rparr>)"

definition CAN_Transmit :: "'w XlSys \<Rightarrow> 32 word \<Rightarrow> XLaccess \<Rightarrow> 8 word list \<Rightarrow> nat \<Rightarrow> 'w XlApp \<Rightarrow> (XLstatus \<times> 'w XlApp) option" where
  "CAN_Transmit X txID chan payload dataLength a =
     (if g_canFdSupport a then
        let flags = [0, XL_CAN_TXMSG_FLAG_EDL, XL_CAN_TXMSG_FLAG_EDL OR XL_CAN_TXMSG_FLAG_BRS] ! (xl_cnt a mod 3);
            dlc = (if flags AND XL_CAN_TXMSG_FLAG_EDL \<noteq> 0 then 15 else 8);
            a = a\<lparr>xl_cnt := Suc (xl_cnt a)\<rparr>
        in if XL_CAN_MAX_DATA_LEN < dataLength then None
           else Some (xl_call (xlCanTransmit X (g_xlPortHandle a) chan
                  \<lparr>xm_ex = True, xm_id = txID, xm_flags = flags, xm_dlc = dlc,
                   xm_data = take dataLength payload @ replicate (XL_CAN_MAX_DATA_LEN - dataLength) 0\<rparr>) a)
      else if 8 < dataLength then None
      else Some (xl_call (xlCanTransmit X (g_xlPortHandle a) chan
             \<lparr>xm_ex = False, xm_id = txID, xm_flags = 0, xm_dlc = 8, xm_data = take dataLength payload @ replicate (8 - dataLength) 0\<rparr>) a))"

definition vMCAL_Stop :: "'w XlSys \<Rightarrow> 'w XlApp \<Rightarrow> XLstatus \<times> 'w XlApp" where
  "vMCAL_Stop X a =
     (let (st, a) = xl_call (xlDeactivateChannel X (g_xlPortHandle a) (g_xlChannelMask a)) a;
          a = (if st = XL_SUCCESS \<and> g_xlPortHandle a \<noteq> XL_INVALID_PORTHANDLE then snd (xl_call (xlClosePort X (g_xlPortHandle a)) a) else a)
      in (XL_SUCCESS, a\<lparr>g_xlPortHandle := XL_INVALID_PORTHANDLE, xl_world := xlCloseDriver X (xl_world a)\<rparr>))"

text \<open>The message that \<^verbatim>\<open>main\<close> sends again and again, and one turn of its loop.\<close>

definition main_payload :: "8 word list" where
  "main_payload = [0x0C, 0x10, 0x34, 0x01, 0x12, 0x00, 0xBC, 0x61, 0x4E, 0x11, 0x22, 0x33]"

definition main_turn :: "'w XlSys \<Rightarrow> XLaccess \<Rightarrow> 'w XlApp \<Rightarrow> (XLstatus \<times> 'w XlApp) option" where
  "main_turn X chan a = CAN_Transmit X 0x123 chan main_payload (length main_payload) a"

text \<open>
  \<^verbatim>\<open>RxThread\<close>: the inner loop on the results of \<^verbatim>\<open>xlReceive\<close> (status and event). It yields the events that are shown, how often the transmit queue is flushed, and \<^verbatim>\<open>guard\<close>.
\<close>

abbreviation "XL_ERR_QUEUE_IS_EMPTY \<equiv> 10 :: nat"

fun rx_loop :: "bool \<Rightarrow> nat \<Rightarrow> (XLstatus \<times> XlMsg) list \<Rightarrow> XlMsg list \<times> nat \<times> nat" where
  "rx_loop silent guard [] = ([], 0, guard)"
| "rx_loop silent guard ((st, ev) # rs) =
     (let (shown, flushed, guard) =
            (if st \<noteq> XL_ERR_QUEUE_IS_EMPTY \<and> guard = 0 then
               if xm_id ev \<noteq> 848 \<and> 0 < xm_dlc ev \<and> xm_dlc ev \<le> 8
               then (if silent then ([], 1, guard) else ([ev], 1, Suc guard))
               else ([], 0, guard)
             else ([], 0, 0))
      in if st = XL_SUCCESS then let (shown', flushed', guard) = rx_loop silent guard rs in (shown @ shown', flushed + flushed', guard)
         else (shown, flushed, guard))"

subsection \<open>Properties\<close>

fun every_second :: "'a list \<Rightarrow> 'a list" where
  "every_second [] = []"
| "every_second [x] = [x]"
| "every_second (x # y # xs) = x # every_second xs"

text \<open>
  Of a burst of messages that all pass the filter, the receive thread shows every second one: \<^verbatim>\<open>guard\<close> makes the message after a shown one fall into the branch that only resets it.
\<close>

theorem vmcal_shows_every_second:
  assumes "list_all (\<lambda>ev. xm_id ev \<noteq> 848 \<and> 0 < xm_dlc ev \<and> xm_dlc ev \<le> 8) evs"
  shows "fst (rx_loop False 0 (map (Pair XL_SUCCESS) evs @ [(XL_ERR_QUEUE_IS_EMPTY, e)])) = every_second evs"
  using assms by (induction evs rule: every_second.induct) (simp_all add: case_prod_beta)

text \<open>
  The message of the program's own \<^verbatim>\<open>main\<close> is twelve bytes long and overruns the eight bytes of a classic CAN message; with CAN FD it is sent whole in two of three
  messages and cut to eight bytes in the third.
\<close>

theorem vmcal_main_overruns:
  "main_turn X chan a = None \<longleftrightarrow> \<not> g_canFdSupport a"
  by (simp add: main_turn_def CAN_Transmit_def main_payload_def Let_def)

text \<open>A start that failed is not repeated.\<close>

theorem vmcal_init_once: "vMCAL_CAN_Init X (vMCAL_CAN_Init X v) = vMCAL_CAN_Init X v"
  by (simp add: vMCAL_CAN_Init_def Let_def case_prod_beta)

end
