(* ===== verification/CanSpi.thy ===== *)
theory CanSpi
  imports CanIf
begin

text \<open>
  Supervision of the CAN controller, \<^verbatim>\<open>CanSpi.c\<close>, above \<open>CanIf\<close>: power-on initialisation, health checks over SPI, reset and fast sleep. The code is one protothread
  (\<^verbatim>\<open>pt.h\<close>, which is not in the repository): it gives up the processor at marked points and continues there when the awaited condition holds. A sub-thread
  is a function from the state in which it starts to the one in which it ends, and \<open>cs_block\<close> is what the rest of the system does to the state while the thread waits
  at a point. Loops that wait for the outside world without a limit have a fuel, the number of their turns, and yield \<open>None\<close> when it is used up. The SPI driver, the CAN and
  transceiver drivers, pins, power manager, watchdog and clock are fields of \<open>CanSpiSys\<close>; logging has no counterpart.
\<close>

unbundle bit_operations_syntax

subsection \<open>Data\<close>

datatype nCANSPIteState = CANSPI_INITSTATE_PWRON | CANSPI_INITSTATE_INIT | CANSPI_INITSTATE_FAULT | CANSPI_INITSTATE_READY

datatype nCANSPIteFastSleep = nCANSPIkeFS_None | nCANSPIkeFS_Request | nCANSPIkeFS_Complete

text \<open>The points where the thread waits: for the SPI driver, for a delay in milliseconds, for the CAN hardware to be awake, after a reset, and between two looks for interrupts.\<close>

datatype PtPoint = PtSpi | PtDelay nat | PtAwake | PtReset | PtYield

abbreviation "TCANRAkeDevID0 \<equiv> 0x0000 :: nat"
abbreviation "TCANRAkeTCANVer \<equiv> 0x0008 :: nat"
abbreviation "TCANRAkeIrqFlags \<equiv> 0x0820 :: nat"
abbreviation "TCANRAkeCREL \<equiv> 0x1000 :: nat"
abbreviation "TCANRAkeENDN \<equiv> 0x1004 :: nat"
abbreviation "TCANRAkeDBTP \<equiv> 0x100C :: nat"
abbreviation "TCANOPkeRead \<equiv> 0x41 :: 8 word"
abbreviation "TCANOPkeWrite \<equiv> 0x61 :: 8 word"
abbreviation "CANSPI_DEVID_RETRIES_MAX \<equiv> 100 :: nat"
abbreviation "CANSPI_INIT_RETRIES_MAX \<equiv> 2 :: nat"

text \<open>Bits of the interrupt flags (\<^verbatim>\<open>nTCAN4550tuIrqFlags\<close>, fields from the least significant bit) and \<^verbatim>\<open>kuTxClrErr\<close>.\<close>

abbreviation "IRQ_TSD \<equiv> 19 :: nat"
abbreviation "IRQ_PWRON \<equiv> 20 :: nat"
abbreviation "IRQ_UVIO \<equiv> 21 :: nat"
abbreviation "IRQ_UVSUP \<equiv> 22 :: nat"
abbreviation "kuTxClrErr \<equiv> 0x00780000 :: 32 word"

record 'e CanSpiSt =
  nCANSPIeState :: nCANSPIteState
  nCANSPIbPwrReqID :: nat
  nCANSPIeFastSleep :: nCANSPIteFastSleep
  nCANSPIlwTimer :: nat
  cs_CanIf :: "'e CanIf_St"

record 'e CanSpiSys =
  cs_CanIfSys :: "'e CanIf_Sys"
  CanIfTrcvId :: nat
  DET_PRINTF :: bool
  cs_block :: "PtPoint \<Rightarrow> 'e CanSpiSt \<Rightarrow> 'e CanSpiSt"
  PT_DELAY_START :: "'e CanIf_St \<Rightarrow> nat"
  PT_DELAY_CHK_EXPIRED :: "nat \<Rightarrow> nat \<Rightarrow> 'e CanIf_St \<Rightarrow> bool"
  cs_SpiTransfer :: "8 word list \<Rightarrow> 'e CanIf_St \<Rightarrow> 8 word list \<times> 'e CanIf_St"
  Dio_WriteReset :: "bool \<Rightarrow> 'e CanIf_St \<Rightarrow> 'e CanIf_St"
  rbdPwrReq_GetID :: "'e CanIf_St \<Rightarrow> nat"
  rbdPwrReq_RequestCPU :: "nat \<Rightarrow> 'e CanIf_St \<Rightarrow> 'e CanIf_St"
  rbdPwrReq_ReleaseCPU :: "nat \<Rightarrow> 'e CanIf_St \<Rightarrow> 'e CanIf_St"
  rbdPwrVM_UnderVoltage :: "'e CanIf_St \<Rightarrow> bool"
  Can_HasPendingISR :: "'e CanIf_St \<Rightarrow> bool"
  Can_Irq_Handler :: "nat \<Rightarrow> 'e CanIf_St \<Rightarrow> 'e CanIf_St"
  Can_DriverInit :: "'e CanIf_St \<Rightarrow> bool \<times> 'e CanIf_St"
  CanTrcv_DriverInit :: "'e CanIf_St \<Rightarrow> bool \<times> 'e CanIf_St"
  cs_DriversUninit :: "'e CanIf_St \<Rightarrow> 'e CanIf_St"
  WdgMgr_Resume :: "'e CanIf_St \<Rightarrow> 'e CanIf_St"
  WdgMgr_Stop :: "'e CanIf_St \<Rightarrow> 'e CanIf_St"
  ClockP_getCpuFreq :: "'e CanIf_St \<Rightarrow> nat"
  CPUdelay :: "nat \<Rightarrow> 'e CanIf_St \<Rightarrow> 'e CanIf_St"
  cs_ReportInitError :: "'e CanIf_St \<Rightarrow> 'e CanIf_St"

definition cs_on :: "('e CanIf_St \<Rightarrow> 'e CanIf_St) \<Rightarrow> 'e CanSpiSt \<Rightarrow> 'e CanSpiSt" where
  "cs_on f s = s\<lparr>cs_CanIf := f (cs_CanIf s)\<rparr>"

definition cs_req :: "'e CanSpiSys \<Rightarrow> 'e CanSpiSt \<Rightarrow> 'e CanSpiSt" where
  "cs_req S s = cs_on (rbdPwrReq_RequestCPU S (nCANSPIbPwrReqID s)) s"

definition cs_rel :: "'e CanSpiSys \<Rightarrow> 'e CanSpiSt \<Rightarrow> 'e CanSpiSt" where
  "cs_rel S s = cs_on (rbdPwrReq_ReleaseCPU S (nCANSPIbPwrReqID s)) s"

text \<open>\<^verbatim>\<open>PT_DELAY\<close>: the timer is started, and the thread waits until it has expired.\<close>

definition cs_delay :: "'e CanSpiSys \<Rightarrow> nat \<Rightarrow> 'e CanSpiSt \<Rightarrow> 'e CanSpiSt" where
  "cs_delay S ms s = cs_block S (PtDelay ms) (s\<lparr>nCANSPIlwTimer := PT_DELAY_START S (cs_CanIf s)\<rparr>)"

subsection \<open>Registers of the controller\<close>

definition be_bytes :: "32 word \<Rightarrow> 8 word list" where
  "be_bytes x = [ucast (drop_bit 24 x), ucast (drop_bit 16 x), ucast (drop_bit 8 x), ucast x]"

definition be_word :: "8 word list \<Rightarrow> 32 word" where
  "be_word bs = push_bit 24 (ucast (bs ! 0)) OR push_bit 16 (ucast (bs ! 1)) OR push_bit 8 (ucast (bs ! 2)) OR ucast (bs ! 3)"

text \<open>\<^verbatim>\<open>nCANSPI_cTransceive\<close>: a command of eight bytes, address and data with the most significant byte first; \<open>reply\<close> is whether the caller wants the reply.\<close>

definition nCANSPI_cTransceive :: "'e CanSpiSys \<Rightarrow> nat \<Rightarrow> 32 word \<Rightarrow> bool \<Rightarrow> 'e CanSpiSt \<Rightarrow> 32 word \<times> 'e CanSpiSt" where
  "nCANSPI_cTransceive S eRegAddr lwTXData reply s =
     (let tx = [if reply then TCANOPkeRead else TCANOPkeWrite, of_nat (eRegAddr div 256), of_nat eRegAddr, 1] @ be_bytes lwTXData;
          s = cs_block S PtSpi s;
          (rx, w) = cs_SpiTransfer S tx (cs_CanIf s)
      in (be_word (drop 4 rx), s\<lparr>cs_CanIf := w\<rparr>))"

text \<open>The identifier is compared as memory: the word whose bytes, least significant first, are the letters of \<^verbatim>\<open>TCAN\<close>.\<close>

definition nCANSPI_cCommsTest :: "'e CanSpiSys \<Rightarrow> 'e CanSpiSt \<Rightarrow> bool \<times> 'e CanSpiSt" where
  "nCANSPI_cCommsTest S s = (let (lwDevID, s) = nCANSPI_cTransceive S TCANRAkeDevID0 (NOT 0) True s in (lwDevID = 0x4E414354, s))"

definition nCANSPI_cChkFaultFlags :: "'e CanSpiSys \<Rightarrow> 'e CanSpiSt \<Rightarrow> bool \<times> bool \<times> 'e CanSpiSt" where
  "nCANSPI_cChkFaultFlags S s =
     (let (flags, s) = nCANSPI_cTransceive S TCANRAkeIrqFlags (NOT 0) True s;
          (dbtp, s) = nCANSPI_cTransceive S TCANRAkeDBTP (NOT 0) True s;
          (endn, s) = nCANSPI_cTransceive S TCANRAkeENDN (NOT 0) True s;
          oBadReg = (dbtp = 0x00000A33 \<or> endn \<noteq> 0x87654321);
          oPwrOn = (bit flags IRQ_PWRON \<or> bit flags IRQ_UVSUP \<or> bit flags IRQ_UVIO);
          oThermErr = bit flags IRQ_TSD;
          oPwrOn = (oPwrOn \<or> oBadReg);
          s = (if oThermErr then snd (nCANSPI_cTransceive S TCANRAkeIrqFlags kuTxClrErr False s) else s)
      in (oPwrOn, oThermErr, s))"

definition nCANSPI_cQueryVersion :: "'e CanSpiSys \<Rightarrow> 'e CanSpiSt \<Rightarrow> 'e CanSpiSt" where
  "nCANSPI_cQueryVersion S s =
     (if DET_PRINTF S
      then snd (nCANSPI_cTransceive S TCANRAkeCREL (NOT 0) True (snd (nCANSPI_cTransceive S TCANRAkeTCANVer (NOT 0) True s)))
      else s)"

subsection \<open>Initialisation\<close>

definition nCANSPI_oInitTCAN :: "'e CanSpiSys \<Rightarrow> 'e CanSpiSt \<Rightarrow> bool \<times> 'e CanSpiSt" where
  "nCANSPI_oInitTCAN S s = (let (ok, w) = Can_DriverInit S (cs_CanIf s) in (ok, s\<lparr>cs_CanIf := w\<rparr>))"

definition nCANSPI_oInitTrcv :: "'e CanSpiSys \<Rightarrow> 'e CanSpiSt \<Rightarrow> bool \<times> 'e CanSpiSt" where
  "nCANSPI_oInitTrcv S s = (let (ok, w) = CanTrcv_DriverInit S (cs_CanIf s) in (ok, s\<lparr>cs_CanIf := w\<rparr>))"

definition nCANSPI_oSetTrcvNorm :: "'e CanSpiSys \<Rightarrow> 'e CanSpiSt \<Rightarrow> bool \<times> 'e CanSpiSt" where
  "nCANSPI_oSetTrcvNorm S s =
     (let (r, w) = CanIf_SetTrcvMode (cs_CanIfSys S) (CanIfCtrlId (cs_CanIfSys S)) CANTRCV_TRCVMODE_NORMAL (cs_CanIf s) in (r = E_OK, s\<lparr>cs_CanIf := w\<rparr>))"

definition nCANSPI_oStartCtrl :: "'e CanSpiSys \<Rightarrow> 'e CanSpiSt \<Rightarrow> bool \<times> 'e CanSpiSt" where
  "nCANSPI_oStartCtrl S s =
     (True, cs_on (\<lambda>w. snd (CanIf_SetControllerMode (cs_CanIfSys S) (CanIfCtrlId (cs_CanIfSys S)) CANIF_CS_STARTED w)) s)"

datatype IdPoll = IdFound | IdUnderVoltage | IdFailed

fun poll_id :: "'e CanSpiSys \<Rightarrow> nat \<Rightarrow> 'e CanSpiSt \<Rightarrow> IdPoll \<times> 'e CanSpiSt" where
  "poll_id S 0 s = (IdFailed, s)"
| "poll_id S (Suc n) s =
     (if rbdPwrVM_UnderVoltage S (cs_CanIf s) then (IdUnderVoltage, s)
      else let (oOk, s) = nCANSPI_cCommsTest S s in if oOk then (IdFound, s) else poll_id S n (cs_delay S 5 s))"

fun try_init :: "'e CanSpiSys \<Rightarrow> ('e CanSpiSt \<Rightarrow> bool \<times> 'e CanSpiSt) \<Rightarrow> nat \<Rightarrow> 'e CanSpiSt \<Rightarrow> bool \<times> 'e CanSpiSt" where
  "try_init S f 0 s = (False, s)"
| "try_init S f (Suc n) s = (let (ok, s) = f s in if ok then (True, s) else try_init S f n (cs_delay S 2 s))"

fun run_inits :: "'e CanSpiSys \<Rightarrow> ('e CanSpiSt \<Rightarrow> bool \<times> 'e CanSpiSt) list \<Rightarrow> 'e CanSpiSt \<Rightarrow> bool \<times> 'e CanSpiSt" where
  "run_inits S [] s = (True, s)"
| "run_inits S (f # fs) s =
     (let (ok, s) = try_init S f CANSPI_INIT_RETRIES_MAX s in if ok then run_inits S fs s else (False, cs_on (cs_ReportInitError S) s))"

definition kaf_oInit :: "'e CanSpiSys \<Rightarrow> ('e CanSpiSt \<Rightarrow> bool \<times> 'e CanSpiSt) list" where
  "kaf_oInit S = [nCANSPI_oInitTCAN S, nCANSPI_oInitTrcv S, nCANSPI_oSetTrcvNorm S, nCANSPI_oStartCtrl S]"

definition nCANSPI_cPwrOnInit :: "'e CanSpiSys \<Rightarrow> bool \<Rightarrow> 'e CanSpiSt \<Rightarrow> 'e CanSpiSt" where
  "nCANSPI_cPwrOnInit S oPartial s =
     (let (p, s) = poll_id S CANSPI_DEVID_RETRIES_MAX (cs_req S s) in
      if p \<noteq> IdFound then s
      else let s = (if nCANSPIeState s = CANSPI_INITSTATE_PWRON then nCANSPI_cQueryVersion S s else s);
               (ok, s) = run_inits S (drop (if oPartial then 2 else 0) (kaf_oInit S)) (s\<lparr>nCANSPIeState := CANSPI_INITSTATE_INIT\<rparr>)
           in if ok then cs_rel S ((cs_on (WdgMgr_Resume S) s)\<lparr>nCANSPIeState := CANSPI_INITSTATE_READY\<rparr>) else s)"

subsection \<open>Supervision\<close>

definition nCANSPI_vSetUnavailable :: "'e CanSpiSys \<Rightarrow> nCANSPIteState \<Rightarrow> 'e CanSpiSt \<Rightarrow> 'e CanSpiSt" where
  "nCANSPI_vSetUnavailable S eState s =
     cs_on (\<lambda>w. CanIf_ControllerBusOff (cs_CanIfSys S) 0 (snd (CanIf_SetControllerMode (cs_CanIfSys S) 0 CANIF_CS_STOPPED w)))
       (s\<lparr>nCANSPIeState := eState\<rparr>)"

definition nCANSPI_cChkHealth :: "'e CanSpiSys \<Rightarrow> 'e CanSpiSt \<Rightarrow> bool \<times> 'e CanSpiSt" where
  "nCANSPI_cChkHealth S s =
     (let (oDevIDOk, s) = nCANSPI_cCommsTest S (cs_req S (cs_block S PtAwake s));
          (oPwrOn, oThermErr, s) = (if oDevIDOk then nCANSPI_cChkFaultFlags S s else (False, False, s))
      in if \<not> oDevIDOk \<or> oPwrOn then (True, s)
         else let s = cs_rel S s;
                  s = (if oThermErr \<and> nCANSPIeState s = CANSPI_INITSTATE_READY then nCANSPI_vSetUnavailable S CANSPI_INITSTATE_FAULT s else s);
                  s = (if \<not> oThermErr \<and> nCANSPIeState s \<noteq> CANSPI_INITSTATE_READY then nCANSPI_cPwrOnInit S True s else s)
              in (False, s))"

fun wait_voltage :: "'e CanSpiSys \<Rightarrow> nat \<Rightarrow> 'e CanSpiSt \<Rightarrow> 'e CanSpiSt option" where
  "wait_voltage S 0 s = None"
| "wait_voltage S (Suc n) s = (if rbdPwrVM_UnderVoltage S (cs_CanIf s) then wait_voltage S n (cs_delay S 20 s) else Some s)"

definition nCANSPI_cResetTCAN :: "'e CanSpiSys \<Rightarrow> nat \<Rightarrow> 'e CanSpiSt \<Rightarrow> 'e CanSpiSt option" where
  "nCANSPI_cResetTCAN S fuel s =
     (let s = cs_on (cs_DriversUninit S) (cs_req S s);
          s = cs_on (WdgMgr_Stop S) (nCANSPI_vSetUnavailable S CANSPI_INITSTATE_INIT s)
      in map_option (\<lambda>s. let s = cs_on (Dio_WriteReset S True) s;
                             lwDelay = u32 (int (ClockP_getCpuFreq S (cs_CanIf s)) * 40) div 1000000 div 3
                         in cs_block S PtReset (cs_on (Dio_WriteReset S False) (cs_on (CPUdelay S lwDelay) s)))
           (wait_voltage S fuel s))"

fun poll_awake :: "'e CanSpiSys \<Rightarrow> nat \<Rightarrow> 'e CanSpiSt \<Rightarrow> 'e CanSpiSt" where
  "poll_awake S 0 s = s"
| "poll_awake S (Suc n) s = (let (oOk, s) = nCANSPI_cCommsTest S s in if oOk then s else poll_awake S n (cs_delay S 5 s))"

definition nCANSPI_cFastSleep :: "'e CanSpiSys \<Rightarrow> nat \<Rightarrow> 'e CanSpiSt \<Rightarrow> 'e CanSpiSt option" where
  "nCANSPI_cFastSleep S fuel s =
     (let C = cs_CanIfSys S; s = cs_on (\<lambda>w. snd (CanIf_SetControllerMode C (CanIfCtrlId C) CANIF_CS_STOPPED w)) s in
      map_option (\<lambda>s. let s = poll_awake S CANSPI_DEVID_RETRIES_MAX s;
                          s = cs_on (\<lambda>w. snd (CanIf_SetTrcvMode C (CanIfTrcvId S) CANTRCV_TRCVMODE_SLEEP w)) s;
                          s = cs_on (\<lambda>w. snd (CanIf_SetControllerMode C (CanIfCtrlId C) CANIF_CS_SLEEP w)) s
                      in cs_rel S s) (nCANSPI_cResetTCAN S fuel s))"

subsection \<open>The services and the thread\<close>

definition CanSpi_Init :: "'e CanSpiSys \<Rightarrow> 'e CanSpiSt \<Rightarrow> 'e CanSpiSt" where
  "CanSpi_Init S s =
     (let s = cs_on (Dio_WriteReset S False) s;
          s = s\<lparr>nCANSPIeState := CANSPI_INITSTATE_PWRON, nCANSPIlwTimer := PT_DELAY_START S (cs_CanIf s), nCANSPIbPwrReqID := rbdPwrReq_GetID S (cs_CanIf s)\<rparr>
      in cs_req S s)"

definition CanSpi_CanHwReady :: "'e CanSpiSt \<Rightarrow> bool" where
  "CanSpi_CanHwReady s = (nCANSPIeState s = CANSPI_INITSTATE_READY)"


definition CanSpi_QryFastSleep :: "'e CanSpiSt \<Rightarrow> bool" where
  "CanSpi_QryFastSleep s = (nCANSPIeFastSleep s \<noteq> nCANSPIkeFS_Request)"

fun isr_loop :: "'e CanSpiSys \<Rightarrow> nat \<Rightarrow> 'e CanSpiSt \<Rightarrow> 'e CanSpiSt option" where
  "isr_loop S 0 s = None"
| "isr_loop S (Suc n) s =
     (let s = (if Can_HasPendingISR S (cs_CanIf s) then cs_on (Can_Irq_Handler S (CanIfTrcvId S)) s else s);
          s = cs_block S PtYield s
      in if PT_DELAY_CHK_EXPIRED S (nCANSPIlwTimer s) 50 (cs_CanIf s) then Some s
         else if nCANSPIeFastSleep s \<noteq> nCANSPIkeFS_None then Some s else isr_loop S n s)"

text \<open>
  \<^verbatim>\<open>CanSpi_Cyclic\<close>: the thread starts with the initialisation, then turns in its running loop, and sleeps for ever once fast sleep was requested. A step runs it from the start
  of a phase to the next.
\<close>

datatype CanSpiPhase = PhStart | PhRun | PhSleep | PhEnd

definition canspi_reset :: "'e CanSpiSys \<Rightarrow> nat \<Rightarrow> 'e CanSpiSt \<Rightarrow> (CanSpiPhase \<times> 'e CanSpiSt) option" where
  "canspi_reset S fuel s = map_option (Pair PhStart) (nCANSPI_cResetTCAN S fuel s)"

definition CanSpi_Cyclic :: "'e CanSpiSys \<Rightarrow> nat \<Rightarrow> CanSpiPhase \<times> 'e CanSpiSt \<Rightarrow> (CanSpiPhase \<times> 'e CanSpiSt) option" where
  "CanSpi_Cyclic S fuel ps =
     (case ps of
        (PhStart, s) \<Rightarrow>
          (let s = nCANSPI_cPwrOnInit S False s in
           if nCANSPIeState s \<noteq> CANSPI_INITSTATE_READY then canspi_reset S fuel s else Some (PhRun, s))
      | (PhRun, s) \<Rightarrow>
          (case isr_loop S fuel (s\<lparr>nCANSPIlwTimer := PT_DELAY_START S (cs_CanIf s)\<rparr>) of
             None \<Rightarrow> None
           | Some s \<Rightarrow>
               if nCANSPIeFastSleep s \<noteq> nCANSPIkeFS_None then Some (PhSleep, s)
               else let (oRestart, s) = nCANSPI_cChkHealth S s in if oRestart then canspi_reset S fuel s else Some (PhRun, s))
      | (PhSleep, s) \<Rightarrow> map_option (\<lambda>s. (PhEnd, s\<lparr>nCANSPIeFastSleep := nCANSPIkeFS_Complete\<rparr>)) (nCANSPI_cFastSleep S fuel s)
      | (PhEnd, s) \<Rightarrow> Some (PhEnd, s))"

subsection \<open>Reading registers\<close>

lemma be_roundtrip: "be_word (be_bytes x) = x"
proof (rule bit_word_eqI)
  fix n
  assume "n < LENGTH(32)"
  then show "bit (be_word (be_bytes x)) n = bit x n"
    by (cases "n < 8"; cases "n < 16"; cases "n < 24") (auto simp: be_word_def be_bytes_def bit_simps)
qed

text \<open>A controller that answers a read command with the value of the register, and registers that do not change while the thread waits for SPI.\<close>

definition spi_device :: "'e CanSpiSys \<Rightarrow> (nat \<Rightarrow> 'e CanIf_St \<Rightarrow> 32 word) \<Rightarrow> bool" where
  "spi_device S reg \<longleftrightarrow>
     (\<forall>a d w. a < 65536 \<longrightarrow> (\<exists>h. length h = 4 \<and> cs_SpiTransfer S ([TCANOPkeRead, of_nat (a div 256), of_nat a, 1] @ d) w = (h @ be_bytes (reg a w), w))) \<and>
     (\<forall>a s. reg a (cs_CanIf (cs_block S PtSpi s)) = reg a (cs_CanIf s))"

lemma read_register:
  assumes "spi_device S reg" "a < 65536"
  shows "nCANSPI_cTransceive S a d True s = (reg a (cs_CanIf s), cs_block S PtSpi s)"
proof -
  let ?s = "cs_block S PtSpi s"
  obtain h where h: "length h = 4" "cs_SpiTransfer S ([TCANOPkeRead, of_nat (a div 256), of_nat a, 1] @ be_bytes d) (cs_CanIf ?s) = (h @ be_bytes (reg a (cs_CanIf ?s)), cs_CanIf ?s)"
    using assms unfolding spi_device_def by blast
  have "reg a (cs_CanIf ?s) = reg a (cs_CanIf s)" using assms(1) by (simp add: spi_device_def)
  then show ?thesis using h by (simp add: nCANSPI_cTransceive_def Let_def be_roundtrip)
qed

text \<open>
  The fault flags as the registers define them: a restart is due after a power-on or an undervoltage, when the bit timing is back at its reset value or when the
  endian register cannot be read; the thermal flag is reported as it is, and cleared by exactly one write when it is set.
\<close>

theorem canspi_fault_flags:
  assumes "spi_device S reg"
  shows "\<exists>s'. nCANSPI_cChkFaultFlags S s =
    (bit (reg 0x820 (cs_CanIf s)) 20 \<or> bit (reg 0x820 (cs_CanIf s)) 21 \<or> bit (reg 0x820 (cs_CanIf s)) 22 \<or>
       reg 0x100C (cs_CanIf s) = 0xA33 \<or> reg 0x1004 (cs_CanIf s) \<noteq> 0x87654321,
     bit (reg 0x820 (cs_CanIf s)) 19, s') \<and>
    s' = (let s3 = cs_block S PtSpi (cs_block S PtSpi (cs_block S PtSpi s))
          in if bit (reg 0x820 (cs_CanIf s)) 19 then snd (nCANSPI_cTransceive S 0x820 0x780000 False s3) else s3)"
proof -
  have k: "reg a (cs_CanIf (cs_block S PtSpi s)) = reg a (cs_CanIf s)" for a s using assms by (simp add: spi_device_def)
  show ?thesis by (auto simp: nCANSPI_cChkFaultFlags_def read_register [OF assms] k Let_def)
qed

subsection \<open>The request that keeps the processor awake\<close>

text \<open>
  What is used of the rest of the system: \<open>held\<close> tells whether the power request with an identifier is set; requesting and releasing do what they say,
  other services leave it alone, and while the thread waits, the others leave its variables alone, except that they may ask for fast sleep,
  which also sets the request.
\<close>

definition quiet :: "(nat \<Rightarrow> 'e \<Rightarrow> bool) \<Rightarrow> ('e CanIf_St \<Rightarrow> 'e CanIf_St) \<Rightarrow> bool" where
  "quiet held f \<longleftrightarrow> (\<forall>i w. held i (ci_ext (f w)) = held i (ci_ext w))"

definition cs_held :: "(nat \<Rightarrow> 'e \<Rightarrow> bool) \<Rightarrow> 'e CanSpiSt \<Rightarrow> bool" where
  "cs_held held s = held (nCANSPIbPwrReqID s) (ci_ext (cs_CanIf s))"

text \<open>From one state to a later one of the thread: its identifier stays, and the request and the wish for fast sleep change only as the others may change them.\<close>

definition along :: "(nat \<Rightarrow> 'e \<Rightarrow> bool) \<Rightarrow> 'e CanSpiSt \<Rightarrow> 'e CanSpiSt \<Rightarrow> bool" where
  "along held s s' \<longleftrightarrow> nCANSPIbPwrReqID s' = nCANSPIbPwrReqID s \<and> nCANSPIeFastSleep s' \<in> {nCANSPIeFastSleep s, nCANSPIkeFS_Request} \<and>
     (cs_held held s' = cs_held held s \<or> cs_held held s' \<and> nCANSPIeFastSleep s' = nCANSPIkeFS_Request)"

definition keeps :: "(nat \<Rightarrow> 'e \<Rightarrow> bool) \<Rightarrow> 'e CanSpiSt \<Rightarrow> 'e CanSpiSt \<Rightarrow> bool" where
  "keeps held s s' \<longleftrightarrow> along held s s' \<and> nCANSPIeState s' = nCANSPIeState s"

definition cs_env :: "'e CanSpiSys \<Rightarrow> (nat \<Rightarrow> 'e \<Rightarrow> bool) \<Rightarrow> bool" where
  "cs_env S held \<longleftrightarrow>
     (\<forall>i w. held i (ci_ext (rbdPwrReq_RequestCPU S i w)) \<and> \<not> held i (ci_ext (rbdPwrReq_ReleaseCPU S i w))) \<and>
     (\<forall>p s. keeps held s (cs_block S p s)) \<and>
     (\<forall>tx. quiet held (\<lambda>w. snd (cs_SpiTransfer S tx w))) \<and> (\<forall>b. quiet held (Dio_WriteReset S b)) \<and> (\<forall>n. quiet held (CPUdelay S n)) \<and>
     quiet held (cs_DriversUninit S) \<and> quiet held (WdgMgr_Resume S) \<and> quiet held (WdgMgr_Stop S) \<and> quiet held (cs_ReportInitError S) \<and>
     quiet held (\<lambda>w. snd (Can_DriverInit S w)) \<and> quiet held (\<lambda>w. snd (CanTrcv_DriverInit S w)) \<and> (\<forall>i. quiet held (Can_Irq_Handler S i)) \<and>
     (\<forall>i t. quiet held (\<lambda>w. snd (CanTrcv_SetControllerMode (cs_CanIfSys S) i t w))) \<and> (\<forall>i m. quiet held (\<lambda>w. snd (CanTrcv_SetOpMode (cs_CanIfSys S) i m w))) \<and>
     (\<forall>i. quiet held (\<lambda>w. snd (snd (CanTrcv_GetOpMode (cs_CanIfSys S) i w)))) \<and>
     (\<forall>i. quiet held (opt_call (CanTrcv_ClearTXBRP (cs_CanIfSys S)) i)) \<and> (\<forall>i. quiet held (opt_call (CanTrcv_DisableAllInterrupts (cs_CanIfSys S)) i)) \<and>
     (\<forall>i. quiet held (CanSM_ControllerBusOff (cs_CanIfSys S) i)) \<and> (\<forall>a e. quiet held (ci_Det_ReportError (cs_CanIfSys S) a e))"

lemma keeps_refl: "keeps held s s"
  by (simp add: keeps_def along_def)

lemma along_trans: "along held s t \<Longrightarrow> along held t u \<Longrightarrow> along held s u"
  by (auto simp: along_def)

lemma keeps_trans: "keeps held s t \<Longrightarrow> keeps held t u \<Longrightarrow> keeps held s u"
  using along_trans by (auto simp: keeps_def)

lemma keeps_on: "quiet held f \<Longrightarrow> keeps held s (cs_on f s)"
  by (simp add: quiet_def keeps_def along_def cs_on_def cs_held_def)

lemma keeps_set: "quiet held f \<Longrightarrow> keeps held s (s\<lparr>cs_CanIf := f (cs_CanIf s)\<rparr>)"
  using keeps_on by (simp add: cs_on_def)

lemma keeps_timer: "keeps held s (s\<lparr>nCANSPIlwTimer := t\<rparr>)"
  by (simp add: keeps_def along_def cs_held_def)

lemma keeps_block: "cs_env S held \<Longrightarrow> keeps held s (cs_block S p s)"
  by (simp add: cs_env_def)

lemma keeps_delay: "cs_env S held \<Longrightarrow> keeps held s (cs_delay S ms s)"
  unfolding cs_delay_def by (rule keeps_trans [OF keeps_timer keeps_block])

lemma keeps_transceive:
  assumes "cs_env S held"
  shows "keeps held s (snd (nCANSPI_cTransceive S a d r s))"
proof -
  define tx where "tx = [if r then TCANOPkeRead else TCANOPkeWrite, of_nat (a div 256), of_nat a, 1] @ be_bytes d"
  let ?s = "cs_block S PtSpi s"
  have "keeps held ?s (?s\<lparr>cs_CanIf := snd (cs_SpiTransfer S tx (cs_CanIf ?s))\<rparr>)"
    by (rule keeps_set [where f = "\<lambda>w. snd (cs_SpiTransfer S tx w)"]) (use assms in \<open>simp add: cs_env_def\<close>)
  moreover have "snd (nCANSPI_cTransceive S a d r s) = ?s\<lparr>cs_CanIf := snd (cs_SpiTransfer S tx (cs_CanIf ?s))\<rparr>"
    unfolding nCANSPI_cTransceive_def tx_def [symmetric] by (simp add: Let_def case_prod_beta)
  ultimately show ?thesis using keeps_trans [OF keeps_block [OF assms]] by simp
qed

lemma keeps_comms: "cs_env S held \<Longrightarrow> keeps held s (snd (nCANSPI_cCommsTest S s))"
  using keeps_transceive by (simp add: nCANSPI_cCommsTest_def case_prod_beta)

lemma keeps_fault_flags: "cs_env S held \<Longrightarrow> keeps held s (snd (snd (nCANSPI_cChkFaultFlags S s)))"
  unfolding nCANSPI_cChkFaultFlags_def Let_def case_prod_beta
  by (auto intro!: keeps_trans [OF keeps_trans [OF keeps_trans [OF keeps_transceive keeps_transceive] keeps_transceive] keeps_transceive]
       keeps_trans [OF keeps_trans [OF keeps_transceive keeps_transceive] keeps_transceive])

lemma keeps_version: "cs_env S held \<Longrightarrow> keeps held s (nCANSPI_cQueryVersion S s)"
  using keeps_trans [OF keeps_transceive keeps_transceive] keeps_refl by (auto simp: nCANSPI_cQueryVersion_def)

lemma keeps_poll_id: "cs_env S held \<Longrightarrow> keeps held s (snd (poll_id S n s))"
proof (induction n arbitrary: s)
  case (Suc n)
  obtain ok t where t: "nCANSPI_cCommsTest S s = (ok, t)" by (cases "nCANSPI_cCommsTest S s")
  have "keeps held s t" using keeps_comms [OF Suc.prems, of s] t by simp
  then show ?case using keeps_trans [OF _ keeps_trans [OF keeps_delay Suc.IH]] Suc.prems by (auto simp: t keeps_refl)
qed (simp add: keeps_refl)

lemma keeps_poll_awake: "cs_env S held \<Longrightarrow> keeps held s (poll_awake S n s)"
proof (induction n arbitrary: s)
  case (Suc n)
  obtain ok t where t: "nCANSPI_cCommsTest S s = (ok, t)" by (cases "nCANSPI_cCommsTest S s")
  have "keeps held s t" using keeps_comms [OF Suc.prems, of s] t by simp
  then show ?case using keeps_trans [OF _ keeps_trans [OF keeps_delay Suc.IH]] Suc.prems by (auto simp: t)
qed (simp add: keeps_refl)

lemma keeps_try_init:
  assumes "cs_env S held" "\<And>s. keeps held s (snd (f s))"
  shows "keeps held s (snd (try_init S f n s))"
proof (induction n arbitrary: s)
  case (Suc n)
  obtain ok t where t: "f s = (ok, t)" by (cases "f s")
  have "keeps held s t" using assms(2) [of s] t by simp
  then show ?case using keeps_trans [OF _ keeps_trans [OF keeps_delay Suc.IH]] assms(1) by (auto simp: t)
qed (simp add: keeps_refl)

lemma keeps_run_inits:
  assumes "cs_env S held" "\<And>f s. f \<in> set fs \<Longrightarrow> keeps held s (snd (f s))"
  shows "keeps held s (snd (run_inits S fs s))"
  using assms(2)
proof (induction fs arbitrary: s)
  case (Cons f fs)
  obtain ok t where t: "try_init S f CANSPI_INIT_RETRIES_MAX s = (ok, t)" by (cases "try_init S f CANSPI_INIT_RETRIES_MAX s")
  have "keeps held s t" using keeps_try_init [OF assms(1), of f s CANSPI_INIT_RETRIES_MAX] Cons.prems t by simp
  moreover have "keeps held t (cs_on (cs_ReportInitError S) t)" using assms(1) by (intro keeps_on) (simp add: cs_env_def)
  moreover have "keeps held t (snd (run_inits S fs t))" using Cons by simp
  ultimately show ?case using keeps_trans [of held s t] by (simp add: t)
qed (simp add: keeps_refl)

lemma quiet_report: "cs_env S held \<Longrightarrow> held i (ci_ext (ci_report (cs_CanIfSys S) a e w)) = held i (ci_ext w)"
  by (simp add: cs_env_def quiet_def ci_report_def)

lemma quiet_SetControllerMode: "cs_env S held \<Longrightarrow> quiet held (\<lambda>w. snd (CanIf_SetControllerMode (cs_CanIfSys S) i m w))"
  using quiet_report [of S held] by (auto simp: quiet_def cs_env_def CanIf_SetControllerMode_def Let_def case_prod_beta split: Can_ReturnType.splits)

lemma quiet_SetTrcvMode: "cs_env S held \<Longrightarrow> quiet held (\<lambda>w. snd (CanIf_SetTrcvMode (cs_CanIfSys S) i m w))"
  using quiet_report [of S held] by (auto simp: quiet_def cs_env_def CanIf_SetTrcvMode_def Let_def case_prod_beta)

lemma quiet_BusOff: "cs_env S held \<Longrightarrow> quiet held (CanIf_ControllerBusOff (cs_CanIfSys S) i)"
  using quiet_report [of S held] by (auto simp: quiet_def cs_env_def CanIf_ControllerBusOff_def)

lemma keeps_inits: "cs_env S held \<Longrightarrow> f \<in> set (kaf_oInit S) \<Longrightarrow> keeps held s (snd (f s))"
proof -
  assume env: "cs_env S held"
  have "keeps held s (snd (nCANSPI_oInitTCAN S s))" "keeps held s (snd (nCANSPI_oInitTrcv S s))"
    using env keeps_set [of held "\<lambda>w. snd (Can_DriverInit S w)" s] keeps_set [of held "\<lambda>w. snd (CanTrcv_DriverInit S w)" s]
    by (simp_all add: nCANSPI_oInitTCAN_def nCANSPI_oInitTrcv_def case_prod_beta cs_env_def)
  moreover have "keeps held s (snd (nCANSPI_oSetTrcvNorm S s))" "keeps held s (snd (nCANSPI_oStartCtrl S s))"
    using keeps_set [OF quiet_SetTrcvMode [OF env], of s] keeps_on [OF quiet_SetControllerMode [OF env], of s]
    by (simp_all add: nCANSPI_oSetTrcvNorm_def nCANSPI_oStartCtrl_def case_prod_beta)
  ultimately show "f \<in> set (kaf_oInit S) \<Longrightarrow> keeps held s (snd (f s))" by (auto simp: kaf_oInit_def)
qed

lemma req_held: "cs_env S held \<Longrightarrow> cs_held held (cs_req S s)"
  by (simp add: cs_env_def cs_held_def cs_req_def cs_on_def)

lemma rel_not_held: "cs_env S held \<Longrightarrow> \<not> cs_held held (cs_rel S s)"
  by (simp add: cs_env_def cs_held_def cs_rel_def cs_on_def)

lemma req_rel_fields:
  "nCANSPIeState (cs_req S s) = nCANSPIeState s" "nCANSPIeFastSleep (cs_req S s) = nCANSPIeFastSleep s" "nCANSPIbPwrReqID (cs_req S s) = nCANSPIbPwrReqID s"
  "nCANSPIeState (cs_rel S s) = nCANSPIeState s" "nCANSPIeFastSleep (cs_rel S s) = nCANSPIeFastSleep s" "nCANSPIbPwrReqID (cs_rel S s) = nCANSPIbPwrReqID s"
  by (simp_all add: cs_req_def cs_rel_def cs_on_def)

lemma keeps_held: "keeps held s t \<Longrightarrow> cs_held held s \<Longrightarrow> cs_held held t"
  by (auto simp: keeps_def along_def)

lemma keeps_state: "keeps held s t \<Longrightarrow> nCANSPIeState t = nCANSPIeState s"
  by (simp add: keeps_def)

lemma PwrOnInit_result:
  fixes p :: bool
  assumes env: "cs_env S held" and st: "nCANSPIeState s \<noteq> CANSPI_INITSTATE_READY"
  defines "t \<equiv> nCANSPI_cPwrOnInit S p s"
  shows "nCANSPIeState t = CANSPI_INITSTATE_READY \<and> \<not> cs_held held t \<or> nCANSPIeState t \<noteq> CANSPI_INITSTATE_READY \<and> cs_held held t"
proof -
  obtain r s1 where s1: "poll_id S CANSPI_DEVID_RETRIES_MAX (cs_req S s) = (r, s1)" by (cases "poll_id S CANSPI_DEVID_RETRIES_MAX (cs_req S s)")
  have k1: "keeps held (cs_req S s) s1" using keeps_poll_id [OF env, of "cs_req S s" CANSPI_DEVID_RETRIES_MAX] s1 by simp
  define s2 where "s2 = (if nCANSPIeState s1 = CANSPI_INITSTATE_PWRON then nCANSPI_cQueryVersion S s1 else s1)"
  have h2: "cs_held held s2"
    using keeps_held [OF k1 req_held [OF env]] keeps_held [OF keeps_version [OF env]] by (simp add: s2_def)
  let ?fs = "drop (if p then 2 else 0) (kaf_oInit S)"
  obtain ok s3 where s3: "run_inits S ?fs (s2\<lparr>nCANSPIeState := CANSPI_INITSTATE_INIT\<rparr>) = (ok, s3)" by (cases "run_inits S ?fs (s2\<lparr>nCANSPIeState := CANSPI_INITSTATE_INIT\<rparr>)")
  have k3: "keeps held (s2\<lparr>nCANSPIeState := CANSPI_INITSTATE_INIT\<rparr>) s3"
    using keeps_run_inits [OF env, of ?fs "s2\<lparr>nCANSPIeState := CANSPI_INITSTATE_INIT\<rparr>"] keeps_inits [OF env] s3 by (auto dest: in_set_dropD)
  have t: "t = (if r \<noteq> IdFound then s1 else if ok then cs_rel S ((cs_on (WdgMgr_Resume S) s3)\<lparr>nCANSPIeState := CANSPI_INITSTATE_READY\<rparr>) else s3)"
    unfolding t_def nCANSPI_cPwrOnInit_def s1 Let_def prod.case s2_def [symmetric] s3 by simp
  have "cs_held held (s2\<lparr>nCANSPIeState := CANSPI_INITSTATE_INIT\<rparr>)" using h2 by (simp add: cs_held_def)
  then have "cs_held held s3" "nCANSPIeState s3 = CANSPI_INITSTATE_INIT" using keeps_held [OF k3] keeps_state [OF k3] by simp_all
  moreover have "cs_held held s1" "nCANSPIeState s1 \<noteq> CANSPI_INITSTATE_READY"
    using keeps_held [OF k1 req_held [OF env]] keeps_state [OF k1] st by (simp_all add: req_rel_fields)
  ultimately show ?thesis using rel_not_held [OF env] by (simp add: t req_rel_fields)
qed

lemma keeps_unavailable: "cs_env S held \<Longrightarrow> cs_held held (nCANSPI_vSetUnavailable S st s) = cs_held held s"
  using quiet_BusOff [of S held 0] quiet_SetControllerMode [of S held 0 CANIF_CS_STOPPED]
  by (simp add: nCANSPI_vSetUnavailable_def cs_on_def cs_held_def quiet_def)

lemma unavailable_state: "nCANSPIeState (nCANSPI_vSetUnavailable S st s) = st"
  by (simp add: nCANSPI_vSetUnavailable_def cs_on_def)

lemma ChkHealth_result:
  assumes env: "cs_env S held" and h: "nCANSPI_cChkHealth S s = (restart, t)"
  shows "if restart then cs_held held t else nCANSPIeState t = CANSPI_INITSTATE_READY \<longrightarrow> \<not> cs_held held t"
proof -
  define s1 where "s1 = cs_req S (cs_block S PtAwake s)"
  obtain ok s2 where s2: "nCANSPI_cCommsTest S s1 = (ok, s2)" by (cases "nCANSPI_cCommsTest S s1")
  obtain pw th s3 where s3: "(if ok then nCANSPI_cChkFaultFlags S s2 else (False, False, s2)) = (pw, th, s3)"
    by (cases "(if ok then nCANSPI_cChkFaultFlags S s2 else (False, False, s2))")
  have "keeps held s1 s3"
    using keeps_comms [OF env, of s1] s2 keeps_fault_flags [OF env, of s2] s3 keeps_trans [of held s1 s2 s3] by (auto split: if_splits)
  then have h3: "cs_held held s3" using keeps_held req_held [OF env] by (metis s1_def)
  define s4 where "s4 = (if th \<and> nCANSPIeState (cs_rel S s3) = CANSPI_INITSTATE_READY then nCANSPI_vSetUnavailable S CANSPI_INITSTATE_FAULT (cs_rel S s3) else cs_rel S s3)"
  have h4: "\<not> cs_held held s4" using rel_not_held [OF env, of s3] keeps_unavailable [OF env] by (simp add: s4_def)
  have "(restart, t) = (if \<not> ok \<or> pw then (True, s3)
      else (False, if \<not> th \<and> nCANSPIeState s4 \<noteq> CANSPI_INITSTATE_READY then nCANSPI_cPwrOnInit S True s4 else s4))"
    using h unfolding nCANSPI_cChkHealth_def s1_def [symmetric] Let_def s2 prod.case s3 s4_def by simp
  then show ?thesis using h3 h4 PwrOnInit_result [OF env, of s4 True] by (auto split: if_splits)
qed

lemma keeps_wait_voltage: "cs_env S held \<Longrightarrow> wait_voltage S n s = Some t \<Longrightarrow> keeps held s t"
proof (induction n arbitrary: s)
  case (Suc n)
  show ?case
  proof (cases "rbdPwrVM_UnderVoltage S (cs_CanIf s)")
    case True
    then show ?thesis using Suc.prems by (intro keeps_trans [OF keeps_delay [of S held s 20] Suc.IH]) simp_all
  qed (use Suc.prems in \<open>simp add: keeps_refl\<close>)
qed simp

lemma ResetTCAN_result:
  assumes env: "cs_env S held" and r: "nCANSPI_cResetTCAN S n s = Some t"
  shows "nCANSPIeState t = CANSPI_INITSTATE_INIT \<and> cs_held held t"
proof -
  define s1 where "s1 = cs_on (cs_DriversUninit S) (cs_req S s)"
  define s2 where "s2 = cs_on (WdgMgr_Stop S) (nCANSPI_vSetUnavailable S CANSPI_INITSTATE_INIT s1)"
  have q: "quiet held (cs_DriversUninit S)" "quiet held (WdgMgr_Stop S)" "\<And>b. quiet held (Dio_WriteReset S b)" "\<And>n. quiet held (CPUdelay S n)"
    using env by (simp_all add: cs_env_def)
  have "cs_held held s1" using keeps_held [OF keeps_on [OF q(1)] req_held [OF env]] by (simp add: s1_def)
  then have h2: "cs_held held s2" using keeps_held [OF keeps_on [OF q(2)]] keeps_unavailable [OF env] by (simp add: s2_def)
  have st2: "nCANSPIeState s2 = CANSPI_INITSTATE_INIT" using keeps_state [OF keeps_on [OF q(2)]] unavailable_state by (simp add: s2_def)
  obtain s3 where s3: "wait_voltage S n s2 = Some s3"
    and t: "t = (let s = cs_on (Dio_WriteReset S True) s3; lwDelay = u32 (int (ClockP_getCpuFreq S (cs_CanIf s)) * 40) div 1000000 div 3
                 in cs_block S PtReset (cs_on (Dio_WriteReset S False) (cs_on (CPUdelay S lwDelay) s)))"
    using r unfolding nCANSPI_cResetTCAN_def s1_def [symmetric] Let_def s2_def [symmetric] by auto
  have "keeps held s3 t" unfolding t Let_def
    by (rule keeps_trans [OF keeps_on [OF q(3)] keeps_trans [OF keeps_on [OF q(4)] keeps_trans [OF keeps_on [OF q(3)] keeps_block [OF env]]]])
  with keeps_wait_voltage [OF env s3] have "keeps held s2 t" by (rule keeps_trans)
  then show ?thesis using keeps_held h2 keeps_state st2 by metis
qed

lemma FastSleep_result:
  assumes "cs_env S held" "nCANSPI_cFastSleep S n s = Some t"
  shows "\<not> cs_held held t"
  using assms(2) rel_not_held [OF assms(1)] by (auto simp: nCANSPI_cFastSleep_def Let_def)

lemma keeps_isr_loop: "cs_env S held \<Longrightarrow> isr_loop S n s = Some t \<Longrightarrow> keeps held s t"
proof (induction n arbitrary: s)
  case (Suc n)
  define s1 where "s1 = (if Can_HasPendingISR S (cs_CanIf s) then cs_on (Can_Irq_Handler S (CanIfTrcvId S)) s else s)"
  have q: "quiet held (Can_Irq_Handler S (CanIfTrcvId S))" using Suc.prems(1) by (simp add: cs_env_def)
  have "keeps held s s1" using keeps_on [OF q, of s] by (simp add: s1_def keeps_refl)
  then have k: "keeps held s (cs_block S PtYield s1)" using keeps_trans [OF _ keeps_block [OF Suc.prems(1)]] by blast
  have "t = cs_block S PtYield s1 \<or> isr_loop S n (cs_block S PtYield s1) = Some t"
    using Suc.prems(2) unfolding isr_loop.simps Let_def s1_def [symmetric] by (auto split: if_splits)
  then show ?case using k Suc.IH [OF Suc.prems(1)] keeps_trans [OF k] by blast
qed simp

text \<open>
  The states in which the thread stands at the start of a phase or yields between two passes of the interrupt loop, with what the others do there. A
  run that goes on from a yield starts the time of the loop again, which only adds runs. The waits inside the initialisation, the health
  check, the reset and fast sleep are part of a step and no states of this relation.
\<close>

inductive canspi_reach :: "'e CanSpiSys \<Rightarrow> CanSpiPhase \<times> 'e CanSpiSt \<Rightarrow> bool" for S where
  init: "canspi_reach S (PhStart, CanSpi_Init S s)"
| step: "canspi_reach S ps \<Longrightarrow> CanSpi_Cyclic S fuel ps = Some ps' \<Longrightarrow> canspi_reach S ps'"
| isr: "canspi_reach S (PhRun, s) \<Longrightarrow> Can_HasPendingISR S (cs_CanIf s) \<Longrightarrow> canspi_reach S (PhRun, cs_on (Can_Irq_Handler S (CanIfTrcvId S)) s)"
| others: "canspi_reach S (ph, s) \<Longrightarrow> canspi_reach S (ph, cs_block S p s)"

fun canspi_inv :: "(nat \<Rightarrow> 'e \<Rightarrow> bool) \<Rightarrow> CanSpiPhase \<times> 'e CanSpiSt \<Rightarrow> bool" where
  "canspi_inv held (PhStart, s) = (nCANSPIeState s \<noteq> CANSPI_INITSTATE_READY \<and> cs_held held s)"
| "canspi_inv held (PhRun, s) = (nCANSPIeState s = CANSPI_INITSTATE_READY \<and> cs_held held s \<longrightarrow> nCANSPIeFastSleep s \<noteq> nCANSPIkeFS_None)"
| "canspi_inv held (PhSleep, s) = (nCANSPIeFastSleep s \<noteq> nCANSPIkeFS_None)"
| "canspi_inv held (PhEnd, s) = (nCANSPIeFastSleep s = nCANSPIkeFS_Request \<or> \<not> cs_held held s \<and> nCANSPIeFastSleep s = nCANSPIkeFS_Complete)"

lemma canspi_keeps_inv: "canspi_inv held (ph, s) \<Longrightarrow> keeps held s s' \<Longrightarrow> canspi_inv held (ph, s')"
  by (cases ph) (auto simp: keeps_def along_def)

lemma reset_inv: "cs_env S held \<Longrightarrow> canspi_reset S n s = Some ps \<Longrightarrow> canspi_inv held ps"
  using ResetTCAN_result by (fastforce simp: canspi_reset_def)

lemma canspi_step_inv:
  assumes env: "cs_env S held" and i: "canspi_inv held ps" and c: "CanSpi_Cyclic S n ps = Some ps'"
  shows "canspi_inv held ps'"
proof -
  obtain ph s where ps: "ps = (ph, s)" by (cases ps)
  show ?thesis
  proof (cases ph)
    case PhStart
    then show ?thesis
      using i c reset_inv [OF env] PwrOnInit_result [OF env, of s False] by (auto simp: ps CanSpi_Cyclic_def Let_def split: if_splits)
  next
    case PhRun
    obtain t where t: "isr_loop S n (s\<lparr>nCANSPIlwTimer := PT_DELAY_START S (cs_CanIf s)\<rparr>) = Some t"
      using c by (auto simp: ps PhRun CanSpi_Cyclic_def split: option.splits)
    obtain restart u where u: "nCANSPI_cChkHealth S t = (restart, u)" by (cases "nCANSPI_cChkHealth S t")
    show ?thesis
      using c ChkHealth_result [OF env u] reset_inv [OF env] by (auto simp: ps PhRun CanSpi_Cyclic_def t u split: if_splits)
  next
    case PhSleep
    then show ?thesis using c FastSleep_result [OF env] by (auto simp: ps CanSpi_Cyclic_def cs_held_def)
  next
    case PhEnd
    then show ?thesis using c i by (auto simp: ps CanSpi_Cyclic_def)
  qed
qed

text \<open>
  C26. The supervision of the CAN controller and the sleep of the processor. Whenever the thread stands at the start of a phase or yields in its interrupt
  loop, with others that change its power request and state only by requesting fast sleep, the processor is kept awake before the controller is initialised; a ready controller does not keep it awake unless fast
  sleep was requested; and once fast sleep is complete it is released, unless fast sleep is requested again. This is not said of the waits inside a phase: during a health
  check the thread holds the processor as well.
\<close>

theorem canspi_power_request:
  assumes "cs_env S held" "canspi_reach S (ph, s)"
  shows "(ph = PhStart \<longrightarrow> \<not> CanSpi_CanHwReady s \<and> cs_held held s) \<and>
    (ph = PhRun \<and> CanSpi_CanHwReady s \<and> cs_held held s \<longrightarrow> nCANSPIeFastSleep s \<noteq> nCANSPIkeFS_None) \<and>
    (ph = PhEnd \<longrightarrow> nCANSPIeFastSleep s = nCANSPIkeFS_Request \<or> \<not> cs_held held s \<and> CanSpi_QryFastSleep s)"
proof -
  have "canspi_inv held (ph, s)"
    using assms(2)
  proof (induction rule: canspi_reach.induct)
    case (init s)
    show ?case using req_held [OF assms(1)] by (simp add: CanSpi_Init_def Let_def req_rel_fields)
  next
    case (step ps fuel ps')
    then show ?case using canspi_step_inv [OF assms(1)] by blast
  next
    case (isr s)
    have "quiet held (Can_Irq_Handler S (CanIfTrcvId S))" using assms(1) by (simp add: cs_env_def)
    then show ?case using canspi_keeps_inv [OF isr.IH] keeps_on by blast
  next
    case (others ph s p)
    then show ?case using canspi_keeps_inv keeps_block [OF assms(1)] by blast
  qed
  then show ?thesis by (cases ph) (auto simp: CanSpi_CanHwReady_def CanSpi_QryFastSleep_def)
qed


subsection \<open>An example\<close>

text \<open>
  A healthy controller, in a system where another task asks for fast sleep whenever the thread waits for the CAN hardware to be awake. The power request is the list in \<open>ci_ext\<close>.
\<close>

definition cs_demo_reg :: "nat \<Rightarrow> 32 word" where
  "cs_demo_reg a = (if a = 0 then 0x4E414354 else if a = 0x1004 then 0x87654321 else 0)"

definition cs_demo :: "nat list CanSpiSys" where
  "cs_demo = \<lparr>cs_CanIfSys = ci_demo_sys\<lparr>CanTrcv_SetControllerMode := \<lambda>_ _ s. (CAN_OK, s), CanTrcv_SetOpMode := \<lambda>_ _ s. (E_OK, s),
       CanTrcv_GetOpMode := \<lambda>_ s. (E_OK, CANTRCV_TRCVMODE_NORMAL, s), CanTrcv_ClearTXBRP := None, CanTrcv_DisableAllInterrupts := None\<rparr>,
     CanIfTrcvId = 0, DET_PRINTF = False,
     cs_block = \<lambda>p s. if p = PtAwake then s\<lparr>nCANSPIeFastSleep := nCANSPIkeFS_Request, cs_CanIf := (cs_CanIf s)\<lparr>ci_ext := [1]\<rparr>\<rparr> else s,
     PT_DELAY_START = \<lambda>_. 0, PT_DELAY_CHK_EXPIRED = \<lambda>_ _ _. True,
     cs_SpiTransfer = \<lambda>tx w. ([0, 0, 0, 0] @ be_bytes (cs_demo_reg (256 * unat (tx ! 1) + unat (tx ! 2))), w),
     Dio_WriteReset = \<lambda>_ w. w, rbdPwrReq_GetID = \<lambda>_. 0, rbdPwrReq_RequestCPU = \<lambda>_ w. w\<lparr>ci_ext := [1]\<rparr>, rbdPwrReq_ReleaseCPU = \<lambda>_ w. w\<lparr>ci_ext := []\<rparr>,
     rbdPwrVM_UnderVoltage = \<lambda>_. False, Can_HasPendingISR = \<lambda>_. False, Can_Irq_Handler = \<lambda>_ w. w, Can_DriverInit = \<lambda>w. (True, w),
     CanTrcv_DriverInit = \<lambda>w. (True, w), cs_DriversUninit = \<lambda>w. w, WdgMgr_Resume = \<lambda>w. w, WdgMgr_Stop = \<lambda>w. w, ClockP_getCpuFreq = \<lambda>_. 48000000,
     CPUdelay = \<lambda>_ w. w, cs_ReportInitError = \<lambda>w. w\<rparr>"

definition cs_demo_st :: "nat list CanSpiSt" where
  "cs_demo_st = \<lparr>nCANSPIeState = CANSPI_INITSTATE_READY, nCANSPIbPwrReqID = 0, nCANSPIeFastSleep = nCANSPIkeFS_None, nCANSPIlwTimer = 0, cs_CanIf = ci_demo\<lparr>ci_ext := []\<rparr>\<rparr>"

abbreviation "cs_demo_held \<equiv> \<lambda>(_ :: nat) (l :: nat list). l \<noteq> []"

lemma cs_demo_env: "cs_env cs_demo cs_demo_held"
  by (simp add: cs_env_def quiet_def keeps_def along_def cs_held_def cs_demo_def ci_demo_sys_def opt_call_def)

lemma cs_demo_dev: "spi_device cs_demo (\<lambda>a w. cs_demo_reg a)"
proof -
  have "256 * unat (of_nat (a div 256) :: 8 word) + unat (of_nat a :: 8 word) = a" if "a < 65536" for a
  proof -
    have "a div 256 < 256" using that by simp
    then show ?thesis by (simp add: unsigned_of_nat take_bit_eq_mod)
  qed
  then show ?thesis by (auto simp: spi_device_def cs_demo_def)
qed


theorem canspi_power_request_witness:
  "\<exists>s. CanSpi_Cyclic cs_demo 1 (PhStart, CanSpi_Init cs_demo cs_demo_st) = Some (PhRun, s) \<and> CanSpi_CanHwReady s \<and> nCANSPIeFastSleep s = nCANSPIkeFS_None \<and>
     \<not> cs_held cs_demo_held s"
proof -
  let ?i = "CanSpi_Init cs_demo cs_demo_st"
  define s where "s = nCANSPI_cPwrOnInit cs_demo False ?i"
  have "nCANSPI_cCommsTest cs_demo u = (True, u)" for u
    by (simp add: nCANSPI_cCommsTest_def read_register [OF cs_demo_dev] cs_demo_reg_def) (simp add: cs_demo_def)
  then have p: "poll_id cs_demo CANSPI_DEVID_RETRIES_MAX u = (IdFound, u)" for u
    using poll_id.simps(2) [of cs_demo 99 u] by (simp add: cs_demo_def)
  have r: "\<exists>w. run_inits cs_demo (kaf_oInit cs_demo) u = (True, u\<lparr>cs_CanIf := w\<rparr>)" for u
    by (simp add: kaf_oInit_def numeral_2_eq_2 nCANSPI_oInitTCAN_def nCANSPI_oInitTrcv_def nCANSPI_oSetTrcvNorm_def nCANSPI_oStartCtrl_def CanIf_SetTrcvMode_def
        cs_on_def cs_demo_def ci_demo_sys_def) (rule exI, rule refl)
  have v: "\<not> DET_PRINTF cs_demo" by (simp add: cs_demo_def)
  have s: "CanSpi_CanHwReady s" "nCANSPIeFastSleep s = nCANSPIkeFS_None"
    using r [of "(cs_req cs_demo ?i)\<lparr>nCANSPIeState := CANSPI_INITSTATE_INIT\<rparr>"]
    by (auto simp: s_def nCANSPI_cPwrOnInit_def p v nCANSPI_cQueryVersion_def Let_def CanSpi_CanHwReady_def req_rel_fields cs_on_def CanSpi_Init_def cs_demo_st_def)
  have c: "CanSpi_Cyclic cs_demo 1 (PhStart, ?i) = Some (PhRun, s)" using s(1) by (simp add: CanSpi_Cyclic_def Let_def s_def CanSpi_CanHwReady_def)
  have "canspi_reach cs_demo (PhRun, s)" using canspi_reach.step [OF canspi_reach.init c] .
  from canspi_power_request [OF cs_demo_env this] s c show ?thesis by blast
qed

end
