(* ===== verification/TcanSpi.thy ===== *)
theory TcanSpi
  imports CanIf "HOL-Library.While_Combinator"
begin

text \<open>
  Data of the CAN driver \<^verbatim>\<open>Can_44_TCAN4x5x\<close> and its access to the controller over SPI. The controller is reached only through words that are put into a transmit buffer,
  exchanged by the SPI driver, and found in a receive buffer; there is one pair of buffers for each execution context, all in one array, so that the access one word in
  front of a receive buffer is the word the code accesses. Register values are 32-bit words. The SPI driver, the reports of development errors, the watchdog and the compile
  switches are fields of \<open>CanDrvSys\<close>; the byte order conversion \<^verbatim>\<open>SWAP32\<close> is defined outside the repository. Pretended networking is added in
  \<open>TcanIcom\<close>; trigger transmit needs a function that CanIf does not have and is switched off.
\<close>

unbundle bit_operations_syntax

subsection \<open>Configuration\<close>

datatype Can_44_TCAN4x5x_Processing = CAN_44_TCAN4x5x_POLLING | CAN_44_TCAN4x5x_INTERRUPT

record Can_44_TCAN4x5x_ControllerFdBaudrateConfigType =
  CanFDControllerBRP :: nat
  CanControllerDataPropSeg :: nat
  CanControllerDataSeg1 :: nat
  CanControllerDataSeg2 :: nat
  CanControllerDataSyncJumpWidth :: nat
  CanControllerDataTrcvDelayCompensationOffset :: nat
  CanControllerDataTxBitRateSwitch :: nat

record Can_44_TCAN4x5x_ControllerBaudrateConfigType =
  CanControllerBRP :: nat
  CanControllerPropSeg :: nat
  CanControllerSeg1 :: nat
  CanControllerSeg2 :: nat
  CanControllerSyncJumpWidth :: nat
  CanControllerFdBaudrateConf :: Can_44_TCAN4x5x_ControllerFdBaudrateConfigType

record Can_44_TCAN4x5x_RxObjFilterConfigType =
  CanIdType :: nat
  CanFilterType :: nat
  CanMessageBufferType :: nat
  CanHwFilterCode :: "32 word"
  CanHwFilterMask :: "32 word"

record Can_44_TCAN4x5x_TxObjConfigType =
  CanFdPaddingValue :: nat
  CanHwObjectCount :: nat
  CanTxBufferIndex :: nat
  CanTriggerTransmitEnable :: bool

record Can_44_TCAN4x5x_MsgRamConfigType =
  CanStdandardIDFiltersCount :: nat
  CanExtendedIDFiltersCount :: nat
  CanFifo0BufferCount :: nat
  CanFifo1BufferCount :: nat
  CanDedicatedRxBufferCount :: nat
  CanTxBufferCount :: nat

record Can_44_TCAN4x5x_ControllerConfigType =
  CanControllerDefaultBaudrate :: nat
  CanMsgRamConfig :: Can_44_TCAN4x5x_MsgRamConfigType
  CanNumOfBaudRateConf :: nat
  CanControllerBaudrateConfigPtr :: "nat \<Rightarrow> Can_44_TCAN4x5x_ControllerBaudrateConfigType"
  CanRxObjFilterConfigPtr :: "nat \<Rightarrow> Can_44_TCAN4x5x_RxObjFilterConfigType"
  CanTxObjConfigPtr :: "nat \<Rightarrow> Can_44_TCAN4x5x_TxObjConfigType"
  CanFilterIdxToRxObjStandard :: "nat \<Rightarrow> nat"
  CanFilterIdxToRxObjExtended :: "nat \<Rightarrow> nat"
  CanSpiBaudrateRef :: nat

record Can_44_TCAN4x5x_HTHMappingConfigType =
  CanCtrlId :: nat
  CanHthIndex :: nat

record Can_44_TCAN4x5x_ConfigType =
  CanHTHobjectsCount :: nat
  CanHRHobjectsCount :: nat
  CanSpiCommRetries :: nat
  CanHTHMappingConfigPtr :: "nat \<Rightarrow> Can_44_TCAN4x5x_HTHMappingConfigType"
  CanControllerConfiguration :: "nat \<Rightarrow> Can_44_TCAN4x5x_ControllerConfigType"

record Can_44_TCAN4x5x_ControllerConfigType_PC =
  CanXtalClock :: nat
  CanSpiSequenceRef :: "nat \<Rightarrow> nat"
  CanSpiChannel :: "nat \<Rightarrow> nat"
  CanFDBaudRateEnabled :: bool
  CanFdDataBufSize :: nat
  CanBusoffProcessing :: Can_44_TCAN4x5x_Processing
  CanRxProcessing :: Can_44_TCAN4x5x_Processing
  CanTxProcessing :: Can_44_TCAN4x5x_Processing

subsection \<open>State\<close>

datatype CAN_44_TCAN4x5x_StateType =
    CAN_44_TCAN4x5x_STATE_UNINIT | CAN_44_TCAN4x5x_STATE_IDLE | CAN_44_TCAN4x5x_STATE_RUNNING
  | CAN_44_TCAN4x5x_STATE_SLEEP | CAN_44_TCAN4x5x_STATE_BUSOFF | CAN_44_TCAN4x5x_STATE_WAKEUP

record Can_44_TCAN4x5x_MCAN_RWDevType =
  dev_state :: CAN_44_TCAN4x5x_StateType
  EXTND_ID_FILTER_START_ADDR :: nat
  RX_BUFFER_START_ADDR :: nat
  RX_FIFO0_START_ADDR :: nat
  RX_FIFO1_START_ADDR :: nat
  TX_EVENT_FIFO_START_ADDR :: nat
  TX_BUFFER_START_ADDR :: nat

text \<open>
  Arrays over the controllers are functions of the controller number. In \<open>ControllerIf_State\<close>, \<open>None\<close> is \<^verbatim>\<open>MODE_TRANSITION_IN_PROGRESS\<close>; \<open>SpiBuf\<close> holds the
  words of \<^verbatim>\<open>SpiTxBuf[3][20]\<close> followed by those of \<^verbatim>\<open>SpiRxBuf[3][20]\<close>.
\<close>

record 'x CanDrvSt =
  Can_44_TCAN4x5x_ApiId :: nat
  Can_44_TCAN4x5x_ControllerIf_State :: "nat \<Rightarrow> CanIf_ControllerModeType option"
  Can_44_TCAN4x5x_WasCanTrcvInSleep :: bool
  Can_44_TCAN4x5x_DriverState :: nat
  Can_44_TCAN4x5x_ControllerMode :: "nat \<Rightarrow> Can_StateTransitionType"
  Can_44_TCAN4x5x_ConfigPtr :: Can_44_TCAN4x5x_ConfigType
  Can_44_TCAN4x5x_InterruptDisableCount :: "nat \<Rightarrow> nat"
  Can_44_TCAN4x5x_HthMutex :: "nat \<Rightarrow> bool"
  Can_44_TCAN4x5x_SpiBuf :: "nat \<Rightarrow> nat \<Rightarrow> 32 word"
  Can_44_TCAN4x5x_ExCntxt :: "nat \<Rightarrow> nat"
  Can_44_TCAN4x5x_ReadCmd :: "nat \<Rightarrow> 8 word"
  Can_44_TCAN4x5x_DrvConfigPtr :: Can_44_TCAN4x5x_ConfigType
  Can_44_TCAN4x5x_MajorRevId :: "8 word"
  Can_44_TCAN4x5x_CurrentTxTimeStamp :: "nat \<Rightarrow> nat"
  Can_44_TCAN4x5x_MCAN_RWDev :: "nat \<Rightarrow> Can_44_TCAN4x5x_MCAN_RWDevType"
  Can_44_TCAN4x5x_Mcan_swPduHandle :: "nat \<Rightarrow> nat \<Rightarrow> nat"
  Can_44_TCAN4x5x_Mcan_extFilterIndex :: nat
  Can_44_TCAN4x5x_Mcan_stdFilterIndex :: nat
  Can_44_TCAN4x5x_Mcan_FdConfig :: "nat \<Rightarrow> Can_44_TCAN4x5x_ControllerFdBaudrateConfigType"
  drv_ext :: 'x

record 'x CanDrvSys =
  CAN_44_TCAN4x5x_DEV_ERROR_DETECT :: bool
  CAN_44_TCAN4x5x_VARIANT_POST_BUILD :: bool
  CAN_44_TCAN4x5x_TCAN1043 :: bool
  CAN_44_TCAN4x5x_SPI_MSG_DET_LOG :: bool
  RBD_PK_PCB_ANCHOR :: bool
  CAN_44_TCAN4x5x_NUM_CONTROLLER_MAX :: nat
  CAN_44_TCAN4x5x_XTAL_FREQUENCY :: nat
  CAN_44_TCAN4x5x_TIMESTAMP_FREQUENCY :: nat
  Can_44_TCAN4x5x_Config :: Can_44_TCAN4x5x_ConfigType
  Can_44_TCAN4x5x_ControllerSetting_PC :: "nat \<Rightarrow> Can_44_TCAN4x5x_ControllerConfigType_PC"
  can_t_value :: "Can_StateTransitionType \<Rightarrow> nat"
  SWAP32 :: "32 word \<Rightarrow> 32 word"
  Spi_SetupEB :: "nat \<Rightarrow> nat \<Rightarrow> 'x \<Rightarrow> Std_ReturnType \<times> 'x"
  Spi_SyncTransmit :: "nat \<Rightarrow> 32 word list \<Rightarrow> 'x \<Rightarrow> Std_ReturnType \<times> 32 word list \<times> 'x"
  LPDU_RECEIVE_CALLOUT_FUNCTION :: "(nat \<Rightarrow> 32 word \<Rightarrow> nat list option \<Rightarrow> 'x \<Rightarrow> bool \<times> 'x) option"
  drv_Det_ReportError :: "nat \<Rightarrow> nat \<Rightarrow> 'x \<Rightarrow> 'x"
  WdgMgr_Kick :: "'x \<Rightarrow> 'x"
  drv_stray :: "nat \<Rightarrow> nat"

abbreviation (input) "CAN_44_TCAN4x5x_UNINIT \<equiv> 0 :: nat"
abbreviation (input) "CAN_44_TCAN4x5x_READY \<equiv> 1 :: nat"
abbreviation (input) "CAN_44_TCAN4x5x_E_UNINIT \<equiv> 5 :: nat"
abbreviation (input) "CAN_44_TCAN4x5x_WRITE \<equiv> 0x61 :: 8 word"
abbreviation (input) "CAN_44_TCAN4x5x_READ \<equiv> 0x41 :: 8 word"
abbreviation (input) "CAN_44_TCAN4x5x_READ_WAIT \<equiv> 0x51 :: 8 word"
abbreviation (input) "ISR_CONTEXT \<equiv> 1 :: nat"
abbreviation (input) "MAIN_FUNCTION_CONTEXT \<equiv> 2 :: nat"

text \<open>Registers, by their address in \<^verbatim>\<open>Can_44_TCAN4x5x_MCAN_RegsType\<close> and \<^verbatim>\<open>Can_44_TCAN4x5x_DevCfg_RegsType\<close>.\<close>

abbreviation (input) "REG_Prescale \<equiv> 0x0804 :: nat"
abbreviation (input) "REG_DBTP \<equiv> 0x100C :: nat"
abbreviation (input) "REG_CCCR \<equiv> 0x1018 :: nat"
abbreviation (input) "REG_NBTP \<equiv> 0x101C :: nat"
abbreviation (input) "REG_TSCC \<equiv> 0x1020 :: nat"
abbreviation (input) "REG_TSCV \<equiv> 0x1024 :: nat"
abbreviation (input) "REG_TOCC \<equiv> 0x1028 :: nat"
abbreviation (input) "REG_TDCE \<equiv> 0x1048 :: nat"
abbreviation (input) "REG_INTR \<equiv> 0x1050 :: nat"
abbreviation (input) "REG_IE \<equiv> 0x1054 :: nat"
abbreviation (input) "REG_GFC \<equiv> 0x1080 :: nat"
abbreviation (input) "REG_SIDFC \<equiv> 0x1084 :: nat"
abbreviation (input) "REG_NDAT1 \<equiv> 0x1098 :: nat"
abbreviation (input) "REG_NDAT2 \<equiv> 0x109C :: nat"
abbreviation (input) "REG_RXF0C \<equiv> 0x10A0 :: nat"
abbreviation (input) "REG_RXF0S \<equiv> 0x10A4 :: nat"
abbreviation (input) "REG_RXF0A \<equiv> 0x10A8 :: nat"
abbreviation (input) "REG_RXBC \<equiv> 0x10AC :: nat"
abbreviation (input) "REG_RXF1C \<equiv> 0x10B0 :: nat"
abbreviation (input) "REG_RXF1S \<equiv> 0x10B4 :: nat"
abbreviation (input) "REG_RXF1A \<equiv> 0x10B8 :: nat"
abbreviation (input) "REG_RXESC \<equiv> 0x10BC :: nat"
abbreviation (input) "REG_TXBC \<equiv> 0x10C0 :: nat"
abbreviation (input) "REG_TXESC \<equiv> 0x10C8 :: nat"
abbreviation (input) "REG_TXBRP \<equiv> 0x10CC :: nat"
abbreviation (input) "REG_TXBAR \<equiv> 0x10D0 :: nat"
abbreviation (input) "REG_TXBCR \<equiv> 0x10D4 :: nat"
abbreviation (input) "REG_TXEFC \<equiv> 0x10F0 :: nat"
abbreviation (input) "REG_TXEFS \<equiv> 0x10F4 :: nat"
abbreviation (input) "REG_TXEFA \<equiv> 0x10F8 :: nat"
abbreviation (input) "MSG_RAM_BASE_ADDR \<equiv> 0x8000 :: nat"

subsection \<open>Transfers\<close>

definition buf_tx_at :: "nat \<Rightarrow> nat \<Rightarrow> nat" where "buf_tx_at c k = 20 * c + k"

definition buf_rx_at :: "nat \<Rightarrow> nat \<Rightarrow> nat" where "buf_rx_at c k = 60 + 20 * c + k"

definition swap_words :: "(32 word \<Rightarrow> 32 word) \<Rightarrow> nat \<Rightarrow> nat \<Rightarrow> (nat \<Rightarrow> 32 word) \<Rightarrow> nat \<Rightarrow> 32 word" where
  "swap_words f p n b = (\<lambda>i. if p \<le> i \<and> i < p + n then f (b i) else b i)"

definition store_words :: "nat \<Rightarrow> 32 word list \<Rightarrow> (nat \<Rightarrow> 32 word) \<Rightarrow> nat \<Rightarrow> 32 word" where
  "store_words p ws b = (\<lambda>i. if p \<le> i \<and> i < p + length ws then ws ! (i - p) else b i)"

text \<open>One exchange: the words at \<open>t\<close> are sent, those received are stored at \<open>r\<close> and, after a success, brought into the byte order of the processor.\<close>

definition spi_exchange :: "'x CanDrvSys \<Rightarrow> nat \<Rightarrow> nat \<Rightarrow> nat \<Rightarrow> nat \<Rightarrow> (nat \<Rightarrow> 32 word) \<Rightarrow> 'x \<Rightarrow> Std_ReturnType \<times> (nat \<Rightarrow> 32 word) \<times> 'x" where
  "spi_exchange D spi_seq_id t r n b x =
     (let (ret, ws, x) = Spi_SyncTransmit D spi_seq_id (map b [t..<t + n]) x;
          b = store_words r (take n ws) b
      in (ret, if ret = E_OK then swap_words (SWAP32 D) r n b else b, x))"

text \<open>
  The loop over retries. Its counter \<^verbatim>\<open>NoOfSpiCommRetry\<close> has eight bits; \<open>spi_retry_loop\<close> is the loop as it is written, and \<open>spi_retry\<close> the number of attempts it makes
  for a limit below 255 (\<open>spi_retry_loop_ends\<close>). With the limit 255 it never ends on a line that always fails (\<open>spi_retry_loop_forever\<close>).
\<close>

definition spi_retry_turn :: "'x CanDrvSys \<Rightarrow> nat \<Rightarrow> nat \<Rightarrow> nat \<Rightarrow> nat \<Rightarrow>
    Std_ReturnType \<times> nat \<times> (nat \<Rightarrow> 32 word) \<times> 'x \<Rightarrow> Std_ReturnType \<times> nat \<times> (nat \<Rightarrow> 32 word) \<times> 'x" where
  "spi_retry_turn D spi_seq_id t r n =
     (\<lambda>(Return_Val, NoOfSpiCommRetry, b, x).
        case spi_exchange D spi_seq_id t r n b x of (ret, b, x) \<Rightarrow> (ret, u8 (int NoOfSpiCommRetry + 1), b, x))"

definition spi_retry_loop ::
  "'x CanDrvSys \<Rightarrow> nat \<Rightarrow> nat \<Rightarrow> nat \<Rightarrow> nat \<Rightarrow> nat \<Rightarrow> (nat \<Rightarrow> 32 word) \<Rightarrow> 'x \<Rightarrow> (Std_ReturnType \<times> nat \<times> (nat \<Rightarrow> 32 word) \<times> 'x) option" where
  "spi_retry_loop D spi_seq_id t r n limit b x =
     while_option (\<lambda>(Return_Val, NoOfSpiCommRetry, _). Return_Val = E_NOT_OK \<and> NoOfSpiCommRetry \<le> limit)
       (spi_retry_turn D spi_seq_id t r n) (spi_retry_turn D spi_seq_id t r n (E_OK, 0, b, x))"

fun spi_retry ::
  "'x CanDrvSys \<Rightarrow> nat \<Rightarrow> nat \<Rightarrow> nat \<Rightarrow> nat \<Rightarrow> nat \<Rightarrow> (nat \<Rightarrow> 32 word) \<Rightarrow> 'x \<Rightarrow> Std_ReturnType \<times> (nat \<Rightarrow> 32 word) \<times> 'x" where
  "spi_retry D spi_seq_id t r n 0 b x = spi_exchange D spi_seq_id t r n b x"
| "spi_retry D spi_seq_id t r n (Suc k) b x =
     (case spi_exchange D spi_seq_id t r n b x of
        (ret, b, x) \<Rightarrow> if ret = E_NOT_OK then spi_retry D spi_seq_id t r n k b x else (ret, b, x))"

definition Can_44_TCAN4x5x_SpiRW ::
  "'x CanDrvSys \<Rightarrow> nat \<Rightarrow> nat \<Rightarrow> nat \<Rightarrow> 8 word \<Rightarrow> 'x CanDrvSt \<Rightarrow> Std_ReturnType \<times> 'x CanDrvSt" where
  "Can_44_TCAN4x5x_SpiRW D aId address word_count cmd s =
     (let c = Can_44_TCAN4x5x_ExCntxt s aId;
          t = buf_tx_at c 0;
          b = (Can_44_TCAN4x5x_SpiBuf s aId)(t := push_bit 24 (ucast cmd) OR push_bit 8 (of_nat address) OR of_nat word_count);
          b = swap_words (SWAP32 D) t (word_count + 1) b;
          P = Can_44_TCAN4x5x_ControllerSetting_PC D aId;
          (r, n) = (if cmd = CAN_44_TCAN4x5x_READ_WAIT then (buf_rx_at c 0 - 1, word_count + 2) else (buf_rx_at c 0, word_count + 1));
          (ret, x) = Spi_SetupEB D (CanSpiChannel P c) (4 * n) (drv_ext s);
          (ret, b, x) = (if ret = E_OK
                         then spi_retry D (CanSpiSequenceRef P c) t r n (CanSpiCommRetries (Can_44_TCAN4x5x_ConfigPtr s)) b x
                         else (ret, b, x))
      in (ret, s\<lparr>Can_44_TCAN4x5x_SpiBuf := (Can_44_TCAN4x5x_SpiBuf s)(aId := b), drv_ext := x\<rparr>))"

definition Can_44_TCAN4x5x_SpiRead :: "'x CanDrvSys \<Rightarrow> nat \<Rightarrow> nat \<Rightarrow> nat \<Rightarrow> 'x CanDrvSt \<Rightarrow> Std_ReturnType \<times> 'x CanDrvSt" where
  "Can_44_TCAN4x5x_SpiRead D aId address word_count s = Can_44_TCAN4x5x_SpiRW D aId address word_count (Can_44_TCAN4x5x_ReadCmd s aId) s"

definition Can_44_TCAN4x5x_SpiWrite :: "'x CanDrvSys \<Rightarrow> nat \<Rightarrow> nat \<Rightarrow> nat \<Rightarrow> 'x CanDrvSt \<Rightarrow> Std_ReturnType \<times> 'x CanDrvSt" where
  "Can_44_TCAN4x5x_SpiWrite D aId address word_count s =
     (let (RetValue, s) = Can_44_TCAN4x5x_SpiRW D aId address word_count CAN_44_TCAN4x5x_WRITE s
      in if CAN_44_TCAN4x5x_SPI_MSG_DET_LOG D
         then let b = store_words (buf_rx_at (Can_44_TCAN4x5x_ExCntxt s aId) 1) (replicate word_count 0) (Can_44_TCAN4x5x_SpiBuf s aId);
                  s = s\<lparr>Can_44_TCAN4x5x_SpiBuf := (Can_44_TCAN4x5x_SpiBuf s)(aId := b)\<rparr>
              in (RetValue, snd (Can_44_TCAN4x5x_SpiRW D aId address word_count (Can_44_TCAN4x5x_ReadCmd s aId) s))
         else (RetValue, s))"

text \<open>\<^verbatim>\<open>spi_rx_buf_ptr[k]\<close>, and storing words to \<^verbatim>\<open>spi_tx_buf_ptr[0]\<close>, \<^verbatim>\<open>spi_tx_buf_ptr[1]\<close>, and so on.\<close>

definition spi_rx :: "nat \<Rightarrow> nat \<Rightarrow> 'x CanDrvSt \<Rightarrow> 32 word" where
  "spi_rx aId k s = Can_44_TCAN4x5x_SpiBuf s aId (buf_rx_at (Can_44_TCAN4x5x_ExCntxt s aId) (k + 1))"

definition spi_tx :: "nat \<Rightarrow> nat \<Rightarrow> 'x CanDrvSt \<Rightarrow> 32 word" where
  "spi_tx aId k s = Can_44_TCAN4x5x_SpiBuf s aId (buf_tx_at (Can_44_TCAN4x5x_ExCntxt s aId) (k + 1))"

definition put_tx :: "nat \<Rightarrow> 32 word list \<Rightarrow> 'x CanDrvSt \<Rightarrow> 'x CanDrvSt" where
  "put_tx aId ws s = s\<lparr>Can_44_TCAN4x5x_SpiBuf :=
     (Can_44_TCAN4x5x_SpiBuf s)(aId := store_words (buf_tx_at (Can_44_TCAN4x5x_ExCntxt s aId) 1) ws (Can_44_TCAN4x5x_SpiBuf s aId))\<rparr>"

text \<open>A read whose result the code ignores, and one that stores its words first.\<close>

definition read_reg :: "'x CanDrvSys \<Rightarrow> nat \<Rightarrow> nat \<Rightarrow> nat \<Rightarrow> 'x CanDrvSt \<Rightarrow> 'x CanDrvSt" where
  "read_reg D aId address n s = snd (Can_44_TCAN4x5x_SpiRead D aId address n s)"

definition write_reg :: "'x CanDrvSys \<Rightarrow> nat \<Rightarrow> nat \<Rightarrow> 32 word list \<Rightarrow> 'x CanDrvSt \<Rightarrow> 'x CanDrvSt" where
  "write_reg D aId address ws s = snd (Can_44_TCAN4x5x_SpiWrite D aId address (length ws) (put_tx aId ws s))"

text \<open>On silicon of revision 3 a register that reads as zero is read a second time.\<close>

definition Can_44_TCAN4x5x_VerifySpiRead :: "'x CanDrvSys \<Rightarrow> nat \<Rightarrow> nat \<Rightarrow> 'x CanDrvSt \<Rightarrow> 'x CanDrvSt" where
  "Can_44_TCAN4x5x_VerifySpiRead D aId address s =
     (if Can_44_TCAN4x5x_MajorRevId s = 3 \<and> spi_rx aId 0 s = 0
      then if address = REG_NDAT1 then if spi_rx aId 1 s = 0 then read_reg D aId address 2 s else s
           else read_reg D aId address 1 s
      else s)"

definition read_verified :: "'x CanDrvSys \<Rightarrow> nat \<Rightarrow> nat \<Rightarrow> nat \<Rightarrow> 'x CanDrvSt \<Rightarrow> 'x CanDrvSt" where
  "read_verified D aId address n s = Can_44_TCAN4x5x_VerifySpiRead D aId address (read_reg D aId address n s)"

definition drv_report :: "'x CanDrvSys \<Rightarrow> nat \<Rightarrow> nat \<Rightarrow> 'x CanDrvSt \<Rightarrow> 'x CanDrvSt" where
  "drv_report D api e s = (if CAN_44_TCAN4x5x_DEV_ERROR_DETECT D then s\<lparr>drv_ext := drv_Det_ReportError D api e (drv_ext s)\<rparr> else s)"

lemma spi_retry_ends:
  assumes "limit < 255" "k \<le> limit"
  shows "map_option (\<lambda>(ret, k, b, x). (ret, b, x))
    (while_option (\<lambda>(ret, k, _). ret = E_NOT_OK \<and> k \<le> limit) (spi_retry_turn D q t r n) (spi_retry_turn D q t r n (ret, k, b, x))) =
      Some (spi_retry D q t r n (limit - k) b x)"
  using assms(2)
proof (induction "limit - k" arbitrary: k ret b x)
  case 0
  then have "u8 (int k + 1) = Suc limit" using assms(1) by (simp add: u8_def)
  then show ?case using 0 by (subst while_option_unfold) (simp add: spi_retry_turn_def split: prod.splits)
next
  case (Suc d)
  then have k: "u8 (int k + 1) = Suc k" "limit - k = Suc d" "d = limit - Suc k" "Suc k \<le> limit" using assms(1) by (simp_all add: u8_def nat_add_distrib)
  obtain ret' b' x' where e: "spi_exchange D q t r n b x = (ret', b', x')" by (cases "spi_exchange D q t r n b x")
  then have turn: "spi_retry_turn D q t r n (ret, k, b, x) = (ret', Suc k, b', x')" by (simp add: spi_retry_turn_def k(1))
  show ?case unfolding turn
    by (subst while_option_unfold) (use Suc.hyps(1) [OF k(3,4), of ret' b' x'] k(2-4) e in auto)
qed

lemma spi_retry_loop_ends:
  "limit < 255 \<Longrightarrow> map_option (\<lambda>(ret, k, b, x). (ret, b, x)) (spi_retry_loop D q t r n limit b x) = Some (spi_retry D q t r n limit b x)"
  using spi_retry_ends [of limit 0 D q t r n E_OK b x] by (simp add: spi_retry_loop_def)

text \<open>The configuration value 255 allows an endless loop: on a line that always fails, no number of attempts ends it.\<close>

lemma spi_retry_loop_forever:
  assumes fail: "\<And>ws x. fst (Spi_SyncTransmit D q ws x) = E_NOT_OK"
  shows "spi_retry_loop D q t r n 255 b x = None"
proof (rule ccontr)
  let ?P = "\<lambda>(ret, k, b, x). ret = E_NOT_OK \<and> k \<le> 255"
  have turn: "?P (spi_retry_turn D q t r n u)" for u
  proof -
    obtain ret k b x where u: "u = (ret, k, b, x)" by (cases u)
    have "u8 (int k + 1) \<le> 255" using u8_less [of "int k + 1"] by linarith
    then show ?thesis
      using fail [of "map b [t..<t + n]" x] by (auto simp: u spi_retry_turn_def spi_exchange_def Let_def split: prod.splits)
  qed
  assume "spi_retry_loop D q t r n 255 b x \<noteq> None"
  then obtain y where y: "while_option (\<lambda>(ret, k, _). ret = E_NOT_OK \<and> k \<le> 255) (spi_retry_turn D q t r n) (spi_retry_turn D q t r n (E_OK, 0, b, x)) = Some y"
    by (auto simp: spi_retry_loop_def)
  have "?P y" by (rule while_option_rule [where P = ?P, OF _ y turn]) (rule turn)
  then show False using while_option_stop [OF y] by auto
qed

end
