(* ===== verification/TcanMcan.thy ===== *)
theory TcanMcan
  imports TcanSpi
begin

text \<open>
  \<^verbatim>\<open>Can_44_TCAN4x5x_MCan.c\<close>: the CAN core of the controller. What only touches the driver and the device is a function on the driver's state; what calls CanIf is a
  function on the state of CanIf, whose \<open>ci_ext\<close> is the driver's state, and calls the functions of \<open>CanIf\<close>, so that a callback may call the driver again. The message RAM
  is reached by address. Reads of a PDU beyond its data yield \<open>drv_stray\<close>. Loop-back test modes are switched off.
\<close>

unbundle bit_operations_syntax

abbreviation (input) "CCCR_INIT \<equiv> 0x1 :: 32 word"
abbreviation (input) "CCCR_CCE \<equiv> 0x2 :: 32 word"
abbreviation (input) "CCCR_CSR \<equiv> 0x10 :: 32 word"
abbreviation (input) "CCCR_FDOE \<equiv> 0x100 :: 32 word"
abbreviation (input) "CCCR_BRSE \<equiv> 0x200 :: 32 word"
abbreviation (input) "IR_RF0N \<equiv> 0x1 :: 32 word"
abbreviation (input) "IR_RF0L \<equiv> 0x8 :: 32 word"
abbreviation (input) "IR_RF1N \<equiv> 0x10 :: 32 word"
abbreviation (input) "IR_RF1L \<equiv> 0x80 :: 32 word"
abbreviation (input) "IR_TEFN \<equiv> 0x1000 :: 32 word"
abbreviation (input) "IR_TEFL \<equiv> 0x8000 :: 32 word"
abbreviation (input) "IR_DRX \<equiv> 0x80000 :: 32 word"
abbreviation (input) "IR_BO \<equiv> 0x2000000 :: 32 word"
abbreviation (input) "CAN_44_TCAN4x5x_EXTD_ID_MASK \<equiv> 0x80000000 :: 32 word"
abbreviation (input) "CAN_44_TCAN4x5x_FRAME_TYPE_MASK \<equiv> 0x40000000 :: 32 word"
abbreviation (input) "CAN_44_TCAN4x5x_INIT_WAIT_TIMEOUT \<equiv> 10 :: nat"

record Can_44_TCAN4x5x_MsgInfoType =
  canID :: "32 word"
  canMsgID_ext :: bool
  canMsgLength :: nat
  canMsgDataPtr :: "nat list option"
  canMessageFormat :: "32 word"
  canFilterIndex :: nat
  canTimeStamp :: nat

definition Can_44_TCAN4x5x_MCAN_ROBufferSizeFD :: "'x CanDrvSys \<Rightarrow> nat \<Rightarrow> nat" where
  "Can_44_TCAN4x5x_MCAN_ROBufferSizeFD D code = (if code < 8 then [8, 12, 16, 20, 24, 32, 48, 64] ! code else drv_stray D code)"

subsection \<open>Highest set bit\<close>

function clz_loop :: "nat \<Rightarrow> 32 word \<Rightarrow> nat \<Rightarrow> int" where
  "clz_loop Cnt v Num =
     (let temp1 = drop_bit Cnt v;
          (v, Num) = (if temp1 \<noteq> 0 then (temp1, Num - Cnt) else (v, Num))
      in if Cnt div 2 \<noteq> 0 then clz_loop (Cnt div 2) v Num else int Num - uint v)"
  by auto
termination by (relation "measure (\<lambda>(c, _). c)") auto

declare clz_loop.simps [simp del]

definition GetCntLeadZero :: "32 word \<Rightarrow> int" where
  "GetCntLeadZero v = clz_loop 16 v 32"

definition getmsb :: "64 word \<Rightarrow> int" where
  "getmsb val =
     (let bitpos = 31 - GetCntLeadZero (ucast (drop_bit 32 val))
      in if 0 > bitpos then 31 - GetCntLeadZero (ucast (val AND 0xFFFFFFFF)) else bitpos + 32)"

text \<open>\<open>msb v n\<close>: bit \<open>n\<close> is the highest bit set in \<open>v\<close>.\<close>

definition msb :: "'a::len word \<Rightarrow> nat \<Rightarrow> bool" where
  "msb v n \<longleftrightarrow> bit v n \<and> (\<forall>m > n. \<not> bit v m)"

lemma msb_drop_bit:
  assumes "msb (drop_bit c v) n"
  shows "msb v (n + c)"
proof -
  have "\<not> bit v m" if "n + c < m" for m
  proof -
    have "\<not> bit (drop_bit c v) (m - c)" using assms that by (simp add: msb_def)
    then show ?thesis using that by (simp add: bit_simps)
  qed
  then show ?thesis using assms by (simp add: msb_def bit_simps ac_simps)
qed

lemma drop_bit_0_iff: "drop_bit c v = 0 \<longleftrightarrow> (\<forall>m \<ge> c. \<not> bit v m)" for v :: "'a::len word"
proof
  assume z: "drop_bit c v = 0"
  have "bit v m = bit (drop_bit c v) (m - c)" if "c \<le> m" for m using that by (simp add: bit_simps)
  then show "\<forall>m \<ge> c. \<not> bit v m" using z by simp
next
  assume "\<forall>m \<ge> c. \<not> bit v m"
  then show "drop_bit c v = 0" by (intro bit_eqI) (simp add: bit_simps)
qed

lemma word_bit0:
  fixes v :: "'a::len word"
  assumes "\<forall>m > 0. \<not> bit v m" "v \<noteq> 0"
  shows "v = 1"
proof -
  obtain m where "bit v m" using assms(2) by (auto simp: bit_eq_iff)
  then have "bit v 0" using assms(1) by (cases m) auto
  then show ?thesis using assms(1) by (intro bit_eqI) (auto simp: bit_simps)
qed

lemma clz_loop_step:
  "clz_loop (2 ^ Suc k) v Num = (if drop_bit (2 ^ Suc k) v \<noteq> 0 then clz_loop (2 ^ k) (drop_bit (2 ^ Suc k) v) (Num - 2 ^ Suc k) else clz_loop (2 ^ k) v Num)"
  by (subst clz_loop.simps) (simp add: Let_def)

lemma clz_loop_last: "clz_loop 1 v Num = (if drop_bit 1 v \<noteq> 0 then int (Num - 1) - uint (drop_bit 1 v) else int Num - uint v)"
  by (subst clz_loop.simps) (simp add: Let_def)

lemma clz_loop_msb:
  assumes "v \<noteq> 0" "\<forall>m \<ge> 2 * 2 ^ k. \<not> bit v m" "2 * 2 ^ k \<le> Num"
  shows "\<exists>n. msb v n \<and> clz_loop (2 ^ k) v Num = int Num - 1 - int n"
  using assms
proof (induction k arbitrary: v Num)
  case 0
  show ?case
  proof (cases "drop_bit 1 v = 0")
    case True
    then have "\<forall>m > 0. \<not> bit v m" by (simp add: drop_bit_0_iff Suc_le_eq)
    then have "v = 1" using 0(1) by (rule word_bit0)
    moreover have "drop_bit 1 (1 :: 32 word) = 0" by simp
    ultimately show ?thesis by (intro exI [of _ 0]) (simp add: msb_def bit_simps clz_loop_last [simplified])
  next
    case False
    have "\<forall>m > 0. \<not> bit (drop_bit 1 v) m" using 0(2) by (simp add: bit_simps)
    then have d: "drop_bit 1 v = 1" using False by (rule word_bit0)
    have "msb (1 :: 32 word) 0" by (simp add: msb_def bit_simps)
    then have "msb v 1" using msb_drop_bit [of 1 v 0] d by simp
    then show ?thesis using 0(3) d by (intro exI [of _ 1]) (simp add: clz_loop_last [simplified] of_nat_diff)
  qed
next
  case (Suc k)
  let ?c = "2 ^ Suc k :: nat"
  show ?case
  proof (cases "drop_bit ?c v = 0")
    case True
    then have "\<forall>m \<ge> 2 * 2 ^ k. \<not> bit v m" by (simp add: drop_bit_0_iff)
    from Suc.IH [OF Suc.prems(1) this, of Num] Suc.prems(3) show ?thesis unfolding clz_loop_step using True by simp
  next
    case False
    have "\<forall>m \<ge> 2 * 2 ^ k. \<not> bit (drop_bit ?c v) m" using Suc.prems(2) by (simp add: bit_simps)
    moreover have "2 * 2 ^ k \<le> Num - ?c" using Suc.prems(3) by simp
    ultimately obtain n where n: "msb (drop_bit ?c v) n" "clz_loop (2 ^ k) (drop_bit ?c v) (Num - ?c) = int (Num - ?c) - 1 - int n"
      using Suc.IH [OF False] by blast
    have "int (Num - ?c) = int Num - int ?c" using Suc.prems(3) by (simp add: of_nat_diff)
    then have "clz_loop ?c v Num = int Num - 1 - int (n + ?c)" unfolding clz_loop_step using n(2) False by simp
    then show ?thesis using msb_drop_bit [OF n(1)] by blast
  qed
qed

lemma GetCntLeadZero_msb: "v \<noteq> 0 \<Longrightarrow> \<exists>n. msb v n \<and> GetCntLeadZero v = 31 - int n"
  using clz_loop_msb [of v 4 32] bit_imp_le_length [of v] by (fastforce simp: GetCntLeadZero_def)

lemma GetCntLeadZero_0: "GetCntLeadZero 0 = 32"
proof -
  have "clz_loop (2 ^ k) 0 32 = 32" for k
    by (induction k) (simp_all add: clz_loop_last [simplified] clz_loop_step [simplified])
  from this [of 4] show ?thesis by (simp add: GetCntLeadZero_def)
qed

text \<open>\<^verbatim>\<open>getmsb\<close> finds the highest bit of the new-data registers.\<close>

lemma getmsb_correct:
  assumes "val \<noteq> 0"
  shows "\<exists>n < 64. msb val n \<and> getmsb val = int n"
proof -
  let ?h = "ucast (drop_bit 32 val) :: 32 word" and ?l = "ucast (val AND 0xFFFFFFFF) :: 32 word"
  have h: "bit ?h n \<longleftrightarrow> n < 32 \<and> bit val (n + 32)" for n by (auto simp: bit_simps ac_simps)
  have l: "bit ?l n \<longleftrightarrow> n < 32 \<and> bit val n" for n
  proof -
    have m: "(0xFFFFFFFF :: 64 word) = mask 32" by (simp add: mask_eq_exp_minus_1)
    show ?thesis unfolding m by (auto simp: bit_simps)
  qed
  show ?thesis
  proof (cases "?h = 0")
    case True
    then have z: "\<not> bit val m" if "32 \<le> m" for m
      using h [of "m - 32"] that bit_imp_le_length [of val m] by (cases "m < 64") auto
    obtain m where m: "bit val m" using assms by (auto simp: bit_eq_iff)
    then have "bit ?l m" using l z by (cases "m < 32") auto
    then have "?l \<noteq> 0" by (metis bit_0_eq bot_apply bot_bool_def)
    then obtain n where n: "msb ?l n" "GetCntLeadZero ?l = 31 - int n" using GetCntLeadZero_msb by blast
    have "msb val n" using n(1) l z unfolding msb_def by (metis not_le)
    moreover have "n < 32" using n(1) l by (simp add: msb_def)
    ultimately show ?thesis using n(2) True by (intro exI [of _ n]) (simp add: getmsb_def Let_def GetCntLeadZero_0)
  next
    case False
    then obtain n where n: "msb ?h n" "GetCntLeadZero ?h = 31 - int n" using GetCntLeadZero_msb by blast
    have n32: "n < 32" "bit val (n + 32)" using n(1) h by (simp_all add: msb_def)
    have "\<not> bit val m" if "n + 32 < m" for m
    proof
      assume b: "bit val m"
      have "bit ?h (m - 32)" using h [of "m - 32"] that b bit_imp_le_length [OF b] by simp
      then show False using n(1) that by (simp add: msb_def)
    qed
    then have "msb val (n + 32)" using n32(2) by (simp add: msb_def)
    then show ?thesis using n(2) n32 by (intro exI [of _ "n + 32"]) (simp add: getmsb_def Let_def)
  qed
qed

subsection \<open>Operating modes\<close>

fun wait_init :: "'x CanDrvSys \<Rightarrow> nat \<Rightarrow> nat \<Rightarrow> 'x CanDrvSt \<Rightarrow> Std_ReturnType \<times> 'x CanDrvSt" where
  "wait_init D aId 0 s = (E_OK, s)"
| "wait_init D aId (Suc timeout) s =
     (let s = read_reg D aId REG_CCCR 1 s in
      if spi_rx aId 0 s AND CCCR_INIT \<noteq> 0 then (E_OK, s)
      else if timeout = 0 \<and> CAN_44_TCAN4x5x_DEV_ERROR_DETECT D then (E_NOT_OK, drv_report D (Can_44_TCAN4x5x_ApiId s) 9 s)
      else wait_init D aId timeout s)"

text \<open>The test mode bits of the variant TCAN1043 in the mode register at 0x0800.\<close>

definition test_mode :: "'x CanDrvSys \<Rightarrow> 'x CanDrvSt \<Rightarrow> 32 word \<Rightarrow> 32 word" where
  "test_mode D s v =
     (if CAN_44_TCAN4x5x_TCAN1043 D then if Can_44_TCAN4x5x_MajorRevId s \<noteq> 2 then v OR 0xC0 else v OR push_bit 21 1 else v)"

definition Can_44_TCAN4x5x_MCAN_SetInit :: "'x CanDrvSys \<Rightarrow> nat \<Rightarrow> 'x CanDrvSt \<Rightarrow> Std_ReturnType \<times> 'x CanDrvSt" where
  "Can_44_TCAN4x5x_MCAN_SetInit D aId s =
     (let s = read_reg D aId REG_CCCR 1 s;
          CCCRValue = spi_rx aId 0 s
      in if CCCRValue AND CCCR_INIT = 0
         then let s = read_reg D aId 0x0800 1 s;
                  s = (if CAN_44_TCAN4x5x_TCAN1043 D \<and> Can_44_TCAN4x5x_MajorRevId s = 2
                       then write_reg D aId 0x0800 [(spi_rx aId 0 s OR push_bit 6 1) AND NOT (push_bit 7 1)] s else s);
                  s = write_reg D aId 0x0800 [test_mode D s (spi_rx aId 0 s AND NOT 0x20)] s;
                  s = write_reg D aId REG_CCCR [CCCRValue OR CCCR_INIT] s
              in wait_init D aId CAN_44_TCAN4x5x_INIT_WAIT_TIMEOUT s
         else (E_OK, s))"

fun wait_run :: "'x CanDrvSys \<Rightarrow> nat \<Rightarrow> nat \<Rightarrow> 'x CanDrvSt \<Rightarrow> bool \<times> 'x CanDrvSt" where
  "wait_run D aId 0 s = (False, s)"
| "wait_run D aId (Suc timeout) s =
     (let s = read_reg D aId REG_CCCR 1 s in if spi_rx aId 0 s AND CCCR_INIT = 0 then (True, s) else wait_run D aId timeout s)"

definition Can_44_TCAN4x5x_MCAN_ResetInit :: "'x CanDrvSys \<Rightarrow> nat \<Rightarrow> 'x CanDrvSt \<Rightarrow> 'x CanDrvSt" where
  "Can_44_TCAN4x5x_MCAN_ResetInit D aId s =
     (let s = read_reg D aId REG_CCCR 1 s;
          s = write_reg D aId REG_CCCR [spi_rx aId 0 s AND NOT CCCR_INIT] s;
          (running, s) = wait_run D aId CAN_44_TCAN4x5x_INIT_WAIT_TIMEOUT s
      in if \<not> running then drv_report D (Can_44_TCAN4x5x_ApiId s) 9 s
         else let s = read_reg D aId 0x0800 1 s;
                  s = write_reg D aId 0x0800 [test_mode D s (spi_rx aId 0 s OR 0x20)] s
              in if CAN_44_TCAN4x5x_TCAN1043 D \<and> Can_44_TCAN4x5x_MajorRevId s = 2
                 then write_reg D aId 0x0800 [(spi_tx aId 0 s OR push_bit 7 1) AND NOT (push_bit 6 1)] s else s)"

text \<open>Read, modify and write of the control register, when it could be read.\<close>

definition modify_cccr :: "'x CanDrvSys \<Rightarrow> nat \<Rightarrow> (32 word \<Rightarrow> 32 word) \<Rightarrow> 'x CanDrvSt \<Rightarrow> 'x CanDrvSt" where
  "modify_cccr D aId f s =
     (let (ret, s) = Can_44_TCAN4x5x_SpiRead D aId REG_CCCR 1 s
      in if ret = E_OK then write_reg D aId REG_CCCR [f (spi_rx aId 0 s)] s else s)"

definition Can_44_TCAN4x5x_MCAN_ResetCCE :: "'x CanDrvSys \<Rightarrow> nat \<Rightarrow> 'x CanDrvSt \<Rightarrow> 'x CanDrvSt" where
  "Can_44_TCAN4x5x_MCAN_ResetCCE D aId s =
     (let (ret, s) = Can_44_TCAN4x5x_MCAN_SetInit D aId s
      in if ret = E_OK then modify_cccr D aId (\<lambda>v. v AND NOT CCCR_CCE) s else s)"

definition Can_44_TCAN4x5x_MCAN_ClearTXBRP :: "'x CanDrvSys \<Rightarrow> nat \<Rightarrow> 'x CanDrvSt \<Rightarrow> 'x CanDrvSt" where
  "Can_44_TCAN4x5x_MCAN_ClearTXBRP D aId s =
     (let (ret, s) = Can_44_TCAN4x5x_SpiRead D aId REG_TXBRP 1 s
      in if ret = E_OK \<and> spi_rx aId 0 s \<noteq> 0 then write_reg D aId REG_TXBCR [spi_rx aId 0 s] s else s)"

text \<open>The values of \<^verbatim>\<open>IE\<close>, \<^verbatim>\<open>ILS\<close> and \<^verbatim>\<open>ILE\<close> with the configured interrupts enabled.\<close>

definition ie_words :: "'x CanDrvSys \<Rightarrow> nat \<Rightarrow> 32 word list" where
  "ie_words D aId =
     (let P = Can_44_TCAN4x5x_ControllerSetting_PC D aId;
          IE_value = (if CanRxProcessing P = CAN_44_TCAN4x5x_INTERRUPT then IR_DRX OR IR_RF0N OR IR_RF1N OR IR_RF0L OR IR_RF1L else 0);
          IE_value = (if CanTxProcessing P = CAN_44_TCAN4x5x_INTERRUPT then IE_value OR (IR_TEFN OR IR_TEFL) else IE_value);
          IE_value = (if CanBusoffProcessing P = CAN_44_TCAN4x5x_INTERRUPT then IE_value OR IR_BO else IE_value)
      in if RBD_PK_PCB_ANCHOR D then [IE_value, 0x3FFFFFFF, 2] else [IE_value, 0, 1])"

definition Can_44_TCAN4x5x_MCAN_EnableAllInterrupts :: "'x CanDrvSys \<Rightarrow> nat \<Rightarrow> 'x CanDrvSt \<Rightarrow> 'x CanDrvSt" where
  "Can_44_TCAN4x5x_MCAN_EnableAllInterrupts D aId s = write_reg D aId REG_IE (ie_words D aId) s"

definition Can_44_TCAN4x5x_MCAN_DisableAllInterrupts :: "'x CanDrvSys \<Rightarrow> nat \<Rightarrow> 'x CanDrvSt \<Rightarrow> 'x CanDrvSt" where
  "Can_44_TCAN4x5x_MCAN_DisableAllInterrupts D aId s = write_reg D aId REG_IE [0] s"

definition set_dev_state :: "nat \<Rightarrow> CAN_44_TCAN4x5x_StateType \<Rightarrow> 'x CanDrvSt \<Rightarrow> 'x CanDrvSt" where
  "set_dev_state aId st s = s\<lparr>Can_44_TCAN4x5x_MCAN_RWDev := (Can_44_TCAN4x5x_MCAN_RWDev s)(aId := (Can_44_TCAN4x5x_MCAN_RWDev s aId)\<lparr>dev_state := st\<rparr>)\<rparr>"

definition Can_44_TCAN4x5x_MCAN_SetMode :: "'x CanDrvSys \<Rightarrow> nat \<Rightarrow> CAN_44_TCAN4x5x_StateType \<Rightarrow> 'x CanDrvSt \<Rightarrow> Can_ReturnType \<times> 'x CanDrvSt" where
  "Can_44_TCAN4x5x_MCAN_SetMode D aId aState s =
     (if CAN_44_TCAN4x5x_NUM_CONTROLLER_MAX D \<le> aId then (CAN_NOT_OK, s)
      else case aState of
        CAN_44_TCAN4x5x_STATE_IDLE \<Rightarrow>
          (let s = read_verified D aId REG_TXBRP 1 (set_dev_state aId CAN_44_TCAN4x5x_STATE_IDLE s);
               TXBRPValue = spi_rx aId 0 s
           in if TXBRPValue \<noteq> 0 then (CAN_BUSY, write_reg D aId REG_TXBCR [TXBRPValue] s)
              else let (retval, s) = Can_44_TCAN4x5x_MCAN_SetInit D aId s
                   in (if retval = E_OK then CAN_OK else CAN_NOT_OK, modify_cccr D aId (\<lambda>v. (v OR CCCR_CCE) AND NOT CCCR_CSR) s))
      | CAN_44_TCAN4x5x_STATE_RUNNING \<Rightarrow>
          (CAN_OK, Can_44_TCAN4x5x_MCAN_ResetInit D aId (Can_44_TCAN4x5x_MCAN_ResetCCE D aId
             (Can_44_TCAN4x5x_MCAN_EnableAllInterrupts D aId (set_dev_state aId CAN_44_TCAN4x5x_STATE_RUNNING s))))
      | CAN_44_TCAN4x5x_STATE_SLEEP \<Rightarrow>
          (CAN_OK, Can_44_TCAN4x5x_MCAN_DisableAllInterrupts D aId
             (modify_cccr D aId (\<lambda>v. v OR CCCR_CSR) (set_dev_state aId CAN_44_TCAN4x5x_STATE_SLEEP s)))
      | CAN_44_TCAN4x5x_STATE_WAKEUP \<Rightarrow>
          (CAN_OK, modify_cccr D aId (\<lambda>v. v AND NOT CCCR_CSR) (set_dev_state aId CAN_44_TCAN4x5x_STATE_WAKEUP s))
      | CAN_44_TCAN4x5x_STATE_UNINIT \<Rightarrow>
          (CAN_OK, (set_dev_state aId CAN_44_TCAN4x5x_STATE_UNINIT s)\<lparr>Can_44_TCAN4x5x_DriverState := 0\<rparr>)
      | CAN_44_TCAN4x5x_STATE_BUSOFF \<Rightarrow> (CAN_NOT_OK, s))"

definition Can_44_TCAN4x5x_MCAN_SetCCE :: "'x CanDrvSys \<Rightarrow> nat \<Rightarrow> 'x CanDrvSt \<Rightarrow> 'x CanDrvSt" where
  "Can_44_TCAN4x5x_MCAN_SetCCE D aId s =
     (let (ret, s) = Can_44_TCAN4x5x_MCAN_SetMode D aId CAN_44_TCAN4x5x_STATE_IDLE s
      in if ret = CAN_OK then modify_cccr D aId (\<lambda>v. v OR CCCR_CCE) s else drv_report D (Can_44_TCAN4x5x_ApiId s) 9 s)"

subsection \<open>Set-up\<close>

definition configFilterMasks :: "'x CanDrvSys \<Rightarrow> nat \<Rightarrow> Can_44_TCAN4x5x_RxObjFilterConfigType \<Rightarrow> nat \<Rightarrow> 'x CanDrvSt \<Rightarrow> 'x CanDrvSt" where
  "configFilterMasks D aId F filterConfig s =
     (if CanIdType F = 0
      then let i = Can_44_TCAN4x5x_Mcan_stdFilterIndex s;
               s = write_reg D aId (MSG_RAM_BASE_ADDR + 4 * i)
                     [push_bit 30 (of_nat (CanFilterType F)) OR push_bit 27 (of_nat filterConfig) OR push_bit 16 (CanHwFilterCode F) OR CanHwFilterMask F] s
           in s\<lparr>Can_44_TCAN4x5x_Mcan_stdFilterIndex := u8 (int i + 1)\<rparr>
      else let i = Can_44_TCAN4x5x_Mcan_extFilterIndex s;
               s = write_reg D aId (MSG_RAM_BASE_ADDR + EXTND_ID_FILTER_START_ADDR (Can_44_TCAN4x5x_MCAN_RWDev s aId) + 4 * i)
                     [push_bit 29 (of_nat filterConfig) OR CanHwFilterCode F, push_bit 30 (of_nat (CanFilterType F)) OR CanHwFilterMask F] s
           in s\<lparr>Can_44_TCAN4x5x_Mcan_extFilterIndex := u8 (int i + 2)\<rparr>)"

definition Can_44_TCAN4x5x_MCAN_ConfigureGlobalFilters ::
  "'x CanDrvSys \<Rightarrow> nat \<Rightarrow> (nat \<Rightarrow> Can_44_TCAN4x5x_RxObjFilterConfigType) \<Rightarrow> nat \<Rightarrow> 'x CanDrvSt \<Rightarrow> 'x CanDrvSt" where
  "Can_44_TCAN4x5x_MCAN_ConfigureGlobalFilters D aId rxFilterObjPtr canFilterObjSize s =
     (let s = write_reg D aId REG_GFC [0x3F] s;
          s = s\<lparr>Can_44_TCAN4x5x_Mcan_stdFilterIndex := 0, Can_44_TCAN4x5x_Mcan_extFilterIndex := 0\<rparr>
      in fold (\<lambda>idx. configFilterMasks D aId (rxFilterObjPtr idx) (CanMessageBufferType (rxFilterObjPtr idx))) [0..<canFilterObjSize] s)"

definition ConvertToDLC :: "nat \<Rightarrow> nat" where
  "ConvertToDLC msgLength =
     (if msgLength \<le> 8 then msgLength else if msgLength \<le> 12 then 9 else if msgLength \<le> 16 then 10 else if msgLength \<le> 20 then 11
      else if msgLength \<le> 24 then 12 else if msgLength \<le> 32 then 13 else if msgLength \<le> 48 then 14 else 15)"

definition ConvertCanDLC :: "nat \<Rightarrow> nat" where
  "ConvertCanDLC canDLC =
     (if canDLC = 9 then 12 else if canDLC = 10 then 16 else if canDLC = 11 then 20 else if canDLC = 12 then 24
      else if canDLC = 13 then 32 else if canDLC = 14 then 48 else if canDLC = 15 then 64 else canDLC)"

text \<open>Limits of the bit timing: \<^verbatim>\<open>TSEG1_MIN\<close>, \<^verbatim>\<open>TSEG1_MAX\<close>, \<^verbatim>\<open>TSEG2_MAX\<close>, \<^verbatim>\<open>SJW_MAX\<close>, \<^verbatim>\<open>NBRP_MAX\<close>.\<close>

definition bad_timing :: "nat \<Rightarrow> nat \<Rightarrow> nat \<Rightarrow> nat \<Rightarrow> bool" where
  "bad_timing tseg1 tseg2 sjw brp \<longleftrightarrow> tseg1 < 1 \<or> 255 < tseg1 \<or> 127 < tseg2 \<or> 127 < sjw \<or> 511 < brp"

definition data_bit_timing :: "Can_44_TCAN4x5x_ControllerFdBaudrateConfigType \<Rightarrow> 32 word" where
  "data_bit_timing F =
     (if CanControllerDataTxBitRateSwitch F = 1
      then of_nat (CanControllerDataSyncJumpWidth F) OR push_bit 16 (of_nat (CanFDControllerBRP F))
           OR push_bit 8 (of_nat (CanControllerDataPropSeg F + CanControllerDataSeg1 F)) OR push_bit 4 (of_nat (CanControllerDataSeg2 F))
           OR push_bit 23 (if CanControllerDataTrcvDelayCompensationOffset F \<noteq> 0 then 1 else 0)
      else 0)"

definition Can_44_TCAN4x5x_MCAN_SetBaudrate ::
  "'x CanDrvSys \<Rightarrow> nat \<Rightarrow> Can_44_TCAN4x5x_ControllerBaudrateConfigType \<Rightarrow> 'x CanDrvSt \<Rightarrow> Std_ReturnType \<times> 'x CanDrvSt" where
  "Can_44_TCAN4x5x_MCAN_SetBaudrate D aId aConfig s =
     (let ntseg1 = CanControllerPropSeg aConfig + CanControllerSeg1 aConfig;
          ntseg2 = CanControllerSeg2 aConfig; nsjw = CanControllerSyncJumpWidth aConfig; nbrp = CanControllerBRP aConfig;
          fd = CanFDBaudRateEnabled (Can_44_TCAN4x5x_ControllerSetting_PC D aId);
          F = CanControllerFdBaudrateConf aConfig
      in if CAN_44_TCAN4x5x_DEV_ERROR_DETECT D \<and> bad_timing ntseg1 ntseg2 nsjw nbrp
         then (E_NOT_OK, drv_report D (Can_44_TCAN4x5x_ApiId s) 0x0a s)
         else let s = (if fd then s\<lparr>Can_44_TCAN4x5x_Mcan_FdConfig := (Can_44_TCAN4x5x_Mcan_FdConfig s)(aId := F)\<rparr> else s);
                  bad = (fd \<and> CAN_44_TCAN4x5x_DEV_ERROR_DETECT D \<and>
                     bad_timing (CanControllerDataPropSeg F + CanControllerDataSeg1 F) (CanControllerDataSeg2 F) (CanControllerDataSyncJumpWidth F) (CanFDControllerBRP F));
                  s = (if bad then drv_report D (Can_44_TCAN4x5x_ApiId s) 0x0c s else s);
                  s = write_reg D aId REG_Prescale [of_nat (CAN_44_TCAN4x5x_XTAL_FREQUENCY D div 8 div CAN_44_TCAN4x5x_TIMESTAMP_FREQUENCY D)] s;
                  s = write_reg D aId REG_TSCC [2] s;
                  s = write_reg D aId REG_TOCC [0] s;
                  s = (if fd then modify_cccr D aId (\<lambda>v. v OR CCCR_FDOE) s else s);
                  s = (if fd \<and> CanControllerDataTxBitRateSwitch F = 1 then modify_cccr D aId (\<lambda>v. v OR CCCR_BRSE) s else s);
                  s = write_reg D aId REG_NBTP [push_bit 25 (of_nat nsjw) OR push_bit 16 (of_nat nbrp) OR push_bit 8 (of_nat ntseg1) OR of_nat ntseg2] s;
                  s = (if fd \<and> CanControllerDataTrcvDelayCompensationOffset F \<noteq> 0
                       then write_reg D aId REG_TDCE [push_bit 8 (of_nat (CanControllerDataTrcvDelayCompensationOffset F) - 1)] s else s);
                  s = (if fd then write_reg D aId REG_DBTP [data_bit_timing F] s else s)
              in (if bad then E_NOT_OK else E_OK, s))"

text \<open>The sections of the message RAM: filters, receive FIFOs and buffers, transmit events and buffers, one behind the other.\<close>

definition Can_44_TCAN4x5x_MCAN_MessageRAM_Init :: "'x CanDrvSys \<Rightarrow> nat \<Rightarrow> Can_44_TCAN4x5x_MsgRamConfigType \<Rightarrow> 'x CanDrvSt \<Rightarrow> 'x CanDrvSt" where
  "Can_44_TCAN4x5x_MCAN_MessageRAM_Init D aId M s =
     (let code = CanFdDataBufSize (Can_44_TCAN4x5x_ControllerSetting_PC D aId);
          elem = Can_44_TCAN4x5x_MCAN_ROBufferSizeFD D code + 8;
          xf = CanStdandardIDFiltersCount M * 4;
          f0 = xf + CanExtendedIDFiltersCount M * 8;
          f1 = f0 + CanFifo0BufferCount M * elem;
          rb = f1 + CanFifo1BufferCount M * elem;
          te = rb + CanDedicatedRxBufferCount M * elem;
          tb = te + CanTxBufferCount M * 8;
          dev = (\<lambda>g s. s\<lparr>Can_44_TCAN4x5x_MCAN_RWDev := (Can_44_TCAN4x5x_MCAN_RWDev s)(aId := g (Can_44_TCAN4x5x_MCAN_RWDev s aId))\<rparr>);
          s = dev (\<lambda>r. r\<lparr>EXTND_ID_FILTER_START_ADDR := xf\<rparr>) s;
          s = write_reg D aId REG_SIDFC [push_bit 16 (of_nat (CanStdandardIDFiltersCount M)), push_bit 16 (of_nat (CanExtendedIDFiltersCount M)) OR of_nat xf] s;
          s = dev (\<lambda>r. r\<lparr>RX_FIFO0_START_ADDR := f0\<rparr>) s;
          s = write_reg D aId REG_RXF0C [push_bit 16 (of_nat (CanFifo0BufferCount M)) OR of_nat f0] s;
          s = dev (\<lambda>r. r\<lparr>RX_FIFO1_START_ADDR := f1\<rparr>) s;
          s = write_reg D aId REG_RXF1C [push_bit 16 (of_nat (CanFifo1BufferCount M)) OR of_nat f1] s;
          s = dev (\<lambda>r. r\<lparr>RX_BUFFER_START_ADDR := rb\<rparr>) s;
          s = write_reg D aId REG_RXBC [of_nat rb] s;
          s = dev (\<lambda>r. r\<lparr>TX_EVENT_FIFO_START_ADDR := te\<rparr>) s;
          s = write_reg D aId REG_TXEFC [push_bit 16 (of_nat (CanTxBufferCount M)) OR of_nat te] s;
          s = dev (\<lambda>r. r\<lparr>TX_BUFFER_START_ADDR := tb\<rparr>) s;
          s = write_reg D aId REG_TXBC [push_bit 30 1 OR push_bit 16 (of_nat (CanTxBufferCount M)) OR of_nat tb] s;
          s = write_reg D aId REG_RXESC [push_bit 8 (of_nat code) OR push_bit 4 (of_nat code) OR of_nat code] s
      in write_reg D aId REG_TXESC [of_nat code] s)"

fun clear_ram :: "'x CanDrvSys \<Rightarrow> nat \<Rightarrow> nat list \<Rightarrow> 'x CanDrvSt \<Rightarrow> 'x CanDrvSt" where
  "clear_ram D aId [] s = s"
| "clear_ram D aId (indx # is) s =
     (let s = snd (Can_44_TCAN4x5x_SpiWrite D aId (MSG_RAM_BASE_ADDR + indx * 64) 16 s)
      in clear_ram D aId is (if indx = 16 then s\<lparr>drv_ext := WdgMgr_Kick D (drv_ext s)\<rparr> else s))"

definition trcv_test_pins :: "'x CanDrvSys \<Rightarrow> nat \<Rightarrow> 'x CanDrvSt \<Rightarrow> 'x CanDrvSt" where
  "trcv_test_pins D aId s =
     (let s = read_reg D aId 0x0800 1 s;
          v = (spi_rx aId 0 s AND NOT (push_bit 14 1)) OR push_bit 15 1;
          s = write_reg D aId 0x0800 [v] s;
          v = (if Can_44_TCAN4x5x_MajorRevId s \<noteq> 2 then (v AND NOT (push_bit 1 1)) OR 1 else v OR 1);
          s = write_reg D aId 0x0800 [v] s;
          v = (if Can_44_TCAN4x5x_MajorRevId s \<noteq> 2 then v OR push_bit 6 1 OR push_bit 7 1 else v OR push_bit 21 1)
      in write_reg D aId 0x0800 [v] s)"

definition Can_44_TCAN4x5x_MCAN_Init :: "'x CanDrvSys \<Rightarrow> nat \<Rightarrow> Can_44_TCAN4x5x_ConfigType \<Rightarrow> 'x CanDrvSt \<Rightarrow> 'x CanDrvSt" where
  "Can_44_TCAN4x5x_MCAN_Init D aId aConfig s =
     (let C = CanControllerConfiguration aConfig aId;
          s = (if 12400000 < CanSpiBaudrateRef C \<and> CanXtalClock (Can_44_TCAN4x5x_ControllerSetting_PC D aId) \<le> 20000000
               then write_reg D aId 0x0014 [0x1F1F0413]
                      (s\<lparr>Can_44_TCAN4x5x_ReadCmd := (Can_44_TCAN4x5x_ReadCmd s)(aId := CAN_44_TCAN4x5x_READ_WAIT)\<rparr>)
               else s\<lparr>Can_44_TCAN4x5x_ReadCmd := (Can_44_TCAN4x5x_ReadCmd s)(aId := CAN_44_TCAN4x5x_READ)\<rparr>);
          s = (if CAN_44_TCAN4x5x_TCAN1043 D then write_reg D aId 0x0830 [0] s else s);
          s = read_reg D aId 0x0008 1 s;
          s = s\<lparr>Can_44_TCAN4x5x_MajorRevId := ucast (drop_bit 8 (spi_rx aId 0 s) AND 0xFF)\<rparr>
      in if Can_44_TCAN4x5x_MajorRevId s \<noteq> 1
         then (if aId < CAN_44_TCAN4x5x_NUM_CONTROLLER_MAX D
               then let s = Can_44_TCAN4x5x_MCAN_SetCCE D aId s;
                        s = clear_ram D aId [0..<32] (put_tx aId (replicate 16 0) s);
                        s = Can_44_TCAN4x5x_MCAN_MessageRAM_Init D aId (CanMsgRamConfig C) s;
                        (ret, s) = Can_44_TCAN4x5x_MCAN_SetBaudrate D aId (CanControllerBaudrateConfigPtr C (CanControllerDefaultBaudrate C)) s;
                        filter_size = u8 (int (CanStdandardIDFiltersCount (CanMsgRamConfig C)) + int (CanExtendedIDFiltersCount (CanMsgRamConfig C)));
                        s = Can_44_TCAN4x5x_MCAN_ConfigureGlobalFilters D aId (CanRxObjFilterConfigPtr C) filter_size s;
                        s = (if CAN_44_TCAN4x5x_TCAN1043 D then trcv_test_pins D aId s else s)
                    in if CAN_44_TCAN4x5x_DEV_ERROR_DETECT D
                       then let s = (if ret \<noteq> E_OK then drv_report D (Can_44_TCAN4x5x_ApiId s) 0x1a s else s);
                                (m, s) = Can_44_TCAN4x5x_MCAN_SetMode D aId CAN_44_TCAN4x5x_STATE_IDLE s
                            in if m \<noteq> CAN_OK then drv_report D (Can_44_TCAN4x5x_ApiId s) 0x2a s else s
                       else s
               else drv_report D (Can_44_TCAN4x5x_ApiId s) 0xba s)\<lparr>Can_44_TCAN4x5x_DrvConfigPtr := aConfig\<rparr>
         else s)"

subsection \<open>Transmission\<close>

definition pdu_byte :: "'x CanDrvSys \<Rightarrow> Can_PduType \<Rightarrow> nat \<Rightarrow> nat" where
  "pdu_byte D pdu i = (case can_sdu pdu of Some d \<Rightarrow> if i < length d then d ! i else drv_stray D i | None \<Rightarrow> drv_stray D i)"

text \<open>
  A data word of a transmit element: \<^verbatim>\<open>memset\<close> clears as many bytes of the buffer's old contents as the message has in this word, then the bytes of the message are
  or-ed into it, least significant first.
\<close>

definition pack_word :: "32 word \<Rightarrow> nat \<Rightarrow> (nat \<Rightarrow> nat) \<Rightarrow> nat \<Rightarrow> 32 word" where
  "pack_word old len byte k =
     (let n = min 4 (len - 4 * k)
      in fold (\<lambda>j w. w OR push_bit (8 * j) (of_nat (byte (4 * k + j)))) [0..<n] (push_bit (8 * n) (drop_bit (8 * n) old)))"

definition words_of :: "nat \<Rightarrow> nat" where
  "words_of len = (if len AND 3 \<noteq> 0 then len div 4 + 1 else len div 4)"

definition tx_element :: "'x CanDrvSys \<Rightarrow> nat \<Rightarrow> Can_PduType \<Rightarrow> Can_44_TCAN4x5x_TxObjConfigType \<Rightarrow> nat \<Rightarrow> 'x CanDrvSt \<Rightarrow> 32 word list" where
  "tx_element D aId pdu TxObj tx_buf_idx s =
     (let fd = CanFDBaudRateEnabled (Can_44_TCAN4x5x_ControllerSetting_PC D aId);
          t0 = (if can_id pdu AND CAN_44_TCAN4x5x_EXTD_ID_MASK = 0 then push_bit 18 (can_id pdu) else push_bit 30 1 OR can_id pdu);
          fdf_config = (if fd \<and> can_id pdu AND CAN_44_TCAN4x5x_FRAME_TYPE_MASK \<noteq> 0 then 1 else 0 :: 32 word);
          brs_config = (if fd then of_nat (CanControllerDataTxBitRateSwitch (Can_44_TCAN4x5x_Mcan_FdConfig s aId)) else 0 :: 32 word);
          dlcCode = (if fd then ConvertToDLC (can_length pdu) else can_length pdu);
          msgLength = (if fd then ConvertCanDLC dlcCode else can_length pdu);
          t1 = push_bit 24 (of_nat tx_buf_idx) OR push_bit 23 1 OR push_bit 21 fdf_config OR push_bit 20 brs_config OR push_bit 16 (of_nat dlcCode);
          byte = (\<lambda>i. if fd \<and> can_length pdu \<le> i then CanFdPaddingValue TxObj else pdu_byte D pdu i)
      in t0 # t1 # map (\<lambda>k. pack_word (spi_tx aId (2 + k) s) msgLength byte k) [0..<words_of msgLength])"

fun write_loop ::
  "'x CanDrvSys \<Rightarrow> nat \<Rightarrow> Can_PduType \<Rightarrow> Can_44_TCAN4x5x_TxObjConfigType \<Rightarrow> 32 word \<Rightarrow> nat \<Rightarrow> nat \<Rightarrow> Can_ReturnType \<Rightarrow> 'x CanDrvSt \<Rightarrow>
     Can_ReturnType \<times> 'x CanDrvSt" where
  "write_loop D aId pdu TxObj TXBRPValue 0 tx_buf_idx retval s = (retval, s)"
| "write_loop D aId pdu TxObj TXBRPValue (Suc n) tx_buf_idx retval s =
     (if \<not> bit TXBRPValue tx_buf_idx
      then let h = (Can_44_TCAN4x5x_Mcan_swPduHandle s aId)(tx_buf_idx := swPduHandle pdu);
               size = Can_44_TCAN4x5x_MCAN_ROBufferSizeFD D (CanFdDataBufSize (Can_44_TCAN4x5x_ControllerSetting_PC D aId));
               adrs = MSG_RAM_BASE_ADDR + TX_BUFFER_START_ADDR (Can_44_TCAN4x5x_MCAN_RWDev s aId) + 4 * ((2 + size div 4) * tx_buf_idx);
               elem = tx_element D aId pdu TxObj tx_buf_idx s;
               s = s\<lparr>Can_44_TCAN4x5x_Mcan_swPduHandle := (Can_44_TCAN4x5x_Mcan_swPduHandle s)(aId := h)\<rparr>;
               s = write_reg D aId adrs elem s
           in (CAN_OK, write_reg D aId REG_TXBAR [push_bit tx_buf_idx 1] s)
      else write_loop D aId pdu TxObj TXBRPValue n (u8 (int tx_buf_idx + 1)) CAN_BUSY s)"

definition Can_44_TCAN4x5x_MCAN_Write ::
  "'x CanDrvSys \<Rightarrow> nat \<Rightarrow> Can_PduType \<Rightarrow> Can_44_TCAN4x5x_TxObjConfigType \<Rightarrow> 'x CanDrvSt \<Rightarrow> Can_ReturnType \<times> 'x CanDrvSt" where
  "Can_44_TCAN4x5x_MCAN_Write D aId pdu TxObj s =
     (let s = read_verified D aId REG_TXBRP 1 s
      in write_loop D aId pdu TxObj (spi_rx aId 0 s) (CanHwObjectCount TxObj) (CanTxBufferIndex TxObj) CAN_OK s)"

subsection \<open>Reception and confirmation\<close>

definition on_drv :: "('x CanDrvSt \<Rightarrow> 'x CanDrvSt) \<Rightarrow> 'x CanDrvSt CanIf_St \<Rightarrow> 'x CanDrvSt CanIf_St" where
  "on_drv f w = w\<lparr>ci_ext := f (ci_ext w)\<rparr>"

definition Can_44_TCAN4x5x_RxNotification ::
  "'x CanDrvSt CanIf_Sys \<Rightarrow> 'x CanDrvSys \<Rightarrow> nat \<Rightarrow> Can_44_TCAN4x5x_MsgInfoType \<Rightarrow> 'x CanDrvSt CanIf_St \<Rightarrow> 'x CanDrvSt CanIf_St" where
  "Can_44_TCAN4x5x_RxNotification S D aId m w =
     (let C = CanControllerConfiguration (Can_44_TCAN4x5x_DrvConfigPtr (ci_ext w)) aId;
          Hoh = (if \<not> canMsgID_ext m then CanFilterIdxToRxObjStandard C (canFilterIndex m) else CanFilterIdxToRxObjExtended C (canFilterIndex m));
          CanId = (if \<not> canMsgID_ext m then canID m else canID m OR CAN_44_TCAN4x5x_EXTD_ID_MASK);
          CanId = (if CanFDBaudRateEnabled (Can_44_TCAN4x5x_ControllerSetting_PC D aId) \<and> canMessageFormat m = 1
                   then CanId OR CAN_44_TCAN4x5x_FRAME_TYPE_MASK else CanId);
          (ok, w) = (case LPDU_RECEIVE_CALLOUT_FUNCTION D of
                       None \<Rightarrow> (True, w)
                     | Some f \<Rightarrow> (case f Hoh CanId (canMsgDataPtr m) (drv_ext (ci_ext w)) of (ok, x) \<Rightarrow> (ok, on_drv (\<lambda>s. s\<lparr>drv_ext := x\<rparr>) w)))
      in if ok
         then CanIf_RxIndication S (Some CanId)
                (Some \<lparr>rx_data = (case canMsgDataPtr m of None \<Rightarrow> [] | Some d \<Rightarrow> d), rx_SduTimeStamp = canTimeStamp m\<rparr>) w
         else w)"

definition Can_44_TCAN4x5x_TxNotification :: "'x CanDrvSt CanIf_Sys \<Rightarrow> nat \<Rightarrow> 'x CanDrvSt CanIf_St \<Rightarrow> 'x CanDrvSt CanIf_St" where
  "Can_44_TCAN4x5x_TxNotification S h w = CanIf_TxConfirmation S h w"

text \<open>Reading a receive element at an address: its two header words, then its data.\<close>

definition read_rx_elem :: "'x CanDrvSys \<Rightarrow> nat \<Rightarrow> nat \<Rightarrow> 'x CanDrvSt \<Rightarrow> Can_44_TCAN4x5x_MsgInfoType \<times> 'x CanDrvSt" where
  "read_rx_elem D aId rxElemAdrs s =
     (let s = read_reg D aId rxElemAdrs 2 s;
          r0 = spi_rx aId 0 s; r1 = spi_rx aId 1 s;
          len = ConvertCanDLC (unat (drop_bit 16 (r1 AND 0x000F0000)));
          ext = (r0 AND 0x40000000 \<noteq> 0);
          s = read_reg D aId (rxElemAdrs + 8) (words_of len) s;
          rxBuf = map (\<lambda>idx. unat (drop_bit (idx mod 4 * 8) (spi_rx aId (idx div 4) s) AND 0xFF)) [0..<len]
      in (\<lparr>canID = (if ext then r0 AND 0x1FFFFFFF else drop_bit 18 (r0 AND 0x1FFFFFFF)), canMsgID_ext = ext, canMsgLength = len,
           canMsgDataPtr = (if 0 < len then Some rxBuf else None), canMessageFormat = drop_bit 21 (r1 AND 0x00200000),
           canFilterIndex = unat (drop_bit 24 (r1 AND 0x7F000000)), canTimeStamp = unat (r1 AND 0xFFFF)\<rparr>, s))"

definition elem_words :: "'x CanDrvSys \<Rightarrow> nat \<Rightarrow> nat" where
  "elem_words D aId = 2 + Can_44_TCAN4x5x_MCAN_ROBufferSizeFD D (CanFdDataBufSize (Can_44_TCAN4x5x_ControllerSetting_PC D aId)) div 4"

text \<open>The two receive FIFOs: \<open>stat\<close> and \<open>ack\<close> are the status and acknowledge registers, \<open>start\<close> selects the address of the section.\<close>

fun rx_fifo_loop ::
  "'x CanDrvSt CanIf_Sys \<Rightarrow> 'x CanDrvSys \<Rightarrow> nat \<Rightarrow> nat \<Rightarrow> nat \<Rightarrow> (Can_44_TCAN4x5x_MCAN_RWDevType \<Rightarrow> nat) \<Rightarrow> nat \<Rightarrow> 'x CanDrvSt CanIf_St \<Rightarrow> 'x CanDrvSt CanIf_St" where
  "rx_fifo_loop S D aId stat ack start 0 w = w"
| "rx_fifo_loop S D aId stat ack start (Suc fifoLevel) w =
     (let s = ci_ext w;
          index = unat (drop_bit 8 (spi_rx aId 0 s AND 0x3F00));
          (m, s) = read_rx_elem D aId (MSG_RAM_BASE_ADDR + start (Can_44_TCAN4x5x_MCAN_RWDev s aId) + 4 * (elem_words D aId * index)) s;
          s = write_reg D aId ack [of_nat index] s;
          w = Can_44_TCAN4x5x_RxNotification S D aId m (w\<lparr>ci_ext := s\<rparr>)
      in rx_fifo_loop S D aId stat ack start fifoLevel (if fifoLevel \<noteq> 0 then on_drv (read_verified D aId stat 1) w else w))"

definition Can_44_TCAN4x5x_MCAN_ProcessRxFIFO ::
  "'x CanDrvSt CanIf_Sys \<Rightarrow> 'x CanDrvSys \<Rightarrow> nat \<Rightarrow> bool \<Rightarrow> 'x CanDrvSt CanIf_St \<Rightarrow> 'x CanDrvSt CanIf_St" where
  "Can_44_TCAN4x5x_MCAN_ProcessRxFIFO S D aId fifo1 w =
     (let stat = (if fifo1 then REG_RXF1S else REG_RXF0S);
          w = on_drv (read_verified D aId stat 1) w
      in rx_fifo_loop S D aId stat (if fifo1 then REG_RXF1A else REG_RXF0A) (if fifo1 then RX_FIFO1_START_ADDR else RX_FIFO0_START_ADDR)
           (unat (spi_rx aId 0 (ci_ext w) AND 0x7F)) w)"

fun tx_event_loop :: "'x CanDrvSt CanIf_Sys \<Rightarrow> 'x CanDrvSys \<Rightarrow> nat \<Rightarrow> nat \<Rightarrow> 'x CanDrvSt CanIf_St \<Rightarrow> 'x CanDrvSt CanIf_St" where
  "tx_event_loop S D aId 0 w = w"
| "tx_event_loop S D aId (Suc fifoLevel) w =
     (let s = ci_ext w;
          index = unat (drop_bit 8 (spi_rx aId 0 s AND 0x1F00));
          s = read_reg D aId (MSG_RAM_BASE_ADDR + TX_EVENT_FIFO_START_ADDR (Can_44_TCAN4x5x_MCAN_RWDev s aId) + 4 * (2 * index + 1)) 1 s;
          e = spi_rx aId 0 s;
          canMM = unat (drop_bit 24 (e AND 0xFF000000));
          s = s\<lparr>Can_44_TCAN4x5x_CurrentTxTimeStamp := (Can_44_TCAN4x5x_CurrentTxTimeStamp s)(aId := unat (e AND 0xFFFF))\<rparr>;
          s = write_reg D aId REG_TXEFA [of_nat index] s;
          w = Can_44_TCAN4x5x_TxNotification S (Can_44_TCAN4x5x_Mcan_swPduHandle s aId canMM) (w\<lparr>ci_ext := s\<rparr>)
      in tx_event_loop S D aId fifoLevel (if fifoLevel \<noteq> 0 then on_drv (read_verified D aId REG_TXEFS 1) w else w))"

definition Can_44_TCAN4x5x_MCAN_ProcessTx :: "'x CanDrvSt CanIf_Sys \<Rightarrow> 'x CanDrvSys \<Rightarrow> nat \<Rightarrow> 'x CanDrvSt CanIf_St \<Rightarrow> 'x CanDrvSt CanIf_St" where
  "Can_44_TCAN4x5x_MCAN_ProcessTx S D aId w =
     (let w = on_drv (read_verified D aId REG_TXEFS 1) w in tx_event_loop S D aId (unat (spi_rx aId 0 (ci_ext w) AND 0x3F)) w)"

text \<open>Reading the interrupt flags: those of interest are cleared by writing them back. \<open>None\<close>: they could not be read.\<close>

definition take_flags :: "'x CanDrvSys \<Rightarrow> nat \<Rightarrow> 32 word \<Rightarrow> 'x CanDrvSt \<Rightarrow> 32 word option \<times> 'x CanDrvSt" where
  "take_flags D aId flags s =
     (let (Read_Status, s) = Can_44_TCAN4x5x_SpiRead D aId REG_INTR 1 s;
          s = Can_44_TCAN4x5x_VerifySpiRead D aId REG_INTR s
      in if Read_Status = E_OK
         then let intr = spi_rx aId 0 s AND flags in (Some intr, if intr \<noteq> 0 then write_reg D aId REG_INTR [intr] s else s)
         else (None, s))"

definition Can_44_TCAN4x5x_MCAN_ProcessCanTx :: "'x CanDrvSt CanIf_Sys \<Rightarrow> 'x CanDrvSys \<Rightarrow> nat \<Rightarrow> 'x CanDrvSt CanIf_St \<Rightarrow> 'x CanDrvSt CanIf_St" where
  "Can_44_TCAN4x5x_MCAN_ProcessCanTx S D aId w =
     (let (intr, s) = take_flags D aId (IR_TEFN OR IR_TEFL) (ci_ext w); w = w\<lparr>ci_ext := s\<rparr>
      in case intr of
           None \<Rightarrow> w
         | Some intr \<Rightarrow>
             if intr AND IR_TEFN \<noteq> 0
             then Can_44_TCAN4x5x_MCAN_ProcessTx S D aId
                    (if intr AND IR_TEFL \<noteq> 0 then on_drv (\<lambda>s. drv_report D (Can_44_TCAN4x5x_ApiId s) 0x0f s) w else w)
             else w)"

definition Can_44_TCAN4x5x_MCAN_BusoffProcess :: "'x CanDrvSt CanIf_Sys \<Rightarrow> 'x CanDrvSys \<Rightarrow> nat \<Rightarrow> 'x CanDrvSt CanIf_St \<Rightarrow> 'x CanDrvSt CanIf_St" where
  "Can_44_TCAN4x5x_MCAN_BusoffProcess S D aId w =
     (let (intr, s) = take_flags D aId IR_BO (ci_ext w); w = w\<lparr>ci_ext := s\<rparr>
      in case intr of
           None \<Rightarrow> w
         | Some intr \<Rightarrow>
             if 0 < intr \<and> Can_44_TCAN4x5x_ControllerMode (ci_ext w) aId = CAN_T_START
             then CanIf_ControllerBusOff S aId
                    (on_drv (\<lambda>s. set_dev_state aId CAN_44_TCAN4x5x_STATE_IDLE
                       (s\<lparr>Can_44_TCAN4x5x_ControllerMode := (Can_44_TCAN4x5x_ControllerMode s)(aId := CAN_T_STOP)\<rparr>)) w)
             else w)"

text \<open>Dedicated receive buffers: the buffer with the highest number that has new data is read and its new-data bit cleared, until none is left.\<close>

lemma clear_msb_decreases:
  assumes "val \<noteq> 0"
  shows "card {i. bit (val AND NOT (push_bit (nat (getmsb val)) 1)) i} < card {i. bit val i}"
proof -
  obtain n where n: "msb val n" "getmsb val = int n" using getmsb_correct [OF assms] by blast
  have "{i. bit val i} \<subseteq> {..<64}" using bit_imp_le_length [of val] by auto
  then have "finite {i. bit val i}" by (rule finite_subset) simp
  moreover have "{i. bit (val AND NOT (push_bit (nat (getmsb val)) 1)) i} \<subset> {i. bit val i}"
    using n by (auto simp: msb_def bit_simps bit_imp_le_length)
  ultimately show ?thesis by (rule psubset_card_mono)
qed

function rx_buffer_loop ::
  "'x CanDrvSt CanIf_Sys \<Rightarrow> 'x CanDrvSys \<Rightarrow> nat \<Rightarrow> 64 word \<Rightarrow> 'x CanDrvSt CanIf_St \<Rightarrow> 'x CanDrvSt CanIf_St" where
  "rx_buffer_loop S D aId ndat_val w =
     (if ndat_val \<noteq> 0
      then let buf_index = nat (getmsb ndat_val);
               s = ci_ext w;
               (m, s) = read_rx_elem D aId (MSG_RAM_BASE_ADDR + RX_BUFFER_START_ADDR (Can_44_TCAN4x5x_MCAN_RWDev s aId) + 4 * (elem_words D aId * buf_index)) s;
               s = (if buf_index < 32 then write_reg D aId REG_NDAT1 [push_bit buf_index 1] s
                    else write_reg D aId REG_NDAT2 [push_bit (buf_index - 32) 1] s)
           in rx_buffer_loop S D aId (ndat_val AND NOT (push_bit buf_index 1)) (Can_44_TCAN4x5x_RxNotification S D aId m (w\<lparr>ci_ext := s\<rparr>))
      else w)"
  by auto
termination by (relation "measure (\<lambda>(S, D, aId, ndat_val, w). card {i. bit ndat_val i})") (use clear_msb_decreases in auto)

declare rx_buffer_loop.simps [simp del]

definition Can_44_TCAN4x5x_MCAN_ProcessRxBuffer :: "'x CanDrvSt CanIf_Sys \<Rightarrow> 'x CanDrvSys \<Rightarrow> nat \<Rightarrow> 'x CanDrvSt CanIf_St \<Rightarrow> 'x CanDrvSt CanIf_St" where
  "Can_44_TCAN4x5x_MCAN_ProcessRxBuffer S D aId w =
     (let w = on_drv (read_verified D aId REG_NDAT1 2) w
      in rx_buffer_loop S D aId (ucast (spi_rx aId 0 (ci_ext w)) OR push_bit 32 (ucast (spi_rx aId 1 (ci_ext w)))) w)"

definition fifo_lost :: "'x CanDrvSys \<Rightarrow> nat \<Rightarrow> nat \<Rightarrow> 'x CanDrvSt \<Rightarrow> 'x CanDrvSt" where
  "fifo_lost D aId stat s =
     (let s = read_verified D aId stat 1 s
      in if spi_rx aId 0 s AND 0x2000000 \<noteq> 0 then drv_report D (Can_44_TCAN4x5x_ApiId s) 7 s else s)"

definition Can_44_TCAN4x5x_MCAN_ProcessCanRx :: "'x CanDrvSt CanIf_Sys \<Rightarrow> 'x CanDrvSys \<Rightarrow> nat \<Rightarrow> 'x CanDrvSt CanIf_St \<Rightarrow> 'x CanDrvSt CanIf_St" where
  "Can_44_TCAN4x5x_MCAN_ProcessCanRx S D aId w =
     (let (intr, s) = take_flags D aId (IR_RF0N OR IR_RF1N OR IR_DRX OR IR_RF0L OR IR_RF1L) (ci_ext w); w = w\<lparr>ci_ext := s\<rparr>
      in case intr of
           None \<Rightarrow> w
         | Some intr \<Rightarrow>
             let det = CAN_44_TCAN4x5x_DEV_ERROR_DETECT D;
                 w = (if intr AND IR_DRX \<noteq> 0 then Can_44_TCAN4x5x_MCAN_ProcessRxBuffer S D aId w else w);
                 w = (if intr AND IR_RF0N \<noteq> 0
                      then Can_44_TCAN4x5x_MCAN_ProcessRxFIFO S D aId False
                             (if det \<and> intr AND IR_RF0L \<noteq> 0 then on_drv (fifo_lost D aId REG_RXF0S) w else w)
                      else w)
             in if intr AND IR_RF1N \<noteq> 0
                then Can_44_TCAN4x5x_MCAN_ProcessRxFIFO S D aId True
                       (if det \<and> intr AND IR_RF1L \<noteq> 0 then on_drv (fifo_lost D aId REG_RXF1S) w else w)
                else w)"

text \<open>An execution context for the duration of a call: the buffers of the context are used and the old context is restored.\<close>

definition in_context :: "nat \<Rightarrow> nat \<Rightarrow> ('x CanDrvSt CanIf_St \<Rightarrow> 'x CanDrvSt CanIf_St) \<Rightarrow> 'x CanDrvSt CanIf_St \<Rightarrow> 'x CanDrvSt CanIf_St" where
  "in_context aId c f w =
     (let exec_context_backup = Can_44_TCAN4x5x_ExCntxt (ci_ext w) aId;
          w = f (on_drv (\<lambda>s. s\<lparr>Can_44_TCAN4x5x_ExCntxt := (Can_44_TCAN4x5x_ExCntxt s)(aId := c)\<rparr>) w)
      in on_drv (\<lambda>s. s\<lparr>Can_44_TCAN4x5x_ExCntxt := (Can_44_TCAN4x5x_ExCntxt s)(aId := exec_context_backup)\<rparr>) w)"

definition Can_44_TCAN4x5x_MCAN_ProcessCanIRQLine0 :: "'x CanDrvSt CanIf_Sys \<Rightarrow> 'x CanDrvSys \<Rightarrow> nat \<Rightarrow> 'x CanDrvSt CanIf_St \<Rightarrow> 'x CanDrvSt CanIf_St" where
  "Can_44_TCAN4x5x_MCAN_ProcessCanIRQLine0 S D aId w =
     (let P = Can_44_TCAN4x5x_ControllerSetting_PC D aId in
      if CAN_44_TCAN4x5x_NUM_CONTROLLER_MAX D \<le> aId then on_drv (\<lambda>s. drv_report D (Can_44_TCAN4x5x_ApiId s) 4 s) w
      else if dev_state (Can_44_TCAN4x5x_MCAN_RWDev (ci_ext w) aId) = CAN_44_TCAN4x5x_STATE_RUNNING
      then in_context aId ISR_CONTEXT
             (\<lambda>w. let w = (if CanTxProcessing P = CAN_44_TCAN4x5x_INTERRUPT then Can_44_TCAN4x5x_MCAN_ProcessCanTx S D aId w else w);
                      w = (if CanRxProcessing P = CAN_44_TCAN4x5x_INTERRUPT then Can_44_TCAN4x5x_MCAN_ProcessCanRx S D aId w else w)
                  in if CanBusoffProcessing P = CAN_44_TCAN4x5x_INTERRUPT then Can_44_TCAN4x5x_MCAN_BusoffProcess S D aId w else w) w
      else w)"

definition Can_44_TCAN4x5x_GetCurrentTimeStampCounterValue :: "'x CanDrvSys \<Rightarrow> nat \<Rightarrow> 'x CanDrvSt \<Rightarrow> nat \<times> 'x CanDrvSt" where
  "Can_44_TCAN4x5x_GetCurrentTimeStampCounterValue D aId s =
     (let s = read_reg D aId REG_TSCV 1 s in (unat (spi_rx aId 0 s AND 0xFFFF), s))"

definition Can_44_TCAN4x5x_GetCurrentTxTimeStamp :: "nat \<Rightarrow> 'x CanDrvSt \<Rightarrow> nat" where
  "Can_44_TCAN4x5x_GetCurrentTxTimeStamp aId s = Can_44_TCAN4x5x_CurrentTxTimeStamp s aId"

end
