(* ===== verification/TcanCan.thy ===== *)
theory TcanCan
  imports TcanMcan
begin

text \<open>
  \<^verbatim>\<open>Can_44_TCAN4x5x.c\<close> and \<^verbatim>\<open>Can_44_TCAN4x5x_Irq.c\<close>: the services CanIf calls, the cyclic functions and the interrupt handler, above \<open>TcanMcan\<close>. A service that reports to
  CanIf is a function on the state of CanIf. Critical sections are single steps; a requested transition is one of the four of \<^verbatim>\<open>Can_StateTransitionType\<close>; the PDU of a write
  request is a local variable of CanIf, never a null pointer.
\<close>

unbundle bit_operations_syntax

subsection \<open>Checks with error detection\<close>

definition set_api :: "'x CanDrvSys \<Rightarrow> nat \<Rightarrow> 'x CanDrvSt \<Rightarrow> 'x CanDrvSt" where
  "set_api D sid s = (if CAN_44_TCAN4x5x_DEV_ERROR_DETECT D then s\<lparr>Can_44_TCAN4x5x_ApiId := sid\<rparr> else s)"

definition Can_44_TCAN4x5x_ReportDetUninit :: "'x CanDrvSys \<Rightarrow> nat \<Rightarrow> 'x CanDrvSt \<Rightarrow> Std_ReturnType \<times> 'x CanDrvSt" where
  "Can_44_TCAN4x5x_ReportDetUninit D ServiceId s =
     (if Can_44_TCAN4x5x_DriverState s = CAN_44_TCAN4x5x_UNINIT then (E_NOT_OK, drv_report D ServiceId 5 s) else (E_OK, s))"

definition Can_44_TCAN4x5x_ReportDetParamController :: "'x CanDrvSys \<Rightarrow> nat \<Rightarrow> nat \<Rightarrow> 'x CanDrvSt \<Rightarrow> Std_ReturnType \<times> 'x CanDrvSt" where
  "Can_44_TCAN4x5x_ReportDetParamController D ControllerId ServiceId s =
     (if ControllerId < CAN_44_TCAN4x5x_NUM_CONTROLLER_MAX D then (E_OK, s) else (E_NOT_OK, drv_report D ServiceId 4 s))"

definition Can_44_TCAN4x5x_ModeDetCheck :: "nat \<Rightarrow> Can_StateTransitionType \<Rightarrow> 'x CanDrvSt \<Rightarrow> Std_ReturnType" where
  "Can_44_TCAN4x5x_ModeDetCheck Controller Transition s =
     (let m = Can_44_TCAN4x5x_ControllerMode s Controller in
      case Transition of
        CAN_T_START \<Rightarrow> if m \<noteq> CAN_T_STOP then E_NOT_OK else E_OK
      | CAN_T_SLEEP \<Rightarrow> if m \<noteq> CAN_T_SLEEP \<and> m \<noteq> CAN_T_STOP then E_NOT_OK else E_OK
      | CAN_T_STOP \<Rightarrow> if m \<noteq> CAN_T_START \<and> m \<noteq> CAN_T_STOP then E_NOT_OK else E_OK
      | CAN_T_WAKEUP \<Rightarrow> if m \<noteq> CAN_T_SLEEP \<and> m \<noteq> CAN_T_STOP then E_NOT_OK else E_OK)"

definition Can_44_TCAN4x5x_WriteDetCheck :: "'x CanDrvSys \<Rightarrow> nat \<Rightarrow> Can_PduType \<Rightarrow> 'x CanDrvSt \<Rightarrow> Std_ReturnType \<times> 'x CanDrvSt" where
  "Can_44_TCAN4x5x_WriteDetCheck D Hth PduInfo s =
     (let C = Can_44_TCAN4x5x_ConfigPtr s in
      if Hth < CanHRHobjectsCount C \<or> CanHRHobjectsCount C + CanHTHobjectsCount C \<le> Hth then (E_NOT_OK, drv_report D 6 2 s)
      else let M = CanHTHMappingConfigPtr C (Hth - CanHRHobjectsCount C);
               P = Can_44_TCAN4x5x_ControllerSetting_PC D (CanCtrlId M)
           in if \<not> CanFDBaudRateEnabled P \<and> 8 < can_length PduInfo then (E_NOT_OK, drv_report D 6 3 s)
              else if CanFDBaudRateEnabled P
              then (if 8 < can_length PduInfo \<and> can_length PduInfo \<le> 64 \<and> can_id PduInfo AND CAN_44_TCAN4x5x_FRAME_TYPE_MASK = 0
                    then (E_NOT_OK, drv_report D 6 3 s)
                    else if Can_44_TCAN4x5x_MCAN_ROBufferSizeFD D (CanFdDataBufSize P) < can_length PduInfo then (E_NOT_OK, drv_report D 6 3 s)
                    else (E_OK, s))
              else if can_sdu PduInfo = None \<and> \<not> CanTriggerTransmitEnable (CanTxObjConfigPtr (CanControllerConfiguration C (CanCtrlId M)) (CanHthIndex M))
              then (E_NOT_OK, drv_report D 6 1 s)
              else (E_OK, s))"

text \<open>The check that most services start with: initialised driver and valid controller.\<close>

definition drv_guard :: "'x CanDrvSys \<Rightarrow> nat \<Rightarrow> nat \<Rightarrow> 'x CanDrvSt \<Rightarrow> Std_ReturnType \<times> 'x CanDrvSt" where
  "drv_guard D sid Controller s =
     (let s = set_api D sid s in
      if CAN_44_TCAN4x5x_DEV_ERROR_DETECT D
      then let (Status, s) = Can_44_TCAN4x5x_ReportDetUninit D sid s
           in if Status = E_OK then Can_44_TCAN4x5x_ReportDetParamController D Controller sid s else (Status, s)
      else (E_OK, s))"

subsection \<open>Services\<close>

fun init_controllers :: "'x CanDrvSys \<Rightarrow> nat list \<Rightarrow> 'x CanDrvSt \<Rightarrow> 'x CanDrvSt" where
  "init_controllers D [] s = s"
| "init_controllers D (i # is) s =
     (let s = Can_44_TCAN4x5x_MCAN_Init D i (Can_44_TCAN4x5x_ConfigPtr s) s
      in init_controllers D is
           (if Can_44_TCAN4x5x_MajorRevId s \<noteq> 1
            then s\<lparr>Can_44_TCAN4x5x_ControllerMode := (Can_44_TCAN4x5x_ControllerMode s)(i := CAN_T_STOP)\<rparr> else s))"

text \<open>\<open>Config\<close> may be null; without error detection that is not checked, and a null pointer is not followed here.\<close>

definition Can_44_TCAN4x5x_Init :: "'x CanDrvSys \<Rightarrow> Can_44_TCAN4x5x_ConfigType option \<Rightarrow> 'x CanDrvSt \<Rightarrow> 'x CanDrvSt" where
  "Can_44_TCAN4x5x_Init D Config s =
     (let det = CAN_44_TCAN4x5x_DEV_ERROR_DETECT D; post = CAN_44_TCAN4x5x_VARIANT_POST_BUILD D;
          s = set_api D 0 s;
          s = (if post then s else s\<lparr>Can_44_TCAN4x5x_ConfigPtr := Can_44_TCAN4x5x_Config D\<rparr>)
      in if det \<and> post \<and> Config = None then drv_report D 0 1 s
         else if det \<and> Can_44_TCAN4x5x_DriverState s \<noteq> CAN_44_TCAN4x5x_UNINIT then drv_report D 0 6 s
         else let ctrls = [0..<CAN_44_TCAN4x5x_NUM_CONTROLLER_MAX D];
                  s = (if det then fold (\<lambda>i s. if can_t_value D (Can_44_TCAN4x5x_ControllerMode s i) \<noteq> 0 then drv_report D 0 6 s else s) ctrls s else s);
                  s = (case Config of Some c \<Rightarrow> if post then s\<lparr>Can_44_TCAN4x5x_ConfigPtr := c\<rparr> else s | None \<Rightarrow> s);
                  s = init_controllers D ctrls s
              in s\<lparr>Can_44_TCAN4x5x_DriverState := (if Can_44_TCAN4x5x_MajorRevId s \<noteq> 1 then CAN_44_TCAN4x5x_READY else CAN_44_TCAN4x5x_E_UNINIT)\<rparr>)"

text \<open>\<open>nonnull\<close>: the caller passes a pointer; the option is what it receives: vendor, module and the three parts of the version.\<close>

definition Can_44_TCAN4x5x_GetVersionInfo :: "'x CanDrvSys \<Rightarrow> bool \<Rightarrow> 'x CanDrvSt \<Rightarrow> nat list option \<times> 'x CanDrvSt" where
  "Can_44_TCAN4x5x_GetVersionInfo D nonnull s =
     (let s = set_api D 7 s in
      if CAN_44_TCAN4x5x_DEV_ERROR_DETECT D \<and> \<not> nonnull then (None, drv_report D 7 1 s) else (Some [44, 80, 2, 3, 0], s))"

definition Can_44_TCAN4x5x_SetBaudrate :: "'x CanDrvSys \<Rightarrow> nat \<Rightarrow> nat \<Rightarrow> 'x CanDrvSt \<Rightarrow> Std_ReturnType \<times> 'x CanDrvSt" where
  "Can_44_TCAN4x5x_SetBaudrate D Controller BaudRateConfigID s =
     (let det = CAN_44_TCAN4x5x_DEV_ERROR_DETECT D;
          (Status, s) = drv_guard D 0x0f Controller s;
          (Status, s) = (if det \<and> Status = E_OK \<and> Can_44_TCAN4x5x_ControllerMode s Controller \<noteq> CAN_T_STOP
                         then (E_NOT_OK, drv_report D 0x0f 6 s) else (Status, s));
          C = CanControllerConfiguration (Can_44_TCAN4x5x_ConfigPtr s) Controller
      in if Status = E_OK
         then if det \<and> CanNumOfBaudRateConf C \<le> BaudRateConfigID then (E_NOT_OK, drv_report D 0x0f 8 s)
              else (E_OK, snd (Can_44_TCAN4x5x_MCAN_SetBaudrate D Controller (CanControllerBaudrateConfigPtr C BaudRateConfigID)
                                 (Can_44_TCAN4x5x_MCAN_SetCCE D Controller s)))
         else (Status, s))"

definition set_if_state :: "nat \<Rightarrow> CanIf_ControllerModeType option \<Rightarrow> 'x CanDrvSt \<Rightarrow> 'x CanDrvSt" where
  "set_if_state i m s = s\<lparr>Can_44_TCAN4x5x_ControllerIf_State := (Can_44_TCAN4x5x_ControllerIf_State s)(i := m)\<rparr>"

text \<open>
  The part of \<^verbatim>\<open>Can_44_TCAN4x5x_SetControllerMode\<close> that works on the device: the result of \<^verbatim>\<open>MCAN_SetMode\<close>, or \<open>CAN_BUSY\<close> when the controller already is in the requested
  mode, and the mode that is entered.
\<close>

definition request_mode :: "'x CanDrvSys \<Rightarrow> nat \<Rightarrow> Can_StateTransitionType \<Rightarrow> 'x CanDrvSt \<Rightarrow> Can_ReturnType \<times> Can_StateTransitionType \<times> 'x CanDrvSt" where
  "request_mode D Controller Transition s =
     (let m = Can_44_TCAN4x5x_ControllerMode s Controller in
      case Transition of
        CAN_T_STOP \<Rightarrow>
          if m \<noteq> CAN_T_STOP
          then let (r, s) = Can_44_TCAN4x5x_MCAN_SetMode D Controller CAN_44_TCAN4x5x_STATE_IDLE s
               in (r, CAN_T_STOP, set_if_state Controller (if r = CAN_BUSY then None else Some CANIF_CS_STOPPED) s)
          else (CAN_BUSY, CAN_T_STOP, s)
      | CAN_T_START \<Rightarrow>
          if m \<noteq> CAN_T_START
          then let s = (if Can_44_TCAN4x5x_WasCanTrcvInSleep s
                        then (Can_44_TCAN4x5x_MCAN_Init D Controller (Can_44_TCAN4x5x_ConfigPtr s) s)\<lparr>Can_44_TCAN4x5x_WasCanTrcvInSleep := False\<rparr> else s);
                   (r, s) = Can_44_TCAN4x5x_MCAN_SetMode D Controller CAN_44_TCAN4x5x_STATE_RUNNING s
               in (r, CAN_T_START, set_if_state Controller (Some CANIF_CS_STARTED) s)
          else (CAN_BUSY, CAN_T_START, s)
      | CAN_T_WAKEUP \<Rightarrow>
          if m \<noteq> CAN_T_STOP
          then let (r, s) = Can_44_TCAN4x5x_MCAN_SetMode D Controller CAN_44_TCAN4x5x_STATE_WAKEUP s
               in (r, CAN_T_STOP, set_if_state Controller (Some CANIF_CS_STOPPED) s)
          else (CAN_BUSY, CAN_T_WAKEUP, s)
      | CAN_T_SLEEP \<Rightarrow>
          if m \<noteq> CAN_T_SLEEP
          then let (r, s) = Can_44_TCAN4x5x_MCAN_SetMode D Controller CAN_44_TCAN4x5x_STATE_SLEEP s
               in (r, CAN_T_SLEEP, set_if_state Controller (Some CANIF_CS_SLEEP) s)
          else (CAN_BUSY, CAN_T_SLEEP, s))"

text \<open>A completed change of mode, also used by \<^verbatim>\<open>Can_44_TCAN4x5x_MainFunction_Mode\<close>: the driver's mode is stored and CanIf is told.\<close>

definition mode_done ::
  "'x CanDrvSt CanIf_Sys \<Rightarrow> nat \<Rightarrow> Can_StateTransitionType \<Rightarrow> 'x CanDrvSt CanIf_St \<Rightarrow> 'x CanDrvSt CanIf_St" where
  "mode_done S Controller Transition w =
     (let w = on_drv (\<lambda>s. s\<lparr>Can_44_TCAN4x5x_ControllerMode := (Can_44_TCAN4x5x_ControllerMode s)(Controller := Transition)\<rparr>) w
      in case Can_44_TCAN4x5x_ControllerIf_State (ci_ext w) Controller of
           Some m \<Rightarrow> CanIf_ControllerModeIndication S Controller m w
         | None \<Rightarrow> w)"

definition Can_44_TCAN4x5x_SetControllerMode ::
  "'x CanDrvSt CanIf_Sys \<Rightarrow> 'x CanDrvSys \<Rightarrow> nat \<Rightarrow> Can_StateTransitionType \<Rightarrow> 'x CanDrvSt CanIf_St \<Rightarrow> Can_ReturnType \<times> 'x CanDrvSt CanIf_St" where
  "Can_44_TCAN4x5x_SetControllerMode S D Controller Transition w =
     (let (Status, s) = drv_guard D 3 Controller (ci_ext w);
          (Status, s) = (if CAN_44_TCAN4x5x_DEV_ERROR_DETECT D \<and> Status = E_OK \<and> Can_44_TCAN4x5x_ModeDetCheck Controller Transition s = E_NOT_OK
                         then (E_NOT_OK, drv_report D 3 6 s) else (Status, s))
      in if Status = E_NOT_OK then (CAN_NOT_OK, w\<lparr>ci_ext := s\<rparr>)
         else let (RetValue, Transition, s) = request_mode D Controller Transition s; w = w\<lparr>ci_ext := s\<rparr>
              in case RetValue of
                   CAN_OK \<Rightarrow> (CAN_OK, mode_done S Controller Transition w)
                 | CAN_BUSY \<Rightarrow> (CAN_OK, w)
                 | CAN_NOT_OK \<Rightarrow> (CAN_NOT_OK, w))"

definition Can_44_TCAN4x5x_DisableControllerInterrupts :: "'x CanDrvSys \<Rightarrow> nat \<Rightarrow> 'x CanDrvSt \<Rightarrow> 'x CanDrvSt" where
  "Can_44_TCAN4x5x_DisableControllerInterrupts D Controller s =
     (let (Status, s) = drv_guard D 4 Controller s
      in if Status = E_OK
         then let s = (if Can_44_TCAN4x5x_InterruptDisableCount s Controller = 0 then Can_44_TCAN4x5x_MCAN_DisableAllInterrupts D Controller s else s)
              in s\<lparr>Can_44_TCAN4x5x_InterruptDisableCount :=
                    (Can_44_TCAN4x5x_InterruptDisableCount s)(Controller := u8 (int (Can_44_TCAN4x5x_InterruptDisableCount s Controller) + 1))\<rparr>
         else s)"

definition Can_44_TCAN4x5x_EnableControllerInterrupts :: "'x CanDrvSys \<Rightarrow> nat \<Rightarrow> 'x CanDrvSt \<Rightarrow> 'x CanDrvSt" where
  "Can_44_TCAN4x5x_EnableControllerInterrupts D Controller s =
     (let (Status, s) = drv_guard D 5 Controller s
      in if Status = E_OK \<and> 0 < Can_44_TCAN4x5x_InterruptDisableCount s Controller
         then let n = Can_44_TCAN4x5x_InterruptDisableCount s Controller - 1;
                  s = s\<lparr>Can_44_TCAN4x5x_InterruptDisableCount := (Can_44_TCAN4x5x_InterruptDisableCount s)(Controller := n)\<rparr>
              in if n = 0 then Can_44_TCAN4x5x_MCAN_EnableAllInterrupts D Controller s else s
         else s)"

definition Can_44_TCAN4x5x_CheckWakeup :: "'x CanDrvSys \<Rightarrow> nat \<Rightarrow> 'x CanDrvSt \<Rightarrow> Can_ReturnType \<times> 'x CanDrvSt" where
  "Can_44_TCAN4x5x_CheckWakeup D Controller s = (CAN_NOT_OK, snd (drv_guard D 0x0b Controller s))"

definition Can_44_TCAN4x5x_Write :: "'x CanDrvSys \<Rightarrow> nat \<Rightarrow> Can_PduType \<Rightarrow> 'x CanDrvSt \<Rightarrow> Can_ReturnType \<times> 'x CanDrvSt" where
  "Can_44_TCAN4x5x_Write D Hth PduInfo s =
     (let s = set_api D 6 s;
          (Status, s) = (if CAN_44_TCAN4x5x_DEV_ERROR_DETECT D
                         then let (Status, s) = Can_44_TCAN4x5x_ReportDetUninit D 6 s
                              in if Status = E_OK then Can_44_TCAN4x5x_WriteDetCheck D Hth PduInfo s else (Status, s)
                         else (E_OK, s))
      in if Status = E_NOT_OK then (CAN_NOT_OK, s)
         else let C = Can_44_TCAN4x5x_ConfigPtr s;
                  h = u16 (int Hth - int (CanHRHobjectsCount C))
              in if \<not> Can_44_TCAN4x5x_HthMutex s h
                 then let s = s\<lparr>Can_44_TCAN4x5x_HthMutex := (Can_44_TCAN4x5x_HthMutex s)(h := True)\<rparr>;
                          ctrlId = CanCtrlId (CanHTHMappingConfigPtr C h);
                          TxObj = CanTxObjConfigPtr (CanControllerConfiguration C ctrlId) (CanHthIndex (CanHTHMappingConfigPtr C h));
                          (ret, s) = Can_44_TCAN4x5x_MCAN_Write D ctrlId PduInfo TxObj s;
                          s = (if ret = CAN_NOT_OK then drv_report D 6 1 s else s)
                      in (ret, s\<lparr>Can_44_TCAN4x5x_HthMutex := (Can_44_TCAN4x5x_HthMutex s)(h := False)\<rparr>)
                 else (CAN_BUSY, s))"

subsection \<open>Cyclic functions and the interrupt handler\<close>

definition main_guard :: "'x CanDrvSys \<Rightarrow> nat \<Rightarrow> 'x CanDrvSt \<Rightarrow> Std_ReturnType \<times> 'x CanDrvSt" where
  "main_guard D sid s =
     (let s = set_api D sid s in
      if CAN_44_TCAN4x5x_DEV_ERROR_DETECT D then Can_44_TCAN4x5x_ReportDetUninit D sid s
      else (if Can_44_TCAN4x5x_DriverState s \<noteq> CAN_44_TCAN4x5x_E_UNINIT then E_OK else E_NOT_OK, s))"

definition poll_controllers ::
  "'x CanDrvSys \<Rightarrow> nat \<Rightarrow> (Can_44_TCAN4x5x_ControllerConfigType_PC \<Rightarrow> Can_44_TCAN4x5x_Processing) \<Rightarrow>
     (nat \<Rightarrow> 'x CanDrvSt CanIf_St \<Rightarrow> 'x CanDrvSt CanIf_St) \<Rightarrow> 'x CanDrvSt CanIf_St \<Rightarrow> 'x CanDrvSt CanIf_St" where
  "poll_controllers D sid processing f w =
     (let (Status, s) = main_guard D sid (ci_ext w); w = w\<lparr>ci_ext := s\<rparr>
      in if Status = E_OK
         then fold (\<lambda>i w. if processing (Can_44_TCAN4x5x_ControllerSetting_PC D i) = CAN_44_TCAN4x5x_POLLING
                          then in_context i MAIN_FUNCTION_CONTEXT (f i) w else w)
                [0..<CAN_44_TCAN4x5x_NUM_CONTROLLER_MAX D] w
         else w)"

definition Can_44_TCAN4x5x_MainFunction_Write :: "'x CanDrvSt CanIf_Sys \<Rightarrow> 'x CanDrvSys \<Rightarrow> 'x CanDrvSt CanIf_St \<Rightarrow> 'x CanDrvSt CanIf_St" where
  "Can_44_TCAN4x5x_MainFunction_Write S D w = poll_controllers D 1 CanTxProcessing (Can_44_TCAN4x5x_MCAN_ProcessCanTx S D) w"

definition Can_44_TCAN4x5x_MainFunction_Read :: "'x CanDrvSt CanIf_Sys \<Rightarrow> 'x CanDrvSys \<Rightarrow> 'x CanDrvSt CanIf_St \<Rightarrow> 'x CanDrvSt CanIf_St" where
  "Can_44_TCAN4x5x_MainFunction_Read S D w = poll_controllers D 8 CanRxProcessing (Can_44_TCAN4x5x_MCAN_ProcessCanRx S D) w"

definition Can_44_TCAN4x5x_MainFunction_BusOff :: "'x CanDrvSt CanIf_Sys \<Rightarrow> 'x CanDrvSys \<Rightarrow> 'x CanDrvSt CanIf_St \<Rightarrow> 'x CanDrvSt CanIf_St" where
  "Can_44_TCAN4x5x_MainFunction_BusOff S D w = poll_controllers D 9 CanBusoffProcessing (Can_44_TCAN4x5x_MCAN_BusoffProcess S D) w"

definition finish_mode :: "'x CanDrvSt CanIf_Sys \<Rightarrow> 'x CanDrvSys \<Rightarrow> nat \<Rightarrow> 'x CanDrvSt CanIf_St \<Rightarrow> 'x CanDrvSt CanIf_St" where
  "finish_mode S D i w =
     (if Can_44_TCAN4x5x_ControllerIf_State (ci_ext w) i = None
      then let (r, s) = Can_44_TCAN4x5x_MCAN_SetMode D i CAN_44_TCAN4x5x_STATE_IDLE (ci_ext w)
           in if r = CAN_OK then mode_done S i CAN_T_STOP (w\<lparr>ci_ext := set_if_state i (Some CANIF_CS_STOPPED) s\<rparr>) else w\<lparr>ci_ext := s\<rparr>
      else w)"

definition Can_44_TCAN4x5x_MainFunction_Mode :: "'x CanDrvSt CanIf_Sys \<Rightarrow> 'x CanDrvSys \<Rightarrow> 'x CanDrvSt CanIf_St \<Rightarrow> 'x CanDrvSt CanIf_St" where
  "Can_44_TCAN4x5x_MainFunction_Mode S D w =
     (let s = set_api D 0x0c (ci_ext w);
          (Status, s) = (if CAN_44_TCAN4x5x_DEV_ERROR_DETECT D then Can_44_TCAN4x5x_ReportDetUninit D 0x0c s else (E_OK, s));
          w = w\<lparr>ci_ext := s\<rparr>
      in if Status = E_OK then fold (finish_mode S D) [0..<CAN_44_TCAN4x5x_NUM_CONTROLLER_MAX D] w else w)"

definition Can_44_TCAN4x5x_Irq_Handler :: "'x CanDrvSt CanIf_Sys \<Rightarrow> 'x CanDrvSys \<Rightarrow> nat \<Rightarrow> 'x CanDrvSt CanIf_St \<Rightarrow> 'x CanDrvSt CanIf_St" where
  "Can_44_TCAN4x5x_Irq_Handler S D aId w =
     (let P = Can_44_TCAN4x5x_ControllerSetting_PC D aId in
      if CanRxProcessing P = CAN_44_TCAN4x5x_INTERRUPT \<or> CanTxProcessing P = CAN_44_TCAN4x5x_INTERRUPT \<or> CanBusoffProcessing P = CAN_44_TCAN4x5x_INTERRUPT
      then Can_44_TCAN4x5x_MCAN_ProcessCanIRQLine0 S D aId w else w)"

end
