(* ===== verification/TcanDevice.thy ===== *)
theory TcanDevice
  imports TcanCan
begin

text \<open>
  What a working controller does, as an interface: \<open>tcan_ok D reg wr\<close> says that a register or a word of the message RAM at an address reads as \<open>reg\<close> and that a write has
  the effect \<open>wr\<close>, over the SPI protocol of the TCAN4550. The accesses of \<open>TcanSpi\<close> are rewritten to it; everything else of the driver's state they leave alone.
\<close>

unbundle bit_operations_syntax

subsection \<open>What the accesses leave alone\<close>

lemma SpiRW_frame [simp]:
  "Can_44_TCAN4x5x_ApiId (snd (Can_44_TCAN4x5x_SpiRW D aId a n cmd s)) = Can_44_TCAN4x5x_ApiId s"
  "Can_44_TCAN4x5x_ControllerIf_State (snd (Can_44_TCAN4x5x_SpiRW D aId a n cmd s)) = Can_44_TCAN4x5x_ControllerIf_State s"
  "Can_44_TCAN4x5x_WasCanTrcvInSleep (snd (Can_44_TCAN4x5x_SpiRW D aId a n cmd s)) = Can_44_TCAN4x5x_WasCanTrcvInSleep s"
  "Can_44_TCAN4x5x_DriverState (snd (Can_44_TCAN4x5x_SpiRW D aId a n cmd s)) = Can_44_TCAN4x5x_DriverState s"
  "Can_44_TCAN4x5x_ControllerMode (snd (Can_44_TCAN4x5x_SpiRW D aId a n cmd s)) = Can_44_TCAN4x5x_ControllerMode s"
  "Can_44_TCAN4x5x_ConfigPtr (snd (Can_44_TCAN4x5x_SpiRW D aId a n cmd s)) = Can_44_TCAN4x5x_ConfigPtr s"
  "Can_44_TCAN4x5x_InterruptDisableCount (snd (Can_44_TCAN4x5x_SpiRW D aId a n cmd s)) = Can_44_TCAN4x5x_InterruptDisableCount s"
  "Can_44_TCAN4x5x_HthMutex (snd (Can_44_TCAN4x5x_SpiRW D aId a n cmd s)) = Can_44_TCAN4x5x_HthMutex s"
  "Can_44_TCAN4x5x_ExCntxt (snd (Can_44_TCAN4x5x_SpiRW D aId a n cmd s)) = Can_44_TCAN4x5x_ExCntxt s"
  "Can_44_TCAN4x5x_ReadCmd (snd (Can_44_TCAN4x5x_SpiRW D aId a n cmd s)) = Can_44_TCAN4x5x_ReadCmd s"
  "Can_44_TCAN4x5x_DrvConfigPtr (snd (Can_44_TCAN4x5x_SpiRW D aId a n cmd s)) = Can_44_TCAN4x5x_DrvConfigPtr s"
  "Can_44_TCAN4x5x_MajorRevId (snd (Can_44_TCAN4x5x_SpiRW D aId a n cmd s)) = Can_44_TCAN4x5x_MajorRevId s"
  "Can_44_TCAN4x5x_CurrentTxTimeStamp (snd (Can_44_TCAN4x5x_SpiRW D aId a n cmd s)) = Can_44_TCAN4x5x_CurrentTxTimeStamp s"
  "Can_44_TCAN4x5x_MCAN_RWDev (snd (Can_44_TCAN4x5x_SpiRW D aId a n cmd s)) = Can_44_TCAN4x5x_MCAN_RWDev s"
  "Can_44_TCAN4x5x_Mcan_swPduHandle (snd (Can_44_TCAN4x5x_SpiRW D aId a n cmd s)) = Can_44_TCAN4x5x_Mcan_swPduHandle s"
  "Can_44_TCAN4x5x_Mcan_extFilterIndex (snd (Can_44_TCAN4x5x_SpiRW D aId a n cmd s)) = Can_44_TCAN4x5x_Mcan_extFilterIndex s"
  "Can_44_TCAN4x5x_Mcan_stdFilterIndex (snd (Can_44_TCAN4x5x_SpiRW D aId a n cmd s)) = Can_44_TCAN4x5x_Mcan_stdFilterIndex s"
  "Can_44_TCAN4x5x_Mcan_FdConfig (snd (Can_44_TCAN4x5x_SpiRW D aId a n cmd s)) = Can_44_TCAN4x5x_Mcan_FdConfig s"
  by (simp_all add: Can_44_TCAN4x5x_SpiRW_def Let_def split_beta)

lemma put_tx_frame [simp]:
  "Can_44_TCAN4x5x_ApiId (put_tx aId ws s) = Can_44_TCAN4x5x_ApiId s"
  "Can_44_TCAN4x5x_ControllerIf_State (put_tx aId ws s) = Can_44_TCAN4x5x_ControllerIf_State s"
  "Can_44_TCAN4x5x_WasCanTrcvInSleep (put_tx aId ws s) = Can_44_TCAN4x5x_WasCanTrcvInSleep s"
  "Can_44_TCAN4x5x_DriverState (put_tx aId ws s) = Can_44_TCAN4x5x_DriverState s"
  "Can_44_TCAN4x5x_ControllerMode (put_tx aId ws s) = Can_44_TCAN4x5x_ControllerMode s"
  "Can_44_TCAN4x5x_ConfigPtr (put_tx aId ws s) = Can_44_TCAN4x5x_ConfigPtr s"
  "Can_44_TCAN4x5x_InterruptDisableCount (put_tx aId ws s) = Can_44_TCAN4x5x_InterruptDisableCount s"
  "Can_44_TCAN4x5x_HthMutex (put_tx aId ws s) = Can_44_TCAN4x5x_HthMutex s"
  "Can_44_TCAN4x5x_ExCntxt (put_tx aId ws s) = Can_44_TCAN4x5x_ExCntxt s"
  "Can_44_TCAN4x5x_ReadCmd (put_tx aId ws s) = Can_44_TCAN4x5x_ReadCmd s"
  "Can_44_TCAN4x5x_DrvConfigPtr (put_tx aId ws s) = Can_44_TCAN4x5x_DrvConfigPtr s"
  "Can_44_TCAN4x5x_MajorRevId (put_tx aId ws s) = Can_44_TCAN4x5x_MajorRevId s"
  "Can_44_TCAN4x5x_CurrentTxTimeStamp (put_tx aId ws s) = Can_44_TCAN4x5x_CurrentTxTimeStamp s"
  "Can_44_TCAN4x5x_MCAN_RWDev (put_tx aId ws s) = Can_44_TCAN4x5x_MCAN_RWDev s"
  "Can_44_TCAN4x5x_Mcan_swPduHandle (put_tx aId ws s) = Can_44_TCAN4x5x_Mcan_swPduHandle s"
  "Can_44_TCAN4x5x_Mcan_extFilterIndex (put_tx aId ws s) = Can_44_TCAN4x5x_Mcan_extFilterIndex s"
  "Can_44_TCAN4x5x_Mcan_stdFilterIndex (put_tx aId ws s) = Can_44_TCAN4x5x_Mcan_stdFilterIndex s"
  "Can_44_TCAN4x5x_Mcan_FdConfig (put_tx aId ws s) = Can_44_TCAN4x5x_Mcan_FdConfig s"
  by (simp_all add: put_tx_def)

lemma SpiRead_frame [simp]:
  "Can_44_TCAN4x5x_ApiId (snd (Can_44_TCAN4x5x_SpiRead D aId a n s)) = Can_44_TCAN4x5x_ApiId s"
  "Can_44_TCAN4x5x_ControllerIf_State (snd (Can_44_TCAN4x5x_SpiRead D aId a n s)) = Can_44_TCAN4x5x_ControllerIf_State s"
  "Can_44_TCAN4x5x_WasCanTrcvInSleep (snd (Can_44_TCAN4x5x_SpiRead D aId a n s)) = Can_44_TCAN4x5x_WasCanTrcvInSleep s"
  "Can_44_TCAN4x5x_DriverState (snd (Can_44_TCAN4x5x_SpiRead D aId a n s)) = Can_44_TCAN4x5x_DriverState s"
  "Can_44_TCAN4x5x_ControllerMode (snd (Can_44_TCAN4x5x_SpiRead D aId a n s)) = Can_44_TCAN4x5x_ControllerMode s"
  "Can_44_TCAN4x5x_ConfigPtr (snd (Can_44_TCAN4x5x_SpiRead D aId a n s)) = Can_44_TCAN4x5x_ConfigPtr s"
  "Can_44_TCAN4x5x_InterruptDisableCount (snd (Can_44_TCAN4x5x_SpiRead D aId a n s)) = Can_44_TCAN4x5x_InterruptDisableCount s"
  "Can_44_TCAN4x5x_HthMutex (snd (Can_44_TCAN4x5x_SpiRead D aId a n s)) = Can_44_TCAN4x5x_HthMutex s"
  "Can_44_TCAN4x5x_ExCntxt (snd (Can_44_TCAN4x5x_SpiRead D aId a n s)) = Can_44_TCAN4x5x_ExCntxt s"
  "Can_44_TCAN4x5x_ReadCmd (snd (Can_44_TCAN4x5x_SpiRead D aId a n s)) = Can_44_TCAN4x5x_ReadCmd s"
  "Can_44_TCAN4x5x_DrvConfigPtr (snd (Can_44_TCAN4x5x_SpiRead D aId a n s)) = Can_44_TCAN4x5x_DrvConfigPtr s"
  "Can_44_TCAN4x5x_MajorRevId (snd (Can_44_TCAN4x5x_SpiRead D aId a n s)) = Can_44_TCAN4x5x_MajorRevId s"
  "Can_44_TCAN4x5x_CurrentTxTimeStamp (snd (Can_44_TCAN4x5x_SpiRead D aId a n s)) = Can_44_TCAN4x5x_CurrentTxTimeStamp s"
  "Can_44_TCAN4x5x_MCAN_RWDev (snd (Can_44_TCAN4x5x_SpiRead D aId a n s)) = Can_44_TCAN4x5x_MCAN_RWDev s"
  "Can_44_TCAN4x5x_Mcan_swPduHandle (snd (Can_44_TCAN4x5x_SpiRead D aId a n s)) = Can_44_TCAN4x5x_Mcan_swPduHandle s"
  "Can_44_TCAN4x5x_Mcan_extFilterIndex (snd (Can_44_TCAN4x5x_SpiRead D aId a n s)) = Can_44_TCAN4x5x_Mcan_extFilterIndex s"
  "Can_44_TCAN4x5x_Mcan_stdFilterIndex (snd (Can_44_TCAN4x5x_SpiRead D aId a n s)) = Can_44_TCAN4x5x_Mcan_stdFilterIndex s"
  "Can_44_TCAN4x5x_Mcan_FdConfig (snd (Can_44_TCAN4x5x_SpiRead D aId a n s)) = Can_44_TCAN4x5x_Mcan_FdConfig s"
  by (simp_all add: Can_44_TCAN4x5x_SpiRead_def)

lemma SpiWrite_frame [simp]:
  "Can_44_TCAN4x5x_ApiId (snd (Can_44_TCAN4x5x_SpiWrite D aId a n s)) = Can_44_TCAN4x5x_ApiId s"
  "Can_44_TCAN4x5x_ControllerIf_State (snd (Can_44_TCAN4x5x_SpiWrite D aId a n s)) = Can_44_TCAN4x5x_ControllerIf_State s"
  "Can_44_TCAN4x5x_WasCanTrcvInSleep (snd (Can_44_TCAN4x5x_SpiWrite D aId a n s)) = Can_44_TCAN4x5x_WasCanTrcvInSleep s"
  "Can_44_TCAN4x5x_DriverState (snd (Can_44_TCAN4x5x_SpiWrite D aId a n s)) = Can_44_TCAN4x5x_DriverState s"
  "Can_44_TCAN4x5x_ControllerMode (snd (Can_44_TCAN4x5x_SpiWrite D aId a n s)) = Can_44_TCAN4x5x_ControllerMode s"
  "Can_44_TCAN4x5x_ConfigPtr (snd (Can_44_TCAN4x5x_SpiWrite D aId a n s)) = Can_44_TCAN4x5x_ConfigPtr s"
  "Can_44_TCAN4x5x_InterruptDisableCount (snd (Can_44_TCAN4x5x_SpiWrite D aId a n s)) = Can_44_TCAN4x5x_InterruptDisableCount s"
  "Can_44_TCAN4x5x_HthMutex (snd (Can_44_TCAN4x5x_SpiWrite D aId a n s)) = Can_44_TCAN4x5x_HthMutex s"
  "Can_44_TCAN4x5x_ExCntxt (snd (Can_44_TCAN4x5x_SpiWrite D aId a n s)) = Can_44_TCAN4x5x_ExCntxt s"
  "Can_44_TCAN4x5x_ReadCmd (snd (Can_44_TCAN4x5x_SpiWrite D aId a n s)) = Can_44_TCAN4x5x_ReadCmd s"
  "Can_44_TCAN4x5x_DrvConfigPtr (snd (Can_44_TCAN4x5x_SpiWrite D aId a n s)) = Can_44_TCAN4x5x_DrvConfigPtr s"
  "Can_44_TCAN4x5x_MajorRevId (snd (Can_44_TCAN4x5x_SpiWrite D aId a n s)) = Can_44_TCAN4x5x_MajorRevId s"
  "Can_44_TCAN4x5x_CurrentTxTimeStamp (snd (Can_44_TCAN4x5x_SpiWrite D aId a n s)) = Can_44_TCAN4x5x_CurrentTxTimeStamp s"
  "Can_44_TCAN4x5x_MCAN_RWDev (snd (Can_44_TCAN4x5x_SpiWrite D aId a n s)) = Can_44_TCAN4x5x_MCAN_RWDev s"
  "Can_44_TCAN4x5x_Mcan_swPduHandle (snd (Can_44_TCAN4x5x_SpiWrite D aId a n s)) = Can_44_TCAN4x5x_Mcan_swPduHandle s"
  "Can_44_TCAN4x5x_Mcan_extFilterIndex (snd (Can_44_TCAN4x5x_SpiWrite D aId a n s)) = Can_44_TCAN4x5x_Mcan_extFilterIndex s"
  "Can_44_TCAN4x5x_Mcan_stdFilterIndex (snd (Can_44_TCAN4x5x_SpiWrite D aId a n s)) = Can_44_TCAN4x5x_Mcan_stdFilterIndex s"
  "Can_44_TCAN4x5x_Mcan_FdConfig (snd (Can_44_TCAN4x5x_SpiWrite D aId a n s)) = Can_44_TCAN4x5x_Mcan_FdConfig s"
  by (simp_all add: Can_44_TCAN4x5x_SpiWrite_def Let_def split_beta)

lemma read_reg_frame [simp]:
  "Can_44_TCAN4x5x_ApiId (read_reg D aId a n s) = Can_44_TCAN4x5x_ApiId s"
  "Can_44_TCAN4x5x_ControllerIf_State (read_reg D aId a n s) = Can_44_TCAN4x5x_ControllerIf_State s"
  "Can_44_TCAN4x5x_WasCanTrcvInSleep (read_reg D aId a n s) = Can_44_TCAN4x5x_WasCanTrcvInSleep s"
  "Can_44_TCAN4x5x_DriverState (read_reg D aId a n s) = Can_44_TCAN4x5x_DriverState s"
  "Can_44_TCAN4x5x_ControllerMode (read_reg D aId a n s) = Can_44_TCAN4x5x_ControllerMode s"
  "Can_44_TCAN4x5x_ConfigPtr (read_reg D aId a n s) = Can_44_TCAN4x5x_ConfigPtr s"
  "Can_44_TCAN4x5x_InterruptDisableCount (read_reg D aId a n s) = Can_44_TCAN4x5x_InterruptDisableCount s"
  "Can_44_TCAN4x5x_HthMutex (read_reg D aId a n s) = Can_44_TCAN4x5x_HthMutex s"
  "Can_44_TCAN4x5x_ExCntxt (read_reg D aId a n s) = Can_44_TCAN4x5x_ExCntxt s"
  "Can_44_TCAN4x5x_ReadCmd (read_reg D aId a n s) = Can_44_TCAN4x5x_ReadCmd s"
  "Can_44_TCAN4x5x_DrvConfigPtr (read_reg D aId a n s) = Can_44_TCAN4x5x_DrvConfigPtr s"
  "Can_44_TCAN4x5x_MajorRevId (read_reg D aId a n s) = Can_44_TCAN4x5x_MajorRevId s"
  "Can_44_TCAN4x5x_CurrentTxTimeStamp (read_reg D aId a n s) = Can_44_TCAN4x5x_CurrentTxTimeStamp s"
  "Can_44_TCAN4x5x_MCAN_RWDev (read_reg D aId a n s) = Can_44_TCAN4x5x_MCAN_RWDev s"
  "Can_44_TCAN4x5x_Mcan_swPduHandle (read_reg D aId a n s) = Can_44_TCAN4x5x_Mcan_swPduHandle s"
  "Can_44_TCAN4x5x_Mcan_extFilterIndex (read_reg D aId a n s) = Can_44_TCAN4x5x_Mcan_extFilterIndex s"
  "Can_44_TCAN4x5x_Mcan_stdFilterIndex (read_reg D aId a n s) = Can_44_TCAN4x5x_Mcan_stdFilterIndex s"
  "Can_44_TCAN4x5x_Mcan_FdConfig (read_reg D aId a n s) = Can_44_TCAN4x5x_Mcan_FdConfig s"
  by (simp_all add: read_reg_def)

lemma write_reg_frame [simp]:
  "Can_44_TCAN4x5x_ApiId (write_reg D aId a ws s) = Can_44_TCAN4x5x_ApiId s"
  "Can_44_TCAN4x5x_ControllerIf_State (write_reg D aId a ws s) = Can_44_TCAN4x5x_ControllerIf_State s"
  "Can_44_TCAN4x5x_WasCanTrcvInSleep (write_reg D aId a ws s) = Can_44_TCAN4x5x_WasCanTrcvInSleep s"
  "Can_44_TCAN4x5x_DriverState (write_reg D aId a ws s) = Can_44_TCAN4x5x_DriverState s"
  "Can_44_TCAN4x5x_ControllerMode (write_reg D aId a ws s) = Can_44_TCAN4x5x_ControllerMode s"
  "Can_44_TCAN4x5x_ConfigPtr (write_reg D aId a ws s) = Can_44_TCAN4x5x_ConfigPtr s"
  "Can_44_TCAN4x5x_InterruptDisableCount (write_reg D aId a ws s) = Can_44_TCAN4x5x_InterruptDisableCount s"
  "Can_44_TCAN4x5x_HthMutex (write_reg D aId a ws s) = Can_44_TCAN4x5x_HthMutex s"
  "Can_44_TCAN4x5x_ExCntxt (write_reg D aId a ws s) = Can_44_TCAN4x5x_ExCntxt s"
  "Can_44_TCAN4x5x_ReadCmd (write_reg D aId a ws s) = Can_44_TCAN4x5x_ReadCmd s"
  "Can_44_TCAN4x5x_DrvConfigPtr (write_reg D aId a ws s) = Can_44_TCAN4x5x_DrvConfigPtr s"
  "Can_44_TCAN4x5x_MajorRevId (write_reg D aId a ws s) = Can_44_TCAN4x5x_MajorRevId s"
  "Can_44_TCAN4x5x_CurrentTxTimeStamp (write_reg D aId a ws s) = Can_44_TCAN4x5x_CurrentTxTimeStamp s"
  "Can_44_TCAN4x5x_MCAN_RWDev (write_reg D aId a ws s) = Can_44_TCAN4x5x_MCAN_RWDev s"
  "Can_44_TCAN4x5x_Mcan_swPduHandle (write_reg D aId a ws s) = Can_44_TCAN4x5x_Mcan_swPduHandle s"
  "Can_44_TCAN4x5x_Mcan_extFilterIndex (write_reg D aId a ws s) = Can_44_TCAN4x5x_Mcan_extFilterIndex s"
  "Can_44_TCAN4x5x_Mcan_stdFilterIndex (write_reg D aId a ws s) = Can_44_TCAN4x5x_Mcan_stdFilterIndex s"
  "Can_44_TCAN4x5x_Mcan_FdConfig (write_reg D aId a ws s) = Can_44_TCAN4x5x_Mcan_FdConfig s"
  by (simp_all add: write_reg_def)

lemma read_verified_frame [simp]:
  "Can_44_TCAN4x5x_ApiId (read_verified D aId a n s) = Can_44_TCAN4x5x_ApiId s"
  "Can_44_TCAN4x5x_ControllerIf_State (read_verified D aId a n s) = Can_44_TCAN4x5x_ControllerIf_State s"
  "Can_44_TCAN4x5x_WasCanTrcvInSleep (read_verified D aId a n s) = Can_44_TCAN4x5x_WasCanTrcvInSleep s"
  "Can_44_TCAN4x5x_DriverState (read_verified D aId a n s) = Can_44_TCAN4x5x_DriverState s"
  "Can_44_TCAN4x5x_ControllerMode (read_verified D aId a n s) = Can_44_TCAN4x5x_ControllerMode s"
  "Can_44_TCAN4x5x_ConfigPtr (read_verified D aId a n s) = Can_44_TCAN4x5x_ConfigPtr s"
  "Can_44_TCAN4x5x_InterruptDisableCount (read_verified D aId a n s) = Can_44_TCAN4x5x_InterruptDisableCount s"
  "Can_44_TCAN4x5x_HthMutex (read_verified D aId a n s) = Can_44_TCAN4x5x_HthMutex s"
  "Can_44_TCAN4x5x_ExCntxt (read_verified D aId a n s) = Can_44_TCAN4x5x_ExCntxt s"
  "Can_44_TCAN4x5x_ReadCmd (read_verified D aId a n s) = Can_44_TCAN4x5x_ReadCmd s"
  "Can_44_TCAN4x5x_DrvConfigPtr (read_verified D aId a n s) = Can_44_TCAN4x5x_DrvConfigPtr s"
  "Can_44_TCAN4x5x_MajorRevId (read_verified D aId a n s) = Can_44_TCAN4x5x_MajorRevId s"
  "Can_44_TCAN4x5x_CurrentTxTimeStamp (read_verified D aId a n s) = Can_44_TCAN4x5x_CurrentTxTimeStamp s"
  "Can_44_TCAN4x5x_MCAN_RWDev (read_verified D aId a n s) = Can_44_TCAN4x5x_MCAN_RWDev s"
  "Can_44_TCAN4x5x_Mcan_swPduHandle (read_verified D aId a n s) = Can_44_TCAN4x5x_Mcan_swPduHandle s"
  "Can_44_TCAN4x5x_Mcan_extFilterIndex (read_verified D aId a n s) = Can_44_TCAN4x5x_Mcan_extFilterIndex s"
  "Can_44_TCAN4x5x_Mcan_stdFilterIndex (read_verified D aId a n s) = Can_44_TCAN4x5x_Mcan_stdFilterIndex s"
  "Can_44_TCAN4x5x_Mcan_FdConfig (read_verified D aId a n s) = Can_44_TCAN4x5x_Mcan_FdConfig s"
  by (simp_all add: read_verified_def Can_44_TCAN4x5x_VerifySpiRead_def)

lemma drv_report_frame [simp]:
  "Can_44_TCAN4x5x_ApiId (drv_report D api e s) = Can_44_TCAN4x5x_ApiId s"
  "Can_44_TCAN4x5x_ControllerIf_State (drv_report D api e s) = Can_44_TCAN4x5x_ControllerIf_State s"
  "Can_44_TCAN4x5x_WasCanTrcvInSleep (drv_report D api e s) = Can_44_TCAN4x5x_WasCanTrcvInSleep s"
  "Can_44_TCAN4x5x_DriverState (drv_report D api e s) = Can_44_TCAN4x5x_DriverState s"
  "Can_44_TCAN4x5x_ControllerMode (drv_report D api e s) = Can_44_TCAN4x5x_ControllerMode s"
  "Can_44_TCAN4x5x_ConfigPtr (drv_report D api e s) = Can_44_TCAN4x5x_ConfigPtr s"
  "Can_44_TCAN4x5x_InterruptDisableCount (drv_report D api e s) = Can_44_TCAN4x5x_InterruptDisableCount s"
  "Can_44_TCAN4x5x_HthMutex (drv_report D api e s) = Can_44_TCAN4x5x_HthMutex s"
  "Can_44_TCAN4x5x_ExCntxt (drv_report D api e s) = Can_44_TCAN4x5x_ExCntxt s"
  "Can_44_TCAN4x5x_ReadCmd (drv_report D api e s) = Can_44_TCAN4x5x_ReadCmd s"
  "Can_44_TCAN4x5x_DrvConfigPtr (drv_report D api e s) = Can_44_TCAN4x5x_DrvConfigPtr s"
  "Can_44_TCAN4x5x_MajorRevId (drv_report D api e s) = Can_44_TCAN4x5x_MajorRevId s"
  "Can_44_TCAN4x5x_CurrentTxTimeStamp (drv_report D api e s) = Can_44_TCAN4x5x_CurrentTxTimeStamp s"
  "Can_44_TCAN4x5x_MCAN_RWDev (drv_report D api e s) = Can_44_TCAN4x5x_MCAN_RWDev s"
  "Can_44_TCAN4x5x_Mcan_swPduHandle (drv_report D api e s) = Can_44_TCAN4x5x_Mcan_swPduHandle s"
  "Can_44_TCAN4x5x_Mcan_extFilterIndex (drv_report D api e s) = Can_44_TCAN4x5x_Mcan_extFilterIndex s"
  "Can_44_TCAN4x5x_Mcan_stdFilterIndex (drv_report D api e s) = Can_44_TCAN4x5x_Mcan_stdFilterIndex s"
  "Can_44_TCAN4x5x_Mcan_FdConfig (drv_report D api e s) = Can_44_TCAN4x5x_Mcan_FdConfig s"
  by (simp_all add: drv_report_def)

lemma drv_ext_put_tx [simp]: "drv_ext (put_tx aId ws s) = drv_ext s"
  by (simp add: put_tx_def)

subsection \<open>A working controller\<close>

definition spi_header :: "8 word \<Rightarrow> nat \<Rightarrow> nat \<Rightarrow> 32 word" where
  "spi_header cmd a n = push_bit 24 (ucast cmd) OR push_bit 8 (of_nat a) OR of_nat n"

definition tcan_ok :: "'x CanDrvSys \<Rightarrow> (nat \<Rightarrow> 'x \<Rightarrow> 32 word) \<Rightarrow> (nat \<Rightarrow> 32 word list \<Rightarrow> 'x \<Rightarrow> 'x) \<Rightarrow> bool" where
  "tcan_ok D reg wr \<longleftrightarrow>
     \<not> CAN_44_TCAN4x5x_SPI_MSG_DET_LOG D \<and> (\<forall>v. SWAP32 D (SWAP32 D v) = v) \<and> (\<forall>ch n x. Spi_SetupEB D ch n x = (E_OK, x)) \<and>
     (\<forall>q a n junk x. a < 65536 \<longrightarrow> n < 256 \<longrightarrow> length junk = n \<longrightarrow>
        (\<exists>h. Spi_SyncTransmit D q (SWAP32 D (spi_header CAN_44_TCAN4x5x_READ a n) # junk) x =
              (E_OK, h # map (\<lambda>i. SWAP32 D (reg (a + 4 * i) x)) [0..<n], x))) \<and>
     (\<forall>q a n junk x. a < 65536 \<longrightarrow> n < 256 \<longrightarrow> length junk = n + 1 \<longrightarrow>
        (\<exists>h h'. Spi_SyncTransmit D q (SWAP32 D (spi_header CAN_44_TCAN4x5x_READ_WAIT a n) # junk) x =
              (E_OK, h # h' # map (\<lambda>i. SWAP32 D (reg (a + 4 * i) x)) [0..<n], x))) \<and>
     (\<forall>q a ws x. a < 65536 \<longrightarrow> length ws < 256 \<longrightarrow>
        (\<exists>r. Spi_SyncTransmit D q (map (SWAP32 D) (spi_header CAN_44_TCAN4x5x_WRITE a (length ws) # ws)) x = (E_OK, r, wr a ws x)))"

text \<open>The read command has been chosen by the initialisation.\<close>

definition read_cmd_ok :: "nat \<Rightarrow> 'x CanDrvSt \<Rightarrow> bool" where
  "read_cmd_ok aId s \<longleftrightarrow> Can_44_TCAN4x5x_ReadCmd s aId \<in> {CAN_44_TCAN4x5x_READ, CAN_44_TCAN4x5x_READ_WAIT}"

lemma read_cmd_ok_frame [simp]:
  "read_cmd_ok i (read_reg D aId a n s) = read_cmd_ok i s"
  "read_cmd_ok i (write_reg D aId a ws s) = read_cmd_ok i s"
  "read_cmd_ok i (read_verified D aId a n s) = read_cmd_ok i s"
  "read_cmd_ok i (put_tx aId ws s) = read_cmd_ok i s"
  by (simp_all add: read_cmd_ok_def)

lemma spi_retry_ok:
  assumes "spi_exchange D q t r n b x = (E_OK, b', x')"
  shows "spi_retry D q t r n k b x = (E_OK, b', x')"
  using assms by (cases k) simp_all

lemma SpiRW_ok:
  assumes ok: "tcan_ok D reg wr" and a: "a < 65536" "n < 256" and cmd: "cmd \<in> {CAN_44_TCAN4x5x_READ, CAN_44_TCAN4x5x_READ_WAIT}"
  shows "\<exists>b. Can_44_TCAN4x5x_SpiRW D aId a n cmd s = (E_OK, s\<lparr>Can_44_TCAN4x5x_SpiBuf := (Can_44_TCAN4x5x_SpiBuf s)(aId := b)\<rparr>) \<and>
    (\<forall>i < n. b (buf_rx_at (Can_44_TCAN4x5x_ExCntxt s aId) (i + 1)) = reg (a + 4 * i) (drv_ext s))"
proof -
  define c where "c = Can_44_TCAN4x5x_ExCntxt s aId"
  define b0 where "b0 = swap_words (SWAP32 D) (buf_tx_at c 0) (n + 1) ((Can_44_TCAN4x5x_SpiBuf s aId)(buf_tx_at c 0 := spi_header cmd a n))"
  define q where "q = CanSpiSequenceRef (Can_44_TCAN4x5x_ControllerSetting_PC D aId) c"
  define w where "w = (if cmd = CAN_44_TCAN4x5x_READ_WAIT then 1 else 0 :: nat)"
  define ds where "ds = map (\<lambda>i. SWAP32 D (reg (a + 4 * i) (drv_ext s))) [0..<n]"
  have sw: "SWAP32 D (SWAP32 D v) = v" for v using ok by (simp add: tcan_ok_def)
  have tx: "map b0 [buf_tx_at c 0..<buf_tx_at c 0 + (n + 1 + w)] = SWAP32 D (spi_header cmd a n) # map b0 [Suc (buf_tx_at c 0)..<buf_tx_at c 0 + (n + 1 + w)]"
    by (subst upt_rec) (simp add: b0_def swap_words_def)
  obtain hs where hs: "length hs = w + 1" "Spi_SyncTransmit D q (map b0 [buf_tx_at c 0..<buf_tx_at c 0 + (n + 1 + w)]) (drv_ext s) = (E_OK, hs @ ds, drv_ext s)"
  proof (cases "cmd = CAN_44_TCAN4x5x_READ_WAIT")
    case True
    have l: "length (map b0 [Suc (buf_tx_at c 0)..<buf_tx_at c 0 + (n + 1 + w)]) = n + 1" using True by (simp add: w_def)
    obtain h h' where "Spi_SyncTransmit D q (map b0 [buf_tx_at c 0..<buf_tx_at c 0 + (n + 1 + w)]) (drv_ext s) = (E_OK, h # h' # ds, drv_ext s)"
      using ok a l unfolding tx tcan_ok_def True ds_def by blast
    then show ?thesis using that [of "[h, h']"] True by (simp add: w_def)
  next
    case False
    then have cr: "cmd = CAN_44_TCAN4x5x_READ" using cmd by simp
    have l: "length (map b0 [Suc (buf_tx_at c 0)..<buf_tx_at c 0 + (n + 1 + w)]) = n" using False by (simp add: w_def)
    obtain h where "Spi_SyncTransmit D q (map b0 [buf_tx_at c 0..<buf_tx_at c 0 + (n + 1 + w)]) (drv_ext s) = (E_OK, h # ds, drv_ext s)"
      using ok a l unfolding tx tcan_ok_def cr ds_def by blast
    then show ?thesis using that [of "[h]"] False by (simp add: w_def)
  qed
  define b1 where "b1 = swap_words (SWAP32 D) (buf_rx_at c 0 - w) (n + 1 + w) (store_words (buf_rx_at c 0 - w) (take (n + 1 + w) (hs @ ds)) b0)"
  have e: "spi_exchange D q (buf_tx_at c 0) (buf_rx_at c 0 - w) (n + 1 + w) b0 (drv_ext s) = (E_OK, b1, drv_ext s)"
    using hs(2) by (simp add: spi_exchange_def b1_def)
  have "b1 (buf_rx_at c (i + 1)) = reg (a + 4 * i) (drv_ext s)" if "i < n" for i
  proof -
    have w: "w \<le> buf_rx_at c 0" by (simp add: w_def buf_rx_at_def)
    have k: "buf_rx_at c (i + 1) - (buf_rx_at c 0 - w) = w + 1 + i" using w by (simp add: buf_rx_at_def)
    have "take (n + 1 + w) (hs @ ds) = hs @ ds" using hs(1) by (simp add: ds_def)
    moreover have "buf_rx_at c 0 - w \<le> buf_rx_at c (i + 1)" "buf_rx_at c (i + 1) < buf_rx_at c 0 - w + (n + 1 + w)" using that w by (simp_all add: buf_rx_at_def)
    moreover have "length (hs @ ds) = n + 1 + w" "(hs @ ds) ! (w + 1 + i) = SWAP32 D (reg (a + 4 * i) (drv_ext s))"
      using hs(1) that by (simp_all add: ds_def nth_append)
    ultimately show ?thesis by (simp only: b1_def swap_words_def store_words_def k sw if_True simp_thms)
  qed
  moreover have "Can_44_TCAN4x5x_SpiRW D aId a n cmd s = (E_OK, s\<lparr>Can_44_TCAN4x5x_SpiBuf := (Can_44_TCAN4x5x_SpiBuf s)(aId := b1)\<rparr>)"
  proof -
    have se: "Spi_SetupEB D ch m x = (E_OK, x)" for ch m x using ok by (simp add: tcan_ok_def)
    have rn: "(if cmd = CAN_44_TCAN4x5x_READ_WAIT then (buf_rx_at c 0 - 1, n + 2) else (buf_rx_at c 0, n + 1)) = (buf_rx_at c 0 - w, n + 1 + w)"
      by (simp add: w_def)
    show ?thesis
      unfolding Can_44_TCAN4x5x_SpiRW_def Let_def c_def [symmetric] spi_header_def [symmetric] b0_def [symmetric] rn se prod.case q_def [symmetric]
      by (simp add: spi_retry_ok [OF e [simplified]])
  qed
  ultimately show ?thesis unfolding c_def by blast
qed

lemma write_ok:
  assumes ok: "tcan_ok D reg wr" and a: "a < 65536" "length ws < 256"
  shows "\<exists>b. Can_44_TCAN4x5x_SpiWrite D aId a (length ws) (put_tx aId ws s) =
    (E_OK, s\<lparr>Can_44_TCAN4x5x_SpiBuf := (Can_44_TCAN4x5x_SpiBuf s)(aId := b), drv_ext := wr a ws (drv_ext s)\<rparr>)"
proof -
  define c where "c = Can_44_TCAN4x5x_ExCntxt s aId"
  define s1 where "s1 = put_tx aId ws s"
  have c1: "Can_44_TCAN4x5x_ExCntxt s1 aId = c" by (simp add: s1_def c_def)
  define b0 where "b0 = swap_words (SWAP32 D) (buf_tx_at c 0) (length ws + 1) ((Can_44_TCAN4x5x_SpiBuf s1 aId)(buf_tx_at c 0 := spi_header CAN_44_TCAN4x5x_WRITE a (length ws)))"
  define q where "q = CanSpiSequenceRef (Can_44_TCAN4x5x_ControllerSetting_PC D aId) c"
  have tx: "map b0 [buf_tx_at c 0..<buf_tx_at c 0 + (length ws + 1)] = map (SWAP32 D) (spi_header CAN_44_TCAN4x5x_WRITE a (length ws) # ws)"
  proof (rule nth_equalityI)
    fix i
    assume "i < length (map b0 [buf_tx_at c 0..<buf_tx_at c 0 + (length ws + 1)])"
    then have "i < length ws + 1" by (simp del: upt_Suc)
    then show "map b0 [buf_tx_at c 0..<buf_tx_at c 0 + (length ws + 1)] ! i = map (SWAP32 D) (spi_header CAN_44_TCAN4x5x_WRITE a (length ws) # ws) ! i"
      by (cases i) (simp_all add: b0_def swap_words_def s1_def put_tx_def store_words_def buf_tx_at_def c_def del: upt_Suc)
  qed (simp del: upt_Suc)
  obtain r where r: "Spi_SyncTransmit D q (map (SWAP32 D) (spi_header CAN_44_TCAN4x5x_WRITE a (length ws) # ws)) (drv_ext s) = (E_OK, r, wr a ws (drv_ext s))"
    using ok a unfolding tcan_ok_def by blast
  define b1 where "b1 = swap_words (SWAP32 D) (buf_rx_at c 0) (length ws + 1) (store_words (buf_rx_at c 0) (take (length ws + 1) r) b0)"
  have e: "spi_exchange D q (buf_tx_at c 0) (buf_rx_at c 0) (length ws + 1) b0 (drv_ext s) = (E_OK, b1, wr a ws (drv_ext s))"
    unfolding spi_exchange_def tx r by (simp add: b1_def)
  have se: "Spi_SetupEB D ch m x = (E_OK, x)" for ch m x using ok by (simp add: tcan_ok_def)
  have "Can_44_TCAN4x5x_SpiRW D aId a (length ws) CAN_44_TCAN4x5x_WRITE s1 = (E_OK, s1\<lparr>Can_44_TCAN4x5x_SpiBuf := (Can_44_TCAN4x5x_SpiBuf s1)(aId := b1), drv_ext := wr a ws (drv_ext s)\<rparr>)"
    unfolding Can_44_TCAN4x5x_SpiRW_def Let_def c1 spi_header_def [symmetric] b0_def [symmetric] se prod.case q_def [symmetric]
    by (simp add: spi_retry_ok [OF e [simplified]] s1_def)
  then show ?thesis using ok by (auto simp: Can_44_TCAN4x5x_SpiWrite_def tcan_ok_def s1_def put_tx_def)
qed

lemma SpiRead_ok:
  assumes "tcan_ok D reg wr" "a < 65536" "n < 256" "read_cmd_ok aId s"
  shows "\<exists>b. Can_44_TCAN4x5x_SpiRead D aId a n s = (E_OK, s\<lparr>Can_44_TCAN4x5x_SpiBuf := (Can_44_TCAN4x5x_SpiBuf s)(aId := b)\<rparr>) \<and>
    (\<forall>i < n. b (buf_rx_at (Can_44_TCAN4x5x_ExCntxt s aId) (i + 1)) = reg (a + 4 * i) (drv_ext s))"
  using SpiRW_ok [OF assms(1-3)] assms(4) by (simp add: Can_44_TCAN4x5x_SpiRead_def read_cmd_ok_def)

subsection \<open>The accesses in terms of the controller\<close>

lemma read_ret: "tcan_ok D reg wr \<Longrightarrow> a < 65536 \<Longrightarrow> n < 256 \<Longrightarrow> read_cmd_ok aId s \<Longrightarrow> Can_44_TCAN4x5x_SpiRead D aId a n s = (E_OK, read_reg D aId a n s)"
  using SpiRead_ok [of D reg wr a n aId s] by (auto simp: read_reg_def)

lemma read_ext: "tcan_ok D reg wr \<Longrightarrow> a < 65536 \<Longrightarrow> n < 256 \<Longrightarrow> read_cmd_ok aId s \<Longrightarrow> drv_ext (read_reg D aId a n s) = drv_ext s"
  using SpiRead_ok [of D reg wr a n aId s] by (auto simp: read_reg_def)

lemma read_rx:
  "tcan_ok D reg wr \<Longrightarrow> a < 65536 \<Longrightarrow> n < 256 \<Longrightarrow> read_cmd_ok aId s \<Longrightarrow> i < n \<Longrightarrow> spi_rx aId i (read_reg D aId a n s) = reg (a + 4 * i) (drv_ext s)"
  using SpiRead_ok [of D reg wr a n aId s] by (auto simp: read_reg_def spi_rx_def)

lemma write_ext: "tcan_ok D reg wr \<Longrightarrow> a < 65536 \<Longrightarrow> length ws < 256 \<Longrightarrow> drv_ext (write_reg D aId a ws s) = wr a ws (drv_ext s)"
  using write_ok [of D reg wr a ws aId s] by (auto simp: write_reg_def)

lemma verified_ext:
  "tcan_ok D reg wr \<Longrightarrow> a < 65536 \<Longrightarrow> n < 256 \<Longrightarrow> read_cmd_ok aId s \<Longrightarrow> drv_ext (read_verified D aId a n s) = drv_ext s"
  by (simp add: read_verified_def Can_44_TCAN4x5x_VerifySpiRead_def read_ext)

lemma verified_rx:
  "tcan_ok D reg wr \<Longrightarrow> a < 65536 \<Longrightarrow> read_cmd_ok aId s \<Longrightarrow> a \<noteq> REG_NDAT1 \<Longrightarrow> spi_rx aId 0 (read_verified D aId a 1 s) = reg a (drv_ext s)"
  by (simp add: read_verified_def Can_44_TCAN4x5x_VerifySpiRead_def read_ext read_rx)

lemmas device = read_ret read_ext read_rx write_ext verified_ext verified_rx

end
