(* ===== verification/TcanFrame.thy ===== *)
theory TcanFrame
  imports TcanDevice
begin

text \<open>
  The frames of the driver as bits: what a transmit element contains, what a receive element is read as, and that the second undoes the first when the controllers and the bus
  have carried identifier, format, length code and data over.
\<close>

unbundle bit_operations_syntax

subsection \<open>Data words\<close>

lemma nat_bit_byte:
  assumes "bit (m :: nat) b" "m < 256"
  shows "b < 8"
proof (rule ccontr)
  assume "\<not> b < 8"
  then have "(2 :: nat) ^ 8 \<le> 2 ^ b" by (intro power_increasing) simp_all
  then have "m div 2 ^ b = 0" using assms(2) by simp
  then show False using assms(1) by (simp add: bit_iff_odd)
qed

lemma bit_byte: "bit (of_nat m :: 32 word) b \<Longrightarrow> m < 256 \<Longrightarrow> b < 8"
  by (rule nat_bit_byte [of m]) (simp_all add: bit_simps)

lemma bit_fold_or:
  "bit (fold (\<lambda>j w. w OR push_bit (8 * j) (of_nat (B j))) [0..<n] w0 :: 32 word) i \<longleftrightarrow>
     bit w0 i \<or> i < 32 \<and> (\<exists>j < n. 8 * j \<le> i \<and> bit (of_nat (B j) :: 32 word) (i - 8 * j))"
  by (induction n) (auto simp: bit_simps less_Suc_eq)

lemma pack_word_bit:
  assumes len: "4 * k + j < len" and j: "j < 4" and b: "b < 8" and B: "\<And>i. byte i < 256"
  shows "bit (pack_word old len byte k) (8 * j + b) = bit (byte (4 * k + j)) b"
proof -
  define n where "n = min 4 (len - 4 * k)"
  have n: "j < n" "n \<le> 4" using len j by (simp_all add: n_def)
  have o: "\<not> bit (push_bit (8 * n) (drop_bit (8 * n) old)) (8 * j + b)" using n b by (simp add: bit_simps)
  have u: "j' = j" if "8 * j' \<le> 8 * j + b" "bit (of_nat (byte (4 * k + j')) :: 32 word) (8 * j + b - 8 * j')" for j'
    using bit_byte [OF that(2) B] that(1) b by linarith
  have "bit (pack_word old len byte k) (8 * j + b) = bit (of_nat (byte (4 * k + j)) :: 32 word) b"
  proof -
    have "(\<exists>j' < n. 8 * j' \<le> 8 * j + b \<and> bit (of_nat (byte (4 * k + j')) :: 32 word) (8 * j + b - 8 * j')) = bit (of_nat (byte (4 * k + j)) :: 32 word) b"
      using u n(1) by (metis add_diff_cancel_left' le_add1)
    then show ?thesis using o j b unfolding pack_word_def Let_def n_def [symmetric] bit_fold_or by simp
  qed
  also have "\<dots> = bit (byte (4 * k + j)) b" using b by (simp add: bit_simps)
  finally show ?thesis .
qed

lemma unpack_byte:
  assumes "\<And>b. b < 8 \<Longrightarrow> bit (w :: 32 word) (c + b) = bit m b" "m < 256" "c < 32"
  shows "unat (drop_bit c w AND 0xFF) = m"
proof (rule bit_eqI)
  fix b
  have m: "(0xFF :: 32 word) = mask 8" by (simp add: mask_eq_exp_minus_1)
  have hi: "\<not> bit m b" if "8 \<le> b" using nat_bit_byte [OF _ assms(2), of b] that by auto
  show "bit (unat (drop_bit c w AND 0xFF)) b = bit m b"
    unfolding m using assms(1) [of b] hi by (cases "b < 8") (auto simp: bit_simps)
qed

subsection \<open>Header words\<close>

definition sbit :: "nat \<Rightarrow> 32 word" where
  "sbit n = push_bit n 1"

lemma bit_sbit [simp]: "bit (sbit n) m \<longleftrightarrow> m = n \<and> n < 32"
  by (auto simp: sbit_def bit_simps)

lemma masks:
  "(0x000F0000 :: 32 word) = push_bit 16 (mask 4)" "(0x00200000 :: 32 word) = sbit 21" "(0x002F0000 :: 32 word) = push_bit 16 (mask 4) OR sbit 21"
  "(0x40000000 :: 32 word) = sbit 30" "(0x80000000 :: 32 word) = sbit 31" "(0x1FFFFFFF :: 32 word) = mask 29"
  "(0x5FFFFFFF :: 32 word) = mask 29 OR sbit 30" "(0x20000000 :: 32 word) = sbit 29" "(0xBFFFF800 :: 32 word) = NOT (mask 11 OR sbit 30)"
  by (simp_all add: mask_eq_exp_minus_1 sbit_def)

lemma nibble_bit: "bit (of_nat m :: 32 word) b \<Longrightarrow> m < 16 \<Longrightarrow> b < 4"
proof (rule ccontr)
  assume a: "bit (of_nat m :: 32 word) b" "m < 16" "\<not> b < 4"
  then have "(2 :: nat) ^ 4 \<le> 2 ^ b" by (intro power_increasing) simp_all
  then have "m div 2 ^ b = 0" using a(2) by simp
  moreover have "bit m b" using a(1) by (simp add: bit_simps)
  ultimately show False by (simp add: bit_iff_odd)
qed

definition t1_word :: "nat \<Rightarrow> bool \<Rightarrow> bool \<Rightarrow> nat \<Rightarrow> 32 word" where
  "t1_word k f br dlc = push_bit 24 (of_nat k) OR push_bit 23 1 OR push_bit 21 (if f then 1 else 0) OR push_bit 20 (if br then 1 else 0) OR push_bit 16 (of_nat dlc)"

lemma t1_word_sbit:
  "t1_word k f br dlc = push_bit 24 (of_nat k) OR sbit 23 OR (if f then sbit 21 else 0) OR (if br then sbit 20 else 0) OR push_bit 16 (of_nat dlc)"
  by (simp add: t1_word_def sbit_def)

lemma t1_bits:
  assumes "dlc < 16"
  shows "b < 4 \<Longrightarrow> bit (t1_word k f br dlc) (16 + b) = bit dlc b" and "bit (t1_word k f br dlc) 21 = f"
proof -
  show "bit (t1_word k f br dlc) (16 + b) = bit dlc b" if "b < 4" for b
    using that by (auto simp: t1_word_sbit bit_simps)
  have "\<not> bit (of_nat dlc :: 32 word) 5" using nibble_bit [of dlc 5] assms by auto
  then show "bit (t1_word k f br dlc) 21 = f" by (auto simp: t1_word_sbit bit_simps)
qed

lemma r1_decode:
  assumes r: "r1 AND 0x002F0000 = t1_word k f br dlc AND 0x002F0000" and d: "dlc < 16"
  shows "unat (drop_bit 16 (r1 AND 0x000F0000)) = dlc" "drop_bit 21 (r1 AND 0x00200000) = (if f then 1 else 0)"
proof -
  have b: "bit r1 n = bit (t1_word k f br dlc) n" if "16 \<le> n \<and> n < 20 \<or> n = 21" for n
    using arg_cong [OF r, of "\<lambda>w. bit w n"] that unfolding masks by (auto simp: bit_simps)
  show "unat (drop_bit 16 (r1 AND 0x000F0000)) = dlc"
  proof (rule bit_eqI)
    fix n
    have "\<not> bit dlc n" if "4 \<le> n" using nibble_bit [of dlc n] d that by (cases "n < 32") (auto simp: bit_simps dest: nat_bit_byte)
    then show "bit (unat (drop_bit 16 (r1 AND 0x000F0000))) n = bit dlc n"
      unfolding masks using b [of "16 + n"] t1_bits(1) [OF d, of n] by (cases "n < 4") (auto simp: bit_simps)
  qed
  show "drop_bit 21 (r1 AND 0x00200000) = (if f then 1 else 0)"
  proof (rule bit_eqI)
    fix n
    show "bit (drop_bit 21 (r1 AND 0x00200000)) n = bit (if f then 1 else 0 :: 32 word) n"
      unfolding masks using b [of 21] t1_bits(2) [OF d, of k f br] by (cases n) (auto simp: bit_simps)
  qed
qed

text \<open>An identifier as CanIf passes it down: eleven bits, or 29 bits with the flag for extended identifiers; in both cases with or without the flag for CAN FD.\<close>

definition can_id_ok :: "32 word \<Rightarrow> bool" where
  "can_id_ok cid \<longleftrightarrow> (if cid AND CAN_44_TCAN4x5x_EXTD_ID_MASK = 0 then cid AND 0xBFFFF800 = 0 else cid AND 0x20000000 = 0)"

definition t0_word :: "32 word \<Rightarrow> 32 word" where
  "t0_word cid = (if cid AND CAN_44_TCAN4x5x_EXTD_ID_MASK = 0 then push_bit 18 cid else push_bit 30 1 OR cid)"

lemma and_bit0: "(cid AND sbit n = 0) = (\<not> bit cid n)" if "n < 32"
proof
  assume "cid AND sbit n = 0"
  from arg_cong [OF this, of "\<lambda>w. bit w n"] show "\<not> bit cid n" using that by (simp add: bit_simps)
qed (auto intro!: bit_eqI simp: bit_simps)

text \<open>The identifier the receiver passes up: what \<^verbatim>\<open>RxNotification\<close> makes of the first word and the format bit.\<close>

definition rx_can_id :: "32 word \<Rightarrow> bool \<Rightarrow> 32 word" where
  "rx_can_id r0 f =
     (let i = (if r0 AND 0x40000000 \<noteq> 0 then (r0 AND 0x1FFFFFFF) OR CAN_44_TCAN4x5x_EXTD_ID_MASK else drop_bit 18 (r0 AND 0x1FFFFFFF))
      in if f then i OR CAN_44_TCAN4x5x_FRAME_TYPE_MASK else i)"

lemma rx_can_id:
  assumes ok: "can_id_ok cid" and r: "r0 AND 0x5FFFFFFF = t0_word cid AND 0x5FFFFFFF" and f: "f \<longleftrightarrow> cid AND CAN_44_TCAN4x5x_FRAME_TYPE_MASK \<noteq> 0"
  shows "rx_can_id r0 f = cid"
proof -
  have b: "bit r0 n = bit (t0_word cid) n" if "n < 29 \<or> n = 30" for n
    using arg_cong [OF r, of "\<lambda>w. bit w n"] that unfolding masks by (auto simp: bit_simps)
  have f30: "f = bit cid 30" using f unfolding masks by (simp add: and_bit0)
  show ?thesis
  proof (cases "bit cid 31")
    case False
    then have std: "cid AND 0x80000000 = 0" unfolding masks by (simp add: and_bit0)
    then have z: "cid AND 0xBFFFF800 = 0" using ok by (simp add: can_id_ok_def)
    have hi: "\<not> bit cid n" if "11 \<le> n" "n \<noteq> 30" for n
      using arg_cong [OF z, of "\<lambda>w. bit w n"] that bit_imp_le_length [of cid n] unfolding masks by (cases "n < 32") (auto simp: bit_simps)
    have t: "t0_word cid = push_bit 18 cid" using std by (simp add: t0_word_def)
    have x: "r0 AND 0x40000000 = 0" unfolding masks using b [of 30] hi [of 12] by (simp add: and_bit0 t bit_simps)
    have "bit (rx_can_id r0 f) n = bit cid n" for n
      unfolding rx_can_id_def x unfolding masks using b [of "18 + n"] hi [of n] f30
      by (cases "n < 11"; cases "n = 30") (auto simp: Let_def t bit_simps bit_imp_le_length)
    then show ?thesis by (intro bit_eqI)
  next
    case True
    then have ext: "cid AND 0x80000000 \<noteq> 0" unfolding masks by (simp add: and_bit0)
    then have "cid AND 0x20000000 = 0" using ok by (simp add: can_id_ok_def)
    then have n29: "\<not> bit cid 29" unfolding masks by (simp add: and_bit0)
    have t: "t0_word cid = sbit 30 OR cid" using ext by (simp add: t0_word_def sbit_def)
    have x: "r0 AND 0x40000000 \<noteq> 0" unfolding masks using b [of 30] by (simp add: and_bit0 t bit_simps)
    have "bit (rx_can_id r0 f) n = bit cid n" for n
    proof -
      consider "n < 29" | "n = 29" | "n = 30" | "n = 31" | "32 \<le> n" by linarith
      then show ?thesis
        using x b [of n] f30 True n29 bit_imp_le_length [of cid n] unfolding rx_can_id_def masks
        by cases (auto simp: Let_def t bit_simps)
    qed
    then show ?thesis by (intro bit_eqI)
  qed
qed

subsection \<open>Lengths\<close>

lemma dlc_bounds: "ConvertToDLC n < 16" "n \<le> 64 \<Longrightarrow> n \<le> ConvertCanDLC (ConvertToDLC n)" "ConvertCanDLC (ConvertToDLC n) \<le> 64"
  by (simp_all add: ConvertToDLC_def ConvertCanDLC_def)

text \<open>The length on the bus is the smallest length of CAN FD that holds the message.\<close>

lemma dlc_least:
  assumes "n \<le> m" "m \<in> {0, 1, 2, 3, 4, 5, 6, 7, 8, 12, 16, 20, 24, 32, 48, 64}"
  shows "ConvertCanDLC (ConvertToDLC n) \<le> m"
  using assms by (auto simp: ConvertToDLC_def ConvertCanDLC_def)

lemma words_of: "words_of n = (n + 3) div 4"
proof -
  have "n AND 3 = n mod 4" using take_bit_eq_mask [of 2 n] by (simp add: mask_eq_exp_minus_1 take_bit_eq_mod)
  then show ?thesis unfolding words_of_def by (cases "n mod 4 = 0") presburger+
qed

end
