(* ===== verification/TcanDemo.thy ===== *)
theory TcanDemo
  imports TcanDevice
begin

text \<open>
  A controller with registers and message RAM as one memory, behind the SPI protocol, and a configuration with one controller, one receive and one transmit object: the
  concrete instance of the driver's properties. It satisfies the interface \<open>tcan_ok\<close>.
\<close>

unbundle bit_operations_syntax

definition demo_store :: "nat \<Rightarrow> 32 word list \<Rightarrow> (nat \<Rightarrow> 32 word) \<Rightarrow> nat \<Rightarrow> 32 word" where
  "demo_store a ws x = (\<lambda>i. if a \<le> i \<and> i < a + 4 * length ws \<and> (i - a) mod 4 = 0 then ws ! ((i - a) div 4) else x i)"

definition demo_transmit :: "nat \<Rightarrow> 32 word list \<Rightarrow> (nat \<Rightarrow> 32 word) \<Rightarrow> Std_ReturnType \<times> 32 word list \<times> (nat \<Rightarrow> 32 word)" where
  "demo_transmit q ws x =
     (let cmd = drop_bit 24 (hd ws); a = unat (drop_bit 8 (hd ws) AND 0xFFFF); n = unat (hd ws AND 0xFF);
          r = map (\<lambda>i. x (a + 4 * i)) [0..<n]
      in if cmd = 0x61 then (E_OK, ws, demo_store a (tl ws) x) else (E_OK, if cmd = 0x51 then 0 # 0 # r else 0 # r, x))"

definition demo_fd :: Can_44_TCAN4x5x_ControllerFdBaudrateConfigType where
  "demo_fd = \<lparr>CanFDControllerBRP = 0, CanControllerDataPropSeg = 3, CanControllerDataSeg1 = 3, CanControllerDataSeg2 = 1, CanControllerDataSyncJumpWidth = 1,
     CanControllerDataTrcvDelayCompensationOffset = 0, CanControllerDataTxBitRateSwitch = 1\<rparr>"

definition demo_ctrl :: Can_44_TCAN4x5x_ControllerConfigType where
  "demo_ctrl = \<lparr>CanControllerDefaultBaudrate = 0,
     CanMsgRamConfig = \<lparr>CanStdandardIDFiltersCount = 1, CanExtendedIDFiltersCount = 0, CanFifo0BufferCount = 4, CanFifo1BufferCount = 0,
                       CanDedicatedRxBufferCount = 0, CanTxBufferCount = 2\<rparr>,
     CanNumOfBaudRateConf = 1,
     CanControllerBaudrateConfigPtr = (\<lambda>_. \<lparr>CanControllerBRP = 1, CanControllerPropSeg = 7, CanControllerSeg1 = 6, CanControllerSeg2 = 5,
                                           CanControllerSyncJumpWidth = 3, CanControllerFdBaudrateConf = demo_fd\<rparr>),
     CanRxObjFilterConfigPtr = (\<lambda>_. \<lparr>CanIdType = 0, CanFilterType = 2, CanMessageBufferType = 1, CanHwFilterCode = 0, CanHwFilterMask = 0\<rparr>),
     CanTxObjConfigPtr = (\<lambda>_. \<lparr>CanFdPaddingValue = 0xCC, CanHwObjectCount = 2, CanTxBufferIndex = 0, CanTriggerTransmitEnable = False\<rparr>),
     CanFilterIdxToRxObjStandard = (\<lambda>_. 0), CanFilterIdxToRxObjExtended = (\<lambda>_. 0), CanSpiBaudrateRef = 8000000\<rparr>"

definition demo_conf :: Can_44_TCAN4x5x_ConfigType where
  "demo_conf = \<lparr>CanHTHobjectsCount = 1, CanHRHobjectsCount = 1, CanSpiCommRetries = 2, CanHTHMappingConfigPtr = (\<lambda>_. \<lparr>CanCtrlId = 0, CanHthIndex = 0\<rparr>),
     CanControllerConfiguration = (\<lambda>_. demo_ctrl)\<rparr>"

definition demo_drv_sys :: "(nat \<Rightarrow> 32 word) CanDrvSys" where
  "demo_drv_sys = \<lparr>CAN_44_TCAN4x5x_DEV_ERROR_DETECT = True, CAN_44_TCAN4x5x_VARIANT_POST_BUILD = False, CAN_44_TCAN4x5x_TCAN1043 = False,
     CAN_44_TCAN4x5x_SPI_MSG_DET_LOG = False, RBD_PK_PCB_ANCHOR = True, CAN_44_TCAN4x5x_NUM_CONTROLLER_MAX = 1, CAN_44_TCAN4x5x_XTAL_FREQUENCY = 40000000,
     CAN_44_TCAN4x5x_TIMESTAMP_FREQUENCY = 1000000, Can_44_TCAN4x5x_Config = demo_conf,
     Can_44_TCAN4x5x_ControllerSetting_PC =
       (\<lambda>_. \<lparr>CanXtalClock = 40000000, CanSpiSequenceRef = (\<lambda>c. c), CanSpiChannel = (\<lambda>c. c), CanFDBaudRateEnabled = True, CanFdDataBufSize = 7,
            CanBusoffProcessing = CAN_44_TCAN4x5x_POLLING, CanRxProcessing = CAN_44_TCAN4x5x_POLLING, CanTxProcessing = CAN_44_TCAN4x5x_POLLING\<rparr>),
     can_t_value = (\<lambda>t. case t of CAN_T_START \<Rightarrow> 0 | CAN_T_STOP \<Rightarrow> 1 | CAN_T_SLEEP \<Rightarrow> 2 | CAN_T_WAKEUP \<Rightarrow> 3),
     SWAP32 = (\<lambda>v. v), Spi_SetupEB = (\<lambda>ch n x. (E_OK, x)), Spi_SyncTransmit = demo_transmit, LPDU_RECEIVE_CALLOUT_FUNCTION = None,
     drv_Det_ReportError = (\<lambda>api e x. x), WdgMgr_Kick = (\<lambda>x. x), drv_stray = (\<lambda>_. 0)\<rparr>"

definition demo_drv :: "(nat \<Rightarrow> 32 word) \<Rightarrow> (nat \<Rightarrow> 32 word) CanDrvSt" where
  "demo_drv x = \<lparr>Can_44_TCAN4x5x_ApiId = 0, Can_44_TCAN4x5x_ControllerIf_State = (\<lambda>_. Some CANIF_CS_STARTED), Can_44_TCAN4x5x_WasCanTrcvInSleep = False,
     Can_44_TCAN4x5x_DriverState = 1, Can_44_TCAN4x5x_ControllerMode = (\<lambda>_. CAN_T_START), Can_44_TCAN4x5x_ConfigPtr = demo_conf,
     Can_44_TCAN4x5x_InterruptDisableCount = (\<lambda>_. 0), Can_44_TCAN4x5x_HthMutex = (\<lambda>_. False), Can_44_TCAN4x5x_SpiBuf = (\<lambda>_ _. 0),
     Can_44_TCAN4x5x_ExCntxt = (\<lambda>_. 0), Can_44_TCAN4x5x_ReadCmd = (\<lambda>_. CAN_44_TCAN4x5x_READ), Can_44_TCAN4x5x_DrvConfigPtr = demo_conf,
     Can_44_TCAN4x5x_MajorRevId = 2, Can_44_TCAN4x5x_CurrentTxTimeStamp = (\<lambda>_. 0),
     Can_44_TCAN4x5x_MCAN_RWDev = (\<lambda>_. \<lparr>dev_state = CAN_44_TCAN4x5x_STATE_RUNNING, EXTND_ID_FILTER_START_ADDR = 4, RX_BUFFER_START_ADDR = 292,
        RX_FIFO0_START_ADDR = 4, RX_FIFO1_START_ADDR = 292, TX_EVENT_FIFO_START_ADDR = 292, TX_BUFFER_START_ADDR = 308\<rparr>),
     Can_44_TCAN4x5x_Mcan_swPduHandle = (\<lambda>_ _. 0), Can_44_TCAN4x5x_Mcan_extFilterIndex = 0, Can_44_TCAN4x5x_Mcan_stdFilterIndex = 0,
     Can_44_TCAN4x5x_Mcan_FdConfig = (\<lambda>_. demo_fd), drv_ext = x\<rparr>"

lemma nat_bit_less:
  assumes "bit (m :: nat) b" "m < 2 ^ k"
  shows "b < k"
proof (rule ccontr)
  assume "\<not> b < k"
  then have "(2 :: nat) ^ k \<le> 2 ^ b" by (intro power_increasing) simp_all
  then have "m < 2 ^ b" using assms(2) by linarith
  then have "m div 2 ^ b = 0" by simp
  then show False using assms(1) by (simp add: bit_iff_odd)
qed

lemma spi_header_parts:
  assumes a: "a < 65536" and n: "n < 256"
  shows "drop_bit 24 (spi_header cmd a n) = ucast cmd"
    and "unat (drop_bit 8 (spi_header cmd a n) AND 0xFFFF) = a"
    and "unat (spi_header cmd a n AND 0xFF) = n"
proof -
  have A: "b < 16" if "bit a b" for b using nat_bit_less [OF that, of 16] a by simp
  have N: "b < 8" if "bit n b" for b using nat_bit_less [OF that, of 8] n by simp
  have C: "b < 8" if "bit cmd b" for b using bit_imp_le_length [OF that] by simp
  have m: "(0xFFFF :: 32 word) = mask 16" "(0xFF :: 32 word) = mask 8" by (simp_all add: mask_eq_exp_minus_1)
  show "drop_bit 24 (spi_header cmd a n) = ucast cmd"
    by (rule bit_eqI) (use A N C in \<open>fastforce simp: spi_header_def bit_simps\<close>)
  have "drop_bit 8 (spi_header cmd a n) AND 0xFFFF = of_nat a"
    unfolding m by (rule bit_eqI) (use A N in \<open>fastforce simp: spi_header_def bit_simps\<close>)
  then show "unat (drop_bit 8 (spi_header cmd a n) AND 0xFFFF) = a" using a by (simp add: unat_of_nat take_bit_nat_eq_self)
  have "spi_header cmd a n AND 0xFF = of_nat n"
    unfolding m by (rule bit_eqI) (use N in \<open>fastforce simp: spi_header_def bit_simps\<close>)
  then show "unat (spi_header cmd a n AND 0xFF) = n" using n by (simp add: unat_of_nat take_bit_nat_eq_self)
qed

lemma demo_tcan_ok: "tcan_ok demo_drv_sys (\<lambda>a x. x a) demo_store"
  unfolding tcan_ok_def by (auto simp: demo_drv_sys_def demo_transmit_def Let_def spi_header_parts)

text \<open>A memory with the given pending requests, a request of nine bytes with CAN FD, and a CanIf above the driver.\<close>

definition demo_mem :: "32 word \<Rightarrow> nat \<Rightarrow> 32 word" where
  "demo_mem v a = (if a = REG_TXBRP then v else 0)"

definition demo_pdu :: Can_PduType where
  "demo_pdu = \<lparr>swPduHandle = 7, can_id = 0x40000123, can_length = 9, can_sdu = Some [1, 2, 3, 4, 5, 6, 7, 8, 9]\<rparr>"

definition demo_if_sys :: "(nat \<Rightarrow> 32 word) CanDrvSt CanIf_Sys" where
  "demo_if_sys =
     \<lparr>CANIF_DEV_ERROR_DETECT = True, RBD_PK_BLE_TIMESYNC = False, CAN_FD_FRAME_MASK = 0x40000000, CanIfPduMax = 3,
      CanIfNumController = 1, CanIfNumChannels = 1, CanIfCtrlId = 0, CanIfTimestampFrequency = 0,
      CanIfPduHandleCfg = \<lambda>i. \<lparr>LoHwHandle = 1, UpPduId = i\<rparr>, CanIfPduUserCallbackULCfg = \<lambda>_. CANIF_CAN_TP,
      CanIfPduUserCallbackNameCfg = \<lambda>_. \<lparr>UserTxConfirmationFn = None, UserRxIndicationFn = None, FakeTxConfirmPduId = 3\<rparr>,
      CanIf_Cfg_SetAnchorCanId = CanIfPduCanIdMappingCfg,
      CanTrcv_Write = \<lambda>h p w. (case Can_44_TCAN4x5x_Write demo_drv_sys h p (ci_ext w) of (r, s) \<Rightarrow> (r, w\<lparr>ci_ext := s\<rparr>)),
      CanTrcv_SetControllerMode = \<lambda>_ _ w. (CAN_OK, w), CanTrcv_SetOpMode = \<lambda>_ _ w. (E_OK, w),
      CanTrcv_GetOpMode = \<lambda>i w. (E_OK, CanIfTrcvMode w i, w),
      CanTrcv_DisableAllInterrupts = Some (\<lambda>i. on_drv (Can_44_TCAN4x5x_MCAN_DisableAllInterrupts demo_drv_sys i)),
      CanTrcv_ClearTXBRP = Some (\<lambda>i. on_drv (Can_44_TCAN4x5x_MCAN_ClearTXBRP demo_drv_sys i)),
      CanTrcv_GetCurrentTimeStampCounterValue = \<lambda>_. 0, CanTrcv_GetCurrentTxTimeStamp = \<lambda>_. 0, rbdPwrVM_Normal = \<lambda>_. True,
      CanSM_ControllerBusOff = \<lambda>_ w. w, ci_CanTp_TxConfirmation = \<lambda>_ w. w,
      ci_CanTp_RxIndication = \<lambda>_ _ w. w, ci_PduR_TxConfirmation = \<lambda>_ w. w,
      ci_PduR_RxIndication = \<lambda>_ _ w. w, ci_PduR_SetTxConfirmationLatency = \<lambda>_ _ w. w, ci_Det_ReportError = \<lambda>_ _ w. w\<rparr>"

definition demo_if :: "(nat \<Rightarrow> 32 word) CanDrvSt \<Rightarrow> (nat \<Rightarrow> 32 word) CanDrvSt CanIf_St" where
  "demo_if s = \<lparr>CanIfPendingTxConfirm = (\<lambda>_. False), CanIfControllerMode = (\<lambda>_. CANIF_CS_STARTED),
     CanIfTrcvMode = (\<lambda>_. CANTRCV_TRCVMODE_NORMAL), CanIfPduCanIdMappingCfg = (\<lambda>i. 0x40000600 + of_nat i), ci_ext = s\<rparr>"

lemma demo_ext [simp]: "drv_ext (demo_drv x) = x" "ci_ext (demo_if s) = s"
  by (simp_all add: demo_drv_def demo_if_def)

lemmas demo_simps = demo_drv_sys_def demo_drv_def demo_conf_def demo_ctrl_def demo_fd_def demo_mem_def demo_pdu_def

end
