(* ===== verification/TcanProps.thy ===== *)
theory TcanProps
  imports TcanFrame TcanDemo
begin

text \<open>
  Properties of the CAN driver on a working controller (\<open>tcan_ok\<close>) and on one that fails: what a write request stores in the controller, that the frame arrives at the CanIf of
  another node, frames that are lost, the modes of the driver and of CanIf, and the counter of disabled interrupts.
\<close>

unbundle bit_operations_syntax

subsection \<open>Sending\<close>

definition tx_addr :: "'x CanDrvSys \<Rightarrow> nat \<Rightarrow> nat \<Rightarrow> 'x CanDrvSt \<Rightarrow> nat" where
  "tx_addr D aId k s = MSG_RAM_BASE_ADDR + TX_BUFFER_START_ADDR (Can_44_TCAN4x5x_MCAN_RWDev s aId) + 4 * (elem_words D aId * k)"

lemma size_le: "code < 8 \<Longrightarrow> Can_44_TCAN4x5x_MCAN_ROBufferSizeFD D code \<in> {8, 12, 16, 20, 24, 32, 48, 64}"
proof -
  assume c: "code < 8"
  then have "code \<in> {0, 1, 2, 3, 4, 5, 6, 7}" by auto
  then show ?thesis using c by (auto simp: Can_44_TCAN4x5x_MCAN_ROBufferSizeFD_def)
qed

lemma write_loop_spec:
  fixes s :: "'x CanDrvSt"
  assumes ok: "tcan_ok D reg wr" and a: "\<And>j. j < 32 \<Longrightarrow> tx_addr D aId j s < 65536" and l: "\<And>j. length (tx_element D aId pdu TxObj j s) < 256"
    and n: "k + n \<le> 32"
  shows "case find (\<lambda>j. \<not> bit v j) [k..<k + n] of
      None \<Rightarrow> write_loop D aId pdu TxObj v n k ret s = (if n = 0 then ret else CAN_BUSY, s)
    | Some j \<Rightarrow> \<exists>s'. write_loop D aId pdu TxObj v n k ret s = (CAN_OK, s') \<and>
        drv_ext s' = wr REG_TXBAR [push_bit j 1] (wr (tx_addr D aId j s) (tx_element D aId pdu TxObj j s) (drv_ext s)) \<and>
        Can_44_TCAN4x5x_Mcan_swPduHandle s' aId j = swPduHandle pdu \<and> Can_44_TCAN4x5x_HthMutex s' = Can_44_TCAN4x5x_HthMutex s"
  using n
proof (induction n arbitrary: k ret)
  case (Suc n)
  have e: "[k..<k + Suc n] = k # [Suc k..<Suc k + n]" by (simp add: upt_conv_Cons del: upt_Suc)
  show ?case
  proof (cases "bit v k")
    case True
    have "u8 (int k + 1) = Suc k" using Suc.prems by (simp add: u8_def nat_add_distrib)
    then show ?thesis using Suc.IH [of "Suc k" CAN_BUSY] Suc.prems True unfolding e by (auto split: option.splits simp del: upt_Suc)
  next
    case False
    define h where "h = (Can_44_TCAN4x5x_Mcan_swPduHandle s aId)(k := swPduHandle pdu)"
    define s1 where "s1 = s\<lparr>Can_44_TCAN4x5x_Mcan_swPduHandle := (Can_44_TCAN4x5x_Mcan_swPduHandle s)(aId := h)\<rparr>"
    define s2 where "s2 = write_reg D aId REG_TXBAR [push_bit k 1] (write_reg D aId (tx_addr D aId k s) (tx_element D aId pdu TxObj k s) s1)"
    have "write_loop D aId pdu TxObj v (Suc n) k ret s = (CAN_OK, s2)"
      unfolding write_loop.simps Let_def s2_def s1_def h_def tx_addr_def elem_words_def using False by simp
    moreover have "drv_ext s2 = wr REG_TXBAR [push_bit k 1] (wr (tx_addr D aId k s) (tx_element D aId pdu TxObj k s) (drv_ext s))"
      using a [of k] l [of k] Suc.prems by (simp add: s2_def write_ext [OF ok] s1_def del: push_bit_of_1)
    ultimately show ?thesis unfolding e using False by (simp add: s2_def s1_def h_def)
  qed
qed simp

text \<open>\<open>carries elem cid bytes\<close>: the words of a transmit element describe a frame with this identifier and these data bytes.\<close>

definition carries :: "32 word list \<Rightarrow> 32 word \<Rightarrow> nat list \<Rightarrow> bool" where
  "carries elem cid bytes \<longleftrightarrow>
     length elem = 2 + words_of (length bytes) \<and> elem ! 0 = t0_word cid \<and>
     (\<exists>k br. elem ! 1 = t1_word k (cid AND CAN_44_TCAN4x5x_FRAME_TYPE_MASK \<noteq> 0) br (ConvertToDLC (length bytes))) \<and>
     (\<forall>i < length bytes. unat (drop_bit (i mod 4 * 8) (elem ! (2 + i div 4)) AND 0xFF) = bytes ! i)"

text \<open>The data on the bus: the message, filled up with the configured byte to the next length of CAN FD.\<close>

definition padded :: "nat \<Rightarrow> nat \<Rightarrow> nat list \<Rightarrow> nat list" where
  "padded pad len data = map (\<lambda>i. if i < len then data ! i else pad) [0..<ConvertCanDLC (ConvertToDLC len)]"

lemma length_padded [simp]: "length (padded pad len data) = ConvertCanDLC (ConvertToDLC len)"
  by (simp add: padded_def)

lemma dlc_stable: "ConvertToDLC (ConvertCanDLC (ConvertToDLC n)) = ConvertToDLC n"
  by (simp add: ConvertToDLC_def ConvertCanDLC_def)

lemma tx_element_carries:
  assumes fd: "CanFDBaudRateEnabled (Can_44_TCAN4x5x_ControllerSetting_PC D aId)"
    and brs: "CanControllerDataTxBitRateSwitch (Can_44_TCAN4x5x_Mcan_FdConfig s aId) \<le> 1"
    and sdu: "can_sdu pdu = Some data" "can_length pdu \<le> length data" "\<forall>b \<in> set data. b < 256" "CanFdPaddingValue TxObj < 256"
  shows "carries (tx_element D aId pdu TxObj k s) (can_id pdu) (padded (CanFdPaddingValue TxObj) (can_length pdu) data)"
proof -
  define len where "len = can_length pdu"
  define L where "L = ConvertCanDLC (ConvertToDLC len)"
  define byte where "byte = (\<lambda>i. if len \<le> i then CanFdPaddingValue TxObj else pdu_byte D pdu i)"
  define brs1 where "brs1 = (CanControllerDataTxBitRateSwitch (Can_44_TCAN4x5x_Mcan_FdConfig s aId) = 1)"
  define f where "f = (can_id pdu AND CAN_44_TCAN4x5x_FRAME_TYPE_MASK \<noteq> 0)"
  have B: "byte i < 256" "len \<le> i \<or> byte i = data ! i" for i
    using sdu nth_mem [of i data] by (auto simp: byte_def pdu_byte_def len_def)
  have br: "of_nat (CanControllerDataTxBitRateSwitch (Can_44_TCAN4x5x_Mcan_FdConfig s aId)) = (if brs1 then 1 else 0 :: 32 word)"
    using brs by (auto simp: brs1_def le_Suc_eq)
  have e: "tx_element D aId pdu TxObj k s = t0_word (can_id pdu) # t1_word k f brs1 (ConvertToDLC len) #
      map (\<lambda>i. pack_word (spi_tx aId (2 + i) s) L byte i) [0..<words_of L]"
    using fd unfolding tx_element_def Let_def len_def [symmetric] t0_word_def t1_word_def f_def L_def byte_def br by simp
  have w: "unat (drop_bit (i mod 4 * 8) (pack_word old L byte (i div 4)) AND 0xFF) = byte i" if "i < L" for i old
  proof (rule unpack_byte)
    fix b :: nat
    assume "b < 8"
    then show "bit (pack_word old L byte (i div 4)) (i mod 4 * 8 + b) = bit (byte i) b"
      using pack_word_bit [of "i div 4" "i mod 4" L b byte old] that B(1) by (simp add: mult.commute)
  qed (use B(1) in auto)
  have "i div 4 < words_of L" if "i < L" for i using that by (simp add: words_of less_eq_div_iff_mult_less_eq Suc_le_eq [symmetric])
  then have "unat (drop_bit (i mod 4 * 8) (tx_element D aId pdu TxObj k s ! (2 + i div 4)) AND 0xFF) = byte i" if "i < L" for i
    using that w by (simp add: e)
  moreover have "padded (CanFdPaddingValue TxObj) len data ! i = byte i" if "i < L" for i
    using that B(2) [of i] by (auto simp: padded_def L_def byte_def not_le)
  ultimately show ?thesis unfolding carries_def len_def [symmetric]
    by (auto simp: L_def [symmetric] e f_def dlc_stable [of len, folded L_def])
qed

subsection \<open>Write requests\<close>

text \<open>The controller and the transmit object of a hardware transmit handle, and a request that the driver can serve on a controller with CAN FD.\<close>

definition hth_ctrl :: "nat \<Rightarrow> 'x CanDrvSt \<Rightarrow> nat" where
  "hth_ctrl Hth s = (let C = Can_44_TCAN4x5x_ConfigPtr s in CanCtrlId (CanHTHMappingConfigPtr C (Hth - CanHRHobjectsCount C)))"

definition hth_obj :: "nat \<Rightarrow> 'x CanDrvSt \<Rightarrow> Can_44_TCAN4x5x_TxObjConfigType" where
  "hth_obj Hth s = (let C = Can_44_TCAN4x5x_ConfigPtr s
     in CanTxObjConfigPtr (CanControllerConfiguration C (hth_ctrl Hth s)) (CanHthIndex (CanHTHMappingConfigPtr C (Hth - CanHRHobjectsCount C))))"

definition hth_ok :: "'x CanDrvSys \<Rightarrow> nat \<Rightarrow> 'x CanDrvSt \<Rightarrow> bool" where
  "hth_ok D Hth s \<longleftrightarrow>
     (let C = Can_44_TCAN4x5x_ConfigPtr s; P = Can_44_TCAN4x5x_ControllerSetting_PC D (hth_ctrl Hth s)
      in Can_44_TCAN4x5x_DriverState s \<noteq> CAN_44_TCAN4x5x_UNINIT \<and>
         CanHRHobjectsCount C \<le> Hth \<and> Hth < CanHRHobjectsCount C + CanHTHobjectsCount C \<and> Hth < 65536 \<and>
         \<not> Can_44_TCAN4x5x_HthMutex s (Hth - CanHRHobjectsCount C) \<and>
         read_cmd_ok (hth_ctrl Hth s) s \<and> CanFDBaudRateEnabled P \<and> CanFdDataBufSize P < 8 \<and>
         CanControllerDataTxBitRateSwitch (Can_44_TCAN4x5x_Mcan_FdConfig s (hth_ctrl Hth s)) \<le> 1 \<and>
         0 < CanHwObjectCount (hth_obj Hth s) \<and> CanTxBufferIndex (hth_obj Hth s) + CanHwObjectCount (hth_obj Hth s) \<le> 32 \<and>
         CanFdPaddingValue (hth_obj Hth s) < 256 \<and> tx_addr D (hth_ctrl Hth s) 32 s \<le> 65536)"

definition pdu_ok :: "'x CanDrvSys \<Rightarrow> nat \<Rightarrow> Can_PduType \<Rightarrow> nat list \<Rightarrow> bool" where
  "pdu_ok D aId pdu data \<longleftrightarrow>
     can_sdu pdu = Some data \<and> can_length pdu \<le> length data \<and> (\<forall>b \<in> set data. b < 256) \<and>
     can_length pdu \<le> Can_44_TCAN4x5x_MCAN_ROBufferSizeFD D (CanFdDataBufSize (Can_44_TCAN4x5x_ControllerSetting_PC D aId)) \<and>
     (8 < can_length pdu \<longrightarrow> can_id pdu AND CAN_44_TCAN4x5x_FRAME_TYPE_MASK \<noteq> 0)"

lemma WriteDetCheck_ok:
  assumes "hth_ok D Hth s" "pdu_ok D (hth_ctrl Hth s) pdu data"
  shows "Can_44_TCAN4x5x_WriteDetCheck D Hth pdu s = (E_OK, s)"
  using assms by (auto simp: Can_44_TCAN4x5x_WriteDetCheck_def hth_ok_def pdu_ok_def hth_ctrl_def Let_def)

lemma tx_element_length:
  "CanFDBaudRateEnabled (Can_44_TCAN4x5x_ControllerSetting_PC D aId) \<Longrightarrow> length (tx_element D aId pdu TxObj k s) < 256"
  using dlc_bounds(3) [of "can_length pdu"] by (simp add: tx_element_def Let_def words_of)

lemma tx_addr_less: "tx_addr D aId 32 s \<le> 65536 \<Longrightarrow> j < 32 \<Longrightarrow> tx_addr D aId j s < 65536"
proof -
  assume a: "tx_addr D aId 32 s \<le> 65536" "j < 32"
  have "elem_words D aId * j < elem_words D aId * 32" using a(2) by (intro mult_strict_left_mono) (simp_all add: elem_words_def)
  then show ?thesis using a(1) unfolding tx_addr_def by linarith
qed

lemma MCAN_Write_ok:
  fixes s :: "'x CanDrvSt"
  assumes ok: "tcan_ok D reg wr" and c: "read_cmd_ok aId s" and fd: "CanFDBaudRateEnabled (Can_44_TCAN4x5x_ControllerSetting_PC D aId)"
    and a: "tx_addr D aId 32 s \<le> 65536" and n: "0 < CanHwObjectCount TxObj" "CanTxBufferIndex TxObj + CanHwObjectCount TxObj \<le> 32"
  defines "s1 \<equiv> read_verified D aId REG_TXBRP 1 s"
  shows "case find (\<lambda>j. \<not> bit (reg REG_TXBRP (drv_ext s)) j) [CanTxBufferIndex TxObj..<CanTxBufferIndex TxObj + CanHwObjectCount TxObj] of
      None \<Rightarrow> Can_44_TCAN4x5x_MCAN_Write D aId pdu TxObj s = (CAN_BUSY, s1)
    | Some j \<Rightarrow> \<exists>s'. Can_44_TCAN4x5x_MCAN_Write D aId pdu TxObj s = (CAN_OK, s') \<and>
        drv_ext s' = wr REG_TXBAR [push_bit j 1] (wr (tx_addr D aId j s) (tx_element D aId pdu TxObj j s1) (drv_ext s)) \<and>
        Can_44_TCAN4x5x_Mcan_swPduHandle s' aId j = swPduHandle pdu \<and> Can_44_TCAN4x5x_HthMutex s' = Can_44_TCAN4x5x_HthMutex s"
proof -
  have t: "tx_addr D aId j s1 = tx_addr D aId j s" for j by (simp add: tx_addr_def s1_def)
  have v: "spi_rx aId 0 s1 = reg REG_TXBRP (drv_ext s)" unfolding s1_def by (rule verified_rx [OF ok _ c]) simp_all
  have x: "drv_ext s1 = drv_ext s" unfolding s1_def by (rule verified_ext [OF ok _ _ c]) simp_all
  have m: "Can_44_TCAN4x5x_HthMutex s1 = Can_44_TCAN4x5x_HthMutex s" by (simp add: s1_def)
  have w: "Can_44_TCAN4x5x_MCAN_Write D aId pdu TxObj s =
      write_loop D aId pdu TxObj (reg REG_TXBRP (drv_ext s)) (CanHwObjectCount TxObj) (CanTxBufferIndex TxObj) CAN_OK s1"
    unfolding Can_44_TCAN4x5x_MCAN_Write_def Let_def s1_def [symmetric] v ..
  show ?thesis unfolding w
    using write_loop_spec [OF ok, of aId s1 pdu TxObj "CanTxBufferIndex TxObj" "CanHwObjectCount TxObj" "reg REG_TXBRP (drv_ext s)" CAN_OK]
      tx_addr_less [OF a] tx_element_length [OF fd] n
    by (auto simp: t x m split: option.splits)
qed

lemma Write_unlocked:
  fixes s :: "'x CanDrvSt"
  assumes h: "hth_ok D Hth s" and p: "pdu_ok D (hth_ctrl Hth s) pdu data"
  defines "i \<equiv> Hth - CanHRHobjectsCount (Can_44_TCAN4x5x_ConfigPtr s)"
  shows "Can_44_TCAN4x5x_Write D Hth pdu s =
    (case Can_44_TCAN4x5x_MCAN_Write D (hth_ctrl Hth s) pdu (hth_obj Hth s)
            ((set_api D 6 s)\<lparr>Can_44_TCAN4x5x_HthMutex := (Can_44_TCAN4x5x_HthMutex s)(i := True)\<rparr>) of
       (ret, s) \<Rightarrow> (ret, let s = (if ret = CAN_NOT_OK then drv_report D 6 1 s else s)
                        in s\<lparr>Can_44_TCAN4x5x_HthMutex := (Can_44_TCAN4x5x_HthMutex s)(i := False)\<rparr>))"
proof -
  define C where "C = Can_44_TCAN4x5x_ConfigPtr s"
  have H: "Can_44_TCAN4x5x_DriverState s \<noteq> 0" "\<not> Can_44_TCAN4x5x_HthMutex s i" "u16 (int Hth - int (CanHRHobjectsCount C)) = i"
    using h by (auto simp: hth_ok_def Let_def i_def u16_def C_def nat_diff_distrib)
  have "hth_ok D Hth (set_api D 6 s)" using h
    by (auto simp: hth_ok_def hth_ctrl_def hth_obj_def Let_def set_api_def read_cmd_ok_def tx_addr_def)
  moreover have "pdu_ok D (hth_ctrl Hth (set_api D 6 s)) pdu data" using p by (simp add: hth_ctrl_def set_api_def)
  ultimately have det: "Can_44_TCAN4x5x_WriteDetCheck D Hth pdu (set_api D 6 s) = (E_OK, set_api D 6 s)" by (rule WriteDetCheck_ok)
  have "Can_44_TCAN4x5x_ReportDetUninit D 6 (set_api D 6 s) = (E_OK, set_api D 6 s)"
    using H(1) by (simp add: Can_44_TCAN4x5x_ReportDetUninit_def set_api_def)
  moreover have "Can_44_TCAN4x5x_ConfigPtr (set_api D 6 s) = C" "Can_44_TCAN4x5x_HthMutex (set_api D 6 s) = Can_44_TCAN4x5x_HthMutex s"
    by (simp_all add: set_api_def C_def)
  moreover have "CanCtrlId (CanHTHMappingConfigPtr C i) = hth_ctrl Hth s" by (simp add: hth_ctrl_def Let_def C_def i_def)
  moreover have "CanTxObjConfigPtr (CanControllerConfiguration C (hth_ctrl Hth s)) (CanHthIndex (CanHTHMappingConfigPtr C i)) = hth_obj Hth s"
    by (simp add: hth_obj_def Let_def C_def i_def)
  ultimately show ?thesis unfolding Can_44_TCAN4x5x_Write_def Let_def by (simp add: det H(2,3) split_beta)
qed

lemma write_outcome:
  fixes s :: "'x CanDrvSt"
  assumes ok: "tcan_ok D reg wr" and h: "hth_ok D Hth s" and p: "pdu_ok D (hth_ctrl Hth s) pdu data"
  shows "\<exists>s'. Can_44_TCAN4x5x_HthMutex s' = Can_44_TCAN4x5x_HthMutex s \<and>
    (case find (\<lambda>j. \<not> bit (reg REG_TXBRP (drv_ext s)) j)
            [CanTxBufferIndex (hth_obj Hth s)..<CanTxBufferIndex (hth_obj Hth s) + CanHwObjectCount (hth_obj Hth s)] of
       None \<Rightarrow> Can_44_TCAN4x5x_Write D Hth pdu s = (CAN_BUSY, s') \<and> drv_ext s' = drv_ext s
     | Some j \<Rightarrow> Can_44_TCAN4x5x_Write D Hth pdu s = (CAN_OK, s') \<and>
         Can_44_TCAN4x5x_Mcan_swPduHandle s' (hth_ctrl Hth s) j = swPduHandle pdu \<and>
         (\<exists>elem. carries elem (can_id pdu) (padded (CanFdPaddingValue (hth_obj Hth s)) (can_length pdu) data) \<and>
                 drv_ext s' = wr REG_TXBAR [push_bit j 1] (wr (tx_addr D (hth_ctrl Hth s) j s) elem (drv_ext s))))"
proof -
  define C where "C = Can_44_TCAN4x5x_ConfigPtr s"
  define i where "i = Hth - CanHRHobjectsCount C"
  define aId where "aId = hth_ctrl Hth s"
  define TxObj where "TxObj = hth_obj Hth s"
  define s0 where "s0 = (set_api D 6 s)\<lparr>Can_44_TCAN4x5x_HthMutex := (Can_44_TCAN4x5x_HthMutex s)(i := True)\<rparr>"
  define s1 where "s1 = read_verified D aId REG_TXBRP 1 s0"
  have H: "Can_44_TCAN4x5x_DriverState s \<noteq> 0" "\<not> Can_44_TCAN4x5x_HthMutex s i" "u16 (int Hth - int (CanHRHobjectsCount C)) = i"
    "read_cmd_ok aId s0" "CanFDBaudRateEnabled (Can_44_TCAN4x5x_ControllerSetting_PC D aId)" "0 < CanHwObjectCount TxObj" "CanTxBufferIndex TxObj + CanHwObjectCount TxObj \<le> 32"
    using h by (auto simp: hth_ok_def Let_def C_def i_def aId_def TxObj_def u16_def s0_def read_cmd_ok_def set_api_def nat_diff_distrib)
  have a: "tx_addr D aId j s0 = tx_addr D aId j s" for j by (simp add: tx_addr_def s0_def set_api_def)
  note W = Write_unlocked [OF h p, folded C_def, folded i_def, folded s0_def aId_def TxObj_def]
  have x: "drv_ext s0 = drv_ext s" "Can_44_TCAN4x5x_HthMutex s0 = (Can_44_TCAN4x5x_HthMutex s)(i := True)" by (simp_all add: s0_def set_api_def)
  have mu: "(Can_44_TCAN4x5x_HthMutex s)(i := False) = Can_44_TCAN4x5x_HthMutex s" using H(2) by (simp add: fun_upd_idem)
  have ca: "carries (tx_element D aId pdu TxObj j s1) (can_id pdu) (padded (CanFdPaddingValue TxObj) (can_length pdu) data)" for j
    using h p by (intro tx_element_carries) (auto simp: hth_ok_def pdu_ok_def Let_def aId_def TxObj_def s1_def s0_def set_api_def)
  have "tx_addr D aId 32 s0 \<le> 65536" using h a [of 32] by (simp add: hth_ok_def Let_def aId_def)
  note M = MCAN_Write_ok [OF ok H(4,5) this H(6,7), of pdu, folded s1_def, unfolded x a]
  show ?thesis
  proof (cases "find (\<lambda>j. \<not> bit (reg REG_TXBRP (drv_ext s)) j) [CanTxBufferIndex TxObj..<CanTxBufferIndex TxObj + CanHwObjectCount TxObj]")
    case None
    then have "Can_44_TCAN4x5x_MCAN_Write D aId pdu TxObj s0 = (CAN_BUSY, s1)" using M by simp
    moreover have "drv_ext s1 = drv_ext s" using verified_ext [OF ok _ _ H(4)] by (simp add: s1_def x)
    moreover have "Can_44_TCAN4x5x_HthMutex s1 = (Can_44_TCAN4x5x_HthMutex s)(i := True)" by (simp add: s1_def x)
    ultimately show ?thesis using None by (simp add: W TxObj_def [symmetric] mu Let_def)
  next
    case (Some j)
    then obtain s' where s': "Can_44_TCAN4x5x_MCAN_Write D aId pdu TxObj s0 = (CAN_OK, s')"
      "drv_ext s' = wr REG_TXBAR [push_bit j 1] (wr (tx_addr D aId j s) (tx_element D aId pdu TxObj j s1) (drv_ext s))"
      "Can_44_TCAN4x5x_Mcan_swPduHandle s' aId j = swPduHandle pdu" "Can_44_TCAN4x5x_HthMutex s' = (Can_44_TCAN4x5x_HthMutex s)(i := True)"
      using M by auto
    then show ?thesis using Some ca [of j] by (simp add: W TxObj_def [symmetric] aId_def [symmetric] mu Let_def) blast
  qed
qed

lemma write_stores:
  assumes "tcan_ok D reg wr" "hth_ok D Hth s" "pdu_ok D (hth_ctrl Hth s) pdu data"
    "find (\<lambda>j. \<not> bit (reg REG_TXBRP (drv_ext s)) j)
       [CanTxBufferIndex (hth_obj Hth s)..<CanTxBufferIndex (hth_obj Hth s) + CanHwObjectCount (hth_obj Hth s)] = Some j"
  shows "\<exists>s' elem. Can_44_TCAN4x5x_Write D Hth pdu s = (CAN_OK, s') \<and>
    carries elem (can_id pdu) (padded (CanFdPaddingValue (hth_obj Hth s)) (can_length pdu) data) \<and>
    drv_ext s' = wr REG_TXBAR [push_bit j 1] (wr (tx_addr D (hth_ctrl Hth s) j s) elem (drv_ext s))"
  using write_outcome [OF assms(1-3)] unfolding assms(4) option.case by blast

text \<open>
  C16. A write request on a working controller. The driver takes the first transmit buffer of the object that has no pending request, stores an element there that carries
  the identifier and the data, padded to the next length of CAN FD, requests the transmission of exactly this buffer and returns \<open>CAN_OK\<close>; the handle for the later
  confirmation is kept for the buffer. If every buffer is pending it returns \<open>CAN_BUSY\<close> and has not touched the controller. The lock of the handle is released on both paths.
\<close>

theorem tcan_write:
  fixes s :: "'x CanDrvSt"
  assumes ok: "tcan_ok D reg wr" and h: "hth_ok D Hth s" and p: "pdu_ok D (hth_ctrl Hth s) pdu data"
  shows "\<exists>s'. Can_44_TCAN4x5x_HthMutex s' = Can_44_TCAN4x5x_HthMutex s \<and>
    (case find (\<lambda>j. \<not> bit (reg REG_TXBRP (drv_ext s)) j)
            [CanTxBufferIndex (hth_obj Hth s)..<CanTxBufferIndex (hth_obj Hth s) + CanHwObjectCount (hth_obj Hth s)] of
       None \<Rightarrow> Can_44_TCAN4x5x_Write D Hth pdu s = (CAN_BUSY, s') \<and> drv_ext s' = drv_ext s
     | Some j \<Rightarrow> Can_44_TCAN4x5x_Write D Hth pdu s = (CAN_OK, s') \<and>
         Can_44_TCAN4x5x_Mcan_swPduHandle s' (hth_ctrl Hth s) j = swPduHandle pdu \<and>
         (\<exists>elem. carries elem (can_id pdu) (padded (CanFdPaddingValue (hth_obj Hth s)) (can_length pdu) data) \<and>
                 drv_ext s' = wr REG_TXBAR [push_bit j 1] (wr (tx_addr D (hth_ctrl Hth s) j s) elem (drv_ext s))))"
  by (rule write_outcome [OF ok h p])

lemma demo_hth: "hth_ctrl 1 (demo_drv x) = 0"
  "hth_obj 1 (demo_drv x) = \<lparr>CanFdPaddingValue = 0xCC, CanHwObjectCount = 2, CanTxBufferIndex = 0, CanTriggerTransmitEnable = False\<rparr>"
  by (simp_all add: hth_ctrl_def hth_obj_def demo_simps)

lemma demo_tx_addr: "tx_addr demo_drv_sys 0 k (demo_drv x) = 33076 + 72 * k"
  by (simp add: tx_addr_def elem_words_def Can_44_TCAN4x5x_MCAN_ROBufferSizeFD_def demo_simps)

lemma demo_hth_ok: "hth_ok demo_drv_sys 1 (demo_drv x)"
  unfolding hth_ok_def demo_hth demo_tx_addr by (simp add: demo_simps read_cmd_ok_def)

lemma demo_pdu_ok: "pdu_ok demo_drv_sys 0 demo_pdu [1, 2, 3, 4, 5, 6, 7, 8, 9]"
  by (simp add: pdu_ok_def Can_44_TCAN4x5x_MCAN_ROBufferSizeFD_def demo_simps)

theorem tcan_write_witness:
  "(\<exists>s'. Can_44_TCAN4x5x_Write demo_drv_sys 1 demo_pdu (demo_drv (demo_mem 3)) = (CAN_BUSY, s') \<and> drv_ext s' = demo_mem 3) \<and>
   (\<exists>s' elem. Can_44_TCAN4x5x_Write demo_drv_sys 1 demo_pdu (demo_drv (demo_mem 1)) = (CAN_OK, s') \<and>
      carries elem 0x40000123 [1, 2, 3, 4, 5, 6, 7, 8, 9, 0xCC, 0xCC, 0xCC] \<and>
      drv_ext s' = demo_store REG_TXBAR [2] (demo_store (0x8000 + 308 + 72) elem (demo_mem 1)))"
proof -
  have p: "pdu_ok demo_drv_sys (hth_ctrl 1 (demo_drv x)) demo_pdu [1, 2, 3, 4, 5, 6, 7, 8, 9]" for x
    unfolding demo_hth by (rule demo_pdu_ok)
  have f: "find (\<lambda>j. \<not> bit (demo_mem v REG_TXBRP) j) [0..<2] = (if \<not> bit v 0 then Some 0 else if \<not> bit v 1 then Some 1 else None)" for v
    by (simp add: demo_mem_def numeral_2_eq_2)
  have x: "drv_ext (demo_drv x) = x" for x by (simp add: demo_drv_def)
  have pad: "padded 0xCC (can_length demo_pdu) [1, 2, 3, 4, 5, 6, 7, 8, 9] = [1, 2, 3, 4, 5, 6, 7, 8, 9, 0xCC, 0xCC, 0xCC]"
    by (simp add: padded_def demo_pdu_def ConvertToDLC_def ConvertCanDLC_def upt_rec)
  have c: "can_id demo_pdu = 0x40000123" by (simp add: demo_pdu_def)
  note w = tcan_write [OF demo_tcan_ok demo_hth_ok p, unfolded demo_hth demo_tx_addr Can_44_TCAN4x5x_TxObjConfigType.simps add_0 x c pad]
  have b: "bit (3 :: 32 word) 0" "bit (3 :: 32 word) 1" "bit (1 :: 32 word) 0" "\<not> bit (1 :: 32 word) 1" by simp_all
  have "\<exists>s'. Can_44_TCAN4x5x_Write demo_drv_sys 1 demo_pdu (demo_drv (demo_mem 3)) = (CAN_BUSY, s') \<and> drv_ext s' = demo_mem 3"
    using w [of "demo_mem 3"] unfolding f using b by auto
  moreover have "\<exists>s' elem. Can_44_TCAN4x5x_Write demo_drv_sys 1 demo_pdu (demo_drv (demo_mem 1)) = (CAN_OK, s') \<and>
      carries elem 0x40000123 [1, 2, 3, 4, 5, 6, 7, 8, 9, 0xCC, 0xCC, 0xCC] \<and>
      drv_ext s' = demo_store REG_TXBAR [2] (demo_store (0x8000 + 308 + 72) elem (demo_mem 1))"
    using w [of "demo_mem 1"] unfolding f using b by auto
  ultimately show ?thesis by blast
qed

end
