(* ===== verification/TcanLink.thy ===== *)
theory TcanLink
  imports TcanProps
begin

text \<open>
  Frames between two nodes: what the driver of the receiving node makes of a receive element, and that a message written by one driver is indicated unchanged to the CanIf of
  another. The bus and the two controllers are described by \<open>frame_on_bus\<close>: identifier, formats, length code and the data bytes of the transmit element reach the receive element.
\<close>

unbundle bit_operations_syntax

subsection \<open>Reading a receive element\<close>

definition frame_on_bus :: "(nat \<Rightarrow> 32 word) \<Rightarrow> (nat \<Rightarrow> 32 word) \<Rightarrow> bool" where
  "frame_on_bus src dst \<longleftrightarrow>
     dst 0 AND 0x5FFFFFFF = src 0 AND 0x5FFFFFFF \<and> dst 1 AND 0x002F0000 = src 1 AND 0x002F0000 \<and>
     (\<forall>i < ConvertCanDLC (unat (drop_bit 16 (src 1 AND 0x000F0000))).
        drop_bit (i mod 4 * 8) (dst (2 + i div 4)) AND 0xFF = drop_bit (i mod 4 * 8) (src (2 + i div 4)) AND 0xFF)"

definition rx_addr :: "'x CanDrvSys \<Rightarrow> nat \<Rightarrow> nat \<Rightarrow> 'x CanDrvSt \<Rightarrow> nat" where
  "rx_addr D aId g s = MSG_RAM_BASE_ADDR + RX_FIFO0_START_ADDR (Can_44_TCAN4x5x_MCAN_RWDev s aId) + 4 * (elem_words D aId * g)"

text \<open>A message as it is read, with the identifier that is indicated.\<close>

definition rx_msg_ok :: "32 word \<Rightarrow> nat list \<Rightarrow> Can_44_TCAN4x5x_MsgInfoType \<Rightarrow> bool" where
  "rx_msg_ok cid bytes m \<longleftrightarrow>
     (let i = (if canMsgID_ext m then canID m OR CAN_44_TCAN4x5x_EXTD_ID_MASK else canID m)
      in (if canMessageFormat m = 1 then i OR CAN_44_TCAN4x5x_FRAME_TYPE_MASK else i) = cid) \<and>
     (case canMsgDataPtr m of None \<Rightarrow> [] | Some d \<Rightarrow> d) = bytes"

lemma bus_decode:
  assumes elem: "carries elem cid bytes" "can_id_ok cid" "ConvertCanDLC (ConvertToDLC (length bytes)) = length bytes"
    and src: "\<And>k. k < length elem \<Longrightarrow> src k = elem ! k" and bus: "frame_on_bus src dst"
  shows "ConvertCanDLC (unat (drop_bit 16 (dst 1 AND 0x000F0000))) = length bytes"
    and "rx_can_id (dst 0) (drop_bit 21 (dst 1 AND 0x00200000) = 1) = cid"
    and "i < length bytes \<Longrightarrow> unat (drop_bit (i mod 4 * 8) (dst (2 + i div 4)) AND 0xFF) = bytes ! i"
proof -
  define f where "f = (cid AND CAN_44_TCAN4x5x_FRAME_TYPE_MASK \<noteq> 0)"
  define n where "n = length bytes"
  obtain k br where e: "elem ! 0 = t0_word cid" "elem ! 1 = t1_word k f br (ConvertToDLC n)" "length elem = 2 + words_of n"
    "\<And>i. i < n \<Longrightarrow> unat (drop_bit (i mod 4 * 8) (elem ! (2 + i div 4)) AND 0xFF) = bytes ! i"
    using elem(1) unfolding carries_def f_def [symmetric] n_def [symmetric] by auto
  have sr: "src 0 = t0_word cid" "src 1 = t1_word k f br (ConvertToDLC n)" using src [of 0] src [of 1] e by simp_all
  have b: "dst 0 AND 0x5FFFFFFF = t0_word cid AND 0x5FFFFFFF" "dst 1 AND 0x002F0000 = t1_word k f br (ConvertToDLC n) AND 0x002F0000"
    using bus unfolding frame_on_bus_def sr by blast+
  note R = r1_decode [OF b(2) dlc_bounds(1)]
  show "ConvertCanDLC (unat (drop_bit 16 (dst 1 AND 0x000F0000))) = length bytes" unfolding R(1) using elem(3) by (simp add: n_def)
  have "(drop_bit 21 (dst 1 AND 0x00200000) = 1) = f" unfolding R(2) by simp
  then show "rx_can_id (dst 0) (drop_bit 21 (dst 1 AND 0x00200000) = 1) = cid" using rx_can_id [OF elem(2) b(1)] by (simp add: f_def)
  assume i: "i < length bytes"
  have "ConvertCanDLC (unat (drop_bit 16 (src 1 AND 0x000F0000))) = n"
    unfolding sr r1_decode(1) [OF refl dlc_bounds(1)] using elem(3) by (simp add: n_def)
  then have "i < ConvertCanDLC (unat (drop_bit 16 (src 1 AND 0x000F0000)))" using i by (simp only: n_def)
  then have "drop_bit (i mod 4 * 8) (dst (2 + i div 4)) AND 0xFF = drop_bit (i mod 4 * 8) (src (2 + i div 4)) AND 0xFF"
    using bus unfolding frame_on_bus_def by blast
  moreover have "src (2 + i div 4) = elem ! (2 + i div 4)"
    using i by (intro src) (simp add: e(3) words_of n_def less_eq_div_iff_mult_less_eq Suc_le_eq [symmetric])
  ultimately show "unat (drop_bit (i mod 4 * 8) (dst (2 + i div 4)) AND 0xFF) = bytes ! i" using e(4) [of i] i by (simp add: n_def)
qed

lemma read_rx_elem_ok:
  assumes ok: "tcan_ok D reg wr" and c: "read_cmd_ok aId s" and a: "a + 72 \<le> 65536"
    and elem: "carries elem cid bytes" "can_id_ok cid" "ConvertCanDLC (ConvertToDLC (length bytes)) = length bytes"
    and src: "\<And>k. k < length elem \<Longrightarrow> src k = elem ! k"
    and bus: "frame_on_bus src (\<lambda>k. reg (a + 4 * k) (drv_ext s))"
  shows "\<exists>m r. read_rx_elem D aId a s = (m, r) \<and> drv_ext r = drv_ext s \<and> rx_msg_ok cid bytes m \<and>
    read_cmd_ok aId r \<and> Can_44_TCAN4x5x_MCAN_RWDev r = Can_44_TCAN4x5x_MCAN_RWDev s"
proof -
  define x where "x = drv_ext s"
  define n where "n = length bytes"
  define s1 where "s1 = read_reg D aId a 2 s"
  define s2 where "s2 = read_reg D aId (a + 8) (words_of n) s1"
  note B = bus_decode [OF elem src bus, folded x_def n_def, simplified]
  have "n \<le> 64" using dlc_bounds(3) [of n] elem(3) by (simp add: n_def)
  then have wn: "words_of n \<le> 16" by (simp add: words_of)
  have s1: "spi_rx aId 0 s1 = reg a x" "spi_rx aId 1 s1 = reg (a + 4) x" "drv_ext s1 = x" "read_cmd_ok aId s1"
    using a c read_rx [OF ok, of a 2 aId s 0] read_rx [OF ok, of a 2 aId s 1] by (simp_all add: s1_def x_def read_ext [OF ok])
  have s2: "spi_rx aId i s2 = reg (a + 8 + 4 * i) x" if "i < words_of n" for i
    using a s1(3,4) wn that by (simp add: s2_def read_rx [OF ok])
  have ext: "drv_ext s2 = x" using a s1(3,4) wn by (simp add: s2_def read_ext [OF ok])
  have "spi_rx aId (i div 4) s2 = reg (a + (8 + 4 * (i div 4))) x" if "i < n" for i
    using s2 [of "i div 4"] that by (simp add: words_of less_eq_div_iff_mult_less_eq Suc_le_eq [symmetric] add.assoc)
  then have data: "map (\<lambda>i. unat (drop_bit (i mod 4 * 8) (spi_rx aId (i div 4) s2) AND 0xFF)) [0..<n] = bytes"
    using B(3) by (intro nth_equalityI) (simp_all add: n_def)
  have len: "ConvertCanDLC (unat (drop_bit 16 (reg (a + 4) x AND 0x000F0000))) = n" using B(1) by simp
  define m where "m = fst (read_rx_elem D aId a s)"
  have "read_rx_elem D aId a s = (m, s2)"
    unfolding m_def read_rx_elem_def Let_def s1_def [symmetric] s1(1,2) len s2_def [symmetric] data by simp
  moreover have "rx_msg_ok cid bytes m"
    unfolding m_def read_rx_elem_def Let_def s1_def [symmetric] s1(1,2) len s2_def [symmetric] data
    using B(2) by (auto simp: rx_msg_ok_def rx_can_id_def Let_def n_def)
  ultimately show ?thesis using ext s1(4) by (auto simp: x_def s2_def s1_def)
qed

subsection \<open>From driver to driver\<close>

text \<open>The message RAM keeps what is written to it; writes to the registers below it do not change it.\<close>

definition ram_ok :: "(nat \<Rightarrow> 'x \<Rightarrow> 32 word) \<Rightarrow> (nat \<Rightarrow> 32 word list \<Rightarrow> 'x \<Rightarrow> 'x) \<Rightarrow> bool" where
  "ram_ok reg wr \<longleftrightarrow>
     (\<forall>b ws k x. MSG_RAM_BASE_ADDR \<le> b \<longrightarrow> k < length ws \<longrightarrow> reg (b + 4 * k) (wr b ws x) = ws ! k) \<and>
     (\<forall>a b ws x. b + 4 * length ws \<le> MSG_RAM_BASE_ADDR \<longrightarrow> MSG_RAM_BASE_ADDR \<le> a \<longrightarrow> reg a (wr b ws x) = reg a x)"

lemma RxNotification_ok:
  assumes m: "rx_msg_ok cid bytes m" and fd: "CanFDBaudRateEnabled (Can_44_TCAN4x5x_ControllerSetting_PC D aId)" and l: "LPDU_RECEIVE_CALLOUT_FUNCTION D = None"
  shows "Can_44_TCAN4x5x_RxNotification S D aId m w = CanIf_RxIndication S (Some cid) (Some \<lparr>rx_data = bytes, rx_SduTimeStamp = canTimeStamp m\<rparr>) w"
  using assms by (auto simp: Can_44_TCAN4x5x_RxNotification_def rx_msg_ok_def Let_def)

lemma one_frame:
  assumes ok: "tcan_ok D reg wr" and c: "read_cmd_ok aId (ci_ext w)" and fd: "CanFDBaudRateEnabled (Can_44_TCAN4x5x_ControllerSetting_PC D aId)"
    and l: "LPDU_RECEIVE_CALLOUT_FUNCTION D = None"
    and level: "unat (reg REG_RXF0S (drv_ext (ci_ext w)) AND 0x7F) = 1" and g: "unat (drop_bit 8 (reg REG_RXF0S (drv_ext (ci_ext w)) AND 0x3F00)) = g"
    and a: "rx_addr D aId g (ci_ext w) + 72 \<le> 65536"
    and elem: "carries elem cid bytes" "can_id_ok cid" "ConvertCanDLC (ConvertToDLC (length bytes)) = length bytes"
    and src: "\<And>k. k < length elem \<Longrightarrow> src k = elem ! k"
    and bus: "frame_on_bus src (\<lambda>k. reg (rx_addr D aId g (ci_ext w) + 4 * k) (drv_ext (ci_ext w)))"
  shows "\<exists>r ts. Can_44_TCAN4x5x_MCAN_ProcessRxFIFO S D aId False w =
      CanIf_RxIndication S (Some cid) (Some \<lparr>rx_data = bytes, rx_SduTimeStamp = ts\<rparr>) (w\<lparr>ci_ext := r\<rparr>) \<and>
    drv_ext r = wr REG_RXF0A [of_nat g] (drv_ext (ci_ext w))"
proof -
  define s1 where "s1 = read_verified D aId REG_RXF0S 1 (ci_ext w)"
  have v: "spi_rx aId 0 s1 = reg REG_RXF0S (drv_ext (ci_ext w))" unfolding s1_def by (rule verified_rx [OF ok _ c]) simp_all
  have x: "drv_ext s1 = drv_ext (ci_ext w)" unfolding s1_def by (rule verified_ext [OF ok _ _ c]) simp_all
  have c1: "read_cmd_ok aId s1" using c by (simp add: s1_def)
  have ad: "rx_addr D aId g s1 = rx_addr D aId g (ci_ext w)" by (simp add: rx_addr_def s1_def)
  have bus': "frame_on_bus src (\<lambda>k. reg (rx_addr D aId g s1 + 4 * k) (drv_ext s1))" using bus by (simp add: ad x)
  obtain m r where m: "read_rx_elem D aId (rx_addr D aId g s1) s1 = (m, r)" "drv_ext r = drv_ext s1" "rx_msg_ok cid bytes m"
    using read_rx_elem_ok [OF ok c1 _ elem src bus'] a ad by auto
  have "unat (drop_bit 8 (reg REG_RXF0S (drv_ext (ci_ext w))) AND 0x3F) = g" using g by simp
  then have g1: "drop_bit 8 (reg REG_RXF0S (drv_ext (ci_ext w))) AND 0x3F = of_nat g" "unat (of_nat g :: 32 word) = g" by auto
  define r' where "r' = write_reg D aId REG_RXF0A [of_nat g] r"
  have "Can_44_TCAN4x5x_MCAN_ProcessRxFIFO S D aId False w = Can_44_TCAN4x5x_RxNotification S D aId m (w\<lparr>ci_ext := r'\<rparr>)"
    unfolding Can_44_TCAN4x5x_MCAN_ProcessRxFIFO_def Let_def on_drv_def if_False
    by (simp add: s1_def [symmetric] v level One_nat_def del: One_nat_def)
       (simp add: v g1 rx_addr_def [symmetric] m r'_def)
  moreover have "drv_ext r' = wr REG_RXF0A [of_nat g] (drv_ext (ci_ext w))" using m(2) x by (simp add: r'_def write_ext [OF ok])
  ultimately show ?thesis unfolding RxNotification_ok [OF m(3) fd l] by blast
qed

text \<open>
  C15. From driver to driver. A node writes a message and gets \<open>CAN_OK\<close>; the bus carries the frame from the transmit buffer that was taken to the receive FIFO of another
  node, where it is the only one. Then the receiving driver passes exactly this message to its CanIf, with the same identifier including the flags for extended identifiers and
  CAN FD and with the data padded to the next length of CAN FD, and acknowledges the element it has read.
\<close>

theorem tcan_frame_arrives:
  fixes s s' :: "'x CanDrvSt" and w :: "'y CanDrvSt CanIf_St"
  assumes ok: "tcan_ok D reg wr" and ram: "ram_ok reg wr" and h: "hth_ok D Hth s" and p: "pdu_ok D (hth_ctrl Hth s) pdu data" and cid: "can_id_ok (can_id pdu)"
    and j: "find (\<lambda>j. \<not> bit (reg REG_TXBRP (drv_ext s)) j)
              [CanTxBufferIndex (hth_obj Hth s)..<CanTxBufferIndex (hth_obj Hth s) + CanHwObjectCount (hth_obj Hth s)] = Some j"
    and sent: "Can_44_TCAN4x5x_Write D Hth pdu s = (CAN_OK, s')"
    and ok': "tcan_ok D' reg' wr'" and c: "read_cmd_ok aId (ci_ext w)" and fd: "CanFDBaudRateEnabled (Can_44_TCAN4x5x_ControllerSetting_PC D' aId)"
    and l: "LPDU_RECEIVE_CALLOUT_FUNCTION D' = None"
    and level: "unat (reg' REG_RXF0S (drv_ext (ci_ext w)) AND 0x7F) = 1" and g: "unat (drop_bit 8 (reg' REG_RXF0S (drv_ext (ci_ext w)) AND 0x3F00)) = g"
    and a: "rx_addr D' aId g (ci_ext w) + 72 \<le> 65536"
    and bus: "frame_on_bus (\<lambda>k. reg (tx_addr D (hth_ctrl Hth s) j s + 4 * k) (drv_ext s'))
                (\<lambda>k. reg' (rx_addr D' aId g (ci_ext w) + 4 * k) (drv_ext (ci_ext w)))"
  shows "\<exists>r ts. Can_44_TCAN4x5x_MCAN_ProcessRxFIFO S D' aId False w =
      CanIf_RxIndication S (Some (can_id pdu))
        (Some \<lparr>rx_data = padded (CanFdPaddingValue (hth_obj Hth s)) (can_length pdu) data, rx_SduTimeStamp = ts\<rparr>) (w\<lparr>ci_ext := r\<rparr>) \<and>
    drv_ext r = wr' REG_RXF0A [of_nat g] (drv_ext (ci_ext w))"
proof -
  let ?a = "tx_addr D (hth_ctrl Hth s) j s"
  obtain elem where e: "carries elem (can_id pdu) (padded (CanFdPaddingValue (hth_obj Hth s)) (can_length pdu) data)"
    "drv_ext s' = wr REG_TXBAR [push_bit j 1] (wr ?a elem (drv_ext s))"
    using write_stores [OF ok h p j] sent by auto
  have "reg (?a + 4 * k) (drv_ext s') = elem ! k" if "k < length elem" for k
    using ram that unfolding ram_ok_def e(2) by (simp add: tx_addr_def)
  then show ?thesis by (intro one_frame [OF ok' c fd l level g a e(1) cid _ _ bus]) (simp_all add: dlc_stable)
qed

text \<open>A receiver whose FIFO holds one element, at the memory words of the sender's first transmit buffer.\<close>

definition demo_rx :: "(nat \<Rightarrow> 32 word) \<Rightarrow> nat \<Rightarrow> 32 word" where
  "demo_rx m a = (if a = REG_RXF0S then 1 else m (a + 304))"

theorem tcan_frame_arrives_witness:
  "\<exists>s' r ts. Can_44_TCAN4x5x_Write demo_drv_sys 1 demo_pdu (demo_drv (demo_mem 0)) = (CAN_OK, s') \<and>
     Can_44_TCAN4x5x_MCAN_ProcessRxFIFO demo_if_sys demo_drv_sys 0 False (demo_if (demo_drv (demo_rx (drv_ext s')))) =
       CanIf_RxIndication demo_if_sys (Some 0x40000123)
         (Some \<lparr>rx_data = [1, 2, 3, 4, 5, 6, 7, 8, 9, 0xCC, 0xCC, 0xCC], rx_SduTimeStamp = ts\<rparr>) ((demo_if (demo_drv (demo_rx (drv_ext s'))))\<lparr>ci_ext := r\<rparr>)"
proof -
  let ?s = "demo_drv (demo_mem 0)"
  have p: "pdu_ok demo_drv_sys (hth_ctrl 1 ?s) demo_pdu [1, 2, 3, 4, 5, 6, 7, 8, 9]" unfolding demo_hth by (rule demo_pdu_ok)
  have f: "find (\<lambda>j. \<not> bit (drv_ext ?s REG_TXBRP) j)
      [CanTxBufferIndex (hth_obj 1 ?s)..<CanTxBufferIndex (hth_obj 1 ?s) + CanHwObjectCount (hth_obj 1 ?s)] = Some 0"
    unfolding demo_hth by (simp add: demo_drv_def demo_mem_def upt_rec)
  obtain s' elem where s': "Can_44_TCAN4x5x_Write demo_drv_sys 1 demo_pdu ?s = (CAN_OK, s')"
    using write_stores [OF demo_tcan_ok demo_hth_ok p f] by blast
  have ram: "ram_ok (\<lambda>a x. x a) demo_store" by (auto simp: ram_ok_def demo_store_def)
  have cid: "can_id_ok (can_id demo_pdu)" by (simp add: can_id_ok_def demo_pdu_def)
  have ra: "rx_addr demo_drv_sys 0 0 (demo_drv x) = 32772" for x by (simp add: rx_addr_def demo_simps)
  have "\<exists>r ts. Can_44_TCAN4x5x_MCAN_ProcessRxFIFO demo_if_sys demo_drv_sys 0 False (demo_if (demo_drv (demo_rx (drv_ext s')))) =
      CanIf_RxIndication demo_if_sys (Some (can_id demo_pdu))
        (Some \<lparr>rx_data = padded (CanFdPaddingValue (hth_obj 1 ?s)) (can_length demo_pdu) [1, 2, 3, 4, 5, 6, 7, 8, 9], rx_SduTimeStamp = ts\<rparr>)
        ((demo_if (demo_drv (demo_rx (drv_ext s'))))\<lparr>ci_ext := r\<rparr>) \<and>
    drv_ext r = demo_store REG_RXF0A [of_nat 0] (drv_ext (ci_ext (demo_if (demo_drv (demo_rx (drv_ext s'))))))"
  proof (rule tcan_frame_arrives [OF demo_tcan_ok ram demo_hth_ok p cid f s' demo_tcan_ok])
    show "frame_on_bus (\<lambda>k. drv_ext s' (tx_addr demo_drv_sys (hth_ctrl 1 ?s) 0 ?s + 4 * k))
        (\<lambda>k. drv_ext (ci_ext (demo_if (demo_drv (demo_rx (drv_ext s'))))) (rx_addr demo_drv_sys 0 0 (ci_ext (demo_if (demo_drv (demo_rx (drv_ext s'))))) + 4 * k))"
      unfolding demo_hth demo_tx_addr by (simp add: ra frame_on_bus_def demo_rx_def)
  qed (simp_all add: ra demo_rx_def read_cmd_ok_def, simp_all add: demo_simps)
  then have "\<exists>r ts. Can_44_TCAN4x5x_MCAN_ProcessRxFIFO demo_if_sys demo_drv_sys 0 False (demo_if (demo_drv (demo_rx (drv_ext s')))) =
      CanIf_RxIndication demo_if_sys (Some (can_id demo_pdu)) (Some \<lparr>rx_data = padded 0xCC (can_length demo_pdu) [1, 2, 3, 4, 5, 6, 7, 8, 9], rx_SduTimeStamp = ts\<rparr>)
        ((demo_if (demo_drv (demo_rx (drv_ext s'))))\<lparr>ci_ext := r\<rparr>)"
    unfolding demo_hth by auto
  moreover have "padded 0xCC (can_length demo_pdu) [1, 2, 3, 4, 5, 6, 7, 8, 9] = [1, 2, 3, 4, 5, 6, 7, 8, 9, 0xCC, 0xCC, 0xCC]"
    by (simp add: padded_def demo_pdu_def ConvertToDLC_def ConvertCanDLC_def upt_rec)
  moreover have "can_id demo_pdu = 0x40000123" by (simp add: demo_pdu_def)
  ultimately show ?thesis using s' by auto
qed

end
