(* ===== verification/TcanModes.thy ===== *)
theory TcanModes
  imports TcanProps
begin

text \<open>
  The driver's bookkeeping: the mode of a controller as the driver and as CanIf know it, the counter of nested requests to disable the interrupts, and what happens to a
  write request when the SPI line does not work.
\<close>

unbundle bit_operations_syntax

subsection \<open>Modes\<close>

text \<open>Only a completed change of mode and bus-off change the mode of a controller; the work on the device leaves it alone.\<close>

lemma mode_wait_init [simp]:
  "Can_44_TCAN4x5x_ControllerMode (snd (wait_init D aId n s)) = Can_44_TCAN4x5x_ControllerMode s"
  "Can_44_TCAN4x5x_DriverState (snd (wait_init D aId n s)) = Can_44_TCAN4x5x_DriverState s"
  by (induction n arbitrary: s, simp_all add: Let_def)+

lemma mode_wait_run [simp]:
  "Can_44_TCAN4x5x_ControllerMode (snd (wait_run D aId n s)) = Can_44_TCAN4x5x_ControllerMode s"
  "Can_44_TCAN4x5x_DriverState (snd (wait_run D aId n s)) = Can_44_TCAN4x5x_DriverState s"
  by (induction n arbitrary: s, simp_all add: Let_def)+

lemma mode_SetInit [simp]:
  "Can_44_TCAN4x5x_ControllerMode (snd (Can_44_TCAN4x5x_MCAN_SetInit D aId s)) = Can_44_TCAN4x5x_ControllerMode s"
  "Can_44_TCAN4x5x_DriverState (snd (Can_44_TCAN4x5x_MCAN_SetInit D aId s)) = Can_44_TCAN4x5x_DriverState s"
  by (simp_all add: Can_44_TCAN4x5x_MCAN_SetInit_def Let_def)

lemma mode_modify [simp]:
  "Can_44_TCAN4x5x_ControllerMode (modify_cccr D aId f s) = Can_44_TCAN4x5x_ControllerMode s"
  "Can_44_TCAN4x5x_DriverState (modify_cccr D aId f s) = Can_44_TCAN4x5x_DriverState s"
  by (simp_all add: modify_cccr_def Let_def split_beta)

lemma mode_ResetInit [simp]:
  "Can_44_TCAN4x5x_ControllerMode (Can_44_TCAN4x5x_MCAN_ResetInit D aId s) = Can_44_TCAN4x5x_ControllerMode s"
  "Can_44_TCAN4x5x_DriverState (Can_44_TCAN4x5x_MCAN_ResetInit D aId s) = Can_44_TCAN4x5x_DriverState s"
  by (simp_all add: Can_44_TCAN4x5x_MCAN_ResetInit_def Let_def split_beta)

lemma mode_ResetCCE [simp]:
  "Can_44_TCAN4x5x_ControllerMode (Can_44_TCAN4x5x_MCAN_ResetCCE D aId s) = Can_44_TCAN4x5x_ControllerMode s"
  "Can_44_TCAN4x5x_DriverState (Can_44_TCAN4x5x_MCAN_ResetCCE D aId s) = Can_44_TCAN4x5x_DriverState s"
  by (simp_all add: Can_44_TCAN4x5x_MCAN_ResetCCE_def Let_def split_beta)

lemma mode_interrupts [simp]:
  "Can_44_TCAN4x5x_ControllerMode (Can_44_TCAN4x5x_MCAN_EnableAllInterrupts D aId s) = Can_44_TCAN4x5x_ControllerMode s"
  "Can_44_TCAN4x5x_ControllerMode (Can_44_TCAN4x5x_MCAN_DisableAllInterrupts D aId s) = Can_44_TCAN4x5x_ControllerMode s"
  "Can_44_TCAN4x5x_ControllerMode (Can_44_TCAN4x5x_MCAN_ClearTXBRP D aId s) = Can_44_TCAN4x5x_ControllerMode s"
  "Can_44_TCAN4x5x_DriverState (Can_44_TCAN4x5x_MCAN_EnableAllInterrupts D aId s) = Can_44_TCAN4x5x_DriverState s"
  "Can_44_TCAN4x5x_DriverState (Can_44_TCAN4x5x_MCAN_DisableAllInterrupts D aId s) = Can_44_TCAN4x5x_DriverState s"
  "Can_44_TCAN4x5x_DriverState (Can_44_TCAN4x5x_MCAN_ClearTXBRP D aId s) = Can_44_TCAN4x5x_DriverState s"
  by (simp_all add: Can_44_TCAN4x5x_MCAN_EnableAllInterrupts_def Can_44_TCAN4x5x_MCAN_DisableAllInterrupts_def Can_44_TCAN4x5x_MCAN_ClearTXBRP_def Let_def split_beta)

lemma mode_small [simp]:
  "Can_44_TCAN4x5x_ControllerMode (set_dev_state aId st s) = Can_44_TCAN4x5x_ControllerMode s"
  "Can_44_TCAN4x5x_ControllerMode (set_if_state aId m s) = Can_44_TCAN4x5x_ControllerMode s"
  "Can_44_TCAN4x5x_ControllerMode (set_api D sid s) = Can_44_TCAN4x5x_ControllerMode s"
  "Can_44_TCAN4x5x_ControllerIf_State (set_if_state aId m s) aId = m"
  "Can_44_TCAN4x5x_DriverState (set_dev_state aId st s) = Can_44_TCAN4x5x_DriverState s"
  "Can_44_TCAN4x5x_DriverState (set_if_state aId m s) = Can_44_TCAN4x5x_DriverState s"
  "Can_44_TCAN4x5x_DriverState (set_api D sid s) = Can_44_TCAN4x5x_DriverState s"
  by (simp_all add: set_dev_state_def set_if_state_def set_api_def)

lemma mode_SetMode [simp]:
  "Can_44_TCAN4x5x_ControllerMode (snd (Can_44_TCAN4x5x_MCAN_SetMode D aId st s)) = Can_44_TCAN4x5x_ControllerMode s"
  "st \<noteq> CAN_44_TCAN4x5x_STATE_UNINIT \<Longrightarrow> Can_44_TCAN4x5x_DriverState (snd (Can_44_TCAN4x5x_MCAN_SetMode D aId st s)) = Can_44_TCAN4x5x_DriverState s"
  by (cases st, simp_all add: Can_44_TCAN4x5x_MCAN_SetMode_def Let_def split_beta)+

lemma mode_SetCCE [simp]:
  "Can_44_TCAN4x5x_ControllerMode (Can_44_TCAN4x5x_MCAN_SetCCE D aId s) = Can_44_TCAN4x5x_ControllerMode s"
  "Can_44_TCAN4x5x_DriverState (Can_44_TCAN4x5x_MCAN_SetCCE D aId s) = Can_44_TCAN4x5x_DriverState s"
  by (simp_all add: Can_44_TCAN4x5x_MCAN_SetCCE_def Let_def split_beta)

lemma mode_clear_ram [simp]:
  "Can_44_TCAN4x5x_ControllerMode (clear_ram D aId is s) = Can_44_TCAN4x5x_ControllerMode s"
  "Can_44_TCAN4x5x_DriverState (clear_ram D aId is s) = Can_44_TCAN4x5x_DriverState s"
  by (induction "is" arbitrary: s, simp_all add: Let_def)+

lemma mode_fold: "(\<And>i s. h (g i s) = h s) \<Longrightarrow> h (fold g xs s) = h s"
  by (induction xs arbitrary: s) simp_all

lemma mode_setup [simp]:
  "Can_44_TCAN4x5x_ControllerMode (Can_44_TCAN4x5x_MCAN_MessageRAM_Init D aId M s) = Can_44_TCAN4x5x_ControllerMode s"
  "Can_44_TCAN4x5x_ControllerMode (snd (Can_44_TCAN4x5x_MCAN_SetBaudrate D aId B s)) = Can_44_TCAN4x5x_ControllerMode s"
  "Can_44_TCAN4x5x_ControllerMode (trcv_test_pins D aId s) = Can_44_TCAN4x5x_ControllerMode s"
  "Can_44_TCAN4x5x_ControllerMode (Can_44_TCAN4x5x_MCAN_ConfigureGlobalFilters D aId F n s) = Can_44_TCAN4x5x_ControllerMode s"
  "Can_44_TCAN4x5x_DriverState (Can_44_TCAN4x5x_MCAN_MessageRAM_Init D aId M s) = Can_44_TCAN4x5x_DriverState s"
  "Can_44_TCAN4x5x_DriverState (snd (Can_44_TCAN4x5x_MCAN_SetBaudrate D aId B s)) = Can_44_TCAN4x5x_DriverState s"
  "Can_44_TCAN4x5x_DriverState (trcv_test_pins D aId s) = Can_44_TCAN4x5x_DriverState s"
  "Can_44_TCAN4x5x_DriverState (Can_44_TCAN4x5x_MCAN_ConfigureGlobalFilters D aId F n s) = Can_44_TCAN4x5x_DriverState s"
  by (simp_all add: Can_44_TCAN4x5x_MCAN_MessageRAM_Init_def Can_44_TCAN4x5x_MCAN_SetBaudrate_def trcv_test_pins_def
      Can_44_TCAN4x5x_MCAN_ConfigureGlobalFilters_def Let_def mode_fold configFilterMasks_def)

lemma mode_MCAN_Init [simp]:
  "Can_44_TCAN4x5x_ControllerMode (Can_44_TCAN4x5x_MCAN_Init D aId C s) = Can_44_TCAN4x5x_ControllerMode s"
  "Can_44_TCAN4x5x_DriverState (Can_44_TCAN4x5x_MCAN_Init D aId C s) = Can_44_TCAN4x5x_DriverState s"
  unfolding Can_44_TCAN4x5x_MCAN_Init_def Let_def by (simp_all add: split_beta)

lemma mode_write_loop [simp]:
  "Can_44_TCAN4x5x_ControllerMode (snd (write_loop D aId pdu TxObj v n k r s)) = Can_44_TCAN4x5x_ControllerMode s"
  "Can_44_TCAN4x5x_DriverState (snd (write_loop D aId pdu TxObj v n k r s)) = Can_44_TCAN4x5x_DriverState s"
  by (induction n arbitrary: k r s, simp_all add: Let_def)+

lemma mode_guards [simp]:
  "Can_44_TCAN4x5x_ControllerMode (snd (Can_44_TCAN4x5x_ReportDetUninit D sid s)) = Can_44_TCAN4x5x_ControllerMode s"
  "Can_44_TCAN4x5x_ControllerMode (snd (drv_guard D sid i s)) = Can_44_TCAN4x5x_ControllerMode s"
  "Can_44_TCAN4x5x_ControllerMode (snd (main_guard D sid s)) = Can_44_TCAN4x5x_ControllerMode s"
  "Can_44_TCAN4x5x_ControllerMode (snd (Can_44_TCAN4x5x_WriteDetCheck D Hth p s)) = Can_44_TCAN4x5x_ControllerMode s"
  "Can_44_TCAN4x5x_DriverState (snd (Can_44_TCAN4x5x_ReportDetUninit D sid s)) = Can_44_TCAN4x5x_DriverState s"
  "Can_44_TCAN4x5x_DriverState (snd (drv_guard D sid i s)) = Can_44_TCAN4x5x_DriverState s"
  "Can_44_TCAN4x5x_DriverState (snd (main_guard D sid s)) = Can_44_TCAN4x5x_DriverState s"
  "Can_44_TCAN4x5x_DriverState (snd (Can_44_TCAN4x5x_WriteDetCheck D Hth p s)) = Can_44_TCAN4x5x_DriverState s"
  by (simp_all add: Can_44_TCAN4x5x_ReportDetUninit_def drv_guard_def main_guard_def Can_44_TCAN4x5x_WriteDetCheck_def
      Can_44_TCAN4x5x_ReportDetParamController_def Let_def split_beta)

lemma mode_services [simp]:
  "Can_44_TCAN4x5x_ControllerMode (snd (Can_44_TCAN4x5x_Write D Hth pdu s)) = Can_44_TCAN4x5x_ControllerMode s"
  "Can_44_TCAN4x5x_ControllerMode (Can_44_TCAN4x5x_DisableControllerInterrupts D i s) = Can_44_TCAN4x5x_ControllerMode s"
  "Can_44_TCAN4x5x_ControllerMode (Can_44_TCAN4x5x_EnableControllerInterrupts D i s) = Can_44_TCAN4x5x_ControllerMode s"
  "Can_44_TCAN4x5x_ControllerMode (snd (Can_44_TCAN4x5x_SetBaudrate D i b s)) = Can_44_TCAN4x5x_ControllerMode s"
  "Can_44_TCAN4x5x_ControllerMode (snd (take_flags D i fl s)) = Can_44_TCAN4x5x_ControllerMode s"
  "Can_44_TCAN4x5x_DriverState (snd (Can_44_TCAN4x5x_Write D Hth pdu s)) = Can_44_TCAN4x5x_DriverState s"
  "Can_44_TCAN4x5x_DriverState (Can_44_TCAN4x5x_DisableControllerInterrupts D i s) = Can_44_TCAN4x5x_DriverState s"
  "Can_44_TCAN4x5x_DriverState (Can_44_TCAN4x5x_EnableControllerInterrupts D i s) = Can_44_TCAN4x5x_DriverState s"
  "Can_44_TCAN4x5x_DriverState (snd (Can_44_TCAN4x5x_SetBaudrate D i b s)) = Can_44_TCAN4x5x_DriverState s"
  "Can_44_TCAN4x5x_DriverState (snd (take_flags D i fl s)) = Can_44_TCAN4x5x_DriverState s"
  by (simp_all add: Can_44_TCAN4x5x_Write_def Can_44_TCAN4x5x_MCAN_Write_def Can_44_TCAN4x5x_DisableControllerInterrupts_def
      Can_44_TCAN4x5x_EnableControllerInterrupts_def Can_44_TCAN4x5x_SetBaudrate_def take_flags_def Can_44_TCAN4x5x_VerifySpiRead_def Let_def split_beta)

text \<open>
  What the driver and CanIf think of the controllers: one that CanIf considers started is started for the driver, too, which is then initialised. When \<open>b\<close> holds, the converse is
  true as well.
\<close>

definition modes_ok :: "bool \<Rightarrow> 'x CanDrvSys \<Rightarrow> 'x CanDrvSt CanIf_St \<Rightarrow> bool" where
  "modes_ok b D w \<longleftrightarrow>
     (\<forall>i < CAN_44_TCAN4x5x_NUM_CONTROLLER_MAX D.
        (CanIfControllerMode w i = CANIF_CS_STARTED \<longrightarrow>
           Can_44_TCAN4x5x_ControllerMode (ci_ext w) i = CAN_T_START \<and> Can_44_TCAN4x5x_DriverState (ci_ext w) \<noteq> CAN_44_TCAN4x5x_UNINIT) \<and>
        (b \<and> Can_44_TCAN4x5x_ControllerMode (ci_ext w) i = CAN_T_START \<longrightarrow> CanIfControllerMode w i = CANIF_CS_STARTED))"

definition same_modes :: "'x CanDrvSt \<Rightarrow> 'x CanDrvSt \<Rightarrow> bool" where
  "same_modes s s' \<longleftrightarrow> Can_44_TCAN4x5x_ControllerMode s' = Can_44_TCAN4x5x_ControllerMode s \<and> Can_44_TCAN4x5x_DriverState s' = Can_44_TCAN4x5x_DriverState s"

lemma modes_ok_drv: "same_modes (ci_ext w) (f (ci_ext w)) \<Longrightarrow> modes_ok b D (on_drv f w) = modes_ok b D w"
  by (simp add: modes_ok_def same_modes_def on_drv_def)

lemma modes_ok_ext: "same_modes (ci_ext w) s \<Longrightarrow> modes_ok b D (w\<lparr>ci_ext := s\<rparr>) = modes_ok b D w"
  by (simp add: modes_ok_def same_modes_def)

lemma modes_ok_upd:
  assumes "modes_ok b D w" "CanIfControllerMode w' = (CanIfControllerMode w)(i := m)"
    "Can_44_TCAN4x5x_ControllerMode (ci_ext w') = (Can_44_TCAN4x5x_ControllerMode (ci_ext w))(i := t)"
    "Can_44_TCAN4x5x_DriverState (ci_ext w') = Can_44_TCAN4x5x_DriverState (ci_ext w)"
    "t = CAN_T_START \<longleftrightarrow> m = CANIF_CS_STARTED" "t = CAN_T_START \<Longrightarrow> Can_44_TCAN4x5x_DriverState (ci_ext w) \<noteq> CAN_44_TCAN4x5x_UNINIT"
  shows "modes_ok b D w'"
  unfolding modes_ok_def
proof (intro allI impI)
  fix j
  assume "j < CAN_44_TCAN4x5x_NUM_CONTROLLER_MAX D"
  then show "(CanIfControllerMode w' j = CANIF_CS_STARTED \<longrightarrow>
        Can_44_TCAN4x5x_ControllerMode (ci_ext w') j = CAN_T_START \<and> Can_44_TCAN4x5x_DriverState (ci_ext w') \<noteq> CAN_44_TCAN4x5x_UNINIT) \<and>
      (b \<and> Can_44_TCAN4x5x_ControllerMode (ci_ext w') j = CAN_T_START \<longrightarrow> CanIfControllerMode w' j = CANIF_CS_STARTED)"
    using assms(1)[unfolded modes_ok_def, rule_format, of j] assms(2-6) by (cases "j = i") simp_all
qed

lemma same_modes_guards:
  "same_modes s (snd (main_guard D sid s))" "same_modes s (snd (Can_44_TCAN4x5x_ReportDetUninit D sid (set_api D sid s)))" "same_modes s (set_api D sid s)"
  by (simp_all add: same_modes_def)

lemma SetMode_ok_range: "fst (Can_44_TCAN4x5x_MCAN_SetMode D i st s) = CAN_OK \<Longrightarrow> i < CAN_44_TCAN4x5x_NUM_CONTROLLER_MAX D"
  by (auto simp: Can_44_TCAN4x5x_MCAN_SetMode_def split: if_splits)

text \<open>A mode and what CanIf is told.\<close>

definition told :: "Can_StateTransitionType \<Rightarrow> CanIf_ControllerModeType \<Rightarrow> bool" where
  "told t m \<longleftrightarrow> (t, m) \<in> {(CAN_T_START, CANIF_CS_STARTED), (CAN_T_STOP, CANIF_CS_STOPPED), (CAN_T_SLEEP, CANIF_CS_SLEEP)}"

lemma ok_mode_done:
  assumes "modes_ok b D w" "Can_44_TCAN4x5x_ControllerIf_State (ci_ext w) i = Some m" "told t m" "i < CAN_44_TCAN4x5x_NUM_CONTROLLER_MAX D"
    "CAN_44_TCAN4x5x_NUM_CONTROLLER_MAX D \<le> CanIfNumController S" "t = CAN_T_START \<Longrightarrow> Can_44_TCAN4x5x_DriverState (ci_ext w) \<noteq> CAN_44_TCAN4x5x_UNINIT"
  shows "modes_ok b D (mode_done S i t w)"
proof -
  have m: "m \<in> {CANIF_CS_SLEEP, CANIF_CS_STARTED, CANIF_CS_STOPPED}" "t = CAN_T_START \<longleftrightarrow> m = CANIF_CS_STARTED" using assms(3) by (auto simp: told_def)
  have "mode_done S i t w = w\<lparr>ci_ext := (ci_ext w)\<lparr>Can_44_TCAN4x5x_ControllerMode := (Can_44_TCAN4x5x_ControllerMode (ci_ext w))(i := t)\<rparr>,
      CanIfControllerMode := (CanIfControllerMode w)(i := m)\<rparr>"
    using assms(2,4,5) m(1) by (simp add: mode_done_def on_drv_def CanIf_ControllerModeIndication_def)
  then show ?thesis using assms(6) by (intro modes_ok_upd [OF assms(1) _ _ _ m(2)]) simp_all
qed

lemma request_mode_spec:
  assumes "request_mode D i t s = (r, t', s')"
  shows "same_modes s s'"
    and "r = CAN_OK \<Longrightarrow> i < CAN_44_TCAN4x5x_NUM_CONTROLLER_MAX D \<and> (\<exists>m. Can_44_TCAN4x5x_ControllerIf_State s' i = Some m \<and> told t' m)"
proof -
  show "same_modes s s'"
  proof -
    have "Can_44_TCAN4x5x_ControllerMode s' = Can_44_TCAN4x5x_ControllerMode s"
      using assms by (cases t) (auto simp: request_mode_def Let_def split_beta split: if_splits)
    moreover have "Can_44_TCAN4x5x_DriverState s' = Can_44_TCAN4x5x_DriverState s"
      using assms by (cases t) (auto simp: request_mode_def Let_def split_beta split: if_splits)
    ultimately show ?thesis by (simp add: same_modes_def)
  qed
  show "i < CAN_44_TCAN4x5x_NUM_CONTROLLER_MAX D \<and> (\<exists>m. Can_44_TCAN4x5x_ControllerIf_State s' i = Some m \<and> told t' m)" if "r = CAN_OK"
    using assms that by (cases t) (auto simp: request_mode_def Let_def split_beta told_def dest: SetMode_ok_range split: if_splits)
qed

lemma guard_uninit:
  "CAN_44_TCAN4x5x_DEV_ERROR_DETECT D \<Longrightarrow> Can_44_TCAN4x5x_DriverState s = CAN_44_TCAN4x5x_UNINIT \<Longrightarrow> fst (drv_guard D sid i s) = E_NOT_OK"
  by (simp add: drv_guard_def Can_44_TCAN4x5x_ReportDetUninit_def set_api_def Let_def)

lemma ok_SetControllerMode:
  assumes "modes_ok b D w" "CAN_44_TCAN4x5x_NUM_CONTROLLER_MAX D \<le> CanIfNumController S" "CAN_44_TCAN4x5x_DEV_ERROR_DETECT D"
  shows "modes_ok b D (snd (Can_44_TCAN4x5x_SetControllerMode S D i t w))"
proof (cases "Can_44_TCAN4x5x_DriverState (ci_ext w) = CAN_44_TCAN4x5x_UNINIT")
  case True
  have "fst (drv_guard D 3 i (ci_ext w)) = E_NOT_OK" using assms(3) True by (rule guard_uninit)
  then have "snd (Can_44_TCAN4x5x_SetControllerMode S D i t w) = w\<lparr>ci_ext := snd (drv_guard D 3 i (ci_ext w))\<rparr>"
    by (simp add: Can_44_TCAN4x5x_SetControllerMode_def Let_def split_beta)
  then show ?thesis using assms(1) by (simp add: modes_ok_ext same_modes_def)
next
  case False
  define s where "s = snd (drv_guard D 3 i (ci_ext w))"
  have s: "same_modes (ci_ext w) s" by (simp add: s_def same_modes_def)
  obtain r t' s' where r: "request_mode D i t s = (r, t', s')" by (cases "request_mode D i t s")
  note R = request_mode_spec [OF r]
  have s': "same_modes (ci_ext w) s'" "same_modes (ci_ext w) (drv_report D 3 6 s)" using R(1) s by (simp_all add: same_modes_def)
  then have w: "modes_ok b D (w\<lparr>ci_ext := s'\<rparr>)" "modes_ok b D (w\<lparr>ci_ext := s\<rparr>)" "modes_ok b D (w\<lparr>ci_ext := drv_report D 3 6 s\<rparr>)"
    using assms(1) s by (simp_all add: modes_ok_ext)
  have "modes_ok b D (mode_done S i t' (w\<lparr>ci_ext := s'\<rparr>))" if "r = CAN_OK"
    using R(2) [OF that] w(1) assms(2) s'(1) False by (auto intro!: ok_mode_done simp: same_modes_def)
  then show ?thesis using w r unfolding Can_44_TCAN4x5x_SetControllerMode_def
    by (cases r) (auto simp: Let_def split_beta s_def [symmetric])
qed

lemma ok_fold: "(\<And>i w. i \<in> set xs \<Longrightarrow> modes_ok b D w \<Longrightarrow> modes_ok b D (f i w)) \<Longrightarrow> modes_ok b D w \<Longrightarrow> modes_ok b D (fold f xs w)"
  by (induction xs arbitrary: w) simp_all

lemma ok_finish_mode:
  assumes "modes_ok b D w" "CAN_44_TCAN4x5x_NUM_CONTROLLER_MAX D \<le> CanIfNumController S" "i < CAN_44_TCAN4x5x_NUM_CONTROLLER_MAX D"
  shows "modes_ok b D (finish_mode S D i w)"
proof -
  define s where "s = snd (Can_44_TCAN4x5x_MCAN_SetMode D i CAN_44_TCAN4x5x_STATE_IDLE (ci_ext w))"
  have "same_modes (ci_ext w) s" "same_modes (ci_ext w) (set_if_state i (Some CANIF_CS_STOPPED) s)" by (simp_all add: s_def same_modes_def)
  note m = this [THEN modes_ok_ext, where b = b and D = D]
  have "modes_ok b D (mode_done S i CAN_T_STOP (w\<lparr>ci_ext := set_if_state i (Some CANIF_CS_STOPPED) s\<rparr>))"
    using assms m(2) by (intro ok_mode_done) (simp_all add: told_def)
  then show ?thesis using assms(1) m(1) by (simp add: finish_mode_def Let_def split_beta s_def)
qed

lemma ok_MainFunction_Mode:
  assumes "modes_ok b D w" "CAN_44_TCAN4x5x_NUM_CONTROLLER_MAX D \<le> CanIfNumController S"
  shows "modes_ok b D (Can_44_TCAN4x5x_MainFunction_Mode S D w)"
  using assms unfolding Can_44_TCAN4x5x_MainFunction_Mode_def
  by (auto simp: Let_def split_beta modes_ok_ext same_modes_guards intro!: ok_fold ok_finish_mode)

text \<open>The functions CanIf calls at bus-off, two of the driver and one of the state manager, do not change the modes or initialise the driver.\<close>

definition keeps_modes :: "('x CanDrvSt CanIf_St \<Rightarrow> 'x CanDrvSt CanIf_St) \<Rightarrow> bool" where
  "keeps_modes f \<longleftrightarrow> (\<forall>w. CanIfControllerMode (f w) = CanIfControllerMode w \<and> same_modes (ci_ext w) (ci_ext (f w)))"

definition busoff_hooks_ok :: "'x CanDrvSt CanIf_Sys \<Rightarrow> bool" where
  "busoff_hooks_ok S \<longleftrightarrow>
     (\<forall>i. keeps_modes (opt_call (CanTrcv_DisableAllInterrupts S) i) \<and> keeps_modes (opt_call (CanTrcv_ClearTXBRP S) i) \<and> keeps_modes (CanSM_ControllerBusOff S i))"

lemma busoff_modes:
  assumes "busoff_hooks_ok S" "i < CanIfNumController S"
  shows "CanIfControllerMode (CanIf_ControllerBusOff S i w) = (CanIfControllerMode w)(i := CANIF_CS_STOPPED) \<and>
    same_modes (ci_ext w) (ci_ext (CanIf_ControllerBusOff S i w))"
  using assms by (simp add: CanIf_ControllerBusOff_def busoff_hooks_ok_def keeps_modes_def same_modes_def)

lemma ok_BusoffProcess:
  assumes w: "modes_ok b D w" and n: "CAN_44_TCAN4x5x_NUM_CONTROLLER_MAX D \<le> CanIfNumController S" and h: "busoff_hooks_ok S"
    and i: "i < CAN_44_TCAN4x5x_NUM_CONTROLLER_MAX D"
  shows "modes_ok b D (Can_44_TCAN4x5x_MCAN_BusoffProcess S D i w)"
proof -
  obtain fl s where f: "take_flags D i IR_BO (ci_ext w) = (fl, s)" by (cases "take_flags D i IR_BO (ci_ext w)")
  have s: "same_modes (ci_ext w) s"
    using mode_services(5) [of D i IR_BO "ci_ext w"] mode_services(10) [of D i IR_BO "ci_ext w"] by (simp add: f same_modes_def)
  let ?w = "on_drv (\<lambda>s. set_dev_state i CAN_44_TCAN4x5x_STATE_IDLE
      (s\<lparr>Can_44_TCAN4x5x_ControllerMode := (Can_44_TCAN4x5x_ControllerMode s)(i := CAN_T_STOP)\<rparr>)) (w\<lparr>ci_ext := s\<rparr>)"
  have "modes_ok b D (CanIf_ControllerBusOff S i ?w)"
    using s busoff_modes [OF h, of i ?w] i n by (intro modes_ok_upd [OF w, where i = i and t = CAN_T_STOP and m = CANIF_CS_STOPPED]) (simp_all add: same_modes_def on_drv_def)
  moreover have "modes_ok b D (w\<lparr>ci_ext := s\<rparr>)" using w s by (simp add: modes_ok_ext)
  ultimately show ?thesis unfolding Can_44_TCAN4x5x_MCAN_BusoffProcess_def by (auto simp: f Let_def split: option.splits)
qed

lemma ok_in_context:
  assumes "\<And>w. modes_ok b D w \<Longrightarrow> modes_ok b D (f w)" "modes_ok b D w"
  shows "modes_ok b D (in_context i c f w)"
  unfolding in_context_def Let_def using assms by (subst modes_ok_drv) (simp_all add: modes_ok_drv same_modes_def)

lemma ok_MainFunction_BusOff:
  assumes "modes_ok b D w" "CAN_44_TCAN4x5x_NUM_CONTROLLER_MAX D \<le> CanIfNumController S" "busoff_hooks_ok S"
  shows "modes_ok b D (Can_44_TCAN4x5x_MainFunction_BusOff S D w)"
  unfolding Can_44_TCAN4x5x_MainFunction_BusOff_def poll_controllers_def Let_def using assms
  by (auto simp: split_beta modes_ok_ext same_modes_guards intro!: ok_fold ok_in_context ok_BusoffProcess)

text \<open>
  The supervision in \<^verbatim>\<open>CanSpi.c\<close> takes the controller out of service with the calls of \<^verbatim>\<open>nCANSPI_vSetUnavailable\<close>: the request to stop, which CanIf passes to the driver, and the
  report of bus-off, both with the fixed number 0. \<^verbatim>\<open>nCANSPI_cResetTCAN\<close> sets the driver back to uninitialised before (\<open>reset\<close>).
\<close>

definition supervision_stop :: "'x CanDrvSt CanIf_Sys \<Rightarrow> 'x CanDrvSys \<Rightarrow> bool \<Rightarrow> 'x CanDrvSt CanIf_St \<Rightarrow> 'x CanDrvSt CanIf_St" where
  "supervision_stop S D reset w =
     (let w = (if reset then on_drv (\<lambda>s. s\<lparr>Can_44_TCAN4x5x_DriverState := CAN_44_TCAN4x5x_UNINIT\<rparr>) w else w)
      in CanIf_ControllerBusOff S 0 (snd (Can_44_TCAN4x5x_SetControllerMode S D 0 CAN_T_STOP w)))"

text \<open>Whether a call of the initialisation has set up the driver.\<close>

definition set_up :: "'x CanDrvSys \<Rightarrow> Can_44_TCAN4x5x_ConfigType option \<Rightarrow> 'x CanDrvSt \<Rightarrow> bool" where
  "set_up D Config s \<longleftrightarrow> Can_44_TCAN4x5x_DriverState s = CAN_44_TCAN4x5x_UNINIT \<and>
     Can_44_TCAN4x5x_DriverState (Can_44_TCAN4x5x_Init D Config s) = CAN_44_TCAN4x5x_READY"

text \<open>
  The states the driver and CanIf reach together, from the state after both have been initialised: requests of CanIf, the cyclic functions, bus-off in the interrupt handler, the
  services that concern only the driver (\<open>drv\<close>), and what the supervision does to both: it takes the controller out of service and initialises the driver again. The flag tells
  whether the driver was set up after the last time it was taken out of service.
\<close>

inductive drv_reach :: "'x CanDrvSt CanIf_Sys \<Rightarrow> 'x CanDrvSys \<Rightarrow> bool \<Rightarrow> 'x CanDrvSt CanIf_St \<Rightarrow> bool" for S D where
  start: "(\<And>i. i < CAN_44_TCAN4x5x_NUM_CONTROLLER_MAX D \<Longrightarrow> CanIfControllerMode w i = CANIF_CS_UNINIT \<and> Can_44_TCAN4x5x_ControllerMode (ci_ext w) i = CAN_T_STOP)
           \<Longrightarrow> drv_reach S D True w"
| mode: "drv_reach S D b w \<Longrightarrow> drv_reach S D b (snd (Can_44_TCAN4x5x_SetControllerMode S D i t w))"
| main_mode: "drv_reach S D b w \<Longrightarrow> drv_reach S D b (Can_44_TCAN4x5x_MainFunction_Mode S D w)"
| main_busoff: "drv_reach S D b w \<Longrightarrow> drv_reach S D b (Can_44_TCAN4x5x_MainFunction_BusOff S D w)"
| irq_busoff: "drv_reach S D b w \<Longrightarrow> i < CAN_44_TCAN4x5x_NUM_CONTROLLER_MAX D \<Longrightarrow>
    drv_reach S D b (in_context i ISR_CONTEXT (Can_44_TCAN4x5x_MCAN_BusoffProcess S D i) w)"
| drv: "drv_reach S D b w \<Longrightarrow> f \<in> {(\<lambda>s. snd (Can_44_TCAN4x5x_Write D h p s)), Can_44_TCAN4x5x_DisableControllerInterrupts D i,
      Can_44_TCAN4x5x_EnableControllerInterrupts D i, (\<lambda>s. snd (Can_44_TCAN4x5x_SetBaudrate D i bd s))} \<Longrightarrow> drv_reach S D b (on_drv f w)"
| supervision: "drv_reach S D b w \<Longrightarrow> drv_reach S D False (supervision_stop S D reset w)"
| init: "drv_reach S D b w \<Longrightarrow> drv_reach S D (b \<or> set_up D Config (ci_ext w)) (on_drv (Can_44_TCAN4x5x_Init D Config) w)"

text \<open>The first initialisations lead to such a state, when the driver reports that it is ready, for the one controller the driver has registers for.\<close>

lemma init_ready:
  assumes "CAN_44_TCAN4x5x_NUM_CONTROLLER_MAX D = 1" "set_up D Config s"
  shows "Can_44_TCAN4x5x_ControllerMode (Can_44_TCAN4x5x_Init D Config s) 0 = CAN_T_STOP"
proof -
  have i: "[0..<CAN_44_TCAN4x5x_NUM_CONTROLLER_MAX D] = [0]" using assms(1) by simp
  show ?thesis using assms(2) unfolding set_up_def Can_44_TCAN4x5x_Init_def Let_def i by (auto simp: Let_def set_api_def split: if_splits option.splits)
qed

lemma drv_reach_init:
  assumes "CAN_44_TCAN4x5x_NUM_CONTROLLER_MAX D = 1" "1 \<le> CanIfNumController S" "set_up D Config (ci_ext w)"
  shows "drv_reach S D True (CanIf_Init S (on_drv (Can_44_TCAN4x5x_Init D Config) w))"
proof (rule drv_reach.start)
  fix i
  assume "i < CAN_44_TCAN4x5x_NUM_CONTROLLER_MAX D"
  then have i: "i = 0" using assms(1) by simp
  show "CanIfControllerMode (CanIf_Init S (on_drv (Can_44_TCAN4x5x_Init D Config) w)) i = CANIF_CS_UNINIT \<and>
      Can_44_TCAN4x5x_ControllerMode (ci_ext (CanIf_Init S (on_drv (Can_44_TCAN4x5x_Init D Config) w))) i = CAN_T_STOP"
    using assms(2) i init_ready [OF assms(1,3)] by (simp add: CanIf_Init_def Let_def on_drv_def)
qed

lemma init_controllers_modes: "Can_44_TCAN4x5x_ControllerMode (init_controllers D is s) i \<in> {Can_44_TCAN4x5x_ControllerMode s i, CAN_T_STOP}"
proof (induction "is" arbitrary: s)
  case (Cons j js)
  show ?case using Cons [of "let u = Can_44_TCAN4x5x_MCAN_Init D j (Can_44_TCAN4x5x_ConfigPtr s) s in
      if Can_44_TCAN4x5x_MajorRevId u \<noteq> 1 then u\<lparr>Can_44_TCAN4x5x_ControllerMode := (Can_44_TCAN4x5x_ControllerMode u)(j := CAN_T_STOP)\<rparr> else u"]
    by (auto simp: Let_def split: if_splits)
qed simp

lemma init_modes:
  shows "Can_44_TCAN4x5x_ControllerMode (Can_44_TCAN4x5x_Init D Config s) i \<in> {Can_44_TCAN4x5x_ControllerMode s i, CAN_T_STOP}"
    and "CAN_44_TCAN4x5x_DEV_ERROR_DETECT D \<Longrightarrow> Can_44_TCAN4x5x_DriverState s \<noteq> CAN_44_TCAN4x5x_UNINIT \<Longrightarrow> same_modes s (Can_44_TCAN4x5x_Init D Config s)"
proof -
  let ?F = "\<lambda>i s. if can_t_value D (Can_44_TCAN4x5x_ControllerMode s i) \<noteq> 0 then drv_report D 0 6 s else s"
  have f: "Can_44_TCAN4x5x_ControllerMode (fold ?F xs u) = Can_44_TCAN4x5x_ControllerMode u" for xs u by (rule mode_fold) simp
  show "Can_44_TCAN4x5x_ControllerMode (Can_44_TCAN4x5x_Init D Config s) i \<in> {Can_44_TCAN4x5x_ControllerMode s i, CAN_T_STOP}"
  proof -
    have "Can_44_TCAN4x5x_ControllerMode (init_controllers D xs u) i \<in> {Can_44_TCAN4x5x_ControllerMode s i, CAN_T_STOP}"
      if "Can_44_TCAN4x5x_ControllerMode u = Can_44_TCAN4x5x_ControllerMode s" for xs u
      using init_controllers_modes [of D xs u i] that by simp
    note c = this
    show ?thesis
    proof (cases Config)
      case None
      then show ?thesis by (simp add: Can_44_TCAN4x5x_Init_def Let_def c f [simplified] insertI1 del: insert_iff)
    next
      case (Some C)
      then show ?thesis by (simp add: Can_44_TCAN4x5x_Init_def Let_def c f [simplified] insertI1 del: insert_iff)
    qed
  qed
  show "same_modes s (Can_44_TCAN4x5x_Init D Config s)" if "CAN_44_TCAN4x5x_DEV_ERROR_DETECT D" "Can_44_TCAN4x5x_DriverState s \<noteq> CAN_44_TCAN4x5x_UNINIT"
    using that by (auto simp: Can_44_TCAN4x5x_Init_def Let_def same_modes_def)
qed

lemma ok_Init:
  assumes w: "modes_ok b D w" and n: "CAN_44_TCAN4x5x_NUM_CONTROLLER_MAX D = 1" and det: "CAN_44_TCAN4x5x_DEV_ERROR_DETECT D"
  shows "modes_ok (b \<or> set_up D Config (ci_ext w)) D (on_drv (Can_44_TCAN4x5x_Init D Config) w)"
proof (cases "Can_44_TCAN4x5x_DriverState (ci_ext w) = CAN_44_TCAN4x5x_UNINIT")
  case True
  then show ?thesis using w n init_modes(1) [of D Config "ci_ext w" 0] init_ready [OF n, of Config "ci_ext w"] by (auto simp: modes_ok_def on_drv_def)
next
  case False
  then show ?thesis using w modes_ok_drv [where f = "Can_44_TCAN4x5x_Init D Config" and w = w and b = b and D = D] init_modes(2) [OF det False, of Config] by (simp add: set_up_def)
qed

lemma ok_supervision_stop:
  assumes w: "modes_ok b D w" and n: "CAN_44_TCAN4x5x_NUM_CONTROLLER_MAX D = 1" "1 \<le> CanIfNumController S" and h: "busoff_hooks_ok S"
  shows "modes_ok False D (supervision_stop S D reset w)"
proof -
  have "CanIfControllerMode (supervision_stop S D reset w) 0 = CANIF_CS_STOPPED" using busoff_modes [OF h, of 0] n by (simp add: supervision_stop_def Let_def)
  then show ?thesis using n by (simp add: modes_ok_def)
qed

text \<open>
  C17. With error detection, one controller, and functions at bus-off that leave the modes alone: in every reachable state, also when the supervision takes the controller out of service, resets it and initialises the driver again, a
  controller that CanIf considers started is started for the initialised driver. So CanIf never passes a frame to a controller that the driver has stopped, put to sleep or lost by
  bus-off, or while the driver is not initialised. The converse, that CanIf refuses no frame for a controller that runs, holds from a successful initialisation until the supervision
  takes the controller out of service: then the driver may keep a controller started that CanIf considers stopped.
\<close>

theorem tcan_modes_agree:
  assumes "drv_reach S D b w" and n: "CAN_44_TCAN4x5x_NUM_CONTROLLER_MAX D = 1" "1 \<le> CanIfNumController S" and h: "busoff_hooks_ok S"
    and det: "CAN_44_TCAN4x5x_DEV_ERROR_DETECT D"
  shows "(CanIfControllerMode w 0 = CANIF_CS_STARTED \<longrightarrow>
      Can_44_TCAN4x5x_ControllerMode (ci_ext w) 0 = CAN_T_START \<and> Can_44_TCAN4x5x_DriverState (ci_ext w) \<noteq> CAN_44_TCAN4x5x_UNINIT) \<and>
    (b \<longrightarrow> (CanIfControllerMode w 0 = CANIF_CS_STARTED \<longleftrightarrow> Can_44_TCAN4x5x_ControllerMode (ci_ext w) 0 = CAN_T_START))"
proof -
  have n': "CAN_44_TCAN4x5x_NUM_CONTROLLER_MAX D \<le> CanIfNumController S" using n by simp
  from assms(1) have "modes_ok b D w"
  proof induction
    case (start w)
    then show ?case by (simp add: modes_ok_def)
  next
    case (irq_busoff b w i)
    then show ?case by (intro ok_in_context ok_BusoffProcess n' h)
  next
    case (drv b w f h p i bd)
    then show ?case by (subst modes_ok_drv) (auto simp: same_modes_def)
  next
    case (supervision b w reset)
    show ?case by (rule ok_supervision_stop [OF supervision.IH n h])
  next
    case (init b w Config)
    show ?case by (rule ok_Init [OF init.IH n(1) det])
  qed (simp_all add: ok_SetControllerMode ok_MainFunction_Mode ok_MainFunction_BusOff n' h det)
  then show ?thesis using n by (auto simp: modes_ok_def)
qed

text \<open>
  The converse is lost at a reset: the driver, already marked as uninitialised, refuses the request to stop, so that it keeps a running controller as started until it is initialised
  again, while CanIf has stopped it.
\<close>

theorem tcan_reset_keeps_started:
  assumes "busoff_hooks_ok S" "1 \<le> CanIfNumController S" "CAN_44_TCAN4x5x_DEV_ERROR_DETECT D" "Can_44_TCAN4x5x_ControllerMode (ci_ext w) 0 = CAN_T_START"
  shows "CanIfControllerMode (supervision_stop S D True w) 0 = CANIF_CS_STOPPED \<and>
    Can_44_TCAN4x5x_ControllerMode (ci_ext (supervision_stop S D True w)) 0 = CAN_T_START"
proof -
  let ?u = "on_drv (\<lambda>s. s\<lparr>Can_44_TCAN4x5x_DriverState := CAN_44_TCAN4x5x_UNINIT\<rparr>) w"
  have "fst (drv_guard D 3 0 (ci_ext ?u)) = E_NOT_OK" using assms(3) by (rule guard_uninit) (simp add: on_drv_def)
  then have "snd (Can_44_TCAN4x5x_SetControllerMode S D 0 CAN_T_STOP ?u) = ?u\<lparr>ci_ext := snd (drv_guard D 3 0 (ci_ext ?u))\<rparr>"
    by (simp add: Can_44_TCAN4x5x_SetControllerMode_def Let_def split_beta)
  then show ?thesis using busoff_modes [OF assms(1), of 0 "snd (Can_44_TCAN4x5x_SetControllerMode S D 0 CAN_T_STOP ?u)"] assms(2,4)
    by (simp add: supervision_stop_def same_modes_def on_drv_def)
qed

definition demo_stopped :: "(nat \<Rightarrow> 32 word) CanDrvSt CanIf_St" where
  "demo_stopped = (demo_if ((demo_drv (demo_mem 0))\<lparr>Can_44_TCAN4x5x_ControllerMode := \<lambda>_. CAN_T_STOP\<rparr>))\<lparr>CanIfControllerMode := \<lambda>_. CANIF_CS_UNINIT\<rparr>"

lemma demo_hooks_ok: "busoff_hooks_ok demo_if_sys"
  by (simp add: busoff_hooks_ok_def demo_if_sys_def opt_call_def keeps_modes_def same_modes_def on_drv_def)

theorem tcan_modes_agree_witness:
  "CanIfControllerMode demo_stopped 0 = CANIF_CS_UNINIT \<and>
   Can_44_TCAN4x5x_ControllerMode (ci_ext (snd (Can_44_TCAN4x5x_SetControllerMode demo_if_sys demo_drv_sys 0 CAN_T_START demo_stopped))) 0 = CAN_T_START"
proof
  show "CanIfControllerMode demo_stopped 0 = CANIF_CS_UNINIT" by (simp add: demo_stopped_def)
  let ?w = "snd (Can_44_TCAN4x5x_SetControllerMode demo_if_sys demo_drv_sys 0 CAN_T_START demo_stopped)"
  have r: "drv_reach demo_if_sys demo_drv_sys True ?w"
    by (intro drv_reach.mode drv_reach.start) (simp add: demo_stopped_def)
  have n: "CAN_44_TCAN4x5x_NUM_CONTROLLER_MAX demo_drv_sys = 1" "1 \<le> CanIfNumController demo_if_sys" "CAN_44_TCAN4x5x_DEV_ERROR_DETECT demo_drv_sys"
    by (simp_all add: demo_drv_sys_def demo_if_sys_def)
  have g: "drv_guard demo_drv_sys 3 0 (ci_ext demo_stopped) = (E_OK, set_api demo_drv_sys 3 (ci_ext demo_stopped))"
    by (simp add: drv_guard_def Can_44_TCAN4x5x_ReportDetUninit_def Can_44_TCAN4x5x_ReportDetParamController_def set_api_def demo_stopped_def demo_if_def demo_simps)
  have m: "Can_44_TCAN4x5x_ControllerMode (ci_ext demo_stopped) 0 = CAN_T_STOP" "\<not> Can_44_TCAN4x5x_WasCanTrcvInSleep (set_api demo_drv_sys 3 (ci_ext demo_stopped))"
    by (simp_all add: demo_stopped_def demo_if_def demo_drv_def set_api_def)
  have c: "\<not> CAN_44_TCAN4x5x_NUM_CONTROLLER_MAX demo_drv_sys = 0" "CanIfNumController demo_if_sys = 1" by (simp_all add: demo_drv_sys_def demo_if_sys_def)
  have "CanIfControllerMode ?w 0 = CANIF_CS_STARTED"
    by (simp add: Can_44_TCAN4x5x_SetControllerMode_def g Can_44_TCAN4x5x_ModeDetCheck_def m c request_mode_def Let_def
        Can_44_TCAN4x5x_MCAN_SetMode_def mode_done_def CanIf_ControllerModeIndication_def on_drv_def)
  then show "Can_44_TCAN4x5x_ControllerMode (ci_ext ?w) 0 = CAN_T_START" using tcan_modes_agree [OF r n(1,2) demo_hooks_ok n(3)] by simp
qed

subsection \<open>Nested requests to disable the interrupts\<close>

lemma guard_ready:
  "Can_44_TCAN4x5x_DriverState s \<noteq> CAN_44_TCAN4x5x_UNINIT \<Longrightarrow> i < CAN_44_TCAN4x5x_NUM_CONTROLLER_MAX D \<Longrightarrow> drv_guard D sid i s = (E_OK, set_api D sid s)"
  by (simp add: drv_guard_def Can_44_TCAN4x5x_ReportDetUninit_def Can_44_TCAN4x5x_ReportDetParamController_def set_api_def)

lemma set_api_frame [simp]:
  "drv_ext (set_api D sid s) = drv_ext s" "Can_44_TCAN4x5x_DriverState (set_api D sid s) = Can_44_TCAN4x5x_DriverState s"
  "Can_44_TCAN4x5x_InterruptDisableCount (set_api D sid s) = Can_44_TCAN4x5x_InterruptDisableCount s"
  by (simp_all add: set_api_def)

lemma disable_step:
  assumes "tcan_ok D reg wr" "Can_44_TCAN4x5x_DriverState s \<noteq> CAN_44_TCAN4x5x_UNINIT" "i < CAN_44_TCAN4x5x_NUM_CONTROLLER_MAX D"
  defines "c \<equiv> Can_44_TCAN4x5x_InterruptDisableCount s i" and "s' \<equiv> Can_44_TCAN4x5x_DisableControllerInterrupts D i s"
  shows "Can_44_TCAN4x5x_InterruptDisableCount s' i = u8 (int c + 1)" "Can_44_TCAN4x5x_DriverState s' = Can_44_TCAN4x5x_DriverState s"
    "drv_ext s' = (if c = 0 then wr REG_IE [0] (drv_ext s) else drv_ext s)"
  using guard_ready [OF assms(2,3)]
  by (simp_all add: s'_def c_def Can_44_TCAN4x5x_DisableControllerInterrupts_def Can_44_TCAN4x5x_MCAN_DisableAllInterrupts_def write_ext [OF assms(1)])

lemma enable_step:
  assumes "tcan_ok D reg wr" "Can_44_TCAN4x5x_DriverState s \<noteq> CAN_44_TCAN4x5x_UNINIT" "i < CAN_44_TCAN4x5x_NUM_CONTROLLER_MAX D"
  defines "c \<equiv> Can_44_TCAN4x5x_InterruptDisableCount s i" and "s' \<equiv> Can_44_TCAN4x5x_EnableControllerInterrupts D i s"
  shows "Can_44_TCAN4x5x_InterruptDisableCount s' i = c - 1" "Can_44_TCAN4x5x_DriverState s' = Can_44_TCAN4x5x_DriverState s"
    "drv_ext s' = (if c = 1 then wr REG_IE (ie_words D i) (drv_ext s) else drv_ext s)"
proof -
  have "length (ie_words D i) < 256" by (simp add: ie_words_def Let_def)
  note E = write_ext [OF assms(1) _ this, of REG_IE]
  show "Can_44_TCAN4x5x_InterruptDisableCount s' i = c - 1" "Can_44_TCAN4x5x_DriverState s' = Can_44_TCAN4x5x_DriverState s"
    "drv_ext s' = (if c = 1 then wr REG_IE (ie_words D i) (drv_ext s) else drv_ext s)"
    using guard_ready [OF assms(2,3)]
    by (auto simp: s'_def c_def Can_44_TCAN4x5x_EnableControllerInterrupts_def Can_44_TCAN4x5x_MCAN_EnableAllInterrupts_def Let_def E)
qed

lemma disable_many:
  assumes "tcan_ok D reg wr" "Can_44_TCAN4x5x_DriverState s \<noteq> CAN_44_TCAN4x5x_UNINIT" "i < CAN_44_TCAN4x5x_NUM_CONTROLLER_MAX D"
    "Can_44_TCAN4x5x_InterruptDisableCount s i = 0" "n < 256"
  defines "s' \<equiv> (Can_44_TCAN4x5x_DisableControllerInterrupts D i ^^ n) s"
  shows "Can_44_TCAN4x5x_InterruptDisableCount s' i = n \<and> Can_44_TCAN4x5x_DriverState s' = Can_44_TCAN4x5x_DriverState s \<and>
    drv_ext s' = (if n = 0 then drv_ext s else wr REG_IE [0] (drv_ext s))"
  using assms(5) unfolding s'_def
proof (induction n)
  case (Suc n)
  then have "u8 (int n + 1) = Suc n" by (simp add: u8_def nat_add_distrib)
  then show ?case using Suc assms(2) by (simp add: disable_step [OF assms(1) _ assms(3)])
qed (simp add: assms(4))

lemma enable_many:
  assumes "tcan_ok D reg wr" "Can_44_TCAN4x5x_DriverState s \<noteq> CAN_44_TCAN4x5x_UNINIT" "i < CAN_44_TCAN4x5x_NUM_CONTROLLER_MAX D"
    "Can_44_TCAN4x5x_InterruptDisableCount s i = c"
  defines "s' \<equiv> \<lambda>n. (Can_44_TCAN4x5x_EnableControllerInterrupts D i ^^ n) s"
  shows "Can_44_TCAN4x5x_InterruptDisableCount (s' n) i = c - n \<and> Can_44_TCAN4x5x_DriverState (s' n) = Can_44_TCAN4x5x_DriverState s \<and>
    drv_ext (s' n) = (if 0 < c \<and> c \<le> n then wr REG_IE (ie_words D i) (drv_ext s) else drv_ext s)"
  unfolding s'_def
proof (induction n)
  case (Suc n)
  then show ?case using assms(2) by (auto simp: enable_step [OF assms(1) _ assms(3)])
qed (auto simp: assms(4))

text \<open>
  C29. The interrupts of a controller may be disabled several times: as many enabling calls as disabling calls, up to 255 of each, switch the controller's interrupts off once
  and on once, and fewer leave them off. The counter has eight bits: after 256 disabling calls it is zero again, so that no number of enabling calls switches the interrupts
  on.
\<close>

theorem tcan_interrupt_nesting:
  assumes "tcan_ok D reg wr" "Can_44_TCAN4x5x_DriverState s \<noteq> CAN_44_TCAN4x5x_UNINIT" "i < CAN_44_TCAN4x5x_NUM_CONTROLLER_MAX D"
    "Can_44_TCAN4x5x_InterruptDisableCount s i = 0"
  shows "(0 < n \<and> n < 256 \<longrightarrow>
      drv_ext ((Can_44_TCAN4x5x_EnableControllerInterrupts D i ^^ m) ((Can_44_TCAN4x5x_DisableControllerInterrupts D i ^^ n) s)) =
        (if n \<le> m then wr REG_IE (ie_words D i) (wr REG_IE [0] (drv_ext s)) else wr REG_IE [0] (drv_ext s))) \<and>
    drv_ext ((Can_44_TCAN4x5x_EnableControllerInterrupts D i ^^ m) ((Can_44_TCAN4x5x_DisableControllerInterrupts D i ^^ 256) s)) = wr REG_IE [0] (drv_ext s)"
proof (intro conjI impI)
  let ?d = "\<lambda>n. (Can_44_TCAN4x5x_DisableControllerInterrupts D i ^^ n) s"
  note dis = disable_many [OF assms] and en = enable_many [OF assms(1) _ assms(3) refl]
  show "drv_ext ((Can_44_TCAN4x5x_EnableControllerInterrupts D i ^^ m) (?d n)) =
      (if n \<le> m then wr REG_IE (ie_words D i) (wr REG_IE [0] (drv_ext s)) else wr REG_IE [0] (drv_ext s))" if "0 < n \<and> n < 256"
    using dis [of n] en [of "?d n" m] that assms(2) by simp
  have "?d (Suc 255) = Can_44_TCAN4x5x_DisableControllerInterrupts D i (?d 255)" by (simp only: funpow.simps o_apply)
  moreover have "Suc 255 = 256" by simp
  ultimately have w: "?d 256 = Can_44_TCAN4x5x_DisableControllerInterrupts D i (?d 255)" by (simp only:)
  have "Can_44_TCAN4x5x_InterruptDisableCount (?d 256) i = 0" "Can_44_TCAN4x5x_DriverState (?d 256) = Can_44_TCAN4x5x_DriverState s"
    "drv_ext (?d 256) = wr REG_IE [0] (drv_ext s)"
    using dis [of 255] assms(2) disable_step [OF assms(1) _ assms(3), of "?d 255"] unfolding w by (simp_all add: u8_def)
  then show "drv_ext ((Can_44_TCAN4x5x_EnableControllerInterrupts D i ^^ m) (?d 256)) = wr REG_IE [0] (drv_ext s)"
    using en [of "?d 256" m] assms(2) by simp
qed

theorem tcan_interrupt_nesting_witness:
  "drv_ext ((Can_44_TCAN4x5x_EnableControllerInterrupts demo_drv_sys 0 ^^ 2) ((Can_44_TCAN4x5x_DisableControllerInterrupts demo_drv_sys 0 ^^ 2) (demo_drv (demo_mem 0)))) 0x105C = 2 \<and>
   drv_ext ((Can_44_TCAN4x5x_EnableControllerInterrupts demo_drv_sys 0 ^^ 256) ((Can_44_TCAN4x5x_DisableControllerInterrupts demo_drv_sys 0 ^^ 256) (demo_drv (demo_mem 0)))) 0x105C = 0"
proof -
  have h: "Can_44_TCAN4x5x_DriverState (demo_drv (demo_mem 0)) \<noteq> CAN_44_TCAN4x5x_UNINIT" "0 < CAN_44_TCAN4x5x_NUM_CONTROLLER_MAX demo_drv_sys"
    "Can_44_TCAN4x5x_InterruptDisableCount (demo_drv (demo_mem 0)) 0 = 0" by (simp_all add: demo_drv_def demo_drv_sys_def)
  note n = tcan_interrupt_nesting [OF demo_tcan_ok h]
  have ie: "ie_words demo_drv_sys 0 = [0, 0x3FFFFFFF, 2]" by (simp add: ie_words_def demo_drv_sys_def)
  show ?thesis using n [of 2 2] n [of 1 256] by (simp add: ie demo_store_def demo_mem_def del: funpow.simps)
qed

subsection \<open>A line that does not work\<close>

lemma SpiRW_refused:
  assumes "\<And>ch n x. Spi_SetupEB D ch n x = (E_NOT_OK, x)" "buf_tx_at (Can_44_TCAN4x5x_ExCntxt s aId) 0 + n < 60"
  shows "drv_ext (snd (Can_44_TCAN4x5x_SpiRW D aId a n cmd s)) = drv_ext s"
    and "Can_44_TCAN4x5x_SpiBuf (snd (Can_44_TCAN4x5x_SpiRW D aId a n cmd s)) aId (buf_rx_at c k) = Can_44_TCAN4x5x_SpiBuf s aId (buf_rx_at c k)"
  using assms(2) by (simp_all add: Can_44_TCAN4x5x_SpiRW_def Let_def split_beta assms(1) swap_words_def buf_rx_at_def buf_tx_at_def)

lemma refused_ext:
  assumes "\<And>ch n x. Spi_SetupEB D ch n x = (E_NOT_OK, x)"
  shows "drv_ext (read_reg D aId a n s) = drv_ext s" "drv_ext (read_verified D aId a n s) = drv_ext s" "drv_ext (write_reg D aId a ws s) = drv_ext s"
proof -
  have e: "drv_ext (snd (Can_44_TCAN4x5x_SpiRW D aId a n cmd s)) = drv_ext s" for a n cmd s
    by (simp add: Can_44_TCAN4x5x_SpiRW_def Let_def split_beta assms)
  then show "drv_ext (read_reg D aId a n s) = drv_ext s" "drv_ext (read_verified D aId a n s) = drv_ext s" "drv_ext (write_reg D aId a ws s) = drv_ext s"
    by (simp_all add: read_reg_def Can_44_TCAN4x5x_SpiRead_def read_verified_def Can_44_TCAN4x5x_VerifySpiRead_def write_reg_def Can_44_TCAN4x5x_SpiWrite_def Let_def split_beta)
qed

lemma refused_rx:
  assumes "\<And>ch n x. Spi_SetupEB D ch n x = (E_NOT_OK, x)" "Can_44_TCAN4x5x_ExCntxt s aId < 3" "a \<noteq> REG_NDAT1"
  shows "spi_rx aId 0 (read_verified D aId a 1 s) = spi_rx aId 0 s"
proof -
  have r: "spi_rx aId 0 (read_reg D aId a 1 s) = spi_rx aId 0 s" if "Can_44_TCAN4x5x_ExCntxt s aId < 3" for s
    using that SpiRW_refused(2) [OF assms(1), of s aId 1 a "Can_44_TCAN4x5x_ReadCmd s aId"]
    by (simp add: read_reg_def Can_44_TCAN4x5x_SpiRead_def spi_rx_def buf_tx_at_def)
  have "Can_44_TCAN4x5x_ExCntxt (read_reg D aId a 1 s) aId < 3" using assms(2) by simp
  then show ?thesis using assms(2,3) r [OF assms(2)] r [of "read_reg D aId a 1 s"] by (simp add: read_verified_def Can_44_TCAN4x5x_VerifySpiRead_def)
qed

lemma refused_write:
  fixes s :: "'x CanDrvSt"
  assumes ref: "\<And>ch n x. Spi_SetupEB D ch n x = (E_NOT_OK, x)" and c: "Can_44_TCAN4x5x_ExCntxt s (hth_ctrl Hth s) < 3"
    and h: "hth_ok D Hth s" and p: "pdu_ok D (hth_ctrl Hth s) pdu data"
    and stale: "\<not> bit (spi_rx (hth_ctrl Hth s) 0 s) (CanTxBufferIndex (hth_obj Hth s))"
  shows "\<exists>s'. Can_44_TCAN4x5x_Write D Hth pdu s = (CAN_OK, s') \<and> drv_ext s' = drv_ext s"
proof -
  define aId where "aId = hth_ctrl Hth s"
  define TxObj where "TxObj = hth_obj Hth s"
  define s0 where "s0 = (set_api D 6 s)\<lparr>Can_44_TCAN4x5x_HthMutex := (Can_44_TCAN4x5x_HthMutex s)(Hth - CanHRHobjectsCount (Can_44_TCAN4x5x_ConfigPtr s) := True)\<rparr>"
  obtain n where n: "CanHwObjectCount TxObj = Suc n" using h by (cases "CanHwObjectCount TxObj") (auto simp: hth_ok_def Let_def TxObj_def)
  have "spi_rx aId 0 s0 = spi_rx aId 0 s" by (simp add: spi_rx_def s0_def set_api_def)
  moreover have "Can_44_TCAN4x5x_ExCntxt s0 aId < 3" using c by (simp add: s0_def set_api_def aId_def)
  ultimately have "\<not> bit (spi_rx aId 0 (read_verified D aId REG_TXBRP 1 s0)) (CanTxBufferIndex TxObj)"
    using stale refused_rx [OF ref, of s0 aId REG_TXBRP] by (simp add: aId_def TxObj_def)
  then obtain s' where "Can_44_TCAN4x5x_MCAN_Write D aId pdu TxObj s0 = (CAN_OK, s')" "drv_ext s' = drv_ext s0"
    by (simp add: Can_44_TCAN4x5x_MCAN_Write_def n Let_def refused_ext [OF ref])
  then show ?thesis unfolding Write_unlocked [OF h p] aId_def [symmetric] TxObj_def [symmetric] s0_def [symmetric] by (simp add: s0_def)
qed

text \<open>
  C28. The driver does not look at the results of its SPI transfers when it writes a frame. When the SPI driver refuses every transfer and the words of an earlier transfer
  show a free transmit buffer, \<^verbatim>\<open>CanIf_Transmit\<close> accepts the frame and waits for its confirmation, although nothing has reached the controller.
\<close>

theorem tcan_lost_frame:
  fixes w :: "'x CanDrvSt CanIf_St"
  assumes drv: "\<And>h p w. CanTrcv_Write S h p w = (case Can_44_TCAN4x5x_Write D h p (ci_ext w) of (r, s) \<Rightarrow> (r, w\<lparr>ci_ext := s\<rparr>))"
    and pdu: "pdu = \<lparr>swPduHandle = i, can_id = CanIfPduCanIdMappingCfg w i, can_length = length data, can_sdu = Some data\<rparr>" "length data < 256"
    and if_ok: "i < CanIfPduMax S" "rbdPwrVM_Normal S w" "CanIfControllerMode w (CanIfCtrlId S) = CANIF_CS_STARTED" "LoHwHandle (CanIfPduHandleCfg S i) = Hth"
    and ref: "\<And>ch n x. Spi_SetupEB D ch n x = (E_NOT_OK, x)" and c: "Can_44_TCAN4x5x_ExCntxt (ci_ext w) (hth_ctrl Hth (ci_ext w)) < 3"
    and h: "hth_ok D Hth (ci_ext w)" and p: "pdu_ok D (hth_ctrl Hth (ci_ext w)) pdu data"
    and stale: "\<not> bit (spi_rx (hth_ctrl Hth (ci_ext w)) 0 (ci_ext w)) (CanTxBufferIndex (hth_obj Hth (ci_ext w)))"
  shows "\<exists>w'. CanIf_Transmit S i (Some (length data, Some data)) w = (E_OK, w') \<and> CanIfPendingTxConfirm w' i \<and> drv_ext (ci_ext w') = drv_ext (ci_ext w)"
proof -
  obtain s' where s': "Can_44_TCAN4x5x_Write D Hth pdu (ci_ext w) = (CAN_OK, s')" "drv_ext s' = drv_ext (ci_ext w)"
    using refused_write [OF ref c h p stale] by blast
  have "u8 (int (length data)) = length data" using pdu(2) by (simp add: u8_def)
  then show ?thesis using s' if_ok pdu(1) by (simp add: CanIf_Transmit_def drv)
qed

definition demo_dead_line :: "(nat \<Rightarrow> 32 word) CanDrvSys" where
  "demo_dead_line = demo_drv_sys\<lparr>Spi_SetupEB := \<lambda>ch n x. (E_NOT_OK, x)\<rparr>"

definition demo_dead_if :: "(nat \<Rightarrow> 32 word) CanDrvSt CanIf_Sys" where
  "demo_dead_if = demo_if_sys\<lparr>CanTrcv_Write := \<lambda>h p w. (case Can_44_TCAN4x5x_Write demo_dead_line h p (ci_ext w) of (r, s) \<Rightarrow> (r, w\<lparr>ci_ext := s\<rparr>))\<rparr>"

theorem tcan_lost_frame_witness:
  "\<exists>w'. CanIf_Transmit demo_dead_if 2 (Some (3, Some [1, 2, 3])) (demo_if (demo_drv (demo_mem 3))) = (E_OK, w') \<and>
     CanIfPendingTxConfirm w' 2 \<and> drv_ext (ci_ext w') = demo_mem 3"
proof -
  let ?w = "demo_if (demo_drv (demo_mem 3))"
  let ?p = "\<lparr>swPduHandle = 2, can_id = CanIfPduCanIdMappingCfg ?w 2, can_length = length [1, 2, 3 :: nat], can_sdu = Some [1, 2, 3]\<rparr>"
  have "tx_addr demo_dead_line a k s = tx_addr demo_drv_sys a k s" for a k s
    by (simp add: tx_addr_def elem_words_def Can_44_TCAN4x5x_MCAN_ROBufferSizeFD_def demo_dead_line_def)
  then have "hth_ok demo_dead_line 1 (ci_ext ?w)"
    using demo_hth_ok [of "demo_mem 3"] by (simp add: hth_ok_def demo_dead_line_def)
  moreover have "pdu_ok demo_dead_line (hth_ctrl 1 (ci_ext ?w)) ?p [1, 2, 3]"
    by (simp add: pdu_ok_def Can_44_TCAN4x5x_MCAN_ROBufferSizeFD_def demo_dead_line_def demo_drv_sys_def)
  moreover have "\<not> bit (spi_rx (hth_ctrl 1 (ci_ext ?w)) 0 (ci_ext ?w)) (CanTxBufferIndex (hth_obj 1 (ci_ext ?w)))"
    by (simp add: spi_rx_def demo_drv_def)
  moreover have "Can_44_TCAN4x5x_ExCntxt (ci_ext ?w) (hth_ctrl 1 (ci_ext ?w)) < 3" by (simp add: demo_drv_def)
  moreover have "CanTrcv_Write demo_dead_if h p w = (case Can_44_TCAN4x5x_Write demo_dead_line h p (ci_ext w) of (r, s) \<Rightarrow> (r, w\<lparr>ci_ext := s\<rparr>))" for h p w
    by (simp add: demo_dead_if_def)
  moreover have "Spi_SetupEB demo_dead_line ch n x = (E_NOT_OK, x)" for ch n x by (simp add: demo_dead_line_def)
  moreover have "2 < CanIfPduMax demo_dead_if" "rbdPwrVM_Normal demo_dead_if ?w" "CanIfControllerMode ?w (CanIfCtrlId demo_dead_if) = CANIF_CS_STARTED"
    "LoHwHandle (CanIfPduHandleCfg demo_dead_if 2) = 1" by (simp_all add: demo_dead_if_def demo_if_sys_def demo_if_def)
  ultimately show ?thesis using tcan_lost_frame [of demo_dead_if demo_dead_line ?p 2 ?w "[1, 2, 3]" 1] by (simp add: numeral_3_eq_3)
qed

lemma retry_turn_fails:
  assumes "\<And>ws x. fst (Spi_SyncTransmit D q ws x) = E_NOT_OK"
  shows "\<exists>b' x'. spi_retry_turn D q t r n (ret, k, b, x) = (E_NOT_OK, u8 (int k + 1), b', x')"
  using assms [of "map b [t..<t + n]" x] by (auto simp: spi_retry_turn_def spi_exchange_def Let_def split: prod.splits)

lemma retry_counts:
  assumes fail: "\<And>ws x. fst (Spi_SyncTransmit D q ws x) = E_NOT_OK" and "limit < 255" "k \<le> limit + 1"
  shows "\<exists>b' x'. while_option (\<lambda>(ret, k, _). ret = E_NOT_OK \<and> k \<le> limit) (spi_retry_turn D q t r n) (E_NOT_OK, k, b, x) = Some (E_NOT_OK, limit + 1, b', x')"
  using assms(3)
proof (induction "limit + 1 - k" arbitrary: k b x)
  case 0
  then show ?case by (subst while_option_unfold) simp
next
  case (Suc d)
  obtain b' x' where turn: "spi_retry_turn D q t r n (E_NOT_OK, k, b, x) = (E_NOT_OK, u8 (int k + 1), b', x')" using retry_turn_fails [OF fail] by blast
  have k: "u8 (int k + 1) = Suc k" "k \<le> limit" using Suc.hyps(2) assms(2) by (simp_all add: u8_def nat_add_distrib)
  show ?case by (subst while_option_unfold) (use Suc.hyps(1) [of "Suc k" b' x'] Suc.hyps(2) k turn in simp)
qed

text \<open>
  C30. Retries on a line where every transfer fails. With a limit below 255 a read or write makes one transfer more than the limit and then reports the failure; the counter
  has eight bits, so that with the limit 255 the loop never ends.
\<close>

theorem tcan_spi_retries:
  assumes fail: "\<And>ws x. fst (Spi_SyncTransmit D q ws x) = E_NOT_OK"
  shows "(limit < 255 \<longrightarrow> (\<exists>b' x'. spi_retry_loop D q t r n limit b x = Some (E_NOT_OK, limit + 1, b', x'))) \<and> spi_retry_loop D q t r n 255 b x = None"
proof (intro conjI impI)
  assume "limit < 255"
  moreover obtain b' x' where "spi_retry_turn D q t r n (E_OK, 0, b, x) = (E_NOT_OK, u8 (int 0 + 1), b', x')" using retry_turn_fails [OF fail] by blast
  ultimately show "\<exists>b' x'. spi_retry_loop D q t r n limit b x = Some (E_NOT_OK, limit + 1, b', x')"
    using retry_counts [OF fail, of limit 1 t r n b' x'] by (simp add: spi_retry_loop_def u8_def)
qed (rule spi_retry_loop_forever [OF fail])

theorem tcan_spi_retries_witness:
  "(\<exists>b' x'. spi_retry_loop (demo_drv_sys\<lparr>Spi_SyncTransmit := \<lambda>q ws x. (E_NOT_OK, ws, x)\<rparr>) 0 0 60 2 3 (\<lambda>_. 0) (demo_mem 0) = Some (E_NOT_OK, 4, b', x')) \<and>
   spi_retry_loop (demo_drv_sys\<lparr>Spi_SyncTransmit := \<lambda>q ws x. (E_NOT_OK, ws, x)\<rparr>) 0 0 60 2 255 (\<lambda>_. 0) (demo_mem 0) = None"
  using tcan_spi_retries [of "demo_drv_sys\<lparr>Spi_SyncTransmit := \<lambda>q ws x. (E_NOT_OK, ws, x)\<rparr>" 0 3 0 60 2 "\<lambda>_. 0" "demo_mem 0"] by simp

end
