(* ===== verification/TcanIcom.thy ===== *)
theory TcanIcom
  imports TcanModes
begin

text \<open>
  Pretended networking of the CAN driver, the code under \<^verbatim>\<open>CAN_44_TCAN4x5x_PUBLIC_ICOM_SUPPORT\<close>: a controller that receives only configured wake-up messages. Its variables
  are a record around the state of CanIf and the driver; \<^verbatim>\<open>EcuM\<close> and \<^verbatim>\<open>CanIf_CurrentIcomConfiguration\<close> are not in the repository and are functions of \<open>IcomSys\<close> on the whole
  state. The functions of \<open>TcanMcan\<close> and \<open>TcanCan\<close> that the switch changes are defined here a second time, with the prefix \<open>icom\<close>, as the switch makes them.
\<close>

unbundle bit_operations_syntax

subsection \<open>Configuration and state\<close>

datatype Can_44_TCAN4x5x_IcomSignalOperationType =
    CAN_44_TCAN4x5x_ICOM_SIG_OP_AND | CAN_44_TCAN4x5x_ICOM_SIG_OP_EQUAL | CAN_44_TCAN4x5x_ICOM_SIG_OP_GREATER
  | CAN_44_TCAN4x5x_ICOM_SIG_OP_SMALLER | CAN_44_TCAN4x5x_ICOM_SIG_OP_XOR

record Can_44_TCAN4x5x_IcomRxMessageSignalConfigType =
  CanIcomSignalMask :: "64 word"
  CanIcomSignalOperation :: Can_44_TCAN4x5x_IcomSignalOperationType
  CanIcomSignalValue :: "64 word"

record Can_44_TCAN4x5x_IcomRxMessageType =
  CanIcomCounterValue :: nat
  CanRxObjFilterIComConfigPtr :: "nat \<Rightarrow> Can_44_TCAN4x5x_RxObjFilterConfigType"
  CanIcomPayloadLengthError :: bool
  CanIcomRxMessageSignalConfig_size :: nat
  CanIcomRxMessageSignalConfigPtr :: "nat \<Rightarrow> Can_44_TCAN4x5x_IcomRxMessageSignalConfigType"

record Can_44_TCAN4x5x_IcomConfigType =
  canIcomWakeOnBusOff :: bool
  canIcomRxMessages_size :: nat
  CanIcomRxMessagePtr :: "nat \<Rightarrow> Can_44_TCAN4x5x_IcomRxMessageType"

record 'x IcomSt =
  Can_44_TCAN4x5x_IcomWakeup :: "nat \<Rightarrow> bool"
  Can_44_TCAN4x5x_GComConfigId :: "nat \<Rightarrow> nat"
  Can_44_TCAN4x5x_IcomMsgCounter :: "nat \<Rightarrow> nat \<Rightarrow> nat"
  icom_if :: "'x CanDrvSt CanIf_St"

record 'x IcomSys =
  CAN_44_TCAN4x5x_ICOM_COUNTER_VALUE :: bool
  CAN_44_TCAN4x5x_ICOM_RX_MESSAGE_SINAL_CONFIGURATION :: bool
  CAN_44_TCAN4x5x_ICOM_CONFIG_MAX :: nat
  CAN_44_TCAN4x5x_ICOM_RX_MESSAGE_TOTAL :: nat
  Can_44_TCAN4x5x_Icomconfig :: "nat \<Rightarrow> Can_44_TCAN4x5x_IcomConfigType"
  CanWakeupRef :: "nat \<Rightarrow> nat"
  EcuM_CheckWakeup :: "nat \<Rightarrow> 'x IcomSt \<Rightarrow> 'x IcomSt"
  EcuM_SetWakeupEvent :: "nat \<Rightarrow> 'x IcomSt \<Rightarrow> 'x IcomSt"
  CanIf_CurrentIcomConfiguration :: "nat \<Rightarrow> nat \<Rightarrow> bool \<Rightarrow> 'x IcomSt \<Rightarrow> 'x IcomSt"

definition on_icom :: "('x CanDrvSt \<Rightarrow> 'x CanDrvSt) \<Rightarrow> 'x IcomSt \<Rightarrow> 'x IcomSt" where
  "on_icom f t = t\<lparr>icom_if := on_drv f (icom_if t)\<rparr>"

subsection \<open>Wake-up messages\<close>

definition signal_matches :: "Can_44_TCAN4x5x_IcomSignalOperationType \<Rightarrow> 64 word \<Rightarrow> 64 word \<Rightarrow> bool" where
  "signal_matches operation dat v =
     (case operation of
        CAN_44_TCAN4x5x_ICOM_SIG_OP_AND \<Rightarrow> dat AND v \<noteq> 0
      | CAN_44_TCAN4x5x_ICOM_SIG_OP_EQUAL \<Rightarrow> dat = v
      | CAN_44_TCAN4x5x_ICOM_SIG_OP_GREATER \<Rightarrow> dat > v
      | CAN_44_TCAN4x5x_ICOM_SIG_OP_SMALLER \<Rightarrow> dat < v
      | CAN_44_TCAN4x5x_ICOM_SIG_OP_XOR \<Rightarrow> dat XOR v \<noteq> 0)"

text \<open>The loop over the signals of a message advances the pointer to the operations; mask and value have been read before the loop, from the first signal.\<close>

fun signal_loop :: "(nat \<Rightarrow> Can_44_TCAN4x5x_IcomRxMessageSignalConfigType) \<Rightarrow> 64 word \<Rightarrow> 64 word \<Rightarrow> nat \<Rightarrow> nat \<Rightarrow> bool" where
  "signal_loop sig dat v 0 j = False"
| "signal_loop sig dat v (Suc n) j = (signal_matches (CanIcomSignalOperation (sig j)) dat v \<or> signal_loop sig dat v n (Suc j))"

definition wake :: "'x IcomSys \<Rightarrow> nat \<Rightarrow> 'x IcomSt \<Rightarrow> 'x IcomSt" where
  "wake I aId t = EcuM_CheckWakeup I (CanWakeupRef I aId) (t\<lparr>Can_44_TCAN4x5x_IcomWakeup := (Can_44_TCAN4x5x_IcomWakeup t)(aId := True)\<rparr>)"

definition count_message :: "'x IcomSys \<Rightarrow> nat \<Rightarrow> nat \<Rightarrow> nat \<Rightarrow> 'x IcomSt \<Rightarrow> 'x IcomSt" where
  "count_message I aId LucCount limit t =
     (let n = u8 (int (Can_44_TCAN4x5x_IcomMsgCounter t aId LucCount) + 1);
          set = (\<lambda>n t. t\<lparr>Can_44_TCAN4x5x_IcomMsgCounter := (Can_44_TCAN4x5x_IcomMsgCounter t)(aId := (Can_44_TCAN4x5x_IcomMsgCounter t aId)(LucCount := n))\<rparr>)
      in if limit \<le> n then wake I aId (set 0 t) else set n t)"

definition msg_bytes :: "Can_44_TCAN4x5x_MsgInfoType \<Rightarrow> nat list" where
  "msg_bytes m = (case canMsgDataPtr m of None \<Rightarrow> [] | Some d \<Rightarrow> d)"

text \<open>
  The loop over the messages of the configuration. \<open>p\<close> is \<^verbatim>\<open>LpIcomRxmessagePtr\<close>, which a payload error does not advance, and \<open>dat\<close> keeps its value from one message to
  the next.
\<close>

fun icom_loop ::
  "'x IcomSys \<Rightarrow> nat \<Rightarrow> Can_44_TCAN4x5x_MsgInfoType \<Rightarrow> Can_44_TCAN4x5x_IcomConfigType \<Rightarrow> nat \<Rightarrow> nat \<Rightarrow> nat \<Rightarrow> 64 word \<Rightarrow> 'x IcomSt \<Rightarrow> bool \<times> 'x IcomSt" where
  "icom_loop I aId m C 0 LucCount p dat t = (False, t)"
| "icom_loop I aId m C (Suc n) LucCount p dat t =
     (let M = CanIcomRxMessagePtr C p in
      if CanIcomPayloadLengthError M \<and> canMsgLength m \<noteq> 8
      then icom_loop I aId m C n (Suc LucCount) p dat (wake I aId t)
      else let t = (if CAN_44_TCAN4x5x_ICOM_COUNTER_VALUE I \<and> canID m = CanHwFilterCode (CanRxObjFilterIComConfigPtr M LucCount)
                    then count_message I aId LucCount (CanIcomCounterValue M) t else t);
               sig = CanIcomRxMessageSignalConfigPtr M;
               on = CAN_44_TCAN4x5x_ICOM_RX_MESSAGE_SINAL_CONFIGURATION I;
               dat = (if on then fold (\<lambda>b d. push_bit 8 d OR of_nat b) (msg_bytes m) dat AND CanIcomSignalMask (sig 0) else dat)
           in if on \<and> signal_loop sig dat (CanIcomSignalValue (sig 0)) (CanIcomRxMessageSignalConfig_size M) 0
              then (True, t)
              else icom_loop I aId m C n (Suc LucCount) (Suc p) dat t)"

definition Can_44_TCAN4x5x_ProcessIcomRx :: "'x IcomSys \<Rightarrow> nat \<Rightarrow> Can_44_TCAN4x5x_MsgInfoType \<Rightarrow> 'x IcomSt \<Rightarrow> Std_ReturnType \<times> 'x IcomSt" where
  "Can_44_TCAN4x5x_ProcessIcomRx I aId m t =
     (let C = Can_44_TCAN4x5x_Icomconfig I (Can_44_TCAN4x5x_GComConfigId t aId - 1);
          (CALL_Notification, t) = icom_loop I aId m C (canIcomRxMessages_size C) 0 0 0 t
      in if CALL_Notification then (E_OK, t\<lparr>Can_44_TCAN4x5x_IcomWakeup := (Can_44_TCAN4x5x_IcomWakeup t)(aId := True)\<rparr>) else (E_NOT_OK, t))"

definition icom_RxNotification ::
  "'x CanDrvSt CanIf_Sys \<Rightarrow> 'x CanDrvSys \<Rightarrow> 'x IcomSys \<Rightarrow> nat \<Rightarrow> Can_44_TCAN4x5x_MsgInfoType \<Rightarrow> 'x IcomSt \<Rightarrow> 'x IcomSt" where
  "icom_RxNotification S D I aId m t =
     (let (valid, t) = (if Can_44_TCAN4x5x_GComConfigId t aId = 0 then (True, t) else map_prod (\<lambda>r. r = E_OK) (\<lambda>t. t) (Can_44_TCAN4x5x_ProcessIcomRx I aId m t));
          C = CanControllerConfiguration (Can_44_TCAN4x5x_DrvConfigPtr (ci_ext (icom_if t))) aId;
          Hoh = (if canMsgID_ext m then CanFilterIdxToRxObjExtended C (canFilterIndex m)
                 else if Can_44_TCAN4x5x_GComConfigId t aId \<noteq> 0 then 0 else CanFilterIdxToRxObjStandard C (canFilterIndex m));
          CanId = (if \<not> canMsgID_ext m then canID m else canID m OR CAN_44_TCAN4x5x_EXTD_ID_MASK);
          CanId = (if CanFDBaudRateEnabled (Can_44_TCAN4x5x_ControllerSetting_PC D aId) \<and> canMessageFormat m = 1
                   then CanId OR CAN_44_TCAN4x5x_FRAME_TYPE_MASK else CanId)
      in if \<not> valid then t
         else let (ok, t) = (case LPDU_RECEIVE_CALLOUT_FUNCTION D of
                               None \<Rightarrow> (True, t)
                             | Some f \<Rightarrow> (case f Hoh CanId (canMsgDataPtr m) (drv_ext (ci_ext (icom_if t))) of (ok, x) \<Rightarrow> (ok, on_icom (\<lambda>s. s\<lparr>drv_ext := x\<rparr>) t)))
              in if ok
                 then let t = t\<lparr>icom_if := CanIf_RxIndication S (Some CanId) (Some \<lparr>rx_data = msg_bytes m, rx_SduTimeStamp = canTimeStamp m\<rparr>) (icom_if t)\<rparr>
                      in if Can_44_TCAN4x5x_GComConfigId t aId \<noteq> 0 \<and> Can_44_TCAN4x5x_IcomWakeup t aId then EcuM_CheckWakeup I (CanWakeupRef I aId) t else t
                 else t)"

subsection \<open>Services\<close>

definition icom_CheckWakeup :: "'x CanDrvSys \<Rightarrow> 'x IcomSys \<Rightarrow> nat \<Rightarrow> 'x IcomSt \<Rightarrow> Can_ReturnType \<times> 'x IcomSt" where
  "icom_CheckWakeup D I Controller t =
     (let (Status, s) = drv_guard D 0x0b Controller (ci_ext (icom_if t)); t = on_icom (\<lambda>_. s) t
      in if Status = E_OK \<and> Can_44_TCAN4x5x_IcomWakeup t Controller
         then (CAN_OK, EcuM_SetWakeupEvent I (CanWakeupRef I Controller)
                 (t\<lparr>Can_44_TCAN4x5x_IcomWakeup := (Can_44_TCAN4x5x_IcomWakeup t)(Controller := False)\<rparr>))
         else (CAN_NOT_OK, t))"

definition icom_Write :: "'x CanDrvSys \<Rightarrow> nat \<Rightarrow> Can_PduType \<Rightarrow> 'x IcomSt \<Rightarrow> Can_ReturnType \<times> 'x IcomSt" where
  "icom_Write D Hth PduInfo t =
     (let s = set_api D 6 (ci_ext (icom_if t));
          (Status, s) = (if CAN_44_TCAN4x5x_DEV_ERROR_DETECT D
                         then let (Status, s) = Can_44_TCAN4x5x_ReportDetUninit D 6 s
                              in if Status = E_OK then Can_44_TCAN4x5x_WriteDetCheck D Hth PduInfo s else (Status, s)
                         else (E_OK, s));
          C = Can_44_TCAN4x5x_ConfigPtr s;
          h = u16 (int Hth - int (CanHRHobjectsCount C))
      in if Status = E_OK \<and> \<not> Can_44_TCAN4x5x_HthMutex s h \<and> Can_44_TCAN4x5x_GComConfigId t (CanCtrlId (CanHTHMappingConfigPtr C h)) \<noteq> 0
         then (CAN_BUSY, on_icom (\<lambda>_. s\<lparr>Can_44_TCAN4x5x_HthMutex := (Can_44_TCAN4x5x_HthMutex s)(h := True)\<rparr>) t)
         else case Can_44_TCAN4x5x_Write D Hth PduInfo (ci_ext (icom_if t)) of (r, s) \<Rightarrow> (r, on_icom (\<lambda>_. s) t))"

fun set_idle :: "'x CanDrvSys \<Rightarrow> nat \<Rightarrow> nat \<Rightarrow> 'x CanDrvSt \<Rightarrow> 'x CanDrvSt" where
  "set_idle D Controller 0 s = s"
| "set_idle D Controller (Suc timeout) s =
     (let (r, s) = Can_44_TCAN4x5x_MCAN_SetMode D Controller CAN_44_TCAN4x5x_STATE_IDLE s
      in if r = CAN_BUSY then set_idle D Controller timeout s else s)"

text \<open>The message RAM and the filters for a configuration, and the controller after the request to stop.\<close>

definition icom_setup ::
  "'x CanDrvSys \<Rightarrow> 'x IcomSys \<Rightarrow> nat \<Rightarrow> nat \<Rightarrow> 'x CanDrvSt \<Rightarrow>
     Can_44_TCAN4x5x_MsgRamConfigType \<times> (nat \<Rightarrow> Can_44_TCAN4x5x_RxObjFilterConfigType) \<times> nat \<times> 'x CanDrvSt" where
  "icom_setup D I Controller ConfigurationId s =
     (let C = CanControllerConfiguration (Can_44_TCAN4x5x_ConfigPtr s) Controller;
          N = Can_44_TCAN4x5x_Icomconfig I (ConfigurationId - 1);
          n = canIcomRxMessages_size N
      in if ConfigurationId \<noteq> 0
         then (\<lparr>CanStdandardIDFiltersCount = n, CanExtendedIDFiltersCount = 0, CanFifo0BufferCount = n, CanFifo1BufferCount = 0,
                CanDedicatedRxBufferCount = 0, CanTxBufferCount = 0\<rparr>,
               CanRxObjFilterIComConfigPtr (CanIcomRxMessagePtr N 0), n, set_idle D Controller CAN_44_TCAN4x5x_INIT_WAIT_TIMEOUT s)
         else (CanMsgRamConfig C, CanRxObjFilterConfigPtr C,
               u8 (int (CanStdandardIDFiltersCount (CanMsgRamConfig C)) + int (CanExtendedIDFiltersCount (CanMsgRamConfig C))),
               snd (Can_44_TCAN4x5x_MCAN_SetMode D Controller CAN_44_TCAN4x5x_STATE_IDLE s)))"

definition clear_counters :: "'x IcomSys \<Rightarrow> nat \<Rightarrow> 'x IcomSt \<Rightarrow> 'x IcomSt" where
  "clear_counters I Controller t =
     (if CAN_44_TCAN4x5x_ICOM_COUNTER_VALUE I
      then t\<lparr>Can_44_TCAN4x5x_IcomMsgCounter := (Can_44_TCAN4x5x_IcomMsgCounter t)
               (Controller := (\<lambda>i. if i < CAN_44_TCAN4x5x_ICOM_RX_MESSAGE_TOTAL I then 0 else Can_44_TCAN4x5x_IcomMsgCounter t Controller i))\<rparr>
      else t)"

definition Can_44_TCAN4x5x_SetIcomConfiguration :: "'x CanDrvSys \<Rightarrow> 'x IcomSys \<Rightarrow> nat \<Rightarrow> nat \<Rightarrow> 'x IcomSt \<Rightarrow> Std_ReturnType \<times> 'x IcomSt" where
  "Can_44_TCAN4x5x_SetIcomConfiguration D I Controller ConfigurationId t =
     (if CAN_44_TCAN4x5x_DEV_ERROR_DETECT D \<and> CAN_44_TCAN4x5x_ICOM_CONFIG_MAX I < ConfigurationId
      then (E_NOT_OK, on_icom (drv_report D 0x1f 0x2f) t)
      else let (M, F, k, s) = icom_setup D I Controller ConfigurationId (ci_ext (icom_if t));
               s = Can_44_TCAN4x5x_MCAN_MessageRAM_Init D Controller M s;
               s = Can_44_TCAN4x5x_MCAN_ConfigureGlobalFilters D Controller F k s;
               (r, s) = Can_44_TCAN4x5x_MCAN_SetMode D Controller CAN_44_TCAN4x5x_STATE_RUNNING s;
               t = on_icom (\<lambda>_. s) t
           in (E_OK,
               if r = CAN_OK
               then CanIf_CurrentIcomConfiguration I Controller ConfigurationId True
                      (clear_counters I Controller (t\<lparr>Can_44_TCAN4x5x_GComConfigId := (Can_44_TCAN4x5x_GComConfigId t)(Controller := ConfigurationId)\<rparr>))
               else CanIf_CurrentIcomConfiguration I Controller ConfigurationId False t))"

subsection \<open>What goes wrong\<close>

text \<open>Every signal of a message is compared with the mask and the value of the first one.\<close>

lemma signal_loop_iff: "signal_loop sig dat v n j \<longleftrightarrow> (\<exists>k < n. signal_matches (CanIcomSignalOperation (sig (j + k))) dat v)"
proof (induction n arbitrary: j)
  case (Suc n)
  have "(\<exists>k < Suc n. signal_matches (CanIcomSignalOperation (sig (j + k))) dat v) \<longleftrightarrow>
      signal_matches (CanIcomSignalOperation (sig j)) dat v \<or> (\<exists>k < n. signal_matches (CanIcomSignalOperation (sig (Suc j + k))) dat v)"
    using Ex_less_Suc2 [of n "\<lambda>k. signal_matches (CanIcomSignalOperation (sig (j + k))) dat v"] by simp
  then show ?case using Suc by simp
qed simp

lemma icom_two_signals:
  fixes m :: Can_44_TCAN4x5x_MsgInfoType
  assumes "CAN_44_TCAN4x5x_ICOM_RX_MESSAGE_SINAL_CONFIGURATION I" "\<not> CAN_44_TCAN4x5x_ICOM_COUNTER_VALUE I"
    and C: "Can_44_TCAN4x5x_Icomconfig I (Can_44_TCAN4x5x_GComConfigId t aId - 1) = C" "canIcomRxMessages_size C = 1"
    and M: "CanIcomRxMessagePtr C 0 = M" "\<not> CanIcomPayloadLengthError M"
  defines "dat \<equiv> fold (\<lambda>b d. push_bit 8 d OR of_nat b) (msg_bytes m) 0 AND CanIcomSignalMask (CanIcomRxMessageSignalConfigPtr M 0)"
  shows "fst (Can_44_TCAN4x5x_ProcessIcomRx I aId m t) = E_OK \<longleftrightarrow>
    (\<exists>k < CanIcomRxMessageSignalConfig_size M.
       signal_matches (CanIcomSignalOperation (CanIcomRxMessageSignalConfigPtr M k)) dat (CanIcomSignalValue (CanIcomRxMessageSignalConfigPtr M 0)))"
  using assms(1,2) M C(2) unfolding Can_44_TCAN4x5x_ProcessIcomRx_def Let_def C(1) by (simp add: Let_def signal_loop_iff dat_def [symmetric])

text \<open>A switch is reported as successful for every controller, whether or not the controller could be stopped before its message RAM was changed.\<close>

lemma icom_switch_reported:
  assumes "Controller < CAN_44_TCAN4x5x_NUM_CONTROLLER_MAX D" "ConfigurationId \<le> CAN_44_TCAN4x5x_ICOM_CONFIG_MAX I"
  shows "\<exists>t'. Can_44_TCAN4x5x_SetIcomConfiguration D I Controller ConfigurationId t = (E_OK, CanIf_CurrentIcomConfiguration I Controller ConfigurationId True t') \<and>
    Can_44_TCAN4x5x_GComConfigId t' Controller = ConfigurationId"
proof -
  have r: "\<exists>s'. Can_44_TCAN4x5x_MCAN_SetMode D Controller CAN_44_TCAN4x5x_STATE_RUNNING s = (CAN_OK, s')" for s
    using assms(1) by (simp add: Can_44_TCAN4x5x_MCAN_SetMode_def)
  obtain M F k s where b: "icom_setup D I Controller ConfigurationId (ci_ext (icom_if t)) = (M, F, k, s)" by (metis prod_cases4)
  obtain s' where s': "Can_44_TCAN4x5x_MCAN_SetMode D Controller CAN_44_TCAN4x5x_STATE_RUNNING
      (Can_44_TCAN4x5x_MCAN_ConfigureGlobalFilters D Controller F k (Can_44_TCAN4x5x_MCAN_MessageRAM_Init D Controller M s)) = (CAN_OK, s')" using r by blast
  define t' where "t' = clear_counters I Controller ((on_icom (\<lambda>_. s') t)\<lparr>Can_44_TCAN4x5x_GComConfigId :=
      (Can_44_TCAN4x5x_GComConfigId (on_icom (\<lambda>_. s') t))(Controller := ConfigurationId)\<rparr>)"
  have "Can_44_TCAN4x5x_SetIcomConfiguration D I Controller ConfigurationId t = (E_OK, CanIf_CurrentIcomConfiguration I Controller ConfigurationId True t')"
    using assms(2) by (simp add: Can_44_TCAN4x5x_SetIcomConfiguration_def Let_def b s' not_less t'_def)
  moreover have "Can_44_TCAN4x5x_GComConfigId t' Controller = ConfigurationId" by (simp add: t'_def clear_counters_def)
  ultimately show ?thesis by blast
qed

text \<open>Write requests for one handle, and what they return.\<close>

fun icom_writes :: "'x CanDrvSys \<Rightarrow> nat \<Rightarrow> Can_PduType list \<Rightarrow> 'x IcomSt \<Rightarrow> Can_ReturnType list" where
  "icom_writes D Hth [] t = []"
| "icom_writes D Hth (p # ps) t = (case icom_Write D Hth p t of (r, t) \<Rightarrow> r # icom_writes D Hth ps t)"

definition locked :: "nat \<Rightarrow> 'x IcomSt \<Rightarrow> bool" where
  "locked Hth t \<longleftrightarrow> (let s = ci_ext (icom_if t) in Can_44_TCAN4x5x_HthMutex s (u16 (int Hth - int (CanHRHobjectsCount (Can_44_TCAN4x5x_ConfigPtr s)))))"

lemma WriteDetCheck_frame [simp]:
  "Can_44_TCAN4x5x_HthMutex (snd (Can_44_TCAN4x5x_WriteDetCheck D Hth p s)) = Can_44_TCAN4x5x_HthMutex s"
  "Can_44_TCAN4x5x_ConfigPtr (snd (Can_44_TCAN4x5x_WriteDetCheck D Hth p s)) = Can_44_TCAN4x5x_ConfigPtr s"
  "Can_44_TCAN4x5x_HthMutex (snd (Can_44_TCAN4x5x_ReportDetUninit D sid s)) = Can_44_TCAN4x5x_HthMutex s"
  "Can_44_TCAN4x5x_ConfigPtr (snd (Can_44_TCAN4x5x_ReportDetUninit D sid s)) = Can_44_TCAN4x5x_ConfigPtr s"
  "Can_44_TCAN4x5x_HthMutex (set_api D sid s) = Can_44_TCAN4x5x_HthMutex s" "Can_44_TCAN4x5x_ConfigPtr (set_api D sid s) = Can_44_TCAN4x5x_ConfigPtr s"
  by (simp_all add: Can_44_TCAN4x5x_WriteDetCheck_def Can_44_TCAN4x5x_ReportDetUninit_def set_api_def Let_def)

lemma locked_write:
  assumes "locked Hth t"
  shows "fst (icom_Write D Hth p t) \<noteq> CAN_OK \<and> locked Hth (snd (icom_Write D Hth p t))"
  using assms by (auto simp: locked_def icom_Write_def Can_44_TCAN4x5x_Write_def Let_def split_beta on_icom_def on_drv_def)

lemma locked_writes: "locked Hth t \<Longrightarrow> CAN_OK \<notin> set (icom_writes D Hth ps t)"
proof (induction ps arbitrary: t)
  case (Cons p ps)
  then show ?case using locked_write [OF Cons.prems, of D p] by (cases "icom_Write D Hth p t") auto
qed simp

text \<open>
  A write request for a controller in pretended networking is answered \<open>CAN_BUSY\<close> and leaves the lock of its handle set. Whatever configuration is chosen afterwards, also none,
  no later request for this handle is accepted.
\<close>

theorem icom_handle_stuck:
  assumes h: "hth_ok D Hth (ci_ext (icom_if t))" and p: "pdu_ok D (hth_ctrl Hth (ci_ext (icom_if t))) pdu data"
    and icom: "Can_44_TCAN4x5x_GComConfigId t (hth_ctrl Hth (ci_ext (icom_if t))) \<noteq> 0"
  shows "\<exists>t'. icom_Write D Hth pdu t = (CAN_BUSY, t') \<and> (\<forall>g ps. CAN_OK \<notin> set (icom_writes D Hth ps (t'\<lparr>Can_44_TCAN4x5x_GComConfigId := g\<rparr>)))"
proof -
  define s where "s = ci_ext (icom_if t)"
  define i where "i = Hth - CanHRHobjectsCount (Can_44_TCAN4x5x_ConfigPtr s)"
  have H: "Can_44_TCAN4x5x_DriverState s \<noteq> 0" "\<not> Can_44_TCAN4x5x_HthMutex s i" "u16 (int Hth - int (CanHRHobjectsCount (Can_44_TCAN4x5x_ConfigPtr s))) = i"
    "CanCtrlId (CanHTHMappingConfigPtr (Can_44_TCAN4x5x_ConfigPtr s) i) = hth_ctrl Hth s"
    using h by (auto simp: hth_ok_def Let_def i_def s_def u16_def nat_diff_distrib hth_ctrl_def)
  have "hth_ok D Hth (set_api D 6 s)" using h unfolding s_def
    by (auto simp: hth_ok_def hth_ctrl_def hth_obj_def Let_def set_api_def read_cmd_ok_def tx_addr_def)
  moreover have "pdu_ok D (hth_ctrl Hth (set_api D 6 s)) pdu data" using p by (simp add: hth_ctrl_def set_api_def s_def)
  ultimately have det: "Can_44_TCAN4x5x_WriteDetCheck D Hth pdu (set_api D 6 s) = (E_OK, set_api D 6 s)" by (rule WriteDetCheck_ok)
  have u: "Can_44_TCAN4x5x_ReportDetUninit D 6 (set_api D 6 s) = (E_OK, set_api D 6 s)" using H(1) by (simp add: Can_44_TCAN4x5x_ReportDetUninit_def)
  let ?t = "on_icom (\<lambda>_. (set_api D 6 s)\<lparr>Can_44_TCAN4x5x_HthMutex := (Can_44_TCAN4x5x_HthMutex (set_api D 6 s))(i := True)\<rparr>) t"
  have "icom_Write D Hth pdu t = (CAN_BUSY, ?t)"
    using H(2-4) icom unfolding icom_Write_def Let_def s_def [symmetric] by (simp add: det u)
  moreover have "locked Hth (?t\<lparr>Can_44_TCAN4x5x_GComConfigId := g\<rparr>)" for g by (simp add: locked_def on_icom_def on_drv_def H(3))
  ultimately show ?thesis using locked_writes by blast
qed

end
