(* ===== verification/Spec2Isabelle.thy ===== *)
theory Spec2Isabelle
  imports CanTp_Props UdsProps AnchorRound ImcStation ImcSafe Imc TxAncStatus XlGateway XlVmcal CanSpi TcanLink TcanIcom
begin

text \<open>
  The repository builds a virtual electronic control unit: the CAN communication stack of a CC2642
  anchor node (\<^verbatim>\<open>src/Software_CC2642\<close>), an SPI controller that was added to the QEMU emulator to connect it
  (\<^verbatim>\<open>src/source_QEMU\<close>), and host tools (\<^verbatim>\<open>src/source_XL-Driver\<close>) that take it to a CAN bus. This library models the communication stack, the added
  controller and the tools, and proves what makes them correct.

  \<^bold>\<open>The program and its parts.\<close> An application message goes down from \<^verbatim>\<open>rbdAnchorComTp\<close> (message
  buffers, queues) through the PDU router \<^verbatim>\<open>PduR\<close> to the transport protocol \<^verbatim>\<open>CanTp\<close> (ISO 15765-2),
  which cuts it into frames and hands them to the CAN interface \<^verbatim>\<open>CanIf\<close>, which hands them to the driver. Received frames
  take the way back. CanTp asks its upper layer for data and room by callbacks, is told of every transmitted frame by
  CanIf, and makes progress and measures time in a cyclic main function. \<^verbatim>\<open>CanNm\<close> decides when the network
  may sleep. The SPI controller collects the bytes a guest writes into frames; the host tool puts their payload on a real bus.

  \<^bold>\<open>Theories and sources.\<close>
  \<^item> \<open>Prelude\<close>: C integers as natural numbers with explicit narrowing (\<open>u8\<close>, \<open>u16\<close>, \<open>u32\<close>, \<open>ubits\<close>), memory
    as a function, the AUTOSAR return types, and two interfaces shared by several components: a machine with an invariant and a bounded
    queue.
  \<^item> \<open>CanTp_Model\<close>, \<open>CanTp_Queue\<close>, \<open>CanTp_Frame\<close>, \<open>CanTp_Tx\<close>, \<open>CanTp_Rx\<close>, \<open>CanTp_Api\<close>: \<^verbatim>\<open>CanTp_Types.h\<close>, \<^verbatim>\<open>CanTp_Prv.h\<close>,
    \<^verbatim>\<open>CanTp_Prv.c\<close> and \<^verbatim>\<open>CanTp.c\<close>, one definition per C function with its name. The variables of the module are the
    record \<open>CanTp_GlobalType\<close>; what it is compiled and linked with is the record \<open>CanTp_Sys\<close>.
  \<^item> \<open>CanTp_Reassembly\<close>, \<open>CanTp_Segmentation\<close>, \<open>CanTp_Reception\<close>, \<open>CanTp_Transmission\<close>, \<open>CanTp_Session\<close>: the protocol over many
    frames, proved against the interfaces \<open>tp_sink\<close> (an upper layer that takes bytes), \<open>tp_source\<close> (one that has bytes) and
    \<open>tp_receiver\<close> (with a lower layer that takes flow control).
  \<^item> \<open>CanTp_Channels\<close>: what a piece of code that works for one channel can touch, and time-outs. \<open>CanTp_Steps\<close>: the module as a
    transition system of arbitrary service calls, with the invariant of its reachable states. \<open>CanTp_Props\<close>: the properties
    of the module on its own.
  \<^item> \<open>PduR\<close>: \<^verbatim>\<open>PduR.c\<close>, \<^verbatim>\<open>PduR_Tp.c\<close>, \<^verbatim>\<open>PduR_CanTp.h\<close>. \<open>CanIf\<close>: \<^verbatim>\<open>CanIf.c\<close>, \<^verbatim>\<open>CanIf_Cbk.c\<close>.
    \<open>AnchorComTp\<close>: the queues, requests and transport callbacks of \<^verbatim>\<open>rbdAnchorComTp.c\<close>. \<open>CanNm\<close>: \<^verbatim>\<open>CanNm.c\<close>.
    \<open>SpiBridge\<close>: \<^verbatim>\<open>hw/ssi/stm32f2xx_spi.c\<close> and its header.
  \<^item> \<open>AnchorSecure\<close>: the protection of anchor messages in \<^verbatim>\<open>rbdAnchorComTp.c\<close> (formatting, encryption, CMAC, the transmit and
    receive stages, both cyclic functions) for the three builds, and \<^verbatim>\<open>rbdAnchorCom.c\<close>. \<open>AnchorCyclic\<close>: its safety and
    progress. \<open>AnchorRound\<close>: a message through protection and back.
  \<^item> \<open>UdsCore\<close>: the diagnostic core \<^verbatim>\<open>rbUds_Core.c\<close> (service table, dispatch, services, pending requests, session timer).
    \<open>UdsProps\<close>: its invariant, its answers and the end of pending requests.
  \<^item> \<open>ImcTp\<close>: the transport protocol between the chips of a node, \<^verbatim>\<open>rbdImc_PduRTp.c\<close>, above the router of \<open>PduR\<close>. \<open>ImcLink\<close>: the protocol over many
    packets, proved against the interfaces \<open>imc_source\<close> and \<open>imc_sink\<close>. \<open>ImcStation\<close>: these interfaces on \<open>AnchorComTp\<close> and \<open>PduR\<close>, and a message from chip to chip.
    \<open>ImcSafe\<close>: what holds for every sequence of calls and packets. \<open>Imc\<close>: \<^verbatim>\<open>rbdImc.c\<close>, \<^verbatim>\<open>rbdImc_PduR.c\<close>, \<^verbatim>\<open>rbdImc_Ping.c\<close>, \<^verbatim>\<open>rbdImcRte.c\<close>.
  \<^item> \<open>TxAncStatus\<close>: the cyclic status message of an anchor, \<^verbatim>\<open>rbdTxAncStatus.c\<close>, above \<open>CanNm\<close> and \<open>PduR\<close>.
  \<^item> \<open>XlDriver\<close>: how the host tool \<^verbatim>\<open>xlSPICAN.c\<close> drives the CAN hardware (start-up, channels, sending, burst thread, key commands). \<open>XlGateway\<close>: its gateway loop, which
    puts the frames forwarded by the controller of \<open>SpiBridge\<close> on the bus, and those of \<^verbatim>\<open>xlUartCanDemo.c\<close> and \<^verbatim>\<open>xlTCANdemo.c\<close>. \<open>XlVmcal\<close>: \<^verbatim>\<open>customCANdemo.c\<close>.
  \<^item> \<open>CanSpi\<close>: the supervision of the CAN controller above \<open>CanIf\<close>, \<^verbatim>\<open>CanSpi.c\<close>: initialisation, health check, reset and fast sleep as one thread, its registers over SPI,
    and when it keeps the processor awake between the phases of the thread.
  \<^item> \<open>TcanSpi\<close>, \<open>TcanMcan\<close>, \<open>TcanCan\<close>: the CAN driver below \<open>CanIf\<close>: \<^verbatim>\<open>Can_44_TCAN4x5x.c\<close>, \<^verbatim>\<open>Can_44_TCAN4x5x_MCan.c\<close> and \<^verbatim>\<open>Can_44_TCAN4x5x_Irq.c\<close>, as
    functions on the driver's state, or on CanIf's state with the driver's in \<open>ci_ext\<close> where they call CanIf. A working controller is the predicate \<open>tcan_ok\<close> of \<open>TcanDevice\<close>
    (registers that can be read and written over SPI), with a concrete one in \<open>TcanDemo\<close>. \<open>TcanFrame\<close>: the bits of transmit and receive elements. \<open>TcanProps\<close>, \<open>TcanLink\<close>: write
    requests, and that a frame arrives at the other node's CanIf. \<open>TcanModes\<close>: what driver and CanIf think of the modes, also when the supervision of \<^verbatim>\<open>CanSpi.c\<close> resets the controller, nested disabling of interrupts, and a line that does not work. \<open>TcanIcom\<close>: pretended networking.
    The loop over retries is \<open>while_option\<close>, because it does not always end; the loop over receive buffers ends because each turn clears a bit.
  \<^item> \<open>Stack\<close>: the components linked with each other; it interprets the interfaces of the protocol theories on the definitions of
    \<open>AnchorComTp\<close>, \<open>PduR\<close> and \<open>CanIf\<close>. \<open>Stations\<close>: whole stations, and the concrete station of the witnesses.

  \<^bold>\<open>What the lemmas show.\<close> The three properties below follow a message through all layers of a sending and of a receiving
  station. The properties of \<open>CanTp_Props\<close> say that channels keep apart, that waiting ends after
  its limit, which requests and frames are refused and how, and that the optimised counts and tables
  are what they stand for; four of them describe defects. Each other component has the functional behaviour of its
  operations, an invariant or a refinement of an abstract machine, and its boundary cases.

  \<^bold>\<open>Modelling decisions.\<close>
  \<^item> An unsigned C value is a natural number; arithmetic is done on integers and narrowed where the code stores or
    casts, with the width written out. \<open>CanIf\<close>, the CAN driver, \<open>CanNm\<close> and \<open>SpiBridge\<close> use words for their bit fields. The widths of \<^verbatim>\<open>PduLengthType\<close>
    and \<^verbatim>\<open>TickType\<close>, which the repository does not contain, are parameters.
  \<^item> Callees outside the repository or above and below a module are fields of its system record, functions on the state
    of the rest of the world. They do not call back into the module before they return. Exclusive areas make each
    operation one atomic step.
  \<^item> Compile switches are boolean fields, so a property covers every build that satisfies its hypotheses. \<^verbatim>\<open>CANTP_CYCLE_COUNTER\<close>
    is on. \<open>AnchorComTp\<close> is the CC26xx build, without test mode and XCP; \<open>AnchorSecure\<close> has the build as a parameter;
    that the NCJ29D5 build does not wait for the confirmation of its last copied bytes is not modelled. The cast of an accepted N-SDU identifier to
    \<^verbatim>\<open>CanTp_SduIdType\<close> in \<^verbatim>\<open>CanTp_Transmit\<close> is left out: the width of that type is configured to hold every identifier.
  \<^item> Error and service identifiers whose numbers are in absent headers are datatypes. An uninitialised stack buffer is a
    parameter. A null configuration pointer or an overrun buffer is a value of an option type.
  \<^item> All definitions are total and executable; the loops are structural recursion or have a termination proof, so there is
    no fuel; only the SPI retries of the CAN driver can run for ever and are an option. Bounds in the hypotheses (4095 or 65535 bytes for a message, 16-bit lengths) are those of the code.
  \<^item> The stations of the end-to-end properties: steps happen \<open>d\<close> ticks apart with \<open>d\<close> below the time limits, the
    peer grants blocks of constant size, burst mode is off and the driver takes every frame. The properties of
    \<open>CanTp_Props\<close> do not make these assumptions.

  \<^bold>\<open>Not modelled.\<close> The asynchronous crypto call-backs of \<^verbatim>\<open>rbdAnchorComTp.c\<close> do not compile, and its test mode and IMC broadcast
  are switched off. The threads of \<^verbatim>\<open>CanSpi.c\<close> rest on \<^verbatim>\<open>pt.h\<close>, which is not in the repository. Of
  the driver \<^verbatim>\<open>Can_44_TCAN4x5x\<close>, trigger transmit needs a function that CanIf does not have and is switched off, as are loop-back and the code of the
  vendor's test environment; its controller and the SPI driver are parameters. Of the host tools, what only prints (receive threads, help) and the vendor sample \<^verbatim>\<open>xlCANdemo.c\<close> are left out, and the TCP connection is a parameter. QEMU is third-party code except for the SPI controller.
\<close>

section \<open>A message from station to station\<close>

text \<open>
  C1. End to end. Station A's application has a message in its transmit buffer and station B listens. The
  request at A is accepted; after one turn per frame A's transport channel is idle, its application
  has been told of the success, and A's CAN driver has taken exactly the frames of the message. When
  these frames reach B one by one (B answers with flow control as the protocol asks), B's channel is
  idle again, its application has the message, byte for byte, in the receive buffer of the channel,
  and one more entry in its receive queue.
\<close>

theorem station_end_to_end:
  assumes A: "SA = full_sys DA RA CSA SA0" "build_ok SA dl d" "tx_station SA cfgA PA t adrA dl bs st d a"
      "connA = TxSdu cfgA t" "anc_tx_station CA DA RA CSA logA (tx_PduRPduHandleId connA) (tx_TxPduId connA) chA oeA xs (ext a)"
    and B: "SB = full_sys DB RB CSB SB0" "build_ok SB dl d" "rx_station SB cfgB PB r (tx_adr cfgA t) d b"
      "connB = RxSdu cfgB r" "anc_rx_station CB DB RB CSB logB (rx_PduRPduHandleId connB) (rx_TxPduId connB) chB oeB (ext b)"
    and agree: "CANTP_CANFD_SUPPORT SA = CANTP_CANFD_SUPPORT SB" "CANTP_PADDING_BYTE SA = CANTP_PADDING_BYTE SB"
      "CanTp_Prv_GetBit (tx_BitFields connA) CANTP_PADDINGON = CanTp_Prv_GetBit (rx_BitFields connB) CANTP_PADDINGON"
    and len: "0 < length xs" "length xs \<le> tx_len_max dl" "length xs \<le> anc_cap CB"
      "RBDANCHORCOM_TP_MIN_RX_DATA_LEN CB \<le> RBDANCHORCOM_CHANID_LEN CB + length xs"
    and req: "(res, a1) = CanTp_Transmit SA t (Some \<lparr>SduDataPtr = m, SduLength = length xs\<rparr>) a"
    and run: "a' = (tx_turn SA PA (tx_ChannelId connA) (tx_TxConfirmationId connA) d (fc_bytes SA (tx_BitFields connA) adrA CANTP_FC_CTS bs st)
               ^^ length (tx_frames SA (tx_BitFields connA) (tx_adr cfgA t) dl xs)) a1"
    and sent: "fs = drop (length (logA (ext_rest (ext a)))) (logA (ext_rest (ext a')))"
    and rcv: "b' = fold (rx_frame SB PB (rx_ChannelId connB) (rx_TxConfirmationId connB) d) fs b"
  shows "res = E_OK \<and> CanTp_SubState a' (tx_ChannelId connA) = CANTP_IDLE \<and> anc_sent chA oeA (ext_anchor (ext a')) \<and>
     CanTp_SubState b' (rx_ChannelId connB) = CANTP_IDLE \<and> anc_has CB chB oeB xs (ext_anchor (ext b)) (ext_anchor (ext b'))"
proof -
  note tx = stack_sent [OF A len(1,2) req refl run]
  then have "fs = tx_frames SA (tx_BitFields connA) (tx_adr cfgA t) dl xs" using sent by simp
  also have "\<dots> = tx_frames SB (rx_BitFields connB) (tx_adr cfgA t) dl xs" by (rule tx_frames_cong [OF agree])
  finally show ?thesis using tx stack_received [OF B len, of b'] rcv by simp
qed

theorem station_end_to_end_witness:
  "anc_sent 0 1 (ext_anchor (ext st_tx_done)) \<and>
   anc_has anc_demo_cfg 0 1 st_msg (ext_anchor (ext st_rx)) (ext_anchor (ext (fold (rx_frame st_sys 0 1 1 1) (ci_ext (ext_rest (ext st_tx_done))) st_rx)))"
  using station_end_to_end [OF st_sys_def st_build st_tx_station refl _ st_sys_def st_build _ refl _ refl refl _ st_msg_len prod.collapse refl refl refl,
      of anc_demo_cfg ci_ext 0 1 st_cfg 0 0 st_rx ci_ext 0 1] st_anc_tx st_anc_rx st_rx_station
  by (simp add: st_ids st_tx_done_def st_log)

text \<open>
  C2. Reception. The frames of a message, single or segmented into any number of blocks, received by an idle
  connection whose application has room, leave the message in the application's receive buffer and
  receive queue, and the channel idle.
\<close>

theorem station_receives:
  assumes "S = full_sys D R CS S0" "build_ok S dl d" "rx_station S cfg P r adr d s" "conn = RxSdu cfg r"
    and "anc_rx_station C D R CS log (rx_PduRPduHandleId conn) (rx_TxPduId conn) ch oe (ext s)"
    and "0 < length xs" "length xs \<le> tx_len_max dl" "length xs \<le> anc_cap C" "RBDANCHORCOM_TP_MIN_RX_DATA_LEN C \<le> RBDANCHORCOM_CHANID_LEN C + length xs"
    and "s' = fold (rx_frame S P (rx_ChannelId conn) (rx_TxConfirmationId conn) d) (tx_frames S (rx_BitFields conn) adr dl xs) s"
  shows "CanTp_SubState s' (rx_ChannelId conn) = CANTP_IDLE \<and> anc_has C ch oe xs (ext_anchor (ext s)) (ext_anchor (ext s'))"
  by (rule stack_received [OF assms])

theorem station_receives_witness:
  "anc_has anc_demo_cfg 0 1 [7, 8, 9] (ext_anchor (ext st_rx)) (ext_anchor (ext (rx_frame st_sys 0 1 1 1 [3, 7, 8, 9, 204, 204, 204, 204] st_rx)))"
proof -
  have fs: "tx_frames st_sys 8 [] 8 [7, 8, 9] = [[3, 7, 8, 9, 204, 204, 204, 204]]"
    by (simp add: tx_frames_def first_bytes_def first_len_def pci_for_def frame_bytes_def sf_pci_def padded_len_def CanTp_Prv_GetBit_def
        CanTp_PciSize_def CanTp_Prv_GetCanDl_def st_sys_fields numeral_eq_Suc)
  have len: "0 < length [7, 8, 9::nat]" "length [7, 8, 9::nat] \<le> tx_len_max 8" "length [7, 8, 9::nat] \<le> anc_cap anc_demo_cfg"
    "RBDANCHORCOM_TP_MIN_RX_DATA_LEN anc_demo_cfg \<le> RBDANCHORCOM_CHANID_LEN anc_demo_cfg + length [7, 8, 9::nat]"
    by (simp_all add: tx_len_max_def anc_cap_def anc_demo_cfg_def)
  show ?thesis using station_receives [OF st_sys_def st_build st_rx_station refl _ len refl, of ci_ext 0 1] st_anc_rx by (simp add: st_ids fs)
qed

text \<open>
  C3. Transmission. A request for a message that the application holds is accepted by an idle connection, and
  after one turn per frame the CAN driver has taken exactly the frames of the message (single frame, or
  first frame and consecutive frames with counting sequence numbers), the channel is idle and the
  application has been told of the success.
\<close>

theorem station_sends:
  assumes "S = full_sys D R CS S0" "build_ok S dl d" "tx_station S cfg P t adr dl bs st d s" "conn = TxSdu cfg t"
    and "anc_tx_station C D R CS log (tx_PduRPduHandleId conn) (tx_TxPduId conn) ch oe xs (ext s)"
    and "0 < length xs" "length xs \<le> tx_len_max dl"
    and "(res, s1) = CanTp_Transmit S t (Some \<lparr>SduDataPtr = m, SduLength = length xs\<rparr>) s"
    and "fs = tx_frames S (tx_BitFields conn) (tx_adr cfg t) dl xs"
    and "s' = (tx_turn S P (tx_ChannelId conn) (tx_TxConfirmationId conn) d (fc_bytes S (tx_BitFields conn) adr CANTP_FC_CTS bs st) ^^ length fs) s1"
  shows "res = E_OK \<and> CanTp_SubState s' (tx_ChannelId conn) = CANTP_IDLE \<and> log (ext_rest (ext s')) = log (ext_rest (ext s)) @ fs \<and>
     anc_sent ch oe (ext_anchor (ext s'))"
  by (rule stack_sent [OF assms])

theorem station_sends_witness:
  "ci_ext (ext_rest (ext st_tx_done)) = tx_frames st_sys 8 [] 8 st_msg \<and> CanTp_SubState st_tx_done 0 = CANTP_IDLE"
  using station_sends [OF st_sys_def st_build st_tx_station refl _ st_msg_len(1,2) prod.collapse refl refl, of anc_demo_cfg ci_ext 0 1] st_anc_tx
  by (simp add: st_ids st_tx_done_def st_log)

end
